(* ===== verification/Prelude.thy ===== *)
theory Prelude
  imports Main "HOL-Library.Word"
begin

text \<open>
  Shared layer of the development: the widths of the C integer types, byte memory with
  little-endian loads and stores, the page-rounding macros of
  \<^verbatim>\<open>src/reference/shiva-source/shiva.h\<close>, the C string functions that the sources call,
  number printing, and the generic search loop over an iterator together with the locale that
  states what an iterator promises.
\<close>

unbundle bit_operations_syntax

section \<open>Types and theorem collections\<close>

type_synonym u8 = "8 word"
type_synonym u16 = "16 word"
type_synonym u32 = "32 word"
type_synonym u64 = "64 word"

text \<open>The process address space: one byte per 64-bit address.\<close>

type_synonym mem = "u64 \<Rightarrow> u8"

named_theorems mem_simps \<open>loads from memory after stores\<close>
named_theorems page_simps \<open>page rounding as arithmetic on natural numbers\<close>
named_theorems cstr_simps \<open>C string functions\<close>

section \<open>Byte memory\<close>

definition in_region :: "u64 \<Rightarrow> nat \<Rightarrow> u64 \<Rightarrow> bool" where
  "in_region a n x \<longleftrightarrow> unat (x - a) < n"

text \<open>\<open>memcpy\<close> of a byte list to an address; addresses wrap as in the machine.\<close>

definition write_bytes :: "mem \<Rightarrow> u64 \<Rightarrow> u8 list \<Rightarrow> mem" where
  "write_bytes m a bs = (\<lambda>x. if in_region a (length bs) x then bs ! unat (x - a) else m x)"

definition read_bytes :: "mem \<Rightarrow> u64 \<Rightarrow> nat \<Rightarrow> u8 list" where
  "read_bytes m a n = map (\<lambda>i. m (a + of_nat i)) [0..<n]"

text \<open>\<open>memset(a, 0, n)\<close>, which is also what an anonymous \<open>mmap\<close> leaves behind.\<close>

definition zero_bytes :: "mem \<Rightarrow> u64 \<Rightarrow> nat \<Rightarrow> mem" where
  "zero_bytes m a n = (\<lambda>x. if in_region a n x then 0 else m x)"

text \<open>Little-endian images of machine integers.\<close>

fun le_bytes :: "nat \<Rightarrow> 'a::len word \<Rightarrow> u8 list" where
  "le_bytes 0 w = []"
| "le_bytes (Suc n) w = ucast w # le_bytes n (drop_bit 8 w)"

fun le_val :: "u8 list \<Rightarrow> 'a::len word" where
  "le_val [] = 0"
| "le_val (b # bs) = ucast b OR push_bit 8 (le_val bs)"

definition store64 :: "mem \<Rightarrow> u64 \<Rightarrow> u64 \<Rightarrow> mem" where
  "store64 m a v = write_bytes m a (le_bytes 8 v)"

definition store32 :: "mem \<Rightarrow> u64 \<Rightarrow> u32 \<Rightarrow> mem" where
  "store32 m a v = write_bytes m a (le_bytes 4 v)"

definition load64 :: "mem \<Rightarrow> u64 \<Rightarrow> u64" where
  "load64 m a = le_val (read_bytes m a 8)"

definition load32 :: "mem \<Rightarrow> u64 \<Rightarrow> u32" where
  "load32 m a = le_val (read_bytes m a 4)"

text \<open>Two regions of the address space that share no byte.\<close>

definition separate :: "u64 \<Rightarrow> nat \<Rightarrow> u64 \<Rightarrow> nat \<Rightarrow> bool" where
  "separate a n b k \<longleftrightarrow> (\<forall>x. \<not> (in_region a n x \<and> in_region b k x))"

lemma length_le_bytes [simp]: "length (le_bytes n w) = n"
  by (induction n arbitrary: w) auto

lemma length_read_bytes [simp]: "length (read_bytes m a n) = n"
  by (simp add: read_bytes_def)

lemma nth_read_bytes [simp]: "i < n \<Longrightarrow> read_bytes m a n ! i = m (a + of_nat i)"
  by (simp add: read_bytes_def)

lemma write_bytes_outside [mem_simps]:
  "\<not> in_region a (length bs) x \<Longrightarrow> write_bytes m a bs x = m x"
  by (simp add: write_bytes_def)

lemma write_bytes_Nil [simp]: "write_bytes m a [] = m"
  by (simp add: write_bytes_def in_region_def)

lemma in_region_offset [simp]:
  "i < 2 ^ 64 \<Longrightarrow> in_region a n (a + of_nat i) \<longleftrightarrow> i < n"
  by (simp add: in_region_def unat_of_nat take_bit_nat_eq_self)

lemma write_bytes_inside [mem_simps]:
  "i < length bs \<Longrightarrow> i < 2 ^ 64 \<Longrightarrow> write_bytes m a bs (a + of_nat i) = bs ! i"
  by (simp add: write_bytes_def unat_of_nat take_bit_nat_eq_self)

lemma read_write_bytes [mem_simps]:
  assumes "length bs \<le> 2 ^ 64" and "n = length bs"
  shows "read_bytes (write_bytes m a bs) a n = bs"
  using assms by (intro nth_equalityI) (auto simp: mem_simps)

lemma read_bytes_cong:
  assumes "\<And>i. i < n \<Longrightarrow> m (a + of_nat i) = m' (a + of_nat i)"
  shows "read_bytes m a n = read_bytes m' a n"
  using assms by (simp add: read_bytes_def)

lemma read_write_separate [mem_simps]:
  assumes "separate a (length bs) b n" and "n \<le> 2 ^ 64"
  shows "read_bytes (write_bytes m a bs) b n = read_bytes m b n"
proof (rule read_bytes_cong)
  fix i assume "i < n"
  with assms(2) have "in_region b n (b + of_nat i)" by simp
  with assms(1) have "\<not> in_region a (length bs) (b + of_nat i)"
    by (auto simp: separate_def)
  then show "write_bytes m a bs (b + of_nat i) = m (b + of_nat i)"
    by (rule write_bytes_outside)
qed

lemma write_bytes_same: "read_bytes m a (length bs) = bs \<Longrightarrow> length bs \<le> 2 ^ 64 \<Longrightarrow> write_bytes m a bs = m"
proof (rule ext)
  fix x assume r: "read_bytes m a (length bs) = bs" and l: "length bs \<le> 2 ^ 64"
  show "write_bytes m a bs x = m x"
  proof (cases "in_region a (length bs) x")
    case True
    then have "bs ! unat (x - a) = read_bytes m a (length bs) ! unat (x - a)"
      by (simp add: r)
    also have "\<dots> = m x"
      using True by (simp add: in_region_def)
    finally show ?thesis using True by (simp add: write_bytes_def)
  qed (simp add: mem_simps)
qed

text \<open>Writing over the same region twice keeps the second write only.\<close>

lemma write_bytes_overwrite [mem_simps]:
  "length bs = length cs \<Longrightarrow> write_bytes (write_bytes m a bs) a cs = write_bytes m a cs"
  by (auto simp: write_bytes_def fun_eq_iff)

lemma le_val_bytes:
  "le_val (le_bytes n w) = take_bit (8 * n) (w :: 'a::len word)"
proof (induction n arbitrary: w)
  case 0
  then show ?case by simp
next
  case (Suc n)
  have "le_val (le_bytes (Suc n) w) =
      (ucast (ucast w :: u8) :: 'a word) OR push_bit 8 (take_bit (8 * n) (drop_bit 8 w))"
    by (simp add: Suc.IH)
  also have "\<dots> = take_bit (8 * Suc n) w"
    by (rule bit_word_eqI) (auto simp: bit_simps)
  finally show ?case .
qed

lemma le_val_bytes8 [simp]: "le_val (le_bytes 8 w) = (w :: u64)"
  by (simp add: le_val_bytes take_bit_word_eq_self del: le_bytes.simps)

lemma le_val_bytes4 [simp]: "le_val (le_bytes 4 w) = (w :: u32)"
  by (simp add: le_val_bytes take_bit_word_eq_self del: le_bytes.simps)

text \<open>Loads after stores, the form in which the components use the memory.\<close>

lemma load64_store64 [mem_simps]: "load64 (store64 m a v) a = v"
  by (simp add: load64_def store64_def read_write_bytes del: le_bytes.simps)

lemma load32_store32 [mem_simps]: "load32 (store32 m a v) a = v"
  by (simp add: load32_def store32_def read_write_bytes del: le_bytes.simps)

lemma load64_store64_separate [mem_simps]:
  "separate a 8 b 8 \<Longrightarrow> load64 (store64 m a v) b = load64 m b"
  by (simp add: load64_def store64_def read_write_separate)

lemma load64_store32_separate [mem_simps]:
  "separate a 4 b 8 \<Longrightarrow> load64 (store32 m a v) b = load64 m b"
  by (simp add: load64_def store32_def read_write_separate)

lemma store64_outside [mem_simps]: "\<not> in_region a 8 x \<Longrightarrow> store64 m a v x = m x"
  by (simp add: store64_def write_bytes_outside)

lemma store32_outside [mem_simps]: "\<not> in_region a 4 x \<Longrightarrow> store32 m a v x = m x"
  by (simp add: store32_def write_bytes_outside)

text \<open>A region inside another one, and regions of one segment at different offsets.\<close>

lemma in_region_sub:
  assumes "in_region (a + o1) n x" and "unat o1 + n \<le> k" and "k \<le> 2 ^ 64"
  shows "in_region a k x"
proof -
  have "x - a = (x - (a + o1)) + o1" by simp
  then have "unat (x - a) \<le> unat (x - (a + o1)) + unat o1"
    by (simp only: unat_plus_if' split: if_split) simp
  with assms show ?thesis by (simp add: in_region_def)
qed

lemma separate_offsets:
  assumes "unat o1 + n \<le> unat o2" and "unat o2 + k \<le> 2 ^ 64"
  shows "separate (a + o1) n (a + o2) k"
proof -
  have False if "in_region (a + o1) n x" and "in_region (a + o2) k x" for x
  proof -
    define y where "y = x - a"
    have x1: "unat (y - o1) < n" and x2: "unat (y - o2) < k"
      using that by (simp_all add: in_region_def y_def algebra_simps)
    from x1 x2 assms show False
      by (simp add: unat_sub_if' split: if_splits)
  qed
  then show ?thesis by (auto simp: separate_def)
qed

lemma in_region_iff_ex: "n \<le> 2 ^ 64 \<Longrightarrow> in_region a n x \<longleftrightarrow> (\<exists>i < n. x = a + of_nat i)"
proof
  assume "in_region a n x"
  then show "\<exists>i < n. x = a + of_nat i" by (intro exI [of _ "unat (x - a)"]) (simp add: in_region_def)
qed auto

lemma separate_mono:
  assumes "separate a n b k" and "\<And>x. in_region a' n' x \<Longrightarrow> in_region a n x"
    and "\<And>x. in_region b' k' x \<Longrightarrow> in_region b k x"
  shows "separate a' n' b' k'"
  using assms by (auto simp: separate_def)

lemma write_bytes_at:
  assumes "z < 2 ^ 64" and "x + length bs \<le> 2 ^ 64"
  shows "write_bytes m (b + of_nat x) bs (b + of_nat z) =
           (if x \<le> z \<and> z < x + length bs then bs ! (z - x) else m (b + of_nat z))"
proof (cases "bs = []")
  case False
  with assms have x: "x < 2 ^ 64" by (cases bs) auto
  have u: "unat (of_nat z - of_nat x :: u64) = (if x \<le> z then z - x else z + 2 ^ 64 - x)"
    using assms(1) x
    by (simp add: unat_sub_if' unat_of_nat take_bit_nat_eq_self)
  show ?thesis using assms x by (auto simp: write_bytes_def in_region_def u)
qed auto

text \<open>Consecutive writes.\<close>

lemma write_bytes_append:
  assumes "length bs + length cs \<le> 2 ^ 64"
  shows "write_bytes (write_bytes m a bs) (a + of_nat (length bs)) cs = write_bytes m a (bs @ cs)"
proof (rule ext)
  fix x
  let ?n = "length bs" and ?k = "unat (x - a)"
  show "write_bytes (write_bytes m a bs) (a + of_nat ?n) cs x = write_bytes m a (bs @ cs) x"
  proof (cases "cs = []")
    case False
    with assms have n: "unat (of_nat ?n :: u64) = ?n"
      by (cases cs) (simp_all add: unat_of_nat take_bit_nat_eq_self)
    have d: "x - (a + of_nat ?n) = (x - a) - of_nat ?n" by simp
    have k: "?k < 2 ^ 64" using unsigned_less [of "x - a"] by simp
    have "unat (x - (a + of_nat ?n)) = (if ?n \<le> ?k then ?k - ?n else ?k + 2 ^ 64 - ?n)"
      unfolding d unat_sub_if' n by simp
    with assms k show ?thesis by (auto simp: write_bytes_def in_region_def nth_append)
  qed simp
qed

lemma write_bytes_single: "write_bytes m a [b] = m(a := b)"
  by (auto simp: write_bytes_def in_region_def fun_eq_iff unat_eq_zero)

lemma write_bytes_Cons: "length bs < 2 ^ 64 \<Longrightarrow> write_bytes (m(a := b)) (a + 1) bs = write_bytes m a (b # bs)"
  using write_bytes_append [of "[b]" bs m a] by (simp add: write_bytes_single)

section \<open>Page rounding (shiva.h)\<close>

definition PAGE_SIZE :: u64 where
  "PAGE_SIZE = 4096"

definition ELF_PAGESTART :: "u64 \<Rightarrow> u64" where
  "ELF_PAGESTART v = v AND NOT (4096 - 1)"

definition ELF_PAGEOFFSET :: "u64 \<Rightarrow> u64" where
  "ELF_PAGEOFFSET v = v AND (4096 - 1)"

definition ELF_PAGEALIGN :: "u64 \<Rightarrow> u64 \<Rightarrow> u64" where
  "ELF_PAGEALIGN v a = (v + a - 1) AND NOT (a - 1)"

lemma unat_and_mask12: "unat (v AND 4095 :: u64) = unat v mod 4096"
proof -
  have "(4095 :: u64) = mask 12" by (simp add: mask_eq_decr_exp)
  then have "unat (v AND 4095) = unat (take_bit 12 v)" by (simp only: take_bit_eq_mask)
  also have "\<dots> = take_bit 12 (unat v)" by (rule unsigned_take_bit_eq)
  finally show ?thesis by (simp add: take_bit_nat_def)
qed

lemma and_not_mask12: "v AND - 4096 = (v :: u64) - (v AND 4095)"
proof -
  have "v - (v AND 4095) = v AND NOT (v AND 4095)"
    by (rule disjunctive_diff_eq_and_not, rule bit_word_eqI) (simp add: bit_simps)
  also have "\<dots> = v AND NOT 4095"
    by (rule bit_word_eqI) (auto simp: bit_simps)
  finally show ?thesis by simp
qed

lemma unat_and_not_mask12: "unat (v AND - 4096 :: u64) = unat v - unat v mod 4096"
proof -
  have "v AND 4095 \<le> v" by (rule word_and_le2)
  then show ?thesis by (simp add: and_not_mask12 unat_sub unat_and_mask12)
qed

lemma unat_ELF_PAGEOFFSET [page_simps]: "unat (ELF_PAGEOFFSET v) = unat v mod 4096"
  by (simp add: ELF_PAGEOFFSET_def unat_and_mask12)

lemma unat_ELF_PAGESTART [page_simps]: "unat (ELF_PAGESTART v) = unat v - unat v mod 4096"
  by (simp add: ELF_PAGESTART_def unat_and_not_mask12)

lemma unat_ELF_PAGEALIGN [page_simps]:
  assumes "unat v + 4095 < 2 ^ 64"
  shows "unat (ELF_PAGEALIGN v 4096) = (unat v + 4095) div 4096 * 4096"
proof -
  have "unat (v + 4095) = unat v + 4095"
    using assms by (simp add: unat_word_ariths)
  then have "unat (ELF_PAGEALIGN v 4096) = unat v + 4095 - (unat v + 4095) mod 4096"
    by (simp add: ELF_PAGEALIGN_def unat_and_not_mask12 add_diff_eq [symmetric])
  then show ?thesis by (simp add: minus_mod_eq_div_mult)
qed

lemma roundup_bounds: "0 < (k::nat) \<Longrightarrow> n \<le> (n + (k - 1)) div k * k \<and> (n + (k - 1)) div k * k < n + k"
proof -
  assume k: "0 < k"
  define r where "r = (n + (k - 1)) mod k"
  have "r < k" using k by (simp add: r_def)
  moreover have "(n + (k - 1)) div k * k + r = n + (k - 1)"
    unfolding r_def by (rule div_mult_mod_eq)
  ultimately show ?thesis using k by linarith
qed

lemma ELF_PAGEALIGN_ge:
  "unat v + 4095 < 2 ^ 64 \<Longrightarrow> unat v \<le> unat (ELF_PAGEALIGN v 4096)"
  using roundup_bounds [of 4096 "unat v"] by (simp add: unat_ELF_PAGEALIGN)

lemma ELF_PAGEALIGN_lt:
  "unat v + 4095 < 2 ^ 64 \<Longrightarrow> unat (ELF_PAGEALIGN v 4096) < unat v + 4096"
  using roundup_bounds [of 4096 "unat v"] by (simp add: unat_ELF_PAGEALIGN)

section \<open>Thirty-two bit displacements\<close>

lemma scast_ucast32:
  assumes "- (2 ^ 31) \<le> sint (d :: u64)" and "sint d < 2 ^ 31"
  shows "scast (ucast d :: u32) = d"
proof -
  have "sint (ucast d :: u32) = signed_take_bit 31 (sint d)"
    by (simp add: sint_uint unsigned_ucast_eq signed_take_bit_take_bit take_bit_signed_take_bit)
      (metis signed_take_bit_take_bit)?
  also have "\<dots> = sint d" using assms by (intro signed_take_bit_int_eq_self) auto
  finally show ?thesis by (simp add: scast_eq)
qed

section \<open>Iterators\<close>

text \<open>
  The sources walk their lists through pairs of functions \<open>*_iterator_init\<close> and
  \<open>*_iterator_next\<close>. A call of \<open>next\<close> is modelled as \<open>None\<close> when it does not return
  the OK code, and as the entry with the advanced iterator otherwise. The two loops below are
  \<open>while (next(&it, &e) == OK) if (P(e)) return/break;\<close>: the first keeps the matching entry
  only, the second keeps what the local variable \<open>e\<close> holds after the loop (its previous
  content when no entry was read, the last entry when none matched).
\<close>

partial_function (option) iter_find ::
  "('it \<Rightarrow> ('e \<times> 'it) option) \<Rightarrow> ('e \<Rightarrow> bool) \<Rightarrow> 'it \<Rightarrow> 'e option option" where
  "iter_find nxt P it =
     (case nxt it of
        None \<Rightarrow> Some None
      | Some p \<Rightarrow> if P (fst p) then Some (Some (fst p)) else iter_find nxt P (snd p))"

partial_function (option) iter_scan ::
  "('it \<Rightarrow> ('e \<times> 'it) option) \<Rightarrow> ('e \<Rightarrow> bool) \<Rightarrow> 'e option \<Rightarrow> 'it \<Rightarrow> 'e option option" where
  "iter_scan nxt P cur it =
     (case nxt it of
        None \<Rightarrow> Some cur
      | Some p \<Rightarrow> if P (fst p) then Some (Some (fst p)) else iter_scan nxt P (Some (fst p)) (snd p))"

text \<open>The contract of an iterator: it yields the entries of a list, in order, and then stops.\<close>

locale list_iterator =
  fixes nxt :: "'it \<Rightarrow> ('e \<times> 'it) option"
    and items :: "'it \<Rightarrow> 'e list"
  assumes nxt_done: "items it = [] \<Longrightarrow> nxt it = None"
    and nxt_more: "items it = e # es \<Longrightarrow> \<exists>it'. nxt it = Some (e, it') \<and> items it' = es"
begin

lemma iter_find_items: "iter_find nxt P it = Some (find P (items it))"
proof (induction "items it" arbitrary: it)
  case Nil
  then show ?case by (simp add: iter_find.simps nxt_done)
next
  case (Cons e es)
  obtain it' where it': "nxt it = Some (e, it')" "items it' = es"
    using nxt_more [OF Cons.hyps(2) [symmetric]] by blast
  with Cons.hyps(1) [of it'] Cons.hyps(2) [symmetric] show ?case
    by (simp add: iter_find.simps [of nxt P it])
qed

lemma iter_scan_items:
  "iter_scan nxt P cur it =
     Some (case find P (items it) of
             Some e \<Rightarrow> Some e
           | None \<Rightarrow> if items it = [] then cur else Some (last (items it)))"
proof (induction "items it" arbitrary: it cur)
  case Nil
  then show ?case by (simp add: iter_scan.simps nxt_done)
next
  case (Cons e es)
  obtain it' where it': "nxt it = Some (e, it')" "items it' = es"
    using nxt_more [OF Cons.hyps(2) [symmetric]] by blast
  with Cons.hyps(1) [of it' "Some e"] Cons.hyps(2) [symmetric] show ?case
    by (simp add: iter_scan.simps [of nxt P cur it] split: option.splits)
qed

text \<open>The loop stops and the entry it stops at is the first one that matches.\<close>

lemma iter_find_first:
  assumes "iter_find nxt P it = Some (Some e)"
  shows "\<exists>pre post. items it = pre @ e # post \<and> P e \<and> (\<forall>x \<in> set pre. \<not> P x)"
proof -
  from assms have "find P (items it) = Some e" by (simp add: iter_find_items)
  then obtain i where i: "i < length (items it)" "P (items it ! i)" "e = items it ! i"
      "\<forall>j < i. \<not> P (items it ! j)"
    by (auto simp: find_Some_iff)
  then have "items it = take i (items it) @ e # drop (Suc i) (items it)"
    by (simp add: id_take_nth_drop)
  moreover have "\<forall>x \<in> set (take i (items it)). \<not> P x"
    using i by (auto simp: in_set_conv_nth)
  ultimately show ?thesis using i by blast
qed

end

end
