(* ===== verification/C_Lib.thy ===== *)
theory C_Lib
  imports Prelude
begin

text \<open>
  The C library functions the sources call on strings, over strings without their terminating
  NUL: searching (\<open>strchr\<close>, \<open>strrchr\<close>, \<open>strstr\<close>, a pointer being the suffix it points to),
  comparing (\<open>strncmp\<close>), reading numbers (\<open>strtoul\<close>, \<open>scanf\<close>), printing them (\<open>%lx\<close>, \<open>%ld\<close>) and
  reading a file line by line (\<open>fgets\<close>).
\<close>

section \<open>Searching and comparing\<close>

fun strchr :: "string \<Rightarrow> char \<Rightarrow> string option" where
  "strchr [] c = None"
| "strchr (x # xs) c = (if x = c then Some (x # xs) else strchr xs c)"

fun strrchr :: "string \<Rightarrow> char \<Rightarrow> string option" where
  "strrchr [] c = None"
| "strrchr (x # xs) c =
     (case strrchr xs c of
        Some r \<Rightarrow> Some r
      | None \<Rightarrow> if x = c then Some (x # xs) else None)"

fun strstr :: "string \<Rightarrow> string \<Rightarrow> string option" where
  "strstr [] n = (if n = [] then Some [] else None)"
| "strstr (x # xs) n = (if take (length n) (x # xs) = n then Some (x # xs) else strstr xs n)"

text \<open>\<open>strncmp(s, t, n) == 0\<close>.\<close>

definition strncmp_eq :: "nat \<Rightarrow> string \<Rightarrow> string \<Rightarrow> bool" where
  "strncmp_eq n s t \<longleftrightarrow> take n s = take n t"

text \<open>What is left of a buffer in front of a character that is overwritten with NUL.\<close>

definition cut_at :: "string \<Rightarrow> char \<Rightarrow> string" where
  "cut_at s c = takeWhile (\<lambda>x. x \<noteq> c) s"

lemma strchr_None_iff [cstr_simps]: "strchr s c = None \<longleftrightarrow> c \<notin> set s"
  by (induction s) auto

lemma strchr_split [cstr_simps]: "c \<notin> set a \<Longrightarrow> strchr (a @ c # b) c = Some (c # b)"
  by (induction a) auto

lemma cut_at_split [cstr_simps]: "c \<notin> set a \<Longrightarrow> cut_at (a @ c # b) c = a"
  by (induction a) (auto simp: cut_at_def)

lemma strrchr_None_iff [cstr_simps]: "strrchr s c = None \<longleftrightarrow> c \<notin> set s"
  by (induction s) (auto split: option.splits)

lemma strrchr_split [cstr_simps]: "c \<notin> set b \<Longrightarrow> strrchr (a @ c # b) c = Some (c # b)"
proof (induction a)
  case Nil
  then show ?case by (simp add: strrchr_None_iff [THEN iffD2])
qed simp

lemma strstr_Some_iff: "strstr s n \<noteq> None \<longleftrightarrow> (\<exists>a b. s = a @ n @ b)"
proof (induction s)
  case Nil
  then show ?case by simp
next
  case (Cons x xs)
  show ?case
  proof (cases "take (length n) (x # xs) = n")
    case True
    then have "x # xs = [] @ n @ drop (length n) (x # xs)"
      by (metis append_Nil append_take_drop_id)
    with True show ?thesis by (metis strstr.simps(2) option.distinct(1))
  next
    case False
    have "(\<exists>a b. x # xs = a @ n @ b) \<longleftrightarrow> (\<exists>a b. xs = a @ n @ b)"
    proof
      assume "\<exists>a b. x # xs = a @ n @ b"
      then obtain a b where ab: "x # xs = a @ n @ b" by blast
      with False have "a \<noteq> []" by auto
      with ab show "\<exists>a b. xs = a @ n @ b" by (cases a) auto
    next
      assume "\<exists>a b. xs = a @ n @ b"
      then show "\<exists>a b. x # xs = a @ n @ b" by (metis append_Cons)
    qed
    with False Cons show ?thesis by simp
  qed
qed

section \<open>Numbers\<close>

definition digit_val :: "nat \<Rightarrow> char \<Rightarrow> nat option" where
  "digit_val base c =
     (let n = of_char c :: nat;
          d = (if 48 \<le> n \<and> n \<le> 57 then n - 48
               else if 97 \<le> n \<and> n \<le> 122 then n - 87
               else if 65 \<le> n \<and> n \<le> 90 then n - 55 else 99)
      in if d < base then Some d else None)"

definition digit_char :: "nat \<Rightarrow> char" where
  "digit_char d = char_of (if d < 10 then 48 + d else 87 + d)"

fun show_base :: "nat \<Rightarrow> nat \<Rightarrow> string" where
  "show_base b n =
     (if b < 2 \<or> n < b then [digit_char n] else show_base b (n div b) @ [digit_char (n mod b)])"

declare show_base.simps [simp del]

definition isspace :: "char \<Rightarrow> bool" where
  "isspace c = (let n = of_char c :: nat in n = 32 \<or> 9 \<le> n \<and> n \<le> 13)"

fun strtoul_acc :: "nat \<Rightarrow> nat \<Rightarrow> string \<Rightarrow> nat" where
  "strtoul_acc b acc [] = acc"
| "strtoul_acc b acc (c # cs) =
     (case digit_val b c of None \<Rightarrow> acc | Some d \<Rightarrow> strtoul_acc b (acc * b + d) cs)"

fun has_0x :: "string \<Rightarrow> bool" where
  "has_0x (a # b # c # cs) =
     (a = CHR ''0'' \<and> (b = CHR ''x'' \<or> b = CHR ''X'') \<and> digit_val 16 c \<noteq> None)"
| "has_0x _ = False"

fun strtoul_sign :: "string \<Rightarrow> bool \<times> string" where
  "strtoul_sign [] = (False, [])"
| "strtoul_sign (c # cs) =
     (if c = CHR ''-'' then (True, cs) else if c = CHR ''+'' then (False, cs) else (False, c # cs))"

text \<open>\<open>strtoul(s, NULL, base)\<close>: the value saturates at \<open>ULONG_MAX\<close>.\<close>

definition strtoul :: "nat \<Rightarrow> string \<Rightarrow> u64" where
  "strtoul base s =
     (let (neg, s2) = strtoul_sign (dropWhile isspace s);
          s3 = (if base = 16 \<and> has_0x s2 then drop 2 s2 else s2);
          v = strtoul_acc base 0 s3
      in if 2 ^ 64 \<le> v then - 1 else if neg then - of_nat v else of_nat v)"

lemma of_char_digit_char:
  "d < 16 \<Longrightarrow> (of_char (digit_char d) :: nat) = (if d < 10 then 48 + d else 87 + d)"
  by (auto simp: digit_char_def)

lemma digit_val_digit_char [simp]: "d < b \<Longrightarrow> b \<le> 16 \<Longrightarrow> digit_val b (digit_char d) = Some d"
  by (auto simp: digit_val_def of_char_digit_char Let_def)

lemma strtoul_acc_show_base:
  assumes "2 \<le> b" and "b \<le> 16"
  shows "strtoul_acc b a (show_base b n @ rest) =
           strtoul_acc b (a * b ^ length (show_base b n) + n) rest"
  using assms
proof (induction b n arbitrary: rest rule: show_base.induct)
  case (1 b n)
  show ?case
  proof (cases "n < b")
    case True
    with 1 show ?thesis by (simp add: show_base.simps [of b n])
  next
    case False
    with 1 have "n mod b < b" by simp
    moreover have "(a * b ^ length (show_base b (n div b)) + n div b) * b + n mod b =
        a * b ^ Suc (length (show_base b (n div b))) + n"
      by (simp add: algebra_simps)
    ultimately show ?thesis
      using 1 False by (simp add: show_base.simps [of b n])
  qed
qed

lemma show_base_digits:
  assumes "c \<in> set (show_base b n)" and "2 \<le> b" and "b \<le> 16"
  shows "\<exists>d < b. c = digit_char d"
  using assms
proof (induction b n rule: show_base.induct)
  case (1 b n)
  show ?case
  proof (cases "n < b")
    case True
    with 1 show ?thesis by (auto simp: show_base.simps [of b n])
  next
    case False
    with 1 have "c = digit_char (n mod b) \<or> c \<in> set (show_base b (n div b))"
      by (auto simp: show_base.simps [of b n])
    moreover have "n mod b < b" using 1 by simp
    ultimately show ?thesis
    proof (elim disjE)
      assume "c \<in> set (show_base b (n div b))"
      then show ?thesis using 1 False by simp
    qed blast
  qed
qed

lemma show_base_not_Nil [simp]: "show_base b n \<noteq> []"
  by (subst show_base.simps) simp

lemma digit_char_props:
  assumes "d < 16"
  shows "\<not> isspace (digit_char d)" and "digit_char d \<noteq> CHR ''-''"
    and "digit_char d \<noteq> CHR ''+''" and "digit_char d \<noteq> CHR ''x''"
    and "digit_char d \<noteq> CHR ''X''" and "digit_char d \<noteq> CHR '' ''"
    and "digit_char d \<noteq> CHR ''/''" and "digit_char d \<noteq> CHR ''[''"
proof -
  have n: "(of_char (digit_char d) :: nat) = (if d < 10 then 48 + d else 87 + d)"
    using assms by (rule of_char_digit_char)
  show "\<not> isspace (digit_char d)" by (simp add: isspace_def n)
  have neq: "digit_char d \<noteq> c" if "of_char c \<notin> {48..57} \<union> {97..102::nat}" for c
    using that n assms by (auto split: if_splits)
  show "digit_char d \<noteq> CHR ''-''" "digit_char d \<noteq> CHR ''+''" "digit_char d \<noteq> CHR ''x''"
    "digit_char d \<noteq> CHR ''X''" "digit_char d \<noteq> CHR '' ''"
    "digit_char d \<noteq> CHR ''/''" "digit_char d \<noteq> CHR ''[''"
    by (rule neq, simp)+
qed

text \<open>Reading back what \<open>%lx\<close> printed, with leading zeros or without, up to a character that is no digit.\<close>

definition hex_digits :: "string \<Rightarrow> bool" where
  "hex_digits w \<longleftrightarrow> (\<forall>c \<in> set w. \<exists>d < 16. c = digit_char d)"

lemma hex_digits_show: "hex_digits (show_base 16 n)"
  using show_base_digits [of _ 16 n] by (auto simp: hex_digits_def)

lemma hex_digits_zeros: "hex_digits w \<Longrightarrow> hex_digits (replicate k (CHR ''0'') @ w)"
proof -
  have "\<exists>d < 16. CHR ''0'' = digit_char d" by (rule exI [of _ 0]) code_simp
  then show "hex_digits w \<Longrightarrow> hex_digits (replicate k (CHR ''0'') @ w)" by (simp add: hex_digits_def ball_Un set_replicate_conv_if)
qed

lemma strtoul_acc_zeros: "strtoul_acc 16 0 (replicate k (CHR ''0'') @ s) = strtoul_acc 16 0 s"
  by (induction k) (auto simp: digit_val_def)

lemma strtoul_digits:
  assumes "hex_digits w" and "w \<noteq> []"
    and r: "rest = [] \<or> digit_val 16 (hd rest) = None \<and> hd rest \<noteq> CHR ''x'' \<and> hd rest \<noteq> CHR ''X''"
    and n: "strtoul_acc 16 0 (w @ rest) = n" "n < 2 ^ 64"
  shows "strtoul 16 (w @ rest) = of_nat n"
proof -
  obtain c cs where s: "w = c # cs" using assms(2) by (cases w) auto
  have digs: "\<exists>d < 16. x = digit_char d" if "x \<in> set w" for x
    using assms(1) that by (simp add: hex_digits_def ball_Un set_replicate_conv_if)
  from digs [of c] s obtain d where d: "d < 16" "c = digit_char d" by auto
  note props = digit_char_props [OF d(1), folded d(2)]
  have sp: "dropWhile isspace (w @ rest) = w @ rest"
    by (simp add: s props)
  have sign: "strtoul_sign (w @ rest) = (False, w @ rest)"
    by (simp add: s props)
  have nox: "\<not> has_0x (w @ rest)"
  proof (cases "cs @ rest")
    case Nil
    then show ?thesis by (simp add: s)
  next
    case (Cons y ys)
    have "y \<noteq> CHR ''x'' \<and> y \<noteq> CHR ''X''"
    proof (cases cs)
      case Nil
      with Cons r show ?thesis by auto
    next
      case (Cons z zs)
      with s \<open>cs @ rest = y # ys\<close> have "y \<in> set w" by simp
      then obtain e where "e < 16" "y = digit_char e" using digs by blast
      then show ?thesis using digit_char_props [of e] by simp
    qed
    with Cons show ?thesis by (cases ys) (auto simp: s)
  qed
  show ?thesis
    unfolding strtoul_def sp sign Let_def prod.case using nox n by simp
qed

lemma strtoul_show_hex_zeros [cstr_simps]:
  assumes n: "n < 2 ^ 64" and r: "rest = [] \<or> digit_val 16 (hd rest) = None \<and> hd rest \<noteq> CHR ''x'' \<and> hd rest \<noteq> CHR ''X''"
  shows "strtoul 16 ((replicate k (CHR ''0'') @ show_base 16 n) @ rest) = of_nat n"
proof (rule strtoul_digits [OF hex_digits_zeros [OF hex_digits_show] _ r _ n])
  have "strtoul_acc 16 0 (show_base 16 n @ rest) = strtoul_acc 16 n rest"
    by (simp add: strtoul_acc_show_base)
  also have "\<dots> = n" using r by (cases rest) auto
  finally show "strtoul_acc 16 0 ((replicate k (CHR ''0'') @ show_base 16 n) @ rest) = n"
    by (simp add: strtoul_acc_zeros)
qed simp

lemma strtoul_show_hex [cstr_simps]:
  assumes "n < 2 ^ 64" and "rest = [] \<or> digit_val 16 (hd rest) = None \<and> hd rest \<noteq> CHR ''x'' \<and> hd rest \<noteq> CHR ''X''"
  shows "strtoul 16 (show_base 16 n @ rest) = of_nat n"
  using strtoul_show_hex_zeros [OF assms, of 0] by simp

section \<open>Scanning numbers\<close>

text \<open>One conversion \<open>%lu\<close> or \<open>%lx\<close> of \<open>scanf\<close>, and what is left of the input: no input at all, no
  number there, or a number. A prefix \<open>0x\<close> without a digit behind it is no number.\<close>

datatype scanned = Scan_eof | Scan_fail | Scan_value u64

fun starts_0x :: "string \<Rightarrow> bool" where
  "starts_0x (a # b # cs) \<longleftrightarrow> a = CHR ''0'' \<and> (b = CHR ''x'' \<or> b = CHR ''X'')"
| "starts_0x _ = False"

definition scan_number :: "nat \<Rightarrow> string \<Rightarrow> scanned \<times> string" where
  "scan_number base s =
     (let s1 = dropWhile isspace s; s2 = snd (strtoul_sign s1) in
      if s1 = [] then (Scan_eof, [])
      else if base = 16 \<and> starts_0x s2 \<and> \<not> has_0x s2 then (Scan_fail, drop 2 s2)
      else
        let s3 = (if base = 16 \<and> has_0x s2 then drop 2 s2 else s2);
            ds = takeWhile (\<lambda>c. digit_val base c \<noteq> None) s3
        in if ds = [] then (Scan_fail, s3) else (Scan_value (strtoul base s1), drop (length ds) s3))"

lemma length_strtoul_sign: "length (snd (strtoul_sign s)) \<le> length s"
  by (cases s) auto

text \<open>A number takes up input.\<close>

lemma scan_number_value:
  assumes "scan_number base s = (Scan_value v, r)"
  shows "length r < length s"
proof -
  define s2 where "s2 = snd (strtoul_sign (dropWhile isspace s))"
  define s3 where "s3 = (if base = 16 \<and> has_0x s2 then drop 2 s2 else s2)"
  define ds where "ds = takeWhile (\<lambda>c. digit_val base c \<noteq> None) s3"
  have r: "ds \<noteq> []" "r = drop (length ds) s3"
    using assms by (auto simp: scan_number_def Let_def s2_def s3_def ds_def split: if_splits)
  then have "s3 \<noteq> []" by (auto simp: ds_def)
  then have "length r < length s3" using r by (cases ds) auto
  also have "\<dots> \<le> length s2" by (simp add: s3_def)
  also have "\<dots> \<le> length s"
    using length_strtoul_sign [of "dropWhile isspace s"] length_dropWhile_le [of isspace s] by (simp add: s2_def)
  finally show ?thesis .
qed

section \<open>Padding and exit codes\<close>

definition pad_right :: "nat \<Rightarrow> string \<Rightarrow> string" where
  "pad_right n s = s @ replicate (n - length s) (CHR '' '')"

definition pad_zero :: "nat \<Rightarrow> string \<Rightarrow> string" where
  "pad_zero n s = replicate (n - length s) (CHR ''0'') @ s"

definition EXIT_SUCCESS :: nat where "EXIT_SUCCESS = 0"

definition EXIT_FAILURE :: nat where "EXIT_FAILURE = 1"

section \<open>Reading a file line by line\<close>

definition PATH_MAX :: nat where
  "PATH_MAX = 4096"

definition newline :: char where
  "newline = CHR 0x0A"

fun fgets_take :: "nat \<Rightarrow> string \<Rightarrow> string \<times> string" where
  "fgets_take 0 s = ([], s)"
| "fgets_take (Suc k) [] = ([], [])"
| "fgets_take (Suc k) (c # cs) =
     (if c = newline then ([c], cs)
      else (let (l, r) = fgets_take k cs in (c # l, r)))"

lemma length_fgets_take: "length (snd (fgets_take k s)) \<le> length s"
  by (induction k s rule: fgets_take.induct) (auto split: prod.splits)

lemma length_fgets_take_less: "0 < k \<Longrightarrow> s \<noteq> [] \<Longrightarrow> length (snd (fgets_take k s)) < length s"
  using length_fgets_take [of "k - 1" "tl s"]
  by (cases k; cases s) (auto split: prod.splits)

text \<open>The buffers that \<open>while (fgets(buf, PATH_MAX, fp) != NULL)\<close> sees.\<close>

function fgets_all :: "string \<Rightarrow> string list" where
  "fgets_all s =
     (if s = [] then []
      else (case fgets_take (PATH_MAX - 1) s of (l, r) \<Rightarrow> l # fgets_all r))"
  by pat_completeness auto
termination
proof (relation "measure length")
  fix s l r assume "s \<noteq> ([] :: string)" and "(l, r) = fgets_take (PATH_MAX - 1) s"
  then show "(r, s) \<in> measure length"
    using length_fgets_take_less [of "PATH_MAX - 1" s]
    by (metis PATH_MAX_def in_measure snd_conv zero_less_diff numeral_less_iff one_less_numeral_iff semiring_norm(76))
qed simp

declare fgets_all.simps [simp del]

lemma fgets_take_line:
  "newline \<notin> set l \<Longrightarrow> length l < k \<Longrightarrow> fgets_take k (l @ newline # rest) = (l @ [newline], rest)"
proof (induction l arbitrary: k)
  case Nil
  then show ?case by (cases k) auto
next
  case (Cons c l)
  then show ?case by (cases k) auto
qed

text \<open>A file of newline-terminated lines that fit the buffer is read back line by line.\<close>

lemma fgets_all_lines [cstr_simps]:
  assumes "\<forall>l \<in> set ls. newline \<notin> set l \<and> length l < PATH_MAX - 1"
  shows "fgets_all (concat (map (\<lambda>l. l @ [newline]) ls)) = map (\<lambda>l. l @ [newline]) ls"
  using assms
proof (induction ls)
  case Nil
  then show ?case by (simp add: fgets_all.simps)
next
  case (Cons l ls)
  then show ?case
    by (simp add: fgets_all.simps [of "l @ newline # _"] fgets_take_line)
qed

end
