(* ===== verification/Shiva_Types.thy ===== *)
theory Shiva_Types
  imports C_Lib
begin

text \<open>
  The data of \<^verbatim>\<open>src/reference/shiva-source/shiva.h\<close>: flags, enumerations and structures of the
  context, the module linker, the memory map list and the trace API. A \<open>TAILQ\<close> is the list of
  its entries in order; a pointer into a \<open>TAILQ\<close> is the suffix that starts at the entry; a
  function pointer and a pointer into the address space are 64-bit addresses. Fields that no
  function of the sources reads or writes (\<open>pid\<close>, \<open>duplicate_pid\<close>, \<open>heap_vaddr\<close>, ...)
  are left out; so is the disassembler object of the context, which its users carry separately.

  ELF files are read through the external library libelfmaster. An opened object is the record
  \<open>elfobj\<close> of what that library answers: its fields are parameters of the model, one per
  library call that the sources make (an iterator is the list of the entries it yields).
\<close>

section \<open>Flags and limits\<close>

definition SHIVA_OPTS_F_MODULE_PATH :: u64 where "SHIVA_OPTS_F_MODULE_PATH = push_bit 0 1"
definition SHIVA_OPTS_F_ULEXEC_ONLY :: u64 where "SHIVA_OPTS_F_ULEXEC_ONLY = push_bit 1 1"
definition SHIVA_OPTS_F_INTERP_MODE :: u64 where "SHIVA_OPTS_F_INTERP_MODE = push_bit 2 1"
definition SHIVA_F_ULEXEC_LDSO_NEEDED :: u64 where "SHIVA_F_ULEXEC_LDSO_NEEDED = push_bit 0 1"
definition SHIVA_STACK_SIZE :: u64 where "SHIVA_STACK_SIZE = PAGE_SIZE * 1000"
definition SHIVA_LDSO_BASE :: u64 where "SHIVA_LDSO_BASE = 0x1000000"
definition SHIVA_TARGET_BASE :: u64 where "SHIVA_TARGET_BASE = 0x40000000"
definition SHIVA_MODULE_F_RUNTIME :: u64 where "SHIVA_MODULE_F_RUNTIME = push_bit 0 1"
definition SHIVA_MODULE_F_INIT :: u64 where "SHIVA_MODULE_F_INIT = push_bit 1 1"
definition SHIVA_BRANCH_F_PLTCALL :: u64 where "SHIVA_BRANCH_F_PLTCALL = push_bit 0 1"
definition SHIVA_MAX_INST_LEN :: nat where "SHIVA_MAX_INST_LEN = 15"

definition SHIVA_TRACE_THREAD_F_TRACED :: u64 where "SHIVA_TRACE_THREAD_F_TRACED = push_bit 0 1"
definition SHIVA_TRACE_THREAD_F_PAUSED :: u64 where "SHIVA_TRACE_THREAD_F_PAUSED = push_bit 1 1"
definition SHIVA_TRACE_THREAD_F_EXTERN_TRACER :: u64 where "SHIVA_TRACE_THREAD_F_EXTERN_TRACER = push_bit 2 1"
definition SHIVA_TRACE_THREAD_F_COREDUMPING :: u64 where "SHIVA_TRACE_THREAD_F_COREDUMPING = push_bit 3 1"
definition SHIVA_TRACE_THREAD_F_NEW :: u64 where "SHIVA_TRACE_THREAD_F_NEW = push_bit 4 1"

lemmas shiva_flag_defs =
  SHIVA_OPTS_F_MODULE_PATH_def SHIVA_OPTS_F_ULEXEC_ONLY_def SHIVA_OPTS_F_INTERP_MODE_def
  SHIVA_F_ULEXEC_LDSO_NEEDED_def SHIVA_MODULE_F_RUNTIME_def SHIVA_MODULE_F_INIT_def
  SHIVA_BRANCH_F_PLTCALL_def

lemmas thread_flag_defs =
  SHIVA_TRACE_THREAD_F_TRACED_def SHIVA_TRACE_THREAD_F_PAUSED_def
  SHIVA_TRACE_THREAD_F_EXTERN_TRACER_def SHIVA_TRACE_THREAD_F_COREDUMPING_def
  SHIVA_TRACE_THREAD_F_NEW_def

text \<open>Constants of the system headers.\<close>

definition PROT_READ :: u32 where "PROT_READ = 1"
definition PROT_WRITE :: u32 where "PROT_WRITE = 2"
definition PROT_EXEC :: u32 where "PROT_EXEC = 4"
definition MAP_SHARED :: u32 where "MAP_SHARED = 0x01"
definition MAP_PRIVATE :: u32 where "MAP_PRIVATE = 0x02"
definition MAP_FIXED :: u32 where "MAP_FIXED = 0x10"
definition MAP_ANONYMOUS :: u32 where "MAP_ANONYMOUS = 0x20"
definition MAP_32BIT :: u32 where "MAP_32BIT = 0x40"
definition MAP_GROWSDOWN :: u32 where "MAP_GROWSDOWN = 0x100"

lemmas prot_defs = PROT_READ_def PROT_WRITE_def PROT_EXEC_def
lemmas map_flag_defs = MAP_SHARED_def MAP_PRIVATE_def MAP_FIXED_def MAP_ANONYMOUS_def
  MAP_32BIT_def MAP_GROWSDOWN_def

definition has_flag :: "'a::len word \<Rightarrow> 'a word \<Rightarrow> bool" where
  "has_flag v f \<longleftrightarrow> v AND f \<noteq> 0"

section \<open>What libelfmaster answers\<close>

record elf_symbol =
  sym_name :: string
  sym_value :: u64
  sym_size :: u64
  sym_type :: u8
  sym_bind :: u8

record elf_section =
  sec_name :: string
  sec_flags :: u64
  sec_size :: u64
  sec_offset :: u64
  sec_address :: u64
  sec_entsize :: u64

record elf_relocation =
  rel_shdrname :: string
  rel_symname :: string
  rel_type :: nat
  rel_offset :: u64
  rel_addend :: u64

record elf_segment =
  seg_type :: nat
  seg_flags :: u32
  seg_offset :: u64
  seg_vaddr :: u64
  seg_filesz :: u64
  seg_memsz :: u64

record elf_plt =
  plt_symname :: string
  plt_addr :: u64

record elf_pltgot_entry =
  pltgot_offset :: u64
  pltgot_value :: u64
  pltgot_stub :: bool

record elfobj =
  elf_pathname :: string
  elf_type :: nat
  elf_class64 :: bool
  elf_entry_point :: u64
  elf_phoff :: u64
  elf_interpreter_path :: "string option"
  elf_sections :: "elf_section list"
  elf_relocations :: "elf_relocation list"
  elf_segments :: "elf_segment list"
  elf_segments_error :: bool
  elf_plts :: "elf_plt list"
  elf_pltgots :: "elf_pltgot_entry list"
  elf_section_by_name :: "string \<Rightarrow> elf_section option"
  elf_symbol_by_name :: "string \<Rightarrow> elf_symbol option"
  elf_symbol_by_value_lookup :: "u64 \<Rightarrow> elf_symbol option"
  elf_symbol_by_index :: "u64 \<Rightarrow> elf_symbol option"
  elf_plt_by_name :: "string \<Rightarrow> elf_plt option"
  elf_address_pointer :: "u64 \<Rightarrow> u64 option"
  elf_read_byte :: "u64 \<Rightarrow> u8 option"
  elf_read_byte_vaddr :: "u64 \<Rightarrow> u8 option"

text \<open>ELF constants of \<open>elf.h\<close> that the sources test.\<close>

definition SHF_WRITE :: u64 where "SHF_WRITE = 1"
definition SHF_ALLOC :: u64 where "SHF_ALLOC = 2"
definition STT_NOTYPE :: u8 where "STT_NOTYPE = 0"
definition STT_OBJECT :: u8 where "STT_OBJECT = 1"
definition STT_FUNC :: u8 where "STT_FUNC = 2"
definition STB_GLOBAL :: u8 where "STB_GLOBAL = 1"
definition PT_LOAD :: nat where "PT_LOAD = 1"
definition PT_DYNAMIC :: nat where "PT_DYNAMIC = 2"
definition ET_EXEC :: nat where "ET_EXEC = 2"
definition ET_DYN :: nat where "ET_DYN = 3"
definition R_X86_64_PC32 :: nat where "R_X86_64_PC32 = 2"
definition R_X86_64_PLT32 :: nat where "R_X86_64_PLT32 = 4"
definition R_X86_64_JUMP_SLOT :: nat where "R_X86_64_JUMP_SLOT = 7"
definition R_X86_64_GOTOFF64 :: nat where "R_X86_64_GOTOFF64 = 25"
definition R_X86_64_GOT64 :: nat where "R_X86_64_GOT64 = 27"
definition R_X86_64_GOTPC64 :: nat where "R_X86_64_GOTPC64 = 29"
definition R_X86_64_PLTOFF64 :: nat where "R_X86_64_PLTOFF64 = 31"

lemmas rel_type_defs = R_X86_64_PC32_def R_X86_64_PLT32_def R_X86_64_JUMP_SLOT_def
  R_X86_64_GOTOFF64_def R_X86_64_GOT64_def R_X86_64_GOTPC64_def R_X86_64_PLTOFF64_def
lemmas stt_defs = STT_NOTYPE_def STT_OBJECT_def STT_FUNC_def STB_GLOBAL_def
lemmas shf_defs = SHF_WRITE_def SHF_ALLOC_def

section \<open>Enumerations and structures of shiva.h\<close>

datatype shiva_iterator_res = SHIVA_ITER_OK | SHIVA_ITER_DONE | SHIVA_ITER_ERROR

datatype shiva_branch_type = SHIVA_BRANCH_JMP | SHIVA_BRANCH_CALL | SHIVA_BRANCH_RET

record shiva_branch_site =
  bs_symbol :: elf_symbol
  branch_type :: shiva_branch_type
  branch_flags :: u64
  target_vaddr :: u64
  branch_site :: u64
  bs_retaddr :: u64

datatype shiva_module_section_map_attr =
  LP_SECTION_TEXTSEGMENT | LP_SECTION_DATASEGMENT | LP_SECTION_UNKNOWN

record shiva_module_section_mapping =
  map_attribute :: shiva_module_section_map_attr
  smap_vaddr :: u64
  smap_offset :: u64
  smap_size :: u64
  smap_name :: string

record shiva_module_plt_entry =
  pe_symname :: string
  pe_vaddr :: u64
  pe_offset :: u64
  pe_plt_count :: u64

record shiva_module_got_entry =
  ge_symname :: string
  gotaddr :: u64
  gotoff :: u64

datatype shiva_mmap_type =
  SHIVA_MMAP_TYPE_HEAP | SHIVA_MMAP_TYPE_STACK | SHIVA_MMAP_TYPE_VDSO
| SHIVA_MMAP_TYPE_SHIVA | SHIVA_MMAP_TYPE_MISC

record shiva_mmap_entry =
  map_base :: u64
  map_len :: u64
  map_prot :: u32
  map_mapping :: u32
  mmap_type :: shiva_mmap_type
  debugger_mapping :: bool

record shiva_module =
  mod_flags :: u64
  text_mem :: u64
  data_mem :: u64
  pltgot_size :: u64
  plt_size :: u64
  plt_off :: u64
  plt_count :: u64
  pltgot_off :: u64
  text_size :: u64
  data_size :: u64
  text_vaddr :: u64
  data_vaddr :: u64
  shiva_base :: u64
  mod_elfobj :: elfobj
  mod_self :: elfobj
  got_list :: "shiva_module_got_entry list"
  section_maplist :: "shiva_module_section_mapping list"
  plt_list :: "shiva_module_plt_entry list"
  got_cache :: "string \<rightharpoonup> shiva_module_got_entry"

record shiva_trace_regset_x86_64 =
  r_rax :: u64
  r_rbx :: u64
  r_rcx :: u64
  r_rdx :: u64
  r_rsi :: u64
  r_rdi :: u64
  r_rbp :: u64
  r_rsp :: u64
  r_rip :: u64
  r_r8 :: u64
  r_r9 :: u64
  r_r10 :: u64
  r_r11 :: u64
  r_r12 :: u64
  r_r13 :: u64
  r_r14 :: u64
  r_r15 :: u64
  r_flags :: u64
  r_cs :: u64
  r_ss :: u64
  r_fs :: u64
  r_ds :: u64

datatype shiva_trace_bp_type =
  SHIVA_TRACE_BP_JMP | SHIVA_TRACE_BP_CALL | SHIVA_TRACE_BP_INT3 | SHIVA_TRACE_BP_SEGV
| SHIVA_TRACE_BP_SIGILL | SHIVA_TRACE_BP_TRAMPOLINE | SHIVA_TRACE_BP_PLTGOT

datatype shiva_trace_op =
  SHIVA_TRACE_OP_CONT | SHIVA_TRACE_OP_ATTACH | SHIVA_TRACE_OP_POKE | SHIVA_TRACE_OP_PEEK
| SHIVA_TRACE_OP_GETREGS | SHIVA_TRACE_OP_SETREGS | SHIVA_TRACE_OP_SETFPREGS
| SHIVA_TRACE_OP_GETSIGINFO | SHIVA_TRACE_OP_SETSIGINFO

record shiva_trace_insn =
  o_insn :: "u8 list"
  n_insn :: "u8 list"
  o_insn_len :: u64
  n_insn_len :: u64

record shiva_trace_bp =
  bp_type :: shiva_trace_bp_type
  bp_addr :: u64
  bp_len :: u64
  callsite_retaddr :: u64
  bp_plt_addr :: u64
  o_target :: u64
  o_call_offset :: u64
  bp_symbol :: "elf_symbol option"
  call_target_symname :: "string option"
  symbol_location :: bool
  bp_insn :: shiva_trace_insn
  retaddr_list :: "u64 list"

record shiva_trace_handler =
  h_type :: shiva_trace_bp_type
  handler_fn :: u64
  bp_tqlist :: "shiva_trace_bp list"

record shiva_trace_thread =
  th_name :: "string option"
  th_uid :: u32
  th_gid :: u32
  th_pid :: u32
  th_ppid :: u32
  external_tracer_pid :: u32
  th_flags :: u64

record shiva_ulexec =
  ul_stack :: u64
  ul_rsp_start :: u64
  ul_entry_point :: u64
  ul_base_vaddr :: u64
  ul_phdr_vaddr :: u64
  ul_arglen :: u64
  ul_envpcount :: u64
  ul_envplen :: u64
  ul_envstr :: "u8 list"
  ul_argstr :: "u8 list"
  ul_auxv :: u64
  ldso_entry_point :: u64
  ldso_base_vaddr :: u64
  ldso_phdr_vaddr :: u64
  ul_flags :: u64

record shiva_ctx =
  ctx_path :: string
  ctx_path_ptr :: u64
  ctx_argc :: nat
  ctx_args :: "string list"
  ctx_argv :: u64
  ctx_envp :: u64
  ctx_argcount :: nat
  ctx_elfobj :: elfobj
  ctx_ldsobj :: elfobj
  ctx_shiva_elfobj :: elfobj
  ctx_flags :: u64
  ctx_shiva_path :: "string option"
  disas_textptr :: u64
  disas_base :: u64
  ctx_shiva_base :: u64
  jmprel :: u64
  module_runtime :: "shiva_module option"
  ulexec :: shiva_ulexec
  thread_tqlist :: "shiva_trace_thread list"
  mmap_tqlist :: "shiva_mmap_entry list"
  branch_tqlist :: "shiva_branch_site list"
  trace_handlers_tqlist :: "shiva_trace_handler list"

section \<open>The zeroed context\<close>

text \<open>An object that was never opened answers nothing.\<close>

definition null_elfobj :: elfobj where
  "null_elfobj =
     \<lparr>elf_pathname = [], elf_type = 0, elf_class64 = False, elf_entry_point = 0, elf_phoff = 0,
      elf_interpreter_path = None, elf_sections = [], elf_relocations = [], elf_segments = [],
      elf_segments_error = False, elf_plts = [], elf_pltgots = [],
      elf_section_by_name = (\<lambda>_. None), elf_symbol_by_name = (\<lambda>_. None),
      elf_symbol_by_value_lookup = (\<lambda>_. None), elf_symbol_by_index = (\<lambda>_. None),
      elf_plt_by_name = (\<lambda>_. None), elf_address_pointer = (\<lambda>_. None),
      elf_read_byte = (\<lambda>_. None), elf_read_byte_vaddr = (\<lambda>_. None)\<rparr>"

definition zero_ulexec :: shiva_ulexec where
  "zero_ulexec =
     \<lparr>ul_stack = 0, ul_rsp_start = 0, ul_entry_point = 0, ul_base_vaddr = 0, ul_phdr_vaddr = 0,
      ul_arglen = 0, ul_envpcount = 0, ul_envplen = 0, ul_envstr = [], ul_argstr = [],
      ul_auxv = 0, ldso_entry_point = 0, ldso_base_vaddr = 0, ldso_phdr_vaddr = 0, ul_flags = 0\<rparr>"

text \<open>\<open>memset(&ctx, 0, sizeof(ctx))\<close> at the start of \<open>main\<close>, every list empty.\<close>

definition zero_ctx :: shiva_ctx where
  "zero_ctx =
     \<lparr>ctx_path = [], ctx_path_ptr = 0, ctx_argc = 0, ctx_args = [], ctx_argv = 0, ctx_envp = 0,
      ctx_argcount = 0,
      ctx_elfobj = null_elfobj, ctx_ldsobj = null_elfobj, ctx_shiva_elfobj = null_elfobj,
      ctx_flags = 0, ctx_shiva_path = None, disas_textptr = 0, disas_base = 0,
      ctx_shiva_base = 0, jmprel = 0, module_runtime = None, ulexec = zero_ulexec, thread_tqlist = [],
      mmap_tqlist = [], branch_tqlist = [], trace_handlers_tqlist = []\<rparr>"

end
