(* ===== verification/Ud_Types.thy ===== *)
theory Ud_Types
  imports Prelude
begin

text \<open>
  The data of the instruction decoder udis86,
  \<^verbatim>\<open>src/reference/shiva-source/udis86-1.7.2/libudis86/types.h\<close> and \<^verbatim>\<open>decode.h\<close>: the
  object \<open>ud\<close>, its operands, the codes of registers, operand kinds and operand sizes, and the
  shape of the opcode tables. The C enumerations are integers on which the decoder computes
  (\<open>UD_R_RAX + rm\<close>), so their members are numbered constants here too.
\<close>

section \<open>Object types (enum ud_type)\<close>

type_synonym ud_type = nat

definition UD_NONE :: ud_type where "UD_NONE = 0"
definition UD_R_AL :: ud_type where "UD_R_AL = 1"
definition UD_R_CL :: ud_type where "UD_R_CL = 2"
definition UD_R_DL :: ud_type where "UD_R_DL = 3"
definition UD_R_BL :: ud_type where "UD_R_BL = 4"
definition UD_R_AH :: ud_type where "UD_R_AH = 5"
definition UD_R_CH :: ud_type where "UD_R_CH = 6"
definition UD_R_DH :: ud_type where "UD_R_DH = 7"
definition UD_R_BH :: ud_type where "UD_R_BH = 8"
definition UD_R_SPL :: ud_type where "UD_R_SPL = 9"
definition UD_R_BPL :: ud_type where "UD_R_BPL = 10"
definition UD_R_SIL :: ud_type where "UD_R_SIL = 11"
definition UD_R_DIL :: ud_type where "UD_R_DIL = 12"
definition UD_R_R8B :: ud_type where "UD_R_R8B = 13"
definition UD_R_R9B :: ud_type where "UD_R_R9B = 14"
definition UD_R_R10B :: ud_type where "UD_R_R10B = 15"
definition UD_R_R11B :: ud_type where "UD_R_R11B = 16"
definition UD_R_R12B :: ud_type where "UD_R_R12B = 17"
definition UD_R_R13B :: ud_type where "UD_R_R13B = 18"
definition UD_R_R14B :: ud_type where "UD_R_R14B = 19"
definition UD_R_R15B :: ud_type where "UD_R_R15B = 20"
definition UD_R_AX :: ud_type where "UD_R_AX = 21"
definition UD_R_CX :: ud_type where "UD_R_CX = 22"
definition UD_R_DX :: ud_type where "UD_R_DX = 23"
definition UD_R_BX :: ud_type where "UD_R_BX = 24"
definition UD_R_SP :: ud_type where "UD_R_SP = 25"
definition UD_R_BP :: ud_type where "UD_R_BP = 26"
definition UD_R_SI :: ud_type where "UD_R_SI = 27"
definition UD_R_DI :: ud_type where "UD_R_DI = 28"
definition UD_R_R8W :: ud_type where "UD_R_R8W = 29"
definition UD_R_R9W :: ud_type where "UD_R_R9W = 30"
definition UD_R_R10W :: ud_type where "UD_R_R10W = 31"
definition UD_R_R11W :: ud_type where "UD_R_R11W = 32"
definition UD_R_R12W :: ud_type where "UD_R_R12W = 33"
definition UD_R_R13W :: ud_type where "UD_R_R13W = 34"
definition UD_R_R14W :: ud_type where "UD_R_R14W = 35"
definition UD_R_R15W :: ud_type where "UD_R_R15W = 36"
definition UD_R_EAX :: ud_type where "UD_R_EAX = 37"
definition UD_R_ECX :: ud_type where "UD_R_ECX = 38"
definition UD_R_EDX :: ud_type where "UD_R_EDX = 39"
definition UD_R_EBX :: ud_type where "UD_R_EBX = 40"
definition UD_R_ESP :: ud_type where "UD_R_ESP = 41"
definition UD_R_EBP :: ud_type where "UD_R_EBP = 42"
definition UD_R_ESI :: ud_type where "UD_R_ESI = 43"
definition UD_R_EDI :: ud_type where "UD_R_EDI = 44"
definition UD_R_R8D :: ud_type where "UD_R_R8D = 45"
definition UD_R_R9D :: ud_type where "UD_R_R9D = 46"
definition UD_R_R10D :: ud_type where "UD_R_R10D = 47"
definition UD_R_R11D :: ud_type where "UD_R_R11D = 48"
definition UD_R_R12D :: ud_type where "UD_R_R12D = 49"
definition UD_R_R13D :: ud_type where "UD_R_R13D = 50"
definition UD_R_R14D :: ud_type where "UD_R_R14D = 51"
definition UD_R_R15D :: ud_type where "UD_R_R15D = 52"
definition UD_R_RAX :: ud_type where "UD_R_RAX = 53"
definition UD_R_RCX :: ud_type where "UD_R_RCX = 54"
definition UD_R_RDX :: ud_type where "UD_R_RDX = 55"
definition UD_R_RBX :: ud_type where "UD_R_RBX = 56"
definition UD_R_RSP :: ud_type where "UD_R_RSP = 57"
definition UD_R_RBP :: ud_type where "UD_R_RBP = 58"
definition UD_R_RSI :: ud_type where "UD_R_RSI = 59"
definition UD_R_RDI :: ud_type where "UD_R_RDI = 60"
definition UD_R_R8 :: ud_type where "UD_R_R8 = 61"
definition UD_R_R9 :: ud_type where "UD_R_R9 = 62"
definition UD_R_R10 :: ud_type where "UD_R_R10 = 63"
definition UD_R_R11 :: ud_type where "UD_R_R11 = 64"
definition UD_R_R12 :: ud_type where "UD_R_R12 = 65"
definition UD_R_R13 :: ud_type where "UD_R_R13 = 66"
definition UD_R_R14 :: ud_type where "UD_R_R14 = 67"
definition UD_R_R15 :: ud_type where "UD_R_R15 = 68"
definition UD_R_ES :: ud_type where "UD_R_ES = 69"
definition UD_R_CS :: ud_type where "UD_R_CS = 70"
definition UD_R_SS :: ud_type where "UD_R_SS = 71"
definition UD_R_DS :: ud_type where "UD_R_DS = 72"
definition UD_R_FS :: ud_type where "UD_R_FS = 73"
definition UD_R_GS :: ud_type where "UD_R_GS = 74"
definition UD_R_CR0 :: ud_type where "UD_R_CR0 = 75"
definition UD_R_CR1 :: ud_type where "UD_R_CR1 = 76"
definition UD_R_CR2 :: ud_type where "UD_R_CR2 = 77"
definition UD_R_CR3 :: ud_type where "UD_R_CR3 = 78"
definition UD_R_CR4 :: ud_type where "UD_R_CR4 = 79"
definition UD_R_CR5 :: ud_type where "UD_R_CR5 = 80"
definition UD_R_CR6 :: ud_type where "UD_R_CR6 = 81"
definition UD_R_CR7 :: ud_type where "UD_R_CR7 = 82"
definition UD_R_CR8 :: ud_type where "UD_R_CR8 = 83"
definition UD_R_CR9 :: ud_type where "UD_R_CR9 = 84"
definition UD_R_CR10 :: ud_type where "UD_R_CR10 = 85"
definition UD_R_CR11 :: ud_type where "UD_R_CR11 = 86"
definition UD_R_CR12 :: ud_type where "UD_R_CR12 = 87"
definition UD_R_CR13 :: ud_type where "UD_R_CR13 = 88"
definition UD_R_CR14 :: ud_type where "UD_R_CR14 = 89"
definition UD_R_CR15 :: ud_type where "UD_R_CR15 = 90"
definition UD_R_DR0 :: ud_type where "UD_R_DR0 = 91"
definition UD_R_DR1 :: ud_type where "UD_R_DR1 = 92"
definition UD_R_DR2 :: ud_type where "UD_R_DR2 = 93"
definition UD_R_DR3 :: ud_type where "UD_R_DR3 = 94"
definition UD_R_DR4 :: ud_type where "UD_R_DR4 = 95"
definition UD_R_DR5 :: ud_type where "UD_R_DR5 = 96"
definition UD_R_DR6 :: ud_type where "UD_R_DR6 = 97"
definition UD_R_DR7 :: ud_type where "UD_R_DR7 = 98"
definition UD_R_DR8 :: ud_type where "UD_R_DR8 = 99"
definition UD_R_DR9 :: ud_type where "UD_R_DR9 = 100"
definition UD_R_DR10 :: ud_type where "UD_R_DR10 = 101"
definition UD_R_DR11 :: ud_type where "UD_R_DR11 = 102"
definition UD_R_DR12 :: ud_type where "UD_R_DR12 = 103"
definition UD_R_DR13 :: ud_type where "UD_R_DR13 = 104"
definition UD_R_DR14 :: ud_type where "UD_R_DR14 = 105"
definition UD_R_DR15 :: ud_type where "UD_R_DR15 = 106"
definition UD_R_MM0 :: ud_type where "UD_R_MM0 = 107"
definition UD_R_MM1 :: ud_type where "UD_R_MM1 = 108"
definition UD_R_MM2 :: ud_type where "UD_R_MM2 = 109"
definition UD_R_MM3 :: ud_type where "UD_R_MM3 = 110"
definition UD_R_MM4 :: ud_type where "UD_R_MM4 = 111"
definition UD_R_MM5 :: ud_type where "UD_R_MM5 = 112"
definition UD_R_MM6 :: ud_type where "UD_R_MM6 = 113"
definition UD_R_MM7 :: ud_type where "UD_R_MM7 = 114"
definition UD_R_ST0 :: ud_type where "UD_R_ST0 = 115"
definition UD_R_ST1 :: ud_type where "UD_R_ST1 = 116"
definition UD_R_ST2 :: ud_type where "UD_R_ST2 = 117"
definition UD_R_ST3 :: ud_type where "UD_R_ST3 = 118"
definition UD_R_ST4 :: ud_type where "UD_R_ST4 = 119"
definition UD_R_ST5 :: ud_type where "UD_R_ST5 = 120"
definition UD_R_ST6 :: ud_type where "UD_R_ST6 = 121"
definition UD_R_ST7 :: ud_type where "UD_R_ST7 = 122"
definition UD_R_XMM0 :: ud_type where "UD_R_XMM0 = 123"
definition UD_R_XMM1 :: ud_type where "UD_R_XMM1 = 124"
definition UD_R_XMM2 :: ud_type where "UD_R_XMM2 = 125"
definition UD_R_XMM3 :: ud_type where "UD_R_XMM3 = 126"
definition UD_R_XMM4 :: ud_type where "UD_R_XMM4 = 127"
definition UD_R_XMM5 :: ud_type where "UD_R_XMM5 = 128"
definition UD_R_XMM6 :: ud_type where "UD_R_XMM6 = 129"
definition UD_R_XMM7 :: ud_type where "UD_R_XMM7 = 130"
definition UD_R_XMM8 :: ud_type where "UD_R_XMM8 = 131"
definition UD_R_XMM9 :: ud_type where "UD_R_XMM9 = 132"
definition UD_R_XMM10 :: ud_type where "UD_R_XMM10 = 133"
definition UD_R_XMM11 :: ud_type where "UD_R_XMM11 = 134"
definition UD_R_XMM12 :: ud_type where "UD_R_XMM12 = 135"
definition UD_R_XMM13 :: ud_type where "UD_R_XMM13 = 136"
definition UD_R_XMM14 :: ud_type where "UD_R_XMM14 = 137"
definition UD_R_XMM15 :: ud_type where "UD_R_XMM15 = 138"
definition UD_R_RIP :: ud_type where "UD_R_RIP = 139"
definition UD_OP_REG :: ud_type where "UD_OP_REG = 140"
definition UD_OP_MEM :: ud_type where "UD_OP_MEM = 141"
definition UD_OP_PTR :: ud_type where "UD_OP_PTR = 142"
definition UD_OP_IMM :: ud_type where "UD_OP_IMM = 143"
definition UD_OP_JIMM :: ud_type where "UD_OP_JIMM = 144"
definition UD_OP_CONST :: ud_type where "UD_OP_CONST = 145"

lemmas ud_type_defs =
  UD_NONE_def UD_R_AL_def UD_R_CL_def UD_R_DL_def UD_R_BL_def UD_R_AH_def UD_R_CH_def
  UD_R_DH_def UD_R_BH_def UD_R_SPL_def UD_R_BPL_def UD_R_SIL_def UD_R_DIL_def UD_R_R8B_def
  UD_R_R9B_def UD_R_R10B_def UD_R_R11B_def UD_R_R12B_def UD_R_R13B_def UD_R_R14B_def
  UD_R_R15B_def UD_R_AX_def UD_R_CX_def UD_R_DX_def UD_R_BX_def UD_R_SP_def UD_R_BP_def
  UD_R_SI_def UD_R_DI_def UD_R_R8W_def UD_R_R9W_def UD_R_R10W_def UD_R_R11W_def UD_R_R12W_def
  UD_R_R13W_def UD_R_R14W_def UD_R_R15W_def UD_R_EAX_def UD_R_ECX_def UD_R_EDX_def UD_R_EBX_def
  UD_R_ESP_def UD_R_EBP_def UD_R_ESI_def UD_R_EDI_def UD_R_R8D_def UD_R_R9D_def UD_R_R10D_def
  UD_R_R11D_def UD_R_R12D_def UD_R_R13D_def UD_R_R14D_def UD_R_R15D_def UD_R_RAX_def
  UD_R_RCX_def UD_R_RDX_def UD_R_RBX_def UD_R_RSP_def UD_R_RBP_def UD_R_RSI_def UD_R_RDI_def
  UD_R_R8_def UD_R_R9_def UD_R_R10_def UD_R_R11_def UD_R_R12_def UD_R_R13_def UD_R_R14_def
  UD_R_R15_def UD_R_ES_def UD_R_CS_def UD_R_SS_def UD_R_DS_def UD_R_FS_def UD_R_GS_def
  UD_R_CR0_def UD_R_CR1_def UD_R_CR2_def UD_R_CR3_def UD_R_CR4_def UD_R_CR5_def UD_R_CR6_def
  UD_R_CR7_def UD_R_CR8_def UD_R_CR9_def UD_R_CR10_def UD_R_CR11_def UD_R_CR12_def
  UD_R_CR13_def UD_R_CR14_def UD_R_CR15_def UD_R_DR0_def UD_R_DR1_def UD_R_DR2_def UD_R_DR3_def
  UD_R_DR4_def UD_R_DR5_def UD_R_DR6_def UD_R_DR7_def UD_R_DR8_def UD_R_DR9_def UD_R_DR10_def
  UD_R_DR11_def UD_R_DR12_def UD_R_DR13_def UD_R_DR14_def UD_R_DR15_def UD_R_MM0_def
  UD_R_MM1_def UD_R_MM2_def UD_R_MM3_def UD_R_MM4_def UD_R_MM5_def UD_R_MM6_def UD_R_MM7_def
  UD_R_ST0_def UD_R_ST1_def UD_R_ST2_def UD_R_ST3_def UD_R_ST4_def UD_R_ST5_def UD_R_ST6_def
  UD_R_ST7_def UD_R_XMM0_def UD_R_XMM1_def UD_R_XMM2_def UD_R_XMM3_def UD_R_XMM4_def
  UD_R_XMM5_def UD_R_XMM6_def UD_R_XMM7_def UD_R_XMM8_def UD_R_XMM9_def UD_R_XMM10_def
  UD_R_XMM11_def UD_R_XMM12_def UD_R_XMM13_def UD_R_XMM14_def UD_R_XMM15_def UD_R_RIP_def
  UD_OP_REG_def UD_OP_MEM_def UD_OP_PTR_def UD_OP_IMM_def UD_OP_JIMM_def UD_OP_CONST_def

section \<open>Operand codes and sizes (decode.h)\<close>

type_synonym ud_operand_code = nat

definition OP_NONE :: ud_operand_code where "OP_NONE = 0"
definition OP_A :: ud_operand_code where "OP_A = 1"
definition OP_E :: ud_operand_code where "OP_E = 2"
definition OP_M :: ud_operand_code where "OP_M = 3"
definition OP_G :: ud_operand_code where "OP_G = 4"
definition OP_I :: ud_operand_code where "OP_I = 5"
definition OP_F :: ud_operand_code where "OP_F = 6"
definition OP_R0 :: ud_operand_code where "OP_R0 = 7"
definition OP_R1 :: ud_operand_code where "OP_R1 = 8"
definition OP_R2 :: ud_operand_code where "OP_R2 = 9"
definition OP_R3 :: ud_operand_code where "OP_R3 = 10"
definition OP_R4 :: ud_operand_code where "OP_R4 = 11"
definition OP_R5 :: ud_operand_code where "OP_R5 = 12"
definition OP_R6 :: ud_operand_code where "OP_R6 = 13"
definition OP_R7 :: ud_operand_code where "OP_R7 = 14"
definition OP_AL :: ud_operand_code where "OP_AL = 15"
definition OP_CL :: ud_operand_code where "OP_CL = 16"
definition OP_DL :: ud_operand_code where "OP_DL = 17"
definition OP_AX :: ud_operand_code where "OP_AX = 18"
definition OP_CX :: ud_operand_code where "OP_CX = 19"
definition OP_DX :: ud_operand_code where "OP_DX = 20"
definition OP_eAX :: ud_operand_code where "OP_eAX = 21"
definition OP_eCX :: ud_operand_code where "OP_eCX = 22"
definition OP_eDX :: ud_operand_code where "OP_eDX = 23"
definition OP_rAX :: ud_operand_code where "OP_rAX = 24"
definition OP_rCX :: ud_operand_code where "OP_rCX = 25"
definition OP_rDX :: ud_operand_code where "OP_rDX = 26"
definition OP_ES :: ud_operand_code where "OP_ES = 27"
definition OP_CS :: ud_operand_code where "OP_CS = 28"
definition OP_SS :: ud_operand_code where "OP_SS = 29"
definition OP_DS :: ud_operand_code where "OP_DS = 30"
definition OP_FS :: ud_operand_code where "OP_FS = 31"
definition OP_GS :: ud_operand_code where "OP_GS = 32"
definition OP_ST0 :: ud_operand_code where "OP_ST0 = 33"
definition OP_ST1 :: ud_operand_code where "OP_ST1 = 34"
definition OP_ST2 :: ud_operand_code where "OP_ST2 = 35"
definition OP_ST3 :: ud_operand_code where "OP_ST3 = 36"
definition OP_ST4 :: ud_operand_code where "OP_ST4 = 37"
definition OP_ST5 :: ud_operand_code where "OP_ST5 = 38"
definition OP_ST6 :: ud_operand_code where "OP_ST6 = 39"
definition OP_ST7 :: ud_operand_code where "OP_ST7 = 40"
definition OP_J :: ud_operand_code where "OP_J = 41"
definition OP_S :: ud_operand_code where "OP_S = 42"
definition OP_O :: ud_operand_code where "OP_O = 43"
definition OP_I1 :: ud_operand_code where "OP_I1 = 44"
definition OP_I3 :: ud_operand_code where "OP_I3 = 45"
definition OP_sI :: ud_operand_code where "OP_sI = 46"
definition OP_V :: ud_operand_code where "OP_V = 47"
definition OP_W :: ud_operand_code where "OP_W = 48"
definition OP_Q :: ud_operand_code where "OP_Q = 49"
definition OP_P :: ud_operand_code where "OP_P = 50"
definition OP_U :: ud_operand_code where "OP_U = 51"
definition OP_N :: ud_operand_code where "OP_N = 52"
definition OP_MU :: ud_operand_code where "OP_MU = 53"
definition OP_R :: ud_operand_code where "OP_R = 54"
definition OP_C :: ud_operand_code where "OP_C = 55"
definition OP_D :: ud_operand_code where "OP_D = 56"
definition OP_MR :: ud_operand_code where "OP_MR = 57"

lemmas ud_operand_code_defs =
  OP_NONE_def OP_A_def OP_E_def OP_M_def OP_G_def OP_I_def OP_F_def OP_R0_def OP_R1_def
  OP_R2_def OP_R3_def OP_R4_def OP_R5_def OP_R6_def OP_R7_def OP_AL_def OP_CL_def OP_DL_def
  OP_AX_def OP_CX_def OP_DX_def OP_eAX_def OP_eCX_def OP_eDX_def OP_rAX_def OP_rCX_def
  OP_rDX_def OP_ES_def OP_CS_def OP_SS_def OP_DS_def OP_FS_def OP_GS_def OP_ST0_def OP_ST1_def
  OP_ST2_def OP_ST3_def OP_ST4_def OP_ST5_def OP_ST6_def OP_ST7_def OP_J_def OP_S_def OP_O_def
  OP_I1_def OP_I3_def OP_sI_def OP_V_def OP_W_def OP_Q_def OP_P_def OP_U_def OP_N_def OP_MU_def
  OP_R_def OP_C_def OP_D_def OP_MR_def

type_synonym ud_operand_size = nat

definition SZ_NA :: ud_operand_size where "SZ_NA = 0"
definition SZ_Z :: ud_operand_size where "SZ_Z = 1"
definition SZ_V :: ud_operand_size where "SZ_V = 2"
definition SZ_RDQ :: ud_operand_size where "SZ_RDQ = 7"
definition SZ_B :: ud_operand_size where "SZ_B = 8"
definition SZ_W :: ud_operand_size where "SZ_W = 16"
definition SZ_D :: ud_operand_size where "SZ_D = 32"
definition SZ_Q :: ud_operand_size where "SZ_Q = 64"
definition SZ_T :: ud_operand_size where "SZ_T = 80"
definition SZ_O :: ud_operand_size where "SZ_O = 128"
definition SZ_Y :: ud_operand_size where "SZ_Y = 17"
definition SZ_BD :: ud_operand_size where "SZ_BD = SZ_B * 256 + SZ_D"
definition SZ_BV :: ud_operand_size where "SZ_BV = SZ_B * 256 + SZ_V"
definition SZ_WD :: ud_operand_size where "SZ_WD = SZ_W * 256 + SZ_D"
definition SZ_WV :: ud_operand_size where "SZ_WV = SZ_W * 256 + SZ_V"
definition SZ_WY :: ud_operand_size where "SZ_WY = SZ_W * 256 + SZ_Y"
definition SZ_DY :: ud_operand_size where "SZ_DY = SZ_D * 256 + SZ_Y"
definition SZ_WO :: ud_operand_size where "SZ_WO = SZ_W * 256 + SZ_O"
definition SZ_DO :: ud_operand_size where "SZ_DO = SZ_D * 256 + SZ_O"
definition SZ_QO :: ud_operand_size where "SZ_QO = SZ_Q * 256 + SZ_O"

lemmas ud_operand_size_defs =
  SZ_NA_def SZ_Z_def SZ_V_def SZ_RDQ_def SZ_B_def SZ_W_def SZ_D_def SZ_Q_def SZ_T_def SZ_O_def
  SZ_Y_def SZ_BD_def SZ_BV_def SZ_WD_def SZ_WV_def SZ_WY_def SZ_DY_def SZ_WO_def SZ_DO_def
  SZ_QO_def

definition Mx_mem_size :: "ud_operand_size \<Rightarrow> ud_operand_size" where
  "Mx_mem_size sz = sz div 256 mod 256"

definition Mx_reg_size :: "ud_operand_size \<Rightarrow> ud_operand_size" where
  "Mx_reg_size sz = sz mod 256"

text \<open>The prefix bits of a table entry.\<close>

definition P_REXB :: "u32 \<Rightarrow> bool" where "P_REXB n = bit n 1"
definition P_INV64 :: "u32 \<Rightarrow> bool" where "P_INV64 n = bit n 4"
definition P_REXW :: "u32 \<Rightarrow> bool" where "P_REXW n = bit n 5"
definition P_DEF64 :: "u32 \<Rightarrow> bool" where "P_DEF64 n = bit n 7"
definition P_REXR :: "u32 \<Rightarrow> bool" where "P_REXR n = bit n 8"
definition P_OSO :: "u32 \<Rightarrow> bool" where "P_OSO n = bit n 9"
definition P_ASO :: "u32 \<Rightarrow> bool" where "P_ASO n = bit n 10"
definition P_REXX :: "u32 \<Rightarrow> bool" where "P_REXX n = bit n 11"
definition P_IMPADDR :: "u32 \<Rightarrow> bool" where "P_IMPADDR n = bit n 12"
definition P_SEG :: "u32 \<Rightarrow> bool" where "P_SEG n = bit n 13"
definition P_STR :: "u32 \<Rightarrow> bool" where "P_STR n = bit n 14"
definition P_STR_ZF :: "u32 \<Rightarrow> bool" where "P_STR_ZF n = bit n 15"
definition P_CAST :: "u32 \<Rightarrow> bool" where "P_CAST n = bit n 0"

definition MAX_INSN_LENGTH :: nat where "MAX_INSN_LENGTH = 15"

section \<open>Opcode tables\<close>

text \<open>Mnemonics are the codes of \<open>enum ud_mnemonic_code\<close> in \<^verbatim>\<open>itab.h\<close>; these are the ones the
  decoder and its clients name.\<close>

type_synonym ud_mnemonic_code = nat

definition UD_Iinvalid :: ud_mnemonic_code where "UD_Iinvalid = 0"
definition UD_I3dnow :: ud_mnemonic_code where "UD_I3dnow = 1"
definition UD_Inone :: ud_mnemonic_code where "UD_Inone = 2"
definition UD_Ipause :: ud_mnemonic_code where "UD_Ipause = 4"
definition UD_Icall :: ud_mnemonic_code where "UD_Icall = 30"
definition UD_Inop :: ud_mnemonic_code where "UD_Inop = 316"
definition UD_Iswapgs :: ud_mnemonic_code where "UD_Iswapgs = 500"
definition UD_Ixchg :: ud_mnemonic_code where "UD_Ixchg = 533"
definition UD_Idb :: ud_mnemonic_code where "UD_Idb = 3"
definition UD_Ibound :: ud_mnemonic_code where "UD_Ibound = 22"
definition UD_Ienter :: ud_mnemonic_code where "UD_Ienter = 105"
definition UD_Ijmp :: ud_mnemonic_code where "UD_Ijmp = 243"
definition UD_Ircl :: ud_mnemonic_code where "UD_Ircl = 428"
definition UD_Ircr :: ud_mnemonic_code where "UD_Ircr = 429"
definition UD_Irol :: ud_mnemonic_code where "UD_Irol = 430"
definition UD_Iror :: ud_mnemonic_code where "UD_Iror = 431"
definition UD_Iretf :: ud_mnemonic_code where "UD_Iretf = 441"
definition UD_Isar :: ud_mnemonic_code where "UD_Isar = 447"
definition UD_Ishl :: ud_mnemonic_code where "UD_Ishl = 448"
definition UD_Ishr :: ud_mnemonic_code where "UD_Ishr = 449"
definition UD_MAX_MNEMONIC_CODE :: ud_mnemonic_code where "UD_MAX_MNEMONIC_CODE = 648"

lemmas ud_mnemonic_defs = UD_Iinvalid_def UD_I3dnow_def UD_Inone_def UD_Ipause_def UD_Icall_def
  UD_Inop_def UD_Iswapgs_def UD_Ixchg_def UD_MAX_MNEMONIC_CODE_def UD_Idb_def UD_Ibound_def
  UD_Ienter_def UD_Ijmp_def UD_Ircl_def UD_Ircr_def UD_Irol_def UD_Iror_def UD_Iretf_def UD_Isar_def
  UD_Ishl_def UD_Ishr_def

datatype ud_table_type =
  UD_TAB__OPC_TABLE | UD_TAB__OPC_X87 | UD_TAB__OPC_MOD | UD_TAB__OPC_VEX_M | UD_TAB__OPC_VEX_P
| UD_TAB__OPC_RM | UD_TAB__OPC_VENDOR | UD_TAB__OPC_OSIZE | UD_TAB__OPC_MODE
| UD_TAB__OPC_3DNOW | UD_TAB__OPC_REG | UD_TAB__OPC_ASIZE | UD_TAB__OPC_SSE

record ud_itab_entry_operand =
  eo_type :: ud_operand_code
  eo_size :: ud_operand_size

record ud_itab_entry =
  ie_mnemonic :: ud_mnemonic_code
  ie_operand1 :: ud_itab_entry_operand
  ie_operand2 :: ud_itab_entry_operand
  ie_operand3 :: ud_itab_entry_operand
  ie_prefix :: u32

record ud_lookup_table_list_entry =
  le_table :: "u16 list"
  le_type :: ud_table_type

text \<open>The two generated arrays of \<^verbatim>\<open>itab.c\<close>, an argument of the decoder.\<close>

record ud_tables =
  ud_itab :: "ud_itab_entry list"
  ud_lookup_table_list :: "ud_lookup_table_list_entry list"

section \<open>Operands and the decoder object (types.h)\<close>

text \<open>\<open>lval\<close> is the union read as its 64-bit member; a narrower member is its low bits.\<close>

record ud_operand =
  opr_type :: ud_type
  opr_size :: nat
  opr_base :: ud_type
  opr_index :: ud_type
  opr_scale :: nat
  opr_offset :: nat
  opr_lval :: u64
  opr_oprcode :: ud_operand_code

definition zero_operand :: ud_operand where
  "zero_operand =
     \<lparr>opr_type = UD_NONE, opr_size = 0, opr_base = UD_NONE, opr_index = UD_NONE, opr_scale = 0,
      opr_offset = 0, opr_lval = 0, opr_oprcode = OP_NONE\<rparr>"

datatype ud_syntax = UD_SYN_INTEL | UD_SYN_ATT

text \<open>
  The input hook is what it will still deliver, \<open>None\<close> for the null pointer; the input buffer is
  its bytes. The assembly buffer is its text. The flags \<open>error\<close>, \<open>inp_end\<close>, \<open>br_far\<close> and
  \<open>have_modrm\<close> are booleans.
\<close>

record ud =
  inp_hook :: "u8 list option"
  inp_buf :: "u8 list option"
  inp_buf_size :: nat
  inp_buf_index :: nat
  ud_inp_curr :: u8
  inp_ctr :: nat
  inp_sess :: "u8 list"
  inp_end :: bool
  translator :: "ud_syntax option"
  insn_offset :: u64
  insn_hexcode :: string
  asm_buf :: string
  asm_buf_size :: nat
  asm_buf_fill :: nat
  sym_resolver :: "(u64 \<Rightarrow> (string \<times> int) option) option"
  dis_mode :: nat
  ud_pc :: u64
  vendor :: nat
  mnemonic :: ud_mnemonic_code
  operand0 :: ud_operand
  operand1 :: ud_operand
  operand2 :: ud_operand
  ud_error :: bool
  pfx_rex :: u8
  pfx_seg :: ud_type
  pfx_opr :: u8
  pfx_adr :: u8
  pfx_lock :: u8
  pfx_str :: u8
  pfx_rep :: u8
  pfx_repe :: u8
  pfx_repne :: u8
  opr_mode :: nat
  adr_mode :: nat
  br_far :: bool
  have_modrm :: bool
  ud_modrm :: u8
  primary_opcode :: u8
  itab_entry :: "ud_itab_entry option"
  ud_le :: "ud_lookup_table_list_entry option"

definition UD_VENDOR_AMD :: nat where "UD_VENDOR_AMD = 0"
definition UD_VENDOR_INTEL :: nat where "UD_VENDOR_INTEL = 1"
definition UD_VENDOR_ANY :: nat where "UD_VENDOR_ANY = 2"

text \<open>\<open>memset\<close> of the whole object.\<close>

definition zero_ud :: ud where
  "zero_ud =
     \<lparr>inp_hook = None, inp_buf = None, inp_buf_size = 0, inp_buf_index = 0, ud_inp_curr = 0,
      inp_ctr = 0, inp_sess = replicate 64 0, inp_end = False, translator = None, insn_offset = 0,
      insn_hexcode = [], asm_buf = [], asm_buf_size = 0, asm_buf_fill = 0,
      sym_resolver = None, dis_mode = 0, ud_pc = 0, vendor = 0, mnemonic = 0, operand0 = zero_operand, operand1 = zero_operand,
      operand2 = zero_operand, ud_error = False, pfx_rex = 0, pfx_seg = 0, pfx_opr = 0,
      pfx_adr = 0, pfx_lock = 0, pfx_str = 0, pfx_rep = 0, pfx_repe = 0, pfx_repne = 0,
      opr_mode = 0, adr_mode = 0, br_far = False, have_modrm = False, ud_modrm = 0,
      primary_opcode = 0, itab_entry = None, ud_le = None\<rparr>"

end
