(* ===== verification/Process.thy ===== *)
theory Process
  imports Shiva_Types Ud_Types "HOL-Library.Monad_Syntax"
begin

text \<open>
  The process the sources run in: its context, address space, page protections, signal handlers
  and disassembler object, and the system calls they make. What the operating system decides is
  the record \<open>os\<close>, a parameter: the answer to the n-th call of \<open>malloc\<close>, \<open>mmap\<close> and
  \<open>mprotect\<close>, the content of the files under \<open>/proc\<close>, and the ELF objects libelfmaster opens;
  \<open>os_sizeof\<close> is the size of a structure that contains structures of external headers.

  A computation that may end the process (\<open>exit\<close>, a failed assertion, a write to a page that is
  not writable, a loop that never stops) has an option type, and \<open>None\<close> is the ended process.
\<close>

section \<open>The operating system and the process\<close>

record os =
  os_malloc :: "nat \<Rightarrow> u64 \<Rightarrow> u64 option"
  os_mmap :: "nat \<Rightarrow> u64 \<Rightarrow> u64 \<Rightarrow> u32 \<Rightarrow> u32 \<Rightarrow> u64 option"
  os_mprotect :: "nat \<Rightarrow> u64 \<Rightarrow> u64 \<Rightarrow> u32 \<Rightarrow> bool"
  os_file :: "string \<Rightarrow> string option"
  os_realpath_exe :: "string option"
  os_access :: "string \<Rightarrow> bool"
  os_open_object :: "string \<Rightarrow> elfobj option"
  os_hash_slots :: nat
  os_sizeof :: "string \<Rightarrow> u64"

record proc =
  p_ctx :: shiva_ctx
  p_mem :: mem
  p_prot :: "u64 \<Rightarrow> u32"
  p_calls :: nat
  p_sigaction :: "nat \<rightharpoonup> u64"
  p_ud :: ud

text \<open>A process with nothing mapped.\<close>

definition zero_proc :: proc where
  "zero_proc = \<lparr>p_ctx = zero_ctx, p_mem = (\<lambda>_. 0), p_prot = (\<lambda>_. 0), p_calls = 0,
                p_sigaction = (\<lambda>_. None), p_ud = zero_ud\<rparr>"

text \<open>\<open>malloc\<close> and \<open>calloc\<close> of a C object whose content the model keeps as a value: only whether
  it succeeds and the address matter.\<close>

definition sys_malloc :: "os \<Rightarrow> u64 \<Rightarrow> proc \<Rightarrow> u64 option \<times> proc" where
  "sys_malloc os len p = (os_malloc os (p_calls p) len, p\<lparr>p_calls := Suc (p_calls p)\<rparr>)"

section \<open>Memory of the process\<close>

definition writable :: "(u64 \<Rightarrow> u32) \<Rightarrow> u64 \<Rightarrow> nat \<Rightarrow> bool" where
  "writable prot a n \<longleftrightarrow> (\<forall>i < n. has_flag (prot (a + of_nat i)) PROT_WRITE)"

text \<open>A \<open>memcpy\<close> to an address of the process: a byte that is not writable ends it.\<close>

definition p_write :: "u64 \<Rightarrow> u8 list \<Rightarrow> proc \<Rightarrow> proc option" where
  "p_write a bs p =
     (if writable (p_prot p) a (length bs) then Some (p\<lparr>p_mem := write_bytes (p_mem p) a bs\<rparr>)
      else None)"

definition protect :: "(u64 \<Rightarrow> u32) \<Rightarrow> u64 \<Rightarrow> u64 \<Rightarrow> u32 \<Rightarrow> u64 \<Rightarrow> u32" where
  "protect prot a len pr = (\<lambda>x. if in_region a (unat len) x then pr else prot x)"

definition sys_mprotect :: "os \<Rightarrow> u64 \<Rightarrow> u64 \<Rightarrow> u32 \<Rightarrow> proc \<Rightarrow> bool \<times> proc" where
  "sys_mprotect os a len pr p =
     (let ok = os_mprotect os (p_calls p) a len pr;
          p1 = p\<lparr>p_calls := Suc (p_calls p)\<rparr>
      in (ok, if ok then p1\<lparr>p_prot := protect (p_prot p) a len pr\<rparr> else p1))"

text \<open>The length in memory of a mapping: whole pages.\<close>

definition map_pages :: "u64 \<Rightarrow> nat" where
  "map_pages len = (unat len + 4095) div 4096 * 4096"

text \<open>\<open>mmap\<close>; \<open>content\<close> is what the mapped file holds from its offset on (\<open>None\<close> for an
  anonymous mapping), and what lies behind the end of the file reads as zero.\<close>

definition sys_mmap ::
  "os \<Rightarrow> u64 \<Rightarrow> u64 \<Rightarrow> u32 \<Rightarrow> u32 \<Rightarrow> (u64 \<Rightarrow> u8 option) option \<Rightarrow> proc \<Rightarrow> u64 option \<times> proc" where
  "sys_mmap os a len pr fl content p =
     (let p1 = p\<lparr>p_calls := Suc (p_calls p)\<rparr>
      in (case os_mmap os (p_calls p) a len pr fl of
            None \<Rightarrow> (None, p1)
          | Some b \<Rightarrow>
              (Some b,
               p1\<lparr>p_mem := (\<lambda>x. if in_region b (map_pages len) x
                               then (case content of
                                       None \<Rightarrow> 0
                                     | Some f \<Rightarrow> (case f (x - b) of None \<Rightarrow> 0 | Some v \<Rightarrow> v))
                               else p_mem p x),
                  p_prot := (\<lambda>x. if in_region b (map_pages len) x then pr else p_prot p x)\<rparr>)))"

text \<open>\<open>munmap\<close> of an address that is not at a page start fails and does nothing.\<close>

definition sys_munmap :: "u64 \<Rightarrow> u64 \<Rightarrow> proc \<Rightarrow> proc" where
  "sys_munmap a len p =
     (if ELF_PAGEOFFSET a \<noteq> 0 then p
      else p\<lparr>p_prot := (\<lambda>x. if in_region a (map_pages len) x then 0 else p_prot p x)\<rparr>)"

section \<open>Strings and pointer arrays in memory\<close>

text \<open>The bytes of the string at an address, without its NUL.\<close>

partial_function (option) cstr :: "mem \<Rightarrow> u64 \<Rightarrow> u8 list option" where
  "cstr m a = (if m a = 0 then Some [] else do { s \<leftarrow> cstr m (a + 1); Some (m a # s) })"

text \<open>Bytes and characters.\<close>

definition byte_char :: "u8 \<Rightarrow> char" where "byte_char b = char_of (unat b)"
definition char_byte :: "char \<Rightarrow> u8" where "char_byte c = of_nat (of_char c)"

text \<open>The number of pointers in front of the NULL pointer that ends an array.\<close>

partial_function (option) ptr_count :: "mem \<Rightarrow> u64 \<Rightarrow> nat option" where
  "ptr_count m a = (if load64 m a = 0 then Some 0 else do { n \<leftarrow> ptr_count m (a + 8); Some (Suc n) })"

definition string_at :: "mem \<Rightarrow> u64 \<Rightarrow> u8 list \<Rightarrow> bool" where
  "string_at m a s \<longleftrightarrow> 0 \<notin> set s \<and> read_bytes m a (length s) = s \<and> m (a + of_nat (length s)) = 0"

fun ptrs_at :: "mem \<Rightarrow> u64 \<Rightarrow> u64 list \<Rightarrow> bool" where
  "ptrs_at m a [] \<longleftrightarrow> load64 m a = 0"
| "ptrs_at m a (v # vs) \<longleftrightarrow> load64 m a = v \<and> v \<noteq> 0 \<and> ptrs_at m (a + 8) vs"

lemma read_bytes_Suc: "read_bytes m a (Suc n) = m a # read_bytes m (a + 1) n"
proof (rule nth_equalityI)
  fix i assume "i < length (read_bytes m a (Suc n))"
  then show "read_bytes m a (Suc n) ! i = (m a # read_bytes m (a + 1) n) ! i"
    by (cases i) (simp_all add: add.assoc)
qed simp

lemma ptr_step: "(a :: u64) + 8 * of_nat (Suc i) = (a + 8) + 8 * of_nat i"
  by (simp add: algebra_simps)

lemma cstr_string_at: "string_at m a s \<Longrightarrow> cstr m a = Some s"
proof (induction s arbitrary: a)
  case Nil
  then show ?case by (simp add: string_at_def cstr.simps)
next
  case (Cons c s)
  then have "m a = c" "c \<noteq> 0" "read_bytes m (a + 1) (length s) = s" "m (a + 1 + of_nat (length s)) = 0"
    "0 \<notin> set s"
    by (auto simp: string_at_def read_bytes_Suc algebra_simps)
  with Cons.IH [of "a + 1"] show ?case by (simp add: cstr.simps [of m a] string_at_def)
qed

lemma ptr_count_ptrs_at: "ptrs_at m a vs \<Longrightarrow> ptr_count m a = Some (length vs)"
  by (induction vs arbitrary: a) (simp_all add: ptr_count.simps)

lemma ptrs_at_nth: "ptrs_at m a vs \<Longrightarrow> i < length vs \<Longrightarrow> load64 m (a + 8 * of_nat i) = vs ! i"
proof (induction vs arbitrary: a i)
  case (Cons v vs)
  then show ?case by (cases i) (auto simp: ptr_step simp del: of_nat_Suc)
qed simp

lemma ptrs_at_end: "ptrs_at m a vs \<Longrightarrow> load64 m (a + 8 * of_nat (length vs)) = 0"
  by (induction vs arbitrary: a) (auto simp: ptr_step simp del: of_nat_Suc)

section \<open>Reading consecutive bytes\<close>

text \<open>A read of \<open>n\<close> bytes through a source that may not have a byte; it needs all of them.\<close>

fun read_n :: "(u64 \<Rightarrow> u8 option) \<Rightarrow> u64 \<Rightarrow> nat \<Rightarrow> u8 list option" where
  "read_n rd a 0 = Some []"
| "read_n rd a (Suc n) = do { b \<leftarrow> rd a; bs \<leftarrow> read_n rd (a + 1) n; Some (b # bs) }"

lemma read_n_length: "read_n rd a n = Some bs \<Longrightarrow> length bs = n"
  by (induction n arbitrary: a bs) (auto split: Option.bind_split_asm)

lemma read_n_split:
  "read_n rd a (n + k) = Some bs \<Longrightarrow>
     read_n rd a n = Some (take n bs) \<and> read_n rd (a + of_nat n) k = Some (drop n bs)"
proof (induction n arbitrary: a bs)
  case (Suc n)
  from Suc.prems obtain b cs where "rd a = Some b" "read_n rd (a + 1) (n + k) = Some cs" "bs = b # cs"
    by (auto split: Option.bind_split_asm)
  with Suc.IH [of "a + 1" cs] show ?case by (simp add: add.assoc)
qed simp

section \<open>Protection and writing\<close>

definition malloc_ok :: "os \<Rightarrow> bool" where
  "malloc_ok os \<longleftrightarrow> (\<forall>n len. os_malloc os n len \<noteq> None)"

lemma sys_malloc_ok: "malloc_ok os \<Longrightarrow> \<exists>a. sys_malloc os len p = (Some a, p\<lparr>p_calls := Suc (p_calls p)\<rparr>)"
  by (auto simp: sys_malloc_def malloc_ok_def)

lemma sys_malloc_frame [simp]:
  "p_mem (snd (sys_malloc os n p)) = p_mem p" "p_prot (snd (sys_malloc os n p)) = p_prot p"
  "p_ctx (snd (sys_malloc os n p)) = p_ctx p" "p_ud (snd (sys_malloc os n p)) = p_ud p"
  "p_sigaction (snd (sys_malloc os n p)) = p_sigaction p"
  by (simp_all add: sys_malloc_def)

lemma sys_mprotect_frame [simp]:
  "p_mem (snd (sys_mprotect os a n r p)) = p_mem p"
  "p_ctx (snd (sys_mprotect os a n r p)) = p_ctx p" "p_ud (snd (sys_mprotect os a n r p)) = p_ud p"
  "p_sigaction (snd (sys_mprotect os a n r p)) = p_sigaction p"
  by (simp_all add: sys_mprotect_def Let_def)

lemma p_write_Some [simp]:
  "p_write a bs p = Some p' \<longleftrightarrow>
     writable (p_prot p) a (length bs) \<and> p' = p\<lparr>p_mem := write_bytes (p_mem p) a bs\<rparr>"
  by (auto simp: p_write_def)

lemma writable_protect:
  assumes "\<forall>i < n. in_region a (unat len) (b + of_nat i)" and "has_flag pr PROT_WRITE"
  shows "writable (protect prot a len pr) b n"
  using assms by (simp add: writable_def protect_def)

lemma writable_split:
  "writable pr a (n + k) \<longleftrightarrow> writable pr a n \<and> writable pr (a + of_nat n) k"
proof
  assume w: "writable pr a (n + k)"
  then have "has_flag (pr (a + of_nat (n + i))) PROT_WRITE" if "i < k" for i
    using that unfolding writable_def by (simp del: of_nat_add)
  with w show "writable pr a n \<and> writable pr (a + of_nat n) k"
    by (simp add: writable_def add.assoc)
next
  assume w: "writable pr a n \<and> writable pr (a + of_nat n) k"
  have "has_flag (pr (a + of_nat i)) PROT_WRITE" if "i < n + k" for i
  proof (cases "i < n")
    case False
    with that have "i - n < k" by auto
    with w have "has_flag (pr (a + of_nat n + of_nat (i - n))) PROT_WRITE" by (simp add: writable_def)
    moreover have "a + of_nat n + of_nat (i - n) = a + of_nat i"
      using False by (simp add: of_nat_diff)
    ultimately show ?thesis by simp
  qed (use w in \<open>simp add: writable_def\<close>)
  then show "writable pr a (n + k)" by (simp add: writable_def)
qed

lemma protect_protect [simp]: "protect (protect prot a len x) a len y = protect prot a len y"
  by (auto simp: protect_def)

lemma has_flag_or [simp]:
  assumes "f \<noteq> 0"
  shows "has_flag (v OR f) f"
proof -
  have "(v OR f) AND f = f" by (rule bit_word_eqI) (auto simp: bit_simps)
  with assms show ?thesis by (simp add: has_flag_def)
qed

section \<open>Tables of pairs\<close>

text \<open>An auxiliary vector or a dynamic section in memory: pairs of a tag and a value, ended by a
  zero tag.\<close>

fun pairs_at :: "mem \<Rightarrow> u64 \<Rightarrow> (u64 \<times> u64) list \<Rightarrow> bool" where
  "pairs_at m a [] \<longleftrightarrow> load64 m a = 0"
| "pairs_at m a (e # es) \<longleftrightarrow>
     load64 m a = fst e \<and> fst e \<noteq> 0 \<and> load64 m (a + 8) = snd e \<and> pairs_at m (a + 16) es"

lemma pair_step: "(a :: u64) + 16 * of_nat (Suc i) = (a + 16) + 16 * of_nat i"
  by (simp add: algebra_simps)

text \<open>The table by index, the form in which writes into it are followed.\<close>

lemma pairs_at_iff:
  "pairs_at m a es \<longleftrightarrow>
     (\<forall>i < length es. load64 m (a + 16 * of_nat i) = fst (es ! i) \<and> fst (es ! i) \<noteq> 0 \<and>
        load64 m (a + 16 * of_nat i + 8) = snd (es ! i)) \<and>
     load64 m (a + 16 * of_nat (length es)) = 0"
proof (induction es arbitrary: a)
  case (Cons e es)
  have "(\<forall>i < length (e # es). P i) \<longleftrightarrow> P 0 \<and> (\<forall>i < length es. P (Suc i))" for P
    by (simp add: All_less_Suc2)
  with Cons show ?case by (simp only: pair_step pairs_at.simps nth_Cons_Suc list.size add_Suc_right
        nth_Cons_0 of_nat_0 mult_zero_right add_0_right conj_assoc) auto
qed simp

lemma load64_store64_nat:
  assumes "i + 8 \<le> j \<or> j + 8 \<le> i" and "i + 8 \<le> 2 ^ 64" and "j + 8 \<le> 2 ^ 64"
  shows "load64 (store64 m (a + of_nat i) v) (a + of_nat j) = load64 m (a + of_nat j)"
proof -
  have u: "unat (of_nat i :: u64) = i" "unat (of_nat j :: u64) = j"
    using assms(2,3) by (simp_all add: unat_of_nat take_bit_nat_eq_self)
  have "separate (a + of_nat i) 8 (a + of_nat j) 8"
    using assms separate_offsets [of "of_nat i" 8 "of_nat j" 8 a]
      separate_offsets [of "of_nat j" 8 "of_nat i" 8 a]
    by (auto simp: u separate_def)
  then show ?thesis by (rule load64_store64_separate)
qed

text \<open>Storing a new value into one pair of a table.\<close>

lemma pairs_at_store:
  assumes "pairs_at m a es" and "i < length es" and "length es < 2 ^ 32"
  shows "pairs_at (store64 m (a + 16 * of_nat i + 8) v) a (es[i := (fst (es ! i), v)])"
proof -
  let ?m = "store64 m (a + 16 * of_nat i + 8) v"
  have m: "?m = store64 m (a + of_nat (16 * i + 8)) v" by (simp add: add.assoc)
  have keep: "load64 ?m (a + of_nat j) = load64 m (a + of_nat j)"
    if "j + 8 \<le> 16 * i + 8 \<or> 16 * i + 16 \<le> j" and "j \<le> 16 * length es + 8" for j
    unfolding m using that assms(2,3) by (intro load64_store64_nat) auto
  have at: "load64 ?m (a + 16 * of_nat j) = load64 m (a + 16 * of_nat j)" if "j \<le> length es" for j
    using keep [of "16 * j"] that by (cases "j \<le> i") auto
  have at8: "load64 ?m (a + 16 * of_nat j + 8) = (if j = i then v else load64 m (a + 16 * of_nat j + 8))"
    if "j < length es" for j
    using keep [of "16 * j + 8"] that
    by (cases "j < i") (auto simp: load64_store64 add.assoc)
  show ?thesis
    using assms(1,2) at at8 by (auto simp: pairs_at_iff nth_list_update)
qed

end
