(* ===== verification/Util.thy ===== *)
theory Util
  imports Process "HOL-Library.Signed_Division"
begin

text \<open>
  \<^verbatim>\<open>shiva_util.c\<close>, \<^verbatim>\<open>shiva_error.c\<close> and \<^verbatim>\<open>shiva_signal.c\<close>: allocation that never fails to
  return, formatted duplicates, number printing with its exclusive-or swap, and error objects.
  A formatted string is an argument of the functions that format: the text \<open>vsnprintf\<close> would
  print into a buffer of unlimited size.
\<close>

section \<open>shiva\_util.c\<close>

definition shiva_malloc :: "os \<Rightarrow> u64 \<Rightarrow> proc \<Rightarrow> (u64 \<times> proc) option" where
  "shiva_malloc os len p =
     (case sys_malloc os len p of (None, p1) \<Rightarrow> None | (Some a, p1) \<Rightarrow> Some (a, p1))"

definition shiva_strdup :: "os \<Rightarrow> string \<Rightarrow> proc \<Rightarrow> (u64 \<times> string \<times> proc) option" where
  "shiva_strdup os s p =
     (case sys_malloc os (of_nat (length s) + 1) p of
        (None, p1) \<Rightarrow> None
      | (Some a, p1) \<Rightarrow> Some (a, s, p1))"

definition snprintf_text :: "nat \<Rightarrow> string \<Rightarrow> string" where
  "snprintf_text sz s = take (sz - 1) s"

definition shiva_xfmtstrdup :: "os \<Rightarrow> string \<Rightarrow> proc \<Rightarrow> (u64 \<times> string \<times> proc) option" where
  "shiva_xfmtstrdup os text p = shiva_strdup os (snprintf_text 512 text) p"

text \<open>The digits, last one first; C's \<open>%\<close> and \<open>/\<close> truncate towards zero.\<close>

function itoa_digits :: "int \<Rightarrow> u8 list" where
  "itoa_digits x =
     (let d = word_of_int (x smod 10 + 48); y = x sdiv 10
      in if y = 0 then [d] else d # itoa_digits y)"
  by pat_completeness auto
termination
proof (relation "measure (\<lambda>x. nat \<bar>x\<bar>)")
  fix x d y :: int assume y: "y = x sdiv 10" "y \<noteq> 0"
  then have "x \<noteq> 0" by (auto simp: signed_divide_int_def)
  with y show "(y, x) \<in> measure (\<lambda>x. nat \<bar>x\<bar>)"
    by (auto simp: signed_divide_int_def sgn_if abs_mult div_less_dividend)
qed simp

declare itoa_digits.simps [simp del]

definition xor_swap :: "nat \<Rightarrow> nat \<Rightarrow> u8 list \<Rightarrow> u8 list" where
  "xor_swap j k t0 =
     (let t1 = t0[j := t0 ! j XOR t0 ! k];
          t2 = t1[k := t1 ! k XOR t1 ! j]
      in t2[j := t2 ! j XOR t2 ! k])"

definition shiva_itoa :: "int \<Rightarrow> u8 list" where
  "shiva_itoa x =
     (let t = itoa_digits x; i = length t
      in fold (\<lambda>j. xor_swap j (i - j - 1)) [0..<i div 2] t)"

section \<open>shiva\_error.c and shiva\_signal.c\<close>

record shiva_error =
  err_string :: string
  err_errno :: u32

definition SHIVA_TRACE_MAX_ERROR_STRLEN :: nat where "SHIVA_TRACE_MAX_ERROR_STRLEN = 4096"

text \<open>\<open>None\<close> is the null pointer.\<close>

definition shiva_error_set :: "shiva_error option \<Rightarrow> string \<Rightarrow> u32 \<Rightarrow> bool \<times> shiva_error option" where
  "shiva_error_set error text errno =
     (case error of
        None \<Rightarrow> (False, None)
      | Some e \<Rightarrow>
          (True, Some (e\<lparr>err_string := snprintf_text SHIVA_TRACE_MAX_ERROR_STRLEN text,
                         err_errno := errno\<rparr>)))"

definition shiva_error_msg :: "shiva_error \<Rightarrow> string" where
  "shiva_error_msg e = err_string e"

text \<open>The handler prints a line and leaves the process.\<close>

definition shiva_sighandle :: "nat \<Rightarrow> proc \<Rightarrow> unit option" where
  "shiva_sighandle sig p = None"

section \<open>The exclusive-or reversal\<close>

lemma shiva_malloc_ok:
  "malloc_ok os \<Longrightarrow> \<exists>a. shiva_malloc os len p = Some (a, p\<lparr>p_calls := Suc (p_calls p)\<rparr>)"
  using sys_malloc_ok [of os len p] by (auto simp: shiva_malloc_def)

lemma xor_swap_swap:
  assumes "j < length t" and "k < length t" and "j \<noteq> k"
  shows "xor_swap j k t = t[j := t ! k, k := t ! j]"
proof -
  have "(a XOR b) XOR (b XOR (a XOR b)) = b" "b XOR (a XOR b) = a" for a b :: u8
    by (simp_all add: xor.left_commute xor.commute)
  with assms show ?thesis
    by (simp add: xor_swap_def Let_def list_update_swap)
qed

lemma length_xor_swap [simp]: "length (xor_swap j k t) = length t"
  by (simp add: xor_swap_def Let_def)

lemma length_fold_xor_swap [simp]: "length (fold (\<lambda>j. xor_swap j (f j)) js t) = length t"
  by (induction js arbitrary: t) simp_all

lemma xor_swap_fold:
  assumes "n \<le> length t div 2" and "k < length t"
  shows "fold (\<lambda>j. xor_swap j (length t - j - 1)) [0..<n] t ! k =
           (if k < n \<or> length t - n \<le> k then t ! (length t - k - 1) else t ! k)"
  using assms
proof (induction n arbitrary: k)
  case 0
  then show ?case by simp
next
  case (Suc n)
  let ?f = "fold (\<lambda>j. xor_swap j (length t - j - 1)) [0..<n] t"
  have n: "n \<le> length t div 2" "n < length t - n - 1" using Suc.prems by auto
  have len: "length ?f = length t" by (rule length_fold_xor_swap)
  have a: "?f ! n = t ! n" using Suc.IH [OF n(1), of n] n by auto
  have b: "?f ! (length t - n - 1) = t ! (length t - n - 1)"
    using Suc.IH [OF n(1), of "length t - n - 1"] n by auto
  have step: "fold (\<lambda>j. xor_swap j (length t - j - 1)) [0..<Suc n] t =
      ?f[n := t ! (length t - n - 1), length t - n - 1 := t ! n]"
    using n len a b xor_swap_swap [of n ?f "length t - n - 1"] by simp
  have kcase: "?f ! k = (if k < n \<or> length t - n \<le> k then t ! (length t - k - 1) else t ! k)"
    using Suc.IH [OF n(1), of k] Suc.prems by auto
  show ?case
    unfolding step using n len Suc.prems kcase by (auto simp: nth_list_update)
qed

lemma xor_reverse: "fold (\<lambda>j. xor_swap j (length t - j - 1)) [0..<length t div 2] t = rev t"
proof (cases "t = []")
  case False
  show ?thesis
  proof (rule nth_equalityI)
    show len: "length (fold (\<lambda>j. xor_swap j (length t - j - 1)) [0..<length t div 2] t) = length (rev t)"
      by simp
    fix k assume "k < length (fold (\<lambda>j. xor_swap j (length t - j - 1)) [0..<length t div 2] t)"
    then have k: "k < length t" using len by simp
    then have "k < length t div 2 \<or> length t - length t div 2 \<le> k \<or> length t - k - 1 = k" by arith
    then show "fold (\<lambda>j. xor_swap j (length t - j - 1)) [0..<length t div 2] t ! k = rev t ! k"
      using xor_swap_fold [of "length t div 2" t k] k by (auto simp: rev_nth)
  qed
qed simp

lemma shiva_itoa_rev: "shiva_itoa x = rev (itoa_digits x)"
  unfolding shiva_itoa_def Let_def by (rule xor_reverse)

lemma rev_itoa_digits:
  "map byte_char (rev (itoa_digits (int n))) = show_base 10 n"
proof (induction n rule: less_induct)
  case (less n)
  have d: "(int n) sdiv 10 = int (n div 10)" "(int n) smod 10 = int (n mod 10)"
    by (simp_all add: signed_divide_int_def signed_modulo_int_def sgn_if zdiv_int zmod_int
        minus_mult_div_eq_mod)
  have c: "byte_char (word_of_int (int (n mod 10) + 48)) = digit_char (n mod 10)"
  proof -
    have "word_of_int (int (n mod 10) + 48) = (of_nat (n mod 10 + 48) :: u8)" by simp
    moreover have "n mod 10 < 10" by simp
    ultimately show ?thesis
      by (simp add: digit_char_def byte_char_def unat_of_nat take_bit_nat_eq_self add.commute
          flip: of_nat_add)
  qed
  show ?case
  proof (cases "n < 10")
    case True
    then show ?thesis
      using c by (simp add: itoa_digits.simps [of "int n"] show_base.simps [of 10 n] d Let_def)
  next
    case False
    then have "n div 10 \<noteq> 0" "n div 10 < n" by auto
    with False less.IH [of "n div 10"] c show ?thesis
      by (simp add: itoa_digits.simps [of "int n"] show_base.simps [of 10 n] d Let_def)
  qed
qed

text \<open>C40. Printing a non-negative number, extracting its digits last one first and swapping them
  in place with exclusive or, gives its decimal representation.\<close>

theorem shiva_itoa_decimal: "map byte_char (shiva_itoa (int n)) = show_base 10 n"
  by (simp only: shiva_itoa_rev rev_itoa_digits)

text \<open>For a single-digit negative number the text is one character without a sign, the one that
  many places in front of \<open>0\<close> in the character table.\<close>

theorem shiva_itoa_negative:
  assumes "0 < n" and "n < 10"
  shows "shiva_itoa (- int n) = [of_nat (48 - n)]"
proof -
  have "(- int n) sdiv 10 = 0" "(- int n) smod 10 = - int n"
    using assms by (simp_all add: signed_divide_int_def signed_modulo_int_def)
  then show ?thesis
    using assms by (simp add: shiva_itoa_rev itoa_digits.simps Let_def of_nat_diff)
qed

theorem shiva_itoa_negative_witness:
  "0 < (5::nat) \<and> (5::nat) < 10 \<and> shiva_itoa (- int 5) = [of_nat (48 - 5)]"
  using shiva_itoa_negative [of 5] by simp

end
