(* ===== verification/Maps.thy ===== *)
theory Maps
  imports Util
begin

text \<open>
  The memory map list, \<^verbatim>\<open>src/reference/shiva-source/shiva_maps.c\<close>: reading
  \<^verbatim>\<open>/proc/self/maps\<close> into \<open>mmap_tqlist\<close>, the iterator over that list, and the questions
  the trace API and the linker ask it.
\<close>

section \<open>Reading /proc/self/maps\<close>

text \<open>
  The operating system gives the content of the file, \<open>None\<close> when \<open>fopen\<close> fails. For the base address
  \<open>Inl ()\<close> is a process that died (a NULL pointer that is dereferenced) and \<open>Inr None\<close> the return value
  \<open>false\<close>.
\<close>

definition proc_maps :: "os \<Rightarrow> string option" where
  "proc_maps os = os_file os ''/proc/self/maps''"

fun maps_get_base_lines :: "string \<Rightarrow> string list \<Rightarrow> unit + u64 option" where
  "maps_get_base_lines path [] = Inr None"
| "maps_get_base_lines path (buf # bufs) =
     (if strstr buf path = None then maps_get_base_lines path bufs
      else if strchr buf (CHR ''-'') = None then Inl ()
      else Inr (Some (strtoul 16 (cut_at buf (CHR ''-'')))))"

definition shiva_maps_get_base :: "shiva_ctx \<Rightarrow> string option \<Rightarrow> unit + u64 option" where
  "shiva_maps_get_base ctx file =
     (case file of
        None \<Rightarrow> Inr None
      | Some content \<Rightarrow> maps_get_base_lines (ctx_path ctx) (fgets_all content))"

text \<open>The permission field: every character up to the next blank; without one the scan leaves
  the buffer.\<close>

fun maps_perms :: "string \<Rightarrow> u32 \<times> u32 \<Rightarrow> (u32 \<times> u32) option" where
  "maps_perms [] pm = None"
| "maps_perms (c # cs) (prot, mapping) =
     (if c = CHR '' '' then Some (prot, mapping)
      else if c = CHR ''r'' then maps_perms cs (prot OR PROT_READ, mapping)
      else if c = CHR ''w'' then maps_perms cs (prot OR PROT_WRITE, mapping)
      else if c = CHR ''x'' then maps_perms cs (prot OR PROT_EXEC, MAP_PRIVATE)
      else if c = CHR ''p'' then maps_perms cs (prot, MAP_PRIVATE)
      else if c = CHR ''s'' then maps_perms cs (prot, MAP_SHARED)
      else maps_perms cs (prot, mapping))"

text \<open>The class of a mapping; \<open>entry\<close> was zeroed, and zero is \<open>SHIVA_MMAP_TYPE_HEAP\<close>.\<close>

definition maps_type :: "string \<Rightarrow> shiva_mmap_type" where
  "maps_type buf =
     (case strrchr buf (CHR ''/'') of
        Some p \<Rightarrow> if strncmp_eq 5 (tl p) ''shiva'' then SHIVA_MMAP_TYPE_SHIVA
                  else SHIVA_MMAP_TYPE_HEAP
      | None \<Rightarrow>
          if strstr buf ''[heap]'' \<noteq> None then SHIVA_MMAP_TYPE_HEAP
          else if strstr buf ''[stack]'' \<noteq> None then SHIVA_MMAP_TYPE_STACK
          else if strstr buf ''[vdso]'' \<noteq> None then SHIVA_MMAP_TYPE_VDSO
          else SHIVA_MMAP_TYPE_MISC)"

definition maps_is_debugger :: "string \<Rightarrow> bool" where
  "maps_is_debugger buf =
     (case strrchr buf (CHR ''/'') of None \<Rightarrow> False | Some p \<Rightarrow> strncmp_eq 5 (tl p) ''shiva'')"

text \<open>One line of the file; \<open>None\<close> where one of the assertions fails and the process aborts.\<close>

definition maps_parse_line :: "string \<Rightarrow> shiva_mmap_entry option" where
  "maps_parse_line buf =
     (case strchr buf (CHR ''-'') of
        None \<Rightarrow> None
      | Some p \<Rightarrow>
          (let base = strtoul 16 (cut_at buf (CHR ''-''));
               stop = strtoul 16 (tl p)
           in if stop \<le> base then None
              else (case strchr (tl p) (CHR '' '') of
                      None \<Rightarrow> None
                    | Some q \<Rightarrow>
                        (case maps_perms (tl q) (0, 0) of
                           None \<Rightarrow> None
                         | Some (prot, mapping) \<Rightarrow>
                             Some \<lparr>map_base = base, map_len = stop - base, map_prot = prot,
                                   map_mapping = mapping, mmap_type = maps_type buf,
                                   debugger_mapping = maps_is_debugger buf\<rparr>))))"

text \<open>The path of the debugger, taken from the first line of its own mappings that contains
  the literal the code looks for. \<open>None\<close> is the exit of a failed \<open>shiva_malloc\<close>.\<close>

definition maps_shiva_path :: "os \<Rightarrow> string \<Rightarrow> proc \<Rightarrow> proc option" where
  "maps_shiva_path os buf p =
     (if maps_is_debugger buf \<and> strstr buf ''r----'' \<noteq> None \<and> ctx_shiva_path (p_ctx p) = None
      then do {
        (a, p1) \<leftarrow> shiva_malloc os (of_nat PATH_MAX + 1) p;
        Some (p1\<lparr>p_ctx := (p_ctx p1)\<lparr>ctx_shiva_path :=
          map_option (takeWhile (\<lambda>c. c \<noteq> newline)) (strchr buf (CHR ''/''))\<rparr>\<rparr>)
      }
      else Some p)"

definition MMAP_ENTRY_SIZE :: u64 where
  "MMAP_ENTRY_SIZE = 48"

fun maps_build_lines :: "os \<Rightarrow> string list \<Rightarrow> proc \<Rightarrow> proc option" where
  "maps_build_lines os [] p = Some p"
| "maps_build_lines os (buf # bufs) p = do {
     (a, p1) \<leftarrow> shiva_malloc os MMAP_ENTRY_SIZE p;
     p2 \<leftarrow> maps_shiva_path os buf p1;
     entry \<leftarrow> maps_parse_line buf;
     maps_build_lines os bufs (p2\<lparr>p_ctx := (p_ctx p2)\<lparr>mmap_tqlist := mmap_tqlist (p_ctx p2) @ [entry]\<rparr>\<rparr>)
   }"

text \<open>\<open>None\<close> is a process that ended, by a failed assertion or a failed allocation, otherwise the returned
  boolean.\<close>

definition shiva_maps_build_list :: "os \<Rightarrow> proc \<Rightarrow> (bool \<times> proc) option" where
  "shiva_maps_build_list os p =
     (if mmap_tqlist (p_ctx p) \<noteq> [] then Some (False, p)
      else let p1 = p\<lparr>p_ctx := (p_ctx p)\<lparr>mmap_tqlist := []\<rparr>\<rparr> in
        (case proc_maps os of
           None \<Rightarrow> Some (False, p1)
         | Some content \<Rightarrow> do {
             p2 \<leftarrow> maps_build_lines os (fgets_all content) p1;
             Some (True, p2)
           }))"

section \<open>The iterator and the questions\<close>

record shiva_maps_iterator =
  mi_current :: "shiva_mmap_entry list"

definition shiva_maps_iterator_init :: "shiva_ctx \<Rightarrow> shiva_maps_iterator" where
  "shiva_maps_iterator_init ctx = \<lparr>mi_current = mmap_tqlist ctx\<rparr>"

definition shiva_maps_iterator_next ::
  "shiva_maps_iterator \<Rightarrow> shiva_iterator_res \<times> shiva_mmap_entry option \<times> shiva_maps_iterator" where
  "shiva_maps_iterator_next iter =
     (case mi_current iter of
        [] \<Rightarrow> (SHIVA_ITER_DONE, None, iter)
      | e # es \<Rightarrow> (SHIVA_ITER_OK, Some e, iter\<lparr>mi_current := es\<rparr>))"

text \<open>The form in which the loops consume it.\<close>

definition maps_nxt :: "shiva_maps_iterator \<Rightarrow> (shiva_mmap_entry \<times> shiva_maps_iterator) option" where
  "maps_nxt iter =
     (case shiva_maps_iterator_next iter of
        (SHIVA_ITER_OK, Some e, iter') \<Rightarrow> Some (e, iter')
      | _ \<Rightarrow> None)"

definition addr_in_entry :: "u64 \<Rightarrow> shiva_mmap_entry \<Rightarrow> bool" where
  "addr_in_entry addr e \<longleftrightarrow> map_base e \<le> addr \<and> addr < map_base e + map_len e"

fun maps_validate :: "u64 \<Rightarrow> shiva_mmap_entry list \<Rightarrow> bool" where
  "maps_validate addr [] = False"
| "maps_validate addr (e # es) =
     (if debugger_mapping e then maps_validate addr es
      else if map_base e \<le> addr \<and> addr < map_base e + map_len e then True
      else maps_validate addr es)"

definition shiva_maps_validate_addr :: "shiva_ctx \<Rightarrow> u64 \<Rightarrow> bool" where
  "shiva_maps_validate_addr ctx addr = maps_validate addr (mmap_tqlist ctx)"

definition shiva_maps_prot_by_addr :: "shiva_ctx \<Rightarrow> u64 \<Rightarrow> u32 option option" where
  "shiva_maps_prot_by_addr ctx addr =
     map_option (map_option map_prot)
       (iter_find maps_nxt (addr_in_entry addr) (shiva_maps_iterator_init ctx))"

section \<open>The iterator meets its contract\<close>

lemma maps_nxt_simps [simp]:
  "mi_current it = [] \<Longrightarrow> maps_nxt it = None"
  "mi_current it = e # es \<Longrightarrow> maps_nxt it = Some (e, it\<lparr>mi_current := es\<rparr>)"
  by (simp_all add: maps_nxt_def shiva_maps_iterator_next_def)

interpretation maps_it: list_iterator maps_nxt mi_current
  by unfold_locales auto

lemma maps_validate_iff:
  "maps_validate addr es \<longleftrightarrow> (\<exists>e \<in> set es. \<not> debugger_mapping e \<and> addr_in_entry addr e)"
  by (induction es) (auto simp: addr_in_entry_def)

section \<open>What the kernel prints and what is read back\<close>

text \<open>A line of the file as the kernel formats it: \<open>start-end rwxp rest\<close>, the bounds with at least eight
  digits.\<close>

record proc_region =
  pr_start :: nat
  pr_stop :: nat
  pr_r :: bool
  pr_w :: bool
  pr_x :: bool
  pr_shared :: bool
  pr_rest :: string

definition proc_perms :: "proc_region \<Rightarrow> string" where
  "proc_perms k =
     [if pr_r k then CHR ''r'' else CHR ''-'', if pr_w k then CHR ''w'' else CHR ''-'',
      if pr_x k then CHR ''x'' else CHR ''-'', if pr_shared k then CHR ''s'' else CHR ''p'']"

definition proc_bound :: "nat \<Rightarrow> string" where
  "proc_bound n = pad_zero 8 (show_base 16 n)"

definition proc_line :: "proc_region \<Rightarrow> string" where
  "proc_line k =
     proc_bound (pr_start k) @ CHR ''-'' # proc_bound (pr_stop k) @ CHR '' '' #
     proc_perms k @ CHR '' '' # pr_rest k"

definition proc_prot :: "proc_region \<Rightarrow> u32" where
  "proc_prot k = (if pr_r k then PROT_READ else 0) OR (if pr_w k then PROT_WRITE else 0) OR
                 (if pr_x k then PROT_EXEC else 0)"

definition proc_entry :: "proc_region \<Rightarrow> shiva_mmap_entry" where
  "proc_entry k =
     \<lparr>map_base = of_nat (pr_start k), map_len = of_nat (pr_stop k - pr_start k),
      map_prot = proc_prot k, map_mapping = (if pr_shared k then MAP_SHARED else MAP_PRIVATE),
      mmap_type = maps_type (proc_line k @ [newline]),
      debugger_mapping = maps_is_debugger (proc_line k @ [newline])\<rparr>"

text \<open>A region the kernel can print: non-empty, in the address space, on one short line.\<close>

definition proc_region_ok :: "proc_region \<Rightarrow> bool" where
  "proc_region_ok k \<longleftrightarrow>
     pr_start k < pr_stop k \<and> pr_stop k < 2 ^ 64 \<and> newline \<notin> set (pr_rest k) \<and>
     length (proc_line k) < PATH_MAX - 1"

definition proc_file :: "proc_region list \<Rightarrow> string" where
  "proc_file ks = concat (map (\<lambda>k. proc_line k @ [newline]) ks)"

lemma hex_digits_bound: "hex_digits (proc_bound n)"
  by (simp add: proc_bound_def pad_zero_def hex_digits_zeros hex_digits_show)

lemma show_hex_chars:
  assumes "c \<in> set (proc_bound n)"
  shows "c \<noteq> CHR ''-''" and "c \<noteq> CHR '' ''" and "c \<noteq> newline"
proof -
  obtain d where d: "d < 16" "c = digit_char d"
    using hex_digits_bound [of n] assms by (auto simp: hex_digits_def)
  show "c \<noteq> CHR ''-''" "c \<noteq> CHR '' ''" by (simp_all add: d digit_char_props)
  show "c \<noteq> newline"
  proof
    assume "c = newline"
    then have "(of_char c :: nat) = 10" by (simp add: newline_def)
    with d show False by (simp add: of_char_digit_char split: if_splits)
  qed
qed

lemma digit_val_blank [simp]: "digit_val 16 (CHR '' '') = None" "digit_val 16 (CHR ''-'') = None"
  by (simp_all add: digit_val_def)

lemma strtoul_bound:
  assumes "n < 2 ^ 64" and "rest = [] \<or> digit_val 16 (hd rest) = None \<and> hd rest \<noteq> CHR ''x'' \<and> hd rest \<noteq> CHR ''X''"
  shows "strtoul 16 (proc_bound n @ rest) = of_nat n"
  using strtoul_show_hex_zeros [OF assms] by (simp add: proc_bound_def pad_zero_def)

lemma maps_perms_line:
  "maps_perms (proc_perms k @ CHR '' '' # r) (0, 0) =
     Some (proc_prot k, if pr_shared k then MAP_SHARED else MAP_PRIVATE)"
  by (cases "pr_r k"; cases "pr_w k"; cases "pr_x k"; cases "pr_shared k")
     (simp_all add: proc_perms_def proc_prot_def prot_defs map_flag_defs)

lemma newline_neq [simp]: "newline \<noteq> CHR ''-''" "newline \<noteq> CHR '' ''" "CHR ''-'' \<noteq> newline"
  "CHR '' '' \<noteq> newline"
  by (simp_all add: newline_def)

lemma maps_parse_proc_line:
  assumes "pr_start k < pr_stop k" and "pr_stop k < 2 ^ 64"
  shows "maps_parse_line (proc_line k @ [newline]) = Some (proc_entry k)"
proof -
  let ?tail = "proc_perms k @ CHR '' '' # pr_rest k @ [newline]"
  let ?post = "proc_bound (pr_stop k) @ CHR '' '' # ?tail"
  have line: "proc_line k @ [newline] = proc_bound (pr_start k) @ CHR ''-'' # ?post"
    by (simp add: proc_line_def)
  have chr: "strchr (proc_line k @ [newline]) (CHR ''-'') = Some (CHR ''-'' # ?post)"
    unfolding line by (rule strchr_split) (auto dest: show_hex_chars)
  have cut: "cut_at (proc_line k @ [newline]) (CHR ''-'') = proc_bound (pr_start k)"
    unfolding line by (rule cut_at_split) (auto dest: show_hex_chars)
  have start: "strtoul 16 (proc_bound (pr_start k)) = of_nat (pr_start k)"
    using assms strtoul_bound [of "pr_start k" "[]"] by simp
  have stop: "strtoul 16 ?post = of_nat (pr_stop k)"
    using assms by (intro strtoul_bound) auto
  have blank: "strchr ?post (CHR '' '') = Some (CHR '' '' # ?tail)"
    by (rule strchr_split) (auto dest: show_hex_chars)
  have less: "(of_nat (pr_start k) :: u64) < of_nat (pr_stop k)"
    using assms by (simp add: word_less_nat_alt unat_of_nat take_bit_nat_eq_self)
  have len: "(of_nat (pr_stop k) - of_nat (pr_start k) :: u64) = of_nat (pr_stop k - pr_start k)"
    using assms by (simp add: of_nat_diff)
  show ?thesis
    using less
    by (simp add: maps_parse_line_def chr cut start stop blank maps_perms_line proc_entry_def
        Let_def len)
qed

text \<open>An allocation that succeeds.\<close>

lemma maps_shiva_path_run:
  assumes "malloc_ok os"
  shows "\<exists>sp n. maps_shiva_path os buf p = Some (p\<lparr>p_calls := n, p_ctx := (p_ctx p)\<lparr>ctx_shiva_path := sp\<rparr>\<rparr>)"
proof (cases "maps_is_debugger buf \<and> strstr buf ''r----'' \<noteq> None \<and> ctx_shiva_path (p_ctx p) = None")
  case True
  obtain a where "shiva_malloc os (of_nat PATH_MAX + 1) p = Some (a, p\<lparr>p_calls := Suc (p_calls p)\<rparr>)"
    using shiva_malloc_ok [OF assms] by blast
  with True show ?thesis
    by (intro exI [of _ "map_option (takeWhile (\<lambda>c. c \<noteq> newline)) (strchr buf (CHR ''/''))"] exI [of _ "Suc (p_calls p)"])
      (simp add: maps_shiva_path_def)
next
  case False
  then have "maps_shiva_path os buf p = Some p" unfolding maps_shiva_path_def by (rule if_not_P)
  moreover have "p = p\<lparr>p_calls := p_calls p, p_ctx := (p_ctx p)\<lparr>ctx_shiva_path := ctx_shiva_path (p_ctx p)\<rparr>\<rparr>" by simp
  ultimately show ?thesis by metis
qed

lemma maps_build_proc_lines:
  assumes "malloc_ok os" and "\<forall>k \<in> set ks. pr_start k < pr_stop k \<and> pr_stop k < 2 ^ 64"
  shows "\<exists>sp n. maps_build_lines os (map (\<lambda>k. proc_line k @ [newline]) ks) p =
     Some (p\<lparr>p_calls := n, p_ctx := (p_ctx p)\<lparr>ctx_shiva_path := sp, mmap_tqlist := mmap_tqlist (p_ctx p) @ map proc_entry ks\<rparr>\<rparr>)"
  using assms(2)
proof (induction ks arbitrary: p)
  case Nil
  have "p = p\<lparr>p_calls := p_calls p, p_ctx := (p_ctx p)
      \<lparr>ctx_shiva_path := ctx_shiva_path (p_ctx p), mmap_tqlist := mmap_tqlist (p_ctx p)\<rparr>\<rparr>" by simp
  then show ?case by (metis append_Nil2 list.map(1) maps_build_lines.simps(1))
next
  case (Cons k ks)
  obtain a where m: "shiva_malloc os MMAP_ENTRY_SIZE p = Some (a, p\<lparr>p_calls := Suc (p_calls p)\<rparr>)"
    using shiva_malloc_ok [OF assms(1)] by blast
  obtain sp n where sp: "maps_shiva_path os (proc_line k @ [newline]) (p\<lparr>p_calls := Suc (p_calls p)\<rparr>) =
      Some (p\<lparr>p_calls := n, p_ctx := (p_ctx p)\<lparr>ctx_shiva_path := sp\<rparr>\<rparr>)"
    using maps_shiva_path_run [OF assms(1), of "proc_line k @ [newline]" "p\<lparr>p_calls := Suc (p_calls p)\<rparr>"] by auto
  show ?case
    using Cons.prems Cons.IH [of "p\<lparr>p_calls := n, p_ctx := (p_ctx p)\<lparr>ctx_shiva_path := sp,
        mmap_tqlist := mmap_tqlist (p_ctx p) @ [proc_entry k]\<rparr>\<rparr>"]
    by (simp add: m sp maps_parse_proc_line)
qed

text \<open>What the list is, once it has been built.\<close>

lemma maps_shiva_path_list: "maps_shiva_path os buf p = Some q \<Longrightarrow> mmap_tqlist (p_ctx q) = mmap_tqlist (p_ctx p)"
  by (auto simp: maps_shiva_path_def bind_eq_Some_conv shiva_malloc_def sys_malloc_def
      split: if_split_asm option.split_asm)

lemma maps_build_lines_list:
  assumes "maps_build_lines os (map (\<lambda>k. proc_line k @ [newline]) ks) p = Some q"
    and "\<forall>k \<in> set ks. pr_start k < pr_stop k \<and> pr_stop k < 2 ^ 64"
  shows "mmap_tqlist (p_ctx q) = mmap_tqlist (p_ctx p) @ map proc_entry ks"
  using assms
proof (induction ks arbitrary: p)
  case (Cons k ks)
  then obtain a p1 p2 where p1: "shiva_malloc os MMAP_ENTRY_SIZE p = Some (a, p1)"
      "maps_shiva_path os (proc_line k @ [newline]) p1 = Some p2"
    and rest: "maps_build_lines os (map (\<lambda>k. proc_line k @ [newline]) ks)
        (p2\<lparr>p_ctx := (p_ctx p2)\<lparr>mmap_tqlist := mmap_tqlist (p_ctx p2) @ [proc_entry k]\<rparr>\<rparr>) = Some q"
    by (auto simp: maps_parse_proc_line bind_eq_Some_conv)
  have "p_ctx p1 = p_ctx p"
    using p1(1) by (auto simp: shiva_malloc_def sys_malloc_def split: option.split_asm)
  then show ?case using Cons.IH [OF rest] Cons.prems(2) maps_shiva_path_list [OF p1(2)] by simp
qed simp

lemma fgets_proc_file:
  assumes "\<forall>k \<in> set ks. proc_region_ok k"
  shows "fgets_all (proc_file ks) = map (\<lambda>k. proc_line k @ [newline]) ks"
proof -
  have nl: "newline \<notin> set (proc_line k)" if "proc_region_ok k" for k
    using that by (auto simp: proc_region_ok_def proc_line_def proc_perms_def newline_def
        dest: show_hex_chars(3) [unfolded newline_def])
  then have "\<forall>l \<in> set (map proc_line ks). newline \<notin> set l \<and> length l < PATH_MAX - 1"
    using assms by (auto simp: proc_region_ok_def)
  from fgets_all_lines [OF this] show ?thesis
    by (simp add: proc_file_def comp_def)
qed

lemma maps_build_proc_file:
  assumes "malloc_ok os" and "proc_maps os = Some (proc_file ks)" and "\<forall>k \<in> set ks. proc_region_ok k"
    and "mmap_tqlist (p_ctx p) = []"
  shows "\<exists>sp n. shiva_maps_build_list os p =
     Some (True, p\<lparr>p_calls := n, p_ctx := (p_ctx p)\<lparr>ctx_shiva_path := sp, mmap_tqlist := map proc_entry ks\<rparr>\<rparr>)"
proof -
  have "\<forall>k \<in> set ks. pr_start k < pr_stop k \<and> pr_stop k < 2 ^ 64"
    using assms(3) by (auto simp: proc_region_ok_def)
  from maps_build_proc_lines [OF assms(1) this, of "p\<lparr>p_ctx := (p_ctx p)\<lparr>mmap_tqlist := []\<rparr>\<rparr>"]
  obtain sp n where "maps_build_lines os (map (\<lambda>k. proc_line k @ [newline]) ks) (p\<lparr>p_ctx := (p_ctx p)\<lparr>mmap_tqlist := []\<rparr>\<rparr>) =
      Some (p\<lparr>p_calls := n, p_ctx := (p_ctx p)\<lparr>ctx_shiva_path := sp, mmap_tqlist := map proc_entry ks\<rparr>\<rparr>)"
    by auto
  then show ?thesis
    using assms(2,4) by (intro exI [of _ sp] exI [of _ n])
      (simp add: shiva_maps_build_list_def Let_def fgets_proc_file [OF assms(3)])
qed

text \<open>C33. Reading a \<^verbatim>\<open>/proc/self/maps\<close> in the kernel's format into an empty list succeeds when memory can
  be allocated, and the list holds exactly one entry per line, in order, with the printed bounds, protection
  and sharing; of the rest of the process only the path of Shiva can change.\<close>

theorem maps_build_list_reads_file:
  assumes "malloc_ok os" and "proc_maps os = Some (proc_file ks)" and "\<forall>k \<in> set ks. proc_region_ok k"
    and "mmap_tqlist (p_ctx p) = []"
  shows "\<exists>sp n. shiva_maps_build_list os p =
     Some (True, p\<lparr>p_calls := n, p_ctx := (p_ctx p)\<lparr>ctx_shiva_path := sp, mmap_tqlist := map proc_entry ks\<rparr>\<rparr>)"
  using assms by (rule maps_build_proc_file)

lemma maps_build_list_file:
  assumes "\<forall>k \<in> set ks. proc_region_ok k" and "mmap_tqlist (p_ctx p) = []"
    and "proc_maps os = Some (proc_file ks)" and "shiva_maps_build_list os p = Some (True, p')"
  shows "mmap_tqlist (p_ctx p') = map proc_entry ks"
proof -
  have ok: "\<forall>k \<in> set ks. pr_start k < pr_stop k \<and> pr_stop k < 2 ^ 64"
    using assms(1) by (auto simp: proc_region_ok_def)
  show ?thesis
    using assms(2-4) maps_build_lines_list [OF _ ok, of os "p\<lparr>p_ctx := (p_ctx p)\<lparr>mmap_tqlist := []\<rparr>\<rparr>" p']
    by (auto simp: shiva_maps_build_list_def Let_def fgets_proc_file [OF assms(1)] bind_eq_Some_conv)
qed

text \<open>Two regions of a real address space that overlap are one and the same line.\<close>

definition proc_disjoint :: "proc_region list \<Rightarrow> bool" where
  "proc_disjoint ks \<longleftrightarrow>
     (\<forall>j \<in> set ks. \<forall>k \<in> set ks. pr_start j < pr_stop k \<and> pr_start k < pr_stop j \<longrightarrow> j = k)"

lemma addr_in_proc_entry:
  assumes "pr_start k < pr_stop k" and "pr_stop k < 2 ^ 64"
  shows "addr_in_entry a (proc_entry k) \<longleftrightarrow> pr_start k \<le> unat a \<and> unat a < pr_stop k"
proof -
  have "map_base (proc_entry k) + map_len (proc_entry k) = of_nat (pr_stop k)"
    using assms by (simp add: proc_entry_def flip: of_nat_add)
  then show ?thesis
    using assms
    by (simp add: addr_in_entry_def proc_entry_def word_le_nat_alt word_less_nat_alt unat_of_nat
        take_bit_nat_eq_self)
qed

lemma shiva_maps_prot_by_addr_find:
  "shiva_maps_prot_by_addr ctx a =
     Some (map_option map_prot (find (addr_in_entry a) (mmap_tqlist ctx)))"
  by (simp add: shiva_maps_prot_by_addr_def maps_it.iter_find_items shiva_maps_iterator_init_def)

lemma find_unique:
  assumes "x \<in> set xs" and "P x" and "\<And>y. y \<in> set xs \<Longrightarrow> P y \<Longrightarrow> y = x"
  shows "find P xs = Some x"
proof (cases "find P xs")
  case None
  with assms(1,2) show ?thesis by (auto simp: find_None_iff)
next
  case (Some y)
  then have "y \<in> set xs \<and> P y" by (auto simp: find_Some_iff)
  with assms(3) Some show ?thesis by blast
qed

text \<open>C12. After the list was built from a file of disjoint regions, every question about an
  address gets the kernel's answer: its protection is that of the region that contains it, and it
  is valid for the debuggee exactly when that region is no mapping of the debugger itself.\<close>

theorem maps_answers_match_kernel:
  assumes "\<forall>k \<in> set ks. proc_region_ok k" and "proc_disjoint ks" and "mmap_tqlist (p_ctx p) = []"
    and "proc_maps os = Some (proc_file ks)" and "shiva_maps_build_list os p = Some (True, p')"
    and "k \<in> set ks" and "pr_start k \<le> unat a" and "unat a < pr_stop k"
  shows "shiva_maps_prot_by_addr (p_ctx p') a = Some (Some (proc_prot k)) \<and>
         (shiva_maps_validate_addr (p_ctx p') a \<longleftrightarrow> \<not> maps_is_debugger (proc_line k @ [newline]))"
proof -
  have list: "mmap_tqlist (p_ctx p') = map proc_entry ks"
    by (rule maps_build_list_file [OF assms(1,3-5)])
  have mem: "addr_in_entry a (proc_entry j) \<longleftrightarrow> j = k" if j: "j \<in> set ks" for j
  proof -
    have iff: "addr_in_entry a (proc_entry i) \<longleftrightarrow> pr_start i \<le> unat a \<and> unat a < pr_stop i"
      if "i \<in> set ks" for i
      using assms(1) that by (intro addr_in_proc_entry) (auto simp: proc_region_ok_def)
    have "j = k" if "pr_start j \<le> unat a" "unat a < pr_stop j"
    proof -
      from that assms(7,8) have "pr_start j < pr_stop k" "pr_start k < pr_stop j" by linarith+
      with assms(2,6) j show ?thesis by (simp add: proc_disjoint_def)
    qed
    with iff [OF j] assms(7,8) show ?thesis by blast
  qed
  have "find (addr_in_entry a) (map proc_entry ks) = Some (proc_entry k)"
    using assms(6) mem by (intro find_unique) auto
  moreover have "maps_validate a (map proc_entry ks) \<longleftrightarrow> \<not> debugger_mapping (proc_entry k)"
    using assms(6) mem by (auto simp: maps_validate_iff)
  ultimately show ?thesis
    by (simp add: shiva_maps_prot_by_addr_find shiva_maps_validate_addr_def list proc_entry_def)
qed

text \<open>A mapping of a file that is not the debugger's is classified as the heap, because the
  entry is zeroed, zero is the heap's code, and the branch for named files sets no other
  class.\<close>

theorem maps_file_mapping_classified_heap:
  assumes "CHR ''/'' \<notin> set name" and "take 5 name \<noteq> ''shiva''"
  shows "maps_type (pre @ CHR ''/'' # name) = SHIVA_MMAP_TYPE_HEAP"
  using assms by (simp add: maps_type_def strrchr_split strncmp_eq_def)

section \<open>Witnesses\<close>

definition example_regions :: "proc_region list" where
  "example_regions =
     [\<lparr>pr_start = 0x400000, pr_stop = 0x401000, pr_r = True, pr_w = False, pr_x = True,
       pr_shared = False, pr_rest = ''00000000 08:01 7 /bin/shiva''\<rparr>,
      \<lparr>pr_start = 0x40000000, pr_stop = 0x40002000, pr_r = True, pr_w = True, pr_x = False,
       pr_shared = False, pr_rest = ''00000000 08:01 9 /bin/test''\<rparr>]"

lemma proc_bound_8:
  assumes "n < 16 ^ 8"
  shows "length (proc_bound n) = 8"
proof -
  have "length (show_base 16 n) \<le> Suc d" if "n < 16 ^ Suc d" for n d
    using that
  proof (induction d arbitrary: n)
    case 0
    then show ?case by (simp add: show_base.simps)
  next
    case (Suc d)
    then have "n div 16 < 16 ^ Suc d" by (simp add: less_mult_imp_div_less)
    with Suc.IH [OF this] show ?case by (simp add: show_base.simps [of 16 n])
  qed
  from this [of n 7] assms show ?thesis by (simp add: proc_bound_def pad_zero_def)
qed

lemma example_regions_ok: "\<forall>k \<in> set example_regions. proc_region_ok k" "proc_disjoint example_regions"
proof -
  have len: "length (proc_bound n) = 8" if "n < 4294967296" for n
    using proc_bound_8 [of n] that by simp
  from len [of "0x400000"] len [of "0x401000"] len [of "0x40000000"] len [of "0x40002000"]
  show "\<forall>k \<in> set example_regions. proc_region_ok k"
    by (simp add: example_regions_def proc_region_ok_def proc_line_def proc_perms_def PATH_MAX_def
        newline_def)
  show "proc_disjoint example_regions"
    by (simp add: example_regions_def proc_disjoint_def)
qed

text \<open>An operating system with memory and that file, and its first line.\<close>

definition maps_os :: os where
  "maps_os =
     \<lparr>os_malloc = (\<lambda>_ _. Some 0x600000), os_mmap = (\<lambda>_ _ _ _ _. None), os_mprotect = (\<lambda>_ _ _ _. True),
      os_file = (\<lambda>f. if f = ''/proc/self/maps'' then Some (proc_file example_regions) else None),
      os_realpath_exe = None, os_access = (\<lambda>_. False), os_open_object = (\<lambda>_. None), os_hash_slots = 0,
      os_sizeof = (\<lambda>_. 0)\<rparr>"

lemma maps_os_ok: "malloc_ok maps_os" "proc_maps maps_os = Some (proc_file example_regions)"
    "mmap_tqlist (p_ctx zero_proc) = []"
  by (simp_all add: malloc_ok_def maps_os_def proc_maps_def zero_proc_def zero_ctx_def)

lemma example_line: "proc_line (example_regions ! 0) = ''00400000-00401000 r-xp 00000000 08:01 7 /bin/shiva''"
proof -
  have "digit_char 0 = CHR ''0''" "digit_char (Suc 0) = CHR ''1''" "digit_char 4 = CHR ''4''" by code_simp+
  then have "proc_bound 0x400000 = ''00400000''" "proc_bound 0x401000 = ''00401000''"
    by (simp_all add: proc_bound_def pad_zero_def show_base.simps numeral_2_eq_2)
  then show ?thesis by (simp add: example_regions_def proc_line_def proc_perms_def)
qed

theorem maps_build_list_reads_file_witness:
  "proc_line (example_regions ! 0) = ''00400000-00401000 r-xp 00000000 08:01 7 /bin/shiva'' \<and>
   (\<exists>p'. shiva_maps_build_list maps_os zero_proc = Some (True, p') \<and>
      mmap_tqlist (p_ctx p') = map proc_entry example_regions)"
proof -
  obtain sp n where run: "shiva_maps_build_list maps_os zero_proc = Some (True, zero_proc\<lparr>p_calls := n,
      p_ctx := (p_ctx zero_proc)\<lparr>ctx_shiva_path := sp, mmap_tqlist := map proc_entry example_regions\<rparr>\<rparr>)"
    using maps_build_list_reads_file [OF maps_os_ok(1,2) example_regions_ok(1) maps_os_ok(3)] by blast
  show ?thesis by (intro conjI exI) (rule example_line, rule run, simp)
qed

lemma slash_test: "CHR ''/'' \<notin> set (''test'' @ [newline])"
  by (simp add: newline_def)

theorem maps_answers_match_kernel_witness:
  "\<exists>p'. shiva_maps_build_list maps_os zero_proc = Some (True, p') \<and>
     shiva_maps_prot_by_addr (p_ctx p') 0x40000010 = Some (Some (PROT_READ OR PROT_WRITE)) \<and>
     shiva_maps_validate_addr (p_ctx p') 0x40000010"
proof -
  let ?k = "example_regions ! 1"
  obtain n sp where c: "shiva_maps_build_list maps_os zero_proc = Some (True, zero_proc\<lparr>p_calls := n,
      p_ctx := (p_ctx zero_proc)\<lparr>ctx_shiva_path := sp, mmap_tqlist := map proc_entry example_regions\<rparr>\<rparr>)"
    using maps_build_proc_file [OF maps_os_ok(1,2) example_regions_ok(1) maps_os_ok(3)] by blast
  have k: "?k \<in> set example_regions" "pr_start ?k \<le> unat (0x40000010 :: u64)"
    "unat (0x40000010 :: u64) < pr_stop ?k"
    by (simp_all add: example_regions_def)
  have dbg: "\<not> maps_is_debugger (proc_line ?k @ [newline])"
  proof -
    have "proc_line ?k @ [newline] =
        (proc_bound 0x40000000 @ ''-'' @ proc_bound 0x40002000 @ '' rw-p 00000000 08:01 9 /bin'') @
        CHR ''/'' # ''test'' @ [newline]"
      by (simp add: proc_line_def proc_perms_def example_regions_def)
    then have "strrchr (proc_line ?k @ [newline]) (CHR ''/'') = Some (CHR ''/'' # ''test'' @ [newline])"
      by (metis strrchr_split slash_test)
    then show ?thesis by (simp add: maps_is_debugger_def strncmp_eq_def)
  qed
  have prot: "proc_prot ?k = PROT_READ OR PROT_WRITE"
    by (simp add: proc_prot_def example_regions_def)
  show ?thesis
    using maps_answers_match_kernel [OF example_regions_ok maps_os_ok(3,2) c k] c dbg prot by auto
qed

theorem maps_file_mapping_classified_heap_witness:
  "CHR ''/'' \<notin> set ''libc.so'' \<and> take 5 ''libc.so'' \<noteq> ''shiva'' \<and>
   maps_type (''7f00-7f10 r--p 0 08:01 5 /lib'' @ CHR ''/'' # ''libc.so'') = SHIVA_MMAP_TYPE_HEAP"
  using maps_file_mapping_classified_heap [of "''libc.so''" "''7f00-7f10 r--p 0 08:01 5 /lib''"]
  by simp

end
