(* ===== verification/Callsite.thy ===== *)
theory Callsite
  imports Process
begin

text \<open>
  \<^verbatim>\<open>shiva_callsite.c\<close>: the iterator over the call sites among the branch sites that the analyzer
  recorded.
\<close>

record shiva_callsite_iterator =
  ci_current :: "shiva_branch_site list"

definition shiva_callsite_iterator_init :: "shiva_ctx \<Rightarrow> shiva_callsite_iterator" where
  "shiva_callsite_iterator_init ctx = \<lparr>ci_current = branch_tqlist ctx\<rparr>"

text \<open>The loop at label \<open>check_branch\<close>.\<close>

fun check_branch ::
  "shiva_branch_site list \<Rightarrow> shiva_iterator_res \<times> shiva_branch_site option \<times> shiva_branch_site list" where
  "check_branch [] = (SHIVA_ITER_DONE, None, [])"
| "check_branch (b # bs) =
     (if branch_type b = SHIVA_BRANCH_CALL then (SHIVA_ITER_OK, Some b, bs) else check_branch bs)"

definition shiva_callsite_iterator_next ::
  "shiva_callsite_iterator \<Rightarrow> shiva_iterator_res \<times> shiva_branch_site option \<times> shiva_callsite_iterator" where
  "shiva_callsite_iterator_next iter =
     (case ci_current iter of
        [] \<Rightarrow> (SHIVA_ITER_DONE, None, iter)
      | b # bs \<Rightarrow> (case check_branch (b # bs) of (r, e, rest) \<Rightarrow> (r, e, iter\<lparr>ci_current := rest\<rparr>)))"

definition callsite_nxt ::
  "shiva_callsite_iterator \<Rightarrow> (shiva_branch_site \<times> shiva_callsite_iterator) option" where
  "callsite_nxt iter =
     (case shiva_callsite_iterator_next iter of
        (SHIVA_ITER_OK, Some e, iter') \<Rightarrow> Some (e, iter')
      | _ \<Rightarrow> None)"

definition callsite_items :: "shiva_callsite_iterator \<Rightarrow> shiva_branch_site list" where
  "callsite_items iter = filter (\<lambda>b. branch_type b = SHIVA_BRANCH_CALL) (ci_current iter)"

lemma check_branch_none:
  "filter (\<lambda>b. branch_type b = SHIVA_BRANCH_CALL) bs = [] \<Longrightarrow> check_branch bs = (SHIVA_ITER_DONE, None, [])"
  by (induction bs) (auto split: if_splits)

lemma check_branch_some:
  "filter (\<lambda>b. branch_type b = SHIVA_BRANCH_CALL) bs = e # es \<Longrightarrow>
   \<exists>rest. check_branch bs = (SHIVA_ITER_OK, Some e, rest) \<and>
          filter (\<lambda>b. branch_type b = SHIVA_BRANCH_CALL) rest = es"
  by (induction bs) (auto split: if_splits)

interpretation callsite_it: list_iterator callsite_nxt callsite_items
proof
  fix it assume "callsite_items it = []"
  then show "callsite_nxt it = None"
    by (cases "ci_current it")
      (simp_all add: callsite_nxt_def shiva_callsite_iterator_next_def callsite_items_def
        check_branch_none del: check_branch.simps filter.simps)
next
  fix it e es assume "callsite_items it = e # es"
  then obtain rest where rest: "check_branch (ci_current it) = (SHIVA_ITER_OK, Some e, rest)"
    "filter (\<lambda>b. branch_type b = SHIVA_BRANCH_CALL) rest = es"
    using check_branch_some [of "ci_current it" e es] by (auto simp: callsite_items_def)
  then have "ci_current it \<noteq> []" by auto
  with rest show "\<exists>it'. callsite_nxt it = Some (e, it') \<and> callsite_items it' = es"
    by (cases "ci_current it")
      (simp_all add: callsite_nxt_def shiva_callsite_iterator_next_def callsite_items_def
        del: check_branch.simps)
qed

text \<open>A search through the call-site iterator sees exactly the recorded branches that are
  calls, in order: it stops at the first call that satisfies the condition, whatever jumps and
  returns stand between, and it always stops.\<close>

theorem callsite_search_first_call:
  "iter_find callsite_nxt P (shiva_callsite_iterator_init ctx) =
     Some (find (\<lambda>b. branch_type b = SHIVA_BRANCH_CALL \<and> P b) (branch_tqlist ctx))"
proof -
  have "find P (filter Q bs) = find (\<lambda>b. Q b \<and> P b) bs" for Q and bs :: "shiva_branch_site list"
    by (induction bs) auto
  then show ?thesis
    by (simp add: callsite_it.iter_find_items callsite_items_def shiva_callsite_iterator_init_def)
qed

end
