(* ===== verification/Auxv.thy ===== *)
theory Auxv
  imports Process
begin

text \<open>
  \<^verbatim>\<open>shiva_auxv.c\<close>: the iterator over an auxiliary vector in memory, either one the caller names or
  the one behind the environment pointers of the initial stack.
\<close>

definition AT_NULL :: u64 where "AT_NULL = 0"
definition AT_PHDR :: u64 where "AT_PHDR = 3"
definition AT_PHNUM :: u64 where "AT_PHNUM = 5"
definition AT_BASE :: u64 where "AT_BASE = 7"
definition AT_FLAGS :: u64 where "AT_FLAGS = 8"
definition AT_ENTRY :: u64 where "AT_ENTRY = 9"
definition AT_EXECFN :: u64 where "AT_EXECFN = 31"

lemmas at_defs = AT_NULL_def AT_PHDR_def AT_PHNUM_def AT_BASE_def AT_FLAGS_def AT_ENTRY_def
  AT_EXECFN_def

definition ERRONEOUS_AUXV_COUNT :: nat where "ERRONEOUS_AUXV_COUNT = 4096"

record shiva_auxv_iterator =
  ai_index :: nat
  ai_auxv :: u64

text \<open>\<open>type\<close> is an \<open>int\<close>: the low half of \<open>a_type\<close>; \<open>string\<close> is the pointer, set for
  \<open>AT_EXECFN\<close> only.\<close>

record shiva_auxv_entry =
  ae_value :: u64
  ae_type :: u32
  ae_string :: u64

text \<open>\<open>Some None\<close> is the return value \<open>false\<close>.\<close>

definition shiva_auxv_iterator_init :: "proc \<Rightarrow> u64 \<Rightarrow> shiva_auxv_iterator option option" where
  "shiva_auxv_iterator_init p auxv =
     (if auxv \<noteq> 0 then Some (Some \<lparr>ai_index = 0, ai_auxv = auxv\<rparr>)
      else if ctx_envp (p_ctx p) = 0 then Some None
      else do {
        i \<leftarrow> ptr_count (p_mem p) (ctx_envp (p_ctx p));
        Some (Some \<lparr>ai_index = 0, ai_auxv = ctx_envp (p_ctx p) + 8 * of_nat (i + 1)\<rparr>)
      })"

definition auxv_slot :: "shiva_auxv_iterator \<Rightarrow> nat \<Rightarrow> u64" where
  "auxv_slot iter i = ai_auxv iter + 16 * of_nat i"

definition shiva_auxv_iterator_next ::
  "mem \<Rightarrow> shiva_auxv_iterator \<Rightarrow> shiva_auxv_entry \<Rightarrow>
     shiva_iterator_res \<times> shiva_auxv_entry \<times> shiva_auxv_iterator" where
  "shiva_auxv_iterator_next m iter entry =
     (let slot = auxv_slot iter (ai_index iter); a_type = load64 m slot; a_val = load64 m (slot + 8)
      in if a_type = AT_NULL then (SHIVA_ITER_DONE, entry, iter)
         else (let entry1 = entry\<lparr>ae_type := ucast a_type, ae_value := a_val\<rparr>;
                   entry2 = (if a_type = AT_EXECFN then entry1\<lparr>ae_string := a_val\<rparr> else entry1);
                   iter1 = iter\<lparr>ai_index := Suc (ai_index iter)\<rparr>
               in if ERRONEOUS_AUXV_COUNT \<le> ai_index iter then (SHIVA_ITER_ERROR, entry2, iter1)
                  else (SHIVA_ITER_OK, entry2, iter1)))"

definition shiva_auxv_set_value :: "mem \<Rightarrow> shiva_auxv_iterator \<Rightarrow> u64 \<Rightarrow> bool \<times> mem" where
  "shiva_auxv_set_value m iter v =
     (if ai_index iter = 0 then (False, m)
      else (True, store64 m (auxv_slot iter (ai_index iter - 1) + 8) v))"

section \<open>The iterator yields the vector\<close>

text \<open>What the loops use of an entry: its type and value.\<close>

definition auxv_nxt :: "mem \<Rightarrow> shiva_auxv_iterator \<Rightarrow> ((u32 \<times> u64) \<times> shiva_auxv_iterator) option" where
  "auxv_nxt m iter =
     (case shiva_auxv_iterator_next m iter \<lparr>ae_value = 0, ae_type = 0, ae_string = 0\<rparr> of
        (SHIVA_ITER_OK, e, iter') \<Rightarrow> Some ((ae_type e, ae_value e), iter')
      | _ \<Rightarrow> None)"

fun auxv_read :: "mem \<Rightarrow> u64 \<Rightarrow> nat \<Rightarrow> (u32 \<times> u64) list" where
  "auxv_read m a 0 = []"
| "auxv_read m a (Suc n) =
     (if load64 m a = AT_NULL then []
      else (ucast (load64 m a), load64 m (a + 8)) # auxv_read m (a + 16) n)"

definition auxv_items :: "mem \<Rightarrow> shiva_auxv_iterator \<Rightarrow> (u32 \<times> u64) list" where
  "auxv_items m iter =
     auxv_read m (auxv_slot iter (ai_index iter)) (ERRONEOUS_AUXV_COUNT - ai_index iter)"

lemma auxv_slot_Suc [simp]:
  "auxv_slot (iter\<lparr>ai_index := i\<rparr>) (Suc n) = auxv_slot iter n + 16"
  by (simp add: auxv_slot_def algebra_simps)

lemma auxv_nxt_eq:
  "auxv_nxt m it =
     (let s = auxv_slot it (ai_index it)
      in if load64 m s = AT_NULL \<or> ERRONEOUS_AUXV_COUNT \<le> ai_index it then None
         else Some ((ucast (load64 m s), load64 m (s + 8)), it\<lparr>ai_index := Suc (ai_index it)\<rparr>))"
  by (simp add: auxv_nxt_def shiva_auxv_iterator_next_def Let_def)

interpretation auxv_it: list_iterator "auxv_nxt m" "auxv_items m" for m
proof
  fix it assume "auxv_items m it = []"
  then show "auxv_nxt m it = None"
    by (cases "ERRONEOUS_AUXV_COUNT - ai_index it")
      (auto simp: auxv_items_def auxv_nxt_eq Let_def split: if_splits)
next
  fix it e es assume e: "auxv_items m it = e # es"
  then obtain n where n: "ERRONEOUS_AUXV_COUNT - ai_index it = Suc n"
    by (cases "ERRONEOUS_AUXV_COUNT - ai_index it") (auto simp: auxv_items_def)
  then have "ERRONEOUS_AUXV_COUNT - Suc (ai_index it) = n" by simp
  with e n show "\<exists>it'. auxv_nxt m it = Some (e, it') \<and> auxv_items m it' = es"
    by (auto simp: auxv_items_def auxv_nxt_eq Let_def auxv_slot_Suc split: if_splits)
qed

section \<open>The vector of the initial stack\<close>

lemma auxv_read_at:
  "pairs_at m a es \<Longrightarrow> length es \<le> n \<Longrightarrow> auxv_read m a n = map (\<lambda>e. (ucast (fst e), snd e)) es"
proof (induction es arbitrary: a n)
  case Nil
  then show ?case by (cases n) (auto simp: AT_NULL_def)
next
  case (Cons e es)
  then show ?case by (cases n) (auto simp: AT_NULL_def)
qed

lemma auxv_init_items:
  assumes "ctx_envp (p_ctx p) = e" and "e \<noteq> 0" and "ptrs_at (p_mem p) e envs"
    and "pairs_at (p_mem p) (e + 8 * of_nat (length envs + 1)) es"
    and "length es \<le> ERRONEOUS_AUXV_COUNT"
  shows "\<exists>it. shiva_auxv_iterator_init p 0 = Some (Some it) \<and>
           auxv_items (p_mem p) it = map (\<lambda>e. (ucast (fst e), snd e)) es \<and>
           ai_auxv it = e + 8 * of_nat (length envs + 1)"
  using assms
  by (simp add: shiva_auxv_iterator_init_def ptr_count_ptrs_at auxv_items_def auxv_slot_def
      auxv_read_at)

text \<open>C38. On an initial stack (environment pointers, NULL, auxiliary vector) a search through the
  iterator stops and yields the first entry of the vector with the wanted type.\<close>

theorem auxv_search_initial_stack:
  assumes "ctx_envp (p_ctx p) \<noteq> 0" and "ptrs_at (p_mem p) (ctx_envp (p_ctx p)) envs"
    and "pairs_at (p_mem p) (ctx_envp (p_ctx p) + 8 * of_nat (length envs + 1)) es"
    and "length es \<le> ERRONEOUS_AUXV_COUNT"
  shows "\<exists>it. shiva_auxv_iterator_init p 0 = Some (Some it) \<and>
           iter_find (auxv_nxt (p_mem p)) (\<lambda>e. fst e = t) it =
             Some (find (\<lambda>e. fst e = t) (map (\<lambda>e. (ucast (fst e), snd e)) es))"
  using auxv_init_items [OF refl assms] by (auto simp: auxv_it.iter_find_items)

text \<open>After a successful \<open>next\<close>, setting the value changes the entry just returned and no
  other one: reading the vector again gives the old entries with that one value replaced.\<close>

theorem auxv_set_value_updates_current:
  assumes "pairs_at m a es" and "i < length es" and "length es < 2 ^ 32"
    and "auxv_nxt m \<lparr>ai_index = i, ai_auxv = a\<rparr> = Some (e, it)"
    and "shiva_auxv_set_value m it v = (ok, m')"
  shows "ok \<and> pairs_at m' a (es[i := (fst (es ! i), v)])"
proof -
  have it: "it = \<lparr>ai_index = Suc i, ai_auxv = a\<rparr>"
    using assms(4) by (auto simp: auxv_nxt_eq Let_def split: if_splits)
  then have "ok" "m' = store64 m (a + 16 * of_nat i + 8) v"
    using assms(5) by (auto simp: shiva_auxv_set_value_def auxv_slot_def)
  with pairs_at_store [OF assms(1-3)] show ?thesis by simp
qed

section \<open>Witnesses\<close>

text \<open>One environment string at 0x2000, a vector with a page size and an entry point.\<close>

definition example_stack :: mem where
  "example_stack =
     write_bytes (\<lambda>_. 0) 0x1000
       (le_bytes 8 (0x2000 :: u64) @ le_bytes 8 (0 :: u64) @ le_bytes 8 (6 :: u64) @
        le_bytes 8 (4096 :: u64) @ le_bytes 8 (9 :: u64) @ le_bytes 8 (0x40001000 :: u64))"

lemma example_stack_words:
  "load64 example_stack 0x1000 = 0x2000" "load64 example_stack 0x1008 = 0"
  "load64 example_stack 0x1010 = 6" "load64 example_stack 0x1018 = 4096"
  "load64 example_stack 0x1020 = 9" "load64 example_stack 0x1028 = 0x40001000"
  "load64 example_stack 0x1030 = 0"
  by code_simp+

theorem auxv_search_initial_stack_witness:
  "\<exists>it. shiva_auxv_iterator_init
          (zero_proc\<lparr>p_ctx := zero_ctx\<lparr>ctx_envp := 0x1000\<rparr>, p_mem := example_stack\<rparr>) 0 = Some (Some it) \<and>
        iter_find (auxv_nxt example_stack) (\<lambda>e. fst e = 9) it = Some (Some (9, 0x40001000))"
  using auxv_search_initial_stack
    [of "zero_proc\<lparr>p_ctx := zero_ctx\<lparr>ctx_envp := 0x1000\<rparr>, p_mem := example_stack\<rparr>" "[0x2000]"
      "[(6, 4096), (9, 0x40001000)]" 9]
  by (simp add: example_stack_words at_defs ERRONEOUS_AUXV_COUNT_def)

theorem auxv_set_value_updates_current_witness:
  "pairs_at (snd (shiva_auxv_set_value example_stack \<lparr>ai_index = 2, ai_auxv = 0x1010\<rparr> 7)) 0x1010
     [(6, 4096), (9, 7)]"
proof -
  have "auxv_nxt example_stack \<lparr>ai_index = 1, ai_auxv = 0x1010\<rparr> =
      Some ((9, 0x40001000), \<lparr>ai_index = 2, ai_auxv = 0x1010\<rparr>)"
    by (simp add: auxv_nxt_eq auxv_slot_def example_stack_words at_defs ERRONEOUS_AUXV_COUNT_def
        Let_def)
  moreover have "pairs_at example_stack 0x1010 [(6, 4096), (9, 0x40001000)]"
    by (simp add: example_stack_words)
  ultimately show ?thesis
    using auxv_set_value_updates_current [of example_stack "0x1010" "[(6, 4096), (9, 0x40001000)]" 1
        "(9, 0x40001000)" "\<lparr>ai_index = 2, ai_auxv = 0x1010\<rparr>" 7]
    by (simp add: prod_eq_iff)
qed

end
