(* ===== verification/Target.thy ===== *)
theory Target
  imports Util
begin

text \<open>
  \<^verbatim>\<open>shiva_target.c\<close>: changing one tag of the dynamic section of the loaded target in memory. The
  program header table is an array of 56-byte entries (type at 0, virtual address at 16), the
  dynamic section a table of pairs ended by \<open>DT_NULL\<close>.
\<close>

definition DT_NULL :: u64 where "DT_NULL = 0"
definition DT_PLTRELSZ :: u64 where "DT_PLTRELSZ = 2"
definition DT_JMPREL :: u64 where "DT_JMPREL = 23"

text \<open>\<open>elf_segment_count\<close> is the number of segments the library's iterator yields.\<close>

fun target_find_dynamic :: "mem \<Rightarrow> u64 \<Rightarrow> u64 \<Rightarrow> nat \<Rightarrow> u64" where
  "target_find_dynamic m base phdr 0 = 0"
| "target_find_dynamic m base phdr (Suc n) =
     (if load32 m phdr \<noteq> of_nat PT_DYNAMIC then target_find_dynamic m base (phdr + 56) n
      else load64 m (phdr + 16) + base)"

partial_function (option) target_set_tag :: "u64 \<Rightarrow> u64 \<Rightarrow> u64 \<Rightarrow> proc \<Rightarrow> (bool \<times> proc) option" where
  "target_set_tag tag v dyn p =
     (if load64 (p_mem p) dyn = DT_NULL then Some (False, p)
      else if load64 (p_mem p) dyn = tag then
        do { p1 \<leftarrow> p_write (dyn + 8) (le_bytes 8 v) p; Some (True, p1) }
      else target_set_tag tag v (dyn + 16) p)"

definition shiva_target_dynamic_set :: "u64 \<Rightarrow> u64 \<Rightarrow> proc \<Rightarrow> (bool \<times> proc) option" where
  "shiva_target_dynamic_set tag v p =
     (let base = ul_base_vaddr (ulexec (p_ctx p));
          phdr = base + elf_phoff (ctx_elfobj (p_ctx p));
          dyn = target_find_dynamic (p_mem p) base phdr (length (elf_segments (ctx_elfobj (p_ctx p))))
      in if dyn = 0 then Some (False, p) else target_set_tag tag v dyn p)"

section \<open>Exactly the first tag changes\<close>

text \<open>The wanted effect on the table: the value of the first pair with the tag.\<close>

fun set_first :: "u64 \<Rightarrow> u64 \<Rightarrow> (u64 \<times> u64) list \<Rightarrow> (u64 \<times> u64) list" where
  "set_first tag v [] = []"
| "set_first tag v (e # es) = (if fst e = tag then (fst e, v) # es else e # set_first tag v es)"

lemma target_set_tag_stops:
  assumes "pairs_at (p_mem p) dyn es"
  shows "(tag \<notin> fst ` set es \<longrightarrow> target_set_tag tag v dyn p = Some (False, p)) \<and>
         (\<forall>i < length es. fst (es ! i) = tag \<longrightarrow> (\<forall>j < i. fst (es ! j) \<noteq> tag) \<longrightarrow>
            writable (p_prot p) (dyn + 16 * of_nat i + 8) 8 \<longrightarrow>
            target_set_tag tag v dyn p =
              Some (True, p\<lparr>p_mem := store64 (p_mem p) (dyn + 16 * of_nat i + 8) v\<rparr>))"
  using assms
proof (induction es arbitrary: dyn)
  case Nil
  then show ?case by (simp add: target_set_tag.simps DT_NULL_def)
next
  case (Cons e es)
  show ?case
  proof (cases "fst e = tag")
    case True
    have "target_set_tag tag v dyn p = Some (True, p\<lparr>p_mem := store64 (p_mem p) (dyn + 8) v\<rparr>)"
      if "writable (p_prot p) (dyn + 8) 8"
      using True Cons.prems that
      by (simp add: target_set_tag.simps [of tag v dyn p] DT_NULL_def p_write_def store64_def)
    note at0 = this
    show ?thesis
    proof (intro conjI allI impI)
      fix i assume i: "\<forall>j < i. fst ((e # es) ! j) \<noteq> tag"
        "writable (p_prot p) (dyn + 16 * of_nat i + 8) 8"
      with True have "i = 0" by (cases i) auto
      with i(2) at0 show "target_set_tag tag v dyn p =
          Some (True, p\<lparr>p_mem := store64 (p_mem p) (dyn + 16 * of_nat i + 8) v\<rparr>)"
        by simp
    qed (use True in simp)
  next
    case False
    have step: "target_set_tag tag v dyn p = target_set_tag tag v (dyn + 16) p"
      using False Cons.prems by (simp add: target_set_tag.simps [of tag v dyn p] DT_NULL_def)
    have IH: "(tag \<notin> fst ` set es \<longrightarrow> target_set_tag tag v (dyn + 16) p = Some (False, p)) \<and>
        (\<forall>i < length es. fst (es ! i) = tag \<longrightarrow> (\<forall>j < i. fst (es ! j) \<noteq> tag) \<longrightarrow>
            writable (p_prot p) (dyn + 16 + 16 * of_nat i + 8) 8 \<longrightarrow>
            target_set_tag tag v (dyn + 16) p =
              Some (True, p\<lparr>p_mem := store64 (p_mem p) (dyn + 16 + 16 * of_nat i + 8) v\<rparr>))"
      using Cons by simp
    show ?thesis
    proof (intro conjI allI impI)
      assume "tag \<notin> fst ` set (e # es)"
      with IH step show "target_set_tag tag v dyn p = Some (False, p)" by simp
    next
      fix i assume i: "i < length (e # es)" "fst ((e # es) ! i) = tag"
        "\<forall>j < i. fst ((e # es) ! j) \<noteq> tag" "writable (p_prot p) (dyn + 16 * of_nat i + 8) 8"
      with False obtain k where k: "i = Suc k" by (cases i) auto
      with i have "\<forall>j < k. fst (es ! j) \<noteq> tag" by auto
      with IH i k show "target_set_tag tag v dyn p =
          Some (True, p\<lparr>p_mem := store64 (p_mem p) (dyn + 16 * of_nat i + 8) v\<rparr>)"
        unfolding step k pair_step by (simp del: of_nat_Suc add: pair_step)
    qed
  qed
qed

lemma first_index:
  "tag \<in> fst ` set es \<Longrightarrow>
     \<exists>i < length es. fst (es ! i) = tag \<and> (\<forall>j < i. fst (es ! j) \<noteq> tag) \<and>
       set_first tag v es = es[i := (fst (es ! i), v)]"
proof (induction es)
  case (Cons e es)
  show ?case
  proof (cases "fst e = tag")
    case True
    then show ?thesis by (intro exI [of _ 0]) auto
  next
    case False
    with Cons obtain i where "i < length es" "fst (es ! i) = tag" "\<forall>j < i. fst (es ! j) \<noteq> tag"
        "set_first tag v es = es[i := (fst (es ! i), v)]" by auto
    with False show ?thesis
      by (intro exI [of _ "Suc i"]) (auto simp: nth_Cons' gr0_conv_Suc)
  qed
qed simp

lemma set_first_absent: "tag \<notin> fst ` set es \<Longrightarrow> set_first tag v es = es"
  by (induction es) auto

text \<open>The run: nothing changes, or one value of the section.\<close>

lemma dynamic_set_run:
  assumes "base = ul_base_vaddr (ulexec (p_ctx p))"
    and "dyn = target_find_dynamic (p_mem p) base (base + elf_phoff (ctx_elfobj (p_ctx p)))
                 (length (elf_segments (ctx_elfobj (p_ctx p))))"
    and "dyn \<noteq> 0" and "pairs_at (p_mem p) dyn es"
    and "\<forall>i < length es. writable (p_prot p) (dyn + 16 * of_nat i + 8) 8"
  shows "tag \<notin> fst ` set es \<Longrightarrow> shiva_target_dynamic_set tag v p = Some (False, p)"
    "tag \<in> fst ` set es \<Longrightarrow> \<exists>i < length es. set_first tag v es = es[i := (fst (es ! i), v)] \<and>
       shiva_target_dynamic_set tag v p = Some (True, p\<lparr>p_mem := store64 (p_mem p) (dyn + 16 * of_nat i + 8) v\<rparr>)"
proof -
  note stops = target_set_tag_stops [OF assms(4), of tag v]
  have set: "shiva_target_dynamic_set tag v p = target_set_tag tag v dyn p"
    using assms(1-3) by (simp add: shiva_target_dynamic_set_def Let_def)
  show "shiva_target_dynamic_set tag v p = Some (False, p)" if "tag \<notin> fst ` set es"
    using that stops by (simp add: set)
  show "\<exists>i < length es. set_first tag v es = es[i := (fst (es ! i), v)] \<and>
       shiva_target_dynamic_set tag v p = Some (True, p\<lparr>p_mem := store64 (p_mem p) (dyn + 16 * of_nat i + 8) v\<rparr>)"
    if "tag \<in> fst ` set es"
    using first_index [OF that, of v] stops assms(5) unfolding set by blast
qed

text \<open>C34. When the program headers of the target lead to a dynamic section whose values are
  writable, the call returns, reports whether the tag occurs, and afterwards the section in memory
  is the old one with the value of the first such tag replaced.\<close>

theorem target_dynamic_set_first_tag:
  assumes "base = ul_base_vaddr (ulexec (p_ctx p))"
    and "dyn = target_find_dynamic (p_mem p) base (base + elf_phoff (ctx_elfobj (p_ctx p)))
                 (length (elf_segments (ctx_elfobj (p_ctx p))))"
    and "dyn \<noteq> 0" and "pairs_at (p_mem p) dyn es" and "length es < 2 ^ 32"
    and "\<forall>i < length es. writable (p_prot p) (dyn + 16 * of_nat i + 8) 8"
  shows "\<exists>p'. shiva_target_dynamic_set tag v p = Some (tag \<in> fst ` set es, p') \<and>
           pairs_at (p_mem p') dyn (set_first tag v es)"
proof (cases "tag \<in> fst ` set es")
  case True
  then show ?thesis
    using dynamic_set_run(2) [OF assms(1-4,6) True, of v] pairs_at_store [OF assms(4) _ assms(5)] by auto
next
  case False
  then show ?thesis
    using dynamic_set_run(1) [OF assms(1-4,6) False, of v] assms(4) by (auto simp: set_first_absent)
qed

section \<open>Witness\<close>

text \<open>A target at 0x40000000 with one program header, of its dynamic section at offset 0x78.\<close>

definition example_target_mem :: mem where
  "example_target_mem =
     write_bytes (\<lambda>_. 0) 0x40000040
       (le_bytes 8 (2 :: u64) @ le_bytes 8 (0 :: u64) @ le_bytes 8 (0x78 :: u64) @ replicate 32 0 @
        le_bytes 8 (23 :: u64) @ le_bytes 8 (5 :: u64) @ le_bytes 8 (2 :: u64) @ le_bytes 8 (48 :: u64))"

definition example_target :: proc where
  "example_target =
     zero_proc\<lparr>p_mem := example_target_mem, p_prot := (\<lambda>_. 3),
       p_ctx := zero_ctx\<lparr>ulexec := zero_ulexec\<lparr>ul_base_vaddr := 0x40000000\<rparr>,
         ctx_elfobj := null_elfobj\<lparr>elf_phoff := 64, elf_segments :=
           [\<lparr>seg_type = 2, seg_flags = 6, seg_offset = 0x78, seg_vaddr = 0x78, seg_filesz = 48,
             seg_memsz = 48\<rparr>]\<rparr>\<rparr>\<rparr>"

lemma example_target_words:
  "load32 example_target_mem 0x40000040 = 2" "load64 example_target_mem 0x40000050 = 0x78"
  "load64 example_target_mem 0x40000078 = 23" "load64 example_target_mem 0x40000080 = 5"
  "load64 example_target_mem 0x40000088 = 2" "load64 example_target_mem 0x40000090 = 48"
  "load64 example_target_mem 0x40000098 = 0"
  by code_simp+

theorem target_dynamic_set_first_tag_witness:
  "\<exists>p'. shiva_target_dynamic_set DT_PLTRELSZ 24 example_target = Some (True, p') \<and>
        pairs_at (p_mem p') 0x40000078 [(23, 5), (2, 24)]"
  using target_dynamic_set_first_tag [of "0x40000000" example_target "0x40000078"
      "[(23, 5), (2, 48)]" DT_PLTRELSZ 24]
  by (simp add: example_target_def example_target_words writable_def has_flag_def PROT_WRITE_def
      PT_DYNAMIC_def DT_PLTRELSZ_def)

end
