(* ===== verification/Trace_Thread.thy ===== *)
theory Trace_Thread
  imports Util
begin

text \<open>
  \<^verbatim>\<open>shiva_trace_thread.c\<close>: reading the status file of a thread and entering the thread into the
  list of traced threads.
\<close>

section \<open>The status file\<close>

text \<open>One line; \<open>v\<close> points behind the colon and the blanks after it.\<close>

definition thread_status_line ::
  "os \<Rightarrow> string \<Rightarrow> string \<Rightarrow> shiva_trace_thread \<Rightarrow> proc \<Rightarrow> (shiva_trace_thread \<times> proc) option" where
  "thread_status_line os buf v t p =
     (if strncmp_eq 5 buf ''Name:'' then
        do { (a, s, p1) \<leftarrow> shiva_strdup os v p; Some (t\<lparr>th_name := Some s\<rparr>, p1) }
      else if strncmp_eq 3 buf ''Gid'' then Some (t\<lparr>th_gid := ucast (strtoul 10 v)\<rparr>, p)
      else if strncmp_eq 9 buf ''TracerPid'' then
        (let pid = ucast (strtoul 10 v); t1 = t\<lparr>external_tracer_pid := pid\<rparr>
         in Some (t1\<lparr>th_flags := th_flags t1 OR
                     (if pid \<noteq> 0 then SHIVA_TRACE_THREAD_F_EXTERN_TRACER
                      else SHIVA_TRACE_THREAD_F_TRACED)\<rparr>, p))
      else if strncmp_eq 3 buf ''Uid'' then Some (t\<lparr>th_uid := ucast (strtoul 10 v)\<rparr>, p)
      else if strncmp_eq 4 buf ''PPid'' then Some (t\<lparr>th_ppid := ucast (strtoul 10 v)\<rparr>, p)
      else if strncmp_eq 11 buf ''CoreDumping'' then
        Some (t\<lparr>th_flags := th_flags t OR SHIVA_TRACE_THREAD_F_COREDUMPING\<rparr>, p)
      else Some (t, p))"

fun thread_status_lines ::
  "os \<Rightarrow> string list \<Rightarrow> shiva_trace_thread \<Rightarrow> proc \<Rightarrow> (shiva_trace_thread \<times> proc) option" where
  "thread_status_lines os [] t p = Some (t, p)"
| "thread_status_lines os (buf # bufs) t p =
     do {
       q \<leftarrow> strchr buf (CHR '':'');
       (t1, p1) \<leftarrow> thread_status_line os buf (dropWhile (\<lambda>c. c = CHR '' '') (tl q)) t p;
       thread_status_lines os bufs t1 p1
     }"

definition thread_status_path :: "nat \<Rightarrow> string" where
  "thread_status_path pid =
     (if pid = 0 then ''/proc/self/status'' else ''/proc/'' @ show_base 10 pid @ ''/status'')"

text \<open>The returned boolean, the thread object and the process.\<close>

definition shiva_trace_thread_status ::
  "os \<Rightarrow> nat \<Rightarrow> shiva_trace_thread \<Rightarrow> proc \<Rightarrow> (bool \<times> shiva_trace_thread \<times> proc) option" where
  "shiva_trace_thread_status os pid thread p =
     (case find (\<lambda>t. th_pid t = of_nat pid) (thread_tqlist (p_ctx p)) of
        Some current \<Rightarrow> Some (True, current, p)
      | None \<Rightarrow>
          (case os_file os (thread_status_path pid) of
             None \<Rightarrow> Some (False, thread, p)
           | Some content \<Rightarrow>
               do {
                 (t, p1) \<leftarrow> thread_status_lines os (fgets_all content) thread p;
                 Some (True, t\<lparr>th_flags := th_flags t OR SHIVA_TRACE_THREAD_F_NEW\<rparr>, p1)
               }))"

section \<open>Entering a thread\<close>

definition zero_thread :: shiva_trace_thread where
  "zero_thread = \<lparr>th_name = None, th_uid = 0, th_gid = 0, th_pid = 0, th_ppid = 0,
                  external_tracer_pid = 0, th_flags = 0\<rparr>"

definition insert_thread :: "shiva_trace_thread \<Rightarrow> proc \<Rightarrow> proc" where
  "insert_thread t p =
     p\<lparr>p_ctx := (p_ctx p)\<lparr>thread_tqlist := thread_tqlist (p_ctx p) @
         [t\<lparr>th_flags := th_flags t AND NOT SHIVA_TRACE_THREAD_F_NEW\<rparr>]\<rparr>\<rparr>"

text \<open>\<open>out\<close> is what the caller's variable holds before the call; the caller never passes a null
  pointer.\<close>

definition shiva_trace_thread_insert ::
  "os \<Rightarrow> nat \<Rightarrow> u64 \<Rightarrow> proc \<Rightarrow> (bool \<times> u64 \<times> proc) option" where
  "shiva_trace_thread_insert os pid out p =
     (case sys_malloc os 56 p of
        (None, p1) \<Rightarrow> Some (False, out, p1)
      | (Some a, p1) \<Rightarrow>
          do {
            (ok, t, p2) \<leftarrow> shiva_trace_thread_status os pid zero_thread p1;
            if \<not> ok then Some (False, out, p2)
            else if pid \<noteq> 0 \<and> has_flag (th_flags t) SHIVA_TRACE_THREAD_F_EXTERN_TRACER then
              Some (False, SHIVA_TRACE_THREAD_F_EXTERN_TRACER, p2)
            else if pid \<noteq> 0 \<and> has_flag (th_flags t) SHIVA_TRACE_THREAD_F_COREDUMPING then
              Some (False, SHIVA_TRACE_THREAD_F_COREDUMPING, p2)
            else if has_flag (th_flags t) SHIVA_TRACE_THREAD_F_NEW then
              Some (True, 0, insert_thread t p2)
            else Some (True, 0, p2)
          })"

section \<open>A process is entered once\<close>

text \<open>The list holds the traced process at most once and no entry is still marked new.\<close>

definition threads_ok :: "proc \<Rightarrow> bool" where
  "threads_ok p \<longleftrightarrow>
     length (filter (\<lambda>t. th_pid t = 0) (thread_tqlist (p_ctx p))) \<le> 1 \<and>
     (\<forall>t \<in> set (thread_tqlist (p_ctx p)). \<not> has_flag (th_flags t) SHIVA_TRACE_THREAD_F_NEW)"

lemma shiva_strdup_frame:
  "shiva_strdup os s p = Some (a, s', p') \<Longrightarrow> s' = s \<and> p_ctx p' = p_ctx p \<and> p_mem p' = p_mem p \<and> p_prot p' = p_prot p"
  by (auto simp: shiva_strdup_def sys_malloc_def split: option.splits)

lemma thread_status_line_frame:
  assumes "thread_status_line os buf v t p = Some (t', p')"
  shows "p_ctx p' = p_ctx p \<and> th_pid t' = th_pid t"
  using assms
  by (auto simp: thread_status_line_def Let_def bind_eq_Some_conv dest: shiva_strdup_frame
      split: if_splits)

lemma thread_status_lines_frame:
  "thread_status_lines os bufs t p = Some (t', p') \<Longrightarrow> p_ctx p' = p_ctx p \<and> th_pid t' = th_pid t"
proof (induction bufs arbitrary: t p)
  case (Cons buf bufs)
  from Cons.prems obtain v t1 p1 where
    "thread_status_line os buf v t p = Some (t1, p1)" "thread_status_lines os bufs t1 p1 = Some (t', p')"
    by (auto simp: bind_eq_Some_conv)
  with Cons.IH thread_status_line_frame show ?case by metis
qed simp

lemma has_flag_new_or [simp]:
  "has_flag (v OR SHIVA_TRACE_THREAD_F_NEW) SHIVA_TRACE_THREAD_F_NEW"
  by (simp add: SHIVA_TRACE_THREAD_F_NEW_def)

lemma has_flag_new_cleared [simp]:
  "\<not> has_flag (v AND NOT SHIVA_TRACE_THREAD_F_NEW) SHIVA_TRACE_THREAD_F_NEW"
proof -
  have "(v AND NOT SHIVA_TRACE_THREAD_F_NEW) AND SHIVA_TRACE_THREAD_F_NEW = 0"
    by (rule bit_word_eqI) (auto simp: bit_simps)
  then show ?thesis by (simp add: has_flag_def)
qed

text \<open>What the status call leaves: an entry of the list, or a new thread with number 0.\<close>

lemma thread_status_cases:
  assumes "shiva_trace_thread_status os pid zero_thread p = Some (True, t, p')"
  shows "p_ctx p' = p_ctx p \<and>
         (t \<in> set (thread_tqlist (p_ctx p)) \<and> th_pid t = of_nat pid \<or>
          (\<forall>s \<in> set (thread_tqlist (p_ctx p)). th_pid s \<noteq> of_nat pid) \<and> th_pid t = 0 \<and>
          has_flag (th_flags t) SHIVA_TRACE_THREAD_F_NEW)"
  using assms
  by (auto simp: shiva_trace_thread_status_def bind_eq_Some_conv find_Some_iff find_None_iff
      zero_thread_def dest: thread_status_lines_frame split: option.splits)

text \<open>C35. Entering the process itself (pid 0) keeps the invariant of the thread list, and after a
  successful call the list holds exactly one entry for it, however often it is entered.\<close>

theorem thread_insert_once:
  assumes "threads_ok p" and "shiva_trace_thread_insert os 0 out p = Some (ok, out', p')"
  shows "threads_ok p' \<and>
         (ok \<longrightarrow> length (filter (\<lambda>t. th_pid t = 0) (thread_tqlist (p_ctx p'))) = 1)"
proof (cases "os_malloc os (p_calls p) 56")
  case None
  with assms show ?thesis by (auto simp: shiva_trace_thread_insert_def sys_malloc_def threads_ok_def)
next
  case (Some a)
  let ?p1 = "p\<lparr>p_calls := Suc (p_calls p)\<rparr>"
  from Some assms(2) obtain st t p2 where
    st: "shiva_trace_thread_status os 0 zero_thread ?p1 = Some (st, t, p2)" and
    res: "(if \<not> st then (False, out, p2)
           else if has_flag (th_flags t) SHIVA_TRACE_THREAD_F_NEW then (True, 0, insert_thread t p2)
           else (True, 0, p2)) = (ok, out', p')"
    by (auto simp: shiva_trace_thread_insert_def sys_malloc_def bind_eq_Some_conv split: if_splits)
  show ?thesis
  proof (cases st)
    case False
    with st have "p2 = ?p1"
      by (auto simp: shiva_trace_thread_status_def bind_eq_Some_conv split: option.splits)
    with False res assms(1) show ?thesis by (auto simp: threads_ok_def)
  next
    case True
    let ?ts = "thread_tqlist (p_ctx p)"
    have stT: "shiva_trace_thread_status os 0 zero_thread ?p1 = Some (True, t, p2)"
      using st True by simp
    from thread_status_cases [OF stT] have
      ctx: "p_ctx p2 = p_ctx p" and
      cases: "t \<in> set ?ts \<and> th_pid t = 0 \<or>
        (\<forall>s \<in> set ?ts. th_pid s \<noteq> 0) \<and> th_pid t = 0 \<and>
        has_flag (th_flags t) SHIVA_TRACE_THREAD_F_NEW" by auto
    from cases show ?thesis
    proof
      assume t: "t \<in> set ?ts \<and> th_pid t = 0"
      with assms(1) have "\<not> has_flag (th_flags t) SHIVA_TRACE_THREAD_F_NEW"
        by (auto simp: threads_ok_def)
      with True res have "p' = p2" by simp
      moreover have "filter (\<lambda>t. th_pid t = 0) ?ts \<noteq> []" using t by (auto simp: filter_empty_conv)
      ultimately show ?thesis
        using assms(1) ctx by (auto simp: threads_ok_def le_Suc_eq)
    next
      assume t: "(\<forall>s \<in> set ?ts. th_pid s \<noteq> 0) \<and> th_pid t = 0 \<and>
        has_flag (th_flags t) SHIVA_TRACE_THREAD_F_NEW"
      then have "filter (\<lambda>t. th_pid t = 0) ?ts = []" by (auto simp: filter_empty_conv)
      with t True res ctx assms(1) show ?thesis
        by (auto simp: threads_ok_def insert_thread_def)
    qed
  qed
qed

text \<open>A thread other than the process itself is refused as dumping core as soon as its status
  file has a line \<open>CoreDumping\<close>, whatever the line says, unless another process traces it.\<close>

theorem thread_insert_coredumping_line:
  assumes "pid \<noteq> 0" and "find (\<lambda>t. th_pid t = of_nat pid) (thread_tqlist (p_ctx p)) = None"
    and "os_file os (thread_status_path pid) = Some content"
    and "fgets_all content = [''CoreDumping:'' @ v]" and "os_malloc os (p_calls p) 56 \<noteq> None"
  shows "\<exists>p'. shiva_trace_thread_insert os pid out p =
                Some (False, SHIVA_TRACE_THREAD_F_COREDUMPING, p')"
proof -
  obtain a where a: "os_malloc os (p_calls p) 56 = Some a" using assms(5) by auto
  have flags: "has_flag (0x18 :: u64) SHIVA_TRACE_THREAD_F_COREDUMPING"
    "\<not> has_flag (0x18 :: u64) SHIVA_TRACE_THREAD_F_EXTERN_TRACER"
    by (simp_all add: has_flag_def thread_flag_defs)
  have new: "SHIVA_TRACE_THREAD_F_COREDUMPING OR SHIVA_TRACE_THREAD_F_NEW = 0x18"
    by (simp add: thread_flag_defs)
  show ?thesis
    using assms(1-4) a flags
    by (simp add: shiva_trace_thread_insert_def sys_malloc_def shiva_trace_thread_status_def
        thread_status_line_def strncmp_eq_def zero_thread_def new)
qed

section \<open>Witnesses\<close>

text \<open>An operating system that always has memory, with a status file for itself and thread 7.\<close>

definition example_os :: os where
  "example_os =
     \<lparr>os_malloc = (\<lambda>n len. Some 0x600000), os_mmap = (\<lambda>n a len pr fl. Some (if a = 0 then 0x7000000 else a)),
      os_mprotect = (\<lambda>n a len pr. True),
      os_file = (\<lambda>f. if f = ''/proc/self/status'' then Some (''Name: a'' @ [newline])
                     else if f = ''/proc/7/status'' then Some (''CoreDumping: 0'' @ [newline])
                     else None),
      os_realpath_exe = Some ''/bin/shiva'', os_access = (\<lambda>_. True),
      os_open_object = (\<lambda>_. None), os_hash_slots = 64, os_sizeof = (\<lambda>_. 64)\<rparr>"

lemma thread_insert_example:
  "\<exists>p'. shiva_trace_thread_insert example_os 0 0 zero_proc = Some (True, 0, p')"
proof -
  have "fgets_all (''Name: a'' @ [newline]) = [''Name: a'' @ [newline]]"
    using fgets_all_lines [of "[''Name: a'']"] by (simp add: newline_def PATH_MAX_def)
  then show ?thesis
    by (simp add: shiva_trace_thread_insert_def example_os_def zero_proc_def zero_ctx_def
        sys_malloc_def shiva_trace_thread_status_def thread_status_path_def thread_status_line_def
        strncmp_eq_def shiva_strdup_def)
qed

theorem thread_insert_once_witness:
  "\<exists>p'. shiva_trace_thread_insert example_os 0 0 zero_proc = Some (True, 0, p') \<and>
        threads_ok p' \<and> length (filter (\<lambda>t. th_pid t = 0) (thread_tqlist (p_ctx p'))) = 1"
proof -
  have z: "threads_ok zero_proc" by (simp add: threads_ok_def zero_proc_def zero_ctx_def)
  obtain p' where p': "shiva_trace_thread_insert example_os 0 0 zero_proc = Some (True, 0, p')"
    using thread_insert_example by blast
  from thread_insert_once [OF z p'] p' show ?thesis by auto
qed

lemma path_7: "thread_status_path 7 = ''/proc/7/status''"
proof -
  have "digit_char 7 = CHR ''7''" by code_simp
  then show ?thesis by (simp add: thread_status_path_def show_base.simps)
qed

theorem thread_insert_coredumping_line_witness:
  "\<exists>p'. shiva_trace_thread_insert example_os 7 0 zero_proc =
          Some (False, SHIVA_TRACE_THREAD_F_COREDUMPING, p')"
proof -
  have "fgets_all (''CoreDumping: 0'' @ [newline]) = [''CoreDumping:'' @ '' 0'' @ [newline]]"
    using fgets_all_lines [of "[''CoreDumping: 0'']"] by (simp add: newline_def PATH_MAX_def)
  then show ?thesis
    using thread_insert_coredumping_line [of 7 zero_proc example_os
        "''CoreDumping: 0'' @ [newline]" "'' 0'' @ [newline]" 0]
    by (simp add: path_7 example_os_def zero_proc_def zero_ctx_def)
qed

end
