(* ===== verification/Ud_Input.thy ===== *)
theory Ud_Input
  imports Ud_Types C_Lib
begin

text \<open>
  \<^verbatim>\<open>libudis86/udis86.c\<close> without the disassembly call itself: setting up an object, its input, mode
  and syntax, and reading the results. A hook or file that delivers bytes is the list of bytes it
  will deliver; \<open>None\<close> as a result is a call through the null hook.
\<close>

section \<open>Input\<close>

definition ud_inp_init :: "ud \<Rightarrow> ud" where
  "ud_inp_init u =
     u\<lparr>inp_hook := None, inp_buf := None, inp_buf_size := 0, inp_buf_index := 0, ud_inp_curr := 0,
       inp_ctr := 0, inp_end := False\<rparr>"

definition ud_set_input_hook :: "ud \<Rightarrow> u8 list \<Rightarrow> ud" where
  "ud_set_input_hook u hook = (ud_inp_init u)\<lparr>inp_hook := Some hook\<rparr>"

definition ud_set_input_buffer :: "ud \<Rightarrow> u8 list \<Rightarrow> nat \<Rightarrow> ud" where
  "ud_set_input_buffer u buf len =
     (ud_inp_init u)\<lparr>inp_buf := Some buf, inp_buf_size := len, inp_buf_index := 0\<rparr>"

text \<open>The hook set here reads the file with \<open>fgetc\<close>.\<close>

definition ud_set_input_file :: "ud \<Rightarrow> u8 list \<Rightarrow> ud" where
  "ud_set_input_file u file = (ud_inp_init u)\<lparr>inp_hook := Some file\<rparr>"

fun skip_hook :: "ud \<Rightarrow> nat \<Rightarrow> ud option" where
  "skip_hook u 0 = Some u"
| "skip_hook u (Suc n) =
     (case inp_hook u of
        None \<Rightarrow> None
      | Some [] \<Rightarrow> Some (u\<lparr>inp_end := True, ud_error := True\<rparr>)
      | Some (c # cs) \<Rightarrow> skip_hook (u\<lparr>inp_hook := Some cs\<rparr>) n)"

definition ud_input_skip :: "ud \<Rightarrow> nat \<Rightarrow> ud option" where
  "ud_input_skip u n =
     (if inp_end u then Some u
      else if inp_buf u = None then skip_hook u n
      else if n > inp_buf_size u \<or> inp_buf_index u > inp_buf_size u - n then
        Some (u\<lparr>inp_buf_index := inp_buf_size u, inp_end := True, ud_error := True\<rparr>)
      else Some (u\<lparr>inp_buf_index := inp_buf_index u + n\<rparr>))"

definition ud_input_end :: "ud \<Rightarrow> bool" where "ud_input_end u = inp_end u"

section \<open>Mode, vendor, syntax\<close>

definition ud_set_mode :: "ud \<Rightarrow> nat \<Rightarrow> ud" where
  "ud_set_mode u m = u\<lparr>dis_mode := (if m = 16 \<or> m = 32 \<or> m = 64 then m else 16)\<rparr>"

definition ud_set_vendor :: "ud \<Rightarrow> nat \<Rightarrow> ud" where
  "ud_set_vendor u v =
     u\<lparr>vendor := (if v = UD_VENDOR_INTEL \<or> v = UD_VENDOR_ANY then v else UD_VENDOR_AMD)\<rparr>"

definition ud_set_pc :: "ud \<Rightarrow> u64 \<Rightarrow> ud" where "ud_set_pc u pc = u\<lparr>ud_pc := pc\<rparr>"

definition ud_set_syntax :: "ud \<Rightarrow> ud_syntax option \<Rightarrow> ud" where
  "ud_set_syntax u t = u\<lparr>translator := t\<rparr>"

text \<open>The internal buffer has 128 bytes; a null buffer selects it.\<close>

definition ud_set_asm_buffer :: "ud \<Rightarrow> (string \<times> nat) option \<Rightarrow> ud" where
  "ud_set_asm_buffer u b =
     (case b of
        None \<Rightarrow> u\<lparr>asm_buf := [], asm_buf_size := 128\<rparr>
      | Some (s, n) \<Rightarrow> u\<lparr>asm_buf := s, asm_buf_size := n\<rparr>)"

definition ud_set_sym_resolver :: "ud \<Rightarrow> (u64 \<Rightarrow> (string \<times> int) option) option \<Rightarrow> ud" where
  "ud_set_sym_resolver u r = u\<lparr>sym_resolver := r\<rparr>"

definition ud_init :: "u8 list \<Rightarrow> ud" where
  "ud_init stdin =
     ud_set_asm_buffer
       (ud_set_input_file (ud_set_pc ((ud_set_mode zero_ud 16)\<lparr>mnemonic := UD_Iinvalid\<rparr>) 0) stdin)
       None"

section \<open>Results\<close>

definition ud_insn_asm :: "ud \<Rightarrow> string" where "ud_insn_asm u = asm_buf u"

definition ud_insn_off :: "ud \<Rightarrow> u64" where "ud_insn_off u = insn_offset u"

definition ud_insn_len :: "ud \<Rightarrow> nat" where "ud_insn_len u = inp_ctr u"

text \<open>The pointer is the suffix of the buffer that it points to.\<close>

definition ud_insn_ptr :: "ud \<Rightarrow> u8 list" where
  "ud_insn_ptr u =
     (case inp_buf u of
        None \<Rightarrow> inp_sess u
      | Some buf \<Rightarrow> drop (inp_buf_index u - inp_ctr u) buf)"

definition hex2 :: "u8 \<Rightarrow> string" where
  "hex2 b = [digit_char (unat b div 16), digit_char (unat b mod 16)]"

text \<open>The sources store the text in the object and return it.\<close>

definition ud_insn_hex :: "ud \<Rightarrow> string \<times> ud" where
  "ud_insn_hex u =
     (let s = (if ud_error u then []
               else concat (map hex2 (take (min (ud_insn_len u) 32) (ud_insn_ptr u))))
      in (s, u\<lparr>insn_hexcode := s\<rparr>))"

definition ud_operand_nth :: "ud \<Rightarrow> nat \<Rightarrow> ud_operand" where
  "ud_operand_nth u n = (if n = 0 then operand0 u else if n = 1 then operand1 u else operand2 u)"

definition ud_insn_opr :: "ud \<Rightarrow> nat \<Rightarrow> ud_operand option" where
  "ud_insn_opr u n =
     (if n > 2 \<or> opr_type (ud_operand_nth u n) = UD_NONE then None else Some (ud_operand_nth u n))"

definition ud_opr_is_sreg :: "ud_operand \<Rightarrow> bool" where
  "ud_opr_is_sreg opr \<longleftrightarrow>
     opr_type opr = UD_OP_REG \<and> UD_R_ES \<le> opr_base opr \<and> opr_base opr \<le> UD_R_GS"

definition ud_opr_is_gpr :: "ud_operand \<Rightarrow> bool" where
  "ud_opr_is_gpr opr \<longleftrightarrow>
     opr_type opr = UD_OP_REG \<and> UD_R_AL \<le> opr_base opr \<and> opr_base opr \<le> UD_R_R15"

definition ud_insn_mnemonic :: "ud \<Rightarrow> ud_mnemonic_code" where "ud_insn_mnemonic u = mnemonic u"

definition ud_lookup_mnemonic :: "string list \<Rightarrow> ud_mnemonic_code \<Rightarrow> string option" where
  "ud_lookup_mnemonic ud_mnemonics_str c =
     (if c < UD_MAX_MNEMONIC_CODE then Some (ud_mnemonics_str ! c) else None)"

section \<open>Facts about them\<close>

text \<open>A fresh input leaves no trace of the instruction decoded before it.\<close>

lemma ud_insn_len_new_buffer [simp]: "ud_insn_len (ud_set_input_buffer u buf len) = 0"
  by (simp add: ud_insn_len_def ud_set_input_buffer_def ud_inp_init_def)

text \<open>No general purpose register is a segment register.\<close>

lemma ud_opr_gpr_not_sreg: "ud_opr_is_gpr opr \<Longrightarrow> \<not> ud_opr_is_sreg opr"
  by (simp add: ud_opr_is_gpr_def ud_opr_is_sreg_def UD_R_ES_def UD_R_R15_def)

text \<open>Skipping bytes of a buffered input moves the read position by exactly that many bytes
  when they are there; otherwise it moves it to the end and reports the end of the input.\<close>

theorem ud_input_skip_buffer:
  assumes "inp_buf u = Some buf" and "inp_buf_index u \<le> inp_buf_size u" and "\<not> inp_end u"
  shows "\<exists>u'. ud_input_skip u n = Some u' \<and> inp_buf_index u' \<le> inp_buf_size u' \<and>
           inp_buf_size u' = inp_buf_size u \<and>
           (if inp_buf_index u + n \<le> inp_buf_size u
            then inp_buf_index u' = inp_buf_index u + n \<and> \<not> inp_end u'
            else inp_buf_index u' = inp_buf_size u \<and> inp_end u')"
  using assms by (auto simp: ud_input_skip_def)

theorem ud_input_skip_buffer_witness:
  "\<exists>u'. ud_input_skip (ud_set_input_buffer zero_ud [1, 2, 3] 3) 2 = Some u' \<and> inp_buf_index u' = 2 \<and>
        \<not> inp_end u'"
  using ud_input_skip_buffer [of "ud_set_input_buffer zero_ud [1, 2, 3] 3" "[1, 2, 3]" 2]
  by (auto simp: ud_set_input_buffer_def ud_inp_init_def zero_ud_def numeral_2_eq_2)

end
