(* ===== verification/Trace.thy ===== *)
theory Trace
  imports Maps Target Trace_Thread Ud_Input
begin

text \<open>
  \<^verbatim>\<open>shiva_trace.c\<close>: reading and writing the debuggee, registering handlers, setting breakpoints and
  the dispatcher of trace operations. A function that returns \<open>false\<close> after setting the error
  object returns which message it set, \<open>None\<close> being the return value \<open>true\<close>; an outer \<open>None\<close>
  is a process that ended.
\<close>

datatype trace_error =
  E_no_protection
| E_mprotect
| E_peek
| E_poke
| E_alloc
| E_plt_by_name
| E_no_symbol
| E_rela_plt
| E_dynsym
| E_deactivate
| E_not_standalone
| E_no_handler
| E_external_tracer
| E_coredumping
| E_reason_unknown
| E_threads

section \<open>Registers\<close>

text \<open>The naked functions store and load registers at fixed offsets from the pointer in \<open>rdi\<close>.\<close>

definition store_at :: "u64 \<Rightarrow> (nat \<times> u64) list \<Rightarrow> mem \<Rightarrow> mem" where
  "store_at a ovs m = fold (\<lambda>(off, v) m. store64 m (a + of_nat off) v) ovs m"

definition shiva_trace_getregs_x86_64 :: "shiva_trace_regset_x86_64 \<Rightarrow> mem \<Rightarrow> mem" where
  "shiva_trace_getregs_x86_64 r =
     store_at (r_rdi r)
       [(0, r_rax r), (8, r_rbx r), (16, r_rcx r), (24, r_rdx r), (32, r_rsi r), (48, r_r8 r),
        (56, r_r9 r), (64, r_r10 r), (72, r_r11 r), (80, r_r12 r), (88, r_r13 r), (96, r_r14 r),
        (104, r_r15 r)]"

text \<open>After \<open>lea 8(%rsp), %rdx\<close> and \<open>xor %rax, %rax\<close> those two registers are changed, and
  \<open>ret\<close> pops the return address.\<close>

definition shiva_trace_setjmp_x86_64 ::
  "shiva_trace_regset_x86_64 \<Rightarrow> mem \<Rightarrow> shiva_trace_regset_x86_64 \<times> mem" where
  "shiva_trace_setjmp_x86_64 r m =
     (let m1 = store_at (r_rdi r)
           [(0, r_rax r), (8, r_rbx r), (16, r_rcx r), (24, r_rdx r), (32, r_rsi r), (48, r_rbp r),
            (56, r_rsp r + 8), (72, r_r8 r), (80, r_r9 r), (88, r_r10 r), (96, r_r11 r),
            (104, r_r12 r), (112, r_r13 r), (120, r_r14 r), (128, r_r15 r)] m
      in (r\<lparr>r_rdx := r_rsp r + 8, r_rax := 0, r_rip := load64 m1 (r_rsp r), r_rsp := r_rsp r + 8\<rparr>, m1))"

text \<open>This function is not naked, and its first assembly statement does not say which registers it changes:
  the compiler fetches \<open>ip\<close> for the second one with the loaded registers. \<open>fetch\<close> are its instructions
  for that, which leave the value in the register \<open>ip_reg\<close>; \<open>r\<close> are the registers when the loads begin,
  with the buffer still in \<open>rdi\<close>.\<close>

definition shiva_trace_longjmp_x86_64 ::
  "(shiva_trace_regset_x86_64 \<Rightarrow> mem \<Rightarrow> shiva_trace_regset_x86_64) \<Rightarrow> (shiva_trace_regset_x86_64 \<Rightarrow> u64) \<Rightarrow>
     mem \<Rightarrow> shiva_trace_regset_x86_64 \<Rightarrow> shiva_trace_regset_x86_64" where
  "shiva_trace_longjmp_x86_64 fetch ip_reg m r =
     (let jumpbuf = r_rdi r;
          r1 = r\<lparr>r_rax := load64 m jumpbuf, r_rbx := load64 m (jumpbuf + 8),
             r_rcx := load64 m (jumpbuf + 16), r_rdx := load64 m (jumpbuf + 24), r_rsi := load64 m (jumpbuf + 32),
             r_rbp := load64 m (jumpbuf + 48), r_rsp := load64 m (jumpbuf + 56),
             r_r8 := load64 m (jumpbuf + 72), r_r9 := load64 m (jumpbuf + 80),
             r_r10 := load64 m (jumpbuf + 88), r_r11 := load64 m (jumpbuf + 96),
             r_r12 := load64 m (jumpbuf + 104), r_r13 := load64 m (jumpbuf + 112),
             r_r14 := load64 m (jumpbuf + 120), r_r15 := load64 m (jumpbuf + 128)\<rparr>;
          r2 = fetch r1 m
      in r2\<lparr>r_rdx := ip_reg r2, r_rip := ip_reg r2\<rparr>)"

text \<open>A field of the register structure at the offset the structure gives it (shiva.h).\<close>

definition RBP_OFF :: u64 where "RBP_OFF = 48"
definition RSP_OFF :: u64 where "RSP_OFF = 56"
definition R8_OFF :: u64 where "R8_OFF = 72"
definition R9_OFF :: u64 where "R9_OFF = 80"

section \<open>Reading and writing the debuggee\<close>

definition shiva_trace_base_addr :: "shiva_ctx \<Rightarrow> u64" where
  "shiva_trace_base_addr ctx = ul_base_vaddr (ulexec ctx)"

text \<open>The page range whose protection is changed.\<close>

definition write_range :: "u64 \<Rightarrow> u64 \<Rightarrow> u64 \<times> u64" where
  "write_range addr len =
     (let aligned_vaddr = ELF_PAGESTART addr; aligned_len = ELF_PAGEALIGN len PAGE_SIZE
      in (aligned_vaddr,
          if addr + len > aligned_vaddr + aligned_len then aligned_len + PAGE_SIZE else aligned_len))"

definition shiva_trace_write :: "os \<Rightarrow> u64 \<Rightarrow> u8 list \<Rightarrow> proc \<Rightarrow> (trace_error option \<times> proc) option" where
  "shiva_trace_write os dst src p =
     do {
       prot \<leftarrow> shiva_maps_prot_by_addr (p_ctx p) dst;
       case prot of
         None \<Rightarrow> Some (Some E_no_protection, p)
       | Some o_prot \<Rightarrow>
           (case write_range dst (of_nat (length src)) of
              (aligned_vaddr, aligned_len) \<Rightarrow>
                (case sys_mprotect os aligned_vaddr aligned_len (o_prot OR PROT_WRITE) p of
                   (False, p1) \<Rightarrow> Some (Some E_mprotect, p1)
                 | (True, p1) \<Rightarrow>
                     do {
                       p2 \<leftarrow> p_write dst src p1;
                       case sys_mprotect os aligned_vaddr aligned_len o_prot p2 of
                         (False, p3) \<Rightarrow> Some (Some E_mprotect, p3)
                       | (True, p3) \<Rightarrow> Some (None, p3)
                     }))
     }"

text \<open>The bytes read, \<open>None\<close> for a refusal.\<close>

definition shiva_trace_op_peek :: "u64 \<Rightarrow> nat \<Rightarrow> proc \<Rightarrow> u8 list option" where
  "shiva_trace_op_peek addr len p =
     (if \<not> shiva_maps_validate_addr (p_ctx p) (addr + of_nat len) then None
      else Some (read_bytes (p_mem p) addr len))"

section \<open>Handlers\<close>

definition shiva_trace_find_handler :: "shiva_ctx \<Rightarrow> u64 \<Rightarrow> shiva_trace_handler option" where
  "shiva_trace_find_handler ctx handler =
     find (\<lambda>h. handler_fn h = handler) (trace_handlers_tqlist ctx)"

definition shiva_trace_register_handler ::
  "os \<Rightarrow> u64 \<Rightarrow> shiva_trace_bp_type \<Rightarrow> proc \<Rightarrow> trace_error option \<times> proc" where
  "shiva_trace_register_handler os fn ty p =
     (case sys_malloc os (os_sizeof os ''shiva_trace_handler'') p of
        (None, p1) \<Rightarrow> (Some E_alloc, p1)
      | (Some a, p1) \<Rightarrow>
          (None, p1\<lparr>p_ctx := (p_ctx p1)\<lparr>trace_handlers_tqlist := trace_handlers_tqlist (p_ctx p1) @
             [\<lparr>h_type = ty, handler_fn = fn, bp_tqlist = []\<rparr>]\<rparr>\<rparr>))"

section \<open>Breakpoints\<close>

definition zero_insn :: shiva_trace_insn where
  "zero_insn = \<lparr>o_insn = replicate SHIVA_MAX_INST_LEN 0, n_insn = replicate SHIVA_MAX_INST_LEN 0,
                o_insn_len = 0, n_insn_len = 0\<rparr>"

definition zero_bp :: shiva_trace_bp where
  "zero_bp = \<lparr>bp_type = SHIVA_TRACE_BP_JMP, bp_addr = 0, bp_len = 0, callsite_retaddr = 0,
              bp_plt_addr = 0, o_target = 0, o_call_offset = 0, bp_symbol = None,
              call_target_symname = None, symbol_location = False, bp_insn = zero_insn,
              retaddr_list = []\<rparr>"

text \<open>\<open>TAILQ_INSERT_TAIL\<close> into the breakpoint list of the i-th handler.\<close>

definition add_bp :: "nat \<Rightarrow> shiva_trace_bp \<Rightarrow> proc \<Rightarrow> proc" where
  "add_bp i bp p =
     (let hs = trace_handlers_tqlist (p_ctx p)
      in p\<lparr>p_ctx := (p_ctx p)\<lparr>trace_handlers_tqlist :=
             hs[i := (hs ! i)\<lparr>bp_tqlist := bp_tqlist (hs ! i) @ [bp]\<rparr>]\<rparr>\<rparr>)"

definition SIGILL :: nat where "SIGILL = 4"
definition SIGTRAP :: nat where "SIGTRAP = 5"

text \<open>The first breakpoint of a signal type installs the signal handler.\<close>

definition first_sigaction :: "nat \<Rightarrow> u64 \<Rightarrow> shiva_trace_handler \<Rightarrow> proc \<Rightarrow> proc" where
  "first_sigaction sig fn h p =
     (if bp_tqlist h = [] then p\<lparr>p_sigaction := (p_sigaction p)(sig \<mapsto> fn)\<rparr> else p)"

text \<open>The two signal breakpoints: \<open>patch\<close> gives the bytes written from the eight bytes read.\<close>

definition set_bp_signal ::
  "os \<Rightarrow> nat \<Rightarrow> (u8 list \<Rightarrow> u8 list) \<Rightarrow> u64 \<Rightarrow> nat \<Rightarrow> u64 \<Rightarrow> u64 \<Rightarrow> proc \<Rightarrow> (trace_error option \<times> proc) option" where
  "set_bp_signal os sig patch len i fn addr p =
     (let h = trace_handlers_tqlist (p_ctx p) ! i; p1 = first_sigaction sig fn h p
      in (case shiva_trace_op_peek addr 8 p1 of
            None \<Rightarrow> Some (Some E_peek, p1)
          | Some qword \<Rightarrow>
              do {
                (err, p2) \<leftarrow> shiva_trace_write os addr (patch qword) p1;
                if err \<noteq> None then Some (Some E_poke, p2)
                else (case sys_malloc os (os_sizeof os ''shiva_trace_bp'') p2 of
                        (None, p3) \<Rightarrow> Some (Some E_alloc, p3)
                      | (Some a, p3) \<Rightarrow>
                          Some (None, add_bp i (zero_bp\<lparr>bp_addr := addr, bp_len := len,
                                                         bp_type := h_type h\<rparr>) p3))
              }))"

text \<open>\<open>trap = 0x0b0f\<close>, of which four bytes are written.\<close>

definition sigill_patch :: "u8 list \<Rightarrow> u8 list" where
  "sigill_patch q = take 4 (le_bytes 8 (0x0b0f :: u64))"

text \<open>\<open>trap = (qword & ~0xff) | 0xcc\<close>.\<close>

definition int3_patch :: "u8 list \<Rightarrow> u8 list" where
  "int3_patch q = le_bytes 8 ((le_val q :: u64) AND NOT 0xff OR 0xcc)"

definition set_bp_sigill :: "os \<Rightarrow> nat \<Rightarrow> u64 \<Rightarrow> u64 \<Rightarrow> proc \<Rightarrow> (trace_error option \<times> proc) option" where
  "set_bp_sigill os i fn addr p = set_bp_signal os SIGILL sigill_patch 2 i fn addr p"

definition set_bp_int3 :: "os \<Rightarrow> nat \<Rightarrow> u64 \<Rightarrow> u64 \<Rightarrow> proc \<Rightarrow> (trace_error option \<times> proc) option" where
  "set_bp_int3 os i fn addr p = set_bp_signal os SIGTRAP int3_patch 1 i fn addr p"

text \<open>Collecting return addresses of call sites; every one is a \<open>shiva_malloc\<close> that may end the
  process.\<close>

fun add_retaddrs ::
  "os \<Rightarrow> (shiva_branch_site \<Rightarrow> bool) \<Rightarrow> (shiva_branch_site \<Rightarrow> shiva_trace_bp \<Rightarrow> shiva_trace_bp) \<Rightarrow>
   shiva_branch_site list \<Rightarrow> shiva_trace_bp \<Rightarrow> proc \<Rightarrow> (shiva_trace_bp \<times> proc) option" where
  "add_retaddrs os P f [] bp p = Some (bp, p)"
| "add_retaddrs os P f (b # bs) bp p =
     (if P b then do {
        (a, p1) \<leftarrow> shiva_malloc os 24 p;
        add_retaddrs os P f bs
          (f b (bp\<lparr>retaddr_list := retaddr_list bp @ [bs_retaddr b + shiva_trace_base_addr (p_ctx p)]\<rparr>)) p1
      }
      else add_retaddrs os P f bs bp p)"

text \<open>The disassembler is only pointed at the instruction; its length is read before anything was
  disassembled.\<close>

definition point_disas :: "u64 \<Rightarrow> proc \<Rightarrow> proc option" where
  "point_disas addr p =
     (let u = ud_set_input_buffer (p_ud p) (read_bytes (p_mem p) addr SHIVA_MAX_INST_LEN) SHIVA_MAX_INST_LEN
      in if ud_insn_len u \<le> 15 then Some (p\<lparr>p_ud := u\<rparr>) else None)"

definition tramp_inst :: "u64 \<Rightarrow> u8 list" where
  "tramp_inst fn = [0x48, 0xb8] @ le_bytes 8 fn @ [0x50, 0xc3]"

definition pad_insn :: "u8 list \<Rightarrow> u8 list" where
  "pad_insn bs = bs @ replicate (SHIVA_MAX_INST_LEN - length bs) 0"

definition set_symbol :: "elf_symbol option \<Rightarrow> shiva_trace_bp \<Rightarrow> shiva_trace_bp" where
  "set_symbol s bp =
     (case s of
        None \<Rightarrow> bp
      | Some symbol \<Rightarrow>
          bp\<lparr>symbol_location := True, bp_symbol := Some symbol,
             call_target_symname := Some (sym_name symbol)\<rparr>)"

definition tramp_call_to :: "shiva_ctx \<Rightarrow> u64 \<Rightarrow> shiva_branch_site \<Rightarrow> bool" where
  "tramp_call_to ctx addr b \<longleftrightarrow>
     branch_type b = SHIVA_BRANCH_CALL \<and> target_vaddr b + shiva_trace_base_addr ctx = addr"

definition set_bp_trampoline ::
  "os \<Rightarrow> nat \<Rightarrow> u64 \<Rightarrow> u64 \<Rightarrow> proc \<Rightarrow> (trace_error option \<times> proc) option" where
  "set_bp_trampoline os i fn addr p =
     do {
       p1 \<leftarrow> point_disas addr p;
       case sys_malloc os (os_sizeof os ''shiva_trace_bp'') p1 of
         (None, p2) \<Rightarrow> Some (Some E_alloc, p2)
       | (Some a, p2) \<Rightarrow>
           (let ctx = p_ctx p2;
                bp = set_symbol (elf_symbol_by_value_lookup (ctx_elfobj ctx)
                       (addr - shiva_trace_base_addr ctx)) zero_bp;
                bp1 = bp\<lparr>bp_insn := (bp_insn bp)\<lparr>o_insn := pad_insn (read_bytes (p_mem p2) addr 12),
                                                  n_insn := pad_insn (tramp_inst fn)\<rparr>,
                         bp_addr := addr, bp_len := 12,
                         bp_type := h_type (trace_handlers_tqlist ctx ! i)\<rparr>
            in do {
                 (err, p3) \<leftarrow> shiva_trace_write os addr (tramp_inst fn) p2;
                 if err \<noteq> None then Some (err, p3)
                 else do {
                   (bp2, p4) \<leftarrow> add_retaddrs os (tramp_call_to (p_ctx p3) addr) (\<lambda>b bp. bp)
                                  (branch_tqlist (p_ctx p3)) bp1 p3;
                   Some (None, add_bp i bp2 p4)
                 }
               })
     }"

text \<open>\<open>%#lx\<close>.\<close>

definition show_alt_hex :: "u64 \<Rightarrow> string" where
  "show_alt_hex v = (if v = 0 then ''0'' else ''0x'' @ show_base 16 (unat v))"

text \<open>The name of the called function when no symbol has its address: the last matching PLT entry,
  else the address.\<close>

fun plt_target_name :: "os \<Rightarrow> elf_plt list \<Rightarrow> u64 \<Rightarrow> string option \<Rightarrow> proc \<Rightarrow> (string option \<times> proc) option" where
  "plt_target_name os [] off name p = Some (name, p)"
| "plt_target_name os (e # es) off name p =
     (if off = plt_addr e then do {
        (a, s, p1) \<leftarrow> shiva_xfmtstrdup os (plt_symname e @ ''@plt'') p;
        plt_target_name os es off (Some s) p1
      }
      else plt_target_name os es off name p)"

definition call_target :: "os \<Rightarrow> shiva_trace_bp \<Rightarrow> proc \<Rightarrow> (shiva_trace_bp \<times> proc) option" where
  "call_target os bp p =
     (let off = o_target bp - shiva_trace_base_addr (p_ctx p); obj = ctx_elfobj (p_ctx p)
      in (case elf_symbol_by_value_lookup obj off of
            Some symbol \<Rightarrow> Some (set_symbol (Some symbol) bp, p)
          | None \<Rightarrow>
              do {
                (name, p1) \<leftarrow> plt_target_name os (elf_plts obj) off None p;
                case name of
                  Some s \<Rightarrow> Some (bp\<lparr>call_target_symname := Some s\<rparr>, p1)
                | None \<Rightarrow> do {
                    (a, s, p2) \<leftarrow> shiva_xfmtstrdup os (''fn_'' @ show_alt_hex (o_target bp)) p1;
                    Some (bp\<lparr>call_target_symname := Some s\<rparr>, p2)
                  }
              }))"

definition call_inst :: "u64 \<Rightarrow> u64 \<Rightarrow> u8 list" where
  "call_inst fn addr = 0xe8 # le_bytes 4 (ucast (fn - addr - 5) :: u32)"

text \<open>The breakpoint object of a call hook, from the five bytes at the address.\<close>

definition call_bp :: "shiva_trace_bp_type \<Rightarrow> u64 \<Rightarrow> u8 list \<Rightarrow> shiva_trace_bp" where
  "call_bp ty addr insn =
     (let off = ucast (le_val (take 4 (drop 1 insn)) :: u32) :: u64
      in zero_bp\<lparr>bp_insn := zero_insn\<lparr>o_insn := pad_insn insn\<rparr>, o_call_offset := off,
                 o_target := (addr + off + 5) AND 0xffffffff, bp_type := ty, bp_addr := addr,
                 bp_len := 5, callsite_retaddr := addr + 5\<rparr>)"

text \<open>\<open>standalone\<close> is whether the sources are compiled with \<open>SHIVA_STANDALONE\<close>.\<close>

definition set_bp_call ::
  "bool \<Rightarrow> os \<Rightarrow> nat \<Rightarrow> u64 \<Rightarrow> u64 \<Rightarrow> proc \<Rightarrow> (trace_error option \<times> proc) option" where
  "set_bp_call standalone os i fn addr p =
     (if \<not> standalone then Some (Some E_not_standalone, p)
      else do {
        p1 \<leftarrow> point_disas addr p;
        case sys_malloc os (os_sizeof os ''shiva_trace_bp'') p1 of
          (None, p2) \<Rightarrow> Some (Some E_alloc, p2)
        | (Some a, p2) \<Rightarrow>
            do {
              (bp, p3) \<leftarrow> call_target os
                 (call_bp (h_type (trace_handlers_tqlist (p_ctx p2) ! i)) addr
                    (read_bytes (p_mem p2) addr 5)) p2;
              (err, p4) \<leftarrow> shiva_trace_write os addr
                 (call_inst (handler_fn (trace_handlers_tqlist (p_ctx p3) ! i)) addr) p3;
              if err \<noteq> None then Some (err, p4) else Some (None, add_bp i bp p4)
            }
      })"

text \<open>The alternate copy of \<open>.rela.plt\<close> without the hooked symbol: whether every symbol index was
  found, the number of records copied, the hooked symbol and the memory.\<close>

fun alt_relocs ::
  "elfobj \<Rightarrow> string \<Rightarrow> nat \<Rightarrow> u64 \<Rightarrow> u64 \<Rightarrow> nat \<Rightarrow> elf_symbol option \<Rightarrow> mem \<Rightarrow>
     bool \<times> nat \<times> elf_symbol option \<times> mem" where
  "alt_relocs obj name 0 ptr jr cnt hsym m = (True, cnt, hsym, m)"
| "alt_relocs obj name (Suc n) ptr jr cnt hsym m =
     (let info = load64 m (ptr + 8)
      in if (ucast info :: u32) \<noteq> of_nat R_X86_64_JUMP_SLOT then
           alt_relocs obj name n (ptr + 24) jr cnt hsym m
         else (case elf_symbol_by_index obj (drop_bit 32 info) of
                 None \<Rightarrow> (False, cnt, hsym, m)
               | Some s \<Rightarrow>
                   if sym_name s = name then alt_relocs obj name n (ptr + 24) jr cnt (Some s) m
                   else alt_relocs obj name n (ptr + 24) jr (Suc cnt) hsym
                          (write_bytes m (jr + 24 * of_nat cnt) (read_bytes m ptr 24))))"

definition plt_call_to :: "string \<Rightarrow> shiva_branch_site \<Rightarrow> bool" where
  "plt_call_to name b \<longleftrightarrow>
     strstr (sym_name (bs_symbol b)) ''@plt'' \<noteq> None \<and> branch_type b = SHIVA_BRANCH_CALL \<and>
     strncmp_eq (length (cut_at (sym_name (bs_symbol b)) (CHR ''@''))) name (sym_name (bs_symbol b))"

text \<open>The first alternate table is allocated, later hooks reuse it.\<close>

definition jmprel_alloc :: "os \<Rightarrow> u64 \<Rightarrow> proc \<Rightarrow> proc option" where
  "jmprel_alloc os len p =
     (if jmprel (p_ctx p) \<noteq> 0 then Some p
      else do {
        (a, p1) \<leftarrow> shiva_malloc os len p;
        Some (p1\<lparr>p_ctx := (p_ctx p1)\<lparr>jmprel := a\<rparr>\<rparr>)
      })"

text \<open>Taking the hooked symbol out of the relocations the dynamic linker will process.\<close>

definition pltgot_deactivate ::
  "os \<Rightarrow> string \<Rightarrow> proc \<Rightarrow> ((trace_error option \<times> elf_symbol option) \<times> proc) option" where
  "pltgot_deactivate os name p =
     (let obj = ctx_elfobj (p_ctx p); base = ul_base_vaddr (ulexec (p_ctx p))
      in (case elf_section_by_name obj ''.rela.plt'' of
            None \<Rightarrow> Some ((Some E_rela_plt, None), p)
          | Some rela_plt \<Rightarrow>
              do {
                p1 \<leftarrow> jmprel_alloc os (sec_size rela_plt) p;
                if sec_entsize rela_plt = 0 then None
                else (let n = unat (sec_size rela_plt) div unat (sec_entsize rela_plt)
                      in (case alt_relocs obj name n (base + sec_offset rela_plt) (jmprel (p_ctx p1))
                                 0 None (p_mem p1) of
                            (ok, cnt, hsym, m) \<Rightarrow>
                              (let p2 = p1\<lparr>p_mem := m\<rparr>
                               in if \<not> ok then Some ((Some E_dynsym, hsym), p2)
                                  else if n \<le> cnt then Some ((Some E_deactivate, hsym), p2)
                                  else do {
                                    (r1, p3) \<leftarrow> shiva_target_dynamic_set DT_JMPREL
                                                  (jmprel (p_ctx p2) - base) p2;
                                    (r2, p4) \<leftarrow> shiva_target_dynamic_set DT_PLTRELSZ
                                                  (of_nat (cnt * 24)) p3;
                                    Some ((None, hsym), p4)
                                  })))
              }))"

definition pltgot_bp :: "elfobj \<Rightarrow> u64 \<Rightarrow> u64 \<Rightarrow> u64 \<Rightarrow> shiva_trace_bp" where
  "pltgot_bp obj base off got =
     zero_bp\<lparr>bp_type := SHIVA_TRACE_BP_PLTGOT, bp_addr := off + base,
             o_target := (if elf_type obj = ET_DYN then got + base else got)\<rparr>"

text \<open>The whole branch for the GOT entry that was found; \<open>symnull\<close> is whether the local
  \<open>symname\<close>, which is not initialised, happens to be NULL when no relocation set it.\<close>

definition set_bp_pltgot_entry ::
  "bool \<Rightarrow> os \<Rightarrow> nat \<Rightarrow> u64 \<Rightarrow> string \<Rightarrow> elf_pltgot_entry \<Rightarrow> proc \<Rightarrow> (trace_error option \<times> proc) option" where
  "set_bp_pltgot_entry symnull os i fn name e p =
     (case sys_malloc os (os_sizeof os ''shiva_trace_bp'') p of
        (None, p1) \<Rightarrow> Some (Some E_alloc, p1)
      | (Some a, p1) \<Rightarrow>
          (let obj = ctx_elfobj (p_ctx p1); base = ul_base_vaddr (ulexec (p_ctx p1));
               got = pltgot_offset e + base
           in if symnull \<and> find (\<lambda>r. rel_type r = R_X86_64_JUMP_SLOT \<and> rel_offset r = pltgot_offset e)
                             (elf_relocations obj) = None
              then Some (Some E_no_symbol, p1)
              else do {
                p2 \<leftarrow> p_write got (le_bytes 8 fn) p1;
                ((err, hsym), p3) \<leftarrow> pltgot_deactivate os name p2;
                if err \<noteq> None then Some (err, p3)
                else do {
                  let bp = pltgot_bp obj base (pltgot_offset e) (load64 (p_mem p1) got);
                  (bp2, p4) \<leftarrow> add_retaddrs os (plt_call_to name) (\<lambda>b bp. bp\<lparr>bp_plt_addr := target_vaddr b\<rparr>)
                      (branch_tqlist (p_ctx p3))
                      (bp\<lparr>bp_symbol := hsym, symbol_location := (hsym \<noteq> None)\<rparr>) p3;
                  Some (None, add_bp i bp2 p4)
                }
              }))"

text \<open>The boolean says that the function returned, so that no further handler is looked at.\<close>

definition set_bp_pltgot ::
  "bool \<Rightarrow> os \<Rightarrow> nat \<Rightarrow> u64 \<Rightarrow> string \<Rightarrow> proc \<Rightarrow> ((trace_error option \<times> bool) \<times> proc) option" where
  "set_bp_pltgot symnull os i fn name p =
     (let obj = ctx_elfobj (p_ctx p)
      in (case elf_plt_by_name obj name of
            None \<Rightarrow> Some ((Some E_plt_by_name, True), p)
          | Some plt \<Rightarrow>
              (case find (\<lambda>e. pltgot_stub e \<and> pltgot_value e = plt_addr plt + 6) (elf_pltgots obj) of
                 None \<Rightarrow> Some ((None, False), p)
               | Some e \<Rightarrow> do {
                   (err, p1) \<leftarrow> set_bp_pltgot_entry symnull os i fn name e p;
                   Some ((err, True), p1)
                 })))"

definition set_bp_one ::
  "bool \<Rightarrow> bool \<Rightarrow> os \<Rightarrow> nat \<Rightarrow> u64 \<Rightarrow> u64 \<Rightarrow> string \<Rightarrow> proc \<Rightarrow> ((trace_error option \<times> bool) \<times> proc) option" where
  "set_bp_one standalone symnull os i fn addr name p =
     (let ret = (\<lambda>r. map_option (\<lambda>(err, p). ((err, err \<noteq> None), p)) r)
      in (case h_type (trace_handlers_tqlist (p_ctx p) ! i) of
            SHIVA_TRACE_BP_JMP \<Rightarrow> Some ((None, False), p)
          | SHIVA_TRACE_BP_SEGV \<Rightarrow> Some ((None, False), p)
          | SHIVA_TRACE_BP_SIGILL \<Rightarrow> ret (set_bp_sigill os i fn addr p)
          | SHIVA_TRACE_BP_INT3 \<Rightarrow> ret (set_bp_int3 os i fn addr p)
          | SHIVA_TRACE_BP_PLTGOT \<Rightarrow> set_bp_pltgot symnull os i fn name p
          | SHIVA_TRACE_BP_TRAMPOLINE \<Rightarrow> ret (set_bp_trampoline os i fn addr p)
          | SHIVA_TRACE_BP_CALL \<Rightarrow> ret (set_bp_call standalone os i fn addr p)))"

fun set_bp_loop ::
  "bool \<Rightarrow> bool \<Rightarrow> os \<Rightarrow> u64 \<Rightarrow> u64 \<Rightarrow> string \<Rightarrow> nat list \<Rightarrow> bool \<Rightarrow> proc \<Rightarrow> (trace_error option \<times> proc) option" where
  "set_bp_loop standalone symnull os fn addr name [] found p =
     Some (if found then None else Some E_no_handler, p)"
| "set_bp_loop standalone symnull os fn addr name (i # is) found p =
     (if handler_fn (trace_handlers_tqlist (p_ctx p) ! i) \<noteq> fn then
        set_bp_loop standalone symnull os fn addr name is found p
      else do {
        ((err, stop), p1) \<leftarrow> set_bp_one standalone symnull os i fn addr name p;
        if stop then Some (err, p1)
        else set_bp_loop standalone symnull os fn addr name is True p1
      })"

definition shiva_trace_set_breakpoint ::
  "bool \<Rightarrow> bool \<Rightarrow> os \<Rightarrow> u64 \<Rightarrow> u64 \<Rightarrow> string \<Rightarrow> proc \<Rightarrow> (trace_error option \<times> proc) option" where
  "shiva_trace_set_breakpoint standalone symnull os fn addr name p =
     set_bp_loop standalone symnull os fn addr name [0..<length (trace_handlers_tqlist (p_ctx p))] False p"

section \<open>Trace operations\<close>

text \<open>\<open>status\<close> is what the uninitialised local holds.\<close>

definition shiva_trace_op_attach :: "os \<Rightarrow> nat \<Rightarrow> u64 \<Rightarrow> proc \<Rightarrow> (trace_error option \<times> proc) option" where
  "shiva_trace_op_attach os pid status p =
     (if pid \<noteq> 0 then Some (Some E_threads, p)
      else do {
        (ok, out, p1) \<leftarrow> shiva_trace_thread_insert os pid status p;
        if ok then Some (None, p1)
        else if has_flag out SHIVA_TRACE_THREAD_F_EXTERN_TRACER then Some (Some E_external_tracer, p1)
        else if has_flag out SHIVA_TRACE_THREAD_F_COREDUMPING then Some (Some E_coredumping, p1)
        else Some (Some E_reason_unknown, p1)
      })"

definition shiva_trace_op_cont :: "proc \<Rightarrow> trace_error option \<times> proc" where
  "shiva_trace_op_cont p = (None, p)"

text \<open>The returned boolean (\<open>res0\<close> is what the uninitialised result variable holds), the bytes a
  peek stored and the process. A poke is of the bytes \<open>data\<close>, a peek of \<open>len\<close> bytes.\<close>

definition shiva_trace ::
  "os \<Rightarrow> bool \<Rightarrow> u64 \<Rightarrow> nat \<Rightarrow> shiva_trace_op \<Rightarrow> u64 \<Rightarrow> u8 list \<Rightarrow> nat \<Rightarrow> proc \<Rightarrow>
     (bool \<times> u8 list option \<times> proc) option" where
  "shiva_trace os res0 status pid op addr data len p =
     (case op of
        SHIVA_TRACE_OP_ATTACH \<Rightarrow>
          map_option (\<lambda>(err, p). (err = None, None, p)) (shiva_trace_op_attach os pid status p)
      | SHIVA_TRACE_OP_CONT \<Rightarrow>
          (case shiva_trace_op_cont p of (err, p1) \<Rightarrow> Some (err = None, None, p1))
      | SHIVA_TRACE_OP_POKE \<Rightarrow>
          map_option (\<lambda>(err, p). (err = None, None, p)) (shiva_trace_write os addr data p)
      | SHIVA_TRACE_OP_PEEK \<Rightarrow>
          (let r = shiva_trace_op_peek addr len p in Some (r \<noteq> None, r, p))
      | _ \<Rightarrow> Some (res0, None, p))"

end
