(* ===== verification/Trace_Poke.thy ===== *)
theory Trace_Poke
  imports Trace
begin

text \<open>
  What the trace API does to the memory of the debuggee: pokes and peeks, the registers it saves,
  and the handler list.
\<close>

section \<open>The page range of a write\<close>

lemma write_range_unat:
  assumes "unat addr + n + 8192 \<le> 2 ^ 64" and "write_range addr (of_nat n) = (a, l)"
  shows "unat a = unat addr - unat addr mod 4096"
    and "unat l = (if unat addr + n > unat addr - unat addr mod 4096 + (n + 4095) div 4096 * 4096
                   then (n + 4095) div 4096 * 4096 + 4096 else (n + 4095) div 4096 * 4096)"
proof -
  let ?A = "unat addr" and ?S = "unat addr - unat addr mod 4096"
  let ?L = "(n + 4095) div 4096 * 4096"
  have n: "unat (of_nat n :: u64) = n" using assms(1) by (simp add: unat_of_nat take_bit_nat_eq_self)
  show "unat a = ?S" using assms(2) by (auto simp: write_range_def Let_def unat_ELF_PAGESTART)
  have L: "n \<le> ?L" "?L < n + 4096" using roundup_bounds [of 4096 n] by auto
  have uL: "unat (ELF_PAGEALIGN (of_nat n) PAGE_SIZE) = ?L"
    using assms(1) by (simp add: PAGE_SIZE_def unat_ELF_PAGEALIGN n)
  have sum: "unat (addr + of_nat n) = ?A + n"
    using assms(1) n by (simp add: unat_word_ariths)
  have sum2: "unat (ELF_PAGESTART addr + ELF_PAGEALIGN (of_nat n) PAGE_SIZE) = ?S + ?L"
    using assms(1) L uL by (simp add: unat_word_ariths unat_ELF_PAGESTART)
  show "unat l = (if ?A + n > ?S + ?L then ?L + 4096 else ?L)"
  proof (cases "?A + n > ?S + ?L")
    case True
    then have "l = ELF_PAGEALIGN (of_nat n) PAGE_SIZE + PAGE_SIZE"
      using assms(2) sum sum2 by (auto simp: write_range_def Let_def word_less_nat_alt)
    then have "unat l = (?L + 4096) mod 2 ^ 64"
      using uL by (simp add: PAGE_SIZE_def unat_word_ariths)
    then show ?thesis using True L assms(1) by simp
  next
    case False
    then have "l = ELF_PAGEALIGN (of_nat n) PAGE_SIZE"
      using assms(2) sum sum2 by (auto simp: write_range_def Let_def word_less_nat_alt)
    then show ?thesis using False uL by simp
  qed
qed

lemma write_range_covers:
  assumes "unat addr + n + 8192 \<le> 2 ^ 64" and "write_range addr (of_nat n) = (a, l)" and "i < n"
  shows "in_region a (unat l) (addr + of_nat i)"
proof -
  let ?A = "unat addr" and ?S = "unat addr - unat addr mod 4096"
  let ?L = "(n + 4095) div 4096 * 4096"
  note al = write_range_unat [OF assms(1,2)]
  have L: "n \<le> ?L" using roundup_bounds [of 4096 n] by auto
  have "unat (addr + of_nat i) = ?A + i"
    using assms(1,3) by (simp add: unat_word_ariths unat_of_nat take_bit_nat_eq_self)
  then have "unat (addr + of_nat i - a) = ?A + i - ?S"
    using al(1) by (simp add: unat_sub_if' trans_le_add1)
  moreover have "?A + i - ?S < unat l"
  proof -
    have "?A mod 4096 < 4096" "?A mod 4096 \<le> ?A" by simp_all
    with al(2) L assms(3) show ?thesis by (auto split: if_splits)
  qed
  ultimately show ?thesis by (simp add: in_region_def)
qed

definition mprotect_ok :: "os \<Rightarrow> bool" where
  "mprotect_ok os \<longleftrightarrow> (\<forall>n a len pr. os_mprotect os n a len pr)"

lemma sys_mprotect_ok:
  "mprotect_ok os \<Longrightarrow> sys_mprotect os a len pr p =
     (True, p\<lparr>p_calls := Suc (p_calls p), p_prot := protect (p_prot p) a len pr\<rparr>)"
  by (simp add: sys_mprotect_def mprotect_ok_def)

lemma trace_write_run:
  assumes "shiva_maps_prot_by_addr (p_ctx p) dst = Some (Some o_prot)" and "mprotect_ok os"
    and "unat dst + length src + 8192 \<le> 2 ^ 64"
    and "write_range dst (of_nat (length src)) = (a, l)"
  shows "shiva_trace_write os dst src p =
           Some (None, p\<lparr>p_calls := Suc (Suc (p_calls p)), p_mem := write_bytes (p_mem p) dst src,
                         p_prot := protect (p_prot p) a l o_prot\<rparr>)"
proof -
  have "writable (protect (p_prot p) a l (o_prot OR PROT_WRITE)) dst (length src)"
    using write_range_covers [OF assms(3,4)] by (intro writable_protect) (auto simp: PROT_WRITE_def)
  then show ?thesis
    using assms(1) by (simp add: shiva_trace_write_def assms(4) sys_mprotect_ok [OF assms(2)]
        p_write_def)
qed

text \<open>A write either fails without touching memory or has exactly the wanted effect.\<close>

lemma trace_write_frame:
  assumes "shiva_trace_write os dst src p = Some (err, p')"
  shows "p_ctx p' = p_ctx p \<and> p_sigaction p' = p_sigaction p \<and> p_ud p' = p_ud p \<and>
         (p_mem p' = p_mem p \<or> p_mem p' = write_bytes (p_mem p) dst src) \<and>
         (err = None \<longrightarrow> p_mem p' = write_bytes (p_mem p) dst src)"
proof -
  obtain a l where al: "write_range dst (of_nat (length src)) = (a, l)" by fastforce
  obtain pr where pr: "shiva_maps_prot_by_addr (p_ctx p) dst = Some pr"
    using assms by (auto simp: shiva_trace_write_def bind_eq_Some_conv)
  show ?thesis
  proof (cases pr)
    case None
    with assms pr show ?thesis by (auto simp: shiva_trace_write_def)
  next
    case (Some o_prot)
    with assms pr show ?thesis
      by (cases "os_mprotect os (p_calls p) a l (o_prot OR PROT_WRITE)";
          cases "os_mprotect os (Suc (p_calls p)) a l o_prot")
        (auto simp: shiva_trace_write_def al sys_mprotect_def p_write_def split: if_split_asm)
  qed
qed

text \<open>The protected range of a write is the pages of the written bytes.\<close>

lemma write_range_pages:
  assumes "unat addr + n + 8192 \<le> 2 ^ 64" and "0 < n" and "write_range addr (of_nat n) = (a, l)"
  shows "in_region a (unat l) x \<longleftrightarrow>
           unat addr div 4096 \<le> unat x div 4096 \<and> unat x div 4096 \<le> (unat addr + n - 1) div 4096"
proof -
  let ?A = "unat addr" and ?S = "unat addr div 4096 * 4096"
  let ?L = "(n + 4095) div 4096 * 4096"
  have range: "unat a = ?S" "unat l = (if ?A + n > ?S + ?L then ?L + 4096 else ?L)"
    using write_range_unat [OF assms(1,3)] by (simp_all add: minus_mod_eq_div_mult)
  have ends: "?S + unat l = ((?A + n - 1) div 4096 + 1) * 4096"
  proof -
    obtain q d where q: "?A = q * 4096 + d" "d < 4096"
      by (metis div_mult_mod_eq mod_less_divisor zero_less_numeral)
    obtain k e where k: "n = k * 4096 + e + 1" "e < 4096"
      using assms(2) by (metis Suc_eq_plus1 Suc_pred' div_mult_mod_eq mod_less_divisor zero_less_numeral)
    have S: "?S = q * 4096" using q by simp
    have "(n + 4095) div 4096 = k + 1" using k by (intro div_nat_eqI) auto
    then have L: "?L = (k + 1) * 4096" by simp
    have "(?A + n - 1) div 4096 = q + k + (if d + e < 4096 then 0 else 1)"
      using q k by (auto simp: div_nat_eqI)
    then show ?thesis using range(2) q k unfolding S L by auto
  qed
  have "in_region a (unat l) x \<longleftrightarrow> ?S \<le> unat x \<and> unat x < ?S + unat l"
  proof (cases "?S \<le> unat x")
    case True
    then have "unat (x - a) = unat x - ?S" using range(1) by (simp add: unat_sub word_le_nat_alt)
    then show ?thesis using True by (auto simp: in_region_def)
  next
    case False
    then have "unat (x - a) = 2 ^ 64 + unat x - ?S" using range(1) by (simp add: unat_sub_if_size word_size)
    moreover have "?S + unat l \<le> 2 ^ 64" using ends assms(1) by simp
    ultimately show ?thesis using False by (simp add: in_region_def)
  qed
  also have "\<dots> \<longleftrightarrow> ?A div 4096 \<le> unat x div 4096 \<and> unat x div 4096 \<le> (?A + n - 1) div 4096"
  proof -
    have "k * 4096 \<le> unat x \<longleftrightarrow> k \<le> unat x div 4096" for k by (simp add: less_eq_div_iff_mult_less_eq)
    moreover have "unat x < (k + 1) * 4096 \<longleftrightarrow> unat x div 4096 \<le> k" for k
      using div_less_iff_less_mult [of 4096 "unat x" "k + 1"] by auto
    ultimately show ?thesis unfolding ends by simp
  qed
  finally show ?thesis .
qed

text \<open>C5. A poke into a mapped address of the debuggee, read-only text included, succeeds whenever
  \<open>mprotect\<close> does: the written bytes are in memory and no other byte changed. The pages it wrote to are
  left with the protection the map list records for the first address, all other pages with their own; so
  nothing changes when the pages had that protection, and a page of a neighbouring mapping that had
  another one loses it.\<close>

theorem poke_writes_and_restores:
  assumes "shiva_maps_prot_by_addr (p_ctx p) dst = Some (Some o_prot)" and "mprotect_ok os"
    and "unat dst + length src + 8192 \<le> 2 ^ 64"
  shows "\<exists>p'. shiva_trace os r st 0 SHIVA_TRACE_OP_POKE dst src n p = Some (True, None, p') \<and>
           read_bytes (p_mem p') dst (length src) = src \<and>
           (\<forall>x. \<not> in_region dst (length src) x \<longrightarrow> p_mem p' x = p_mem p x) \<and>
           (src \<noteq> [] \<longrightarrow> (\<forall>x. p_prot p' x =
              (if unat dst div 4096 \<le> unat x div 4096 \<and> unat x div 4096 \<le> (unat dst + length src - 1) div 4096
               then o_prot else p_prot p x))) \<and>
           p_ctx p' = p_ctx p"
proof -
  obtain a l where al: "write_range dst (of_nat (length src)) = (a, l)" by fastforce
  have "length src \<le> 2 ^ 64" using assms(3) by simp
  moreover have "src \<noteq> [] \<longrightarrow> (\<forall>x. protect (p_prot p) a l o_prot x =
      (if unat dst div 4096 \<le> unat x div 4096 \<and> unat x div 4096 \<le> (unat dst + length src - 1) div 4096
       then o_prot else p_prot p x))"
    using write_range_pages [OF assms(3) _ al] by (simp add: protect_def)
  ultimately show ?thesis
    by (simp add: shiva_trace_def trace_write_run [OF assms al] read_write_bytes mem_simps)
qed

text \<open>C31. A peek after a poke at the same address returns the bytes that were written, provided the
  address behind them belongs to the debuggee, which is what a peek checks.\<close>

theorem peek_after_poke:
  assumes "shiva_maps_prot_by_addr (p_ctx p) dst = Some (Some o_prot)" and "mprotect_ok os"
    and "unat dst + length src + 8192 \<le> 2 ^ 64"
    and "shiva_maps_validate_addr (p_ctx p) (dst + of_nat (length src))"
  shows "\<exists>p'. shiva_trace os r st 0 SHIVA_TRACE_OP_POKE dst src n p = Some (True, None, p') \<and>
           shiva_trace os r st 0 SHIVA_TRACE_OP_PEEK dst d (length src) p' = Some (True, Some src, p')"
proof -
  obtain a l where al: "write_range dst (of_nat (length src)) = (a, l)" by fastforce
  have "length src \<le> 2 ^ 64" using assms(3) by simp
  then show ?thesis
    using assms(4) by (simp add: shiva_trace_def trace_write_run [OF assms(1-3) al]
        shiva_trace_op_peek_def read_write_bytes)
qed

text \<open>A poke at an address that is in no mapping is refused and nothing changes.\<close>

theorem poke_unmapped_refused:
  assumes "\<forall>e \<in> set (mmap_tqlist (p_ctx p)). \<not> addr_in_entry dst e"
  shows "shiva_trace os r st pid SHIVA_TRACE_OP_POKE dst src n p = Some (False, None, p)"
proof -
  have "find (addr_in_entry dst) (mmap_tqlist (p_ctx p)) = None"
    using assms by (simp add: find_None_iff)
  then show ?thesis
    by (simp add: shiva_trace_def shiva_trace_write_def shiva_maps_prot_by_addr_find)
qed

text \<open>A peek at the last bytes of the only mapping of the debuggee is refused, although every
  byte it would read is mapped: the check is made on the address behind them.\<close>

theorem peek_last_bytes_refused:
  assumes "mmap_tqlist (p_ctx p) = [e]" and "unat (map_base e) + unat (map_len e) < 2 ^ 64"
    and "len \<le> unat (map_len e)"
  shows "shiva_trace_op_peek (map_base e + map_len e - of_nat len) len p = None"
proof -
  have "\<not> map_base e + map_len e < map_base e + map_len e" by simp
  then show ?thesis
    using assms(1) by (simp add: shiva_trace_op_peek_def shiva_maps_validate_addr_def)
qed

section \<open>Saving and restoring registers\<close>

lemma load_store_at_other:
  assumes "\<forall>x \<in> set (map fst ovs). 8 dvd x \<and> x < 2 ^ 32" and "8 dvd off" and "off < 2 ^ 32"
    and "off \<notin> set (map fst ovs)"
  shows "load64 (store_at a ovs m) (a + of_nat off) = load64 m (a + of_nat off)"
  using assms
proof (induction ovs arbitrary: m)
  case (Cons ov ovs)
  obtain x v where ov: "ov = (x, v)" by fastforce
  with Cons.prems have "x + 8 \<le> off \<or> off + 8 \<le> x" by (auto simp: dvd_def)
  then have "load64 (store64 m (a + of_nat x) v) (a + of_nat off) = load64 m (a + of_nat off)"
    using Cons.prems ov by (intro load64_store64_nat) auto
  moreover have "store_at a (ov # ovs) m = store_at a ovs (store64 m (a + of_nat x) v)"
    by (simp add: store_at_def ov)
  ultimately show ?case using Cons by simp
qed (simp add: store_at_def)

lemma load_store_at:
  assumes "\<forall>x \<in> set (map fst ovs). 8 dvd x \<and> x < 2 ^ 32" and "distinct (map fst ovs)"
    and "(off, v) \<in> set ovs"
  shows "load64 (store_at a ovs m) (a + of_nat off) = v"
  using assms
proof (induction ovs arbitrary: m)
  case (Cons ov ovs)
  have step: "store_at a (ov # ovs) m = store_at a ovs (store64 m (a + of_nat (fst ov)) (snd ov))"
    by (simp add: store_at_def split: prod.split)
  show ?case
  proof (cases "ov = (off, v)")
    case True
    with Cons.prems have "load64 (store_at a ovs (store64 m (a + of_nat off) v)) (a + of_nat off) = v"
      by (subst load_store_at_other) (auto simp: load64_store64)
    with True step show ?thesis by simp
  next
    case False
    with Cons show ?thesis by (simp add: step)
  qed
qed simp

lemma load64_agree:
  assumes "\<forall>x. in_region a n x \<longrightarrow> m' x = m x" and "off + 8 \<le> n" and "n < 2 ^ 64"
  shows "load64 m' (a + of_nat off) = load64 m (a + of_nat off)"
proof -
  have "in_region a n (a + of_nat off + of_nat i)" if "i < 8" for i
  proof -
    have "a + of_nat off + of_nat i - a = of_nat (off + i)" by simp
    moreover have "unat (of_nat (off + i) :: u64) = off + i"
      using that assms(2,3) by (simp add: unat_of_nat take_bit_nat_eq_self del: of_nat_add)
    ultimately show ?thesis using that assms(2) by (simp add: in_region_def del: of_nat_add)
  qed
  then have "read_bytes m' (a + of_nat off) 8 = read_bytes m (a + of_nat off) 8"
    using assms(1) by (simp add: read_bytes_def)
  then show ?thesis by (simp add: load64_def)
qed

text \<open>The words \<open>setjmp\<close> leaves in its buffer.\<close>

definition jumpbuf_words :: "shiva_trace_regset_x86_64 \<Rightarrow> (nat \<times> u64) list" where
  "jumpbuf_words r =
     [(0, r_rax r), (8, r_rbx r), (16, r_rcx r), (24, r_rdx r), (32, r_rsi r), (48, r_rbp r),
      (56, r_rsp r + 8), (72, r_r8 r), (80, r_r9 r), (88, r_r10 r), (96, r_r11 r),
      (104, r_r12 r), (112, r_r13 r), (120, r_r14 r), (128, r_r15 r)]"

lemma setjmp_words:
  assumes "shiva_trace_setjmp_x86_64 r m = (r1, m1)" and "\<forall>x. in_region (r_rdi r) 136 x \<longrightarrow> m' x = m1 x"
    and "(off, v) \<in> set (jumpbuf_words r)"
  shows "load64 m' (r_rdi r + of_nat off) = v"
proof -
  have "m1 = store_at (r_rdi r) (jumpbuf_words r) m"
    using assms(1) by (auto simp: shiva_trace_setjmp_x86_64_def Let_def jumpbuf_words_def)
  moreover have "load64 (store_at (r_rdi r) (jumpbuf_words r) m) (r_rdi r + of_nat off) = v"
    using assms(3) by (intro load_store_at) (auto simp: jumpbuf_words_def)
  moreover have "off + 8 \<le> 136" using assms(3) by (auto simp: jumpbuf_words_def)
  ultimately show ?thesis using load64_agree [OF assms(2), of off] by simp
qed

text \<open>C32. Jumping back through a buffer that \<open>setjmp\<close> filled, and that is unchanged since, loads every
  general register of its caller but \<open>rdi\<close> and the stack as it was after the call returned; only then the
  compiler fetches the target, so its address is computed with the loaded registers: kept in \<open>rsi\<close> it
  is the \<open>rsi\<close> of the caller of \<open>setjmp\<close>, kept on the stack it is what lies below the frame pointer of
  that caller. The value the caller of \<open>longjmp\<close> passed is lost.\<close>

theorem setjmp_longjmp_restores:
  assumes "shiva_trace_setjmp_x86_64 r m = (r1, m1)"
    and "r_rdi r' = r_rdi r" and "\<forall>x. in_region (r_rdi r) 136 x \<longrightarrow> m' x = m1 x"
    and "loaded = r\<lparr>r_rsp := r_rsp r1, r_rip := r_rip r', r_flags := r_flags r', r_cs := r_cs r', r_ss := r_ss r',
                    r_fs := r_fs r', r_ds := r_ds r'\<rparr>"
  shows "shiva_trace_longjmp_x86_64 fetch ip_reg m' r' =
           (fetch loaded m')\<lparr>r_rdx := ip_reg (fetch loaded m'), r_rip := ip_reg (fetch loaded m')\<rparr> \<and>
         shiva_trace_longjmp_x86_64 (\<lambda>r m. r) r_rsi m' r' = loaded\<lparr>r_rdx := r_rsi r, r_rip := r_rsi r\<rparr> \<and>
         shiva_trace_longjmp_x86_64 (\<lambda>r m. r\<lparr>r_rax := load64 m (r_rbp r - 16)\<rparr>) r_rax m' r' =
           loaded\<lparr>r_rax := load64 m' (r_rbp r - 16), r_rdx := load64 m' (r_rbp r - 16), r_rip := load64 m' (r_rbp r - 16)\<rparr>"
proof -
  have sp: "r_rsp r1 = r_rsp r + 8" using assms(1) by (auto simp: shiva_trace_setjmp_x86_64_def Let_def)
  note L = setjmp_words [OF assms(1,3), unfolded jumpbuf_words_def]
  note loads = L [of 0 "r_rax r"] L [of 8 "r_rbx r"] L [of 16 "r_rcx r"] L [of 24 "r_rdx r"]
    L [of 32 "r_rsi r"] L [of 48 "r_rbp r"] L [of 56 "r_rsp r + 8"] L [of 72 "r_r8 r"]
    L [of 80 "r_r9 r"] L [of 88 "r_r10 r"] L [of 96 "r_r11 r"] L [of 104 "r_r12 r"]
    L [of 112 "r_r13 r"] L [of 120 "r_r14 r"] L [of 128 "r_r15 r"]
  have loads: "load64 m' (r_rdi r) = r_rax r" "load64 m' (r_rdi r + 8) = r_rbx r"
    "load64 m' (r_rdi r + 16) = r_rcx r" "load64 m' (r_rdi r + 24) = r_rdx r"
    "load64 m' (r_rdi r + 32) = r_rsi r" "load64 m' (r_rdi r + 48) = r_rbp r"
    "load64 m' (r_rdi r + 56) = r_rsp r + 8" "load64 m' (r_rdi r + 72) = r_r8 r"
    "load64 m' (r_rdi r + 80) = r_r9 r" "load64 m' (r_rdi r + 88) = r_r10 r"
    "load64 m' (r_rdi r + 96) = r_r11 r" "load64 m' (r_rdi r + 104) = r_r12 r"
    "load64 m' (r_rdi r + 112) = r_r13 r" "load64 m' (r_rdi r + 120) = r_r14 r"
    "load64 m' (r_rdi r + 128) = r_r15 r"
    using loads by simp_all
  have run: "shiva_trace_longjmp_x86_64 fetch ip_reg m' r' =
      (fetch loaded m')\<lparr>r_rdx := ip_reg (fetch loaded m'), r_rip := ip_reg (fetch loaded m')\<rparr>" for fetch ip_reg
  proof -
    have "loaded = r'\<lparr>r_rax := r_rax r, r_rbx := r_rbx r, r_rcx := r_rcx r, r_rdx := r_rdx r, r_rsi := r_rsi r,
        r_rbp := r_rbp r, r_rsp := r_rsp r + 8, r_r8 := r_r8 r, r_r9 := r_r9 r, r_r10 := r_r10 r, r_r11 := r_r11 r,
        r_r12 := r_r12 r, r_r13 := r_r13 r, r_r14 := r_r14 r, r_r15 := r_r15 r\<rparr>"
      unfolding assms(4) sp by (intro shiva_trace_regset_x86_64.equality) (simp_all add: assms(2))
    then show ?thesis by (simp add: shiva_trace_longjmp_x86_64_def Let_def assms(2) loads)
  qed
  show ?thesis by (simp add: run) (simp add: assms(4))
qed

text \<open>\<open>getregs\<close> stores the registers from \<open>r8\<close> on at offsets that the structure gives to other
  fields: the field \<open>rbp\<close> receives \<open>r8\<close>, \<open>rsp\<close> receives \<open>r9\<close>, \<open>r8\<close> receives \<open>r11\<close> and \<open>r9\<close>
  receives \<open>r12\<close>.\<close>

theorem getregs_misplaces_registers:
  "load64 (shiva_trace_getregs_x86_64 r m) (r_rdi r + RBP_OFF) = r_r8 r \<and>
   load64 (shiva_trace_getregs_x86_64 r m) (r_rdi r + RSP_OFF) = r_r9 r \<and>
   load64 (shiva_trace_getregs_x86_64 r m) (r_rdi r + R8_OFF) = r_r11 r \<and>
   load64 (shiva_trace_getregs_x86_64 r m) (r_rdi r + R9_OFF) = r_r12 r"
proof -
  let ?ovs = "[(0, r_rax r), (8, r_rbx r), (16, r_rcx r), (24, r_rdx r), (32, r_rsi r), (48, r_r8 r),
        (56, r_r9 r), (64, r_r10 r), (72, r_r11 r), (80, r_r12 r), (88, r_r13 r), (96, r_r14 r),
        (104, r_r15 r)]"
  have L: "load64 (shiva_trace_getregs_x86_64 r m) (r_rdi r + of_nat off) = v"
    if "(off, v) \<in> set ?ovs" for off v
    unfolding shiva_trace_getregs_x86_64_def using that by (intro load_store_at) auto
  show ?thesis
    using L [of 48 "r_r8 r"] L [of 56 "r_r9 r"] L [of 72 "r_r11 r"] L [of 80 "r_r12 r"]
    by (simp add: RBP_OFF_def RSP_OFF_def R8_OFF_def R9_OFF_def)
qed

section \<open>Handlers\<close>

text \<open>Registering a handler appends it: afterwards every handler that was found before is still
  found unchanged, and the new function is found, as the new entry when it was not registered
  before.\<close>

theorem register_then_find_handler:
  assumes "shiva_trace_register_handler os fn ty p = (None, p')"
  shows "shiva_trace_find_handler (p_ctx p') g =
           (case shiva_trace_find_handler (p_ctx p) g of
              Some h \<Rightarrow> Some h
            | None \<Rightarrow> if g = fn then Some \<lparr>h_type = ty, handler_fn = fn, bp_tqlist = []\<rparr> else None)"
proof -
  have "find P (xs @ ys) = (case find P xs of Some x \<Rightarrow> Some x | None \<Rightarrow> find P ys)"
    for P and xs ys :: "shiva_trace_handler list"
    by (induction xs) auto
  with assms show ?thesis
    by (auto simp: shiva_trace_register_handler_def shiva_trace_find_handler_def sys_malloc_def
        split: option.split_asm option.split)
qed

section \<open>Witnesses\<close>

text \<open>A process with one executable mapping and one handler.\<close>

definition example_traced :: "shiva_trace_bp_type \<Rightarrow> proc" where
  "example_traced ty =
     zero_proc\<lparr>p_prot := (\<lambda>_. 5),
       p_ctx := zero_ctx\<lparr>
         mmap_tqlist := [\<lparr>map_base = 0x40000000, map_len = 0x10000, map_prot = 5,
                          map_mapping = 2, mmap_type = SHIVA_MMAP_TYPE_HEAP, debugger_mapping = False\<rparr>],
         trace_handlers_tqlist := [\<lparr>h_type = ty, handler_fn = 0x50000000, bp_tqlist = []\<rparr>]\<rparr>\<rparr>"

lemma example_traced_simps [simp]:
  "p_prot (example_traced ty) = (\<lambda>_. 5)" "p_mem (example_traced ty) = (\<lambda>_. 0)"
  "trace_handlers_tqlist (p_ctx (example_traced ty)) =
     [\<lparr>h_type = ty, handler_fn = 0x50000000, bp_tqlist = []\<rparr>]"
  "branch_tqlist (p_ctx (example_traced ty)) = []"
  by (simp_all add: example_traced_def zero_proc_def zero_ctx_def)

lemma example_traced_maps:
  assumes "0x40000000 \<le> a" and "a < 0x40010000"
  shows "shiva_maps_prot_by_addr (p_ctx (example_traced ty)) a = Some (Some 5)"
    and "shiva_maps_validate_addr (p_ctx (example_traced ty)) a"
  using assms
  by (simp_all add: shiva_maps_prot_by_addr_find example_traced_def zero_proc_def addr_in_entry_def
      shiva_maps_validate_addr_def)

lemma example_mprotect_ok [simp]: "mprotect_ok example_os"
  by (simp add: mprotect_ok_def example_os_def)

text \<open>A poke over the end of a mapping changes the protection of the next one.\<close>

definition example_two_maps :: proc where
  "example_two_maps =
     zero_proc\<lparr>p_prot := (\<lambda>x. if unat x div 4096 \<le> 0x40000 then 5 else 3),
       p_ctx := zero_ctx\<lparr>
         mmap_tqlist := [\<lparr>map_base = 0x40000000, map_len = 0x1000, map_prot = 5,
                          map_mapping = 2, mmap_type = SHIVA_MMAP_TYPE_HEAP, debugger_mapping = False\<rparr>,
                         \<lparr>map_base = 0x40001000, map_len = 0x1000, map_prot = 3,
                          map_mapping = 2, mmap_type = SHIVA_MMAP_TYPE_HEAP, debugger_mapping = False\<rparr>]\<rparr>\<rparr>"

theorem poke_writes_and_restores_witness:
  "\<exists>p'. shiva_trace example_os False 0 0 SHIVA_TRACE_OP_POKE 0x40000ffe [1, 2, 3] 0 example_two_maps =
          Some (True, None, p') \<and>
        read_bytes (p_mem p') 0x40000ffe 3 = [1, 2, 3] \<and>
        p_prot example_two_maps 0x40001000 = 3 \<and> p_prot p' 0x40000000 = 5 \<and> p_prot p' 0x40001000 = 5 \<and>
        p_prot p' 0x40002000 = 3"
proof -
  have "shiva_maps_prot_by_addr (p_ctx example_two_maps) 0x40000ffe = Some (Some 5)"
    by (simp add: shiva_maps_prot_by_addr_find example_two_maps_def zero_proc_def addr_in_entry_def)
  from poke_writes_and_restores [OF this example_mprotect_ok, of "[1, 2, 3]" False 0 0]
  obtain p' where p': "shiva_trace example_os False 0 0 SHIVA_TRACE_OP_POKE 0x40000ffe [1, 2, 3] 0 example_two_maps =
      Some (True, None, p')" "read_bytes (p_mem p') 0x40000ffe (length [1, 2, 3 :: u8]) = [1, 2, 3]"
    and prot: "\<forall>x. p_prot p' x = (if 0x40000 \<le> unat x div 4096 \<and> unat x div 4096 \<le> 0x40001 then 5
        else p_prot example_two_maps x)" by auto
  have "p_prot p' 0x40000000 = 5" "p_prot p' 0x40001000 = 5" "p_prot p' 0x40002000 = 3"
    unfolding prot [rule_format] by (simp_all add: example_two_maps_def)
  moreover have "p_prot example_two_maps 0x40001000 = 3" by (simp add: example_two_maps_def)
  ultimately show ?thesis using p' by (auto simp: numeral_3_eq_3)
qed

text \<open>A caller whose registers are all zero but the buffer pointer and the frame pointer.\<close>

theorem setjmp_longjmp_restores_witness:
  "\<exists>r m r1 m1. shiva_trace_setjmp_x86_64 r m = (r1, m1) \<and> r_rbp r = 0x7000 \<and>
     r_rip (shiva_trace_longjmp_x86_64 (\<lambda>r m. r\<lparr>r_rax := load64 m (r_rbp r - 16)\<rparr>) r_rax m1 r1) = load64 m1 0x6ff0"
proof -
  define r :: shiva_trace_regset_x86_64 where "r =
     \<lparr>r_rax = 0, r_rbx = 0, r_rcx = 0, r_rdx = 0, r_rsi = 0, r_rdi = 0x9000, r_rbp = 0x7000, r_rsp = 0, r_rip = 0,
      r_r8 = 0, r_r9 = 0, r_r10 = 0, r_r11 = 0, r_r12 = 0, r_r13 = 0, r_r14 = 0, r_r15 = 0,
      r_flags = 0, r_cs = 0, r_ss = 0, r_fs = 0, r_ds = 0\<rparr>"
  obtain r1 m1 where run: "shiva_trace_setjmp_x86_64 r (\<lambda>_. 0) = (r1, m1)" by fastforce
  then have "r_rdi r1 = r_rdi r" by (auto simp: shiva_trace_setjmp_x86_64_def Let_def)
  from setjmp_longjmp_restores [OF run this _ refl, of m1] have
    "r_rip (shiva_trace_longjmp_x86_64 (\<lambda>r m. r\<lparr>r_rax := load64 m (r_rbp r - 16)\<rparr>) r_rax m1 r1) =
       load64 m1 (r_rbp r - 16)" by simp
  then show ?thesis using run by (intro exI [of _ r] exI [of _ "\<lambda>_. 0"] exI [of _ r1] exI [of _ m1]) (simp add: r_def)
qed

theorem peek_after_poke_witness:
  "\<exists>p'. shiva_trace example_os False 0 0 SHIVA_TRACE_OP_POKE 0x40000ffe [1, 2, 3] 0
          (example_traced SHIVA_TRACE_BP_JMP) = Some (True, None, p') \<and>
        shiva_trace example_os False 0 0 SHIVA_TRACE_OP_PEEK 0x40000ffe [] 3 p' = Some (True, Some [1, 2, 3], p')"
  using peek_after_poke [of "example_traced SHIVA_TRACE_BP_JMP" "0x40000ffe" 5 example_os
      "[1, 2, 3]" False 0 0 "[]", OF example_traced_maps(1) example_mprotect_ok]
    example_traced_maps(2) [of "0x40001001"]
  by (simp add: numeral_3_eq_3)

theorem poke_unmapped_refused_witness:
  "shiva_trace example_os False 0 0 SHIVA_TRACE_OP_POKE 0x1000 [1] 0 (example_traced SHIVA_TRACE_BP_JMP) =
     Some (False, None, example_traced SHIVA_TRACE_BP_JMP)"
  by (rule poke_unmapped_refused)
    (simp add: example_traced_def zero_proc_def addr_in_entry_def)

theorem peek_last_bytes_refused_witness:
  "shiva_trace_op_peek 0x4000fff8 8 (example_traced SHIVA_TRACE_BP_JMP) = None"
  using peek_last_bytes_refused [of "example_traced SHIVA_TRACE_BP_JMP"
      "\<lparr>map_base = 0x40000000, map_len = 0x10000, map_prot = 5, map_mapping = 2,
        mmap_type = SHIVA_MMAP_TYPE_HEAP, debugger_mapping = False\<rparr>" 8]
  by (simp add: example_traced_def zero_proc_def)

theorem register_then_find_handler_witness:
  "\<exists>p'. shiva_trace_register_handler example_os 7 SHIVA_TRACE_BP_INT3 zero_proc = (None, p') \<and>
        shiva_trace_find_handler (p_ctx p') 7 =
          Some \<lparr>h_type = SHIVA_TRACE_BP_INT3, handler_fn = 7, bp_tqlist = []\<rparr>"
proof -
  obtain p' where p': "shiva_trace_register_handler example_os 7 SHIVA_TRACE_BP_INT3 zero_proc = (None, p')"
    by (simp add: shiva_trace_register_handler_def sys_malloc_def example_os_def)
  from register_then_find_handler [OF p', of 7] p' show ?thesis
    by (simp add: shiva_trace_find_handler_def zero_proc_def zero_ctx_def)
qed

end
