(* ===== verification/Trace_Breakpoints.thy ===== *)
theory Trace_Breakpoints
  imports Trace_Poke "HOL-Library.Sublist"
begin

text \<open>
  What setting a breakpoint keeps, whatever its kind: every registered handler with its breakpoints.
\<close>

section \<open>The handler list only grows\<close>

definition handler_extends :: "shiva_trace_handler \<Rightarrow> shiva_trace_handler \<Rightarrow> bool" where
  "handler_extends h h' \<longleftrightarrow>
     handler_fn h' = handler_fn h \<and> h_type h' = h_type h \<and>
     prefix (bp_tqlist h) (bp_tqlist h')"

definition handlers_extend :: "proc \<Rightarrow> proc \<Rightarrow> bool" where
  "handlers_extend p p' \<longleftrightarrow>
     list_all2 handler_extends (trace_handlers_tqlist (p_ctx p)) (trace_handlers_tqlist (p_ctx p'))"

lemma handlers_extend_same: "trace_handlers_tqlist (p_ctx p') = trace_handlers_tqlist (p_ctx p) \<Longrightarrow> handlers_extend p p'"
  by (simp add: handlers_extend_def handler_extends_def list_all2_refl)

lemma handler_extends_trans: "handler_extends a b \<Longrightarrow> handler_extends b c \<Longrightarrow> handler_extends a c"
  by (auto simp: handler_extends_def intro: prefix_order.trans)

lemma handlers_extend_trans:
  "handlers_extend p q \<Longrightarrow> handlers_extend q r \<Longrightarrow> handlers_extend p r"
  unfolding handlers_extend_def by (erule (1) list_all2_trans [rotated]) (rule handler_extends_trans)

lemma handlers_extend_add_bp [intro]:
  assumes "trace_handlers_tqlist (p_ctx q) = trace_handlers_tqlist (p_ctx p)"
  shows "handlers_extend p (add_bp i bp q)"
  using assms
  by (cases "i < length (trace_handlers_tqlist (p_ctx p))")
    (auto simp: handlers_extend_def add_bp_def Let_def list_all2_conv_all_nth nth_list_update
      handler_extends_def)

lemma handlers_extend_fn:
  "handlers_extend p p' \<Longrightarrow> i < length (trace_handlers_tqlist (p_ctx p)) \<Longrightarrow>
     handler_fn (trace_handlers_tqlist (p_ctx p') ! i) = handler_fn (trace_handlers_tqlist (p_ctx p) ! i)"
  by (auto simp: handlers_extend_def handler_extends_def list_all2_conv_all_nth)

section \<open>Frames of the steps\<close>

lemma shiva_malloc_frame:
  "shiva_malloc os n p = Some (a, p') \<Longrightarrow> p_ctx p' = p_ctx p \<and> p_mem p' = p_mem p \<and> p_prot p' = p_prot p"
  by (auto simp: shiva_malloc_def sys_malloc_def split: option.split_asm)

lemma sys_malloc_ctx: "sys_malloc os n p = (r, p') \<Longrightarrow> p_ctx p' = p_ctx p \<and> p_mem p' = p_mem p \<and> p_prot p' = p_prot p"
  by (auto simp: sys_malloc_def)

lemma add_retaddrs_frame:
  "add_retaddrs os P f bs bp p = Some (bp', p') \<Longrightarrow> p_ctx p' = p_ctx p \<and> p_mem p' = p_mem p"
proof (induction bs arbitrary: bp p)
  case (Cons b bs)
  then show ?case
    by (auto simp: bind_eq_Some_conv dest!: shiva_malloc_frame split: if_split_asm)
qed simp

lemma point_disas_frame:
  "point_disas addr p = Some p' \<longleftrightarrow>
     p' = p\<lparr>p_ud := ud_set_input_buffer (p_ud p) (read_bytes (p_mem p) addr SHIVA_MAX_INST_LEN) SHIVA_MAX_INST_LEN\<rparr>"
  by (auto simp: point_disas_def Let_def)

lemma shiva_xfmtstrdup_frame:
  "shiva_xfmtstrdup os t p = Some (a, s, p') \<Longrightarrow> p_ctx p' = p_ctx p \<and> p_mem p' = p_mem p"
  by (auto simp: shiva_xfmtstrdup_def dest: shiva_strdup_frame)

lemma plt_target_name_frame:
  "plt_target_name os es off n p = Some (n', p') \<Longrightarrow> p_ctx p' = p_ctx p \<and> p_mem p' = p_mem p"
proof (induction es arbitrary: n p)
  case (Cons e es)
  then show ?case
    by (auto simp: bind_eq_Some_conv dest!: shiva_xfmtstrdup_frame split: if_split_asm)
qed simp

lemma call_target_frame:
  assumes "call_target os bp p = Some (bp', p')"
  shows "p_ctx p' = p_ctx p \<and> p_mem p' = p_mem p \<and> bp_addr bp' = bp_addr bp \<and>
         o_target bp' = o_target bp \<and> bp_insn bp' = bp_insn bp \<and> bp_len bp' = bp_len bp \<and>
         callsite_retaddr bp' = callsite_retaddr bp \<and> bp_type bp' = bp_type bp"
  using assms
  by (auto simp: call_target_def Let_def set_symbol_def bind_eq_Some_conv
      dest!: plt_target_name_frame shiva_xfmtstrdup_frame split: option.split_asm)

lemma first_sigaction_frame [simp]:
  "p_ctx (first_sigaction sig fn h p) = p_ctx p" "p_mem (first_sigaction sig fn h p) = p_mem p"
  "p_prot (first_sigaction sig fn h p) = p_prot p"
  by (simp_all add: first_sigaction_def)

lemma add_bp_frame [simp]: "p_mem (add_bp i bp p) = p_mem p" "p_prot (add_bp i bp p) = p_prot p"
  by (simp_all add: add_bp_def Let_def)

lemma target_set_tag_ctx: "target_set_tag tag v dyn p = Some y \<Longrightarrow> p_ctx (snd y) = p_ctx p"
proof (erule target_set_tag.raw_induct [rotated])
  fix f tag v dyn p and y :: "bool \<times> proc"
  assume IH: "\<And>tag v dyn p y. f tag v dyn p = Some y \<Longrightarrow> p_ctx (snd y) = p_ctx p"
    and run: "(if load64 (p_mem p) dyn = DT_NULL then Some (False, p)
      else if load64 (p_mem p) dyn = tag then
        do { p1 \<leftarrow> p_write (dyn + 8) (le_bytes 8 v) p; Some (True, p1) }
      else f tag v (dyn + 16) p) = Some y"
  from run IH show "p_ctx (snd y) = p_ctx p"
    by (auto simp: bind_eq_Some_conv split: if_split_asm)
qed

lemma dynamic_set_ctx:
  "shiva_target_dynamic_set tag v p = Some (r, p') \<Longrightarrow> p_ctx p' = p_ctx p"
  by (auto simp: shiva_target_dynamic_set_def Let_def dest: target_set_tag_ctx split: if_split_asm)

lemma jmprel_alloc_frame:
  "jmprel_alloc os n p = Some p' \<Longrightarrow>
     trace_handlers_tqlist (p_ctx p') = trace_handlers_tqlist (p_ctx p) \<and> p_mem p' = p_mem p \<and>
     ctx_elfobj (p_ctx p') = ctx_elfobj (p_ctx p) \<and> ulexec (p_ctx p') = ulexec (p_ctx p) \<and>
     branch_tqlist (p_ctx p') = branch_tqlist (p_ctx p)"
  by (auto simp: jmprel_alloc_def bind_eq_Some_conv dest!: shiva_malloc_frame split: if_split_asm)

lemma deactivate_frame:
  assumes "pltgot_deactivate os name p = Some (r, p')"
  shows "trace_handlers_tqlist (p_ctx p') = trace_handlers_tqlist (p_ctx p) \<and>
         branch_tqlist (p_ctx p') = branch_tqlist (p_ctx p)"
  using assms
  by (auto simp: pltgot_deactivate_def Let_def bind_eq_Some_conv
      dest!: jmprel_alloc_frame dynamic_set_ctx split: option.split_asm if_split_asm prod.split_asm)

section \<open>Every breakpoint keeps the handlers\<close>

lemma set_bp_signal_extends:
  assumes "set_bp_signal os sig patch len i fn addr p = Some (err, p')"
  shows "handlers_extend p p'"
  using assms
  by (auto simp: set_bp_signal_def Let_def bind_eq_Some_conv
      dest!: trace_write_frame sys_malloc_ctx intro: handlers_extend_same
      split: option.split_asm if_split_asm prod.split_asm)

lemma set_bp_trampoline_extends:
  assumes "set_bp_trampoline os i fn addr p = Some (err, p')"
  shows "handlers_extend p p'"
  using assms
  by (auto simp: set_bp_trampoline_def Let_def bind_eq_Some_conv point_disas_frame
      dest!: trace_write_frame sys_malloc_ctx add_retaddrs_frame intro: handlers_extend_same
      split: option.split_asm if_split_asm prod.split_asm)

lemma set_bp_call_extends:
  assumes "set_bp_call sa os i fn addr p = Some (err, p')"
  shows "handlers_extend p p'"
  using assms
  by (auto simp: set_bp_call_def Let_def bind_eq_Some_conv point_disas_frame
      dest!: trace_write_frame sys_malloc_ctx call_target_frame intro: handlers_extend_same
      split: option.split_asm if_split_asm prod.split_asm)

lemma set_bp_pltgot_extends:
  assumes "set_bp_pltgot sn os i fn name p = Some (r, p')"
  shows "handlers_extend p p'"
  using assms
  by (auto simp: set_bp_pltgot_def set_bp_pltgot_entry_def Let_def bind_eq_Some_conv
      dest!: sys_malloc_ctx deactivate_frame add_retaddrs_frame intro: handlers_extend_same
      split: option.split_asm if_split_asm prod.split_asm)

lemma set_bp_one_extends:
  assumes "set_bp_one sa sn os i fn addr name p = Some ((err, stop), p')"
  shows "handlers_extend p p' \<and> (\<not> stop \<longrightarrow> err = None)"
proof (cases "h_type (trace_handlers_tqlist (p_ctx p) ! i)")
  case SHIVA_TRACE_BP_PLTGOT
  with assms have r: "set_bp_pltgot sn os i fn name p = Some ((err, stop), p')"
    by (simp add: set_bp_one_def)
  then have "\<not> stop \<longrightarrow> err = None"
    by (auto simp: set_bp_pltgot_def Let_def bind_eq_Some_conv split: option.split_asm)
  with set_bp_pltgot_extends [OF r] show ?thesis by simp
qed (use assms in \<open>auto simp: set_bp_one_def set_bp_sigill_def set_bp_int3_def
       dest: set_bp_signal_extends set_bp_trampoline_extends set_bp_call_extends
       intro: handlers_extend_same\<close>)

lemma set_bp_loop_extends:
  "set_bp_loop sa sn os fn addr name is found p = Some (err, p') \<Longrightarrow> handlers_extend p p'"
proof (induction "is" arbitrary: found p)
  case Nil
  then show ?case by (auto intro: handlers_extend_same)
next
  case (Cons i "is")
  then show ?case
    by (fastforce simp: bind_eq_Some_conv dest: set_bp_one_extends intro: handlers_extend_trans
        split: if_split_asm)
qed

text \<open>C30. Setting a breakpoint, whatever its kind and whether or not it succeeds, never removes or
  changes a registered handler and never drops a breakpoint: every handler keeps its function and
  type, and its breakpoint list only gets longer at the end.\<close>

theorem set_breakpoint_keeps_handlers:
  assumes "shiva_trace_set_breakpoint sa sn os fn addr name p = Some (err, p')"
  shows "list_all2 (\<lambda>h h'. handler_fn h' = handler_fn h \<and> h_type h' = h_type h \<and>
                          (\<exists>new. bp_tqlist h' = bp_tqlist h @ new))
           (trace_handlers_tqlist (p_ctx p)) (trace_handlers_tqlist (p_ctx p'))"
proof -
  have "handlers_extend p p'"
    using assms unfolding shiva_trace_set_breakpoint_def by (rule set_bp_loop_extends)
  then show ?thesis
    unfolding handlers_extend_def
    by (rule list_all2_mono) (auto simp: handler_extends_def prefix_def)
qed

lemma set_bp_loop_skip:
  "\<forall>j \<in> set is. handler_fn (trace_handlers_tqlist (p_ctx p) ! j) \<noteq> fn \<Longrightarrow>
   set_bp_loop sa sn os fn addr name (is @ js) found p =
     set_bp_loop sa sn os fn addr name js found p"
  by (induction "is") auto

text \<open>With one handler for the function, the loop is the branch for that handler.\<close>

lemma set_breakpoint_unique:
  assumes "i < length (trace_handlers_tqlist (p_ctx p))"
    and "\<forall>j < length (trace_handlers_tqlist (p_ctx p)).
           handler_fn (trace_handlers_tqlist (p_ctx p) ! j) = fn \<longleftrightarrow> j = i"
    and "set_bp_one sa sn os i fn addr name p = Some ((err, stop), p')"
  shows "shiva_trace_set_breakpoint sa sn os fn addr name p = Some (err, p')"
proof -
  let ?n = "length (trace_handlers_tqlist (p_ctx p))"
  have ext: "handlers_extend p p'" "\<not> stop \<longrightarrow> err = None"
    using set_bp_one_extends [OF assms(3)] by auto
  have idx: "[0..<?n] = [0..<i] @ i # [Suc i..<?n]"
    using assms(1) upt_add_eq_append [of 0 i "?n - i"] by (simp add: upt_conv_Cons)
  have rest: "set_bp_loop sa sn os fn addr name [Suc i..<?n] True p' = Some (None, p')"
    using set_bp_loop_skip [of "[Suc i..<?n]" p' fn sa sn os addr name "[]" True]
      assms(2) handlers_extend_fn [OF ext(1)] by auto
  have "set_bp_loop sa sn os fn addr name (i # [Suc i..<?n]) False p = Some (err, p')"
    using assms(1,2,3) ext(2) rest by simp
  then show ?thesis
    unfolding shiva_trace_set_breakpoint_def idx
    using assms(1,2) by (subst set_bp_loop_skip) auto
qed

end
