(* ===== verification/Trace_Effects.thy ===== *)
theory Trace_Effects
  imports Trace_Breakpoints
begin

text \<open>
  The effect of each kind of breakpoint on the code and data of the debuggee, and of saving and
  restoring registers.
\<close>

section \<open>Byte images\<close>

lemma le_bytes_cong: "take_bit (8 * n) v = take_bit (8 * n) w \<Longrightarrow> le_bytes n v = le_bytes n (w :: 'a::len word)"
proof (induction n arbitrary: v w)
  case (Suc n)
  have bits: "bit v k \<longleftrightarrow> bit w k" if "k < 8 * Suc n" for k
    using arg_cong [OF Suc.prems, of "\<lambda>x. bit x k"] that by (simp add: bit_take_bit_iff)
  have "(ucast v :: u8) = ucast w"
    by (rule bit_word_eqI) (simp add: bit_simps bits)
  moreover have "take_bit (8 * n) (drop_bit 8 v) = take_bit (8 * n) (drop_bit 8 w)"
    by (rule bit_word_eqI) (auto simp: bit_simps bits)
  ultimately show ?case using Suc.IH [of "drop_bit 8 v" "drop_bit 8 w"] by simp
qed simp

lemma le_bytes_val:
  "8 * length bs \<le> LENGTH('a) \<Longrightarrow> le_bytes (length bs) (le_val bs :: 'a::len word) = bs"
proof (induction bs)
  case (Cons b bs)
  let ?v = "le_val bs :: 'a word"
  have "(ucast (ucast b OR push_bit 8 ?v :: 'a word) :: u8) = b"
    by (rule bit_word_eqI) (use Cons.prems in \<open>auto simp: bit_simps dest: bit_imp_le_length\<close>)
  moreover have "take_bit (8 * length bs) (drop_bit 8 (ucast b OR push_bit 8 ?v)) =
      take_bit (8 * length bs) ?v"
    by (rule bit_word_eqI) (use Cons.prems in \<open>auto simp: bit_simps dest: bit_imp_le_length\<close>)
  then have "le_bytes (length bs) (drop_bit 8 (ucast b OR push_bit 8 ?v)) = bs"
    using le_bytes_cong Cons by (metis add_leD2 length_Cons mult_Suc_right)
  ultimately show ?case by simp
qed simp

lemma int3_patch_bytes: "length q = 8 \<Longrightarrow> int3_patch q = 0xcc # tl q"
proof -
  assume q: "length q = 8"
  then obtain b bs where bs: "q = b # bs" "length bs = 7" by (cases q) auto
  have m: "(0xff :: u64) = mask 8" by (simp add: mask_eq_decr_exp)
  have "(le_val q :: u64) AND NOT 0xff = push_bit 8 (le_val bs)"
    unfolding bs(1) le_val.simps m
    by (rule bit_word_eqI) (auto simp: bit_simps dest: bit_imp_le_length)
  then have "(le_val q :: u64) AND NOT 0xff OR 0xcc = le_val (0xcc # bs)"
    by (simp add: or.commute)
  then show ?thesis
    using le_bytes_val [of "0xcc # bs", where 'a = 64] bs
    by (simp add: int3_patch_def del: le_bytes.simps)
qed

lemma write_first_byte:
  "write_bytes m a (b # tl (read_bytes m a 8)) = m(a := b)"
proof (rule ext)
  fix x
  show "write_bytes m a (b # tl (read_bytes m a 8)) x = (m(a := b)) x"
  proof (cases "in_region a 8 x")
    case True
    then have k: "unat (x - a) < 8" by (simp add: in_region_def)
    show ?thesis
    proof (cases "x = a")
      case True
      then show ?thesis by (simp add: write_bytes_def in_region_def)
    next
      case False
      then obtain j where j: "unat (x - a) = Suc j" by (cases "unat (x - a)") (auto simp: unat_eq_0)
      have "of_nat (Suc j) = x - a" by (metis j of_nat_unat ucast_id)
      then have "a + of_nat (Suc j) = x" by simp
      with j k False show ?thesis
        by (simp add: write_bytes_def in_region_def nth_tl del: of_nat_Suc)
    qed
  next
    case False
    then have "x \<noteq> a" by (auto simp: in_region_def)
    with False show ?thesis by (simp add: write_bytes_def)
  qed
qed

section \<open>Signal breakpoints\<close>

text \<open>The conditions under which a breakpoint can be placed: one handler of the type is registered
  for the function, the address is mapped and the system calls succeed.\<close>

definition bp_ready :: "os \<Rightarrow> nat \<Rightarrow> shiva_trace_bp_type \<Rightarrow> u64 \<Rightarrow> u64 \<Rightarrow> nat \<Rightarrow> proc \<Rightarrow> bool" where
  "bp_ready os i ty fn addr n p \<longleftrightarrow>
     i < length (trace_handlers_tqlist (p_ctx p)) \<and>
     (\<forall>j < length (trace_handlers_tqlist (p_ctx p)).
        handler_fn (trace_handlers_tqlist (p_ctx p) ! j) = fn \<longleftrightarrow> j = i) \<and>
     h_type (trace_handlers_tqlist (p_ctx p) ! i) = ty \<and>
     (\<exists>o_prot. shiva_maps_prot_by_addr (p_ctx p) addr = Some (Some o_prot)) \<and>
     mprotect_ok os \<and> malloc_ok os \<and> unat addr + n + 8192 \<le> 2 ^ 64"

lemma bp_ready_write:
  assumes "bp_ready os i ty fn addr n p" and "p_ctx q = p_ctx p" and "length src = n"
  shows "\<exists>q'. shiva_trace_write os addr src q = Some (None, q') \<and>
           p_mem q' = write_bytes (p_mem q) addr src \<and> p_ctx q' = p_ctx q \<and>
           p_sigaction q' = p_sigaction q"
proof -
  obtain o_prot where "shiva_maps_prot_by_addr (p_ctx q) addr = Some (Some o_prot)"
    using assms by (auto simp: bp_ready_def)
  moreover obtain a l where "write_range addr (of_nat (length src)) = (a, l)" by fastforce
  moreover have "mprotect_ok os" "unat addr + length src + 8192 \<le> 2 ^ 64"
    using assms by (auto simp: bp_ready_def)
  ultimately have "shiva_trace_write os addr src q =
      Some (None, q\<lparr>p_calls := Suc (Suc (p_calls q)), p_mem := write_bytes (p_mem q) addr src,
                    p_prot := protect (p_prot q) a l o_prot\<rparr>)"
    by (intro trace_write_run) auto
  then show ?thesis by simp
qed

lemma bp_ready_unique:
  assumes "bp_ready os i ty fn addr n p"
    and "set_bp_one sa sn os i fn addr name p = Some ((err, stop), p')"
  shows "shiva_trace_set_breakpoint sa sn os fn addr name p = Some (err, p')"
  using assms by (intro set_breakpoint_unique [of i]) (auto simp: bp_ready_def)

lemma set_bp_signal_run:
  assumes "bp_ready os i ty fn addr n p" and "shiva_maps_validate_addr (p_ctx p) (addr + 8)"
    and "length (patch (read_bytes (p_mem p) addr 8)) = n"
  shows "\<exists>p'. set_bp_signal os sig patch len i fn addr p = Some (None, p') \<and>
           p_mem p' = write_bytes (p_mem p) addr (patch (read_bytes (p_mem p) addr 8)) \<and>
           p_sigaction p' = p_sigaction (first_sigaction sig fn (trace_handlers_tqlist (p_ctx p) ! i) p) \<and>
           p_ctx p' = (p_ctx p)\<lparr>trace_handlers_tqlist := (trace_handlers_tqlist (p_ctx p))
             [i := (trace_handlers_tqlist (p_ctx p) ! i)\<lparr>bp_tqlist := bp_tqlist (trace_handlers_tqlist (p_ctx p) ! i) @
               [zero_bp\<lparr>bp_addr := addr, bp_len := len, bp_type := ty\<rparr>]\<rparr>]\<rparr>"
proof -
  let ?p1 = "first_sigaction sig fn (trace_handlers_tqlist (p_ctx p) ! i) p"
  let ?bs = "patch (read_bytes (p_mem p) addr 8)"
  obtain p2 where p2: "shiva_trace_write os addr ?bs ?p1 = Some (None, p2)"
    "p_mem p2 = write_bytes (p_mem p) addr ?bs" "p_ctx p2 = p_ctx p"
    "p_sigaction p2 = p_sigaction ?p1"
    using bp_ready_write [OF assms(1) _ assms(3), of ?p1] by auto
  obtain a where a: "sys_malloc os (os_sizeof os ''shiva_trace_bp'') p2 = (Some a, p2\<lparr>p_calls := Suc (p_calls p2)\<rparr>)"
    using assms(1) sys_malloc_ok [of os "os_sizeof os ''shiva_trace_bp''" p2] by (auto simp: bp_ready_def)
  have i: "i < length (trace_handlers_tqlist (p_ctx p))"
    "h_type (trace_handlers_tqlist (p_ctx p) ! i) = ty" using assms(1) by (auto simp: bp_ready_def)
  show ?thesis
    using assms(2) p2 i
    by (simp add: set_bp_signal_def Let_def shiva_trace_op_peek_def a add_bp_def)
qed

text \<open>The run of an INT3 breakpoint.\<close>

lemma int3_breakpoint_run:
  assumes "bp_ready os i SHIVA_TRACE_BP_INT3 fn addr 8 p" and "shiva_maps_validate_addr (p_ctx p) (addr + 8)"
  obtains p' where "shiva_trace_set_breakpoint sa sn os fn addr name p = Some (None, p')"
    "p_mem p' = (p_mem p)(addr := 0xcc)"
    "p_sigaction p' = p_sigaction (first_sigaction SIGTRAP fn (trace_handlers_tqlist (p_ctx p) ! i) p)"
    "p_ctx p' = (p_ctx p)\<lparr>trace_handlers_tqlist := (trace_handlers_tqlist (p_ctx p))
       [i := (trace_handlers_tqlist (p_ctx p) ! i)\<lparr>bp_tqlist := bp_tqlist (trace_handlers_tqlist (p_ctx p) ! i) @
         [zero_bp\<lparr>bp_addr := addr, bp_len := 1, bp_type := SHIVA_TRACE_BP_INT3\<rparr>]\<rparr>]\<rparr>"
proof -
  let ?q = "read_bytes (p_mem p) addr 8"
  have patch: "int3_patch ?q = 0xcc # tl ?q" by (simp add: int3_patch_bytes)
  then have "length (int3_patch ?q) = 8" by simp
  from set_bp_signal_run [OF assms, of int3_patch, OF this, of SIGTRAP 1]
  obtain p' where p': "set_bp_signal os SIGTRAP int3_patch 1 i fn addr p = Some (None, p')"
    "p_mem p' = write_bytes (p_mem p) addr (int3_patch ?q)"
    "p_sigaction p' = p_sigaction (first_sigaction SIGTRAP fn (trace_handlers_tqlist (p_ctx p) ! i) p)"
    "p_ctx p' = (p_ctx p)\<lparr>trace_handlers_tqlist := (trace_handlers_tqlist (p_ctx p))
       [i := (trace_handlers_tqlist (p_ctx p) ! i)\<lparr>bp_tqlist := bp_tqlist (trace_handlers_tqlist (p_ctx p) ! i) @
         [zero_bp\<lparr>bp_addr := addr, bp_len := 1, bp_type := SHIVA_TRACE_BP_INT3\<rparr>]\<rparr>]\<rparr>"
    by blast
  have "set_bp_one sa sn os i fn addr name p = Some ((None, False), p')"
    using assms(1) p'(1) by (simp add: set_bp_one_def set_bp_int3_def bp_ready_def)
  from that [OF bp_ready_unique [OF assms(1) this] _ p'(3,4)] show thesis
    by (simp add: p'(2) patch write_first_byte)
qed

text \<open>C8. An INT3 breakpoint changes exactly one byte of the debuggee, the first byte of the
  instruction, to \<open>0xcc\<close>, and nothing of the context but that it is appended to the list of its handler;
  the first one of a handler makes that the process's handler for \<open>SIGTRAP\<close>, later ones leave the signal
  handlers alone.\<close>

theorem int3_breakpoint_patches_one_byte:
  assumes "bp_ready os i SHIVA_TRACE_BP_INT3 fn addr 8 p"
    and "shiva_maps_validate_addr (p_ctx p) (addr + 8)"
    and "h = trace_handlers_tqlist (p_ctx p) ! i"
  shows "\<exists>p'. shiva_trace_set_breakpoint sa sn os fn addr name p = Some (None, p') \<and>
           p_mem p' = (p_mem p)(addr := 0xcc) \<and>
           p_sigaction p' = (if bp_tqlist h = [] then (p_sigaction p)(SIGTRAP \<mapsto> fn) else p_sigaction p) \<and>
           p_ctx p' = (p_ctx p)\<lparr>trace_handlers_tqlist := (trace_handlers_tqlist (p_ctx p))
             [i := h\<lparr>bp_tqlist := bp_tqlist h @
                     [zero_bp\<lparr>bp_addr := addr, bp_len := 1, bp_type := SHIVA_TRACE_BP_INT3\<rparr>]\<rparr>]\<rparr>"
  by (rule int3_breakpoint_run [OF assms(1,2), of sa sn name]) (simp add: assms(3) first_sigaction_def)

text \<open>A SIGILL breakpoint records a length of two bytes for its \<open>ud2\<close>, but it overwrites four
  bytes of code, the last two with zero.\<close>

theorem sigill_breakpoint_overwrites_four_bytes:
  assumes "bp_ready os i SHIVA_TRACE_BP_SIGILL fn addr 4 p"
    and "shiva_maps_validate_addr (p_ctx p) (addr + 8)"
  shows "\<exists>p' bp. shiva_trace_set_breakpoint sa sn os fn addr name p = Some (None, p') \<and>
           bp_tqlist (trace_handlers_tqlist (p_ctx p') ! i) =
             bp_tqlist (trace_handlers_tqlist (p_ctx p) ! i) @ [bp] \<and> bp_len bp = 2 \<and>
           p_mem p' = write_bytes (p_mem p) addr [0x0f, 0x0b, 0, 0]"
proof -
  have patch: "sigill_patch q = [0x0f, 0x0b, 0, 0]" for q
    unfolding sigill_patch_def by code_simp
  obtain p' where p': "set_bp_signal os SIGILL sigill_patch 2 i fn addr p = Some (None, p')"
    "p_mem p' = write_bytes (p_mem p) addr [0x0f, 0x0b, 0, 0]"
    "bp_tqlist (trace_handlers_tqlist (p_ctx p') ! i) =
       bp_tqlist (trace_handlers_tqlist (p_ctx p) ! i) @
       [zero_bp\<lparr>bp_addr := addr, bp_len := 2, bp_type := SHIVA_TRACE_BP_SIGILL\<rparr>]"
    using set_bp_signal_run [OF assms(1,2), of sigill_patch SIGILL 2] assms(1) by (auto simp: patch bp_ready_def)
  have "set_bp_one sa sn os i fn addr name p = Some ((None, False), p')"
    using assms(1) p'(1) by (simp add: set_bp_one_def set_bp_sigill_def bp_ready_def)
  from bp_ready_unique [OF assms(1) this] p' show ?thesis by auto
qed

text \<open>For handlers of type JMP and SEGV setting a breakpoint reports success and changes
  nothing at all.\<close>

theorem jmp_segv_breakpoint_no_effect:
  assumes "bp_ready os i ty fn addr n p" and "ty \<in> {SHIVA_TRACE_BP_JMP, SHIVA_TRACE_BP_SEGV}"
  shows "shiva_trace_set_breakpoint sa sn os fn addr name p = Some (None, p)"
  using assms by (intro bp_ready_unique [OF assms(1)]) (auto simp: set_bp_one_def bp_ready_def)

section \<open>Trampolines and calls\<close>

lemma add_retaddrs_run:
  assumes "malloc_ok os"
  shows "\<exists>p'. add_retaddrs os P (\<lambda>b bp. bp) bs bp p =
           Some (bp\<lparr>retaddr_list := retaddr_list bp @
                   map (\<lambda>b. bs_retaddr b + shiva_trace_base_addr (p_ctx p)) (filter P bs)\<rparr>, p') \<and>
           p_mem p' = p_mem p \<and> p_ctx p' = p_ctx p"
proof (induction bs arbitrary: bp p)
  case (Cons b bs)
  obtain a where a: "shiva_malloc os 24 p = Some (a, p\<lparr>p_calls := Suc (p_calls p)\<rparr>)"
    using shiva_malloc_ok [OF assms] by blast
  show ?case
    using Cons.IH [of "bp\<lparr>retaddr_list := retaddr_list bp @ [bs_retaddr b + shiva_trace_base_addr (p_ctx p)]\<rparr>"
        "p\<lparr>p_calls := Suc (p_calls p)\<rparr>"] Cons.IH [of bp p]
    by (auto simp: a)
qed simp

lemma length_tramp_inst [simp]: "length (tramp_inst fn) = 12"
  by (simp add: tramp_inst_def del: le_bytes.simps)

text \<open>The run of a trampoline breakpoint: twelve bytes are replaced and the breakpoint is appended.\<close>

lemma trampoline_breakpoint_run:
  assumes "bp_ready os i SHIVA_TRACE_BP_TRAMPOLINE fn addr 12 p"
  obtains p' bp where
    "shiva_trace_set_breakpoint sa sn os fn addr name p = Some (None, p')"
    "p_mem p' = write_bytes (p_mem p) addr (tramp_inst fn)"
    "p_ctx p' = (p_ctx p)\<lparr>trace_handlers_tqlist := (trace_handlers_tqlist (p_ctx p))
       [i := (trace_handlers_tqlist (p_ctx p) ! i)\<lparr>bp_tqlist := bp_tqlist (trace_handlers_tqlist (p_ctx p) ! i) @ [bp]\<rparr>]\<rparr>"
    "bp_type bp = SHIVA_TRACE_BP_TRAMPOLINE" "bp_len bp = 12"
    "o_insn (bp_insn bp) = pad_insn (read_bytes (p_mem p) addr 12)" "n_insn (bp_insn bp) = pad_insn (tramp_inst fn)"
    "bp_symbol bp = elf_symbol_by_value_lookup (ctx_elfobj (p_ctx p)) (addr - shiva_trace_base_addr (p_ctx p))"
    "retaddr_list bp = map (\<lambda>b. bs_retaddr b + shiva_trace_base_addr (p_ctx p))
       (filter (tramp_call_to (p_ctx p) addr) (branch_tqlist (p_ctx p)))"
proof -
  let ?p1 = "p\<lparr>p_ud := ud_set_input_buffer (p_ud p) (read_bytes (p_mem p) addr SHIVA_MAX_INST_LEN)
                SHIVA_MAX_INST_LEN\<rparr>"
  let ?p2 = "?p1\<lparr>p_calls := Suc (p_calls p)\<rparr>"
  have dis: "point_disas addr p = Some ?p1" by (simp add: point_disas_frame)
  have ok: "malloc_ok os" "i < length (trace_handlers_tqlist (p_ctx p))"
    "h_type (trace_handlers_tqlist (p_ctx p) ! i) = SHIVA_TRACE_BP_TRAMPOLINE"
    using assms by (auto simp: bp_ready_def)
  obtain a where a: "sys_malloc os (os_sizeof os ''shiva_trace_bp'') ?p1 = (Some a, ?p2)"
    using sys_malloc_ok [OF ok(1), of "os_sizeof os ''shiva_trace_bp''" ?p1] by auto
  obtain p3 where p3: "shiva_trace_write os addr (tramp_inst fn) ?p2 = Some (None, p3)"
    "p_mem p3 = write_bytes (p_mem p) addr (tramp_inst fn)" "p_ctx p3 = p_ctx p"
    using bp_ready_write [OF assms, of ?p2 "tramp_inst fn"] by auto
  define bp1 where "bp1 = (set_symbol (elf_symbol_by_value_lookup (ctx_elfobj (p_ctx p))
       (addr - shiva_trace_base_addr (p_ctx p))) zero_bp)
         \<lparr>bp_insn := (bp_insn (set_symbol (elf_symbol_by_value_lookup (ctx_elfobj (p_ctx p))
              (addr - shiva_trace_base_addr (p_ctx p))) zero_bp))
              \<lparr>o_insn := pad_insn (read_bytes (p_mem p) addr 12), n_insn := pad_insn (tramp_inst fn)\<rparr>,
          bp_addr := addr, bp_len := 12, bp_type := SHIVA_TRACE_BP_TRAMPOLINE\<rparr>"
  define bp2 where "bp2 = bp1\<lparr>retaddr_list := map (\<lambda>b. bs_retaddr b + shiva_trace_base_addr (p_ctx p))
      (filter (tramp_call_to (p_ctx p) addr) (branch_tqlist (p_ctx p)))\<rparr>"
  have r0: "retaddr_list bp1 = []"
    by (simp add: bp1_def set_symbol_def zero_bp_def split: option.split)
  obtain p4 where p4: "add_retaddrs os (tramp_call_to (p_ctx p) addr) (\<lambda>b bp. bp)
      (branch_tqlist (p_ctx p)) bp1 p3 = Some (bp2, p4)" "p_mem p4 = p_mem p3" "p_ctx p4 = p_ctx p3"
    using add_retaddrs_run [OF ok(1), of "tramp_call_to (p_ctx p) addr" "branch_tqlist (p_ctx p)" bp1 p3]
    by (auto simp: p3(3) bp2_def r0)
  have run: "set_bp_trampoline os i fn addr p = Some (None, add_bp i bp2 p4)"
    unfolding set_bp_trampoline_def dis Option.bind.bind_lunit Let_def a prod.case option.case
    using p3 p4(1) ok(3) by (simp add: bp1_def)
  have one: "set_bp_one sa sn os i fn addr name p = Some ((None, False), add_bp i bp2 p4)"
    using run ok(3) by (simp add: set_bp_one_def)
  have bp2: "bp_symbol bp2 = elf_symbol_by_value_lookup (ctx_elfobj (p_ctx p)) (addr - shiva_trace_base_addr (p_ctx p))"
    by (simp add: bp2_def bp1_def set_symbol_def zero_bp_def split: option.split)
  show ?thesis
  proof (rule that [OF bp_ready_unique [OF assms one]])
    show "p_ctx (add_bp i bp2 p4) = (p_ctx p)\<lparr>trace_handlers_tqlist := (trace_handlers_tqlist (p_ctx p))
        [i := (trace_handlers_tqlist (p_ctx p) ! i)\<lparr>bp_tqlist := bp_tqlist (trace_handlers_tqlist (p_ctx p) ! i) @ [bp2]\<rparr>]\<rparr>"
      by (simp add: add_bp_def Let_def p4 p3)
  qed (use bp2 in \<open>simp_all add: p4 p3 bp2_def bp1_def\<close>)
qed

text \<open>C6. A trampoline breakpoint replaces the first twelve bytes of the function by
  \<open>movabs $handler, %rax; push %rax; ret\<close>, saves the bytes it replaces (poking the saved bytes back
  restores the memory exactly), and records the return address of every call site of the
  function.\<close>

theorem trampoline_saves_and_replaces:
  assumes "bp_ready os i SHIVA_TRACE_BP_TRAMPOLINE fn addr 12 p"
  shows "\<exists>p' bp. shiva_trace_set_breakpoint sa sn os fn addr name p = Some (None, p') \<and>
           bp_tqlist (trace_handlers_tqlist (p_ctx p') ! i) =
             bp_tqlist (trace_handlers_tqlist (p_ctx p) ! i) @ [bp] \<and>
           p_mem p' = write_bytes (p_mem p) addr (0x48 # 0xb8 # le_bytes 8 fn @ [0x50, 0xc3]) \<and>
           write_bytes (p_mem p') addr (take (unat (bp_len bp)) (o_insn (bp_insn bp))) = p_mem p \<and>
           retaddr_list bp =
             map (\<lambda>b. bs_retaddr b + shiva_trace_base_addr (p_ctx p))
               (filter (\<lambda>b. branch_type b = SHIVA_BRANCH_CALL \<and>
                            target_vaddr b + shiva_trace_base_addr (p_ctx p) = addr)
                  (branch_tqlist (p_ctx p)))"
proof -
  obtain p' bp where p': "shiva_trace_set_breakpoint sa sn os fn addr name p = Some (None, p')"
    "p_mem p' = write_bytes (p_mem p) addr (tramp_inst fn)"
    "p_ctx p' = (p_ctx p)\<lparr>trace_handlers_tqlist := (trace_handlers_tqlist (p_ctx p))
       [i := (trace_handlers_tqlist (p_ctx p) ! i)\<lparr>bp_tqlist := bp_tqlist (trace_handlers_tqlist (p_ctx p) ! i) @ [bp]\<rparr>]\<rparr>"
    and bp: "bp_len bp = 12" "o_insn (bp_insn bp) = pad_insn (read_bytes (p_mem p) addr 12)"
      "retaddr_list bp = map (\<lambda>b. bs_retaddr b + shiva_trace_base_addr (p_ctx p))
         (filter (tramp_call_to (p_ctx p) addr) (branch_tqlist (p_ctx p)))"
    by (rule trampoline_breakpoint_run [OF assms])
  have "write_bytes (p_mem p') addr (take (unat (bp_len bp)) (o_insn (bp_insn bp))) = p_mem p"
    by (simp add: bp p'(2) pad_insn_def write_bytes_overwrite write_bytes_same)
  moreover have "i < length (trace_handlers_tqlist (p_ctx p))" using assms by (simp add: bp_ready_def)
  moreover have "tramp_call_to (p_ctx p) addr = (\<lambda>b. branch_type b = SHIVA_BRANCH_CALL \<and>
      target_vaddr b + shiva_trace_base_addr (p_ctx p) = addr)"
    by (rule ext) (simp add: tramp_call_to_def)
  ultimately show ?thesis
    using p' bp(3) by (intro exI [of _ p'] exI [of _ bp]) (simp add: tramp_inst_def del: le_bytes.simps)
qed

text \<open>The target of a five-byte call instruction: the next address plus the signed offset.\<close>

definition call_dest :: "mem \<Rightarrow> u64 \<Rightarrow> u64" where
  "call_dest m addr = addr + 5 + scast (load32 m (addr + 1))"

lemma take_bit_32_add: "take_bit 32 (take_bit 32 a + take_bit 32 b) = take_bit 32 (a + b :: u64)"
  by transfer (simp add: take_bit_add)

lemma less_mask_take_bit: "w < 2 ^ 32 \<Longrightarrow> take_bit 32 (w :: u64) = w"
  by (simp add: word_less_nat_alt word_unat_eq_iff unsigned_take_bit_eq take_bit_nat_eq_self)

lemma take_bit_ucast_scast: "take_bit 32 (ucast (w :: u32) :: u64) = take_bit 32 (scast w)"
  by (rule bit_word_eqI) (auto simp: bit_simps)

lemma load32_read5: "load32 m (addr + 1) = le_val (take 4 (drop 1 (read_bytes m addr 5)))"
proof -
  have "take 4 (drop 1 (read_bytes m addr 5)) = read_bytes m (addr + 1) 4"
    by (rule nth_equalityI) (auto simp: add.assoc)
  then show ?thesis by (simp add: load32_def)
qed

lemma shiva_xfmtstrdup_ok: "malloc_ok os \<Longrightarrow> \<exists>r. shiva_xfmtstrdup os t p = Some r"
  using sys_malloc_ok [of os "of_nat (length (snprintf_text 512 t)) + 1" p]
  by (auto simp: shiva_xfmtstrdup_def shiva_strdup_def)

lemma plt_target_name_run: "malloc_ok os \<Longrightarrow> \<exists>r. plt_target_name os es off n p = Some r"
proof (induction es arbitrary: n p)
  case (Cons e es)
  from shiva_xfmtstrdup_ok [OF Cons.prems, of "plt_symname e @ ''@plt''" p]
  show ?case using Cons by auto
qed simp

lemma call_target_run:
  assumes "malloc_ok os"
  shows "\<exists>bp' p'. call_target os bp p = Some (bp', p')"
proof (cases "elf_symbol_by_value_lookup (ctx_elfobj (p_ctx p)) (o_target bp - shiva_trace_base_addr (p_ctx p))")
  case None
  obtain n p1 where n: "plt_target_name os (elf_plts (ctx_elfobj (p_ctx p)))
      (o_target bp - shiva_trace_base_addr (p_ctx p)) None p = Some (n, p1)"
    using plt_target_name_run [OF assms] by (metis prod.exhaust)
  obtain r where r: "shiva_xfmtstrdup os (''fn_'' @ show_alt_hex (o_target bp)) p1 = Some r"
    using shiva_xfmtstrdup_ok [OF assms] by blast
  show ?thesis
    using None n r by (cases n; cases r) (auto simp: call_target_def Let_def)
qed (simp add: call_target_def Let_def)

text \<open>The run of a CALL breakpoint: the five bytes of the call are replaced and the breakpoint is appended.\<close>

lemma call_breakpoint_run:
  assumes "bp_ready os i SHIVA_TRACE_BP_CALL fn addr 5 p"
  obtains p' bp where
    "shiva_trace_set_breakpoint True sn os fn addr name p = Some (None, p')"
    "p_mem p' = write_bytes (p_mem p) addr (call_inst fn addr)"
    "p_ctx p' = (p_ctx p)\<lparr>trace_handlers_tqlist := (trace_handlers_tqlist (p_ctx p))
       [i := (trace_handlers_tqlist (p_ctx p) ! i)\<lparr>bp_tqlist := bp_tqlist (trace_handlers_tqlist (p_ctx p) ! i) @ [bp]\<rparr>]\<rparr>"
    "bp_type bp = SHIVA_TRACE_BP_CALL" "bp_addr bp = addr" "callsite_retaddr bp = addr + 5" "bp_len bp = 5"
    "o_target bp = call_dest (p_mem p) addr AND 0xffffffff"
    "bp_insn bp = zero_insn\<lparr>o_insn := pad_insn (read_bytes (p_mem p) addr 5)\<rparr>"
proof -
  let ?h = "trace_handlers_tqlist (p_ctx p)"
  have ok: "i < length ?h" "h_type (?h ! i) = SHIVA_TRACE_BP_CALL" "handler_fn (?h ! i) = fn"
    using assms(1) by (auto simp: bp_ready_def)
  let ?bp0 = "call_bp SHIVA_TRACE_BP_CALL addr (read_bytes (p_mem p) addr 5)"
  let ?p1 = "p\<lparr>p_ud := ud_set_input_buffer (p_ud p) (read_bytes (p_mem p) addr SHIVA_MAX_INST_LEN)
                SHIVA_MAX_INST_LEN\<rparr>"
  let ?p2 = "?p1\<lparr>p_calls := Suc (p_calls p)\<rparr>"
  have dis: "point_disas addr p = Some ?p1" by (simp add: point_disas_frame)
  obtain a where a: "sys_malloc os (os_sizeof os ''shiva_trace_bp'') ?p1 = (Some a, ?p2)"
    using assms(1) sys_malloc_ok [of os "os_sizeof os ''shiva_trace_bp''" ?p1] by (auto simp: bp_ready_def)
  obtain bp p3 where tgt: "call_target os ?bp0 ?p2 = Some (bp, p3)"
    using call_target_run [of os ?bp0 ?p2] assms(1) by (auto simp: bp_ready_def)
  have ctx3: "p_ctx p3 = p_ctx p" "p_mem p3 = p_mem p" and
    bp: "o_target bp = o_target ?bp0" "bp_insn bp = bp_insn ?bp0" "bp_len bp = 5"
      "callsite_retaddr bp = addr + 5" "bp_type bp = SHIVA_TRACE_BP_CALL" "bp_addr bp = addr"
    using call_target_frame [OF tgt] by (auto simp: call_bp_def Let_def)
  have len: "length (call_inst fn addr) = 5" by (simp add: call_inst_def del: le_bytes.simps)
  obtain p4 where p4: "shiva_trace_write os addr (call_inst fn addr) p3 = Some (None, p4)"
    "p_ctx p4 = p_ctx p" "p_mem p4 = write_bytes (p_mem p) addr (call_inst fn addr)"
    using bp_ready_write [OF assms(1) ctx3(1) len] ctx3 by auto
  have run: "set_bp_call True os i fn addr p = Some (None, add_bp i bp p4)"
    using ok tgt ctx3 p4 by (simp add: set_bp_call_def dis a)
  have target: "o_target ?bp0 = call_dest (p_mem p) addr AND 0xffffffff"
  proof -
    let ?w = "load32 (p_mem p) (addr + 1)"
    have mask: "(0xffffffff :: u64) = mask 32" by (simp add: mask_eq_decr_exp)
    then have "o_target ?bp0 = take_bit 32 (addr + ucast ?w + 5)"
      by (simp add: call_bp_def Let_def load32_read5 take_bit_eq_mask)
    also have "\<dots> = take_bit 32 (take_bit 32 (addr + 5) + take_bit 32 (ucast ?w))"
    proof -
      have "addr + ucast ?w + 5 = (addr + 5) + ucast ?w" by simp
      then show ?thesis by (simp only: take_bit_32_add)
    qed
    also have "\<dots> = take_bit 32 (call_dest (p_mem p) addr)"
      by (simp only: take_bit_ucast_scast take_bit_32_add call_dest_def)
    finally show ?thesis by (simp add: mask take_bit_eq_mask)
  qed
  have "set_bp_one True sn os i fn addr name p = Some ((None, False), add_bp i bp p4)"
    using run ok(2) by (simp add: set_bp_one_def)
  then have set: "shiva_trace_set_breakpoint True sn os fn addr name p = Some (None, add_bp i bp p4)"
    by (rule bp_ready_unique [OF assms(1)])
  show ?thesis
  proof (rule that [OF set])
    show "p_mem (add_bp i bp p4) = write_bytes (p_mem p) addr (call_inst fn addr)" using p4 by simp
    show "p_ctx (add_bp i bp p4) = (p_ctx p)\<lparr>trace_handlers_tqlist :=
        ?h [i := (?h ! i)\<lparr>bp_tqlist := bp_tqlist (?h ! i) @ [bp]\<rparr>]\<rparr>"
      by (simp add: add_bp_def Let_def p4)
    show "o_target bp = call_dest (p_mem p) addr AND 0xffffffff" using target bp(1) by simp
    show "bp_insn bp = zero_insn\<lparr>o_insn := pad_insn (read_bytes (p_mem p) addr 5)\<rparr>"
      using bp(2) by (simp add: call_bp_def Let_def)
  qed (use bp in simp_all)
qed

text \<open>A call instruction within reach calls the function.\<close>

lemma call_inst_dest:
  assumes "- (2 ^ 31) \<le> sint (fn - addr - 5)" and "sint (fn - addr - 5) < 2 ^ 31"
    and "read_bytes m addr 5 = call_inst fn addr"
  shows "m addr = 0xe8" "call_dest m addr = fn"
proof -
  show "m addr = 0xe8"
    using arg_cong [OF assms(3), of hd] by (simp add: read_bytes_def call_inst_def upt_rec)
  have "load32 m (addr + 1) = ucast (fn - addr - 5)"
    using assms(3) by (simp add: load32_read5 call_inst_def del: le_bytes.simps)
  then show "call_dest m addr = fn"
    using scast_ucast32 [OF assms(1,2)] by (simp add: call_dest_def)
qed

lemma length_call_inst [simp]: "length (call_inst fn addr) = 5"
  by (simp add: call_inst_def del: le_bytes.simps)

text \<open>C7. A CALL breakpoint in a standalone build replaces the call instruction by one whose target
  is the handler, whenever the handler is within two gigabytes of the call site; the breakpoint
  records the original target, provided that it lies in the low four gigabytes, and the return
  address, and the saved bytes restore the memory.\<close>

theorem call_breakpoint_redirects:
  assumes "bp_ready os i SHIVA_TRACE_BP_CALL fn addr 5 p"
    and "- (2 ^ 31) \<le> sint (fn - addr - 5)" and "sint (fn - addr - 5) < 2 ^ 31"
    and "call_dest (p_mem p) addr < 2 ^ 32"
  shows "\<exists>p'. shiva_trace_set_breakpoint True sn os fn addr name p = Some (None, p') \<and>
         p_mem p' addr = 0xe8 \<and> call_dest (p_mem p') addr = fn \<and>
         (\<exists>bp. bp_tqlist (trace_handlers_tqlist (p_ctx p') ! i) =
                 bp_tqlist (trace_handlers_tqlist (p_ctx p) ! i) @ [bp] \<and>
               o_target bp = call_dest (p_mem p) addr \<and> callsite_retaddr bp = addr + 5 \<and>
               write_bytes (p_mem p') addr (take (unat (bp_len bp)) (o_insn (bp_insn bp))) = p_mem p)"
proof -
  obtain p' bp where run: "shiva_trace_set_breakpoint True sn os fn addr name p = Some (None, p')"
    and mem: "p_mem p' = write_bytes (p_mem p) addr (call_inst fn addr)"
    and ctx: "p_ctx p' = (p_ctx p)\<lparr>trace_handlers_tqlist := (trace_handlers_tqlist (p_ctx p))
       [i := (trace_handlers_tqlist (p_ctx p) ! i)\<lparr>bp_tqlist := bp_tqlist (trace_handlers_tqlist (p_ctx p) ! i) @ [bp]\<rparr>]\<rparr>"
    and bp: "callsite_retaddr bp = addr + 5" "bp_len bp = 5"
      "o_target bp = call_dest (p_mem p) addr AND 0xffffffff"
      "bp_insn bp = zero_insn\<lparr>o_insn := pad_insn (read_bytes (p_mem p) addr 5)\<rparr>"
    by (rule call_breakpoint_run [OF assms(1), of sn name])
  have "read_bytes (p_mem p') addr 5 = call_inst fn addr" by (simp add: mem read_write_bytes)
  note dest = call_inst_dest [OF assms(2,3) this]
  have mask: "(0xffffffff :: u64) = mask 32" by (simp add: mask_eq_decr_exp)
  have "o_target bp = call_dest (p_mem p) addr"
    using less_mask_take_bit [OF assms(4)] by (simp only: bp(3) mask take_bit_eq_mask)
  moreover have "write_bytes (p_mem p') addr (take (unat (bp_len bp)) (o_insn (bp_insn bp))) = p_mem p"
    by (simp add: bp mem pad_insn_def write_bytes_overwrite write_bytes_same)
  moreover have "i < length (trace_handlers_tqlist (p_ctx p))" using assms(1) by (simp add: bp_ready_def)
  ultimately show ?thesis using run dest ctx bp(1) by auto
qed

section \<open>The alternate relocation table\<close>

text \<open>A table of 24-byte relocation records in memory.\<close>

fun rela_table :: "mem \<Rightarrow> u64 \<Rightarrow> nat \<Rightarrow> u8 list list" where
  "rela_table m a 0 = []"
| "rela_table m a (Suc n) = read_bytes m a 24 # rela_table m (a + 24) n"

definition rela_info :: "u8 list \<Rightarrow> u64" where
  "rela_info r = le_val (take 8 (drop 8 r))"

definition is_jump_slot :: "u8 list \<Rightarrow> bool" where
  "is_jump_slot r \<longleftrightarrow> (ucast (rela_info r) :: u32) = of_nat R_X86_64_JUMP_SLOT"

definition rela_symbol :: "elfobj \<Rightarrow> u8 list \<Rightarrow> elf_symbol option" where
  "rela_symbol obj r = elf_symbol_by_index obj (drop_bit 32 (rela_info r))"

text \<open>The records that must stay active when a symbol is hooked.\<close>

definition stays_active :: "elfobj \<Rightarrow> string \<Rightarrow> u8 list \<Rightarrow> bool" where
  "stays_active obj name r \<longleftrightarrow>
     is_jump_slot r \<and> (\<forall>s. rela_symbol obj r = Some s \<longrightarrow> sym_name s \<noteq> name)"

lemma read_bytes_take_drop:
  "k + n \<le> l \<Longrightarrow> take n (drop k (read_bytes m a l)) = read_bytes m (a + of_nat k) n"
  by (rule nth_equalityI) (auto simp: add.assoc)

lemma rela_info_read: "rela_info (read_bytes m a 24) = load64 m (a + 8)"
  using read_bytes_take_drop [of 8 8 24 m a] by (simp add: rela_info_def load64_def)

lemma rela_table_cong:
  assumes "\<And>x. in_region a (24 * n) x \<Longrightarrow> m x = m' x" and "24 * n \<le> 2 ^ 64"
  shows "rela_table m a n = rela_table m' a n"
  using assms
proof (induction n arbitrary: a)
  case (Suc n)
  have "read_bytes m a 24 = read_bytes m' a 24"
    using Suc.prems by (intro read_bytes_cong) auto
  moreover have "m x = m' x" if "in_region (a + 24) (24 * n) x" for x
    using in_region_sub [OF that, of "24 * Suc n"] Suc.prems by simp
  then have "rela_table m (a + 24) n = rela_table m' (a + 24) n"
    using Suc.prems(2) by (intro Suc.IH) auto
  ultimately show ?case by simp
qed simp

lemma separate_sub:
  assumes "separate a n b k" and "\<And>x. in_region a' n' x \<Longrightarrow> in_region a n x"
    and "\<And>x. in_region b' k' x \<Longrightarrow> in_region b k x"
  shows "separate a' n' b' k'"
  using assms by (auto simp: separate_def)

lemma alt_relocs_table:
  assumes "24 * (n + 1) \<le> 2 ^ 63" and "separate jr (24 * n) ptr (24 * n)"
    and "\<forall>r \<in> set (rela_table m ptr n). is_jump_slot r \<longrightarrow> rela_symbol obj r \<noteq> None"
    and "jr = dst + 24 * of_nat cnt"
  shows "\<exists>s m'. alt_relocs obj name n ptr dst cnt hsym m =
           (True, cnt + length (filter (stays_active obj name) (rela_table m ptr n)), s, m') \<and>
         rela_table m' jr (length (filter (stays_active obj name) (rela_table m ptr n))) =
           filter (stays_active obj name) (rela_table m ptr n) \<and>
         (\<forall>x. \<not> in_region jr (24 * n) x \<longrightarrow> m' x = m x)"
  using assms
proof (induction n arbitrary: ptr cnt hsym m jr)
  case (Suc n)
  let ?r = "read_bytes m ptr 24"
  have sub_ptr: "in_region ptr (24 * Suc n) x" if "in_region (ptr + 24) (24 * n) x" for x
    using in_region_sub [OF that, of "24 * Suc n"] Suc.prems(1) by simp
  have sub_jr: "in_region jr (24 * Suc n) x" if "in_region (jr + 24) (24 * n) x" for x
    using in_region_sub [OF that, of "24 * Suc n"] Suc.prems(1) by simp
  have first_jr: "in_region jr (24 * Suc n) x" if "in_region jr 24 x" for x
    using that by (auto simp: in_region_def)
  have small_jr: "in_region jr (24 * Suc n) x" if "in_region jr (24 * n) x" for x
    using that by (auto simp: in_region_def)
  have len: "length (filter (stays_active obj name) t) \<le> length t" for t by simp
  have lent: "length (rela_table m a k) = k" for a k by (induction k arbitrary: a) auto
  show ?case
  proof (cases "stays_active obj name ?r")
    case False
    then have step: "\<exists>h. alt_relocs obj name (Suc n) ptr dst cnt hsym m =
        alt_relocs obj name n (ptr + 24) dst cnt h m"
      using Suc.prems(3)
      by (auto simp: stays_active_def is_jump_slot_def rela_symbol_def rela_info_read Let_def)
    then obtain h where h: "alt_relocs obj name (Suc n) ptr dst cnt hsym m =
        alt_relocs obj name n (ptr + 24) dst cnt h m" by blast
    have "separate jr (24 * n) (ptr + 24) (24 * n)"
      using Suc.prems(2) small_jr sub_ptr by (rule separate_sub)
    then obtain s' m' where IH: "alt_relocs obj name n (ptr + 24) dst cnt h m =
        (True, cnt + length (filter (stays_active obj name) (rela_table m (ptr + 24) n)), s', m')"
      "rela_table m' jr (length (filter (stays_active obj name) (rela_table m (ptr + 24) n))) =
        filter (stays_active obj name) (rela_table m (ptr + 24) n)"
      "\<forall>x. \<not> in_region jr (24 * n) x \<longrightarrow> m' x = m x"
      using Suc.IH [of jr "ptr + 24" m cnt h] Suc.prems(1,3,4) by auto
    have "m' x = m x" if "\<not> in_region jr (24 * Suc n) x" for x
      using that IH(3) small_jr by blast
    with IH(1,2) False h show ?thesis by (simp del: alt_relocs.simps)
  next
    case True
    let ?m1 = "write_bytes m jr ?r"
    from True Suc.prems(3) obtain s where s: "rela_symbol obj ?r = Some s" "sym_name s \<noteq> name"
      by (auto simp: stays_active_def)
    with True have step: "alt_relocs obj name (Suc n) ptr dst cnt hsym m =
        alt_relocs obj name n (ptr + 24) dst (Suc cnt) hsym ?m1"
      by (simp add: stays_active_def is_jump_slot_def rela_symbol_def rela_info_read Let_def
          Suc.prems(4))
    have same: "rela_table ?m1 (ptr + 24) n = rela_table m (ptr + 24) n"
    proof (rule rela_table_cong)
      fix x assume "in_region (ptr + 24) (24 * n) x"
      with sub_ptr Suc.prems(2) first_jr have "\<not> in_region jr 24 x" by (auto simp: separate_def)
      then show "?m1 x = m x" by (simp add: write_bytes_outside)
    qed (use Suc.prems(1) in simp)
    have sep: "separate (jr + 24) (24 * n) (ptr + 24) (24 * n)"
      using Suc.prems(2) sub_jr sub_ptr by (rule separate_sub)
    have jr': "jr + 24 = dst + 24 * of_nat (Suc cnt)"
      by (simp add: Suc.prems(4) algebra_simps)
    obtain s' m' where IH: "alt_relocs obj name n (ptr + 24) dst (Suc cnt) hsym ?m1 =
        (True, Suc cnt + length (filter (stays_active obj name) (rela_table m (ptr + 24) n)), s', m')"
      "rela_table m' (jr + 24) (length (filter (stays_active obj name) (rela_table m (ptr + 24) n))) =
        filter (stays_active obj name) (rela_table m (ptr + 24) n)"
      "\<forall>x. \<not> in_region (jr + 24) (24 * n) x \<longrightarrow> m' x = ?m1 x"
      using Suc.IH [of "jr + 24" "ptr + 24" ?m1 "Suc cnt" hsym] Suc.prems(1,3) sep jr'
      unfolding same by auto
    have "separate jr 24 (jr + 24) (24 * n)"
      using separate_offsets [of 0 24 24 "24 * n" jr] Suc.prems(1) by simp
    then have "read_bytes m' jr 24 = read_bytes ?m1 jr 24"
      using IH(3) by (intro read_bytes_cong) (auto simp: separate_def)
    then have head: "read_bytes m' jr 24 = ?r" by (simp add: read_write_bytes)
    have out: "m' x = m x" if "\<not> in_region jr (24 * Suc n) x" for x
    proof -
      have "\<not> in_region (jr + 24) (24 * n) x" "\<not> in_region jr 24 x"
        using that sub_jr first_jr by blast+
      with IH(3) show ?thesis by (simp add: write_bytes_outside)
    qed
    show ?thesis
      unfolding step using True IH(1,2) head out by (simp del: alt_relocs.simps)
  qed
qed simp

text \<open>C29. The relocation table built for a GOT hook holds exactly the jump-slot records of the
  original table that belong to another symbol, unchanged and in order, and nothing outside the new
  table is written; the hooked symbol is the only one taken out, so a table rebuilt for a second
  hook contains the record of the first one again.\<close>

theorem alt_relocs_drops_hooked_symbol:
  assumes "24 * (n + 1) \<le> 2 ^ 63" and "separate jr (24 * n) ptr (24 * n)"
    and "\<forall>r \<in> set (rela_table m ptr n). is_jump_slot r \<longrightarrow> rela_symbol obj r \<noteq> None"
  shows "\<exists>cnt s m'. alt_relocs obj name n ptr jr 0 None m = (True, cnt, s, m') \<and>
           rela_table m' jr cnt = filter (stays_active obj name) (rela_table m ptr n) \<and>
           (\<forall>x. \<not> in_region jr (24 * n) x \<longrightarrow> m' x = m x)"
  using alt_relocs_table [OF assms, of jr 0 name None] by auto

section \<open>Witnesses\<close>

lemma example_bp_ready:
  assumes "n \<le> 100"
  shows "bp_ready example_os 0 ty 0x50000000 0x40001000 n (example_traced ty)"
  using assms example_traced_maps(1) [of "0x40001000" ty]
  by (auto simp: bp_ready_def malloc_ok_def example_os_def mprotect_ok_def)

lemma example_valid: "shiva_maps_validate_addr (p_ctx (example_traced ty)) (0x40001000 + 8)"
  by (rule example_traced_maps) simp_all

text \<open>Two breakpoints one after the other.\<close>

theorem int3_breakpoint_patches_one_byte_witness:
  "\<exists>p1 p2. shiva_trace_set_breakpoint True False example_os 0x50000000 0x40001000 []
          (example_traced SHIVA_TRACE_BP_INT3) = Some (None, p1) \<and>
        p_sigaction p1 SIGTRAP = Some 0x50000000 \<and>
        shiva_trace_set_breakpoint True False example_os 0x50000000 0x40002000 [] p1 = Some (None, p2) \<and>
        p_mem p2 = (\<lambda>_. 0)(0x40001000 := 0xcc, 0x40002000 := 0xcc) \<and> p_sigaction p2 = p_sigaction p1 \<and>
        map bp_addr (bp_tqlist (trace_handlers_tqlist (p_ctx p2) ! 0)) = [0x40001000, 0x40002000]"
proof -
  let ?p = "example_traced SHIVA_TRACE_BP_INT3"
  obtain p1 where p1: "shiva_trace_set_breakpoint True False example_os 0x50000000 0x40001000 [] ?p = Some (None, p1)"
      "p_mem p1 = (\<lambda>_. 0)(0x40001000 := 0xcc)" "p_sigaction p1 SIGTRAP = Some 0x50000000"
      "p_ctx p1 = (p_ctx ?p)\<lparr>trace_handlers_tqlist := [\<lparr>h_type = SHIVA_TRACE_BP_INT3, handler_fn = 0x50000000,
         bp_tqlist = [zero_bp\<lparr>bp_addr := 0x40001000, bp_len := 1, bp_type := SHIVA_TRACE_BP_INT3\<rparr>]\<rparr>]\<rparr>"
    using int3_breakpoint_patches_one_byte
      [OF example_bp_ready example_valid refl, where sa = True and sn = False and name = "[]"] by auto
  have maps: "shiva_maps_prot_by_addr (p_ctx p1) a = shiva_maps_prot_by_addr (p_ctx ?p) a"
    "shiva_maps_validate_addr (p_ctx p1) a = shiva_maps_validate_addr (p_ctx ?p) a" for a
    by (simp_all add: p1(4) shiva_maps_prot_by_addr_find shiva_maps_validate_addr_def)
  have "bp_ready example_os 0 SHIVA_TRACE_BP_INT3 0x50000000 0x40002000 8 p1"
    using example_traced_maps(1) [of "0x40002000" SHIVA_TRACE_BP_INT3]
    by (simp add: bp_ready_def maps malloc_ok_def example_os_def) (simp add: p1(4) mprotect_ok_def)
  moreover have "shiva_maps_validate_addr (p_ctx p1) (0x40002000 + 8)"
    using example_traced_maps(2) [of "0x40002008"] by (simp add: maps)
  ultimately obtain p2 where
      "shiva_trace_set_breakpoint True False example_os 0x50000000 0x40002000 [] p1 = Some (None, p2)"
      "p_mem p2 = (p_mem p1)(0x40002000 := 0xcc)" "p_sigaction p2 = p_sigaction p1"
      "map bp_addr (bp_tqlist (trace_handlers_tqlist (p_ctx p2) ! 0)) = [0x40001000, 0x40002000]"
    using int3_breakpoint_patches_one_byte
      [OF _ _ refl, of example_os 0 "0x50000000" "0x40002000" p1, where sa = True and sn = False and name = "[]"]
    by (auto simp: p1(4))
  with p1 show ?thesis by auto
qed

theorem sigill_breakpoint_overwrites_four_bytes_witness:
  "\<exists>p' bp. shiva_trace_set_breakpoint True False example_os 0x50000000 0x40001000 []
          (example_traced SHIVA_TRACE_BP_SIGILL) = Some (None, p') \<and>
        bp_tqlist (trace_handlers_tqlist (p_ctx p') ! 0) = [bp] \<and> bp_len bp = 2 \<and>
        p_mem p' = write_bytes (\<lambda>_. 0) 0x40001000 [0x0f, 0x0b, 0, 0]"
  using sigill_breakpoint_overwrites_four_bytes
    [OF example_bp_ready example_valid, where sa = True and sn = False and name = "[]"]
  by auto

theorem jmp_segv_breakpoint_no_effect_witness:
  "shiva_trace_set_breakpoint True False example_os 0x50000000 0x40001000 []
     (example_traced SHIVA_TRACE_BP_SEGV) = Some (None, example_traced SHIVA_TRACE_BP_SEGV)"
  using jmp_segv_breakpoint_no_effect [OF example_bp_ready [of 5 SHIVA_TRACE_BP_SEGV]] by simp

theorem trampoline_saves_and_replaces_witness:
  "\<exists>p' bp. shiva_trace_set_breakpoint True False example_os 0x50000000 0x40001000 []
          (example_traced SHIVA_TRACE_BP_TRAMPOLINE) = Some (None, p') \<and>
        bp_tqlist (trace_handlers_tqlist (p_ctx p') ! 0) = [bp] \<and>
        write_bytes (p_mem p') 0x40001000 (take (unat (bp_len bp)) (o_insn (bp_insn bp))) = (\<lambda>_. 0)"
  using trampoline_saves_and_replaces
    [OF example_bp_ready, where sa = True and sn = False and name = "[]"] by auto

lemma example_call_dest:
  "call_dest (\<lambda>_. 0) 0x40001000 = 0x40001005"
  by (simp add: call_dest_def load32_def read_bytes_def numeral_eq_Suc)

theorem call_breakpoint_redirects_witness:
  "\<exists>p'. shiva_trace_set_breakpoint True False example_os 0x50000000 0x40001000 []
          (example_traced SHIVA_TRACE_BP_CALL) = Some (None, p') \<and>
        call_dest (p_mem p') 0x40001000 = 0x50000000"
  using call_breakpoint_redirects
    [OF example_bp_ready, where sn = False and name = "[]"]
  by (auto simp: example_call_dest)

theorem set_breakpoint_keeps_handlers_witness:
  "\<exists>p'. shiva_trace_set_breakpoint True False example_os 0x50000000 0x40001000 []
          (example_traced SHIVA_TRACE_BP_SEGV) = Some (None, p') \<and>
        map handler_fn (trace_handlers_tqlist (p_ctx p')) = [0x50000000]"
proof -
  have run: "shiva_trace_set_breakpoint True False example_os 0x50000000 0x40001000 []
      (example_traced SHIVA_TRACE_BP_SEGV) = Some (None, example_traced SHIVA_TRACE_BP_SEGV)"
    by (simp add: shiva_trace_set_breakpoint_def set_bp_one_def)
  from set_breakpoint_keeps_handlers [OF run] run show ?thesis by (auto simp: list_all2_Cons1)
qed

text \<open>Two jump slots, of the symbols 1 and 2, the second one hooked.\<close>

definition example_rela_mem :: mem where
  "example_rela_mem =
     write_bytes (\<lambda>_. 0) 0x1000
       (le_bytes 8 (0x10 :: u64) @ le_bytes 8 (0x100000007 :: u64) @ le_bytes 8 (0 :: u64) @
        le_bytes 8 (0x18 :: u64) @ le_bytes 8 (0x200000007 :: u64) @ le_bytes 8 (0 :: u64))"

definition example_rela_obj :: elfobj where
  "example_rela_obj =
     null_elfobj\<lparr>elf_symbol_by_index := (\<lambda>i.
        if i = 1 then Some \<lparr>sym_name = ''puts'', sym_value = 0, sym_size = 0, sym_type = 2, sym_bind = 1\<rparr>
        else if i = 2 then Some \<lparr>sym_name = ''exit'', sym_value = 0, sym_size = 0, sym_type = 2, sym_bind = 1\<rparr>
        else None)\<rparr>"

lemma example_rela_words:
  "load64 example_rela_mem 0x1008 = 0x100000007" "load64 example_rela_mem 0x1020 = 0x200000007"
  by code_simp+

theorem alt_relocs_drops_hooked_symbol_witness:
  "\<exists>cnt s m'. alt_relocs example_rela_obj ''exit'' 2 0x1000 0x2000 0 None example_rela_mem =
                (True, cnt, s, m') \<and>
              rela_table m' 0x2000 cnt = [read_bytes example_rela_mem 0x1000 24]"
proof -
  have sep: "separate 0x2000 48 0x1000 48"
    using separate_offsets [of 0 48 "0x1000" 48 "0x1000"] by (auto simp: separate_def)
  have syms: "rela_symbol example_rela_obj (read_bytes example_rela_mem 0x1000 24) =
      Some \<lparr>sym_name = ''puts'', sym_value = 0, sym_size = 0, sym_type = 2, sym_bind = 1\<rparr>"
    "rela_symbol example_rela_obj (read_bytes example_rela_mem 0x1018 24) =
      Some \<lparr>sym_name = ''exit'', sym_value = 0, sym_size = 0, sym_type = 2, sym_bind = 1\<rparr>"
    by (simp_all add: rela_symbol_def rela_info_read example_rela_words example_rela_obj_def)
  have slots: "is_jump_slot (read_bytes example_rela_mem 0x1000 24)"
    by (simp add: is_jump_slot_def rela_info_read example_rela_words R_X86_64_JUMP_SLOT_def)
  have tab: "rela_table example_rela_mem 0x1000 2 =
      [read_bytes example_rela_mem 0x1000 24, read_bytes example_rela_mem 0x1018 24]"
    by (simp add: numeral_2_eq_2)
  have "filter (stays_active example_rela_obj ''exit'') (rela_table example_rela_mem 0x1000 2) =
      [read_bytes example_rela_mem 0x1000 24]"
    using slots by (simp add: tab stays_active_def syms)
  with alt_relocs_drops_hooked_symbol [of 2 "0x2000" "0x1000" example_rela_mem example_rela_obj "''exit''"] sep
  show ?thesis by (auto simp: tab syms)
qed

end
