(* ===== verification/Ulexec.thy ===== *)
theory Ulexec
  imports Auxv Util
begin

text \<open>
  \<^verbatim>\<open>shiva_ulexec.c\<close>: loading an ELF executable and its interpreter into the own process and building
  the initial stack (argument count, argument and environment pointers, auxiliary vector and the
  strings) from which the interpreter will start.
\<close>

section \<open>The new stack\<close>

definition SHIVA_AUXV_COUNT :: u64 where "SHIVA_AUXV_COUNT = 19"

abbreviation set_ulexec :: "(shiva_ulexec \<Rightarrow> shiva_ulexec) \<Rightarrow> proc \<Rightarrow> proc" where
  "set_ulexec f p \<equiv> p\<lparr>p_ctx := (p_ctx p)\<lparr>ulexec := f (ulexec (p_ctx p))\<rparr>\<rparr>"

definition shiva_ulexec_allocstack :: "os \<Rightarrow> proc \<Rightarrow> (u64 \<times> proc) option" where
  "shiva_ulexec_allocstack os p =
     (case sys_mmap os 0 SHIVA_STACK_SIZE (PROT_READ OR PROT_WRITE)
             (MAP_PRIVATE OR MAP_ANONYMOUS OR MAP_GROWSDOWN) None p of
        (None, p1) \<Rightarrow> None
      | (Some b, p1) \<Rightarrow> Some (b + SHIVA_STACK_SIZE, set_ulexec (\<lambda>u. u\<lparr>ul_stack := b\<rparr>) p1))"

text \<open>The space in front of the strings, and the whole.\<close>

definition stack_count :: "nat \<Rightarrow> u64 \<Rightarrow> u64" where
  "stack_count argc envpcount =
     (4 + of_nat argc * 8 + 8 + envpcount * 8 + 8 + (SHIVA_AUXV_COUNT + 1) * 16 + 16) AND NOT 15"

text \<open>\<open>totalsize\<close> is an \<open>int\<close>.\<close>

definition stack_totalsize :: "u64 \<Rightarrow> u64 \<Rightarrow> u64 \<Rightarrow> u64" where
  "stack_totalsize count envplen arglen =
     scast ((ucast (count + envplen + arglen) + 16 :: u32) AND NOT 15)"

text \<open>One of the two string loops: copy the next string of the buffer to \<open>strdata\<close> and store its
  address.\<close>

fun push_strings :: "nat \<Rightarrow> u8 list \<Rightarrow> u64 \<Rightarrow> u64 \<Rightarrow> mem \<Rightarrow> u64 \<times> u64 \<times> mem" where
  "push_strings 0 s esp strdata m = (esp, strdata, m)"
| "push_strings (Suc n) s esp strdata m =
     (let str = takeWhile (\<lambda>b. b \<noteq> 0) s; len = length str + 1;
          m1 = write_bytes m strdata (str @ [0]);
          m2 = store64 m1 esp strdata
      in push_strings n (drop len s) (esp + 8) (strdata + of_nat len) m2)"

definition auxv_value :: "shiva_ctx \<Rightarrow> u32 \<Rightarrow> u64 \<Rightarrow> u64" where
  "auxv_value ctx t v =
     (let t = ucast t
      in if t = AT_PHDR then ul_phdr_vaddr (ulexec ctx)
         else if t = AT_PHNUM then of_nat (length (elf_segments (ctx_elfobj ctx)))
         else if t = AT_BASE then ldso_base_vaddr (ulexec ctx)
         else if t = AT_ENTRY then ul_entry_point (ulexec ctx)
         else if t = AT_EXECFN then ctx_path_ptr ctx
         else v)"

partial_function (option) copy_auxv ::
  "shiva_ctx \<Rightarrow> shiva_auxv_iterator \<Rightarrow> u64 \<Rightarrow> mem \<Rightarrow> (u64 \<times> mem) option" where
  "copy_auxv ctx it auxv m =
     (case auxv_nxt m it of
        None \<Rightarrow> Some (auxv, m)
      | Some p \<Rightarrow>
          copy_auxv ctx (snd p) (auxv + 16)
            (store64 (store64 m auxv (scast (fst (fst p)))) (auxv + 8)
               (auxv_value ctx (fst (fst p)) (snd (fst p)))))"

text \<open>The results are the returned boolean, \<open>*out\<close> and \<open>*auxv_ptr\<close>.\<close>

definition shiva_ulexec_build_auxv_stack :: "os \<Rightarrow> proc \<Rightarrow> (bool \<times> u64 \<times> u64 \<times> proc) option" where
  "shiva_ulexec_build_auxv_stack os p =
     (let ul = ulexec (p_ctx p); argc = ctx_argc (p_ctx p);
          count = stack_count argc (ul_envpcount ul);
          totalsize = stack_totalsize count (ul_envplen ul) (ul_arglen ul)
      in do {
        (stack, p1) \<leftarrow> shiva_ulexec_allocstack os p;
        let esp_start = stack - 8 * (totalsize div 8);
        let m1 = store64 (p_mem p1) esp_start (of_nat argc);
        let (esp1, sd1, m2) = push_strings argc (ul_argstr ul) (esp_start + 8) (esp_start + count) m1;
        let m3 = store64 m2 esp1 0;
        let (esp2, sd2, m4) = push_strings (unat (ul_envpcount ul)) (ul_envstr ul) (esp1 + 8) sd1 m3;
        let m5 = store64 m4 esp2 0;
        let auxv = esp2 + 8;
        init \<leftarrow> shiva_auxv_iterator_init (p1\<lparr>p_mem := m5\<rparr>) 0;
        it \<leftarrow> init;
        (auxv', m6) \<leftarrow> copy_auxv (p_ctx p1) it auxv m5;
        let p2 = p1\<lparr>p_mem := store64 m6 auxv' AT_NULL\<rparr>;
        Some (esp_start \<noteq> 0, esp_start, auxv, p2)
      })"

section \<open>Saving the old stack\<close>

fun load_strings :: "mem \<Rightarrow> u64 \<Rightarrow> nat \<Rightarrow> u8 list list option" where
  "load_strings m a 0 = Some []"
| "load_strings m a (Suc n) =
     do { s \<leftarrow> cstr m (load64 m a); ss \<leftarrow> load_strings m (a + 8) n; Some (s # ss) }"

definition strings_len :: "u8 list list \<Rightarrow> nat" where
  "strings_len ss = sum_list (map (\<lambda>s. length s + 1) ss)"

definition strings_buf :: "u8 list list \<Rightarrow> u8 list" where
  "strings_buf ss = concat (map (\<lambda>s. s @ [0]) ss)"

text \<open>Afterwards \<open>ctx->envp\<close> points at the NULL that ended the environment.\<close>

definition shiva_ulexec_save_stack :: "os \<Rightarrow> proc \<Rightarrow> (bool \<times> proc) option" where
  "shiva_ulexec_save_stack os p =
     (let ctx = p_ctx p
      in do {
        args \<leftarrow> load_strings (p_mem p) (ctx_argv ctx) (ctx_argc ctx);
        n \<leftarrow> ptr_count (p_mem p) (ctx_envp ctx);
        envs \<leftarrow> load_strings (p_mem p) (ctx_envp ctx) n;
        let p1 = set_ulexec (\<lambda>u. u\<lparr>ul_arglen := of_nat (strings_len args), ul_envpcount := of_nat n,
                                   ul_envplen := of_nat (strings_len envs)\<rparr>) p;
        (case sys_malloc os (of_nat (strings_len envs)) p1 of
           (None, p2) \<Rightarrow> Some (False, p2)
         | (Some a, p2) \<Rightarrow>
             (case sys_malloc os (of_nat (strings_len args)) p2 of
                (None, p3) \<Rightarrow> Some (False, p3)
              | (Some b, p3) \<Rightarrow>
                  (let p4 = set_ulexec (\<lambda>u. u\<lparr>ul_envstr := strings_buf envs, ul_argstr := strings_buf args\<rparr>) p3
                   in Some (True, p4\<lparr>p_ctx := (p_ctx p4)\<lparr>ctx_envp := ctx_envp ctx + 8 * of_nat n\<rparr>\<rparr>))))
      })"

section \<open>Segments\<close>

definition PF_X :: u32 where "PF_X = 1"
definition PF_W :: u32 where "PF_W = 2"
definition PF_R :: u32 where "PF_R = 4"

definition shiva_ulexec_make_prot :: "u32 \<Rightarrow> u32" where
  "shiva_ulexec_make_prot fl =
     (if has_flag fl PF_R then PROT_READ else 0) OR (if has_flag fl PF_W then PROT_WRITE else 0) OR
     (if has_flag fl PF_X then PROT_EXEC else 0)"

text \<open>\<open>elf_read_address\<close> of a byte and of a quadword.\<close>

fun copy_rem :: "elfobj \<Rightarrow> u64 \<Rightarrow> u64 \<Rightarrow> nat \<Rightarrow> mem \<Rightarrow> bool \<times> mem" where
  "copy_rem obj va dst 0 m = (True, m)"
| "copy_rem obj va dst (Suc n) m =
     (case elf_read_byte_vaddr obj va of
        None \<Rightarrow> (False, m)
      | Some b \<Rightarrow> copy_rem obj (va + 1) (dst + 1) n (m(dst := b)))"

function segment_copy_loop :: "elfobj \<Rightarrow> u64 \<Rightarrow> u64 \<Rightarrow> nat \<Rightarrow> nat \<Rightarrow> mem \<Rightarrow> bool \<times> mem" where
  "segment_copy_loop obj va dst filesz i m =
     (if filesz \<le> i then (True, m)
      else if filesz \<le> i + 8 then copy_rem obj (va + of_nat i) (dst + of_nat i) (filesz mod 8) m
      else (case read_n (elf_read_byte_vaddr obj) (va + of_nat i) 8 of
              None \<Rightarrow> (False, m)
            | Some q \<Rightarrow> segment_copy_loop obj va dst filesz (i + 8) (write_bytes m (dst + of_nat i) q)))"
  by pat_completeness auto
termination by (relation "measure (\<lambda>(obj, va, dst, filesz, i, m). filesz - i)") auto

declare segment_copy_loop.simps [simp del]

definition shiva_ulexec_segment_copy :: "elfobj \<Rightarrow> u64 \<Rightarrow> elf_segment \<Rightarrow> mem \<Rightarrow> bool \<times> mem" where
  "shiva_ulexec_segment_copy obj dst segment m =
     segment_copy_loop obj (seg_vaddr segment) dst (unat (seg_filesz segment)) 0 m"

text \<open>\<open>j1\<close>, \<open>j2\<close> and \<open>j3\<close> are what the uninitialised locals \<open>first_vaddr\<close>, \<open>last_vaddr\<close> and
  \<open>last_memsz\<close> hold.\<close>

fun segment_len_loop :: "elf_segment list \<Rightarrow> nat \<Rightarrow> u64 \<Rightarrow> u64 \<Rightarrow> u64 \<Rightarrow> u64 \<times> u64 \<times> u64" where
  "segment_len_loop [] count fst_v last_v last_m = (fst_v, last_v, last_m)"
| "segment_len_loop (s # ss) count fst_v last_v last_m =
     (if seg_type s \<noteq> PT_LOAD then segment_len_loop ss count fst_v last_v last_m
      else if count = 0 then segment_len_loop ss 1 (seg_vaddr s) last_v last_m
      else segment_len_loop ss (Suc count) fst_v (seg_vaddr s) (seg_memsz s))"

definition shiva_ulexec_total_segment_len :: "u64 \<Rightarrow> u64 \<Rightarrow> u64 \<Rightarrow> elfobj \<Rightarrow> u64 option" where
  "shiva_ulexec_total_segment_len j1 j2 j3 obj =
     (if elf_segments_error obj then None
      else (case segment_len_loop (elf_segments obj) 0 j1 j2 j3 of
              (fv, lv, lm) \<Rightarrow> Some (lv + lm - ELF_PAGESTART fv)))"

section \<open>Loading a binary\<close>

record load_state =
  ls_base :: u64
  ls_elf_bss :: u64
  ls_last_bss :: u64

definition load_base :: "bool \<Rightarrow> u64" where
  "load_base interpreter = (if interpreter then SHIVA_LDSO_BASE else SHIVA_TARGET_BASE)"

definition file_content :: "elfobj \<Rightarrow> u64 \<Rightarrow> u64 \<Rightarrow> u8 option" where
  "file_content obj off = (\<lambda>i. elf_read_byte obj (off + i))"

abbreviation map_fixed :: u32 where "map_fixed \<equiv> MAP_PRIVATE OR MAP_FIXED"

text \<open>The segment at file offset 0. \<open>junk\<close> are the three uninitialised locals of the length
  computation. The inner option is a return of \<open>false\<close>.\<close>

definition load_first_segment ::
  "os \<Rightarrow> u64 \<times> u64 \<times> u64 \<Rightarrow> elfobj \<Rightarrow> bool \<Rightarrow> elf_segment \<Rightarrow> load_state \<Rightarrow> proc \<Rightarrow> ((load_state option) \<times> proc) option" where
  "load_first_segment os junk obj interpreter ph ls p =
     (let base = load_base interpreter; prot = shiva_ulexec_make_prot (seg_flags ph)
      in if interpreter then
           (case junk of (j1, j2, j3) \<Rightarrow>
             (case shiva_ulexec_total_segment_len j1 j2 j3 obj of
                None \<Rightarrow> Some (None, p)
              | Some len0 \<Rightarrow>
                  (let len = ELF_PAGEALIGN len0 4096
                   in (case sys_mmap os base len prot map_fixed (Some (file_content obj 0)) p of
                         (None, p1) \<Rightarrow> None
                       | (Some b, p1) \<Rightarrow>
                           Some (Some (ls\<lparr>ls_base := b\<rparr>),
                                 sys_munmap (b + seg_memsz ph) (len - seg_memsz ph) p1)))))
         else
           (case sys_mmap os base (seg_filesz ph + ELF_PAGEOFFSET (seg_vaddr ph)) prot map_fixed
                   (Some (file_content obj (seg_offset ph - ELF_PAGEOFFSET (seg_vaddr ph)))) p of
              (None, p1) \<Rightarrow> None
            | (Some b, p1) \<Rightarrow> Some (Some (ls\<lparr>ls_base := b\<rparr>), p1)))"

text \<open>Every other loadable segment.\<close>

definition load_next_segment ::
  "os \<Rightarrow> elfobj \<Rightarrow> bool \<Rightarrow> elf_segment \<Rightarrow> load_state \<Rightarrow> proc \<Rightarrow> (load_state \<times> proc) option" where
  "load_next_segment os obj interpreter ph ls p =
     (let base = load_base interpreter;
          off = ELF_PAGEOFFSET (seg_vaddr ph);
          segment_len = ELF_PAGEALIGN (seg_filesz ph + off) 0x1000
      in (case sys_mmap os (ELF_PAGESTART (base + seg_vaddr ph)) segment_len
                 (shiva_ulexec_make_prot (seg_flags ph)) map_fixed
                 (Some (file_content obj (seg_offset ph - off))) p of
            (None, p1) \<Rightarrow> None
          | (Some b, p1) \<Rightarrow>
              Some (ls\<lparr>ls_base := base,
                      ls_elf_bss := max (ls_elf_bss ls) (b + seg_filesz ph + off),
                      ls_last_bss := max (ls_last_bss ls) (b + seg_memsz ph + off)\<rparr>, p1)))"

fun load_segments ::
  "os \<Rightarrow> u64 \<times> u64 \<times> u64 \<Rightarrow> elfobj \<Rightarrow> bool \<Rightarrow> elf_segment list \<Rightarrow> load_state \<Rightarrow> proc \<Rightarrow>
     ((load_state option) \<times> proc) option" where
  "load_segments os junk obj interpreter [] ls p =
     Some (if elf_segments_error obj then None else Some ls, p)"
| "load_segments os junk obj interpreter (ph # phs) ls p =
     (if seg_type ph \<noteq> PT_LOAD then load_segments os junk obj interpreter phs ls p
      else if seg_offset ph = 0 then
        do {
          (r, p1) \<leftarrow> load_first_segment os junk obj interpreter ph ls p;
          (case r of
             None \<Rightarrow> Some (None, p1)
           | Some ls1 \<Rightarrow> load_segments os junk obj interpreter phs ls1 p1)
        }
      else do {
        (ls1, p1) \<leftarrow> load_next_segment os obj interpreter ph ls p;
        load_segments os junk obj interpreter phs ls1 p1
      })"

text \<open>Clearing the rest of the last file page and mapping the pages behind it.\<close>

definition load_bss :: "os \<Rightarrow> load_state \<Rightarrow> proc \<Rightarrow> proc option" where
  "load_bss os ls p =
     do {
       p1 \<leftarrow> (let nbyte = ELF_PAGEOFFSET (ls_elf_bss ls)
              in if nbyte > 0 then p_write (ls_elf_bss ls) (replicate (unat (4096 - nbyte)) 0) p else Some p);
       let elf_bss = ELF_PAGEALIGN (ls_elf_bss ls) 0x1000;
       let last_bss = ELF_PAGEALIGN (ls_last_bss ls) 0x1000;
       if last_bss > elf_bss then
         (case sys_mmap os elf_bss (last_bss - elf_bss) (PROT_READ OR PROT_WRITE)
                 (MAP_FIXED OR MAP_ANONYMOUS OR MAP_PRIVATE) None p1 of
            (None, p2) \<Rightarrow> None
          | (Some b, p2) \<Rightarrow> Some p2)
       else Some p1
     }"

definition load_set_ctx :: "elfobj \<Rightarrow> bool \<Rightarrow> u64 \<Rightarrow> proc \<Rightarrow> proc" where
  "load_set_ctx obj interpreter base p =
     (if interpreter then
        set_ulexec (\<lambda>u. u\<lparr>ldso_entry_point := base + elf_entry_point obj, ldso_base_vaddr := base,
                          ldso_phdr_vaddr := base + elf_phoff obj\<rparr>) p
      else
        set_ulexec (\<lambda>u. u\<lparr>ul_entry_point := base + elf_entry_point obj, ul_base_vaddr := base,
                          ul_phdr_vaddr := base + elf_phoff obj\<rparr>) p)"

text \<open>\<open>junk_base\<close> is the uninitialised \<open>base_vaddr\<close> of an object without loadable segments.\<close>

definition shiva_ulexec_load_elf_binary ::
  "os \<Rightarrow> u64 \<Rightarrow> u64 \<times> u64 \<times> u64 \<Rightarrow> elfobj \<Rightarrow> bool \<Rightarrow> proc \<Rightarrow> (bool \<times> proc) option" where
  "shiva_ulexec_load_elf_binary os junk_base junk obj interpreter p =
     do {
       (r, p1) \<leftarrow> load_segments os junk obj interpreter (elf_segments obj)
                    \<lparr>ls_base = junk_base, ls_elf_bss = 0, ls_last_bss = 0\<rparr> p;
       (case r of
          None \<Rightarrow> Some (False, p1)
        | Some ls \<Rightarrow> do {
            p2 \<leftarrow> load_bss os ls p1;
            Some (True, load_set_ctx obj interpreter (ls_base ls) p2)
          })
     }"

text \<open>\<open>None\<close> in the first component of the result of opening the interpreter is a failed open.\<close>

definition ulexec_open_interp :: "os \<Rightarrow> proc \<Rightarrow> bool \<times> proc" where
  "ulexec_open_interp os p =
     (let obj = ctx_elfobj (p_ctx p)
      in if elf_type obj \<noteq> ET_DYN then (True, p)
         else (case elf_interpreter_path obj of
                 None \<Rightarrow> (True, p)
               | Some interp \<Rightarrow>
                   (let p1 = set_ulexec (\<lambda>u. u\<lparr>ul_flags := ul_flags u OR SHIVA_F_ULEXEC_LDSO_NEEDED\<rparr>) p
                    in (case os_open_object os interp of
                          None \<Rightarrow> (False, p1)
                        | Some ldso \<Rightarrow> (True, p1\<lparr>p_ctx := (p_ctx p1)\<lparr>ctx_ldsobj := ldso\<rparr>\<rparr>)))))"

definition shiva_ulexec_prep :: "os \<Rightarrow> u64 \<Rightarrow> u64 \<times> u64 \<times> u64 \<Rightarrow> proc \<Rightarrow> (bool \<times> proc) option" where
  "shiva_ulexec_prep os junk_base junk p =
     (case ulexec_open_interp os p of
        (False, p1) \<Rightarrow> Some (False, p1)
      | (True, p1) \<Rightarrow>
          do {
            (ok, p2) \<leftarrow> shiva_ulexec_load_elf_binary os junk_base junk (ctx_elfobj (p_ctx p1)) False p1;
            if \<not> ok then Some (False, p2)
            else do {
              (ok, p3) \<leftarrow> (if has_flag (ul_flags (ulexec (p_ctx p2))) SHIVA_F_ULEXEC_LDSO_NEEDED
                         then shiva_ulexec_load_elf_binary os junk_base junk (ctx_ldsobj (p_ctx p2)) True p2
                         else Some (True, p2));
              if \<not> ok then Some (False, p3)
              else do {
                (ok, p4) \<leftarrow> shiva_ulexec_save_stack os p3;
                if \<not> ok then Some (False, p4)
                else do {
                  (ok, out, auxv, p5) \<leftarrow> shiva_ulexec_build_auxv_stack os p4;
                  Some (ok, set_ulexec (\<lambda>u. u\<lparr>ul_rsp_start := out, ul_auxv := auxv\<rparr>) p5)
                }
              }
            }
          })"

end
