(* ===== verification/Mem_Offsets.thy ===== *)
theory Mem_Offsets
  imports Process
begin

text \<open>
  Memory seen from a base address: two memories agree on a set of offsets, and writes at an offset
  change only the offsets they cover. The layouts of the new stack and of the module segments are
  followed in this form.
\<close>

definition same_on :: "u64 \<Rightarrow> nat set \<Rightarrow> mem \<Rightarrow> mem \<Rightarrow> bool" where
  "same_on b A m m' \<longleftrightarrow> (\<forall>z \<in> A. m (b + of_nat z) = m' (b + of_nat z))"

lemma same_on_refl [simp]: "same_on b A m m"
  by (simp add: same_on_def)

lemma same_on_trans: "same_on b A m m' \<Longrightarrow> same_on b A' m' m'' \<Longrightarrow> C \<subseteq> A \<Longrightarrow> C \<subseteq> A' \<Longrightarrow> same_on b C m m''"
  by (simp add: same_on_def subset_iff)

lemma same_on_sym: "same_on b A m m' \<Longrightarrow> same_on b A m' m"
  by (simp add: same_on_def)

lemma same_on_subset: "same_on b A m m' \<Longrightarrow> C \<subseteq> A \<Longrightarrow> same_on b C m m'"
  by (auto simp: same_on_def)

lemma write_bytes_same_on:
  "x + length bs \<le> 2 ^ 64 \<Longrightarrow> A \<subseteq> {..<2 ^ 64} - {x..<x + length bs} \<Longrightarrow>
     same_on b A (write_bytes m (b + of_nat x) bs) m"
  by (force simp: same_on_def write_bytes_at)

lemma store64_same_on:
  "x + 8 \<le> 2 ^ 64 \<Longrightarrow> A \<subseteq> {..<2 ^ 64} - {x..<x + 8} \<Longrightarrow> same_on b A (store64 m (b + of_nat x) v) m"
  using write_bytes_same_on [of x "le_bytes 8 v"] by (simp add: store64_def)

lemma load64_same_on:
  "same_on b {x..<x + 8} m m' \<Longrightarrow> load64 m (b + of_nat x) = load64 m' (b + of_nat x)"
  unfolding load64_def
  by (intro arg_cong [where f = le_val] read_bytes_cong) (simp add: same_on_def add.assoc flip: of_nat_add)

lemma same_on_shift: "same_on a {..<k + n} m m' \<Longrightarrow> same_on (a + of_nat k) {..<n} m m'"
  by (auto simp: same_on_def add.assoc simp flip: of_nat_add)

lemma same_on_separate:
  assumes "same_on b {t..<2 ^ 64} m' m" and "separate b t a n" and "n \<le> 2 ^ 64"
  shows "same_on a {..<n} m m'"
proof -
  have "m (a + of_nat z) = m' (a + of_nat z)" if "z < n" for z
  proof -
    have "in_region a n (a + of_nat z)" using that assms(3) by simp
    then have "\<not> in_region b t (a + of_nat z)" using assms(2) by (auto simp: separate_def)
    then have "unat (a + of_nat z - b) \<in> {t..<2 ^ 64}"
      using unsigned_less [of "a + of_nat z - b"] by (simp add: in_region_def)
    with assms(1) have "m' (b + of_nat (unat (a + of_nat z - b))) = m (b + of_nat (unat (a + of_nat z - b)))"
      unfolding same_on_def by (rule bspec)
    then show ?thesis by simp
  qed
  then show ?thesis by (simp add: same_on_def)
qed

end
