(* ===== verification/Ulexec_Stack.thy ===== *)
theory Ulexec_Stack
  imports Ulexec Mem_Offsets
begin

text \<open>
  The stack that \<open>shiva_ulexec_build_auxv_stack\<close> builds from the saved strings is an initial stack:
  the argument count, the argument and environment pointers with their strings, and the auxiliary
  vector of the old stack with the entries of the new program.
\<close>

section \<open>Strings\<close>

lemma string_at_same_on:
  assumes "same_on b {x..<x + length s + 1} m m'"
  shows "string_at m (b + of_nat x) s \<longleftrightarrow> string_at m' (b + of_nat x) s"
proof -
  have "read_bytes m (b + of_nat x) (length s) = read_bytes m' (b + of_nat x) (length s)"
    using assms by (intro read_bytes_cong) (simp add: same_on_def add.assoc flip: of_nat_add)
  moreover have "m (b + of_nat x + of_nat (length s)) = m' (b + of_nat x + of_nat (length s))"
    using assms by (simp add: same_on_def add.assoc flip: of_nat_add)
  ultimately show ?thesis by (simp add: string_at_def)
qed

lemma string_at_write:
  assumes "0 \<notin> set s" and "length s + 1 \<le> 2 ^ 64"
  shows "string_at (write_bytes m a (s @ [0])) a s"
proof -
  have "read_bytes (write_bytes m a (s @ [0])) a (length s) = s"
    using assms by (intro nth_equalityI) (simp_all add: write_bytes_inside nth_append)
  moreover have "write_bytes m a (s @ [0]) (a + of_nat (length s)) = 0"
    using assms by (simp add: write_bytes_inside nth_append)
  ultimately show ?thesis using assms by (simp add: string_at_def)
qed

section \<open>The string loops\<close>

text \<open>Pointers from offset \<open>x\<close> on to consecutive strings from offset \<open>y\<close> on.\<close>

fun strs_at :: "mem \<Rightarrow> u64 \<Rightarrow> nat \<Rightarrow> nat \<Rightarrow> u8 list list \<Rightarrow> bool" where
  "strs_at m b x y [] \<longleftrightarrow> True"
| "strs_at m b x y (s # ss) \<longleftrightarrow>
     load64 m (b + of_nat x) = b + of_nat y \<and> string_at m (b + of_nat y) s \<and>
     strs_at m b (x + 8) (y + length s + 1) ss"

lemma strings_len_simps [simp]:
  "strings_len [] = 0" "strings_len (s # ss) = length s + 1 + strings_len ss"
  by (simp_all add: strings_len_def)

lemma strings_buf_simps [simp]:
  "strings_buf [] = []" "strings_buf (s # ss) = s @ 0 # strings_buf ss"
  by (simp_all add: strings_buf_def)

lemma strs_at_same_on:
  "same_on b ({x..<x + 8 * length ss} \<union> {y..<y + strings_len ss}) m m' \<Longrightarrow>
     strs_at m b x y ss \<Longrightarrow> strs_at m' b x y ss"
proof (induction ss arbitrary: x y)
  case (Cons s ss)
  have "same_on b {x..<x + 8} m m'" "same_on b {y..<y + length s + 1} m m'"
    "same_on b ({x + 8..<x + 8 + 8 * length ss} \<union>
        {y + length s + 1..<y + length s + 1 + strings_len ss}) m m'"
    by (rule same_on_subset [OF Cons.prems(1)], auto)+
  with Cons show ?case by (auto simp: load64_same_on string_at_same_on)
qed simp

lemma push_strings_spec:
  assumes "\<forall>s \<in> set ss. 0 \<notin> set s" and "x + 8 * length ss \<le> y" and "y + strings_len ss \<le> 2 ^ 64"
  shows "\<exists>m'. push_strings (length ss) (strings_buf ss @ rest) (b + of_nat x) (b + of_nat y) m =
                (b + of_nat (x + 8 * length ss), b + of_nat (y + strings_len ss), m') \<and>
              strs_at m' b x y ss \<and>
              same_on b ({..<2 ^ 64} - {x..<x + 8 * length ss} - {y..<y + strings_len ss}) m' m"
  using assms
proof (induction ss arbitrary: x y m)
  case (Cons s ss)
  have tw: "takeWhile (\<lambda>c. c \<noteq> 0) (s @ 0 # t) = s" for t :: "u8 list"
    using Cons.prems(1) by (subst takeWhile_append2) auto
  define m1 where "m1 = write_bytes m (b + of_nat y) (s @ [0])"
  define m2 where "m2 = store64 m1 (b + of_nat x) (b + of_nat y)"
  have step: "push_strings (length (s # ss)) (strings_buf (s # ss) @ rest) (b + of_nat x) (b + of_nat y) m =
      push_strings (length ss) (strings_buf ss @ rest) (b + of_nat (x + 8)) (b + of_nat (y + length s + 1)) m2"
    by (simp add: Let_def tw m1_def m2_def algebra_simps)
  obtain m' where m': "push_strings (length ss) (strings_buf ss @ rest) (b + of_nat (x + 8))
        (b + of_nat (y + length s + 1)) m2 =
        (b + of_nat (x + 8 + 8 * length ss), b + of_nat (y + length s + 1 + strings_len ss), m')"
      "strs_at m' b (x + 8) (y + length s + 1) ss"
      "same_on b ({..<2 ^ 64} - {x + 8..<x + 8 + 8 * length ss} -
          {y + length s + 1..<y + length s + 1 + strings_len ss}) m' m2"
    using Cons.IH [of "x + 8" "y + length s + 1" m2] Cons.prems by auto
  have f2: "same_on b ({..<2 ^ 64} - {x..<x + 8}) m2 m1"
    unfolding m2_def using Cons.prems by (intro store64_same_on) auto
  have f1: "same_on b ({..<2 ^ 64} - {y..<y + length s + 1}) m1 m"
    unfolding m1_def using Cons.prems write_bytes_same_on [of y "s @ [0]" _ b m] by simp
  have "load64 m' (b + of_nat x) = load64 m2 (b + of_nat x)"
    using Cons.prems by (intro load64_same_on same_on_subset [OF m'(3)]) auto
  then have p: "load64 m' (b + of_nat x) = b + of_nat y" by (simp add: m2_def load64_store64)
  have "string_at m1 (b + of_nat y) s"
    unfolding m1_def using Cons.prems by (intro string_at_write) auto
  moreover have "same_on b {y..<y + length s + 1} m' m1"
    using Cons.prems by (intro same_on_trans [OF m'(3) f2]) auto
  ultimately have st: "string_at m' (b + of_nat y) s" by (simp add: string_at_same_on)
  let ?S = "{..<2 ^ 64} - {x..<x + 8 * length (s # ss)} - {y..<y + strings_len (s # ss)}"
  have "same_on b ?S m' m1" by (rule same_on_trans [OF m'(3) f2]) auto
  then have "same_on b ?S m' m" by (rule same_on_trans [OF _ f1]) auto
  with p st m'(1,2) step show ?case by (simp add: algebra_simps)
qed simp

text \<open>The loops leave NULL-terminated pointer arrays.\<close>

lemma offset_not_null: "unat b + y < 2 ^ 64 \<Longrightarrow> 0 < y \<Longrightarrow> b + of_nat y \<noteq> (0 :: u64)"
proof
  assume y: "unat b + y < 2 ^ 64" "0 < y" and "b + of_nat y = 0"
  then have "unat (b + of_nat y) = 0" by simp
  with y show False by (simp add: unat_word_ariths unat_of_nat take_bit_nat_eq_self)
qed

lemma strs_at_ptrs:
  assumes "strs_at m b x y ss" and "load64 m (b + of_nat (x + 8 * length ss)) = 0"
    and "unat b + y + strings_len ss \<le> 2 ^ 64" and "0 < y"
  shows "\<exists>ps. ptrs_at m (b + of_nat x) ps \<and> list_all2 (string_at m) ps ss"
  using assms
proof (induction ss arbitrary: x y)
  case Nil
  then show ?case by (intro exI [of _ "[]"]) simp
next
  case (Cons s ss)
  obtain ps where "ptrs_at m (b + of_nat (x + 8)) ps" "list_all2 (string_at m) ps ss"
    using Cons.IH [of "x + 8" "y + length s + 1"] Cons.prems by (auto simp: add.assoc)
  moreover have "b + of_nat y \<noteq> 0" using Cons.prems by (intro offset_not_null) auto
  ultimately show ?case
    using Cons.prems by (intro exI [of _ "(b + of_nat y) # ps"]) (simp add: algebra_simps)
qed

section \<open>The auxiliary vector\<close>

fun pairs_off :: "mem \<Rightarrow> u64 \<Rightarrow> nat \<Rightarrow> (u64 \<times> u64) list \<Rightarrow> bool" where
  "pairs_off m b x [] \<longleftrightarrow> True"
| "pairs_off m b x (e # es) \<longleftrightarrow>
     load64 m (b + of_nat x) = fst e \<and> load64 m (b + of_nat (x + 8)) = snd e \<and>
     pairs_off m b (x + 16) es"

lemma pairs_off_same_on:
  "same_on b {x..<x + 16 * length es} m m' \<Longrightarrow> pairs_off m b x es \<Longrightarrow> pairs_off m' b x es"
proof (induction es arbitrary: x)
  case (Cons e es)
  have "same_on b {x..<x + 8} m m'" "same_on b {x + 8..<x + 8 + 8} m m'"
    "same_on b {x + 16..<x + 16 + 16 * length es} m m'"
    by (rule same_on_subset [OF Cons.prems(1)], auto)+
  note h = load64_same_on [OF this(1)] load64_same_on [OF this(2)] Cons.IH [OF this(3)]
  from Cons.prems(2) h show ?case by simp
qed simp

lemma pairs_off_pairs_at:
  "pairs_off m b x es \<Longrightarrow> load64 m (b + of_nat (x + 16 * length es)) = 0 \<Longrightarrow>
     \<forall>e \<in> set es. fst e \<noteq> 0 \<Longrightarrow> pairs_at m (b + of_nat x) es"
proof (induction es arbitrary: x)
  case (Cons e es)
  have "pairs_at m (b + of_nat (x + 16)) es"
    using Cons.IH [of "x + 16"] Cons.prems by (simp add: add.assoc)
  with Cons.prems show ?case by (simp add: algebra_simps)
qed simp

lemma pairs_at_tags: "pairs_at m a es \<Longrightarrow> \<forall>e \<in> set es. fst e \<noteq> 0"
  by (induction es arbitrary: a) auto

lemma pairs_at_same_on:
  "same_on a {..<16 * length es + 8} m m' \<Longrightarrow> pairs_at m a es \<Longrightarrow> pairs_at m' a es"
proof (induction es arbitrary: a)
  case Nil
  then have "same_on a {0..<0 + 8} m m'" by (simp add: lessThan_atLeast0)
  from load64_same_on [OF this] Nil show ?case by simp
next
  case (Cons e es)
  have "same_on a {0..<0 + 8} m m'" "same_on a {8..<8 + 8} m m'"
    by (rule same_on_subset [OF Cons.prems(1)], auto)+
  note h = load64_same_on [OF this(1)] load64_same_on [OF this(2)]
  have "m (a + 16 + of_nat z) = m' (a + 16 + of_nat z)" if "z < 16 * length es + 8" for z
  proof -
    from that have "16 + z \<in> {..<16 * length (e # es) + 8}" by simp
    with Cons.prems(1) have "m (a + of_nat (16 + z)) = m' (a + of_nat (16 + z))"
      unfolding same_on_def by (rule bspec)
    then show ?thesis by (simp add: add.assoc)
  qed
  then have "same_on (a + 16) {..<16 * length es + 8} m m'" by (simp add: same_on_def)
  from Cons.IH [OF this] Cons.prems(2) h show ?case by simp
qed

definition auxv_entry :: "shiva_ctx \<Rightarrow> u64 \<times> u64 \<Rightarrow> u64 \<times> u64" where
  "auxv_entry ctx e = (scast (ucast (fst e) :: u32), auxv_value ctx (ucast (fst e)) (snd e))"

lemma copy_auxv_spec:
  assumes "pairs_at m (auxv_slot it (ai_index it)) es" and "ai_index it + length es \<le> ERRONEOUS_AUXV_COUNT"
    and "x + 16 * length es \<le> 2 ^ 64"
    and "\<forall>z < 16 * length es + 8. auxv_slot it (ai_index it) + of_nat z \<notin> N"
    and "\<forall>w < 16 * length es. b + of_nat (x + w) \<in> N"
  shows "\<exists>m'. copy_auxv ctx it (b + of_nat x) m = Some (b + of_nat (x + 16 * length es), m') \<and>
              pairs_off m' b x (map (auxv_entry ctx) es) \<and>
              same_on b ({..<2 ^ 64} - {x..<x + 16 * length es}) m' m"
  using assms
proof (induction es arbitrary: it x m)
  case Nil
  then show ?case by (simp add: copy_auxv.simps auxv_nxt_eq Let_def AT_NULL_def)
next
  case (Cons e es)
  define s where "s = auxv_slot it (ai_index it)"
  define it' where "it' = it\<lparr>ai_index := Suc (ai_index it)\<rparr>"
  define m1 where "m1 = store64 m (b + of_nat x) (fst (auxv_entry ctx e))"
  define m2 where "m2 = store64 m1 (b + of_nat (x + 8)) (snd (auxv_entry ctx e))"
  have slot: "auxv_slot it' (ai_index it') = s + 16" by (simp add: it'_def s_def)
  have nxt: "auxv_nxt m it = Some ((ucast (fst e), snd e), it')"
    using Cons.prems(1,2) by (simp add: auxv_nxt_eq Let_def AT_NULL_def it'_def s_def)
  have step: "copy_auxv ctx it (b + of_nat x) m = copy_auxv ctx it' (b + of_nat (x + 16)) m2"
    by (subst copy_auxv.simps) (simp add: nxt m1_def m2_def auxv_entry_def algebra_simps)
  have "m2 (s + of_nat z) = m (s + of_nat z)" if "z < 16 * length (e # es) + 8" for z
  proof -
    have "s + of_nat z \<noteq> b + of_nat (x + w)" if "w < 16" for w
      using Cons.prems(4,5) \<open>z < _\<close> that by (fastforce simp: s_def)
    then have "\<not> in_region (b + of_nat x) 8 (s + of_nat z)" "\<not> in_region (b + of_nat (x + 8)) 8 (s + of_nat z)"
      by (auto simp: in_region_iff_ex add.assoc simp flip: of_nat_add)
    then show ?thesis by (simp add: m2_def m1_def store64_outside)
  qed
  then have "pairs_at m2 s (e # es)"
    using pairs_at_same_on [of s "e # es" m m2] Cons.prems(1) by (simp add: same_on_def s_def)
  then have p: "pairs_at m2 (auxv_slot it' (ai_index it')) es" by (simp add: slot)
  have old: "\<forall>z < 16 * length es + 8. auxv_slot it' (ai_index it') + of_nat z \<notin> N"
  proof (intro allI impI)
    fix z assume "z < 16 * length es + 8"
    then have "s + of_nat (16 + z) \<notin> N" using Cons.prems(4) [rule_format, of "16 + z"] by (simp add: s_def)
    then show "auxv_slot it' (ai_index it') + of_nat z \<notin> N" by (simp add: slot add.assoc)
  qed
  have new: "\<forall>w < 16 * length es. b + of_nat (x + 16 + w) \<in> N"
  proof (intro allI impI)
    fix w assume "w < 16 * length es"
    then have "b + of_nat (x + (16 + w)) \<in> N" using Cons.prems(5) [rule_format, of "16 + w"] by simp
    then show "b + of_nat (x + 16 + w) \<in> N" by (simp add: add.assoc)
  qed
  obtain m' where m': "copy_auxv ctx it' (b + of_nat (x + 16)) m2 = Some (b + of_nat (x + 16 + 16 * length es), m')"
      "pairs_off m' b (x + 16) (map (auxv_entry ctx) es)"
      "same_on b ({..<2 ^ 64} - {x + 16..<x + 16 + 16 * length es}) m' m2"
    using Cons.IH [OF p _ _ old new] Cons.prems(2,3) by (auto simp: it'_def)
  have f2: "same_on b ({..<2 ^ 64} - {x + 8..<x + 8 + 8}) m2 m1"
    unfolding m2_def using Cons.prems(3) by (intro store64_same_on) auto
  have f1: "same_on b ({..<2 ^ 64} - {x..<x + 8}) m1 m"
    unfolding m1_def using Cons.prems(3) by (intro store64_same_on) auto
  have "same_on b {x..<x + 8} m' m1"
    using Cons.prems(3) by (intro same_on_trans [OF m'(3) f2]) auto
  then have l1: "load64 m' (b + of_nat x) = fst (auxv_entry ctx e)"
    by (simp add: load64_same_on m1_def load64_store64)
  have "same_on b {x + 8..<x + 8 + 8} m' m2"
    using Cons.prems(3) by (intro same_on_subset [OF m'(3)]) auto
  then have l2: "load64 m' (b + of_nat (x + 8)) = snd (auxv_entry ctx e)"
    using load64_same_on by (simp add: m2_def load64_store64 del: of_nat_add)
  let ?S = "{..<2 ^ 64} - {x..<x + 16 * length (e # es)}"
  have "same_on b ?S m' m1" by (rule same_on_trans [OF m'(3) f2]) auto
  then have "same_on b ?S m' m" by (rule same_on_trans [OF _ f1]) auto
  with m'(1,2) l1 l2 step show ?case by (simp add: algebra_simps)
qed

section \<open>Sizes\<close>

lemma unat_and_not_mask: "unat (v AND NOT (mask n) :: 'a::len word) = unat v - unat v mod 2 ^ n"
proof -
  have t: "take_bit n v \<le> v" by (simp add: take_bit_eq_mask word_and_le2)
  have "v - take_bit n v = v AND NOT (take_bit n v)"
    by (rule disjunctive_diff_eq_and_not, rule bit_word_eqI) (simp add: bit_simps)
  also have "\<dots> = v AND NOT (mask n)" by (rule bit_word_eqI) (auto simp: bit_simps)
  finally have "v AND NOT (mask n) = v - take_bit n v" by (rule sym)
  with t show ?thesis by (simp add: unat_sub unsigned_take_bit_eq take_bit_nat_def)
qed

lemma unat_and_not_15: "unat (v AND - 16 :: 'a::len word) = unat v div 16 * 16"
proof -
  have "v AND - 16 = v AND NOT (mask 4)" by (simp add: mask_eq_decr_exp)
  then show ?thesis by (simp add: unat_and_not_mask minus_mod_eq_div_mult)
qed

lemma unat_stack_count:
  assumes "8 * (a + e) + 356 < 2 ^ 64"
  shows "unat (stack_count a (of_nat e)) = (8 * (a + e) + 356) div 16 * 16"
proof -
  have "4 + of_nat a * 8 + 8 + of_nat e * 8 + 8 + (SHIVA_AUXV_COUNT + 1) * 16 + 16 =
      (of_nat (8 * (a + e) + 356) :: u64)"
    by (simp add: SHIVA_AUXV_COUNT_def algebra_simps)
  then have "stack_count a (of_nat e) = of_nat (8 * (a + e) + 356) AND - 16"
    by (simp only: stack_count_def) simp
  moreover have "unat (of_nat (8 * (a + e) + 356) :: u64) = 8 * (a + e) + 356"
    using assms by (simp only: unat_of_nat) (simp add: take_bit_nat_eq_self)
  ultimately show ?thesis by (simp only: unat_and_not_15)
qed

lemma unat_scast_small: "unat (w :: u32) < 2 ^ 31 \<Longrightarrow> unat (scast w :: u64) = unat w"
proof -
  assume "unat w < 2 ^ 31"
  then have "take_bit 31 (unat w) = unat w" by (rule take_bit_nat_eq_self)
  then have w: "take_bit 31 w = w" by (simp add: word_unat_eq_iff unsigned_take_bit_eq)
  have "\<not> bit w 31" by (subst w [symmetric]) (simp add: bit_take_bit_iff)
  then have "(scast w :: u64) = ucast w" by (intro bit_word_eqI)
      (auto simp: bit_simps min_def not_le less_Suc_eq numeral_eq_Suc split: if_splits dest: bit_imp_le_length)
  moreover have "unat w < 2 ^ 64" using unsigned_less [where ?'a = nat, of w] by simp
  ultimately show ?thesis by (simp add: unsigned_ucast_eq take_bit_nat_eq_self)
qed

lemma unat_stack_totalsize:
  assumes "c + ne + na + 16 < 2 ^ 31"
  shows "unat (stack_totalsize (of_nat c) (of_nat ne) (of_nat na)) = (c + ne + na + 16) div 16 * 16"
proof -
  define w :: u32 where "w = (ucast (of_nat c + of_nat ne + of_nat na :: u64) + 16) AND NOT 15"
  have "(ucast (of_nat c + of_nat ne + of_nat na :: u64) + 16 :: u32) = of_nat (c + ne + na + 16)"
    using assms by (simp add: unsigned_of_nat take_bit_nat_eq_self of_nat_add [symmetric] del: of_nat_add) simp
  then have "w = of_nat (c + ne + na + 16) AND - 16" by (simp add: w_def)
  moreover have "unat (of_nat (c + ne + na + 16) :: u32) = c + ne + na + 16"
    using assms by (simp only: unat_of_nat) (simp add: take_bit_nat_eq_self)
  ultimately have u: "unat w = (c + ne + na + 16) div 16 * 16" by (simp only: unat_and_not_15)
  moreover have "(c + ne + na + 16) div 16 * 16 \<le> c + ne + na + 16" by simp
  ultimately have "unat w < 2 ^ 31" using assms by linarith
  with u show ?thesis by (simp add: stack_totalsize_def w_def unat_scast_small)
qed

section \<open>The initial stack\<close>

text \<open>What the kernel, and \<open>shiva_ulexec_build_auxv_stack\<close>, leave at the stack pointer of a new program.\<close>

definition initial_stack ::
  "mem \<Rightarrow> u64 \<Rightarrow> u8 list list \<Rightarrow> u8 list list \<Rightarrow> (u64 \<times> u64) list \<Rightarrow> bool" where
  "initial_stack m sp args envs es \<longleftrightarrow>
     load64 m sp = of_nat (length args) \<and>
     (\<exists>ps. ptrs_at m (sp + 8) ps \<and> list_all2 (string_at m) ps args) \<and>
     (\<exists>ps. ptrs_at m (sp + 8 * of_nat (length args + 2)) ps \<and> list_all2 (string_at m) ps envs) \<and>
     pairs_at m (sp + 8 * of_nat (length args + length envs + 3)) es"

lemma load_strings_at:
  "ptrs_at m a ps \<Longrightarrow> list_all2 (string_at m) ps ss \<Longrightarrow> load_strings m a (length ss) = Some ss"
proof (induction ss arbitrary: a ps)
  case (Cons s ss)
  then obtain v vs where "ps = v # vs" by (cases ps) auto
  with Cons show ?case by (auto simp: cstr_string_at)
qed simp

lemma string_at_no_nul: "list_all2 (string_at m) ps ss \<Longrightarrow> \<forall>s \<in> set ss. 0 \<notin> set s"
  by (induction rule: list_all2_induct) (auto simp: string_at_def)

text \<open>One array of pointers with its strings and the NULL behind it.\<close>

lemma push_block:
  assumes "push_strings (length ss) (strings_buf ss) (b + of_nat x) (b + of_nat y) m = (esp, sd, m')"
    and "\<forall>s \<in> set ss. 0 \<notin> set s" and "x + 8 * length ss + 8 \<le> y" and "y + strings_len ss \<le> 2 ^ 64"
  shows "esp = b + of_nat (x + 8 * length ss)" and "sd = b + of_nat (y + strings_len ss)"
    and "strs_at (store64 m' esp 0) b x y ss"
    and "load64 (store64 m' esp 0) (b + of_nat (x + 8 * length ss)) = 0"
    and "same_on b ({..<2 ^ 64} - {x..<x + 8 * length ss + 8} - {y..<y + strings_len ss}) (store64 m' esp 0) m"
proof -
  have e: "esp = b + of_nat (x + 8 * length ss)" and sd: "sd = b + of_nat (y + strings_len ss)"
    and st: "strs_at m' b x y ss"
    and f: "same_on b ({..<2 ^ 64} - {x..<x + 8 * length ss} - {y..<y + strings_len ss}) m' m"
    using push_strings_spec [of ss x y "[]" b m] assms by auto
  have g: "same_on b ({..<2 ^ 64} - {x + 8 * length ss..<x + 8 * length ss + 8}) (store64 m' esp 0) m'"
    unfolding e using assms(3,4) by (intro store64_same_on) auto
  then have "same_on b ({..<2 ^ 64} - {x + 8 * length ss..<x + 8 * length ss + 8}) m' (store64 m' esp 0)"
    by (simp add: same_on_def)
  then show "strs_at (store64 m' esp 0) b x y ss"
    using assms(3,4) by (intro strs_at_same_on [OF same_on_subset st]) auto
  show "same_on b ({..<2 ^ 64} - {x..<x + 8 * length ss + 8} - {y..<y + strings_len ss}) (store64 m' esp 0) m"
    by (rule same_on_trans [OF g f]) auto
  show "esp = b + of_nat (x + 8 * length ss)" "sd = b + of_nat (y + strings_len ss)"
    by (rule e, rule sd)
  show "load64 (store64 m' esp 0) (b + of_nat (x + 8 * length ss)) = 0"
    by (simp only: e load64_store64)
qed

text \<open>The memory after the builder: the four parts of the stack, each kept by the writes behind it.\<close>

lemma initial_stack_parts:
  assumes "load64 m b = of_nat (length args)"
    and "strs_at m b 8 c args" "load64 m (b + of_nat (8 + 8 * length args)) = 0"
    and "strs_at m b (16 + 8 * length args) (c + strings_len args) envs"
    and "load64 m (b + of_nat (16 + 8 * length args + 8 * length envs)) = 0"
    and "pairs_off m b (24 + 8 * length args + 8 * length envs) es"
    and "load64 m (b + of_nat (24 + 8 * length args + 8 * length envs + 16 * length es)) = 0"
    and "\<forall>e \<in> set es. fst e \<noteq> 0" and "0 < c"
    and "unat b + c + strings_len args + strings_len envs \<le> 2 ^ 64"
  shows "initial_stack m b args envs es"
proof -
  have "\<exists>ps. ptrs_at m (b + of_nat 8) ps \<and> list_all2 (string_at m) ps args"
    using assms by (intro strs_at_ptrs [of m b 8 c]) auto
  moreover have "\<exists>ps. ptrs_at m (b + of_nat (16 + 8 * length args)) ps \<and> list_all2 (string_at m) ps envs"
    using assms by (intro strs_at_ptrs [of m b _ "c + strings_len args"]) auto
  moreover have "pairs_at m (b + of_nat (24 + 8 * length args + 8 * length envs)) es"
    using assms by (intro pairs_off_pairs_at) auto
  moreover have "8 * of_nat (length args + 2) = (of_nat (16 + 8 * length args) :: u64)"
    "8 * of_nat (length args + length envs + 3) = (of_nat (24 + 8 * length args + 8 * length envs) :: u64)"
    by simp_all
  ultimately show ?thesis using assms(1) by (simp only: initial_stack_def) simp
qed

text \<open>Both pointer arrays.\<close>

lemma build_strings:
  assumes nul: "\<forall>s \<in> set args. 0 \<notin> set s" "\<forall>s \<in> set envs. 0 \<notin> set s"
    and c: "8 * (length args + length envs) + 24 \<le> c" "c + strings_len args + strings_len envs \<le> 2 ^ 64"
    and ps: "push_strings (length args) (strings_buf args) (b + 8) (b + of_nat c)
               (store64 m b (of_nat (length args))) = (x1, y1, m1)"
      "push_strings (length envs) (strings_buf envs) (x1 + 8) y1 (store64 m1 x1 0) = (x2, y2, m2)"
  shows "x2 = b + of_nat (16 + 8 * length args + 8 * length envs)"
    and "load64 (store64 m2 x2 0) b = of_nat (length args)"
    and "strs_at (store64 m2 x2 0) b 8 c args"
    and "load64 (store64 m2 x2 0) (b + of_nat (8 + 8 * length args)) = 0"
    and "strs_at (store64 m2 x2 0) b (16 + 8 * length args) (c + strings_len args) envs"
    and "load64 (store64 m2 x2 0) (b + of_nat (16 + 8 * length args + 8 * length envs)) = 0"
    and "same_on b {c + strings_len args + strings_len envs..<2 ^ 64} (store64 m2 x2 0) m"
proof -
  let ?a = "8 * length args" and ?e = "8 * length envs"
  let ?la = "strings_len args" and ?le = "strings_len envs" and ?W = "{..<2 ^ 64} :: nat set"
  define m0 where "m0 = store64 m b (of_nat (length args))"
  define m1' where "m1' = store64 m1 x1 0"
  define m2' where "m2' = store64 m2 x2 0"
  have f0: "same_on b (?W - {0..<8}) m0 m"
    using store64_same_on [of 0 "?W - {0..<8}" b m] by (simp add: m0_def)
  have l0: "load64 m0 (b + of_nat 0) = of_nat (length args)" by (simp add: m0_def load64_store64)
  note b1 = push_block [of args b 8 c m0 x1 y1 m1, folded m1'_def]
  have b1: "x1 = b + of_nat (8 + ?a)" "y1 = b + of_nat (c + ?la)" "strs_at m1' b 8 c args"
    "load64 m1' (b + of_nat (8 + ?a)) = 0" "same_on b (?W - {8..<8 + ?a + 8} - {c..<c + ?la}) m1' m0"
    by (rule b1; use nul(1) ps(1) c in \<open>auto simp: m0_def\<close>)+
  have p2: "push_strings (length envs) (strings_buf envs) (b + of_nat (16 + ?a)) (b + of_nat (c + ?la)) m1' = (x2, y2, m2)"
    using ps(2) by (simp add: b1(1,2) m1'_def algebra_simps)
  note b2 = push_block [OF p2 nul(2), folded m2'_def]
  have b2: "x2 = b + of_nat (16 + ?a + ?e)" "strs_at m2' b (16 + ?a) (c + ?la) envs"
    "load64 m2' (b + of_nat (16 + ?a + ?e)) = 0"
    "same_on b (?W - {16 + ?a..<16 + ?a + ?e + 8} - {c + ?la..<c + ?la + ?le}) m2' m1'"
    by (rule b2; use c in auto)+
  have k1: "same_on b ({0..<16 + ?a} \<union> {c..<c + ?la}) m1' m2'"
    by (rule same_on_sym, rule same_on_subset [OF b2(4)]) (use c in auto)
  have "same_on b {0..<0 + 8} m0 m1'"
    by (rule same_on_sym, rule same_on_subset [OF b1(5)]) (use c in auto)
  then have k0: "same_on b {0..<0 + 8} m0 m2'" by (rule same_on_trans [OF _ k1]) auto
  have "same_on b {c + ?la + ?le..<2 ^ 64} m2' m1'" by (rule same_on_subset [OF b2(4)]) (use c in auto)
  then have "same_on b {c + ?la + ?le..<2 ^ 64} m2' m0" by (rule same_on_trans [OF _ b1(5)]) (use c in auto)
  then show "same_on b {c + ?la + ?le..<2 ^ 64} m2' m" by (rule same_on_trans [OF _ f0]) (use c in auto)
  show "load64 m2' b = of_nat (length args)" using load64_same_on [OF k0] l0 by simp
  show "strs_at m2' b 8 c args" by (rule strs_at_same_on [OF same_on_subset [OF k1] b1(3)]) auto
  show "load64 m2' (b + of_nat (8 + ?a)) = 0"
    by (rule trans [OF load64_same_on b1(4)], rule same_on_sym, rule same_on_subset [OF k1]) auto
  show "x2 = b + of_nat (16 + ?a + ?e)" "strs_at m2' b (16 + ?a) (c + ?la) envs"
    "load64 m2' (b + of_nat (16 + ?a + ?e)) = 0"
    by (rule b2)+
qed

text \<open>The vector is copied behind them, from a place of memory that the new stack does not touch.\<close>

lemma build_auxv:
  assumes old: "pairs_at m old es" "separate b t old (16 * length es + 8)" "length es \<le> 19"
    and x: "x + 16 * length es + 8 \<le> t" "t \<le> 2 ^ 64"
  shows "\<exists>m'. copy_auxv ctx \<lparr>ai_index = 0, ai_auxv = old\<rparr> (b + of_nat x) m = Some (b + of_nat (x + 16 * length es), m') \<and>
    pairs_off (store64 m' (b + of_nat (x + 16 * length es)) AT_NULL) b x (map (auxv_entry ctx) es) \<and>
    load64 (store64 m' (b + of_nat (x + 16 * length es)) AT_NULL) (b + of_nat (x + 16 * length es)) = 0 \<and>
    same_on b ({..<2 ^ 64} - {x..<x + 16 * length es + 8}) (store64 m' (b + of_nat (x + 16 * length es)) AT_NULL) m"
proof -
  let ?n = "16 * length es"
  have "\<forall>z < ?n + 8. \<not> in_region b t (old + of_nat z)"
  proof (intro allI impI)
    fix z assume "z < ?n + 8"
    then have "in_region old (?n + 8) (old + of_nat z)" using old(3) by simp
    then show "\<not> in_region b t (old + of_nat z)" using old(2) by (auto simp: separate_def)
  qed
  then obtain m3 where m3: "copy_auxv ctx \<lparr>ai_index = 0, ai_auxv = old\<rparr> (b + of_nat x) m = Some (b + of_nat (x + ?n), m3)"
      "pairs_off m3 b x (map (auxv_entry ctx) es)" "same_on b ({..<2 ^ 64} - {x..<x + ?n}) m3 m"
    using copy_auxv_spec [of m "\<lparr>ai_index = 0, ai_auxv = old\<rparr>" es x "{z. in_region b t z}" b ctx] old x
    by (auto simp: auxv_slot_def ERRONEOUS_AUXV_COUNT_def simp del: of_nat_add)
  define m4 where "m4 = store64 m3 (b + of_nat (x + ?n)) AT_NULL"
  have f4: "same_on b ({..<2 ^ 64} - {x + ?n..<x + ?n + 8}) m4 m3"
    unfolding m4_def by (rule store64_same_on) (use x in auto)
  have "pairs_off m4 b x (map (auxv_entry ctx) es)"
    by (rule pairs_off_same_on [OF _ m3(2)], rule same_on_sym, rule same_on_subset [OF f4]) (use x in auto)
  moreover have "load64 m4 (b + of_nat (x + ?n)) = 0"
    unfolding m4_def load64_store64 AT_NULL_def ..
  moreover have "same_on b ({..<2 ^ 64} - {x..<x + ?n + 8}) m4 m"
    by (rule same_on_trans [OF f4 m3(3)]) auto
  ultimately show ?thesis using m3(1) unfolding m4_def by blast
qed

lemma build_stack_writes:
  assumes nul: "\<forall>s \<in> set args. 0 \<notin> set s" "\<forall>s \<in> set envs. 0 \<notin> set s"
    and c: "8 * (length args + length envs) + 336 \<le> c" "c + strings_len args + strings_len envs \<le> t"
    and t: "unat b + t \<le> 2 ^ 64"
    and es: "length es \<le> 19" "pairs_at m old es" "\<forall>e \<in> set es. fst (auxv_entry ctx e) \<noteq> 0"
    and sep: "separate b t old (16 * length es + 8)"
    and ps: "push_strings (length args) (strings_buf args) (b + 8) (b + of_nat c)
               (store64 m b (of_nat (length args))) = (x1, y1, m1)"
      "push_strings (length envs) (strings_buf envs) (x1 + 8) y1 (store64 m1 x1 0) = (x2, y2, m2)"
  shows "x2 + 8 = b + 8 * of_nat (length args + length envs + 3) \<and>
    same_on b {t..<2 ^ 64} (store64 m2 x2 0) m \<and>
    (\<exists>x3 m3. copy_auxv ctx \<lparr>ai_index = 0, ai_auxv = old\<rparr> (x2 + 8) (store64 m2 x2 0) = Some (x3, m3) \<and>
       initial_stack (store64 m3 x3 AT_NULL) b args envs (map (auxv_entry ctx) es))"
proof -
  let ?x = "24 + 8 * length args + 8 * length envs"
  define m2' where "m2' = store64 m2 x2 0"
  have c': "8 * (length args + length envs) + 24 \<le> c" "c + strings_len args + strings_len envs \<le> 2 ^ 64"
    using c t by auto
  note bs = build_strings [OF nul c' ps, folded m2'_def]
  have kept: "same_on b {t..<2 ^ 64} m2' m"
    by (rule same_on_subset [OF bs(7)]) (use c t in auto)
  then have "same_on old {..<16 * length es + 8} m m2'"
    by (rule same_on_separate [OF _ sep]) (use es in auto)
  then have old: "pairs_at m2' old es" using es(2) by (rule pairs_at_same_on)
  have x: "?x + 16 * length es + 8 \<le> t" "t \<le> 2 ^ 64" using c t es(1) by auto
  obtain m3 where m3:
      "copy_auxv ctx \<lparr>ai_index = 0, ai_auxv = old\<rparr> (b + of_nat ?x) m2' = Some (b + of_nat (?x + 16 * length es), m3)"
      "pairs_off (store64 m3 (b + of_nat (?x + 16 * length es)) AT_NULL) b ?x (map (auxv_entry ctx) es)"
      "load64 (store64 m3 (b + of_nat (?x + 16 * length es)) AT_NULL) (b + of_nat (?x + 16 * length es)) = 0"
      "same_on b ({..<2 ^ 64} - {?x..<?x + 16 * length es + 8}) (store64 m3 (b + of_nat (?x + 16 * length es)) AT_NULL) m2'"
    using build_auxv [OF old sep es(1) x] by blast
  define m4 where "m4 = store64 m3 (b + of_nat (?x + 16 * length es)) AT_NULL"
  note m3 = m3 [folded m4_def]
  have keep: "same_on b A m2' m4" if "A \<subseteq> {..<2 ^ 64} - {?x..<?x + 16 * length es + 8}" for A
    by (rule same_on_sym, rule same_on_subset [OF m3(4) that])
  have "initial_stack m4 b args envs (map (auxv_entry ctx) es)"
  proof (rule initial_stack_parts)
    show "strs_at m4 b 8 c args"
      by (rule strs_at_same_on [OF keep bs(3)]) (use c t es(1) in auto)
    show "strs_at m4 b (16 + 8 * length args) (c + strings_len args) envs"
      by (rule strs_at_same_on [OF keep bs(5)]) (use c t es(1) in auto)
    have k0: "same_on b {0..<0 + 8} m2' m4" by (rule keep) auto
    show "load64 m4 b = of_nat (length args)"
      using load64_same_on [OF k0] bs(2) c t by simp
    show "load64 m4 (b + of_nat (8 + 8 * length args)) = 0"
      by (rule trans [OF load64_same_on bs(4)], rule same_on_sym, rule keep) (use c t in auto)
    show "load64 m4 (b + of_nat (16 + 8 * length args + 8 * length envs)) = 0"
      by (rule trans [OF load64_same_on bs(6)], rule same_on_sym, rule keep) (use c t in auto)
    show "load64 m4 (b + of_nat (?x + 16 * length (map (auxv_entry ctx) es))) = 0"
      unfolding length_map by (rule m3(3))
    show "pairs_off m4 b ?x (map (auxv_entry ctx) es)" by (rule m3(2))
  qed (use c t es(3) in auto)
  moreover have e: "x2 + 8 = b + of_nat ?x" by (simp add: bs(1))
  moreover have "b + of_nat ?x = b + 8 * of_nat (length args + length envs + 3)" by simp
  ultimately show ?thesis using kept unfolding e m2'_def [symmetric] m3(1) m4_def by (simp only: option.inject prod.inject) blast
qed

section \<open>Saving the old stack and building the new one\<close>

definition saved :: "u8 list list \<Rightarrow> u8 list list \<Rightarrow> shiva_ctx \<Rightarrow> shiva_ctx" where
  "saved args envs ctx = ctx\<lparr>ulexec := (ulexec ctx)\<lparr>ul_arglen := of_nat (strings_len args),
     ul_envpcount := of_nat (length envs), ul_envplen := of_nat (strings_len envs),
     ul_envstr := strings_buf envs, ul_argstr := strings_buf args\<rparr>,
     ctx_envp := ctx_envp ctx + 8 * of_nat (length envs)\<rparr>"

lemma save_stack_saved:
  assumes "ptrs_at (p_mem p) (ctx_argv (p_ctx p)) ps" "list_all2 (string_at (p_mem p)) ps args"
    and "ptrs_at (p_mem p) (ctx_envp (p_ctx p)) es" "list_all2 (string_at (p_mem p)) es envs"
    and "ctx_argc (p_ctx p) = length args"
    and "os_malloc os (p_calls p) (of_nat (strings_len envs)) \<noteq> None"
    and "os_malloc os (Suc (p_calls p)) (of_nat (strings_len args)) \<noteq> None"
  shows "shiva_ulexec_save_stack os p =
    Some (True, p\<lparr>p_calls := p_calls p + 2, p_ctx := saved args envs (p_ctx p)\<rparr>)"
proof -
  have "length es = length envs" using assms(4) by (rule list_all2_lengthD)
  with ptr_count_ptrs_at [OF assms(3)] load_strings_at [OF assms(1,2)] load_strings_at [OF assms(3,4)] assms(5-7)
  show ?thesis
    by (auto simp: shiva_ulexec_save_stack_def sys_malloc_def Let_def saved_def)
qed

lemma mult8_div8: "unat (w :: u64) mod 8 = 0 \<Longrightarrow> 8 * (w div 8) = w"
proof -
  assume "unat w mod 8 = 0"
  then have "w mod 8 = 0" by (simp add: word_unat_eq_iff unat_mod_distrib)
  then show ?thesis using mult_div_mod_eq [of 8 w] by simp
qed

text \<open>The size of the stack: room for the pointers, twenty pairs and the strings.\<close>

lemma stack_size:
  assumes "8 * (a + e) + 372 + ls + le < 4096000"
  obtains c t where "stack_count a (of_nat e) = of_nat c" "8 * (a + e) + 336 \<le> c"
    "stack_totalsize (of_nat c) (of_nat le) (of_nat ls) = of_nat t" "8 * (of_nat t div 8) = (of_nat t :: u64)"
    "c + ls + le \<le> t" "t < 4096000"
proof -
  define c where "c = (8 * (a + e) + 356) div 16 * 16"
  define t where "t = (c + le + ls + 16) div 16 * 16"
  have c: "8 * (a + e) + 341 \<le> c" "c \<le> 8 * (a + e) + 356"
    using div_mult_mod_eq [of "8 * (a + e) + 356" 16] mod_less_divisor [of 16 "8 * (a + e) + 356"]
    unfolding c_def by linarith+
  have t: "c + le + ls < t" "t \<le> c + le + ls + 16"
    using div_mult_mod_eq [of "c + le + ls + 16" 16] mod_less_divisor [of 16 "c + le + ls + 16"]
    unfolding t_def by linarith+
  have c': "stack_count a (of_nat e) = of_nat c"
    using unat_stack_count [of a e, folded c_def, symmetric] assms by simp
  have t': "stack_totalsize (of_nat c) (of_nat le) (of_nat ls) = of_nat t"
    using unat_stack_totalsize [of c le ls, folded t_def, symmetric] assms c by simp
  have "unat (of_nat t :: u64) mod 8 = 0"
    using assms c t by (simp add: unat_of_nat take_bit_nat_eq_self) (simp add: t_def flip: mult.assoc mod_mult_eq)
  then have "8 * (of_nat t div 8) = (of_nat t :: u64)" by (rule mult8_div8)
  with c' t' c t assms that show thesis by simp
qed

lemma auxv_entry_id:
  assumes "fst e < 2 ^ 31"
  shows "auxv_entry ctx e = (fst e, auxv_value ctx (ucast (fst e)) (snd e))"
proof -
  have u: "unat (fst e) < 2 ^ 31" using assms by (simp add: word_less_nat_alt)
  then have "unat (ucast (fst e) :: u32) = unat (fst e)"
    by (simp add: unsigned_ucast_eq take_bit_nat_eq_self)
  with u have "(scast (ucast (fst e) :: u32) :: u64) = fst e"
    by (simp add: word_unat_eq_iff unat_scast_small)
  then show ?thesis by (simp add: auxv_entry_def)
qed

text \<open>The last \<open>t\<close> bytes of the mapped stack.\<close>

lemma stack_place:
  assumes "t < 4096000" and "0 < t" and "unat b + 4096000 \<le> 2 ^ 64"
  shows "unat (b + SHIVA_STACK_SIZE - of_nat t) + t \<le> 2 ^ 64" and "b + SHIVA_STACK_SIZE - of_nat t \<noteq> 0"
    and "in_region (b + SHIVA_STACK_SIZE - of_nat t) t x \<Longrightarrow> in_region b 4096000 x"
proof -
  define d where "d = 4096000 - t"
  have d: "t + d = 4096000" "0 < d" using assms by (simp_all add: d_def)
  have sp: "b + SHIVA_STACK_SIZE - of_nat t = b + of_nat d"
    using d(1) [THEN arg_cong [where f = "of_nat :: nat \<Rightarrow> u64"]]
    by (simp add: SHIVA_STACK_SIZE_def PAGE_SIZE_def algebra_simps)
  have u: "unat (b + of_nat d) = unat b + d"
    using assms d by (simp add: unat_word_ariths unat_of_nat take_bit_nat_eq_self)
  show "unat (b + SHIVA_STACK_SIZE - of_nat t) + t \<le> 2 ^ 64" using u d assms by (simp add: sp)
  show "b + SHIVA_STACK_SIZE - of_nat t \<noteq> 0" unfolding sp using d assms by (intro offset_not_null) auto
  assume "in_region (b + SHIVA_STACK_SIZE - of_nat t) t x"
  then have "in_region (b + of_nat d) t x" by (simp only: sp)
  then show "in_region b 4096000 x"
    by (rule in_region_sub) (use d in \<open>simp_all add: unat_of_nat take_bit_nat_eq_self\<close>)
qed

lemma allocstack_ok:
  assumes "os_mmap os (p_calls p) 0 SHIVA_STACK_SIZE (PROT_READ OR PROT_WRITE)
             (MAP_PRIVATE OR MAP_ANONYMOUS OR MAP_GROWSDOWN) = Some b"
  shows "\<exists>p1. shiva_ulexec_allocstack os p = Some (b + SHIVA_STACK_SIZE, p1) \<and>
           p_mem p1 = zero_bytes (p_mem p) b 4096000 \<and>
           p_ctx p1 = (p_ctx p)\<lparr>ulexec := (ulexec (p_ctx p))\<lparr>ul_stack := b\<rparr>\<rparr>"
  using assms
  by (simp add: shiva_ulexec_allocstack_def sys_mmap_def Let_def map_pages_def SHIVA_STACK_SIZE_def PAGE_SIZE_def
      zero_bytes_def fun_eq_iff)

lemma auxv_entry_stack [simp]:
  "auxv_entry (ctx\<lparr>ulexec := (ulexec ctx)\<lparr>ul_stack := v\<rparr>\<rparr>) = auxv_entry ctx"
  by (simp add: fun_eq_iff auxv_entry_def auxv_value_def Let_def)

lemma auxv_value_saved [simp]: "auxv_value (saved args envs ctx) = auxv_value ctx"
  by (simp add: fun_eq_iff auxv_value_def saved_def Let_def)

lemma build_stack_ok:
  fixes p :: proc and args envs :: "u8 list list" and b :: u64
  defines "ctx \<equiv> saved args envs (p_ctx p)"
  assumes nul: "\<forall>s \<in> set args. 0 \<notin> set s" "\<forall>s \<in> set envs. 0 \<notin> set s"
    and argc: "ctx_argc (p_ctx p) = length args"
    and old: "load64 (p_mem p) (ctx_envp ctx) = 0" "pairs_at (p_mem p) (ctx_envp ctx + 8) es" "ctx_envp ctx \<noteq> 0"
    and mmap: "os_mmap os (p_calls p) 0 SHIVA_STACK_SIZE (PROT_READ OR PROT_WRITE)
                 (MAP_PRIVATE OR MAP_ANONYMOUS OR MAP_GROWSDOWN) = Some b" "unat b + 4096000 \<le> 2 ^ 64"
    and sep: "separate b 4096000 (ctx_envp ctx) (16 * length es + 16)"
    and lim: "8 * (length args + length envs) + 372 + strings_len args + strings_len envs < 4096000"
    and es: "length es \<le> 19" "\<forall>e \<in> set es. fst (auxv_entry ctx e) \<noteq> 0"
  shows "\<exists>p2 sp'. shiva_ulexec_build_auxv_stack os (p\<lparr>p_ctx := ctx\<rparr>) =
           Some (True, sp', sp' + 8 * of_nat (length args + length envs + 3), p2) \<and>
         initial_stack (p_mem p2) sp' args envs (map (auxv_entry ctx) es)"
proof -
  obtain c t where ct: "stack_count (length args) (of_nat (length envs)) = of_nat c"
      "8 * (length args + length envs) + 336 \<le> c"
      "stack_totalsize (of_nat c) (of_nat (strings_len envs)) (of_nat (strings_len args)) = of_nat t"
      "8 * (of_nat t div 8) = (of_nat t :: u64)" "c + strings_len args + strings_len envs \<le> t" "t < 4096000"
    using stack_size [OF lim] by metis
  define sp' where "sp' = b + SHIVA_STACK_SIZE - of_nat t"
  have t0: "0 < t" using ct(2,5) by simp
  note place = stack_place [OF ct(6) t0 mmap(2), folded sp'_def]
  obtain p1 where p1: "shiva_ulexec_allocstack os (p\<lparr>p_ctx := ctx\<rparr>) = Some (b + SHIVA_STACK_SIZE, p1)"
      "p_mem p1 = zero_bytes (p_mem p) b 4096000"
      "p_ctx p1 = ctx\<lparr>ulexec := (ulexec ctx)\<lparr>ul_stack := b\<rparr>\<rparr>"
    using allocstack_ok [of os "p\<lparr>p_ctx := ctx\<rparr>" b] mmap(1) by auto
  have far: "same_on (ctx_envp ctx) {..<16 * length es + 16} (p_mem p) (p_mem p1)"
    using sep es(1) by (auto simp: same_on_def p1(2) zero_bytes_def separate_def)
  have sep': "separate sp' t (ctx_envp ctx) (16 * length es + 16)"
    using sep place(3) by (rule separate_mono)
  obtain x1 y1 m1 where r1: "push_strings (length args) (strings_buf args) (sp' + 8) (sp' + of_nat c)
      (store64 (p_mem p1) sp' (of_nat (length args))) = (x1, y1, m1)" by (rule prod_cases3)
  obtain x2 y2 m2 where r2: "push_strings (length envs) (strings_buf envs) (x1 + 8) y1 (store64 m1 x1 0) = (x2, y2, m2)"
    by (rule prod_cases3)
  have "same_on (ctx_envp ctx + of_nat 8) {..<16 * length es + 8} (p_mem p) (p_mem p1)"
    by (rule same_on_shift) (use far in \<open>simp add: add.commute\<close>)
  then have p: "pairs_at (p_mem p1) (ctx_envp ctx + 8) es" using old(2) pairs_at_same_on by simp
  have s: "separate sp' t (ctx_envp ctx + 8) (16 * length es + 8)"
    by (rule separate_mono [OF sep']) (use es(1) in_region_sub [of "ctx_envp ctx" 8 "16 * length es + 8"] in auto)
  have e: "auxv_entry (p_ctx p1) = auxv_entry ctx" by (simp add: p1(3))
  note w = build_stack_writes [OF nul ct(2,5) place(1) es(1) p _ s r1 r2, of "p_ctx p1", unfolded e, OF es(2)]
  obtain x3 m3 where w: "x2 + 8 = sp' + 8 * of_nat (length args + length envs + 3)"
      "same_on sp' {t..<2 ^ 64} (store64 m2 x2 0) (p_mem p1)"
      "copy_auxv (p_ctx p1) \<lparr>ai_index = 0, ai_auxv = ctx_envp ctx + 8\<rparr> (x2 + 8) (store64 m2 x2 0) = Some (x3, m3)"
      "initial_stack (store64 m3 x3 AT_NULL) sp' args envs (map (auxv_entry ctx) es)"
    using w by blast
  have "same_on (ctx_envp ctx) {..<16 * length es + 16} (p_mem p1) (store64 m2 x2 0)"
    by (rule same_on_separate [OF w(2) sep']) (use es(1) in simp)
  then have "same_on (ctx_envp ctx) {0..<0 + 8} (p_mem p) (store64 m2 x2 0)"
    by (rule same_on_trans [OF far]) auto
  from load64_same_on [OF this] old(1) have "load64 (store64 m2 x2 0) (ctx_envp ctx) = 0" by simp
  then have init: "shiva_auxv_iterator_init (p1\<lparr>p_mem := store64 m2 x2 0\<rparr>) 0 =
      Some (Some \<lparr>ai_index = 0, ai_auxv = ctx_envp ctx + 8\<rparr>)"
    using old(3) by (simp add: shiva_auxv_iterator_init_def p1(3) ptr_count.simps)
  have fld: "ctx_argc ctx = length args" "ul_argstr (ulexec ctx) = strings_buf args"
      "ul_envstr (ulexec ctx) = strings_buf envs" "ul_envpcount (ulexec ctx) = of_nat (length envs)"
      "ul_arglen (ulexec ctx) = of_nat (strings_len args)" "ul_envplen (ulexec ctx) = of_nat (strings_len envs)"
    using argc by (simp_all add: ctx_def saved_def)
  have n: "unat (of_nat (length envs) :: u64) = length envs"
    using lim by (simp add: unat_of_nat take_bit_nat_eq_self)
  have sp: "b + SHIVA_STACK_SIZE - 8 * (of_nat t div 8) = sp'" by (simp only: ct(4) sp'_def)
  then have "b + SHIVA_STACK_SIZE \<noteq> 8 * (of_nat t div 8)" using place(2) by auto
  with sp have "shiva_ulexec_build_auxv_stack os (p\<lparr>p_ctx := ctx\<rparr>) =
      Some (True, sp', x2 + 8, p1\<lparr>p_mem := store64 m3 x3 AT_NULL\<rparr>)"
    by (simp add: shiva_ulexec_build_auxv_stack_def Let_def fld ct(1,3) p1(1) n r1 r2 init w(3))
  with w(1,4) show ?thesis by auto
qed

text \<open>C11. Saving the stack the program was started on and building the new one returns, and the new stack
  is an initial stack with the same argument and environment strings and the old auxiliary vector, in
  which the program headers, their number, the interpreter base, the entry point and the file name
  are those of the loaded program. The vector must have at most 19 entries.\<close>

theorem build_stack_initial:
  assumes "initial_stack (p_mem p) sp args envs es"
    and "ctx_argc (p_ctx p) = length args" "ctx_argv (p_ctx p) = sp + 8"
      "ctx_envp (p_ctx p) = sp + 8 * of_nat (length args + 2)"
    and "os_malloc os (p_calls p) (of_nat (strings_len envs)) \<noteq> None"
      "os_malloc os (Suc (p_calls p)) (of_nat (strings_len args)) \<noteq> None"
    and "os_mmap os (p_calls p + 2) 0 SHIVA_STACK_SIZE (PROT_READ OR PROT_WRITE)
           (MAP_PRIVATE OR MAP_ANONYMOUS OR MAP_GROWSDOWN) = Some b" "unat b + 4096000 \<le> 2 ^ 64"
    and "separate b 4096000 (sp + 8 * of_nat (length args + length envs + 2)) (16 * length es + 16)"
      "sp + 8 * of_nat (length args + length envs + 2) \<noteq> 0"
    and "8 * (length args + length envs) + 372 + strings_len args + strings_len envs < 4096000"
    and "length es \<le> 19" "\<forall>e \<in> set es. fst e < 2 ^ 31"
  shows "\<exists>p1 p2 sp'. shiva_ulexec_save_stack os p = Some (True, p1) \<and>
    shiva_ulexec_build_auxv_stack os p1 =
      Some (True, sp', sp' + 8 * of_nat (length args + length envs + 3), p2) \<and>
    initial_stack (p_mem p2) sp' args envs
      (map (\<lambda>e. (fst e, auxv_value (p_ctx p) (ucast (fst e)) (snd e))) es)"
proof -
  obtain ps qs where ps: "ptrs_at (p_mem p) (sp + 8) ps" "list_all2 (string_at (p_mem p)) ps args"
      "ptrs_at (p_mem p) (sp + 8 * of_nat (length args + 2)) qs" "list_all2 (string_at (p_mem p)) qs envs"
      "pairs_at (p_mem p) (sp + 8 * of_nat (length args + length envs + 3)) es"
    using assms(1) unfolding initial_stack_def by blast
  define ctx where "ctx = saved args envs (p_ctx p)"
  have envp: "ctx_envp ctx = sp + 8 * of_nat (length args + length envs + 2)"
    using assms(4) by (simp add: ctx_def saved_def algebra_simps)
  have save: "shiva_ulexec_save_stack os p = Some (True, p\<lparr>p_calls := p_calls p + 2, p_ctx := ctx\<rparr>)"
    unfolding ctx_def by (rule save_stack_saved) (use ps assms(2-6) in simp_all)
  have "load64 (p_mem p) (ctx_envp ctx) = 0"
    using ptrs_at_end [OF ps(3)] list_all2_lengthD [OF ps(4)] by (simp add: envp algebra_simps)
  moreover have "pairs_at (p_mem p) (ctx_envp ctx + 8) es" using ps(5) by (simp add: envp algebra_simps)
  moreover have ae: "\<forall>e \<in> set es. auxv_entry ctx e = (fst e, auxv_value (p_ctx p) (ucast (fst e)) (snd e))"
    using assms(13) by (simp add: auxv_entry_id ctx_def)
  moreover from ps(5) have "\<forall>e \<in> set es. fst e \<noteq> 0" by (rule pairs_at_tags)
  ultimately obtain p2 sp' where "shiva_ulexec_build_auxv_stack os (p\<lparr>p_calls := p_calls p + 2, p_ctx := ctx\<rparr>) =
        Some (True, sp', sp' + 8 * of_nat (length args + length envs + 3), p2)"
      "initial_stack (p_mem p2) sp' args envs (map (auxv_entry ctx) es)"
    using build_stack_ok [of args envs "p\<lparr>p_calls := p_calls p + 2\<rparr>" es os b] assms(2,7-12) envp
      string_at_no_nul [OF ps(2)] string_at_no_nul [OF ps(4)]
    by (auto simp: ctx_def)
  moreover have "map (auxv_entry ctx) es = map (\<lambda>e. (fst e, auxv_value (p_ctx p) (ucast (fst e)) (snd e))) es"
    using ae by simp
  ultimately show ?thesis using save by auto
qed

section \<open>Witness\<close>

text \<open>One argument \<open>a\<close>, no environment, a vector with an entry point.\<close>

definition example_old_stack :: mem where
  "example_old_stack =
     write_bytes (\<lambda>_. 0) 0x1000
       (le_bytes 8 (1 :: u64) @ le_bytes 8 (0x1038 :: u64) @ le_bytes 8 (0 :: u64) @ le_bytes 8 (0 :: u64) @
        le_bytes 8 (9 :: u64) @ le_bytes 8 (0x400000 :: u64) @ le_bytes 8 (0 :: u64) @ [0x61, 0])"

definition example_stack_os :: os where
  "example_stack_os =
     \<lparr>os_malloc = (\<lambda>n len. Some (0x5000 + 0x100 * of_nat n)), os_mmap = (\<lambda>n a len pr fl. Some 0x10000000),
      os_mprotect = (\<lambda>n a len pr. True), os_file = (\<lambda>_. None), os_realpath_exe = None, os_access = (\<lambda>_. True),
      os_open_object = (\<lambda>_. None), os_hash_slots = 0, os_sizeof = (\<lambda>_. 64)\<rparr>"

definition example_stack_proc :: proc where
  "example_stack_proc =
     zero_proc\<lparr>p_mem := example_old_stack,
       p_ctx := zero_ctx\<lparr>ctx_argc := 1, ctx_argv := 0x1008, ctx_envp := 0x1018,
         ulexec := zero_ulexec\<lparr>ul_entry_point := 0x40001000\<rparr>\<rparr>\<rparr>"

lemma example_old_stack_words:
  "load64 example_old_stack 0x1000 = 1" "load64 example_old_stack 0x1008 = 0x1038"
  "load64 example_old_stack 0x1010 = 0" "load64 example_old_stack 0x1018 = 0"
  "load64 example_old_stack 0x1020 = 9" "load64 example_old_stack 0x1028 = 0x400000"
  "load64 example_old_stack 0x1030 = 0" "string_at example_old_stack 0x1038 [0x61]"
  by code_simp+

lemma example_old_stack_initial: "initial_stack example_old_stack 0x1000 [[0x61]] [] [(9, 0x400000)]"
proof -
  have "\<exists>ps. ptrs_at example_old_stack 0x1008 ps \<and> list_all2 (string_at example_old_stack) ps [[0x61]]"
    by (rule exI [of _ "[0x1038]"]) (simp add: example_old_stack_words)
  moreover have "\<exists>ps. ptrs_at example_old_stack 0x1018 ps \<and> list_all2 (string_at example_old_stack) ps []"
    by (rule exI [of _ "[]"]) (simp add: example_old_stack_words)
  ultimately show ?thesis by (simp add: initial_stack_def example_old_stack_words)
qed

theorem build_stack_initial_witness:
  "\<exists>p1 p2 sp'. shiva_ulexec_save_stack example_stack_os example_stack_proc = Some (True, p1) \<and>
     shiva_ulexec_build_auxv_stack example_stack_os p1 = Some (True, sp', sp' + 32, p2) \<and>
     initial_stack (p_mem p2) sp' [[0x61]] [] [(9, 0x40001000)]"
proof -
  have "separate 0x10000000 4096000 (0x1018 :: u64) 32"
    using separate_offsets [of "0x1018" 32 "0x10000000" 4096000 0] by (auto simp: separate_def)
  then show ?thesis
    using build_stack_initial [of example_stack_proc "0x1000" "[[0x61]]" "[]" "[(9, 0x400000)]" example_stack_os "0x10000000"]
      example_old_stack_initial
    by (simp add: example_stack_proc_def example_stack_os_def zero_proc_def zero_ctx_def auxv_value_def at_defs
        zero_ulexec_def Let_def)
qed

end
