(* ===== verification/Ulexec_Load.thy ===== *)
theory Ulexec_Load
  imports Ulexec
begin

text \<open>
  The copy of a segment and the loader of \<^verbatim>\<open>shiva_ulexec.c\<close>: which bytes of the file end up where.
\<close>

section \<open>Copying a segment\<close>

lemma copy_rem_bytes:
  "read_n (elf_read_byte_vaddr obj) va n = Some bs \<Longrightarrow> n < 2 ^ 64 \<Longrightarrow> copy_rem obj va dst n m = (True, write_bytes m dst bs)"
proof (induction n arbitrary: va dst m bs)
  case (Suc n)
  then obtain b cs where "elf_read_byte_vaddr obj va = Some b" "read_n (elf_read_byte_vaddr obj) (va + 1) n = Some cs" "bs = b # cs"
    by (auto split: Option.bind_split_asm)
  with Suc read_n_length [of "elf_read_byte_vaddr obj" "va + 1" n cs] show ?case by (simp add: write_bytes_Cons)
qed simp

text \<open>What arrives: all bytes up to a last incomplete quadword, but not a last complete one.\<close>

definition copied :: "u8 list \<Rightarrow> u8 list" where
  "copied bs = (if length bs mod 8 = 0 then take (length bs - 8) bs else bs)"

lemma length_copied: "length (copied bs) \<le> length bs"
  by (simp add: copied_def)

lemma segment_copy_loop_bytes:
  assumes "read_n (elf_read_byte_vaddr obj) (va + of_nat i) n = Some bs" and "filesz = i + n" and "i mod 8 = 0" and "filesz < 2 ^ 64"
  shows "segment_copy_loop obj va dst filesz i m = (True, write_bytes m (dst + of_nat i) (copied bs))"
  using assms
proof (induction "n" arbitrary: i bs m rule: less_induct)
  case (less n)
  have len: "length bs = n" using less.prems(1) by (rule read_n_length)
  have m8: "filesz mod 8 = n mod 8" using less.prems(2,3) by presburger
  consider "n = 0" | "0 < n" "n < 8" | "n = 8" | "8 < n" by linarith
  then show ?case
  proof cases
    case 1
    with less.prems(2) len show ?thesis by (simp add: segment_copy_loop.simps copied_def)
  next
    case 2
    with less.prems len m8 copy_rem_bytes [of obj "va + of_nat i" n bs]
    show ?thesis by (simp add: segment_copy_loop.simps copied_def)
  next
    case 3
    with less.prems(2) len m8 show ?thesis by (simp add: segment_copy_loop.simps copied_def)
  next
    case 4
    then obtain k where k: "n = 8 + k" "0 < k" using less_imp_Suc_add [of 8 n] by auto
    note sp = read_n_split [of "elf_read_byte_vaddr obj" "va + of_nat i" 8 k bs]
    have q: "read_n (elf_read_byte_vaddr obj) (va + of_nat i) 8 = Some (take 8 bs)"
        "read_n (elf_read_byte_vaddr obj) (va + of_nat (i + 8)) k = Some (drop 8 bs)"
      using sp less.prems(1) k by (simp_all add: add.assoc)
    have "segment_copy_loop obj va dst filesz (i + 8) (write_bytes m (dst + of_nat i) (take 8 bs)) =
        (True, write_bytes (write_bytes m (dst + of_nat i) (take 8 bs)) (dst + of_nat (i + 8)) (copied (drop 8 bs)))"
      using less.prems(2,3,4) k by (intro less.IH [OF _ q(2)]) auto
    also have "write_bytes (write_bytes m (dst + of_nat i) (take 8 bs)) (dst + of_nat (i + 8)) (copied (drop 8 bs)) =
        write_bytes m (dst + of_nat i) (take 8 bs @ copied (drop 8 bs))"
      using write_bytes_append [of "take 8 bs" "copied (drop 8 bs)" m "dst + of_nat i"]
        length_copied [of "drop 8 bs"] len k less.prems(2,4)
      by (simp add: add.assoc)
    also have "take 8 bs @ copied (drop 8 bs) = copied bs"
    proof (cases "k mod 8 = 0")
      case True
      then have "8 \<le> k" using k(2) by (cases "k < 8") auto
      with True len k take_add [of 8 "k - 8" bs] show ?thesis by (simp add: copied_def)
    qed (use len k in \<open>simp add: copied_def\<close>)
    finally show ?thesis
      using less.prems(2) q(1) k(2) 4 by (subst segment_copy_loop.simps) simp
  qed
qed

text \<open>C39. Copying a readable segment succeeds and writes its bytes to the destination, all of them when
  the file size is not a multiple of eight; otherwise the last eight bytes are left out.\<close>

theorem segment_copy_bytes:
  assumes "read_n (elf_read_byte_vaddr obj) (seg_vaddr segment) (unat (seg_filesz segment)) = Some bs"
  shows "shiva_ulexec_segment_copy obj dst segment m =
    (True, write_bytes m dst (if length bs mod 8 = 0 then take (length bs - 8) bs else bs))"
  using segment_copy_loop_bytes [of obj "seg_vaddr segment" 0 "unat (seg_filesz segment)" bs "unat (seg_filesz segment)" dst m]
    assms unsigned_less [where ?'a = nat, of "seg_filesz segment"]
  by (simp add: shiva_ulexec_segment_copy_def copied_def)

text \<open>A file of ten bytes read at address 0x1000: all are copied.\<close>

lemma example_file_bytes:
  "read_n (\<lambda>a. Some (ucast a)) 0x1000 10 = Some [0, 1, 2, 3, 4, 5, 6, 7, 8, 9]"
  by code_simp

theorem segment_copy_bytes_witness:
  "shiva_ulexec_segment_copy (null_elfobj\<lparr>elf_read_byte_vaddr := (\<lambda>a. Some (ucast a))\<rparr>) 0x5000
     \<lparr>seg_type = PT_LOAD, seg_flags = 4, seg_offset = 0, seg_vaddr = 0x1000, seg_filesz = 10, seg_memsz = 10\<rparr> (\<lambda>_. 0) =
   (True, write_bytes (\<lambda>_. 0) 0x5000 [0, 1, 2, 3, 4, 5, 6, 7, 8, 9])"
  using segment_copy_bytes [of "null_elfobj\<lparr>elf_read_byte_vaddr := (\<lambda>a. Some (ucast a))\<rparr>"
      "\<lparr>seg_type = PT_LOAD, seg_flags = 4, seg_offset = 0, seg_vaddr = 0x1000, seg_filesz = 10, seg_memsz = 10\<rparr>"
      "[0, 1, 2, 3, 4, 5, 6, 7, 8, 9]" "0x5000" "\<lambda>_. 0"]
  by (simp add: example_file_bytes)

end
