(* ===== verification/Module.thy ===== *)
theory Module
  imports Maps Util
begin

text \<open>
  \<^verbatim>\<open>shiva_module.c\<close>: the runtime linker for relocatable objects. It lays the sections of a module out
  in a text and a data segment, appends a PLT stub per call relocation and a GOT slot per external
  symbol, applies the relocations, and calls the module.

  What the source leaves open is in the record \<open>link_env\<close>: whether it is compiled with
  \<open>SHIVA_STANDALONE\<close>, and the content of three uninitialised variables (the size and the offset recorded for \<open>.plt\<close>, the name of
  the entry symbol when no flag is set).
\<close>

record link_env =
  le_standalone :: bool
  le_plt_size :: u64
  le_plt_offset :: u64
  le_entry_symbol :: string

definition plt_stub :: "u8 list" where "plt_stub = [0xff, 0x25, 0, 0, 0, 0]"

section \<open>Entry point and GOT\<close>

text \<open>The registers of the call into the module; the code of the module is the parameter \<open>run\<close>.\<close>

definition transfer_to_module ::
  "(u64 \<Rightarrow> shiva_module \<Rightarrow> proc \<Rightarrow> proc option) \<Rightarrow> u64 \<Rightarrow> shiva_module \<Rightarrow> proc \<Rightarrow> proc option" where
  "transfer_to_module run entry linker p = run entry linker p"

definition module_entrypoint :: "link_env \<Rightarrow> shiva_module \<Rightarrow> u64 option" where
  "module_entrypoint env linker =
     (let entry_symbol =
            (if has_flag (mod_flags linker) SHIVA_MODULE_F_RUNTIME then ''shakti_main''
             else if has_flag (mod_flags linker) SHIVA_MODULE_F_INIT then ''shakti_module_init''
             else le_entry_symbol env)
      in (case elf_symbol_by_name (mod_elfobj linker) entry_symbol of
            None \<Rightarrow> None
          | Some symbol \<Rightarrow> Some (text_vaddr linker + sym_value symbol)))"

definition got_entry_by_name :: "shiva_module \<Rightarrow> string \<Rightarrow> shiva_module_got_entry option" where
  "got_entry_by_name linker name = find (\<lambda>g. ge_symname g = name) (got_list linker)"

text \<open>A symbol that the module itself defines.\<close>

definition module_symbol :: "shiva_module \<Rightarrow> string \<Rightarrow> elf_symbol option" where
  "module_symbol linker name =
     (case elf_symbol_by_name (mod_elfobj linker) name of
        None \<Rightarrow> None
      | Some symbol \<Rightarrow>
          if sym_type symbol = STT_FUNC \<or> sym_type symbol = STT_OBJECT then Some symbol else None)"

text \<open>Addresses inside Shiva itself.\<close>

definition self_value :: "link_env \<Rightarrow> shiva_module \<Rightarrow> elf_symbol \<Rightarrow> u64" where
  "self_value env linker symbol =
     (if le_standalone env then sym_value symbol else sym_value symbol + shiva_base linker)"

text \<open>The two slots: for a symbol of the module the offset is added to a pointer to quadwords.\<close>

definition got_slot_local :: "shiva_module \<Rightarrow> shiva_module_got_entry \<Rightarrow> u64" where
  "got_slot_local linker g = data_vaddr linker + 8 * pltgot_off linker + 8 * gotoff g"

definition got_slot :: "shiva_module \<Rightarrow> shiva_module_got_entry \<Rightarrow> u64" where
  "got_slot linker g = data_vaddr linker + pltgot_off linker + gotoff g"

fun resolve_got_loop ::
  "link_env \<Rightarrow> shiva_module \<Rightarrow> shiva_module_got_entry list \<Rightarrow> proc \<Rightarrow> (bool \<times> proc) option" where
  "resolve_got_loop env linker [] p = Some (True, p)"
| "resolve_got_loop env linker (g # gs) p =
     (case module_symbol linker (ge_symname g) of
        Some symbol \<Rightarrow>
          do {
            p1 \<leftarrow> p_write (got_slot_local linker g) (le_bytes 8 (sym_value symbol + text_vaddr linker)) p;
            resolve_got_loop env linker gs p1
          }
      | None \<Rightarrow>
          (case elf_symbol_by_name (mod_self linker) (ge_symname g) of
             None \<Rightarrow> Some (False, p)
           | Some symbol \<Rightarrow>
               do {
                 p1 \<leftarrow> p_write (got_slot linker g) (le_bytes 8 (self_value env linker symbol)) p;
                 resolve_got_loop env linker gs p1
               }))"

definition resolve_pltgot_entries :: "link_env \<Rightarrow> shiva_module \<Rightarrow> proc \<Rightarrow> (bool \<times> proc) option" where
  "resolve_pltgot_entries env linker p = resolve_got_loop env linker (got_list linker) p"

text \<open>The offset that the i-th stub needs to reach a GOT slot.\<close>

definition stub_gotoff :: "shiva_module \<Rightarrow> nat \<Rightarrow> shiva_module_got_entry \<Rightarrow> u64" where
  "stub_gotoff linker i g =
     (let gotaddr = data_vaddr linker + pltgot_off linker + gotoff g;
          pltaddr = text_vaddr linker + (plt_off linker + of_nat i * 6)
      in gotaddr - pltaddr - 6)"

fun patch_stubs_loop :: "shiva_module \<Rightarrow> nat \<Rightarrow> shiva_module_plt_entry list \<Rightarrow> proc \<Rightarrow> (bool \<times> proc) option" where
  "patch_stubs_loop linker i [] p = Some (True, p)"
| "patch_stubs_loop linker i (current # rest) p =
     (case got_entry_by_name linker (pe_symname current) of
        None \<Rightarrow> Some (False, p)
      | Some g \<Rightarrow>
          do {
            p1 \<leftarrow> p_write (text_mem linker + (plt_off linker + of_nat i * 6) + 2)
                    (le_bytes 4 (ucast (stub_gotoff linker i g) :: u32)) p;
            patch_stubs_loop linker (Suc i) rest p1
          })"

definition patch_plt_stubs :: "shiva_module \<Rightarrow> proc \<Rightarrow> (bool \<times> proc) option" where
  "patch_plt_stubs linker p = patch_stubs_loop linker 0 (plt_list linker) p"

section \<open>Relocations\<close>

definition get_section_mapping :: "shiva_module \<Rightarrow> string \<Rightarrow> shiva_module_section_mapping option" where
  "get_section_mapping linker shdrname = find (\<lambda>s. smap_name s = shdrname) (section_maplist linker)"

definition plt_entry_by_name :: "shiva_module \<Rightarrow> string \<Rightarrow> shiva_module_plt_entry option" where
  "plt_entry_by_name linker name = find (\<lambda>e. pe_symname e = name) (plt_list linker)"

definition got_base :: "shiva_module \<Rightarrow> u64" where
  "got_base linker = data_vaddr linker + pltgot_off linker"

definition rel_place :: "shiva_module \<Rightarrow> shiva_module_section_mapping \<Rightarrow> elf_relocation \<Rightarrow> u64" where
  "rel_place linker smap rel = text_vaddr linker + smap_offset smap + rel_offset rel"

text \<open>One definition per case of the switch: the bytes stored at \<open>rel_unit\<close>, or \<open>None\<close> where the
  function returns false.\<close>

definition reloc_pltoff64 :: "shiva_module \<Rightarrow> elf_relocation \<Rightarrow> u8 list option" where
  "reloc_pltoff64 linker rel =
     map_option (\<lambda>current. le_bytes 8 (pe_vaddr current - got_base linker + rel_addend rel))
       (plt_entry_by_name linker (rel_symname rel))"

definition reloc_gotpc64 ::
  "shiva_module \<Rightarrow> shiva_module_section_mapping \<Rightarrow> elf_relocation \<Rightarrow> u8 list option" where
  "reloc_gotpc64 linker smap rel =
     Some (le_bytes 8 (got_base linker - rel_place linker smap rel + rel_addend rel))"

definition reloc_got64 :: "shiva_module \<Rightarrow> elf_relocation \<Rightarrow> u8 list option" where
  "reloc_got64 linker rel = map_option (\<lambda>g. le_bytes 8 (gotoff g)) (got_cache linker (rel_symname rel))"

definition reloc_gotoff64 :: "shiva_module \<Rightarrow> elf_relocation \<Rightarrow> u8 list option" where
  "reloc_gotoff64 linker rel =
     (case elf_symbol_by_name (mod_elfobj linker) (rel_symname rel) of
        None \<Rightarrow> None
      | Some symbol \<Rightarrow>
          if strncmp_eq 3 (rel_symname rel) ''.LC'' then
            (case get_section_mapping linker ''.rodata'' of
               None \<Rightarrow> None
             | Some smap_tmp \<Rightarrow>
                 Some (le_bytes 8 ((sym_value symbol + smap_vaddr smap_tmp) + rel_addend rel - got_base linker)))
          else Some (le_bytes 8 ((sym_value symbol + text_vaddr linker) + rel_addend rel - got_base linker)))"

definition reloc_plt32 ::
  "shiva_module \<Rightarrow> shiva_module_section_mapping \<Rightarrow> elf_relocation \<Rightarrow> u8 list option" where
  "reloc_plt32 linker smap rel =
     map_option (\<lambda>current. le_bytes 4 (ucast (pe_vaddr current + rel_addend rel - rel_place linker smap rel) :: u32))
       (plt_entry_by_name linker (rel_symname rel))"

definition internal_lookup :: "link_env \<Rightarrow> shiva_module \<Rightarrow> string \<Rightarrow> u64 option" where
  "internal_lookup env linker name =
     map_option (self_value env linker) (elf_symbol_by_name (mod_self linker) name)"

text \<open>The symbol value of a PC32 relocation: a section, a symbol of the module, or one of Shiva.\<close>

definition pc32_symval :: "link_env \<Rightarrow> shiva_module \<Rightarrow> string \<Rightarrow> u64 option" where
  "pc32_symval env linker name =
     (if name \<noteq> [] \<and> hd name = CHR ''.'' then map_option smap_vaddr (get_section_mapping linker name)
      else (case elf_symbol_by_name (mod_elfobj linker) name of
              None \<Rightarrow> internal_lookup env linker name
            | Some symbol \<Rightarrow>
                if sym_type symbol = STT_NOTYPE then internal_lookup env linker name
                else Some (text_vaddr linker + sym_value symbol)))"

definition reloc_pc32 ::
  "link_env \<Rightarrow> shiva_module \<Rightarrow> shiva_module_section_mapping \<Rightarrow> elf_relocation \<Rightarrow> u8 list option" where
  "reloc_pc32 env linker smap rel =
     map_option (\<lambda>symval. le_bytes 4 (ucast (symval + rel_addend rel - rel_place linker smap rel) :: u32))
       (pc32_symval env linker (rel_symname rel))"

definition reloc_bytes ::
  "link_env \<Rightarrow> shiva_module \<Rightarrow> shiva_module_section_mapping \<Rightarrow> elf_relocation \<Rightarrow> u8 list option" where
  "reloc_bytes env linker smap rel =
     (if rel_type rel = R_X86_64_PLTOFF64 then reloc_pltoff64 linker rel
      else if rel_type rel = R_X86_64_GOTPC64 then reloc_gotpc64 linker smap rel
      else if rel_type rel = R_X86_64_GOT64 then reloc_got64 linker rel
      else if rel_type rel = R_X86_64_GOTOFF64 then reloc_gotoff64 linker rel
      else if rel_type rel = R_X86_64_PLT32 then reloc_plt32 linker smap rel
      else if rel_type rel = R_X86_64_PC32 then reloc_pc32 env linker smap rel
      else None)"

text \<open>The bytes go into the text segment, whatever segment the section is mapped to.\<close>

definition apply_relocation ::
  "link_env \<Rightarrow> shiva_module \<Rightarrow> elf_relocation \<Rightarrow> proc \<Rightarrow> (bool \<times> proc) option" where
  "apply_relocation env linker rel p =
     (case strrchr (rel_shdrname rel) CHR ''.'' of
        None \<Rightarrow> Some (False, p)
      | Some shdrname \<Rightarrow>
          (case get_section_mapping linker shdrname of
             None \<Rightarrow> Some (False, p)
           | Some smap \<Rightarrow>
               (case reloc_bytes env linker smap rel of
                  None \<Rightarrow> Some (False, p)
                | Some bs \<Rightarrow>
                    do {
                      p1 \<leftarrow> p_write (text_mem linker + (smap_offset smap + rel_offset rel)) bs p;
                      Some (True, p1)
                    })))"

fun relocate_loop :: "link_env \<Rightarrow> shiva_module \<Rightarrow> elf_relocation list \<Rightarrow> proc \<Rightarrow> (bool \<times> proc) option" where
  "relocate_loop env linker [] p = Some (True, p)"
| "relocate_loop env linker (rel # rels) p =
     (case strrchr (rel_shdrname rel) CHR ''.'' of
        None \<Rightarrow> Some (False, p)
      | Some shdrname \<Rightarrow>
          if shdrname = ''.eh_frame'' then relocate_loop env linker rels p
          else do {
            (res, p1) \<leftarrow> apply_relocation env linker rel p;
            if res then relocate_loop env linker rels p1 else Some (False, p1)
          })"

definition relocate_module :: "link_env \<Rightarrow> shiva_module \<Rightarrow> proc \<Rightarrow> (bool \<times> proc) option" where
  "relocate_module env linker p = relocate_loop env linker (elf_relocations (mod_elfobj linker)) p"

section \<open>Copying sections\<close>

text \<open>\<open>elf_read_offset\<close> of a byte and of a quadword.\<close>

fun section_map_rem :: "elfobj \<Rightarrow> u64 \<Rightarrow> u64 \<Rightarrow> nat \<Rightarrow> proc \<Rightarrow> (bool \<times> proc) option" where
  "section_map_rem obj off dst 0 p = Some (True, p)"
| "section_map_rem obj off dst (Suc n) p =
     (case elf_read_byte obj off of
        None \<Rightarrow> Some (False, p)
      | Some b \<Rightarrow> do { p1 \<leftarrow> p_write dst [b] p; section_map_rem obj (off + 1) (dst + 1) n p1 })"

function section_map_loop :: "elfobj \<Rightarrow> u64 \<Rightarrow> u64 \<Rightarrow> nat \<Rightarrow> nat \<Rightarrow> proc \<Rightarrow> (bool \<times> proc) option" where
  "section_map_loop obj off dst len i p =
     (if len \<le> i then Some (True, p)
      else if len < i + 8 then section_map_rem obj (off + of_nat i) (dst + of_nat i) (len mod 8) p
      else (case read_n (elf_read_byte obj) (off + of_nat i) 8 of
              None \<Rightarrow> Some (False, p)
            | Some q \<Rightarrow>
                do {
                  p1 \<leftarrow> p_write (dst + of_nat i) q p;
                  section_map_loop obj off dst len (i + 8) p1
                }))"
  by pat_completeness auto
termination by (relation "measure (\<lambda>(obj, off, dst, len, i, p). len - i)") auto

declare section_map_loop.simps [simp del]

text \<open>The second component of the result is \<open>*segment_offset\<close> afterwards.\<close>

definition elf_section_map :: "elfobj \<Rightarrow> u64 \<Rightarrow> elf_section \<Rightarrow> u64 \<Rightarrow> proc \<Rightarrow> (bool \<times> u64 \<times> proc) option" where
  "elf_section_map obj dst section segment_offset p =
     do {
       (res, p1) \<leftarrow> section_map_loop obj (sec_offset section) (dst + segment_offset)
                      (unat (sec_size section)) 0 p;
       Some (res, if res then segment_offset + sec_size section else segment_offset, p1)
     }"

section \<open>Sizes, GOT entries\<close>

fun data_sections_size :: "elf_section list \<Rightarrow> u64 \<Rightarrow> u64" where
  "data_sections_size [] acc = acc"
| "data_sections_size (s # ss) acc =
     data_sections_size ss (if sec_flags s = SHF_ALLOC OR SHF_WRITE then acc + sec_size s else acc)"

definition needs_got :: "elf_relocation \<Rightarrow> bool" where
  "needs_got rel \<longleftrightarrow>
     rel_type rel = R_X86_64_PLT32 \<or> rel_type rel = R_X86_64_GOT64 \<or> rel_type rel = R_X86_64_PLTOFF64"

text \<open>A new GOT entry. The table takes \<open>os_hash_slots\<close> entries; it holds one per list entry.\<close>

fun got_loop ::
  "os \<Rightarrow> elf_relocation list \<Rightarrow> u64 \<Rightarrow> shiva_module \<Rightarrow> proc \<Rightarrow> (bool \<times> shiva_module \<times> proc) option" where
  "got_loop os [] offset linker p = Some (True, linker, p)"
| "got_loop os (rel # rels) offset linker p =
     (if \<not> needs_got rel then got_loop os rels offset linker p
      else if got_cache linker (rel_symname rel) \<noteq> None then got_loop os rels offset linker p
      else do {
        (a, p1) \<leftarrow> shiva_malloc os 40 p;
        let g = \<lparr>ge_symname = rel_symname rel, gotaddr = data_vaddr linker + pltgot_off linker + offset,
                 gotoff = offset\<rparr>;
        if os_hash_slots os \<le> length (got_list linker) then Some (False, linker, p1)
        else got_loop os rels (offset + 8)
               (linker\<lparr>got_cache := (got_cache linker)(rel_symname rel \<mapsto> g),
                       got_list := got_list linker @ [g],
                       data_size := data_size linker + 8, pltgot_size := pltgot_size linker + 8\<rparr>) p1
      })"

definition calculate_data_size :: "os \<Rightarrow> shiva_module \<Rightarrow> proc \<Rightarrow> (bool \<times> shiva_module \<times> proc) option" where
  "calculate_data_size os linker p =
     (let l1 = linker\<lparr>data_size := data_sections_size (elf_sections (mod_elfobj linker)) (data_size linker)\<rparr>;
          l2 = l1\<lparr>pltgot_off := data_size l1\<rparr>
      in (case elf_section_by_name (mod_elfobj linker) ''.bss'' of
            None \<Rightarrow> Some (False, l2, p)
          | Some section \<Rightarrow>
              got_loop os (elf_relocations (mod_elfobj linker)) 0
                (l2\<lparr>data_size := data_size l2 + sec_size section, got_cache := Map.empty, got_list := []\<rparr>) p))"

definition in_text :: "elf_section \<Rightarrow> bool" where
  "in_text s \<longleftrightarrow> has_flag (sec_flags s) SHF_ALLOC \<and> \<not> has_flag (sec_flags s) SHF_WRITE"

fun text_sections_size :: "elf_section list \<Rightarrow> u64 \<Rightarrow> u64" where
  "text_sections_size [] acc = acc"
| "text_sections_size (s # ss) acc = text_sections_size ss (if in_text s then acc + sec_size s else acc)"

definition needs_plt :: "elf_relocation \<Rightarrow> bool" where
  "needs_plt rel \<longleftrightarrow> rel_type rel = R_X86_64_PLT32 \<or> rel_type rel = R_X86_64_PLTOFF64"

fun plt_room :: "elf_relocation list \<Rightarrow> shiva_module \<Rightarrow> shiva_module" where
  "plt_room [] linker = linker"
| "plt_room (rel # rels) linker =
     plt_room rels
       (if needs_plt rel then
          linker\<lparr>plt_size := plt_size linker + 6, text_size := text_size linker + 6,
                 plt_count := plt_count linker + 1\<rparr>
        else linker)"

definition calculate_text_size :: "shiva_module \<Rightarrow> shiva_module" where
  "calculate_text_size linker =
     (let l1 = linker\<lparr>text_size := text_sections_size (elf_sections (mod_elfobj linker)) (text_size linker)\<rparr>
      in plt_room (elf_relocations (mod_elfobj linker)) (l1\<lparr>plt_off := text_size l1\<rparr>))"

section \<open>Segments\<close>

definition new_mapping ::
  "shiva_module_section_map_attr \<Rightarrow> u64 \<Rightarrow> u64 \<Rightarrow> u64 \<Rightarrow> string \<Rightarrow> shiva_module_section_mapping" where
  "new_mapping attr vaddr off len name =
     \<lparr>map_attribute = attr, smap_vaddr = vaddr, smap_offset = off, smap_size = len, smap_name = name\<rparr>"

definition add_mapping :: "shiva_module_section_mapping \<Rightarrow> shiva_module \<Rightarrow> shiva_module" where
  "add_mapping n linker = linker\<lparr>section_maplist := section_maplist linker @ [n]\<rparr>"

text \<open>\<open>off\<close> and \<open>count\<close> are the two counters of the loops.\<close>

fun data_image_loop ::
  "os \<Rightarrow> elf_section list \<Rightarrow> u64 \<Rightarrow> u64 \<Rightarrow> shiva_module \<Rightarrow> proc \<Rightarrow> (bool \<times> shiva_module \<times> proc) option" where
  "data_image_loop os [] off count linker p = Some (True, linker, p)"
| "data_image_loop os (section # ss) off count linker p =
     (if \<not> has_flag (sec_flags section) SHF_WRITE \<or> sec_size section = 0 then data_image_loop os ss off count linker p
      else do {
        (res, off1, p1) \<leftarrow> elf_section_map (mod_elfobj linker) (data_mem linker) section off p;
        if \<not> res then Some (False, linker, p1)
        else (case sys_malloc os (os_sizeof os ''shiva_module_section_mapping'') p1 of
                (None, p2) \<Rightarrow> Some (False, linker, p2)
              | (Some a, p2) \<Rightarrow>
                  data_image_loop os ss off1 (count + sec_size section)
                    (add_mapping (new_mapping LP_SECTION_DATASEGMENT (data_mem linker + count) count
                                   (sec_size section) (sec_name section)) linker) p2)
      })"

definition data_mmap_flags :: "shiva_ctx \<Rightarrow> u32" where
  "data_mmap_flags ctx =
     (if has_flag (ctx_flags ctx) SHIVA_OPTS_F_INTERP_MODE then MAP_PRIVATE OR MAP_ANONYMOUS
      else MAP_PRIVATE OR MAP_ANONYMOUS OR MAP_32BIT)"

definition create_data_image :: "os \<Rightarrow> shiva_module \<Rightarrow> proc \<Rightarrow> (bool \<times> shiva_module \<times> proc) option" where
  "create_data_image os linker p =
     (if data_size linker = 0 then Some (True, linker, p)
      else
        (let mmap_base = ELF_PAGEALIGN (text_vaddr linker + text_size linker) PAGE_SIZE
         in (case sys_mmap os mmap_base (ELF_PAGEALIGN (data_size linker) PAGE_SIZE)
                    (PROT_READ OR PROT_WRITE) (data_mmap_flags (p_ctx p)) None p of
               (None, p1) \<Rightarrow> Some (False, linker, p1)
             | (Some b, p1) \<Rightarrow>
                 data_image_loop os (elf_sections (mod_elfobj linker)) 0 0
                   (linker\<lparr>data_mem := b, data_vaddr := b\<rparr>) p1)))"

definition text_skipped :: "elf_section \<Rightarrow> bool" where
  "text_skipped s \<longleftrightarrow> \<not> in_text s \<or> sec_size s = 0 \<or> sec_name s = ''.eh_frame'' \<or> strstr (sec_name s) ''.note'' \<noteq> None"

text \<open>The result carries \<open>off\<close>, where the PLT starts.\<close>

fun text_image_loop ::
  "os \<Rightarrow> elf_section list \<Rightarrow> u64 \<Rightarrow> u64 \<Rightarrow> shiva_module \<Rightarrow> proc \<Rightarrow>
     (bool \<times> u64 \<times> shiva_module \<times> proc) option" where
  "text_image_loop os [] off count linker p = Some (True, off, linker, p)"
| "text_image_loop os (section # ss) off count linker p =
     (if text_skipped section then text_image_loop os ss off count linker p
      else do {
        (res, off1, p1) \<leftarrow> elf_section_map (mod_elfobj linker) (text_mem linker) section off p;
        if \<not> res then Some (False, off1, linker, p1)
        else (case sys_malloc os (os_sizeof os ''shiva_module_section_mapping'') p1 of
                (None, p2) \<Rightarrow> Some (False, off1, linker, p2)
              | (Some a, p2) \<Rightarrow>
                  (case sys_malloc os (of_nat (length (sec_name section)) + 1) p2 of
                     (None, p3) \<Rightarrow> Some (False, off1, linker, p3)
                   | (Some b, p3) \<Rightarrow>
                       text_image_loop os ss off1 (count + sec_size section)
                         (add_mapping (new_mapping LP_SECTION_TEXTSEGMENT (text_mem linker + count) count
                                        (sec_size section) (sec_name section)) linker) p3))
      })"

text \<open>The mapping for \<open>.plt\<close>: its offset is not set, and its size is that of the last section.\<close>

definition plt_mapping :: "link_env \<Rightarrow> shiva_module \<Rightarrow> shiva_module_section_mapping" where
  "plt_mapping env linker =
     new_mapping LP_SECTION_TEXTSEGMENT (text_vaddr linker + plt_off linker) (le_plt_offset env)
       (case elf_sections (mod_elfobj linker) of
          [] \<Rightarrow> le_plt_size env
        | s # ss \<Rightarrow> sec_size (last (s # ss)))
       ''.plt''"

text \<open>\<open>malloc\<close> of the mapping and of its name, while no stub has been placed.\<close>

definition add_plt_mapping :: "os \<Rightarrow> link_env \<Rightarrow> nat \<Rightarrow> shiva_module \<Rightarrow> proc \<Rightarrow> bool \<times> shiva_module \<times> proc" where
  "add_plt_mapping os env i linker p =
     (if i \<noteq> 0 then (True, linker, p)
      else (case sys_malloc os (os_sizeof os ''shiva_module_section_mapping'') p of
              (None, p1) \<Rightarrow> (False, linker, p1)
            | (Some a, p1) \<Rightarrow>
                (case sys_malloc os 5 p1 of
                   (None, p2) \<Rightarrow> (False, linker, p2)
                 | (Some b, p2) \<Rightarrow> (True, add_mapping (plt_mapping env linker) linker, p2))))"

definition new_plt :: "shiva_module \<Rightarrow> string \<Rightarrow> nat \<Rightarrow> shiva_module_plt_entry" where
  "new_plt linker name i =
     \<lparr>pe_symname = name, pe_vaddr = text_vaddr linker + plt_off linker + of_nat i * 6,
      pe_offset = plt_off linker + of_nat i * 6, pe_plt_count = 1\<rparr>"

fun plt_image_loop ::
  "os \<Rightarrow> link_env \<Rightarrow> elf_relocation list \<Rightarrow> nat \<Rightarrow> shiva_module \<Rightarrow> proc \<Rightarrow> (bool \<times> shiva_module \<times> proc) option" where
  "plt_image_loop os env [] i linker p = Some (True, linker, p)"
| "plt_image_loop os env (rel # rels) i linker p =
     (case add_plt_mapping os env i linker p of
        (False, l1, p1) \<Rightarrow> Some (False, l1, p1)
      | (True, l1, p1) \<Rightarrow>
          if \<not> needs_plt rel then plt_image_loop os env rels i l1 p1
          else (case sys_malloc os 48 p1 of
                  (None, p2) \<Rightarrow> Some (False, l1, p2)
                | (Some a, p2) \<Rightarrow>
                    (case sys_malloc os (of_nat (length (rel_symname rel)) + 1) p2 of
                       (None, p3) \<Rightarrow> Some (False, l1, p3)
                     | (Some b, p3) \<Rightarrow>
                         do {
                           p4 \<leftarrow> p_write (text_mem l1 + (plt_off l1 + of_nat i * 6)) plt_stub p3;
                           plt_image_loop os env rels (Suc i)
                             (l1\<lparr>plt_list := plt_list l1 @ [new_plt l1 (rel_symname rel) i]\<rparr>) p4
                         })))"

text \<open>Where the text segment is wanted: behind the heap in interpreter mode.\<close>

definition text_mmap_base :: "shiva_ctx \<Rightarrow> u64 option" where
  "text_mmap_base ctx =
     (if has_flag (ctx_flags ctx) SHIVA_OPTS_F_INTERP_MODE then
        do {
          r \<leftarrow> iter_find maps_nxt (\<lambda>e. mmap_type e = SHIVA_MMAP_TYPE_HEAP) (shiva_maps_iterator_init ctx);
          Some (case r of
                  None \<Rightarrow> 0
                | Some e \<Rightarrow> ELF_PAGEALIGN (map_base e + map_len e) PAGE_SIZE + 4096 * 8)
        }
      else Some 0x6000000)"

definition text_mmap_flags :: "shiva_ctx \<Rightarrow> u32" where
  "text_mmap_flags ctx =
     (if has_flag (ctx_flags ctx) SHIVA_OPTS_F_INTERP_MODE then MAP_PRIVATE OR MAP_ANONYMOUS
      else MAP_PRIVATE OR MAP_ANONYMOUS OR MAP_32BIT OR MAP_FIXED)"

definition create_text_image ::
  "os \<Rightarrow> link_env \<Rightarrow> shiva_module \<Rightarrow> proc \<Rightarrow> (bool \<times> shiva_module \<times> proc) option" where
  "create_text_image os env linker p =
     do {
       mmap_base \<leftarrow> text_mmap_base (p_ctx p);
       (case sys_mmap os mmap_base (ELF_PAGEALIGN (text_size linker) PAGE_SIZE)
               (PROT_READ OR PROT_WRITE OR PROT_EXEC) (text_mmap_flags (p_ctx p)) None p of
          (None, p1) \<Rightarrow> Some (False, linker, p1)
        | (Some b, p1) \<Rightarrow>
            do {
              (res, off, l2, p2) \<leftarrow> text_image_loop os (elf_sections (mod_elfobj linker)) 0 0
                                     (linker\<lparr>text_mem := b, text_vaddr := b\<rparr>) p1;
              if \<not> res then Some (False, l2, p2)
              else plt_image_loop os env (elf_relocations (mod_elfobj linker)) 0 (l2\<lparr>plt_off := off\<rparr>) p2
            })
     }"

section \<open>The loader\<close>

text \<open>\<open>memset(linker, 0, sizeof(*linker))\<close>\<close>

definition zero_module :: shiva_module where
  "zero_module =
     \<lparr>mod_flags = 0, text_mem = 0, data_mem = 0, pltgot_size = 0, plt_size = 0, plt_off = 0,
      plt_count = 0, pltgot_off = 0, text_size = 0, data_size = 0, text_vaddr = 0, data_vaddr = 0,
      shiva_base = 0, mod_elfobj = null_elfobj, mod_self = null_elfobj, got_list = [],
      section_maplist = [], plt_list = [], got_cache = Map.empty\<rparr>"

text \<open>The steps after both objects are open: sizes, images, relocations, stubs and GOT.\<close>

definition module_link ::
  "os \<Rightarrow> link_env \<Rightarrow> shiva_module \<Rightarrow> proc \<Rightarrow> (bool \<times> shiva_module \<times> proc) option" where
  "module_link os env linker p =
     do {
       (ok1, l1, p1) \<leftarrow> calculate_data_size os (calculate_text_size linker) p;
       if \<not> ok1 then Some (False, l1, p1)
       else do {
         (ok2, l2, p2) \<leftarrow> create_text_image os env l1 p1;
         if \<not> ok2 then Some (False, l2, p2)
         else do {
           (ok3, l3, p3) \<leftarrow> create_data_image os l2 p2;
           if \<not> ok3 then Some (False, l3, p3)
           else do {
             (ok4, p4) \<leftarrow> relocate_module env l3 p3;
             if \<not> ok4 then Some (False, l3, p4)
             else do {
               (ok5, p5) \<leftarrow> patch_plt_stubs l3 p4;
               if \<not> ok5 then Some (False, l3, p5)
               else do {
                 (ok6, p6) \<leftarrow> resolve_pltgot_entries env l3 p5;
                 Some (ok6, l3, p6)
               }
             }
           }
         }
       }
     }"

text \<open>The middle component of the result is \<open>*linkerptr\<close>.\<close>

definition shiva_module_loader ::
  "os \<Rightarrow> link_env \<Rightarrow> (u64 \<Rightarrow> shiva_module \<Rightarrow> proc \<Rightarrow> proc option) \<Rightarrow> string \<Rightarrow> u64 \<Rightarrow> proc \<Rightarrow>
     (bool \<times> shiva_module option \<times> proc) option" where
  "shiva_module_loader os env run path flags p =
     (case sys_malloc os (os_sizeof os ''shiva_module'') p of
        (None, p1) \<Rightarrow> Some (False, None, p1)
      | (Some a, p1) \<Rightarrow>
          (let l0 = zero_module\<lparr>mod_flags := flags, shiva_base := ctx_shiva_base (p_ctx p1)\<rparr>;
               shiva_path = (if has_flag (ctx_flags (p_ctx p1)) SHIVA_OPTS_F_INTERP_MODE
                             then elf_interpreter_path (ctx_elfobj (p_ctx p1)) else Some ''/proc/self/exe'')
           in (case os_open_object os path of
                 None \<Rightarrow> Some (False, Some l0, p1)
               | Some obj \<Rightarrow>
                   (case Option.bind shiva_path (os_open_object os) of
                      None \<Rightarrow> Some (False, Some (l0\<lparr>mod_elfobj := obj\<rparr>), p1)
                    | Some self \<Rightarrow>
                        do {
                          (ok, l, p2) \<leftarrow> module_link os env (l0\<lparr>mod_elfobj := obj, mod_self := self\<rparr>)
                                           (p1\<lparr>p_ctx := (p_ctx p1)\<lparr>ctx_shiva_elfobj := self\<rparr>\<rparr>);
                          if \<not> ok then Some (False, Some l, p2)
                          else (case module_entrypoint env l of
                                  None \<Rightarrow> Some (False, Some l, p2)
                                | Some entry \<Rightarrow>
                                    do {
                                      p3 \<leftarrow> transfer_to_module run entry l p2;
                                      Some (True, Some l, p3)
                                    })
                        }))))"

end
