(* ===== verification/Module_Image.thy ===== *)
theory Module_Image
  imports Module
begin

text \<open>
  The images of \<^verbatim>\<open>shiva_module.c\<close>: what the text and the data segment of a module hold before the
  relocations are applied, and how GOT entries and PLT stubs are laid out.
\<close>

section \<open>Copying a section\<close>

lemma section_map_rem_bytes:
  "read_n (elf_read_byte obj) off n = Some bs \<Longrightarrow> n < 2 ^ 64 \<Longrightarrow> writable (p_prot p) dst n \<Longrightarrow>
     section_map_rem obj off dst n p = Some (True, p\<lparr>p_mem := write_bytes (p_mem p) dst bs\<rparr>)"
proof (induction n arbitrary: off dst p bs)
  case (Suc n)
  then obtain b cs where bs: "elf_read_byte obj off = Some b" "read_n (elf_read_byte obj) (off + 1) n = Some cs" "bs = b # cs"
    by (auto split: Option.bind_split_asm)
  have w: "writable (p_prot p) dst 1" "writable (p_prot p) (dst + 1) n"
    using Suc.prems(3) writable_split [of _ dst 1 n] by simp_all
  with Suc.IH [OF bs(2), of "p\<lparr>p_mem := (p_mem p)(dst := b)\<rparr>" "dst + 1"] Suc.prems bs read_n_length [OF bs(2)]
  show ?case by (simp add: p_write_def write_bytes_single write_bytes_Cons del: fun_upd_apply)
qed simp

lemma section_map_loop_bytes:
  assumes "read_n (elf_read_byte obj) (off + of_nat i) n = Some bs" and "len = i + n" and "i mod 8 = 0"
    and "len < 2 ^ 64" and "writable (p_prot p) (dst + of_nat i) n"
  shows "section_map_loop obj off dst len i p =
           Some (True, p\<lparr>p_mem := write_bytes (p_mem p) (dst + of_nat i) bs\<rparr>)"
  using assms
proof (induction n arbitrary: i bs p rule: less_induct)
  case (less n)
  have len: "length bs = n" using less.prems(1) by (rule read_n_length)
  have m8: "len mod 8 = n mod 8" using less.prems(2,3) by presburger
  consider "n = 0" | "0 < n" "n < 8" | "8 \<le> n" by linarith
  then show ?case
  proof cases
    case 1
    with less.prems(2) len show ?thesis by (simp add: section_map_loop.simps)
  next
    case 2
    with less.prems m8 section_map_rem_bytes [of obj "off + of_nat i" n bs p "dst + of_nat i"]
    show ?thesis by (simp add: section_map_loop.simps)
  next
    case 3
    then obtain k where k: "n = 8 + k" using le_Suc_ex by blast
    have q: "read_n (elf_read_byte obj) (off + of_nat i) 8 = Some (take 8 bs)"
        "read_n (elf_read_byte obj) (off + of_nat (i + 8)) k = Some (drop 8 bs)"
      using read_n_split [of "elf_read_byte obj" "off + of_nat i" 8 k bs] less.prems(1) k
      by (simp_all add: add.assoc)
    have w: "writable (p_prot p) (dst + of_nat i) 8" "writable (p_prot p) (dst + of_nat (i + 8)) k"
      using less.prems(5) writable_split [of _ "dst + of_nat i" 8 k] k by (simp_all add: add.assoc)
    define p1 where "p1 = p\<lparr>p_mem := write_bytes (p_mem p) (dst + of_nat i) (take 8 bs)\<rparr>"
    have "section_map_loop obj off dst len (i + 8) p1 =
        Some (True, p1\<lparr>p_mem := write_bytes (p_mem p1) (dst + of_nat (i + 8)) (drop 8 bs)\<rparr>)"
      using less.prems(2,3,4) k w(2) by (intro less.IH [OF _ q(2)]) (auto simp: p1_def)
    moreover have "write_bytes (p_mem p1) (dst + of_nat (i + 8)) (drop 8 bs) = write_bytes (p_mem p) (dst + of_nat i) bs"
      using write_bytes_append [of "take 8 bs" "drop 8 bs" "p_mem p" "dst + of_nat i"] len k less.prems(2,4)
      by (simp add: p1_def add.assoc)
    ultimately show ?thesis
      using less.prems(2) q(1) w(1) k len
      by (subst section_map_loop.simps) (simp add: p_write_def p1_def)
  qed
qed

text \<open>The bytes of a section in the file.\<close>

definition section_bytes :: "elfobj \<Rightarrow> elf_section \<Rightarrow> u8 list option" where
  "section_bytes obj s = read_n (elf_read_byte obj) (sec_offset s) (unat (sec_size s))"

lemma read_n_total: "(\<And>x. rd x \<noteq> None) \<Longrightarrow> \<exists>bs. read_n rd a n = Some bs"
proof (induction n arbitrary: a)
  case (Suc n)
  from Suc.prems [of a] Suc.IH [OF Suc.prems, of "a + 1"] show ?case by auto
qed simp

lemma elf_section_map_bytes:
  assumes "section_bytes obj s = Some bs" and "writable (p_prot p) (dst + so) (unat (sec_size s))"
  shows "elf_section_map obj dst s so p =
    Some (True, so + sec_size s, p\<lparr>p_mem := write_bytes (p_mem p) (dst + so) bs\<rparr>)"
  using section_map_loop_bytes [of obj "sec_offset s" 0 "unat (sec_size s)" bs "unat (sec_size s)" p "dst + so"]
    assms unsigned_less [where ?'a = nat, of "sec_size s"]
  by (simp add: elf_section_map_def section_bytes_def)

section \<open>The loops over the sections\<close>

text \<open>Consecutive mappings from an offset on.\<close>

fun section_layout ::
  "shiva_module_section_map_attr \<Rightarrow> u64 \<Rightarrow> u64 \<Rightarrow> elf_section list \<Rightarrow> shiva_module_section_mapping list" where
  "section_layout attr b off [] = []"
| "section_layout attr b off (s # ss) =
     new_mapping attr (b + off) off (sec_size s) (sec_name s) # section_layout attr b (off + sec_size s) ss"

definition image_bytes :: "elfobj \<Rightarrow> elf_section list \<Rightarrow> u8 list" where
  "image_bytes obj ss = concat (map (\<lambda>s. the (section_bytes obj s)) ss)"

lemma image_bytes_simps [simp]:
  "image_bytes obj [] = []" "image_bytes obj (s # ss) = the (section_bytes obj s) @ image_bytes obj ss"
  by (simp_all add: image_bytes_def)

text \<open>
  What the loops of \<open>create_text_image\<close> and \<open>create_data_image\<close> share: sections are skipped or
  copied behind each other, and a mapping is recorded for each copy.
\<close>

locale image_loop =
  fixes loop :: "os \<Rightarrow> elf_section list \<Rightarrow> u64 \<Rightarrow> shiva_module \<Rightarrow> proc \<Rightarrow> 'r option"
    and res :: "u64 \<Rightarrow> shiva_module \<Rightarrow> proc \<Rightarrow> 'r"
    and skip :: "elf_section \<Rightarrow> bool"
    and attr :: shiva_module_section_map_attr
    and base :: "shiva_module \<Rightarrow> u64"
  assumes loop_done: "loop os [] off l p = Some (res off l p)"
    and loop_skip: "skip s \<Longrightarrow> loop os (s # ss) off l p = loop os ss off l p"
    and loop_keep: "\<not> skip s \<Longrightarrow> malloc_ok os \<Longrightarrow>
          elf_section_map (mod_elfobj l) (base l) s off p = Some (True, off + sec_size s, p1) \<Longrightarrow>
          \<exists>n. loop os (s # ss) off l p =
                loop os ss (off + sec_size s)
                  (add_mapping (new_mapping attr (base l + off) off (sec_size s) (sec_name s)) l) (p1\<lparr>p_calls := n\<rparr>)"
    and base_maplist: "base (l\<lparr>section_maplist := m\<rparr>) = base l"
begin

lemma loop_run:
  assumes "malloc_ok os" and "\<forall>s \<in> set ss. \<not> skip s \<longrightarrow> section_bytes (mod_elfobj l) s \<noteq> None"
    and "kept = filter (\<lambda>s. \<not> skip s) ss" and "bs = image_bytes (mod_elfobj l) kept"
    and "writable (p_prot p) (base l + off) (length bs)" and "length bs < 2 ^ 64"
  shows "\<exists>n. loop os ss off l p =
    Some (res (off + of_nat (length bs))
      (l\<lparr>section_maplist := section_maplist l @ section_layout attr (base l) off kept\<rparr>)
      (p\<lparr>p_mem := write_bytes (p_mem p) (base l + off) bs, p_calls := n\<rparr>))"
  using assms
proof (induction ss arbitrary: off l p kept bs)
  case Nil
  then show ?case by (intro exI [of _ "p_calls p"]) (simp add: loop_done)
next
  case (Cons s ss)
  show ?case
  proof (cases "skip s")
    case True
    with Cons show ?thesis by (simp add: loop_skip)
  next
    case False
    let ?l = "add_mapping (new_mapping attr (base l + off) off (sec_size s) (sec_name s)) l"
    define cs where "cs = image_bytes (mod_elfobj l) (filter (\<lambda>s. \<not> skip s) ss)"
    obtain b where b: "section_bytes (mod_elfobj l) s = Some b" using Cons.prems(2) False by auto
    then have lb: "length b = unat (sec_size s)" unfolding section_bytes_def by (rule read_n_length)
    then have w: "of_nat (length b) = sec_size s" by simp
    have bs: "bs = b @ cs" using Cons.prems(3,4) False b by (simp add: cs_def)
    have wr: "writable (p_prot p) (base l + off) (length b)" "writable (p_prot p) (base l + (off + sec_size s)) (length cs)"
      using Cons.prems(5) writable_split [of "p_prot p" "base l + off" "length b" "length cs"]
      by (simp_all add: bs w add.assoc)
    define p1 where "p1 = p\<lparr>p_mem := write_bytes (p_mem p) (base l + off) b\<rparr>"
    have "elf_section_map (mod_elfobj l) (base l) s off p = Some (True, off + sec_size s, p1)"
      unfolding p1_def by (rule elf_section_map_bytes [OF b]) (use wr(1) lb in simp)
    from loop_keep [OF False Cons.prems(1) this] obtain n where n:
      "loop os (s # ss) off l p = loop os ss (off + sec_size s) ?l (p1\<lparr>p_calls := n\<rparr>)" by blast
    have "mod_elfobj ?l = mod_elfobj l" "section_maplist ?l = section_maplist l @ [new_mapping attr (base l + off) off (sec_size s) (sec_name s)]"
      by (simp_all add: add_mapping_def)
    moreover have "write_bytes (write_bytes (p_mem p) (base l + off) b) (base l + (off + sec_size s)) cs =
        write_bytes (p_mem p) (base l + off) bs"
      using write_bytes_append [of b cs "p_mem p" "base l + off"] Cons.prems(6) by (simp add: bs w add.assoc)
    moreover obtain k where "loop os ss (off + sec_size s) ?l (p1\<lparr>p_calls := n\<rparr>) =
        Some (res (off + sec_size s + of_nat (length cs))
          (?l\<lparr>section_maplist := section_maplist ?l @ section_layout attr (base ?l) (off + sec_size s) (filter (\<lambda>s. \<not> skip s) ss)\<rparr>)
          (p1\<lparr>p_mem := write_bytes (p_mem p1) (base ?l + (off + sec_size s)) cs, p_calls := k\<rparr>))"
      using Cons.IH [of ?l "filter (\<lambda>s. \<not> skip s) ss" cs "p1\<lparr>p_calls := n\<rparr>" "off + sec_size s"] Cons.prems(1,2,6) wr(2)
      by (auto simp: add_mapping_def base_maplist cs_def p1_def bs)
    ultimately show ?thesis
      using Cons.prems(3) False by (intro exI [of _ k]) (simp add: n base_maplist add_mapping_def p1_def bs w add.assoc)
  qed
qed

end

interpretation text_loop: image_loop "\<lambda>os ss off. text_image_loop os ss off off"
  "\<lambda>off l p. (True, off, l, p)" text_skipped LP_SECTION_TEXTSEGMENT text_mem
proof
  fix os :: os and s ss off and l :: shiva_module and p p1 :: proc
  assume "\<not> text_skipped s" "malloc_ok os"
    "elf_section_map (mod_elfobj l) (text_mem l) s off p = Some (True, off + sec_size s, p1)"
  then show "\<exists>n. text_image_loop os (s # ss) off off l p =
      text_image_loop os ss (off + sec_size s) (off + sec_size s)
        (add_mapping (new_mapping LP_SECTION_TEXTSEGMENT (text_mem l + off) off (sec_size s) (sec_name s)) l)
        (p1\<lparr>p_calls := n\<rparr>)"
    using sys_malloc_ok [of os "os_sizeof os ''shiva_module_section_mapping''" p1] sys_malloc_ok [of os "of_nat (length (sec_name s)) + 1" "p1\<lparr>p_calls := Suc (p_calls p1)\<rparr>"]
    by (auto intro!: exI [of _ "Suc (Suc (p_calls p1))"])
qed simp_all

interpretation data_loop: image_loop "\<lambda>os ss off. data_image_loop os ss off off"
  "\<lambda>off l p. (True, l, p)" "\<lambda>s. \<not> has_flag (sec_flags s) SHF_WRITE \<or> sec_size s = 0" LP_SECTION_DATASEGMENT data_mem
proof
  fix os :: os and s ss off and l :: shiva_module and p p1 :: proc
  assume "\<not> (\<not> has_flag (sec_flags s) SHF_WRITE \<or> sec_size s = 0)" "malloc_ok os"
    "elf_section_map (mod_elfobj l) (data_mem l) s off p = Some (True, off + sec_size s, p1)"
  then show "\<exists>n. data_image_loop os (s # ss) off off l p =
      data_image_loop os ss (off + sec_size s) (off + sec_size s)
        (add_mapping (new_mapping LP_SECTION_DATASEGMENT (data_mem l + off) off (sec_size s) (sec_name s)) l)
        (p1\<lparr>p_calls := n\<rparr>)"
    using sys_malloc_ok [of os "os_sizeof os ''shiva_module_section_mapping''" p1] by (auto intro!: exI [of _ "Suc (p_calls p1)"])
qed auto

section \<open>The PLT\<close>

definition plt_names :: "elf_relocation list \<Rightarrow> string list" where
  "plt_names rels = map rel_symname (filter needs_plt rels)"

definition plt_entries :: "shiva_module \<Rightarrow> nat \<Rightarrow> string list \<Rightarrow> shiva_module_plt_entry list" where
  "plt_entries linker i names = map (\<lambda>(j, nm). new_plt linker nm j) (enumerate i names)"

lemma length_plt_stub [simp]: "length plt_stub = 6"
  by (simp add: plt_stub_def)

lemma length_stubs [simp]: "length (concat (replicate k plt_stub)) = 6 * k"
  by (induction k) simp_all

lemma new_plt_upd [simp]:
  "new_plt (l\<lparr>section_maplist := ms\<rparr>) = new_plt l" "new_plt (l\<lparr>plt_list := ps\<rparr>) = new_plt l"
  "plt_entries (l\<lparr>section_maplist := ms\<rparr>) = plt_entries l" "plt_entries (l\<lparr>plt_list := ps\<rparr>) = plt_entries l"
  by (simp_all add: fun_eq_iff new_plt_def plt_entries_def)

lemma plt_mapping_upd [simp]:
  "plt_mapping env (l\<lparr>section_maplist := ms\<rparr>) = plt_mapping env l" "plt_mapping env (l\<lparr>plt_list := ps\<rparr>) = plt_mapping env l"
  by (simp_all add: plt_mapping_def)

lemma add_plt_mapping_run:
  assumes "malloc_ok os"
  shows "\<exists>j n. add_plt_mapping os env i l p =
    (True, l\<lparr>section_maplist := section_maplist l @ replicate j (plt_mapping env l)\<rparr>, p\<lparr>p_calls := n\<rparr>)"
proof (cases "i = 0")
  case True
  with sys_malloc_ok [OF assms, of "os_sizeof os ''shiva_module_section_mapping''" p] sys_malloc_ok [OF assms, of 5 "p\<lparr>p_calls := Suc (p_calls p)\<rparr>"]
  show ?thesis
    by (intro exI [of _ 1] exI [of _ "Suc (Suc (p_calls p))"]) (auto simp: add_plt_mapping_def add_mapping_def True)
qed (rule exI [of _ 0], rule exI [of _ "p_calls p"], simp add: add_plt_mapping_def)

lemma plt_image_loop_run:
  assumes "malloc_ok os" and "names = plt_names rels"
    and "writable (p_prot p) (text_mem l + (plt_off l + of_nat i * 6)) (6 * length names)"
    and "6 * length names < 2 ^ 64"
  shows "\<exists>j n. plt_image_loop os env rels i l p =
    Some (True, l\<lparr>section_maplist := section_maplist l @ replicate j (plt_mapping env l),
                  plt_list := plt_list l @ plt_entries l i names\<rparr>,
          p\<lparr>p_mem := write_bytes (p_mem p) (text_mem l + (plt_off l + of_nat i * 6)) (concat (replicate (length names) plt_stub)),
            p_calls := n\<rparr>)"
  using assms
proof (induction rels arbitrary: i l p names)
  case Nil
  then show ?case
    by (intro exI [of _ 0] exI [of _ "p_calls p"]) (simp add: plt_names_def plt_entries_def)
next
  case (Cons rel rels)
  obtain j n where m: "add_plt_mapping os env i l p =
      (True, l\<lparr>section_maplist := section_maplist l @ replicate j (plt_mapping env l)\<rparr>, p\<lparr>p_calls := n\<rparr>)"
    using add_plt_mapping_run [OF Cons.prems(1)] by blast
  let ?l = "l\<lparr>section_maplist := section_maplist l @ replicate j (plt_mapping env l)\<rparr>"
  show ?case
  proof (cases "needs_plt rel")
    case False
    obtain j' n' where "plt_image_loop os env rels i ?l (p\<lparr>p_calls := n\<rparr>) =
        Some (True, ?l\<lparr>section_maplist := section_maplist ?l @ replicate j' (plt_mapping env ?l),
                       plt_list := plt_list ?l @ plt_entries ?l i names\<rparr>,
          p\<lparr>p_calls := n, p_mem := write_bytes (p_mem p) (text_mem ?l + (plt_off ?l + of_nat i * 6)) (concat (replicate (length names) plt_stub)),
            p_calls := n'\<rparr>)"
      using Cons.IH [of names "p\<lparr>p_calls := n\<rparr>" ?l i] Cons.prems False by (auto simp: plt_names_def)
    then show ?thesis
      using False m by (intro exI [of _ "j + j'"] exI [of _ n']) (simp add: replicate_add)
  next
    case True
    define ns where "ns = plt_names rels"
    have names: "names = rel_symname rel # ns" using Cons.prems(2) True by (simp add: plt_names_def ns_def)
    let ?a = "text_mem l + (plt_off l + of_nat i * 6)" and ?b = "text_mem l + (plt_off l + of_nat (Suc i) * 6)"
    have b: "?b = ?a + of_nat (length plt_stub)" by (simp add: algebra_simps)
    have w: "writable (p_prot p) ?a (length plt_stub)" "writable (p_prot p) ?b (6 * length ns)"
      using Cons.prems(3) writable_split [of "p_prot p" ?a 6 "6 * length ns"]
      unfolding b by (simp_all add: names add.commute)
    define p1 where "p1 = p\<lparr>p_calls := Suc (Suc n), p_mem := write_bytes (p_mem p) ?a plt_stub\<rparr>"
    let ?l2 = "?l\<lparr>plt_list := plt_list l @ [new_plt l (rel_symname rel) i]\<rparr>"
    have step: "plt_image_loop os env (rel # rels) i l p = plt_image_loop os env rels (Suc i) ?l2 p1"
      using m True w(1) sys_malloc_ok [OF Cons.prems(1), of 48 "p\<lparr>p_calls := n\<rparr>"]
        sys_malloc_ok [OF Cons.prems(1), of "of_nat (length (rel_symname rel)) + 1" "p\<lparr>p_calls := Suc n\<rparr>"]
      by (auto simp: p_write_def p1_def)
    have mem: "write_bytes (write_bytes (p_mem p) ?a plt_stub) ?b (concat (replicate (length ns) plt_stub)) =
        write_bytes (p_mem p) ?a (concat (replicate (length names) plt_stub))"
      unfolding b using Cons.prems(4) by (subst write_bytes_append) (simp_all add: names)
    obtain j' n' where "plt_image_loop os env rels (Suc i) ?l2 p1 =
        Some (True, ?l2\<lparr>section_maplist := section_maplist ?l2 @ replicate j' (plt_mapping env ?l2),
                       plt_list := plt_list ?l2 @ plt_entries ?l2 (Suc i) ns\<rparr>,
          p1\<lparr>p_mem := write_bytes (p_mem p1) (text_mem ?l2 + (plt_off ?l2 + of_nat (Suc i) * 6)) (concat (replicate (length ns) plt_stub)),
            p_calls := n'\<rparr>)"
      using Cons.IH [of ns p1 ?l2 "Suc i"] Cons.prems(1,4) w(2) by (auto simp: ns_def names p1_def simp del: of_nat_Suc)
    moreover have "plt_entries l i names = new_plt l (rel_symname rel) i # plt_entries l (Suc i) ns"
      by (simp add: names plt_entries_def)
    ultimately show ?thesis
      unfolding step using mem by (intro exI [of _ "j + j'"] exI [of _ n']) (simp add: p1_def replicate_add del: of_nat_Suc)
  qed
qed

section \<open>Sizes of the segments\<close>

definition sizes_sum :: "elf_section list \<Rightarrow> nat" where
  "sizes_sum ss = sum_list (map (\<lambda>s. unat (sec_size s)) ss)"

lemma sizes_sum_simps [simp]: "sizes_sum [] = 0" "sizes_sum (s # ss) = unat (sec_size s) + sizes_sum ss"
  by (simp_all add: sizes_sum_def)

lemma text_sections_size_eq: "text_sections_size ss acc = acc + of_nat (sizes_sum (filter in_text ss))"
  by (induction ss arbitrary: acc) (simp_all add: add.assoc)

lemma plt_room_eq:
  "plt_room rels l =
     l\<lparr>plt_size := plt_size l + of_nat (6 * length (plt_names rels)),
       plt_count := plt_count l + of_nat (length (plt_names rels)),
       text_size := text_size l + of_nat (6 * length (plt_names rels))\<rparr>"
  by (induction rels arbitrary: l) (simp_all add: plt_names_def algebra_simps)

lemma length_image_bytes:
  "\<forall>s \<in> set ss. section_bytes obj s \<noteq> None \<Longrightarrow> length (image_bytes obj ss) = sizes_sum ss"
proof (induction ss)
  case (Cons s ss)
  then obtain b where "section_bytes obj s = Some b" by auto
  moreover from this have "length b = unat (sec_size s)" unfolding section_bytes_def by (rule read_n_length)
  ultimately show ?case using Cons by simp
qed simp

lemma sizes_sum_filter: "(\<And>s. Q s \<Longrightarrow> P s) \<Longrightarrow> sizes_sum (filter Q ss) \<le> sizes_sum (filter P ss)"
  by (induction ss) auto

text \<open>The room calculated for the text segment covers the sections that are copied and the stubs.\<close>

lemma calculate_text_size_covers:
  assumes "text_size l0 = 0" and "sizes_sum (filter in_text (elf_sections (mod_elfobj l0))) +
      6 * length (plt_names (elf_relocations (mod_elfobj l0))) < 2 ^ 64"
  shows "sizes_sum (filter (\<lambda>s. \<not> text_skipped s) (elf_sections (mod_elfobj l0))) +
      6 * length (plt_names (elf_relocations (mod_elfobj l0))) \<le> unat (text_size (calculate_text_size l0))"
    and "mod_elfobj (calculate_text_size l0) = mod_elfobj l0"
    and "unat (text_size (calculate_text_size l0)) = sizes_sum (filter in_text (elf_sections (mod_elfobj l0))) +
      6 * length (plt_names (elf_relocations (mod_elfobj l0)))"
proof -
  let ?n = "sizes_sum (filter in_text (elf_sections (mod_elfobj l0))) + 6 * length (plt_names (elf_relocations (mod_elfobj l0)))"
  have t: "text_size (calculate_text_size l0) = of_nat ?n"
    using assms(1) by (simp add: calculate_text_size_def Let_def plt_room_eq text_sections_size_eq)
  show u: "unat (text_size (calculate_text_size l0)) = ?n"
    unfolding t unat_of_nat using assms(2) by (simp add: take_bit_nat_eq_self)
  show "mod_elfobj (calculate_text_size l0) = mod_elfobj l0"
    by (simp add: calculate_text_size_def Let_def plt_room_eq)
  show "sizes_sum (filter (\<lambda>s. \<not> text_skipped s) (elf_sections (mod_elfobj l0))) +
      6 * length (plt_names (elf_relocations (mod_elfobj l0))) \<le> unat (text_size (calculate_text_size l0))"
    unfolding u using sizes_sum_filter [of "\<lambda>s. \<not> text_skipped s" in_text] by (auto simp: text_skipped_def)
qed

section \<open>The text image\<close>

definition mmap_ok :: "os \<Rightarrow> bool" where
  "mmap_ok os \<longleftrightarrow> (\<forall>n a len pr fl. os_mmap os n a len pr fl \<noteq> None)"

lemma sys_mmap_anon:
  assumes "mmap_ok os"
  obtains b where "sys_mmap os a len pr fl None p =
    (Some b, p\<lparr>p_calls := Suc (p_calls p), p_mem := zero_bytes (p_mem p) b (map_pages len),
               p_prot := (\<lambda>x. if in_region b (map_pages len) x then pr else p_prot p x)\<rparr>)"
proof -
  from assms have "os_mmap os (p_calls p) a len pr fl \<noteq> None" by (simp add: mmap_ok_def)
  then obtain b where "os_mmap os (p_calls p) a len pr fl = Some b" by blast
  with that [of b] show thesis by (simp add: sys_mmap_def Let_def zero_bytes_def if_distrib cong: if_cong)
qed

lemma text_mmap_base_total: "\<exists>a. text_mmap_base ctx = Some a"
  by (simp add: text_mmap_base_def maps_it.iter_find_items)

lemma writable_mapping:
  assumes "n \<le> k" and "k \<le> 2 ^ 64" and "has_flag pr PROT_WRITE"
  shows "writable (\<lambda>x. if in_region b k x then pr else pr' x) b n"
  using assms by (simp add: writable_def)

lemma map_pages_align:
  assumes "unat n + 4096 < 2 ^ 64"
  shows "map_pages (ELF_PAGEALIGN n PAGE_SIZE) = map_pages n" and "unat n \<le> map_pages n" and "map_pages n \<le> 2 ^ 64"
proof -
  have b: "unat n \<le> (unat n + 4095) div 4096 * 4096" "(unat n + 4095) div 4096 * 4096 < unat n + 4096"
    using roundup_bounds [of 4096 "unat n"] by simp_all
  show "unat n \<le> map_pages n" "map_pages n \<le> 2 ^ 64" using b assms by (simp_all add: map_pages_def)
  have "unat (ELF_PAGEALIGN n PAGE_SIZE) = (unat n + 4095) div 4096 * 4096"
    using assms by (simp add: PAGE_SIZE_def unat_ELF_PAGEALIGN)
  then show "map_pages (ELF_PAGEALIGN n PAGE_SIZE) = map_pages n"
    by (simp add: map_pages_def)
qed

text \<open>Creating the text segment in memory that can be had.\<close>

lemma create_text_image_run:
  assumes ok: "malloc_ok os" "mmap_ok os"
    and kept: "kept = filter (\<lambda>s. \<not> text_skipped s) (elf_sections (mod_elfobj l))" "names = plt_names (elf_relocations (mod_elfobj l))"
    and rd: "\<forall>s \<in> set kept. section_bytes (mod_elfobj l) s \<noteq> None"
    and fit: "sizes_sum kept + 6 * length names \<le> unat (text_size l)" "unat (text_size l) + 4096 < 2 ^ 64"
  shows "\<exists>b j n. create_text_image os env l p =
    (let l' = l\<lparr>text_mem := b, text_vaddr := b, plt_off := of_nat (sizes_sum kept)\<rparr>
     in Some (True,
          l'\<lparr>section_maplist := section_maplist l @ section_layout LP_SECTION_TEXTSEGMENT b 0 kept @ replicate j (plt_mapping env l'),
             plt_list := plt_list l @ plt_entries l' 0 names\<rparr>,
          p\<lparr>p_mem := write_bytes (zero_bytes (p_mem p) b (map_pages (text_size l))) b
                       (image_bytes (mod_elfobj l) kept @ concat (replicate (length names) plt_stub)),
            p_prot := (\<lambda>x. if in_region b (map_pages (text_size l)) x then PROT_READ OR PROT_WRITE OR PROT_EXEC else p_prot p x),
            p_calls := n\<rparr>))"
proof -
  let ?pr = "PROT_READ OR PROT_WRITE OR PROT_EXEC"
  note pages = map_pages_align [OF fit(2)]
  define bs where "bs = image_bytes (mod_elfobj l) kept"
  have lb: "length bs = sizes_sum kept" unfolding bs_def using rd by (rule length_image_bytes)
  obtain a where a: "text_mmap_base (p_ctx p) = Some a" using text_mmap_base_total by blast
  obtain b where b: "sys_mmap os a (ELF_PAGEALIGN (text_size l) PAGE_SIZE) ?pr (text_mmap_flags (p_ctx p)) None p =
      (Some b, p\<lparr>p_calls := Suc (p_calls p), p_mem := zero_bytes (p_mem p) b (map_pages (text_size l)),
                 p_prot := (\<lambda>x. if in_region b (map_pages (text_size l)) x then ?pr else p_prot p x)\<rparr>)"
    by (rule sys_mmap_anon [OF ok(2), of a "ELF_PAGEALIGN (text_size l) PAGE_SIZE" ?pr "text_mmap_flags (p_ctx p)" p, unfolded pages(1)])
  let ?prot = "\<lambda>x. if in_region b (map_pages (text_size l)) x then ?pr else p_prot p x"
  define p1 where "p1 = p\<lparr>p_calls := Suc (p_calls p), p_mem := zero_bytes (p_mem p) b (map_pages (text_size l)), p_prot := ?prot\<rparr>"
  define l1 where "l1 = l\<lparr>text_mem := b, text_vaddr := b\<rparr>"
  have w: "writable ?prot b (length bs + 6 * length names)"
    using pages(2,3) fit(1) lb has_flag_or by (intro writable_mapping) (auto simp: has_flag_def prot_defs)
  then have w: "writable ?prot b (length bs)" "writable ?prot (b + of_nat (length bs)) (6 * length names)"
    by (simp_all add: writable_split)
  have "length bs < 2 ^ 64" using lb fit by simp
  then obtain n where n: "text_image_loop os (elf_sections (mod_elfobj l)) 0 0 l1 p1 =
      Some (True, of_nat (length bs),
        l1\<lparr>section_maplist := section_maplist l @ section_layout LP_SECTION_TEXTSEGMENT b 0 kept\<rparr>,
        p1\<lparr>p_mem := write_bytes (p_mem p1) b bs, p_calls := n\<rparr>)"
    using text_loop.loop_run [OF ok(1), of "elf_sections (mod_elfobj l)" l1 kept bs p1 0] rd w(1) kept(1)
    by (auto simp: l1_def p1_def bs_def)
  define l2 where "l2 = l1\<lparr>section_maplist := section_maplist l @ section_layout LP_SECTION_TEXTSEGMENT b 0 kept,
    plt_off := of_nat (sizes_sum kept)\<rparr>"
  define p2 where "p2 = p1\<lparr>p_mem := write_bytes (p_mem p1) b bs, p_calls := n\<rparr>"
  obtain j k where k: "plt_image_loop os env (elf_relocations (mod_elfobj l)) 0 l2 p2 =
      Some (True, l2\<lparr>section_maplist := section_maplist l2 @ replicate j (plt_mapping env l2),
                  plt_list := plt_list l2 @ plt_entries l2 0 names\<rparr>,
          p2\<lparr>p_mem := write_bytes (p_mem p2) (text_mem l2 + (plt_off l2 + of_nat 0 * 6)) (concat (replicate (length names) plt_stub)),
            p_calls := k\<rparr>)"
    using plt_image_loop_run [OF ok(1) kept(2), of p2 l2 0 env] w(2) fit lb by (auto simp: l2_def l1_def p2_def p1_def)
  have mem: "write_bytes (p_mem p2) (text_mem l2 + (plt_off l2 + of_nat 0 * 6)) (concat (replicate (length names) plt_stub)) =
      write_bytes (p_mem p1) b (bs @ concat (replicate (length names) plt_stub))"
    using write_bytes_append [of bs "concat (replicate (length names) plt_stub)" "p_mem p1" b] fit lb
    by (simp add: p2_def l2_def l1_def)
  let ?l' = "l\<lparr>text_mem := b, text_vaddr := b, plt_off := of_nat (sizes_sum kept)\<rparr>"
  have L: "plt_mapping env l2 = plt_mapping env ?l'" "plt_entries l2 = plt_entries ?l'"
    by (simp_all add: l2_def l1_def plt_mapping_def plt_entries_def new_plt_def fun_eq_iff)
  have "create_text_image os env l p = plt_image_loop os env (elf_relocations (mod_elfobj l)) 0 l2 p2"
    by (simp add: create_text_image_def a Let_def b n [unfolded l1_def p1_def] l2_def l1_def p2_def p1_def lb)
  then show ?thesis
    unfolding k mem L Let_def bs_def
    by (intro exI [of _ b] exI [of _ j] exI [of _ k]) (cases p; cases l; simp add: l2_def l1_def p2_def p1_def)
qed

text \<open>C10. The text image of a module. When memory can be had and the sections can be read, creating the
  text segment of calculated size succeeds: it holds the bytes of the sections one after the other and
  behind them one stub for each call relocation, a mapping is recorded for each section and a PLT entry for
  each stub, and no memory outside the pages of the segment changes.\<close>

theorem text_image_complete:
  assumes "malloc_ok os" "mmap_ok os"
    and "obj = mod_elfobj l0" "l = calculate_text_size l0" "text_size l0 = 0"
    and "kept = filter (\<lambda>s. \<not> text_skipped s) (elf_sections obj)" "names = plt_names (elf_relocations obj)"
    and "list_all (\<lambda>s. section_bytes obj s \<noteq> None) kept"
    and "sizes_sum (filter in_text (elf_sections obj)) + 6 * length names + 4096 < 2 ^ 64"
  shows "\<exists>l' p' j. create_text_image os env l p = Some (True, l', p') \<and>
    text_mem l' = text_vaddr l' \<and> plt_off l' = of_nat (sizes_sum kept) \<and>
    section_maplist l' = section_maplist l @ section_layout LP_SECTION_TEXTSEGMENT (text_vaddr l') 0 kept @
      replicate j (plt_mapping env l') \<and>
    plt_list l' = plt_list l @ plt_entries l' 0 names \<and>
    read_bytes (p_mem p') (text_vaddr l') (sizes_sum kept + 6 * length names) =
      image_bytes obj kept @ concat (replicate (length names) plt_stub) \<and>
    (\<forall>x. \<not> in_region (text_vaddr l') (map_pages (text_size l)) x \<longrightarrow> p_mem p' x = p_mem p x)"
proof -
  have sz: "sizes_sum kept + 6 * length names \<le> unat (text_size l)" "mod_elfobj l = obj"
      "unat (text_size l) + 4096 < 2 ^ 64"
    using calculate_text_size_covers [OF assms(5)] assms(3,4,6,7,9) by simp_all
  note pages = map_pages_align [OF sz(3)]
  have rd: "\<forall>s \<in> set kept. section_bytes (mod_elfobj l) s \<noteq> None" using assms(8) sz(2) by (simp add: list_all_iff)
  define bs where "bs = image_bytes obj kept @ concat (replicate (length names) plt_stub)"
  have lb: "length bs = sizes_sum kept + 6 * length names"
    using length_image_bytes [OF rd] sz(2) by (simp add: bs_def)
  have rb: "read_bytes (write_bytes m b bs) b (sizes_sum kept + 6 * length names) = bs" for m b
    using pages(2,3) sz(1) lb by (intro read_write_bytes) auto
  have out: "write_bytes (zero_bytes m b (map_pages (text_size l))) b bs x = m x"
    if "\<not> in_region b (map_pages (text_size l)) x" for m b x
    using that pages(2) sz(1) lb by (auto simp: write_bytes_def zero_bytes_def in_region_def)
  obtain b j n where eq: "create_text_image os env l p =
    (let l' = l\<lparr>text_mem := b, text_vaddr := b, plt_off := of_nat (sizes_sum kept)\<rparr>
     in Some (True,
          l'\<lparr>section_maplist := section_maplist l @ section_layout LP_SECTION_TEXTSEGMENT b 0 kept @ replicate j (plt_mapping env l'),
             plt_list := plt_list l @ plt_entries l' 0 names\<rparr>,
          p\<lparr>p_mem := write_bytes (zero_bytes (p_mem p) b (map_pages (text_size l))) b bs,
            p_prot := (\<lambda>x. if in_region b (map_pages (text_size l)) x then PROT_READ OR PROT_WRITE OR PROT_EXEC else p_prot p x),
            p_calls := n\<rparr>))"
    using create_text_image_run [OF assms(1,2) _ _ rd sz(1,3), of env p] assms(6,7) unfolding sz(2) bs_def by blast
  show ?thesis
    unfolding eq Let_def bs_def [symmetric]
    by (intro exI conjI, rule refl) (use rb out in simp_all)
qed

end
