(* ===== verification/Module_Got.thy ===== *)
theory Module_Got
  imports Module_Image Mem_Offsets Trace_Thread
begin

text \<open>
  The global offset table of a module: how \<open>calculate_data_size\<close> hands out its slots, and what
  \<open>patch_plt_stubs\<close> and \<open>resolve_pltgot_entries\<close> make of the stubs and the slots.
\<close>

section \<open>Handing out slots\<close>

text \<open>The list and the hash table agree, the names are distinct and the slots are consecutive.\<close>

definition got_ok :: "shiva_module \<Rightarrow> bool" where
  "got_ok l \<longleftrightarrow>
     distinct (map ge_symname (got_list l)) \<and>
     map gotoff (got_list l) = map (\<lambda>i. of_nat (8 * i)) [0..<length (got_list l)] \<and>
     (\<forall>nm. got_cache l nm = got_entry_by_name l nm)"

lemma got_entry_by_name_None: "got_entry_by_name l nm = None \<longleftrightarrow> nm \<notin> ge_symname ` set (got_list l)"
  by (auto simp: got_entry_by_name_def find_None_iff)

lemma find_append: "find P (xs @ ys) = (case find P xs of None \<Rightarrow> find P ys | Some x \<Rightarrow> Some x)"
  by (induction xs) auto

lemma got_ok_offset:
  assumes "got_ok l" and "k < length (got_list l)"
  shows "gotoff (got_list l ! k) = of_nat (8 * (0 + k))"
proof -
  have "gotoff (got_list l ! k) = map gotoff (got_list l) ! k" using assms(2) by simp
  also have "\<dots> = map (\<lambda>i. of_nat (8 * i)) [0..<length (got_list l)] ! k" using assms(1) by (simp add: got_ok_def)
  also have "\<dots> = of_nat (8 * (0 + k))" using assms(2) by simp
  finally show ?thesis .
qed

lemma got_ok_add:
  assumes "got_ok l" and "got_cache l nm = None" and "ge_symname g = nm" and "gotoff g = of_nat (8 * length (got_list l))"
  shows "got_ok (l\<lparr>got_cache := (got_cache l)(nm \<mapsto> g), got_list := got_list l @ [g],
                   data_size := d, pltgot_size := s\<rparr>)"
proof -
  have new: "nm \<notin> ge_symname ` set (got_list l)"
    using assms(1,2) by (simp add: got_ok_def flip: got_entry_by_name_None)
  then have "find (\<lambda>g. ge_symname g = nm) (got_list l) = None" by (auto simp: find_None_iff)
  with assms new show ?thesis
    by (auto simp: got_ok_def got_entry_by_name_def find_append split: option.splits)
qed

lemma got_loop_run:
  assumes "got_ok l" and "malloc_ok os" and "length (got_list l) + length rels \<le> os_hash_slots os"
    and "off = of_nat (8 * length (got_list l))"
  shows "\<exists>l' p'. got_loop os rels off l p = Some (True, l', p') \<and> got_ok l' \<and>
    ge_symname ` set (got_list l') = ge_symname ` set (got_list l) \<union> rel_symname ` set (filter needs_got rels) \<and>
    data_size l' - of_nat (8 * length (got_list l')) = data_size l - of_nat (8 * length (got_list l)) \<and>
    pltgot_off l' = pltgot_off l \<and> mod_elfobj l' = mod_elfobj l"
  using assms
proof (induction rels arbitrary: off l p)
  case (Cons rel rels)
  consider "\<not> needs_got rel" | "needs_got rel" "got_cache l (rel_symname rel) \<noteq> None"
    | "needs_got rel" "got_cache l (rel_symname rel) = None" by blast
  then show ?case
  proof cases
    case 1
    with Cons show ?thesis by simp
  next
    case 2
    then have "rel_symname rel \<in> ge_symname ` set (got_list l)"
      using Cons.prems(1) by (simp add: got_ok_def got_entry_by_name_None flip: not_None_eq)
    with 2 Cons show ?thesis by (simp add: insert_absorb)
  next
    case 3
    define g where "g = \<lparr>ge_symname = rel_symname rel, gotaddr = data_vaddr l + pltgot_off l + off, gotoff = off\<rparr>"
    define l1 where "l1 = l\<lparr>got_cache := (got_cache l)(rel_symname rel \<mapsto> g), got_list := got_list l @ [g],
                       data_size := data_size l + 8, pltgot_size := pltgot_size l + 8\<rparr>"
    have "got_ok l1"
      unfolding l1_def by (rule got_ok_add [OF Cons.prems(1) 3(2)]) (simp_all add: g_def Cons.prems(4))
    moreover obtain p1 where "got_loop os (rel # rels) off l p = got_loop os rels (off + 8) l1 p1"
      using 3 Cons.prems(3) shiva_malloc_ok [OF Cons.prems(2), of 40 p] by (auto simp: l1_def g_def Let_def)
    moreover have "length (got_list l1) + length rels \<le> os_hash_slots os" "off + 8 = of_nat (8 * length (got_list l1))"
      using Cons.prems(3,4) by (simp_all add: l1_def)
    ultimately show ?thesis
      using Cons.IH [of l1 "off + 8" p1] Cons.prems(2) 3(1) by (auto simp: l1_def g_def algebra_simps)
  qed
qed simp

text \<open>C36. Calculating the data segment succeeds when memory can be had, the module has a \<open>.bss\<close>
  section and the hash table takes an entry per relocation. Afterwards there is exactly one GOT entry for each
  symbol of a PLT32, GOT64 or PLTOFF64 relocation, the i-th one at offset 8 i behind the start of the table;
  the hash table finds the entry of the list; and the segment has room for the \<open>.bss\<close> section and the table.\<close>

theorem got_layout:
  assumes "malloc_ok os" and "elf_section_by_name (mod_elfobj l) ''.bss'' = Some bss"
    and "length (elf_relocations (mod_elfobj l)) \<le> os_hash_slots os"
  shows "\<exists>l' p'. calculate_data_size os l p = Some (True, l', p') \<and>
    distinct (map ge_symname (got_list l')) \<and>
    set (map ge_symname (got_list l')) = rel_symname ` set (filter needs_got (elf_relocations (mod_elfobj l))) \<and>
    map gotoff (got_list l') = map (\<lambda>i. of_nat (8 * i)) [0..<length (got_list l')] \<and>
    got_cache l' = got_entry_by_name l' \<and>
    data_size l' = pltgot_off l' + sec_size bss + of_nat (8 * length (got_list l'))"
proof -
  let ?d = "data_sections_size (elf_sections (mod_elfobj l)) (data_size l)"
  define l1 where "l1 = l\<lparr>data_size := ?d + sec_size bss, pltgot_off := ?d, got_cache := Map.empty, got_list := []\<rparr>"
  have c: "calculate_data_size os l p = got_loop os (elf_relocations (mod_elfobj l)) 0 l1 p"
    using assms(2) by (cases l) (simp add: calculate_data_size_def l1_def Let_def)
  have "got_ok l1" by (simp add: got_ok_def l1_def got_entry_by_name_def)
  from got_loop_run [OF this assms(1), of "elf_relocations (mod_elfobj l)" 0 p] assms(3)
  obtain l' p' where r: "got_loop os (elf_relocations (mod_elfobj l)) 0 l1 p = Some (True, l', p')" "got_ok l'"
      "ge_symname ` set (got_list l') = rel_symname ` set (filter needs_got (elf_relocations (mod_elfobj l)))"
      "data_size l' - of_nat (8 * length (got_list l')) = ?d + sec_size bss" "pltgot_off l' = ?d"
    by (auto simp: l1_def)
  then have "data_size l' = pltgot_off l' + sec_size bss + of_nat (8 * length (got_list l'))"
    by (metis diff_add_cancel)
  with r c show ?thesis by (auto simp: got_ok_def fun_eq_iff)
qed

section \<open>Stubs\<close>

text \<open>The address that a stub \<open>jmp *disp(%rip)\<close> at \<open>a\<close> jumps to.\<close>

definition stub_jump :: "mem \<Rightarrow> u64 \<Rightarrow> u64 option" where
  "stub_jump m a =
     (if m a = 0xff \<and> m (a + 1) = 0x25 then Some (load64 m (a + 6 + scast (load32 m (a + 2)))) else None)"

lemma load32_same_on: "same_on b {x..<x + 4} m m' \<Longrightarrow> load32 m (b + of_nat x) = load32 m' (b + of_nat x)"
  unfolding load32_def
  by (intro arg_cong [where f = le_val] read_bytes_cong) (simp add: same_on_def add.assoc flip: of_nat_add)

lemma load32_write: "load32 (write_bytes m a (le_bytes 4 w)) a = w"
  using load32_store32 [of m a w] by (simp add: store32_def)

lemma writable_at: "writable pr b n \<Longrightarrow> x + k \<le> n \<Longrightarrow> writable pr (b + of_nat x) k"
  using writable_split [of pr b x "n - x"] writable_split [of pr "b + of_nat x" k "n - x - k"] by simp

text \<open>The bytes of the stubs from \<open>i\<close> on that are not displacements.\<close>

definition not_disp :: "nat \<Rightarrow> nat \<Rightarrow> nat set" where
  "not_disp i n = {z. z < 2 ^ 64 \<and> (z < 6 * i \<or> 6 * (i + n) \<le> z \<or> z mod 6 < 2)}"

lemma patch_stubs_loop_run:
  fixes l :: shiva_module
  defines "b \<equiv> text_mem l + plt_off l"
  assumes "\<forall>e \<in> set es. got_entry_by_name l (pe_symname e) \<noteq> None"
    and "writable (p_prot p) b (6 * (i + length es))" and "6 * (i + length es) \<le> 2 ^ 64"
  shows "\<exists>p'. patch_stubs_loop l i es p = Some (True, p') \<and> p_prot p' = p_prot p \<and>
    (\<forall>k < length es. load32 (p_mem p') (b + of_nat (6 * (i + k) + 2)) =
       ucast (stub_gotoff l (i + k) (the (got_entry_by_name l (pe_symname (es ! k)))))) \<and>
    same_on b (not_disp i (length es)) (p_mem p') (p_mem p)"
  using assms(2-4)
proof (induction es arbitrary: i p)
  case (Cons e es)
  obtain g where g: "got_entry_by_name l (pe_symname e) = Some g" using Cons.prems(1) by auto
  define bs where "bs = le_bytes 4 (ucast (stub_gotoff l i g) :: u32)"
  define p1 where "p1 = p\<lparr>p_mem := write_bytes (p_mem p) (b + of_nat (6 * i + 2)) bs\<rparr>"
  have m1: "p_mem p1 = write_bytes (p_mem p) (b + of_nat (6 * i + 2)) bs" by (simp add: p1_def)
  have a: "text_mem l + (plt_off l + of_nat i * 6) + 2 = b + of_nat (6 * i + 2)" by (simp add: b_def algebra_simps)
  have "writable (p_prot p) (b + of_nat (6 * i + 2)) 4" using Cons.prems(2) by (rule writable_at) simp
  then have step: "patch_stubs_loop l i (e # es) p = patch_stubs_loop l (Suc i) es p1"
    by (simp add: g a p_write_def p1_def bs_def del: of_nat_add of_nat_mult)
  obtain p' where p': "patch_stubs_loop l (Suc i) es p1 = Some (True, p')" "p_prot p' = p_prot p"
      "\<forall>k < length es. load32 (p_mem p') (b + of_nat (6 * (Suc i + k) + 2)) =
         ucast (stub_gotoff l (Suc i + k) (the (got_entry_by_name l (pe_symname (es ! k)))))"
      "same_on b (not_disp (Suc i) (length es)) (p_mem p') (p_mem p1)"
    using Cons.IH [of p1 "Suc i"] Cons.prems by (auto simp: p1_def)
  have "{6 * i + 2..<6 * i + 2 + 4} \<subseteq> not_disp (Suc i) (length es)"
    using Cons.prems(3) by (auto simp: not_disp_def)
  then have "load32 (p_mem p') (b + of_nat (6 * i + 2)) = load32 (p_mem p1) (b + of_nat (6 * i + 2))"
    by (intro load32_same_on same_on_subset [OF p'(4)])
  also have "\<dots> = ucast (stub_gotoff l i g)" by (simp add: p1_def load32_write bs_def)
  finally have first: "load32 (p_mem p') (b + of_nat (6 * i + 2)) = ucast (stub_gotoff l i g)" .
  have "not_disp i (length (e # es)) \<subseteq> {..<2 ^ 64} - {6 * i + 2..<6 * i + 2 + length bs}"
    by (auto simp: not_disp_def bs_def) presburger+
  then have "same_on b (not_disp i (length (e # es))) (p_mem p1) (p_mem p)"
    unfolding m1 using Cons.prems(3) by (intro write_bytes_same_on) (auto simp: bs_def)
  then have "same_on b (not_disp i (length (e # es))) (p_mem p') (p_mem p)"
    by (rule same_on_trans [OF p'(4)]) (auto simp: not_disp_def)
  moreover have "load32 (p_mem p') (b + of_nat (6 * (i + k) + 2)) =
      ucast (stub_gotoff l (i + k) (the (got_entry_by_name l (pe_symname ((e # es) ! k)))))"
    if "k < length (e # es)" for k
    using that first g p'(3) by (cases k) auto
  ultimately show ?case using step p'(1,2) by auto
qed simp

section \<open>Slots\<close>

definition self_symbol :: "shiva_module \<Rightarrow> string \<Rightarrow> elf_symbol" where
  "self_symbol l nm = the (elf_symbol_by_name (mod_self l) nm)"

lemma load64_write: "load64 (write_bytes m a (le_bytes 8 w)) a = w"
  using load64_store64 [of m a w] by (simp add: store64_def)

lemma resolve_got_loop_run:
  assumes "\<forall>g \<in> set gs. module_symbol l (ge_symname g) = None \<and> elf_symbol_by_name (mod_self l) (ge_symname g) \<noteq> None"
    and "\<forall>k < length gs. gotoff (gs ! k) = of_nat (8 * (i + k))"
    and "writable (p_prot p) (got_base l) (8 * (i + length gs))" and "8 * (i + length gs) \<le> 2 ^ 64"
  shows "\<exists>p'. resolve_got_loop env l gs p = Some (True, p') \<and> p_prot p' = p_prot p \<and>
    (\<forall>k < length gs. load64 (p_mem p') (got_base l + of_nat (8 * (i + k))) =
       self_value env l (self_symbol l (ge_symname (gs ! k)))) \<and>
    same_on (got_base l) ({..<2 ^ 64} - {8 * i..<8 * (i + length gs)}) (p_mem p') (p_mem p)"
  using assms
proof (induction gs arbitrary: i p)
  case (Cons g gs)
  obtain s where s: "module_symbol l (ge_symname g) = None" "elf_symbol_by_name (mod_self l) (ge_symname g) = Some s"
    using Cons.prems(1) by auto
  have slot: "got_slot l g = got_base l + of_nat (8 * i)"
    using spec [OF Cons.prems(2), of 0] by (simp add: got_slot_def got_base_def)
  define bs where "bs = le_bytes 8 (self_value env l s)"
  define p1 where "p1 = p\<lparr>p_mem := write_bytes (p_mem p) (got_base l + of_nat (8 * i)) bs\<rparr>"
  have m1: "p_mem p1 = write_bytes (p_mem p) (got_base l + of_nat (8 * i)) bs" by (simp add: p1_def)
  have "writable (p_prot p) (got_base l + of_nat (8 * i)) 8" using Cons.prems(3) by (rule writable_at) simp
  then have step: "resolve_got_loop env l (g # gs) p = resolve_got_loop env l gs p1"
    by (simp add: s slot p_write_def p1_def bs_def del: of_nat_mult)
  have offs: "\<forall>k < length gs. gotoff (gs ! k) = of_nat (8 * (Suc i + k))"
  proof (intro allI impI)
    fix k assume "k < length gs"
    with spec [OF Cons.prems(2), of "Suc k"] show "gotoff (gs ! k) = of_nat (8 * (Suc i + k))" by simp
  qed
  obtain p' where p': "resolve_got_loop env l gs p1 = Some (True, p')" "p_prot p' = p_prot p"
      "\<forall>k < length gs. load64 (p_mem p') (got_base l + of_nat (8 * (Suc i + k))) =
         self_value env l (self_symbol l (ge_symname (gs ! k)))"
      "same_on (got_base l) ({..<2 ^ 64} - {8 * Suc i..<8 * (Suc i + length gs)}) (p_mem p') (p_mem p1)"
    using Cons.IH [OF _ offs, of p1] Cons.prems(1,3,4) by (auto simp: p1_def)
  have "load64 (p_mem p') (got_base l + of_nat (8 * i)) = load64 (p_mem p1) (got_base l + of_nat (8 * i))"
    using Cons.prems(4) by (intro load64_same_on same_on_subset [OF p'(4)]) auto
  also have "\<dots> = self_value env l s" by (simp add: m1 bs_def load64_write)
  finally have first: "load64 (p_mem p') (got_base l + of_nat (8 * i)) = self_value env l s" .
  let ?S = "{..<2 ^ 64} - {8 * i..<8 * (i + length (g # gs))}"
  have "same_on (got_base l) ?S (p_mem p1) (p_mem p)"
    unfolding m1 using Cons.prems(4) by (intro write_bytes_same_on) (auto simp: bs_def)
  then have "same_on (got_base l) ?S (p_mem p') (p_mem p)" by (rule same_on_trans [OF p'(4)]) auto
  moreover have "load64 (p_mem p') (got_base l + of_nat (8 * (i + k))) =
      self_value env l (self_symbol l (ge_symname ((g # gs) ! k)))" if "k < length (g # gs)" for k
    using that first s(2) p'(3) by (cases k) (auto simp: self_symbol_def)
  ultimately show ?case using step p'(1,2) by auto
qed simp

section \<open>A call through the PLT\<close>

text \<open>A linked module before its stubs are patched: the stubs are in place, the table is laid out, every
  stub has a slot, and the two segments are apart.\<close>

definition stubs_placed :: "shiva_module \<Rightarrow> string list \<Rightarrow> proc \<Rightarrow> bool" where
  "stubs_placed l names p \<longleftrightarrow>
     text_mem l = text_vaddr l \<and> plt_list l = plt_entries l 0 names \<and> got_ok l \<and>
     list_all (\<lambda>nm. got_entry_by_name l nm \<noteq> None) names \<and>
     read_bytes (p_mem p) (text_vaddr l + plt_off l) (6 * length names) = concat (replicate (length names) plt_stub) \<and>
     writable (p_prot p) (text_vaddr l + plt_off l) (6 * length names) \<and>
     writable (p_prot p) (got_base l) (8 * length (got_list l)) \<and>
     6 * length names \<le> 2 ^ 64 \<and> 8 * length (got_list l) \<le> 2 ^ 64 \<and>
     separate (got_base l) (8 * length (got_list l)) (text_vaddr l + plt_off l) (6 * length names)"

text \<open>Displacements of thirty-two bits.\<close>

definition near :: "u64 \<Rightarrow> bool" where
  "near d \<longleftrightarrow> - (2 ^ 31) \<le> sint d \<and> sint d < 2 ^ 31"

lemma concat_replicate_nth:
  "k < n \<Longrightarrow> j < length xs \<Longrightarrow> concat (replicate n xs) ! (length xs * k + j) = xs ! j"
proof (induction n arbitrary: k)
  case (Suc n)
  then show ?case by (cases k) (simp_all add: nth_append)
qed simp

lemma got_entry_index:
  assumes "got_entry_by_name l nm = Some g"
  shows "\<exists>q < length (got_list l). got_list l ! q = g \<and> ge_symname g = nm"
  using assms by (auto simp: got_entry_by_name_def find_Some_iff)

text \<open>One stub after patching and resolving.\<close>

lemma stub_reaches:
  assumes b: "a = b + of_nat (6 * k)"
    and bytes: "m (b + of_nat (6 * k)) = 0xff" "m (b + of_nat (6 * k + 1)) = 0x25"
    and disp: "load32 m (b + of_nat (6 * k + 2)) = ucast d" "near d" and slot: "load64 m (a + 6 + d) = v"
  shows "stub_jump m a = Some v"
proof -
  have e: "a + 1 = b + of_nat (6 * k + 1)" "a + 2 = b + of_nat (6 * k + 2)" by (simp_all add: b)
  have "m a = 0xff" "m (a + 1) = 0x25" "load32 m (a + 2) = ucast d"
    unfolding e by (rule bytes(1) [folded b], rule bytes(2), rule disp(1))
  moreover have "scast (ucast d :: u32) = d" using disp(2) unfolding near_def by (intro scast_ucast32) auto
  ultimately show ?thesis using slot by (simp add: stub_jump_def)
qed

lemma stubs_placed_bytes:
  assumes "stubs_placed l names p" and "k < length names"
  shows "p_mem p (text_vaddr l + plt_off l + of_nat (6 * k)) = 0xff"
    and "p_mem p (text_vaddr l + plt_off l + of_nat (6 * k + 1)) = 0x25"
proof -
  let ?b = "text_vaddr l + plt_off l"
  have r: "read_bytes (p_mem p) ?b (6 * length names) = concat (replicate (length names) plt_stub)"
    using assms(1) by (simp add: stubs_placed_def)
  have at: "p_mem p (?b + of_nat (6 * k + j)) = plt_stub ! j" if "j < 6" for j
  proof -
    have "6 * k + j < 6 * length names" using assms(2) that by linarith
    then have "p_mem p (?b + of_nat (6 * k + j)) = read_bytes (p_mem p) ?b (6 * length names) ! (6 * k + j)" by simp
    also have "\<dots> = plt_stub ! j"
      unfolding r using concat_replicate_nth [of k "length names" j plt_stub] assms(2) that by simp
    finally show ?thesis .
  qed
  show "p_mem p (?b + of_nat (6 * k)) = 0xff" using at [of 0] by (simp add: plt_stub_def)
  show "p_mem p (?b + of_nat (6 * k + 1)) = 0x25" using at [of 1] by (simp add: plt_stub_def)
qed

lemma stub_resolved:
  fixes l :: shiva_module
  defines "b \<equiv> text_vaddr l + plt_off l"
  assumes st: "stubs_placed l names p" and k: "k < length names" and near: "near (stub_gotoff l k g)"
    and m1: "load32 m1 (b + of_nat (6 * k + 2)) = ucast (stub_gotoff l k g)"
      "same_on b (not_disp 0 (length names)) m1 (p_mem p)"
    and m2: "same_on b {..<6 * length names} m1 m2" and slot: "load64 m2 (got_slot l g) = v"
  shows "stub_jump m2 (b + of_nat (6 * k)) = Some v"
proof (rule stub_reaches [OF refl _ _ _ near])
  have in6: "6 * k + j < 6 * length names" if "j < 6" for j using k that by linarith
  have eq: "m2 (b + of_nat (6 * k + j)) = p_mem p (b + of_nat (6 * k + j))" if "j < 2" for j
  proof -
    have "6 * k + j \<in> not_disp 0 (length names)"
      using that st in6 [of j] by (auto simp: not_disp_def stubs_placed_def)
    with m1(2) have "m1 (b + of_nat (6 * k + j)) = p_mem p (b + of_nat (6 * k + j))" unfolding same_on_def by (rule bspec)
    moreover have "m1 (b + of_nat (6 * k + j)) = m2 (b + of_nat (6 * k + j))"
      using m2 in6 [of j] that by (simp add: same_on_def del: of_nat_add)
    ultimately show ?thesis by simp
  qed
  note bytes = stubs_placed_bytes [OF st k, folded b_def]
  show "m2 (b + of_nat (6 * k)) = 0xff" using eq [of 0] bytes(1) by simp
  show "m2 (b + of_nat (6 * k + 1)) = 0x25" using eq [of 1] bytes(2) by simp
  have "same_on b {6 * k + 2..<6 * k + 2 + 4} m2 m1"
    by (rule same_on_sym, rule same_on_subset [OF m2]) (use in6 [of 5] in auto)
  from load32_same_on [OF this] m1(1) show "load32 m2 (b + of_nat (6 * k + 2)) = ucast (stub_gotoff l k g)" by simp
  have "b + of_nat (6 * k) + 6 + stub_gotoff l k g = got_slot l g"
    by (simp add: b_def stub_gotoff_def got_slot_def Let_def algebra_simps)
  with slot show "load64 m2 (b + of_nat (6 * k) + 6 + stub_gotoff l k g) = v" by simp
qed

text \<open>C9. Patching the stubs and resolving the table of a module whose GOT symbols are all defined in
  Shiva succeeds, and afterwards every stub jumps to the address of its symbol in Shiva, provided the table is
  within two gigabytes.\<close>

theorem plt_stubs_reach_shiva:
  assumes "stubs_placed l names p"
    and "list_all (\<lambda>g. module_symbol l (ge_symname g) = None \<and> elf_symbol_by_name (mod_self l) (ge_symname g) \<noteq> None)
           (got_list l)"
    and "list_all (\<lambda>(k, nm). near (stub_gotoff l k (the (got_entry_by_name l nm)))) (enumerate 0 names)"
  shows "\<exists>p1 p2. patch_plt_stubs l p = Some (True, p1) \<and> resolve_pltgot_entries env l p1 = Some (True, p2) \<and>
    list_all (\<lambda>e. stub_jump (p_mem p2) (pe_vaddr e) = Some (self_value env l (self_symbol l (pe_symname e)))) (plt_list l)"
proof -
  let ?b = "text_vaddr l + plt_off l" and ?n = "length names" and ?q = "length (got_list l)"
  note st = assms(1) [unfolded stubs_placed_def]
  have b: "text_mem l + plt_off l = ?b" and len: "length (plt_list l) = ?n"
    using st by (simp_all add: plt_entries_def)
  have nth: "plt_list l ! k = new_plt l (names ! k) k" if "k < ?n" for k
    using st that by (simp add: plt_entries_def nth_enumerate_eq)
  have "got_entry_by_name l (pe_symname (plt_list l ! k)) \<noteq> None" if "k < length (plt_list l)" for k
    using st nth [of k] that len by (simp add: list_all_length new_plt_def)
  then have pe: "\<forall>e \<in> set (plt_list l). got_entry_by_name l (pe_symname e) \<noteq> None"
    unfolding all_set_conv_all_nth by blast
  have w: "writable (p_prot p) ?b (6 * (0 + length (plt_list l)))" "6 * (0 + length (plt_list l)) \<le> 2 ^ 64"
    using st len by simp_all
  obtain p1 where p1: "patch_stubs_loop l 0 (plt_list l) p = Some (True, p1)" "p_prot p1 = p_prot p"
      "\<forall>k < ?n. load32 (p_mem p1) (?b + of_nat (6 * k + 2)) =
         ucast (stub_gotoff l k (the (got_entry_by_name l (pe_symname (plt_list l ! k)))))"
      "same_on ?b (not_disp 0 ?n) (p_mem p1) (p_mem p)"
    using patch_stubs_loop_run [of "plt_list l" l p 0, unfolded b, OF pe w] unfolding len by auto
  have offs: "\<forall>k < ?q. gotoff (got_list l ! k) = of_nat (8 * (0 + k))"
    using st by (intro allI impI got_ok_offset) auto
  obtain p2 where p2: "resolve_got_loop env l (got_list l) p1 = Some (True, p2)"
      "\<forall>k < ?q. load64 (p_mem p2) (got_base l + of_nat (8 * k)) = self_value env l (self_symbol l (ge_symname (got_list l ! k)))"
      "same_on (got_base l) ({..<2 ^ 64} - {0..<8 * ?q}) (p_mem p2) (p_mem p1)"
    using resolve_got_loop_run [of "got_list l" l 0 p1 env, OF _ offs] assms(2) st p1(2) by (auto simp: list_all_iff)
  have same: "same_on ?b {..<6 * ?n} (p_mem p1) (p_mem p2)"
    by (rule same_on_separate [OF same_on_subset [OF p2(3)]]) (use st in auto)
  have "stub_jump (p_mem p2) (pe_vaddr (plt_list l ! k)) =
      Some (self_value env l (self_symbol l (pe_symname (plt_list l ! k))))" if k: "k < ?n" for k
  proof -
    obtain g where g: "got_entry_by_name l (names ! k) = Some g" using st k by (auto simp: list_all_length)
    then obtain q where q: "q < ?q" "got_list l ! q = g" "ge_symname g = names ! k" using got_entry_index by blast
    have a: "pe_vaddr (plt_list l ! k) = ?b + of_nat (6 * k)" "pe_symname (plt_list l ! k) = names ! k"
      using nth [OF k] by (simp_all add: new_plt_def)
    have "near (stub_gotoff l k g)" using assms(3) k g by (auto simp: list_all_length nth_enumerate_eq)
    moreover have "load64 (p_mem p2) (got_slot l g) = self_value env l (self_symbol l (names ! k))"
      using p2(2) q offs by (auto simp: got_slot_def got_base_def)
    moreover have "load32 (p_mem p1) (?b + of_nat (6 * k + 2)) = ucast (stub_gotoff l k g)"
      using p1(3) k a(2) g by (simp del: of_nat_add)
    ultimately show ?thesis
      unfolding a using p1(4) same by (intro stub_resolved [OF assms(1) k])
  qed
  then show ?thesis
    using p1(1) p2(1) len by (auto simp: patch_plt_stubs_def resolve_pltgot_entries_def list_all_length)
qed

section \<open>PC-relative relocations\<close>

text \<open>Where the symbol of a PC-relative relocation is in the loaded image: a stub is at the address of its
  entry; a section at the address it is mapped to; a symbol that the module defines at its value behind the
  start of its section, here one that the text segment begins with; any other symbol where Shiva has it.\<close>

inductive linked_at :: "link_env \<Rightarrow> shiva_module \<Rightarrow> elf_relocation \<Rightarrow> u64 \<Rightarrow> bool" for env l rel where
  linked_stub: "rel_type rel = R_X86_64_PLT32 \<Longrightarrow> e \<in> set (plt_list l) \<Longrightarrow> pe_symname e = rel_symname rel \<Longrightarrow>
     (\<forall>e' \<in> set (plt_list l). pe_symname e' = rel_symname rel \<longrightarrow> e' = e) \<Longrightarrow> linked_at env l rel (pe_vaddr e)"
| linked_section: "rel_type rel = R_X86_64_PC32 \<Longrightarrow> rel_symname rel = CHR ''.'' # name \<Longrightarrow>
     sm \<in> set (section_maplist l) \<Longrightarrow> smap_name sm = rel_symname rel \<Longrightarrow>
     (\<forall>sm' \<in> set (section_maplist l). smap_name sm' = rel_symname rel \<longrightarrow> sm' = sm) \<Longrightarrow> linked_at env l rel (smap_vaddr sm)"
| linked_own: "rel_type rel = R_X86_64_PC32 \<Longrightarrow> rel_symname rel = c # name \<Longrightarrow> c \<noteq> CHR ''.'' \<Longrightarrow>
     elf_symbol_by_name (mod_elfobj l) (rel_symname rel) = Some v \<Longrightarrow> sym_type v \<noteq> STT_NOTYPE \<Longrightarrow>
     sm \<in> set (section_maplist l) \<Longrightarrow> smap_vaddr sm = text_vaddr l \<Longrightarrow> linked_at env l rel (smap_vaddr sm + sym_value v)"
| linked_shiva: "rel_type rel = R_X86_64_PC32 \<Longrightarrow> rel_symname rel = c # name \<Longrightarrow> c \<noteq> CHR ''.'' \<Longrightarrow>
     pred_option (\<lambda>v. sym_type v = STT_NOTYPE) (elf_symbol_by_name (mod_elfobj l) (rel_symname rel)) \<Longrightarrow>
     elf_symbol_by_name (mod_self l) (rel_symname rel) = Some v \<Longrightarrow>
     linked_at env l rel (if le_standalone env then sym_value v else sym_value v + shiva_base l)"

lemma linked_pc32:
  assumes "linked_at env l rel s" and "rel_type rel = R_X86_64_PC32"
  shows "pc32_symval env l (rel_symname rel) = Some s"
  using assms
proof cases
  case (linked_section name sm)
  have "get_section_mapping l (rel_symname rel) = Some sm"
    unfolding get_section_mapping_def by (rule find_unique; use linked_section(4,5) linked_section(6) in blast)
  then show ?thesis using linked_section(1,3) by (simp add: pc32_symval_def)
next
  case (linked_own c name v sm)
  then show ?thesis by (simp add: pc32_symval_def)
next
  case (linked_shiva c name v)
  then have "internal_lookup env l (rel_symname rel) = Some s"
    by (simp add: internal_lookup_def self_value_def)
  then show ?thesis using linked_shiva by (auto simp: pc32_symval_def split: option.split)
next
  case (linked_stub e)
  from linked_stub(2) assms(2) show ?thesis by (simp add: rel_type_defs)
qed

lemma pc32_reloc_bytes:
  assumes "linked_at env l rel s" and "rel_type rel = R_X86_64_PC32"
  shows "reloc_bytes env l smap rel = Some (le_bytes 4 (ucast (s + rel_addend rel - rel_place l smap rel) :: u32))"
  using linked_pc32 [OF assms] assms(2) by (simp add: reloc_bytes_def reloc_pc32_def rel_type_defs del: le_bytes.simps)

lemma linked_reloc_bytes:
  assumes "linked_at env l rel s"
  shows "reloc_bytes env l smap rel = Some (le_bytes 4 (ucast (s + rel_addend rel - rel_place l smap rel) :: u32))"
  using assms
proof cases
  case (linked_stub e)
  have "plt_entry_by_name l (rel_symname rel) = Some e"
    unfolding plt_entry_by_name_def by (rule find_unique; use linked_stub(3,4) linked_stub(5) in blast)
  then show ?thesis using linked_stub(1,2) by (simp add: reloc_bytes_def reloc_plt32_def rel_type_defs del: le_bytes.simps)
qed (rule pc32_reloc_bytes [OF assms], assumption)+


text \<open>The GOT slot of a symbol that the module defines itself is not filled: the address goes to a
  place eight times as far behind the data segment, because the offset is added to a pointer to quadwords, and
  the slot keeps its old content.\<close>

theorem local_got_slot_not_filled:
  assumes "got_list l = [g]" and "module_symbol l (ge_symname g) = Some s"
    and "writable (p_prot p) (got_slot_local l g) 8"
    and "separate (got_slot_local l g) 8 (got_slot l g) 8"
  shows "\<exists>p'. resolve_pltgot_entries env l p = Some (True, p') \<and>
    load64 (p_mem p') (data_vaddr l + 8 * (pltgot_off l + gotoff g)) = sym_value s + text_vaddr l \<and>
    load64 (p_mem p') (data_vaddr l + pltgot_off l + gotoff g) = load64 (p_mem p) (data_vaddr l + pltgot_off l + gotoff g)"
proof -
  have e: "data_vaddr l + 8 * (pltgot_off l + gotoff g) = got_slot_local l g"
    "data_vaddr l + pltgot_off l + gotoff g = got_slot l g"
    by (simp_all add: got_slot_local_def got_slot_def algebra_simps)
  have "load64 (write_bytes (p_mem p) (got_slot_local l g) (le_bytes 8 v)) (got_slot l g) = load64 (p_mem p) (got_slot l g)" for v :: u64
    using load64_store64_separate [OF assms(4)] by (simp add: store64_def)
  then show ?thesis
    unfolding e using assms(1-3) by (simp add: resolve_pltgot_entries_def p_write_def load64_write)
qed

section \<open>Witnesses\<close>

text \<open>A module with one call to \<open>puts\<close>, which Shiva defines at 0x401000.\<close>

definition example_symbol :: "u64 \<Rightarrow> u8 \<Rightarrow> elf_symbol" where
  "example_symbol v t = \<lparr>sym_name = ''puts'', sym_value = v, sym_size = 16, sym_type = t, sym_bind = STB_GLOBAL\<rparr>"

definition example_rel :: elf_relocation where
  "example_rel = \<lparr>rel_shdrname = ''.rela.text'', rel_symname = ''puts'', rel_type = R_X86_64_PLT32,
                  rel_offset = 4, rel_addend = - 4\<rparr>"

definition example_bss :: elf_section where
  "example_bss = \<lparr>sec_name = ''.bss'', sec_flags = 3, sec_size = 16, sec_offset = 0x40, sec_address = 0, sec_entsize = 0\<rparr>"

definition example_text :: elf_section where
  "example_text = \<lparr>sec_name = ''.text'', sec_flags = 6, sec_size = 16, sec_offset = 0x40, sec_address = 0, sec_entsize = 0\<rparr>"

definition example_obj :: elfobj where
  "example_obj = null_elfobj\<lparr>elf_sections := [example_text], elf_relocations := [example_rel],
     elf_section_by_name := (\<lambda>n. if n = ''.bss'' then Some example_bss else None),
     elf_read_byte := (\<lambda>a. Some (ucast a))\<rparr>"

definition example_got :: shiva_module_got_entry where
  "example_got = \<lparr>ge_symname = ''puts'', gotaddr = 0, gotoff = 0\<rparr>"

definition example_module :: shiva_module where
  "example_module = zero_module\<lparr>text_mem := 0x6000000, text_vaddr := 0x6000000, plt_off := 16,
     data_mem := 0x6001000, data_vaddr := 0x6001000, pltgot_off := 16, mod_elfobj := example_obj,
     mod_self := null_elfobj\<lparr>elf_symbol_by_name := (\<lambda>n. if n = ''puts'' then Some (example_symbol 0x401000 STT_FUNC) else None)\<rparr>,
     got_list := [example_got], got_cache := [''puts'' \<mapsto> example_got],
     section_maplist := [new_mapping LP_SECTION_TEXTSEGMENT 0x6000000 0 16 ''.text''],
     plt_list := [\<lparr>pe_symname = ''puts'', pe_vaddr = 0x6000010, pe_offset = 16, pe_plt_count = 1\<rparr>]\<rparr>"

definition example_linked :: proc where
  "example_linked = zero_proc\<lparr>p_mem := write_bytes (\<lambda>_. 0) 0x6000010 plt_stub, p_prot := (\<lambda>_. 7)\<rparr>"

lemma writable_all [simp]: "writable (\<lambda>_. 7) a n"
  by (simp add: writable_def has_flag_def PROT_WRITE_def)

lemma example_stubs_placed: "stubs_placed example_module [''puts''] example_linked"
proof -
  have "read_bytes (p_mem example_linked) 0x6000010 6 = plt_stub"
    by (simp add: example_linked_def zero_proc_def read_write_bytes)
  moreover have "separate 0x6001010 8 (0x6000010 :: u64) 6"
    using separate_offsets [of "0x6000010" 6 "0x6001010" 8 0] by (auto simp: separate_def)
  ultimately show ?thesis
    by (simp add: stubs_placed_def example_module_def example_linked_def zero_module_def zero_proc_def got_ok_def example_got_def
        got_entry_by_name_def got_base_def plt_entries_def new_plt_def)
qed

definition example_env :: link_env where
  "example_env = \<lparr>le_standalone = True, le_plt_size = 0, le_plt_offset = 0, le_entry_symbol = []\<rparr>"

lemma example_module_got:
  "got_list example_module = [example_got]" "got_entry_by_name example_module ''puts'' = Some example_got"
  "ge_symname example_got = ''puts''" "stub_gotoff example_module 0 example_got = 0xffa"
  "self_value example_env example_module (self_symbol example_module ''puts'') = 0x401000"
  "plt_list example_module = [\<lparr>pe_symname = ''puts'', pe_vaddr = 0x6000010, pe_offset = 16, pe_plt_count = 1\<rparr>]"
  "module_symbol example_module ''puts'' = None" "elf_symbol_by_name (mod_self example_module) ''puts'' = Some (example_symbol 0x401000 STT_FUNC)"
  by (simp_all add: example_module_def zero_module_def example_got_def got_entry_by_name_def stub_gotoff_def self_value_def
      self_symbol_def example_env_def example_symbol_def module_symbol_def example_obj_def null_elfobj_def)

theorem plt_stubs_reach_shiva_witness:
  "\<exists>p1 p2. patch_plt_stubs example_module example_linked = Some (True, p1) \<and>
     resolve_pltgot_entries example_env example_module p1 = Some (True, p2) \<and> stub_jump (p_mem p2) 0x6000010 = Some 0x401000"
  using plt_stubs_reach_shiva [OF example_stubs_placed, of example_env]
  by (simp add: example_module_got near_def)


lemma example_os_ok: "malloc_ok example_os" "mmap_ok example_os" "os_hash_slots example_os = 64"
  by (simp_all add: malloc_ok_def mmap_ok_def example_os_def)

theorem got_layout_witness:
  "\<exists>l' p'. calculate_data_size example_os (zero_module\<lparr>mod_elfobj := example_obj\<rparr>) zero_proc = Some (True, l', p') \<and>
     set (map ge_symname (got_list l')) = {''puts''}"
  using got_layout [OF example_os_ok(1), of "zero_module\<lparr>mod_elfobj := example_obj\<rparr>" example_bss zero_proc]
  by (auto simp: example_obj_def null_elfobj_def example_os_ok(3) example_rel_def needs_got_def)

theorem local_got_slot_not_filled_witness:
  "\<exists>p'. resolve_pltgot_entries example_env
          (example_module\<lparr>mod_elfobj := example_obj\<lparr>elf_symbol_by_name := (\<lambda>n. Some (example_symbol 8 STT_FUNC))\<rparr>\<rparr>)
          example_linked = Some (True, p') \<and>
     load64 (p_mem p') 0x6001080 = 0x6000008 \<and> load64 (p_mem p') 0x6001010 = load64 (p_mem example_linked) 0x6001010"
proof -
  have "separate 0x6001080 8 (0x6001010 :: u64) 8"
    using separate_offsets [of "0x6001010" 8 "0x6001080" 8 0] by (auto simp: separate_def)
  then show ?thesis
    using local_got_slot_not_filled [of "example_module\<lparr>mod_elfobj := example_obj\<lparr>elf_symbol_by_name := (\<lambda>n. Some (example_symbol 8 STT_FUNC))\<rparr>\<rparr>"
        example_got "example_symbol 8 STT_FUNC" example_linked example_env]
    by (simp add: example_module_def zero_module_def module_symbol_def example_symbol_def got_slot_local_def got_slot_def
        example_got_def example_linked_def)
qed

theorem text_image_complete_witness:
  "\<exists>l' p' j. create_text_image example_os example_env (calculate_text_size (zero_module\<lparr>mod_elfobj := example_obj\<rparr>)) zero_proc =
        Some (True, l', p') \<and>
     section_maplist l' = section_layout LP_SECTION_TEXTSEGMENT (text_vaddr l') 0 [example_text] @ replicate j (plt_mapping example_env l') \<and>
     plt_list l' = plt_entries l' 0 [''puts''] \<and>
     read_bytes (p_mem p') (text_vaddr l') 22 = image_bytes example_obj [example_text] @ plt_stub"
proof -
  let ?l = "zero_module\<lparr>mod_elfobj := example_obj\<rparr>"
  have i: "in_text example_text" "\<not> text_skipped example_text"
    by (simp_all add: in_text_def text_skipped_def example_text_def has_flag_def shf_defs)
  have l: "mod_elfobj ?l = example_obj" "elf_sections example_obj = [example_text]"
      "plt_names (elf_relocations example_obj) = [''puts'']" "text_size ?l = 0"
    by (simp_all add: example_obj_def plt_names_def needs_plt_def example_rel_def zero_module_def)
  have c: "section_maplist (calculate_text_size ?l) = []" "plt_list (calculate_text_size ?l) = []"
    by (simp_all add: calculate_text_size_def Let_def plt_room_eq zero_module_def)
  have "section_bytes example_obj example_text \<noteq> None" "sec_size example_text = 16"
    by (simp_all add: section_bytes_def example_obj_def read_n_total) (simp add: example_text_def)
  then show ?thesis
    using text_image_complete [OF example_os_ok(1,2) refl refl l(4) refl refl, of example_env zero_proc]
    unfolding l by (simp add: l i c) blast
qed

end
