(* ===== verification/Ud_Decode.thy ===== *)
theory Ud_Decode
  imports Ud_Input "HOL-Library.Monad_Syntax"
begin

text \<open>
  The instruction decoder, \<^verbatim>\<open>libudis86/decode.c\<close>, over the opcode tables of \<^verbatim>\<open>itab.c\<close> as an
  argument. An operation takes the object and returns what it computes with the changed object;
  \<open>None\<close> is undefined behaviour of the C code: a call through the null hook, a read past the input
  buffer or a table, a write past the session buffer. Operands are passed by value and stored back
  by \<open>decode_operands\<close>, which is where the source points into the object.
\<close>

unbundle bit_operations_syntax

section \<open>Fields of prefix and mode bytes\<close>

definition REX_W :: "u8 \<Rightarrow> nat" where "REX_W r = unat (drop_bit 3 (0xF AND r))"
definition REX_R :: "u8 \<Rightarrow> nat" where "REX_R r = unat (drop_bit 2 (0x7 AND r))"
definition REX_X :: "u8 \<Rightarrow> nat" where "REX_X r = unat (drop_bit 1 (0x3 AND r))"
definition REX_B :: "u8 \<Rightarrow> nat" where "REX_B r = unat (0x1 AND r)"

definition REX_PFX_MASK :: "u32 \<Rightarrow> u8" where
  "REX_PFX_MASK n =
     push_bit 3 (of_bool (P_REXW n)) OR push_bit 2 (of_bool (P_REXR n)) OR
     push_bit 1 (of_bool (P_REXX n)) OR of_bool (P_REXB n)"

definition SIB_S :: "u8 \<Rightarrow> nat" where "SIB_S b = unat (drop_bit 6 b)"
definition SIB_I :: "u8 \<Rightarrow> nat" where "SIB_I b = unat (drop_bit 3 b AND 7)"
definition SIB_B :: "u8 \<Rightarrow> nat" where "SIB_B b = unat (b AND 7)"

definition MODRM_REG :: "u8 \<Rightarrow> nat" where "MODRM_REG b = unat (drop_bit 3 b AND 7)"
definition MODRM_MOD :: "u8 \<Rightarrow> nat" where "MODRM_MOD b = unat (drop_bit 6 b AND 3)"
definition MODRM_RM :: "u8 \<Rightarrow> nat" where "MODRM_RM b = unat (b AND 7)"

datatype reg_class =
  REGCLASS_GPR | REGCLASS_MMX | REGCLASS_CR | REGCLASS_DB | REGCLASS_SEG | REGCLASS_XMM

section \<open>Input\<close>

definition UDERR :: "ud \<Rightarrow> ud" where "UDERR u = u\<lparr>ud_error := True\<rparr>"

definition inp_start :: "ud \<Rightarrow> ud" where "inp_start u = u\<lparr>inp_ctr := 0\<rparr>"

text \<open>The session buffer of the object has 64 bytes.\<close>

definition inp_eoi :: "ud \<Rightarrow> u8 \<times> ud" where
  "inp_eoi u = (0, UDERR (u\<lparr>inp_end := True\<rparr>))"

definition inp_next :: "ud \<Rightarrow> (u8 \<times> ud) option" where
  "inp_next u =
     (if inp_end u then Some (inp_eoi u)
      else case inp_buf u of
        Some buf \<Rightarrow>
          (if inp_buf_index u < inp_buf_size u then
             (if inp_buf_index u < length buf then
                let c = buf ! inp_buf_index u
                in Some (c, u\<lparr>inp_buf_index := inp_buf_index u + 1, ud_inp_curr := c,
                              inp_ctr := inp_ctr u + 1\<rparr>)
              else None)
           else Some (inp_eoi u))
      | None \<Rightarrow>
          (case inp_hook u of
             None \<Rightarrow> None
           | Some [] \<Rightarrow> Some (inp_eoi u)
           | Some (c # cs) \<Rightarrow>
               (if inp_ctr u < length (inp_sess u) then
                  Some (c, u\<lparr>inp_hook := Some cs, ud_inp_curr := c, inp_ctr := inp_ctr u + 1,
                             inp_sess := (inp_sess u)[inp_ctr u := c]\<rparr>)
                else None)))"

definition inp_curr :: "ud \<Rightarrow> u8" where "inp_curr u = ud_inp_curr u"

definition inp_uint8 :: "ud \<Rightarrow> (u8 \<times> ud) option" where "inp_uint8 u = inp_next u"

definition inp_uint16 :: "ud \<Rightarrow> (u16 \<times> ud) option" where
  "inp_uint16 u = do {
     (a, u) \<leftarrow> inp_next u;
     (b, u) \<leftarrow> inp_next u;
     Some (ucast a OR push_bit 8 (ucast b), u)
   }"

definition inp_uint32 :: "ud \<Rightarrow> (u32 \<times> ud) option" where
  "inp_uint32 u = do {
     (a, u) \<leftarrow> inp_next u;
     (b, u) \<leftarrow> inp_next u;
     (c, u) \<leftarrow> inp_next u;
     (d, u) \<leftarrow> inp_next u;
     Some (ucast a OR push_bit 8 (ucast b) OR push_bit 16 (ucast c) OR push_bit 24 (ucast d), u)
   }"

definition inp_uint64 :: "ud \<Rightarrow> (u64 \<times> ud) option" where
  "inp_uint64 u = do {
     (a, u) \<leftarrow> inp_next u;
     (b, u) \<leftarrow> inp_next u;
     (c, u) \<leftarrow> inp_next u;
     (d, u) \<leftarrow> inp_next u;
     (e, u) \<leftarrow> inp_next u;
     (f, u) \<leftarrow> inp_next u;
     (g, u) \<leftarrow> inp_next u;
     (h, u) \<leftarrow> inp_next u;
     Some (ucast a OR push_bit 8 (ucast b) OR push_bit 16 (ucast c) OR push_bit 24 (ucast d) OR
           push_bit 32 (ucast e) OR push_bit 40 (ucast f) OR push_bit 48 (ucast g) OR
           push_bit 56 (ucast h), u)
   }"

definition eff_opr_mode :: "nat \<Rightarrow> bool \<Rightarrow> bool \<Rightarrow> nat" where
  "eff_opr_mode dm rex_w pfx =
     (if dm = 64 then (if rex_w then 64 else if pfx then 16 else 32)
      else if dm = 32 then (if pfx then 16 else 32)
      else (if pfx then 32 else 16))"

definition eff_adr_mode :: "nat \<Rightarrow> bool \<Rightarrow> nat" where
  "eff_adr_mode dm pfx =
     (if dm = 64 then (if pfx then 32 else 64)
      else if dm = 32 then (if pfx then 16 else 32)
      else (if pfx then 32 else 16))"

section \<open>Prefixes\<close>

text \<open>One case of the \<open>switch\<close>: the object after the byte and whether the loop is done.\<close>

definition prefix_byte :: "ud \<Rightarrow> u8 \<Rightarrow> ud \<times> bool" where
  "prefix_byte u c =
     (if c = 0x2E then (u\<lparr>pfx_seg := UD_R_CS\<rparr>, False)
      else if c = 0x36 then (u\<lparr>pfx_seg := UD_R_SS\<rparr>, False)
      else if c = 0x3E then (u\<lparr>pfx_seg := UD_R_DS\<rparr>, False)
      else if c = 0x26 then (u\<lparr>pfx_seg := UD_R_ES\<rparr>, False)
      else if c = 0x64 then (u\<lparr>pfx_seg := UD_R_FS\<rparr>, False)
      else if c = 0x65 then (u\<lparr>pfx_seg := UD_R_GS\<rparr>, False)
      else if c = 0x67 then (u\<lparr>pfx_adr := 0x67\<rparr>, False)
      else if c = 0xF0 then (u\<lparr>pfx_lock := 0xF0\<rparr>, False)
      else if c = 0x66 then (u\<lparr>pfx_opr := 0x66\<rparr>, False)
      else if c = 0xF2 then (u\<lparr>pfx_str := 0xf2\<rparr>, False)
      else if c = 0xF3 then (u\<lparr>pfx_str := 0xf3\<rparr>, False)
      else (u, \<not> (dis_mode u = 64 \<and> c AND 0xF0 = 0x40)))"

text \<open>What is left of the input, the measure of the loops that read it.\<close>

definition inp_left :: "ud \<Rightarrow> nat" where
  "inp_left u =
     (case inp_buf u of
        Some buf \<Rightarrow> inp_buf_size u - inp_buf_index u
      | None \<Rightarrow> (case inp_hook u of None \<Rightarrow> 0 | Some cs \<Rightarrow> length cs))"

lemma inp_next_left:
  "inp_next u = Some (c, u') \<Longrightarrow> ud_error u' \<or> inp_left u' < inp_left u"
  by (auto simp: inp_next_def inp_eoi_def UDERR_def inp_left_def Let_def
      split: if_splits option.splits list.splits)

lemma prefix_byte_input [simp]:
  "inp_buf (fst (prefix_byte u c)) = inp_buf u"
  "inp_buf_size (fst (prefix_byte u c)) = inp_buf_size u"
  "inp_buf_index (fst (prefix_byte u c)) = inp_buf_index u"
  "inp_hook (fst (prefix_byte u c)) = inp_hook u"
  by (simp_all add: prefix_byte_def)

lemma prefix_byte_left [simp]: "inp_left (fst (prefix_byte u c)) = inp_left u"
  by (simp add: inp_left_def split: option.split)

text \<open>
  The body of the loop. The loop assigns \<open>last = curr\<close> before \<open>curr\<close> is read, so the argument
  \<open>cur\<close> of the first iteration is whatever the uninitialised variable holds. The integer is the
  C return value.
\<close>

function prefix_loop :: "u8 \<Rightarrow> ud \<Rightarrow> (int \<times> ud) option" where
  "prefix_loop cur u =
     (let last_byte = cur in
      case inp_next u of
        None \<Rightarrow> None
      | Some (c, u1) \<Rightarrow>
          if ud_error u1 then Some (1, u1)
          else if inp_ctr u1 = MAX_INSN_LENGTH then Some (1, UDERR u1)
          else if snd (prefix_byte u1 c) then
            (let u2 = fst (prefix_byte u1 c) in
             Some (0, if dis_mode u2 = 64 \<and> last_byte AND 0xF0 = 0x40
                      then u2\<lparr>pfx_rex := last_byte\<rparr> else u2))
          else prefix_loop c (fst (prefix_byte u1 c)))"
  by pat_completeness auto
termination
  by (relation "measure (\<lambda>(c, u). inp_left u)") (auto dest!: inp_next_left)

definition decode_prefixes :: "u8 \<Rightarrow> ud \<Rightarrow> (int \<times> ud) option" where
  "decode_prefixes junk u = (if ud_error u then Some (1, u) else prefix_loop junk u)"

definition modrm :: "ud \<Rightarrow> (u8 \<times> ud) option" where
  "modrm u =
     (if have_modrm u then Some (ud_modrm u, u)
      else do {
        (c, u) \<leftarrow> inp_next u;
        Some (c, u\<lparr>ud_modrm := c, have_modrm := True\<rparr>)
      })"

definition resolve_operand_size :: "ud \<Rightarrow> ud_operand_size \<Rightarrow> nat" where
  "resolve_operand_size u s =
     (if s = SZ_V then opr_mode u
      else if s = SZ_Z then (if opr_mode u = 16 then 16 else 32)
      else if s = SZ_Y then (if opr_mode u = 16 then 32 else opr_mode u)
      else if s = SZ_RDQ then (if dis_mode u = 64 then 64 else 32)
      else s)"

section \<open>Operands\<close>

text \<open>Assignment to the \<open>n\<close> bits of the union \<open>lval\<close> from bit \<open>lo\<close> on.\<close>

definition put_bits :: "nat \<Rightarrow> nat \<Rightarrow> u64 \<Rightarrow> u64 \<Rightarrow> u64" where
  "put_bits lo n v w = (w AND NOT (push_bit lo (mask n))) OR push_bit lo (take_bit n v)"

definition set_lval :: "nat \<Rightarrow> u64 \<Rightarrow> ud_operand \<Rightarrow> ud_operand" where
  "set_lval n v opr = opr\<lparr>opr_lval := put_bits 0 n v (opr_lval opr)\<rparr>"

text \<open>In \<open>lval.ptr\<close> the segment is at byte 0 and the offset at byte 4.\<close>

definition set_ptr_off :: "u32 \<Rightarrow> ud_operand \<Rightarrow> ud_operand" where
  "set_ptr_off v opr = opr\<lparr>opr_lval := put_bits 32 32 (ucast v) (opr_lval opr)\<rparr>"

definition set_ptr_seg :: "u16 \<Rightarrow> ud_operand \<Rightarrow> ud_operand" where
  "set_ptr_seg v opr = opr\<lparr>opr_lval := put_bits 0 16 (ucast v) (opr_lval opr)\<rparr>"

definition decode_a :: "ud \<Rightarrow> ud_operand \<Rightarrow> (ud_operand \<times> ud) option" where
  "decode_a u opr =
     (if opr_mode u = 16 then do {
        (off, u) \<leftarrow> inp_uint16 u;
        (seg, u) \<leftarrow> inp_uint16 u;
        Some (set_ptr_seg seg (set_ptr_off (ucast off) (opr\<lparr>opr_type := UD_OP_PTR, opr_size := 32\<rparr>)), u)
      } else do {
        (off, u) \<leftarrow> inp_uint32 u;
        (seg, u) \<leftarrow> inp_uint16 u;
        Some (set_ptr_seg seg (set_ptr_off off (opr\<lparr>opr_type := UD_OP_PTR, opr_size := 48\<rparr>)), u)
      })"

definition decode_gpr :: "ud \<Rightarrow> nat \<Rightarrow> nat \<Rightarrow> ud_type" where
  "decode_gpr u s rm =
     (if s = 64 then UD_R_RAX + rm
      else if s = 32 then UD_R_EAX + rm
      else if s = 16 then UD_R_AX + rm
      else if s = 8 then
        (if dis_mode u = 64 \<and> pfx_rex u \<noteq> 0
         then (if rm \<ge> 4 then UD_R_SPL + (rm - 4) else UD_R_AL + rm)
         else UD_R_AL + rm)
      else UD_NONE)"

definition reg_operand :: "nat \<Rightarrow> ud_type \<Rightarrow> ud_operand \<Rightarrow> ud_operand" where
  "reg_operand sz reg opr = opr\<lparr>opr_type := UD_OP_REG, opr_size := sz mod 256, opr_base := reg\<rparr>"

definition decode_reg ::
  "ud \<Rightarrow> ud_operand \<Rightarrow> reg_class \<Rightarrow> nat \<Rightarrow> ud_operand_size \<Rightarrow> ud_operand \<times> ud" where
  "decode_reg u opr ty num sz =
     (let sz = resolve_operand_size u sz in
      case ty of
        REGCLASS_GPR \<Rightarrow> (reg_operand sz (decode_gpr u sz num) opr, u)
      | REGCLASS_MMX \<Rightarrow> (reg_operand sz (UD_R_MM0 + num mod 8) opr, u)
      | REGCLASS_XMM \<Rightarrow> (reg_operand sz (UD_R_XMM0 + num) opr, u)
      | REGCLASS_CR \<Rightarrow> (reg_operand sz (UD_R_CR0 + num) opr, u)
      | REGCLASS_DB \<Rightarrow> (reg_operand sz (UD_R_DR0 + num) opr, u)
      | REGCLASS_SEG \<Rightarrow>
          (if num mod 8 > 5 then (opr, UDERR u)
           else (reg_operand sz (UD_R_ES + num mod 8) opr, u)))"

text \<open>Reading a little-endian value of 8, 16, 32 or 64 bits into the union.\<close>

definition read_lval :: "nat \<Rightarrow> ud \<Rightarrow> ud_operand \<Rightarrow> (ud_operand \<times> ud) option" where
  "read_lval n u opr =
     (if n = 8 then do { (v, u) \<leftarrow> inp_uint8 u; Some (set_lval 8 (ucast v) opr, u) }
      else if n = 16 then do { (v, u) \<leftarrow> inp_uint16 u; Some (set_lval 16 (ucast v) opr, u) }
      else if n = 32 then do { (v, u) \<leftarrow> inp_uint32 u; Some (set_lval 32 (ucast v) opr, u) }
      else if n = 64 then do { (v, u) \<leftarrow> inp_uint64 u; Some (set_lval 64 v opr, u) }
      else Some (opr, u))"

definition decode_imm :: "ud \<Rightarrow> ud_operand_size \<Rightarrow> ud_operand \<Rightarrow> (ud_operand \<times> ud) option" where
  "decode_imm u sz opr =
     (let n = resolve_operand_size u sz mod 256
      in read_lval n u (opr\<lparr>opr_type := UD_OP_IMM, opr_size := n\<rparr>))"

definition decode_mem_disp :: "ud \<Rightarrow> nat \<Rightarrow> ud_operand \<Rightarrow> (ud_operand \<times> ud) option" where
  "decode_mem_disp u sz opr =
     (if sz \<in> {8, 16, 32, 64} then read_lval sz u (opr\<lparr>opr_offset := sz\<rparr>) else Some (opr, u))"

definition decode_modrm_reg ::
  "ud \<Rightarrow> ud_operand \<Rightarrow> reg_class \<Rightarrow> ud_operand_size \<Rightarrow> (ud_operand \<times> ud) option" where
  "decode_modrm_reg u opr ty sz = do {
     (m, u) \<leftarrow> modrm u;
     Some (decode_reg u opr ty (8 * REX_R (pfx_rex u) + MODRM_REG m) sz)
   }"

text \<open>The SIB byte, for the first register of the address size; \<open>special\<close> are the base registers
  that stand for a displacement.\<close>

definition decode_sib ::
  "ud_type \<Rightarrow> ud_type \<Rightarrow> ud_type list \<Rightarrow> nat \<Rightarrow> nat \<Rightarrow> ud \<Rightarrow> ud_operand \<Rightarrow>
     ((nat \<times> ud_operand) \<times> ud) option" where
  "decode_sib reg0 sp special md offset u opr = do {
     (_, u) \<leftarrow> inp_next u;
     let b = inp_curr u;
     let index = reg0 + (SIB_I b + 8 * REX_X (pfx_rex u));
     let base = reg0 + (SIB_B b + 8 * REX_B (pfx_rex u));
     let scale = (if SIB_S b = 0 then 0 else 2 ^ SIB_S b);
     let (index, scale) = (if index = sp then (UD_NONE, 0) else (index, scale));
     let offset = (if base \<in> set special then (if md = 1 then 8 else 32) else offset);
     let base = (if base \<in> set special \<and> md = 0 then UD_NONE else base);
     Some ((offset, opr\<lparr>opr_base := base, opr_index := index, opr_scale := scale\<rparr>), u)
   }"

definition modrm_bases :: "ud_type list" where
  "modrm_bases = [UD_R_BX, UD_R_BX, UD_R_BP, UD_R_BP, UD_R_SI, UD_R_DI, UD_R_BP, UD_R_BX]"

definition modrm_indices :: "ud_type list" where
  "modrm_indices = [UD_R_SI, UD_R_DI, UD_R_SI, UD_R_DI, UD_NONE, UD_NONE, UD_NONE, UD_NONE]"

text \<open>The address part of a memory operand and the width of its displacement, per address size.\<close>

definition modrm_mem64 :: "nat \<Rightarrow> nat \<Rightarrow> ud \<Rightarrow> ud_operand \<Rightarrow> ((nat \<times> ud_operand) \<times> ud) option" where
  "modrm_mem64 md rm u opr =
     (let base = (if md = 0 \<and> rm mod 8 = 5 then UD_R_RIP else UD_R_RAX + rm);
          offset = (if md = 1 then 8 else if md = 2 then 32
                    else if md = 0 \<and> rm mod 8 = 5 then 32 else 0);
          opr = opr\<lparr>opr_base := base\<rparr>
      in if rm mod 8 = 4
         then decode_sib UD_R_RAX UD_R_RSP [UD_R_RBP, UD_R_R13] md offset u opr
         else Some ((offset, opr), u))"

definition modrm_mem32 :: "nat \<Rightarrow> nat \<Rightarrow> ud \<Rightarrow> ud_operand \<Rightarrow> ((nat \<times> ud_operand) \<times> ud) option" where
  "modrm_mem32 md rm u opr =
     (let base = (if md = 0 \<and> rm = 5 then UD_NONE else UD_R_EAX + rm);
          offset = (if md = 1 then 8 else if md = 2 then 32
                    else if md = 0 \<and> rm = 5 then 32 else 0);
          opr = opr\<lparr>opr_base := base\<rparr>
      in if rm mod 8 = 4 then decode_sib UD_R_EAX UD_R_ESP [UD_R_EBP] md offset u opr
         else Some ((offset, opr), u))"

definition modrm_mem16 :: "nat \<Rightarrow> nat \<Rightarrow> ud_operand \<Rightarrow> nat \<times> ud_operand" where
  "modrm_mem16 md rm opr =
     (let base = (if md = 0 \<and> rm = 6 then UD_NONE else modrm_bases ! (rm mod 8));
          offset = (if md = 0 \<and> rm = 6 then 16 else if md = 1 then 8 else if md = 2 then 16 else 0)
      in (offset, opr\<lparr>opr_base := base, opr_index := modrm_indices ! (rm mod 8)\<rparr>))"

definition modrm_address :: "nat \<Rightarrow> nat \<Rightarrow> ud \<Rightarrow> ud_operand \<Rightarrow> ((nat \<times> ud_operand) \<times> ud) option" where
  "modrm_address md rm u opr =
     (if adr_mode u = 64 then modrm_mem64 md rm u opr
      else if adr_mode u = 32 then modrm_mem32 md rm u opr
      else Some (modrm_mem16 md rm opr, u))"

definition decode_modrm_rm ::
  "ud \<Rightarrow> ud_operand \<Rightarrow> reg_class \<Rightarrow> ud_operand_size \<Rightarrow> (ud_operand \<times> ud) option" where
  "decode_modrm_rm u opr ty sz = do {
     (m, u) \<leftarrow> modrm u;
     let md = MODRM_MOD m;
     let rm = 8 * REX_B (pfx_rex u) + MODRM_RM m;
     if md = 3 then Some (decode_reg u opr ty rm sz)
     else do {
       let opr = opr\<lparr>opr_type := UD_OP_MEM, opr_size := resolve_operand_size u sz mod 256\<rparr>;
       ((offset, opr), u) \<leftarrow> modrm_address md rm u opr;
       if offset \<noteq> 0 then decode_mem_disp u offset opr else Some (opr, u)
     }
   }"

definition decode_moffset :: "ud \<Rightarrow> ud_operand_size \<Rightarrow> ud_operand \<Rightarrow> (ud_operand \<times> ud) option" where
  "decode_moffset u sz opr =
     decode_mem_disp u (adr_mode u)
       (opr\<lparr>opr_type := UD_OP_MEM, opr_size := resolve_operand_size u sz mod 256\<rparr>)"

text \<open>\<open>expect_mod3\<close> and \<open>expect_mem\<close> are the two checks of the mode byte that set the error
  and go on.\<close>

definition expect_mod3 :: "ud \<Rightarrow> ud option" where
  "expect_mod3 u = do { (m, u) \<leftarrow> modrm u; Some (if MODRM_MOD m \<noteq> 3 then UDERR u else u) }"

definition expect_mem :: "ud \<Rightarrow> ud option" where
  "expect_mem u = do { (m, u) \<leftarrow> modrm u; Some (if MODRM_MOD m = 3 then UDERR u else u) }"

definition decode_mx ::
  "ud \<Rightarrow> ud_operand \<Rightarrow> reg_class \<Rightarrow> ud_operand_size \<Rightarrow> (ud_operand \<times> ud) option" where
  "decode_mx u opr ty sz = do {
     (m, u) \<leftarrow> modrm u;
     decode_modrm_rm u opr ty (if MODRM_MOD m = 3 then Mx_reg_size sz else Mx_mem_size sz)
   }"

definition decode_operand ::
  "ud \<Rightarrow> ud_operand \<Rightarrow> ud_operand_code \<Rightarrow> ud_operand_size \<Rightarrow> (ud_operand \<times> ud) option" where
  "decode_operand u opr ty sz =
     (let opr = opr\<lparr>opr_oprcode := ty\<rparr> in
      if ty = OP_A then decode_a u opr
      else if ty = OP_MR then decode_mx u opr REGCLASS_GPR sz
      else if ty = OP_F then
        do { u \<leftarrow> expect_mem (u\<lparr>br_far := True\<rparr>); decode_modrm_rm u opr REGCLASS_GPR sz }
      else if ty = OP_M then do { u \<leftarrow> expect_mem u; decode_modrm_rm u opr REGCLASS_GPR sz }
      else if ty = OP_E then decode_modrm_rm u opr REGCLASS_GPR sz
      else if ty = OP_G then decode_modrm_reg u opr REGCLASS_GPR sz
      else if ty = OP_sI \<or> ty = OP_I then decode_imm u sz opr
      else if ty = OP_I1 then Some (set_lval 32 1 (opr\<lparr>opr_type := UD_OP_CONST\<rparr>), u)
      else if ty = OP_N then do { u \<leftarrow> expect_mod3 u; decode_modrm_rm u opr REGCLASS_MMX sz }
      else if ty = OP_Q then decode_modrm_rm u opr REGCLASS_MMX sz
      else if ty = OP_P then decode_modrm_reg u opr REGCLASS_MMX sz
      else if ty = OP_U then do { u \<leftarrow> expect_mod3 u; decode_modrm_rm u opr REGCLASS_XMM sz }
      else if ty = OP_W then decode_modrm_rm u opr REGCLASS_XMM sz
      else if ty = OP_V then decode_modrm_reg u opr REGCLASS_XMM sz
      else if ty = OP_MU then decode_mx u opr REGCLASS_XMM sz
      else if ty = OP_S then decode_modrm_reg u opr REGCLASS_SEG sz
      else if ty = OP_O then decode_moffset u sz opr
      else if OP_R0 \<le> ty \<and> ty \<le> OP_R7 then
        Some (decode_reg u opr REGCLASS_GPR (8 * REX_B (pfx_rex u) + (ty - OP_R0)) sz)
      else if ty = OP_AL \<or> ty = OP_AX \<or> ty = OP_eAX \<or> ty = OP_rAX then
        Some (decode_reg u opr REGCLASS_GPR 0 sz)
      else if ty = OP_CL \<or> ty = OP_CX \<or> ty = OP_eCX then
        Some (decode_reg u opr REGCLASS_GPR 1 sz)
      else if ty = OP_DL \<or> ty = OP_DX \<or> ty = OP_eDX then
        Some (decode_reg u opr REGCLASS_GPR 2 sz)
      else if OP_ES \<le> ty \<and> ty \<le> OP_GS then
        Some (opr\<lparr>opr_type := UD_OP_REG, opr_size := 16, opr_base := (ty - OP_ES) + UD_R_ES\<rparr>,
              if dis_mode u = 64 \<and> ty \<noteq> OP_FS \<and> ty \<noteq> OP_GS then UDERR u else u)
      else if ty = OP_J then do {
        (opr, u) \<leftarrow> decode_imm u sz opr;
        Some (opr\<lparr>opr_type := UD_OP_JIMM\<rparr>, u)
      }
      else if ty = OP_R then do { u \<leftarrow> expect_mod3 u; decode_modrm_rm u opr REGCLASS_GPR sz }
      else if ty = OP_C then decode_modrm_reg u opr REGCLASS_CR sz
      else if ty = OP_D then decode_modrm_reg u opr REGCLASS_DB sz
      else if ty = OP_I3 then Some (set_lval 8 3 (opr\<lparr>opr_type := UD_OP_CONST\<rparr>), u)
      else if OP_ST0 \<le> ty \<and> ty \<le> OP_ST7 then
        Some (opr\<lparr>opr_type := UD_OP_REG, opr_size := 80, opr_base := (ty - OP_ST0) + UD_R_ST0\<rparr>, u)
      else Some (opr, u))"

definition decode_operands :: "ud_itab_entry \<Rightarrow> ud \<Rightarrow> (int \<times> ud) option" where
  "decode_operands e u = do {
     (opr, u) \<leftarrow> decode_operand u (operand0 u) (eo_type (ie_operand1 e)) (eo_size (ie_operand1 e));
     let u = u\<lparr>operand0 := opr\<rparr>;
     (opr, u) \<leftarrow> decode_operand u (operand1 u) (eo_type (ie_operand2 e)) (eo_size (ie_operand2 e));
     let u = u\<lparr>operand1 := opr\<rparr>;
     (opr, u) \<leftarrow> decode_operand u (operand2 u) (eo_type (ie_operand3 e)) (eo_size (ie_operand3 e));
     Some (0, u\<lparr>operand2 := opr\<rparr>)
   }"

section \<open>Instructions\<close>

definition clear_insn :: "ud \<Rightarrow> ud" where
  "clear_insn u =
     u\<lparr>mnemonic := UD_Inone, operand0 := zero_operand, operand1 := zero_operand,
       operand2 := zero_operand, ud_error := False, pfx_rex := 0, pfx_seg := 0, pfx_opr := 0,
       pfx_adr := 0, pfx_lock := 0, pfx_str := 0, pfx_rep := 0, pfx_repe := 0, pfx_repne := 0,
       br_far := False, have_modrm := False, itab_entry := None\<rparr>"

text \<open>The element of an array, \<open>None\<close> past its bound.\<close>

definition array_at :: "'a list \<Rightarrow> nat \<Rightarrow> 'a option" where
  "array_at xs i = (if i < length xs then Some (xs ! i) else None)"

definition resolve_pfx_str :: "ud_itab_entry \<Rightarrow> ud \<Rightarrow> ud" where
  "resolve_pfx_str e u =
     (if pfx_str u = 0xf3 then
        (if P_STR (ie_prefix e) then u\<lparr>pfx_rep := 0xf3\<rparr> else u\<lparr>pfx_repe := 0xf3\<rparr>)
      else if pfx_str u = 0xf2 then u\<lparr>pfx_repne := 0xf3\<rparr>
      else u)"

definition resolve_mode :: "ud_itab_entry \<Rightarrow> ud \<Rightarrow> int \<times> ud" where
  "resolve_mode e u =
     (if ud_error u then (-1, u)
      else if dis_mode u = 64 then
        (if P_INV64 (ie_prefix e) then (-1, UDERR u)
         else
           let rex = (pfx_rex u AND 0x40) OR (pfx_rex u AND REX_PFX_MASK (ie_prefix e));
               om = (if REX_W rex \<noteq> 0 then 64 else if pfx_opr u \<noteq> 0 then 16
                     else if P_DEF64 (ie_prefix e) then 64 else 32)
           in (0, u\<lparr>pfx_rex := rex, opr_mode := om, adr_mode := (if pfx_adr u \<noteq> 0 then 32 else 64)\<rparr>))
      else if dis_mode u = 32 then
        (0, u\<lparr>opr_mode := (if pfx_opr u \<noteq> 0 then 16 else 32),
              adr_mode := (if pfx_adr u \<noteq> 0 then 16 else 32)\<rparr>)
      else if dis_mode u = 16 then
        (0, u\<lparr>opr_mode := (if pfx_opr u \<noteq> 0 then 32 else 16),
              adr_mode := (if pfx_adr u \<noteq> 0 then 32 else 16)\<rparr>)
      else (0, u))"

definition both_reg :: "ud \<Rightarrow> ud_type \<Rightarrow> bool" where
  "both_reg u r \<longleftrightarrow>
     opr_type (operand0 u) = UD_OP_REG \<and> opr_base (operand0 u) = r \<and>
     opr_type (operand1 u) = UD_OP_REG \<and> opr_base (operand1 u) = r"

definition resolve_3dnow :: "ud_tables \<Rightarrow> ud \<Rightarrow> ud option" where
  "resolve_3dnow t u =
     (if mnemonic u = UD_I3dnow then do {
        le \<leftarrow> ud_le u;
        ptr \<leftarrow> array_at (le_table le) (unat (inp_curr u));
        e \<leftarrow> array_at (ud_itab t) (unat ptr);
        Some (u\<lparr>mnemonic := ie_mnemonic e\<rparr>)
      } else Some u)"

definition resolve_xchg :: "ud \<Rightarrow> ud" where
  "resolve_xchg u =
     (if mnemonic u = UD_Ixchg \<and> (both_reg u UD_R_AX \<or> both_reg u UD_R_EAX)
      then u\<lparr>mnemonic := UD_Inop, operand0 := (operand0 u)\<lparr>opr_type := UD_NONE\<rparr>,
             operand1 := (operand1 u)\<lparr>opr_type := UD_NONE\<rparr>\<rparr>
      else u)"

definition resolve_pause :: "ud \<Rightarrow> ud" where
  "resolve_pause u =
     (if mnemonic u = UD_Inop \<and> pfx_repe u \<noteq> 0 then u\<lparr>mnemonic := UD_Ipause, pfx_repe := 0\<rparr>
      else u)"

definition resolve_mnemonic :: "ud_tables \<Rightarrow> ud \<Rightarrow> (int \<times> ud) option" where
  "resolve_mnemonic t u = do {
     u \<leftarrow> resolve_3dnow t u;
     if mnemonic u = UD_Iswapgs \<and> dis_mode u \<noteq> 64 then Some (-1, UDERR u)
     else Some (0, resolve_pause (resolve_xchg u))
   }"

definition decode_insn :: "ud_tables \<Rightarrow> ud \<Rightarrow> u16 \<Rightarrow> (int \<times> ud) option" where
  "decode_insn t u ptr = do {
     e \<leftarrow> array_at (ud_itab t) (unat ptr);
     let u = u\<lparr>mnemonic := ie_mnemonic e, itab_entry := Some e\<rparr>;
     let u = resolve_pfx_str e u;
     let (r, u) = resolve_mode e u;
     if r \<noteq> 0 then Some (-1, u)
     else do {
       (r, u) \<leftarrow> decode_operands e u;
       if r \<noteq> 0 then Some (-1, u)
       else do {
         (r, u) \<leftarrow> resolve_mnemonic t u;
         Some (if r = 0 then 0 else -1, u)
       }
     }
   }"

section \<open>Opcodes\<close>

definition is_group :: "u16 \<Rightarrow> bool" where "is_group ptr \<longleftrightarrow> ptr AND 0x8000 \<noteq> 0"

definition group_index :: "u16 \<Rightarrow> nat" where "group_index ptr = unat (NOT 0x8000 AND ptr)"

definition decode_3dnow :: "ud_tables \<Rightarrow> ud_lookup_table_list_entry \<Rightarrow> ud \<Rightarrow> (int \<times> ud) option" where
  "decode_3dnow t le u = do {
     ptr \<leftarrow> array_at (le_table le) 0xc;
     (_, u) \<leftarrow> decode_insn t u ptr;
     (_, u) \<leftarrow> inp_next u;
     if ud_error u then Some (-1, u)
     else do {
       ptr \<leftarrow> array_at (le_table le) (unat (inp_curr u));
       e \<leftarrow> array_at (ud_itab t) (unat ptr);
       Some (0, u\<lparr>mnemonic := ie_mnemonic e\<rparr>)
     }
   }"

text \<open>The choice of \<open>decode_ssepfx\<close>: the index into the table and the object with a consumed
  prefix cleared. Its last statement, the call of \<open>decode_ext\<close>, is in \<open>decode_ext\<close> below.\<close>

definition sse_pfx :: "ud \<Rightarrow> u8" where
  "sse_pfx u = (if pfx_str u = 0 then pfx_opr u else pfx_str u)"

definition sse_idx :: "u8 \<Rightarrow> nat" where "sse_idx pfx = unat ((pfx AND 0xf) + 1) div 2"

definition decode_ssepfx :: "ud_lookup_table_list_entry \<Rightarrow> ud \<Rightarrow> (nat \<times> ud) option" where
  "decode_ssepfx le u = do {
     let pfx = sse_pfx u;
     let idx = sse_idx pfx;
     ptr \<leftarrow> array_at (le_table le) idx;
     let idx = (if ptr = 0 then 0 else idx);
     Some (idx,
       if idx \<noteq> 0 then (if pfx = 0x66 then u\<lparr>pfx_opr := 0, pfx_str := 0\<rparr> else u\<lparr>pfx_str := 0\<rparr>)
       else u)
   }"

text \<open>The index that each kind of extension table is read at.\<close>

definition vendor_index :: "ud_lookup_table_list_entry \<Rightarrow> ud \<Rightarrow> nat option" where
  "vendor_index le u =
     (if vendor u = UD_VENDOR_ANY then do {
        ptr \<leftarrow> array_at (le_table le) 0;
        Some (if ptr \<noteq> 0 then 0 else 1)
      } else Some (if vendor u = UD_VENDOR_AMD then 0 else 1))"

definition ext_index :: "ud_lookup_table_list_entry \<Rightarrow> ud \<Rightarrow> (nat \<times> ud) option" where
  "ext_index le u =
     (case le_type le of
        UD_TAB__OPC_MOD \<Rightarrow> do { (m, u) \<leftarrow> modrm u; Some ((MODRM_MOD m + 1) div 4, u) }
      | UD_TAB__OPC_MODE \<Rightarrow> Some (if dis_mode u \<noteq> 64 then 0 else 1, u)
      | UD_TAB__OPC_OSIZE \<Rightarrow>
          Some (eff_opr_mode (dis_mode u) (REX_W (pfx_rex u) \<noteq> 0) (pfx_opr u \<noteq> 0) div 32, u)
      | UD_TAB__OPC_ASIZE \<Rightarrow> Some (eff_adr_mode (dis_mode u) (pfx_adr u \<noteq> 0) div 32, u)
      | UD_TAB__OPC_X87 \<Rightarrow> do { (m, u) \<leftarrow> modrm u; Some (unat (m - 0xC0), u) }
      | UD_TAB__OPC_VENDOR \<Rightarrow> do { i \<leftarrow> vendor_index le u; Some (i, u) }
      | UD_TAB__OPC_RM \<Rightarrow> do { (m, u) \<leftarrow> modrm u; Some (MODRM_RM m, u) }
      | UD_TAB__OPC_REG \<Rightarrow> do { (m, u) \<leftarrow> modrm u; Some (MODRM_REG m, u) }
      | UD_TAB__OPC_SSE \<Rightarrow> decode_ssepfx le u
      | _ \<Rightarrow> Some (0, u))"

text \<open>The recursion follows the tables, which may be cyclic as far as this code goes: a recursion
  that does not end is \<open>None\<close>.\<close>

partial_function (option) decode_ext :: "ud_tables \<Rightarrow> ud \<Rightarrow> u16 \<Rightarrow> (int \<times> ud) option" where
  "decode_ext t u ptr =
     (if \<not> is_group ptr then decode_insn t u ptr
      else do {
        le \<leftarrow> array_at (ud_lookup_table_list t) (group_index ptr);
        let u = u\<lparr>ud_le := Some le\<rparr>;
        if le_type le = UD_TAB__OPC_3DNOW then decode_3dnow t le u
        else do {
          (idx, u) \<leftarrow> ext_index le u;
          ptr \<leftarrow> array_at (le_table le) idx;
          decode_ext t u ptr
        }
      })"

declare decode_ext.simps [code]

text \<open>An object in error returns at once, so the recursion over opcode bytes ends with the input.\<close>

definition opcode_measure :: "ud \<Rightarrow> nat" where
  "opcode_measure u = (if ud_error u then 0 else Suc (inp_left u))"

lemma opcode_measure_less:
  "inp_next u = Some (c, u') \<Longrightarrow> \<not> ud_error u \<Longrightarrow> opcode_measure u' < opcode_measure u"
  by (auto simp: opcode_measure_def dest: inp_next_left)

lemma inp_left_le [simp]: "inp_left (u\<lparr>ud_le := l\<rparr>) = inp_left u" 
  by (simp add: inp_left_def split: option.split)

lemma inp_left_primary [simp]: "inp_left (u\<lparr>primary_opcode := l\<rparr>) = inp_left u"
  by (simp add: inp_left_def split: option.split)

function decode_opcode :: "ud_tables \<Rightarrow> ud_lookup_table_list_entry \<Rightarrow> ud \<Rightarrow> (int \<times> ud) option" where
  "decode_opcode t le u =
     (if ud_error u then Some (1, u)
      else
        let u1 = u\<lparr>primary_opcode := inp_curr u\<rparr> in
        case array_at (le_table le) (unat (inp_curr u)) of
          None \<Rightarrow> None
        | Some ptr \<Rightarrow>
            if \<not> is_group ptr then decode_ext t u1 ptr
            else case array_at (ud_lookup_table_list t) (group_index ptr) of
              None \<Rightarrow> None
            | Some le' \<Rightarrow>
                let u2 = u1\<lparr>ud_le := Some le'\<rparr> in
                if le_type le' = UD_TAB__OPC_TABLE then
                  case inp_next u2 of
                    None \<Rightarrow> None
                  | Some (c, u3) \<Rightarrow> decode_opcode t le' u3
                else decode_ext t u2 ptr)"
  by pat_completeness auto
termination
  by (relation "measure (\<lambda>(t, le, u). opcode_measure u)")
    (auto dest!: opcode_measure_less simp: opcode_measure_def)

declare prefix_loop.simps [simp del] decode_opcode.simps [simp del]

definition decode_error :: "ud_tables \<Rightarrow> ud \<Rightarrow> ud option" where
  "decode_error t u = do {
     e \<leftarrow> array_at (ud_itab t) 0;
     Some ((clear_insn u)\<lparr>mnemonic := ie_mnemonic e, itab_entry := Some e\<rparr>)
   }"

definition stray_segment :: "ud_itab_entry \<Rightarrow> ud \<Rightarrow> ud" where
  "stray_segment e u =
     (if \<not> P_SEG (ie_prefix e) \<and> opr_type (operand0 u) \<noteq> UD_OP_MEM \<and>
         opr_type (operand1 u) \<noteq> UD_OP_MEM
      then u\<lparr>pfx_seg := 0\<rparr> else u)"

text \<open>The condition of the error: two calls, the second only when the first did not return \<open>-1\<close>.\<close>

definition decode_steps ::
  "ud_tables \<Rightarrow> u8 \<Rightarrow> ud_lookup_table_list_entry \<Rightarrow> ud \<Rightarrow> (bool \<times> ud) option" where
  "decode_steps t junk le u = do {
     (r, u) \<leftarrow> decode_prefixes junk u;
     if r = -1 then Some (True, u)
     else do {
       (r, u) \<leftarrow> decode_opcode t le u;
       Some (r = -1 \<or> ud_error u, u)
     }
   }"

definition ud_decode :: "ud_tables \<Rightarrow> u8 \<Rightarrow> ud \<Rightarrow> (nat \<times> ud) option" where
  "ud_decode t junk u = do {
     let u = clear_insn (inp_start u);
     le \<leftarrow> array_at (ud_lookup_table_list t) 0;
     (err, u) \<leftarrow> decode_steps t junk le (u\<lparr>ud_le := Some le\<rparr>);
     let u = u\<lparr>ud_error := err\<rparr>;
     u \<leftarrow> (if ud_error u then decode_error t u else Some u);
     e \<leftarrow> itab_entry u;
     let u = stray_segment e u;
     let u = u\<lparr>insn_offset := ud_pc u, asm_buf_fill := 0, ud_pc := ud_pc u + of_nat (inp_ctr u)\<rparr>;
     Some (inp_ctr u, u)
   }"

end
