(* ===== verification/Ud_Safe.thy ===== *)
theory Ud_Safe
  imports Ud_Decode
begin

text \<open>
  Reading input and operands: \<open>safe k u r\<close> says of a computation \<open>r\<close> started in \<open>u\<close> that it returns
  after reading at most \<open>k\<close> bytes, in order and in bounds; its rules follow the structure of the
  decoder, up to \<open>decode_operands\<close>.
\<close>

declare One_nat_def [simp del]

section \<open>The invariant of the object\<close>

definition input_inv :: "ud \<Rightarrow> bool" where
  "input_inv u \<longleftrightarrow>
     (if inp_buf u = None then inp_hook u \<noteq> None \<and> length (inp_sess u) = 64
      else inp_buf_size u \<le> length (the (inp_buf u)) \<and> inp_buf_index u \<le> inp_buf_size u)"

definition prefix_inv :: "ud \<Rightarrow> bool" where
  "prefix_inv u \<longleftrightarrow>
     pfx_str u \<in> {0, 0xf2, 0xf3} \<and> pfx_opr u \<in> {0, 0x66} \<and>
     (pfx_seg u = 0 \<or> UD_R_ES \<le> pfx_seg u \<and> pfx_seg u \<le> UD_R_GS)"

definition ud_inv :: "ud \<Rightarrow> bool" where "ud_inv u \<longleftrightarrow> input_inv u \<and> prefix_inv u"

text \<open>What no step of the decoder changes.\<close>

definition ud_frame where
  "ud_frame u = (inp_buf u, inp_buf_size u, dis_mode u, vendor u, ud_pc u, translator u, asm_buf u,
     asm_buf_size u, sym_resolver u, length (inp_sess u))"

text \<open>The bytes not yet read.\<close>

definition inp_rest :: "ud \<Rightarrow> u8 list" where
  "inp_rest u =
     (if inp_buf u = None then the (inp_hook u)
      else drop (inp_buf_index u) (take (inp_buf_size u) (the (inp_buf u))))"

text \<open>\<open>reads k u u'\<close>: the step from \<open>u\<close> to \<open>u'\<close> read at most \<open>k\<close> bytes, in order, and moved the
  position in the buffer by the number of bytes it read; it reports the end of the input only there.
  \<open>sess_reads u u'\<close>: bytes from a hook were appended to the session buffer. \<open>keeps u u'\<close>: an error and the mode byte stay.\<close>

definition reads :: "nat \<Rightarrow> ud \<Rightarrow> ud \<Rightarrow> bool" where
  "reads k u u' \<longleftrightarrow>
     (\<exists>n \<le> k. inp_ctr u' = inp_ctr u + n \<and> n \<le> length (inp_rest u) \<and>
        inp_rest u' = drop n (inp_rest u) \<and> (inp_end u' \<longrightarrow> inp_end u \<or> inp_rest u' = []) \<and>
        (inp_buf u \<noteq> None \<longrightarrow> inp_buf_index u' = inp_buf_index u + n))"

definition sess_reads :: "ud \<Rightarrow> ud \<Rightarrow> bool" where
  "sess_reads u u' \<longleftrightarrow>
     (inp_buf u = None \<longrightarrow>
        take (inp_ctr u') (inp_sess u') =
          take (inp_ctr u) (inp_sess u) @ take (inp_ctr u' - inp_ctr u) (inp_rest u))"

definition keeps :: "ud \<Rightarrow> ud \<Rightarrow> bool" where
  "keeps u u' \<longleftrightarrow>
     (ud_error u \<longrightarrow> ud_error u') \<and> (have_modrm u \<longrightarrow> have_modrm u' \<and> ud_modrm u' = ud_modrm u)"

definition advance :: "nat \<Rightarrow> ud \<Rightarrow> ud \<Rightarrow> bool" where
  "advance k u u' \<longleftrightarrow> ud_inv u' \<and> ud_frame u' = ud_frame u \<and> reads k u u' \<and> sess_reads u u' \<and> keeps u u'"

text \<open>A computation is safe when it returns as long as \<open>k\<close> bytes still fit the session buffer.\<close>

definition safe :: "nat \<Rightarrow> ud \<Rightarrow> ('a \<times> ud) option \<Rightarrow> bool" where
  "safe k u r \<longleftrightarrow>
     (ud_inv u \<longrightarrow> inp_ctr u + k \<le> 64 \<longrightarrow> (\<exists>x u'. r = Some (x, u') \<and> advance k u u'))"

lemma sess_reads_same: "inp_ctr v = inp_ctr u \<Longrightarrow> inp_sess v = inp_sess u \<Longrightarrow> sess_reads u v"
  by (simp add: sess_reads_def)

lemma advance_refl: "ud_inv u \<Longrightarrow> advance k u u"
  by (auto simp: advance_def reads_def keeps_def sess_reads_same)

lemma reads_trans:
  assumes uv: "reads k u v" and vw: "reads l v w" and same: "inp_buf u = inp_buf v"
  shows "reads (k + l) u w"
proof -
  obtain n where n: "n \<le> k" "inp_ctr v = inp_ctr u + n" "n \<le> length (inp_rest u)"
      "inp_rest v = drop n (inp_rest u)" "inp_end v \<longrightarrow> inp_end u \<or> inp_rest v = []"
      "inp_buf u \<noteq> None \<longrightarrow> inp_buf_index v = inp_buf_index u + n"
    using uv unfolding reads_def by blast
  obtain m where m: "m \<le> l" "inp_ctr w = inp_ctr v + m" "m \<le> length (inp_rest v)"
      "inp_rest w = drop m (inp_rest v)" "inp_end w \<longrightarrow> inp_end v \<or> inp_rest w = []"
      "inp_buf v \<noteq> None \<longrightarrow> inp_buf_index w = inp_buf_index v + m"
    using vw unfolding reads_def by blast
  show ?thesis
    unfolding reads_def using n m same by (intro exI [of _ "n + m"]) (auto simp: add.commute)
qed

lemma sess_reads_trans:
  assumes "reads k u v" "sess_reads u v" "reads l v w" "sess_reads v w" "inp_buf u = inp_buf v"
  shows "sess_reads u w"
proof -
  obtain n where n: "inp_ctr v = inp_ctr u + n" "inp_rest v = drop n (inp_rest u)"
    using assms(1) unfolding reads_def by blast
  obtain m where m: "inp_ctr w = inp_ctr v + m" using assms(3) unfolding reads_def by blast
  show ?thesis using assms(2,4,5) n m by (simp add: sess_reads_def take_add)
qed

lemma keeps_trans: "keeps u v \<Longrightarrow> keeps v w \<Longrightarrow> keeps u w"
  by (auto simp: keeps_def)

lemma ud_frame_buf: "ud_frame u = ud_frame v \<Longrightarrow> inp_buf u = inp_buf v"
  by (simp add: ud_frame_def)

lemma advance_trans: "advance k u v \<Longrightarrow> advance l v w \<Longrightarrow> advance (k + l) u w"
  unfolding advance_def by (metis keeps_trans reads_trans sess_reads_trans ud_frame_buf)

lemma reads_mono: "reads k u v \<Longrightarrow> k \<le> l \<Longrightarrow> reads l u v"
  unfolding reads_def using le_trans by blast

lemma advance_mono: "advance k u v \<Longrightarrow> k \<le> l \<Longrightarrow> advance l u v"
  using reads_mono by (auto simp: advance_def)

lemma advance_ctr: "advance k u v \<Longrightarrow> inp_ctr u \<le> inp_ctr v \<and> inp_ctr v \<le> inp_ctr u + k"
  by (auto simp: advance_def reads_def)

lemma advance_inv: "advance k u v \<Longrightarrow> ud_inv v"
  by (simp add: advance_def)

text \<open>A step that reads nothing.\<close>

lemma reads_same:
  "\<lbrakk>inp_ctr v = inp_ctr u; inp_rest v = inp_rest u; inp_buf_index v = inp_buf_index u;
    inp_end v = inp_end u\<rbrakk> \<Longrightarrow> reads k u v"
  by (auto simp: reads_def)

lemma safe_mono: "safe k u r \<Longrightarrow> k \<le> l \<Longrightarrow> safe l u r"
  unfolding safe_def using advance_mono by fastforce

lemma safe_return: "(ud_inv u \<Longrightarrow> advance k u u') \<Longrightarrow> safe k u (Some (x, u'))"
  by (simp add: safe_def)

lemma safe_return_pair: "(ud_inv u \<Longrightarrow> advance k u (snd p)) \<Longrightarrow> safe k u (Some p)"
  using safe_return [of u k "snd p" "fst p"] by simp

lemma safe_guard: "(ud_inv u \<Longrightarrow> inp_ctr u + k \<le> 64 \<Longrightarrow> safe k u r) \<Longrightarrow> safe k u r"
  by (auto simp: safe_def)

lemma safe_from:
  assumes "ud_inv u \<Longrightarrow> advance 0 u v" and "safe k v r"
  shows "safe k u r"
  unfolding safe_def
proof (intro impI)
  assume u: "ud_inv u" "inp_ctr u + k \<le> 64"
  have v: "advance 0 u v" using assms(1) [OF u(1)] .
  then have "ud_inv v" "inp_ctr v + k \<le> 64" using u advance_ctr advance_inv by fastforce+
  then obtain x u' where "r = Some (x, u')" "advance k v u'"
    using assms(2) by (auto simp: safe_def)
  then show "\<exists>x u'. r = Some (x, u') \<and> advance k u u'" using advance_trans [OF v] by fastforce
qed

lemma safe_bind:
  assumes "safe k u r" and "\<And>x u'. r = Some (x, u') \<Longrightarrow> advance k u u' \<Longrightarrow> safe l u' (f x u')"
  shows "safe (k + l) u (r \<bind> (\<lambda>(x, u). f x u))"
  unfolding safe_def
proof (intro impI)
  assume u: "ud_inv u" "inp_ctr u + (k + l) \<le> 64"
  then obtain x v where v: "r = Some (x, v)" "advance k u v"
    using assms(1) by (auto simp: safe_def)
  then have "ud_inv v" "inp_ctr v + l \<le> 64" using u advance_ctr advance_inv by fastforce+
  then obtain y w where "f x v = Some (y, w)" "advance l v w"
    using assms(2) [OF v] by (auto simp: safe_def)
  then show "\<exists>y w. r \<bind> (\<lambda>(x, u). f x u) = Some (y, w) \<and> advance (k + l) u w"
    using v advance_trans by fastforce
qed

lemmas ud_inv_defs = ud_inv_def input_inv_def prefix_inv_def ud_frame_def

text \<open>Steps that change only fields the input and the choice of a table do not depend on.\<close>

definition ud_core where
  "ud_core u = (ud_frame u, inp_hook u, inp_buf_index u, inp_ctr u, inp_sess u, inp_end u,
     have_modrm u, ud_modrm u, pfx_str u, pfx_opr u, pfx_seg u)"

lemma ud_inv_core: "ud_core v = ud_core u \<Longrightarrow> ud_inv v = ud_inv u"
  by (simp add: ud_core_def ud_inv_defs)

lemma inp_rest_core: "ud_core v = ud_core u \<Longrightarrow> inp_rest v = inp_rest u"
  by (simp add: ud_core_def ud_frame_def inp_rest_def)

lemma advance_same:
  assumes "ud_inv u" and "ud_core v = ud_core u" and "ud_error u \<Longrightarrow> ud_error v"
  shows "advance k u v"
  using assms ud_inv_core [OF assms(2)] inp_rest_core [OF assms(2)]
  by (simp add: advance_def reads_same sess_reads_same keeps_def ud_core_def)

lemmas ud_core_defs = ud_core_def ud_frame_def

lemma advance_UDERR [simp]: "ud_inv u \<Longrightarrow> advance k u (UDERR u)"
  by (erule advance_same) (simp_all add: ud_core_defs UDERR_def)

lemma advance_fields [simp]:
  assumes "ud_inv u"
  shows "advance k u (u\<lparr>br_far := b\<rparr>)" "advance k u (u\<lparr>ud_le := l\<rparr>)"
    "advance k u (u\<lparr>mnemonic := m\<rparr>)" "advance k u (u\<lparr>primary_opcode := p\<rparr>)"
    "advance k u (u\<lparr>operand0 := p0\<rparr>)" "advance k u (u\<lparr>operand1 := p1\<rparr>)"
    "advance k u (u\<lparr>operand2 := p2\<rparr>)" "advance k u (u\<lparr>pfx_rex := rx\<rparr>)"
    "advance k u (u\<lparr>mnemonic := m, itab_entry := e\<rparr>)"
  by (rule advance_same [OF assms]; simp add: ud_core_defs)+

section \<open>Reading input\<close>

lemma inp_eoi_advance: "ud_inv u \<Longrightarrow> inp_end u \<or> inp_rest u = [] \<Longrightarrow> advance k u (snd (inp_eoi u))"
  by (auto simp: inp_eoi_def advance_def reads_def sess_reads_def keeps_def ud_inv_defs UDERR_def inp_rest_def
      intro!: exI [of _ 0])

lemma inp_next_buf_advance:
  assumes "inp_buf u = Some buf" "inp_buf_index u < inp_buf_size u" "ud_inv u"
  shows "advance 1 u (u\<lparr>inp_buf_index := inp_buf_index u + 1, ud_inp_curr := c,
                       inp_ctr := inp_ctr u + 1\<rparr>)" (is "advance 1 u ?v")
proof -
  have "reads 1 u ?v"
    unfolding reads_def using assms
    by (intro exI [of _ 1]) (simp add: inp_rest_def ud_inv_def input_inv_def One_nat_def)
  then show ?thesis using assms by (simp add: advance_def keeps_def sess_reads_def ud_inv_defs)
qed

lemma inp_next_hook_advance:
  assumes "inp_buf u = None" "inp_hook u = Some (c # cs)" "ud_inv u" "inp_ctr u + 1 \<le> 64"
  shows "advance 1 u (u\<lparr>inp_hook := Some cs, ud_inp_curr := c, inp_ctr := inp_ctr u + 1,
                       inp_sess := (inp_sess u)[inp_ctr u := c]\<rparr>)" (is "advance 1 u ?v")
proof -
  have "inp_ctr u < length (inp_sess u)" using assms by (simp add: ud_inv_def input_inv_def)
  then have "sess_reads u ?v"
    using assms by (simp add: sess_reads_def inp_rest_def One_nat_def take_Suc_conv_app_nth)
  moreover have "reads 1 u ?v"
    unfolding reads_def using assms by (intro exI [of _ 1]) (simp add: inp_rest_def One_nat_def)
  ultimately show ?thesis using assms by (simp add: advance_def keeps_def ud_inv_defs)
qed

lemma safe_inp_next: "safe 1 u (inp_next u)"
proof (rule safe_guard)
  assume inv: "ud_inv u" and room: "inp_ctr u + 1 \<le> 64"
  have eoi: "safe 1 u (Some (inp_eoi u))" if "inp_end u \<or> inp_rest u = []"
    using that by (intro safe_return_pair inp_eoi_advance)
  show "safe 1 u (inp_next u)"
  proof (cases "inp_buf u")
    case None
    then obtain cs where "inp_hook u = Some cs" "length (inp_sess u) = 64"
      using inv by (auto simp: ud_inv_def input_inv_def)
    then show ?thesis
      using None room inv eoi inp_next_hook_advance [OF None]
      by (cases cs) (simp_all add: inp_next_def inp_rest_def safe_return)
  next
    case (Some buf)
    then show ?thesis
      using inv eoi inp_next_buf_advance [OF Some]
      by (simp add: inp_next_def inp_rest_def Let_def safe_return ud_inv_def input_inv_def)
  qed
qed

lemma safe_inp_uint8: "safe 1 u (inp_uint8 u)"
  unfolding inp_uint8_def by (rule safe_inp_next)

lemma safe_inp_uint16: "safe 2 u (inp_uint16 u)"
proof -
  have "safe (1 + (1 + 0)) u (inp_uint16 u)"
    unfolding inp_uint16_def
    by (intro safe_bind safe_inp_next safe_return advance_refl)
  then show ?thesis by simp
qed

lemma safe_inp_uint32: "safe 4 u (inp_uint32 u)"
proof -
  have "safe (1 + (1 + (1 + (1 + 0)))) u (inp_uint32 u)"
    unfolding inp_uint32_def
    by (intro safe_bind safe_inp_next safe_return advance_refl)
  then show ?thesis by simp
qed

lemma safe_inp_uint64: "safe 8 u (inp_uint64 u)"
proof -
  have "safe (1 + (1 + (1 + (1 + (1 + (1 + (1 + (1 + 0)))))))) u (inp_uint64 u)"
    unfolding inp_uint64_def
    by (intro safe_bind safe_inp_next safe_return advance_refl)
  then show ?thesis by simp
qed

lemma inp_next_have_modrm: "inp_next u = Some (c, u') \<Longrightarrow> have_modrm u' = have_modrm u"
  by (auto simp: inp_next_def inp_eoi_def UDERR_def Let_def split: if_splits option.splits list.splits)

lemma advance_modrm:
  "ud_inv u \<Longrightarrow> \<not> have_modrm u \<Longrightarrow> advance k u (u\<lparr>ud_modrm := c, have_modrm := True\<rparr>)"
  by (simp add: advance_def reads_same sess_reads_same keeps_def ud_inv_defs inp_rest_def)

lemma safe_modrm: "safe 1 u (modrm u)"
proof (cases "have_modrm u")
  case True
  then show ?thesis by (simp add: modrm_def safe_return advance_refl)
next
  case False
  have "safe (1 + 0) u (inp_next u \<bind> (\<lambda>(c, u). Some (c, u\<lparr>ud_modrm := c, have_modrm := True\<rparr>)))"
    using False by (intro safe_bind safe_inp_next safe_return advance_modrm)
      (auto dest: inp_next_have_modrm)
  then show ?thesis using False by (simp add: modrm_def)
qed

lemma modrm_result: "modrm u = Some (m, u') \<Longrightarrow> have_modrm u' \<and> ud_modrm u' = m"
  by (auto simp: modrm_def bind_eq_Some_conv split: if_splits)

section \<open>Operands\<close>

lemma safe_read_lval: "safe 8 u (read_lval n u opr)"
proof -
  have "safe (1 + 0) u (do { (v, u) \<leftarrow> inp_uint8 u; Some (set_lval 8 (ucast v) opr, u) })"
       "safe (2 + 0) u (do { (v, u) \<leftarrow> inp_uint16 u; Some (set_lval 16 (ucast v) opr, u) })"
       "safe (4 + 0) u (do { (v, u) \<leftarrow> inp_uint32 u; Some (set_lval 32 (ucast v) opr, u) })"
       "safe (8 + 0) u (do { (v, u) \<leftarrow> inp_uint64 u; Some (set_lval 64 v opr, u) })"
    by (intro safe_bind safe_inp_uint8 safe_inp_uint16 safe_inp_uint32 safe_inp_uint64 safe_return
        advance_refl; assumption)+
  then show ?thesis
    by (auto simp: read_lval_def safe_return advance_refl elim: safe_mono)
qed

lemma safe_decode_imm: "safe 8 u (decode_imm u sz opr)"
  by (simp add: decode_imm_def Let_def safe_read_lval)

lemma safe_decode_mem_disp: "safe 8 u (decode_mem_disp u sz opr)"
  by (simp add: decode_mem_disp_def safe_read_lval safe_return advance_refl)

lemma safe_decode_moffset: "safe 8 u (decode_moffset u sz opr)"
  by (simp add: decode_moffset_def safe_decode_mem_disp)

lemma safe_decode_a: "safe 8 u (decode_a u opr)"
proof (cases "opr_mode u = 16")
  case True
  have "safe (2 + (2 + 0)) u (decode_a u opr)"
    unfolding decode_a_def if_P [OF True]
    by (intro safe_bind safe_inp_uint16 safe_return advance_refl)
  then show ?thesis by (rule safe_mono) simp
next
  case False
  have "safe (4 + (2 + 0)) u (decode_a u opr)"
    unfolding decode_a_def if_not_P [OF False]
    by (intro safe_bind safe_inp_uint16 safe_inp_uint32 safe_return advance_refl)
  then show ?thesis by (rule safe_mono) simp
qed

lemma advance_decode_reg: "ud_inv u \<Longrightarrow> advance k u (snd (decode_reg u opr ty num sz))"
  by (cases ty) (simp_all add: decode_reg_def Let_def advance_refl)

lemma safe_decode_reg: "safe k u (Some (decode_reg u opr ty num sz))"
  by (rule safe_return_pair) (rule advance_decode_reg)

lemma safe_decode_modrm_reg: "safe 1 u (decode_modrm_reg u opr ty sz)"
proof -
  have "safe (1 + 0) u (decode_modrm_reg u opr ty sz)"
    unfolding decode_modrm_reg_def by (intro safe_bind safe_modrm safe_decode_reg)
  then show ?thesis by simp
qed

lemma safe_decode_sib: "safe 1 u (decode_sib reg0 sp special md offset u opr)"
proof -
  have "safe (1 + 0) u (decode_sib reg0 sp special md offset u opr)"
    unfolding decode_sib_def Let_def
    by (intro safe_bind safe_inp_next) (simp add: safe_return advance_refl split: prod.split)
  then show ?thesis by simp
qed

lemma safe_modrm_address: "safe 1 u (modrm_address md rm u opr)"
  by (simp add: modrm_address_def modrm_mem64_def modrm_mem32_def Let_def safe_decode_sib safe_return
      advance_refl)

lemma safe_decode_modrm_rm: "safe 10 u (decode_modrm_rm u opr ty sz)"
proof -
  have mem: "safe (1 + 8) u (modrm_address md rm u opr \<bind> (\<lambda>((offset, opr), u).
        if offset \<noteq> 0 then decode_mem_disp u offset opr else Some (opr, u)))" for md rm u opr
    by (intro safe_bind safe_modrm_address)
      (simp add: safe_decode_mem_disp safe_return advance_refl split: prod.split)
  have "safe (1 + 9) u (decode_modrm_rm u opr ty sz)"
    unfolding decode_modrm_rm_def Let_def
    using mem by (intro safe_bind safe_modrm) (simp add: safe_decode_reg)
  then show ?thesis by simp
qed

text \<open>Computations that return only the object.\<close>

definition safe_step :: "nat \<Rightarrow> ud \<Rightarrow> ud option \<Rightarrow> bool" where
  "safe_step k u r \<longleftrightarrow> safe k u (map_option (Pair ()) r)"

lemma safe_step_bind:
  assumes "safe_step k u r" and "\<And>u'. r = Some u' \<Longrightarrow> advance k u u' \<Longrightarrow> safe l u' (f u')"
  shows "safe (k + l) u (r \<bind> f)"
proof -
  have "safe (k + l) u (map_option (Pair ()) r \<bind> (\<lambda>(_, u). f u))"
    using assms by (intro safe_bind) (auto simp: safe_step_def)
  then show ?thesis by (cases r) simp_all
qed

lemma safe_expect: "safe_step 1 u (expect_mod3 u)" "safe_step 1 u (expect_mem u)"
proof -
  have "safe (1 + 0) u (modrm u \<bind> (\<lambda>(m, u). Some ((), if P m then UDERR u else u)))" for P
    by (intro safe_bind safe_modrm safe_return) (simp add: advance_refl)
  moreover have "map_option (Pair ()) (modrm u \<bind> (\<lambda>(m, u). Some (if P m then UDERR u else u))) =
      modrm u \<bind> (\<lambda>(m, u). Some ((), if P m then UDERR u else u))" for P
    by (cases "modrm u") (simp_all split: prod.split)
  ultimately have "safe_step 1 u (modrm u \<bind> (\<lambda>(m, u). Some (if P m then UDERR u else u)))" for P
    by (simp add: safe_step_def)
  then show "safe_step 1 u (expect_mod3 u)" "safe_step 1 u (expect_mem u)"
    unfolding expect_mod3_def expect_mem_def by this+
qed

lemma safe_decode_mx: "safe 11 u (decode_mx u opr ty sz)"
proof -
  have "safe (1 + 10) u (decode_mx u opr ty sz)"
    unfolding decode_mx_def by (intro safe_bind safe_modrm safe_decode_modrm_rm)
  then show ?thesis by simp
qed

lemma safe_expect_rm:
  "safe 11 u (expect_mod3 u \<bind> (\<lambda>u. decode_modrm_rm u opr ty sz))"
  "safe 11 u (expect_mem u \<bind> (\<lambda>u. decode_modrm_rm u opr ty sz))"
proof -
  have "safe (1 + 10) u (expect_mod3 u \<bind> (\<lambda>u. decode_modrm_rm u opr ty sz))"
    "safe (1 + 10) u (expect_mem u \<bind> (\<lambda>u. decode_modrm_rm u opr ty sz))"
    by (intro safe_step_bind safe_expect safe_decode_modrm_rm)+
  then show "safe 11 u (expect_mod3 u \<bind> (\<lambda>u. decode_modrm_rm u opr ty sz))"
    "safe 11 u (expect_mem u \<bind> (\<lambda>u. decode_modrm_rm u opr ty sz))" by simp_all
qed

lemma safe_decode_far: "safe 11 u (expect_mem (u\<lparr>br_far := True\<rparr>) \<bind> (\<lambda>u. decode_modrm_rm u opr ty sz))"
  by (rule safe_from [OF _ safe_expect_rm(2)]) simp

lemma safe_decode_jimm:
  "safe 11 u (decode_imm u sz opr \<bind> (\<lambda>(opr, u). Some (opr\<lparr>opr_type := UD_OP_JIMM\<rparr>, u)))"
proof -
  have "safe (8 + 0) u (decode_imm u sz opr \<bind> (\<lambda>(opr, u). Some (opr\<lparr>opr_type := UD_OP_JIMM\<rparr>, u)))"
    by (intro safe_bind safe_decode_imm safe_return advance_refl)
  then show ?thesis by (rule safe_mono) simp
qed

lemmas safe_operand_rules =
  safe_decode_a [THEN safe_mono [of _ _ _ 11]] safe_decode_imm [THEN safe_mono [of _ _ _ 11]]
  safe_decode_moffset [THEN safe_mono [of _ _ _ 11]]
  safe_decode_modrm_reg [THEN safe_mono [of _ _ _ 11]]
  safe_decode_modrm_rm [THEN safe_mono [of _ _ _ 11]]
  safe_decode_reg safe_decode_mx safe_expect_rm safe_decode_far safe_decode_jimm

lemma safe_decode_operand: "safe 11 u (decode_operand u opr ty sz)"
  unfolding decode_operand_def Let_def
  by (simp add: safe_operand_rules safe_return advance_refl)

lemma safe_decode_operands: "safe 33 u (decode_operands e u)"
proof -
  have op: "safe (11 + k) u (decode_operand u opr ty sz \<bind> (\<lambda>(opr, u). f opr u))"
    if "\<And>opr u. safe k u (f opr u)" for k u opr ty sz and f :: "ud_operand \<Rightarrow> ud \<Rightarrow> (int \<times> ud) option"
    using that by (intro safe_bind safe_decode_operand)
  have store: "safe 0 u (Some (0, u\<lparr>operand2 := opr\<rparr>))" for u opr
    by (intro safe_return) simp
  have "safe (11 + (11 + (11 + 0))) u (decode_operands e u)"
    unfolding Let_def decode_operands_def
    by (rule op, rule safe_from [rotated], rule op, rule safe_from [rotated], rule op, rule store)
      simp_all
  then show ?thesis by simp
qed

text \<open>Reading operands leaves alone what was resolved before.\<close>

definition ud_stage where
  "ud_stage u = (mnemonic u, itab_entry u, pfx_rex u, pfx_seg u, pfx_repe u, dis_mode u, opr_mode u,
     adr_mode u, ud_le u, operand0 u, operand1 u, operand2 u)"

lemma stage_inp_next: "inp_next u = Some (c, u') \<Longrightarrow> ud_stage u' = ud_stage u"
  by (auto simp: ud_stage_def inp_next_def inp_eoi_def UDERR_def Let_def
      split: if_splits option.splits list.splits)

lemma stage_input:
  "inp_uint8 u = Some (c8, u') \<Longrightarrow> ud_stage u' = ud_stage u"
  "inp_uint16 u = Some (c16, u') \<Longrightarrow> ud_stage u' = ud_stage u"
  "inp_uint32 u = Some (c32, u') \<Longrightarrow> ud_stage u' = ud_stage u"
  "inp_uint64 u = Some (c64, u') \<Longrightarrow> ud_stage u' = ud_stage u"
  by (auto simp: inp_uint8_def inp_uint16_def inp_uint32_def inp_uint64_def bind_eq_Some_conv
      dest!: stage_inp_next)

lemma stage_UDERR [simp]: "ud_stage (UDERR u) = ud_stage u"
  by (simp add: ud_stage_def UDERR_def)

lemma stage_modrm: "modrm u = Some (m, u') \<Longrightarrow> ud_stage u' = ud_stage u"
  by (auto simp: modrm_def bind_eq_Some_conv ud_stage_def split: if_splits
      dest!: stage_inp_next [unfolded ud_stage_def])

lemma stage_read_lval: "read_lval n u opr = Some (x, u') \<Longrightarrow> ud_stage u' = ud_stage u"
  by (auto simp: read_lval_def bind_eq_Some_conv split: if_splits dest!: stage_input)

lemma stage_decode_reg [simp]: "ud_stage (snd (decode_reg u opr ty num sz)) = ud_stage u"
  by (cases ty) (simp_all add: decode_reg_def Let_def)

lemma stage_decode_sib:
  "decode_sib reg0 sp special md offset u opr = Some (x, u') \<Longrightarrow> ud_stage u' = ud_stage u"
  by (auto simp: decode_sib_def Let_def bind_eq_Some_conv case_prod_beta
      dest!: stage_inp_next)

lemma stage_modrm_address: "modrm_address md rm u opr = Some (x, u') \<Longrightarrow> ud_stage u' = ud_stage u"
  by (auto simp: modrm_address_def modrm_mem64_def modrm_mem32_def Let_def split: if_splits
      dest!: stage_decode_sib)

lemma stage_mem_disp: "decode_mem_disp u sz opr = Some (x, u') \<Longrightarrow> ud_stage u' = ud_stage u"
  by (auto simp: decode_mem_disp_def split: if_splits dest!: stage_read_lval)

lemma Some_decode_reg_stage:
  "decode_reg u opr ty num sz = (x, u') \<Longrightarrow> ud_stage u' = ud_stage u"
  using stage_decode_reg [of u opr ty num sz] by simp

lemma stage_modrm_rm: "decode_modrm_rm u opr ty sz = Some (x, u') \<Longrightarrow> ud_stage u' = ud_stage u"
  by (auto simp: decode_modrm_rm_def Let_def bind_eq_Some_conv split: if_splits
      dest!: stage_modrm stage_modrm_address stage_mem_disp Some_decode_reg_stage)

lemma stage_modrm_reg: "decode_modrm_reg u opr ty sz = Some (x, u') \<Longrightarrow> ud_stage u' = ud_stage u"
  by (auto simp: decode_modrm_reg_def bind_eq_Some_conv
      dest!: stage_modrm Some_decode_reg_stage)

lemma stage_expect:
  "expect_mod3 u = Some u' \<Longrightarrow> ud_stage u' = ud_stage u"
  "expect_mem u = Some u' \<Longrightarrow> ud_stage u' = ud_stage u"
  by (auto simp: expect_mod3_def expect_mem_def bind_eq_Some_conv dest!: stage_modrm split: if_splits)

lemma stage_mx: "decode_mx u opr ty sz = Some (x, u') \<Longrightarrow> ud_stage u' = ud_stage u"
  by (auto simp: decode_mx_def bind_eq_Some_conv dest!: stage_modrm stage_modrm_rm)

lemma stage_simple:
  "decode_a u opr = Some (x, u') \<Longrightarrow> ud_stage u' = ud_stage u"
  "decode_imm u sz opr = Some (x, u') \<Longrightarrow> ud_stage u' = ud_stage u"
  "decode_moffset u sz opr = Some (x, u') \<Longrightarrow> ud_stage u' = ud_stage u"
  by (auto simp: decode_a_def decode_imm_def decode_moffset_def Let_def bind_eq_Some_conv
      split: if_splits dest!: stage_input stage_read_lval stage_mem_disp)

lemma stage_br_far [simp]: "ud_stage (u\<lparr>br_far := b\<rparr>) = ud_stage u"
  by (simp add: ud_stage_def)

lemma stage_decode_operand:
  "decode_operand u opr ty sz = Some (x, u') \<Longrightarrow> ud_stage u' = ud_stage u"
  unfolding decode_operand_def Let_def
  by (simp add: bind_eq_Some_conv split: if_split_asm;
      fastforce dest: stage_simple stage_modrm_rm stage_modrm_reg stage_mx stage_expect
        Some_decode_reg_stage)

text \<open>The three operands one after the other.\<close>

lemma decode_operands_steps:
  assumes "decode_operands e u = Some (r, u')"
  obtains o1 u1 o2 u2 o3 u3 where
    "decode_operand u (operand0 u) (eo_type (ie_operand1 e)) (eo_size (ie_operand1 e)) = Some (o1, u1)"
    "decode_operand (u1\<lparr>operand0 := o1\<rparr>) (operand1 u) (eo_type (ie_operand2 e)) (eo_size (ie_operand2 e)) =
       Some (o2, u2)"
    "decode_operand (u2\<lparr>operand1 := o2\<rparr>) (operand2 u) (eo_type (ie_operand3 e)) (eo_size (ie_operand3 e)) =
       Some (o3, u3)"
    "r = 0" "u' = u3\<lparr>operand2 := o3\<rparr>" "ud_stage u1 = ud_stage u"
    "ud_stage u2 = ud_stage (u1\<lparr>operand0 := o1\<rparr>)" "ud_stage u3 = ud_stage (u2\<lparr>operand1 := o2\<rparr>)"
proof -
  obtain o1 u1 o2 u2 o3 u3 where
    1: "decode_operand u (operand0 u) (eo_type (ie_operand1 e)) (eo_size (ie_operand1 e)) = Some (o1, u1)" and
    2: "decode_operand (u1\<lparr>operand0 := o1\<rparr>) (operand1 u1) (eo_type (ie_operand2 e))
          (eo_size (ie_operand2 e)) = Some (o2, u2)" and
    3: "decode_operand (u2\<lparr>operand1 := o2\<rparr>) (operand2 u2) (eo_type (ie_operand3 e))
          (eo_size (ie_operand3 e)) = Some (o3, u3)" and
    r: "r = 0" "u' = u3\<lparr>operand2 := o3\<rparr>"
    using assms by (auto simp: decode_operands_def Let_def bind_eq_Some_conv)
  note stages = stage_decode_operand [OF 1] stage_decode_operand [OF 2] stage_decode_operand [OF 3]
  have "operand1 u1 = operand1 u" "operand2 u2 = operand2 u"
    using stages by (simp_all add: ud_stage_def)
  then show thesis using that [OF 1 _ _ r stages] 2 3 by simp
qed

lemma stage_decode_operands:
  assumes "decode_operands e u = Some (r, u')"
  shows "mnemonic u' = mnemonic u \<and> itab_entry u' = itab_entry u \<and> pfx_repe u' = pfx_repe u \<and>
         dis_mode u' = dis_mode u"
  using assms by (rule decode_operands_steps) (simp add: ud_stage_def)

end
