(* ===== verification/Ud_Total.thy ===== *)
theory Ud_Total
  imports Ud_Safe
begin

text \<open>
  The decoder on well-formed opcode tables: it always returns, never reads its input, its tables or
  its session buffer out of bounds, and consumes what it reports.
\<close>

section \<open>Well-formed tables\<close>

text \<open>\<open>entry_ok\<close>: an instruction entry in range, not the place holder of 3DNow instructions.
  \<open>ext_ok t n m3 ptr\<close>: following \<open>ptr\<close> ends after at most \<open>n\<close> extension tables, each as long as its
  kind is indexed; \<open>m3\<close> says that the mode byte is known to select a register. \<open>opcode_ok\<close>: the same
  from an opcode table with at most \<open>n\<close> more of them.\<close>

definition entry_ok :: "ud_tables \<Rightarrow> u16 \<Rightarrow> bool" where
  "entry_ok t ptr \<longleftrightarrow> \<not> is_group ptr \<and> unat ptr < length (ud_itab t) \<and>
     ie_mnemonic (ud_itab t ! unat ptr) \<noteq> UD_I3dnow"

definition table_length_ok :: "bool \<Rightarrow> ud_lookup_table_list_entry \<Rightarrow> bool" where
  "table_length_ok m3 le =
     (case le_type le of
        UD_TAB__OPC_TABLE \<Rightarrow> False
      | UD_TAB__OPC_X87 \<Rightarrow> m3 \<and> 64 \<le> length (le_table le)
      | UD_TAB__OPC_MOD \<Rightarrow> 2 \<le> length (le_table le)
      | UD_TAB__OPC_VEX_M \<Rightarrow> False
      | UD_TAB__OPC_VEX_P \<Rightarrow> False
      | UD_TAB__OPC_RM \<Rightarrow> 8 \<le> length (le_table le)
      | UD_TAB__OPC_VENDOR \<Rightarrow> 2 \<le> length (le_table le)
      | UD_TAB__OPC_OSIZE \<Rightarrow> 3 \<le> length (le_table le)
      | UD_TAB__OPC_MODE \<Rightarrow> 2 \<le> length (le_table le)
      | UD_TAB__OPC_3DNOW \<Rightarrow> 256 \<le> length (le_table le)
      | UD_TAB__OPC_REG \<Rightarrow> 8 \<le> length (le_table le)
      | UD_TAB__OPC_ASIZE \<Rightarrow> 3 \<le> length (le_table le)
      | UD_TAB__OPC_SSE \<Rightarrow> 4 \<le> length (le_table le))"

fun ext_ok :: "ud_tables \<Rightarrow> nat \<Rightarrow> bool \<Rightarrow> u16 \<Rightarrow> bool" where
  "ext_ok t 0 m3 ptr \<longleftrightarrow> entry_ok t ptr"
| "ext_ok t (Suc n) m3 ptr \<longleftrightarrow>
     (if \<not> is_group ptr then entry_ok t ptr
      else group_index ptr < length (ud_lookup_table_list t) \<and>
        (let le = ud_lookup_table_list t ! group_index ptr in
         table_length_ok m3 le \<and>
         (if le_type le = UD_TAB__OPC_3DNOW then list_all (entry_ok t) (le_table le)
          else if le_type le = UD_TAB__OPC_MOD then
            ext_ok t n False (le_table le ! 0) \<and> ext_ok t n True (le_table le ! 1)
          else list_all (ext_ok t n m3) (le_table le))))"

fun opcode_ok :: "ud_tables \<Rightarrow> nat \<Rightarrow> nat \<Rightarrow> ud_lookup_table_list_entry \<Rightarrow> bool" where
  "opcode_ok t d 0 le = False"
| "opcode_ok t d (Suc n) le \<longleftrightarrow>
     256 \<le> length (le_table le) \<and>
     list_all (\<lambda>ptr.
       if is_group ptr \<and> group_index ptr < length (ud_lookup_table_list t) \<and>
          le_type (ud_lookup_table_list t ! group_index ptr) = UD_TAB__OPC_TABLE
       then opcode_ok t d n (ud_lookup_table_list t ! group_index ptr)
       else ext_ok t d False ptr) (le_table le)"

text \<open>Up to 15 bytes of prefixes and first opcode byte, three further opcode tables, eleven
  extension tables and 35 bytes of operands and final opcode byte fill the session buffer of 64
  bytes at most.\<close>

definition tables_ok :: "ud_tables \<Rightarrow> bool" where
  "tables_ok t \<longleftrightarrow>
     ud_itab t \<noteq> [] \<and> ud_lookup_table_list t \<noteq> [] \<and>
     opcode_ok t 11 4 (ud_lookup_table_list t ! 0)"

section \<open>Instructions and opcodes\<close>

lemma advance_resolve_pfx_str: "ud_inv u \<Longrightarrow> advance k u (resolve_pfx_str e u)"
  by (erule advance_same) (simp_all add: resolve_pfx_str_def ud_core_defs)

lemma advance_resolve_mode: "ud_inv u \<Longrightarrow> advance k u (snd (resolve_mode e u))"
  by (erule advance_same) (simp_all add: resolve_mode_def Let_def UDERR_def ud_core_defs)

lemma advance_resolve_nop: "ud_inv u \<Longrightarrow> advance k u (resolve_pause (resolve_xchg u))"
  by (erule advance_same) (simp_all add: resolve_pause_def resolve_xchg_def ud_core_defs)

lemma safe_resolve_mnemonic: "mnemonic u \<noteq> UD_I3dnow \<Longrightarrow> safe 0 u (resolve_mnemonic t u)"
  by (simp add: resolve_mnemonic_def resolve_3dnow_def safe_return advance_resolve_nop)

lemma mnemonic_pfx_str [simp]: "mnemonic (resolve_pfx_str e u) = mnemonic u"
  by (simp add: resolve_pfx_str_def)

lemma mnemonic_resolve_mode [simp]: "mnemonic (snd (resolve_mode e u)) = mnemonic u"
  by (simp add: resolve_mode_def Let_def UDERR_def)

lemma mnemonic_decode_operands: "decode_operands e u = Some (r, u') \<Longrightarrow> mnemonic u' = mnemonic u"
  using stage_decode_operands by blast

lemma array_at_nth [simp]: "i < length xs \<Longrightarrow> array_at xs i = Some (xs ! i)"
  by (simp add: array_at_def)

text \<open>Operands and mnemonic, after the modes were resolved.\<close>

lemma safe_finish_insn:
  assumes "mnemonic u \<noteq> UD_I3dnow"
  shows "safe 33 u (do {
      (r, u) \<leftarrow> decode_operands e u;
      if r \<noteq> 0 then Some (-1, u)
      else do { (r, u) \<leftarrow> resolve_mnemonic t u; Some (if r = 0 then 0 else -1 :: int, u) } })"
proof -
  have "safe (0 + 0) u (do { (r, u) \<leftarrow> resolve_mnemonic t u; Some (if r = 0 then 0 else - 1 :: int, u) })"
    if "mnemonic u \<noteq> UD_I3dnow" for u
    using that by (intro safe_bind safe_resolve_mnemonic safe_return advance_refl)
  then have "safe (33 + 0) u (do {
      (r, u) \<leftarrow> decode_operands e u;
      if r \<noteq> 0 then Some (-1, u)
      else do { (r, u) \<leftarrow> resolve_mnemonic t u; Some (if r = 0 then 0 else -1 :: int, u) } })"
    using assms
    by (intro safe_bind safe_decode_operands)
      (simp add: mnemonic_decode_operands safe_return advance_refl)
  then show ?thesis by simp
qed

lemma safe_decode_insn:
  assumes "entry_ok t ptr"
  shows "safe 33 u (decode_insn t u ptr)"
proof -
  define e where "e = ud_itab t ! unat ptr"
  define v where "v = resolve_pfx_str e (u\<lparr>mnemonic := ie_mnemonic e, itab_entry := Some e\<rparr>)"
  have at: "array_at (ud_itab t) (unat ptr) = Some e"
    using assms by (simp add: entry_ok_def e_def)
  have v: "advance 0 u v" if "ud_inv u"
    using that advance_trans [OF _ advance_resolve_pfx_str, of 0 u _ 0] advance_inv
    unfolding v_def by fastforce
  have mn: "mnemonic (snd (resolve_mode e v)) \<noteq> UD_I3dnow"
    using assms by (simp add: v_def entry_ok_def e_def)
  have "safe 33 v (case resolve_mode e v of (r, u) \<Rightarrow>
      if r \<noteq> 0 then Some (-1, u)
      else do {
        (r, u) \<leftarrow> decode_operands e u;
        if r \<noteq> 0 then Some (-1, u)
        else do { (r, u) \<leftarrow> resolve_mnemonic t u; Some (if r = 0 then 0 else -1 :: int, u) } })"
  proof (cases "resolve_mode e v")
    case (Pair r w)
    have "ud_inv v \<Longrightarrow> advance k v w" for k
      using advance_resolve_mode [of v k e] Pair by simp
    then show ?thesis
      using Pair mn safe_finish_insn [of w e t] by (auto simp: safe_return intro: safe_from)
  qed
  then show ?thesis
    unfolding decode_insn_def at Let_def
    by (intro safe_from [OF v]) (simp_all add: v_def)
qed


lemma safe_decode_3dnow:
  assumes "256 \<le> length (le_table le)" and "list_all (entry_ok t) (le_table le)"
  shows "safe 34 u (decode_3dnow t le u)"
proof -
  have in_table: "unat (b :: u8) < length (le_table le)" for b
    using assms(1) unsigned_less [where ?'a = nat, of b] by simp
  have ok: "entry_ok t (le_table le ! i)" if "i < length (le_table le)" for i
    using assms(2) that by (simp add: list_all_length)
  have at: "array_at (le_table le) 12 = Some (le_table le ! 12)" "entry_ok t (le_table le ! 12)"
    using assms(1) ok by simp_all
  have "safe 0 u (do {
      ptr \<leftarrow> array_at (le_table le) (unat (inp_curr u));
      e \<leftarrow> array_at (ud_itab t) (unat ptr);
      Some (0 :: int, u\<lparr>mnemonic := ie_mnemonic e\<rparr>) })" for u
    using in_table [of "inp_curr u"] ok [OF in_table, of "inp_curr u"]
    by (simp add: entry_ok_def safe_return)
  then have "safe (33 + (1 + 0)) u (decode_3dnow t le u)"
    unfolding decode_3dnow_def at(1) Option.bind_lunit
    by (intro safe_bind safe_decode_insn [OF at(2)] safe_inp_next) (simp add: safe_return advance_refl)
  then show ?thesis by simp
qed

text \<open>The fields of the mode byte as numbers.\<close>

lemma unat_and_mask: "unat (w AND mask n :: 'a::len word) = unat w mod 2 ^ n"
  by (metis take_bit_eq_mask take_bit_eq_mod unsigned_take_bit_eq)

lemma MODRM_MOD_div: "MODRM_MOD m = unat m div 64"
proof -
  have "MODRM_MOD m = unat m div 64 mod 4"
    using unat_and_mask [of "drop_bit 6 m" 2]
    by (simp add: MODRM_MOD_def mask_eq_exp_minus_1 drop_bit_eq_div unat_div)
  then show ?thesis using unsigned_less [where ?'a = nat, of m] by simp
qed

lemma MODRM_less: "MODRM_MOD m < 4" "MODRM_RM m < 8" "MODRM_REG m < 8"
proof -
  show "MODRM_MOD m < 4" using unsigned_less [where ?'a = nat, of m] by (simp add: MODRM_MOD_div)
  show "MODRM_RM m < 8"
    using unat_and_mask [of m 3] by (simp add: MODRM_RM_def mask_eq_exp_minus_1)
  show "MODRM_REG m < 8"
    using unat_and_mask [of "drop_bit 3 m" 3] by (simp add: MODRM_REG_def mask_eq_exp_minus_1)
qed

lemma x87_index: "MODRM_MOD m = 3 \<Longrightarrow> unat (m - 0xC0) < 64"
proof -
  assume "MODRM_MOD m = 3"
  then have "192 \<le> unat m" by (simp add: MODRM_MOD_div)
  then have "0xC0 \<le> m" by (simp add: word_le_nat_alt One_nat_def)
  then have "unat (m - 0xC0) = unat m - 192" by (simp add: unat_sub One_nat_def)
  then show "unat (m - 0xC0) < 64" using unsigned_less [where ?'a = nat, of m] by simp
qed

text \<open>The choice of an index in an extension table.\<close>

definition m3_known :: "bool \<Rightarrow> ud \<Rightarrow> bool" where
  "m3_known m3 u \<longleftrightarrow> (m3 \<longrightarrow> have_modrm u \<and> MODRM_MOD (ud_modrm u) = 3)"

lemma m3_known_advance: "m3_known m3 u \<Longrightarrow> advance k u u' \<Longrightarrow> m3_known m3 u'"
  by (auto simp: m3_known_def advance_def keeps_def)

lemma advance_ssepfx:
  "ud_inv u \<Longrightarrow> advance k u (u\<lparr>pfx_str := 0\<rparr>)"
  "ud_inv u \<Longrightarrow> advance k u (u\<lparr>pfx_opr := 0, pfx_str := 0\<rparr>)"
  by (simp_all add: advance_def reads_same sess_reads_same keeps_def ud_inv_defs inp_rest_def)

lemma ssepfx_index: "ud_inv u \<Longrightarrow> sse_idx (sse_pfx u) < 4"
  by (auto simp: ud_inv_def prefix_inv_def sse_idx_def sse_pfx_def One_nat_def)

lemma safe_ssepfx:
  assumes "4 \<le> length (le_table le)"
  shows "safe 1 u (decode_ssepfx le u)"
proof (rule safe_guard)
  assume "ud_inv u"
  then have "sse_idx (sse_pfx u) < length (le_table le)" using ssepfx_index [of u] assms by simp
  then show "safe 1 u (decode_ssepfx le u)"
    by (simp add: decode_ssepfx_def Let_def advance_ssepfx advance_refl safe_return)
qed

lemma ssepfx_result:
  assumes "decode_ssepfx le u = Some (idx, u')" and "ud_inv u" and "4 \<le> length (le_table le)"
  shows "idx < length (le_table le)"
proof -
  have "idx = 0 \<or> idx = sse_idx (sse_pfx u)"
    using assms(1) by (auto simp: decode_ssepfx_def Let_def bind_eq_Some_conv split: if_splits)
  then show ?thesis using ssepfx_index [OF assms(2)] assms(3) by auto
qed

lemma safe_modrm_index: "safe 1 u (do { (m, u) \<leftarrow> modrm u; Some (f m, u) })"
proof -
  have "safe (1 + 0) u (do { (m, u) \<leftarrow> modrm u; Some (f m, u) })"
    by (intro safe_bind safe_modrm safe_return advance_refl)
  then show ?thesis by simp
qed

lemma safe_vendor:
  assumes "2 \<le> length (le_table le)"
  shows "safe 1 u (vendor_index le u \<bind> (\<lambda>i. Some (i, u)))"
proof -
  have "le_table le \<noteq> []" using assms by auto
  then show ?thesis by (simp add: vendor_index_def safe_return advance_refl)
qed

lemma safe_ext_index:
  assumes "table_length_ok m3 le"
  shows "safe 1 u (ext_index le u)"
  using assms
  by (simp add: ext_index_def table_length_ok_def safe_modrm_index safe_ssepfx safe_vendor safe_return
      advance_refl split: ud_table_type.splits)

lemma modrm_known: "modrm u = Some (m, u') \<Longrightarrow> m3_known True u \<Longrightarrow> MODRM_MOD m = 3"
  by (auto simp: modrm_def m3_known_def)

lemma ext_index_bound:
  assumes "ext_index le u = Some (idx, u')" and "table_length_ok m3 le" and "m3_known m3 u"
    and "ud_inv u" and "le_type le \<noteq> UD_TAB__OPC_3DNOW"
  shows "idx < length (le_table le)"
proof (cases "le_type le")
  case UD_TAB__OPC_MOD
  then obtain m where "idx = (MODRM_MOD m + 1) div 4"
    using assms(1) by (auto simp: ext_index_def bind_eq_Some_conv)
  then show ?thesis
    using UD_TAB__OPC_MOD assms(2) MODRM_less(1) [of m] by (simp add: table_length_ok_def)
next
  case UD_TAB__OPC_X87
  then show ?thesis
    using assms by (fastforce simp: ext_index_def table_length_ok_def bind_eq_Some_conv
        dest: modrm_known x87_index)
next
  case UD_TAB__OPC_RM
  then obtain m where "idx = MODRM_RM m"
    using assms(1) by (auto simp: ext_index_def bind_eq_Some_conv)
  then show ?thesis
    using UD_TAB__OPC_RM assms(2) MODRM_less(2) [of m] by (simp add: table_length_ok_def)
next
  case UD_TAB__OPC_REG
  then obtain m where "idx = MODRM_REG m"
    using assms(1) by (auto simp: ext_index_def bind_eq_Some_conv)
  then show ?thesis
    using UD_TAB__OPC_REG assms(2) MODRM_less(3) [of m] by (simp add: table_length_ok_def)
next
  case UD_TAB__OPC_SSE
  then show ?thesis
    using assms ssepfx_result by (simp add: ext_index_def table_length_ok_def)
qed (use assms in \<open>auto simp: ext_index_def table_length_ok_def vendor_index_def eff_opr_mode_def
      eff_adr_mode_def bind_eq_Some_conv split: if_splits\<close>)

lemma ext_index_mod:
  assumes "ext_index le u = Some (idx, u')" and "le_type le = UD_TAB__OPC_MOD"
  shows "idx = 0 \<or> idx = 1 \<and> m3_known True u'"
proof -
  obtain m where m: "modrm u = Some (m, u')" "idx = (MODRM_MOD m + 1) div 4"
    using assms by (auto simp: ext_index_def bind_eq_Some_conv)
  show ?thesis
  proof (cases "MODRM_MOD m = 3")
    case True
    then show ?thesis using m modrm_result [OF m(1)] by (simp add: m3_known_def)
  next
    case False
    then have "MODRM_MOD m < 3" using MODRM_less(1) [of m] by simp
    then show ?thesis using m by simp
  qed
qed

text \<open>Following a pointer through extension tables.\<close>

lemma decode_ext_leaf: "\<not> is_group ptr \<Longrightarrow> decode_ext t u ptr = decode_insn t u ptr"
  by (subst decode_ext.simps) simp

lemma decode_ext_group:
  assumes "is_group ptr" and "array_at (ud_lookup_table_list t) (group_index ptr) = Some le"
  shows "decode_ext t u ptr =
     (if le_type le = UD_TAB__OPC_3DNOW then decode_3dnow t le (u\<lparr>ud_le := Some le\<rparr>)
      else do {
        (idx, u) \<leftarrow> ext_index le (u\<lparr>ud_le := Some le\<rparr>);
        ptr \<leftarrow> array_at (le_table le) idx;
        decode_ext t u ptr })"
  using assms by (subst decode_ext.simps) (simp add: Let_def)

lemma ext_ok_next:
  assumes "ext_ok t (Suc n) m3 ptr" and "is_group ptr"
    and le: "array_at (ud_lookup_table_list t) (group_index ptr) = Some le"
    and "le_type le \<noteq> UD_TAB__OPC_3DNOW" and v: "m3_known m3 v" "ud_inv v"
    and step: "ext_index le v = Some (idx, w)" "advance 1 v w"
  shows "idx < length (le_table le) \<and> (\<exists>m. ext_ok t n m (le_table le ! idx) \<and> m3_known m w)"
proof -
  have le_nth: "le = ud_lookup_table_list t ! group_index ptr"
    using le by (simp add: array_at_def split: if_splits)
  have len: "table_length_ok m3 le" using assms(1,2) by (simp add: le_nth Let_def)
  have idx: "idx < length (le_table le)"
    by (rule ext_index_bound [OF step(1) len v assms(4)])
  have "\<exists>m. ext_ok t n m (le_table le ! idx) \<and> m3_known m w"
  proof (cases "le_type le = UD_TAB__OPC_MOD")
    case True
    then have "ext_ok t n False (le_table le ! 0)" "ext_ok t n True (le_table le ! 1)"
      using assms(1,2) by (simp_all add: le_nth Let_def)
    then show ?thesis using ext_index_mod [OF step(1) True] by (auto simp: m3_known_def)
  next
    case False
    then have "list_all (ext_ok t n m3) (le_table le)"
      using assms(1,2,4) by (simp add: le_nth Let_def)
    then show ?thesis
      using idx m3_known_advance [OF v(1) step(2)] by (auto simp: list_all_length)
  qed
  then show ?thesis using idx by simp
qed

lemma ext_ok_table:
  assumes "ext_ok t (Suc n) m3 ptr" and "is_group ptr"
  obtains le where "array_at (ud_lookup_table_list t) (group_index ptr) = Some le"
    and "table_length_ok m3 le"
    and "le_type le = UD_TAB__OPC_3DNOW \<Longrightarrow> list_all (entry_ok t) (le_table le)"
  using assms by (auto simp: Let_def)

lemma safe_decode_ext:
  "ext_ok t n m3 ptr \<Longrightarrow> m3_known m3 u \<Longrightarrow> safe (n + 34) u (decode_ext t u ptr)"
proof (induction n arbitrary: m3 ptr u)
  case 0
  then show ?case
    using safe_decode_insn [of t ptr u] by (auto simp: entry_ok_def decode_ext_leaf elim: safe_mono)
next
  case (Suc n)
  show ?case
  proof (cases "is_group ptr")
    case False
    then show ?thesis
      using Suc.prems safe_decode_insn [of t ptr u] by (auto simp: decode_ext_leaf elim: safe_mono)
  next
    case True
    obtain le where le: "array_at (ud_lookup_table_list t) (group_index ptr) = Some le"
      "table_length_ok m3 le" "le_type le = UD_TAB__OPC_3DNOW \<Longrightarrow> list_all (entry_ok t) (le_table le)"
      using ext_ok_table [OF Suc.prems(1) True] by blast
    define v where "v = u\<lparr>ud_le := Some le\<rparr>"
    have v: "m3_known m3 v" using Suc.prems(2) by (simp add: m3_known_def v_def)
    have dnow: "safe (Suc n + 34) v (decode_3dnow t le v)" if "le_type le = UD_TAB__OPC_3DNOW"
      using that le(2,3) safe_decode_3dnow [of le t v]
      by (auto simp: table_length_ok_def elim: safe_mono)
    have "safe (1 + (n + 34)) v (do {
        (idx, u) \<leftarrow> ext_index le v; ptr \<leftarrow> array_at (le_table le) idx; decode_ext t u ptr })"
      if ty: "le_type le \<noteq> UD_TAB__OPC_3DNOW"
    proof (rule safe_guard, rule safe_bind [OF safe_ext_index [OF le(2)]])
      fix idx w
      assume "ud_inv v" "ext_index le v = Some (idx, w)" "advance 1 v w"
      then obtain m where "idx < length (le_table le)" "ext_ok t n m (le_table le ! idx)" "m3_known m w"
        using ext_ok_next [OF Suc.prems(1) True le(1) ty v] by blast
      then show "safe (n + 34) w (array_at (le_table le) idx \<bind> decode_ext t w)"
        using Suc.IH by simp
    qed
    then have "safe (Suc n + 34) v (decode_ext t u ptr)"
      using dnow by (simp add: decode_ext_group [OF True le(1)] flip: v_def)
    then show ?thesis by (rule safe_from [rotated]) (simp add: v_def)
  qed
qed

text \<open>Following opcode bytes through opcode tables.\<close>

lemma m3_known_False [simp]: "m3_known False u"
  by (simp add: m3_known_def)

lemma opcode_ok_cases:
  assumes "opcode_ok t d (Suc n) le" and "i < 256"
  obtains ptr where "array_at (le_table le) i = Some ptr" "\<not> is_group ptr" "ext_ok t d False ptr"
  | ptr le' where "array_at (le_table le) i = Some ptr" "is_group ptr"
      "array_at (ud_lookup_table_list t) (group_index ptr) = Some le'"
      "le_type le' = UD_TAB__OPC_TABLE" "opcode_ok t d n le'"
  | ptr le' where "array_at (le_table le) i = Some ptr" "is_group ptr"
      "array_at (ud_lookup_table_list t) (group_index ptr) = Some le'"
      "le_type le' \<noteq> UD_TAB__OPC_TABLE" "ext_ok t d False ptr"
proof -
  have i: "i < length (le_table le)" using assms by simp
  define ptr where "ptr = le_table le ! i"
  have at: "array_at (le_table le) i = Some ptr" using i by (simp add: ptr_def)
  have ok: "if is_group ptr \<and> group_index ptr < length (ud_lookup_table_list t) \<and>
          le_type (ud_lookup_table_list t ! group_index ptr) = UD_TAB__OPC_TABLE
       then opcode_ok t d n (ud_lookup_table_list t ! group_index ptr)
       else ext_ok t d False ptr"
    using assms(1) i by (simp add: list_all_length ptr_def)
  have "group_index ptr < length (ud_lookup_table_list t)" if "is_group ptr"
    using ok that by (cases d) (auto simp: entry_ok_def split: if_splits)
  then show thesis
    using at ok that by (cases "is_group ptr") (auto split: if_splits)
qed

text \<open>\<open>decode_opcode\<close> case by case.\<close>

lemma decode_opcode_error: "ud_error u \<Longrightarrow> decode_opcode t le u = Some (1, u)"
  by (subst decode_opcode.simps) simp

lemma decode_opcode_insn:
  assumes "\<not> ud_error u" "array_at (le_table le) (unat (inp_curr u)) = Some ptr" "\<not> is_group ptr"
  shows "decode_opcode t le u = decode_ext t (u\<lparr>primary_opcode := inp_curr u\<rparr>) ptr"
  using assms by (subst decode_opcode.simps) (simp add: Let_def)

lemma decode_opcode_table:
  assumes "\<not> ud_error u" "array_at (le_table le) (unat (inp_curr u)) = Some ptr" "is_group ptr"
    "array_at (ud_lookup_table_list t) (group_index ptr) = Some le'" "le_type le' = UD_TAB__OPC_TABLE"
  shows "decode_opcode t le u =
     inp_next (u\<lparr>primary_opcode := inp_curr u, ud_le := Some le'\<rparr>) \<bind> (\<lambda>(c, u). decode_opcode t le' u)"
  using assms
  by (subst decode_opcode.simps) (simp add: Let_def split: option.split)

lemma decode_opcode_ext:
  assumes "\<not> ud_error u" "array_at (le_table le) (unat (inp_curr u)) = Some ptr" "is_group ptr"
    "array_at (ud_lookup_table_list t) (group_index ptr) = Some le'" "le_type le' \<noteq> UD_TAB__OPC_TABLE"
  shows "decode_opcode t le u =
     decode_ext t (u\<lparr>primary_opcode := inp_curr u, ud_le := Some le'\<rparr>) ptr"
  using assms by (subst decode_opcode.simps) (simp add: Let_def)

lemma advance_opcode:
  "ud_inv u \<Longrightarrow> advance k u (u\<lparr>primary_opcode := p\<rparr>)"
  "ud_inv u \<Longrightarrow> advance k u (u\<lparr>primary_opcode := p, ud_le := l\<rparr>)"
  by (erule advance_same; simp add: ud_core_defs)+

lemma safe_decode_opcode:
  "opcode_ok t d n le \<Longrightarrow> safe (n + d + 34) u (decode_opcode t le u)"
proof (induction n arbitrary: le u)
  case 0
  then show ?case by simp
next
  case (Suc n)
  have byte: "unat (inp_curr u) < 256"
    using unsigned_less [where ?'a = nat, of "inp_curr u"] by simp
  show ?case
  proof (cases "ud_error u")
    case True
    then show ?thesis by (simp add: decode_opcode_error safe_return advance_refl)
  next
    case False
    from Suc.prems byte show ?thesis
    proof (cases rule: opcode_ok_cases)
      case (1 ptr)
      show ?thesis
        unfolding decode_opcode_insn [OF False 1(1,2)]
        by (rule safe_from [OF advance_opcode(1)], assumption,
            rule safe_mono [OF safe_decode_ext [OF 1(3)]]) simp_all
    next
      case (2 ptr le')
      have "safe (1 + (n + d + 34)) w (inp_next w \<bind> (\<lambda>(c, u). decode_opcode t le' u))" for w
        using Suc.IH [OF 2(5)] by (intro safe_bind safe_inp_next)
      then have "safe (Suc n + d + 34) w (inp_next w \<bind> (\<lambda>(c, u). decode_opcode t le' u))" for w
        by (simp add: algebra_simps)
      then show ?thesis
        unfolding decode_opcode_table [OF False 2(1-4)]
        by (rule safe_from [OF advance_opcode(2), rotated])
    next
      case (3 ptr le')
      show ?thesis
        unfolding decode_opcode_ext [OF False 3(1-4)]
        by (rule safe_from [OF advance_opcode(2)], assumption,
            rule safe_mono [OF safe_decode_ext [OF 3(5)]]) simp_all
    qed
  qed
qed

section \<open>The decoder\<close>

lemma prefix_byte_same [simp]:
  "dis_mode (fst (prefix_byte u c)) = dis_mode u"
  "vendor (fst (prefix_byte u c)) = vendor u"
  "ud_pc (fst (prefix_byte u c)) = ud_pc u"
  "translator (fst (prefix_byte u c)) = translator u"
  "asm_buf (fst (prefix_byte u c)) = asm_buf u"
  "asm_buf_size (fst (prefix_byte u c)) = asm_buf_size u"
  "sym_resolver (fst (prefix_byte u c)) = sym_resolver u"
  "inp_ctr (fst (prefix_byte u c)) = inp_ctr u"
  "inp_sess (fst (prefix_byte u c)) = inp_sess u"
  "inp_end (fst (prefix_byte u c)) = inp_end u"
  "ud_error (fst (prefix_byte u c)) = ud_error u"
  "have_modrm (fst (prefix_byte u c)) = have_modrm u"
  "ud_modrm (fst (prefix_byte u c)) = ud_modrm u"
  by (simp_all add: prefix_byte_def)

lemma prefix_byte_inv: "prefix_inv u \<Longrightarrow> prefix_inv (fst (prefix_byte u c))"
  by (simp add: prefix_inv_def prefix_byte_def UD_R_ES_def UD_R_CS_def UD_R_SS_def UD_R_DS_def UD_R_FS_def
      UD_R_GS_def)

lemma advance_prefix_byte: "ud_inv u \<Longrightarrow> advance k u (fst (prefix_byte u c))"
  by (simp add: advance_def reads_same sess_reads_same keeps_def ud_inv_def input_inv_def prefix_byte_inv ud_frame_def
      inp_rest_def)

text \<open>The prefix loop, from the byte \<open>x\<close> it has read; \<open>c\<close> is the byte before.\<close>

definition after_byte :: "u8 \<Rightarrow> u8 \<Rightarrow> ud \<Rightarrow> (int \<times> ud) option" where
  "after_byte c x u =
     (if ud_error u then Some (1, u)
      else if inp_ctr u = MAX_INSN_LENGTH then Some (1, UDERR u)
      else if snd (prefix_byte u x) then
        (let u = fst (prefix_byte u x) in
         Some (0, if dis_mode u = 64 \<and> c AND 0xF0 = 0x40 then u\<lparr>pfx_rex := c\<rparr> else u))
      else prefix_loop x (fst (prefix_byte u x)))"

lemma prefix_loop_bind: "prefix_loop c u = inp_next u \<bind> (\<lambda>(x, u). after_byte c x u)"
  by (subst prefix_loop.simps) (simp add: after_byte_def split: option.split)

text \<open>The loop stops before the instruction gets too long.\<close>

lemma advance_prefix_end:
  assumes "ud_inv u"
  shows "advance k u (let u = fst (prefix_byte u x) in if P u then u\<lparr>pfx_rex := c\<rparr> else u)"
proof -
  have step: "advance k u (fst (prefix_byte u x))" by (rule advance_prefix_byte [OF assms])
  then have "advance (k + 0) u (fst (prefix_byte u x)\<lparr>pfx_rex := c\<rparr>)"
    using advance_inv by (intro advance_trans [OF step] advance_fields)
  then show ?thesis using step by (simp add: Let_def)
qed

lemma inp_next_ctr: "inp_next u = Some (c, u') \<Longrightarrow> \<not> ud_error u' \<Longrightarrow> inp_ctr u' = inp_ctr u + 1"
  by (auto simp: inp_next_def inp_eoi_def UDERR_def Let_def split: if_splits option.splits list.splits)

lemma safe_after_byte:
  assumes "\<lbrakk>\<not> ud_error u; inp_ctr u \<noteq> 15\<rbrakk> \<Longrightarrow>
    safe k (fst (prefix_byte u x)) (prefix_loop x (fst (prefix_byte u x)))"
  shows "safe k u (after_byte c x u)"
proof -
  have "safe k u (Some (0 :: int, let u = fst (prefix_byte u x) in
      if dis_mode u = 64 \<and> c AND 0xF0 = 0x40 then u\<lparr>pfx_rex := c\<rparr> else u))"
    by (intro safe_return advance_prefix_end)
  then have fin: "safe k u (let u = fst (prefix_byte u x) in
      Some (0 :: int, if dis_mode u = 64 \<and> c AND 0xF0 = 0x40 then u\<lparr>pfx_rex := c\<rparr> else u))"
    unfolding Let_def .
  have loop: "safe k u (prefix_loop x (fst (prefix_byte u x)))" if "\<not> ud_error u" "inp_ctr u \<noteq> 15"
    by (rule safe_from [OF advance_prefix_byte assms [OF that]])
  show ?thesis
    unfolding after_byte_def MAX_INSN_LENGTH_def
    using loop fin by (simp add: safe_return advance_refl del: prefix_byte_same)
qed

lemma safe_prefix_loop: "inp_ctr u < 15 \<Longrightarrow> safe (15 - inp_ctr u) u (prefix_loop c u)"
proof (induction "inp_left u" arbitrary: c u rule: less_induct)
  case less
  have "safe (1 + (14 - inp_ctr u)) u (prefix_loop c u)"
    unfolding prefix_loop_bind
  proof (rule safe_bind [OF safe_inp_next], rule safe_after_byte)
    fix x v
    assume nxt: "inp_next u = Some (x, v)" and v: "\<not> ud_error v" "inp_ctr v \<noteq> 15"
    have "inp_ctr v = inp_ctr u + 1" "inp_left v < inp_left u"
      using inp_next_ctr [OF nxt] inp_next_left [OF nxt] v by simp_all
    then show "safe (14 - inp_ctr u) (fst (prefix_byte v x)) (prefix_loop x (fst (prefix_byte v x)))"
      using less.hyps [of "fst (prefix_byte v x)" x] less.prems v by simp
  qed
  moreover have "1 + (14 - inp_ctr u) = 15 - inp_ctr u" using less.prems by simp
  ultimately show ?case by simp
qed

lemma safe_decode_prefixes: "inp_ctr u = 0 \<Longrightarrow> safe 15 u (decode_prefixes junk u)"
  using safe_prefix_loop [of u junk] by (simp add: decode_prefixes_def safe_return advance_refl)

text \<open>The start of a decoding forgets the previous instruction.\<close>

definition fresh :: "ud_tables \<Rightarrow> ud \<Rightarrow> ud" where
  "fresh t u = (clear_insn (inp_start u))\<lparr>ud_le := Some (ud_lookup_table_list t ! 0)\<rparr>"

lemma fresh_props:
  assumes "input_inv u"
  shows "ud_inv (fresh t u)" "inp_ctr (fresh t u) = 0" "ud_frame (fresh t u) = ud_frame u"
    "inp_rest (fresh t u) = inp_rest u" "inp_buf_index (fresh t u) = inp_buf_index u"
    "inp_end (fresh t u) = inp_end u" "\<not> ud_error (fresh t u)"
  using assms
  by (simp_all add: fresh_def clear_insn_def inp_start_def ud_inv_defs inp_rest_def)

lemma safe_decode_steps:
  assumes "tables_ok t" and "inp_ctr u = 0"
  shows "safe 64 u (decode_steps t junk (ud_lookup_table_list t ! 0) u)"
proof -
  define le where "le = ud_lookup_table_list t ! 0"
  have ok: "opcode_ok t 11 4 le" using assms(1) by (simp add: tables_ok_def le_def)
  have "safe (4 + 11 + 34 + 0) u (decode_opcode t le u \<bind> (\<lambda>(r, u). Some (r = -1 \<or> ud_error u, u)))"
    for u
    by (intro safe_bind safe_decode_opcode [OF ok] safe_return advance_refl)
  then have "safe (15 + 49) u (decode_steps t junk le u)"
    unfolding decode_steps_def using assms(2)
    by (intro safe_bind safe_decode_prefixes) (simp_all add: safe_return advance_refl)
  then show ?thesis by (simp add: le_def)
qed

text \<open>A decoding without error has chosen an entry of the instruction table.\<close>

lemma itab_entry_resolve_mnemonic:
  assumes "resolve_mnemonic t u = Some (r, u')"
  shows "itab_entry u' = itab_entry u"
proof -
  obtain v where v: "resolve_3dnow t u = Some v"
    and u': "u' = UDERR v \<or> u' = resolve_pause (resolve_xchg v)"
    using assms by (auto simp: resolve_mnemonic_def bind_eq_Some_conv split: if_splits)
  have "itab_entry v = itab_entry u"
    using v by (auto simp: resolve_3dnow_def bind_eq_Some_conv split: if_splits)
  moreover have "itab_entry (resolve_pause (resolve_xchg v)) = itab_entry v"
    by (simp add: resolve_pause_def resolve_xchg_def)
  ultimately show ?thesis using u' by (auto simp: UDERR_def)
qed

lemma itab_entry_resolve_mode: "itab_entry (snd (resolve_mode e u)) = itab_entry u"
  by (simp add: resolve_mode_def Let_def UDERR_def)

lemma itab_entry_decode_operands: "decode_operands e u = Some (r, u') \<Longrightarrow> itab_entry u' = itab_entry u"
  using stage_decode_operands by blast

lemma decode_insn_entry:
  assumes "decode_insn t u ptr = Some (r, u')"
  shows "\<exists>e. array_at (ud_itab t) (unat ptr) = Some e \<and> itab_entry u' = Some e"
proof -
  obtain e where e: "array_at (ud_itab t) (unat ptr) = Some e"
    using assms by (auto simp: decode_insn_def bind_eq_Some_conv)
  define v where "v = resolve_pfx_str e (u\<lparr>mnemonic := ie_mnemonic e, itab_entry := Some e\<rparr>)"
  obtain q w where w: "resolve_mode e v = (q, w)" by (cases "resolve_mode e v")
  have "itab_entry v = Some e" by (simp add: v_def resolve_pfx_str_def)
  then have "itab_entry w = Some e" using itab_entry_resolve_mode [of e v] w by simp
  then show ?thesis
    using assms e w
    by (auto simp: decode_insn_def v_def [symmetric] Let_def bind_eq_Some_conv split: if_splits
        dest!: itab_entry_resolve_mnemonic itab_entry_decode_operands)
qed

lemma itab_entry_inp_next: "inp_next u = Some (c, u') \<Longrightarrow> itab_entry u' = itab_entry u"
  using stage_inp_next by (fastforce simp: ud_stage_def)

lemma decode_3dnow_entry:
  assumes "decode_3dnow t le u = Some (r, u')"
  shows "itab_entry u' \<noteq> None"
proof -
  obtain ptr q v c w where ptr: "array_at (le_table le) 0xc = Some ptr"
    and v: "decode_insn t u ptr = Some (q, v)" and w: "inp_next v = Some (c, w)"
    using assms by (auto simp: decode_3dnow_def bind_eq_Some_conv)
  have "itab_entry u' = itab_entry w"
    using assms by (auto simp: decode_3dnow_def ptr v w bind_eq_Some_conv split: if_splits)
  then show ?thesis using decode_insn_entry [OF v] itab_entry_inp_next [OF w] by auto
qed

lemma decode_ext_entry: "decode_ext t u ptr = Some (r, u') \<Longrightarrow> itab_entry u' \<noteq> None"
proof -
  have "itab_entry (snd y) \<noteq> None" if "decode_ext t u ptr = Some y" for y
  proof (rule decode_ext.raw_induct [where P = "\<lambda>t u ptr y. itab_entry (snd y) \<noteq> None", OF _ that])
    fix f t u ptr y
    assume IH: "\<And>t u ptr y. f t u ptr = Some y \<Longrightarrow> itab_entry (snd y) \<noteq> None"
      and body: "(if \<not> is_group ptr then decode_insn t u ptr
         else array_at (ud_lookup_table_list t) (group_index ptr) \<bind>
           (\<lambda>le. let u = u\<lparr>ud_le := Some le\<rparr>
             in if le_type le = UD_TAB__OPC_3DNOW then decode_3dnow t le u
                else ext_index le u \<bind> (\<lambda>(idx, u). array_at (le_table le) idx \<bind> f t u))) = Some y"
    obtain r v where y: "y = (r, v)" by (cases y)
    consider "decode_insn t u ptr = Some (r, v)" | le w where "decode_3dnow t le w = Some (r, v)"
      | w p where "f t w p = Some (r, v)"
      using body y by (auto simp: bind_eq_Some_conv Let_def split: if_splits)
    then show "itab_entry (snd y) \<noteq> None"
      using decode_insn_entry [of t u ptr r v] decode_3dnow_entry IH y by cases fastforce+
  qed
  then show "decode_ext t u ptr = Some (r, u') \<Longrightarrow> itab_entry u' \<noteq> None" by fastforce
qed

lemma decode_opcode_entry:
  "decode_opcode t le u = Some (r, u') \<Longrightarrow> ud_error u' \<or> itab_entry u' \<noteq> None"
proof (induction t le u rule: decode_opcode.induct)
  case (1 t le u)
  show ?case
  proof (cases "ud_error u")
    case True
    then show ?thesis using "1.prems" by (simp add: decode_opcode_error)
  next
    case False
    obtain ptr where ptr: "array_at (le_table le) (unat (inp_curr u)) = Some ptr"
      using "1.prems" False by (subst (asm) decode_opcode.simps) (auto simp: Let_def split: option.splits)
    show ?thesis
    proof (cases "is_group ptr")
      case g: True
      then obtain le' where le': "array_at (ud_lookup_table_list t) (group_index ptr) = Some le'"
        using "1.prems" False ptr
        by (subst (asm) decode_opcode.simps) (auto simp: Let_def split: option.splits)
      show ?thesis
      proof (cases "le_type le' = UD_TAB__OPC_TABLE")
        case True
        then obtain c v where v: "inp_next (u\<lparr>primary_opcode := inp_curr u, ud_le := Some le'\<rparr>) = Some (c, v)"
          and "decode_opcode t le' v = Some (r, u')"
          using "1.prems" decode_opcode_table [OF False ptr g le' True]
          by (auto simp: bind_eq_Some_conv)
        then show ?thesis using "1.IH" [OF False refl ptr _ le' refl True v refl] g by simp
      next
        case F: False
        then show ?thesis
          using "1.prems" decode_opcode_ext [OF False ptr g le' F] decode_ext_entry by fastforce
      qed
    next
      case F: False
      then show ?thesis
        using "1.prems" decode_opcode_insn [OF False ptr F] decode_ext_entry by fastforce
    qed
  qed
qed

section \<open>What a decoding returns\<close>

lemma decode_steps_entry:
  assumes "decode_steps t junk le u = Some (b, v)" and "\<not> b"
  shows "\<exists>e. itab_entry v = Some e"
proof -
  obtain w r where "decode_opcode t le w = Some (r, v)" "\<not> ud_error v"
    using assms by (auto simp: decode_steps_def bind_eq_Some_conv split: if_splits)
  then show ?thesis using decode_opcode_entry by blast
qed

text \<open>Something is read as long as there is something to read.\<close>

lemma inp_next_reads:
  assumes "ud_inv u" and "\<not> inp_end u" and "inp_rest u \<noteq> []" and "inp_ctr u < 64"
  shows "\<exists>v. inp_next u = Some (hd (inp_rest u), v) \<and> inp_ctr v = inp_ctr u + 1 \<and>
           ud_error v = ud_error u"
  using assms
  by (cases "inp_buf u"; cases "inp_hook u"; cases "the (inp_hook u)")
    (auto simp: inp_next_def inp_rest_def ud_inv_defs Let_def hd_drop_conv_nth)

lemma decode_steps_progress:
  assumes "tables_ok t" and u: "ud_inv u" "inp_ctr u = 0" "\<not> ud_error u" "\<not> inp_end u"
    and rest: "inp_rest u \<noteq> []"
    and steps: "decode_steps t junk (ud_lookup_table_list t ! 0) u = Some (b, w)"
  shows "0 < inp_ctr w"
proof -
  obtain x v where v: "inp_next u = Some (x, v)" "inp_ctr v = 1"
    using inp_next_reads [OF u(1,4) rest] u(2) by auto
  have "safe 14 v (after_byte junk x v)"
    using safe_prefix_loop [of "fst (prefix_byte v x)" x] v(2) by (intro safe_after_byte) simp
  moreover have "ud_inv v" using safe_inp_next [of u] u v advance_inv by (auto simp: safe_def)
  ultimately obtain r p where p: "after_byte junk x v = Some (r, p)" "advance 14 v p"
    using v(2) by (auto simp: safe_def)
  then have pre: "decode_prefixes junk u = Some (r, p)"
    using u(3) v(1) by (simp add: decode_prefixes_def prefix_loop_bind)
  have "ud_inv p" and ctr: "1 \<le> inp_ctr p" "inp_ctr p \<le> 15"
    using advance_inv [OF p(2)] advance_ctr [OF p(2)] v(2) by simp_all
  moreover have "safe (4 + 11 + 34) p (decode_opcode t (ud_lookup_table_list t ! 0) p)"
    using assms(1) by (intro safe_decode_opcode) (simp add: tables_ok_def)
  ultimately obtain r' q where "decode_opcode t (ud_lookup_table_list t ! 0) p = Some (r', q)"
      "advance 49 p q"
    by (auto simp: safe_def)
  then show ?thesis
    using steps pre ctr advance_ctr by (fastforce simp: decode_steps_def split: if_splits)
qed

text \<open>The fields the last statements of \<open>ud_decode\<close> set.\<close>

definition finish_decode :: "ud_itab_entry \<Rightarrow> ud \<Rightarrow> ud" where
  "finish_decode e u =
     (let u = stray_segment e u in
      u\<lparr>insn_offset := ud_pc u, asm_buf_fill := 0, ud_pc := ud_pc u + of_nat (inp_ctr u)\<rparr>)"

lemma finish_decode_same [simp]:
  "inp_ctr (finish_decode e u) = inp_ctr u" "inp_rest (finish_decode e u) = inp_rest u"
  "inp_end (finish_decode e u) = inp_end u" "input_inv (finish_decode e u) = input_inv u"
  "inp_buf (finish_decode e u) = inp_buf u" "inp_buf_size (finish_decode e u) = inp_buf_size u"
  "inp_buf_index (finish_decode e u) = inp_buf_index u" "inp_sess (finish_decode e u) = inp_sess u"
  "insn_offset (finish_decode e u) = ud_pc u" "asm_buf_fill (finish_decode e u) = 0"
  "ud_pc (finish_decode e u) = ud_pc u + of_nat (inp_ctr u)"
  "itab_entry (finish_decode e u) = itab_entry u" "mnemonic (finish_decode e u) = mnemonic u"
  "operand0 (finish_decode e u) = operand0 u" "operand1 (finish_decode e u) = operand1 u"
  "operand2 (finish_decode e u) = operand2 u"
  "dis_mode (finish_decode e u) = dis_mode u" "translator (finish_decode e u) = translator u"
  "asm_buf_size (finish_decode e u) = asm_buf_size u" "asm_buf (finish_decode e u) = asm_buf u"
  by (auto simp: finish_decode_def stray_segment_def inp_rest_def input_inv_def Let_def)

definition error_result :: "ud_tables \<Rightarrow> ud \<Rightarrow> ud" where
  "error_result t u = (clear_insn u)\<lparr>mnemonic := ie_mnemonic (ud_itab t ! 0), itab_entry := Some (ud_itab t ! 0)\<rparr>"

lemma ud_decode_cases:
  assumes ok: "tables_ok t" and inv: "input_inv u"
  obtains v where "decode_steps t junk (ud_lookup_table_list t ! 0) (fresh t u) = Some (True, v)"
      "advance 64 (fresh t u) v"
      "ud_decode t junk u = Some (inp_ctr v, finish_decode (ud_itab t ! 0) (error_result t v))"
  | e v where "decode_steps t junk (ud_lookup_table_list t ! 0) (fresh t u) = Some (False, v)"
      "advance 64 (fresh t u) v" "itab_entry v = Some e"
      "ud_decode t junk u = Some (inp_ctr v, finish_decode e (v\<lparr>ud_error := False\<rparr>))"
proof -
  define le where "le = ud_lookup_table_list t ! 0"
  have le: "array_at (ud_lookup_table_list t) 0 = Some le" and e0: "array_at (ud_itab t) 0 = Some (ud_itab t ! 0)"
    using ok by (simp_all add: tables_ok_def le_def)
  obtain b v where steps: "decode_steps t junk le (fresh t u) = Some (b, v)" "advance 64 (fresh t u) v"
    using safe_decode_steps [OF ok, of "fresh t u" junk] fresh_props [OF inv, of t]
    by (auto simp: safe_def le_def)
  have dec: "ud_decode t junk u = (let u = v\<lparr>ud_error := b\<rparr> in do {
      u \<leftarrow> (if ud_error u then decode_error t u else Some u);
      e \<leftarrow> itab_entry u;
      Some (inp_ctr (finish_decode e u), finish_decode e u) })"
    using le steps(1)
    by (simp add: ud_decode_def fresh_def finish_decode_def Let_def le_def)
  show thesis
  proof (cases b)
    case True
    have "error_result t (v\<lparr>ud_error := True\<rparr>) = error_result t v"
      by (simp add: error_result_def clear_insn_def)
    moreover have "inp_ctr (error_result t v) = inp_ctr v" "itab_entry (error_result t v) = Some (ud_itab t ! 0)"
      by (simp_all add: error_result_def clear_insn_def)
    ultimately show thesis
      using that(1) steps True dec e0
      by (simp add: le_def Let_def decode_error_def error_result_def [symmetric])
  next
    case False
    then obtain e where "itab_entry v = Some e" using decode_steps_entry [OF steps(1)] by blast
    then show thesis using that(2) steps False dec by (simp add: le_def Let_def)
  qed
qed

lemma error_result_same [simp]:
  "inp_ctr (error_result t u) = inp_ctr u" "inp_rest (error_result t u) = inp_rest u"
  "inp_end (error_result t u) = inp_end u" "input_inv (error_result t u) = input_inv u"
  "inp_buf (error_result t u) = inp_buf u" "inp_buf_size (error_result t u) = inp_buf_size u"
  "inp_buf_index (error_result t u) = inp_buf_index u" "inp_sess (error_result t u) = inp_sess u"
  "ud_pc (error_result t u) = ud_pc u"
  "dis_mode (error_result t u) = dis_mode u" "translator (error_result t u) = translator u"
  "asm_buf_size (error_result t u) = asm_buf_size u" "asm_buf (error_result t u) = asm_buf u"
  by (auto simp: error_result_def clear_insn_def inp_rest_def input_inv_def)

lemma ud_error_same [simp]:
  "inp_rest (u\<lparr>ud_error := b\<rparr>) = inp_rest u" "input_inv (u\<lparr>ud_error := b\<rparr>) = input_inv u"
  by (auto simp: inp_rest_def input_inv_def)

text \<open>What every decoding does to the input, with or without a decoding error.\<close>

lemma ud_decode_input:
  assumes "tables_ok t" and "input_inv u"
  obtains n u' v b where "ud_decode t junk u = Some (n, u')" "n = inp_ctr v" "inp_ctr u' = n"
    "decode_steps t junk (ud_lookup_table_list t ! 0) (fresh t u) = Some (b, v)"
    "advance 64 (fresh t u) v" "inp_rest u' = inp_rest v" "inp_end u' = inp_end v" "input_inv u'"
    "inp_buf u' = inp_buf v" "inp_buf_index u' = inp_buf_index v" "inp_sess u' = inp_sess v"
    "insn_offset u' = ud_pc v" "ud_pc u' = ud_pc v + of_nat n"
proof (rule ud_decode_cases [OF assms, of junk])
  fix v
  assume v: "decode_steps t junk (ud_lookup_table_list t ! 0) (fresh t u) = Some (True, v)"
      "advance 64 (fresh t u) v"
      "ud_decode t junk u = Some (inp_ctr v, finish_decode (ud_itab t ! 0) (error_result t v))"
  show thesis
    using that [OF v(3) refl _ v(1,2)] advance_inv [OF v(2)] by (simp add: ud_inv_def)
next
  fix e v
  assume v: "decode_steps t junk (ud_lookup_table_list t ! 0) (fresh t u) = Some (False, v)"
      "advance 64 (fresh t u) v"
      "ud_decode t junk u = Some (inp_ctr v, finish_decode e (v\<lparr>ud_error := False\<rparr>))"
  show thesis
    using that [OF v(3) refl _ v(1,2)] advance_inv [OF v(2)] by (simp add: ud_inv_def)
qed

text \<open>What a decoding did, from its result.\<close>

lemma ud_decode_result:
  assumes "tables_ok t" and "input_inv u" and "ud_decode t junk u = Some (n, u')"
  shows "n \<le> 64" "ud_insn_len u' = n" "n \<le> length (inp_rest u)" "inp_rest u' = drop n (inp_rest u)"
    "input_inv u'" "insn_offset u' = ud_pc u" "ud_pc u' = ud_pc u + of_nat n"
    "\<not> inp_end u \<Longrightarrow> inp_rest u \<noteq> [] \<Longrightarrow> 0 < n" "inp_end u' \<Longrightarrow> inp_end u \<or> inp_rest u' = []"
    "inp_buf u \<noteq> None \<Longrightarrow> inp_buf_index u' = inp_buf_index u + n \<and> inp_buf u' = inp_buf u"
    "take n (ud_insn_ptr u') = take n (inp_rest u)"
proof -
  obtain v b where dec: "n = inp_ctr v" "inp_ctr u' = n" "inp_rest u' = inp_rest v"
      "inp_end u' = inp_end v" "input_inv u'" "insn_offset u' = ud_pc v" "ud_pc u' = ud_pc v + of_nat n"
      "inp_buf u' = inp_buf v" "inp_buf_index u' = inp_buf_index v" "inp_sess u' = inp_sess v"
    and steps: "decode_steps t junk (ud_lookup_table_list t ! 0) (fresh t u) = Some (b, v)"
    and adv: "advance 64 (fresh t u) v"
    by (rule ud_decode_input [OF assms(1,2), of junk]) (use assms(3) in auto)
  note fresh = fresh_props [OF assms(2), of t]
  have reads: "n \<le> 64" "n \<le> length (inp_rest u)" "inp_rest v = drop n (inp_rest u)"
      "inp_end v \<longrightarrow> inp_end u \<or> inp_rest v = []" "ud_pc v = ud_pc u"
    using adv fresh dec(1) by (auto simp: advance_def reads_def ud_frame_def)
  show "n \<le> 64" "ud_insn_len u' = n" "n \<le> length (inp_rest u)" "inp_rest u' = drop n (inp_rest u)"
    "input_inv u'" "insn_offset u' = ud_pc u" "ud_pc u' = ud_pc u + of_nat n"
    using dec reads by (simp_all add: ud_insn_len_def)
  show "0 < n" if "\<not> inp_end u" "inp_rest u \<noteq> []"
    using decode_steps_progress [OF assms(1) _ _ _ _ _ steps] fresh that dec(1) by simp
  show "inp_end u \<or> inp_rest u' = []" if "inp_end u'" using dec reads that by simp
  show "inp_buf_index u' = inp_buf_index u + n \<and> inp_buf u' = inp_buf u" if "inp_buf u \<noteq> None"
    using that adv fresh dec by (auto simp: advance_def reads_def ud_frame_def)
  show "take n (ud_insn_ptr u') = take n (inp_rest u)"
  proof (cases "inp_buf u")
    case None
    then have "inp_buf u' = None" "take (inp_ctr v) (inp_sess v) = take (inp_ctr v) (inp_rest u)"
      using adv fresh dec by (auto simp: advance_def sess_reads_def ud_frame_def)
    then show ?thesis using dec by (simp add: ud_insn_ptr_def)
  next
    case (Some buf)
    then have "inp_buf u' = Some buf" "inp_buf_index u' = inp_buf_index u + n"
      using adv fresh dec by (auto simp: advance_def reads_def ud_frame_def)
    moreover have "n \<le> inp_buf_size u - inp_buf_index u" using Some reads(2) by (simp add: inp_rest_def)
    ultimately show ?thesis
      using Some dec(2) by (simp add: ud_insn_ptr_def inp_rest_def drop_take min_def)
  qed
qed

lemma ud_decode_returns:
  assumes "tables_ok t" and "input_inv u"
  obtains n u' where "ud_decode t junk u = Some (n, u')"
  by (rule ud_decode_input [OF assms, of junk]) (rule that)

end
