(* ===== verification/Ud_Syn.thy ===== *)
theory Ud_Syn
  imports Ud_Decode
begin

text \<open>
  The translators of \<^verbatim>\<open>libudis86\<close>: \<^verbatim>\<open>syn.c\<close>, \<^verbatim>\<open>syn-intel.c\<close> and \<^verbatim>\<open>syn-att.c\<close>, and
  \<open>ud_disassemble\<close> of \<^verbatim>\<open>udis86.c\<close>. A function takes the object and returns it with more text in
  its buffer; \<open>None\<close> is undefined behaviour: a register code outside the name table, a null string,
  a buffer without room for its terminator. The table of mnemonics of \<^verbatim>\<open>itab.c\<close> is an argument.
\<close>

section \<open>Shared printing (syn.c)\<close>

definition ud_reg_tab :: "string list" where
  "ud_reg_tab =
     [''al'', ''cl'', ''dl'', ''bl'', ''ah'', ''ch'', ''dh'', ''bh'', ''spl'', ''bpl'',
      ''sil'', ''dil'', ''r8b'', ''r9b'', ''r10b'', ''r11b'', ''r12b'', ''r13b'', ''r14b'',
      ''r15b'', ''ax'', ''cx'', ''dx'', ''bx'', ''sp'', ''bp'', ''si'', ''di'', ''r8w'',
      ''r9w'', ''r10w'', ''r11w'', ''r12w'', ''r13w'', ''r14w'', ''r15w'', ''eax'', ''ecx'',
      ''edx'', ''ebx'', ''esp'', ''ebp'', ''esi'', ''edi'', ''r8d'', ''r9d'', ''r10d'',
      ''r11d'', ''r12d'', ''r13d'', ''r14d'', ''r15d'', ''rax'', ''rcx'', ''rdx'', ''rbx'',
      ''rsp'', ''rbp'', ''rsi'', ''rdi'', ''r8'', ''r9'', ''r10'', ''r11'', ''r12'', ''r13'',
      ''r14'', ''r15'', ''es'', ''cs'', ''ss'', ''ds'', ''fs'', ''gs'', ''cr0'', ''cr1'',
      ''cr2'', ''cr3'', ''cr4'', ''cr5'', ''cr6'', ''cr7'', ''cr8'', ''cr9'', ''cr10'',
      ''cr11'', ''cr12'', ''cr13'', ''cr14'', ''cr15'', ''dr0'', ''dr1'', ''dr2'', ''dr3'',
      ''dr4'', ''dr5'', ''dr6'', ''dr7'', ''dr8'', ''dr9'', ''dr10'', ''dr11'', ''dr12'',
      ''dr13'', ''dr14'', ''dr15'', ''mm0'', ''mm1'', ''mm2'', ''mm3'', ''mm4'', ''mm5'',
      ''mm6'', ''mm7'', ''st0'', ''st1'', ''st2'', ''st3'', ''st4'', ''st5'', ''st6'',
      ''st7'', ''xmm0'', ''xmm1'', ''xmm2'', ''xmm3'', ''xmm4'', ''xmm5'', ''xmm6'',
      ''xmm7'', ''xmm8'', ''xmm9'', ''xmm10'', ''xmm11'', ''xmm12'', ''xmm13'', ''xmm14'',
      ''xmm15'', ''rip'']"

text \<open>\<open>ud_reg_tab[r - UD_R_AL]\<close>.\<close>

definition reg_name :: "ud_type \<Rightarrow> string option" where
  "reg_name r = (if r < UD_R_AL then None else array_at ud_reg_tab (r - UD_R_AL))"

text \<open>The members of the union \<open>lval\<close>, sign-extended or zero-extended to 64 bits.\<close>

definition lval_sbyte :: "ud_operand \<Rightarrow> u64" where
  "lval_sbyte opr = scast (ucast (opr_lval opr) :: u8)"
definition lval_sword :: "ud_operand \<Rightarrow> u64" where
  "lval_sword opr = scast (ucast (opr_lval opr) :: u16)"
definition lval_sdword :: "ud_operand \<Rightarrow> u64" where
  "lval_sdword opr = scast (ucast (opr_lval opr) :: u32)"
definition lval_ubyte :: "ud_operand \<Rightarrow> u64" where
  "lval_ubyte opr = ucast (ucast (opr_lval opr) :: u8)"
definition lval_uword :: "ud_operand \<Rightarrow> u64" where
  "lval_uword opr = ucast (ucast (opr_lval opr) :: u16)"
definition lval_udword :: "ud_operand \<Rightarrow> u64" where
  "lval_udword opr = ucast (ucast (opr_lval opr) :: u32)"
definition lval_seg :: "ud_operand \<Rightarrow> u64" where
  "lval_seg opr = ucast (ucast (opr_lval opr) :: u16)"
definition lval_off :: "ud_operand \<Rightarrow> u64" where
  "lval_off opr = drop_bit 32 (opr_lval opr)"

definition ud_syn_rel_target :: "ud \<Rightarrow> ud_operand \<Rightarrow> u64" where
  "ud_syn_rel_target u opr =
     (let trunc_mask = drop_bit (64 - opr_mode u) (- 1) in
      if opr_size opr = 8 then (ud_pc u + lval_sbyte opr) AND trunc_mask
      else if opr_size opr = 16 then (ud_pc u + lval_sword opr) AND trunc_mask
      else if opr_size opr = 32 then (ud_pc u + lval_sdword opr) AND trunc_mask
      else 0)"

text \<open>
  \<open>vsnprintf\<close> gets \<open>avail\<close> bytes, of which it uses the last for the terminator, and returns the
  length of the whole text. The buffer is its text up to the first terminator: text written behind
  a terminator is not part of it.
\<close>

definition ud_asmprintf :: "ud \<Rightarrow> string \<Rightarrow> ud option" where
  "ud_asmprintf u s =
     (if asm_buf_size u \<le> asm_buf_fill u then None
      else
        let avail = asm_buf_size u - asm_buf_fill u - 1;
            ret = length s;
            buf = (if avail = 0 \<or> length (asm_buf u) < asm_buf_fill u then asm_buf u
                   else take (asm_buf_fill u) (asm_buf u) @ take (avail - 1) s)
        in Some (u\<lparr>asm_buf := buf,
                   asm_buf_fill := (if ret > avail then asm_buf_size u - 1 else asm_buf_fill u + ret)\<rparr>))"

definition fmt_x :: "u64 \<Rightarrow> string" where "fmt_x v = show_base 16 (unat v)"

definition fmt_d :: "int \<Rightarrow> string" where
  "fmt_d i = (if i < 0 then ''-'' @ show_base 10 (nat (- i)) else show_base 10 (nat i))"

definition fmt_plus_d :: "int \<Rightarrow> string" where
  "fmt_plus_d i = (if i < 0 then fmt_d i else ''+'' @ fmt_d i)"

definition ud_syn_print_addr :: "ud \<Rightarrow> u64 \<Rightarrow> ud option" where
  "ud_syn_print_addr u addr =
     (case sym_resolver u of
        Some resolve \<Rightarrow>
          (case resolve addr of
             Some (name, offset) \<Rightarrow>
               ud_asmprintf u (if offset \<noteq> 0 then name @ fmt_plus_d offset else name)
           | None \<Rightarrow> ud_asmprintf u (''0x'' @ fmt_x addr))
      | None \<Rightarrow> ud_asmprintf u (''0x'' @ fmt_x addr))"

definition imm_value :: "ud \<Rightarrow> ud_operand \<Rightarrow> u64" where
  "imm_value u opr =
     (if opr_oprcode opr = OP_sI \<and> opr_size opr \<noteq> opr_mode u then
        let v = (if opr_size opr = 8 then lval_sbyte opr else lval_sdword opr)
        in if opr_mode u < 64 then v AND (2 ^ opr_mode u - 1) else v
      else if opr_size opr = 8 then lval_ubyte opr
      else if opr_size opr = 16 then lval_uword opr
      else if opr_size opr = 32 then lval_udword opr
      else if opr_size opr = 64 then opr_lval opr
      else 0)"

definition ud_syn_print_imm :: "ud \<Rightarrow> ud_operand \<Rightarrow> ud option" where
  "ud_syn_print_imm u opr = ud_asmprintf u (''0x'' @ fmt_x (imm_value u opr))"

definition ud_syn_print_mem_disp :: "ud \<Rightarrow> ud_operand \<Rightarrow> bool \<Rightarrow> ud option" where
  "ud_syn_print_mem_disp u opr sign =
     (if opr_base opr = UD_NONE \<and> opr_index opr = UD_NONE then
        let v = (if opr_offset opr = 16 then lval_uword opr
                 else if opr_offset opr = 32 then lval_udword opr
                 else if opr_offset opr = 64 then opr_lval opr else 0)
        in ud_asmprintf u (''0x'' @ fmt_x v)
      else
        let v = (if opr_offset opr = 8 then lval_sbyte opr
                 else if opr_offset opr = 16 then lval_sword opr
                 else if opr_offset opr = 32 then lval_sdword opr else 0)
        in if sint v < 0 then ud_asmprintf u (''-0x'' @ fmt_x (- v))
           else if sint v > 0 then ud_asmprintf u ((if sign then ''+'' else []) @ ''0x'' @ fmt_x v)
           else Some u)"

text \<open>Printing a text only under a condition, and a register between two texts.\<close>

definition print_if :: "bool \<Rightarrow> string \<Rightarrow> ud \<Rightarrow> ud option" where
  "print_if b s u = (if b then ud_asmprintf u s else Some u)"

definition print_reg :: "string \<Rightarrow> ud_type \<Rightarrow> string \<Rightarrow> ud \<Rightarrow> ud option" where
  "print_reg pre r post u = do { s \<leftarrow> reg_name r; ud_asmprintf u (pre @ s @ post) }"

text \<open>\<open>print_mnemonic\<close> is \<open>ud_asmprintf(u, "%s", ud_lookup_mnemonic(u->mnemonic))\<close>.\<close>

definition print_mnemonic :: "string list \<Rightarrow> ud \<Rightarrow> ud option" where
  "print_mnemonic ud_mnemonics_str u =
     do { s \<leftarrow> ud_lookup_mnemonic ud_mnemonics_str (mnemonic u); ud_asmprintf u s }"

text \<open>The two prefixes both translators print first.\<close>

definition print_oso :: "ud_itab_entry \<Rightarrow> ud \<Rightarrow> ud option" where
  "print_oso e u =
     (if \<not> P_OSO (ie_prefix e) \<and> pfx_opr u \<noteq> 0 then
        (if dis_mode u = 16 then ud_asmprintf u ''o32 ''
         else if dis_mode u = 32 \<or> dis_mode u = 64 then ud_asmprintf u ''o16 ''
         else Some u)
      else Some u)"

definition print_aso :: "ud_itab_entry \<Rightarrow> ud \<Rightarrow> ud option" where
  "print_aso e u =
     (if \<not> P_ASO (ie_prefix e) \<and> pfx_adr u \<noteq> 0 then
        (if dis_mode u = 16 then ud_asmprintf u ''a32 ''
         else if dis_mode u = 32 then ud_asmprintf u ''a16 ''
         else if dis_mode u = 64 then ud_asmprintf u ''a32 ''
         else Some u)
      else Some u)"

section \<open>Intel syntax (syn-intel.c)\<close>

definition cast_text :: "nat \<Rightarrow> string option" where
  "cast_text n =
     map_of [(8, ''byte ''), (16, ''word ''), (32, ''dword ''), (64, ''qword ''), (80, ''tword '')] n"

definition opr_cast :: "ud \<Rightarrow> ud_operand \<Rightarrow> ud option" where
  "opr_cast u opr = do {
     u \<leftarrow> print_if (br_far u) ''far '' u;
     case cast_text (opr_size opr) of Some s \<Rightarrow> ud_asmprintf u s | None \<Rightarrow> Some u
   }"

definition gen_index :: "ud \<Rightarrow> ud_operand \<Rightarrow> ud option" where
  "gen_index u opr = do {
     u \<leftarrow> print_reg (if opr_base opr \<noteq> UD_NONE then ''+'' else []) (opr_index opr) [] u;
     print_if (opr_scale opr \<noteq> 0) (''*'' @ show_base 10 (opr_scale opr)) u
   }"

definition gen_mem :: "ud \<Rightarrow> ud_operand \<Rightarrow> bool \<Rightarrow> ud option" where
  "gen_mem u opr syn_cast = do {
     u \<leftarrow> (if syn_cast then opr_cast u opr else Some u);
     u \<leftarrow> ud_asmprintf u ''['';
     u \<leftarrow> (if pfx_seg u \<noteq> 0 then print_reg [] (pfx_seg u) '':'' u else Some u);
     u \<leftarrow> (if opr_base opr \<noteq> 0 then print_reg [] (opr_base opr) [] u else Some u);
     u \<leftarrow> (if opr_index opr \<noteq> 0 then gen_index u opr else Some u);
     u \<leftarrow> (if opr_offset opr \<noteq> 0
           then ud_syn_print_mem_disp u opr (opr_base opr \<noteq> UD_NONE \<or> opr_index opr \<noteq> UD_NONE)
           else Some u);
     ud_asmprintf u '']''
   }"

definition gen_operand :: "ud \<Rightarrow> ud_operand \<Rightarrow> bool \<Rightarrow> ud option" where
  "gen_operand u opr syn_cast =
     (if opr_type opr = UD_OP_REG then print_reg [] (opr_base opr) [] u
      else if opr_type opr = UD_OP_MEM then gen_mem u opr syn_cast
      else if opr_type opr = UD_OP_IMM then ud_syn_print_imm u opr
      else if opr_type opr = UD_OP_JIMM then ud_syn_print_addr u (ud_syn_rel_target u opr)
      else if opr_type opr = UD_OP_PTR then
        (if opr_size opr = 32 then
           ud_asmprintf u (''word 0x'' @ fmt_x (lval_seg opr) @ '':0x'' @ fmt_x (lval_off opr AND 0xFFFF))
         else if opr_size opr = 48 then
           ud_asmprintf u (''dword 0x'' @ fmt_x (lval_seg opr) @ '':0x'' @ fmt_x (lval_off opr))
         else Some u)
      else if opr_type opr = UD_OP_CONST then do {
        u \<leftarrow> (if syn_cast then opr_cast u opr else Some u);
        ud_asmprintf u (fmt_d (sint (ucast (opr_lval opr) :: u32)))
      }
      else Some u)"

text \<open>Whether the first and the second operand is printed with its size.\<close>

definition cast0 :: "ud \<Rightarrow> bool" where
  "cast0 u \<longleftrightarrow>
     opr_type (operand0 u) = UD_OP_MEM \<and>
     (opr_type (operand1 u) = UD_OP_IMM \<or> opr_type (operand1 u) = UD_OP_CONST \<or>
      opr_type (operand1 u) = UD_NONE \<or>
      (opr_size (operand0 u) \<noteq> opr_size (operand1 u) \<and> opr_type (operand1 u) \<noteq> UD_OP_REG) \<or>
      (opr_type (operand1 u) = UD_OP_REG \<and> opr_base (operand1 u) = UD_R_CL \<and>
       mnemonic u \<in> {UD_Ircl, UD_Irol, UD_Iror, UD_Ircr, UD_Ishl, UD_Ishr, UD_Isar}))"

definition cast1 :: "ud \<Rightarrow> bool" where
  "cast1 u \<longleftrightarrow>
     opr_type (operand1 u) = UD_OP_MEM \<and> opr_size (operand0 u) \<noteq> opr_size (operand1 u) \<and>
     \<not> ud_opr_is_sreg (operand0 u)"

definition print_opr :: "string \<Rightarrow> ud_operand \<Rightarrow> bool \<Rightarrow> ud \<Rightarrow> ud option" where
  "print_opr sep opr cast u =
     (if opr_type opr \<noteq> UD_NONE then do { u \<leftarrow> ud_asmprintf u sep; gen_operand u opr cast } else Some u)"

definition print_rep :: "ud \<Rightarrow> ud option" where
  "print_rep u =
     (if pfx_rep u \<noteq> 0 then ud_asmprintf u ''rep ''
      else if pfx_repe u \<noteq> 0 then ud_asmprintf u ''repe ''
      else print_if (pfx_repne u \<noteq> 0) ''repne '' u)"

definition print_seg :: "ud \<Rightarrow> ud option" where
  "print_seg u =
     (if pfx_seg u \<noteq> 0 \<and> opr_type (operand0 u) \<noteq> UD_OP_MEM \<and> opr_type (operand1 u) \<noteq> UD_OP_MEM
      then print_reg [] (pfx_seg u) '' '' u else Some u)"

definition ud_translate_intel :: "string list \<Rightarrow> ud \<Rightarrow> ud option" where
  "ud_translate_intel ud_mnemonics_str u = do {
     e \<leftarrow> itab_entry u;
     u \<leftarrow> print_oso e u;
     u \<leftarrow> print_aso e u;
     u \<leftarrow> print_seg u;
     u \<leftarrow> print_if (pfx_lock u \<noteq> 0) ''lock '' u;
     u \<leftarrow> print_rep u;
     u \<leftarrow> print_mnemonic ud_mnemonics_str u;
     u \<leftarrow> print_opr '' '' (operand0 u) (cast0 u) u;
     u \<leftarrow> print_opr '', '' (operand1 u) (cast1 u) u;
     print_opr '', '' (operand2 u) False u
   }"

section \<open>AT\&T syntax (syn-att.c)\<close>

definition opr_cast_att :: "ud \<Rightarrow> ud_operand \<Rightarrow> ud option" where
  "opr_cast_att u opr = print_if (opr_size opr = 16 \<or> opr_size opr = 32) ''*'' u"

definition gen_mem_att :: "ud \<Rightarrow> ud_operand \<Rightarrow> ud option" where
  "gen_mem_att u opr = do {
     u \<leftarrow> (if br_far u then opr_cast_att u opr else Some u);
     u \<leftarrow> (if pfx_seg u \<noteq> 0 then print_reg ''%'' (pfx_seg u) '':'' u else Some u);
     u \<leftarrow> (if opr_offset opr \<noteq> 0 then ud_syn_print_mem_disp u opr False else Some u);
     u \<leftarrow> (if opr_base opr \<noteq> 0 then print_reg ''(%'' (opr_base opr) [] u else Some u);
     u \<leftarrow> (if opr_index opr \<noteq> 0 then do {
             u \<leftarrow> ud_asmprintf u (if opr_base opr \<noteq> 0 then '','' else ''('');
             print_reg ''%'' (opr_index opr) [] u
           } else Some u);
     u \<leftarrow> print_if (opr_scale opr \<noteq> 0) ('','' @ show_base 10 (opr_scale opr)) u;
     print_if (opr_base opr \<noteq> 0 \<or> opr_index opr \<noteq> 0) '')'' u
   }"

definition gen_operand_att :: "ud \<Rightarrow> ud_operand \<Rightarrow> ud option" where
  "gen_operand_att u opr =
     (if opr_type opr = UD_OP_CONST then ud_asmprintf u (''$0x'' @ fmt_x (lval_udword opr))
      else if opr_type opr = UD_OP_REG then print_reg ''%'' (opr_base opr) [] u
      else if opr_type opr = UD_OP_MEM then gen_mem_att u opr
      else if opr_type opr = UD_OP_IMM then
        do { u \<leftarrow> ud_asmprintf u ''$''; ud_syn_print_imm u opr }
      else if opr_type opr = UD_OP_JIMM then ud_syn_print_addr u (ud_syn_rel_target u opr)
      else if opr_type opr = UD_OP_PTR then
        (if opr_size opr = 32 then
           ud_asmprintf u (''$0x'' @ fmt_x (lval_seg opr) @ '', $0x'' @ fmt_x (lval_off opr AND 0xFFFF))
         else if opr_size opr = 48 then
           ud_asmprintf u (''$0x'' @ fmt_x (lval_seg opr) @ '', $0x'' @ fmt_x (lval_off opr))
         else Some u)
      else Some u)"

text \<open>The second test of \<open>pfx_rep\<close> is the source's.\<close>

definition print_rep_att :: "ud \<Rightarrow> ud option" where
  "print_rep_att u =
     (if pfx_rep u \<noteq> 0 then ud_asmprintf u ''rep ''
      else if pfx_rep u \<noteq> 0 then ud_asmprintf u ''repe ''
      else print_if (pfx_repne u \<noteq> 0) ''repne '' u)"

definition print_opr_att :: "string \<Rightarrow> ud_operand \<Rightarrow> string \<Rightarrow> ud \<Rightarrow> ud option" where
  "print_opr_att pre opr post u =
     (if opr_type opr \<noteq> UD_NONE then do {
        u \<leftarrow> print_if (pre \<noteq> []) pre u;
        u \<leftarrow> gen_operand_att u opr;
        print_if (post \<noteq> []) post u
      } else Some u)"

text \<open>The operands after the mnemonic; the local \<open>size\<close> is never set, so no suffix is printed.\<close>

definition att_operands :: "bool \<Rightarrow> ud \<Rightarrow> ud option" where
  "att_operands star u = do {
     u \<leftarrow> ud_asmprintf u (if star then '' *'' else '' '');
     u \<leftarrow> print_opr_att [] (operand2 u) '', '' u;
     u \<leftarrow> print_opr_att [] (operand1 u) '', '' u;
     print_opr_att [] (operand0 u) [] u
   }"

definition att_special :: "string list \<Rightarrow> ud \<Rightarrow> ud option" where
  "att_special ud_mnemonics_str u =
     (if mnemonic u = UD_Iretf then do { u \<leftarrow> ud_asmprintf u ''lret ''; att_operands False u }
      else if mnemonic u = UD_Idb then ud_asmprintf u (''.byte 0x'' @ fmt_x (lval_ubyte (operand0 u)))
      else if mnemonic u = UD_Ijmp \<or> mnemonic u = UD_Icall then do {
        u \<leftarrow> print_if (br_far u) ''l'' u;
        u \<leftarrow> print_mnemonic ud_mnemonics_str u;
        att_operands (opr_type (operand0 u) = UD_OP_REG) u
      }
      else if mnemonic u = UD_Ibound \<or> mnemonic u = UD_Ienter then do {
        u \<leftarrow> print_opr_att [] (operand0 u) [] u;
        print_opr_att '','' (operand1 u) [] u
      }
      else do { u \<leftarrow> print_mnemonic ud_mnemonics_str u; att_operands False u })"

definition ud_translate_att :: "string list \<Rightarrow> ud \<Rightarrow> ud option" where
  "ud_translate_att ud_mnemonics_str u = do {
     e \<leftarrow> itab_entry u;
     u \<leftarrow> print_oso e u;
     u \<leftarrow> print_aso e u;
     u \<leftarrow> print_if (pfx_lock u \<noteq> 0) ''lock '' u;
     u \<leftarrow> print_rep_att u;
     att_special ud_mnemonics_str u
   }"

section \<open>Disassembling one instruction (udis86.c)\<close>

definition ud_translate :: "string list \<Rightarrow> ud \<Rightarrow> ud option" where
  "ud_translate ud_mnemonics_str u =
     (case translator u of
        None \<Rightarrow> Some u
      | Some syn \<Rightarrow>
          if asm_buf_size u = 0 then None
          else
            let u = u\<lparr>asm_buf := []\<rparr> in
            case syn of
              UD_SYN_INTEL \<Rightarrow> ud_translate_intel ud_mnemonics_str u
            | UD_SYN_ATT \<Rightarrow> ud_translate_att ud_mnemonics_str u)"

definition ud_disassemble :: "ud_tables \<Rightarrow> string list \<Rightarrow> u8 \<Rightarrow> ud \<Rightarrow> (nat \<times> ud) option" where
  "ud_disassemble t ud_mnemonics_str junk u =
     (if inp_end u then Some (0, u)
      else do {
        (len, u) \<leftarrow> ud_decode t junk u;
        if len > 0 then do { u \<leftarrow> ud_translate ud_mnemonics_str u; Some (len, u) }
        else Some (len, u)
      })"

end
