(* ===== verification/Ud_Disas.thy ===== *)
theory Ud_Disas
  imports Ud_Total Ud_Syn
begin

text \<open>
  Disassembling: the translators always return on what the decoder produces from well-formed tables,
  and keep the text within its buffer; hence \<open>ud_disassemble\<close> always returns.
\<close>

declare One_nat_def [simp]

section \<open>Printing\<close>

definition asm_ok :: "ud \<Rightarrow> bool" where
  "asm_ok u \<longleftrightarrow> asm_buf_fill u < asm_buf_size u \<and> length (asm_buf u) < asm_buf_size u"

text \<open>A printing step changes only the text.\<close>

definition printed :: "ud \<Rightarrow> ud \<Rightarrow> bool" where
  "printed u u' \<longleftrightarrow> asm_ok u' \<and> (\<exists>b f. u' = u\<lparr>asm_buf := b, asm_buf_fill := f\<rparr>)"

definition prints :: "ud \<Rightarrow> ud option \<Rightarrow> bool" where
  "prints u r \<longleftrightarrow> (asm_ok u \<longrightarrow> (\<exists>u'. r = Some u' \<and> printed u u'))"

lemma printedI: "asm_ok u' \<Longrightarrow> u' = u\<lparr>asm_buf := b, asm_buf_fill := f\<rparr> \<Longrightarrow> printed u u'"
  unfolding printed_def by blast

lemma printedE:
  assumes "printed u u'"
  obtains b f where "u' = u\<lparr>asm_buf := b, asm_buf_fill := f\<rparr>" "asm_ok u'"
  using assms unfolding printed_def by blast

lemma printed_refl: "asm_ok u \<Longrightarrow> printed u u"
  by (rule printedI [where b = "asm_buf u" and f = "asm_buf_fill u"]) simp_all

lemma printed_trans: "printed u v \<Longrightarrow> printed v w \<Longrightarrow> printed u w"
  by (elim printedE, erule printedI) simp

lemma printed_fields:
  assumes "printed u u'"
  shows "operand0 u' = operand0 u" "operand1 u' = operand1 u" "operand2 u' = operand2 u"
    "pfx_seg u' = pfx_seg u" "mnemonic u' = mnemonic u" "itab_entry u' = itab_entry u" "asm_ok u'"
    "asm_buf_size u' = asm_buf_size u" "sym_resolver u' = sym_resolver u" "inp_end u' = inp_end u"
    "inp_ctr u' = inp_ctr u" "inp_rest u' = inp_rest u" "input_inv u' = input_inv u"
    "ud_pc u' = ud_pc u" "insn_offset u' = insn_offset u" "inp_buf u' = inp_buf u"
    "inp_buf_index u' = inp_buf_index u" "inp_sess u' = inp_sess u" "dis_mode u' = dis_mode u"
    "translator u' = translator u" "inp_buf_size u' = inp_buf_size u"
  by (use assms in \<open>elim printedE, simp add: inp_rest_def input_inv_def\<close>)+

lemma prints_Some [simp]: "prints u (Some u)"
  by (simp add: prints_def printed_refl)

lemma prints_asmprintf [simp]: "prints u (ud_asmprintf u s)"
proof (cases "asm_ok u")
  case True
  define avail where "avail = asm_buf_size u - asm_buf_fill u - 1"
  define b where "b = (if avail = 0 \<or> length (asm_buf u) < asm_buf_fill u then asm_buf u
    else take (asm_buf_fill u) (asm_buf u) @ take (avail - 1) s)"
  define f where "f = (if length s > avail then asm_buf_size u - 1 else asm_buf_fill u + length s)"
  have "ud_asmprintf u s = Some (u\<lparr>asm_buf := b, asm_buf_fill := f\<rparr>)"
    using True unfolding ud_asmprintf_def Let_def b_def f_def avail_def by (simp add: asm_ok_def)
  moreover have "asm_ok (u\<lparr>asm_buf := b, asm_buf_fill := f\<rparr>)"
    using True by (auto simp: asm_ok_def b_def f_def avail_def)
  ultimately show ?thesis by (auto simp: prints_def intro: printedI)
qed (simp add: prints_def)

lemma prints_bind:
  assumes "prints u r" and "\<And>u'. printed u u' \<Longrightarrow> prints u' (f u')"
  shows "prints u (r \<bind> f)"
  unfolding prints_def
proof (intro impI)
  assume "asm_ok u"
  then obtain v where v: "r = Some v" "printed u v" using assms(1) by (auto simp: prints_def)
  then obtain w where "f v = Some w" "printed v w"
    using assms(2) [OF v(2)] printed_fields(7) [OF v(2)] by (auto simp: prints_def)
  then show "\<exists>w. r \<bind> f = Some w \<and> printed u w" using v printed_trans by auto
qed

lemma prints_if [simp]: "prints u (print_if b s u)"
  by (simp add: print_if_def)

text \<open>The register codes that have a name.\<close>

definition reg_ok :: "ud_type \<Rightarrow> bool" where "reg_ok r \<longleftrightarrow> UD_R_AL \<le> r \<and> r \<le> UD_R_RIP"

definition opr_ok :: "ud_operand \<Rightarrow> bool" where
  "opr_ok opr \<longleftrightarrow>
     (if opr_type opr = UD_OP_REG then reg_ok (opr_base opr)
      else if opr_type opr = UD_OP_MEM then
        (opr_base opr = 0 \<or> reg_ok (opr_base opr)) \<and> (opr_index opr = 0 \<or> reg_ok (opr_index opr))
      else True)"

definition insn_ok :: "ud \<Rightarrow> bool" where
  "insn_ok u \<longleftrightarrow>
     opr_ok (operand0 u) \<and> opr_ok (operand1 u) \<and> opr_ok (operand2 u) \<and>
     (pfx_seg u = 0 \<or> reg_ok (pfx_seg u)) \<and> mnemonic u < UD_MAX_MNEMONIC_CODE \<and> itab_entry u \<noteq> None"

lemma length_ud_reg_tab: "length ud_reg_tab = 139"
  by (simp add: ud_reg_tab_def)

lemma prints_reg [simp]: "reg_ok r \<Longrightarrow> prints u (print_reg pre r post u)"
  by (auto simp: reg_ok_def print_reg_def reg_name_def length_ud_reg_tab array_at_def UD_R_AL_def
      UD_R_RIP_def)

lemma prints_mem_disp [simp]: "prints u (ud_syn_print_mem_disp u opr sign)"
  by (simp add: ud_syn_print_mem_disp_def Let_def)

lemma prints_addr [simp]: "prints u (ud_syn_print_addr u a)"
  by (simp add: ud_syn_print_addr_def split: option.split prod.split)

lemma prints_imm [simp]: "prints u (ud_syn_print_imm u opr)"
  by (simp add: ud_syn_print_imm_def)

lemma prints_oso [simp]: "prints u (print_oso e u)" "prints u (print_aso e u)"
  by (simp_all add: print_oso_def print_aso_def)

lemma prints_rep [simp]: "prints u (print_rep u)" "prints u (print_rep_att u)"
  by (simp_all add: print_rep_def print_rep_att_def)

lemma prints_mnemonic [simp]: "mnemonic u < UD_MAX_MNEMONIC_CODE \<Longrightarrow> prints u (print_mnemonic mn u)"
  by (simp add: print_mnemonic_def ud_lookup_mnemonic_def)

lemma prints_opr_cast [simp]: "prints u (opr_cast u opr)"
  unfolding opr_cast_def by (intro prints_bind prints_if) (simp split: option.split)

lemma prints_gen_index [simp]: "reg_ok (opr_index opr) \<Longrightarrow> prints u (gen_index u opr)"
  unfolding gen_index_def by (intro prints_bind) simp_all

lemma prints_gen_mem:
  assumes "opr_base opr = 0 \<or> reg_ok (opr_base opr)" "opr_index opr = 0 \<or> reg_ok (opr_index opr)"
    "pfx_seg u = 0 \<or> reg_ok (pfx_seg u)"
  shows "prints u (gen_mem u opr c)" "prints u (gen_mem_att u opr)"
  unfolding gen_mem_def gen_mem_att_def opr_cast_att_def
  using assms by (intro prints_bind; auto simp: printed_fields intro: prints_bind)+

lemma prints_gen_operand:
  assumes "opr_ok opr" "pfx_seg u = 0 \<or> reg_ok (pfx_seg u)"
  shows "prints u (gen_operand u opr c)" "prints u (gen_operand_att u opr)"
proof -
  have const: "prints u (do { u \<leftarrow> (if c then opr_cast u opr else Some u); ud_asmprintf u s })" for s
    by (intro prints_bind) simp_all
  have imm: "prints u (do { u \<leftarrow> ud_asmprintf u s; ud_syn_print_imm u opr })" for s
    by (intro prints_bind) simp_all
  show "prints u (gen_operand u opr c)" "prints u (gen_operand_att u opr)"
    using assms const imm
    by (auto simp: gen_operand_def gen_operand_att_def opr_ok_def prints_gen_mem split: if_splits)
qed

lemma prints_opr [simp]:
  assumes "opr_ok opr" "pfx_seg u = 0 \<or> reg_ok (pfx_seg u)"
  shows "prints u (print_opr sep opr c u)" "prints u (print_opr_att pre opr post u)"
  unfolding print_opr_def print_opr_att_def
  using assms by (auto intro!: prints_bind prints_gen_operand simp: printed_fields)

lemma insn_ok_printed: "printed u u' \<Longrightarrow> insn_ok u' = insn_ok u"
  by (simp add: insn_ok_def printed_fields)

lemma insn_okD:
  assumes "insn_ok u"
  shows "opr_ok (operand0 u)" "opr_ok (operand1 u)" "opr_ok (operand2 u)"
    "pfx_seg u = 0 \<or> reg_ok (pfx_seg u)" "mnemonic u < UD_MAX_MNEMONIC_CODE"
  using assms by (simp_all add: insn_ok_def)

text \<open>A step that prints when the instruction is in order, followed by others of this kind.\<close>

lemma prints_bind_ok:
  assumes "insn_ok u" and "insn_ok u \<Longrightarrow> prints u r" and "\<And>u'. insn_ok u' \<Longrightarrow> prints u' (f u')"
  shows "prints u (r \<bind> f)"
  using assms insn_ok_printed by (intro prints_bind) blast+

lemma prints_seg: "insn_ok u \<Longrightarrow> prints u (print_seg u)"
  by (auto simp: print_seg_def dest: insn_okD(4))

lemma prints_att_operands: "insn_ok u \<Longrightarrow> prints u (att_operands star u)"
  unfolding att_operands_def by (intro prints_bind_ok) (simp_all add: insn_okD)

lemma prints_intel:
  assumes "insn_ok u"
  shows "prints u (ud_translate_intel mn u)"
proof -
  obtain e where "itab_entry u = Some e" using assms by (auto simp: insn_ok_def)
  then show ?thesis
    unfolding ud_translate_intel_def using assms
    by (simp, intro prints_bind_ok) (simp_all add: prints_seg insn_okD)
qed

lemma prints_att_special:
  assumes "insn_ok u"
  shows "prints u (att_special mn u)"
proof -
  have "prints u (do { u \<leftarrow> ud_asmprintf u ''lret ''; att_operands False u })"
    "prints u (do { u \<leftarrow> print_if (br_far u) ''l'' u; u \<leftarrow> print_mnemonic mn u;
        att_operands (opr_type (operand0 u) = UD_OP_REG) u })"
    "prints u (do { u \<leftarrow> print_opr_att [] (operand0 u) [] u; print_opr_att '','' (operand1 u) [] u })"
    "prints u (do { u \<leftarrow> print_mnemonic mn u; att_operands False u })"
    using assms by (intro prints_bind_ok; simp add: insn_okD prints_att_operands)+
  then show ?thesis by (simp add: att_special_def)
qed

lemma prints_att:
  assumes "insn_ok u"
  shows "prints u (ud_translate_att mn u)"
proof -
  obtain e where "itab_entry u = Some e" using assms by (auto simp: insn_ok_def)
  then show ?thesis
    unfolding ud_translate_att_def using assms
    by (simp, intro prints_bind_ok) (simp_all add: prints_att_special)
qed

lemma ud_translate_total:
  assumes "insn_ok u" and "0 < asm_buf_size u" and "asm_buf_fill u = 0" and "length (asm_buf u) < asm_buf_size u"
  shows "\<exists>u'. ud_translate mn u = Some u' \<and> printed u u'"
proof (cases "translator u")
  case None
  then show ?thesis using assms by (auto simp: ud_translate_def asm_ok_def intro: printed_refl)
next
  case (Some syn)
  define v where "v = u\<lparr>asm_buf := []\<rparr>"
  have v: "insn_ok v" "asm_ok v" using assms by (simp_all add: v_def insn_ok_def asm_ok_def)
  then have "printed u v" by (intro printedI [where b = "[]" and f = 0]) (simp_all add: v_def assms)
  then show ?thesis
    using Some assms v prints_intel [OF v(1), of mn] prints_att [OF v(1), of mn] printed_trans
    by (cases syn) (auto simp: ud_translate_def prints_def v_def [symmetric])
qed

end
