(* ===== verification/Ud_Operands.thy ===== *)
theory Ud_Operands
  imports Ud_Disas
begin

text \<open>
  The operands of a decoded instruction name registers that exist, provided the instruction table
  gives general purpose registers a size such a register has. With it \<open>ud_disassemble\<close> is total.
\<close>

section \<open>An error stays\<close>

lemma err_inp_next: "inp_next u = Some (c, u') \<Longrightarrow> ud_error u \<Longrightarrow> ud_error u'"
  by (auto simp: inp_next_def inp_eoi_def UDERR_def Let_def split: if_splits option.splits list.splits)

lemma err_input:
  "inp_uint8 u = Some (c8, u') \<Longrightarrow> ud_error u \<Longrightarrow> ud_error u'"
  "inp_uint16 u = Some (c16, u') \<Longrightarrow> ud_error u \<Longrightarrow> ud_error u'"
  "inp_uint32 u = Some (c32, u') \<Longrightarrow> ud_error u \<Longrightarrow> ud_error u'"
  "inp_uint64 u = Some (c64, u') \<Longrightarrow> ud_error u \<Longrightarrow> ud_error u'"
  by (auto simp: inp_uint8_def inp_uint16_def inp_uint32_def inp_uint64_def bind_eq_Some_conv
      dest!: err_inp_next)

lemma err_modrm: "modrm u = Some (m, u') \<Longrightarrow> ud_error u \<Longrightarrow> ud_error u'"
  by (auto simp: modrm_def bind_eq_Some_conv split: if_splits dest: err_inp_next)

lemma err_read_lval: "read_lval n u opr = Some (x, u') \<Longrightarrow> ud_error u \<Longrightarrow> ud_error u'"
  by (auto simp: read_lval_def bind_eq_Some_conv split: if_splits dest: err_input)

lemma err_decode_reg: "decode_reg u opr ty num sz = (x, u') \<Longrightarrow> ud_error u \<Longrightarrow> ud_error u'"
  by (cases ty) (auto simp: decode_reg_def Let_def UDERR_def split: if_splits)

lemma err_decode_sib:
  "decode_sib reg0 sp special md offset u opr = Some (x, u') \<Longrightarrow> ud_error u \<Longrightarrow> ud_error u'"
  by (auto simp: decode_sib_def Let_def bind_eq_Some_conv case_prod_beta dest: err_inp_next)

lemma err_modrm_address: "modrm_address md rm u opr = Some (x, u') \<Longrightarrow> ud_error u \<Longrightarrow> ud_error u'"
  by (auto simp: modrm_address_def modrm_mem64_def modrm_mem32_def Let_def split: if_splits
      dest: err_decode_sib)

lemma err_mem_disp: "decode_mem_disp u sz opr = Some (x, u') \<Longrightarrow> ud_error u \<Longrightarrow> ud_error u'"
  by (auto simp: decode_mem_disp_def split: if_splits dest: err_read_lval)

lemma err_modrm_rm: "decode_modrm_rm u opr ty sz = Some (x, u') \<Longrightarrow> ud_error u \<Longrightarrow> ud_error u'"
  by (auto simp: decode_modrm_rm_def Let_def bind_eq_Some_conv split: if_splits
      dest!: err_modrm err_modrm_address dest: err_mem_disp err_decode_reg)

lemma err_modrm_reg: "decode_modrm_reg u opr ty sz = Some (x, u') \<Longrightarrow> ud_error u \<Longrightarrow> ud_error u'"
  by (auto simp: decode_modrm_reg_def bind_eq_Some_conv dest!: err_modrm dest: err_decode_reg)

lemma expect_cases:
  "expect_mod3 u = Some u' \<Longrightarrow> \<exists>m v. modrm u = Some (m, v) \<and> (u' = UDERR v \<or> MODRM_MOD m = 3 \<and> u' = v)"
  "expect_mem u = Some u' \<Longrightarrow> \<exists>m v. modrm u = Some (m, v) \<and> (u' = UDERR v \<or> MODRM_MOD m \<noteq> 3 \<and> u' = v)"
  by (auto simp: expect_mod3_def expect_mem_def bind_eq_Some_conv)

lemma err_expect:
  "expect_mod3 u = Some u' \<Longrightarrow> ud_error u \<Longrightarrow> ud_error u'"
  "expect_mem u = Some u' \<Longrightarrow> ud_error u \<Longrightarrow> ud_error u'"
  by (auto dest!: expect_cases dest: err_modrm simp: UDERR_def)

lemma err_mx: "decode_mx u opr ty sz = Some (x, u') \<Longrightarrow> ud_error u \<Longrightarrow> ud_error u'"
  by (auto simp: decode_mx_def bind_eq_Some_conv dest!: err_modrm dest: err_modrm_rm)

lemma err_simple:
  "decode_a u opr = Some (x, u') \<Longrightarrow> ud_error u \<Longrightarrow> ud_error u'"
  "decode_imm u sz opr = Some (x, u') \<Longrightarrow> ud_error u \<Longrightarrow> ud_error u'"
  "decode_moffset u sz opr = Some (x, u') \<Longrightarrow> ud_error u \<Longrightarrow> ud_error u'"
  by (auto simp: decode_a_def decode_imm_def decode_moffset_def Let_def bind_eq_Some_conv
      split: if_splits dest!: err_input(2,3) dest: err_read_lval err_mem_disp)

lemma err_far: "expect_mem (u\<lparr>br_far := True\<rparr>) = Some u' \<Longrightarrow> ud_error u \<Longrightarrow> ud_error u'"
  using err_expect(2) [of "u\<lparr>br_far := True\<rparr>" u'] by simp

lemma err_decode_operand: "decode_operand u opr ty sz = Some (x, u') \<Longrightarrow> ud_error u \<Longrightarrow> ud_error u'"
  unfolding decode_operand_def Let_def
  by (simp add: bind_eq_Some_conv UDERR_def split: if_split_asm;
      fastforce dest: err_simple err_modrm_rm err_modrm_reg err_mx err_expect err_far err_decode_reg)

section \<open>Registers\<close>

definition gpr_size :: "ud_operand_size \<Rightarrow> bool" where
  "gpr_size sz \<longleftrightarrow> sz \<in> {SZ_B, SZ_W, SZ_D, SZ_Q, SZ_V, SZ_Z, SZ_Y, SZ_RDQ}"

definition modes_ok :: "ud \<Rightarrow> bool" where "modes_ok u \<longleftrightarrow> opr_mode u \<in> {16, 32, 64}"

lemma resolve_gpr_size: "gpr_size sz \<Longrightarrow> modes_ok u \<Longrightarrow> resolve_operand_size u sz \<in> {8, 16, 32, 64}"
  by (auto simp: gpr_size_def modes_ok_def resolve_operand_size_def ud_operand_size_defs)

lemma decode_gpr_ok: "s \<in> {8, 16, 32, 64} \<Longrightarrow> rm < 16 \<Longrightarrow> reg_ok (decode_gpr u s rm)"
  by (auto simp: decode_gpr_def reg_ok_def UD_R_AL_def UD_R_RIP_def UD_R_RAX_def UD_R_EAX_def UD_R_AX_def
      UD_R_SPL_def)

lemma decode_reg_ok:
  assumes "decode_reg u opr ty num sz = (opr', u')" and "num < 16" and "opr_ok opr"
    and "ty = REGCLASS_GPR \<Longrightarrow> gpr_size sz" and "modes_ok u"
  shows "opr_ok opr'"
proof (cases ty)
  case REGCLASS_GPR
  then show ?thesis
    using assms resolve_gpr_size [of sz u] decode_gpr_ok
    by (auto simp: decode_reg_def Let_def reg_operand_def opr_ok_def)
next
  case REGCLASS_SEG
  then show ?thesis
    using assms
    by (auto simp: decode_reg_def Let_def reg_operand_def opr_ok_def reg_ok_def UD_R_AL_def UD_R_RIP_def
        UD_R_ES_def split: if_splits)
qed (use assms in \<open>auto simp: decode_reg_def Let_def reg_operand_def opr_ok_def reg_ok_def UD_R_AL_def
      UD_R_RIP_def UD_R_MM0_def UD_R_XMM0_def UD_R_CR0_def UD_R_DR0_def\<close>)

lemma and_mask_less: "unat (w AND mask n :: 'a::len word) < 2 ^ n"
  by (simp add: unat_and_mask)

lemma REX_less: "REX_R r < 2" "REX_X r < 2" "REX_B r < 2"
proof -
  have m: "0x7 = (mask 3 :: u8)" "0x3 = (mask 2 :: u8)" "0x1 = (mask 1 :: u8)" by (simp_all add: mask_eq_exp_minus_1)
  have "unat (drop_bit 2 (0x7 AND r)) = unat (0x7 AND r) div 4"
    "unat (drop_bit 1 (0x3 AND r)) = unat (0x3 AND r) div 2"
    by (simp_all add: drop_bit_eq_div unat_div)
  then show "REX_R r < 2" "REX_X r < 2" "REX_B r < 2"
    using and_mask_less [of r 3] and_mask_less [of r 2] and_mask_less [of r 1]
    unfolding REX_R_def REX_X_def REX_B_def m by (simp_all add: and.commute)
qed

lemma SIB_less: "SIB_I b < 8" "SIB_B b < 8"
proof -
  have m: "7 = (mask 3 :: u8)" by (simp add: mask_eq_exp_minus_1)
  show "SIB_I b < 8" "SIB_B b < 8"
    using and_mask_less [of b 3] and_mask_less [of "drop_bit 3 b" 3]
    unfolding SIB_I_def SIB_B_def m by simp_all
qed

lemma decode_sib_ok:
  assumes "decode_sib reg0 sp special md offset u opr = Some ((off, opr'), u')"
    and "reg0 = UD_R_RAX \<or> reg0 = UD_R_EAX"
  shows "(opr_base opr' = 0 \<or> reg_ok (opr_base opr')) \<and> (opr_index opr' = 0 \<or> reg_ok (opr_index opr')) \<and>
         opr_type opr' = opr_type opr"
proof -
  have "reg_ok (reg0 + (SIB_I b + 8 * REX_X r))" "reg_ok (reg0 + (SIB_B b + 8 * REX_B r))" for b r
    using assms(2) SIB_less [of b] REX_less [of r]
    by (auto simp: reg_ok_def UD_R_AL_def UD_R_RIP_def UD_R_RAX_def UD_R_EAX_def)
  then show ?thesis
    using assms(1)
    by (auto simp: decode_sib_def Let_def bind_eq_Some_conv case_prod_beta UD_NONE_def)
qed

lemma modrm_mem16_ok:
  assumes "rm < 16"
  shows "reg_ok (modrm_bases ! (rm mod 8))" "modrm_indices ! (rm mod 8) = 0 \<or> reg_ok (modrm_indices ! (rm mod 8))"
proof -
  have "rm mod 8 \<in> {0, 1, 2, 3, 4, 5, 6, 7}" by auto
  then show "reg_ok (modrm_bases ! (rm mod 8))"
    "modrm_indices ! (rm mod 8) = 0 \<or> reg_ok (modrm_indices ! (rm mod 8))"
    by (auto simp: modrm_bases_def modrm_indices_def reg_ok_def UD_R_AL_def UD_R_RIP_def UD_R_BX_def
        UD_R_BP_def UD_R_SI_def UD_R_DI_def UD_NONE_def)
qed

lemma modrm_address_ok:
  assumes "modrm_address md rm u opr = Some ((off, opr'), u')" and "rm < 16" and "opr_index opr = 0"
  shows "(opr_base opr' = 0 \<or> reg_ok (opr_base opr')) \<and> (opr_index opr' = 0 \<or> reg_ok (opr_index opr')) \<and>
         opr_type opr' = opr_type opr"
proof -
  have regs: "reg_ok UD_R_RIP" "reg_ok (UD_R_RAX + rm)" "reg_ok (UD_R_EAX + rm)"
    using assms(2) by (auto simp: reg_ok_def UD_R_AL_def UD_R_RIP_def UD_R_RAX_def UD_R_EAX_def)
  consider "modrm_mem64 md rm u opr = Some ((off, opr'), u')"
    | "modrm_mem32 md rm u opr = Some ((off, opr'), u')" | "modrm_mem16 md rm opr = (off, opr')"
    using assms(1) by (auto simp: modrm_address_def split: if_splits)
  then show ?thesis
  proof cases
    case 3
    then show ?thesis
      using modrm_mem16_ok [OF assms(2)] by (auto simp: modrm_mem16_def Let_def UD_NONE_def split: if_splits)
  qed (use assms regs in \<open>fastforce simp: modrm_mem64_def modrm_mem32_def Let_def UD_NONE_def
        split: if_split_asm dest!: decode_sib_ok\<close>)+
qed

lemma mem_disp_same:
  assumes "decode_mem_disp u sz opr = Some (opr', u')"
  shows "opr_type opr' = opr_type opr \<and> opr_base opr' = opr_base opr \<and> opr_index opr' = opr_index opr"
  using assms by (auto simp: decode_mem_disp_def read_lval_def set_lval_def bind_eq_Some_conv split: if_splits)

lemma stage_modes: "ud_stage u' = ud_stage u \<Longrightarrow> modes_ok u' = modes_ok u \<and> dis_mode u' = dis_mode u"
  by (simp add: ud_stage_def modes_ok_def)

lemma modrm_rm_ok:
  assumes "decode_modrm_rm u opr ty sz = Some (opr', u')" and "opr_ok opr" "opr_index opr = 0" "modes_ok u"
    and gpr: "ty = REGCLASS_GPR \<Longrightarrow> gpr_size sz \<or> have_modrm u \<and> MODRM_MOD (ud_modrm u) \<noteq> 3"
  shows "opr_ok opr'"
proof -
  obtain m v where m: "modrm u = Some (m, v)"
    using assms(1) by (auto simp: decode_modrm_rm_def bind_eq_Some_conv)
  have v: "modes_ok v" using stage_modes [OF stage_modrm [OF m]] assms(4) by simp
  define rm where "rm = 8 * REX_B (pfx_rex v) + MODRM_RM m"
  have rm: "rm < 16" using REX_less(3) [of "pfx_rex v"] MODRM_less(2) [of m] by (simp add: rm_def)
  show ?thesis
  proof (cases "MODRM_MOD m = 3")
    case True
    have "ty = REGCLASS_GPR \<Longrightarrow> gpr_size sz"
      using gpr m True by (auto simp: modrm_def split: if_splits)
    moreover have "decode_reg v opr ty rm sz = (opr', u')"
      using assms(1) m True by (simp add: decode_modrm_rm_def rm_def)
    ultimately show ?thesis using decode_reg_ok rm assms(2) v by blast
  next
    case False
    then obtain off opr2 w where a: "modrm_address (MODRM_MOD m) rm v
        (opr\<lparr>opr_type := UD_OP_MEM, opr_size := resolve_operand_size v sz mod 256\<rparr>) = Some ((off, opr2), w)"
      and d: "off \<noteq> 0 \<and> decode_mem_disp w off opr2 = Some (opr', u') \<or> opr' = opr2"
      using assms(1) m by (auto simp: decode_modrm_rm_def rm_def bind_eq_Some_conv split: if_splits)
    have "opr_type opr' = opr_type opr2 \<and> opr_base opr' = opr_base opr2 \<and> opr_index opr' = opr_index opr2"
      using d mem_disp_same by auto
    then show ?thesis
      using modrm_address_ok [OF a rm] assms(3) by (auto simp: opr_ok_def UD_OP_MEM_def UD_OP_REG_def)
  qed
qed

lemma modrm_reg_ok:
  assumes "decode_modrm_reg u opr ty sz = Some (opr', u')" and "opr_ok opr" "modes_ok u"
    and "ty = REGCLASS_GPR \<Longrightarrow> gpr_size sz"
  shows "opr_ok opr'"
proof -
  obtain m v where m: "modrm u = Some (m, v)"
    and "decode_reg v opr ty (8 * REX_R (pfx_rex v) + MODRM_REG m) sz = (opr', u')"
    using assms(1) by (auto simp: decode_modrm_reg_def bind_eq_Some_conv)
  moreover have "8 * REX_R (pfx_rex v) + MODRM_REG m < 16"
    using REX_less(1) [of "pfx_rex v"] MODRM_less(3) [of m] by simp
  moreover have "modes_ok v" using stage_modes [OF stage_modrm [OF m]] assms(3) by simp
  ultimately show ?thesis using decode_reg_ok assms(2,4) by blast
qed

text \<open>What the instruction table must give general purpose register operands.\<close>

definition eopr_ok :: "ud_itab_entry_operand \<Rightarrow> bool" where
  "eopr_ok eo \<longleftrightarrow>
     (if eo_type eo = OP_MR then gpr_size (Mx_reg_size (eo_size eo))
      else if OP_R0 \<le> eo_type eo \<and> eo_type eo \<le> OP_rDX \<or> eo_type eo \<in> {OP_E, OP_G, OP_R}
      then gpr_size (eo_size eo) else True)"

definition base_opr :: "ud_operand_code \<Rightarrow> ud_operand" where
  "base_opr ty = zero_operand\<lparr>opr_oprcode := ty\<rparr>"

lemma base_opr_ok [simp]: "opr_ok (base_opr ty)" "opr_index (base_opr ty) = 0" "opr_base (base_opr ty) = 0"
  by (simp_all add: base_opr_def zero_operand_def opr_ok_def UD_NONE_def UD_OP_REG_def UD_OP_MEM_def)

lemma read_lval_type: "read_lval n u opr = Some (opr', u') \<Longrightarrow>
    opr_type opr' = opr_type opr \<and> opr_base opr' = opr_base opr \<and> opr_index opr' = opr_index opr"
  by (auto simp: read_lval_def set_lval_def bind_eq_Some_conv split: if_splits)

lemma simple_ok:
  "decode_a u opr = Some (opr', u') \<Longrightarrow> opr_ok opr'"
  "decode_imm u sz opr = Some (opr', u') \<Longrightarrow> opr_ok opr' \<and> opr_ok (opr'\<lparr>opr_type := UD_OP_JIMM\<rparr>)"
  "decode_moffset u sz (base_opr ty) = Some (opr', u') \<Longrightarrow> opr_ok opr'"
  by (auto simp: decode_a_def decode_imm_def decode_moffset_def set_ptr_seg_def set_ptr_off_def Let_def
      opr_ok_def UD_OP_PTR_def UD_OP_IMM_def UD_OP_JIMM_def UD_OP_REG_def UD_OP_MEM_def bind_eq_Some_conv
      split: if_splits dest!: read_lval_type mem_disp_same)

lemma mx_ok:
  assumes "decode_mx u (base_opr t) ty sz = Some (opr', u')" "modes_ok u" "ty = REGCLASS_GPR \<Longrightarrow> gpr_size (Mx_reg_size sz)"
  shows "opr_ok opr'"
proof -
  obtain m v where m: "modrm u = Some (m, v)"
    and d: "decode_modrm_rm v (base_opr t) ty (if MODRM_MOD m = 3 then Mx_reg_size sz else Mx_mem_size sz) = Some (opr', u')"
    using assms(1) by (auto simp: decode_mx_def bind_eq_Some_conv)
  have "modes_ok v" using stage_modes [OF stage_modrm [OF m]] assms(2) by simp
  then show ?thesis
    using modrm_rm_ok [OF d] modrm_result [OF m] assms(3) by (cases "MODRM_MOD m = 3") auto
qed

lemma expect_mem_ok:
  assumes "expect_mem u = Some v" "decode_modrm_rm v (base_opr t) REGCLASS_GPR sz = Some (opr', u')"
    "modes_ok u" "\<not> ud_error u'"
  shows "opr_ok opr'"
proof -
  have "\<not> ud_error v" using err_modrm_rm [OF assms(2)] assms(4) by blast
  then have "have_modrm v \<and> MODRM_MOD (ud_modrm v) \<noteq> 3"
    using expect_cases(2) [OF assms(1)] modrm_result by (auto simp: UDERR_def)
  then show ?thesis
    using modrm_rm_ok [OF assms(2)] stage_modes [OF stage_expect(2) [OF assms(1)]] assms(3) by simp
qed

lemma expect_mod3_ok:
  assumes "expect_mod3 u = Some v" "decode_modrm_rm v (base_opr t) ty sz = Some (opr', u')"
    "modes_ok u" "ty = REGCLASS_GPR \<Longrightarrow> gpr_size sz"
  shows "opr_ok opr'"
  using modrm_rm_ok [OF assms(2)] stage_modes [OF stage_expect(1) [OF assms(1)]] assms(3,4) by simp

lemma REX_B_num: "i < 8 \<Longrightarrow> 8 * REX_B r + i < 16"
  using REX_less(3) [of r] by simp

lemma decode_operand_ok:
  assumes dec: "decode_operand u zero_operand ty sz = Some (opr', u')"
    and "eopr_ok \<lparr>eo_type = ty, eo_size = sz\<rparr>" and "modes_ok u" and "\<not> ud_error u'"
  shows "opr_ok opr'"
proof -
  have gpr: "OP_R0 \<le> ty \<Longrightarrow> ty \<le> OP_rDX \<Longrightarrow> gpr_size sz" "ty = OP_E \<Longrightarrow> gpr_size sz"
      "ty = OP_G \<Longrightarrow> gpr_size sz" "ty = OP_R \<Longrightarrow> gpr_size sz" "ty = OP_MR \<Longrightarrow> gpr_size (Mx_reg_size sz)"
    using assms(2) by (auto simp: eopr_ok_def OP_MR_def OP_rDX_def OP_E_def OP_G_def OP_R_def)
  have rm: "opr_ok opr'" if "decode_modrm_rm u (base_opr ty) c sz = Some (opr', u')"
      "c = REGCLASS_GPR \<Longrightarrow> gpr_size sz" for c
    using modrm_rm_ok [OF that(1)] that(2) assms(3) by simp
  have reg: "opr_ok opr'" if "decode_modrm_reg u (base_opr ty) c sz = Some (opr', u')"
      "c = REGCLASS_GPR \<Longrightarrow> gpr_size sz" for c
    using modrm_reg_ok [OF that(1)] that(2) assms(3) by simp
  have mx: "opr_ok opr'" if "decode_mx u (base_opr ty) c sz = Some (opr', u')"
      "c = REGCLASS_GPR \<Longrightarrow> gpr_size (Mx_reg_size sz)" for c
    using mx_ok that assms(3) by blast
  have mem: "opr_ok opr'"
    if "expect_mem v \<bind> (\<lambda>u. decode_modrm_rm u (base_opr ty) REGCLASS_GPR sz) = Some (opr', u')"
      "v = u \<or> v = u\<lparr>br_far := True\<rparr>" for v
    using that expect_mem_ok assms(3,4) by (fastforce simp: bind_eq_Some_conv modes_ok_def)
  have mod3: "opr_ok opr'"
    if "expect_mod3 u \<bind> (\<lambda>u. decode_modrm_rm u (base_opr ty) c sz) = Some (opr', u')"
      "c = REGCLASS_GPR \<Longrightarrow> gpr_size sz" for c
    using that expect_mod3_ok assms(3) by (fastforce simp: bind_eq_Some_conv)
  have direct: "opr_ok opr'" if "Some (decode_reg u (base_opr ty) REGCLASS_GPR n sz) = Some (opr', u')"
      "n < 16" "OP_R0 \<le> ty" "ty \<le> OP_rDX" for n
    using that decode_reg_ok gpr(1) assms(3) by simp
  have jimm: "opr_ok opr'"
    if "decode_imm u sz (base_opr ty) \<bind> (\<lambda>(opr, u). Some (opr\<lparr>opr_type := UD_OP_JIMM\<rparr>, u)) = Some (opr', u')"
    using that simple_ok(2) by (auto simp: bind_eq_Some_conv)
  have const: "opr_ok opr'" if "Some (set_lval n v ((base_opr ty)\<lparr>opr_type := UD_OP_CONST\<rparr>), u) = Some (opr', u')" for n v
    using that by (auto simp: set_lval_def opr_ok_def UD_OP_CONST_def UD_OP_REG_def UD_OP_MEM_def)
  note code = ud_operand_code_defs UD_R_AL_def UD_R_RIP_def UD_R_ES_def UD_R_ST0_def
  have fixed: "opr_ok opr'" if "Some ((base_opr ty)\<lparr>opr_type := UD_OP_REG, opr_size := n, opr_base := r\<rparr>, v) = Some (opr', u')"
      "UD_R_AL \<le> r" "r \<le> UD_R_RIP" for n r v
    using that by (auto simp: opr_ok_def reg_ok_def)
  show ?thesis
    by (insert dec [unfolded decode_operand_def Let_def, folded base_opr_def],
        (split if_split_asm,
         ((rule mx mem rm reg mod3, blast, (blast | (rule gpr, blast)))
          | (rule const jimm, blast)
          | (rule direct, blast, (rule REX_B_num)?, simp add: code, fastforce simp: code,
             fastforce simp: code)
          | (rule fixed, blast, simp add: code, simp add: code)
          | (blast dest: simple_ok)))+)
      auto
qed

section \<open>Instructions\<close>

definition itab_ok :: "ud_tables \<Rightarrow> bool" where
  "itab_ok t \<longleftrightarrow>
     list_all (\<lambda>e. eopr_ok (ie_operand1 e) \<and> eopr_ok (ie_operand2 e) \<and> eopr_ok (ie_operand3 e) \<and>
                   ie_mnemonic e < UD_MAX_MNEMONIC_CODE \<and> ie_mnemonic e \<noteq> UD_I3dnow) (ud_itab t)"

lemma itab_okD:
  assumes "itab_ok t" "array_at (ud_itab t) i = Some e"
  shows "eopr_ok (ie_operand1 e)" "eopr_ok (ie_operand2 e)" "eopr_ok (ie_operand3 e)"
    "ie_mnemonic e < UD_MAX_MNEMONIC_CODE" "ie_mnemonic e \<noteq> UD_I3dnow"
  using assms by (auto simp: itab_ok_def list_all_length array_at_def split: if_splits)

definition decoded_ok :: "ud \<Rightarrow> bool" where
  "decoded_ok u \<longleftrightarrow>
     opr_ok (operand0 u) \<and> opr_ok (operand1 u) \<and> opr_ok (operand2 u) \<and> mnemonic u < UD_MAX_MNEMONIC_CODE"

definition clean :: "ud \<Rightarrow> bool" where
  "clean u \<longleftrightarrow> operand0 u = zero_operand \<and> operand1 u = zero_operand \<and> operand2 u = zero_operand \<and>
     dis_mode u \<in> {16, 32, 64}"

lemma clean_stage: "ud_stage u' = ud_stage u \<Longrightarrow> clean u' = clean u"
  by (simp add: clean_def ud_stage_def)

lemma clean_modrm: "modrm u = Some (m, u') \<Longrightarrow> clean u' = clean u"
  by (rule clean_stage [OF stage_modrm])

lemma clean_ssepfx:
  assumes "decode_ssepfx le u = Some (idx, u')"
  shows "clean u' = clean u"
proof -
  have "u' = u \<or> u' = u\<lparr>pfx_str := 0\<rparr> \<or> u' = u\<lparr>pfx_opr := 0, pfx_str := 0\<rparr>"
    using assms by (auto simp: decode_ssepfx_def Let_def bind_eq_Some_conv split: if_split_asm)
  then show ?thesis by (elim disjE) (simp_all add: clean_def)
qed

lemma clean_ext_index: "ext_index le u = Some (idx, u') \<Longrightarrow> clean u' = clean u"
  by (cases "le_type le") (auto simp: ext_index_def bind_eq_Some_conv dest: clean_modrm clean_ssepfx)

lemma clean_fields [simp]:
  "clean (u\<lparr>ud_le := l\<rparr>) = clean u" "clean (u\<lparr>primary_opcode := p\<rparr>) = clean u"
  by (simp_all add: clean_def)

text \<open>The operands, then the instruction.\<close>

lemma eopr_ok_eta [simp]: "eopr_ok \<lparr>eo_type = eo_type eo, eo_size = eo_size eo\<rparr> = eopr_ok eo"
  by (simp add: eopr_ok_def)

lemma decode_operands_ok:
  assumes "decode_operands e u = Some (r, u')" and "clean u" and "modes_ok u" and "\<not> ud_error u'"
    and "eopr_ok (ie_operand1 e)" "eopr_ok (ie_operand2 e)" "eopr_ok (ie_operand3 e)"
  shows "opr_ok (operand0 u') \<and> opr_ok (operand1 u') \<and> opr_ok (operand2 u')"
  using assms(1)
proof (rule decode_operands_steps)
  fix o1 u1 o2 u2 o3 u3
  assume 1: "decode_operand u (operand0 u) (eo_type (ie_operand1 e)) (eo_size (ie_operand1 e)) = Some (o1, u1)"
    and 2: "decode_operand (u1\<lparr>operand0 := o1\<rparr>) (operand1 u) (eo_type (ie_operand2 e))
      (eo_size (ie_operand2 e)) = Some (o2, u2)"
    and 3: "decode_operand (u2\<lparr>operand1 := o2\<rparr>) (operand2 u) (eo_type (ie_operand3 e))
      (eo_size (ie_operand3 e)) = Some (o3, u3)"
    and u': "u' = u3\<lparr>operand2 := o3\<rparr>"
    and stages: "ud_stage u1 = ud_stage u" "ud_stage u2 = ud_stage (u1\<lparr>operand0 := o1\<rparr>)"
      "ud_stage u3 = ud_stage (u2\<lparr>operand1 := o2\<rparr>)"
  have modes: "modes_ok (u1\<lparr>operand0 := o1\<rparr>)" "modes_ok (u2\<lparr>operand1 := o2\<rparr>)"
    using stages assms(3) by (simp_all add: ud_stage_def modes_ok_def)
  have err: "\<not> ud_error u3" "\<not> ud_error u2" "\<not> ud_error u1"
    using assms(4) u' err_decode_operand [OF 3] err_decode_operand [OF 2] by auto
  have "opr_ok o1" "opr_ok o2" "opr_ok o3"
    using decode_operand_ok [of _ "eo_type (ie_operand1 e)"] decode_operand_ok [of _ "eo_type (ie_operand2 e)"]
      decode_operand_ok [of _ "eo_type (ie_operand3 e)"] 1 2 3 assms(2,3,5-7) modes err
    by (simp_all add: clean_def)
  moreover have "operand0 u' = o1" "operand1 u' = o2" "operand2 u' = o3"
    using u' stages by (simp_all add: ud_stage_def)
  ultimately show ?thesis by simp
qed

lemma resolve_mode_ok:
  assumes "resolve_mode e v = (q, w)" and "clean v"
  shows "q \<noteq> 0 \<and> ud_error w \<or> q = 0 \<and> modes_ok w \<and> clean w \<and> mnemonic w = mnemonic v"
  using assms
  by (auto simp: resolve_mode_def Let_def UDERR_def modes_ok_def clean_def split: if_split_asm)

lemma resolve_mnemonic_ok:
  assumes "resolve_mnemonic t v = Some (r, u')" and "\<not> ud_error u'" and "decoded_ok v"
    and "mnemonic v \<noteq> UD_I3dnow"
  shows "decoded_ok u'"
proof -
  have "u' = UDERR v \<or> u' = resolve_pause (resolve_xchg v)"
    using assms(1,4) by (auto simp: resolve_mnemonic_def resolve_3dnow_def split: if_split_asm)
  then have u': "u' = resolve_pause (resolve_xchg v)" using assms(2) by (auto simp: UDERR_def)
  have "opr_ok (opr\<lparr>opr_type := UD_NONE\<rparr>)" for opr
    by (simp add: opr_ok_def UD_NONE_def UD_OP_REG_def UD_OP_MEM_def)
  then have "decoded_ok (resolve_xchg v)"
    using assms(3) by (simp add: resolve_xchg_def decoded_ok_def UD_Inop_def UD_MAX_MNEMONIC_CODE_def)
  then show ?thesis
    using u' by (simp add: resolve_pause_def decoded_ok_def UD_Ipause_def UD_MAX_MNEMONIC_CODE_def)
qed

lemma err_resolve_mnemonic:
  assumes "resolve_mnemonic t v = Some (r, u')" and "mnemonic v \<noteq> UD_I3dnow" and "ud_error v"
  shows "ud_error u'"
  using assms
  by (auto simp: resolve_mnemonic_def resolve_3dnow_def resolve_pause_def resolve_xchg_def UDERR_def
      split: if_split_asm)

lemma decode_operands_zero: "decode_operands e u = Some (r, u') \<Longrightarrow> r = 0"
  by (rule decode_operands_steps)

lemma decode_insn_ok:
  assumes dec: "decode_insn t u ptr = Some (r, u')" and err: "\<not> ud_error u'"
    and ok: "itab_ok t" "clean u"
  shows "decoded_ok u'"
proof -
  obtain e where e: "array_at (ud_itab t) (unat ptr) = Some e"
    using dec by (auto simp: decode_insn_def bind_eq_Some_conv)
  note eok = itab_okD [OF ok(1) e]
  define v where "v = resolve_pfx_str e (u\<lparr>mnemonic := ie_mnemonic e, itab_entry := Some e\<rparr>)"
  have v: "clean v" "mnemonic v = ie_mnemonic e"
    using ok(2) by (simp_all add: v_def resolve_pfx_str_def clean_def)
  obtain q w where w: "resolve_mode e v = (q, w)" by (cases "resolve_mode e v")
  have dec2: "(if q \<noteq> 0 then Some (-1, w) else do {
      (r, u) \<leftarrow> decode_operands e w;
      if r \<noteq> 0 then Some (-1, u)
      else do { (r, u) \<leftarrow> resolve_mnemonic t u; Some (if r = 0 then 0 else -1, u) } }) = Some (r, u')"
    using dec e w by (simp add: decode_insn_def v_def Let_def)
  then have q: "q = 0" "modes_ok w" "clean w" "mnemonic w = mnemonic v"
    using resolve_mode_ok [OF w v(1)] err by (auto split: if_split_asm)
  obtain x r2 where x: "decode_operands e w = Some (0, x)" and rm: "resolve_mnemonic t x = Some (r2, u')"
    using dec2 q(1) decode_operands_zero
    by (fastforce simp: bind_eq_Some_conv split: if_split_asm)
  have mn: "mnemonic x = ie_mnemonic e" using stage_decode_operands [OF x] q(4) v(2) by simp
  then have "\<not> ud_error x" using err_resolve_mnemonic [OF rm] err eok(5) by auto
  then have "decoded_ok x"
    using decode_operands_ok [OF x q(3,2)] eok mn by (simp add: decoded_ok_def)
  then show ?thesis using resolve_mnemonic_ok [OF rm err] mn eok(5) by simp
qed

lemma decoded_ok_stage: "ud_stage u' = ud_stage u \<Longrightarrow> decoded_ok u' = decoded_ok u"
  by (simp add: ud_stage_def decoded_ok_def)

lemma decode_3dnow_ok:
  assumes dec: "decode_3dnow t le u = Some (r, u')" and err: "\<not> ud_error u'"
    and ok: "itab_ok t" "clean u"
  shows "decoded_ok u'"
proof -
  obtain ptr q v c w where ptr: "array_at (le_table le) 0xc = Some ptr"
    and v: "decode_insn t u ptr = Some (q, v)" and w: "inp_next v = Some (c, w)"
    using dec by (auto simp: decode_3dnow_def bind_eq_Some_conv)
  have res: "ud_error w \<and> u' = w \<or>
      (\<exists>i e. array_at (ud_itab t) i = Some e \<and> u' = w\<lparr>mnemonic := ie_mnemonic e\<rparr>)"
    using dec by (auto simp: decode_3dnow_def ptr v w bind_eq_Some_conv split: if_split_asm)
  then obtain i e where e: "array_at (ud_itab t) i = Some e" "u' = w\<lparr>mnemonic := ie_mnemonic e\<rparr>"
    using err by auto
  have "\<not> ud_error v" using err_inp_next [OF w] e(2) err by auto
  then have "decoded_ok w"
    using decode_insn_ok [OF v _ ok] decoded_ok_stage [OF stage_inp_next [OF w]] by simp
  then show ?thesis using itab_okD(4) [OF ok(1) e(1)] e(2) by (simp add: decoded_ok_def)
qed

lemma decode_ext_ok:
  assumes "decode_ext t u ptr = Some (r, u')" and "\<not> ud_error u'" and "itab_ok t" and "clean u"
  shows "decoded_ok u'"
proof -
  have "itab_ok t \<longrightarrow> clean u \<longrightarrow> \<not> ud_error (snd y) \<longrightarrow> decoded_ok (snd y)"
    if "decode_ext t u ptr = Some y" for y
  proof (rule decode_ext.raw_induct [where P = "\<lambda>t u ptr y. itab_ok t \<longrightarrow> clean u \<longrightarrow>
        \<not> ud_error (snd y) \<longrightarrow> decoded_ok (snd y)", OF _ that], intro impI)
    fix f t u ptr y
    assume IH: "\<And>t u ptr y. f t u ptr = Some y \<Longrightarrow> itab_ok t \<longrightarrow> clean u \<longrightarrow> \<not> ud_error (snd y) \<longrightarrow>
        decoded_ok (snd y)"
      and body: "(if \<not> is_group ptr then decode_insn t u ptr
         else array_at (ud_lookup_table_list t) (group_index ptr) \<bind>
           (\<lambda>le. let u = u\<lparr>ud_le := Some le\<rparr>
             in if le_type le = UD_TAB__OPC_3DNOW then decode_3dnow t le u
                else ext_index le u \<bind> (\<lambda>(idx, u). array_at (le_table le) idx \<bind> f t u))) = Some y"
      and ok: "itab_ok t" "clean u" "\<not> ud_error (snd y)"
    obtain q v where y: "y = (q, v)" by (cases y)
    consider "decode_insn t u ptr = Some (q, v)"
      | le where "decode_3dnow t le (u\<lparr>ud_le := Some le\<rparr>) = Some (q, v)"
      | le idx w p where "ext_index le (u\<lparr>ud_le := Some le\<rparr>) = Some (idx, w)" "f t w p = Some (q, v)"
      using body y by (auto simp: bind_eq_Some_conv Let_def split: if_split_asm)
    then show "decoded_ok (snd y)"
    proof cases
      case 1
      then show ?thesis using decode_insn_ok ok y by simp
    next
      case (2 le)
      then show ?thesis using decode_3dnow_ok ok y by simp
    next
      case (3 le idx w p)
      then show ?thesis using IH [OF 3(2)] clean_ext_index [OF 3(1)] ok y by simp
    qed
  qed
  then show ?thesis using assms by fastforce
qed

lemma decode_opcode_ok:
  "decode_opcode t le u = Some (r, u') \<Longrightarrow> \<not> ud_error u' \<Longrightarrow> itab_ok t \<Longrightarrow> clean u \<Longrightarrow> decoded_ok u'"
proof (induction t le u rule: decode_opcode.induct)
  case (1 t le u)
  note ok = "1.prems"(2-4)
  show ?case
  proof (cases "ud_error u")
    case True
    then show ?thesis using "1.prems" by (simp add: decode_opcode_error)
  next
    case False
    obtain ptr where ptr: "array_at (le_table le) (unat (inp_curr u)) = Some ptr"
      using "1.prems"(1) False
      by (subst (asm) decode_opcode.simps) (auto simp: Let_def split: option.splits)
    show ?thesis
    proof (cases "is_group ptr")
      case F: False
      then show ?thesis
        using "1.prems"(1) decode_opcode_insn [OF False ptr F] decode_ext_ok [OF _ ok(1,2)] ok(3) by simp
    next
      case g: True
      then obtain le' where le': "array_at (ud_lookup_table_list t) (group_index ptr) = Some le'"
        using "1.prems"(1) False ptr
        by (subst (asm) decode_opcode.simps) (auto simp: Let_def split: option.splits)
      show ?thesis
      proof (cases "le_type le' = UD_TAB__OPC_TABLE")
        case True
        then obtain c v where v: "inp_next (u\<lparr>primary_opcode := inp_curr u, ud_le := Some le'\<rparr>) = Some (c, v)"
          and d: "decode_opcode t le' v = Some (r, u')"
          using "1.prems"(1) decode_opcode_table [OF False ptr g le' True]
          by (auto simp: bind_eq_Some_conv)
        have "clean v" using clean_stage [OF stage_inp_next [OF v]] ok(3) by simp
        then show ?thesis using "1.IH" [OF False refl ptr _ le' refl True v refl d] g ok by simp
      next
        case F: False
        then show ?thesis
          using "1.prems"(1) decode_opcode_ext [OF False ptr g le' F] decode_ext_ok [OF _ ok(1,2)] ok(3)
          by simp
      qed
    qed
  qed
qed

lemma clean_prefix_byte: "clean (fst (prefix_byte u c)) = clean u"
proof -
  have "operand0 (fst (prefix_byte u c)) = operand0 u" "operand1 (fst (prefix_byte u c)) = operand1 u"
    "operand2 (fst (prefix_byte u c)) = operand2 u"
    by (simp_all add: prefix_byte_def)
  then show ?thesis by (simp add: clean_def)
qed

lemma clean_prefix_loop: "prefix_loop c u = Some (r, u') \<Longrightarrow> clean u' = clean u"
proof (induction "inp_left u" arbitrary: c u rule: less_induct)
  case less
  obtain x v where v: "inp_next u = Some (x, v)" and a: "after_byte c x v = Some (r, u')"
    using less.prems by (auto simp: prefix_loop_bind bind_eq_Some_conv)
  have cv: "clean v = clean u" by (rule clean_stage [OF stage_inp_next [OF v]])
  have rex: "clean (w\<lparr>pfx_rex := b\<rparr>) = clean w" "clean (UDERR w) = clean w" for w b
    by (simp_all add: clean_def UDERR_def)
  show ?case
  proof (cases "\<not> ud_error v \<and> inp_ctr v \<noteq> MAX_INSN_LENGTH \<and> \<not> snd (prefix_byte v x)")
    case True
    then have "prefix_loop x (fst (prefix_byte v x)) = Some (r, u')" using a by (simp add: after_byte_def)
    moreover have "inp_left (fst (prefix_byte v x)) < inp_left u" using True inp_next_left [OF v] by simp
    ultimately show ?thesis
      using less.hyps [of "fst (prefix_byte v x)" x] clean_prefix_byte [of v x] cv by blast
  next
    case False
    then show ?thesis
      using a cv clean_prefix_byte rex by (auto simp: after_byte_def Let_def split: if_split_asm)
  qed
qed

lemma decode_steps_ok:
  assumes "decode_steps t junk le u = Some (False, u')" and "itab_ok t" and "clean u"
  shows "decoded_ok u'"
proof -
  obtain r v q where v: "decode_prefixes junk u = Some (r, v)" and "decode_opcode t le v = Some (q, u')"
    and "\<not> ud_error u'"
    using assms(1) by (auto simp: decode_steps_def bind_eq_Some_conv split: if_split_asm)
  moreover have "clean v"
    using v assms(3) clean_prefix_loop by (auto simp: decode_prefixes_def split: if_split_asm)
  ultimately show ?thesis using decode_opcode_ok assms(2) by blast
qed

section \<open>Disassembling\<close>

definition mode_ok :: "ud \<Rightarrow> bool" where "mode_ok u \<longleftrightarrow> dis_mode u \<in> {16, 32, 64}"

lemma reg_ok_seg: "UD_R_ES \<le> r \<Longrightarrow> r \<le> UD_R_GS \<Longrightarrow> reg_ok r"
  by (simp add: reg_ok_def UD_R_ES_def UD_R_GS_def UD_R_AL_def UD_R_RIP_def)

lemma pfx_seg_finish: "pfx_seg (finish_decode e u) = pfx_seg u \<or> pfx_seg (finish_decode e u) = 0"
  by (simp add: finish_decode_def stray_segment_def Let_def)

lemma ud_decode_insn_ok:
  assumes "tables_ok t" "itab_ok t" "input_inv u" "mode_ok u" "ud_decode t junk u = Some (n, u')"
  shows "insn_ok u'"
proof (rule ud_decode_cases [OF assms(1,3), of junk])
  fix v
  assume v: "ud_decode t junk u = Some (inp_ctr v, finish_decode (ud_itab t ! 0) (error_result t v))"
  have "ie_mnemonic (ud_itab t ! 0) < UD_MAX_MNEMONIC_CODE"
    using itab_okD(4) [OF assms(2), of 0 "ud_itab t ! 0"] assms(1)
    by (simp add: tables_ok_def)
  moreover have "opr_ok zero_operand" using base_opr_ok(1) [of OP_NONE]
    by (simp add: base_opr_def zero_operand_def)
  ultimately show ?thesis
    using v assms(5) pfx_seg_finish [of "ud_itab t ! 0" "error_result t v"]
    by (auto simp: insn_ok_def error_result_def clear_insn_def)
next
  fix e v
  assume steps: "decode_steps t junk (ud_lookup_table_list t ! 0) (fresh t u) = Some (False, v)"
    and adv: "advance 64 (fresh t u) v" and e: "itab_entry v = Some e"
    and dec: "ud_decode t junk u = Some (inp_ctr v, finish_decode e (v\<lparr>ud_error := False\<rparr>))"
  have "clean (fresh t u)"
    using assms(4) by (simp add: fresh_def clear_insn_def inp_start_def clean_def mode_ok_def)
  then have "decoded_ok v" using decode_steps_ok [OF steps assms(2)] by blast
  moreover have "pfx_seg v = 0 \<or> reg_ok (pfx_seg v)"
    using advance_inv [OF adv] reg_ok_seg by (auto simp: ud_inv_def prefix_inv_def)
  ultimately show ?thesis
    using dec assms(5) e pfx_seg_finish [of e "v\<lparr>ud_error := False\<rparr>"]
    by (auto simp: insn_ok_def decoded_ok_def)
qed

text \<open>What \<open>ud_disassemble\<close> needs of the object and keeps.\<close>

definition disas_inv :: "ud \<Rightarrow> bool" where
  "disas_inv u \<longleftrightarrow> input_inv u \<and> mode_ok u \<and> length (asm_buf u) < asm_buf_size u"

lemma ud_decode_frame:
  assumes "tables_ok t" "input_inv u" "ud_decode t junk u = Some (n, u')"
  shows "dis_mode u' = dis_mode u" "asm_buf u' = asm_buf u" "asm_buf_size u' = asm_buf_size u"
    "asm_buf_fill u' = 0" "inp_buf u' = inp_buf u" "inp_buf_size u' = inp_buf_size u" "inp_ctr u' = n"
proof -
  have "dis_mode u' = dis_mode u \<and> asm_buf u' = asm_buf u \<and> asm_buf_size u' = asm_buf_size u \<and>
      asm_buf_fill u' = 0 \<and> inp_buf u' = inp_buf u \<and> inp_buf_size u' = inp_buf_size u \<and> inp_ctr u' = n"
    by (rule ud_decode_cases [OF assms(1,2), of junk];
        use assms(3) fresh_props(3) [OF assms(2), of t] in \<open>auto simp: advance_def ud_frame_def\<close>)
  then show "dis_mode u' = dis_mode u" "asm_buf u' = asm_buf u" "asm_buf_size u' = asm_buf_size u"
    "asm_buf_fill u' = 0" "inp_buf u' = inp_buf u" "inp_buf_size u' = inp_buf_size u" "inp_ctr u' = n"
    by simp_all
qed

lemma ud_disassemble_end: "inp_end u \<Longrightarrow> ud_disassemble t mn junk u = Some (0, u)"
  by (simp add: ud_disassemble_def)

lemma ud_disassemble_step:
  assumes ok: "tables_ok t" "itab_ok t" and inv: "disas_inv u" and "\<not> inp_end u"
  obtains n v u' where "ud_disassemble t mn junk u = Some (n, u')" "ud_decode t junk u = Some (n, v)"
    "u' = v \<or> printed v u'" "disas_inv u'" "inp_buf u' = inp_buf u" "inp_buf_size u' = inp_buf_size u"
    "inp_ctr u' = n"
proof -
  note iinv = inv [unfolded disas_inv_def]
  obtain n v where v: "ud_decode t junk u = Some (n, v)" "input_inv v"
    using ud_decode_input [OF ok(1), of u junk] iinv by blast
  note same = ud_decode_frame [OF ok(1) _ v(1)]
  have insn: "insn_ok v" using ud_decode_insn_ok [OF ok _ _ v(1)] iinv by blast
  have "disas_inv v" using iinv v(2) same by (simp add: disas_inv_def mode_ok_def)
  show thesis
  proof (cases "n > 0")
    case False
    then show thesis
      using that [of n v v] v assms(4) \<open>disas_inv v\<close> same iinv by (simp add: ud_disassemble_def)
  next
    case True
    have asm: "0 < asm_buf_size v" "asm_buf_fill v = 0" "length (asm_buf v) < asm_buf_size v"
      using \<open>disas_inv v\<close> same iinv by (auto simp: disas_inv_def)
    obtain u' where u': "ud_translate mn v = Some u'" "printed v u'"
      using ud_translate_total [OF insn asm] by blast
    note fields = printed_fields [OF u'(2)]
    have "length (asm_buf u') < asm_buf_size u'" using fields(7) by (simp add: asm_ok_def)
    then have "disas_inv u'" using \<open>disas_inv v\<close> fields by (simp add: disas_inv_def mode_ok_def)
    then show thesis
      using that [of n u' v] v(1) u' True assms(4) same iinv fields by (simp add: ud_disassemble_def)
  qed
qed

end
