(* ===== verification/Ud_Call.thy ===== *)
theory Ud_Call
  imports Ud_Total
begin

text \<open>
  The instruction the analyzer looks for: \<open>E8\<close> with a 32-bit displacement, decoded in 64-bit mode
  from a buffer.
\<close>

declare One_nat_def [simp]

text \<open>The entry of \<open>ud_itab\<close> for opcode \<open>E8\<close>: \<open>{ UD_Icall, O_Jz, O_NONE, O_NONE, P_oso|P_def64 }\<close>.\<close>

definition call_entry :: ud_itab_entry where
  "call_entry =
     \<lparr>ie_mnemonic = UD_Icall, ie_operand1 = \<lparr>eo_type = OP_J, eo_size = SZ_Z\<rparr>,
      ie_operand2 = \<lparr>eo_type = OP_NONE, eo_size = SZ_NA\<rparr>,
      ie_operand3 = \<lparr>eo_type = OP_NONE, eo_size = SZ_NA\<rparr>, ie_prefix = 0x280\<rparr>"

text \<open>Reading from a buffer that has the bytes: \<open>n\<close> bytes on, the last of them \<open>c\<close>.\<close>

definition skip_bytes :: "nat \<Rightarrow> u8 \<Rightarrow> ud \<Rightarrow> ud" where
  "skip_bytes n c u =
     u\<lparr>inp_buf_index := inp_buf_index u + n, ud_inp_curr := c, inp_ctr := inp_ctr u + n\<rparr>"

definition buffered :: "ud \<Rightarrow> u8 list \<Rightarrow> bool" where
  "buffered u cs \<longleftrightarrow> inp_buf u \<noteq> None \<and> \<not> inp_end u \<and> input_inv u \<and> inp_rest u = cs"

lemma buffered_next:
  assumes "buffered u (c # cs)"
  shows "inp_next u = Some (c, skip_bytes 1 c u) \<and> buffered (skip_bytes 1 c u) cs"
proof -
  obtain buf where buf: "inp_buf u = Some buf" using assms by (auto simp: buffered_def)
  have "inp_buf_size u \<le> length buf" and rest: "drop (inp_buf_index u) (take (inp_buf_size u) buf) = c # cs"
    using assms buf by (simp_all add: buffered_def input_inv_def inp_rest_def)
  moreover have less: "inp_buf_index u < length (take (inp_buf_size u) buf)"
    using rest by (metis drop_eq_Nil linorder_not_le list.distinct(1))
  moreover have "buf ! inp_buf_index u = c" "drop (Suc (inp_buf_index u)) (take (inp_buf_size u) buf) = cs"
    using Cons_nth_drop_Suc [OF less] rest less by simp_all
  ultimately show ?thesis
    using assms buf
    by (simp add: buffered_def inp_next_def skip_bytes_def input_inv_def inp_rest_def Let_def)
qed

lemma skip_bytes_skip [simp]: "skip_bytes m d (skip_bytes n c u) = skip_bytes (n + m) d u"
  by (simp add: skip_bytes_def add.assoc)

lemma inp_uint32_buffered:
  assumes "buffered u (a # b # c # d # cs)"
  shows "inp_uint32 u = Some (ucast a OR push_bit 8 (ucast b) OR push_bit 16 (ucast c) OR
           push_bit 24 (ucast d), skip_bytes 4 d u)" and "buffered (skip_bytes 4 d u) cs"
proof -
  note 1 = buffered_next [OF assms]
  note 2 = buffered_next [OF conjunct2 [OF 1]]
  note 3 = buffered_next [OF conjunct2 [OF 2]]
  note 4 = buffered_next [OF conjunct2 [OF 3]]
  show "inp_uint32 u = Some (ucast a OR push_bit 8 (ucast b) OR push_bit 16 (ucast c) OR
           push_bit 24 (ucast d), skip_bytes 4 d u)" "buffered (skip_bytes 4 d u) cs"
    using 1 2 3 4 by (simp_all add: inp_uint32_def eval_nat_numeral)
qed

text \<open>The mode and operands of a near call in 64-bit mode, whatever \<open>REX\<close> prefix it has.\<close>

lemma REX_W_masked: "REX_W (r AND 0x40) = 0"
proof -
  have "0xF AND (r AND 0x40) = (0 :: u8)"
    by (simp add: and.left_commute)
  then show ?thesis by (simp add: REX_W_def)
qed

lemma call_prefix_bits:
  "\<not> P_INV64 (ie_prefix call_entry)" "P_DEF64 (ie_prefix call_entry)"
  "REX_PFX_MASK (ie_prefix call_entry) = 0" "\<not> P_STR (ie_prefix call_entry)"
  "\<not> P_SEG (ie_prefix call_entry)"
  by (simp_all add: call_entry_def REX_PFX_MASK_def P_INV64_def P_DEF64_def P_REXW_def
      P_REXR_def P_REXX_def P_REXB_def P_STR_def P_SEG_def bit_iff_odd)

lemma resolve_mode_call:
  assumes "\<not> ud_error u" "dis_mode u = 64" "pfx_opr u = 0" "pfx_adr u = 0"
  shows "resolve_mode call_entry u =
     (0, u\<lparr>pfx_rex := pfx_rex u AND 0x40, opr_mode := 64, adr_mode := 64\<rparr>)"
  using assms by (simp add: resolve_mode_def call_prefix_bits REX_W_masked)

text \<open>The displacement of a call, from its four bytes.\<close>

definition rel32 :: "u8 \<Rightarrow> u8 \<Rightarrow> u8 \<Rightarrow> u8 \<Rightarrow> u32" where
  "rel32 a b c d = ucast a OR push_bit 8 (ucast b) OR push_bit 16 (ucast c) OR push_bit 24 (ucast d)"

definition call_operand :: "u32 \<Rightarrow> ud_operand" where
  "call_operand v = zero_operand\<lparr>opr_type := UD_OP_JIMM, opr_size := 32, opr_lval := ucast v,
     opr_oprcode := OP_J\<rparr>"

lemma put_bits_zero: "put_bits 0 32 (ucast (v :: u32)) 0 = ucast v"
  by (rule bit_word_eqI) (auto simp: put_bits_def bit_simps dest: bit_imp_le_length)

lemma decode_operand_J:
  assumes "buffered u (a # b # c # d # cs)" and "opr_mode u = 64"
  shows "decode_operand u zero_operand OP_J SZ_Z = Some (call_operand (rel32 a b c d), skip_bytes 4 d u)"
  using assms inp_uint32_buffered(1) [OF assms(1)]
  by (simp add: decode_operand_def decode_imm_def read_lval_def resolve_operand_size_def set_lval_def
      put_bits_zero call_operand_def rel32_def zero_operand_def ud_operand_code_defs
      ud_operand_size_defs Let_def)

lemma decode_operand_NONE: "decode_operand u opr OP_NONE sz = Some (opr\<lparr>opr_oprcode := OP_NONE\<rparr>, u)"
  by (simp add: decode_operand_def ud_operand_code_defs)

lemma decode_operands_call:
  assumes "buffered u (a # b # c # d # cs)" and "opr_mode u = 64"
    and "operand0 u = zero_operand" "operand1 u = zero_operand" "operand2 u = zero_operand"
  shows "decode_operands call_entry u = Some (0, (skip_bytes 4 d u)\<lparr>operand0 := call_operand (rel32 a b c d)\<rparr>)"
proof -
  have "zero_operand\<lparr>opr_oprcode := OP_NONE\<rparr> = zero_operand" by (simp add: zero_operand_def)
  then show ?thesis
    using assms decode_operand_J [OF assms(1,2)]
    by (simp add: decode_operands_def call_entry_def decode_operand_NONE skip_bytes_def)
qed

lemma decode_insn_call:
  assumes ptr: "unat ptr < length (ud_itab t)" "ud_itab t ! unat ptr = call_entry"
    and u: "buffered u (a # b # c # d # cs)" "\<not> ud_error u" "dis_mode u = 64" "pfx_opr u = 0"
      "pfx_adr u = 0" "pfx_str u = 0"
      "operand0 u = zero_operand" "operand1 u = zero_operand" "operand2 u = zero_operand"
  shows "\<exists>rx. decode_insn t u ptr = Some (0, (skip_bytes 4 d u)\<lparr>mnemonic := UD_Icall,
           itab_entry := Some call_entry, pfx_rex := rx, opr_mode := 64, adr_mode := 64,
           operand0 := call_operand (rel32 a b c d)\<rparr>)"
proof -
  define v where "v = u\<lparr>mnemonic := UD_Icall, itab_entry := Some call_entry,
    pfx_rex := pfx_rex u AND 0x40, opr_mode := 64, adr_mode := 64\<rparr>"
  have "resolve_mode call_entry (u\<lparr>mnemonic := UD_Icall, itab_entry := Some call_entry\<rparr>) = (0, v)"
    using u by (subst resolve_mode_call) (simp_all add: v_def)
  moreover have "decode_operands call_entry v =
      Some (0, (skip_bytes 4 d v)\<lparr>operand0 := call_operand (rel32 a b c d)\<rparr>)"
    using u by (intro decode_operands_call [of v a b c d cs])
      (auto simp: v_def buffered_def input_inv_def inp_rest_def)
  moreover have "resolve_mnemonic t ((skip_bytes 4 d v)\<lparr>operand0 := opr\<rparr>) =
      Some (0, (skip_bytes 4 d v)\<lparr>operand0 := opr\<rparr>)" for opr
    by (simp add: resolve_mnemonic_def resolve_3dnow_def resolve_xchg_def resolve_pause_def v_def
        skip_bytes_def ud_mnemonic_defs)
  ultimately have "decode_insn t u ptr =
      Some (0, (skip_bytes 4 d v)\<lparr>operand0 := call_operand (rel32 a b c d)\<rparr>)"
    using ptr u by (simp add: decode_insn_def resolve_pfx_str_def call_entry_def [THEN arg_cong [of _ _ ie_mnemonic]])
  then show ?thesis
    by (intro exI [of _ "pfx_rex u AND 0x40"]) (simp add: v_def skip_bytes_def)
qed

lemma decode_prefixes_call:
  assumes u: "buffered u (0xe8 # cs)" "dis_mode u = 64" "\<not> ud_error u" "inp_ctr u = 0"
  shows "\<exists>rx. decode_prefixes junk u = Some (0, (skip_bytes 1 0xe8 u)\<lparr>pfx_rex := rx\<rparr>) \<and>
           buffered ((skip_bytes 1 0xe8 u)\<lparr>pfx_rex := rx\<rparr>) cs"
proof -
  define w where
    "w = (skip_bytes 1 0xe8 u)\<lparr>pfx_rex := (if junk AND 0xF0 = 0x40 then junk else pfx_rex u)\<rparr>"
  have "prefix_byte (skip_bytes 1 0xe8 u) 0xe8 = (skip_bytes 1 0xe8 u, True)"
    by (simp add: prefix_byte_def)
  then have "decode_prefixes junk u = Some (0, w)"
    using buffered_next [OF u(1)] u
    by (simp add: decode_prefixes_def prefix_loop_bind after_byte_def MAX_INSN_LENGTH_def w_def skip_bytes_def)
  moreover have "buffered w cs"
    using buffered_next [OF u(1)] by (auto simp: w_def buffered_def input_inv_def inp_rest_def)
  ultimately show ?thesis unfolding w_def by blast
qed

lemma decode_opcode_call:
  assumes tab: "256 \<le> length (le_table le)" "le_table le ! 0xe8 = ptr" "\<not> is_group ptr"
      "unat ptr < length (ud_itab t)" "ud_itab t ! unat ptr = call_entry"
    and u: "buffered u (a # b # c # d # cs)" "\<not> ud_error u" "dis_mode u = 64" "pfx_opr u = 0"
      "pfx_adr u = 0" "pfx_str u = 0" "inp_curr u = 0xe8"
      "operand0 u = zero_operand" "operand1 u = zero_operand" "operand2 u = zero_operand"
  shows "\<exists>rx. decode_opcode t le u = Some (0, (skip_bytes 4 d u)\<lparr>primary_opcode := 0xe8,
           mnemonic := UD_Icall, itab_entry := Some call_entry, pfx_rex := rx, opr_mode := 64,
           adr_mode := 64, operand0 := call_operand (rel32 a b c d)\<rparr>)"
proof -
  define x where "x = u\<lparr>primary_opcode := 0xe8\<rparr>"
  have x: "buffered x (a # b # c # d # cs)"
    using u(1) by (auto simp: x_def buffered_def input_inv_def inp_rest_def)
  have "decode_opcode t le u = decode_insn t x ptr"
    using tab(1,2) u(7) u(2)
    by (subst decode_opcode_insn [of _ _ ptr]) (simp_all add: tab(3) decode_ext_leaf x_def)
  moreover have "\<exists>rx. decode_insn t x ptr = Some (0, (skip_bytes 4 d x)\<lparr>mnemonic := UD_Icall,
           itab_entry := Some call_entry, pfx_rex := rx, opr_mode := 64, adr_mode := 64,
           operand0 := call_operand (rel32 a b c d)\<rparr>)"
    by (rule decode_insn_call [OF tab(4,5) x]) (use u in \<open>simp_all add: x_def\<close>)
  moreover have "skip_bytes 4 d x = (skip_bytes 4 d u)\<lparr>primary_opcode := 0xe8\<rparr>"
    by (cases u) (simp add: x_def skip_bytes_def)
  ultimately show ?thesis by simp
qed

lemma ud_decode_e8:
  assumes tab: "ud_lookup_table_list t \<noteq> []" "256 \<le> length (le_table (ud_lookup_table_list t ! 0))"
    and ptr: "le_table (ud_lookup_table_list t ! 0) ! 0xe8 = ptr" "\<not> is_group ptr"
      "unat ptr < length (ud_itab t)" "ud_itab t ! unat ptr = call_entry"
    and u: "buffered u (0xe8 # a # b # c # d # cs)" "dis_mode u = 64"
  shows "\<exists>u'. ud_decode t junk u = Some (5, u') \<and> ud_insn_mnemonic u' = UD_Icall \<and>
           ud_insn_opr u' 0 = Some (call_operand (rel32 a b c d)) \<and> ud_insn_opr u' 1 = None \<and>
           buffered u' cs"
proof -
  define le where "le = ud_lookup_table_list t ! 0"
  define v where "v = (clear_insn (inp_start u))\<lparr>ud_le := Some le\<rparr>"
  have v: "buffered v (0xe8 # a # b # c # d # cs)" "dis_mode v = 64" "\<not> ud_error v" "inp_ctr v = 0"
    using u by (auto simp: v_def buffered_def input_inv_def inp_rest_def clear_insn_def inp_start_def)
  obtain r1 where pre: "decode_prefixes junk v = Some (0, (skip_bytes 1 0xe8 v)\<lparr>pfx_rex := r1\<rparr>)"
      and w: "buffered ((skip_bytes 1 0xe8 v)\<lparr>pfx_rex := r1\<rparr>) (a # b # c # d # cs)"
    using decode_prefixes_call [OF v] by blast
  define w where "w = (skip_bytes 1 0xe8 v)\<lparr>pfx_rex := r1\<rparr>"
  have "\<exists>rx. decode_opcode t le w = Some (0, (skip_bytes 4 d w)\<lparr>primary_opcode := 0xe8,
           mnemonic := UD_Icall, itab_entry := Some call_entry, pfx_rex := rx, opr_mode := 64,
           adr_mode := 64, operand0 := call_operand (rel32 a b c d)\<rparr>)"
    using tab ptr v w
    by (intro decode_opcode_call)
      (simp_all add: le_def w_def v_def skip_bytes_def clear_insn_def inp_start_def inp_curr_def)
  then obtain rx where opc: "decode_opcode t le w = Some (0, (skip_bytes 4 d w)\<lparr>primary_opcode := 0xe8,
           mnemonic := UD_Icall, itab_entry := Some call_entry, pfx_rex := rx, opr_mode := 64,
           adr_mode := 64, operand0 := call_operand (rel32 a b c d)\<rparr>)" by blast
  define y where "y = (skip_bytes 4 d w)\<lparr>primary_opcode := 0xe8, mnemonic := UD_Icall,
           itab_entry := Some call_entry, pfx_rex := rx, opr_mode := 64, adr_mode := 64,
           operand0 := call_operand (rel32 a b c d)\<rparr>"
  have y: "\<not> ud_error y" "itab_entry y = Some call_entry" "inp_ctr y = 5" "mnemonic y = UD_Icall"
      "operand0 y = call_operand (rel32 a b c d)" "operand1 y = zero_operand"
    using v by (simp_all add: y_def w_def v_def skip_bytes_def clear_insn_def inp_start_def)
  have "decode_steps t junk le v = Some (False, y)"
    using pre opc y by (simp add: decode_steps_def y_def w_def)
  then have dec: "ud_decode t junk u = Some (5, finish_decode call_entry (y\<lparr>ud_error := False\<rparr>))"
    using tab(1) y
    by (simp add: ud_decode_def v_def le_def [symmetric] finish_decode_def Let_def stray_segment_def)
  have "buffered y cs"
    using inp_uint32_buffered(2) [OF w]
    by (auto simp: y_def w_def buffered_def input_inv_def inp_rest_def)
  then show ?thesis
    using dec y
    by (auto simp: ud_insn_mnemonic_def ud_insn_opr_def ud_operand_nth_def call_operand_def
        zero_operand_def ud_type_defs buffered_def)
qed

end
