(* ===== verification/Ud_Truncated.thy ===== *)
theory Ud_Truncated
  imports Ud_Operands Ud_Call
begin

text \<open>
  Opcode \<open>E8\<close> in 64-bit mode at the end of the input: when fewer than four bytes follow, the decoder
  reports the invalid instruction. So a near call that starts with \<open>E8\<close> has all its five bytes.
\<close>

text \<open>What the opcode tables hold for \<open>E8\<close>.\<close>

definition e8_call :: "ud_tables \<Rightarrow> bool" where
  "e8_call t \<longleftrightarrow>
     ud_lookup_table_list t \<noteq> [] \<and>
     (let tab = le_table (ud_lookup_table_list t ! 0) in
      256 \<le> length tab \<and> \<not> is_group (tab ! 0xe8) \<and> unat (tab ! 0xe8) < length (ud_itab t) \<and>
      ud_itab t ! unat (tab ! 0xe8) = call_entry)"

lemma inp_next_exhausted:
  assumes "buffered u []" and "inp_next u = Some (c, u')"
  shows "ud_error u'"
proof -
  obtain buf where "inp_buf u = Some buf" "inp_buf_size u \<le> length buf"
      "drop (inp_buf_index u) (take (inp_buf_size u) buf) = []" "\<not> inp_end u"
    using assms(1) by (auto simp: buffered_def input_inv_def inp_rest_def)
  then have "inp_next u = Some (inp_eoi u)"
    by (simp add: inp_next_def)
  then show ?thesis using assms(2) by (auto simp: inp_eoi_def UDERR_def)
qed

lemma inp_next_short:
  assumes "buffered u cs" and "inp_next u = Some (c, u')"
  shows "ud_error u' \<or> cs \<noteq> [] \<and> buffered u' (tl cs)"
proof (cases cs)
  case Nil
  then show ?thesis using assms inp_next_exhausted by blast
next
  case (Cons d ds)
  then show ?thesis using assms buffered_next [of u d ds] by auto
qed

lemma inp_uint32_short:
  assumes "buffered u cs" and "length cs < 4" and "inp_uint32 u = Some (v, u')"
  shows "ud_error u'"
proof -
  obtain a ua b ub c uc d where n: "inp_next u = Some (a, ua)" "inp_next ua = Some (b, ub)"
      "inp_next ub = Some (c, uc)" "inp_next uc = Some (d, u')"
    using assms(3) by (auto simp: inp_uint32_def bind_eq_Some_conv)
  have "ud_error ua \<or> cs \<noteq> [] \<and> buffered ua (tl cs)" by (rule inp_next_short [OF assms(1) n(1)])
  then have "ud_error ub \<or> 1 < length cs \<and> buffered ub (tl (tl cs))"
    using inp_next_short [OF _ n(2)] err_inp_next [OF n(2)] by (cases cs) fastforce+
  then have "ud_error uc \<or> 2 < length cs \<and> buffered uc (tl (tl (tl cs)))"
    using inp_next_short [OF _ n(3)] err_inp_next [OF n(3)] by (cases cs; cases "tl cs") fastforce+
  then show ?thesis
    using inp_next_short [OF _ n(4)] err_inp_next [OF n(4)] assms(2)
    by (cases cs; cases "tl cs"; cases "tl (tl cs)") fastforce+
qed

lemma decode_operands_call_short:
  assumes "buffered u cs" and "length cs < 4" and "opr_mode u = 64"
    and "decode_operands call_entry u = Some (r, u')"
  shows "ud_error u' \<and> mnemonic u' = mnemonic u"
proof (rule decode_operands_steps [OF assms(4)])
  fix o1 u1 o2 u2 o3 u3
  assume 1: "decode_operand u (operand0 u) (eo_type (ie_operand1 call_entry)) (eo_size (ie_operand1 call_entry))
      = Some (o1, u1)"
    and 2: "decode_operand (u1\<lparr>operand0 := o1\<rparr>) (operand1 u) (eo_type (ie_operand2 call_entry))
      (eo_size (ie_operand2 call_entry)) = Some (o2, u2)"
    and 3: "decode_operand (u2\<lparr>operand1 := o2\<rparr>) (operand2 u) (eo_type (ie_operand3 call_entry))
      (eo_size (ie_operand3 call_entry)) = Some (o3, u3)"
    and u': "u' = u3\<lparr>operand2 := o3\<rparr>"
    and stages: "ud_stage u1 = ud_stage u" "ud_stage u2 = ud_stage (u1\<lparr>operand0 := o1\<rparr>)"
      "ud_stage u3 = ud_stage (u2\<lparr>operand1 := o2\<rparr>)"
  have "ud_error u1"
    using 1 assms(3) inp_uint32_short [OF assms(1,2)]
    by (auto simp: decode_operand_def decode_imm_def read_lval_def resolve_operand_size_def
        ud_operand_code_defs ud_operand_size_defs call_entry_def Let_def bind_eq_Some_conv)
  then have "ud_error u2" using err_decode_operand [OF 2] by simp
  then have "ud_error u3" using err_decode_operand [OF 3] by simp
  then show ?thesis using stages u' by (simp add: ud_stage_def)
qed

lemma decode_insn_call_short:
  assumes ptr: "unat ptr < length (ud_itab t)" "ud_itab t ! unat ptr = call_entry"
    and u: "buffered u cs" "length cs < 4" "\<not> ud_error u" "dis_mode u = 64" "pfx_opr u = 0"
      "pfx_adr u = 0" "pfx_str u = 0"
    and d: "decode_insn t u ptr = Some (r, u')"
  shows "ud_error u'"
proof -
  define v where "v = u\<lparr>mnemonic := UD_Icall, itab_entry := Some call_entry,
    pfx_rex := pfx_rex u AND 0x40, opr_mode := 64, adr_mode := 64\<rparr>"
  have m: "resolve_mode call_entry (u\<lparr>mnemonic := UD_Icall, itab_entry := Some call_entry\<rparr>) = (0, v)"
    using u by (subst resolve_mode_call) (simp_all add: v_def)
  have "resolve_pfx_str call_entry (u\<lparr>mnemonic := UD_Icall, itab_entry := Some call_entry\<rparr>) =
      u\<lparr>mnemonic := UD_Icall, itab_entry := Some call_entry\<rparr>"
    using u by (simp add: resolve_pfx_str_def)
  moreover have "ie_mnemonic call_entry = UD_Icall" by (simp add: call_entry_def)
  ultimately have "do { (r, w) \<leftarrow> decode_operands call_entry v;
      if r \<noteq> 0 then Some (-1, w) else do { (r, w) \<leftarrow> resolve_mnemonic t w; Some (if r = 0 then 0 else -1, w) } }
      = Some (r, u')"
    using d ptr m by (simp add: decode_insn_def)
  then obtain q w where w: "decode_operands call_entry v = Some (q, w)"
      and r: "q = 0 \<Longrightarrow> \<exists>k. resolve_mnemonic t w = Some (k, u')"
    by (auto simp: bind_eq_Some_conv split: if_split_asm)
  have "buffered v cs" "opr_mode v = 64" "mnemonic v \<noteq> UD_I3dnow"
    using u(1) by (auto simp: v_def buffered_def input_inv_def inp_rest_def ud_mnemonic_defs)
  then have "ud_error w" "mnemonic w \<noteq> UD_I3dnow"
    using decode_operands_call_short [OF _ u(2) _ w] by simp_all
  then show ?thesis using r decode_operands_zero [OF w] err_resolve_mnemonic by blast
qed

text \<open>Four bytes or fewer that start with \<open>E8\<close> are invalid.\<close>

lemma ud_decode_call_short:
  assumes ok: "tables_ok t" "e8_call t" and u: "buffered u (0xe8 # cs)" "dis_mode u = 64" "length cs < 4"
    and d: "ud_decode t junk u = Some (n, u')"
  shows "mnemonic u' = ie_mnemonic (ud_itab t ! 0)"
proof (rule ud_decode_cases [OF ok(1), of u junk])
  show "input_inv u" using u(1) by (simp add: buffered_def)
next
  fix v
  assume "ud_decode t junk u = Some (inp_ctr v, finish_decode (ud_itab t ! 0) (error_result t v))"
  then show ?thesis using d by (simp add: error_result_def)
next
  fix e v
  assume steps: "decode_steps t junk (ud_lookup_table_list t ! 0) (fresh t u) = Some (False, v)"
  define le where "le = ud_lookup_table_list t ! 0"
  define ptr where "ptr = le_table le ! 0xe8"
  have ptr: "256 \<le> length (le_table le)" "\<not> is_group ptr" "unat ptr < length (ud_itab t)"
      "ud_itab t ! unat ptr = call_entry"
    using ok(2) by (simp_all add: e8_call_def Let_def le_def ptr_def)
  define x where "x = fresh t u"
  have x: "buffered x (0xe8 # cs)" "dis_mode x = 64" "\<not> ud_error x" "inp_ctr x = 0"
    using u by (auto simp: x_def fresh_def buffered_def input_inv_def inp_rest_def clear_insn_def inp_start_def)
  obtain r1 where pre: "decode_prefixes junk x = Some (0, (skip_bytes 1 0xe8 x)\<lparr>pfx_rex := r1\<rparr>)"
      and w: "buffered ((skip_bytes 1 0xe8 x)\<lparr>pfx_rex := r1\<rparr>) cs"
    using decode_prefixes_call [OF x] by blast
  define w where "w = (skip_bytes 1 0xe8 x)\<lparr>pfx_rex := r1\<rparr>"
  define y where "y = w\<lparr>primary_opcode := 0xe8\<rparr>"
  have "inp_curr w = 0xe8" "\<not> ud_error w" using x(3) by (simp_all add: w_def inp_curr_def skip_bytes_def)
  then have opc: "decode_opcode t le w = decode_insn t y ptr"
    using ptr by (subst decode_opcode_insn [of _ _ ptr]) (simp_all add: decode_ext_leaf y_def ptr_def)
  have "decode_prefixes junk (fresh t u) = Some (0, w)" using pre by (simp add: w_def x_def)
  then obtain r where "decode_insn t y ptr = Some (r, v)" "\<not> ud_error v"
    using steps opc by (auto simp: decode_steps_def le_def [symmetric] bind_eq_Some_conv)
  moreover have "buffered y cs" "\<not> ud_error y" "dis_mode y = 64" "pfx_opr y = 0" "pfx_adr y = 0" "pfx_str y = 0"
    using w x by (auto simp: y_def w_def x_def fresh_def skip_bytes_def clear_insn_def inp_start_def
        buffered_def input_inv_def inp_rest_def)
  ultimately have False using decode_insn_call_short [OF ptr(3,4), of y cs] u(3) by blast
  then show ?thesis ..
qed

text \<open>An instruction that starts with \<open>E8\<close> is a call exactly when it has five bytes.\<close>

lemma e8_is_call:
  assumes ok: "tables_ok t" "e8_call t" "ie_mnemonic (ud_itab t ! 0) \<noteq> UD_Icall"
    and u: "buffered u (0xe8 # cs)" "dis_mode u = 64"
    and d: "ud_decode t junk u = Some (n, u')"
  shows "mnemonic u' = UD_Icall \<longleftrightarrow> n = 5"
proof (cases "length cs < 4")
  case True
  have "n \<le> length (inp_rest u)"
    using ud_decode_result(3) [OF ok(1) _ d] u(1) by (simp add: buffered_def)
  then have "n < 5" using True u(1) by (simp add: buffered_def)
  then show ?thesis using ud_decode_call_short [OF ok(1,2) u True d] ok(3) by auto
next
  case False
  then obtain a b c e ds where cs: "cs = a # b # c # e # ds"
    by (cases cs; cases "tl cs"; cases "tl (tl cs)"; cases "tl (tl (tl cs))") auto
  have "\<exists>u'. ud_decode t junk u = Some (5, u') \<and> ud_insn_mnemonic u' = UD_Icall \<and>
           ud_insn_opr u' 0 = Some (call_operand (rel32 a b c e)) \<and> ud_insn_opr u' 1 = None \<and>
           buffered u' ds"
    using ok(2) u cs by (intro ud_decode_e8) (auto simp: e8_call_def Let_def)
  then show ?thesis using d by (auto simp: ud_insn_mnemonic_def)
qed

end
