(* ===== verification/Ud_Prefix.thy ===== *)
theory Ud_Prefix
  imports Ud_Call
begin

text \<open>
  What the prefix loop leaves in the object, as a function of the prefix bytes of the instruction.
\<close>

section \<open>Prefix bytes\<close>

definition seg_prefix :: "u8 \<Rightarrow> ud_type option" where
  "seg_prefix c =
     map_of [(0x2E, UD_R_CS), (0x36, UD_R_SS), (0x3E, UD_R_DS), (0x26, UD_R_ES), (0x64, UD_R_FS),
             (0x65, UD_R_GS)] c"

definition is_rex :: "nat \<Rightarrow> u8 \<Rightarrow> bool" where "is_rex dm c \<longleftrightarrow> dm = 64 \<and> c AND 0xF0 = 0x40"

definition is_prefix :: "nat \<Rightarrow> u8 \<Rightarrow> bool" where
  "is_prefix dm c \<longleftrightarrow>
     c \<in> {0x2E, 0x36, 0x3E, 0x26, 0x64, 0x65, 0x67, 0xF0, 0x66, 0xF2, 0xF3} \<or> is_rex dm c"

text \<open>The last of the bytes that satisfy a condition, or the value before.\<close>

fun last_such :: "(u8 \<Rightarrow> 'a option) \<Rightarrow> 'a \<Rightarrow> u8 list \<Rightarrow> 'a" where
  "last_such f x [] = x"
| "last_such f x (c # cs) = last_such f (case f c of None \<Rightarrow> x | Some y \<Rightarrow> y) cs"

definition str_prefix :: "u8 \<Rightarrow> u8 option" where
  "str_prefix c = (if c = 0xF2 \<or> c = 0xF3 then Some c else None)"

definition only :: "u8 \<Rightarrow> u8 \<Rightarrow> u8 option" where "only p c = (if c = p then Some p else None)"

lemma prefix_byte_done: "snd (prefix_byte u c) \<longleftrightarrow> \<not> is_prefix (dis_mode u) c"
proof (cases "c \<in> {0x2E, 0x36, 0x3E, 0x26, 0x64, 0x65, 0x67, 0xF0, 0x66, 0xF2, 0xF3}")
  case True
  then have "\<not> snd (prefix_byte u c)" by (elim insertE) (simp_all add: prefix_byte_def)
  then show ?thesis using True by (simp add: is_prefix_def)
next
  case False
  then show ?thesis by (simp add: prefix_byte_def is_prefix_def is_rex_def)
qed

lemma prefix_byte_none: "\<not> is_prefix dm c \<Longrightarrow> fst (prefix_byte u c) = u"
  by (simp add: prefix_byte_def is_prefix_def)

lemma prefix_byte_fields:
  assumes "u' = fst (prefix_byte u c)"
  shows "pfx_seg u' = last_such seg_prefix (pfx_seg u) [c]"
    and "pfx_opr u' = last_such (only 0x66) (pfx_opr u) [c]"
    and "pfx_adr u' = last_such (only 0x67) (pfx_adr u) [c]"
    and "pfx_lock u' = last_such (only 0xF0) (pfx_lock u) [c]"
    and "pfx_str u' = last_such str_prefix (pfx_str u) [c]"
    and "pfx_rex u' = pfx_rex u"
  by (simp_all add: assms prefix_byte_def seg_prefix_def only_def str_prefix_def)

lemma last_such_append: "last_such f x (as @ bs) = last_such f (last_such f x as) bs"
  by (induction as arbitrary: x) simp_all

text \<open>What the fields are after reading the bytes \<open>cs\<close>, the last one preceded by \<open>prev\<close>.\<close>

definition prefixes_read :: "ud \<Rightarrow> u8 list \<Rightarrow> ud \<Rightarrow> bool" where
  "prefixes_read u ps u' \<longleftrightarrow>
     pfx_seg u' = last_such seg_prefix (pfx_seg u) ps \<and>
     pfx_opr u' = last_such (only 0x66) (pfx_opr u) ps \<and>
     pfx_adr u' = last_such (only 0x67) (pfx_adr u) ps \<and>
     pfx_lock u' = last_such (only 0xF0) (pfx_lock u) ps \<and>
     pfx_str u' = last_such str_prefix (pfx_str u) ps"

lemma prefixes_read_Cons:
  assumes "prefixes_read (fst (prefix_byte u c)) ps u'"
  shows "prefixes_read u (c # ps) u'"
  using assms prefix_byte_fields [OF refl, of u c] by (simp add: prefixes_read_def)

lemma prefixes_read_same:
  "\<lbrakk>prefixes_read u ps u'; pfx_seg v = pfx_seg u; pfx_opr v = pfx_opr u; pfx_adr v = pfx_adr u;
    pfx_lock v = pfx_lock u; pfx_str v = pfx_str u\<rbrakk> \<Longrightarrow> prefixes_read v ps u'"
  by (simp add: prefixes_read_def)

lemma buffered_prefix_byte: "buffered u cs \<Longrightarrow> buffered (fst (prefix_byte u c)) cs"
  by (auto simp: buffered_def input_inv_def inp_rest_def)

lemma prefix_loop_reads:
  assumes "buffered u (ps @ c # cs)" and "list_all (is_prefix (dis_mode u)) ps"
    and "\<not> is_prefix (dis_mode u) c" and "inp_ctr u + length ps < 14" and "\<not> ud_error u"
  shows "\<exists>u'. prefix_loop prev u = Some (0, u') \<and> buffered u' cs \<and> prefixes_read u ps u' \<and>
           inp_ctr u' = inp_ctr u + length ps + 1 \<and> inp_curr u' = c \<and>
           pfx_rex u' = (if is_rex (dis_mode u) (last (prev # ps)) then last (prev # ps) else pfx_rex u)"
  using assms
proof (induction ps arbitrary: u prev)
  case Nil
  define v where "v = skip_bytes 1 c u"
  have v: "inp_next u = Some (c, v)" "buffered v cs" using buffered_next Nil by (auto simp: v_def)
  have "fst (prefix_byte v c) = v"
    using Nil.prems(3) by (rule prefix_byte_none)
  then have "prefix_loop prev u =
      Some (0, if is_rex (dis_mode u) prev then v\<lparr>pfx_rex := prev\<rparr> else v)"
    using Nil.prems v(1) prefix_byte_done [of v c]
    by (simp add: prefix_loop_bind after_byte_def MAX_INSN_LENGTH_def is_rex_def Let_def v_def
        skip_bytes_def)
  moreover have "buffered (v\<lparr>pfx_rex := prev\<rparr>) cs"
    using v(2) by (auto simp: buffered_def input_inv_def inp_rest_def)
  ultimately show ?case
    using v(2) by (simp add: prefixes_read_def v_def skip_bytes_def inp_curr_def)
next
  case (Cons p ps)
  define v where "v = skip_bytes 1 p u"
  define w where "w = fst (prefix_byte v p)"
  have v: "inp_next u = Some (p, v)" "buffered v (ps @ c # cs)"
    using buffered_next [of u p] Cons.prems by (auto simp: v_def)
  have same: "dis_mode w = dis_mode u" "inp_ctr w = inp_ctr u + 1" "\<not> ud_error w" "pfx_rex w = pfx_rex u"
    using Cons.prems prefix_byte_fields(6) [OF w_def]
    by (simp_all add: w_def v_def skip_bytes_def)
  have "prefix_loop prev u = prefix_loop p w"
    using Cons.prems v(1) prefix_byte_done [of v p]
    by (simp add: prefix_loop_bind after_byte_def MAX_INSN_LENGTH_def w_def v_def skip_bytes_def)
  moreover obtain u' where "prefix_loop p w = Some (0, u')" "buffered u' cs" "prefixes_read w ps u'"
      "inp_ctr u' = inp_ctr w + length ps + 1" "inp_curr u' = c"
      "pfx_rex u' = (if is_rex (dis_mode w) (last (p # ps)) then last (p # ps) else pfx_rex w)"
    using Cons.IH [of w p] Cons.prems same buffered_prefix_byte [OF v(2)] by (auto simp: w_def)
  moreover from this have "prefixes_read u (p # ps) u'"
    using prefixes_read_Cons [of v p ps u']
    by (auto simp: w_def v_def skip_bytes_def intro: prefixes_read_same)
  ultimately show ?case using same by auto
qed

text \<open>C19. The prefix loop on an instruction with up to 13 prefix bytes reads them and the first
  opcode byte; the segment, operand size, address size, lock and repeat prefixes it records are the
  last ones present, and the \<open>REX\<close> prefix the byte right before the opcode, which, for an instruction
  without prefixes, is the uninitialised variable.\<close>

theorem decode_prefixes_reads:
  assumes "buffered u (ps @ c # cs)" and "list_all (is_prefix (dis_mode u)) ps"
    and "\<not> is_prefix (dis_mode u) c" and "length ps < 14" and "\<not> ud_error u" and "inp_ctr u = 0"
  shows "\<exists>u'. decode_prefixes junk u = Some (0, u') \<and> buffered u' cs \<and> prefixes_read u ps u' \<and>
           inp_ctr u' = length ps + 1 \<and> inp_curr u' = c \<and>
           pfx_rex u' = (if is_rex (dis_mode u) (last (junk # ps)) then last (junk # ps) else pfx_rex u)"
  using prefix_loop_reads [of u ps c cs junk] assms by (simp add: decode_prefixes_def)

definition example_input :: "u8 list \<Rightarrow> ud" where
  "example_input bs = ud_set_mode (ud_set_input_buffer zero_ud bs (length bs)) 64"

lemma buffered_example: "bs \<noteq> [] \<Longrightarrow> buffered (example_input bs) bs"
  by (simp add: buffered_def example_input_def ud_set_mode_def ud_set_input_buffer_def ud_inp_init_def
      input_inv_def inp_rest_def zero_ud_def)

text \<open>\<open>mov rax, rax\<close> with an \<open>fs\<close> override, and a plain \<open>nop\<close> after a stray \<open>0x48\<close> on the stack.\<close>

theorem decode_prefixes_reads_witness:
  "(\<exists>u'. decode_prefixes 0 (example_input [0x64, 0x48, 0x89, 0xC0]) = Some (0, u') \<and>
      pfx_seg u' = UD_R_FS \<and> pfx_rex u' = 0x48 \<and> inp_ctr u' = 3 \<and> inp_curr u' = 0x89) \<and>
   (\<exists>u'. decode_prefixes 0x48 (example_input [0x90]) = Some (0, u') \<and> pfx_rex u' = 0x48)"
proof -
  note 1 = decode_prefixes_reads [of "example_input [0x64, 0x48, 0x89, 0xC0]" "[0x64, 0x48]" "0x89" "[0xC0]" 0]
  note 2 = decode_prefixes_reads [of "example_input [0x90]" "[]" "0x90" "[]" "0x48"]
  have ex: "dis_mode (example_input bs) = 64" "\<not> ud_error (example_input bs)" "inp_ctr (example_input bs) = 0"
    for bs
    by (simp_all add: example_input_def ud_set_mode_def ud_set_input_buffer_def ud_inp_init_def zero_ud_def)
  show ?thesis
    using 1 2 buffered_example [of "[0x64, 0x48, 0x89, 0xC0]"] buffered_example [of "[0x90]"]
    by (auto simp: ex is_prefix_def is_rex_def seg_prefix_def prefixes_read_def)
qed

end
