(* ===== verification/Ud_Tables.thy ===== *)
theory Ud_Tables
  imports Ud_Truncated Ud_Prefix
begin

text \<open>
  The interface between the decoder and the generated opcode tables: what the tables promise, and what
  the decoder and the disassembler deliver on tables that keep the promise.
\<close>

locale opcode_tables =
  fixes t :: ud_tables
  assumes tables: "tables_ok t"
    and entries: "itab_ok t"
begin

lemma decode_total:
  assumes "input_inv u"
  shows "\<exists>n u'. ud_decode t junk u = Some (n, u') \<and> n \<le> 64 \<and> ud_insn_len u' = n \<and>
           n \<le> length (inp_rest u) \<and> inp_rest u' = drop n (inp_rest u) \<and> input_inv u' \<and>
           insn_offset u' = ud_pc u \<and> ud_pc u' = ud_pc u + of_nat n \<and>
           (\<not> inp_end u \<and> inp_rest u \<noteq> [] \<longrightarrow> 0 < n) \<and>
           (inp_end u' \<longrightarrow> inp_end u \<or> inp_rest u' = [])"
proof -
  obtain n u' where d: "ud_decode t junk u = Some (n, u')" by (rule ud_decode_returns [OF tables assms])
  show ?thesis using d ud_decode_result [OF tables assms d] by blast
qed

lemma insn_ptr_decoded:
  assumes "input_inv u" and "ud_decode t junk u = Some (n, u')"
  shows "n \<le> length (ud_insn_ptr u') \<and> take n (ud_insn_ptr u') = take n (inp_rest u) \<and>
         (inp_buf u \<noteq> None \<longrightarrow> inp_buf_index u' = inp_buf_index u + n)"
proof -
  note r = ud_decode_result [OF tables assms]
  have "n \<le> length (ud_insn_ptr u')"
    using arg_cong [OF r(11), of length] r(3) by (simp add: min_def split: if_split_asm)
  then show ?thesis using r(10,11) by simp
qed

text \<open>One step of a disassembly.\<close>

lemma disassemble_step:
  assumes "disas_inv u"
  obtains n u' where "ud_disassemble t mn junk u = Some (n, u')" "n \<le> 64" "n \<le> length (inp_rest u)"
    "inp_rest u' = drop n (inp_rest u)" "disas_inv u'" "n = 0 \<longleftrightarrow> inp_end u \<or> inp_rest u = []"
    "n \<noteq> 0 \<Longrightarrow> ud_insn_len u' = n" "n \<noteq> 0 \<Longrightarrow> take n (ud_insn_ptr u') = take n (inp_rest u)"
    "n \<noteq> 0 \<Longrightarrow> insn_offset u' = ud_pc u" "n \<noteq> 0 \<Longrightarrow> ud_pc u' = ud_pc u + of_nat n"
    "inp_end u' \<Longrightarrow> inp_end u \<or> inp_rest u' = []"
proof (cases "inp_end u")
  case True
  then show ?thesis using assms that [of 0 u] by (simp add: ud_disassemble_end)
next
  case False
  have inv: "input_inv u" using assms by (simp add: disas_inv_def)
  obtain n v u' where u': "ud_disassemble t mn junk u = Some (n, u')" "ud_decode t junk u = Some (n, v)"
      "u' = v \<or> printed v u'" "disas_inv u'"
    using ud_disassemble_step [OF tables entries assms False, of mn junk] by metis
  note v = ud_decode_result [OF tables inv u'(2)]
  have "inp_rest u' = inp_rest v" "ud_insn_len u' = ud_insn_len v" "ud_insn_ptr u' = ud_insn_ptr v"
      "insn_offset u' = insn_offset v" "ud_pc u' = ud_pc v" "inp_end u' = inp_end v"
    using u'(3) by (auto simp: ud_insn_len_def ud_insn_ptr_def inp_rest_def elim!: printedE split: option.split)
  moreover have "n = 0 \<longleftrightarrow> inp_rest u = []" using v(3,8) False by auto
  ultimately show ?thesis
    using that [of n u'] u'(1,4) v False by simp
qed

lemma disassemble_total:
  assumes "disas_inv u"
  shows "\<exists>n u'. ud_disassemble t mn junk u = Some (n, u') \<and> n \<le> 64 \<and>
           inp_rest u' = drop n (inp_rest u) \<and> n \<le> length (inp_rest u) \<and> disas_inv u' \<and>
           (n = 0 \<longleftrightarrow> inp_end u \<or> inp_rest u = [])"
  using disassemble_step [OF assms, of mn junk] by metis

end

text \<open>Tables that also have the near call at \<open>E8\<close>, and no call where the decoder reports an error.\<close>

locale call_opcode_tables = opcode_tables +
  assumes e8: "e8_call t"
    and invalid: "ie_mnemonic (ud_itab t ! 0) \<noteq> UD_Icall"
begin

lemma decode_call:
  assumes "buffered u (0xe8 # a # b # c # d # cs)" and "dis_mode u = 64"
  shows "\<exists>u'. ud_decode t junk u = Some (5, u') \<and> ud_insn_mnemonic u' = UD_Icall \<and>
           ud_insn_opr u' 0 = Some (call_operand (rel32 a b c d)) \<and> ud_insn_opr u' 1 = None \<and>
           buffered u' cs"
  using e8 assms by (intro ud_decode_e8) (auto simp: e8_call_def Let_def)

end

text \<open>An object with the internal text buffer, set to 64-bit mode and Intel syntax.\<close>

definition example_ud :: "u8 list \<Rightarrow> ud" where
  "example_ud bs =
     ud_set_syntax (ud_set_mode (ud_set_input_buffer (ud_init []) bs (length bs)) 64) (Some UD_SYN_INTEL)"

lemma disas_inv_example: "disas_inv (example_ud bs)" "\<not> inp_end (example_ud bs)" "inp_rest (example_ud bs) = bs"
  by (simp_all add: disas_inv_def mode_ok_def example_ud_def ud_set_syntax_def ud_set_mode_def
      ud_set_input_buffer_def ud_inp_init_def ud_init_def ud_set_asm_buffer_def ud_set_input_file_def
      ud_set_pc_def ud_set_input_hook_def input_inv_def inp_rest_def)

lemma input_inv_example: "input_inv (example_input bs)"
  by (simp add: example_input_def ud_set_mode_def ud_set_input_buffer_def ud_inp_init_def input_inv_def)

lemma example_input_props [simp]:
  "dis_mode (example_input bs) = 64" "inp_buf (example_input bs) = Some bs" "\<not> inp_end (example_input bs)"
  "inp_buf_index (example_input bs) = 0" "inp_rest (example_input bs) = bs" "ud_pc (example_input bs) = 0"
  by (simp_all add: example_input_def ud_set_mode_def ud_set_input_buffer_def ud_inp_init_def inp_rest_def
      zero_ud_def)

end
