(* ===== verification/Analyze.thy ===== *)
theory Analyze
  imports Util Ud_Tables
begin

text \<open>
  \<^verbatim>\<open>shiva_analyze.c\<close>: the linear sweep over the text section that records every direct call.
  The opcode tables, the mnemonic strings and the uninitialised byte of each run of the decoder's
  prefix loop (one per instruction address) are arguments. Messages, and the hexadecimal text
  that only a debug build prints, are left out.
\<close>

section \<open>The code\<close>

text \<open>The format \<open>%#lx\<close>.\<close>

definition fmt_alt_x :: "u64 \<Rightarrow> string" where
  "fmt_alt_x v = (if v = 0 then ''0'' else ''0x'' @ show_base 16 (unat v))"

definition zero_symbol :: elf_symbol where
  "zero_symbol = \<lparr>sym_name = [], sym_value = 0, sym_size = 0, sym_type = 0, sym_bind = 0\<rparr>"

text \<open>The loop over the entries of the procedure linkage table runs to the end, so that the last
  entry at the address counts; \<open>found\<close> is the symbol once its name is not null.\<close>

fun plt_call_loop :: "os \<Rightarrow> u64 \<Rightarrow> elf_plt list \<Rightarrow> elf_symbol option \<Rightarrow> proc \<Rightarrow>
    (elf_symbol option \<times> proc) option" where
  "plt_call_loop os call_addr [] found p = Some (found, p)"
| "plt_call_loop os call_addr (e # es) found p =
     (if plt_addr e = call_addr then do {
        (_, name, p) \<leftarrow> shiva_xfmtstrdup os (plt_symname e @ ''@plt'') p;
        plt_call_loop os call_addr es
          (Some (zero_symbol\<lparr>sym_name := name, sym_type := STT_FUNC, sym_bind := STB_GLOBAL, sym_size := 0\<rparr>)) p
      }
      else plt_call_loop os call_addr es found p)"

text \<open>The symbol of a call target and the flags of the branch site.\<close>

definition call_symbol :: "os \<Rightarrow> elfobj \<Rightarrow> u64 \<Rightarrow> proc \<Rightarrow> (elf_symbol \<times> u64 \<times> proc) option" where
  "call_symbol os obj call_addr p =
     (case elf_symbol_by_value_lookup obj call_addr of
        Some s \<Rightarrow> Some (s, 0, p)
      | None \<Rightarrow> do {
          (found, p) \<leftarrow> plt_call_loop os call_addr (elf_plts obj) None p;
          (case found of
             Some s \<Rightarrow> Some (s, SHIVA_BRANCH_F_PLTCALL, p)
           | None \<Rightarrow> do {
               (_, name, p) \<leftarrow> shiva_xfmtstrdup os (''fn_'' @ fmt_alt_x call_addr) p;
               Some (zero_symbol\<lparr>sym_name := name, sym_value := call_addr, sym_type := STT_FUNC,
                       sym_size := 0, sym_bind := STB_GLOBAL\<rparr>, 0, p)
             })
        })"

text \<open>What the loop does with the instruction just disassembled. The displacement is read as an
  unsigned number; reading past the text section is \<open>None\<close>.\<close>

definition analyze_insn :: "os \<Rightarrow> u64 \<Rightarrow> proc \<Rightarrow> (bool \<times> proc) option" where
  "analyze_insn os current_address p =
     (let u = p_ud p; insn_len = ud_insn_len u; ptr = ud_insn_ptr u in
      if ud_insn_mnemonic u \<noteq> UD_Icall then Some (True, p)
      else if ptr = [] then None
      else if ptr ! 0 \<noteq> 0xe8 then Some (True, p)
      else
        (case sys_malloc os (os_sizeof os ''shiva_branch_site'') p of
           (None, p) \<Rightarrow> Some (False, p)
         | (Some _, p) \<Rightarrow>
             if length ptr < 5 then None
             else
               let call_offset = ucast (le_val (take 4 (drop 1 ptr)) :: u32) :: u64;
                   call_site = current_address;
                   call_addr = (call_site + call_offset + 5) AND 0xffffffff;
                   retaddr = call_site + of_nat insn_len
               in do {
                 (s, fl, p) \<leftarrow> call_symbol os (ctx_elfobj (p_ctx p)) call_addr p;
                 Some (True, p\<lparr>p_ctx := (p_ctx p)\<lparr>branch_tqlist := branch_tqlist (p_ctx p) @
                   [\<lparr>bs_symbol = s, branch_type = SHIVA_BRANCH_CALL, branch_flags = fl,
                     target_vaddr = call_addr, branch_site = call_site, bs_retaddr = retaddr\<rparr>]\<rparr>\<rparr>)
               }))"

partial_function (option) find_calls_loop ::
  "ud_tables \<Rightarrow> string list \<Rightarrow> (u64 \<Rightarrow> u8) \<Rightarrow> os \<Rightarrow> u64 \<Rightarrow> proc \<Rightarrow> (bool \<times> proc) option" where
  "find_calls_loop t ud_mnemonics_str junk os current_address p =
     do {
       (n, u) \<leftarrow> ud_disassemble t ud_mnemonics_str (junk current_address) (p_ud p);
       let p = p\<lparr>p_ud := u\<rparr>;
       (if n = 0 then Some (True, p)
        else do {
          (ok, q) \<leftarrow> analyze_insn os current_address p;
          (if ok then
             find_calls_loop t ud_mnemonics_str junk os (current_address + of_nat (ud_insn_len u)) q
           else Some (False, q))
        })
     }"

text \<open>The disassembler object set up for the sweep.\<close>

definition sweep_ud :: "u8 list \<Rightarrow> u8 list \<Rightarrow> nat \<Rightarrow> nat \<Rightarrow> ud" where
  "sweep_ud stdin text len bits =
     ud_set_syntax (ud_set_mode (ud_set_input_buffer (ud_init stdin) text len) bits) (Some UD_SYN_INTEL)"

definition shiva_analyze_find_calls ::
  "ud_tables \<Rightarrow> string list \<Rightarrow> (u64 \<Rightarrow> u8) \<Rightarrow> u8 list \<Rightarrow> os \<Rightarrow> proc \<Rightarrow> (bool \<times> proc) option" where
  "shiva_analyze_find_calls t ud_mnemonics_str junk stdin os p =
     (let ctx = p_ctx p; current_address = disas_base ctx in
      case elf_section_by_name (ctx_elfobj ctx) ''.text'' of
        None \<Rightarrow> Some (False, p)
      | Some section \<Rightarrow>
          let bits = (if elf_class64 (ctx_elfobj ctx) then 64 else 32);
              text = read_bytes (p_mem p) (disas_textptr ctx) (unat (sec_size section))
          in find_calls_loop t ud_mnemonics_str junk os current_address
               (p\<lparr>p_ud := sweep_ud stdin text (unat (sec_size section)) bits\<rparr>))"

definition shiva_analyze_run ::
  "ud_tables \<Rightarrow> string list \<Rightarrow> (u64 \<Rightarrow> u8) \<Rightarrow> u8 list \<Rightarrow> os \<Rightarrow> proc \<Rightarrow> (bool \<times> proc) option" where
  "shiva_analyze_run t ud_mnemonics_str junk stdin os p =
     shiva_analyze_find_calls t ud_mnemonics_str junk stdin os p"

section \<open>What it computes\<close>

text \<open>The symbol of a target, without the allocations.\<close>

definition target_symbol :: "elfobj \<Rightarrow> u64 \<Rightarrow> elf_symbol \<times> u64" where
  "target_symbol obj a =
     (case elf_symbol_by_value_lookup obj a of
        Some s \<Rightarrow> (s, 0)
      | None \<Rightarrow>
          (case filter (\<lambda>e. plt_addr e = a) (elf_plts obj) of
             [] \<Rightarrow> (\<lparr>sym_name = take 511 (''fn_'' @ fmt_alt_x a), sym_value = a, sym_size = 0,
                     sym_type = STT_FUNC, sym_bind = STB_GLOBAL\<rparr>, 0)
           | e # es \<Rightarrow> (\<lparr>sym_name = take 511 (plt_symname (last (e # es)) @ ''@plt''), sym_value = 0,
                         sym_size = 0, sym_type = STT_FUNC, sym_bind = STB_GLOBAL\<rparr>,
                        SHIVA_BRANCH_F_PLTCALL)))"

text \<open>The branch site of the call at an address, from the bytes of the instruction: the target is the
  signed displacement from the end of the instruction, of which the low 32 bits are kept.\<close>

definition site_of_call :: "elfobj \<Rightarrow> u64 \<times> u8 list \<Rightarrow> shiva_branch_site" where
  "site_of_call obj i =
     (let target = (fst i + 5 + scast (le_val (take 4 (drop 1 (snd i))) :: u32)) AND 0xffffffff;
          (s, fl) = target_symbol obj target
      in \<lparr>bs_symbol = s, branch_type = SHIVA_BRANCH_CALL, branch_flags = fl, target_vaddr = target,
          branch_site = fst i, bs_retaddr = fst i + 5\<rparr>)"

text \<open>A linear sweep: the instructions with their addresses and bytes, each as long as the decoder
  says and starting where the one before ends.\<close>

inductive linear_sweep :: "ud_tables \<Rightarrow> string list \<Rightarrow> (u64 \<Rightarrow> u8) \<Rightarrow> u64 \<Rightarrow> ud \<Rightarrow>
    (u64 \<times> u8 list) list \<Rightarrow> bool" for t mn junk where
  sweep_end: "ud_disassemble t mn (junk a) u = Some (0, u') \<Longrightarrow> linear_sweep t mn junk a u []"
| sweep_insn: "ud_disassemble t mn (junk a) u = Some (n, u') \<Longrightarrow> 0 < n \<Longrightarrow>
    linear_sweep t mn junk (a + of_nat n) u' insns \<Longrightarrow>
    linear_sweep t mn junk a u ((a, take n (ud_insn_ptr u')) # insns)"

definition is_rel_call :: "u64 \<times> u8 list \<Rightarrow> bool" where
  "is_rel_call i \<longleftrightarrow> length (snd i) = 5 \<and> hd (snd i) = 0xe8"

inductive_cases linear_sweepE: "linear_sweep t mn junk a u insns"

section \<open>One instruction\<close>

text \<open>Reading the displacement as an unsigned number does not change the low 32 bits.\<close>

lemma take_bit_scast: "take_bit 32 (scast (v :: u32) :: u64) = ucast v"
proof (rule bit_word_eqI)
  fix n assume "n < LENGTH(64)"
  show "bit (take_bit 32 (scast v :: u64)) n \<longleftrightarrow> bit (ucast v :: u64) n"
    using bit_imp_le_length [of v n] by (cases "n < 31"; cases "n = 31") (auto simp: bit_simps)
qed

lemma call_target_low: "((a :: u64) + ucast (v :: u32) + 5) AND 0xffffffff = (a + 5 + scast v) AND 0xffffffff"
proof -
  have m: "x AND 0xffffffff = take_bit 32 x" for x :: u64
    by (simp add: take_bit_eq_mask mask_eq_exp_minus_1)
  have add: "take_bit 32 (x + y) = take_bit 32 (x + take_bit 32 y)" for x y :: u64
    by transfer (simp add: take_bit_eq_mod mod_simps)
  have "take_bit 32 ((a + 5) + ucast v) = take_bit 32 ((a + 5) + take_bit 32 (scast v))"
    by (simp add: take_bit_scast)
  also have "\<dots> = take_bit 32 ((a + 5) + scast v)" by (simp only: add [of "a + 5" "scast v"])
  finally show ?thesis by (simp add: m ac_simps)
qed

lemma xfmtstrdup_ok:
  assumes "malloc_ok os"
  shows "\<exists>a k. shiva_xfmtstrdup os s p = Some (a, take 511 s, p\<lparr>p_calls := k\<rparr>)"
proof -
  obtain a where "sys_malloc os (of_nat (length (take 511 s)) + 1) p = (Some a, p\<lparr>p_calls := Suc (p_calls p)\<rparr>)"
    using sys_malloc_ok [OF assms] by blast
  then show ?thesis by (auto simp: shiva_xfmtstrdup_def shiva_strdup_def snprintf_text_def)
qed

text \<open>The symbol the loop over the linkage table ends with.\<close>

definition plt_symbol :: "string \<Rightarrow> elf_symbol" where
  "plt_symbol nm = \<lparr>sym_name = take 511 (nm @ ''@plt''), sym_value = 0, sym_size = 0,
     sym_type = STT_FUNC, sym_bind = STB_GLOBAL\<rparr>"

lemma plt_call_loop_last:
  assumes "malloc_ok os"
  shows "\<exists>k. plt_call_loop os a es found p =
     Some (if filter (\<lambda>e. plt_addr e = a) es = [] then found
           else Some (plt_symbol (plt_symname (last (filter (\<lambda>e. plt_addr e = a) es)))), p\<lparr>p_calls := k\<rparr>)"
proof (induction es arbitrary: found p)
  case Nil
  show ?case by (intro exI [of _ "p_calls p"]) simp
next
  case (Cons e es)
  show ?case
  proof (cases "plt_addr e = a")
    case True
    obtain b k where dup: "shiva_xfmtstrdup os (plt_symname e @ ''@plt'') p =
        Some (b, take 511 (plt_symname e @ ''@plt''), p\<lparr>p_calls := k\<rparr>)"
      using xfmtstrdup_ok [OF assms] by blast
    obtain j where "plt_call_loop os a es (Some (plt_symbol (plt_symname e))) (p\<lparr>p_calls := k\<rparr>) =
       Some (if filter (\<lambda>e. plt_addr e = a) es = [] then Some (plt_symbol (plt_symname e))
           else Some (plt_symbol (plt_symname (last (filter (\<lambda>e. plt_addr e = a) es)))), p\<lparr>p_calls := j\<rparr>)"
      using Cons.IH [of "Some (plt_symbol (plt_symname e))" "p\<lparr>p_calls := k\<rparr>"] by auto
    with True dup show ?thesis
      by (intro exI [of _ j]) (simp add: plt_symbol_def zero_symbol_def)
  next
    case False
    obtain k where "plt_call_loop os a es found p =
       Some (if filter (\<lambda>e. plt_addr e = a) es = [] then found
           else Some (plt_symbol (plt_symname (last (filter (\<lambda>e. plt_addr e = a) es)))), p\<lparr>p_calls := k\<rparr>)"
      using Cons.IH [of found p] by blast
    then show ?thesis using False by (intro exI [of _ k]) simp
  qed
qed

lemma call_symbol_target:
  assumes "malloc_ok os"
  shows "\<exists>k. call_symbol os obj a p = Some (fst (target_symbol obj a), snd (target_symbol obj a), p\<lparr>p_calls := k\<rparr>)"
proof (cases "elf_symbol_by_value_lookup obj a")
  case (Some s)
  then show ?thesis by (intro exI [of _ "p_calls p"]) (simp add: call_symbol_def target_symbol_def)
next
  case None
  define es where "es = filter (\<lambda>e. plt_addr e = a) (elf_plts obj)"
  obtain k where loop: "plt_call_loop os a (elf_plts obj) None p =
      Some (if es = [] then None else Some (plt_symbol (plt_symname (last es))), p\<lparr>p_calls := k\<rparr>)"
    using plt_call_loop_last [OF assms, of a "elf_plts obj" None p] by (auto simp: es_def)
  show ?thesis
  proof (cases es)
    case Nil
    obtain b j where "shiva_xfmtstrdup os (''fn_'' @ fmt_alt_x a) (p\<lparr>p_calls := k\<rparr>) =
        Some (b, take 511 (''fn_'' @ fmt_alt_x a), p\<lparr>p_calls := k\<rparr>\<lparr>p_calls := j\<rparr>)"
      using xfmtstrdup_ok [OF assms] by blast
    with None loop Nil show ?thesis
      by (intro exI [of _ j]) (simp add: call_symbol_def target_symbol_def es_def [symmetric] zero_symbol_def)
  next
    case (Cons e es')
    with None loop show ?thesis
      by (intro exI [of _ k]) (simp add: call_symbol_def target_symbol_def es_def [symmetric] plt_symbol_def)
  qed
qed

text \<open>The branch sites recorded for an instruction, and the process after.\<close>

definition add_sites :: "shiva_branch_site list \<Rightarrow> nat \<Rightarrow> ud \<Rightarrow> proc \<Rightarrow> proc" where
  "add_sites bs k u p =
     p\<lparr>p_ctx := (p_ctx p)\<lparr>branch_tqlist := branch_tqlist (p_ctx p) @ bs\<rparr>, p_calls := k, p_ud := u\<rparr>"

lemma add_sites_add_sites [simp]: "add_sites cs j v (add_sites bs k u p) = add_sites (bs @ cs) j v p"
  by (simp add: add_sites_def)

lemma add_sites_ctx [simp]:
  "ctx_elfobj (p_ctx (add_sites bs k u p)) = ctx_elfobj (p_ctx p)" "p_ud (add_sites bs k u p) = u"
  by (simp_all add: add_sites_def)

lemma analyze_insn_step:
  assumes "malloc_ok os" and ptr: "ud_insn_ptr (p_ud p) \<noteq> []" "n \<le> length (ud_insn_ptr (p_ud p))" "0 < n"
    and n: "ud_insn_len (p_ud p) = n"
    and e8: "hd (ud_insn_ptr (p_ud p)) = 0xe8 \<Longrightarrow> mnemonic (p_ud p) = UD_Icall \<longleftrightarrow> n = 5"
  shows "\<exists>k. analyze_insn os a p =
     Some (True, add_sites (map (site_of_call (ctx_elfobj (p_ctx p)))
       (filter is_rel_call [(a, take n (ud_insn_ptr (p_ud p)))])) k (p_ud p) p)"
proof -
  define bs where "bs = ud_insn_ptr (p_ud p)"
  have hd: "bs ! 0 = hd bs" using ptr(1) by (simp add: hd_conv_nth bs_def)
  have rel: "is_rel_call (a, take n bs) \<longleftrightarrow> hd bs = 0xe8 \<and> n = 5"
    using ptr by (auto simp: is_rel_call_def bs_def)
  show ?thesis
  proof (cases "mnemonic (p_ud p) = UD_Icall \<and> hd bs = 0xe8")
    case False
    then have "\<not> is_rel_call (a, take n bs)" using rel e8 by (auto simp: bs_def)
    with False show ?thesis
      using ptr(1) hd
      by (intro exI [of _ "p_calls p"])
        (auto simp: analyze_insn_def Let_def ud_insn_mnemonic_def add_sites_def bs_def)
  next
    case True
    then have n5: "n = 5" "is_rel_call (a, take n bs)" "5 \<le> length bs" using rel e8 ptr(2) by (auto simp: bs_def)
    define v where "v = (le_val (take 4 (drop 1 bs)) :: u32)"
    define target where "target = (a + ucast v + 5) AND 0xffffffff"
    have low: "target = (a + 5 + scast v) AND 0xffffffff" unfolding target_def by (rule call_target_low)
    obtain m where m: "sys_malloc os (os_sizeof os ''shiva_branch_site'') p = (Some m, p\<lparr>p_calls := Suc (p_calls p)\<rparr>)"
      using sys_malloc_ok [OF assms(1)] by blast
    obtain k where k: "call_symbol os (ctx_elfobj (p_ctx p)) target (p\<lparr>p_calls := Suc (p_calls p)\<rparr>) =
        Some (fst (target_symbol (ctx_elfobj (p_ctx p)) target), snd (target_symbol (ctx_elfobj (p_ctx p)) target),
              p\<lparr>p_calls := Suc (p_calls p)\<rparr>\<lparr>p_calls := k\<rparr>)"
      using call_symbol_target [OF assms(1)] by blast
    have "take 4 (drop 1 (take n bs)) = take 4 (drop 1 bs)" using n5(1) by (simp add: drop_take)
    then have site: "site_of_call (ctx_elfobj (p_ctx p)) (a, take n bs) =
       \<lparr>bs_symbol = fst (target_symbol (ctx_elfobj (p_ctx p)) target), branch_type = SHIVA_BRANCH_CALL,
        branch_flags = snd (target_symbol (ctx_elfobj (p_ctx p)) target), target_vaddr = target,
        branch_site = a, bs_retaddr = a + 5\<rparr>"
      by (simp add: site_of_call_def low v_def Let_def case_prod_beta)
    have "analyze_insn os a p = Some (True, add_sites [site_of_call (ctx_elfobj (p_ctx p)) (a, take n bs)] k (p_ud p) p)"
      using True m k n n5 ptr(1) hd site
      by (simp add: analyze_insn_def Let_def ud_insn_mnemonic_def add_sites_def bs_def [symmetric]
          v_def [symmetric] target_def [symmetric] del: One_nat_def)
    then show ?thesis using n5(2) by (auto simp: bs_def)
  qed
qed

section \<open>The sweep\<close>

definition sweep_inv :: "ud \<Rightarrow> bool" where
  "sweep_inv u \<longleftrightarrow> disas_inv u \<and> inp_buf u \<noteq> None \<and> dis_mode u = 64"

lemma sweep_ud_inv:
  "sweep_inv (sweep_ud stdin text (length text) 64)" "inp_rest (sweep_ud stdin text (length text) 64) = text"
  "\<not> inp_end (sweep_ud stdin text (length text) 64)"
  by (simp_all add: sweep_inv_def sweep_ud_def disas_inv_def mode_ok_def ud_set_syntax_def ud_set_mode_def
      ud_set_input_buffer_def ud_inp_init_def ud_init_def ud_set_asm_buffer_def ud_set_input_file_def
      ud_set_pc_def ud_set_input_hook_def input_inv_def inp_rest_def)

context call_opcode_tables
begin

lemmas sweep_tables = tables entries e8 invalid

text \<open>One step of the sweep.\<close>

lemma sweep_step:
  assumes u: "sweep_inv u"
  obtains u' where "ud_disassemble t mn j u = Some (0, u')" "inp_end u \<or> inp_rest u = []"
  | n u' where "ud_disassemble t mn j u = Some (n, u')" "0 < n" "ud_insn_len u' = n" "sweep_inv u'"
      "n \<le> length (ud_insn_ptr u')" "take n (ud_insn_ptr u') = take n (inp_rest u)"
      "inp_rest u' = drop n (inp_rest u)" "n \<le> length (inp_rest u)" "\<not> inp_end u"
      "inp_end u' \<Longrightarrow> inp_rest u' = []"
      "hd (ud_insn_ptr u') = 0xe8 \<Longrightarrow> mnemonic u' = UD_Icall \<longleftrightarrow> n = 5"
proof (cases "inp_end u")
  case True
  then show ?thesis using that(1) by (simp add: ud_disassemble_end)
next
  case False
  note ok = sweep_tables
  have inv: "disas_inv u" "input_inv u" using u by (simp_all add: sweep_inv_def disas_inv_def)
  obtain n v u' where s: "ud_disassemble t mn j u = Some (n, u')" "ud_decode t j u = Some (n, v)"
    "u' = v \<or> printed v u'" "disas_inv u'" "inp_buf u' = inp_buf u" "inp_buf_size u' = inp_buf_size u"
    "inp_ctr u' = n"
    by (rule ud_disassemble_step [OF ok(1,2) inv(1) False, of mn j])
  note r = ud_decode_result [OF ok(1) inv(2) s(2)]
  note frame = ud_decode_frame [OF ok(1) inv(2) s(2)]
  have same: "mnemonic u' = mnemonic v" "inp_rest u' = inp_rest v" "dis_mode u' = dis_mode v"
      "inp_end u' = inp_end v" "inp_buf_index u' = inp_buf_index v"
    using s(3) printed_fields by metis+
  obtain buf where buf: "inp_buf u = Some buf" using u by (auto simp: sweep_inv_def)
  have rest: "inp_rest u = take (inp_buf_size u - inp_buf_index u) (drop (inp_buf_index u) buf)"
    using buf by (simp add: inp_rest_def drop_take)
  have ptr: "ud_insn_ptr u' = drop (inp_buf_index u) buf"
    using s(5,7) same r(10) buf by (simp add: ud_insn_ptr_def)
  show ?thesis
  proof (cases "n = 0")
    case True
    then have "inp_rest u = []" using r(8) False by blast
    then show ?thesis using that(1) s(1) True by simp
  next
    case n: False
    have len: "n \<le> inp_buf_size u - inp_buf_index u" "n \<le> length (ud_insn_ptr u')"
      using r(3) rest ptr by auto
    have tk: "take n (ud_insn_ptr u') = take n (inp_rest u)" using len ptr rest by (simp add: min_def)
    have e8: "mnemonic u' = UD_Icall \<longleftrightarrow> n = 5" if "hd (ud_insn_ptr u') = 0xe8"
    proof -
      have "inp_rest u \<noteq> []" using r(3) n by auto
      then have "hd (inp_rest u) = hd (take n (inp_rest u))" using n by simp
      also have "\<dots> = hd (ud_insn_ptr u')" using tk [symmetric] n by simp
      finally have "inp_rest u = 0xe8 # tl (inp_rest u)"
        using \<open>inp_rest u \<noteq> []\<close> that by (metis list.collapse)
      then have "buffered u (0xe8 # tl (inp_rest u))"
        using buf False inv by (simp add: buffered_def)
      then show ?thesis
        using e8_is_call [OF ok(1,3,4) _ _ s(2)] u same by (simp add: sweep_inv_def)
    qed
    have "sweep_inv u'" using u s(4,5) same frame(1) by (simp add: sweep_inv_def)
    then show ?thesis
      using that(2) [OF s(1) _ _ _ len(2) tk _ r(3) False _ e8] n s(7) same r(4,9) False
      by (simp add: ud_insn_len_def)
  qed
qed

lemma find_calls_loop_sweep:
  assumes malloc: "malloc_ok os" and "sweep_inv (p_ud p)" and "inp_end (p_ud p) \<Longrightarrow> inp_rest (p_ud p) = []"
  shows "\<exists>insns k u. linear_sweep t mn junk a (p_ud p) insns \<and> concat (map snd insns) = inp_rest (p_ud p) \<and>
     find_calls_loop t mn junk os a p =
       Some (True, add_sites (map (site_of_call (ctx_elfobj (p_ctx p))) (filter is_rel_call insns)) k u p)"
  using assms(2,3)
proof (induction "length (inp_rest (p_ud p))" arbitrary: a p rule: less_induct)
  case less
  show ?case
  proof (rule sweep_step [OF less.prems(1), of mn "junk a"])
    fix u'
    assume d: "ud_disassemble t mn (junk a) (p_ud p) = Some (0, u')" "inp_end (p_ud p) \<or> inp_rest (p_ud p) = []"
    then have "find_calls_loop t mn junk os a p = Some (True, add_sites [] (p_calls p) u' p)"
      by (simp add: find_calls_loop.simps add_sites_def)
    then show ?thesis using sweep_end [of t mn junk a, OF d(1)] d(2) less.prems(2) by (intro exI [of _ "[]"]) auto
  next
    fix n u'
    assume d: "ud_disassemble t mn (junk a) (p_ud p) = Some (n, u')" "0 < n" "ud_insn_len u' = n" "sweep_inv u'"
      "n \<le> length (ud_insn_ptr u')" "take n (ud_insn_ptr u') = take n (inp_rest (p_ud p))"
      "inp_rest u' = drop n (inp_rest (p_ud p))" "n \<le> length (inp_rest (p_ud p))"
      "inp_end u' \<Longrightarrow> inp_rest u' = []"
      "hd (ud_insn_ptr u') = 0xe8 \<Longrightarrow> mnemonic u' = UD_Icall \<longleftrightarrow> n = 5"
    define obj where "obj = ctx_elfobj (p_ctx p)"
    define i where "i = (a, take n (ud_insn_ptr u'))"
    define p1 where "p1 = p\<lparr>p_ud := u'\<rparr>"
    have "ud_insn_ptr u' \<noteq> []" using d(2,5) by auto
    then obtain k where k: "analyze_insn os a p1 =
        Some (True, add_sites (map (site_of_call obj) (filter is_rel_call [i])) k u' p1)"
      using analyze_insn_step [OF malloc, of p1 n a] d by (auto simp: p1_def obj_def i_def)
    define q where "q = add_sites (map (site_of_call obj) (filter is_rel_call [i])) k u' p"
    have q: "add_sites (map (site_of_call obj) (filter is_rel_call [i])) k u' p1 = q" "p_ud q = u'"
        "ctx_elfobj (p_ctx q) = obj"
      by (simp_all add: q_def p1_def add_sites_def obj_def)
    have "length (inp_rest (p_ud q)) < length (inp_rest (p_ud p))" using q d(2,7,8) by simp
    then obtain insns j u where rec: "linear_sweep t mn junk (a + of_nat n) u' insns"
        "concat (map snd insns) = inp_rest u'"
        "find_calls_loop t mn junk os (a + of_nat n) q =
           Some (True, add_sites (map (site_of_call obj) (filter is_rel_call insns)) j u q)"
      using less.hyps [of q "a + of_nat n"] d(4,9) q by auto
    have "find_calls_loop t mn junk os a p = find_calls_loop t mn junk os (a + of_nat n) q"
      using d(1-3) k q(1) by (subst find_calls_loop.simps) (simp add: p1_def [symmetric] add_sites_def [of _ _ u' p] q_def)
    also have "\<dots> = Some (True, add_sites (map (site_of_call obj) (filter is_rel_call (i # insns))) j u p)"
      using rec(3) by (simp add: q_def)
    finally have "find_calls_loop t mn junk os a p =
        Some (True, add_sites (map (site_of_call obj) (filter is_rel_call (i # insns))) j u p)" .
    moreover have "linear_sweep t mn junk a (p_ud p) (i # insns)"
      unfolding i_def using sweep_insn [of t mn junk a, OF d(1,2) rec(1)] .
    moreover have "concat (map snd (i # insns)) = inp_rest (p_ud p)"
      using rec(2) d(6,7) by (simp add: i_def)
    ultimately show ?thesis unfolding obj_def by blast
  qed
qed

text \<open>The whole analysis.\<close>

lemma analyze_sweeps:
  assumes "malloc_ok os"
    and "elf_section_by_name (ctx_elfobj (p_ctx p)) ''.text'' = Some sec"
    and "elf_class64 (ctx_elfobj (p_ctx p))"
    and "text = read_bytes (p_mem p) (disas_textptr (p_ctx p)) (unat (sec_size sec))"
  shows "\<exists>insns p'. shiva_analyze_run t mn junk stdin os p = Some (True, p') \<and>
     linear_sweep t mn junk (disas_base (p_ctx p)) (sweep_ud stdin text (length text) 64) insns \<and>
     concat (map snd insns) = text \<and>
     p_ctx p' = (p_ctx p)\<lparr>branch_tqlist := branch_tqlist (p_ctx p) @
       map (site_of_call (ctx_elfobj (p_ctx p))) (filter is_rel_call insns)\<rparr> \<and>
     p_mem p' = p_mem p \<and> p_prot p' = p_prot p"
proof -
  define u0 where "u0 = sweep_ud stdin text (length text) 64"
  obtain insns k u where sweep: "linear_sweep t mn junk (disas_base (p_ctx p)) u0 insns"
      "concat (map snd insns) = text"
    and loop: "find_calls_loop t mn junk os (disas_base (p_ctx p)) (p\<lparr>p_ud := u0\<rparr>) =
       Some (True, add_sites (map (site_of_call (ctx_elfobj (p_ctx p))) (filter is_rel_call insns)) k u p)"
    using find_calls_loop_sweep [OF assms(1), of "p\<lparr>p_ud := u0\<rparr>" mn junk "disas_base (p_ctx p)"]
      sweep_ud_inv [of stdin "text"]
    by (auto simp: u0_def add_sites_def)
  define q where "q = add_sites (map (site_of_call (ctx_elfobj (p_ctx p))) (filter is_rel_call insns)) k u p"
  have "length text = unat (sec_size sec)" using assms(4) by simp
  then have "shiva_analyze_run t mn junk stdin os p = Some (True, q)"
    using assms(2,3) loop
    by (simp add: shiva_analyze_run_def shiva_analyze_find_calls_def u0_def q_def Let_def assms(4) [symmetric])
  with sweep show ?thesis
    by (intro exI [of _ insns] exI [of _ q]) (simp add: u0_def q_def add_sites_def)
qed

end

text \<open>A text section of one call at address 16, whose target has no symbol.\<close>

definition example_text :: "u8 list" where "example_text = [0xe8, 0xf0, 0xff, 0xff, 0xff]"

definition example_text_section :: elf_section where
  "example_text_section = \<lparr>sec_name = ''.text'', sec_flags = 0, sec_size = 5, sec_offset = 0, sec_address = 16,
     sec_entsize = 0\<rparr>"

definition example_analyze_proc :: proc where
  "example_analyze_proc = zero_proc\<lparr>p_mem := write_bytes (\<lambda>_. 0) 0x1000 example_text,
     p_ctx := zero_ctx\<lparr>disas_textptr := 0x1000, disas_base := 16,
       ctx_elfobj := null_elfobj\<lparr>elf_class64 := True,
         elf_section_by_name := (\<lambda>_. Some example_text_section)\<rparr>\<rparr>\<rparr>"

definition example_analyze_os :: os where
  "example_analyze_os = \<lparr>os_malloc = (\<lambda>_ _. Some 0x5000), os_mmap = (\<lambda>_ _ _ _ _. None),
     os_mprotect = (\<lambda>_ _ _ _. False), os_file = (\<lambda>_. None), os_realpath_exe = None,
     os_access = (\<lambda>_. False), os_open_object = (\<lambda>_. None), os_hash_slots = 0, os_sizeof = (\<lambda>_. 64)\<rparr>"

end
