(* ===== verification/Shiva_Main.thy ===== *)
theory Shiva_Main
  imports Analyze Auxv Module Ulexec
begin

text \<open>
  \<^verbatim>\<open>shiva.c\<close>: the two ways Shiva runs. As the program interpreter of a target it analyzes the target,
  runs the module and hands over to the dynamic linker on a fresh stack; from the command line it
  loads the target itself first. Messages are left out. What the sources leave open (the opcode
  tables, uninitialised variables, the registers at the hand-over, the content of standard input, the
  code of the module) is the record \<open>main_env\<close>.
\<close>

record main_env =
  me_tables :: ud_tables
  me_mnemonics :: "string list"
  me_curr :: "u64 \<Rightarrow> u8"
  me_stdin :: "u8 list"
  me_link :: link_env
  me_run :: "u64 \<Rightarrow> shiva_module \<Rightarrow> proc \<Rightarrow> proc option"
  me_map_base :: u64
  me_entry_point :: u64
  me_load_base :: u64
  me_load :: "u64 \<times> u64 \<times> u64"
  me_regs :: shiva_trace_regset_x86_64

section \<open>How a run ends\<close>

datatype outcome = Returned bool | Exited nat | Transferred shiva_trace_regset_x86_64

text \<open>\<open>SHIVA_ULEXEC_LDSO_TRANSFER\<close> on the registers \<open>r\<close>: the stack pointer is set and the address pushed,
  the entry point goes to \<open>rax\<close>, six registers are cleared, and \<open>ret\<close> pops the address.\<close>

definition ldso_transfer ::
  "shiva_trace_regset_x86_64 \<Rightarrow> u64 \<Rightarrow> u64 \<Rightarrow> u64 \<Rightarrow> proc \<Rightarrow> (outcome \<times> proc) option" where
  "ldso_transfer r stack addr entry p = do {
     let r = r\<lparr>r_rsp := stack\<rparr>;
     let r = r\<lparr>r_rsp := r_rsp r - 8\<rparr>;
     p \<leftarrow> p_write (r_rsp r) (le_bytes 8 addr) p;
     let r = r\<lparr>r_rax := entry, r_rbx := 0, r_rcx := 0, r_rdx := 0, r_rsi := 0, r_rdi := 0, r_rbp := 0\<rparr>;
     Some (Transferred (r\<lparr>r_rip := load64 (p_mem p) (r_rsp r), r_rsp := r_rsp r + 8\<rparr>), p)
   }"

section \<open>Setting up\<close>

abbreviation set_ctx :: "(shiva_ctx \<Rightarrow> shiva_ctx) \<Rightarrow> proc \<Rightarrow> proc" where
  "set_ctx f p \<equiv> p\<lparr>p_ctx := f (p_ctx p)\<rparr>"

definition shiva_init_lists :: "shiva_ctx \<Rightarrow> shiva_ctx" where
  "shiva_init_lists ctx =
     ctx\<lparr>mmap_tqlist := [], thread_tqlist := [], branch_tqlist := [], trace_handlers_tqlist := []\<rparr>"

definition shiva_build_trace_data :: "os \<Rightarrow> proc \<Rightarrow> bool \<times> proc" where
  "shiva_build_trace_data os p =
     (case os_open_object os (ctx_path (p_ctx p)) of
        None \<Rightarrow> (False, p)
      | Some obj \<Rightarrow>
          let p = set_ctx (\<lambda>ctx. ctx\<lparr>ctx_elfobj := obj\<rparr>) p in
          (case elf_section_by_name obj ''.text'' of
             None \<Rightarrow> (False, p)
           | Some section \<Rightarrow>
               (case elf_address_pointer obj (sec_address section) of
                  None \<Rightarrow> (False, set_ctx (\<lambda>ctx. ctx\<lparr>disas_textptr := 0\<rparr>) p)
                | Some a \<Rightarrow> (True, set_ctx (\<lambda>ctx. ctx\<lparr>disas_textptr := a, disas_base := sec_address section\<rparr>) p))))"

definition test_mark :: nat where
  "test_mark = (let i = (1 :: int) in if i < 1 then 1 else 0)"

text \<open>The string a pointer of the argument vector points to.\<close>

definition arg_pointer :: "proc \<Rightarrow> u64 \<Rightarrow> nat \<Rightarrow> u64" where
  "arg_pointer p argv i = load64 (p_mem p) (argv + 8 * of_nat i)"

definition arg_string :: "proc \<Rightarrow> u64 \<Rightarrow> nat \<Rightarrow> string option" where
  "arg_string p argv i = map_option (map byte_char) (cstr (p_mem p) (arg_pointer p argv i))"

fun dup_args :: "os \<Rightarrow> u64 \<Rightarrow> nat \<Rightarrow> nat \<Rightarrow> proc \<Rightarrow> (string list \<times> proc) option" where
  "dup_args os argv i 0 p = Some ([], p)"
| "dup_args os argv i (Suc n) p = do {
     s \<leftarrow> arg_string p argv i;
     (_, s, p) \<leftarrow> shiva_strdup os s p;
     (ss, p) \<leftarrow> dup_args os argv (Suc i) n p;
     Some (s # ss, p)
   }"

text \<open>The array has room for \<open>argc - addend\<close> pointers, so the null pointer that ends it is written
  into the memory behind it.\<close>

definition shiva_build_target_argv :: "os \<Rightarrow> u64 \<Rightarrow> nat \<Rightarrow> proc \<Rightarrow> (bool \<times> proc) option" where
  "shiva_build_target_argv os argv argc p = do {
     let addend = (if p_mem p (arg_pointer p argv 1) \<noteq> char_byte (CHR ''-'') then 1 else 2 :: nat);
     path \<leftarrow> arg_string p argv addend;
     (path_ptr, path, p) \<leftarrow> shiva_strdup os path p;
     let p = set_ctx (\<lambda>ctx. ctx\<lparr>ctx_path := path, ctx_path_ptr := path_ptr\<rparr>) p;
     (args, p) \<leftarrow> shiva_malloc os (of_nat ((argc - addend) * 8)) p;
     (strings, p) \<leftarrow> dup_args os argv addend (argc - addend) p;
     p \<leftarrow> p_write (args + 8 * of_nat (argc - addend)) (le_bytes 8 (0 :: u64)) p;
     Some (True, set_ctx (\<lambda>ctx. ctx\<lparr>ctx_args := strings, ctx_argcount := argc - addend,
       ctx_argv := argv + 8 * of_nat addend, ctx_argc := argc - addend\<rparr>) p)
   }"

text \<open>The loops that look for Shiva's own mapping; the entry keeps the last mapping when there is no
  such one, and is uninitialised when there is no mapping at all.\<close>

definition find_shiva_base :: "main_env \<Rightarrow> (shiva_mmap_entry \<Rightarrow> bool) \<Rightarrow> proc \<Rightarrow> proc option" where
  "find_shiva_base env P p = do {
     entry \<leftarrow> iter_scan maps_nxt P None (shiva_maps_iterator_init (p_ctx p));
     let base = (case entry of None \<Rightarrow> me_map_base env | Some e \<Rightarrow> map_base e);
     Some (set_ctx (\<lambda>ctx. ctx\<lparr>ctx_shiva_base := base\<rparr>) p)
   }"

definition analyze :: "main_env \<Rightarrow> os \<Rightarrow> proc \<Rightarrow> (bool \<times> proc) option" where
  "analyze env os p = shiva_analyze_run (me_tables env) (me_mnemonics env) (me_curr env) (me_stdin env) os p"

text \<open>The call of the module loader, with its store through \<open>linkerptr\<close>.\<close>

definition load_runtime :: "main_env \<Rightarrow> os \<Rightarrow> proc \<Rightarrow> (bool \<times> proc) option" where
  "load_runtime env os p = do {
     (ok, l, p) \<leftarrow> shiva_module_loader os (me_link env) (me_run env)
                      ''/opt/shiva/modules/shakti_runtime.o'' SHIVA_MODULE_F_RUNTIME p;
     Some (ok, case l of None \<Rightarrow> p | Some _ \<Rightarrow> set_ctx (\<lambda>ctx. ctx\<lparr>module_runtime := l\<rparr>) p)
   }"

definition SHIVA_LDSO_PATH :: string where "SHIVA_LDSO_PATH = ''/lib64/ld-linux-x86-64.so.2''"

section \<open>Interpreter mode\<close>

text \<open>The entry point of the target from the auxiliary vector, uninitialised when it has none.\<close>

definition find_entry_point :: "main_env \<Rightarrow> mem \<Rightarrow> shiva_auxv_iterator \<Rightarrow> u64 option" where
  "find_entry_point env m iter = do {
     e \<leftarrow> iter_find (auxv_nxt m) (\<lambda>(ty, v). ty = ucast AT_ENTRY) iter;
     Some (case e of None \<Rightarrow> me_entry_point env | Some (_, v) \<Rightarrow> v)
   }"

text \<open>The new stack: a copy of the old one from the argument count to the end of its page. A mapping that
  fails is the failed assertion of \<open>shiva_ulexec_allocstack\<close>; the test of its result against the null
  pointer is left out, the end of a mapping being none.\<close>

definition interp_stack :: "os \<Rightarrow> proc \<Rightarrow> (u64 \<times> proc) option" where
  "interp_stack os p = do {
     (n_stack, p) \<leftarrow> shiva_ulexec_allocstack os p;
     let o_stack_addr = ctx_argv (p_ctx p) - 8;
     let o_stack_end = ELF_PAGEALIGN o_stack_addr 0x1000;
     let copy_len = o_stack_end - o_stack_addr;
     let n_stack = n_stack - copy_len;
     p \<leftarrow> p_write n_stack (read_bytes (p_mem p) o_stack_addr (unat copy_len)) p;
     Some (n_stack, p)
   }"

text \<open>From the loaded module to the dynamic linker.\<close>

definition interp_handover :: "main_env \<Rightarrow> os \<Rightarrow> proc \<Rightarrow> (outcome \<times> proc) option" where
  "interp_handover env os p =
     (if elf_type (ctx_elfobj (p_ctx p)) \<noteq> ET_DYN then Some (Returned False, p)
      else case os_open_object os SHIVA_LDSO_PATH of
        None \<Rightarrow> Some (Returned False, p)
      | Some ld \<Rightarrow>
          let p = set_ctx (\<lambda>ctx. ctx\<lparr>ctx_ldsobj := ld\<rparr>) p in do {
            (ok, p) \<leftarrow> shiva_ulexec_load_elf_binary os (me_load_base env) (me_load env) ld True p;
            if \<not> ok then Some (Returned False, p)
            else do {
              iter \<leftarrow> shiva_auxv_iterator_init p 0;
              (case iter of
                 None \<Rightarrow> Some (Returned False, p)
               | Some iter \<Rightarrow> do {
                   entry_point \<leftarrow> find_entry_point env (p_mem p) iter;
                   (rsp, p) \<leftarrow> interp_stack os p;
                   ldso_transfer (me_regs env) rsp (ldso_entry_point (ulexec (p_ctx p))) entry_point p
                 })
            }
          })"

definition shiva_interp_mode :: "main_env \<Rightarrow> os \<Rightarrow> proc \<Rightarrow> (outcome \<times> proc) option" where
  "shiva_interp_mode env os p =
     (let (ok, p) = shiva_build_trace_data os (set_ctx shiva_init_lists p) in
      if \<not> ok then Some (Returned False, p)
      else do {
        (ok, p) \<leftarrow> analyze env os p;
        if \<not> ok then Some (Returned False, p)
        else do {
          (ok, p) \<leftarrow> shiva_maps_build_list os p;
          if \<not> ok then Some (Returned False, p)
          else do {
            p \<leftarrow> find_shiva_base env (\<lambda>e. mmap_type e = SHIVA_MMAP_TYPE_SHIVA) p;
            (case shiva_maps_get_base (p_ctx p) (proc_maps os) of
               Inl _ \<Rightarrow> None
             | Inr None \<Rightarrow> Some (Returned False, p)
             | Inr (Some base) \<Rightarrow> do {
                 (ok, p) \<leftarrow> load_runtime env os (set_ulexec (\<lambda>u. u\<lparr>ul_base_vaddr := base\<rparr>) p);
                 if \<not> ok then Some (Returned False, p) else interp_handover env os p
               })
          }
        }
      })"

section \<open>The program\<close>

text \<open>The letters behind the dash of the first argument.\<close>

fun main_options :: "string \<Rightarrow> u64 \<Rightarrow> u64" where
  "main_options [] fl = fl"
| "main_options (c # cs) fl =
     main_options cs (if c = CHR ''u'' then fl OR SHIVA_OPTS_F_ULEXEC_ONLY else fl)"

text \<open>From the arguments on.\<close>

definition main_standalone :: "main_env \<Rightarrow> os \<Rightarrow> nat \<Rightarrow> u64 \<Rightarrow> u64 \<Rightarrow> proc \<Rightarrow> (outcome \<times> proc) option" where
  "main_standalone env os argc argv envp p =
     (if argc < 2 \<or> argc = 2 \<and> p_mem p (arg_pointer p argv 1) = char_byte (CHR ''-'')
      then Some (Exited EXIT_FAILURE, p)
      else do {
        (ok, p) \<leftarrow> shiva_build_target_argv os argv argc (set_ctx (\<lambda>ctx. ctx\<lparr>ctx_envp := envp, ctx_argv := argv\<rparr>) p);
        if \<not> ok then Some (Exited EXIT_FAILURE, p)
        else
          let p = set_ctx shiva_init_lists p in
          if \<not> os_access os (ctx_path (p_ctx p)) then Some (Exited EXIT_FAILURE, p)
          else do {
            arg1 \<leftarrow> arg_string p argv 1;
            let p = (if p_mem p (arg_pointer p argv 1) = char_byte (CHR ''-'')
                     then set_ctx (\<lambda>ctx. ctx\<lparr>ctx_flags := main_options (tl arg1) (ctx_flags ctx)\<rparr>) p else p);
            let (ok, p) = shiva_build_trace_data os p;
            if \<not> ok then Some (Exited EXIT_FAILURE, p)
            else do {
              (ok, p) \<leftarrow> shiva_ulexec_prep os (me_load_base env) (me_load env) p;
              if \<not> ok then Some (Exited EXIT_FAILURE, p)
              else do {
                (ok, p) \<leftarrow> shiva_maps_build_list os p;
                if \<not> ok then Some (Exited EXIT_FAILURE, p)
                else do {
                  p \<leftarrow> find_shiva_base env (\<lambda>e. mmap_type e = SHIVA_MMAP_TYPE_SHIVA \<and> map_prot e = PROT_READ) p;
                  (ok, p) \<leftarrow> analyze env os p;
                  if \<not> ok then Some (Exited EXIT_FAILURE, p)
                  else do {
                    (ok, p) \<leftarrow> (if has_flag (ctx_flags (p_ctx p)) SHIVA_OPTS_F_ULEXEC_ONLY then Some (True, p)
                                else load_runtime env os p);
                    if \<not> ok then Some (Exited EXIT_FAILURE, p)
                    else ldso_transfer (me_regs env) (ul_rsp_start (ulexec (p_ctx p)))
                           (ldso_entry_point (ulexec (p_ctx p))) (ul_entry_point (ulexec (p_ctx p))) p
                  }
                }
              }
            }
          }
      })"

text \<open>\<open>realpath\<close> allocates its result. When interpreter mode returned true the program would go on
  with the command line.\<close>

definition main :: "main_env \<Rightarrow> os \<Rightarrow> nat \<Rightarrow> u64 \<Rightarrow> u64 \<Rightarrow> proc \<Rightarrow> (outcome \<times> proc) option" where
  "main env os argc argv envp p =
     (let p = p\<lparr>p_ctx := zero_ctx\<rparr> in
      case os_realpath_exe os of
        None \<Rightarrow> Some (Exited EXIT_FAILURE, p)
      | Some target_path \<Rightarrow>
          (case sys_malloc os (of_nat (length target_path) + 1) p of
             (None, p) \<Rightarrow> Some (Exited EXIT_FAILURE, p)
           | (Some path_ptr, p) \<Rightarrow>
               (case strrchr target_path (CHR ''/'') of
                  None \<Rightarrow> None
                | Some slash \<Rightarrow>
                    if tl slash \<noteq> ''shiva'' then
                      (let p = set_ctx (\<lambda>ctx. ctx\<lparr>ctx_envp := envp, ctx_argv := argv, ctx_argc := argc,
                                 ctx_path := target_path, ctx_path_ptr := path_ptr,
                                 ctx_flags := ctx_flags ctx OR SHIVA_OPTS_F_INTERP_MODE\<rparr>) p
                       in do {
                         (res, p) \<leftarrow> shiva_interp_mode env os p;
                         (case res of
                            Returned False \<Rightarrow> Some (Exited EXIT_FAILURE, p)
                          | Returned True \<Rightarrow> main_standalone env os argc argv envp p
                          | _ \<Rightarrow> Some (res, p))
                       })
                    else main_standalone env os argc argv envp p)))"

end
