(* ===== verification/Main_Runs.thy ===== *)
theory Main_Runs
  imports Shiva_Main Ulexec_Stack
begin

text \<open>
  What the runs of \<^verbatim>\<open>shiva.c\<close> do: how the program can end, what its argument vector becomes, and
  what the new stack of interpreter mode holds.
\<close>

section \<open>Results of a computation\<close>

text \<open>Every result of a computation that may end the process satisfies a predicate.\<close>

definition yields :: "('a \<Rightarrow> bool) \<Rightarrow> 'a option \<Rightarrow> bool" where
  "yields P m \<longleftrightarrow> (case m of None \<Rightarrow> True | Some x \<Rightarrow> P x)"

lemma yields_simps [simp]: "yields P None" "yields P (Some x) \<longleftrightarrow> P x"
  by (simp_all add: yields_def)

lemma yieldsD: "yields P m \<Longrightarrow> m = Some x \<Longrightarrow> P x"
  by (simp add: yields_def)

lemma yields_bind: "(\<And>x. m = Some x \<Longrightarrow> yields P (f x)) \<Longrightarrow> yields P (Option.bind m f)"
  by (cases m) simp_all

lemma yields_if: "(b \<Longrightarrow> yields P x) \<Longrightarrow> (\<not> b \<Longrightarrow> yields P y) \<Longrightarrow> yields P (if b then x else y)"
  by simp

lemma yields_option: "(m = None \<Longrightarrow> yields P x) \<Longrightarrow> (\<And>a. m = Some a \<Longrightarrow> yields P (f a)) \<Longrightarrow>
    yields P (case m of None \<Rightarrow> x | Some a \<Rightarrow> f a)"
  by (cases m) simp_all

lemma yields_prod: "(\<And>a b. m = (a, b) \<Longrightarrow> yields P (f a b)) \<Longrightarrow> yields P (case m of (a, b) \<Rightarrow> f a b)"
  by (cases m) simp

lemma yields_sum: "(\<And>a. m = Inl a \<Longrightarrow> yields P (f a)) \<Longrightarrow> (\<And>b. m = Inr b \<Longrightarrow> yields P (g b)) \<Longrightarrow>
    yields P (case m of Inl a \<Rightarrow> f a | Inr b \<Rightarrow> g b)"
  by (cases m) simp_all

lemmas yields_rules = yields_bind yields_if yields_option yields_prod yields_sum

section \<open>How the program ends\<close>

text \<open>Whether the executable is named otherwise than \<open>shiva\<close>.\<close>

definition interp_mode :: "os \<Rightarrow> bool" where
  "interp_mode os \<longleftrightarrow>
     (case Option.bind (os_realpath_exe os) (\<lambda>t. strrchr t (CHR ''/'')) of
        None \<Rightarrow> False
      | Some slash \<Rightarrow> tl slash \<noteq> ''shiva'')"

lemma ldso_transferD:
  assumes "ldso_transfer r sp addr entry p = Some (res, p')"
  shows "res = Transferred (r\<lparr>r_rax := entry, r_rbx := 0, r_rcx := 0, r_rdx := 0, r_rsi := 0, r_rdi := 0, r_rbp := 0,
             r_rsp := sp, r_rip := addr\<rparr>) \<and>
    p_ctx p' = p_ctx p \<and> load64 (p_mem p') (sp - 8) = addr"
  using assms
  by (auto simp: ldso_transfer_def Let_def bind_eq_Some_conv p_write_def store64_def [symmetric] load64_store64
      simp del: le_bytes.simps split: if_split_asm)

definition handed_over :: "shiva_trace_regset_x86_64 \<Rightarrow> proc \<Rightarrow> bool" where
  "handed_over r p' \<longleftrightarrow>
     r_rip r = ldso_entry_point (ulexec (p_ctx p')) \<and> load64 (p_mem p') (r_rsp r - 8) = r_rip r \<and>
     list_all (\<lambda>reg. reg r = 0) [r_rbx, r_rcx, r_rdx, r_rsi, r_rdi, r_rbp]"

text \<open>The two kinds of results.\<close>

definition exits_or_standalone :: "outcome \<times> proc \<Rightarrow> bool" where
  "exits_or_standalone x \<longleftrightarrow>
     (case fst x of
        Returned b \<Rightarrow> False
      | Exited n \<Rightarrow> n = EXIT_FAILURE
      | Transferred r \<Rightarrow> handed_over r (snd x) \<and> r_rsp r = ul_rsp_start (ulexec (p_ctx (snd x))) \<and>
          r_rax r = ul_entry_point (ulexec (p_ctx (snd x))))"

definition fails_or_hands_over :: "outcome \<times> proc \<Rightarrow> bool" where
  "fails_or_hands_over x \<longleftrightarrow>
     (case fst x of Returned b \<Rightarrow> \<not> b | Exited n \<Rightarrow> False | Transferred r \<Rightarrow> handed_over r (snd x))"

lemma transfer_standalone:
  "yields exits_or_standalone (ldso_transfer r (ul_rsp_start (ulexec (p_ctx p)))
     (ldso_entry_point (ulexec (p_ctx p))) (ul_entry_point (ulexec (p_ctx p))) p)"
  by (auto simp: yields_def exits_or_standalone_def handed_over_def split: option.split dest!: ldso_transferD)

lemma transfer_handover:
  "yields fails_or_hands_over (ldso_transfer r sp (ldso_entry_point (ulexec (p_ctx p))) entry p)"
  by (auto simp: yields_def fails_or_hands_over_def handed_over_def split: option.split dest!: ldso_transferD)

lemma standalone_ends: "yields exits_or_standalone (main_standalone env os argc argv envp p)"
  unfolding main_standalone_def Let_def
  by (intro yields_rules transfer_standalone) (simp_all add: exits_or_standalone_def)

lemma interp_ends: "yields fails_or_hands_over (shiva_interp_mode env os p)"
  unfolding shiva_interp_mode_def interp_handover_def Let_def
  by (intro yields_rules transfer_handover) (simp_all add: fails_or_hands_over_def)


section \<open>The stack of interpreter mode\<close>

text \<open>The number of bytes from an address to the end of its page, none at a page start.\<close>

definition page_rest :: "u64 \<Rightarrow> nat" where
  "page_rest a = (4096 - unat a mod 4096) mod 4096"

lemma page_rest_align:
  assumes "unat a + 4095 < 2 ^ 64"
  shows "ELF_PAGEALIGN a 4096 - a = of_nat (page_rest a)"
proof -
  define q where "q = unat a div 4096"
  define r where "r = unat a mod 4096"
  have v: "unat a = 4096 * q + r" and "r < 4096" by (simp_all add: q_def r_def)
  have "(unat a + 4095) div 4096 * 4096 = unat a + page_rest a"
  proof (cases "r = 0")
    case False
    then have "(4096 * q + r + 4095) div 4096 = q + 1" using \<open>r < 4096\<close> by (intro div_nat_eqI) auto
    then show ?thesis using False \<open>r < 4096\<close> by (simp add: v page_rest_def)
  qed (simp add: v page_rest_def)
  then have "unat (ELF_PAGEALIGN a 4096) = unat a + page_rest a" using assms by (simp add: unat_ELF_PAGEALIGN)
  then have "of_nat (unat (ELF_PAGEALIGN a 4096)) = (of_nat (unat a + page_rest a) :: u64)" by simp
  then show ?thesis by simp
qed

lemma page_rest_less: "page_rest a < 4096"
  by (simp add: page_rest_def)

text \<open>C24. The stack for the dynamic linker holds, at its top, a copy of the old stack from the
  argument count to the end of that page; nothing outside the new mapping changes. What lies in
  the following pages of the old stack, and everything when the argument count is at a page start,
  is not copied.\<close>

theorem interp_stack_copies:
  assumes "os_mmap os (p_calls p) 0 SHIVA_STACK_SIZE (PROT_READ OR PROT_WRITE)
             (MAP_PRIVATE OR MAP_ANONYMOUS OR MAP_GROWSDOWN) = Some b"
    and "sp = ctx_argv (p_ctx p) - 8" and "unat sp + 4095 < 2 ^ 64" and "separate b 4096000 sp 4096"
  shows "\<exists>new p'. interp_stack os p = Some (new, p') \<and> new + of_nat (page_rest sp) = b + 4096000 \<and>
           read_bytes (p_mem p') new (page_rest sp) = read_bytes (p_mem p) sp (page_rest sp) \<and>
           p_mem p' = (\<lambda>x. if in_region b 4096000 x then p_mem p' x else p_mem p x)"
proof -
  define n where "n = page_rest sp"
  have n: "n < 4096" by (simp add: n_def page_rest_less)
  obtain p1 where p1: "shiva_ulexec_allocstack os p = Some (b + SHIVA_STACK_SIZE, p1)"
      "p_mem p1 = zero_bytes (p_mem p) b 4096000" "ctx_argv (p_ctx p1) = ctx_argv (p_ctx p)"
      "p_prot p1 = (\<lambda>x. if in_region b 4096000 x then PROT_READ OR PROT_WRITE else p_prot p x)"
    using assms(1)
    by (simp add: shiva_ulexec_allocstack_def sys_mmap_def Let_def map_pages_def SHIVA_STACK_SIZE_def PAGE_SIZE_def
        zero_bytes_def fun_eq_iff)
  define new where "new = b + of_nat (4096000 - n)"
  define bs where "bs = read_bytes (p_mem p1) sp n"
  have size: "b + SHIVA_STACK_SIZE - of_nat n = new"
    using n by (simp add: new_def SHIVA_STACK_SIZE_def PAGE_SIZE_def of_nat_diff)
  have inside: "in_region b 4096000 (new + of_nat i)" if "i < n" for i
  proof -
    have "new + of_nat i = b + of_nat (4096000 - n + i)" by (simp add: new_def add.assoc)
    then show ?thesis
      using in_region_offset [of "4096000 - n + i" b 4096000] that n by (simp only:) simp
  qed
  moreover have "has_flag (PROT_READ OR PROT_WRITE) PROT_WRITE" by (simp add: PROT_WRITE_def)
  ultimately have "writable (p_prot p1) new n" by (simp add: writable_def p1(4))
  moreover have "unat (of_nat n :: u64) = n" using n by (simp add: unat_of_nat take_bit_nat_eq_self)
  ultimately have run: "interp_stack os p = Some (new, p1\<lparr>p_mem := write_bytes (p_mem p1) new bs\<rparr>)"
    using p1(1,3) size page_rest_align [OF assms(3)]
    by (simp add: interp_stack_def Let_def assms(2) [symmetric] n_def [symmetric] bs_def p_write_def)
  have "bs = read_bytes (p_mem p) sp n"
    unfolding bs_def
  proof (rule read_bytes_cong)
    fix i assume "i < n"
    then have "in_region sp 4096 (sp + of_nat i)" using n by simp
    then show "p_mem p1 (sp + of_nat i) = p_mem p (sp + of_nat i)"
      using assms(4) by (auto simp: p1(2) zero_bytes_def separate_def)
  qed
  then have "read_bytes (write_bytes (p_mem p1) new bs) new n = read_bytes (p_mem p) sp n"
    using n by (simp add: read_write_bytes)
  moreover have "write_bytes (p_mem p1) new bs x = p_mem p x" if "\<not> in_region b 4096000 x" for x
  proof -
    have "\<not> in_region new n x"
    proof
      assume "in_region new n x"
      then have "x = new + of_nat (unat (x - new))" "unat (x - new) < n" by (simp_all add: in_region_def)
      with inside that show False by metis
    qed
    then show ?thesis
      using that by (simp add: bs_def write_bytes_def p1(2) zero_bytes_def)
  qed
  moreover have "new + of_nat n = b + 4096000" using n by (simp add: new_def of_nat_diff)
  ultimately show ?thesis
    using run by (intro exI [of _ new] exI [of _ "p1\<lparr>p_mem := write_bytes (p_mem p1) new bs\<rparr>"])
      (auto simp: n_def [symmetric] fun_eq_iff)
qed

definition example_interp_proc :: proc where
  "example_interp_proc =
     zero_proc\<lparr>p_mem := write_bytes (\<lambda>_. 0) 0x1f00 [1], p_ctx := zero_ctx\<lparr>ctx_argv := 0x1f08\<rparr>\<rparr>"

theorem interp_stack_copies_witness:
  "\<exists>p'. interp_stack example_stack_os example_interp_proc = Some (0x103e7f00, p') \<and>
     read_bytes (p_mem p') 0x103e7f00 256 = read_bytes (p_mem example_interp_proc) 0x1f00 256"
proof -
  have sep: "separate 0x10000000 4096000 (0x1f00 :: u64) 4096"
    using separate_offsets [of "0x1f00" 4096 "0x10000000" 4096000 0] by (auto simp: separate_def)
  have rest: "page_rest 0x1f00 = 256" by (simp add: page_rest_def)
  have proc: "ctx_argv (p_ctx example_interp_proc) = 0x1f08" "p_calls example_interp_proc = 0"
    by (simp_all add: example_interp_proc_def zero_ctx_def zero_proc_def)
  have mmap: "os_mmap example_stack_os n a len pr fl = Some 0x10000000" for n a len pr fl
    by (simp add: example_stack_os_def)
  obtain new p' where run: "interp_stack example_stack_os example_interp_proc = Some (new, p')"
      "new + 256 = 0x10000000 + 4096000"
      "read_bytes (p_mem p') new 256 = read_bytes (p_mem example_interp_proc) 0x1f00 256"
    using interp_stack_copies [of example_stack_os example_interp_proc "0x10000000" "0x1f00", OF mmap _ _ sep]
    by (auto simp: proc rest)
  have "new = 0x10000000 + 4096000 - 256" using run(2) by (simp only: eq_diff_eq)
  then show ?thesis using run(1,3) by auto
qed

section \<open>The argument vector of the target\<close>

lemma strdup_ok:
  assumes "malloc_ok os"
  shows "\<exists>a. shiva_strdup os s p = Some (a, s, p\<lparr>p_calls := Suc (p_calls p)\<rparr>)"
proof -
  obtain a where "sys_malloc os (of_nat (length s) + 1) p = (Some a, p\<lparr>p_calls := Suc (p_calls p)\<rparr>)"
    using sys_malloc_ok [OF assms] by blast
  then show ?thesis by (simp add: shiva_strdup_def)
qed

lemma arg_string_at:
  assumes "ptrs_at (p_mem p) argv ps" "list_all2 (string_at (p_mem p)) ps args" "i < length args"
  shows "arg_string p argv i = Some (map byte_char (args ! i))" "arg_pointer p argv i = ps ! i"
    "string_at (p_mem p) (ps ! i) (args ! i)"
proof -
  have i: "i < length ps" using assms(2,3) by (simp add: list_all2_lengthD)
  then show "string_at (p_mem p) (ps ! i) (args ! i)" using assms(2) list_all2_nthD by blast
  moreover show "arg_pointer p argv i = ps ! i" using ptrs_at_nth [OF assms(1) i] by (simp add: arg_pointer_def)
  ultimately show "arg_string p argv i = Some (map byte_char (args ! i))"
    by (simp add: arg_string_def cstr_string_at)
qed

lemma dup_args_all:
  assumes "malloc_ok os" "ptrs_at m argv ps" "list_all2 (string_at m) ps args"
    and "p_mem p = m" "i + n = length args"
  shows "\<exists>k. dup_args os argv i n p = Some (map (map byte_char) (drop i args), p\<lparr>p_calls := k\<rparr>)"
  using assms(4,5)
proof (induction n arbitrary: i p)
  case 0
  then show ?case by (intro exI [of _ "p_calls p"]) simp
next
  case (Suc n)
  then have s: "arg_string p argv i = Some (map byte_char (args ! i))"
    using arg_string_at(1) [of p argv ps args i] assms by simp
  obtain a where a: "shiva_strdup os (map byte_char (args ! i)) p =
      Some (a, map byte_char (args ! i), p\<lparr>p_calls := Suc (p_calls p)\<rparr>)" using strdup_ok [OF assms(1)] by blast
  obtain k where "dup_args os argv (Suc i) n (p\<lparr>p_calls := Suc (p_calls p)\<rparr>) =
      Some (map (map byte_char) (drop (Suc i) args), p\<lparr>p_calls := Suc (p_calls p)\<rparr>\<lparr>p_calls := k\<rparr>)"
    using Suc.IH [of "p\<lparr>p_calls := Suc (p_calls p)\<rparr>" "Suc i"] Suc.prems by auto
  moreover have "drop i args = args ! i # drop (Suc i) args" using Suc.prems by (simp add: Cons_nth_drop_Suc)
  ultimately show ?case using s a by (intro exI [of _ k]) simp
qed

text \<open>The position of the target among the arguments: behind an argument that starts with a dash.\<close>

definition target_index :: "u8 list list \<Rightarrow> nat" where
  "target_index args = (if args ! 1 \<noteq> [] \<and> hd (args ! 1) = char_byte (CHR ''-'') then 2 else 1)"

lemma build_target_argv_run:
  assumes "malloc_ok os" "ptrs_at (p_mem p) argv ps" "list_all2 (string_at (p_mem p)) ps args"
    and "target_index args < length args" and "1 < length args" and "\<forall>x. has_flag (p_prot p x) PROT_WRITE"
    and "k = target_index args" "n = length args - k"
  obtains a arr j where "os_malloc os (Suc (p_calls p)) (of_nat (n * 8)) = Some arr"
    "shiva_build_target_argv os argv (length args) p =
       Some (True, p\<lparr>p_calls := j, p_mem := store64 (p_mem p) (arr + of_nat (n * 8)) 0,
         p_ctx := (p_ctx p)\<lparr>ctx_path := map byte_char (args ! k), ctx_path_ptr := a,
           ctx_args := map (map byte_char) (drop k args), ctx_argcount := n,
           ctx_argv := argv + 8 * of_nat k, ctx_argc := n\<rparr>\<rparr>)"
proof -
  note k_def = assms(7) and n_def = assms(8)
  have one: "arg_pointer p argv 1 = ps ! 1" "string_at (p_mem p) (ps ! 1) (args ! 1)"
    using arg_string_at(2,3) [OF assms(2,3,5)] by simp_all
  have "p_mem p (ps ! 1) = (if args ! 1 = [] then 0 else hd (args ! 1))"
    using one(2) by (cases "args ! 1") (simp_all add: string_at_def read_bytes_Suc del: One_nat_def)
  then have addend: "(if p_mem p (arg_pointer p argv 1) \<noteq> char_byte (CHR ''-'') then 1 else 2) = k"
    by (simp add: one(1) k_def target_index_def char_byte_def del: One_nat_def)
  have path: "arg_string p argv k = Some (map byte_char (args ! k))"
    using arg_string_at(1) [OF assms(2,3)] assms(4) by (simp add: k_def)
  obtain a where a: "shiva_strdup os (map byte_char (args ! k)) p =
      Some (a, map byte_char (args ! k), p\<lparr>p_calls := Suc (p_calls p)\<rparr>)" using strdup_ok [OF assms(1)] by blast
  define p1 where "p1 = p\<lparr>p_calls := Suc (p_calls p), p_ctx := (p_ctx p)\<lparr>ctx_path := map byte_char (args ! k),
      ctx_path_ptr := a\<rparr>\<rparr>"
  obtain arr where arr: "os_malloc os (Suc (p_calls p)) (of_nat (n * 8)) = Some arr"
    using assms(1) by (auto simp: malloc_ok_def)
  define p2 where "p2 = p1\<lparr>p_calls := Suc (Suc (p_calls p))\<rparr>"
  have m: "shiva_malloc os (of_nat (n * 8)) p1 = Some (arr, p2)"
    using arr by (simp add: shiva_malloc_def sys_malloc_def p1_def p2_def)
  obtain j where d: "dup_args os argv k n p2 = Some (map (map byte_char) (drop k args), p2\<lparr>p_calls := j\<rparr>)"
    using dup_args_all [OF assms(1-3), of p2 k n] assms(4) by (auto simp: p2_def p1_def n_def k_def)
  have w: "writable (p_prot (p2\<lparr>p_calls := j\<rparr>)) (arr + of_nat (n * 8)) 8"
    using assms(6) by (simp add: p2_def p1_def writable_def)
  define p3 where "p3 = p\<lparr>p_calls := j, p_mem := store64 (p_mem p) (arr + of_nat (n * 8)) 0,
      p_ctx := (p_ctx p)\<lparr>ctx_path := map byte_char (args ! k), ctx_path_ptr := a,
       ctx_args := map (map byte_char) (drop k args), ctx_argcount := n,
       ctx_argv := argv + 8 * of_nat k, ctx_argc := n\<rparr>\<rparr>"
  have "arr + 8 * of_nat n = arr + of_nat (n * 8)" by simp
  then have "shiva_build_target_argv os argv (length args) p = Some (True, p3)"
    using addend path a m d w
    by (simp add: shiva_build_target_argv_def Let_def n_def [symmetric] p1_def [symmetric] p3_def p2_def store64_def)
      (simp add: p1_def p_write_def mult.commute)
  then show thesis using arr that unfolding p3_def by blast
qed

text \<open>C25. Building the target's argument vector succeeds: the path is the first argument behind Shiva's
  own options and the vector holds it and everything after it. The array allocated for it has no
  room for the null pointer at its end: eight bytes right behind it are overwritten.\<close>

theorem build_target_argv_args:
  assumes "malloc_ok os" "ptrs_at (p_mem p) argv ps" "list_all2 (string_at (p_mem p)) ps args"
    and "target_index args < length args" and "1 < length args" and "p_prot p = (\<lambda>_. PROT_READ OR PROT_WRITE)"
  shows "\<exists>arr p'. shiva_build_target_argv os argv (length args) p = Some (True, p') \<and>
    ctx_path (p_ctx p') = map byte_char (args ! target_index args) \<and>
    ctx_args (p_ctx p') = map (map byte_char) (drop (target_index args) args) \<and>
    ctx_argc (p_ctx p') = length args - target_index args \<and>
    ctx_argv (p_ctx p') = argv + 8 * of_nat (target_index args) \<and>
    os_malloc os (Suc (p_calls p)) (of_nat ((length args - target_index args) * 8)) = Some arr \<and>
    p_mem p' = store64 (p_mem p) (arr + of_nat ((length args - target_index args) * 8)) 0"
proof -
  have w: "\<forall>x. has_flag (p_prot p x) PROT_WRITE" using assms(6) by (simp add: prot_defs has_flag_def)
  show ?thesis
    by (rule build_target_argv_run [OF assms(1-5) w refl refl]) simp
qed

definition example_args_mem :: mem where
  "example_args_mem = write_bytes (\<lambda>_. 0) 0x1000
     (le_bytes 8 (0x1020 :: u64) @ le_bytes 8 (0x1022 :: u64) @ le_bytes 8 (0x1025 :: u64) @ le_bytes 8 (0 :: u64) @
      [0x73, 0, 0x2d, 0x75, 0, 0x74, 0])"

definition example_args_proc :: proc where
  "example_args_proc = zero_proc\<lparr>p_mem := example_args_mem, p_prot := (\<lambda>_. PROT_READ OR PROT_WRITE)\<rparr>"

lemma example_args_at:
  "ptrs_at example_args_mem 0x1000 [0x1020, 0x1022, 0x1025]"
  "list_all2 (string_at example_args_mem) [0x1020, 0x1022, 0x1025] [[0x73], [0x2d, 0x75], [0x74]]"
  by code_simp+

theorem build_target_argv_args_witness:
  "\<exists>arr p'. shiva_build_target_argv example_stack_os 0x1000 3 example_args_proc = Some (True, p') \<and>
     ctx_path (p_ctx p') = ''t'' \<and> ctx_args (p_ctx p') = [''t''] \<and> ctx_argv (p_ctx p') = 0x1010 \<and>
     p_mem p' = store64 example_args_mem (arr + 8) 0"
proof -
  have "target_index [[0x73], [0x2d, 0x75], [0x74]] = 2" by (simp add: target_index_def char_byte_def)
  moreover have "malloc_ok example_stack_os" by (simp add: malloc_ok_def example_stack_os_def)
  moreover have "map byte_char [0x74] = ''t''" by code_simp
  ultimately show ?thesis
    using build_target_argv_args [of example_stack_os example_args_proc "0x1000" "[0x1020, 0x1022, 0x1025]"
        "[[0x73], [0x2d, 0x75], [0x74]]"] example_args_at
    by (auto simp: example_args_proc_def numeral_eq_Suc)
qed

end
