(* ===== verification/Main_Static.thy ===== *)
theory Main_Static
  imports Main_Runs
begin

text \<open>
  A target without a program interpreter. \<open>shiva_ulexec_prep\<close> loads no dynamic linker for it, but
  the end of \<open>main\<close> jumps to the dynamic linker all the same.
\<close>

section \<open>What the steps of main keep\<close>

definition keeps_link :: "proc \<Rightarrow> proc \<Rightarrow> bool" where
  "keeps_link p q \<longleftrightarrow>
     ldso_entry_point (ulexec (p_ctx q)) = ldso_entry_point (ulexec (p_ctx p)) \<and>
     ul_flags (ulexec (p_ctx q)) = ul_flags (ulexec (p_ctx p)) \<and>
     ctx_elfobj (p_ctx q) = ctx_elfobj (p_ctx p)"

lemma keeps_link_refl [simp]: "keeps_link p p" by (simp add: keeps_link_def)

lemma keeps_link_trans [trans]: "keeps_link p q \<Longrightarrow> keeps_link q r \<Longrightarrow> keeps_link p r" by (simp add: keeps_link_def)

lemma keeps_same_ctx: "p_ctx q = p_ctx p \<Longrightarrow> keeps_link p q" by (simp add: keeps_link_def)

lemma sys_mmap_ctx [simp]: "p_ctx (snd (sys_mmap os a len pr fl c p)) = p_ctx p"
  by (simp add: sys_mmap_def Let_def split: option.split)

lemma sys_munmap_ctx [simp]: "p_ctx (sys_munmap a len p) = p_ctx p"
  by (simp add: sys_munmap_def)

lemma sys_mmap_ctxD: "sys_mmap os a len pr fl c p = (r, q) \<Longrightarrow> p_ctx q = p_ctx p"
  using sys_mmap_ctx [of os a len pr fl c p] by (simp del: sys_mmap_ctx)

lemma load_first_ctx: "load_first_segment os junk obj i ph ls p = Some (r, q) \<Longrightarrow> p_ctx q = p_ctx p"
  by (auto simp: load_first_segment_def Let_def split: if_split_asm prod.splits option.splits dest!: sys_mmap_ctxD)

lemma load_next_ctx: "load_next_segment os obj i ph ls p = Some (r, q) \<Longrightarrow> p_ctx q = p_ctx p"
  by (auto simp: load_next_segment_def Let_def split: prod.splits option.splits dest!: sys_mmap_ctxD)

lemma load_segments_ctx: "load_segments os junk obj i phs ls p = Some (r, q) \<Longrightarrow> p_ctx q = p_ctx p"
  by (induction phs arbitrary: ls p)
    (auto simp: bind_eq_Some_conv split: if_split_asm option.splits dest!: load_first_ctx load_next_ctx)

lemma load_bss_ctx: "load_bss os ls p = Some q \<Longrightarrow> p_ctx q = p_ctx p"
  by (auto simp: load_bss_def Let_def bind_eq_Some_conv split: if_split_asm prod.splits option.splits dest!: sys_mmap_ctxD)

lemma load_elf_keeps: "shiva_ulexec_load_elf_binary os jb junk obj False p = Some (ok, q) \<Longrightarrow> keeps_link p q"
  by (auto simp: shiva_ulexec_load_elf_binary_def load_set_ctx_def keeps_link_def bind_eq_Some_conv
      split: option.splits dest!: load_segments_ctx load_bss_ctx)

lemma sys_malloc_ctxD: "sys_malloc os n p = (r, q) \<Longrightarrow> p_ctx q = p_ctx p"
  by (auto simp: sys_malloc_def)

lemma keepsI: "yields (\<lambda>x. keeps_link p (snd x)) m \<Longrightarrow> m = Some (r, q) \<Longrightarrow> keeps_link p q"
  by (simp add: yields_def)

lemma save_stack_keeps: "shiva_ulexec_save_stack os p = Some (ok, q) \<Longrightarrow> keeps_link p q"
proof (erule keepsI [rotated])
  show "yields (\<lambda>x. keeps_link p (snd x)) (shiva_ulexec_save_stack os p)"
    unfolding shiva_ulexec_save_stack_def Let_def
    by (intro yields_rules) (auto simp: keeps_link_def dest!: sys_malloc_ctxD)
qed

lemma build_stack_keeps:
  assumes "shiva_ulexec_build_auxv_stack os p = Some (ok, a, b, q)"
  shows "keeps_link p q"
proof -
  obtain s p1 where s: "shiva_ulexec_allocstack os p = Some (s, p1)" and q: "p_ctx q = p_ctx p1"
    using assms by (auto simp: shiva_ulexec_build_auxv_stack_def Let_def bind_eq_Some_conv case_prod_beta)
  have "keeps_link p p1"
    using s by (auto simp: shiva_ulexec_allocstack_def keeps_link_def split: prod.splits option.splits dest!: sys_mmap_ctxD)
  with q show ?thesis by (simp add: keeps_link_def)
qed

lemma no_interp:
  "\<not> (elf_type (ctx_elfobj (p_ctx p)) = ET_DYN \<and> elf_interpreter_path (ctx_elfobj (p_ctx p)) \<noteq> None) \<Longrightarrow>
     ulexec_open_interp os p = (True, p)"
  by (auto simp: ulexec_open_interp_def Let_def)

lemma prep_keeps:
  assumes "\<not> (elf_type (ctx_elfobj (p_ctx p)) = ET_DYN \<and> elf_interpreter_path (ctx_elfobj (p_ctx p)) \<noteq> None)"
    and "ul_flags (ulexec (p_ctx p)) = 0" and "shiva_ulexec_prep os jb junk p = Some (ok, q)"
  shows "keeps_link p q"
proof -
  obtain ok1 p1 where p1: "shiva_ulexec_load_elf_binary os jb junk (ctx_elfobj (p_ctx p)) False p = Some (ok1, p1)"
    using assms(3) no_interp [OF assms(1), of os] by (auto simp: shiva_ulexec_prep_def bind_eq_Some_conv)
  have k1: "keeps_link p p1" by (rule load_elf_keeps [OF p1])
  then have fl: "ul_flags (ulexec (p_ctx p1)) = 0" using assms(2) by (simp add: keeps_link_def)
  show ?thesis
  proof (cases ok1)
    case False
    then show ?thesis using assms(3) no_interp [OF assms(1), of os] p1 k1 by (simp add: shiva_ulexec_prep_def)
  next
    case True
    then obtain ok2 p2 where p2: "shiva_ulexec_save_stack os p1 = Some (ok2, p2)"
      using assms(3) no_interp [OF assms(1), of os] p1 fl
      by (auto simp: shiva_ulexec_prep_def has_flag_def bind_eq_Some_conv)
    have k2: "keeps_link p p2" using k1 save_stack_keeps [OF p2] by (rule keeps_link_trans)
    show ?thesis
    proof (cases ok2)
      case False
      then show ?thesis
        using assms(3) no_interp [OF assms(1), of os] p1 p2 fl True k2
        by (simp add: shiva_ulexec_prep_def has_flag_def)
    next
      case ok2: True
      then obtain ok3 a b p3 where p3: "shiva_ulexec_build_auxv_stack os p2 = Some (ok3, a, b, p3)"
          "q = set_ulexec (\<lambda>u. u\<lparr>ul_rsp_start := a, ul_auxv := b\<rparr>) p3"
        using assms(3) no_interp [OF assms(1), of os] p1 p2 fl True
        by (auto simp: shiva_ulexec_prep_def has_flag_def bind_eq_Some_conv)
      then have "keeps_link p3 q" by (simp add: keeps_link_def)
      then show ?thesis using k2 build_stack_keeps [OF p3(1)] keeps_link_trans by blast
    qed
  qed
qed

lemma maps_path_keeps: "maps_shiva_path os buf p = Some q \<Longrightarrow> keeps_link p q"
  by (auto simp: maps_shiva_path_def keeps_link_def bind_eq_Some_conv shiva_malloc_def sys_malloc_def
      split: if_split_asm option.split_asm)

lemma maps_lines_keeps: "maps_build_lines os bufs p = Some q \<Longrightarrow> keeps_link p q"
proof (induction bufs arbitrary: p)
  case (Cons buf bufs)
  then obtain a p1 p2 e where p1: "shiva_malloc os MMAP_ENTRY_SIZE p = Some (a, p1)" "maps_shiva_path os buf p1 = Some p2"
      "maps_build_lines os bufs (p2\<lparr>p_ctx := (p_ctx p2)\<lparr>mmap_tqlist := mmap_tqlist (p_ctx p2) @ [e]\<rparr>\<rparr>) = Some q"
    by (auto simp: bind_eq_Some_conv)
  have "keeps_link p p1"
    using p1(1) by (auto simp: keeps_link_def shiva_malloc_def sys_malloc_def split: option.split_asm)
  then show ?case
    using maps_path_keeps [OF p1(2)] Cons.IH [OF p1(3)] by (simp add: keeps_link_def)
qed simp

lemma build_maps_keeps: "shiva_maps_build_list os p = Some (ok, q) \<Longrightarrow> keeps_link p q"
  by (auto simp: shiva_maps_build_list_def keeps_link_def Let_def bind_eq_Some_conv split: if_split_asm option.splits
      dest!: maps_lines_keeps)

lemma find_base_keeps: "find_shiva_base env P p = Some q \<Longrightarrow> keeps_link p q"
  by (auto simp: find_shiva_base_def keeps_link_def bind_eq_Some_conv)

lemma xfmtstrdup_ctx: "shiva_xfmtstrdup os s p = Some (a, t, q) \<Longrightarrow> p_ctx q = p_ctx p"
  by (auto simp: shiva_xfmtstrdup_def shiva_strdup_def split: prod.splits option.splits dest!: sys_malloc_ctxD)

lemma plt_call_loop_ctx: "plt_call_loop os a es f p = Some (r, q) \<Longrightarrow> p_ctx q = p_ctx p"
  by (induction es arbitrary: f p) (fastforce simp: bind_eq_Some_conv split: if_split_asm dest!: xfmtstrdup_ctx)+

lemma call_symbol_ctx: "call_symbol os obj a p = Some (s, fl, q) \<Longrightarrow> p_ctx q = p_ctx p"
  by (auto simp: call_symbol_def bind_eq_Some_conv split: option.splits dest!: plt_call_loop_ctx xfmtstrdup_ctx)

lemma analyze_insn_keeps: "analyze_insn os a p = Some (ok, q) \<Longrightarrow> keeps_link p q"
  by (auto simp: analyze_insn_def Let_def keeps_link_def bind_eq_Some_conv
      split: if_split_asm prod.splits option.splits dest!: sys_malloc_ctxD call_symbol_ctx)

lemma find_calls_loop_keeps: "find_calls_loop t mn junk os a p = Some x \<Longrightarrow> keeps_link p (snd x)"
proof (erule find_calls_loop.raw_induct [where P = "\<lambda>t mn junk os a p x. keeps_link p (snd x)", rotated])
  fix rec t mn junk os a p x
  assume IH: "\<And>t mn junk os a p x. rec t mn junk os a p = Some x \<Longrightarrow> keeps_link p (snd x)"
    and run: "do {
       (n, u) \<leftarrow> ud_disassemble t mn (junk a) (p_ud p);
       let p = p\<lparr>p_ud := u\<rparr>;
       (if n = 0 then Some (True, p)
        else do {
          (ok, q) \<leftarrow> analyze_insn os a p;
          (if ok then rec t mn junk os (a + of_nat (ud_insn_len u)) q else Some (False, q))
        })
     } = Some x"
  obtain n u where d: "ud_disassemble t mn (junk a) (p_ud p) = Some (n, u)"
    using run by (auto simp: bind_eq_Some_conv)
  have k: "keeps_link p (p\<lparr>p_ud := u\<rparr>)" by (simp add: keeps_link_def)
  show "keeps_link p (snd x)"
  proof (cases "n = 0")
    case True
    then show ?thesis using run d k by auto
  next
    case False
    then obtain ok q where s: "analyze_insn os a (p\<lparr>p_ud := u\<rparr>) = Some (ok, q)"
      using run d by (auto simp: bind_eq_Some_conv)
    have "keeps_link p q" using k analyze_insn_keeps [OF s] by (rule keeps_link_trans)
    moreover have "(if ok then rec t mn junk os (a + of_nat (ud_insn_len u)) q else Some (False, q)) = Some x"
      using run d False s by simp
    ultimately show ?thesis using IH keeps_link_trans by (auto split: if_split_asm)
  qed
qed

lemma analyze_keeps: "analyze env os p = Some (ok, q) \<Longrightarrow> keeps_link p q"
  by (auto simp: analyze_def shiva_analyze_run_def shiva_analyze_find_calls_def Let_def keeps_link_def
      split: option.splits dest!: find_calls_loop_keeps)

section \<open>The jump\<close>

lemma strdup_ctx: "shiva_strdup os s p = Some (a, t, q) \<Longrightarrow> p_ctx q = p_ctx p"
  by (auto simp: shiva_strdup_def split: prod.splits option.splits dest!: sys_malloc_ctxD)

lemma malloc_ctx: "shiva_malloc os n p = Some (a, q) \<Longrightarrow> p_ctx q = p_ctx p"
  by (auto simp: shiva_malloc_def split: prod.splits option.splits dest!: sys_malloc_ctxD)

lemma dup_args_ctx: "dup_args os argv i n p = Some (ss, q) \<Longrightarrow> p_ctx q = p_ctx p"
  by (induction n arbitrary: i p ss) (fastforce simp: bind_eq_Some_conv dest!: strdup_ctx)+

lemma build_argv_keeps: "shiva_build_target_argv os argv argc p = Some (ok, q) \<Longrightarrow> keeps_link p q"
proof (erule keepsI [rotated])
  show "yields (\<lambda>x. keeps_link p (snd x)) (shiva_build_target_argv os argv argc p)"
    unfolding shiva_build_target_argv_def Let_def
    by (intro yields_rules)
      (auto simp: keeps_link_def dest!: strdup_ctx malloc_ctx dup_args_ctx)
qed

text \<open>Neither an interpreter nor a dynamic linker to jump to.\<close>

definition no_linker :: "proc \<Rightarrow> bool" where
  "no_linker p \<longleftrightarrow>
     \<not> (elf_type (ctx_elfobj (p_ctx p)) = ET_DYN \<and> elf_interpreter_path (ctx_elfobj (p_ctx p)) \<noteq> None)"

definition fresh_link :: "proc \<Rightarrow> bool" where
  "fresh_link p \<longleftrightarrow> ldso_entry_point (ulexec (p_ctx p)) = 0 \<and> ul_flags (ulexec (p_ctx p)) = 0"

definition jumps_to_zero :: "outcome \<times> proc \<Rightarrow> bool" where
  "jumps_to_zero x \<longleftrightarrow>
     (case fst x of
        Transferred r \<Rightarrow>
          (if module_runtime (p_ctx (snd x)) = None \<and> no_linker (snd x) then r_rip r = 0 else True)
      | _ \<Rightarrow> True)"

lemma transfer_jumps:
  assumes "no_linker p \<Longrightarrow> module_runtime (p_ctx p) = None \<Longrightarrow> ldso_entry_point (ulexec (p_ctx p)) = 0"
  shows "yields jumps_to_zero (ldso_transfer r sp (ldso_entry_point (ulexec (p_ctx p))) entry p)"
  using assms
  by (auto simp: yields_def jumps_to_zero_def no_linker_def split: option.split dest!: ldso_transferD)

lemma module_loader_pointer:
  "yields (\<lambda>x. fst x \<longrightarrow> fst (snd x) \<noteq> None) (shiva_module_loader os le run path fl p)"
  unfolding shiva_module_loader_def Let_def by (intro yields_rules) simp_all

lemma load_runtime_module:
  assumes "load_runtime env os p = Some (True, q)"
  shows "module_runtime (p_ctx q) \<noteq> None"
proof -
  obtain l r where l: "shiva_module_loader os (me_link env) (me_run env)
      ''/opt/shiva/modules/shakti_runtime.o'' SHIVA_MODULE_F_RUNTIME p = Some (True, l, r)"
    and q: "q = (case l of None \<Rightarrow> r | Some _ \<Rightarrow> set_ctx (\<lambda>ctx. ctx\<lparr>module_runtime := l\<rparr>) r)"
    using assms unfolding load_runtime_def bind_eq_Some_conv by auto
  have "l \<noteq> None" using yieldsD [OF module_loader_pointer l] by simp
  then show ?thesis using q by auto
qed

lemma keeps_link_fresh:
  "keeps_link p q \<Longrightarrow> fresh_link p \<Longrightarrow> fresh_link q" "keeps_link p q \<Longrightarrow> no_linker q \<Longrightarrow> no_linker p"
  by (simp_all add: keeps_link_def fresh_link_def no_linker_def)

lemma build_trace_fresh: "shiva_build_trace_data os p = (ok, q) \<Longrightarrow> fresh_link p \<Longrightarrow> fresh_link q"
  by (auto simp: shiva_build_trace_data_def Let_def fresh_link_def split: option.splits)

lemma load_elf_elfobj:
  "shiva_ulexec_load_elf_binary os jb junk obj i p = Some (ok, q) \<Longrightarrow> ctx_elfobj (p_ctx q) = ctx_elfobj (p_ctx p)"
  by (auto simp: shiva_ulexec_load_elf_binary_def load_set_ctx_def bind_eq_Some_conv
      split: option.splits dest!: load_segments_ctx load_bss_ctx)

lemma open_interp_elfobj: "ulexec_open_interp os p = (ok, q) \<Longrightarrow> ctx_elfobj (p_ctx q) = ctx_elfobj (p_ctx p)"
  by (auto simp: ulexec_open_interp_def Let_def split: if_split_asm option.splits)

lemma prep_elfobj:
  assumes "shiva_ulexec_prep os jb junk p = Some (ok, q)"
  shows "ctx_elfobj (p_ctx q) = ctx_elfobj (p_ctx p)"
proof -
  have "yields (\<lambda>x. ctx_elfobj (p_ctx (snd x)) = ctx_elfobj (p_ctx p)) (shiva_ulexec_prep os jb junk p)"
    unfolding shiva_ulexec_prep_def
    by (auto intro!: yields_rules split: bool.split
        dest!: open_interp_elfobj load_elf_elfobj save_stack_keeps build_stack_keeps simp: keeps_link_def
        split: if_split_asm)
  then show ?thesis using assms yieldsD by fastforce
qed

text \<open>From the trace data to the module.\<close>

lemma standalone_fresh:
  assumes "fresh_link p" and "shiva_ulexec_prep os jb junk p = Some (ok1, p1)" and "shiva_maps_build_list os p1 = Some (ok2, p2)"
    and "find_shiva_base env P p2 = Some p3" and "analyze env os p3 = Some (ok4, p4)" and "no_linker p4"
  shows "fresh_link p4"
proof -
  have k: "keeps_link p1 p4"
    using build_maps_keeps [OF assms(3)] find_base_keeps [OF assms(4)] analyze_keeps [OF assms(5)] keeps_link_trans
    by blast
  then have "no_linker p1" using assms(6) keeps_link_fresh by blast
  then have "no_linker p" using prep_elfobj [OF assms(2)] by (simp add: no_linker_def)
  then have "keeps_link p p1"
    using prep_keeps [OF _ _ assms(2)] assms(1) by (simp add: no_linker_def fresh_link_def)
  then show ?thesis using k assms(1) keeps_link_fresh by blast
qed

lemma standalone_jumps:
  assumes "fresh_link p"
  shows "yields jumps_to_zero (main_standalone env os argc argv envp p)"
  unfolding main_standalone_def Let_def
  apply (intro yields_rules; simp add: jumps_to_zero_def)
  subgoal premises prems for x ok p1 arg ok2 p2 x3 ok3 p3 x4 ok4 p4 p5 x6 ok6 p6 x7 ok7 p7
  proof (rule transfer_jumps)
    assume n: "no_linker p7" "module_runtime (p_ctx p7) = None"
    note prems [simp]
    have "fresh_link p1"
      using build_argv_keeps [OF prems(2)] assms by (simp add: keeps_link_def fresh_link_def)
    define q where "q = (if p_mem p1 (arg_pointer (set_ctx shiva_init_lists p1) argv (Suc 0)) = char_byte (CHR ''-'')
      then set_ctx (ctx_flags_update (\<lambda>_. main_options (tl arg) (ctx_flags (p_ctx (set_ctx shiva_init_lists p1)))))
             (set_ctx shiva_init_lists p1)
      else set_ctx shiva_init_lists p1)"
    have "fresh_link q"
      using \<open>fresh_link p1\<close> by (simp add: q_def fresh_link_def shiva_init_lists_def)
    moreover have "shiva_build_trace_data os q = (True, p2)" unfolding q_def using prems by blast
    ultimately have "fresh_link p2" by (rule build_trace_fresh [rotated])
    have "\<not> has_flag (ctx_flags (p_ctx p6)) SHIVA_OPTS_F_ULEXEC_ONLY \<Longrightarrow> load_runtime env os p6 = Some (True, p7)"
      "has_flag (ctx_flags (p_ctx p6)) SHIVA_OPTS_F_ULEXEC_ONLY \<Longrightarrow> p7 = p6"
      using prems by simp_all
    then have "p7 = p6" using n(2) load_runtime_module by blast
    then show "ldso_entry_point (ulexec (p_ctx p7)) = 0"
      using standalone_fresh [OF \<open>fresh_link p2\<close>] prems n(1) unfolding fresh_link_def by blast
  qed
  done

text \<open>C26. A target without a dynamic linker (a static or position dependent executable, or one
  without interpreter path) that is started from the command line without a module is entered at
  address zero: the jump goes to the entry point of the dynamic linker that was never loaded.\<close>

theorem static_target_jumps_to_zero:
  assumes "main env os argc argv envp p = Some (Transferred r, p')" and "\<not> interp_mode os"
    and "module_runtime (p_ctx p') = None"
    and "elf_type (ctx_elfobj (p_ctx p')) \<noteq> ET_DYN \<or> elf_interpreter_path (ctx_elfobj (p_ctx p')) = None"
  shows "r_rip r = 0"
proof -
  define P where "P x \<longleftrightarrow> interp_mode os \<or> jumps_to_zero x" for x
  have standalone: "yields P (main_standalone env os argc argv envp q)" if "fresh_link q" for q
    using standalone_jumps [OF that, of env os argc argv envp] by (auto simp: yields_def P_def split: option.splits)
  have fresh: "fresh_link q" if "sys_malloc os n (p\<lparr>p_ctx := zero_ctx\<rparr>) = (r, q)" for n r q
    using sys_malloc_ctxD [OF that] by (simp add: fresh_link_def zero_ctx_def zero_ulexec_def)
  have interp: "yields P m" if "interp_mode os" for m :: "(outcome \<times> proc) option"
    using that by (simp add: yields_def P_def split: option.split)
  have "yields P (main env os argc argv envp p)"
    unfolding main_def Let_def
    by (intro yields_option yields_prod yields_if standalone fresh)
      (auto simp: P_def jumps_to_zero_def interp_mode_def intro: interp)
  from yieldsD [OF this assms(1)] assms(2-4) show ?thesis
    by (simp add: P_def jumps_to_zero_def no_linker_def)
qed

end
