(* ===== verification/Itab_Codes.thy ===== *)
theory Itab_Codes
  imports Ud_Types
begin

text \<open>
  \<^verbatim>\<open>libudis86/itab.h\<close>: the mnemonic codes, numbered in the order of the enumeration. The codes that
  the decoder and the translators name are in \<open>Ud_Types\<close>.
\<close>

named_theorems mnemonic_code

definition UD_Iaaa :: ud_mnemonic_code where [mnemonic_code]: "UD_Iaaa = 5"
definition UD_Iaad :: ud_mnemonic_code where [mnemonic_code]: "UD_Iaad = 6"
definition UD_Iaam :: ud_mnemonic_code where [mnemonic_code]: "UD_Iaam = 7"
definition UD_Iaas :: ud_mnemonic_code where [mnemonic_code]: "UD_Iaas = 8"
definition UD_Iadc :: ud_mnemonic_code where [mnemonic_code]: "UD_Iadc = 9"
definition UD_Iadd :: ud_mnemonic_code where [mnemonic_code]: "UD_Iadd = 10"
definition UD_Iaddpd :: ud_mnemonic_code where [mnemonic_code]: "UD_Iaddpd = 11"
definition UD_Iaddps :: ud_mnemonic_code where [mnemonic_code]: "UD_Iaddps = 12"
definition UD_Iaddsd :: ud_mnemonic_code where [mnemonic_code]: "UD_Iaddsd = 13"
definition UD_Iaddss :: ud_mnemonic_code where [mnemonic_code]: "UD_Iaddss = 14"
definition UD_Iand :: ud_mnemonic_code where [mnemonic_code]: "UD_Iand = 15"
definition UD_Iandpd :: ud_mnemonic_code where [mnemonic_code]: "UD_Iandpd = 16"
definition UD_Iandps :: ud_mnemonic_code where [mnemonic_code]: "UD_Iandps = 17"
definition UD_Iandnpd :: ud_mnemonic_code where [mnemonic_code]: "UD_Iandnpd = 18"
definition UD_Iandnps :: ud_mnemonic_code where [mnemonic_code]: "UD_Iandnps = 19"
definition UD_Iarpl :: ud_mnemonic_code where [mnemonic_code]: "UD_Iarpl = 20"
definition UD_Imovsxd :: ud_mnemonic_code where [mnemonic_code]: "UD_Imovsxd = 21"
definition UD_Ibsf :: ud_mnemonic_code where [mnemonic_code]: "UD_Ibsf = 23"
definition UD_Ibsr :: ud_mnemonic_code where [mnemonic_code]: "UD_Ibsr = 24"
definition UD_Ibswap :: ud_mnemonic_code where [mnemonic_code]: "UD_Ibswap = 25"
definition UD_Ibt :: ud_mnemonic_code where [mnemonic_code]: "UD_Ibt = 26"
definition UD_Ibtc :: ud_mnemonic_code where [mnemonic_code]: "UD_Ibtc = 27"
definition UD_Ibtr :: ud_mnemonic_code where [mnemonic_code]: "UD_Ibtr = 28"
definition UD_Ibts :: ud_mnemonic_code where [mnemonic_code]: "UD_Ibts = 29"
definition UD_Icbw :: ud_mnemonic_code where [mnemonic_code]: "UD_Icbw = 31"
definition UD_Icwde :: ud_mnemonic_code where [mnemonic_code]: "UD_Icwde = 32"
definition UD_Icdqe :: ud_mnemonic_code where [mnemonic_code]: "UD_Icdqe = 33"
definition UD_Iclc :: ud_mnemonic_code where [mnemonic_code]: "UD_Iclc = 34"
definition UD_Icld :: ud_mnemonic_code where [mnemonic_code]: "UD_Icld = 35"
definition UD_Iclflush :: ud_mnemonic_code where [mnemonic_code]: "UD_Iclflush = 36"
definition UD_Iclgi :: ud_mnemonic_code where [mnemonic_code]: "UD_Iclgi = 37"
definition UD_Icli :: ud_mnemonic_code where [mnemonic_code]: "UD_Icli = 38"
definition UD_Iclts :: ud_mnemonic_code where [mnemonic_code]: "UD_Iclts = 39"
definition UD_Icmc :: ud_mnemonic_code where [mnemonic_code]: "UD_Icmc = 40"
definition UD_Icmovo :: ud_mnemonic_code where [mnemonic_code]: "UD_Icmovo = 41"
definition UD_Icmovno :: ud_mnemonic_code where [mnemonic_code]: "UD_Icmovno = 42"
definition UD_Icmovb :: ud_mnemonic_code where [mnemonic_code]: "UD_Icmovb = 43"
definition UD_Icmovae :: ud_mnemonic_code where [mnemonic_code]: "UD_Icmovae = 44"
definition UD_Icmovz :: ud_mnemonic_code where [mnemonic_code]: "UD_Icmovz = 45"
definition UD_Icmovnz :: ud_mnemonic_code where [mnemonic_code]: "UD_Icmovnz = 46"
definition UD_Icmovbe :: ud_mnemonic_code where [mnemonic_code]: "UD_Icmovbe = 47"
definition UD_Icmova :: ud_mnemonic_code where [mnemonic_code]: "UD_Icmova = 48"
definition UD_Icmovs :: ud_mnemonic_code where [mnemonic_code]: "UD_Icmovs = 49"
definition UD_Icmovns :: ud_mnemonic_code where [mnemonic_code]: "UD_Icmovns = 50"
definition UD_Icmovp :: ud_mnemonic_code where [mnemonic_code]: "UD_Icmovp = 51"
definition UD_Icmovnp :: ud_mnemonic_code where [mnemonic_code]: "UD_Icmovnp = 52"
definition UD_Icmovl :: ud_mnemonic_code where [mnemonic_code]: "UD_Icmovl = 53"
definition UD_Icmovge :: ud_mnemonic_code where [mnemonic_code]: "UD_Icmovge = 54"
definition UD_Icmovle :: ud_mnemonic_code where [mnemonic_code]: "UD_Icmovle = 55"
definition UD_Icmovg :: ud_mnemonic_code where [mnemonic_code]: "UD_Icmovg = 56"
definition UD_Icmp :: ud_mnemonic_code where [mnemonic_code]: "UD_Icmp = 57"
definition UD_Icmppd :: ud_mnemonic_code where [mnemonic_code]: "UD_Icmppd = 58"
definition UD_Icmpps :: ud_mnemonic_code where [mnemonic_code]: "UD_Icmpps = 59"
definition UD_Icmpsb :: ud_mnemonic_code where [mnemonic_code]: "UD_Icmpsb = 60"
definition UD_Icmpsw :: ud_mnemonic_code where [mnemonic_code]: "UD_Icmpsw = 61"
definition UD_Icmpsd :: ud_mnemonic_code where [mnemonic_code]: "UD_Icmpsd = 62"
definition UD_Icmpsq :: ud_mnemonic_code where [mnemonic_code]: "UD_Icmpsq = 63"
definition UD_Icmpss :: ud_mnemonic_code where [mnemonic_code]: "UD_Icmpss = 64"
definition UD_Icmpxchg :: ud_mnemonic_code where [mnemonic_code]: "UD_Icmpxchg = 65"
definition UD_Icmpxchg8b :: ud_mnemonic_code where [mnemonic_code]: "UD_Icmpxchg8b = 66"
definition UD_Icmpxchg16b :: ud_mnemonic_code where [mnemonic_code]: "UD_Icmpxchg16b = 67"
definition UD_Icomisd :: ud_mnemonic_code where [mnemonic_code]: "UD_Icomisd = 68"
definition UD_Icomiss :: ud_mnemonic_code where [mnemonic_code]: "UD_Icomiss = 69"
definition UD_Icpuid :: ud_mnemonic_code where [mnemonic_code]: "UD_Icpuid = 70"
definition UD_Icvtdq2pd :: ud_mnemonic_code where [mnemonic_code]: "UD_Icvtdq2pd = 71"
definition UD_Icvtdq2ps :: ud_mnemonic_code where [mnemonic_code]: "UD_Icvtdq2ps = 72"
definition UD_Icvtpd2dq :: ud_mnemonic_code where [mnemonic_code]: "UD_Icvtpd2dq = 73"
definition UD_Icvtpd2pi :: ud_mnemonic_code where [mnemonic_code]: "UD_Icvtpd2pi = 74"
definition UD_Icvtpd2ps :: ud_mnemonic_code where [mnemonic_code]: "UD_Icvtpd2ps = 75"
definition UD_Icvtpi2ps :: ud_mnemonic_code where [mnemonic_code]: "UD_Icvtpi2ps = 76"
definition UD_Icvtpi2pd :: ud_mnemonic_code where [mnemonic_code]: "UD_Icvtpi2pd = 77"
definition UD_Icvtps2dq :: ud_mnemonic_code where [mnemonic_code]: "UD_Icvtps2dq = 78"
definition UD_Icvtps2pi :: ud_mnemonic_code where [mnemonic_code]: "UD_Icvtps2pi = 79"
definition UD_Icvtps2pd :: ud_mnemonic_code where [mnemonic_code]: "UD_Icvtps2pd = 80"
definition UD_Icvtsd2si :: ud_mnemonic_code where [mnemonic_code]: "UD_Icvtsd2si = 81"
definition UD_Icvtsd2ss :: ud_mnemonic_code where [mnemonic_code]: "UD_Icvtsd2ss = 82"
definition UD_Icvtsi2ss :: ud_mnemonic_code where [mnemonic_code]: "UD_Icvtsi2ss = 83"
definition UD_Icvtss2si :: ud_mnemonic_code where [mnemonic_code]: "UD_Icvtss2si = 84"
definition UD_Icvtss2sd :: ud_mnemonic_code where [mnemonic_code]: "UD_Icvtss2sd = 85"
definition UD_Icvttpd2pi :: ud_mnemonic_code where [mnemonic_code]: "UD_Icvttpd2pi = 86"
definition UD_Icvttpd2dq :: ud_mnemonic_code where [mnemonic_code]: "UD_Icvttpd2dq = 87"
definition UD_Icvttps2dq :: ud_mnemonic_code where [mnemonic_code]: "UD_Icvttps2dq = 88"
definition UD_Icvttps2pi :: ud_mnemonic_code where [mnemonic_code]: "UD_Icvttps2pi = 89"
definition UD_Icvttsd2si :: ud_mnemonic_code where [mnemonic_code]: "UD_Icvttsd2si = 90"
definition UD_Icvtsi2sd :: ud_mnemonic_code where [mnemonic_code]: "UD_Icvtsi2sd = 91"
definition UD_Icvttss2si :: ud_mnemonic_code where [mnemonic_code]: "UD_Icvttss2si = 92"
definition UD_Icwd :: ud_mnemonic_code where [mnemonic_code]: "UD_Icwd = 93"
definition UD_Icdq :: ud_mnemonic_code where [mnemonic_code]: "UD_Icdq = 94"
definition UD_Icqo :: ud_mnemonic_code where [mnemonic_code]: "UD_Icqo = 95"
definition UD_Idaa :: ud_mnemonic_code where [mnemonic_code]: "UD_Idaa = 96"
definition UD_Idas :: ud_mnemonic_code where [mnemonic_code]: "UD_Idas = 97"
definition UD_Idec :: ud_mnemonic_code where [mnemonic_code]: "UD_Idec = 98"
definition UD_Idiv :: ud_mnemonic_code where [mnemonic_code]: "UD_Idiv = 99"
definition UD_Idivpd :: ud_mnemonic_code where [mnemonic_code]: "UD_Idivpd = 100"
definition UD_Idivps :: ud_mnemonic_code where [mnemonic_code]: "UD_Idivps = 101"
definition UD_Idivsd :: ud_mnemonic_code where [mnemonic_code]: "UD_Idivsd = 102"
definition UD_Idivss :: ud_mnemonic_code where [mnemonic_code]: "UD_Idivss = 103"
definition UD_Iemms :: ud_mnemonic_code where [mnemonic_code]: "UD_Iemms = 104"
definition UD_If2xm1 :: ud_mnemonic_code where [mnemonic_code]: "UD_If2xm1 = 106"
definition UD_Ifabs :: ud_mnemonic_code where [mnemonic_code]: "UD_Ifabs = 107"
definition UD_Ifadd :: ud_mnemonic_code where [mnemonic_code]: "UD_Ifadd = 108"
definition UD_Ifaddp :: ud_mnemonic_code where [mnemonic_code]: "UD_Ifaddp = 109"
definition UD_Ifbld :: ud_mnemonic_code where [mnemonic_code]: "UD_Ifbld = 110"
definition UD_Ifbstp :: ud_mnemonic_code where [mnemonic_code]: "UD_Ifbstp = 111"
definition UD_Ifchs :: ud_mnemonic_code where [mnemonic_code]: "UD_Ifchs = 112"
definition UD_Ifclex :: ud_mnemonic_code where [mnemonic_code]: "UD_Ifclex = 113"
definition UD_Ifcmovb :: ud_mnemonic_code where [mnemonic_code]: "UD_Ifcmovb = 114"
definition UD_Ifcmove :: ud_mnemonic_code where [mnemonic_code]: "UD_Ifcmove = 115"
definition UD_Ifcmovbe :: ud_mnemonic_code where [mnemonic_code]: "UD_Ifcmovbe = 116"
definition UD_Ifcmovu :: ud_mnemonic_code where [mnemonic_code]: "UD_Ifcmovu = 117"
definition UD_Ifcmovnb :: ud_mnemonic_code where [mnemonic_code]: "UD_Ifcmovnb = 118"
definition UD_Ifcmovne :: ud_mnemonic_code where [mnemonic_code]: "UD_Ifcmovne = 119"
definition UD_Ifcmovnbe :: ud_mnemonic_code where [mnemonic_code]: "UD_Ifcmovnbe = 120"
definition UD_Ifcmovnu :: ud_mnemonic_code where [mnemonic_code]: "UD_Ifcmovnu = 121"
definition UD_Ifucomi :: ud_mnemonic_code where [mnemonic_code]: "UD_Ifucomi = 122"
definition UD_Ifcom :: ud_mnemonic_code where [mnemonic_code]: "UD_Ifcom = 123"
definition UD_Ifcom2 :: ud_mnemonic_code where [mnemonic_code]: "UD_Ifcom2 = 124"
definition UD_Ifcomp3 :: ud_mnemonic_code where [mnemonic_code]: "UD_Ifcomp3 = 125"
definition UD_Ifcomi :: ud_mnemonic_code where [mnemonic_code]: "UD_Ifcomi = 126"
definition UD_Ifucomip :: ud_mnemonic_code where [mnemonic_code]: "UD_Ifucomip = 127"
definition UD_Ifcomip :: ud_mnemonic_code where [mnemonic_code]: "UD_Ifcomip = 128"
definition UD_Ifcomp :: ud_mnemonic_code where [mnemonic_code]: "UD_Ifcomp = 129"
definition UD_Ifcomp5 :: ud_mnemonic_code where [mnemonic_code]: "UD_Ifcomp5 = 130"
definition UD_Ifcompp :: ud_mnemonic_code where [mnemonic_code]: "UD_Ifcompp = 131"
definition UD_Ifcos :: ud_mnemonic_code where [mnemonic_code]: "UD_Ifcos = 132"
definition UD_Ifdecstp :: ud_mnemonic_code where [mnemonic_code]: "UD_Ifdecstp = 133"
definition UD_Ifdiv :: ud_mnemonic_code where [mnemonic_code]: "UD_Ifdiv = 134"
definition UD_Ifdivp :: ud_mnemonic_code where [mnemonic_code]: "UD_Ifdivp = 135"
definition UD_Ifdivr :: ud_mnemonic_code where [mnemonic_code]: "UD_Ifdivr = 136"
definition UD_Ifdivrp :: ud_mnemonic_code where [mnemonic_code]: "UD_Ifdivrp = 137"
definition UD_Ifemms :: ud_mnemonic_code where [mnemonic_code]: "UD_Ifemms = 138"
definition UD_Iffree :: ud_mnemonic_code where [mnemonic_code]: "UD_Iffree = 139"
definition UD_Iffreep :: ud_mnemonic_code where [mnemonic_code]: "UD_Iffreep = 140"
definition UD_Ificom :: ud_mnemonic_code where [mnemonic_code]: "UD_Ificom = 141"
definition UD_Ificomp :: ud_mnemonic_code where [mnemonic_code]: "UD_Ificomp = 142"
definition UD_Ifild :: ud_mnemonic_code where [mnemonic_code]: "UD_Ifild = 143"
definition UD_Ifincstp :: ud_mnemonic_code where [mnemonic_code]: "UD_Ifincstp = 144"
definition UD_Ifninit :: ud_mnemonic_code where [mnemonic_code]: "UD_Ifninit = 145"
definition UD_Ifiadd :: ud_mnemonic_code where [mnemonic_code]: "UD_Ifiadd = 146"
definition UD_Ifidivr :: ud_mnemonic_code where [mnemonic_code]: "UD_Ifidivr = 147"
definition UD_Ifidiv :: ud_mnemonic_code where [mnemonic_code]: "UD_Ifidiv = 148"
definition UD_Ifisub :: ud_mnemonic_code where [mnemonic_code]: "UD_Ifisub = 149"
definition UD_Ifisubr :: ud_mnemonic_code where [mnemonic_code]: "UD_Ifisubr = 150"
definition UD_Ifist :: ud_mnemonic_code where [mnemonic_code]: "UD_Ifist = 151"
definition UD_Ifistp :: ud_mnemonic_code where [mnemonic_code]: "UD_Ifistp = 152"
definition UD_Ifisttp :: ud_mnemonic_code where [mnemonic_code]: "UD_Ifisttp = 153"
definition UD_Ifld :: ud_mnemonic_code where [mnemonic_code]: "UD_Ifld = 154"
definition UD_Ifld1 :: ud_mnemonic_code where [mnemonic_code]: "UD_Ifld1 = 155"
definition UD_Ifldl2t :: ud_mnemonic_code where [mnemonic_code]: "UD_Ifldl2t = 156"
definition UD_Ifldl2e :: ud_mnemonic_code where [mnemonic_code]: "UD_Ifldl2e = 157"
definition UD_Ifldpi :: ud_mnemonic_code where [mnemonic_code]: "UD_Ifldpi = 158"
definition UD_Ifldlg2 :: ud_mnemonic_code where [mnemonic_code]: "UD_Ifldlg2 = 159"
definition UD_Ifldln2 :: ud_mnemonic_code where [mnemonic_code]: "UD_Ifldln2 = 160"
definition UD_Ifldz :: ud_mnemonic_code where [mnemonic_code]: "UD_Ifldz = 161"
definition UD_Ifldcw :: ud_mnemonic_code where [mnemonic_code]: "UD_Ifldcw = 162"
definition UD_Ifldenv :: ud_mnemonic_code where [mnemonic_code]: "UD_Ifldenv = 163"
definition UD_Ifmul :: ud_mnemonic_code where [mnemonic_code]: "UD_Ifmul = 164"
definition UD_Ifmulp :: ud_mnemonic_code where [mnemonic_code]: "UD_Ifmulp = 165"
definition UD_Ifimul :: ud_mnemonic_code where [mnemonic_code]: "UD_Ifimul = 166"
definition UD_Ifnop :: ud_mnemonic_code where [mnemonic_code]: "UD_Ifnop = 167"
definition UD_Ifpatan :: ud_mnemonic_code where [mnemonic_code]: "UD_Ifpatan = 168"
definition UD_Ifprem :: ud_mnemonic_code where [mnemonic_code]: "UD_Ifprem = 169"
definition UD_Ifprem1 :: ud_mnemonic_code where [mnemonic_code]: "UD_Ifprem1 = 170"
definition UD_Ifptan :: ud_mnemonic_code where [mnemonic_code]: "UD_Ifptan = 171"
definition UD_Ifrndint :: ud_mnemonic_code where [mnemonic_code]: "UD_Ifrndint = 172"
definition UD_Ifrstor :: ud_mnemonic_code where [mnemonic_code]: "UD_Ifrstor = 173"
definition UD_Ifnsave :: ud_mnemonic_code where [mnemonic_code]: "UD_Ifnsave = 174"
definition UD_Ifscale :: ud_mnemonic_code where [mnemonic_code]: "UD_Ifscale = 175"
definition UD_Ifsin :: ud_mnemonic_code where [mnemonic_code]: "UD_Ifsin = 176"
definition UD_Ifsincos :: ud_mnemonic_code where [mnemonic_code]: "UD_Ifsincos = 177"
definition UD_Ifsqrt :: ud_mnemonic_code where [mnemonic_code]: "UD_Ifsqrt = 178"
definition UD_Ifstp :: ud_mnemonic_code where [mnemonic_code]: "UD_Ifstp = 179"
definition UD_Ifstp1 :: ud_mnemonic_code where [mnemonic_code]: "UD_Ifstp1 = 180"
definition UD_Ifstp8 :: ud_mnemonic_code where [mnemonic_code]: "UD_Ifstp8 = 181"
definition UD_Ifstp9 :: ud_mnemonic_code where [mnemonic_code]: "UD_Ifstp9 = 182"
definition UD_Ifst :: ud_mnemonic_code where [mnemonic_code]: "UD_Ifst = 183"
definition UD_Ifnstcw :: ud_mnemonic_code where [mnemonic_code]: "UD_Ifnstcw = 184"
definition UD_Ifnstenv :: ud_mnemonic_code where [mnemonic_code]: "UD_Ifnstenv = 185"
definition UD_Ifnstsw :: ud_mnemonic_code where [mnemonic_code]: "UD_Ifnstsw = 186"
definition UD_Ifsub :: ud_mnemonic_code where [mnemonic_code]: "UD_Ifsub = 187"
definition UD_Ifsubp :: ud_mnemonic_code where [mnemonic_code]: "UD_Ifsubp = 188"
definition UD_Ifsubr :: ud_mnemonic_code where [mnemonic_code]: "UD_Ifsubr = 189"
definition UD_Ifsubrp :: ud_mnemonic_code where [mnemonic_code]: "UD_Ifsubrp = 190"
definition UD_Iftst :: ud_mnemonic_code where [mnemonic_code]: "UD_Iftst = 191"
definition UD_Ifucom :: ud_mnemonic_code where [mnemonic_code]: "UD_Ifucom = 192"
definition UD_Ifucomp :: ud_mnemonic_code where [mnemonic_code]: "UD_Ifucomp = 193"
definition UD_Ifucompp :: ud_mnemonic_code where [mnemonic_code]: "UD_Ifucompp = 194"
definition UD_Ifxam :: ud_mnemonic_code where [mnemonic_code]: "UD_Ifxam = 195"
definition UD_Ifxch :: ud_mnemonic_code where [mnemonic_code]: "UD_Ifxch = 196"
definition UD_Ifxch4 :: ud_mnemonic_code where [mnemonic_code]: "UD_Ifxch4 = 197"
definition UD_Ifxch7 :: ud_mnemonic_code where [mnemonic_code]: "UD_Ifxch7 = 198"
definition UD_Ifxrstor :: ud_mnemonic_code where [mnemonic_code]: "UD_Ifxrstor = 199"
definition UD_Ifxsave :: ud_mnemonic_code where [mnemonic_code]: "UD_Ifxsave = 200"
definition UD_Ifxtract :: ud_mnemonic_code where [mnemonic_code]: "UD_Ifxtract = 201"
definition UD_Ifyl2x :: ud_mnemonic_code where [mnemonic_code]: "UD_Ifyl2x = 202"
definition UD_Ifyl2xp1 :: ud_mnemonic_code where [mnemonic_code]: "UD_Ifyl2xp1 = 203"
definition UD_Ihlt :: ud_mnemonic_code where [mnemonic_code]: "UD_Ihlt = 204"
definition UD_Iidiv :: ud_mnemonic_code where [mnemonic_code]: "UD_Iidiv = 205"
definition UD_Iin :: ud_mnemonic_code where [mnemonic_code]: "UD_Iin = 206"
definition UD_Iimul :: ud_mnemonic_code where [mnemonic_code]: "UD_Iimul = 207"
definition UD_Iinc :: ud_mnemonic_code where [mnemonic_code]: "UD_Iinc = 208"
definition UD_Iinsb :: ud_mnemonic_code where [mnemonic_code]: "UD_Iinsb = 209"
definition UD_Iinsw :: ud_mnemonic_code where [mnemonic_code]: "UD_Iinsw = 210"
definition UD_Iinsd :: ud_mnemonic_code where [mnemonic_code]: "UD_Iinsd = 211"
definition UD_Iint1 :: ud_mnemonic_code where [mnemonic_code]: "UD_Iint1 = 212"
definition UD_Iint3 :: ud_mnemonic_code where [mnemonic_code]: "UD_Iint3 = 213"
definition UD_Iint :: ud_mnemonic_code where [mnemonic_code]: "UD_Iint = 214"
definition UD_Iinto :: ud_mnemonic_code where [mnemonic_code]: "UD_Iinto = 215"
definition UD_Iinvd :: ud_mnemonic_code where [mnemonic_code]: "UD_Iinvd = 216"
definition UD_Iinvept :: ud_mnemonic_code where [mnemonic_code]: "UD_Iinvept = 217"
definition UD_Iinvlpg :: ud_mnemonic_code where [mnemonic_code]: "UD_Iinvlpg = 218"
definition UD_Iinvlpga :: ud_mnemonic_code where [mnemonic_code]: "UD_Iinvlpga = 219"
definition UD_Iinvvpid :: ud_mnemonic_code where [mnemonic_code]: "UD_Iinvvpid = 220"
definition UD_Iiretw :: ud_mnemonic_code where [mnemonic_code]: "UD_Iiretw = 221"
definition UD_Iiretd :: ud_mnemonic_code where [mnemonic_code]: "UD_Iiretd = 222"
definition UD_Iiretq :: ud_mnemonic_code where [mnemonic_code]: "UD_Iiretq = 223"
definition UD_Ijo :: ud_mnemonic_code where [mnemonic_code]: "UD_Ijo = 224"
definition UD_Ijno :: ud_mnemonic_code where [mnemonic_code]: "UD_Ijno = 225"
definition UD_Ijb :: ud_mnemonic_code where [mnemonic_code]: "UD_Ijb = 226"
definition UD_Ijae :: ud_mnemonic_code where [mnemonic_code]: "UD_Ijae = 227"
definition UD_Ijz :: ud_mnemonic_code where [mnemonic_code]: "UD_Ijz = 228"
definition UD_Ijnz :: ud_mnemonic_code where [mnemonic_code]: "UD_Ijnz = 229"
definition UD_Ijbe :: ud_mnemonic_code where [mnemonic_code]: "UD_Ijbe = 230"
definition UD_Ija :: ud_mnemonic_code where [mnemonic_code]: "UD_Ija = 231"
definition UD_Ijs :: ud_mnemonic_code where [mnemonic_code]: "UD_Ijs = 232"
definition UD_Ijns :: ud_mnemonic_code where [mnemonic_code]: "UD_Ijns = 233"
definition UD_Ijp :: ud_mnemonic_code where [mnemonic_code]: "UD_Ijp = 234"
definition UD_Ijnp :: ud_mnemonic_code where [mnemonic_code]: "UD_Ijnp = 235"
definition UD_Ijl :: ud_mnemonic_code where [mnemonic_code]: "UD_Ijl = 236"
definition UD_Ijge :: ud_mnemonic_code where [mnemonic_code]: "UD_Ijge = 237"
definition UD_Ijle :: ud_mnemonic_code where [mnemonic_code]: "UD_Ijle = 238"
definition UD_Ijg :: ud_mnemonic_code where [mnemonic_code]: "UD_Ijg = 239"
definition UD_Ijcxz :: ud_mnemonic_code where [mnemonic_code]: "UD_Ijcxz = 240"
definition UD_Ijecxz :: ud_mnemonic_code where [mnemonic_code]: "UD_Ijecxz = 241"
definition UD_Ijrcxz :: ud_mnemonic_code where [mnemonic_code]: "UD_Ijrcxz = 242"
definition UD_Ilahf :: ud_mnemonic_code where [mnemonic_code]: "UD_Ilahf = 244"
definition UD_Ilar :: ud_mnemonic_code where [mnemonic_code]: "UD_Ilar = 245"
definition UD_Ilddqu :: ud_mnemonic_code where [mnemonic_code]: "UD_Ilddqu = 246"
definition UD_Ildmxcsr :: ud_mnemonic_code where [mnemonic_code]: "UD_Ildmxcsr = 247"
definition UD_Ilds :: ud_mnemonic_code where [mnemonic_code]: "UD_Ilds = 248"
definition UD_Ilea :: ud_mnemonic_code where [mnemonic_code]: "UD_Ilea = 249"
definition UD_Iles :: ud_mnemonic_code where [mnemonic_code]: "UD_Iles = 250"
definition UD_Ilfs :: ud_mnemonic_code where [mnemonic_code]: "UD_Ilfs = 251"
definition UD_Ilgs :: ud_mnemonic_code where [mnemonic_code]: "UD_Ilgs = 252"
definition UD_Ilidt :: ud_mnemonic_code where [mnemonic_code]: "UD_Ilidt = 253"
definition UD_Ilss :: ud_mnemonic_code where [mnemonic_code]: "UD_Ilss = 254"
definition UD_Ileave :: ud_mnemonic_code where [mnemonic_code]: "UD_Ileave = 255"
definition UD_Ilfence :: ud_mnemonic_code where [mnemonic_code]: "UD_Ilfence = 256"
definition UD_Ilgdt :: ud_mnemonic_code where [mnemonic_code]: "UD_Ilgdt = 257"
definition UD_Illdt :: ud_mnemonic_code where [mnemonic_code]: "UD_Illdt = 258"
definition UD_Ilmsw :: ud_mnemonic_code where [mnemonic_code]: "UD_Ilmsw = 259"
definition UD_Ilock :: ud_mnemonic_code where [mnemonic_code]: "UD_Ilock = 260"
definition UD_Ilodsb :: ud_mnemonic_code where [mnemonic_code]: "UD_Ilodsb = 261"
definition UD_Ilodsw :: ud_mnemonic_code where [mnemonic_code]: "UD_Ilodsw = 262"
definition UD_Ilodsd :: ud_mnemonic_code where [mnemonic_code]: "UD_Ilodsd = 263"
definition UD_Ilodsq :: ud_mnemonic_code where [mnemonic_code]: "UD_Ilodsq = 264"
definition UD_Iloopne :: ud_mnemonic_code where [mnemonic_code]: "UD_Iloopne = 265"
definition UD_Iloope :: ud_mnemonic_code where [mnemonic_code]: "UD_Iloope = 266"
definition UD_Iloop :: ud_mnemonic_code where [mnemonic_code]: "UD_Iloop = 267"
definition UD_Ilsl :: ud_mnemonic_code where [mnemonic_code]: "UD_Ilsl = 268"
definition UD_Iltr :: ud_mnemonic_code where [mnemonic_code]: "UD_Iltr = 269"
definition UD_Imaskmovq :: ud_mnemonic_code where [mnemonic_code]: "UD_Imaskmovq = 270"
definition UD_Imaxpd :: ud_mnemonic_code where [mnemonic_code]: "UD_Imaxpd = 271"
definition UD_Imaxps :: ud_mnemonic_code where [mnemonic_code]: "UD_Imaxps = 272"
definition UD_Imaxsd :: ud_mnemonic_code where [mnemonic_code]: "UD_Imaxsd = 273"
definition UD_Imaxss :: ud_mnemonic_code where [mnemonic_code]: "UD_Imaxss = 274"
definition UD_Imfence :: ud_mnemonic_code where [mnemonic_code]: "UD_Imfence = 275"
definition UD_Iminpd :: ud_mnemonic_code where [mnemonic_code]: "UD_Iminpd = 276"
definition UD_Iminps :: ud_mnemonic_code where [mnemonic_code]: "UD_Iminps = 277"
definition UD_Iminsd :: ud_mnemonic_code where [mnemonic_code]: "UD_Iminsd = 278"
definition UD_Iminss :: ud_mnemonic_code where [mnemonic_code]: "UD_Iminss = 279"
definition UD_Imonitor :: ud_mnemonic_code where [mnemonic_code]: "UD_Imonitor = 280"
definition UD_Imontmul :: ud_mnemonic_code where [mnemonic_code]: "UD_Imontmul = 281"
definition UD_Imov :: ud_mnemonic_code where [mnemonic_code]: "UD_Imov = 282"
definition UD_Imovapd :: ud_mnemonic_code where [mnemonic_code]: "UD_Imovapd = 283"
definition UD_Imovaps :: ud_mnemonic_code where [mnemonic_code]: "UD_Imovaps = 284"
definition UD_Imovd :: ud_mnemonic_code where [mnemonic_code]: "UD_Imovd = 285"
definition UD_Imovhpd :: ud_mnemonic_code where [mnemonic_code]: "UD_Imovhpd = 286"
definition UD_Imovhps :: ud_mnemonic_code where [mnemonic_code]: "UD_Imovhps = 287"
definition UD_Imovlhps :: ud_mnemonic_code where [mnemonic_code]: "UD_Imovlhps = 288"
definition UD_Imovlpd :: ud_mnemonic_code where [mnemonic_code]: "UD_Imovlpd = 289"
definition UD_Imovlps :: ud_mnemonic_code where [mnemonic_code]: "UD_Imovlps = 290"
definition UD_Imovhlps :: ud_mnemonic_code where [mnemonic_code]: "UD_Imovhlps = 291"
definition UD_Imovmskpd :: ud_mnemonic_code where [mnemonic_code]: "UD_Imovmskpd = 292"
definition UD_Imovmskps :: ud_mnemonic_code where [mnemonic_code]: "UD_Imovmskps = 293"
definition UD_Imovntdq :: ud_mnemonic_code where [mnemonic_code]: "UD_Imovntdq = 294"
definition UD_Imovnti :: ud_mnemonic_code where [mnemonic_code]: "UD_Imovnti = 295"
definition UD_Imovntpd :: ud_mnemonic_code where [mnemonic_code]: "UD_Imovntpd = 296"
definition UD_Imovntps :: ud_mnemonic_code where [mnemonic_code]: "UD_Imovntps = 297"
definition UD_Imovntq :: ud_mnemonic_code where [mnemonic_code]: "UD_Imovntq = 298"
definition UD_Imovq :: ud_mnemonic_code where [mnemonic_code]: "UD_Imovq = 299"
definition UD_Imovsb :: ud_mnemonic_code where [mnemonic_code]: "UD_Imovsb = 300"
definition UD_Imovsw :: ud_mnemonic_code where [mnemonic_code]: "UD_Imovsw = 301"
definition UD_Imovsd :: ud_mnemonic_code where [mnemonic_code]: "UD_Imovsd = 302"
definition UD_Imovsq :: ud_mnemonic_code where [mnemonic_code]: "UD_Imovsq = 303"
definition UD_Imovss :: ud_mnemonic_code where [mnemonic_code]: "UD_Imovss = 304"
definition UD_Imovsx :: ud_mnemonic_code where [mnemonic_code]: "UD_Imovsx = 305"
definition UD_Imovupd :: ud_mnemonic_code where [mnemonic_code]: "UD_Imovupd = 306"
definition UD_Imovups :: ud_mnemonic_code where [mnemonic_code]: "UD_Imovups = 307"
definition UD_Imovzx :: ud_mnemonic_code where [mnemonic_code]: "UD_Imovzx = 308"
definition UD_Imul :: ud_mnemonic_code where [mnemonic_code]: "UD_Imul = 309"
definition UD_Imulpd :: ud_mnemonic_code where [mnemonic_code]: "UD_Imulpd = 310"
definition UD_Imulps :: ud_mnemonic_code where [mnemonic_code]: "UD_Imulps = 311"
definition UD_Imulsd :: ud_mnemonic_code where [mnemonic_code]: "UD_Imulsd = 312"
definition UD_Imulss :: ud_mnemonic_code where [mnemonic_code]: "UD_Imulss = 313"
definition UD_Imwait :: ud_mnemonic_code where [mnemonic_code]: "UD_Imwait = 314"
definition UD_Ineg :: ud_mnemonic_code where [mnemonic_code]: "UD_Ineg = 315"
definition UD_Inot :: ud_mnemonic_code where [mnemonic_code]: "UD_Inot = 317"
definition UD_Ior :: ud_mnemonic_code where [mnemonic_code]: "UD_Ior = 318"
definition UD_Iorpd :: ud_mnemonic_code where [mnemonic_code]: "UD_Iorpd = 319"
definition UD_Iorps :: ud_mnemonic_code where [mnemonic_code]: "UD_Iorps = 320"
definition UD_Iout :: ud_mnemonic_code where [mnemonic_code]: "UD_Iout = 321"
definition UD_Ioutsb :: ud_mnemonic_code where [mnemonic_code]: "UD_Ioutsb = 322"
definition UD_Ioutsw :: ud_mnemonic_code where [mnemonic_code]: "UD_Ioutsw = 323"
definition UD_Ioutsd :: ud_mnemonic_code where [mnemonic_code]: "UD_Ioutsd = 324"
definition UD_Ipacksswb :: ud_mnemonic_code where [mnemonic_code]: "UD_Ipacksswb = 325"
definition UD_Ipackssdw :: ud_mnemonic_code where [mnemonic_code]: "UD_Ipackssdw = 326"
definition UD_Ipackuswb :: ud_mnemonic_code where [mnemonic_code]: "UD_Ipackuswb = 327"
definition UD_Ipaddb :: ud_mnemonic_code where [mnemonic_code]: "UD_Ipaddb = 328"
definition UD_Ipaddw :: ud_mnemonic_code where [mnemonic_code]: "UD_Ipaddw = 329"
definition UD_Ipaddd :: ud_mnemonic_code where [mnemonic_code]: "UD_Ipaddd = 330"
definition UD_Ipaddsb :: ud_mnemonic_code where [mnemonic_code]: "UD_Ipaddsb = 331"
definition UD_Ipaddsw :: ud_mnemonic_code where [mnemonic_code]: "UD_Ipaddsw = 332"
definition UD_Ipaddusb :: ud_mnemonic_code where [mnemonic_code]: "UD_Ipaddusb = 333"
definition UD_Ipaddusw :: ud_mnemonic_code where [mnemonic_code]: "UD_Ipaddusw = 334"
definition UD_Ipand :: ud_mnemonic_code where [mnemonic_code]: "UD_Ipand = 335"
definition UD_Ipandn :: ud_mnemonic_code where [mnemonic_code]: "UD_Ipandn = 336"
definition UD_Ipavgb :: ud_mnemonic_code where [mnemonic_code]: "UD_Ipavgb = 337"
definition UD_Ipavgw :: ud_mnemonic_code where [mnemonic_code]: "UD_Ipavgw = 338"
definition UD_Ipcmpeqb :: ud_mnemonic_code where [mnemonic_code]: "UD_Ipcmpeqb = 339"
definition UD_Ipcmpeqw :: ud_mnemonic_code where [mnemonic_code]: "UD_Ipcmpeqw = 340"
definition UD_Ipcmpeqd :: ud_mnemonic_code where [mnemonic_code]: "UD_Ipcmpeqd = 341"
definition UD_Ipcmpgtb :: ud_mnemonic_code where [mnemonic_code]: "UD_Ipcmpgtb = 342"
definition UD_Ipcmpgtw :: ud_mnemonic_code where [mnemonic_code]: "UD_Ipcmpgtw = 343"
definition UD_Ipcmpgtd :: ud_mnemonic_code where [mnemonic_code]: "UD_Ipcmpgtd = 344"
definition UD_Ipextrb :: ud_mnemonic_code where [mnemonic_code]: "UD_Ipextrb = 345"
definition UD_Ipextrd :: ud_mnemonic_code where [mnemonic_code]: "UD_Ipextrd = 346"
definition UD_Ipextrq :: ud_mnemonic_code where [mnemonic_code]: "UD_Ipextrq = 347"
definition UD_Ipextrw :: ud_mnemonic_code where [mnemonic_code]: "UD_Ipextrw = 348"
definition UD_Ipinsrb :: ud_mnemonic_code where [mnemonic_code]: "UD_Ipinsrb = 349"
definition UD_Ipinsrw :: ud_mnemonic_code where [mnemonic_code]: "UD_Ipinsrw = 350"
definition UD_Ipinsrd :: ud_mnemonic_code where [mnemonic_code]: "UD_Ipinsrd = 351"
definition UD_Ipinsrq :: ud_mnemonic_code where [mnemonic_code]: "UD_Ipinsrq = 352"
definition UD_Ipmaddwd :: ud_mnemonic_code where [mnemonic_code]: "UD_Ipmaddwd = 353"
definition UD_Ipmaxsw :: ud_mnemonic_code where [mnemonic_code]: "UD_Ipmaxsw = 354"
definition UD_Ipmaxub :: ud_mnemonic_code where [mnemonic_code]: "UD_Ipmaxub = 355"
definition UD_Ipminsw :: ud_mnemonic_code where [mnemonic_code]: "UD_Ipminsw = 356"
definition UD_Ipminub :: ud_mnemonic_code where [mnemonic_code]: "UD_Ipminub = 357"
definition UD_Ipmovmskb :: ud_mnemonic_code where [mnemonic_code]: "UD_Ipmovmskb = 358"
definition UD_Ipmulhuw :: ud_mnemonic_code where [mnemonic_code]: "UD_Ipmulhuw = 359"
definition UD_Ipmulhw :: ud_mnemonic_code where [mnemonic_code]: "UD_Ipmulhw = 360"
definition UD_Ipmullw :: ud_mnemonic_code where [mnemonic_code]: "UD_Ipmullw = 361"
definition UD_Ipop :: ud_mnemonic_code where [mnemonic_code]: "UD_Ipop = 362"
definition UD_Ipopa :: ud_mnemonic_code where [mnemonic_code]: "UD_Ipopa = 363"
definition UD_Ipopad :: ud_mnemonic_code where [mnemonic_code]: "UD_Ipopad = 364"
definition UD_Ipopfw :: ud_mnemonic_code where [mnemonic_code]: "UD_Ipopfw = 365"
definition UD_Ipopfd :: ud_mnemonic_code where [mnemonic_code]: "UD_Ipopfd = 366"
definition UD_Ipopfq :: ud_mnemonic_code where [mnemonic_code]: "UD_Ipopfq = 367"
definition UD_Ipor :: ud_mnemonic_code where [mnemonic_code]: "UD_Ipor = 368"
definition UD_Iprefetch :: ud_mnemonic_code where [mnemonic_code]: "UD_Iprefetch = 369"
definition UD_Iprefetchnta :: ud_mnemonic_code where [mnemonic_code]: "UD_Iprefetchnta = 370"
definition UD_Iprefetcht0 :: ud_mnemonic_code where [mnemonic_code]: "UD_Iprefetcht0 = 371"
definition UD_Iprefetcht1 :: ud_mnemonic_code where [mnemonic_code]: "UD_Iprefetcht1 = 372"
definition UD_Iprefetcht2 :: ud_mnemonic_code where [mnemonic_code]: "UD_Iprefetcht2 = 373"
definition UD_Ipsadbw :: ud_mnemonic_code where [mnemonic_code]: "UD_Ipsadbw = 374"
definition UD_Ipshufw :: ud_mnemonic_code where [mnemonic_code]: "UD_Ipshufw = 375"
definition UD_Ipsllw :: ud_mnemonic_code where [mnemonic_code]: "UD_Ipsllw = 376"
definition UD_Ipslld :: ud_mnemonic_code where [mnemonic_code]: "UD_Ipslld = 377"
definition UD_Ipsllq :: ud_mnemonic_code where [mnemonic_code]: "UD_Ipsllq = 378"
definition UD_Ipsraw :: ud_mnemonic_code where [mnemonic_code]: "UD_Ipsraw = 379"
definition UD_Ipsrad :: ud_mnemonic_code where [mnemonic_code]: "UD_Ipsrad = 380"
definition UD_Ipsrlw :: ud_mnemonic_code where [mnemonic_code]: "UD_Ipsrlw = 381"
definition UD_Ipsrld :: ud_mnemonic_code where [mnemonic_code]: "UD_Ipsrld = 382"
definition UD_Ipsrlq :: ud_mnemonic_code where [mnemonic_code]: "UD_Ipsrlq = 383"
definition UD_Ipsubb :: ud_mnemonic_code where [mnemonic_code]: "UD_Ipsubb = 384"
definition UD_Ipsubw :: ud_mnemonic_code where [mnemonic_code]: "UD_Ipsubw = 385"
definition UD_Ipsubd :: ud_mnemonic_code where [mnemonic_code]: "UD_Ipsubd = 386"
definition UD_Ipsubsb :: ud_mnemonic_code where [mnemonic_code]: "UD_Ipsubsb = 387"
definition UD_Ipsubsw :: ud_mnemonic_code where [mnemonic_code]: "UD_Ipsubsw = 388"
definition UD_Ipsubusb :: ud_mnemonic_code where [mnemonic_code]: "UD_Ipsubusb = 389"
definition UD_Ipsubusw :: ud_mnemonic_code where [mnemonic_code]: "UD_Ipsubusw = 390"
definition UD_Ipunpckhbw :: ud_mnemonic_code where [mnemonic_code]: "UD_Ipunpckhbw = 391"
definition UD_Ipunpckhwd :: ud_mnemonic_code where [mnemonic_code]: "UD_Ipunpckhwd = 392"
definition UD_Ipunpckhdq :: ud_mnemonic_code where [mnemonic_code]: "UD_Ipunpckhdq = 393"
definition UD_Ipunpcklbw :: ud_mnemonic_code where [mnemonic_code]: "UD_Ipunpcklbw = 394"
definition UD_Ipunpcklwd :: ud_mnemonic_code where [mnemonic_code]: "UD_Ipunpcklwd = 395"
definition UD_Ipunpckldq :: ud_mnemonic_code where [mnemonic_code]: "UD_Ipunpckldq = 396"
definition UD_Ipi2fw :: ud_mnemonic_code where [mnemonic_code]: "UD_Ipi2fw = 397"
definition UD_Ipi2fd :: ud_mnemonic_code where [mnemonic_code]: "UD_Ipi2fd = 398"
definition UD_Ipf2iw :: ud_mnemonic_code where [mnemonic_code]: "UD_Ipf2iw = 399"
definition UD_Ipf2id :: ud_mnemonic_code where [mnemonic_code]: "UD_Ipf2id = 400"
definition UD_Ipfnacc :: ud_mnemonic_code where [mnemonic_code]: "UD_Ipfnacc = 401"
definition UD_Ipfpnacc :: ud_mnemonic_code where [mnemonic_code]: "UD_Ipfpnacc = 402"
definition UD_Ipfcmpge :: ud_mnemonic_code where [mnemonic_code]: "UD_Ipfcmpge = 403"
definition UD_Ipfmin :: ud_mnemonic_code where [mnemonic_code]: "UD_Ipfmin = 404"
definition UD_Ipfrcp :: ud_mnemonic_code where [mnemonic_code]: "UD_Ipfrcp = 405"
definition UD_Ipfrsqrt :: ud_mnemonic_code where [mnemonic_code]: "UD_Ipfrsqrt = 406"
definition UD_Ipfsub :: ud_mnemonic_code where [mnemonic_code]: "UD_Ipfsub = 407"
definition UD_Ipfadd :: ud_mnemonic_code where [mnemonic_code]: "UD_Ipfadd = 408"
definition UD_Ipfcmpgt :: ud_mnemonic_code where [mnemonic_code]: "UD_Ipfcmpgt = 409"
definition UD_Ipfmax :: ud_mnemonic_code where [mnemonic_code]: "UD_Ipfmax = 410"
definition UD_Ipfrcpit1 :: ud_mnemonic_code where [mnemonic_code]: "UD_Ipfrcpit1 = 411"
definition UD_Ipfrsqit1 :: ud_mnemonic_code where [mnemonic_code]: "UD_Ipfrsqit1 = 412"
definition UD_Ipfsubr :: ud_mnemonic_code where [mnemonic_code]: "UD_Ipfsubr = 413"
definition UD_Ipfacc :: ud_mnemonic_code where [mnemonic_code]: "UD_Ipfacc = 414"
definition UD_Ipfcmpeq :: ud_mnemonic_code where [mnemonic_code]: "UD_Ipfcmpeq = 415"
definition UD_Ipfmul :: ud_mnemonic_code where [mnemonic_code]: "UD_Ipfmul = 416"
definition UD_Ipfrcpit2 :: ud_mnemonic_code where [mnemonic_code]: "UD_Ipfrcpit2 = 417"
definition UD_Ipmulhrw :: ud_mnemonic_code where [mnemonic_code]: "UD_Ipmulhrw = 418"
definition UD_Ipswapd :: ud_mnemonic_code where [mnemonic_code]: "UD_Ipswapd = 419"
definition UD_Ipavgusb :: ud_mnemonic_code where [mnemonic_code]: "UD_Ipavgusb = 420"
definition UD_Ipush :: ud_mnemonic_code where [mnemonic_code]: "UD_Ipush = 421"
definition UD_Ipusha :: ud_mnemonic_code where [mnemonic_code]: "UD_Ipusha = 422"
definition UD_Ipushad :: ud_mnemonic_code where [mnemonic_code]: "UD_Ipushad = 423"
definition UD_Ipushfw :: ud_mnemonic_code where [mnemonic_code]: "UD_Ipushfw = 424"
definition UD_Ipushfd :: ud_mnemonic_code where [mnemonic_code]: "UD_Ipushfd = 425"
definition UD_Ipushfq :: ud_mnemonic_code where [mnemonic_code]: "UD_Ipushfq = 426"
definition UD_Ipxor :: ud_mnemonic_code where [mnemonic_code]: "UD_Ipxor = 427"
definition UD_Ircpps :: ud_mnemonic_code where [mnemonic_code]: "UD_Ircpps = 432"
definition UD_Ircpss :: ud_mnemonic_code where [mnemonic_code]: "UD_Ircpss = 433"
definition UD_Irdmsr :: ud_mnemonic_code where [mnemonic_code]: "UD_Irdmsr = 434"
definition UD_Irdpmc :: ud_mnemonic_code where [mnemonic_code]: "UD_Irdpmc = 435"
definition UD_Irdtsc :: ud_mnemonic_code where [mnemonic_code]: "UD_Irdtsc = 436"
definition UD_Irdtscp :: ud_mnemonic_code where [mnemonic_code]: "UD_Irdtscp = 437"
definition UD_Irepne :: ud_mnemonic_code where [mnemonic_code]: "UD_Irepne = 438"
definition UD_Irep :: ud_mnemonic_code where [mnemonic_code]: "UD_Irep = 439"
definition UD_Iret :: ud_mnemonic_code where [mnemonic_code]: "UD_Iret = 440"
definition UD_Irsm :: ud_mnemonic_code where [mnemonic_code]: "UD_Irsm = 442"
definition UD_Irsqrtps :: ud_mnemonic_code where [mnemonic_code]: "UD_Irsqrtps = 443"
definition UD_Irsqrtss :: ud_mnemonic_code where [mnemonic_code]: "UD_Irsqrtss = 444"
definition UD_Isahf :: ud_mnemonic_code where [mnemonic_code]: "UD_Isahf = 445"
definition UD_Isalc :: ud_mnemonic_code where [mnemonic_code]: "UD_Isalc = 446"
definition UD_Isbb :: ud_mnemonic_code where [mnemonic_code]: "UD_Isbb = 450"
definition UD_Iscasb :: ud_mnemonic_code where [mnemonic_code]: "UD_Iscasb = 451"
definition UD_Iscasw :: ud_mnemonic_code where [mnemonic_code]: "UD_Iscasw = 452"
definition UD_Iscasd :: ud_mnemonic_code where [mnemonic_code]: "UD_Iscasd = 453"
definition UD_Iscasq :: ud_mnemonic_code where [mnemonic_code]: "UD_Iscasq = 454"
definition UD_Iseto :: ud_mnemonic_code where [mnemonic_code]: "UD_Iseto = 455"
definition UD_Isetno :: ud_mnemonic_code where [mnemonic_code]: "UD_Isetno = 456"
definition UD_Isetb :: ud_mnemonic_code where [mnemonic_code]: "UD_Isetb = 457"
definition UD_Isetae :: ud_mnemonic_code where [mnemonic_code]: "UD_Isetae = 458"
definition UD_Isetz :: ud_mnemonic_code where [mnemonic_code]: "UD_Isetz = 459"
definition UD_Isetnz :: ud_mnemonic_code where [mnemonic_code]: "UD_Isetnz = 460"
definition UD_Isetbe :: ud_mnemonic_code where [mnemonic_code]: "UD_Isetbe = 461"
definition UD_Iseta :: ud_mnemonic_code where [mnemonic_code]: "UD_Iseta = 462"
definition UD_Isets :: ud_mnemonic_code where [mnemonic_code]: "UD_Isets = 463"
definition UD_Isetns :: ud_mnemonic_code where [mnemonic_code]: "UD_Isetns = 464"
definition UD_Isetp :: ud_mnemonic_code where [mnemonic_code]: "UD_Isetp = 465"
definition UD_Isetnp :: ud_mnemonic_code where [mnemonic_code]: "UD_Isetnp = 466"
definition UD_Isetl :: ud_mnemonic_code where [mnemonic_code]: "UD_Isetl = 467"
definition UD_Isetge :: ud_mnemonic_code where [mnemonic_code]: "UD_Isetge = 468"
definition UD_Isetle :: ud_mnemonic_code where [mnemonic_code]: "UD_Isetle = 469"
definition UD_Isetg :: ud_mnemonic_code where [mnemonic_code]: "UD_Isetg = 470"
definition UD_Isfence :: ud_mnemonic_code where [mnemonic_code]: "UD_Isfence = 471"
definition UD_Isgdt :: ud_mnemonic_code where [mnemonic_code]: "UD_Isgdt = 472"
definition UD_Ishld :: ud_mnemonic_code where [mnemonic_code]: "UD_Ishld = 473"
definition UD_Ishrd :: ud_mnemonic_code where [mnemonic_code]: "UD_Ishrd = 474"
definition UD_Ishufpd :: ud_mnemonic_code where [mnemonic_code]: "UD_Ishufpd = 475"
definition UD_Ishufps :: ud_mnemonic_code where [mnemonic_code]: "UD_Ishufps = 476"
definition UD_Isidt :: ud_mnemonic_code where [mnemonic_code]: "UD_Isidt = 477"
definition UD_Isldt :: ud_mnemonic_code where [mnemonic_code]: "UD_Isldt = 478"
definition UD_Ismsw :: ud_mnemonic_code where [mnemonic_code]: "UD_Ismsw = 479"
definition UD_Isqrtps :: ud_mnemonic_code where [mnemonic_code]: "UD_Isqrtps = 480"
definition UD_Isqrtpd :: ud_mnemonic_code where [mnemonic_code]: "UD_Isqrtpd = 481"
definition UD_Isqrtsd :: ud_mnemonic_code where [mnemonic_code]: "UD_Isqrtsd = 482"
definition UD_Isqrtss :: ud_mnemonic_code where [mnemonic_code]: "UD_Isqrtss = 483"
definition UD_Istc :: ud_mnemonic_code where [mnemonic_code]: "UD_Istc = 484"
definition UD_Istd :: ud_mnemonic_code where [mnemonic_code]: "UD_Istd = 485"
definition UD_Istgi :: ud_mnemonic_code where [mnemonic_code]: "UD_Istgi = 486"
definition UD_Isti :: ud_mnemonic_code where [mnemonic_code]: "UD_Isti = 487"
definition UD_Iskinit :: ud_mnemonic_code where [mnemonic_code]: "UD_Iskinit = 488"
definition UD_Istmxcsr :: ud_mnemonic_code where [mnemonic_code]: "UD_Istmxcsr = 489"
definition UD_Istosb :: ud_mnemonic_code where [mnemonic_code]: "UD_Istosb = 490"
definition UD_Istosw :: ud_mnemonic_code where [mnemonic_code]: "UD_Istosw = 491"
definition UD_Istosd :: ud_mnemonic_code where [mnemonic_code]: "UD_Istosd = 492"
definition UD_Istosq :: ud_mnemonic_code where [mnemonic_code]: "UD_Istosq = 493"
definition UD_Istr :: ud_mnemonic_code where [mnemonic_code]: "UD_Istr = 494"
definition UD_Isub :: ud_mnemonic_code where [mnemonic_code]: "UD_Isub = 495"
definition UD_Isubpd :: ud_mnemonic_code where [mnemonic_code]: "UD_Isubpd = 496"
definition UD_Isubps :: ud_mnemonic_code where [mnemonic_code]: "UD_Isubps = 497"
definition UD_Isubsd :: ud_mnemonic_code where [mnemonic_code]: "UD_Isubsd = 498"
definition UD_Isubss :: ud_mnemonic_code where [mnemonic_code]: "UD_Isubss = 499"
definition UD_Isyscall :: ud_mnemonic_code where [mnemonic_code]: "UD_Isyscall = 501"
definition UD_Isysenter :: ud_mnemonic_code where [mnemonic_code]: "UD_Isysenter = 502"
definition UD_Isysexit :: ud_mnemonic_code where [mnemonic_code]: "UD_Isysexit = 503"
definition UD_Isysret :: ud_mnemonic_code where [mnemonic_code]: "UD_Isysret = 504"
definition UD_Itest :: ud_mnemonic_code where [mnemonic_code]: "UD_Itest = 505"
definition UD_Iucomisd :: ud_mnemonic_code where [mnemonic_code]: "UD_Iucomisd = 506"
definition UD_Iucomiss :: ud_mnemonic_code where [mnemonic_code]: "UD_Iucomiss = 507"
definition UD_Iud2 :: ud_mnemonic_code where [mnemonic_code]: "UD_Iud2 = 508"
definition UD_Iunpckhpd :: ud_mnemonic_code where [mnemonic_code]: "UD_Iunpckhpd = 509"
definition UD_Iunpckhps :: ud_mnemonic_code where [mnemonic_code]: "UD_Iunpckhps = 510"
definition UD_Iunpcklps :: ud_mnemonic_code where [mnemonic_code]: "UD_Iunpcklps = 511"
definition UD_Iunpcklpd :: ud_mnemonic_code where [mnemonic_code]: "UD_Iunpcklpd = 512"
definition UD_Iverr :: ud_mnemonic_code where [mnemonic_code]: "UD_Iverr = 513"
definition UD_Iverw :: ud_mnemonic_code where [mnemonic_code]: "UD_Iverw = 514"
definition UD_Ivmcall :: ud_mnemonic_code where [mnemonic_code]: "UD_Ivmcall = 515"
definition UD_Ivmclear :: ud_mnemonic_code where [mnemonic_code]: "UD_Ivmclear = 516"
definition UD_Ivmxon :: ud_mnemonic_code where [mnemonic_code]: "UD_Ivmxon = 517"
definition UD_Ivmptrld :: ud_mnemonic_code where [mnemonic_code]: "UD_Ivmptrld = 518"
definition UD_Ivmptrst :: ud_mnemonic_code where [mnemonic_code]: "UD_Ivmptrst = 519"
definition UD_Ivmlaunch :: ud_mnemonic_code where [mnemonic_code]: "UD_Ivmlaunch = 520"
definition UD_Ivmresume :: ud_mnemonic_code where [mnemonic_code]: "UD_Ivmresume = 521"
definition UD_Ivmxoff :: ud_mnemonic_code where [mnemonic_code]: "UD_Ivmxoff = 522"
definition UD_Ivmread :: ud_mnemonic_code where [mnemonic_code]: "UD_Ivmread = 523"
definition UD_Ivmwrite :: ud_mnemonic_code where [mnemonic_code]: "UD_Ivmwrite = 524"
definition UD_Ivmrun :: ud_mnemonic_code where [mnemonic_code]: "UD_Ivmrun = 525"
definition UD_Ivmmcall :: ud_mnemonic_code where [mnemonic_code]: "UD_Ivmmcall = 526"
definition UD_Ivmload :: ud_mnemonic_code where [mnemonic_code]: "UD_Ivmload = 527"
definition UD_Ivmsave :: ud_mnemonic_code where [mnemonic_code]: "UD_Ivmsave = 528"
definition UD_Iwait :: ud_mnemonic_code where [mnemonic_code]: "UD_Iwait = 529"
definition UD_Iwbinvd :: ud_mnemonic_code where [mnemonic_code]: "UD_Iwbinvd = 530"
definition UD_Iwrmsr :: ud_mnemonic_code where [mnemonic_code]: "UD_Iwrmsr = 531"
definition UD_Ixadd :: ud_mnemonic_code where [mnemonic_code]: "UD_Ixadd = 532"
definition UD_Ixgetbv :: ud_mnemonic_code where [mnemonic_code]: "UD_Ixgetbv = 534"
definition UD_Ixlatb :: ud_mnemonic_code where [mnemonic_code]: "UD_Ixlatb = 535"
definition UD_Ixor :: ud_mnemonic_code where [mnemonic_code]: "UD_Ixor = 536"
definition UD_Ixorpd :: ud_mnemonic_code where [mnemonic_code]: "UD_Ixorpd = 537"
definition UD_Ixorps :: ud_mnemonic_code where [mnemonic_code]: "UD_Ixorps = 538"
definition UD_Ixcryptecb :: ud_mnemonic_code where [mnemonic_code]: "UD_Ixcryptecb = 539"
definition UD_Ixcryptcbc :: ud_mnemonic_code where [mnemonic_code]: "UD_Ixcryptcbc = 540"
definition UD_Ixcryptctr :: ud_mnemonic_code where [mnemonic_code]: "UD_Ixcryptctr = 541"
definition UD_Ixcryptcfb :: ud_mnemonic_code where [mnemonic_code]: "UD_Ixcryptcfb = 542"
definition UD_Ixcryptofb :: ud_mnemonic_code where [mnemonic_code]: "UD_Ixcryptofb = 543"
definition UD_Ixrstor :: ud_mnemonic_code where [mnemonic_code]: "UD_Ixrstor = 544"
definition UD_Ixsave :: ud_mnemonic_code where [mnemonic_code]: "UD_Ixsave = 545"
definition UD_Ixsetbv :: ud_mnemonic_code where [mnemonic_code]: "UD_Ixsetbv = 546"
definition UD_Ixsha1 :: ud_mnemonic_code where [mnemonic_code]: "UD_Ixsha1 = 547"
definition UD_Ixsha256 :: ud_mnemonic_code where [mnemonic_code]: "UD_Ixsha256 = 548"
definition UD_Ixstore :: ud_mnemonic_code where [mnemonic_code]: "UD_Ixstore = 549"
definition UD_Iaesdec :: ud_mnemonic_code where [mnemonic_code]: "UD_Iaesdec = 550"
definition UD_Iaesdeclast :: ud_mnemonic_code where [mnemonic_code]: "UD_Iaesdeclast = 551"
definition UD_Iaesenc :: ud_mnemonic_code where [mnemonic_code]: "UD_Iaesenc = 552"
definition UD_Iaesenclast :: ud_mnemonic_code where [mnemonic_code]: "UD_Iaesenclast = 553"
definition UD_Iaesimc :: ud_mnemonic_code where [mnemonic_code]: "UD_Iaesimc = 554"
definition UD_Iaeskeygenassist :: ud_mnemonic_code where [mnemonic_code]: "UD_Iaeskeygenassist = 555"
definition UD_Ipclmulqdq :: ud_mnemonic_code where [mnemonic_code]: "UD_Ipclmulqdq = 556"
definition UD_Igetsec :: ud_mnemonic_code where [mnemonic_code]: "UD_Igetsec = 557"
definition UD_Imovdqa :: ud_mnemonic_code where [mnemonic_code]: "UD_Imovdqa = 558"
definition UD_Imaskmovdqu :: ud_mnemonic_code where [mnemonic_code]: "UD_Imaskmovdqu = 559"
definition UD_Imovdq2q :: ud_mnemonic_code where [mnemonic_code]: "UD_Imovdq2q = 560"
definition UD_Imovdqu :: ud_mnemonic_code where [mnemonic_code]: "UD_Imovdqu = 561"
definition UD_Imovq2dq :: ud_mnemonic_code where [mnemonic_code]: "UD_Imovq2dq = 562"
definition UD_Ipaddq :: ud_mnemonic_code where [mnemonic_code]: "UD_Ipaddq = 563"
definition UD_Ipsubq :: ud_mnemonic_code where [mnemonic_code]: "UD_Ipsubq = 564"
definition UD_Ipmuludq :: ud_mnemonic_code where [mnemonic_code]: "UD_Ipmuludq = 565"
definition UD_Ipshufhw :: ud_mnemonic_code where [mnemonic_code]: "UD_Ipshufhw = 566"
definition UD_Ipshuflw :: ud_mnemonic_code where [mnemonic_code]: "UD_Ipshuflw = 567"
definition UD_Ipshufd :: ud_mnemonic_code where [mnemonic_code]: "UD_Ipshufd = 568"
definition UD_Ipslldq :: ud_mnemonic_code where [mnemonic_code]: "UD_Ipslldq = 569"
definition UD_Ipsrldq :: ud_mnemonic_code where [mnemonic_code]: "UD_Ipsrldq = 570"
definition UD_Ipunpckhqdq :: ud_mnemonic_code where [mnemonic_code]: "UD_Ipunpckhqdq = 571"
definition UD_Ipunpcklqdq :: ud_mnemonic_code where [mnemonic_code]: "UD_Ipunpcklqdq = 572"
definition UD_Iaddsubpd :: ud_mnemonic_code where [mnemonic_code]: "UD_Iaddsubpd = 573"
definition UD_Iaddsubps :: ud_mnemonic_code where [mnemonic_code]: "UD_Iaddsubps = 574"
definition UD_Ihaddpd :: ud_mnemonic_code where [mnemonic_code]: "UD_Ihaddpd = 575"
definition UD_Ihaddps :: ud_mnemonic_code where [mnemonic_code]: "UD_Ihaddps = 576"
definition UD_Ihsubpd :: ud_mnemonic_code where [mnemonic_code]: "UD_Ihsubpd = 577"
definition UD_Ihsubps :: ud_mnemonic_code where [mnemonic_code]: "UD_Ihsubps = 578"
definition UD_Imovddup :: ud_mnemonic_code where [mnemonic_code]: "UD_Imovddup = 579"
definition UD_Imovshdup :: ud_mnemonic_code where [mnemonic_code]: "UD_Imovshdup = 580"
definition UD_Imovsldup :: ud_mnemonic_code where [mnemonic_code]: "UD_Imovsldup = 581"
definition UD_Ipabsb :: ud_mnemonic_code where [mnemonic_code]: "UD_Ipabsb = 582"
definition UD_Ipabsw :: ud_mnemonic_code where [mnemonic_code]: "UD_Ipabsw = 583"
definition UD_Ipabsd :: ud_mnemonic_code where [mnemonic_code]: "UD_Ipabsd = 584"
definition UD_Ipshufb :: ud_mnemonic_code where [mnemonic_code]: "UD_Ipshufb = 585"
definition UD_Iphaddw :: ud_mnemonic_code where [mnemonic_code]: "UD_Iphaddw = 586"
definition UD_Iphaddd :: ud_mnemonic_code where [mnemonic_code]: "UD_Iphaddd = 587"
definition UD_Iphaddsw :: ud_mnemonic_code where [mnemonic_code]: "UD_Iphaddsw = 588"
definition UD_Ipmaddubsw :: ud_mnemonic_code where [mnemonic_code]: "UD_Ipmaddubsw = 589"
definition UD_Iphsubw :: ud_mnemonic_code where [mnemonic_code]: "UD_Iphsubw = 590"
definition UD_Iphsubd :: ud_mnemonic_code where [mnemonic_code]: "UD_Iphsubd = 591"
definition UD_Iphsubsw :: ud_mnemonic_code where [mnemonic_code]: "UD_Iphsubsw = 592"
definition UD_Ipsignb :: ud_mnemonic_code where [mnemonic_code]: "UD_Ipsignb = 593"
definition UD_Ipsignd :: ud_mnemonic_code where [mnemonic_code]: "UD_Ipsignd = 594"
definition UD_Ipsignw :: ud_mnemonic_code where [mnemonic_code]: "UD_Ipsignw = 595"
definition UD_Ipmulhrsw :: ud_mnemonic_code where [mnemonic_code]: "UD_Ipmulhrsw = 596"
definition UD_Ipalignr :: ud_mnemonic_code where [mnemonic_code]: "UD_Ipalignr = 597"
definition UD_Ipblendvb :: ud_mnemonic_code where [mnemonic_code]: "UD_Ipblendvb = 598"
definition UD_Ipmuldq :: ud_mnemonic_code where [mnemonic_code]: "UD_Ipmuldq = 599"
definition UD_Ipminsb :: ud_mnemonic_code where [mnemonic_code]: "UD_Ipminsb = 600"
definition UD_Ipminsd :: ud_mnemonic_code where [mnemonic_code]: "UD_Ipminsd = 601"
definition UD_Ipminuw :: ud_mnemonic_code where [mnemonic_code]: "UD_Ipminuw = 602"
definition UD_Ipminud :: ud_mnemonic_code where [mnemonic_code]: "UD_Ipminud = 603"
definition UD_Ipmaxsb :: ud_mnemonic_code where [mnemonic_code]: "UD_Ipmaxsb = 604"
definition UD_Ipmaxsd :: ud_mnemonic_code where [mnemonic_code]: "UD_Ipmaxsd = 605"
definition UD_Ipmaxud :: ud_mnemonic_code where [mnemonic_code]: "UD_Ipmaxud = 606"
definition UD_Ipmaxuw :: ud_mnemonic_code where [mnemonic_code]: "UD_Ipmaxuw = 607"
definition UD_Ipmulld :: ud_mnemonic_code where [mnemonic_code]: "UD_Ipmulld = 608"
definition UD_Iphminposuw :: ud_mnemonic_code where [mnemonic_code]: "UD_Iphminposuw = 609"
definition UD_Iroundps :: ud_mnemonic_code where [mnemonic_code]: "UD_Iroundps = 610"
definition UD_Iroundpd :: ud_mnemonic_code where [mnemonic_code]: "UD_Iroundpd = 611"
definition UD_Iroundss :: ud_mnemonic_code where [mnemonic_code]: "UD_Iroundss = 612"
definition UD_Iroundsd :: ud_mnemonic_code where [mnemonic_code]: "UD_Iroundsd = 613"
definition UD_Iblendpd :: ud_mnemonic_code where [mnemonic_code]: "UD_Iblendpd = 614"
definition UD_Ipblendw :: ud_mnemonic_code where [mnemonic_code]: "UD_Ipblendw = 615"
definition UD_Iblendps :: ud_mnemonic_code where [mnemonic_code]: "UD_Iblendps = 616"
definition UD_Iblendvpd :: ud_mnemonic_code where [mnemonic_code]: "UD_Iblendvpd = 617"
definition UD_Iblendvps :: ud_mnemonic_code where [mnemonic_code]: "UD_Iblendvps = 618"
definition UD_Idpps :: ud_mnemonic_code where [mnemonic_code]: "UD_Idpps = 619"
definition UD_Idppd :: ud_mnemonic_code where [mnemonic_code]: "UD_Idppd = 620"
definition UD_Impsadbw :: ud_mnemonic_code where [mnemonic_code]: "UD_Impsadbw = 621"
definition UD_Iextractps :: ud_mnemonic_code where [mnemonic_code]: "UD_Iextractps = 622"
definition UD_Iinsertps :: ud_mnemonic_code where [mnemonic_code]: "UD_Iinsertps = 623"
definition UD_Imovntdqa :: ud_mnemonic_code where [mnemonic_code]: "UD_Imovntdqa = 624"
definition UD_Ipackusdw :: ud_mnemonic_code where [mnemonic_code]: "UD_Ipackusdw = 625"
definition UD_Ipmovsxbw :: ud_mnemonic_code where [mnemonic_code]: "UD_Ipmovsxbw = 626"
definition UD_Ipmovsxbd :: ud_mnemonic_code where [mnemonic_code]: "UD_Ipmovsxbd = 627"
definition UD_Ipmovsxbq :: ud_mnemonic_code where [mnemonic_code]: "UD_Ipmovsxbq = 628"
definition UD_Ipmovsxwd :: ud_mnemonic_code where [mnemonic_code]: "UD_Ipmovsxwd = 629"
definition UD_Ipmovsxwq :: ud_mnemonic_code where [mnemonic_code]: "UD_Ipmovsxwq = 630"
definition UD_Ipmovsxdq :: ud_mnemonic_code where [mnemonic_code]: "UD_Ipmovsxdq = 631"
definition UD_Ipmovzxbw :: ud_mnemonic_code where [mnemonic_code]: "UD_Ipmovzxbw = 632"
definition UD_Ipmovzxbd :: ud_mnemonic_code where [mnemonic_code]: "UD_Ipmovzxbd = 633"
definition UD_Ipmovzxbq :: ud_mnemonic_code where [mnemonic_code]: "UD_Ipmovzxbq = 634"
definition UD_Ipmovzxwd :: ud_mnemonic_code where [mnemonic_code]: "UD_Ipmovzxwd = 635"
definition UD_Ipmovzxwq :: ud_mnemonic_code where [mnemonic_code]: "UD_Ipmovzxwq = 636"
definition UD_Ipmovzxdq :: ud_mnemonic_code where [mnemonic_code]: "UD_Ipmovzxdq = 637"
definition UD_Ipcmpeqq :: ud_mnemonic_code where [mnemonic_code]: "UD_Ipcmpeqq = 638"
definition UD_Ipopcnt :: ud_mnemonic_code where [mnemonic_code]: "UD_Ipopcnt = 639"
definition UD_Iptest :: ud_mnemonic_code where [mnemonic_code]: "UD_Iptest = 640"
definition UD_Ipcmpestri :: ud_mnemonic_code where [mnemonic_code]: "UD_Ipcmpestri = 641"
definition UD_Ipcmpestrm :: ud_mnemonic_code where [mnemonic_code]: "UD_Ipcmpestrm = 642"
definition UD_Ipcmpgtq :: ud_mnemonic_code where [mnemonic_code]: "UD_Ipcmpgtq = 643"
definition UD_Ipcmpistri :: ud_mnemonic_code where [mnemonic_code]: "UD_Ipcmpistri = 644"
definition UD_Ipcmpistrm :: ud_mnemonic_code where [mnemonic_code]: "UD_Ipcmpistrm = 645"
definition UD_Imovbe :: ud_mnemonic_code where [mnemonic_code]: "UD_Imovbe = 646"
definition UD_Icrc32 :: ud_mnemonic_code where [mnemonic_code]: "UD_Icrc32 = 647"

declare ud_mnemonic_defs [mnemonic_code]

end
