(* ===== verification/Itab_Base.thy ===== *)
theory Itab_Base
  imports Itab_Codes "HOL-Library.Word"
begin

text \<open>
  \<^verbatim>\<open>libudis86/itab.c\<close>: the notation of the generated tables. \<open>GROUP n\<close> points to the lookup table
  number \<open>n\<close>; the \<open>O_\<close> constants are the kinds and sizes of operands, the \<open>P_\<close> constants the
  prefix bits. \<open>TAB\<close> and \<open>ITAB\<close> are the initialisers of the two structures.
\<close>

unbundle bit_operations_syntax

named_theorems itab_table
named_theorems itab_operand

definition GROUP :: "nat \<Rightarrow> u16" where "GROUP n = 0x8000 OR of_nat n"

definition TAB :: "u16 list \<Rightarrow> ud_table_type \<Rightarrow> ud_lookup_table_list_entry" where
  "TAB t ty = \<lparr>le_table = t, le_type = ty\<rparr>"

definition ITAB :: "ud_mnemonic_code \<Rightarrow> ud_itab_entry_operand \<Rightarrow> ud_itab_entry_operand \<Rightarrow>
    ud_itab_entry_operand \<Rightarrow> u32 \<Rightarrow> ud_itab_entry" where
  "ITAB m o1 o2 o3 p = \<lparr>ie_mnemonic = m, ie_operand1 = o1, ie_operand2 = o2, ie_operand3 = o3, ie_prefix = p\<rparr>"

definition OPDEF :: "ud_operand_code \<Rightarrow> ud_operand_size \<Rightarrow> ud_itab_entry_operand" where
  "OPDEF ty sz = \<lparr>eo_type = ty, eo_size = sz\<rparr>"

section \<open>Prefix bits (decode.h)\<close>

definition P_none :: u32 where "P_none = 0"
definition P_rexb :: u32 where "P_rexb = push_bit 1 1"
definition P_inv64 :: u32 where "P_inv64 = push_bit 4 1"
definition P_rexw :: u32 where "P_rexw = push_bit 5 1"
definition P_def64 :: u32 where "P_def64 = push_bit 7 1"
definition P_rexr :: u32 where "P_rexr = push_bit 8 1"
definition P_oso :: u32 where "P_oso = push_bit 9 1"
definition P_aso :: u32 where "P_aso = push_bit 10 1"
definition P_rexx :: u32 where "P_rexx = push_bit 11 1"
definition P_seg :: u32 where "P_seg = push_bit 13 1"
definition P_str :: u32 where "P_str = push_bit 14 1"
definition P_strz :: u32 where "P_strz = push_bit 15 1"

lemmas p_flag_defs =
  P_none_def P_rexb_def P_inv64_def P_rexw_def P_def64_def P_rexr_def P_oso_def P_aso_def
  P_rexx_def P_seg_def P_str_def P_strz_def

section \<open>Operands\<close>

definition O_AL :: ud_itab_entry_operand where [itab_operand]: "O_AL = OPDEF OP_AL SZ_B"
definition O_AX :: ud_itab_entry_operand where [itab_operand]: "O_AX = OPDEF OP_AX SZ_W"
definition O_Av :: ud_itab_entry_operand where [itab_operand]: "O_Av = OPDEF OP_A SZ_V"
definition O_C :: ud_itab_entry_operand where [itab_operand]: "O_C = OPDEF OP_C SZ_NA"
definition O_CL :: ud_itab_entry_operand where [itab_operand]: "O_CL = OPDEF OP_CL SZ_B"
definition O_CS :: ud_itab_entry_operand where [itab_operand]: "O_CS = OPDEF OP_CS SZ_NA"
definition O_CX :: ud_itab_entry_operand where [itab_operand]: "O_CX = OPDEF OP_CX SZ_W"
definition O_D :: ud_itab_entry_operand where [itab_operand]: "O_D = OPDEF OP_D SZ_NA"
definition O_DL :: ud_itab_entry_operand where [itab_operand]: "O_DL = OPDEF OP_DL SZ_B"
definition O_DS :: ud_itab_entry_operand where [itab_operand]: "O_DS = OPDEF OP_DS SZ_NA"
definition O_DX :: ud_itab_entry_operand where [itab_operand]: "O_DX = OPDEF OP_DX SZ_W"
definition O_E :: ud_itab_entry_operand where [itab_operand]: "O_E = OPDEF OP_E SZ_NA"
definition O_ES :: ud_itab_entry_operand where [itab_operand]: "O_ES = OPDEF OP_ES SZ_NA"
definition O_Eb :: ud_itab_entry_operand where [itab_operand]: "O_Eb = OPDEF OP_E SZ_B"
definition O_Ed :: ud_itab_entry_operand where [itab_operand]: "O_Ed = OPDEF OP_E SZ_D"
definition O_Eq :: ud_itab_entry_operand where [itab_operand]: "O_Eq = OPDEF OP_E SZ_Q"
definition O_Ev :: ud_itab_entry_operand where [itab_operand]: "O_Ev = OPDEF OP_E SZ_V"
definition O_Ew :: ud_itab_entry_operand where [itab_operand]: "O_Ew = OPDEF OP_E SZ_W"
definition O_Ey :: ud_itab_entry_operand where [itab_operand]: "O_Ey = OPDEF OP_E SZ_Y"
definition O_Ez :: ud_itab_entry_operand where [itab_operand]: "O_Ez = OPDEF OP_E SZ_Z"
definition O_FS :: ud_itab_entry_operand where [itab_operand]: "O_FS = OPDEF OP_FS SZ_NA"
definition O_Fv :: ud_itab_entry_operand where [itab_operand]: "O_Fv = OPDEF OP_F SZ_V"
definition O_G :: ud_itab_entry_operand where [itab_operand]: "O_G = OPDEF OP_G SZ_NA"
definition O_GS :: ud_itab_entry_operand where [itab_operand]: "O_GS = OPDEF OP_GS SZ_NA"
definition O_Gb :: ud_itab_entry_operand where [itab_operand]: "O_Gb = OPDEF OP_G SZ_B"
definition O_Gd :: ud_itab_entry_operand where [itab_operand]: "O_Gd = OPDEF OP_G SZ_D"
definition O_Gq :: ud_itab_entry_operand where [itab_operand]: "O_Gq = OPDEF OP_G SZ_Q"
definition O_Gv :: ud_itab_entry_operand where [itab_operand]: "O_Gv = OPDEF OP_G SZ_V"
definition O_Gw :: ud_itab_entry_operand where [itab_operand]: "O_Gw = OPDEF OP_G SZ_W"
definition O_Gy :: ud_itab_entry_operand where [itab_operand]: "O_Gy = OPDEF OP_G SZ_Y"
definition O_Gz :: ud_itab_entry_operand where [itab_operand]: "O_Gz = OPDEF OP_G SZ_Z"
definition O_I1 :: ud_itab_entry_operand where [itab_operand]: "O_I1 = OPDEF OP_I1 SZ_NA"
definition O_I3 :: ud_itab_entry_operand where [itab_operand]: "O_I3 = OPDEF OP_I3 SZ_NA"
definition O_Ib :: ud_itab_entry_operand where [itab_operand]: "O_Ib = OPDEF OP_I SZ_B"
definition O_Iv :: ud_itab_entry_operand where [itab_operand]: "O_Iv = OPDEF OP_I SZ_V"
definition O_Iw :: ud_itab_entry_operand where [itab_operand]: "O_Iw = OPDEF OP_I SZ_W"
definition O_Iz :: ud_itab_entry_operand where [itab_operand]: "O_Iz = OPDEF OP_I SZ_Z"
definition O_Jb :: ud_itab_entry_operand where [itab_operand]: "O_Jb = OPDEF OP_J SZ_B"
definition O_Jv :: ud_itab_entry_operand where [itab_operand]: "O_Jv = OPDEF OP_J SZ_V"
definition O_Jz :: ud_itab_entry_operand where [itab_operand]: "O_Jz = OPDEF OP_J SZ_Z"
definition O_M :: ud_itab_entry_operand where [itab_operand]: "O_M = OPDEF OP_M SZ_NA"
definition O_Mb :: ud_itab_entry_operand where [itab_operand]: "O_Mb = OPDEF OP_M SZ_B"
definition O_MbRd :: ud_itab_entry_operand where [itab_operand]: "O_MbRd = OPDEF OP_MR SZ_BD"
definition O_MbRv :: ud_itab_entry_operand where [itab_operand]: "O_MbRv = OPDEF OP_MR SZ_BV"
definition O_Md :: ud_itab_entry_operand where [itab_operand]: "O_Md = OPDEF OP_M SZ_D"
definition O_MdRy :: ud_itab_entry_operand where [itab_operand]: "O_MdRy = OPDEF OP_MR SZ_DY"
definition O_MdU :: ud_itab_entry_operand where [itab_operand]: "O_MdU = OPDEF OP_MU SZ_DO"
definition O_Mo :: ud_itab_entry_operand where [itab_operand]: "O_Mo = OPDEF OP_M SZ_O"
definition O_Mq :: ud_itab_entry_operand where [itab_operand]: "O_Mq = OPDEF OP_M SZ_Q"
definition O_MqU :: ud_itab_entry_operand where [itab_operand]: "O_MqU = OPDEF OP_MU SZ_QO"
definition O_Ms :: ud_itab_entry_operand where [itab_operand]: "O_Ms = OPDEF OP_M SZ_W"
definition O_Mt :: ud_itab_entry_operand where [itab_operand]: "O_Mt = OPDEF OP_M SZ_T"
definition O_Mv :: ud_itab_entry_operand where [itab_operand]: "O_Mv = OPDEF OP_M SZ_V"
definition O_Mw :: ud_itab_entry_operand where [itab_operand]: "O_Mw = OPDEF OP_M SZ_W"
definition O_MwRd :: ud_itab_entry_operand where [itab_operand]: "O_MwRd = OPDEF OP_MR SZ_WD"
definition O_MwRv :: ud_itab_entry_operand where [itab_operand]: "O_MwRv = OPDEF OP_MR SZ_WV"
definition O_MwRy :: ud_itab_entry_operand where [itab_operand]: "O_MwRy = OPDEF OP_MR SZ_WY"
definition O_MwU :: ud_itab_entry_operand where [itab_operand]: "O_MwU = OPDEF OP_MU SZ_WO"
definition O_N :: ud_itab_entry_operand where [itab_operand]: "O_N = OPDEF OP_N SZ_Q"
definition O_NONE :: ud_itab_entry_operand where [itab_operand]: "O_NONE = OPDEF OP_NONE SZ_NA"
definition O_Ob :: ud_itab_entry_operand where [itab_operand]: "O_Ob = OPDEF OP_O SZ_B"
definition O_Ov :: ud_itab_entry_operand where [itab_operand]: "O_Ov = OPDEF OP_O SZ_V"
definition O_Ow :: ud_itab_entry_operand where [itab_operand]: "O_Ow = OPDEF OP_O SZ_W"
definition O_P :: ud_itab_entry_operand where [itab_operand]: "O_P = OPDEF OP_P SZ_Q"
definition O_Q :: ud_itab_entry_operand where [itab_operand]: "O_Q = OPDEF OP_Q SZ_Q"
definition O_R :: ud_itab_entry_operand where [itab_operand]: "O_R = OPDEF OP_R SZ_RDQ"
definition O_R0b :: ud_itab_entry_operand where [itab_operand]: "O_R0b = OPDEF OP_R0 SZ_B"
definition O_R0v :: ud_itab_entry_operand where [itab_operand]: "O_R0v = OPDEF OP_R0 SZ_V"
definition O_R0w :: ud_itab_entry_operand where [itab_operand]: "O_R0w = OPDEF OP_R0 SZ_W"
definition O_R0y :: ud_itab_entry_operand where [itab_operand]: "O_R0y = OPDEF OP_R0 SZ_Y"
definition O_R0z :: ud_itab_entry_operand where [itab_operand]: "O_R0z = OPDEF OP_R0 SZ_Z"
definition O_R1b :: ud_itab_entry_operand where [itab_operand]: "O_R1b = OPDEF OP_R1 SZ_B"
definition O_R1v :: ud_itab_entry_operand where [itab_operand]: "O_R1v = OPDEF OP_R1 SZ_V"
definition O_R1w :: ud_itab_entry_operand where [itab_operand]: "O_R1w = OPDEF OP_R1 SZ_W"
definition O_R1y :: ud_itab_entry_operand where [itab_operand]: "O_R1y = OPDEF OP_R1 SZ_Y"
definition O_R1z :: ud_itab_entry_operand where [itab_operand]: "O_R1z = OPDEF OP_R1 SZ_Z"
definition O_R2b :: ud_itab_entry_operand where [itab_operand]: "O_R2b = OPDEF OP_R2 SZ_B"
definition O_R2v :: ud_itab_entry_operand where [itab_operand]: "O_R2v = OPDEF OP_R2 SZ_V"
definition O_R2w :: ud_itab_entry_operand where [itab_operand]: "O_R2w = OPDEF OP_R2 SZ_W"
definition O_R2y :: ud_itab_entry_operand where [itab_operand]: "O_R2y = OPDEF OP_R2 SZ_Y"
definition O_R2z :: ud_itab_entry_operand where [itab_operand]: "O_R2z = OPDEF OP_R2 SZ_Z"
definition O_R3b :: ud_itab_entry_operand where [itab_operand]: "O_R3b = OPDEF OP_R3 SZ_B"
definition O_R3v :: ud_itab_entry_operand where [itab_operand]: "O_R3v = OPDEF OP_R3 SZ_V"
definition O_R3w :: ud_itab_entry_operand where [itab_operand]: "O_R3w = OPDEF OP_R3 SZ_W"
definition O_R3y :: ud_itab_entry_operand where [itab_operand]: "O_R3y = OPDEF OP_R3 SZ_Y"
definition O_R3z :: ud_itab_entry_operand where [itab_operand]: "O_R3z = OPDEF OP_R3 SZ_Z"
definition O_R4b :: ud_itab_entry_operand where [itab_operand]: "O_R4b = OPDEF OP_R4 SZ_B"
definition O_R4v :: ud_itab_entry_operand where [itab_operand]: "O_R4v = OPDEF OP_R4 SZ_V"
definition O_R4w :: ud_itab_entry_operand where [itab_operand]: "O_R4w = OPDEF OP_R4 SZ_W"
definition O_R4y :: ud_itab_entry_operand where [itab_operand]: "O_R4y = OPDEF OP_R4 SZ_Y"
definition O_R4z :: ud_itab_entry_operand where [itab_operand]: "O_R4z = OPDEF OP_R4 SZ_Z"
definition O_R5b :: ud_itab_entry_operand where [itab_operand]: "O_R5b = OPDEF OP_R5 SZ_B"
definition O_R5v :: ud_itab_entry_operand where [itab_operand]: "O_R5v = OPDEF OP_R5 SZ_V"
definition O_R5w :: ud_itab_entry_operand where [itab_operand]: "O_R5w = OPDEF OP_R5 SZ_W"
definition O_R5y :: ud_itab_entry_operand where [itab_operand]: "O_R5y = OPDEF OP_R5 SZ_Y"
definition O_R5z :: ud_itab_entry_operand where [itab_operand]: "O_R5z = OPDEF OP_R5 SZ_Z"
definition O_R6b :: ud_itab_entry_operand where [itab_operand]: "O_R6b = OPDEF OP_R6 SZ_B"
definition O_R6v :: ud_itab_entry_operand where [itab_operand]: "O_R6v = OPDEF OP_R6 SZ_V"
definition O_R6w :: ud_itab_entry_operand where [itab_operand]: "O_R6w = OPDEF OP_R6 SZ_W"
definition O_R6y :: ud_itab_entry_operand where [itab_operand]: "O_R6y = OPDEF OP_R6 SZ_Y"
definition O_R6z :: ud_itab_entry_operand where [itab_operand]: "O_R6z = OPDEF OP_R6 SZ_Z"
definition O_R7b :: ud_itab_entry_operand where [itab_operand]: "O_R7b = OPDEF OP_R7 SZ_B"
definition O_R7v :: ud_itab_entry_operand where [itab_operand]: "O_R7v = OPDEF OP_R7 SZ_V"
definition O_R7w :: ud_itab_entry_operand where [itab_operand]: "O_R7w = OPDEF OP_R7 SZ_W"
definition O_R7y :: ud_itab_entry_operand where [itab_operand]: "O_R7y = OPDEF OP_R7 SZ_Y"
definition O_R7z :: ud_itab_entry_operand where [itab_operand]: "O_R7z = OPDEF OP_R7 SZ_Z"
definition O_S :: ud_itab_entry_operand where [itab_operand]: "O_S = OPDEF OP_S SZ_NA"
definition O_SS :: ud_itab_entry_operand where [itab_operand]: "O_SS = OPDEF OP_SS SZ_NA"
definition O_ST0 :: ud_itab_entry_operand where [itab_operand]: "O_ST0 = OPDEF OP_ST0 SZ_NA"
definition O_ST1 :: ud_itab_entry_operand where [itab_operand]: "O_ST1 = OPDEF OP_ST1 SZ_NA"
definition O_ST2 :: ud_itab_entry_operand where [itab_operand]: "O_ST2 = OPDEF OP_ST2 SZ_NA"
definition O_ST3 :: ud_itab_entry_operand where [itab_operand]: "O_ST3 = OPDEF OP_ST3 SZ_NA"
definition O_ST4 :: ud_itab_entry_operand where [itab_operand]: "O_ST4 = OPDEF OP_ST4 SZ_NA"
definition O_ST5 :: ud_itab_entry_operand where [itab_operand]: "O_ST5 = OPDEF OP_ST5 SZ_NA"
definition O_ST6 :: ud_itab_entry_operand where [itab_operand]: "O_ST6 = OPDEF OP_ST6 SZ_NA"
definition O_ST7 :: ud_itab_entry_operand where [itab_operand]: "O_ST7 = OPDEF OP_ST7 SZ_NA"
definition O_U :: ud_itab_entry_operand where [itab_operand]: "O_U = OPDEF OP_U SZ_O"
definition O_V :: ud_itab_entry_operand where [itab_operand]: "O_V = OPDEF OP_V SZ_O"
definition O_W :: ud_itab_entry_operand where [itab_operand]: "O_W = OPDEF OP_W SZ_O"
definition O_eAX :: ud_itab_entry_operand where [itab_operand]: "O_eAX = OPDEF OP_eAX SZ_Z"
definition O_eCX :: ud_itab_entry_operand where [itab_operand]: "O_eCX = OPDEF OP_eCX SZ_Z"
definition O_eDX :: ud_itab_entry_operand where [itab_operand]: "O_eDX = OPDEF OP_eDX SZ_Z"
definition O_rAX :: ud_itab_entry_operand where [itab_operand]: "O_rAX = OPDEF OP_rAX SZ_V"
definition O_rCX :: ud_itab_entry_operand where [itab_operand]: "O_rCX = OPDEF OP_rCX SZ_V"
definition O_rDX :: ud_itab_entry_operand where [itab_operand]: "O_rDX = OPDEF OP_rDX SZ_V"
definition O_sIb :: ud_itab_entry_operand where [itab_operand]: "O_sIb = OPDEF OP_sI SZ_B"
definition O_sIv :: ud_itab_entry_operand where [itab_operand]: "O_sIv = OPDEF OP_sI SZ_V"
definition O_sIz :: ud_itab_entry_operand where [itab_operand]: "O_sIz = OPDEF OP_sI SZ_Z"

end
