(* ===== verification/Itab_Tables1.thy ===== *)
theory Itab_Tables1
  imports Itab_Base
begin

text \<open>
  \<^verbatim>\<open>libudis86/itab.c\<close>, lines 7 to 1212: the lookup tables.
\<close>

definition ud_itab__1 :: "u16 list" where [itab_table]:
  "ud_itab__1 = [7, 0]"

definition ud_itab__2 :: "u16 list" where [itab_table]:
  "ud_itab__2 = [8, 0]"

definition ud_itab__3 :: "u16 list" where [itab_table]:
  "ud_itab__3 = [15, 0]"

definition ud_itab__6 :: "u16 list" where [itab_table]:
  "ud_itab__6 = [16, 0, 0, 0]"

definition ud_itab__7 :: "u16 list" where [itab_table]:
  "ud_itab__7 = [17, 0, 0, 0]"

definition ud_itab__8 :: "u16 list" where [itab_table]:
  "ud_itab__8 = [18, 0, 0, 0]"

definition ud_itab__9 :: "u16 list" where [itab_table]:
  "ud_itab__9 = [19, 0, 0, 0]"

definition ud_itab__10 :: "u16 list" where [itab_table]:
  "ud_itab__10 = [20, 0, 0, 0]"

definition ud_itab__11 :: "u16 list" where [itab_table]:
  "ud_itab__11 = [21, 0, 0, 0]"

definition ud_itab__5 :: "u16 list" where [itab_table]:
  "ud_itab__5 = [GROUP 6, GROUP 7, GROUP 8, GROUP 9, GROUP 10, GROUP 11, 0, 0]"

definition ud_itab__15 :: "u16 list" where [itab_table]:
  "ud_itab__15 = [22, 0]"

definition ud_itab__14 :: "u16 list" where [itab_table]:
  "ud_itab__14 = [GROUP 15, 0, 0, 0]"

definition ud_itab__17 :: "u16 list" where [itab_table]:
  "ud_itab__17 = [23, 0]"

definition ud_itab__16 :: "u16 list" where [itab_table]:
  "ud_itab__16 = [GROUP 17, 0, 0, 0]"

definition ud_itab__19 :: "u16 list" where [itab_table]:
  "ud_itab__19 = [24, 0]"

definition ud_itab__18 :: "u16 list" where [itab_table]:
  "ud_itab__18 = [GROUP 19, 0, 0, 0]"

definition ud_itab__21 :: "u16 list" where [itab_table]:
  "ud_itab__21 = [25, 0]"

definition ud_itab__20 :: "u16 list" where [itab_table]:
  "ud_itab__20 = [GROUP 21, 0, 0, 0]"

definition ud_itab__23 :: "u16 list" where [itab_table]:
  "ud_itab__23 = [26, 0]"

definition ud_itab__22 :: "u16 list" where [itab_table]:
  "ud_itab__22 = [GROUP 23, 0, 0, 0]"

definition ud_itab__25 :: "u16 list" where [itab_table]:
  "ud_itab__25 = [27, 0]"

definition ud_itab__24 :: "u16 list" where [itab_table]:
  "ud_itab__24 = [GROUP 25, 0, 0, 0]"

definition ud_itab__27 :: "u16 list" where [itab_table]:
  "ud_itab__27 = [28, 0]"

definition ud_itab__26 :: "u16 list" where [itab_table]:
  "ud_itab__26 = [GROUP 27, 0, 0, 0]"

definition ud_itab__13 :: "u16 list" where [itab_table]:
  "ud_itab__13 = [GROUP 14, GROUP 16, GROUP 18, GROUP 20, GROUP 22, 0, GROUP 24, GROUP 26]"

definition ud_itab__32 :: "u16 list" where [itab_table]:
  "ud_itab__32 = [0, 29, 0]"

definition ud_itab__31 :: "u16 list" where [itab_table]:
  "ud_itab__31 = [0, GROUP 32]"

definition ud_itab__30 :: "u16 list" where [itab_table]:
  "ud_itab__30 = [GROUP 31, 0, 0, 0]"

definition ud_itab__35 :: "u16 list" where [itab_table]:
  "ud_itab__35 = [0, 30, 0]"

definition ud_itab__34 :: "u16 list" where [itab_table]:
  "ud_itab__34 = [0, GROUP 35]"

definition ud_itab__33 :: "u16 list" where [itab_table]:
  "ud_itab__33 = [GROUP 34, 0, 0, 0]"

definition ud_itab__38 :: "u16 list" where [itab_table]:
  "ud_itab__38 = [0, 31, 0]"

definition ud_itab__37 :: "u16 list" where [itab_table]:
  "ud_itab__37 = [0, GROUP 38]"

definition ud_itab__36 :: "u16 list" where [itab_table]:
  "ud_itab__36 = [GROUP 37, 0, 0, 0]"

definition ud_itab__41 :: "u16 list" where [itab_table]:
  "ud_itab__41 = [0, 32, 0]"

definition ud_itab__40 :: "u16 list" where [itab_table]:
  "ud_itab__40 = [0, GROUP 41]"

definition ud_itab__39 :: "u16 list" where [itab_table]:
  "ud_itab__39 = [GROUP 40, 0, 0, 0]"

definition ud_itab__29 :: "u16 list" where [itab_table]:
  "ud_itab__29 = [0, GROUP 30, GROUP 33, GROUP 36, GROUP 39, 0, 0, 0]"

definition ud_itab__44 :: "u16 list" where [itab_table]:
  "ud_itab__44 = [0, 33]"

definition ud_itab__43 :: "u16 list" where [itab_table]:
  "ud_itab__43 = [GROUP 44, 0, 0, 0]"

definition ud_itab__46 :: "u16 list" where [itab_table]:
  "ud_itab__46 = [0, 34]"

definition ud_itab__45 :: "u16 list" where [itab_table]:
  "ud_itab__45 = [GROUP 46, 0, 0, 0]"

definition ud_itab__42 :: "u16 list" where [itab_table]:
  "ud_itab__42 = [GROUP 43, GROUP 45, 0, 0, 0, 0, 0, 0]"

definition ud_itab__49 :: "u16 list" where [itab_table]:
  "ud_itab__49 = [0, 35]"

definition ud_itab__48 :: "u16 list" where [itab_table]:
  "ud_itab__48 = [GROUP 49, 0, 0, 0]"

definition ud_itab__51 :: "u16 list" where [itab_table]:
  "ud_itab__51 = [0, 36]"

definition ud_itab__50 :: "u16 list" where [itab_table]:
  "ud_itab__50 = [GROUP 51, 0, 0, 0]"

definition ud_itab__47 :: "u16 list" where [itab_table]:
  "ud_itab__47 = [GROUP 48, GROUP 50, 0, 0, 0, 0, 0, 0]"

definition ud_itab__55 :: "u16 list" where [itab_table]:
  "ud_itab__55 = [37, 0, 0]"

definition ud_itab__54 :: "u16 list" where [itab_table]:
  "ud_itab__54 = [0, GROUP 55]"

definition ud_itab__53 :: "u16 list" where [itab_table]:
  "ud_itab__53 = [GROUP 54, 0, 0, 0]"

definition ud_itab__58 :: "u16 list" where [itab_table]:
  "ud_itab__58 = [38, 0, 0]"

definition ud_itab__57 :: "u16 list" where [itab_table]:
  "ud_itab__57 = [0, GROUP 58]"

definition ud_itab__56 :: "u16 list" where [itab_table]:
  "ud_itab__56 = [GROUP 57, 0, 0, 0]"

definition ud_itab__61 :: "u16 list" where [itab_table]:
  "ud_itab__61 = [39, 0, 0]"

definition ud_itab__60 :: "u16 list" where [itab_table]:
  "ud_itab__60 = [0, GROUP 61]"

definition ud_itab__59 :: "u16 list" where [itab_table]:
  "ud_itab__59 = [GROUP 60, 0, 0, 0]"

definition ud_itab__64 :: "u16 list" where [itab_table]:
  "ud_itab__64 = [40, 0, 0]"

definition ud_itab__63 :: "u16 list" where [itab_table]:
  "ud_itab__63 = [0, GROUP 64]"

definition ud_itab__62 :: "u16 list" where [itab_table]:
  "ud_itab__62 = [GROUP 63, 0, 0, 0]"

definition ud_itab__67 :: "u16 list" where [itab_table]:
  "ud_itab__67 = [41, 0, 0]"

definition ud_itab__66 :: "u16 list" where [itab_table]:
  "ud_itab__66 = [0, GROUP 67]"

definition ud_itab__65 :: "u16 list" where [itab_table]:
  "ud_itab__65 = [GROUP 66, 0, 0, 0]"

definition ud_itab__70 :: "u16 list" where [itab_table]:
  "ud_itab__70 = [42, 0, 0]"

definition ud_itab__69 :: "u16 list" where [itab_table]:
  "ud_itab__69 = [0, GROUP 70]"

definition ud_itab__68 :: "u16 list" where [itab_table]:
  "ud_itab__68 = [GROUP 69, 0, 0, 0]"

definition ud_itab__73 :: "u16 list" where [itab_table]:
  "ud_itab__73 = [43, 0, 0]"

definition ud_itab__72 :: "u16 list" where [itab_table]:
  "ud_itab__72 = [0, GROUP 73]"

definition ud_itab__71 :: "u16 list" where [itab_table]:
  "ud_itab__71 = [GROUP 72, 0, 0, 0]"

definition ud_itab__76 :: "u16 list" where [itab_table]:
  "ud_itab__76 = [44, 0, 0]"

definition ud_itab__75 :: "u16 list" where [itab_table]:
  "ud_itab__75 = [0, GROUP 76]"

definition ud_itab__74 :: "u16 list" where [itab_table]:
  "ud_itab__74 = [GROUP 75, 0, 0, 0]"

definition ud_itab__52 :: "u16 list" where [itab_table]:
  "ud_itab__52 = [GROUP 53, GROUP 56, GROUP 59, GROUP 62, GROUP 65, GROUP 68, GROUP 71, GROUP 74]"

definition ud_itab__78 :: "u16 list" where [itab_table]:
  "ud_itab__78 = [0, 45]"

definition ud_itab__77 :: "u16 list" where [itab_table]:
  "ud_itab__77 = [GROUP 78, 0, 0, 0]"

definition ud_itab__80 :: "u16 list" where [itab_table]:
  "ud_itab__80 = [0, 46]"

definition ud_itab__79 :: "u16 list" where [itab_table]:
  "ud_itab__79 = [GROUP 80, 0, 0, 0]"

definition ud_itab__83 :: "u16 list" where [itab_table]:
  "ud_itab__83 = [0, 47]"

definition ud_itab__82 :: "u16 list" where [itab_table]:
  "ud_itab__82 = [GROUP 83, 0, 0, 0]"

definition ud_itab__86 :: "u16 list" where [itab_table]:
  "ud_itab__86 = [48, 0, 0]"

definition ud_itab__85 :: "u16 list" where [itab_table]:
  "ud_itab__85 = [0, GROUP 86]"

definition ud_itab__84 :: "u16 list" where [itab_table]:
  "ud_itab__84 = [GROUP 85, 0, 0, 0]"

definition ud_itab__81 :: "u16 list" where [itab_table]:
  "ud_itab__81 = [GROUP 82, GROUP 84, 0, 0, 0, 0, 0, 0]"

definition ud_itab__28 :: "u16 list" where [itab_table]:
  "ud_itab__28 = [GROUP 29, GROUP 42, GROUP 47, GROUP 52, GROUP 77, 0, GROUP 79, GROUP 81]"

definition ud_itab__12 :: "u16 list" where [itab_table]:
  "ud_itab__12 = [GROUP 13, GROUP 28]"

definition ud_itab__87 :: "u16 list" where [itab_table]:
  "ud_itab__87 = [49, 0, 0, 0]"

definition ud_itab__88 :: "u16 list" where [itab_table]:
  "ud_itab__88 = [50, 0, 0, 0]"

definition ud_itab__89 :: "u16 list" where [itab_table]:
  "ud_itab__89 = [51, 0, 0, 0]"

definition ud_itab__90 :: "u16 list" where [itab_table]:
  "ud_itab__90 = [52, 0, 0, 0]"

definition ud_itab__91 :: "u16 list" where [itab_table]:
  "ud_itab__91 = [53, 0, 0, 0]"

definition ud_itab__92 :: "u16 list" where [itab_table]:
  "ud_itab__92 = [54, 0, 0, 0]"

definition ud_itab__93 :: "u16 list" where [itab_table]:
  "ud_itab__93 = [55, 0, 0, 0]"

definition ud_itab__94 :: "u16 list" where [itab_table]:
  "ud_itab__94 = [56, 0, 0, 0]"

definition ud_itab__96 :: "u16 list" where [itab_table]:
  "ud_itab__96 = [57, 0, 0, 0]"

definition ud_itab__97 :: "u16 list" where [itab_table]:
  "ud_itab__97 = [58, 0, 0, 0]"

definition ud_itab__98 :: "u16 list" where [itab_table]:
  "ud_itab__98 = [59, 0, 0, 0]"

definition ud_itab__99 :: "u16 list" where [itab_table]:
  "ud_itab__99 = [60, 0, 0, 0]"

definition ud_itab__100 :: "u16 list" where [itab_table]:
  "ud_itab__100 = [61, 0, 0, 0]"

definition ud_itab__101 :: "u16 list" where [itab_table]:
  "ud_itab__101 = [62, 0, 0, 0]"

definition ud_itab__102 :: "u16 list" where [itab_table]:
  "ud_itab__102 = [63, 0, 0, 0]"

definition ud_itab__103 :: "u16 list" where [itab_table]:
  "ud_itab__103 = [64, 0, 0, 0]"

definition ud_itab__95 :: "u16 list" where [itab_table]:
  "ud_itab__95 = [GROUP 96, GROUP 97, GROUP 98, GROUP 99, GROUP 100, GROUP 101, GROUP 102, GROUP 103]"

definition ud_itab__104 :: "u16 list" where [itab_table]:
  "ud_itab__104 = [65, 0, 0, 0]"

definition ud_itab__105 :: "u16 list" where [itab_table]:
  "ud_itab__105 = [
    0, 0, 0, 0, 0, 0, 0, 0, 0, 0, 0, 0, 66, 67, 0, 0, 0, 0, 0, 0, 0, 0, 0, 0, 0, 0, 0, 0, 68, 69,
    0, 0, 0, 0, 0, 0, 0, 0, 0, 0, 0, 0, 0, 0, 0, 0, 0, 0, 0, 0, 0, 0, 0, 0, 0, 0, 0, 0, 0, 0, 0,
    0, 0, 0, 0, 0, 0, 0, 0, 0, 0, 0, 0, 0, 0, 0, 0, 0, 0, 0, 0, 0, 0, 0, 0, 0, 0, 0, 0, 0, 0, 0,
    0, 0, 0, 0, 0, 0, 0, 0, 0, 0, 0, 0, 0, 0, 0, 0, 0, 0, 0, 0, 0, 0, 0, 0, 0, 0, 0, 0, 0, 0, 0,
    0, 0, 0, 0, 0, 0, 0, 0, 0, 0, 0, 0, 0, 0, 0, 70, 0, 0, 0, 71, 0, 72, 0, 0, 0, 73, 0, 74, 75,
    0, 0, 76, 0, 0, 0, 77, 0, 78, 0, 0, 0, 79, 0, 80, 81, 0, 0, 82, 0, 0, 0, 83, 0, 84, 0, 0, 0,
    85, 0, 86, 87, 0, 0, 0, 88, 0, 0, 0, 89, 0, 0, 0, 0, 0, 0, 0, 0, 0, 0, 0, 0, 0, 0, 0, 0, 0, 0,
    0, 0, 0, 0, 0, 0, 0, 0, 0, 0, 0, 0, 0, 0, 0, 0, 0, 0, 0, 0, 0, 0, 0, 0, 0, 0, 0, 0, 0, 0, 0,
    0, 0, 0, 0, 0, 0, 0, 0, 0, 0, 0, 0, 0, 0, 0]"

definition ud_itab__106 :: "u16 list" where [itab_table]:
  "ud_itab__106 = [90, 91, 92, 93]"

definition ud_itab__107 :: "u16 list" where [itab_table]:
  "ud_itab__107 = [94, 95, 96, 97]"

definition ud_itab__110 :: "u16 list" where [itab_table]:
  "ud_itab__110 = [98, 0]"

definition ud_itab__111 :: "u16 list" where [itab_table]:
  "ud_itab__111 = [99, 0]"

definition ud_itab__112 :: "u16 list" where [itab_table]:
  "ud_itab__112 = [100, 0]"

definition ud_itab__113 :: "u16 list" where [itab_table]:
  "ud_itab__113 = [101, 0]"

definition ud_itab__109 :: "u16 list" where [itab_table]:
  "ud_itab__109 = [GROUP 110, GROUP 111, GROUP 112, GROUP 113]"

definition ud_itab__115 :: "u16 list" where [itab_table]:
  "ud_itab__115 = [0, 102]"

definition ud_itab__116 :: "u16 list" where [itab_table]:
  "ud_itab__116 = [0, 103]"

definition ud_itab__117 :: "u16 list" where [itab_table]:
  "ud_itab__117 = [0, 104]"

definition ud_itab__114 :: "u16 list" where [itab_table]:
  "ud_itab__114 = [GROUP 115, GROUP 116, GROUP 117, 0]"

definition ud_itab__108 :: "u16 list" where [itab_table]:
  "ud_itab__108 = [GROUP 109, GROUP 114]"

definition ud_itab__118 :: "u16 list" where [itab_table]:
  "ud_itab__118 = [105, 0, 0, 106]"

definition ud_itab__119 :: "u16 list" where [itab_table]:
  "ud_itab__119 = [107, 0, 0, 108]"

definition ud_itab__120 :: "u16 list" where [itab_table]:
  "ud_itab__120 = [109, 0, 0, 110]"

definition ud_itab__123 :: "u16 list" where [itab_table]:
  "ud_itab__123 = [111, 0]"

definition ud_itab__124 :: "u16 list" where [itab_table]:
  "ud_itab__124 = [112, 0]"

definition ud_itab__125 :: "u16 list" where [itab_table]:
  "ud_itab__125 = [113, 0]"

definition ud_itab__122 :: "u16 list" where [itab_table]:
  "ud_itab__122 = [GROUP 123, 0, GROUP 124, GROUP 125]"

definition ud_itab__127 :: "u16 list" where [itab_table]:
  "ud_itab__127 = [0, 114]"

definition ud_itab__128 :: "u16 list" where [itab_table]:
  "ud_itab__128 = [0, 115]"

definition ud_itab__126 :: "u16 list" where [itab_table]:
  "ud_itab__126 = [GROUP 127, 0, GROUP 128, 0]"

definition ud_itab__121 :: "u16 list" where [itab_table]:
  "ud_itab__121 = [GROUP 122, GROUP 126]"

definition ud_itab__129 :: "u16 list" where [itab_table]:
  "ud_itab__129 = [116, 0, 0, 117]"

definition ud_itab__131 :: "u16 list" where [itab_table]:
  "ud_itab__131 = [118, 0, 0, 0]"

definition ud_itab__132 :: "u16 list" where [itab_table]:
  "ud_itab__132 = [119, 0, 0, 0]"

definition ud_itab__133 :: "u16 list" where [itab_table]:
  "ud_itab__133 = [120, 0, 0, 0]"

definition ud_itab__134 :: "u16 list" where [itab_table]:
  "ud_itab__134 = [121, 0, 0, 0]"

definition ud_itab__130 :: "u16 list" where [itab_table]:
  "ud_itab__130 = [GROUP 131, GROUP 132, GROUP 133, GROUP 134, 0, 0, 0, 0]"

definition ud_itab__135 :: "u16 list" where [itab_table]:
  "ud_itab__135 = [122, 0, 0, 0]"

definition ud_itab__136 :: "u16 list" where [itab_table]:
  "ud_itab__136 = [123, 0, 0, 0]"

definition ud_itab__137 :: "u16 list" where [itab_table]:
  "ud_itab__137 = [124, 0, 0, 0]"

definition ud_itab__138 :: "u16 list" where [itab_table]:
  "ud_itab__138 = [125, 0, 0, 0]"

definition ud_itab__139 :: "u16 list" where [itab_table]:
  "ud_itab__139 = [126, 0, 0, 0]"

definition ud_itab__140 :: "u16 list" where [itab_table]:
  "ud_itab__140 = [127, 0, 0, 0]"

definition ud_itab__141 :: "u16 list" where [itab_table]:
  "ud_itab__141 = [128, 0, 0, 0]"

definition ud_itab__142 :: "u16 list" where [itab_table]:
  "ud_itab__142 = [129, 0, 0, 0]"

definition ud_itab__143 :: "u16 list" where [itab_table]:
  "ud_itab__143 = [130, 0, 0, 0]"

definition ud_itab__144 :: "u16 list" where [itab_table]:
  "ud_itab__144 = [131, 0, 0, 0]"

definition ud_itab__145 :: "u16 list" where [itab_table]:
  "ud_itab__145 = [132, 0, 0, 0]"

definition ud_itab__146 :: "u16 list" where [itab_table]:
  "ud_itab__146 = [133, 0, 0, 134]"

definition ud_itab__147 :: "u16 list" where [itab_table]:
  "ud_itab__147 = [135, 0, 0, 136]"

definition ud_itab__148 :: "u16 list" where [itab_table]:
  "ud_itab__148 = [137, 138, 139, 140]"

definition ud_itab__149 :: "u16 list" where [itab_table]:
  "ud_itab__149 = [141, 0, 0, 142]"

definition ud_itab__150 :: "u16 list" where [itab_table]:
  "ud_itab__150 = [143, 144, 145, 146]"

definition ud_itab__151 :: "u16 list" where [itab_table]:
  "ud_itab__151 = [147, 148, 149, 150]"

definition ud_itab__152 :: "u16 list" where [itab_table]:
  "ud_itab__152 = [151, 0, 0, 152]"

definition ud_itab__153 :: "u16 list" where [itab_table]:
  "ud_itab__153 = [153, 0, 0, 154]"

definition ud_itab__154 :: "u16 list" where [itab_table]:
  "ud_itab__154 = [155, 0, 0, 0]"

definition ud_itab__155 :: "u16 list" where [itab_table]:
  "ud_itab__155 = [156, 0, 0, 0]"

definition ud_itab__156 :: "u16 list" where [itab_table]:
  "ud_itab__156 = [157, 0, 0, 0]"

definition ud_itab__157 :: "u16 list" where [itab_table]:
  "ud_itab__157 = [158, 0, 0, 0]"

definition ud_itab__160 :: "u16 list" where [itab_table]:
  "ud_itab__160 = [0, 160, 0]"

definition ud_itab__159 :: "u16 list" where [itab_table]:
  "ud_itab__159 = [159, GROUP 160]"

definition ud_itab__158 :: "u16 list" where [itab_table]:
  "ud_itab__158 = [GROUP 159, 0, 0, 0]"

definition ud_itab__163 :: "u16 list" where [itab_table]:
  "ud_itab__163 = [0, 162, 0]"

definition ud_itab__162 :: "u16 list" where [itab_table]:
  "ud_itab__162 = [161, GROUP 163]"

definition ud_itab__161 :: "u16 list" where [itab_table]:
  "ud_itab__161 = [GROUP 162, 0, 0, 0]"

definition ud_itab__164 :: "u16 list" where [itab_table]:
  "ud_itab__164 = [163, 0, 0, 0]"

definition ud_itab__166 :: "u16 list" where [itab_table]:
  "ud_itab__166 = [164, 0, 0, 165]"

definition ud_itab__167 :: "u16 list" where [itab_table]:
  "ud_itab__167 = [166, 0, 0, 167]"

definition ud_itab__168 :: "u16 list" where [itab_table]:
  "ud_itab__168 = [168, 0, 0, 169]"

definition ud_itab__169 :: "u16 list" where [itab_table]:
  "ud_itab__169 = [170, 0, 0, 171]"

definition ud_itab__170 :: "u16 list" where [itab_table]:
  "ud_itab__170 = [172, 0, 0, 173]"

definition ud_itab__171 :: "u16 list" where [itab_table]:
  "ud_itab__171 = [174, 0, 0, 175]"

definition ud_itab__172 :: "u16 list" where [itab_table]:
  "ud_itab__172 = [176, 0, 0, 177]"

definition ud_itab__173 :: "u16 list" where [itab_table]:
  "ud_itab__173 = [178, 0, 0, 179]"

definition ud_itab__174 :: "u16 list" where [itab_table]:
  "ud_itab__174 = [180, 0, 0, 181]"

definition ud_itab__175 :: "u16 list" where [itab_table]:
  "ud_itab__175 = [182, 0, 0, 183]"

definition ud_itab__176 :: "u16 list" where [itab_table]:
  "ud_itab__176 = [184, 0, 0, 185]"

definition ud_itab__177 :: "u16 list" where [itab_table]:
  "ud_itab__177 = [186, 0, 0, 187]"

definition ud_itab__178 :: "u16 list" where [itab_table]:
  "ud_itab__178 = [0, 0, 0, 188]"

definition ud_itab__179 :: "u16 list" where [itab_table]:
  "ud_itab__179 = [0, 0, 0, 189]"

definition ud_itab__180 :: "u16 list" where [itab_table]:
  "ud_itab__180 = [0, 0, 0, 190]"

definition ud_itab__181 :: "u16 list" where [itab_table]:
  "ud_itab__181 = [0, 0, 0, 191]"

definition ud_itab__182 :: "u16 list" where [itab_table]:
  "ud_itab__182 = [192, 0, 0, 193]"

definition ud_itab__183 :: "u16 list" where [itab_table]:
  "ud_itab__183 = [194, 0, 0, 195]"

definition ud_itab__184 :: "u16 list" where [itab_table]:
  "ud_itab__184 = [196, 0, 0, 197]"

definition ud_itab__185 :: "u16 list" where [itab_table]:
  "ud_itab__185 = [0, 0, 0, 198]"

definition ud_itab__186 :: "u16 list" where [itab_table]:
  "ud_itab__186 = [0, 0, 0, 199]"

definition ud_itab__187 :: "u16 list" where [itab_table]:
  "ud_itab__187 = [0, 0, 0, 200]"

definition ud_itab__188 :: "u16 list" where [itab_table]:
  "ud_itab__188 = [0, 0, 0, 201]"

definition ud_itab__189 :: "u16 list" where [itab_table]:
  "ud_itab__189 = [0, 0, 0, 202]"

definition ud_itab__190 :: "u16 list" where [itab_table]:
  "ud_itab__190 = [0, 0, 0, 203]"

definition ud_itab__191 :: "u16 list" where [itab_table]:
  "ud_itab__191 = [0, 0, 0, 204]"

definition ud_itab__192 :: "u16 list" where [itab_table]:
  "ud_itab__192 = [0, 0, 0, 205]"

definition ud_itab__193 :: "u16 list" where [itab_table]:
  "ud_itab__193 = [0, 0, 0, 206]"

definition ud_itab__194 :: "u16 list" where [itab_table]:
  "ud_itab__194 = [0, 0, 0, 207]"

definition ud_itab__195 :: "u16 list" where [itab_table]:
  "ud_itab__195 = [0, 0, 0, 208]"

definition ud_itab__196 :: "u16 list" where [itab_table]:
  "ud_itab__196 = [0, 0, 0, 209]"

definition ud_itab__197 :: "u16 list" where [itab_table]:
  "ud_itab__197 = [0, 0, 0, 210]"

definition ud_itab__198 :: "u16 list" where [itab_table]:
  "ud_itab__198 = [0, 0, 0, 211]"

definition ud_itab__199 :: "u16 list" where [itab_table]:
  "ud_itab__199 = [0, 0, 0, 212]"

definition ud_itab__200 :: "u16 list" where [itab_table]:
  "ud_itab__200 = [0, 0, 0, 213]"

definition ud_itab__201 :: "u16 list" where [itab_table]:
  "ud_itab__201 = [0, 0, 0, 214]"

definition ud_itab__202 :: "u16 list" where [itab_table]:
  "ud_itab__202 = [0, 0, 0, 215]"

definition ud_itab__203 :: "u16 list" where [itab_table]:
  "ud_itab__203 = [0, 0, 0, 216]"

definition ud_itab__204 :: "u16 list" where [itab_table]:
  "ud_itab__204 = [0, 0, 0, 217]"

definition ud_itab__205 :: "u16 list" where [itab_table]:
  "ud_itab__205 = [0, 0, 0, 218]"

definition ud_itab__206 :: "u16 list" where [itab_table]:
  "ud_itab__206 = [0, 0, 0, 219]"

definition ud_itab__207 :: "u16 list" where [itab_table]:
  "ud_itab__207 = [0, 0, 0, 220]"

definition ud_itab__208 :: "u16 list" where [itab_table]:
  "ud_itab__208 = [0, 0, 0, 221]"

definition ud_itab__209 :: "u16 list" where [itab_table]:
  "ud_itab__209 = [0, 0, 0, 222]"

definition ud_itab__210 :: "u16 list" where [itab_table]:
  "ud_itab__210 = [0, 0, 0, 223]"

definition ud_itab__211 :: "u16 list" where [itab_table]:
  "ud_itab__211 = [0, 0, 0, 224]"

definition ud_itab__214 :: "u16 list" where [itab_table]:
  "ud_itab__214 = [0, 225, 0]"

definition ud_itab__213 :: "u16 list" where [itab_table]:
  "ud_itab__213 = [0, GROUP 214]"

definition ud_itab__212 :: "u16 list" where [itab_table]:
  "ud_itab__212 = [0, 0, 0, GROUP 213]"

definition ud_itab__217 :: "u16 list" where [itab_table]:
  "ud_itab__217 = [0, 226, 0]"

definition ud_itab__216 :: "u16 list" where [itab_table]:
  "ud_itab__216 = [0, GROUP 217]"

definition ud_itab__215 :: "u16 list" where [itab_table]:
  "ud_itab__215 = [0, 0, 0, GROUP 216]"

definition ud_itab__218 :: "u16 list" where [itab_table]:
  "ud_itab__218 = [0, 0, 0, 227]"

definition ud_itab__219 :: "u16 list" where [itab_table]:
  "ud_itab__219 = [0, 0, 0, 228]"

definition ud_itab__220 :: "u16 list" where [itab_table]:
  "ud_itab__220 = [0, 0, 0, 229]"

definition ud_itab__221 :: "u16 list" where [itab_table]:
  "ud_itab__221 = [0, 0, 0, 230]"

definition ud_itab__222 :: "u16 list" where [itab_table]:
  "ud_itab__222 = [0, 0, 0, 231]"

definition ud_itab__223 :: "u16 list" where [itab_table]:
  "ud_itab__223 = [232, 233, 0, 0]"

definition ud_itab__224 :: "u16 list" where [itab_table]:
  "ud_itab__224 = [234, 235, 0, 0]"

definition ud_itab__165 :: "u16 list" where [itab_table]:
  "ud_itab__165 = [
    GROUP 166, GROUP 167, GROUP 168, GROUP 169, GROUP 170, GROUP 171, GROUP 172, GROUP 173,
    GROUP 174, GROUP 175, GROUP 176, GROUP 177, 0, 0, 0, 0, GROUP 178, 0, 0, 0, GROUP 179,
    GROUP 180, 0, GROUP 181, 0, 0, 0, 0, GROUP 182, GROUP 183, GROUP 184, 0, GROUP 185, GROUP 186,
    GROUP 187, GROUP 188, GROUP 189, GROUP 190, 0, 0, GROUP 191, GROUP 192, GROUP 193, GROUP 194,
    0, 0, 0, 0, GROUP 195, GROUP 196, GROUP 197, GROUP 198, GROUP 199, GROUP 200, 0, GROUP 201,
    GROUP 202, GROUP 203, GROUP 204, GROUP 205, GROUP 206, GROUP 207, GROUP 208, GROUP 209,
    GROUP 210, GROUP 211, 0, 0, 0, 0, 0, 0, 0, 0, 0, 0, 0, 0, 0, 0, 0, 0, 0, 0, 0, 0, 0, 0, 0, 0,
    0, 0, 0, 0, 0, 0, 0, 0, 0, 0, 0, 0, 0, 0, 0, 0, 0, 0, 0, 0, 0, 0, 0, 0, 0, 0, 0, 0, 0, 0, 0,
    0, 0, 0, 0, 0, 0, 0, GROUP 212, GROUP 215, 0, 0, 0, 0, 0, 0, 0, 0, 0, 0, 0, 0, 0, 0, 0, 0, 0,
    0, 0, 0, 0, 0, 0, 0, 0, 0, 0, 0, 0, 0, 0, 0, 0, 0, 0, 0, 0, 0, 0, 0, 0, 0, 0, 0, 0, 0, 0, 0,
    0, 0, 0, 0, 0, 0, 0, 0, 0, 0, 0, 0, 0, 0, 0, 0, 0, 0, 0, 0, 0, 0, 0, 0, 0, 0, 0, 0, 0, 0, 0,
    0, 0, 0, 0, 0, 0, 0, 0, 0, 0, GROUP 218, GROUP 219, GROUP 220, GROUP 221, GROUP 222, 0, 0, 0,
    0, 0, 0, 0, 0, 0, 0, 0, 0, 0, 0, 0, 0, GROUP 223, GROUP 224, 0, 0, 0, 0, 0, 0, 0, 0, 0, 0, 0,
    0, 0, 0]"

definition ud_itab__226 :: "u16 list" where [itab_table]:
  "ud_itab__226 = [0, 0, 0, 236]"

definition ud_itab__227 :: "u16 list" where [itab_table]:
  "ud_itab__227 = [0, 0, 0, 237]"

definition ud_itab__228 :: "u16 list" where [itab_table]:
  "ud_itab__228 = [0, 0, 0, 238]"

definition ud_itab__229 :: "u16 list" where [itab_table]:
  "ud_itab__229 = [0, 0, 0, 239]"

definition ud_itab__230 :: "u16 list" where [itab_table]:
  "ud_itab__230 = [0, 0, 0, 240]"

definition ud_itab__231 :: "u16 list" where [itab_table]:
  "ud_itab__231 = [0, 0, 0, 241]"

definition ud_itab__232 :: "u16 list" where [itab_table]:
  "ud_itab__232 = [0, 0, 0, 242]"

definition ud_itab__233 :: "u16 list" where [itab_table]:
  "ud_itab__233 = [243, 0, 0, 244]"

definition ud_itab__234 :: "u16 list" where [itab_table]:
  "ud_itab__234 = [0, 0, 0, 245]"

definition ud_itab__235 :: "u16 list" where [itab_table]:
  "ud_itab__235 = [0, 0, 0, 246]"

definition ud_itab__237 :: "u16 list" where [itab_table]:
  "ud_itab__237 = [247, 248, 249]"

definition ud_itab__236 :: "u16 list" where [itab_table]:
  "ud_itab__236 = [0, 0, 0, GROUP 237]"

definition ud_itab__238 :: "u16 list" where [itab_table]:
  "ud_itab__238 = [0, 0, 0, 250]"

definition ud_itab__239 :: "u16 list" where [itab_table]:
  "ud_itab__239 = [0, 0, 0, 251]"

definition ud_itab__240 :: "u16 list" where [itab_table]:
  "ud_itab__240 = [0, 0, 0, 252]"

definition ud_itab__242 :: "u16 list" where [itab_table]:
  "ud_itab__242 = [253, 254, 255]"

definition ud_itab__241 :: "u16 list" where [itab_table]:
  "ud_itab__241 = [0, 0, 0, GROUP 242]"

definition ud_itab__243 :: "u16 list" where [itab_table]:
  "ud_itab__243 = [0, 0, 0, 256]"

definition ud_itab__244 :: "u16 list" where [itab_table]:
  "ud_itab__244 = [0, 0, 0, 257]"

definition ud_itab__245 :: "u16 list" where [itab_table]:
  "ud_itab__245 = [0, 0, 0, 258]"

definition ud_itab__246 :: "u16 list" where [itab_table]:
  "ud_itab__246 = [0, 0, 0, 259]"

definition ud_itab__247 :: "u16 list" where [itab_table]:
  "ud_itab__247 = [0, 0, 0, 260]"

definition ud_itab__248 :: "u16 list" where [itab_table]:
  "ud_itab__248 = [0, 0, 0, 261]"

definition ud_itab__249 :: "u16 list" where [itab_table]:
  "ud_itab__249 = [0, 0, 0, 262]"

definition ud_itab__250 :: "u16 list" where [itab_table]:
  "ud_itab__250 = [0, 0, 0, 263]"

definition ud_itab__251 :: "u16 list" where [itab_table]:
  "ud_itab__251 = [0, 0, 0, 264]"

definition ud_itab__225 :: "u16 list" where [itab_table]:
  "ud_itab__225 = [
    0, 0, 0, 0, 0, 0, 0, 0, GROUP 226, GROUP 227, GROUP 228, GROUP 229, GROUP 230, GROUP 231,
    GROUP 232, GROUP 233, 0, 0, 0, 0, GROUP 234, GROUP 235, GROUP 236, GROUP 238, 0, 0, 0, 0, 0,
    0, 0, 0, GROUP 239, GROUP 240, GROUP 241, 0, 0, 0, 0, 0, 0, 0, 0, 0, 0, 0, 0, 0, 0, 0, 0, 0,
    0, 0, 0, 0, 0, 0, 0, 0, 0, 0, 0, 0, GROUP 243, GROUP 244, GROUP 245, 0, GROUP 246, 0, 0, 0, 0,
    0, 0, 0, 0, 0, 0, 0, 0, 0, 0, 0, 0, 0, 0, 0, 0, 0, 0, 0, 0, 0, 0, 0, GROUP 247, GROUP 248,
    GROUP 249, GROUP 250, 0, 0, 0, 0, 0, 0, 0, 0, 0, 0, 0, 0, 0, 0, 0, 0, 0, 0, 0, 0, 0, 0, 0, 0,
    0, 0, 0, 0, 0, 0, 0, 0, 0, 0, 0, 0, 0, 0, 0, 0, 0, 0, 0, 0, 0, 0, 0, 0, 0, 0, 0, 0, 0, 0, 0,
    0, 0, 0, 0, 0, 0, 0, 0, 0, 0, 0, 0, 0, 0, 0, 0, 0, 0, 0, 0, 0, 0, 0, 0, 0, 0, 0, 0, 0, 0, 0,
    0, 0, 0, 0, 0, 0, 0, 0, 0, 0, 0, 0, 0, 0, 0, 0, 0, 0, 0, 0, 0, 0, 0, 0, 0, 0, 0, 0, 0, 0, 0,
    0, 0, 0, 0, 0, 0, GROUP 251, 0, 0, 0, 0, 0, 0, 0, 0, 0, 0, 0, 0, 0, 0, 0, 0, 0, 0, 0, 0, 0, 0,
    0, 0, 0, 0, 0, 0, 0, 0, 0, 0]"

definition ud_itab__252 :: "u16 list" where [itab_table]:
  "ud_itab__252 = [265, 0, 0, 0]"

definition ud_itab__253 :: "u16 list" where [itab_table]:
  "ud_itab__253 = [266, 0, 0, 0]"

end
