(* ===== verification/Itab_Tables2.thy ===== *)
theory Itab_Tables2
  imports Itab_Tables1
begin

text \<open>
  \<^verbatim>\<open>libudis86/itab.c\<close>, lines 1214 to 2413: the lookup tables.
\<close>

definition ud_itab__254 :: "u16 list" where [itab_table]:
  "ud_itab__254 = [267, 0, 0, 0]"

definition ud_itab__255 :: "u16 list" where [itab_table]:
  "ud_itab__255 = [268, 0, 0, 0]"

definition ud_itab__256 :: "u16 list" where [itab_table]:
  "ud_itab__256 = [269, 0, 0, 0]"

definition ud_itab__257 :: "u16 list" where [itab_table]:
  "ud_itab__257 = [270, 0, 0, 0]"

definition ud_itab__258 :: "u16 list" where [itab_table]:
  "ud_itab__258 = [271, 0, 0, 0]"

definition ud_itab__259 :: "u16 list" where [itab_table]:
  "ud_itab__259 = [272, 0, 0, 0]"

definition ud_itab__260 :: "u16 list" where [itab_table]:
  "ud_itab__260 = [273, 0, 0, 0]"

definition ud_itab__261 :: "u16 list" where [itab_table]:
  "ud_itab__261 = [274, 0, 0, 0]"

definition ud_itab__262 :: "u16 list" where [itab_table]:
  "ud_itab__262 = [275, 0, 0, 0]"

definition ud_itab__263 :: "u16 list" where [itab_table]:
  "ud_itab__263 = [276, 0, 0, 0]"

definition ud_itab__264 :: "u16 list" where [itab_table]:
  "ud_itab__264 = [277, 0, 0, 0]"

definition ud_itab__265 :: "u16 list" where [itab_table]:
  "ud_itab__265 = [278, 0, 0, 0]"

definition ud_itab__266 :: "u16 list" where [itab_table]:
  "ud_itab__266 = [279, 0, 0, 0]"

definition ud_itab__267 :: "u16 list" where [itab_table]:
  "ud_itab__267 = [280, 0, 0, 0]"

definition ud_itab__268 :: "u16 list" where [itab_table]:
  "ud_itab__268 = [281, 0, 0, 282]"

definition ud_itab__269 :: "u16 list" where [itab_table]:
  "ud_itab__269 = [283, 284, 285, 286]"

definition ud_itab__270 :: "u16 list" where [itab_table]:
  "ud_itab__270 = [287, 0, 288, 0]"

definition ud_itab__271 :: "u16 list" where [itab_table]:
  "ud_itab__271 = [289, 0, 290, 0]"

definition ud_itab__272 :: "u16 list" where [itab_table]:
  "ud_itab__272 = [291, 0, 0, 292]"

definition ud_itab__273 :: "u16 list" where [itab_table]:
  "ud_itab__273 = [293, 0, 0, 294]"

definition ud_itab__274 :: "u16 list" where [itab_table]:
  "ud_itab__274 = [295, 0, 0, 296]"

definition ud_itab__275 :: "u16 list" where [itab_table]:
  "ud_itab__275 = [297, 0, 0, 298]"

definition ud_itab__276 :: "u16 list" where [itab_table]:
  "ud_itab__276 = [299, 300, 301, 302]"

definition ud_itab__277 :: "u16 list" where [itab_table]:
  "ud_itab__277 = [303, 304, 305, 306]"

definition ud_itab__278 :: "u16 list" where [itab_table]:
  "ud_itab__278 = [307, 308, 309, 310]"

definition ud_itab__279 :: "u16 list" where [itab_table]:
  "ud_itab__279 = [311, 0, 312, 313]"

definition ud_itab__280 :: "u16 list" where [itab_table]:
  "ud_itab__280 = [314, 315, 316, 317]"

definition ud_itab__281 :: "u16 list" where [itab_table]:
  "ud_itab__281 = [318, 319, 320, 321]"

definition ud_itab__282 :: "u16 list" where [itab_table]:
  "ud_itab__282 = [322, 323, 324, 325]"

definition ud_itab__283 :: "u16 list" where [itab_table]:
  "ud_itab__283 = [326, 327, 328, 329]"

definition ud_itab__284 :: "u16 list" where [itab_table]:
  "ud_itab__284 = [330, 0, 0, 331]"

definition ud_itab__285 :: "u16 list" where [itab_table]:
  "ud_itab__285 = [332, 0, 0, 333]"

definition ud_itab__286 :: "u16 list" where [itab_table]:
  "ud_itab__286 = [334, 0, 0, 335]"

definition ud_itab__287 :: "u16 list" where [itab_table]:
  "ud_itab__287 = [336, 0, 0, 337]"

definition ud_itab__288 :: "u16 list" where [itab_table]:
  "ud_itab__288 = [338, 0, 0, 339]"

definition ud_itab__289 :: "u16 list" where [itab_table]:
  "ud_itab__289 = [340, 0, 0, 341]"

definition ud_itab__290 :: "u16 list" where [itab_table]:
  "ud_itab__290 = [342, 0, 0, 343]"

definition ud_itab__291 :: "u16 list" where [itab_table]:
  "ud_itab__291 = [344, 0, 0, 345]"

definition ud_itab__292 :: "u16 list" where [itab_table]:
  "ud_itab__292 = [346, 0, 0, 347]"

definition ud_itab__293 :: "u16 list" where [itab_table]:
  "ud_itab__293 = [348, 0, 0, 349]"

definition ud_itab__294 :: "u16 list" where [itab_table]:
  "ud_itab__294 = [350, 0, 0, 351]"

definition ud_itab__295 :: "u16 list" where [itab_table]:
  "ud_itab__295 = [352, 0, 0, 353]"

definition ud_itab__296 :: "u16 list" where [itab_table]:
  "ud_itab__296 = [0, 0, 0, 354]"

definition ud_itab__297 :: "u16 list" where [itab_table]:
  "ud_itab__297 = [0, 0, 0, 355]"

definition ud_itab__298 :: "u16 list" where [itab_table]:
  "ud_itab__298 = [356, 0, 0, 357]"

definition ud_itab__299 :: "u16 list" where [itab_table]:
  "ud_itab__299 = [358, 0, 359, 360]"

definition ud_itab__300 :: "u16 list" where [itab_table]:
  "ud_itab__300 = [361, 362, 363, 364]"

definition ud_itab__302 :: "u16 list" where [itab_table]:
  "ud_itab__302 = [365, 0, 0, 366]"

definition ud_itab__303 :: "u16 list" where [itab_table]:
  "ud_itab__303 = [367, 0, 0, 368]"

definition ud_itab__304 :: "u16 list" where [itab_table]:
  "ud_itab__304 = [369, 0, 0, 370]"

definition ud_itab__301 :: "u16 list" where [itab_table]:
  "ud_itab__301 = [0, 0, GROUP 302, 0, GROUP 303, 0, GROUP 304, 0]"

definition ud_itab__306 :: "u16 list" where [itab_table]:
  "ud_itab__306 = [371, 0, 0, 372]"

definition ud_itab__307 :: "u16 list" where [itab_table]:
  "ud_itab__307 = [373, 0, 0, 374]"

definition ud_itab__308 :: "u16 list" where [itab_table]:
  "ud_itab__308 = [375, 0, 0, 376]"

definition ud_itab__305 :: "u16 list" where [itab_table]:
  "ud_itab__305 = [0, 0, GROUP 306, 0, GROUP 307, 0, GROUP 308, 0]"

definition ud_itab__310 :: "u16 list" where [itab_table]:
  "ud_itab__310 = [377, 0, 0, 378]"

definition ud_itab__311 :: "u16 list" where [itab_table]:
  "ud_itab__311 = [0, 0, 0, 379]"

definition ud_itab__312 :: "u16 list" where [itab_table]:
  "ud_itab__312 = [380, 0, 0, 381]"

definition ud_itab__313 :: "u16 list" where [itab_table]:
  "ud_itab__313 = [0, 0, 0, 382]"

definition ud_itab__309 :: "u16 list" where [itab_table]:
  "ud_itab__309 = [0, 0, GROUP 310, GROUP 311, 0, 0, GROUP 312, GROUP 313]"

definition ud_itab__314 :: "u16 list" where [itab_table]:
  "ud_itab__314 = [383, 0, 0, 384]"

definition ud_itab__315 :: "u16 list" where [itab_table]:
  "ud_itab__315 = [385, 0, 0, 386]"

definition ud_itab__316 :: "u16 list" where [itab_table]:
  "ud_itab__316 = [387, 0, 0, 388]"

definition ud_itab__317 :: "u16 list" where [itab_table]:
  "ud_itab__317 = [389, 0, 0, 0]"

definition ud_itab__319 :: "u16 list" where [itab_table]:
  "ud_itab__319 = [0, 390, 0]"

definition ud_itab__318 :: "u16 list" where [itab_table]:
  "ud_itab__318 = [GROUP 319, 0, 0, 0]"

definition ud_itab__321 :: "u16 list" where [itab_table]:
  "ud_itab__321 = [0, 391, 0]"

definition ud_itab__320 :: "u16 list" where [itab_table]:
  "ud_itab__320 = [GROUP 321, 0, 0, 0]"

definition ud_itab__322 :: "u16 list" where [itab_table]:
  "ud_itab__322 = [0, 392, 0, 393]"

definition ud_itab__323 :: "u16 list" where [itab_table]:
  "ud_itab__323 = [0, 394, 0, 395]"

definition ud_itab__324 :: "u16 list" where [itab_table]:
  "ud_itab__324 = [396, 0, 397, 398]"

definition ud_itab__325 :: "u16 list" where [itab_table]:
  "ud_itab__325 = [399, 0, 400, 401]"

definition ud_itab__326 :: "u16 list" where [itab_table]:
  "ud_itab__326 = [402, 0, 0, 0]"

definition ud_itab__327 :: "u16 list" where [itab_table]:
  "ud_itab__327 = [403, 0, 0, 0]"

definition ud_itab__328 :: "u16 list" where [itab_table]:
  "ud_itab__328 = [404, 0, 0, 0]"

definition ud_itab__329 :: "u16 list" where [itab_table]:
  "ud_itab__329 = [405, 0, 0, 0]"

definition ud_itab__330 :: "u16 list" where [itab_table]:
  "ud_itab__330 = [406, 0, 0, 0]"

definition ud_itab__331 :: "u16 list" where [itab_table]:
  "ud_itab__331 = [407, 0, 0, 0]"

definition ud_itab__332 :: "u16 list" where [itab_table]:
  "ud_itab__332 = [408, 0, 0, 0]"

definition ud_itab__333 :: "u16 list" where [itab_table]:
  "ud_itab__333 = [409, 0, 0, 0]"

definition ud_itab__334 :: "u16 list" where [itab_table]:
  "ud_itab__334 = [410, 0, 0, 0]"

definition ud_itab__335 :: "u16 list" where [itab_table]:
  "ud_itab__335 = [411, 0, 0, 0]"

definition ud_itab__336 :: "u16 list" where [itab_table]:
  "ud_itab__336 = [412, 0, 0, 0]"

definition ud_itab__337 :: "u16 list" where [itab_table]:
  "ud_itab__337 = [413, 0, 0, 0]"

definition ud_itab__338 :: "u16 list" where [itab_table]:
  "ud_itab__338 = [414, 0, 0, 0]"

definition ud_itab__339 :: "u16 list" where [itab_table]:
  "ud_itab__339 = [415, 0, 0, 0]"

definition ud_itab__340 :: "u16 list" where [itab_table]:
  "ud_itab__340 = [416, 0, 0, 0]"

definition ud_itab__341 :: "u16 list" where [itab_table]:
  "ud_itab__341 = [417, 0, 0, 0]"

definition ud_itab__342 :: "u16 list" where [itab_table]:
  "ud_itab__342 = [418, 0, 0, 0]"

definition ud_itab__343 :: "u16 list" where [itab_table]:
  "ud_itab__343 = [419, 0, 0, 0]"

definition ud_itab__344 :: "u16 list" where [itab_table]:
  "ud_itab__344 = [420, 0, 0, 0]"

definition ud_itab__345 :: "u16 list" where [itab_table]:
  "ud_itab__345 = [421, 0, 0, 0]"

definition ud_itab__346 :: "u16 list" where [itab_table]:
  "ud_itab__346 = [422, 0, 0, 0]"

definition ud_itab__347 :: "u16 list" where [itab_table]:
  "ud_itab__347 = [423, 0, 0, 0]"

definition ud_itab__348 :: "u16 list" where [itab_table]:
  "ud_itab__348 = [424, 0, 0, 0]"

definition ud_itab__349 :: "u16 list" where [itab_table]:
  "ud_itab__349 = [425, 0, 0, 0]"

definition ud_itab__350 :: "u16 list" where [itab_table]:
  "ud_itab__350 = [426, 0, 0, 0]"

definition ud_itab__351 :: "u16 list" where [itab_table]:
  "ud_itab__351 = [427, 0, 0, 0]"

definition ud_itab__352 :: "u16 list" where [itab_table]:
  "ud_itab__352 = [428, 0, 0, 0]"

definition ud_itab__353 :: "u16 list" where [itab_table]:
  "ud_itab__353 = [429, 0, 0, 0]"

definition ud_itab__354 :: "u16 list" where [itab_table]:
  "ud_itab__354 = [430, 0, 0, 0]"

definition ud_itab__355 :: "u16 list" where [itab_table]:
  "ud_itab__355 = [431, 0, 0, 0]"

definition ud_itab__356 :: "u16 list" where [itab_table]:
  "ud_itab__356 = [432, 0, 0, 0]"

definition ud_itab__357 :: "u16 list" where [itab_table]:
  "ud_itab__357 = [433, 0, 0, 0]"

definition ud_itab__358 :: "u16 list" where [itab_table]:
  "ud_itab__358 = [434, 0, 0, 0]"

definition ud_itab__359 :: "u16 list" where [itab_table]:
  "ud_itab__359 = [435, 0, 0, 0]"

definition ud_itab__360 :: "u16 list" where [itab_table]:
  "ud_itab__360 = [436, 0, 0, 0]"

definition ud_itab__361 :: "u16 list" where [itab_table]:
  "ud_itab__361 = [437, 0, 0, 0]"

definition ud_itab__362 :: "u16 list" where [itab_table]:
  "ud_itab__362 = [438, 0, 0, 0]"

definition ud_itab__363 :: "u16 list" where [itab_table]:
  "ud_itab__363 = [439, 0, 0, 0]"

definition ud_itab__368 :: "u16 list" where [itab_table]:
  "ud_itab__368 = [0, 440]"

definition ud_itab__367 :: "u16 list" where [itab_table]:
  "ud_itab__367 = [GROUP 368, 0, 0, 0]"

definition ud_itab__366 :: "u16 list" where [itab_table]:
  "ud_itab__366 = [GROUP 367, 0, 0, 0, 0, 0, 0, 0]"

definition ud_itab__371 :: "u16 list" where [itab_table]:
  "ud_itab__371 = [0, 441]"

definition ud_itab__370 :: "u16 list" where [itab_table]:
  "ud_itab__370 = [GROUP 371, 0, 0, 0]"

definition ud_itab__369 :: "u16 list" where [itab_table]:
  "ud_itab__369 = [GROUP 370, 0, 0, 0, 0, 0, 0, 0]"

definition ud_itab__374 :: "u16 list" where [itab_table]:
  "ud_itab__374 = [0, 442]"

definition ud_itab__373 :: "u16 list" where [itab_table]:
  "ud_itab__373 = [GROUP 374, 0, 0, 0]"

definition ud_itab__372 :: "u16 list" where [itab_table]:
  "ud_itab__372 = [GROUP 373, 0, 0, 0, 0, 0, 0, 0]"

definition ud_itab__365 :: "u16 list" where [itab_table]:
  "ud_itab__365 = [GROUP 366, GROUP 369, GROUP 372, 0, 0, 0, 0, 0]"

definition ud_itab__364 :: "u16 list" where [itab_table]:
  "ud_itab__364 = [0, GROUP 365]"

definition ud_itab__379 :: "u16 list" where [itab_table]:
  "ud_itab__379 = [0, 443]"

definition ud_itab__378 :: "u16 list" where [itab_table]:
  "ud_itab__378 = [GROUP 379, 0, 0, 0]"

definition ud_itab__377 :: "u16 list" where [itab_table]:
  "ud_itab__377 = [GROUP 378, 0, 0, 0, 0, 0, 0, 0]"

definition ud_itab__382 :: "u16 list" where [itab_table]:
  "ud_itab__382 = [0, 444]"

definition ud_itab__381 :: "u16 list" where [itab_table]:
  "ud_itab__381 = [GROUP 382, 0, 0, 0]"

definition ud_itab__380 :: "u16 list" where [itab_table]:
  "ud_itab__380 = [GROUP 381, 0, 0, 0, 0, 0, 0, 0]"

definition ud_itab__385 :: "u16 list" where [itab_table]:
  "ud_itab__385 = [0, 445]"

definition ud_itab__384 :: "u16 list" where [itab_table]:
  "ud_itab__384 = [GROUP 385, 0, 0, 0]"

definition ud_itab__383 :: "u16 list" where [itab_table]:
  "ud_itab__383 = [GROUP 384, 0, 0, 0, 0, 0, 0, 0]"

definition ud_itab__388 :: "u16 list" where [itab_table]:
  "ud_itab__388 = [0, 446]"

definition ud_itab__387 :: "u16 list" where [itab_table]:
  "ud_itab__387 = [GROUP 388, 0, 0, 0]"

definition ud_itab__386 :: "u16 list" where [itab_table]:
  "ud_itab__386 = [GROUP 387, 0, 0, 0, 0, 0, 0, 0]"

definition ud_itab__391 :: "u16 list" where [itab_table]:
  "ud_itab__391 = [0, 447]"

definition ud_itab__390 :: "u16 list" where [itab_table]:
  "ud_itab__390 = [GROUP 391, 0, 0, 0]"

definition ud_itab__389 :: "u16 list" where [itab_table]:
  "ud_itab__389 = [GROUP 390, 0, 0, 0, 0, 0, 0, 0]"

definition ud_itab__394 :: "u16 list" where [itab_table]:
  "ud_itab__394 = [0, 448]"

definition ud_itab__393 :: "u16 list" where [itab_table]:
  "ud_itab__393 = [GROUP 394, 0, 0, 0]"

definition ud_itab__392 :: "u16 list" where [itab_table]:
  "ud_itab__392 = [GROUP 393, 0, 0, 0, 0, 0, 0, 0]"

definition ud_itab__376 :: "u16 list" where [itab_table]:
  "ud_itab__376 = [GROUP 377, GROUP 380, GROUP 383, GROUP 386, GROUP 389, GROUP 392, 0, 0]"

definition ud_itab__375 :: "u16 list" where [itab_table]:
  "ud_itab__375 = [0, GROUP 376]"

definition ud_itab__395 :: "u16 list" where [itab_table]:
  "ud_itab__395 = [449, 0, 0, 0]"

definition ud_itab__396 :: "u16 list" where [itab_table]:
  "ud_itab__396 = [450, 0, 0, 0]"

definition ud_itab__397 :: "u16 list" where [itab_table]:
  "ud_itab__397 = [451, 0, 0, 0]"

definition ud_itab__398 :: "u16 list" where [itab_table]:
  "ud_itab__398 = [452, 0, 0, 0]"

definition ud_itab__399 :: "u16 list" where [itab_table]:
  "ud_itab__399 = [453, 0, 0, 0]"

definition ud_itab__400 :: "u16 list" where [itab_table]:
  "ud_itab__400 = [454, 0, 0, 0]"

definition ud_itab__404 :: "u16 list" where [itab_table]:
  "ud_itab__404 = [455, 0]"

definition ud_itab__403 :: "u16 list" where [itab_table]:
  "ud_itab__403 = [GROUP 404, 0, 0, 0]"

definition ud_itab__406 :: "u16 list" where [itab_table]:
  "ud_itab__406 = [456, 0]"

definition ud_itab__405 :: "u16 list" where [itab_table]:
  "ud_itab__405 = [GROUP 406, 0, 0, 0]"

definition ud_itab__408 :: "u16 list" where [itab_table]:
  "ud_itab__408 = [457, 0]"

definition ud_itab__407 :: "u16 list" where [itab_table]:
  "ud_itab__407 = [GROUP 408, 0, 0, 0]"

definition ud_itab__410 :: "u16 list" where [itab_table]:
  "ud_itab__410 = [458, 0]"

definition ud_itab__409 :: "u16 list" where [itab_table]:
  "ud_itab__409 = [GROUP 410, 0, 0, 0]"

definition ud_itab__412 :: "u16 list" where [itab_table]:
  "ud_itab__412 = [459, 0]"

definition ud_itab__411 :: "u16 list" where [itab_table]:
  "ud_itab__411 = [GROUP 412, 0, 0, 0]"

definition ud_itab__414 :: "u16 list" where [itab_table]:
  "ud_itab__414 = [460, 0]"

definition ud_itab__413 :: "u16 list" where [itab_table]:
  "ud_itab__413 = [GROUP 414, 0, 0, 0]"

definition ud_itab__416 :: "u16 list" where [itab_table]:
  "ud_itab__416 = [461, 0]"

definition ud_itab__415 :: "u16 list" where [itab_table]:
  "ud_itab__415 = [GROUP 416, 0, 0, 0]"

definition ud_itab__402 :: "u16 list" where [itab_table]:
  "ud_itab__402 = [GROUP 403, GROUP 405, GROUP 407, GROUP 409, GROUP 411, GROUP 413, 0, GROUP 415]"

definition ud_itab__420 :: "u16 list" where [itab_table]:
  "ud_itab__420 = [0, 462]"

definition ud_itab__419 :: "u16 list" where [itab_table]:
  "ud_itab__419 = [GROUP 420, 0, 0, 0]"

definition ud_itab__422 :: "u16 list" where [itab_table]:
  "ud_itab__422 = [0, 463]"

definition ud_itab__421 :: "u16 list" where [itab_table]:
  "ud_itab__421 = [GROUP 422, 0, 0, 0]"

definition ud_itab__424 :: "u16 list" where [itab_table]:
  "ud_itab__424 = [0, 464]"

definition ud_itab__423 :: "u16 list" where [itab_table]:
  "ud_itab__423 = [GROUP 424, 0, 0, 0]"

definition ud_itab__426 :: "u16 list" where [itab_table]:
  "ud_itab__426 = [0, 465]"

definition ud_itab__425 :: "u16 list" where [itab_table]:
  "ud_itab__425 = [GROUP 426, 0, 0, 0]"

definition ud_itab__428 :: "u16 list" where [itab_table]:
  "ud_itab__428 = [0, 466]"

definition ud_itab__427 :: "u16 list" where [itab_table]:
  "ud_itab__427 = [GROUP 428, 0, 0, 0]"

definition ud_itab__430 :: "u16 list" where [itab_table]:
  "ud_itab__430 = [0, 467]"

definition ud_itab__429 :: "u16 list" where [itab_table]:
  "ud_itab__429 = [GROUP 430, 0, 0, 0]"

definition ud_itab__432 :: "u16 list" where [itab_table]:
  "ud_itab__432 = [0, 468]"

definition ud_itab__431 :: "u16 list" where [itab_table]:
  "ud_itab__431 = [GROUP 432, 0, 0, 0]"

definition ud_itab__434 :: "u16 list" where [itab_table]:
  "ud_itab__434 = [0, 469]"

definition ud_itab__433 :: "u16 list" where [itab_table]:
  "ud_itab__433 = [GROUP 434, 0, 0, 0]"

definition ud_itab__418 :: "u16 list" where [itab_table]:
  "ud_itab__418 = [GROUP 419, GROUP 421, GROUP 423, GROUP 425, GROUP 427, GROUP 429, GROUP 431, GROUP 433]"

definition ud_itab__437 :: "u16 list" where [itab_table]:
  "ud_itab__437 = [0, 470]"

definition ud_itab__436 :: "u16 list" where [itab_table]:
  "ud_itab__436 = [GROUP 437, 0, 0, 0]"

definition ud_itab__439 :: "u16 list" where [itab_table]:
  "ud_itab__439 = [0, 471]"

definition ud_itab__438 :: "u16 list" where [itab_table]:
  "ud_itab__438 = [GROUP 439, 0, 0, 0]"

definition ud_itab__441 :: "u16 list" where [itab_table]:
  "ud_itab__441 = [0, 472]"

definition ud_itab__440 :: "u16 list" where [itab_table]:
  "ud_itab__440 = [GROUP 441, 0, 0, 0]"

definition ud_itab__443 :: "u16 list" where [itab_table]:
  "ud_itab__443 = [0, 473]"

definition ud_itab__442 :: "u16 list" where [itab_table]:
  "ud_itab__442 = [GROUP 443, 0, 0, 0]"

definition ud_itab__445 :: "u16 list" where [itab_table]:
  "ud_itab__445 = [0, 474]"

definition ud_itab__444 :: "u16 list" where [itab_table]:
  "ud_itab__444 = [GROUP 445, 0, 0, 0]"

definition ud_itab__447 :: "u16 list" where [itab_table]:
  "ud_itab__447 = [0, 475]"

definition ud_itab__446 :: "u16 list" where [itab_table]:
  "ud_itab__446 = [GROUP 447, 0, 0, 0]"

definition ud_itab__449 :: "u16 list" where [itab_table]:
  "ud_itab__449 = [0, 476]"

definition ud_itab__448 :: "u16 list" where [itab_table]:
  "ud_itab__448 = [GROUP 449, 0, 0, 0]"

definition ud_itab__451 :: "u16 list" where [itab_table]:
  "ud_itab__451 = [0, 477]"

definition ud_itab__450 :: "u16 list" where [itab_table]:
  "ud_itab__450 = [GROUP 451, 0, 0, 0]"

definition ud_itab__435 :: "u16 list" where [itab_table]:
  "ud_itab__435 = [GROUP 436, GROUP 438, GROUP 440, GROUP 442, GROUP 444, GROUP 446, GROUP 448, GROUP 450]"

definition ud_itab__454 :: "u16 list" where [itab_table]:
  "ud_itab__454 = [0, 478]"

definition ud_itab__453 :: "u16 list" where [itab_table]:
  "ud_itab__453 = [GROUP 454, 0, 0, 0]"

definition ud_itab__456 :: "u16 list" where [itab_table]:
  "ud_itab__456 = [0, 479]"

definition ud_itab__455 :: "u16 list" where [itab_table]:
  "ud_itab__455 = [GROUP 456, 0, 0, 0]"

definition ud_itab__458 :: "u16 list" where [itab_table]:
  "ud_itab__458 = [0, 480]"

definition ud_itab__457 :: "u16 list" where [itab_table]:
  "ud_itab__457 = [GROUP 458, 0, 0, 0]"

definition ud_itab__460 :: "u16 list" where [itab_table]:
  "ud_itab__460 = [0, 481]"

definition ud_itab__459 :: "u16 list" where [itab_table]:
  "ud_itab__459 = [GROUP 460, 0, 0, 0]"

definition ud_itab__462 :: "u16 list" where [itab_table]:
  "ud_itab__462 = [0, 482]"

definition ud_itab__461 :: "u16 list" where [itab_table]:
  "ud_itab__461 = [GROUP 462, 0, 0, 0]"

definition ud_itab__464 :: "u16 list" where [itab_table]:
  "ud_itab__464 = [0, 483]"

definition ud_itab__463 :: "u16 list" where [itab_table]:
  "ud_itab__463 = [GROUP 464, 0, 0, 0]"

definition ud_itab__466 :: "u16 list" where [itab_table]:
  "ud_itab__466 = [0, 484]"

definition ud_itab__465 :: "u16 list" where [itab_table]:
  "ud_itab__465 = [GROUP 466, 0, 0, 0]"

definition ud_itab__468 :: "u16 list" where [itab_table]:
  "ud_itab__468 = [0, 485]"

definition ud_itab__467 :: "u16 list" where [itab_table]:
  "ud_itab__467 = [GROUP 468, 0, 0, 0]"

definition ud_itab__452 :: "u16 list" where [itab_table]:
  "ud_itab__452 = [GROUP 453, GROUP 455, GROUP 457, GROUP 459, GROUP 461, GROUP 463, GROUP 465, GROUP 467]"

definition ud_itab__417 :: "u16 list" where [itab_table]:
  "ud_itab__417 = [0, 0, 0, 0, 0, GROUP 418, GROUP 435, GROUP 452]"

definition ud_itab__401 :: "u16 list" where [itab_table]:
  "ud_itab__401 = [GROUP 402, GROUP 417]"

definition ud_itab__469 :: "u16 list" where [itab_table]:
  "ud_itab__469 = [486, 0, 0, 0]"

definition ud_itab__470 :: "u16 list" where [itab_table]:
  "ud_itab__470 = [487, 0, 0, 0]"

definition ud_itab__471 :: "u16 list" where [itab_table]:
  "ud_itab__471 = [488, 0, 0, 0]"

definition ud_itab__472 :: "u16 list" where [itab_table]:
  "ud_itab__472 = [489, 0, 0, 0]"

definition ud_itab__473 :: "u16 list" where [itab_table]:
  "ud_itab__473 = [490, 0, 0, 0]"

definition ud_itab__474 :: "u16 list" where [itab_table]:
  "ud_itab__474 = [491, 0, 0, 0]"

definition ud_itab__475 :: "u16 list" where [itab_table]:
  "ud_itab__475 = [492, 0, 0, 0]"

definition ud_itab__476 :: "u16 list" where [itab_table]:
  "ud_itab__476 = [493, 0, 0, 0]"

definition ud_itab__477 :: "u16 list" where [itab_table]:
  "ud_itab__477 = [494, 0, 0, 0]"

definition ud_itab__478 :: "u16 list" where [itab_table]:
  "ud_itab__478 = [0, 0, 495, 0]"

definition ud_itab__480 :: "u16 list" where [itab_table]:
  "ud_itab__480 = [496, 0, 0, 0]"

definition ud_itab__481 :: "u16 list" where [itab_table]:
  "ud_itab__481 = [497, 0, 0, 0]"

definition ud_itab__482 :: "u16 list" where [itab_table]:
  "ud_itab__482 = [498, 0, 0, 0]"

definition ud_itab__483 :: "u16 list" where [itab_table]:
  "ud_itab__483 = [499, 0, 0, 0]"

definition ud_itab__479 :: "u16 list" where [itab_table]:
  "ud_itab__479 = [0, 0, 0, 0, GROUP 480, GROUP 481, GROUP 482, GROUP 483]"

definition ud_itab__484 :: "u16 list" where [itab_table]:
  "ud_itab__484 = [500, 0, 0, 0]"

definition ud_itab__485 :: "u16 list" where [itab_table]:
  "ud_itab__485 = [501, 0, 0, 0]"

definition ud_itab__486 :: "u16 list" where [itab_table]:
  "ud_itab__486 = [502, 0, 0, 0]"

definition ud_itab__487 :: "u16 list" where [itab_table]:
  "ud_itab__487 = [503, 0, 0, 0]"

definition ud_itab__488 :: "u16 list" where [itab_table]:
  "ud_itab__488 = [504, 0, 0, 0]"

definition ud_itab__489 :: "u16 list" where [itab_table]:
  "ud_itab__489 = [505, 0, 0, 0]"

definition ud_itab__490 :: "u16 list" where [itab_table]:
  "ud_itab__490 = [506, 0, 0, 0]"

definition ud_itab__491 :: "u16 list" where [itab_table]:
  "ud_itab__491 = [507, 508, 509, 510]"

definition ud_itab__492 :: "u16 list" where [itab_table]:
  "ud_itab__492 = [511, 0, 0, 0]"

definition ud_itab__493 :: "u16 list" where [itab_table]:
  "ud_itab__493 = [512, 0, 0, 513]"

definition ud_itab__494 :: "u16 list" where [itab_table]:
  "ud_itab__494 = [514, 0, 0, 515]"

definition ud_itab__495 :: "u16 list" where [itab_table]:
  "ud_itab__495 = [516, 0, 0, 517]"

definition ud_itab__498 :: "u16 list" where [itab_table]:
  "ud_itab__498 = [518, 519, 520]"

definition ud_itab__497 :: "u16 list" where [itab_table]:
  "ud_itab__497 = [GROUP 498, 0, 0, 0]"

definition ud_itab__500 :: "u16 list" where [itab_table]:
  "ud_itab__500 = [0, 521, 0]"

definition ud_itab__501 :: "u16 list" where [itab_table]:
  "ud_itab__501 = [0, 522, 0]"

definition ud_itab__502 :: "u16 list" where [itab_table]:
  "ud_itab__502 = [0, 523, 0]"

definition ud_itab__499 :: "u16 list" where [itab_table]:
  "ud_itab__499 = [GROUP 500, 0, GROUP 501, GROUP 502]"

definition ud_itab__504 :: "u16 list" where [itab_table]:
  "ud_itab__504 = [0, 524, 0]"

definition ud_itab__503 :: "u16 list" where [itab_table]:
  "ud_itab__503 = [GROUP 504, 0, 0, 0]"

definition ud_itab__496 :: "u16 list" where [itab_table]:
  "ud_itab__496 = [0, GROUP 497, 0, 0, 0, 0, GROUP 499, GROUP 503]"

definition ud_itab__505 :: "u16 list" where [itab_table]:
  "ud_itab__505 = [525, 0, 0, 0]"

definition ud_itab__506 :: "u16 list" where [itab_table]:
  "ud_itab__506 = [526, 0, 0, 0]"

definition ud_itab__507 :: "u16 list" where [itab_table]:
  "ud_itab__507 = [527, 0, 0, 0]"

definition ud_itab__508 :: "u16 list" where [itab_table]:
  "ud_itab__508 = [528, 0, 0, 0]"

definition ud_itab__509 :: "u16 list" where [itab_table]:
  "ud_itab__509 = [529, 0, 0, 0]"

definition ud_itab__510 :: "u16 list" where [itab_table]:
  "ud_itab__510 = [530, 0, 0, 0]"

definition ud_itab__511 :: "u16 list" where [itab_table]:
  "ud_itab__511 = [531, 0, 0, 0]"

definition ud_itab__512 :: "u16 list" where [itab_table]:
  "ud_itab__512 = [532, 0, 0, 0]"

definition ud_itab__513 :: "u16 list" where [itab_table]:
  "ud_itab__513 = [0, 533, 0, 534]"

definition ud_itab__514 :: "u16 list" where [itab_table]:
  "ud_itab__514 = [535, 0, 0, 536]"

definition ud_itab__515 :: "u16 list" where [itab_table]:
  "ud_itab__515 = [537, 0, 0, 538]"

definition ud_itab__516 :: "u16 list" where [itab_table]:
  "ud_itab__516 = [539, 0, 0, 540]"

definition ud_itab__517 :: "u16 list" where [itab_table]:
  "ud_itab__517 = [541, 0, 0, 542]"

definition ud_itab__518 :: "u16 list" where [itab_table]:
  "ud_itab__518 = [543, 0, 0, 544]"

definition ud_itab__519 :: "u16 list" where [itab_table]:
  "ud_itab__519 = [0, 545, 546, 547]"

definition ud_itab__520 :: "u16 list" where [itab_table]:
  "ud_itab__520 = [548, 0, 0, 549]"

definition ud_itab__521 :: "u16 list" where [itab_table]:
  "ud_itab__521 = [550, 0, 0, 551]"

definition ud_itab__522 :: "u16 list" where [itab_table]:
  "ud_itab__522 = [552, 0, 0, 553]"

definition ud_itab__523 :: "u16 list" where [itab_table]:
  "ud_itab__523 = [554, 0, 0, 555]"

definition ud_itab__524 :: "u16 list" where [itab_table]:
  "ud_itab__524 = [556, 0, 0, 557]"

definition ud_itab__525 :: "u16 list" where [itab_table]:
  "ud_itab__525 = [558, 0, 0, 559]"

definition ud_itab__526 :: "u16 list" where [itab_table]:
  "ud_itab__526 = [560, 0, 0, 561]"

definition ud_itab__527 :: "u16 list" where [itab_table]:
  "ud_itab__527 = [562, 0, 0, 563]"

definition ud_itab__528 :: "u16 list" where [itab_table]:
  "ud_itab__528 = [564, 0, 0, 565]"

definition ud_itab__529 :: "u16 list" where [itab_table]:
  "ud_itab__529 = [566, 0, 0, 567]"

definition ud_itab__530 :: "u16 list" where [itab_table]:
  "ud_itab__530 = [568, 0, 0, 569]"

definition ud_itab__531 :: "u16 list" where [itab_table]:
  "ud_itab__531 = [570, 0, 0, 571]"

definition ud_itab__532 :: "u16 list" where [itab_table]:
  "ud_itab__532 = [572, 0, 0, 573]"

definition ud_itab__533 :: "u16 list" where [itab_table]:
  "ud_itab__533 = [574, 0, 0, 575]"

definition ud_itab__534 :: "u16 list" where [itab_table]:
  "ud_itab__534 = [576, 0, 0, 577]"

definition ud_itab__535 :: "u16 list" where [itab_table]:
  "ud_itab__535 = [0, 578, 579, 580]"

definition ud_itab__536 :: "u16 list" where [itab_table]:
  "ud_itab__536 = [581, 0, 0, 582]"

definition ud_itab__537 :: "u16 list" where [itab_table]:
  "ud_itab__537 = [583, 0, 0, 584]"

definition ud_itab__538 :: "u16 list" where [itab_table]:
  "ud_itab__538 = [585, 0, 0, 586]"

definition ud_itab__539 :: "u16 list" where [itab_table]:
  "ud_itab__539 = [587, 0, 0, 588]"

definition ud_itab__540 :: "u16 list" where [itab_table]:
  "ud_itab__540 = [589, 0, 0, 590]"

definition ud_itab__541 :: "u16 list" where [itab_table]:
  "ud_itab__541 = [591, 0, 0, 592]"

definition ud_itab__542 :: "u16 list" where [itab_table]:
  "ud_itab__542 = [593, 0, 0, 594]"

definition ud_itab__543 :: "u16 list" where [itab_table]:
  "ud_itab__543 = [595, 0, 0, 596]"

definition ud_itab__544 :: "u16 list" where [itab_table]:
  "ud_itab__544 = [597, 0, 0, 598]"

definition ud_itab__545 :: "u16 list" where [itab_table]:
  "ud_itab__545 = [0, 599, 0, 0]"

definition ud_itab__546 :: "u16 list" where [itab_table]:
  "ud_itab__546 = [600, 0, 0, 601]"

definition ud_itab__547 :: "u16 list" where [itab_table]:
  "ud_itab__547 = [602, 0, 0, 603]"

definition ud_itab__548 :: "u16 list" where [itab_table]:
  "ud_itab__548 = [604, 0, 0, 605]"

end
