(* ===== verification/Itab_Tables3.thy ===== *)
theory Itab_Tables3
  imports Itab_Tables2
begin

text \<open>
  \<^verbatim>\<open>libudis86/itab.c\<close>, lines 2415 to 3714: the lookup tables.
\<close>

definition ud_itab__549 :: "u16 list" where [itab_table]:
  "ud_itab__549 = [606, 0, 0, 607]"

definition ud_itab__550 :: "u16 list" where [itab_table]:
  "ud_itab__550 = [608, 0, 0, 609]"

definition ud_itab__551 :: "u16 list" where [itab_table]:
  "ud_itab__551 = [610, 0, 0, 611]"

definition ud_itab__554 :: "u16 list" where [itab_table]:
  "ud_itab__554 = [0, 612]"

definition ud_itab__555 :: "u16 list" where [itab_table]:
  "ud_itab__555 = [0, 613]"

definition ud_itab__553 :: "u16 list" where [itab_table]:
  "ud_itab__553 = [GROUP 554, 0, 0, GROUP 555]"

definition ud_itab__552 :: "u16 list" where [itab_table]:
  "ud_itab__552 = [0, GROUP 553]"

definition ud_itab__556 :: "u16 list" where [itab_table]:
  "ud_itab__556 = [614, 0, 0, 615]"

definition ud_itab__557 :: "u16 list" where [itab_table]:
  "ud_itab__557 = [616, 0, 0, 617]"

definition ud_itab__558 :: "u16 list" where [itab_table]:
  "ud_itab__558 = [618, 0, 0, 619]"

definition ud_itab__559 :: "u16 list" where [itab_table]:
  "ud_itab__559 = [620, 0, 0, 621]"

definition ud_itab__560 :: "u16 list" where [itab_table]:
  "ud_itab__560 = [622, 0, 0, 623]"

definition ud_itab__561 :: "u16 list" where [itab_table]:
  "ud_itab__561 = [624, 0, 0, 625]"

definition ud_itab__562 :: "u16 list" where [itab_table]:
  "ud_itab__562 = [626, 0, 0, 627]"

definition ud_itab__4 :: "u16 list" where [itab_table]:
  "ud_itab__4 = [
    GROUP 5, GROUP 12, GROUP 87, GROUP 88, 0, GROUP 89, GROUP 90, GROUP 91, GROUP 92, GROUP 93, 0,
    GROUP 94, 0, GROUP 95, GROUP 104, GROUP 105, GROUP 106, GROUP 107, GROUP 108, GROUP 118,
    GROUP 119, GROUP 120, GROUP 121, GROUP 129, GROUP 130, GROUP 135, GROUP 136, GROUP 137,
    GROUP 138, GROUP 139, GROUP 140, GROUP 141, GROUP 142, GROUP 143, GROUP 144, GROUP 145, 0, 0,
    0, 0, GROUP 146, GROUP 147, GROUP 148, GROUP 149, GROUP 150, GROUP 151, GROUP 152, GROUP 153,
    GROUP 154, GROUP 155, GROUP 156, GROUP 157, GROUP 158, GROUP 161, 0, GROUP 164, GROUP 165, 0,
    GROUP 225, 0, 0, 0, 0, 0, GROUP 252, GROUP 253, GROUP 254, GROUP 255, GROUP 256, GROUP 257,
    GROUP 258, GROUP 259, GROUP 260, GROUP 261, GROUP 262, GROUP 263, GROUP 264, GROUP 265,
    GROUP 266, GROUP 267, GROUP 268, GROUP 269, GROUP 270, GROUP 271, GROUP 272, GROUP 273,
    GROUP 274, GROUP 275, GROUP 276, GROUP 277, GROUP 278, GROUP 279, GROUP 280, GROUP 281,
    GROUP 282, GROUP 283, GROUP 284, GROUP 285, GROUP 286, GROUP 287, GROUP 288, GROUP 289,
    GROUP 290, GROUP 291, GROUP 292, GROUP 293, GROUP 294, GROUP 295, GROUP 296, GROUP 297,
    GROUP 298, GROUP 299, GROUP 300, GROUP 301, GROUP 305, GROUP 309, GROUP 314, GROUP 315,
    GROUP 316, GROUP 317, GROUP 318, GROUP 320, 0, 0, GROUP 322, GROUP 323, GROUP 324, GROUP 325,
    GROUP 326, GROUP 327, GROUP 328, GROUP 329, GROUP 330, GROUP 331, GROUP 332, GROUP 333,
    GROUP 334, GROUP 335, GROUP 336, GROUP 337, GROUP 338, GROUP 339, GROUP 340, GROUP 341,
    GROUP 342, GROUP 343, GROUP 344, GROUP 345, GROUP 346, GROUP 347, GROUP 348, GROUP 349,
    GROUP 350, GROUP 351, GROUP 352, GROUP 353, GROUP 354, GROUP 355, GROUP 356, GROUP 357,
    GROUP 358, GROUP 359, GROUP 360, GROUP 361, GROUP 362, GROUP 363, GROUP 364, GROUP 375,
    GROUP 395, GROUP 396, GROUP 397, GROUP 398, GROUP 399, GROUP 400, GROUP 401, GROUP 469,
    GROUP 470, GROUP 471, GROUP 472, GROUP 473, GROUP 474, GROUP 475, GROUP 476, GROUP 477,
    GROUP 478, 0, GROUP 479, GROUP 484, GROUP 485, GROUP 486, GROUP 487, GROUP 488, GROUP 489,
    GROUP 490, GROUP 491, GROUP 492, GROUP 493, GROUP 494, GROUP 495, GROUP 496, GROUP 505,
    GROUP 506, GROUP 507, GROUP 508, GROUP 509, GROUP 510, GROUP 511, GROUP 512, GROUP 513,
    GROUP 514, GROUP 515, GROUP 516, GROUP 517, GROUP 518, GROUP 519, GROUP 520, GROUP 521,
    GROUP 522, GROUP 523, GROUP 524, GROUP 525, GROUP 526, GROUP 527, GROUP 528, GROUP 529,
    GROUP 530, GROUP 531, GROUP 532, GROUP 533, GROUP 534, GROUP 535, GROUP 536, GROUP 537,
    GROUP 538, GROUP 539, GROUP 540, GROUP 541, GROUP 542, GROUP 543, GROUP 544, GROUP 545,
    GROUP 546, GROUP 547, GROUP 548, GROUP 549, GROUP 550, GROUP 551, GROUP 552, GROUP 556,
    GROUP 557, GROUP 558, GROUP 559, GROUP 560, GROUP 561, GROUP 562, 0]"

definition ud_itab__563 :: "u16 list" where [itab_table]:
  "ud_itab__563 = [634, 0]"

definition ud_itab__564 :: "u16 list" where [itab_table]:
  "ud_itab__564 = [635, 0]"

definition ud_itab__565 :: "u16 list" where [itab_table]:
  "ud_itab__565 = [642, 0]"

definition ud_itab__566 :: "u16 list" where [itab_table]:
  "ud_itab__566 = [643, 0]"

definition ud_itab__567 :: "u16 list" where [itab_table]:
  "ud_itab__567 = [650, 0]"

definition ud_itab__568 :: "u16 list" where [itab_table]:
  "ud_itab__568 = [657, 0]"

definition ud_itab__569 :: "u16 list" where [itab_table]:
  "ud_itab__569 = [664, 0]"

definition ud_itab__570 :: "u16 list" where [itab_table]:
  "ud_itab__570 = [671, 0]"

definition ud_itab__572 :: "u16 list" where [itab_table]:
  "ud_itab__572 = [704, 0]"

definition ud_itab__573 :: "u16 list" where [itab_table]:
  "ud_itab__573 = [705, 0]"

definition ud_itab__571 :: "u16 list" where [itab_table]:
  "ud_itab__571 = [GROUP 572, GROUP 573, 0]"

definition ud_itab__575 :: "u16 list" where [itab_table]:
  "ud_itab__575 = [706, 0]"

definition ud_itab__576 :: "u16 list" where [itab_table]:
  "ud_itab__576 = [707, 0]"

definition ud_itab__574 :: "u16 list" where [itab_table]:
  "ud_itab__574 = [GROUP 575, GROUP 576, 0]"

definition ud_itab__577 :: "u16 list" where [itab_table]:
  "ud_itab__577 = [708, 0]"

definition ud_itab__578 :: "u16 list" where [itab_table]:
  "ud_itab__578 = [709, 710]"

definition ud_itab__579 :: "u16 list" where [itab_table]:
  "ud_itab__579 = [716, 717, 0]"

definition ud_itab__580 :: "u16 list" where [itab_table]:
  "ud_itab__580 = [719, 720, 0]"

definition ud_itab__581 :: "u16 list" where [itab_table]:
  "ud_itab__581 = [737, 738, 739, 740, 741, 742, 743, 744]"

definition ud_itab__582 :: "u16 list" where [itab_table]:
  "ud_itab__582 = [745, 746, 747, 748, 749, 750, 751, 752]"

definition ud_itab__584 :: "u16 list" where [itab_table]:
  "ud_itab__584 = [753, 0]"

definition ud_itab__585 :: "u16 list" where [itab_table]:
  "ud_itab__585 = [754, 0]"

definition ud_itab__586 :: "u16 list" where [itab_table]:
  "ud_itab__586 = [755, 0]"

definition ud_itab__587 :: "u16 list" where [itab_table]:
  "ud_itab__587 = [756, 0]"

definition ud_itab__588 :: "u16 list" where [itab_table]:
  "ud_itab__588 = [757, 0]"

definition ud_itab__589 :: "u16 list" where [itab_table]:
  "ud_itab__589 = [758, 0]"

definition ud_itab__590 :: "u16 list" where [itab_table]:
  "ud_itab__590 = [759, 0]"

definition ud_itab__591 :: "u16 list" where [itab_table]:
  "ud_itab__591 = [760, 0]"

definition ud_itab__583 :: "u16 list" where [itab_table]:
  "ud_itab__583 = [GROUP 584, GROUP 585, GROUP 586, GROUP 587, GROUP 588, GROUP 589, GROUP 590, GROUP 591]"

definition ud_itab__592 :: "u16 list" where [itab_table]:
  "ud_itab__592 = [761, 762, 763, 764, 765, 766, 767, 768]"

definition ud_itab__593 :: "u16 list" where [itab_table]:
  "ud_itab__593 = [780, 0, 0, 0, 0, 0, 0, 0]"

definition ud_itab__594 :: "u16 list" where [itab_table]:
  "ud_itab__594 = [789, 790, 791]"

definition ud_itab__595 :: "u16 list" where [itab_table]:
  "ud_itab__595 = [792, 793, 794]"

definition ud_itab__596 :: "u16 list" where [itab_table]:
  "ud_itab__596 = [795, 0]"

definition ud_itab__598 :: "u16 list" where [itab_table]:
  "ud_itab__598 = [797, 798]"

definition ud_itab__599 :: "u16 list" where [itab_table]:
  "ud_itab__599 = [799, 800]"

definition ud_itab__600 :: "u16 list" where [itab_table]:
  "ud_itab__600 = [0, 801]"

definition ud_itab__597 :: "u16 list" where [itab_table]:
  "ud_itab__597 = [GROUP 598, GROUP 599, GROUP 600]"

definition ud_itab__602 :: "u16 list" where [itab_table]:
  "ud_itab__602 = [802, 0]"

definition ud_itab__603 :: "u16 list" where [itab_table]:
  "ud_itab__603 = [803, 804]"

definition ud_itab__604 :: "u16 list" where [itab_table]:
  "ud_itab__604 = [0, 805]"

definition ud_itab__601 :: "u16 list" where [itab_table]:
  "ud_itab__601 = [GROUP 602, GROUP 603, GROUP 604]"

definition ud_itab__605 :: "u16 list" where [itab_table]:
  "ud_itab__605 = [813, 814, 815]"

definition ud_itab__606 :: "u16 list" where [itab_table]:
  "ud_itab__606 = [817, 818, 819]"

definition ud_itab__607 :: "u16 list" where [itab_table]:
  "ud_itab__607 = [823, 824, 825]"

definition ud_itab__608 :: "u16 list" where [itab_table]:
  "ud_itab__608 = [827, 828, 829]"

definition ud_itab__609 :: "u16 list" where [itab_table]:
  "ud_itab__609 = [831, 832, 833]"

definition ud_itab__610 :: "u16 list" where [itab_table]:
  "ud_itab__610 = [850, 851, 852, 853, 854, 855, 856, 857]"

definition ud_itab__611 :: "u16 list" where [itab_table]:
  "ud_itab__611 = [858, 859, 860, 861, 862, 863, 864, 865]"

definition ud_itab__612 :: "u16 list" where [itab_table]:
  "ud_itab__612 = [868, 0]"

definition ud_itab__613 :: "u16 list" where [itab_table]:
  "ud_itab__613 = [869, 0]"

definition ud_itab__614 :: "u16 list" where [itab_table]:
  "ud_itab__614 = [870, 0, 0, 0, 0, 0, 0, 0]"

definition ud_itab__615 :: "u16 list" where [itab_table]:
  "ud_itab__615 = [871, 0, 0, 0, 0, 0, 0, 0]"

definition ud_itab__616 :: "u16 list" where [itab_table]:
  "ud_itab__616 = [878, 0]"

definition ud_itab__617 :: "u16 list" where [itab_table]:
  "ud_itab__617 = [879, 880, 881]"

definition ud_itab__618 :: "u16 list" where [itab_table]:
  "ud_itab__618 = [882, 883, 884, 885, 886, 887, 888, 889]"

definition ud_itab__619 :: "u16 list" where [itab_table]:
  "ud_itab__619 = [890, 891, 892, 893, 894, 895, 896, 897]"

definition ud_itab__620 :: "u16 list" where [itab_table]:
  "ud_itab__620 = [898, 899, 900, 901, 902, 903, 904, 905]"

definition ud_itab__621 :: "u16 list" where [itab_table]:
  "ud_itab__621 = [906, 907, 908, 909, 910, 911, 912, 913]"

definition ud_itab__622 :: "u16 list" where [itab_table]:
  "ud_itab__622 = [914, 0]"

definition ud_itab__623 :: "u16 list" where [itab_table]:
  "ud_itab__623 = [915, 0]"

definition ud_itab__624 :: "u16 list" where [itab_table]:
  "ud_itab__624 = [916, 0]"

definition ud_itab__627 :: "u16 list" where [itab_table]:
  "ud_itab__627 = [918, 0]"

definition ud_itab__628 :: "u16 list" where [itab_table]:
  "ud_itab__628 = [919, 0]"

definition ud_itab__629 :: "u16 list" where [itab_table]:
  "ud_itab__629 = [920, 0]"

definition ud_itab__630 :: "u16 list" where [itab_table]:
  "ud_itab__630 = [921, 0]"

definition ud_itab__631 :: "u16 list" where [itab_table]:
  "ud_itab__631 = [922, 0]"

definition ud_itab__632 :: "u16 list" where [itab_table]:
  "ud_itab__632 = [923, 0]"

definition ud_itab__633 :: "u16 list" where [itab_table]:
  "ud_itab__633 = [924, 0]"

definition ud_itab__634 :: "u16 list" where [itab_table]:
  "ud_itab__634 = [925, 0]"

definition ud_itab__626 :: "u16 list" where [itab_table]:
  "ud_itab__626 = [GROUP 627, GROUP 628, GROUP 629, GROUP 630, GROUP 631, GROUP 632, GROUP 633, GROUP 634]"

definition ud_itab__636 :: "u16 list" where [itab_table]:
  "ud_itab__636 = [0, 926]"

definition ud_itab__637 :: "u16 list" where [itab_table]:
  "ud_itab__637 = [0, 927]"

definition ud_itab__638 :: "u16 list" where [itab_table]:
  "ud_itab__638 = [0, 928]"

definition ud_itab__639 :: "u16 list" where [itab_table]:
  "ud_itab__639 = [0, 929]"

definition ud_itab__640 :: "u16 list" where [itab_table]:
  "ud_itab__640 = [0, 930]"

definition ud_itab__641 :: "u16 list" where [itab_table]:
  "ud_itab__641 = [0, 931]"

definition ud_itab__642 :: "u16 list" where [itab_table]:
  "ud_itab__642 = [0, 932]"

definition ud_itab__643 :: "u16 list" where [itab_table]:
  "ud_itab__643 = [0, 933]"

definition ud_itab__644 :: "u16 list" where [itab_table]:
  "ud_itab__644 = [0, 934]"

definition ud_itab__645 :: "u16 list" where [itab_table]:
  "ud_itab__645 = [0, 935]"

definition ud_itab__646 :: "u16 list" where [itab_table]:
  "ud_itab__646 = [0, 936]"

definition ud_itab__647 :: "u16 list" where [itab_table]:
  "ud_itab__647 = [0, 937]"

definition ud_itab__648 :: "u16 list" where [itab_table]:
  "ud_itab__648 = [0, 938]"

definition ud_itab__649 :: "u16 list" where [itab_table]:
  "ud_itab__649 = [0, 939]"

definition ud_itab__650 :: "u16 list" where [itab_table]:
  "ud_itab__650 = [0, 940]"

definition ud_itab__651 :: "u16 list" where [itab_table]:
  "ud_itab__651 = [0, 941]"

definition ud_itab__652 :: "u16 list" where [itab_table]:
  "ud_itab__652 = [0, 942]"

definition ud_itab__653 :: "u16 list" where [itab_table]:
  "ud_itab__653 = [0, 943]"

definition ud_itab__654 :: "u16 list" where [itab_table]:
  "ud_itab__654 = [0, 944]"

definition ud_itab__655 :: "u16 list" where [itab_table]:
  "ud_itab__655 = [0, 945]"

definition ud_itab__656 :: "u16 list" where [itab_table]:
  "ud_itab__656 = [0, 946]"

definition ud_itab__657 :: "u16 list" where [itab_table]:
  "ud_itab__657 = [0, 947]"

definition ud_itab__658 :: "u16 list" where [itab_table]:
  "ud_itab__658 = [0, 948]"

definition ud_itab__659 :: "u16 list" where [itab_table]:
  "ud_itab__659 = [0, 949]"

definition ud_itab__660 :: "u16 list" where [itab_table]:
  "ud_itab__660 = [0, 950]"

definition ud_itab__661 :: "u16 list" where [itab_table]:
  "ud_itab__661 = [0, 951]"

definition ud_itab__662 :: "u16 list" where [itab_table]:
  "ud_itab__662 = [0, 952]"

definition ud_itab__663 :: "u16 list" where [itab_table]:
  "ud_itab__663 = [0, 953]"

definition ud_itab__664 :: "u16 list" where [itab_table]:
  "ud_itab__664 = [0, 954]"

definition ud_itab__665 :: "u16 list" where [itab_table]:
  "ud_itab__665 = [0, 955]"

definition ud_itab__666 :: "u16 list" where [itab_table]:
  "ud_itab__666 = [0, 956]"

definition ud_itab__667 :: "u16 list" where [itab_table]:
  "ud_itab__667 = [0, 957]"

definition ud_itab__668 :: "u16 list" where [itab_table]:
  "ud_itab__668 = [0, 958]"

definition ud_itab__669 :: "u16 list" where [itab_table]:
  "ud_itab__669 = [0, 959]"

definition ud_itab__670 :: "u16 list" where [itab_table]:
  "ud_itab__670 = [0, 960]"

definition ud_itab__671 :: "u16 list" where [itab_table]:
  "ud_itab__671 = [0, 961]"

definition ud_itab__672 :: "u16 list" where [itab_table]:
  "ud_itab__672 = [0, 962]"

definition ud_itab__673 :: "u16 list" where [itab_table]:
  "ud_itab__673 = [0, 963]"

definition ud_itab__674 :: "u16 list" where [itab_table]:
  "ud_itab__674 = [0, 964]"

definition ud_itab__675 :: "u16 list" where [itab_table]:
  "ud_itab__675 = [0, 965]"

definition ud_itab__676 :: "u16 list" where [itab_table]:
  "ud_itab__676 = [0, 966]"

definition ud_itab__677 :: "u16 list" where [itab_table]:
  "ud_itab__677 = [0, 967]"

definition ud_itab__678 :: "u16 list" where [itab_table]:
  "ud_itab__678 = [0, 968]"

definition ud_itab__679 :: "u16 list" where [itab_table]:
  "ud_itab__679 = [0, 969]"

definition ud_itab__680 :: "u16 list" where [itab_table]:
  "ud_itab__680 = [0, 970]"

definition ud_itab__681 :: "u16 list" where [itab_table]:
  "ud_itab__681 = [0, 971]"

definition ud_itab__682 :: "u16 list" where [itab_table]:
  "ud_itab__682 = [0, 972]"

definition ud_itab__683 :: "u16 list" where [itab_table]:
  "ud_itab__683 = [0, 973]"

definition ud_itab__684 :: "u16 list" where [itab_table]:
  "ud_itab__684 = [0, 974]"

definition ud_itab__685 :: "u16 list" where [itab_table]:
  "ud_itab__685 = [0, 975]"

definition ud_itab__686 :: "u16 list" where [itab_table]:
  "ud_itab__686 = [0, 976]"

definition ud_itab__687 :: "u16 list" where [itab_table]:
  "ud_itab__687 = [0, 977]"

definition ud_itab__688 :: "u16 list" where [itab_table]:
  "ud_itab__688 = [0, 978]"

definition ud_itab__689 :: "u16 list" where [itab_table]:
  "ud_itab__689 = [0, 979]"

definition ud_itab__690 :: "u16 list" where [itab_table]:
  "ud_itab__690 = [0, 980]"

definition ud_itab__691 :: "u16 list" where [itab_table]:
  "ud_itab__691 = [0, 981]"

definition ud_itab__692 :: "u16 list" where [itab_table]:
  "ud_itab__692 = [0, 982]"

definition ud_itab__693 :: "u16 list" where [itab_table]:
  "ud_itab__693 = [0, 983]"

definition ud_itab__694 :: "u16 list" where [itab_table]:
  "ud_itab__694 = [0, 984]"

definition ud_itab__695 :: "u16 list" where [itab_table]:
  "ud_itab__695 = [0, 985]"

definition ud_itab__696 :: "u16 list" where [itab_table]:
  "ud_itab__696 = [0, 986]"

definition ud_itab__697 :: "u16 list" where [itab_table]:
  "ud_itab__697 = [0, 987]"

definition ud_itab__698 :: "u16 list" where [itab_table]:
  "ud_itab__698 = [0, 988]"

definition ud_itab__699 :: "u16 list" where [itab_table]:
  "ud_itab__699 = [0, 989]"

definition ud_itab__635 :: "u16 list" where [itab_table]:
  "ud_itab__635 = [
    GROUP 636, GROUP 637, GROUP 638, GROUP 639, GROUP 640, GROUP 641, GROUP 642, GROUP 643,
    GROUP 644, GROUP 645, GROUP 646, GROUP 647, GROUP 648, GROUP 649, GROUP 650, GROUP 651,
    GROUP 652, GROUP 653, GROUP 654, GROUP 655, GROUP 656, GROUP 657, GROUP 658, GROUP 659,
    GROUP 660, GROUP 661, GROUP 662, GROUP 663, GROUP 664, GROUP 665, GROUP 666, GROUP 667,
    GROUP 668, GROUP 669, GROUP 670, GROUP 671, GROUP 672, GROUP 673, GROUP 674, GROUP 675,
    GROUP 676, GROUP 677, GROUP 678, GROUP 679, GROUP 680, GROUP 681, GROUP 682, GROUP 683,
    GROUP 684, GROUP 685, GROUP 686, GROUP 687, GROUP 688, GROUP 689, GROUP 690, GROUP 691,
    GROUP 692, GROUP 693, GROUP 694, GROUP 695, GROUP 696, GROUP 697, GROUP 698, GROUP 699]"

definition ud_itab__625 :: "u16 list" where [itab_table]:
  "ud_itab__625 = [GROUP 626, GROUP 635]"

definition ud_itab__702 :: "u16 list" where [itab_table]:
  "ud_itab__702 = [990, 0]"

definition ud_itab__703 :: "u16 list" where [itab_table]:
  "ud_itab__703 = [991, 0]"

definition ud_itab__704 :: "u16 list" where [itab_table]:
  "ud_itab__704 = [992, 0]"

definition ud_itab__705 :: "u16 list" where [itab_table]:
  "ud_itab__705 = [993, 0]"

definition ud_itab__706 :: "u16 list" where [itab_table]:
  "ud_itab__706 = [994, 0]"

definition ud_itab__707 :: "u16 list" where [itab_table]:
  "ud_itab__707 = [995, 0]"

definition ud_itab__708 :: "u16 list" where [itab_table]:
  "ud_itab__708 = [996, 0]"

definition ud_itab__701 :: "u16 list" where [itab_table]:
  "ud_itab__701 = [GROUP 702, 0, GROUP 703, GROUP 704, GROUP 705, GROUP 706, GROUP 707, GROUP 708]"

definition ud_itab__710 :: "u16 list" where [itab_table]:
  "ud_itab__710 = [0, 997]"

definition ud_itab__711 :: "u16 list" where [itab_table]:
  "ud_itab__711 = [0, 998]"

definition ud_itab__712 :: "u16 list" where [itab_table]:
  "ud_itab__712 = [0, 999]"

definition ud_itab__713 :: "u16 list" where [itab_table]:
  "ud_itab__713 = [0, 1000]"

definition ud_itab__714 :: "u16 list" where [itab_table]:
  "ud_itab__714 = [0, 1001]"

definition ud_itab__715 :: "u16 list" where [itab_table]:
  "ud_itab__715 = [0, 1002]"

definition ud_itab__716 :: "u16 list" where [itab_table]:
  "ud_itab__716 = [0, 1003]"

definition ud_itab__717 :: "u16 list" where [itab_table]:
  "ud_itab__717 = [0, 1004]"

definition ud_itab__718 :: "u16 list" where [itab_table]:
  "ud_itab__718 = [0, 1005]"

definition ud_itab__719 :: "u16 list" where [itab_table]:
  "ud_itab__719 = [0, 1006]"

definition ud_itab__720 :: "u16 list" where [itab_table]:
  "ud_itab__720 = [0, 1007]"

definition ud_itab__721 :: "u16 list" where [itab_table]:
  "ud_itab__721 = [0, 1008]"

definition ud_itab__722 :: "u16 list" where [itab_table]:
  "ud_itab__722 = [0, 1009]"

definition ud_itab__723 :: "u16 list" where [itab_table]:
  "ud_itab__723 = [0, 1010]"

definition ud_itab__724 :: "u16 list" where [itab_table]:
  "ud_itab__724 = [0, 1011]"

definition ud_itab__725 :: "u16 list" where [itab_table]:
  "ud_itab__725 = [0, 1012]"

definition ud_itab__726 :: "u16 list" where [itab_table]:
  "ud_itab__726 = [0, 1013]"

definition ud_itab__727 :: "u16 list" where [itab_table]:
  "ud_itab__727 = [0, 1014]"

definition ud_itab__728 :: "u16 list" where [itab_table]:
  "ud_itab__728 = [0, 1015]"

definition ud_itab__729 :: "u16 list" where [itab_table]:
  "ud_itab__729 = [0, 1016]"

definition ud_itab__730 :: "u16 list" where [itab_table]:
  "ud_itab__730 = [0, 1017]"

definition ud_itab__731 :: "u16 list" where [itab_table]:
  "ud_itab__731 = [0, 1018]"

definition ud_itab__732 :: "u16 list" where [itab_table]:
  "ud_itab__732 = [0, 1019]"

definition ud_itab__733 :: "u16 list" where [itab_table]:
  "ud_itab__733 = [0, 1020]"

definition ud_itab__734 :: "u16 list" where [itab_table]:
  "ud_itab__734 = [0, 1021]"

definition ud_itab__735 :: "u16 list" where [itab_table]:
  "ud_itab__735 = [0, 1022]"

definition ud_itab__736 :: "u16 list" where [itab_table]:
  "ud_itab__736 = [0, 1023]"

definition ud_itab__737 :: "u16 list" where [itab_table]:
  "ud_itab__737 = [0, 1024]"

definition ud_itab__738 :: "u16 list" where [itab_table]:
  "ud_itab__738 = [0, 1025]"

definition ud_itab__739 :: "u16 list" where [itab_table]:
  "ud_itab__739 = [0, 1026]"

definition ud_itab__740 :: "u16 list" where [itab_table]:
  "ud_itab__740 = [0, 1027]"

definition ud_itab__741 :: "u16 list" where [itab_table]:
  "ud_itab__741 = [0, 1028]"

definition ud_itab__742 :: "u16 list" where [itab_table]:
  "ud_itab__742 = [0, 1029]"

definition ud_itab__743 :: "u16 list" where [itab_table]:
  "ud_itab__743 = [0, 1030]"

definition ud_itab__744 :: "u16 list" where [itab_table]:
  "ud_itab__744 = [0, 1031]"

definition ud_itab__745 :: "u16 list" where [itab_table]:
  "ud_itab__745 = [0, 1032]"

definition ud_itab__746 :: "u16 list" where [itab_table]:
  "ud_itab__746 = [0, 1033]"

definition ud_itab__747 :: "u16 list" where [itab_table]:
  "ud_itab__747 = [0, 1034]"

definition ud_itab__748 :: "u16 list" where [itab_table]:
  "ud_itab__748 = [0, 1035]"

definition ud_itab__749 :: "u16 list" where [itab_table]:
  "ud_itab__749 = [0, 1036]"

definition ud_itab__750 :: "u16 list" where [itab_table]:
  "ud_itab__750 = [0, 1037]"

definition ud_itab__751 :: "u16 list" where [itab_table]:
  "ud_itab__751 = [0, 1038]"

definition ud_itab__752 :: "u16 list" where [itab_table]:
  "ud_itab__752 = [0, 1039]"

definition ud_itab__753 :: "u16 list" where [itab_table]:
  "ud_itab__753 = [0, 1040]"

definition ud_itab__754 :: "u16 list" where [itab_table]:
  "ud_itab__754 = [0, 1041]"

definition ud_itab__755 :: "u16 list" where [itab_table]:
  "ud_itab__755 = [0, 1042]"

definition ud_itab__756 :: "u16 list" where [itab_table]:
  "ud_itab__756 = [0, 1043]"

definition ud_itab__757 :: "u16 list" where [itab_table]:
  "ud_itab__757 = [0, 1044]"

definition ud_itab__758 :: "u16 list" where [itab_table]:
  "ud_itab__758 = [0, 1045]"

definition ud_itab__759 :: "u16 list" where [itab_table]:
  "ud_itab__759 = [0, 1046]"

definition ud_itab__760 :: "u16 list" where [itab_table]:
  "ud_itab__760 = [0, 1047]"

definition ud_itab__761 :: "u16 list" where [itab_table]:
  "ud_itab__761 = [0, 1048]"

definition ud_itab__709 :: "u16 list" where [itab_table]:
  "ud_itab__709 = [
    GROUP 710, GROUP 711, GROUP 712, GROUP 713, GROUP 714, GROUP 715, GROUP 716, GROUP 717,
    GROUP 718, GROUP 719, GROUP 720, GROUP 721, GROUP 722, GROUP 723, GROUP 724, GROUP 725,
    GROUP 726, 0, 0, 0, 0, 0, 0, 0, GROUP 727, GROUP 728, GROUP 729, GROUP 730, GROUP 731,
    GROUP 732, GROUP 733, GROUP 734, GROUP 735, GROUP 736, 0, 0, GROUP 737, GROUP 738, 0, 0,
    GROUP 739, GROUP 740, GROUP 741, GROUP 742, GROUP 743, GROUP 744, GROUP 745, 0, GROUP 746,
    GROUP 747, GROUP 748, GROUP 749, GROUP 750, GROUP 751, GROUP 752, GROUP 753, GROUP 754,
    GROUP 755, GROUP 756, GROUP 757, GROUP 758, GROUP 759, GROUP 760, GROUP 761]"

definition ud_itab__700 :: "u16 list" where [itab_table]:
  "ud_itab__700 = [GROUP 701, GROUP 709]"

definition ud_itab__764 :: "u16 list" where [itab_table]:
  "ud_itab__764 = [1049, 0]"

definition ud_itab__765 :: "u16 list" where [itab_table]:
  "ud_itab__765 = [1050, 0]"

definition ud_itab__766 :: "u16 list" where [itab_table]:
  "ud_itab__766 = [1051, 0]"

definition ud_itab__767 :: "u16 list" where [itab_table]:
  "ud_itab__767 = [1052, 0]"

definition ud_itab__768 :: "u16 list" where [itab_table]:
  "ud_itab__768 = [1053, 0]"

definition ud_itab__769 :: "u16 list" where [itab_table]:
  "ud_itab__769 = [1054, 0]"

definition ud_itab__770 :: "u16 list" where [itab_table]:
  "ud_itab__770 = [1055, 0]"

definition ud_itab__771 :: "u16 list" where [itab_table]:
  "ud_itab__771 = [1056, 0]"

definition ud_itab__763 :: "u16 list" where [itab_table]:
  "ud_itab__763 = [GROUP 764, GROUP 765, GROUP 766, GROUP 767, GROUP 768, GROUP 769, GROUP 770, GROUP 771]"

definition ud_itab__773 :: "u16 list" where [itab_table]:
  "ud_itab__773 = [0, 1057]"

definition ud_itab__774 :: "u16 list" where [itab_table]:
  "ud_itab__774 = [0, 1058]"

definition ud_itab__775 :: "u16 list" where [itab_table]:
  "ud_itab__775 = [0, 1059]"

definition ud_itab__776 :: "u16 list" where [itab_table]:
  "ud_itab__776 = [0, 1060]"

definition ud_itab__777 :: "u16 list" where [itab_table]:
  "ud_itab__777 = [0, 1061]"

definition ud_itab__778 :: "u16 list" where [itab_table]:
  "ud_itab__778 = [0, 1062]"

definition ud_itab__779 :: "u16 list" where [itab_table]:
  "ud_itab__779 = [0, 1063]"

definition ud_itab__780 :: "u16 list" where [itab_table]:
  "ud_itab__780 = [0, 1064]"

definition ud_itab__781 :: "u16 list" where [itab_table]:
  "ud_itab__781 = [0, 1065]"

definition ud_itab__782 :: "u16 list" where [itab_table]:
  "ud_itab__782 = [0, 1066]"

definition ud_itab__783 :: "u16 list" where [itab_table]:
  "ud_itab__783 = [0, 1067]"

definition ud_itab__784 :: "u16 list" where [itab_table]:
  "ud_itab__784 = [0, 1068]"

definition ud_itab__785 :: "u16 list" where [itab_table]:
  "ud_itab__785 = [0, 1069]"

definition ud_itab__786 :: "u16 list" where [itab_table]:
  "ud_itab__786 = [0, 1070]"

definition ud_itab__787 :: "u16 list" where [itab_table]:
  "ud_itab__787 = [0, 1071]"

definition ud_itab__788 :: "u16 list" where [itab_table]:
  "ud_itab__788 = [0, 1072]"

definition ud_itab__789 :: "u16 list" where [itab_table]:
  "ud_itab__789 = [0, 1073]"

definition ud_itab__790 :: "u16 list" where [itab_table]:
  "ud_itab__790 = [0, 1074]"

definition ud_itab__791 :: "u16 list" where [itab_table]:
  "ud_itab__791 = [0, 1075]"

definition ud_itab__792 :: "u16 list" where [itab_table]:
  "ud_itab__792 = [0, 1076]"

definition ud_itab__793 :: "u16 list" where [itab_table]:
  "ud_itab__793 = [0, 1077]"

definition ud_itab__794 :: "u16 list" where [itab_table]:
  "ud_itab__794 = [0, 1078]"

definition ud_itab__795 :: "u16 list" where [itab_table]:
  "ud_itab__795 = [0, 1079]"

definition ud_itab__796 :: "u16 list" where [itab_table]:
  "ud_itab__796 = [0, 1080]"

definition ud_itab__797 :: "u16 list" where [itab_table]:
  "ud_itab__797 = [0, 1081]"

definition ud_itab__798 :: "u16 list" where [itab_table]:
  "ud_itab__798 = [0, 1082]"

definition ud_itab__799 :: "u16 list" where [itab_table]:
  "ud_itab__799 = [0, 1083]"

definition ud_itab__800 :: "u16 list" where [itab_table]:
  "ud_itab__800 = [0, 1084]"

definition ud_itab__801 :: "u16 list" where [itab_table]:
  "ud_itab__801 = [0, 1085]"

definition ud_itab__802 :: "u16 list" where [itab_table]:
  "ud_itab__802 = [0, 1086]"

definition ud_itab__803 :: "u16 list" where [itab_table]:
  "ud_itab__803 = [0, 1087]"

definition ud_itab__804 :: "u16 list" where [itab_table]:
  "ud_itab__804 = [0, 1088]"

definition ud_itab__805 :: "u16 list" where [itab_table]:
  "ud_itab__805 = [0, 1089]"

definition ud_itab__772 :: "u16 list" where [itab_table]:
  "ud_itab__772 = [
    GROUP 773, GROUP 774, GROUP 775, GROUP 776, GROUP 777, GROUP 778, GROUP 779, GROUP 780,
    GROUP 781, GROUP 782, GROUP 783, GROUP 784, GROUP 785, GROUP 786, GROUP 787, GROUP 788,
    GROUP 789, GROUP 790, GROUP 791, GROUP 792, GROUP 793, GROUP 794, GROUP 795, GROUP 796,
    GROUP 797, GROUP 798, GROUP 799, GROUP 800, GROUP 801, GROUP 802, GROUP 803, GROUP 804, 0, 0,
    0, 0, 0, 0, 0, 0, 0, GROUP 805, 0, 0, 0, 0, 0, 0, 0, 0, 0, 0, 0, 0, 0, 0, 0, 0, 0, 0, 0, 0, 0,
    0]"

definition ud_itab__762 :: "u16 list" where [itab_table]:
  "ud_itab__762 = [GROUP 763, GROUP 772]"

definition ud_itab__808 :: "u16 list" where [itab_table]:
  "ud_itab__808 = [1090, 0]"

definition ud_itab__809 :: "u16 list" where [itab_table]:
  "ud_itab__809 = [1091, 0]"

definition ud_itab__810 :: "u16 list" where [itab_table]:
  "ud_itab__810 = [1092, 0]"

definition ud_itab__811 :: "u16 list" where [itab_table]:
  "ud_itab__811 = [1093, 0]"

definition ud_itab__812 :: "u16 list" where [itab_table]:
  "ud_itab__812 = [1094, 0]"

definition ud_itab__813 :: "u16 list" where [itab_table]:
  "ud_itab__813 = [1095, 0]"

definition ud_itab__807 :: "u16 list" where [itab_table]:
  "ud_itab__807 = [GROUP 808, GROUP 809, GROUP 810, GROUP 811, 0, GROUP 812, 0, GROUP 813]"

definition ud_itab__815 :: "u16 list" where [itab_table]:
  "ud_itab__815 = [0, 1096]"

definition ud_itab__816 :: "u16 list" where [itab_table]:
  "ud_itab__816 = [0, 1097]"

definition ud_itab__817 :: "u16 list" where [itab_table]:
  "ud_itab__817 = [0, 1098]"

definition ud_itab__818 :: "u16 list" where [itab_table]:
  "ud_itab__818 = [0, 1099]"

definition ud_itab__819 :: "u16 list" where [itab_table]:
  "ud_itab__819 = [0, 1100]"

definition ud_itab__820 :: "u16 list" where [itab_table]:
  "ud_itab__820 = [0, 1101]"

definition ud_itab__821 :: "u16 list" where [itab_table]:
  "ud_itab__821 = [0, 1102]"

definition ud_itab__822 :: "u16 list" where [itab_table]:
  "ud_itab__822 = [0, 1103]"

definition ud_itab__823 :: "u16 list" where [itab_table]:
  "ud_itab__823 = [0, 1104]"

definition ud_itab__824 :: "u16 list" where [itab_table]:
  "ud_itab__824 = [0, 1105]"

definition ud_itab__825 :: "u16 list" where [itab_table]:
  "ud_itab__825 = [0, 1106]"

definition ud_itab__826 :: "u16 list" where [itab_table]:
  "ud_itab__826 = [0, 1107]"

definition ud_itab__827 :: "u16 list" where [itab_table]:
  "ud_itab__827 = [0, 1108]"

definition ud_itab__828 :: "u16 list" where [itab_table]:
  "ud_itab__828 = [0, 1109]"

definition ud_itab__829 :: "u16 list" where [itab_table]:
  "ud_itab__829 = [0, 1110]"

definition ud_itab__830 :: "u16 list" where [itab_table]:
  "ud_itab__830 = [0, 1111]"

definition ud_itab__831 :: "u16 list" where [itab_table]:
  "ud_itab__831 = [0, 1112]"

definition ud_itab__832 :: "u16 list" where [itab_table]:
  "ud_itab__832 = [0, 1113]"

definition ud_itab__833 :: "u16 list" where [itab_table]:
  "ud_itab__833 = [0, 1114]"

definition ud_itab__834 :: "u16 list" where [itab_table]:
  "ud_itab__834 = [0, 1115]"

definition ud_itab__835 :: "u16 list" where [itab_table]:
  "ud_itab__835 = [0, 1116]"

definition ud_itab__836 :: "u16 list" where [itab_table]:
  "ud_itab__836 = [0, 1117]"

definition ud_itab__837 :: "u16 list" where [itab_table]:
  "ud_itab__837 = [0, 1118]"

definition ud_itab__838 :: "u16 list" where [itab_table]:
  "ud_itab__838 = [0, 1119]"

definition ud_itab__839 :: "u16 list" where [itab_table]:
  "ud_itab__839 = [0, 1120]"

definition ud_itab__840 :: "u16 list" where [itab_table]:
  "ud_itab__840 = [0, 1121]"

definition ud_itab__841 :: "u16 list" where [itab_table]:
  "ud_itab__841 = [0, 1122]"

definition ud_itab__842 :: "u16 list" where [itab_table]:
  "ud_itab__842 = [0, 1123]"

definition ud_itab__843 :: "u16 list" where [itab_table]:
  "ud_itab__843 = [0, 1124]"

end
