(* ===== verification/Itab_Tables4.thy ===== *)
theory Itab_Tables4
  imports Itab_Tables3
begin

text \<open>
  \<^verbatim>\<open>libudis86/itab.c\<close>, lines 3716 to 5028: the lookup tables.
\<close>

definition ud_itab__844 :: "u16 list" where [itab_table]:
  "ud_itab__844 = [0, 1125]"

definition ud_itab__845 :: "u16 list" where [itab_table]:
  "ud_itab__845 = [0, 1126]"

definition ud_itab__846 :: "u16 list" where [itab_table]:
  "ud_itab__846 = [0, 1127]"

definition ud_itab__847 :: "u16 list" where [itab_table]:
  "ud_itab__847 = [0, 1128]"

definition ud_itab__848 :: "u16 list" where [itab_table]:
  "ud_itab__848 = [0, 1129]"

definition ud_itab__849 :: "u16 list" where [itab_table]:
  "ud_itab__849 = [0, 1130]"

definition ud_itab__850 :: "u16 list" where [itab_table]:
  "ud_itab__850 = [0, 1131]"

definition ud_itab__851 :: "u16 list" where [itab_table]:
  "ud_itab__851 = [0, 1132]"

definition ud_itab__852 :: "u16 list" where [itab_table]:
  "ud_itab__852 = [0, 1133]"

definition ud_itab__853 :: "u16 list" where [itab_table]:
  "ud_itab__853 = [0, 1134]"

definition ud_itab__854 :: "u16 list" where [itab_table]:
  "ud_itab__854 = [0, 1135]"

definition ud_itab__855 :: "u16 list" where [itab_table]:
  "ud_itab__855 = [0, 1136]"

definition ud_itab__856 :: "u16 list" where [itab_table]:
  "ud_itab__856 = [0, 1137]"

definition ud_itab__857 :: "u16 list" where [itab_table]:
  "ud_itab__857 = [0, 1138]"

definition ud_itab__858 :: "u16 list" where [itab_table]:
  "ud_itab__858 = [0, 1139]"

definition ud_itab__859 :: "u16 list" where [itab_table]:
  "ud_itab__859 = [0, 1140]"

definition ud_itab__860 :: "u16 list" where [itab_table]:
  "ud_itab__860 = [0, 1141]"

definition ud_itab__861 :: "u16 list" where [itab_table]:
  "ud_itab__861 = [0, 1142]"

definition ud_itab__862 :: "u16 list" where [itab_table]:
  "ud_itab__862 = [0, 1143]"

definition ud_itab__863 :: "u16 list" where [itab_table]:
  "ud_itab__863 = [0, 1144]"

definition ud_itab__864 :: "u16 list" where [itab_table]:
  "ud_itab__864 = [0, 1145]"

definition ud_itab__814 :: "u16 list" where [itab_table]:
  "ud_itab__814 = [
    GROUP 815, GROUP 816, GROUP 817, GROUP 818, GROUP 819, GROUP 820, GROUP 821, GROUP 822,
    GROUP 823, GROUP 824, GROUP 825, GROUP 826, GROUP 827, GROUP 828, GROUP 829, GROUP 830,
    GROUP 831, GROUP 832, GROUP 833, GROUP 834, GROUP 835, GROUP 836, GROUP 837, GROUP 838,
    GROUP 839, GROUP 840, GROUP 841, GROUP 842, GROUP 843, GROUP 844, GROUP 845, GROUP 846, 0, 0,
    GROUP 847, GROUP 848, 0, 0, 0, 0, GROUP 849, GROUP 850, GROUP 851, GROUP 852, GROUP 853,
    GROUP 854, GROUP 855, GROUP 856, GROUP 857, GROUP 858, GROUP 859, GROUP 860, GROUP 861,
    GROUP 862, GROUP 863, GROUP 864, 0, 0, 0, 0, 0, 0, 0, 0]"

definition ud_itab__806 :: "u16 list" where [itab_table]:
  "ud_itab__806 = [GROUP 807, GROUP 814]"

definition ud_itab__867 :: "u16 list" where [itab_table]:
  "ud_itab__867 = [1146, 0]"

definition ud_itab__868 :: "u16 list" where [itab_table]:
  "ud_itab__868 = [1147, 0]"

definition ud_itab__869 :: "u16 list" where [itab_table]:
  "ud_itab__869 = [1148, 0]"

definition ud_itab__870 :: "u16 list" where [itab_table]:
  "ud_itab__870 = [1149, 0]"

definition ud_itab__871 :: "u16 list" where [itab_table]:
  "ud_itab__871 = [1150, 0]"

definition ud_itab__872 :: "u16 list" where [itab_table]:
  "ud_itab__872 = [1151, 0]"

definition ud_itab__873 :: "u16 list" where [itab_table]:
  "ud_itab__873 = [1152, 0]"

definition ud_itab__874 :: "u16 list" where [itab_table]:
  "ud_itab__874 = [1153, 0]"

definition ud_itab__866 :: "u16 list" where [itab_table]:
  "ud_itab__866 = [GROUP 867, GROUP 868, GROUP 869, GROUP 870, GROUP 871, GROUP 872, GROUP 873, GROUP 874]"

definition ud_itab__876 :: "u16 list" where [itab_table]:
  "ud_itab__876 = [0, 1154]"

definition ud_itab__877 :: "u16 list" where [itab_table]:
  "ud_itab__877 = [0, 1155]"

definition ud_itab__878 :: "u16 list" where [itab_table]:
  "ud_itab__878 = [0, 1156]"

definition ud_itab__879 :: "u16 list" where [itab_table]:
  "ud_itab__879 = [0, 1157]"

definition ud_itab__880 :: "u16 list" where [itab_table]:
  "ud_itab__880 = [0, 1158]"

definition ud_itab__881 :: "u16 list" where [itab_table]:
  "ud_itab__881 = [0, 1159]"

definition ud_itab__882 :: "u16 list" where [itab_table]:
  "ud_itab__882 = [0, 1160]"

definition ud_itab__883 :: "u16 list" where [itab_table]:
  "ud_itab__883 = [0, 1161]"

definition ud_itab__884 :: "u16 list" where [itab_table]:
  "ud_itab__884 = [0, 1162]"

definition ud_itab__885 :: "u16 list" where [itab_table]:
  "ud_itab__885 = [0, 1163]"

definition ud_itab__886 :: "u16 list" where [itab_table]:
  "ud_itab__886 = [0, 1164]"

definition ud_itab__887 :: "u16 list" where [itab_table]:
  "ud_itab__887 = [0, 1165]"

definition ud_itab__888 :: "u16 list" where [itab_table]:
  "ud_itab__888 = [0, 1166]"

definition ud_itab__889 :: "u16 list" where [itab_table]:
  "ud_itab__889 = [0, 1167]"

definition ud_itab__890 :: "u16 list" where [itab_table]:
  "ud_itab__890 = [0, 1168]"

definition ud_itab__891 :: "u16 list" where [itab_table]:
  "ud_itab__891 = [0, 1169]"

definition ud_itab__892 :: "u16 list" where [itab_table]:
  "ud_itab__892 = [0, 1170]"

definition ud_itab__893 :: "u16 list" where [itab_table]:
  "ud_itab__893 = [0, 1171]"

definition ud_itab__894 :: "u16 list" where [itab_table]:
  "ud_itab__894 = [0, 1172]"

definition ud_itab__895 :: "u16 list" where [itab_table]:
  "ud_itab__895 = [0, 1173]"

definition ud_itab__896 :: "u16 list" where [itab_table]:
  "ud_itab__896 = [0, 1174]"

definition ud_itab__897 :: "u16 list" where [itab_table]:
  "ud_itab__897 = [0, 1175]"

definition ud_itab__898 :: "u16 list" where [itab_table]:
  "ud_itab__898 = [0, 1176]"

definition ud_itab__899 :: "u16 list" where [itab_table]:
  "ud_itab__899 = [0, 1177]"

definition ud_itab__900 :: "u16 list" where [itab_table]:
  "ud_itab__900 = [0, 1178]"

definition ud_itab__901 :: "u16 list" where [itab_table]:
  "ud_itab__901 = [0, 1179]"

definition ud_itab__902 :: "u16 list" where [itab_table]:
  "ud_itab__902 = [0, 1180]"

definition ud_itab__903 :: "u16 list" where [itab_table]:
  "ud_itab__903 = [0, 1181]"

definition ud_itab__904 :: "u16 list" where [itab_table]:
  "ud_itab__904 = [0, 1182]"

definition ud_itab__905 :: "u16 list" where [itab_table]:
  "ud_itab__905 = [0, 1183]"

definition ud_itab__906 :: "u16 list" where [itab_table]:
  "ud_itab__906 = [0, 1184]"

definition ud_itab__907 :: "u16 list" where [itab_table]:
  "ud_itab__907 = [0, 1185]"

definition ud_itab__908 :: "u16 list" where [itab_table]:
  "ud_itab__908 = [0, 1186]"

definition ud_itab__909 :: "u16 list" where [itab_table]:
  "ud_itab__909 = [0, 1187]"

definition ud_itab__910 :: "u16 list" where [itab_table]:
  "ud_itab__910 = [0, 1188]"

definition ud_itab__911 :: "u16 list" where [itab_table]:
  "ud_itab__911 = [0, 1189]"

definition ud_itab__912 :: "u16 list" where [itab_table]:
  "ud_itab__912 = [0, 1190]"

definition ud_itab__913 :: "u16 list" where [itab_table]:
  "ud_itab__913 = [0, 1191]"

definition ud_itab__914 :: "u16 list" where [itab_table]:
  "ud_itab__914 = [0, 1192]"

definition ud_itab__915 :: "u16 list" where [itab_table]:
  "ud_itab__915 = [0, 1193]"

definition ud_itab__916 :: "u16 list" where [itab_table]:
  "ud_itab__916 = [0, 1194]"

definition ud_itab__917 :: "u16 list" where [itab_table]:
  "ud_itab__917 = [0, 1195]"

definition ud_itab__918 :: "u16 list" where [itab_table]:
  "ud_itab__918 = [0, 1196]"

definition ud_itab__919 :: "u16 list" where [itab_table]:
  "ud_itab__919 = [0, 1197]"

definition ud_itab__920 :: "u16 list" where [itab_table]:
  "ud_itab__920 = [0, 1198]"

definition ud_itab__921 :: "u16 list" where [itab_table]:
  "ud_itab__921 = [0, 1199]"

definition ud_itab__922 :: "u16 list" where [itab_table]:
  "ud_itab__922 = [0, 1200]"

definition ud_itab__923 :: "u16 list" where [itab_table]:
  "ud_itab__923 = [0, 1201]"

definition ud_itab__924 :: "u16 list" where [itab_table]:
  "ud_itab__924 = [0, 1202]"

definition ud_itab__925 :: "u16 list" where [itab_table]:
  "ud_itab__925 = [0, 1203]"

definition ud_itab__926 :: "u16 list" where [itab_table]:
  "ud_itab__926 = [0, 1204]"

definition ud_itab__927 :: "u16 list" where [itab_table]:
  "ud_itab__927 = [0, 1205]"

definition ud_itab__928 :: "u16 list" where [itab_table]:
  "ud_itab__928 = [0, 1206]"

definition ud_itab__929 :: "u16 list" where [itab_table]:
  "ud_itab__929 = [0, 1207]"

definition ud_itab__930 :: "u16 list" where [itab_table]:
  "ud_itab__930 = [0, 1208]"

definition ud_itab__931 :: "u16 list" where [itab_table]:
  "ud_itab__931 = [0, 1209]"

definition ud_itab__932 :: "u16 list" where [itab_table]:
  "ud_itab__932 = [0, 1210]"

definition ud_itab__933 :: "u16 list" where [itab_table]:
  "ud_itab__933 = [0, 1211]"

definition ud_itab__934 :: "u16 list" where [itab_table]:
  "ud_itab__934 = [0, 1212]"

definition ud_itab__935 :: "u16 list" where [itab_table]:
  "ud_itab__935 = [0, 1213]"

definition ud_itab__936 :: "u16 list" where [itab_table]:
  "ud_itab__936 = [0, 1214]"

definition ud_itab__937 :: "u16 list" where [itab_table]:
  "ud_itab__937 = [0, 1215]"

definition ud_itab__938 :: "u16 list" where [itab_table]:
  "ud_itab__938 = [0, 1216]"

definition ud_itab__939 :: "u16 list" where [itab_table]:
  "ud_itab__939 = [0, 1217]"

definition ud_itab__875 :: "u16 list" where [itab_table]:
  "ud_itab__875 = [
    GROUP 876, GROUP 877, GROUP 878, GROUP 879, GROUP 880, GROUP 881, GROUP 882, GROUP 883,
    GROUP 884, GROUP 885, GROUP 886, GROUP 887, GROUP 888, GROUP 889, GROUP 890, GROUP 891,
    GROUP 892, GROUP 893, GROUP 894, GROUP 895, GROUP 896, GROUP 897, GROUP 898, GROUP 899,
    GROUP 900, GROUP 901, GROUP 902, GROUP 903, GROUP 904, GROUP 905, GROUP 906, GROUP 907,
    GROUP 908, GROUP 909, GROUP 910, GROUP 911, GROUP 912, GROUP 913, GROUP 914, GROUP 915,
    GROUP 916, GROUP 917, GROUP 918, GROUP 919, GROUP 920, GROUP 921, GROUP 922, GROUP 923,
    GROUP 924, GROUP 925, GROUP 926, GROUP 927, GROUP 928, GROUP 929, GROUP 930, GROUP 931,
    GROUP 932, GROUP 933, GROUP 934, GROUP 935, GROUP 936, GROUP 937, GROUP 938, GROUP 939]"

definition ud_itab__865 :: "u16 list" where [itab_table]:
  "ud_itab__865 = [GROUP 866, GROUP 875]"

definition ud_itab__942 :: "u16 list" where [itab_table]:
  "ud_itab__942 = [1218, 0]"

definition ud_itab__943 :: "u16 list" where [itab_table]:
  "ud_itab__943 = [1219, 0]"

definition ud_itab__944 :: "u16 list" where [itab_table]:
  "ud_itab__944 = [1220, 0]"

definition ud_itab__945 :: "u16 list" where [itab_table]:
  "ud_itab__945 = [1221, 0]"

definition ud_itab__946 :: "u16 list" where [itab_table]:
  "ud_itab__946 = [1222, 0]"

definition ud_itab__947 :: "u16 list" where [itab_table]:
  "ud_itab__947 = [1223, 0]"

definition ud_itab__948 :: "u16 list" where [itab_table]:
  "ud_itab__948 = [1224, 0]"

definition ud_itab__941 :: "u16 list" where [itab_table]:
  "ud_itab__941 = [GROUP 942, GROUP 943, GROUP 944, GROUP 945, GROUP 946, 0, GROUP 947, GROUP 948]"

definition ud_itab__950 :: "u16 list" where [itab_table]:
  "ud_itab__950 = [0, 1225]"

definition ud_itab__951 :: "u16 list" where [itab_table]:
  "ud_itab__951 = [0, 1226]"

definition ud_itab__952 :: "u16 list" where [itab_table]:
  "ud_itab__952 = [0, 1227]"

definition ud_itab__953 :: "u16 list" where [itab_table]:
  "ud_itab__953 = [0, 1228]"

definition ud_itab__954 :: "u16 list" where [itab_table]:
  "ud_itab__954 = [0, 1229]"

definition ud_itab__955 :: "u16 list" where [itab_table]:
  "ud_itab__955 = [0, 1230]"

definition ud_itab__956 :: "u16 list" where [itab_table]:
  "ud_itab__956 = [0, 1231]"

definition ud_itab__957 :: "u16 list" where [itab_table]:
  "ud_itab__957 = [0, 1232]"

definition ud_itab__958 :: "u16 list" where [itab_table]:
  "ud_itab__958 = [0, 1233]"

definition ud_itab__959 :: "u16 list" where [itab_table]:
  "ud_itab__959 = [0, 1234]"

definition ud_itab__960 :: "u16 list" where [itab_table]:
  "ud_itab__960 = [0, 1235]"

definition ud_itab__961 :: "u16 list" where [itab_table]:
  "ud_itab__961 = [0, 1236]"

definition ud_itab__962 :: "u16 list" where [itab_table]:
  "ud_itab__962 = [0, 1237]"

definition ud_itab__963 :: "u16 list" where [itab_table]:
  "ud_itab__963 = [0, 1238]"

definition ud_itab__964 :: "u16 list" where [itab_table]:
  "ud_itab__964 = [0, 1239]"

definition ud_itab__965 :: "u16 list" where [itab_table]:
  "ud_itab__965 = [0, 1240]"

definition ud_itab__966 :: "u16 list" where [itab_table]:
  "ud_itab__966 = [0, 1241]"

definition ud_itab__967 :: "u16 list" where [itab_table]:
  "ud_itab__967 = [0, 1242]"

definition ud_itab__968 :: "u16 list" where [itab_table]:
  "ud_itab__968 = [0, 1243]"

definition ud_itab__969 :: "u16 list" where [itab_table]:
  "ud_itab__969 = [0, 1244]"

definition ud_itab__970 :: "u16 list" where [itab_table]:
  "ud_itab__970 = [0, 1245]"

definition ud_itab__971 :: "u16 list" where [itab_table]:
  "ud_itab__971 = [0, 1246]"

definition ud_itab__972 :: "u16 list" where [itab_table]:
  "ud_itab__972 = [0, 1247]"

definition ud_itab__973 :: "u16 list" where [itab_table]:
  "ud_itab__973 = [0, 1248]"

definition ud_itab__974 :: "u16 list" where [itab_table]:
  "ud_itab__974 = [0, 1249]"

definition ud_itab__975 :: "u16 list" where [itab_table]:
  "ud_itab__975 = [0, 1250]"

definition ud_itab__976 :: "u16 list" where [itab_table]:
  "ud_itab__976 = [0, 1251]"

definition ud_itab__977 :: "u16 list" where [itab_table]:
  "ud_itab__977 = [0, 1252]"

definition ud_itab__978 :: "u16 list" where [itab_table]:
  "ud_itab__978 = [0, 1253]"

definition ud_itab__979 :: "u16 list" where [itab_table]:
  "ud_itab__979 = [0, 1254]"

definition ud_itab__980 :: "u16 list" where [itab_table]:
  "ud_itab__980 = [0, 1255]"

definition ud_itab__981 :: "u16 list" where [itab_table]:
  "ud_itab__981 = [0, 1256]"

definition ud_itab__982 :: "u16 list" where [itab_table]:
  "ud_itab__982 = [0, 1257]"

definition ud_itab__983 :: "u16 list" where [itab_table]:
  "ud_itab__983 = [0, 1258]"

definition ud_itab__984 :: "u16 list" where [itab_table]:
  "ud_itab__984 = [0, 1259]"

definition ud_itab__985 :: "u16 list" where [itab_table]:
  "ud_itab__985 = [0, 1260]"

definition ud_itab__986 :: "u16 list" where [itab_table]:
  "ud_itab__986 = [0, 1261]"

definition ud_itab__987 :: "u16 list" where [itab_table]:
  "ud_itab__987 = [0, 1262]"

definition ud_itab__988 :: "u16 list" where [itab_table]:
  "ud_itab__988 = [0, 1263]"

definition ud_itab__989 :: "u16 list" where [itab_table]:
  "ud_itab__989 = [0, 1264]"

definition ud_itab__990 :: "u16 list" where [itab_table]:
  "ud_itab__990 = [0, 1265]"

definition ud_itab__991 :: "u16 list" where [itab_table]:
  "ud_itab__991 = [0, 1266]"

definition ud_itab__992 :: "u16 list" where [itab_table]:
  "ud_itab__992 = [0, 1267]"

definition ud_itab__993 :: "u16 list" where [itab_table]:
  "ud_itab__993 = [0, 1268]"

definition ud_itab__994 :: "u16 list" where [itab_table]:
  "ud_itab__994 = [0, 1269]"

definition ud_itab__995 :: "u16 list" where [itab_table]:
  "ud_itab__995 = [0, 1270]"

definition ud_itab__996 :: "u16 list" where [itab_table]:
  "ud_itab__996 = [0, 1271]"

definition ud_itab__997 :: "u16 list" where [itab_table]:
  "ud_itab__997 = [0, 1272]"

definition ud_itab__949 :: "u16 list" where [itab_table]:
  "ud_itab__949 = [
    GROUP 950, GROUP 951, GROUP 952, GROUP 953, GROUP 954, GROUP 955, GROUP 956, GROUP 957,
    GROUP 958, GROUP 959, GROUP 960, GROUP 961, GROUP 962, GROUP 963, GROUP 964, GROUP 965,
    GROUP 966, GROUP 967, GROUP 968, GROUP 969, GROUP 970, GROUP 971, GROUP 972, GROUP 973,
    GROUP 974, GROUP 975, GROUP 976, GROUP 977, GROUP 978, GROUP 979, GROUP 980, GROUP 981,
    GROUP 982, GROUP 983, GROUP 984, GROUP 985, GROUP 986, GROUP 987, GROUP 988, GROUP 989,
    GROUP 990, GROUP 991, GROUP 992, GROUP 993, GROUP 994, GROUP 995, GROUP 996, GROUP 997, 0, 0,
    0, 0, 0, 0, 0, 0, 0, 0, 0, 0, 0, 0, 0, 0]"

definition ud_itab__940 :: "u16 list" where [itab_table]:
  "ud_itab__940 = [GROUP 941, GROUP 949]"

definition ud_itab__1000 :: "u16 list" where [itab_table]:
  "ud_itab__1000 = [1273, 0]"

definition ud_itab__1001 :: "u16 list" where [itab_table]:
  "ud_itab__1001 = [1274, 0]"

definition ud_itab__1002 :: "u16 list" where [itab_table]:
  "ud_itab__1002 = [1275, 0]"

definition ud_itab__1003 :: "u16 list" where [itab_table]:
  "ud_itab__1003 = [1276, 0]"

definition ud_itab__1004 :: "u16 list" where [itab_table]:
  "ud_itab__1004 = [1277, 0]"

definition ud_itab__1005 :: "u16 list" where [itab_table]:
  "ud_itab__1005 = [1278, 0]"

definition ud_itab__1006 :: "u16 list" where [itab_table]:
  "ud_itab__1006 = [1279, 0]"

definition ud_itab__1007 :: "u16 list" where [itab_table]:
  "ud_itab__1007 = [1280, 0]"

definition ud_itab__999 :: "u16 list" where [itab_table]:
  "ud_itab__999 = [GROUP 1000, GROUP 1001, GROUP 1002, GROUP 1003, GROUP 1004, GROUP 1005, GROUP 1006, GROUP 1007]"

definition ud_itab__1009 :: "u16 list" where [itab_table]:
  "ud_itab__1009 = [0, 1281]"

definition ud_itab__1010 :: "u16 list" where [itab_table]:
  "ud_itab__1010 = [0, 1282]"

definition ud_itab__1011 :: "u16 list" where [itab_table]:
  "ud_itab__1011 = [0, 1283]"

definition ud_itab__1012 :: "u16 list" where [itab_table]:
  "ud_itab__1012 = [0, 1284]"

definition ud_itab__1013 :: "u16 list" where [itab_table]:
  "ud_itab__1013 = [0, 1285]"

definition ud_itab__1014 :: "u16 list" where [itab_table]:
  "ud_itab__1014 = [0, 1286]"

definition ud_itab__1015 :: "u16 list" where [itab_table]:
  "ud_itab__1015 = [0, 1287]"

definition ud_itab__1016 :: "u16 list" where [itab_table]:
  "ud_itab__1016 = [0, 1288]"

definition ud_itab__1017 :: "u16 list" where [itab_table]:
  "ud_itab__1017 = [0, 1289]"

definition ud_itab__1018 :: "u16 list" where [itab_table]:
  "ud_itab__1018 = [0, 1290]"

definition ud_itab__1019 :: "u16 list" where [itab_table]:
  "ud_itab__1019 = [0, 1291]"

definition ud_itab__1020 :: "u16 list" where [itab_table]:
  "ud_itab__1020 = [0, 1292]"

definition ud_itab__1021 :: "u16 list" where [itab_table]:
  "ud_itab__1021 = [0, 1293]"

definition ud_itab__1022 :: "u16 list" where [itab_table]:
  "ud_itab__1022 = [0, 1294]"

definition ud_itab__1023 :: "u16 list" where [itab_table]:
  "ud_itab__1023 = [0, 1295]"

definition ud_itab__1024 :: "u16 list" where [itab_table]:
  "ud_itab__1024 = [0, 1296]"

definition ud_itab__1025 :: "u16 list" where [itab_table]:
  "ud_itab__1025 = [0, 1297]"

definition ud_itab__1026 :: "u16 list" where [itab_table]:
  "ud_itab__1026 = [0, 1298]"

definition ud_itab__1027 :: "u16 list" where [itab_table]:
  "ud_itab__1027 = [0, 1299]"

definition ud_itab__1028 :: "u16 list" where [itab_table]:
  "ud_itab__1028 = [0, 1300]"

definition ud_itab__1029 :: "u16 list" where [itab_table]:
  "ud_itab__1029 = [0, 1301]"

definition ud_itab__1030 :: "u16 list" where [itab_table]:
  "ud_itab__1030 = [0, 1302]"

definition ud_itab__1031 :: "u16 list" where [itab_table]:
  "ud_itab__1031 = [0, 1303]"

definition ud_itab__1032 :: "u16 list" where [itab_table]:
  "ud_itab__1032 = [0, 1304]"

definition ud_itab__1033 :: "u16 list" where [itab_table]:
  "ud_itab__1033 = [0, 1305]"

definition ud_itab__1034 :: "u16 list" where [itab_table]:
  "ud_itab__1034 = [0, 1306]"

definition ud_itab__1035 :: "u16 list" where [itab_table]:
  "ud_itab__1035 = [0, 1307]"

definition ud_itab__1036 :: "u16 list" where [itab_table]:
  "ud_itab__1036 = [0, 1308]"

definition ud_itab__1037 :: "u16 list" where [itab_table]:
  "ud_itab__1037 = [0, 1309]"

definition ud_itab__1038 :: "u16 list" where [itab_table]:
  "ud_itab__1038 = [0, 1310]"

definition ud_itab__1039 :: "u16 list" where [itab_table]:
  "ud_itab__1039 = [0, 1311]"

definition ud_itab__1040 :: "u16 list" where [itab_table]:
  "ud_itab__1040 = [0, 1312]"

definition ud_itab__1041 :: "u16 list" where [itab_table]:
  "ud_itab__1041 = [0, 1313]"

definition ud_itab__1042 :: "u16 list" where [itab_table]:
  "ud_itab__1042 = [0, 1314]"

definition ud_itab__1043 :: "u16 list" where [itab_table]:
  "ud_itab__1043 = [0, 1315]"

definition ud_itab__1044 :: "u16 list" where [itab_table]:
  "ud_itab__1044 = [0, 1316]"

definition ud_itab__1045 :: "u16 list" where [itab_table]:
  "ud_itab__1045 = [0, 1317]"

definition ud_itab__1046 :: "u16 list" where [itab_table]:
  "ud_itab__1046 = [0, 1318]"

definition ud_itab__1047 :: "u16 list" where [itab_table]:
  "ud_itab__1047 = [0, 1319]"

definition ud_itab__1048 :: "u16 list" where [itab_table]:
  "ud_itab__1048 = [0, 1320]"

definition ud_itab__1049 :: "u16 list" where [itab_table]:
  "ud_itab__1049 = [0, 1321]"

definition ud_itab__1050 :: "u16 list" where [itab_table]:
  "ud_itab__1050 = [0, 1322]"

definition ud_itab__1051 :: "u16 list" where [itab_table]:
  "ud_itab__1051 = [0, 1323]"

definition ud_itab__1052 :: "u16 list" where [itab_table]:
  "ud_itab__1052 = [0, 1324]"

definition ud_itab__1053 :: "u16 list" where [itab_table]:
  "ud_itab__1053 = [0, 1325]"

definition ud_itab__1054 :: "u16 list" where [itab_table]:
  "ud_itab__1054 = [0, 1326]"

definition ud_itab__1055 :: "u16 list" where [itab_table]:
  "ud_itab__1055 = [0, 1327]"

definition ud_itab__1056 :: "u16 list" where [itab_table]:
  "ud_itab__1056 = [0, 1328]"

definition ud_itab__1057 :: "u16 list" where [itab_table]:
  "ud_itab__1057 = [0, 1329]"

definition ud_itab__1058 :: "u16 list" where [itab_table]:
  "ud_itab__1058 = [0, 1330]"

definition ud_itab__1059 :: "u16 list" where [itab_table]:
  "ud_itab__1059 = [0, 1331]"

definition ud_itab__1060 :: "u16 list" where [itab_table]:
  "ud_itab__1060 = [0, 1332]"

definition ud_itab__1061 :: "u16 list" where [itab_table]:
  "ud_itab__1061 = [0, 1333]"

definition ud_itab__1062 :: "u16 list" where [itab_table]:
  "ud_itab__1062 = [0, 1334]"

definition ud_itab__1063 :: "u16 list" where [itab_table]:
  "ud_itab__1063 = [0, 1335]"

definition ud_itab__1064 :: "u16 list" where [itab_table]:
  "ud_itab__1064 = [0, 1336]"

definition ud_itab__1065 :: "u16 list" where [itab_table]:
  "ud_itab__1065 = [0, 1337]"

definition ud_itab__1008 :: "u16 list" where [itab_table]:
  "ud_itab__1008 = [
    GROUP 1009, GROUP 1010, GROUP 1011, GROUP 1012, GROUP 1013, GROUP 1014, GROUP 1015,
    GROUP 1016, GROUP 1017, GROUP 1018, GROUP 1019, GROUP 1020, GROUP 1021, GROUP 1022,
    GROUP 1023, GROUP 1024, GROUP 1025, GROUP 1026, GROUP 1027, GROUP 1028, GROUP 1029,
    GROUP 1030, GROUP 1031, GROUP 1032, 0, GROUP 1033, 0, 0, 0, 0, 0, 0, GROUP 1034, GROUP 1035,
    GROUP 1036, GROUP 1037, GROUP 1038, GROUP 1039, GROUP 1040, GROUP 1041, GROUP 1042,
    GROUP 1043, GROUP 1044, GROUP 1045, GROUP 1046, GROUP 1047, GROUP 1048, GROUP 1049,
    GROUP 1050, GROUP 1051, GROUP 1052, GROUP 1053, GROUP 1054, GROUP 1055, GROUP 1056,
    GROUP 1057, GROUP 1058, GROUP 1059, GROUP 1060, GROUP 1061, GROUP 1062, GROUP 1063,
    GROUP 1064, GROUP 1065]"

definition ud_itab__998 :: "u16 list" where [itab_table]:
  "ud_itab__998 = [GROUP 999, GROUP 1008]"

definition ud_itab__1068 :: "u16 list" where [itab_table]:
  "ud_itab__1068 = [1338, 0]"

definition ud_itab__1069 :: "u16 list" where [itab_table]:
  "ud_itab__1069 = [1339, 0]"

definition ud_itab__1070 :: "u16 list" where [itab_table]:
  "ud_itab__1070 = [1340, 0]"

definition ud_itab__1071 :: "u16 list" where [itab_table]:
  "ud_itab__1071 = [1341, 0]"

definition ud_itab__1072 :: "u16 list" where [itab_table]:
  "ud_itab__1072 = [1342, 0]"

definition ud_itab__1073 :: "u16 list" where [itab_table]:
  "ud_itab__1073 = [1343, 0]"

definition ud_itab__1074 :: "u16 list" where [itab_table]:
  "ud_itab__1074 = [1344, 0]"

definition ud_itab__1075 :: "u16 list" where [itab_table]:
  "ud_itab__1075 = [1345, 0]"

definition ud_itab__1067 :: "u16 list" where [itab_table]:
  "ud_itab__1067 = [GROUP 1068, GROUP 1069, GROUP 1070, GROUP 1071, GROUP 1072, GROUP 1073, GROUP 1074, GROUP 1075]"

definition ud_itab__1077 :: "u16 list" where [itab_table]:
  "ud_itab__1077 = [0, 1346]"

definition ud_itab__1078 :: "u16 list" where [itab_table]:
  "ud_itab__1078 = [0, 1347]"

definition ud_itab__1079 :: "u16 list" where [itab_table]:
  "ud_itab__1079 = [0, 1348]"

definition ud_itab__1080 :: "u16 list" where [itab_table]:
  "ud_itab__1080 = [0, 1349]"

definition ud_itab__1081 :: "u16 list" where [itab_table]:
  "ud_itab__1081 = [0, 1350]"

definition ud_itab__1082 :: "u16 list" where [itab_table]:
  "ud_itab__1082 = [0, 1351]"

definition ud_itab__1083 :: "u16 list" where [itab_table]:
  "ud_itab__1083 = [0, 1352]"

definition ud_itab__1084 :: "u16 list" where [itab_table]:
  "ud_itab__1084 = [0, 1353]"

definition ud_itab__1085 :: "u16 list" where [itab_table]:
  "ud_itab__1085 = [0, 1354]"

definition ud_itab__1086 :: "u16 list" where [itab_table]:
  "ud_itab__1086 = [0, 1355]"

definition ud_itab__1087 :: "u16 list" where [itab_table]:
  "ud_itab__1087 = [0, 1356]"

definition ud_itab__1088 :: "u16 list" where [itab_table]:
  "ud_itab__1088 = [0, 1357]"

definition ud_itab__1089 :: "u16 list" where [itab_table]:
  "ud_itab__1089 = [0, 1358]"

definition ud_itab__1090 :: "u16 list" where [itab_table]:
  "ud_itab__1090 = [0, 1359]"

definition ud_itab__1091 :: "u16 list" where [itab_table]:
  "ud_itab__1091 = [0, 1360]"

definition ud_itab__1092 :: "u16 list" where [itab_table]:
  "ud_itab__1092 = [0, 1361]"

definition ud_itab__1093 :: "u16 list" where [itab_table]:
  "ud_itab__1093 = [0, 1362]"

definition ud_itab__1094 :: "u16 list" where [itab_table]:
  "ud_itab__1094 = [0, 1363]"

definition ud_itab__1095 :: "u16 list" where [itab_table]:
  "ud_itab__1095 = [0, 1364]"

definition ud_itab__1096 :: "u16 list" where [itab_table]:
  "ud_itab__1096 = [0, 1365]"

definition ud_itab__1097 :: "u16 list" where [itab_table]:
  "ud_itab__1097 = [0, 1366]"

definition ud_itab__1098 :: "u16 list" where [itab_table]:
  "ud_itab__1098 = [0, 1367]"

definition ud_itab__1099 :: "u16 list" where [itab_table]:
  "ud_itab__1099 = [0, 1368]"

definition ud_itab__1100 :: "u16 list" where [itab_table]:
  "ud_itab__1100 = [0, 1369]"

definition ud_itab__1101 :: "u16 list" where [itab_table]:
  "ud_itab__1101 = [0, 1370]"

definition ud_itab__1102 :: "u16 list" where [itab_table]:
  "ud_itab__1102 = [0, 1371]"

definition ud_itab__1103 :: "u16 list" where [itab_table]:
  "ud_itab__1103 = [0, 1372]"

definition ud_itab__1104 :: "u16 list" where [itab_table]:
  "ud_itab__1104 = [0, 1373]"

definition ud_itab__1105 :: "u16 list" where [itab_table]:
  "ud_itab__1105 = [0, 1374]"

definition ud_itab__1106 :: "u16 list" where [itab_table]:
  "ud_itab__1106 = [0, 1375]"

definition ud_itab__1107 :: "u16 list" where [itab_table]:
  "ud_itab__1107 = [0, 1376]"

definition ud_itab__1108 :: "u16 list" where [itab_table]:
  "ud_itab__1108 = [0, 1377]"

definition ud_itab__1109 :: "u16 list" where [itab_table]:
  "ud_itab__1109 = [0, 1378]"

definition ud_itab__1110 :: "u16 list" where [itab_table]:
  "ud_itab__1110 = [0, 1379]"

definition ud_itab__1111 :: "u16 list" where [itab_table]:
  "ud_itab__1111 = [0, 1380]"

definition ud_itab__1112 :: "u16 list" where [itab_table]:
  "ud_itab__1112 = [0, 1381]"

definition ud_itab__1113 :: "u16 list" where [itab_table]:
  "ud_itab__1113 = [0, 1382]"

definition ud_itab__1114 :: "u16 list" where [itab_table]:
  "ud_itab__1114 = [0, 1383]"

definition ud_itab__1115 :: "u16 list" where [itab_table]:
  "ud_itab__1115 = [0, 1384]"

definition ud_itab__1116 :: "u16 list" where [itab_table]:
  "ud_itab__1116 = [0, 1385]"

definition ud_itab__1117 :: "u16 list" where [itab_table]:
  "ud_itab__1117 = [0, 1386]"

definition ud_itab__1118 :: "u16 list" where [itab_table]:
  "ud_itab__1118 = [0, 1387]"

definition ud_itab__1119 :: "u16 list" where [itab_table]:
  "ud_itab__1119 = [0, 1388]"

definition ud_itab__1120 :: "u16 list" where [itab_table]:
  "ud_itab__1120 = [0, 1389]"

definition ud_itab__1121 :: "u16 list" where [itab_table]:
  "ud_itab__1121 = [0, 1390]"

definition ud_itab__1122 :: "u16 list" where [itab_table]:
  "ud_itab__1122 = [0, 1391]"

definition ud_itab__1123 :: "u16 list" where [itab_table]:
  "ud_itab__1123 = [0, 1392]"

definition ud_itab__1124 :: "u16 list" where [itab_table]:
  "ud_itab__1124 = [0, 1393]"

definition ud_itab__1125 :: "u16 list" where [itab_table]:
  "ud_itab__1125 = [0, 1394]"

definition ud_itab__1076 :: "u16 list" where [itab_table]:
  "ud_itab__1076 = [
    GROUP 1077, GROUP 1078, GROUP 1079, GROUP 1080, GROUP 1081, GROUP 1082, GROUP 1083,
    GROUP 1084, GROUP 1085, GROUP 1086, GROUP 1087, GROUP 1088, GROUP 1089, GROUP 1090,
    GROUP 1091, GROUP 1092, GROUP 1093, GROUP 1094, GROUP 1095, GROUP 1096, GROUP 1097,
    GROUP 1098, GROUP 1099, GROUP 1100, GROUP 1101, GROUP 1102, GROUP 1103, GROUP 1104,
    GROUP 1105, GROUP 1106, GROUP 1107, GROUP 1108, GROUP 1109, 0, 0, 0, 0, 0, 0, 0, GROUP 1110,
    GROUP 1111, GROUP 1112, GROUP 1113, GROUP 1114, GROUP 1115, GROUP 1116, GROUP 1117,
    GROUP 1118, GROUP 1119, GROUP 1120, GROUP 1121, GROUP 1122, GROUP 1123, GROUP 1124,
    GROUP 1125, 0, 0, 0, 0, 0, 0, 0, 0]"

definition ud_itab__1066 :: "u16 list" where [itab_table]:
  "ud_itab__1066 = [GROUP 1067, GROUP 1076]"

definition ud_itab__1126 :: "u16 list" where [itab_table]:
  "ud_itab__1126 = [1398, 1399, 1400]"

definition ud_itab__1127 :: "u16 list" where [itab_table]:
  "ud_itab__1127 = [1407, 0]"

definition ud_itab__1128 :: "u16 list" where [itab_table]:
  "ud_itab__1128 = [1419, 1420, 1421, 1422, 1423, 1424, 1425, 1426]"

definition ud_itab__1129 :: "u16 list" where [itab_table]:
  "ud_itab__1129 = [1427, 1428, 1429, 1430, 1431, 1432, 1433, 1434]"

definition ud_itab__1130 :: "u16 list" where [itab_table]:
  "ud_itab__1130 = [1441, 1442, 0, 0, 0, 0, 0, 0]"

definition ud_itab__1132 :: "u16 list" where [itab_table]:
  "ud_itab__1132 = [1445, 1446]"

definition ud_itab__1131 :: "u16 list" where [itab_table]:
  "ud_itab__1131 = [1443, 1444, GROUP 1132, 1447, 1448, 1449, 1450, 0]"

definition ud_itab__0 :: "u16 list" where [itab_table]:
  "ud_itab__0 = [
    1, 2, 3, 4, 5, 6, GROUP 1, GROUP 2, 9, 10, 11, 12, 13, 14, GROUP 3, GROUP 4, 628, 629, 630,
    631, 632, 633, GROUP 563, GROUP 564, 636, 637, 638, 639, 640, 641, GROUP 565, GROUP 566, 644,
    645, 646, 647, 648, 649, 0, GROUP 567, 651, 652, 653, 654, 655, 656, 0, GROUP 568, 658, 659,
    660, 661, 662, 663, 0, GROUP 569, 665, 666, 667, 668, 669, 670, 0, GROUP 570, 672, 673, 674,
    675, 676, 677, 678, 679, 680, 681, 682, 683, 684, 685, 686, 687, 688, 689, 690, 691, 692, 693,
    694, 695, 696, 697, 698, 699, 700, 701, 702, 703, GROUP 571, GROUP 574, GROUP 577, GROUP 578,
    0, 0, 0, 0, 711, 712, 713, 714, 715, GROUP 579, 718, GROUP 580, 721, 722, 723, 724, 725, 726,
    727, 728, 729, 730, 731, 732, 733, 734, 735, 736, GROUP 581, GROUP 582, GROUP 583, GROUP 592,
    769, 770, 771, 772, 773, 774, 775, 776, 777, 778, 779, GROUP 593, 781, 782, 783, 784, 785,
    786, 787, 788, GROUP 594, GROUP 595, GROUP 596, 796, GROUP 597, GROUP 601, 806, 807, 808, 809,
    810, 811, 812, GROUP 605, 816, GROUP 606, 820, 821, 822, GROUP 607, 826, GROUP 608, 830,
    GROUP 609, 834, 835, 836, 837, 838, 839, 840, 841, 842, 843, 844, 845, 846, 847, 848, 849,
    GROUP 610, GROUP 611, 866, 867, GROUP 612, GROUP 613, GROUP 614, GROUP 615, 872, 873, 874,
    875, 876, 877, GROUP 616, GROUP 617, GROUP 618, GROUP 619, GROUP 620, GROUP 621, GROUP 622,
    GROUP 623, GROUP 624, 917, GROUP 625, GROUP 700, GROUP 762, GROUP 806, GROUP 865, GROUP 940,
    GROUP 998, GROUP 1066, 1395, 1396, 1397, GROUP 1126, 1401, 1402, 1403, 1404, 1405, 1406,
    GROUP 1127, 1408, 1409, 1410, 1411, 1412, 1413, 1414, 1415, 1416, 1417, 1418, GROUP 1128,
    GROUP 1129, 1435, 1436, 1437, 1438, 1439, 1440, GROUP 1130, GROUP 1131]"

end
