(* ===== verification/Itab_Lists.thy ===== *)
theory Itab_Lists
  imports Itab_Tables4
begin

text \<open>
  \<^verbatim>\<open>libudis86/itab.c\<close>: the list of lookup tables, the instruction entries and the mnemonic strings,
  each in parts of at most 145 lines of the source.
\<close>

named_theorems itab_part

section \<open>The lookup tables\<close>

definition lookup_part0 :: "ud_lookup_table_list_entry list" where [itab_part]:
  "lookup_part0 = [
    TAB ud_itab__0 UD_TAB__OPC_TABLE,
    TAB ud_itab__1 UD_TAB__OPC_MODE,
    TAB ud_itab__2 UD_TAB__OPC_MODE,
    TAB ud_itab__3 UD_TAB__OPC_MODE,
    TAB ud_itab__4 UD_TAB__OPC_TABLE,
    TAB ud_itab__5 UD_TAB__OPC_REG,
    TAB ud_itab__6 UD_TAB__OPC_SSE,
    TAB ud_itab__7 UD_TAB__OPC_SSE,
    TAB ud_itab__8 UD_TAB__OPC_SSE,
    TAB ud_itab__9 UD_TAB__OPC_SSE,
    TAB ud_itab__10 UD_TAB__OPC_SSE,
    TAB ud_itab__11 UD_TAB__OPC_SSE,
    TAB ud_itab__12 UD_TAB__OPC_MOD,
    TAB ud_itab__13 UD_TAB__OPC_REG,
    TAB ud_itab__14 UD_TAB__OPC_SSE,
    TAB ud_itab__15 UD_TAB__OPC_MOD,
    TAB ud_itab__16 UD_TAB__OPC_SSE,
    TAB ud_itab__17 UD_TAB__OPC_MOD,
    TAB ud_itab__18 UD_TAB__OPC_SSE,
    TAB ud_itab__19 UD_TAB__OPC_MOD,
    TAB ud_itab__20 UD_TAB__OPC_SSE,
    TAB ud_itab__21 UD_TAB__OPC_MOD,
    TAB ud_itab__22 UD_TAB__OPC_SSE,
    TAB ud_itab__23 UD_TAB__OPC_MOD,
    TAB ud_itab__24 UD_TAB__OPC_SSE,
    TAB ud_itab__25 UD_TAB__OPC_MOD,
    TAB ud_itab__26 UD_TAB__OPC_SSE,
    TAB ud_itab__27 UD_TAB__OPC_MOD,
    TAB ud_itab__28 UD_TAB__OPC_REG,
    TAB ud_itab__29 UD_TAB__OPC_RM,
    TAB ud_itab__30 UD_TAB__OPC_SSE,
    TAB ud_itab__31 UD_TAB__OPC_MOD,
    TAB ud_itab__32 UD_TAB__OPC_VENDOR,
    TAB ud_itab__33 UD_TAB__OPC_SSE,
    TAB ud_itab__34 UD_TAB__OPC_MOD,
    TAB ud_itab__35 UD_TAB__OPC_VENDOR,
    TAB ud_itab__36 UD_TAB__OPC_SSE,
    TAB ud_itab__37 UD_TAB__OPC_MOD,
    TAB ud_itab__38 UD_TAB__OPC_VENDOR,
    TAB ud_itab__39 UD_TAB__OPC_SSE,
    TAB ud_itab__40 UD_TAB__OPC_MOD,
    TAB ud_itab__41 UD_TAB__OPC_VENDOR,
    TAB ud_itab__42 UD_TAB__OPC_RM,
    TAB ud_itab__43 UD_TAB__OPC_SSE,
    TAB ud_itab__44 UD_TAB__OPC_MOD,
    TAB ud_itab__45 UD_TAB__OPC_SSE,
    TAB ud_itab__46 UD_TAB__OPC_MOD,
    TAB ud_itab__47 UD_TAB__OPC_RM,
    TAB ud_itab__48 UD_TAB__OPC_SSE,
    TAB ud_itab__49 UD_TAB__OPC_MOD,
    TAB ud_itab__50 UD_TAB__OPC_SSE,
    TAB ud_itab__51 UD_TAB__OPC_MOD,
    TAB ud_itab__52 UD_TAB__OPC_RM,
    TAB ud_itab__53 UD_TAB__OPC_SSE,
    TAB ud_itab__54 UD_TAB__OPC_MOD,
    TAB ud_itab__55 UD_TAB__OPC_VENDOR,
    TAB ud_itab__56 UD_TAB__OPC_SSE,
    TAB ud_itab__57 UD_TAB__OPC_MOD,
    TAB ud_itab__58 UD_TAB__OPC_VENDOR,
    TAB ud_itab__59 UD_TAB__OPC_SSE,
    TAB ud_itab__60 UD_TAB__OPC_MOD,
    TAB ud_itab__61 UD_TAB__OPC_VENDOR,
    TAB ud_itab__62 UD_TAB__OPC_SSE,
    TAB ud_itab__63 UD_TAB__OPC_MOD,
    TAB ud_itab__64 UD_TAB__OPC_VENDOR,
    TAB ud_itab__65 UD_TAB__OPC_SSE,
    TAB ud_itab__66 UD_TAB__OPC_MOD,
    TAB ud_itab__67 UD_TAB__OPC_VENDOR,
    TAB ud_itab__68 UD_TAB__OPC_SSE,
    TAB ud_itab__69 UD_TAB__OPC_MOD,
    TAB ud_itab__70 UD_TAB__OPC_VENDOR,
    TAB ud_itab__71 UD_TAB__OPC_SSE,
    TAB ud_itab__72 UD_TAB__OPC_MOD,
    TAB ud_itab__73 UD_TAB__OPC_VENDOR,
    TAB ud_itab__74 UD_TAB__OPC_SSE,
    TAB ud_itab__75 UD_TAB__OPC_MOD,
    TAB ud_itab__76 UD_TAB__OPC_VENDOR,
    TAB ud_itab__77 UD_TAB__OPC_SSE,
    TAB ud_itab__78 UD_TAB__OPC_MOD,
    TAB ud_itab__79 UD_TAB__OPC_SSE,
    TAB ud_itab__80 UD_TAB__OPC_MOD,
    TAB ud_itab__81 UD_TAB__OPC_RM,
    TAB ud_itab__82 UD_TAB__OPC_SSE,
    TAB ud_itab__83 UD_TAB__OPC_MOD,
    TAB ud_itab__84 UD_TAB__OPC_SSE,
    TAB ud_itab__85 UD_TAB__OPC_MOD,
    TAB ud_itab__86 UD_TAB__OPC_VENDOR,
    TAB ud_itab__87 UD_TAB__OPC_SSE,
    TAB ud_itab__88 UD_TAB__OPC_SSE,
    TAB ud_itab__89 UD_TAB__OPC_SSE,
    TAB ud_itab__90 UD_TAB__OPC_SSE,
    TAB ud_itab__91 UD_TAB__OPC_SSE,
    TAB ud_itab__92 UD_TAB__OPC_SSE,
    TAB ud_itab__93 UD_TAB__OPC_SSE,
    TAB ud_itab__94 UD_TAB__OPC_SSE,
    TAB ud_itab__95 UD_TAB__OPC_REG,
    TAB ud_itab__96 UD_TAB__OPC_SSE,
    TAB ud_itab__97 UD_TAB__OPC_SSE,
    TAB ud_itab__98 UD_TAB__OPC_SSE,
    TAB ud_itab__99 UD_TAB__OPC_SSE,
    TAB ud_itab__100 UD_TAB__OPC_SSE,
    TAB ud_itab__101 UD_TAB__OPC_SSE,
    TAB ud_itab__102 UD_TAB__OPC_SSE,
    TAB ud_itab__103 UD_TAB__OPC_SSE,
    TAB ud_itab__104 UD_TAB__OPC_SSE,
    TAB ud_itab__105 UD_TAB__OPC_3DNOW,
    TAB ud_itab__106 UD_TAB__OPC_SSE,
    TAB ud_itab__107 UD_TAB__OPC_SSE,
    TAB ud_itab__108 UD_TAB__OPC_MOD,
    TAB ud_itab__109 UD_TAB__OPC_SSE,
    TAB ud_itab__110 UD_TAB__OPC_MOD,
    TAB ud_itab__111 UD_TAB__OPC_MOD,
    TAB ud_itab__112 UD_TAB__OPC_MOD,
    TAB ud_itab__113 UD_TAB__OPC_MOD,
    TAB ud_itab__114 UD_TAB__OPC_SSE,
    TAB ud_itab__115 UD_TAB__OPC_MOD,
    TAB ud_itab__116 UD_TAB__OPC_MOD,
    TAB ud_itab__117 UD_TAB__OPC_MOD,
    TAB ud_itab__118 UD_TAB__OPC_SSE,
    TAB ud_itab__119 UD_TAB__OPC_SSE,
    TAB ud_itab__120 UD_TAB__OPC_SSE,
    TAB ud_itab__121 UD_TAB__OPC_MOD,
    TAB ud_itab__122 UD_TAB__OPC_SSE,
    TAB ud_itab__123 UD_TAB__OPC_MOD,
    TAB ud_itab__124 UD_TAB__OPC_MOD,
    TAB ud_itab__125 UD_TAB__OPC_MOD,
    TAB ud_itab__126 UD_TAB__OPC_SSE,
    TAB ud_itab__127 UD_TAB__OPC_MOD,
    TAB ud_itab__128 UD_TAB__OPC_MOD,
    TAB ud_itab__129 UD_TAB__OPC_SSE,
    TAB ud_itab__130 UD_TAB__OPC_REG,
    TAB ud_itab__131 UD_TAB__OPC_SSE,
    TAB ud_itab__132 UD_TAB__OPC_SSE,
    TAB ud_itab__133 UD_TAB__OPC_SSE,
    TAB ud_itab__134 UD_TAB__OPC_SSE,
    TAB ud_itab__135 UD_TAB__OPC_SSE,
    TAB ud_itab__136 UD_TAB__OPC_SSE,
    TAB ud_itab__137 UD_TAB__OPC_SSE,
    TAB ud_itab__138 UD_TAB__OPC_SSE,
    TAB ud_itab__139 UD_TAB__OPC_SSE,
    TAB ud_itab__140 UD_TAB__OPC_SSE,
    TAB ud_itab__141 UD_TAB__OPC_SSE]"

definition lookup_part1 :: "ud_lookup_table_list_entry list" where [itab_part]:
  "lookup_part1 = [
    TAB ud_itab__142 UD_TAB__OPC_SSE,
    TAB ud_itab__143 UD_TAB__OPC_SSE,
    TAB ud_itab__144 UD_TAB__OPC_SSE,
    TAB ud_itab__145 UD_TAB__OPC_SSE,
    TAB ud_itab__146 UD_TAB__OPC_SSE,
    TAB ud_itab__147 UD_TAB__OPC_SSE,
    TAB ud_itab__148 UD_TAB__OPC_SSE,
    TAB ud_itab__149 UD_TAB__OPC_SSE,
    TAB ud_itab__150 UD_TAB__OPC_SSE,
    TAB ud_itab__151 UD_TAB__OPC_SSE,
    TAB ud_itab__152 UD_TAB__OPC_SSE,
    TAB ud_itab__153 UD_TAB__OPC_SSE,
    TAB ud_itab__154 UD_TAB__OPC_SSE,
    TAB ud_itab__155 UD_TAB__OPC_SSE,
    TAB ud_itab__156 UD_TAB__OPC_SSE,
    TAB ud_itab__157 UD_TAB__OPC_SSE,
    TAB ud_itab__158 UD_TAB__OPC_SSE,
    TAB ud_itab__159 UD_TAB__OPC_MODE,
    TAB ud_itab__160 UD_TAB__OPC_VENDOR,
    TAB ud_itab__161 UD_TAB__OPC_SSE,
    TAB ud_itab__162 UD_TAB__OPC_MODE,
    TAB ud_itab__163 UD_TAB__OPC_VENDOR,
    TAB ud_itab__164 UD_TAB__OPC_SSE,
    TAB ud_itab__165 UD_TAB__OPC_TABLE,
    TAB ud_itab__166 UD_TAB__OPC_SSE,
    TAB ud_itab__167 UD_TAB__OPC_SSE,
    TAB ud_itab__168 UD_TAB__OPC_SSE,
    TAB ud_itab__169 UD_TAB__OPC_SSE,
    TAB ud_itab__170 UD_TAB__OPC_SSE,
    TAB ud_itab__171 UD_TAB__OPC_SSE,
    TAB ud_itab__172 UD_TAB__OPC_SSE,
    TAB ud_itab__173 UD_TAB__OPC_SSE,
    TAB ud_itab__174 UD_TAB__OPC_SSE,
    TAB ud_itab__175 UD_TAB__OPC_SSE,
    TAB ud_itab__176 UD_TAB__OPC_SSE,
    TAB ud_itab__177 UD_TAB__OPC_SSE,
    TAB ud_itab__178 UD_TAB__OPC_SSE,
    TAB ud_itab__179 UD_TAB__OPC_SSE,
    TAB ud_itab__180 UD_TAB__OPC_SSE,
    TAB ud_itab__181 UD_TAB__OPC_SSE,
    TAB ud_itab__182 UD_TAB__OPC_SSE,
    TAB ud_itab__183 UD_TAB__OPC_SSE,
    TAB ud_itab__184 UD_TAB__OPC_SSE,
    TAB ud_itab__185 UD_TAB__OPC_SSE,
    TAB ud_itab__186 UD_TAB__OPC_SSE,
    TAB ud_itab__187 UD_TAB__OPC_SSE,
    TAB ud_itab__188 UD_TAB__OPC_SSE,
    TAB ud_itab__189 UD_TAB__OPC_SSE,
    TAB ud_itab__190 UD_TAB__OPC_SSE,
    TAB ud_itab__191 UD_TAB__OPC_SSE,
    TAB ud_itab__192 UD_TAB__OPC_SSE,
    TAB ud_itab__193 UD_TAB__OPC_SSE,
    TAB ud_itab__194 UD_TAB__OPC_SSE,
    TAB ud_itab__195 UD_TAB__OPC_SSE,
    TAB ud_itab__196 UD_TAB__OPC_SSE,
    TAB ud_itab__197 UD_TAB__OPC_SSE,
    TAB ud_itab__198 UD_TAB__OPC_SSE,
    TAB ud_itab__199 UD_TAB__OPC_SSE,
    TAB ud_itab__200 UD_TAB__OPC_SSE,
    TAB ud_itab__201 UD_TAB__OPC_SSE,
    TAB ud_itab__202 UD_TAB__OPC_SSE,
    TAB ud_itab__203 UD_TAB__OPC_SSE,
    TAB ud_itab__204 UD_TAB__OPC_SSE,
    TAB ud_itab__205 UD_TAB__OPC_SSE,
    TAB ud_itab__206 UD_TAB__OPC_SSE,
    TAB ud_itab__207 UD_TAB__OPC_SSE,
    TAB ud_itab__208 UD_TAB__OPC_SSE,
    TAB ud_itab__209 UD_TAB__OPC_SSE,
    TAB ud_itab__210 UD_TAB__OPC_SSE,
    TAB ud_itab__211 UD_TAB__OPC_SSE,
    TAB ud_itab__212 UD_TAB__OPC_SSE,
    TAB ud_itab__213 UD_TAB__OPC_MODE,
    TAB ud_itab__214 UD_TAB__OPC_VENDOR,
    TAB ud_itab__215 UD_TAB__OPC_SSE,
    TAB ud_itab__216 UD_TAB__OPC_MODE,
    TAB ud_itab__217 UD_TAB__OPC_VENDOR,
    TAB ud_itab__218 UD_TAB__OPC_SSE,
    TAB ud_itab__219 UD_TAB__OPC_SSE,
    TAB ud_itab__220 UD_TAB__OPC_SSE,
    TAB ud_itab__221 UD_TAB__OPC_SSE,
    TAB ud_itab__222 UD_TAB__OPC_SSE,
    TAB ud_itab__223 UD_TAB__OPC_SSE,
    TAB ud_itab__224 UD_TAB__OPC_SSE,
    TAB ud_itab__225 UD_TAB__OPC_TABLE,
    TAB ud_itab__226 UD_TAB__OPC_SSE,
    TAB ud_itab__227 UD_TAB__OPC_SSE,
    TAB ud_itab__228 UD_TAB__OPC_SSE,
    TAB ud_itab__229 UD_TAB__OPC_SSE,
    TAB ud_itab__230 UD_TAB__OPC_SSE,
    TAB ud_itab__231 UD_TAB__OPC_SSE,
    TAB ud_itab__232 UD_TAB__OPC_SSE,
    TAB ud_itab__233 UD_TAB__OPC_SSE,
    TAB ud_itab__234 UD_TAB__OPC_SSE,
    TAB ud_itab__235 UD_TAB__OPC_SSE,
    TAB ud_itab__236 UD_TAB__OPC_SSE,
    TAB ud_itab__237 UD_TAB__OPC_OSIZE,
    TAB ud_itab__238 UD_TAB__OPC_SSE,
    TAB ud_itab__239 UD_TAB__OPC_SSE,
    TAB ud_itab__240 UD_TAB__OPC_SSE,
    TAB ud_itab__241 UD_TAB__OPC_SSE,
    TAB ud_itab__242 UD_TAB__OPC_OSIZE,
    TAB ud_itab__243 UD_TAB__OPC_SSE,
    TAB ud_itab__244 UD_TAB__OPC_SSE,
    TAB ud_itab__245 UD_TAB__OPC_SSE,
    TAB ud_itab__246 UD_TAB__OPC_SSE,
    TAB ud_itab__247 UD_TAB__OPC_SSE,
    TAB ud_itab__248 UD_TAB__OPC_SSE,
    TAB ud_itab__249 UD_TAB__OPC_SSE,
    TAB ud_itab__250 UD_TAB__OPC_SSE,
    TAB ud_itab__251 UD_TAB__OPC_SSE,
    TAB ud_itab__252 UD_TAB__OPC_SSE,
    TAB ud_itab__253 UD_TAB__OPC_SSE,
    TAB ud_itab__254 UD_TAB__OPC_SSE,
    TAB ud_itab__255 UD_TAB__OPC_SSE,
    TAB ud_itab__256 UD_TAB__OPC_SSE,
    TAB ud_itab__257 UD_TAB__OPC_SSE,
    TAB ud_itab__258 UD_TAB__OPC_SSE,
    TAB ud_itab__259 UD_TAB__OPC_SSE,
    TAB ud_itab__260 UD_TAB__OPC_SSE,
    TAB ud_itab__261 UD_TAB__OPC_SSE,
    TAB ud_itab__262 UD_TAB__OPC_SSE,
    TAB ud_itab__263 UD_TAB__OPC_SSE,
    TAB ud_itab__264 UD_TAB__OPC_SSE,
    TAB ud_itab__265 UD_TAB__OPC_SSE,
    TAB ud_itab__266 UD_TAB__OPC_SSE,
    TAB ud_itab__267 UD_TAB__OPC_SSE,
    TAB ud_itab__268 UD_TAB__OPC_SSE,
    TAB ud_itab__269 UD_TAB__OPC_SSE,
    TAB ud_itab__270 UD_TAB__OPC_SSE,
    TAB ud_itab__271 UD_TAB__OPC_SSE,
    TAB ud_itab__272 UD_TAB__OPC_SSE,
    TAB ud_itab__273 UD_TAB__OPC_SSE,
    TAB ud_itab__274 UD_TAB__OPC_SSE,
    TAB ud_itab__275 UD_TAB__OPC_SSE,
    TAB ud_itab__276 UD_TAB__OPC_SSE,
    TAB ud_itab__277 UD_TAB__OPC_SSE,
    TAB ud_itab__278 UD_TAB__OPC_SSE,
    TAB ud_itab__279 UD_TAB__OPC_SSE,
    TAB ud_itab__280 UD_TAB__OPC_SSE,
    TAB ud_itab__281 UD_TAB__OPC_SSE,
    TAB ud_itab__282 UD_TAB__OPC_SSE,
    TAB ud_itab__283 UD_TAB__OPC_SSE]"

definition lookup_part2 :: "ud_lookup_table_list_entry list" where [itab_part]:
  "lookup_part2 = [
    TAB ud_itab__284 UD_TAB__OPC_SSE,
    TAB ud_itab__285 UD_TAB__OPC_SSE,
    TAB ud_itab__286 UD_TAB__OPC_SSE,
    TAB ud_itab__287 UD_TAB__OPC_SSE,
    TAB ud_itab__288 UD_TAB__OPC_SSE,
    TAB ud_itab__289 UD_TAB__OPC_SSE,
    TAB ud_itab__290 UD_TAB__OPC_SSE,
    TAB ud_itab__291 UD_TAB__OPC_SSE,
    TAB ud_itab__292 UD_TAB__OPC_SSE,
    TAB ud_itab__293 UD_TAB__OPC_SSE,
    TAB ud_itab__294 UD_TAB__OPC_SSE,
    TAB ud_itab__295 UD_TAB__OPC_SSE,
    TAB ud_itab__296 UD_TAB__OPC_SSE,
    TAB ud_itab__297 UD_TAB__OPC_SSE,
    TAB ud_itab__298 UD_TAB__OPC_SSE,
    TAB ud_itab__299 UD_TAB__OPC_SSE,
    TAB ud_itab__300 UD_TAB__OPC_SSE,
    TAB ud_itab__301 UD_TAB__OPC_REG,
    TAB ud_itab__302 UD_TAB__OPC_SSE,
    TAB ud_itab__303 UD_TAB__OPC_SSE,
    TAB ud_itab__304 UD_TAB__OPC_SSE,
    TAB ud_itab__305 UD_TAB__OPC_REG,
    TAB ud_itab__306 UD_TAB__OPC_SSE,
    TAB ud_itab__307 UD_TAB__OPC_SSE,
    TAB ud_itab__308 UD_TAB__OPC_SSE,
    TAB ud_itab__309 UD_TAB__OPC_REG,
    TAB ud_itab__310 UD_TAB__OPC_SSE,
    TAB ud_itab__311 UD_TAB__OPC_SSE,
    TAB ud_itab__312 UD_TAB__OPC_SSE,
    TAB ud_itab__313 UD_TAB__OPC_SSE,
    TAB ud_itab__314 UD_TAB__OPC_SSE,
    TAB ud_itab__315 UD_TAB__OPC_SSE,
    TAB ud_itab__316 UD_TAB__OPC_SSE,
    TAB ud_itab__317 UD_TAB__OPC_SSE,
    TAB ud_itab__318 UD_TAB__OPC_SSE,
    TAB ud_itab__319 UD_TAB__OPC_VENDOR,
    TAB ud_itab__320 UD_TAB__OPC_SSE,
    TAB ud_itab__321 UD_TAB__OPC_VENDOR,
    TAB ud_itab__322 UD_TAB__OPC_SSE,
    TAB ud_itab__323 UD_TAB__OPC_SSE,
    TAB ud_itab__324 UD_TAB__OPC_SSE,
    TAB ud_itab__325 UD_TAB__OPC_SSE,
    TAB ud_itab__326 UD_TAB__OPC_SSE,
    TAB ud_itab__327 UD_TAB__OPC_SSE,
    TAB ud_itab__328 UD_TAB__OPC_SSE,
    TAB ud_itab__329 UD_TAB__OPC_SSE,
    TAB ud_itab__330 UD_TAB__OPC_SSE,
    TAB ud_itab__331 UD_TAB__OPC_SSE,
    TAB ud_itab__332 UD_TAB__OPC_SSE,
    TAB ud_itab__333 UD_TAB__OPC_SSE,
    TAB ud_itab__334 UD_TAB__OPC_SSE,
    TAB ud_itab__335 UD_TAB__OPC_SSE,
    TAB ud_itab__336 UD_TAB__OPC_SSE,
    TAB ud_itab__337 UD_TAB__OPC_SSE,
    TAB ud_itab__338 UD_TAB__OPC_SSE,
    TAB ud_itab__339 UD_TAB__OPC_SSE,
    TAB ud_itab__340 UD_TAB__OPC_SSE,
    TAB ud_itab__341 UD_TAB__OPC_SSE,
    TAB ud_itab__342 UD_TAB__OPC_SSE,
    TAB ud_itab__343 UD_TAB__OPC_SSE,
    TAB ud_itab__344 UD_TAB__OPC_SSE,
    TAB ud_itab__345 UD_TAB__OPC_SSE,
    TAB ud_itab__346 UD_TAB__OPC_SSE,
    TAB ud_itab__347 UD_TAB__OPC_SSE,
    TAB ud_itab__348 UD_TAB__OPC_SSE,
    TAB ud_itab__349 UD_TAB__OPC_SSE,
    TAB ud_itab__350 UD_TAB__OPC_SSE,
    TAB ud_itab__351 UD_TAB__OPC_SSE,
    TAB ud_itab__352 UD_TAB__OPC_SSE,
    TAB ud_itab__353 UD_TAB__OPC_SSE,
    TAB ud_itab__354 UD_TAB__OPC_SSE,
    TAB ud_itab__355 UD_TAB__OPC_SSE,
    TAB ud_itab__356 UD_TAB__OPC_SSE,
    TAB ud_itab__357 UD_TAB__OPC_SSE,
    TAB ud_itab__358 UD_TAB__OPC_SSE,
    TAB ud_itab__359 UD_TAB__OPC_SSE,
    TAB ud_itab__360 UD_TAB__OPC_SSE,
    TAB ud_itab__361 UD_TAB__OPC_SSE,
    TAB ud_itab__362 UD_TAB__OPC_SSE,
    TAB ud_itab__363 UD_TAB__OPC_SSE,
    TAB ud_itab__364 UD_TAB__OPC_MOD,
    TAB ud_itab__365 UD_TAB__OPC_REG,
    TAB ud_itab__366 UD_TAB__OPC_RM,
    TAB ud_itab__367 UD_TAB__OPC_SSE,
    TAB ud_itab__368 UD_TAB__OPC_MOD,
    TAB ud_itab__369 UD_TAB__OPC_RM,
    TAB ud_itab__370 UD_TAB__OPC_SSE,
    TAB ud_itab__371 UD_TAB__OPC_MOD,
    TAB ud_itab__372 UD_TAB__OPC_RM,
    TAB ud_itab__373 UD_TAB__OPC_SSE,
    TAB ud_itab__374 UD_TAB__OPC_MOD,
    TAB ud_itab__375 UD_TAB__OPC_MOD,
    TAB ud_itab__376 UD_TAB__OPC_REG,
    TAB ud_itab__377 UD_TAB__OPC_RM,
    TAB ud_itab__378 UD_TAB__OPC_SSE,
    TAB ud_itab__379 UD_TAB__OPC_MOD,
    TAB ud_itab__380 UD_TAB__OPC_RM,
    TAB ud_itab__381 UD_TAB__OPC_SSE,
    TAB ud_itab__382 UD_TAB__OPC_MOD,
    TAB ud_itab__383 UD_TAB__OPC_RM,
    TAB ud_itab__384 UD_TAB__OPC_SSE,
    TAB ud_itab__385 UD_TAB__OPC_MOD,
    TAB ud_itab__386 UD_TAB__OPC_RM,
    TAB ud_itab__387 UD_TAB__OPC_SSE,
    TAB ud_itab__388 UD_TAB__OPC_MOD,
    TAB ud_itab__389 UD_TAB__OPC_RM,
    TAB ud_itab__390 UD_TAB__OPC_SSE,
    TAB ud_itab__391 UD_TAB__OPC_MOD,
    TAB ud_itab__392 UD_TAB__OPC_RM,
    TAB ud_itab__393 UD_TAB__OPC_SSE,
    TAB ud_itab__394 UD_TAB__OPC_MOD,
    TAB ud_itab__395 UD_TAB__OPC_SSE,
    TAB ud_itab__396 UD_TAB__OPC_SSE,
    TAB ud_itab__397 UD_TAB__OPC_SSE,
    TAB ud_itab__398 UD_TAB__OPC_SSE,
    TAB ud_itab__399 UD_TAB__OPC_SSE,
    TAB ud_itab__400 UD_TAB__OPC_SSE,
    TAB ud_itab__401 UD_TAB__OPC_MOD,
    TAB ud_itab__402 UD_TAB__OPC_REG,
    TAB ud_itab__403 UD_TAB__OPC_SSE,
    TAB ud_itab__404 UD_TAB__OPC_MOD,
    TAB ud_itab__405 UD_TAB__OPC_SSE,
    TAB ud_itab__406 UD_TAB__OPC_MOD,
    TAB ud_itab__407 UD_TAB__OPC_SSE,
    TAB ud_itab__408 UD_TAB__OPC_MOD,
    TAB ud_itab__409 UD_TAB__OPC_SSE,
    TAB ud_itab__410 UD_TAB__OPC_MOD,
    TAB ud_itab__411 UD_TAB__OPC_SSE,
    TAB ud_itab__412 UD_TAB__OPC_MOD,
    TAB ud_itab__413 UD_TAB__OPC_SSE,
    TAB ud_itab__414 UD_TAB__OPC_MOD,
    TAB ud_itab__415 UD_TAB__OPC_SSE,
    TAB ud_itab__416 UD_TAB__OPC_MOD,
    TAB ud_itab__417 UD_TAB__OPC_REG,
    TAB ud_itab__418 UD_TAB__OPC_RM,
    TAB ud_itab__419 UD_TAB__OPC_SSE,
    TAB ud_itab__420 UD_TAB__OPC_MOD,
    TAB ud_itab__421 UD_TAB__OPC_SSE,
    TAB ud_itab__422 UD_TAB__OPC_MOD,
    TAB ud_itab__423 UD_TAB__OPC_SSE,
    TAB ud_itab__424 UD_TAB__OPC_MOD,
    TAB ud_itab__425 UD_TAB__OPC_SSE]"

definition lookup_part3 :: "ud_lookup_table_list_entry list" where [itab_part]:
  "lookup_part3 = [
    TAB ud_itab__426 UD_TAB__OPC_MOD,
    TAB ud_itab__427 UD_TAB__OPC_SSE,
    TAB ud_itab__428 UD_TAB__OPC_MOD,
    TAB ud_itab__429 UD_TAB__OPC_SSE,
    TAB ud_itab__430 UD_TAB__OPC_MOD,
    TAB ud_itab__431 UD_TAB__OPC_SSE,
    TAB ud_itab__432 UD_TAB__OPC_MOD,
    TAB ud_itab__433 UD_TAB__OPC_SSE,
    TAB ud_itab__434 UD_TAB__OPC_MOD,
    TAB ud_itab__435 UD_TAB__OPC_RM,
    TAB ud_itab__436 UD_TAB__OPC_SSE,
    TAB ud_itab__437 UD_TAB__OPC_MOD,
    TAB ud_itab__438 UD_TAB__OPC_SSE,
    TAB ud_itab__439 UD_TAB__OPC_MOD,
    TAB ud_itab__440 UD_TAB__OPC_SSE,
    TAB ud_itab__441 UD_TAB__OPC_MOD,
    TAB ud_itab__442 UD_TAB__OPC_SSE,
    TAB ud_itab__443 UD_TAB__OPC_MOD,
    TAB ud_itab__444 UD_TAB__OPC_SSE,
    TAB ud_itab__445 UD_TAB__OPC_MOD,
    TAB ud_itab__446 UD_TAB__OPC_SSE,
    TAB ud_itab__447 UD_TAB__OPC_MOD,
    TAB ud_itab__448 UD_TAB__OPC_SSE,
    TAB ud_itab__449 UD_TAB__OPC_MOD,
    TAB ud_itab__450 UD_TAB__OPC_SSE,
    TAB ud_itab__451 UD_TAB__OPC_MOD,
    TAB ud_itab__452 UD_TAB__OPC_RM,
    TAB ud_itab__453 UD_TAB__OPC_SSE,
    TAB ud_itab__454 UD_TAB__OPC_MOD,
    TAB ud_itab__455 UD_TAB__OPC_SSE,
    TAB ud_itab__456 UD_TAB__OPC_MOD,
    TAB ud_itab__457 UD_TAB__OPC_SSE,
    TAB ud_itab__458 UD_TAB__OPC_MOD,
    TAB ud_itab__459 UD_TAB__OPC_SSE,
    TAB ud_itab__460 UD_TAB__OPC_MOD,
    TAB ud_itab__461 UD_TAB__OPC_SSE,
    TAB ud_itab__462 UD_TAB__OPC_MOD,
    TAB ud_itab__463 UD_TAB__OPC_SSE,
    TAB ud_itab__464 UD_TAB__OPC_MOD,
    TAB ud_itab__465 UD_TAB__OPC_SSE,
    TAB ud_itab__466 UD_TAB__OPC_MOD,
    TAB ud_itab__467 UD_TAB__OPC_SSE,
    TAB ud_itab__468 UD_TAB__OPC_MOD,
    TAB ud_itab__469 UD_TAB__OPC_SSE,
    TAB ud_itab__470 UD_TAB__OPC_SSE,
    TAB ud_itab__471 UD_TAB__OPC_SSE,
    TAB ud_itab__472 UD_TAB__OPC_SSE,
    TAB ud_itab__473 UD_TAB__OPC_SSE,
    TAB ud_itab__474 UD_TAB__OPC_SSE,
    TAB ud_itab__475 UD_TAB__OPC_SSE,
    TAB ud_itab__476 UD_TAB__OPC_SSE,
    TAB ud_itab__477 UD_TAB__OPC_SSE,
    TAB ud_itab__478 UD_TAB__OPC_SSE,
    TAB ud_itab__479 UD_TAB__OPC_REG,
    TAB ud_itab__480 UD_TAB__OPC_SSE,
    TAB ud_itab__481 UD_TAB__OPC_SSE,
    TAB ud_itab__482 UD_TAB__OPC_SSE,
    TAB ud_itab__483 UD_TAB__OPC_SSE,
    TAB ud_itab__484 UD_TAB__OPC_SSE,
    TAB ud_itab__485 UD_TAB__OPC_SSE,
    TAB ud_itab__486 UD_TAB__OPC_SSE,
    TAB ud_itab__487 UD_TAB__OPC_SSE,
    TAB ud_itab__488 UD_TAB__OPC_SSE,
    TAB ud_itab__489 UD_TAB__OPC_SSE,
    TAB ud_itab__490 UD_TAB__OPC_SSE,
    TAB ud_itab__491 UD_TAB__OPC_SSE,
    TAB ud_itab__492 UD_TAB__OPC_SSE,
    TAB ud_itab__493 UD_TAB__OPC_SSE,
    TAB ud_itab__494 UD_TAB__OPC_SSE,
    TAB ud_itab__495 UD_TAB__OPC_SSE,
    TAB ud_itab__496 UD_TAB__OPC_REG,
    TAB ud_itab__497 UD_TAB__OPC_SSE,
    TAB ud_itab__498 UD_TAB__OPC_OSIZE,
    TAB ud_itab__499 UD_TAB__OPC_SSE,
    TAB ud_itab__500 UD_TAB__OPC_VENDOR,
    TAB ud_itab__501 UD_TAB__OPC_VENDOR,
    TAB ud_itab__502 UD_TAB__OPC_VENDOR,
    TAB ud_itab__503 UD_TAB__OPC_SSE,
    TAB ud_itab__504 UD_TAB__OPC_VENDOR,
    TAB ud_itab__505 UD_TAB__OPC_SSE,
    TAB ud_itab__506 UD_TAB__OPC_SSE,
    TAB ud_itab__507 UD_TAB__OPC_SSE,
    TAB ud_itab__508 UD_TAB__OPC_SSE,
    TAB ud_itab__509 UD_TAB__OPC_SSE,
    TAB ud_itab__510 UD_TAB__OPC_SSE,
    TAB ud_itab__511 UD_TAB__OPC_SSE,
    TAB ud_itab__512 UD_TAB__OPC_SSE,
    TAB ud_itab__513 UD_TAB__OPC_SSE,
    TAB ud_itab__514 UD_TAB__OPC_SSE,
    TAB ud_itab__515 UD_TAB__OPC_SSE,
    TAB ud_itab__516 UD_TAB__OPC_SSE,
    TAB ud_itab__517 UD_TAB__OPC_SSE,
    TAB ud_itab__518 UD_TAB__OPC_SSE,
    TAB ud_itab__519 UD_TAB__OPC_SSE,
    TAB ud_itab__520 UD_TAB__OPC_SSE,
    TAB ud_itab__521 UD_TAB__OPC_SSE,
    TAB ud_itab__522 UD_TAB__OPC_SSE,
    TAB ud_itab__523 UD_TAB__OPC_SSE,
    TAB ud_itab__524 UD_TAB__OPC_SSE,
    TAB ud_itab__525 UD_TAB__OPC_SSE,
    TAB ud_itab__526 UD_TAB__OPC_SSE,
    TAB ud_itab__527 UD_TAB__OPC_SSE,
    TAB ud_itab__528 UD_TAB__OPC_SSE,
    TAB ud_itab__529 UD_TAB__OPC_SSE,
    TAB ud_itab__530 UD_TAB__OPC_SSE,
    TAB ud_itab__531 UD_TAB__OPC_SSE,
    TAB ud_itab__532 UD_TAB__OPC_SSE,
    TAB ud_itab__533 UD_TAB__OPC_SSE,
    TAB ud_itab__534 UD_TAB__OPC_SSE,
    TAB ud_itab__535 UD_TAB__OPC_SSE,
    TAB ud_itab__536 UD_TAB__OPC_SSE,
    TAB ud_itab__537 UD_TAB__OPC_SSE,
    TAB ud_itab__538 UD_TAB__OPC_SSE,
    TAB ud_itab__539 UD_TAB__OPC_SSE,
    TAB ud_itab__540 UD_TAB__OPC_SSE,
    TAB ud_itab__541 UD_TAB__OPC_SSE,
    TAB ud_itab__542 UD_TAB__OPC_SSE,
    TAB ud_itab__543 UD_TAB__OPC_SSE,
    TAB ud_itab__544 UD_TAB__OPC_SSE,
    TAB ud_itab__545 UD_TAB__OPC_SSE,
    TAB ud_itab__546 UD_TAB__OPC_SSE,
    TAB ud_itab__547 UD_TAB__OPC_SSE,
    TAB ud_itab__548 UD_TAB__OPC_SSE,
    TAB ud_itab__549 UD_TAB__OPC_SSE,
    TAB ud_itab__550 UD_TAB__OPC_SSE,
    TAB ud_itab__551 UD_TAB__OPC_SSE,
    TAB ud_itab__552 UD_TAB__OPC_MOD,
    TAB ud_itab__553 UD_TAB__OPC_SSE,
    TAB ud_itab__554 UD_TAB__OPC_MOD,
    TAB ud_itab__555 UD_TAB__OPC_MOD,
    TAB ud_itab__556 UD_TAB__OPC_SSE,
    TAB ud_itab__557 UD_TAB__OPC_SSE,
    TAB ud_itab__558 UD_TAB__OPC_SSE,
    TAB ud_itab__559 UD_TAB__OPC_SSE,
    TAB ud_itab__560 UD_TAB__OPC_SSE,
    TAB ud_itab__561 UD_TAB__OPC_SSE,
    TAB ud_itab__562 UD_TAB__OPC_SSE,
    TAB ud_itab__563 UD_TAB__OPC_MODE,
    TAB ud_itab__564 UD_TAB__OPC_MODE,
    TAB ud_itab__565 UD_TAB__OPC_MODE,
    TAB ud_itab__566 UD_TAB__OPC_MODE,
    TAB ud_itab__567 UD_TAB__OPC_MODE]"

definition lookup_part4 :: "ud_lookup_table_list_entry list" where [itab_part]:
  "lookup_part4 = [
    TAB ud_itab__568 UD_TAB__OPC_MODE,
    TAB ud_itab__569 UD_TAB__OPC_MODE,
    TAB ud_itab__570 UD_TAB__OPC_MODE,
    TAB ud_itab__571 UD_TAB__OPC_OSIZE,
    TAB ud_itab__572 UD_TAB__OPC_MODE,
    TAB ud_itab__573 UD_TAB__OPC_MODE,
    TAB ud_itab__574 UD_TAB__OPC_OSIZE,
    TAB ud_itab__575 UD_TAB__OPC_MODE,
    TAB ud_itab__576 UD_TAB__OPC_MODE,
    TAB ud_itab__577 UD_TAB__OPC_MODE,
    TAB ud_itab__578 UD_TAB__OPC_MODE,
    TAB ud_itab__579 UD_TAB__OPC_OSIZE,
    TAB ud_itab__580 UD_TAB__OPC_OSIZE,
    TAB ud_itab__581 UD_TAB__OPC_REG,
    TAB ud_itab__582 UD_TAB__OPC_REG,
    TAB ud_itab__583 UD_TAB__OPC_REG,
    TAB ud_itab__584 UD_TAB__OPC_MODE,
    TAB ud_itab__585 UD_TAB__OPC_MODE,
    TAB ud_itab__586 UD_TAB__OPC_MODE,
    TAB ud_itab__587 UD_TAB__OPC_MODE,
    TAB ud_itab__588 UD_TAB__OPC_MODE,
    TAB ud_itab__589 UD_TAB__OPC_MODE,
    TAB ud_itab__590 UD_TAB__OPC_MODE,
    TAB ud_itab__591 UD_TAB__OPC_MODE,
    TAB ud_itab__592 UD_TAB__OPC_REG,
    TAB ud_itab__593 UD_TAB__OPC_REG,
    TAB ud_itab__594 UD_TAB__OPC_OSIZE,
    TAB ud_itab__595 UD_TAB__OPC_OSIZE,
    TAB ud_itab__596 UD_TAB__OPC_MODE,
    TAB ud_itab__597 UD_TAB__OPC_OSIZE,
    TAB ud_itab__598 UD_TAB__OPC_MODE,
    TAB ud_itab__599 UD_TAB__OPC_MODE,
    TAB ud_itab__600 UD_TAB__OPC_MODE,
    TAB ud_itab__601 UD_TAB__OPC_OSIZE,
    TAB ud_itab__602 UD_TAB__OPC_MODE,
    TAB ud_itab__603 UD_TAB__OPC_MODE,
    TAB ud_itab__604 UD_TAB__OPC_MODE,
    TAB ud_itab__605 UD_TAB__OPC_OSIZE,
    TAB ud_itab__606 UD_TAB__OPC_OSIZE,
    TAB ud_itab__607 UD_TAB__OPC_OSIZE,
    TAB ud_itab__608 UD_TAB__OPC_OSIZE,
    TAB ud_itab__609 UD_TAB__OPC_OSIZE,
    TAB ud_itab__610 UD_TAB__OPC_REG,
    TAB ud_itab__611 UD_TAB__OPC_REG,
    TAB ud_itab__612 UD_TAB__OPC_MODE,
    TAB ud_itab__613 UD_TAB__OPC_MODE,
    TAB ud_itab__614 UD_TAB__OPC_REG,
    TAB ud_itab__615 UD_TAB__OPC_REG,
    TAB ud_itab__616 UD_TAB__OPC_MODE,
    TAB ud_itab__617 UD_TAB__OPC_OSIZE,
    TAB ud_itab__618 UD_TAB__OPC_REG,
    TAB ud_itab__619 UD_TAB__OPC_REG,
    TAB ud_itab__620 UD_TAB__OPC_REG,
    TAB ud_itab__621 UD_TAB__OPC_REG,
    TAB ud_itab__622 UD_TAB__OPC_MODE,
    TAB ud_itab__623 UD_TAB__OPC_MODE,
    TAB ud_itab__624 UD_TAB__OPC_MODE,
    TAB ud_itab__625 UD_TAB__OPC_MOD,
    TAB ud_itab__626 UD_TAB__OPC_REG,
    TAB ud_itab__627 UD_TAB__OPC_MOD,
    TAB ud_itab__628 UD_TAB__OPC_MOD,
    TAB ud_itab__629 UD_TAB__OPC_MOD,
    TAB ud_itab__630 UD_TAB__OPC_MOD,
    TAB ud_itab__631 UD_TAB__OPC_MOD,
    TAB ud_itab__632 UD_TAB__OPC_MOD,
    TAB ud_itab__633 UD_TAB__OPC_MOD,
    TAB ud_itab__634 UD_TAB__OPC_MOD,
    TAB ud_itab__635 UD_TAB__OPC_X87,
    TAB ud_itab__636 UD_TAB__OPC_MOD,
    TAB ud_itab__637 UD_TAB__OPC_MOD,
    TAB ud_itab__638 UD_TAB__OPC_MOD,
    TAB ud_itab__639 UD_TAB__OPC_MOD,
    TAB ud_itab__640 UD_TAB__OPC_MOD,
    TAB ud_itab__641 UD_TAB__OPC_MOD,
    TAB ud_itab__642 UD_TAB__OPC_MOD,
    TAB ud_itab__643 UD_TAB__OPC_MOD,
    TAB ud_itab__644 UD_TAB__OPC_MOD,
    TAB ud_itab__645 UD_TAB__OPC_MOD,
    TAB ud_itab__646 UD_TAB__OPC_MOD,
    TAB ud_itab__647 UD_TAB__OPC_MOD,
    TAB ud_itab__648 UD_TAB__OPC_MOD,
    TAB ud_itab__649 UD_TAB__OPC_MOD,
    TAB ud_itab__650 UD_TAB__OPC_MOD,
    TAB ud_itab__651 UD_TAB__OPC_MOD,
    TAB ud_itab__652 UD_TAB__OPC_MOD,
    TAB ud_itab__653 UD_TAB__OPC_MOD,
    TAB ud_itab__654 UD_TAB__OPC_MOD,
    TAB ud_itab__655 UD_TAB__OPC_MOD,
    TAB ud_itab__656 UD_TAB__OPC_MOD,
    TAB ud_itab__657 UD_TAB__OPC_MOD,
    TAB ud_itab__658 UD_TAB__OPC_MOD,
    TAB ud_itab__659 UD_TAB__OPC_MOD,
    TAB ud_itab__660 UD_TAB__OPC_MOD,
    TAB ud_itab__661 UD_TAB__OPC_MOD,
    TAB ud_itab__662 UD_TAB__OPC_MOD,
    TAB ud_itab__663 UD_TAB__OPC_MOD,
    TAB ud_itab__664 UD_TAB__OPC_MOD,
    TAB ud_itab__665 UD_TAB__OPC_MOD,
    TAB ud_itab__666 UD_TAB__OPC_MOD,
    TAB ud_itab__667 UD_TAB__OPC_MOD,
    TAB ud_itab__668 UD_TAB__OPC_MOD,
    TAB ud_itab__669 UD_TAB__OPC_MOD,
    TAB ud_itab__670 UD_TAB__OPC_MOD,
    TAB ud_itab__671 UD_TAB__OPC_MOD,
    TAB ud_itab__672 UD_TAB__OPC_MOD,
    TAB ud_itab__673 UD_TAB__OPC_MOD,
    TAB ud_itab__674 UD_TAB__OPC_MOD,
    TAB ud_itab__675 UD_TAB__OPC_MOD,
    TAB ud_itab__676 UD_TAB__OPC_MOD,
    TAB ud_itab__677 UD_TAB__OPC_MOD,
    TAB ud_itab__678 UD_TAB__OPC_MOD,
    TAB ud_itab__679 UD_TAB__OPC_MOD,
    TAB ud_itab__680 UD_TAB__OPC_MOD,
    TAB ud_itab__681 UD_TAB__OPC_MOD,
    TAB ud_itab__682 UD_TAB__OPC_MOD,
    TAB ud_itab__683 UD_TAB__OPC_MOD,
    TAB ud_itab__684 UD_TAB__OPC_MOD,
    TAB ud_itab__685 UD_TAB__OPC_MOD,
    TAB ud_itab__686 UD_TAB__OPC_MOD,
    TAB ud_itab__687 UD_TAB__OPC_MOD,
    TAB ud_itab__688 UD_TAB__OPC_MOD,
    TAB ud_itab__689 UD_TAB__OPC_MOD,
    TAB ud_itab__690 UD_TAB__OPC_MOD,
    TAB ud_itab__691 UD_TAB__OPC_MOD,
    TAB ud_itab__692 UD_TAB__OPC_MOD,
    TAB ud_itab__693 UD_TAB__OPC_MOD,
    TAB ud_itab__694 UD_TAB__OPC_MOD,
    TAB ud_itab__695 UD_TAB__OPC_MOD,
    TAB ud_itab__696 UD_TAB__OPC_MOD,
    TAB ud_itab__697 UD_TAB__OPC_MOD,
    TAB ud_itab__698 UD_TAB__OPC_MOD,
    TAB ud_itab__699 UD_TAB__OPC_MOD,
    TAB ud_itab__700 UD_TAB__OPC_MOD,
    TAB ud_itab__701 UD_TAB__OPC_REG,
    TAB ud_itab__702 UD_TAB__OPC_MOD,
    TAB ud_itab__703 UD_TAB__OPC_MOD,
    TAB ud_itab__704 UD_TAB__OPC_MOD,
    TAB ud_itab__705 UD_TAB__OPC_MOD,
    TAB ud_itab__706 UD_TAB__OPC_MOD,
    TAB ud_itab__707 UD_TAB__OPC_MOD,
    TAB ud_itab__708 UD_TAB__OPC_MOD,
    TAB ud_itab__709 UD_TAB__OPC_X87]"

definition lookup_part5 :: "ud_lookup_table_list_entry list" where [itab_part]:
  "lookup_part5 = [
    TAB ud_itab__710 UD_TAB__OPC_MOD,
    TAB ud_itab__711 UD_TAB__OPC_MOD,
    TAB ud_itab__712 UD_TAB__OPC_MOD,
    TAB ud_itab__713 UD_TAB__OPC_MOD,
    TAB ud_itab__714 UD_TAB__OPC_MOD,
    TAB ud_itab__715 UD_TAB__OPC_MOD,
    TAB ud_itab__716 UD_TAB__OPC_MOD,
    TAB ud_itab__717 UD_TAB__OPC_MOD,
    TAB ud_itab__718 UD_TAB__OPC_MOD,
    TAB ud_itab__719 UD_TAB__OPC_MOD,
    TAB ud_itab__720 UD_TAB__OPC_MOD,
    TAB ud_itab__721 UD_TAB__OPC_MOD,
    TAB ud_itab__722 UD_TAB__OPC_MOD,
    TAB ud_itab__723 UD_TAB__OPC_MOD,
    TAB ud_itab__724 UD_TAB__OPC_MOD,
    TAB ud_itab__725 UD_TAB__OPC_MOD,
    TAB ud_itab__726 UD_TAB__OPC_MOD,
    TAB ud_itab__727 UD_TAB__OPC_MOD,
    TAB ud_itab__728 UD_TAB__OPC_MOD,
    TAB ud_itab__729 UD_TAB__OPC_MOD,
    TAB ud_itab__730 UD_TAB__OPC_MOD,
    TAB ud_itab__731 UD_TAB__OPC_MOD,
    TAB ud_itab__732 UD_TAB__OPC_MOD,
    TAB ud_itab__733 UD_TAB__OPC_MOD,
    TAB ud_itab__734 UD_TAB__OPC_MOD,
    TAB ud_itab__735 UD_TAB__OPC_MOD,
    TAB ud_itab__736 UD_TAB__OPC_MOD,
    TAB ud_itab__737 UD_TAB__OPC_MOD,
    TAB ud_itab__738 UD_TAB__OPC_MOD,
    TAB ud_itab__739 UD_TAB__OPC_MOD,
    TAB ud_itab__740 UD_TAB__OPC_MOD,
    TAB ud_itab__741 UD_TAB__OPC_MOD,
    TAB ud_itab__742 UD_TAB__OPC_MOD,
    TAB ud_itab__743 UD_TAB__OPC_MOD,
    TAB ud_itab__744 UD_TAB__OPC_MOD,
    TAB ud_itab__745 UD_TAB__OPC_MOD,
    TAB ud_itab__746 UD_TAB__OPC_MOD,
    TAB ud_itab__747 UD_TAB__OPC_MOD,
    TAB ud_itab__748 UD_TAB__OPC_MOD,
    TAB ud_itab__749 UD_TAB__OPC_MOD,
    TAB ud_itab__750 UD_TAB__OPC_MOD,
    TAB ud_itab__751 UD_TAB__OPC_MOD,
    TAB ud_itab__752 UD_TAB__OPC_MOD,
    TAB ud_itab__753 UD_TAB__OPC_MOD,
    TAB ud_itab__754 UD_TAB__OPC_MOD,
    TAB ud_itab__755 UD_TAB__OPC_MOD,
    TAB ud_itab__756 UD_TAB__OPC_MOD,
    TAB ud_itab__757 UD_TAB__OPC_MOD,
    TAB ud_itab__758 UD_TAB__OPC_MOD,
    TAB ud_itab__759 UD_TAB__OPC_MOD,
    TAB ud_itab__760 UD_TAB__OPC_MOD,
    TAB ud_itab__761 UD_TAB__OPC_MOD,
    TAB ud_itab__762 UD_TAB__OPC_MOD,
    TAB ud_itab__763 UD_TAB__OPC_REG,
    TAB ud_itab__764 UD_TAB__OPC_MOD,
    TAB ud_itab__765 UD_TAB__OPC_MOD,
    TAB ud_itab__766 UD_TAB__OPC_MOD,
    TAB ud_itab__767 UD_TAB__OPC_MOD,
    TAB ud_itab__768 UD_TAB__OPC_MOD,
    TAB ud_itab__769 UD_TAB__OPC_MOD,
    TAB ud_itab__770 UD_TAB__OPC_MOD,
    TAB ud_itab__771 UD_TAB__OPC_MOD,
    TAB ud_itab__772 UD_TAB__OPC_X87,
    TAB ud_itab__773 UD_TAB__OPC_MOD,
    TAB ud_itab__774 UD_TAB__OPC_MOD,
    TAB ud_itab__775 UD_TAB__OPC_MOD,
    TAB ud_itab__776 UD_TAB__OPC_MOD,
    TAB ud_itab__777 UD_TAB__OPC_MOD,
    TAB ud_itab__778 UD_TAB__OPC_MOD,
    TAB ud_itab__779 UD_TAB__OPC_MOD,
    TAB ud_itab__780 UD_TAB__OPC_MOD,
    TAB ud_itab__781 UD_TAB__OPC_MOD,
    TAB ud_itab__782 UD_TAB__OPC_MOD,
    TAB ud_itab__783 UD_TAB__OPC_MOD,
    TAB ud_itab__784 UD_TAB__OPC_MOD,
    TAB ud_itab__785 UD_TAB__OPC_MOD,
    TAB ud_itab__786 UD_TAB__OPC_MOD,
    TAB ud_itab__787 UD_TAB__OPC_MOD,
    TAB ud_itab__788 UD_TAB__OPC_MOD,
    TAB ud_itab__789 UD_TAB__OPC_MOD,
    TAB ud_itab__790 UD_TAB__OPC_MOD,
    TAB ud_itab__791 UD_TAB__OPC_MOD,
    TAB ud_itab__792 UD_TAB__OPC_MOD,
    TAB ud_itab__793 UD_TAB__OPC_MOD,
    TAB ud_itab__794 UD_TAB__OPC_MOD,
    TAB ud_itab__795 UD_TAB__OPC_MOD,
    TAB ud_itab__796 UD_TAB__OPC_MOD,
    TAB ud_itab__797 UD_TAB__OPC_MOD,
    TAB ud_itab__798 UD_TAB__OPC_MOD,
    TAB ud_itab__799 UD_TAB__OPC_MOD,
    TAB ud_itab__800 UD_TAB__OPC_MOD,
    TAB ud_itab__801 UD_TAB__OPC_MOD,
    TAB ud_itab__802 UD_TAB__OPC_MOD,
    TAB ud_itab__803 UD_TAB__OPC_MOD,
    TAB ud_itab__804 UD_TAB__OPC_MOD,
    TAB ud_itab__805 UD_TAB__OPC_MOD,
    TAB ud_itab__806 UD_TAB__OPC_MOD,
    TAB ud_itab__807 UD_TAB__OPC_REG,
    TAB ud_itab__808 UD_TAB__OPC_MOD,
    TAB ud_itab__809 UD_TAB__OPC_MOD,
    TAB ud_itab__810 UD_TAB__OPC_MOD,
    TAB ud_itab__811 UD_TAB__OPC_MOD,
    TAB ud_itab__812 UD_TAB__OPC_MOD,
    TAB ud_itab__813 UD_TAB__OPC_MOD,
    TAB ud_itab__814 UD_TAB__OPC_X87,
    TAB ud_itab__815 UD_TAB__OPC_MOD,
    TAB ud_itab__816 UD_TAB__OPC_MOD,
    TAB ud_itab__817 UD_TAB__OPC_MOD,
    TAB ud_itab__818 UD_TAB__OPC_MOD,
    TAB ud_itab__819 UD_TAB__OPC_MOD,
    TAB ud_itab__820 UD_TAB__OPC_MOD,
    TAB ud_itab__821 UD_TAB__OPC_MOD,
    TAB ud_itab__822 UD_TAB__OPC_MOD,
    TAB ud_itab__823 UD_TAB__OPC_MOD,
    TAB ud_itab__824 UD_TAB__OPC_MOD,
    TAB ud_itab__825 UD_TAB__OPC_MOD,
    TAB ud_itab__826 UD_TAB__OPC_MOD,
    TAB ud_itab__827 UD_TAB__OPC_MOD,
    TAB ud_itab__828 UD_TAB__OPC_MOD,
    TAB ud_itab__829 UD_TAB__OPC_MOD,
    TAB ud_itab__830 UD_TAB__OPC_MOD,
    TAB ud_itab__831 UD_TAB__OPC_MOD,
    TAB ud_itab__832 UD_TAB__OPC_MOD,
    TAB ud_itab__833 UD_TAB__OPC_MOD,
    TAB ud_itab__834 UD_TAB__OPC_MOD,
    TAB ud_itab__835 UD_TAB__OPC_MOD,
    TAB ud_itab__836 UD_TAB__OPC_MOD,
    TAB ud_itab__837 UD_TAB__OPC_MOD,
    TAB ud_itab__838 UD_TAB__OPC_MOD,
    TAB ud_itab__839 UD_TAB__OPC_MOD,
    TAB ud_itab__840 UD_TAB__OPC_MOD,
    TAB ud_itab__841 UD_TAB__OPC_MOD,
    TAB ud_itab__842 UD_TAB__OPC_MOD,
    TAB ud_itab__843 UD_TAB__OPC_MOD,
    TAB ud_itab__844 UD_TAB__OPC_MOD,
    TAB ud_itab__845 UD_TAB__OPC_MOD,
    TAB ud_itab__846 UD_TAB__OPC_MOD,
    TAB ud_itab__847 UD_TAB__OPC_MOD,
    TAB ud_itab__848 UD_TAB__OPC_MOD,
    TAB ud_itab__849 UD_TAB__OPC_MOD,
    TAB ud_itab__850 UD_TAB__OPC_MOD,
    TAB ud_itab__851 UD_TAB__OPC_MOD]"

definition lookup_part6 :: "ud_lookup_table_list_entry list" where [itab_part]:
  "lookup_part6 = [
    TAB ud_itab__852 UD_TAB__OPC_MOD,
    TAB ud_itab__853 UD_TAB__OPC_MOD,
    TAB ud_itab__854 UD_TAB__OPC_MOD,
    TAB ud_itab__855 UD_TAB__OPC_MOD,
    TAB ud_itab__856 UD_TAB__OPC_MOD,
    TAB ud_itab__857 UD_TAB__OPC_MOD,
    TAB ud_itab__858 UD_TAB__OPC_MOD,
    TAB ud_itab__859 UD_TAB__OPC_MOD,
    TAB ud_itab__860 UD_TAB__OPC_MOD,
    TAB ud_itab__861 UD_TAB__OPC_MOD,
    TAB ud_itab__862 UD_TAB__OPC_MOD,
    TAB ud_itab__863 UD_TAB__OPC_MOD,
    TAB ud_itab__864 UD_TAB__OPC_MOD,
    TAB ud_itab__865 UD_TAB__OPC_MOD,
    TAB ud_itab__866 UD_TAB__OPC_REG,
    TAB ud_itab__867 UD_TAB__OPC_MOD,
    TAB ud_itab__868 UD_TAB__OPC_MOD,
    TAB ud_itab__869 UD_TAB__OPC_MOD,
    TAB ud_itab__870 UD_TAB__OPC_MOD,
    TAB ud_itab__871 UD_TAB__OPC_MOD,
    TAB ud_itab__872 UD_TAB__OPC_MOD,
    TAB ud_itab__873 UD_TAB__OPC_MOD,
    TAB ud_itab__874 UD_TAB__OPC_MOD,
    TAB ud_itab__875 UD_TAB__OPC_X87,
    TAB ud_itab__876 UD_TAB__OPC_MOD,
    TAB ud_itab__877 UD_TAB__OPC_MOD,
    TAB ud_itab__878 UD_TAB__OPC_MOD,
    TAB ud_itab__879 UD_TAB__OPC_MOD,
    TAB ud_itab__880 UD_TAB__OPC_MOD,
    TAB ud_itab__881 UD_TAB__OPC_MOD,
    TAB ud_itab__882 UD_TAB__OPC_MOD,
    TAB ud_itab__883 UD_TAB__OPC_MOD,
    TAB ud_itab__884 UD_TAB__OPC_MOD,
    TAB ud_itab__885 UD_TAB__OPC_MOD,
    TAB ud_itab__886 UD_TAB__OPC_MOD,
    TAB ud_itab__887 UD_TAB__OPC_MOD,
    TAB ud_itab__888 UD_TAB__OPC_MOD,
    TAB ud_itab__889 UD_TAB__OPC_MOD,
    TAB ud_itab__890 UD_TAB__OPC_MOD,
    TAB ud_itab__891 UD_TAB__OPC_MOD,
    TAB ud_itab__892 UD_TAB__OPC_MOD,
    TAB ud_itab__893 UD_TAB__OPC_MOD,
    TAB ud_itab__894 UD_TAB__OPC_MOD,
    TAB ud_itab__895 UD_TAB__OPC_MOD,
    TAB ud_itab__896 UD_TAB__OPC_MOD,
    TAB ud_itab__897 UD_TAB__OPC_MOD,
    TAB ud_itab__898 UD_TAB__OPC_MOD,
    TAB ud_itab__899 UD_TAB__OPC_MOD,
    TAB ud_itab__900 UD_TAB__OPC_MOD,
    TAB ud_itab__901 UD_TAB__OPC_MOD,
    TAB ud_itab__902 UD_TAB__OPC_MOD,
    TAB ud_itab__903 UD_TAB__OPC_MOD,
    TAB ud_itab__904 UD_TAB__OPC_MOD,
    TAB ud_itab__905 UD_TAB__OPC_MOD,
    TAB ud_itab__906 UD_TAB__OPC_MOD,
    TAB ud_itab__907 UD_TAB__OPC_MOD,
    TAB ud_itab__908 UD_TAB__OPC_MOD,
    TAB ud_itab__909 UD_TAB__OPC_MOD,
    TAB ud_itab__910 UD_TAB__OPC_MOD,
    TAB ud_itab__911 UD_TAB__OPC_MOD,
    TAB ud_itab__912 UD_TAB__OPC_MOD,
    TAB ud_itab__913 UD_TAB__OPC_MOD,
    TAB ud_itab__914 UD_TAB__OPC_MOD,
    TAB ud_itab__915 UD_TAB__OPC_MOD,
    TAB ud_itab__916 UD_TAB__OPC_MOD,
    TAB ud_itab__917 UD_TAB__OPC_MOD,
    TAB ud_itab__918 UD_TAB__OPC_MOD,
    TAB ud_itab__919 UD_TAB__OPC_MOD,
    TAB ud_itab__920 UD_TAB__OPC_MOD,
    TAB ud_itab__921 UD_TAB__OPC_MOD,
    TAB ud_itab__922 UD_TAB__OPC_MOD,
    TAB ud_itab__923 UD_TAB__OPC_MOD,
    TAB ud_itab__924 UD_TAB__OPC_MOD,
    TAB ud_itab__925 UD_TAB__OPC_MOD,
    TAB ud_itab__926 UD_TAB__OPC_MOD,
    TAB ud_itab__927 UD_TAB__OPC_MOD,
    TAB ud_itab__928 UD_TAB__OPC_MOD,
    TAB ud_itab__929 UD_TAB__OPC_MOD,
    TAB ud_itab__930 UD_TAB__OPC_MOD,
    TAB ud_itab__931 UD_TAB__OPC_MOD,
    TAB ud_itab__932 UD_TAB__OPC_MOD,
    TAB ud_itab__933 UD_TAB__OPC_MOD,
    TAB ud_itab__934 UD_TAB__OPC_MOD,
    TAB ud_itab__935 UD_TAB__OPC_MOD,
    TAB ud_itab__936 UD_TAB__OPC_MOD,
    TAB ud_itab__937 UD_TAB__OPC_MOD,
    TAB ud_itab__938 UD_TAB__OPC_MOD,
    TAB ud_itab__939 UD_TAB__OPC_MOD,
    TAB ud_itab__940 UD_TAB__OPC_MOD,
    TAB ud_itab__941 UD_TAB__OPC_REG,
    TAB ud_itab__942 UD_TAB__OPC_MOD,
    TAB ud_itab__943 UD_TAB__OPC_MOD,
    TAB ud_itab__944 UD_TAB__OPC_MOD,
    TAB ud_itab__945 UD_TAB__OPC_MOD,
    TAB ud_itab__946 UD_TAB__OPC_MOD,
    TAB ud_itab__947 UD_TAB__OPC_MOD,
    TAB ud_itab__948 UD_TAB__OPC_MOD,
    TAB ud_itab__949 UD_TAB__OPC_X87,
    TAB ud_itab__950 UD_TAB__OPC_MOD,
    TAB ud_itab__951 UD_TAB__OPC_MOD,
    TAB ud_itab__952 UD_TAB__OPC_MOD,
    TAB ud_itab__953 UD_TAB__OPC_MOD,
    TAB ud_itab__954 UD_TAB__OPC_MOD,
    TAB ud_itab__955 UD_TAB__OPC_MOD,
    TAB ud_itab__956 UD_TAB__OPC_MOD,
    TAB ud_itab__957 UD_TAB__OPC_MOD,
    TAB ud_itab__958 UD_TAB__OPC_MOD,
    TAB ud_itab__959 UD_TAB__OPC_MOD,
    TAB ud_itab__960 UD_TAB__OPC_MOD,
    TAB ud_itab__961 UD_TAB__OPC_MOD,
    TAB ud_itab__962 UD_TAB__OPC_MOD,
    TAB ud_itab__963 UD_TAB__OPC_MOD,
    TAB ud_itab__964 UD_TAB__OPC_MOD,
    TAB ud_itab__965 UD_TAB__OPC_MOD,
    TAB ud_itab__966 UD_TAB__OPC_MOD,
    TAB ud_itab__967 UD_TAB__OPC_MOD,
    TAB ud_itab__968 UD_TAB__OPC_MOD,
    TAB ud_itab__969 UD_TAB__OPC_MOD,
    TAB ud_itab__970 UD_TAB__OPC_MOD,
    TAB ud_itab__971 UD_TAB__OPC_MOD,
    TAB ud_itab__972 UD_TAB__OPC_MOD,
    TAB ud_itab__973 UD_TAB__OPC_MOD,
    TAB ud_itab__974 UD_TAB__OPC_MOD,
    TAB ud_itab__975 UD_TAB__OPC_MOD,
    TAB ud_itab__976 UD_TAB__OPC_MOD,
    TAB ud_itab__977 UD_TAB__OPC_MOD,
    TAB ud_itab__978 UD_TAB__OPC_MOD,
    TAB ud_itab__979 UD_TAB__OPC_MOD,
    TAB ud_itab__980 UD_TAB__OPC_MOD,
    TAB ud_itab__981 UD_TAB__OPC_MOD,
    TAB ud_itab__982 UD_TAB__OPC_MOD,
    TAB ud_itab__983 UD_TAB__OPC_MOD,
    TAB ud_itab__984 UD_TAB__OPC_MOD,
    TAB ud_itab__985 UD_TAB__OPC_MOD,
    TAB ud_itab__986 UD_TAB__OPC_MOD,
    TAB ud_itab__987 UD_TAB__OPC_MOD,
    TAB ud_itab__988 UD_TAB__OPC_MOD,
    TAB ud_itab__989 UD_TAB__OPC_MOD,
    TAB ud_itab__990 UD_TAB__OPC_MOD,
    TAB ud_itab__991 UD_TAB__OPC_MOD,
    TAB ud_itab__992 UD_TAB__OPC_MOD,
    TAB ud_itab__993 UD_TAB__OPC_MOD]"

definition lookup_part7 :: "ud_lookup_table_list_entry list" where [itab_part]:
  "lookup_part7 = [
    TAB ud_itab__994 UD_TAB__OPC_MOD,
    TAB ud_itab__995 UD_TAB__OPC_MOD,
    TAB ud_itab__996 UD_TAB__OPC_MOD,
    TAB ud_itab__997 UD_TAB__OPC_MOD,
    TAB ud_itab__998 UD_TAB__OPC_MOD,
    TAB ud_itab__999 UD_TAB__OPC_REG,
    TAB ud_itab__1000 UD_TAB__OPC_MOD,
    TAB ud_itab__1001 UD_TAB__OPC_MOD,
    TAB ud_itab__1002 UD_TAB__OPC_MOD,
    TAB ud_itab__1003 UD_TAB__OPC_MOD,
    TAB ud_itab__1004 UD_TAB__OPC_MOD,
    TAB ud_itab__1005 UD_TAB__OPC_MOD,
    TAB ud_itab__1006 UD_TAB__OPC_MOD,
    TAB ud_itab__1007 UD_TAB__OPC_MOD,
    TAB ud_itab__1008 UD_TAB__OPC_X87,
    TAB ud_itab__1009 UD_TAB__OPC_MOD,
    TAB ud_itab__1010 UD_TAB__OPC_MOD,
    TAB ud_itab__1011 UD_TAB__OPC_MOD,
    TAB ud_itab__1012 UD_TAB__OPC_MOD,
    TAB ud_itab__1013 UD_TAB__OPC_MOD,
    TAB ud_itab__1014 UD_TAB__OPC_MOD,
    TAB ud_itab__1015 UD_TAB__OPC_MOD,
    TAB ud_itab__1016 UD_TAB__OPC_MOD,
    TAB ud_itab__1017 UD_TAB__OPC_MOD,
    TAB ud_itab__1018 UD_TAB__OPC_MOD,
    TAB ud_itab__1019 UD_TAB__OPC_MOD,
    TAB ud_itab__1020 UD_TAB__OPC_MOD,
    TAB ud_itab__1021 UD_TAB__OPC_MOD,
    TAB ud_itab__1022 UD_TAB__OPC_MOD,
    TAB ud_itab__1023 UD_TAB__OPC_MOD,
    TAB ud_itab__1024 UD_TAB__OPC_MOD,
    TAB ud_itab__1025 UD_TAB__OPC_MOD,
    TAB ud_itab__1026 UD_TAB__OPC_MOD,
    TAB ud_itab__1027 UD_TAB__OPC_MOD,
    TAB ud_itab__1028 UD_TAB__OPC_MOD,
    TAB ud_itab__1029 UD_TAB__OPC_MOD,
    TAB ud_itab__1030 UD_TAB__OPC_MOD,
    TAB ud_itab__1031 UD_TAB__OPC_MOD,
    TAB ud_itab__1032 UD_TAB__OPC_MOD,
    TAB ud_itab__1033 UD_TAB__OPC_MOD,
    TAB ud_itab__1034 UD_TAB__OPC_MOD,
    TAB ud_itab__1035 UD_TAB__OPC_MOD,
    TAB ud_itab__1036 UD_TAB__OPC_MOD,
    TAB ud_itab__1037 UD_TAB__OPC_MOD,
    TAB ud_itab__1038 UD_TAB__OPC_MOD,
    TAB ud_itab__1039 UD_TAB__OPC_MOD,
    TAB ud_itab__1040 UD_TAB__OPC_MOD,
    TAB ud_itab__1041 UD_TAB__OPC_MOD,
    TAB ud_itab__1042 UD_TAB__OPC_MOD,
    TAB ud_itab__1043 UD_TAB__OPC_MOD,
    TAB ud_itab__1044 UD_TAB__OPC_MOD,
    TAB ud_itab__1045 UD_TAB__OPC_MOD,
    TAB ud_itab__1046 UD_TAB__OPC_MOD,
    TAB ud_itab__1047 UD_TAB__OPC_MOD,
    TAB ud_itab__1048 UD_TAB__OPC_MOD,
    TAB ud_itab__1049 UD_TAB__OPC_MOD,
    TAB ud_itab__1050 UD_TAB__OPC_MOD,
    TAB ud_itab__1051 UD_TAB__OPC_MOD,
    TAB ud_itab__1052 UD_TAB__OPC_MOD,
    TAB ud_itab__1053 UD_TAB__OPC_MOD,
    TAB ud_itab__1054 UD_TAB__OPC_MOD,
    TAB ud_itab__1055 UD_TAB__OPC_MOD,
    TAB ud_itab__1056 UD_TAB__OPC_MOD,
    TAB ud_itab__1057 UD_TAB__OPC_MOD,
    TAB ud_itab__1058 UD_TAB__OPC_MOD,
    TAB ud_itab__1059 UD_TAB__OPC_MOD,
    TAB ud_itab__1060 UD_TAB__OPC_MOD,
    TAB ud_itab__1061 UD_TAB__OPC_MOD,
    TAB ud_itab__1062 UD_TAB__OPC_MOD,
    TAB ud_itab__1063 UD_TAB__OPC_MOD,
    TAB ud_itab__1064 UD_TAB__OPC_MOD,
    TAB ud_itab__1065 UD_TAB__OPC_MOD,
    TAB ud_itab__1066 UD_TAB__OPC_MOD,
    TAB ud_itab__1067 UD_TAB__OPC_REG,
    TAB ud_itab__1068 UD_TAB__OPC_MOD,
    TAB ud_itab__1069 UD_TAB__OPC_MOD,
    TAB ud_itab__1070 UD_TAB__OPC_MOD,
    TAB ud_itab__1071 UD_TAB__OPC_MOD,
    TAB ud_itab__1072 UD_TAB__OPC_MOD,
    TAB ud_itab__1073 UD_TAB__OPC_MOD,
    TAB ud_itab__1074 UD_TAB__OPC_MOD,
    TAB ud_itab__1075 UD_TAB__OPC_MOD,
    TAB ud_itab__1076 UD_TAB__OPC_X87,
    TAB ud_itab__1077 UD_TAB__OPC_MOD,
    TAB ud_itab__1078 UD_TAB__OPC_MOD,
    TAB ud_itab__1079 UD_TAB__OPC_MOD,
    TAB ud_itab__1080 UD_TAB__OPC_MOD,
    TAB ud_itab__1081 UD_TAB__OPC_MOD,
    TAB ud_itab__1082 UD_TAB__OPC_MOD,
    TAB ud_itab__1083 UD_TAB__OPC_MOD,
    TAB ud_itab__1084 UD_TAB__OPC_MOD,
    TAB ud_itab__1085 UD_TAB__OPC_MOD,
    TAB ud_itab__1086 UD_TAB__OPC_MOD,
    TAB ud_itab__1087 UD_TAB__OPC_MOD,
    TAB ud_itab__1088 UD_TAB__OPC_MOD,
    TAB ud_itab__1089 UD_TAB__OPC_MOD,
    TAB ud_itab__1090 UD_TAB__OPC_MOD,
    TAB ud_itab__1091 UD_TAB__OPC_MOD,
    TAB ud_itab__1092 UD_TAB__OPC_MOD,
    TAB ud_itab__1093 UD_TAB__OPC_MOD,
    TAB ud_itab__1094 UD_TAB__OPC_MOD,
    TAB ud_itab__1095 UD_TAB__OPC_MOD,
    TAB ud_itab__1096 UD_TAB__OPC_MOD,
    TAB ud_itab__1097 UD_TAB__OPC_MOD,
    TAB ud_itab__1098 UD_TAB__OPC_MOD,
    TAB ud_itab__1099 UD_TAB__OPC_MOD,
    TAB ud_itab__1100 UD_TAB__OPC_MOD,
    TAB ud_itab__1101 UD_TAB__OPC_MOD,
    TAB ud_itab__1102 UD_TAB__OPC_MOD,
    TAB ud_itab__1103 UD_TAB__OPC_MOD,
    TAB ud_itab__1104 UD_TAB__OPC_MOD,
    TAB ud_itab__1105 UD_TAB__OPC_MOD,
    TAB ud_itab__1106 UD_TAB__OPC_MOD,
    TAB ud_itab__1107 UD_TAB__OPC_MOD,
    TAB ud_itab__1108 UD_TAB__OPC_MOD,
    TAB ud_itab__1109 UD_TAB__OPC_MOD,
    TAB ud_itab__1110 UD_TAB__OPC_MOD,
    TAB ud_itab__1111 UD_TAB__OPC_MOD,
    TAB ud_itab__1112 UD_TAB__OPC_MOD,
    TAB ud_itab__1113 UD_TAB__OPC_MOD,
    TAB ud_itab__1114 UD_TAB__OPC_MOD,
    TAB ud_itab__1115 UD_TAB__OPC_MOD,
    TAB ud_itab__1116 UD_TAB__OPC_MOD,
    TAB ud_itab__1117 UD_TAB__OPC_MOD,
    TAB ud_itab__1118 UD_TAB__OPC_MOD,
    TAB ud_itab__1119 UD_TAB__OPC_MOD,
    TAB ud_itab__1120 UD_TAB__OPC_MOD,
    TAB ud_itab__1121 UD_TAB__OPC_MOD,
    TAB ud_itab__1122 UD_TAB__OPC_MOD,
    TAB ud_itab__1123 UD_TAB__OPC_MOD,
    TAB ud_itab__1124 UD_TAB__OPC_MOD,
    TAB ud_itab__1125 UD_TAB__OPC_MOD,
    TAB ud_itab__1126 UD_TAB__OPC_ASIZE,
    TAB ud_itab__1127 UD_TAB__OPC_MODE,
    TAB ud_itab__1128 UD_TAB__OPC_REG,
    TAB ud_itab__1129 UD_TAB__OPC_REG,
    TAB ud_itab__1130 UD_TAB__OPC_REG,
    TAB ud_itab__1131 UD_TAB__OPC_REG,
    TAB ud_itab__1132 UD_TAB__OPC_MODE]"

definition udis86_lookup_table_list :: "ud_lookup_table_list_entry list" where
  "udis86_lookup_table_list =
    lookup_part0 @ lookup_part1 @ lookup_part2 @ lookup_part3 @ lookup_part4 @ lookup_part5 @ lookup_part6 @ lookup_part7"

section \<open>The instructions\<close>

definition itab_part0 :: "ud_itab_entry list" where [itab_part]:
  "itab_part0 = [
    ITAB UD_Iinvalid O_NONE O_NONE O_NONE P_none,
    ITAB UD_Iadd O_Eb O_Gb O_NONE (P_aso OR P_rexr OR P_rexx OR P_rexb),
    ITAB UD_Iadd O_Ev O_Gv O_NONE (P_aso OR P_oso OR P_rexw OR P_rexr OR P_rexx OR P_rexb),
    ITAB UD_Iadd O_Gb O_Eb O_NONE (P_aso OR P_rexr OR P_rexx OR P_rexb),
    ITAB UD_Iadd O_Gv O_Ev O_NONE (P_aso OR P_oso OR P_rexw OR P_rexr OR P_rexx OR P_rexb),
    ITAB UD_Iadd O_AL O_Ib O_NONE P_none,
    ITAB UD_Iadd O_rAX O_sIz O_NONE (P_oso OR P_rexw),
    ITAB UD_Ipush O_ES O_NONE O_NONE P_inv64,
    ITAB UD_Ipop O_ES O_NONE O_NONE P_inv64,
    ITAB UD_Ior O_Eb O_Gb O_NONE (P_aso OR P_rexr OR P_rexx OR P_rexb),
    ITAB UD_Ior O_Ev O_Gv O_NONE (P_aso OR P_oso OR P_rexw OR P_rexr OR P_rexx OR P_rexb),
    ITAB UD_Ior O_Gb O_Eb O_NONE (P_aso OR P_rexr OR P_rexx OR P_rexb),
    ITAB UD_Ior O_Gv O_Ev O_NONE (P_aso OR P_oso OR P_rexw OR P_rexr OR P_rexx OR P_rexb),
    ITAB UD_Ior O_AL O_Ib O_NONE P_none,
    ITAB UD_Ior O_rAX O_sIz O_NONE (P_oso OR P_rexw),
    ITAB UD_Ipush O_CS O_NONE O_NONE P_inv64,
    ITAB UD_Isldt O_MwRv O_NONE O_NONE (P_aso OR P_oso OR P_rexr OR P_rexw OR P_rexx OR P_rexb),
    ITAB UD_Istr O_MwRv O_NONE O_NONE (P_aso OR P_oso OR P_rexr OR P_rexw OR P_rexx OR P_rexb),
    ITAB UD_Illdt O_Ew O_NONE O_NONE (P_aso OR P_rexr OR P_rexx OR P_rexb),
    ITAB UD_Iltr O_Ew O_NONE O_NONE (P_aso OR P_rexr OR P_rexx OR P_rexb),
    ITAB UD_Iverr O_Ew O_NONE O_NONE (P_aso OR P_rexr OR P_rexx OR P_rexb),
    ITAB UD_Iverw O_Ew O_NONE O_NONE (P_aso OR P_rexr OR P_rexx OR P_rexb),
    ITAB UD_Isgdt O_M O_NONE O_NONE (P_aso OR P_rexr OR P_rexx OR P_rexb),
    ITAB UD_Isidt O_M O_NONE O_NONE (P_aso OR P_rexr OR P_rexx OR P_rexb),
    ITAB UD_Ilgdt O_M O_NONE O_NONE (P_aso OR P_rexr OR P_rexx OR P_rexb),
    ITAB UD_Ilidt O_M O_NONE O_NONE (P_aso OR P_rexr OR P_rexx OR P_rexb),
    ITAB UD_Ismsw O_MwRv O_NONE O_NONE (P_aso OR P_oso OR P_rexr OR P_rexw OR P_rexx OR P_rexb),
    ITAB UD_Ilmsw O_Ew O_NONE O_NONE (P_aso OR P_rexr OR P_rexx OR P_rexb),
    ITAB UD_Iinvlpg O_M O_NONE O_NONE (P_aso OR P_rexr OR P_rexx OR P_rexb),
    ITAB UD_Ivmcall O_NONE O_NONE O_NONE P_none,
    ITAB UD_Ivmlaunch O_NONE O_NONE O_NONE P_none,
    ITAB UD_Ivmresume O_NONE O_NONE O_NONE P_none,
    ITAB UD_Ivmxoff O_NONE O_NONE O_NONE P_none,
    ITAB UD_Imonitor O_NONE O_NONE O_NONE P_none,
    ITAB UD_Imwait O_NONE O_NONE O_NONE P_none,
    ITAB UD_Ixgetbv O_NONE O_NONE O_NONE P_none,
    ITAB UD_Ixsetbv O_NONE O_NONE O_NONE P_none,
    ITAB UD_Ivmrun O_NONE O_NONE O_NONE P_none,
    ITAB UD_Ivmmcall O_NONE O_NONE O_NONE P_none,
    ITAB UD_Ivmload O_NONE O_NONE O_NONE P_none,
    ITAB UD_Ivmsave O_NONE O_NONE O_NONE P_none,
    ITAB UD_Istgi O_NONE O_NONE O_NONE P_none,
    ITAB UD_Iclgi O_NONE O_NONE O_NONE P_none,
    ITAB UD_Iskinit O_NONE O_NONE O_NONE P_none,
    ITAB UD_Iinvlpga O_NONE O_NONE O_NONE P_none,
    ITAB UD_Ismsw O_MwRv O_NONE O_NONE (P_aso OR P_oso OR P_rexr OR P_rexw OR P_rexx OR P_rexb),
    ITAB UD_Ilmsw O_Ew O_NONE O_NONE (P_aso OR P_rexr OR P_rexx OR P_rexb),
    ITAB UD_Iswapgs O_NONE O_NONE O_NONE P_none,
    ITAB UD_Irdtscp O_NONE O_NONE O_NONE P_none,
    ITAB UD_Ilar O_Gv O_Ew O_NONE (P_aso OR P_oso OR P_rexw OR P_rexr OR P_rexx OR P_rexb),
    ITAB UD_Ilsl O_Gv O_Ew O_NONE (P_aso OR P_oso OR P_rexw OR P_rexr OR P_rexx OR P_rexb),
    ITAB UD_Isyscall O_NONE O_NONE O_NONE P_none,
    ITAB UD_Iclts O_NONE O_NONE O_NONE P_none,
    ITAB UD_Isysret O_NONE O_NONE O_NONE P_none,
    ITAB UD_Iinvd O_NONE O_NONE O_NONE P_none,
    ITAB UD_Iwbinvd O_NONE O_NONE O_NONE P_none,
    ITAB UD_Iud2 O_NONE O_NONE O_NONE P_none,
    ITAB UD_Iprefetch O_M O_NONE O_NONE (P_aso OR P_rexw OR P_rexr OR P_rexx OR P_rexb),
    ITAB UD_Iprefetch O_M O_NONE O_NONE (P_aso OR P_rexw OR P_rexr OR P_rexx OR P_rexb),
    ITAB UD_Iprefetch O_M O_NONE O_NONE (P_aso OR P_rexw OR P_rexr OR P_rexx OR P_rexb),
    ITAB UD_Iprefetch O_M O_NONE O_NONE (P_aso OR P_rexw OR P_rexr OR P_rexx OR P_rexb),
    ITAB UD_Iprefetch O_M O_NONE O_NONE (P_aso OR P_rexw OR P_rexr OR P_rexx OR P_rexb),
    ITAB UD_Iprefetch O_M O_NONE O_NONE (P_aso OR P_rexw OR P_rexr OR P_rexx OR P_rexb),
    ITAB UD_Iprefetch O_M O_NONE O_NONE (P_aso OR P_rexw OR P_rexr OR P_rexx OR P_rexb),
    ITAB UD_Iprefetch O_M O_NONE O_NONE (P_aso OR P_rexw OR P_rexr OR P_rexx OR P_rexb),
    ITAB UD_Ifemms O_NONE O_NONE O_NONE P_none,
    ITAB UD_Ipi2fw O_P O_Q O_NONE (P_aso OR P_rexr OR P_rexx OR P_rexb),
    ITAB UD_Ipi2fd O_P O_Q O_NONE (P_aso OR P_rexr OR P_rexx OR P_rexb),
    ITAB UD_Ipf2iw O_P O_Q O_NONE (P_aso OR P_rexr OR P_rexx OR P_rexb),
    ITAB UD_Ipf2id O_P O_Q O_NONE (P_aso OR P_rexr OR P_rexx OR P_rexb),
    ITAB UD_Ipfnacc O_P O_Q O_NONE (P_aso OR P_rexr OR P_rexx OR P_rexb),
    ITAB UD_Ipfpnacc O_P O_Q O_NONE (P_aso OR P_rexr OR P_rexx OR P_rexb),
    ITAB UD_Ipfcmpge O_P O_Q O_NONE (P_aso OR P_rexr OR P_rexx OR P_rexb),
    ITAB UD_Ipfmin O_P O_Q O_NONE (P_aso OR P_rexr OR P_rexx OR P_rexb),
    ITAB UD_Ipfrcp O_P O_Q O_NONE (P_aso OR P_rexr OR P_rexx OR P_rexb),
    ITAB UD_Ipfrsqrt O_P O_Q O_NONE (P_aso OR P_rexr OR P_rexx OR P_rexb),
    ITAB UD_Ipfsub O_P O_Q O_NONE (P_aso OR P_rexr OR P_rexx OR P_rexb),
    ITAB UD_Ipfadd O_P O_Q O_NONE (P_aso OR P_rexr OR P_rexx OR P_rexb),
    ITAB UD_Ipfcmpgt O_P O_Q O_NONE (P_aso OR P_rexr OR P_rexx OR P_rexb),
    ITAB UD_Ipfmax O_P O_Q O_NONE (P_aso OR P_rexr OR P_rexx OR P_rexb),
    ITAB UD_Ipfrcpit1 O_P O_Q O_NONE (P_aso OR P_rexr OR P_rexx OR P_rexb),
    ITAB UD_Ipfrsqit1 O_P O_Q O_NONE (P_aso OR P_rexr OR P_rexx OR P_rexb),
    ITAB UD_Ipfsubr O_P O_Q O_NONE (P_aso OR P_rexr OR P_rexx OR P_rexb),
    ITAB UD_Ipfacc O_P O_Q O_NONE (P_aso OR P_rexr OR P_rexx OR P_rexb),
    ITAB UD_Ipfcmpeq O_P O_Q O_NONE (P_aso OR P_rexr OR P_rexx OR P_rexb),
    ITAB UD_Ipfmul O_P O_Q O_NONE (P_aso OR P_rexr OR P_rexx OR P_rexb),
    ITAB UD_Ipfrcpit2 O_P O_Q O_NONE (P_aso OR P_rexr OR P_rexx OR P_rexb),
    ITAB UD_Ipmulhrw O_P O_Q O_NONE (P_aso OR P_rexr OR P_rexx OR P_rexb),
    ITAB UD_Ipswapd O_P O_Q O_NONE (P_aso OR P_rexr OR P_rexx OR P_rexb),
    ITAB UD_Ipavgusb O_P O_Q O_NONE (P_aso OR P_rexr OR P_rexx OR P_rexb),
    ITAB UD_Imovups O_V O_W O_NONE (P_aso OR P_rexr OR P_rexx OR P_rexb),
    ITAB UD_Imovsd O_V O_W O_NONE (P_str OR P_aso OR P_rexr OR P_rexx OR P_rexb),
    ITAB UD_Imovss O_V O_W O_NONE (P_aso OR P_rexr OR P_rexx OR P_rexb),
    ITAB UD_Imovupd O_V O_W O_NONE (P_aso OR P_rexr OR P_rexx OR P_rexb),
    ITAB UD_Imovups O_W O_V O_NONE (P_aso OR P_rexr OR P_rexx OR P_rexb),
    ITAB UD_Imovsd O_W O_V O_NONE (P_str OR P_aso OR P_rexr OR P_rexx OR P_rexb),
    ITAB UD_Imovss O_W O_V O_NONE (P_aso OR P_rexr OR P_rexx OR P_rexb),
    ITAB UD_Imovupd O_W O_V O_NONE (P_aso OR P_rexr OR P_rexx OR P_rexb),
    ITAB UD_Imovlps O_V O_M O_NONE (P_aso OR P_rexr OR P_rexx OR P_rexb),
    ITAB UD_Imovddup O_V O_W O_NONE (P_aso OR P_rexr OR P_rexx OR P_rexb),
    ITAB UD_Imovsldup O_V O_W O_NONE (P_aso OR P_rexr OR P_rexx OR P_rexb),
    ITAB UD_Imovlpd O_V O_M O_NONE (P_aso OR P_rexr OR P_rexx OR P_rexb),
    ITAB UD_Imovhlps O_V O_U O_NONE (P_aso OR P_rexr OR P_rexx OR P_rexb),
    ITAB UD_Imovddup O_V O_W O_NONE (P_aso OR P_rexr OR P_rexx OR P_rexb),
    ITAB UD_Imovsldup O_V O_W O_NONE (P_aso OR P_rexr OR P_rexx OR P_rexb),
    ITAB UD_Imovlps O_M O_V O_NONE (P_aso OR P_rexr OR P_rexx OR P_rexb),
    ITAB UD_Imovlpd O_M O_V O_NONE (P_aso OR P_rexr OR P_rexx OR P_rexb),
    ITAB UD_Iunpcklps O_V O_W O_NONE (P_aso OR P_rexr OR P_rexx OR P_rexb),
    ITAB UD_Iunpcklpd O_V O_W O_NONE (P_aso OR P_rexr OR P_rexx OR P_rexb),
    ITAB UD_Iunpckhps O_V O_W O_NONE (P_aso OR P_rexr OR P_rexx OR P_rexb),
    ITAB UD_Iunpckhpd O_V O_W O_NONE (P_aso OR P_rexr OR P_rexx OR P_rexb),
    ITAB UD_Imovhps O_V O_M O_NONE (P_aso OR P_rexr OR P_rexx OR P_rexb),
    ITAB UD_Imovshdup O_V O_W O_NONE (P_aso OR P_rexr OR P_rexx OR P_rexb),
    ITAB UD_Imovhpd O_V O_M O_NONE (P_aso OR P_rexr OR P_rexx OR P_rexb),
    ITAB UD_Imovlhps O_V O_U O_NONE (P_aso OR P_rexr OR P_rexx OR P_rexb),
    ITAB UD_Imovshdup O_V O_W O_NONE (P_aso OR P_rexr OR P_rexx OR P_rexb),
    ITAB UD_Imovhps O_M O_V O_NONE (P_aso OR P_rexr OR P_rexx OR P_rexb),
    ITAB UD_Imovhpd O_M O_V O_NONE (P_aso OR P_rexr OR P_rexx OR P_rexb),
    ITAB UD_Iprefetchnta O_M O_NONE O_NONE (P_aso OR P_rexw OR P_rexr OR P_rexx OR P_rexb),
    ITAB UD_Iprefetcht0 O_M O_NONE O_NONE (P_aso OR P_rexw OR P_rexr OR P_rexx OR P_rexb),
    ITAB UD_Iprefetcht1 O_M O_NONE O_NONE (P_aso OR P_rexw OR P_rexr OR P_rexx OR P_rexb),
    ITAB UD_Iprefetcht2 O_M O_NONE O_NONE (P_aso OR P_rexw OR P_rexr OR P_rexx OR P_rexb),
    ITAB UD_Inop O_M O_NONE O_NONE (P_aso OR P_rexr OR P_rexx OR P_rexb),
    ITAB UD_Inop O_M O_NONE O_NONE (P_aso OR P_rexr OR P_rexx OR P_rexb),
    ITAB UD_Inop O_M O_NONE O_NONE (P_aso OR P_rexr OR P_rexx OR P_rexb),
    ITAB UD_Inop O_M O_NONE O_NONE (P_aso OR P_rexr OR P_rexx OR P_rexb),
    ITAB UD_Inop O_M O_NONE O_NONE (P_aso OR P_rexr OR P_rexx OR P_rexb),
    ITAB UD_Inop O_M O_NONE O_NONE (P_aso OR P_rexr OR P_rexx OR P_rexb),
    ITAB UD_Inop O_M O_NONE O_NONE (P_aso OR P_rexr OR P_rexx OR P_rexb),
    ITAB UD_Imov O_R O_C O_NONE (P_rexr OR P_rexw OR P_rexb),
    ITAB UD_Imov O_R O_D O_NONE (P_rexr OR P_rexw OR P_rexb),
    ITAB UD_Imov O_C O_R O_NONE (P_rexr OR P_rexw OR P_rexb),
    ITAB UD_Imov O_D O_R O_NONE (P_rexr OR P_rexw OR P_rexb),
    ITAB UD_Imovaps O_V O_W O_NONE (P_aso OR P_rexr OR P_rexx OR P_rexb),
    ITAB UD_Imovapd O_V O_W O_NONE (P_aso OR P_rexr OR P_rexx OR P_rexb),
    ITAB UD_Imovaps O_W O_V O_NONE (P_aso OR P_rexr OR P_rexx OR P_rexb),
    ITAB UD_Imovapd O_W O_V O_NONE (P_aso OR P_rexr OR P_rexx OR P_rexb),
    ITAB UD_Icvtpi2ps O_V O_Q O_NONE (P_aso OR P_rexr OR P_rexx OR P_rexb),
    ITAB UD_Icvtsi2sd O_V O_Ey O_NONE (P_aso OR P_rexw OR P_rexr OR P_rexx OR P_rexb),
    ITAB UD_Icvtsi2ss O_V O_Ey O_NONE (P_aso OR P_rexw OR P_rexr OR P_rexx OR P_rexb),
    ITAB UD_Icvtpi2pd O_V O_Q O_NONE (P_aso OR P_rexr OR P_rexx OR P_rexb),
    ITAB UD_Imovntps O_M O_V O_NONE (P_aso OR P_rexr OR P_rexx OR P_rexb),
    ITAB UD_Imovntpd O_M O_V O_NONE (P_aso OR P_rexr OR P_rexx OR P_rexb),
    ITAB UD_Icvttps2pi O_P O_W O_NONE (P_aso OR P_rexr OR P_rexx OR P_rexb),
    ITAB UD_Icvttsd2si O_Gy O_W O_NONE (P_aso OR P_rexw OR P_rexr OR P_rexx OR P_rexb),
    ITAB UD_Icvttss2si O_Gy O_W O_NONE (P_aso OR P_rexw OR P_rexr OR P_rexx OR P_rexb)]"

definition itab_part1 :: "ud_itab_entry list" where [itab_part]:
  "itab_part1 = [
    ITAB UD_Icvttpd2pi O_P O_W O_NONE (P_aso OR P_rexr OR P_rexx OR P_rexb),
    ITAB UD_Icvtps2pi O_P O_W O_NONE (P_aso OR P_rexr OR P_rexx OR P_rexb),
    ITAB UD_Icvtsd2si O_Gy O_W O_NONE (P_aso OR P_rexw OR P_rexr OR P_rexx OR P_rexb),
    ITAB UD_Icvtss2si O_Gy O_W O_NONE (P_aso OR P_rexw OR P_rexr OR P_rexx OR P_rexb),
    ITAB UD_Icvtpd2pi O_P O_W O_NONE (P_aso OR P_rexr OR P_rexx OR P_rexb),
    ITAB UD_Iucomiss O_V O_W O_NONE (P_aso OR P_rexr OR P_rexx OR P_rexb),
    ITAB UD_Iucomisd O_V O_W O_NONE (P_aso OR P_rexr OR P_rexx OR P_rexb),
    ITAB UD_Icomiss O_V O_W O_NONE (P_aso OR P_rexr OR P_rexx OR P_rexb),
    ITAB UD_Icomisd O_V O_W O_NONE (P_aso OR P_rexr OR P_rexx OR P_rexb),
    ITAB UD_Iwrmsr O_NONE O_NONE O_NONE P_none,
    ITAB UD_Irdtsc O_NONE O_NONE O_NONE P_none,
    ITAB UD_Irdmsr O_NONE O_NONE O_NONE P_none,
    ITAB UD_Irdpmc O_NONE O_NONE O_NONE P_none,
    ITAB UD_Isysenter O_NONE O_NONE O_NONE P_none,
    ITAB UD_Isysenter O_NONE O_NONE O_NONE P_none,
    ITAB UD_Isysexit O_NONE O_NONE O_NONE P_none,
    ITAB UD_Isysexit O_NONE O_NONE O_NONE P_none,
    ITAB UD_Igetsec O_NONE O_NONE O_NONE P_none,
    ITAB UD_Ipshufb O_P O_Q O_NONE (P_aso OR P_rexr OR P_rexx OR P_rexb),
    ITAB UD_Ipshufb O_V O_W O_NONE (P_aso OR P_rexr OR P_rexx OR P_rexb),
    ITAB UD_Iphaddw O_P O_Q O_NONE (P_aso OR P_rexr OR P_rexx OR P_rexb),
    ITAB UD_Iphaddw O_V O_W O_NONE (P_aso OR P_rexr OR P_rexx OR P_rexb),
    ITAB UD_Iphaddd O_P O_Q O_NONE (P_aso OR P_rexr OR P_rexx OR P_rexb),
    ITAB UD_Iphaddd O_V O_W O_NONE (P_aso OR P_rexr OR P_rexx OR P_rexb),
    ITAB UD_Iphaddsw O_P O_Q O_NONE (P_aso OR P_rexr OR P_rexx OR P_rexb),
    ITAB UD_Iphaddsw O_V O_W O_NONE (P_aso OR P_rexr OR P_rexx OR P_rexb),
    ITAB UD_Ipmaddubsw O_P O_Q O_NONE (P_aso OR P_rexr OR P_rexx OR P_rexb),
    ITAB UD_Ipmaddubsw O_V O_W O_NONE (P_aso OR P_rexr OR P_rexx OR P_rexb),
    ITAB UD_Iphsubw O_P O_Q O_NONE (P_aso OR P_rexr OR P_rexx OR P_rexb),
    ITAB UD_Iphsubw O_V O_W O_NONE (P_aso OR P_rexr OR P_rexx OR P_rexb),
    ITAB UD_Iphsubd O_P O_Q O_NONE (P_aso OR P_rexr OR P_rexx OR P_rexb),
    ITAB UD_Iphsubd O_V O_W O_NONE (P_aso OR P_rexr OR P_rexx OR P_rexb),
    ITAB UD_Iphsubsw O_P O_Q O_NONE (P_aso OR P_rexr OR P_rexx OR P_rexb),
    ITAB UD_Iphsubsw O_V O_W O_NONE (P_aso OR P_rexr OR P_rexx OR P_rexb),
    ITAB UD_Ipsignb O_P O_Q O_NONE (P_aso OR P_rexr OR P_rexx OR P_rexb),
    ITAB UD_Ipsignb O_V O_W O_NONE (P_aso OR P_rexr OR P_rexx OR P_rexb),
    ITAB UD_Ipsignw O_P O_Q O_NONE (P_aso OR P_rexr OR P_rexx OR P_rexb),
    ITAB UD_Ipsignw O_V O_W O_NONE (P_aso OR P_rexr OR P_rexx OR P_rexb),
    ITAB UD_Ipsignd O_P O_Q O_NONE (P_aso OR P_rexr OR P_rexx OR P_rexb),
    ITAB UD_Ipsignd O_V O_W O_NONE (P_aso OR P_rexr OR P_rexx OR P_rexb),
    ITAB UD_Ipmulhrsw O_P O_Q O_NONE (P_aso OR P_rexr OR P_rexx OR P_rexb),
    ITAB UD_Ipmulhrsw O_V O_W O_NONE (P_aso OR P_rexr OR P_rexx OR P_rexb),
    ITAB UD_Ipblendvb O_V O_W O_NONE (P_aso OR P_rexr OR P_rexx OR P_rexb),
    ITAB UD_Iblendvps O_V O_W O_NONE (P_aso OR P_rexr OR P_rexx OR P_rexb),
    ITAB UD_Iblendvpd O_V O_W O_NONE (P_aso OR P_rexr OR P_rexx OR P_rexb),
    ITAB UD_Iptest O_V O_W O_NONE (P_aso OR P_rexr OR P_rexw OR P_rexx OR P_rexb),
    ITAB UD_Ipabsb O_P O_Q O_NONE (P_aso OR P_rexr OR P_rexx OR P_rexb),
    ITAB UD_Ipabsb O_V O_W O_NONE (P_aso OR P_rexr OR P_rexx OR P_rexb),
    ITAB UD_Ipabsw O_P O_Q O_NONE (P_aso OR P_rexr OR P_rexx OR P_rexb),
    ITAB UD_Ipabsw O_V O_W O_NONE (P_aso OR P_rexr OR P_rexx OR P_rexb),
    ITAB UD_Ipabsd O_P O_Q O_NONE (P_aso OR P_rexr OR P_rexx OR P_rexb),
    ITAB UD_Ipabsd O_V O_W O_NONE (P_aso OR P_rexr OR P_rexx OR P_rexb),
    ITAB UD_Ipmovsxbw O_V O_MqU O_NONE (P_aso OR P_rexr OR P_rexw OR P_rexx OR P_rexb),
    ITAB UD_Ipmovsxbd O_V O_MdU O_NONE (P_aso OR P_rexr OR P_rexw OR P_rexx OR P_rexb),
    ITAB UD_Ipmovsxbq O_V O_MwU O_NONE (P_aso OR P_rexr OR P_rexw OR P_rexx OR P_rexb),
    ITAB UD_Ipmovsxwd O_V O_MqU O_NONE (P_aso OR P_rexr OR P_rexw OR P_rexx OR P_rexb),
    ITAB UD_Ipmovsxwq O_V O_MdU O_NONE (P_aso OR P_rexr OR P_rexw OR P_rexx OR P_rexb),
    ITAB UD_Ipmovsxdq O_V O_MqU O_NONE (P_aso OR P_rexr OR P_rexw OR P_rexx OR P_rexb),
    ITAB UD_Ipmuldq O_V O_W O_NONE (P_aso OR P_rexr OR P_rexx OR P_rexb),
    ITAB UD_Ipcmpeqq O_V O_W O_NONE (P_aso OR P_rexr OR P_rexw OR P_rexx OR P_rexb),
    ITAB UD_Imovntdqa O_V O_Mo O_NONE (P_aso OR P_rexr OR P_rexw OR P_rexx OR P_rexb),
    ITAB UD_Ipackusdw O_V O_W O_NONE (P_aso OR P_rexr OR P_rexw OR P_rexx OR P_rexb),
    ITAB UD_Ipmovzxbw O_V O_MqU O_NONE (P_aso OR P_rexr OR P_rexw OR P_rexx OR P_rexb),
    ITAB UD_Ipmovzxbd O_V O_MdU O_NONE (P_aso OR P_rexr OR P_rexw OR P_rexx OR P_rexb),
    ITAB UD_Ipmovzxbq O_V O_MwU O_NONE (P_aso OR P_rexr OR P_rexw OR P_rexx OR P_rexb),
    ITAB UD_Ipmovzxwd O_V O_MqU O_NONE (P_aso OR P_rexr OR P_rexw OR P_rexx OR P_rexb),
    ITAB UD_Ipmovzxwq O_V O_MdU O_NONE (P_aso OR P_rexr OR P_rexw OR P_rexx OR P_rexb),
    ITAB UD_Ipmovzxdq O_V O_MqU O_NONE (P_aso OR P_rexr OR P_rexw OR P_rexx OR P_rexb),
    ITAB UD_Ipcmpgtq O_V O_W O_NONE (P_aso OR P_rexr OR P_rexw OR P_rexx OR P_rexb),
    ITAB UD_Ipminsb O_V O_W O_NONE (P_aso OR P_rexr OR P_rexx OR P_rexb),
    ITAB UD_Ipminsd O_V O_W O_NONE (P_aso OR P_rexr OR P_rexx OR P_rexb),
    ITAB UD_Ipminuw O_V O_W O_NONE (P_aso OR P_rexr OR P_rexx OR P_rexb),
    ITAB UD_Ipminud O_V O_W O_NONE (P_aso OR P_rexr OR P_rexx OR P_rexb),
    ITAB UD_Ipmaxsb O_V O_W O_NONE (P_aso OR P_rexr OR P_rexx OR P_rexb),
    ITAB UD_Ipmaxsd O_V O_W O_NONE (P_aso OR P_rexr OR P_rexx OR P_rexb),
    ITAB UD_Ipmaxuw O_V O_W O_NONE (P_aso OR P_rexr OR P_rexx OR P_rexb),
    ITAB UD_Ipmaxud O_V O_W O_NONE (P_aso OR P_rexr OR P_rexx OR P_rexb),
    ITAB UD_Ipmulld O_V O_W O_NONE (P_aso OR P_rexr OR P_rexx OR P_rexb),
    ITAB UD_Iphminposuw O_V O_W O_NONE (P_aso OR P_rexr OR P_rexx OR P_rexb),
    ITAB UD_Iinvept O_Gq O_Mo O_NONE P_none,
    ITAB UD_Iinvvpid O_Gq O_Mo O_NONE P_none,
    ITAB UD_Iaesimc O_V O_W O_NONE (P_aso OR P_rexr OR P_rexx OR P_rexb),
    ITAB UD_Iaesenc O_V O_W O_NONE (P_aso OR P_rexr OR P_rexx OR P_rexb),
    ITAB UD_Iaesenclast O_V O_W O_NONE (P_aso OR P_rexr OR P_rexx OR P_rexb),
    ITAB UD_Iaesdec O_V O_W O_NONE (P_aso OR P_rexr OR P_rexx OR P_rexb),
    ITAB UD_Iaesdeclast O_V O_W O_NONE (P_aso OR P_rexr OR P_rexx OR P_rexb),
    ITAB UD_Imovbe O_Gv O_Mv O_NONE (P_aso OR P_oso OR P_rexr OR P_rexw OR P_rexx OR P_rexb),
    ITAB UD_Icrc32 O_Gy O_Eb O_NONE (P_aso OR P_oso OR P_rexr OR P_rexw OR P_rexx OR P_rexb),
    ITAB UD_Imovbe O_Mv O_Gv O_NONE (P_aso OR P_oso OR P_rexr OR P_rexw OR P_rexx OR P_rexb),
    ITAB UD_Icrc32 O_Gy O_Ev O_NONE (P_aso OR P_oso OR P_rexr OR P_rexw OR P_rexx OR P_rexb),
    ITAB UD_Iroundps O_V O_W O_Ib (P_aso OR P_rexr OR P_rexx OR P_rexb),
    ITAB UD_Iroundpd O_V O_W O_Ib (P_aso OR P_rexr OR P_rexx OR P_rexb),
    ITAB UD_Iroundss O_V O_W O_Ib (P_aso OR P_rexr OR P_rexx OR P_rexb),
    ITAB UD_Iroundsd O_V O_W O_Ib (P_aso OR P_rexr OR P_rexx OR P_rexb),
    ITAB UD_Iblendps O_V O_W O_Ib (P_aso OR P_rexr OR P_rexx OR P_rexb),
    ITAB UD_Iblendpd O_V O_W O_Ib (P_aso OR P_rexr OR P_rexx OR P_rexb),
    ITAB UD_Ipblendw O_V O_W O_Ib (P_aso OR P_rexr OR P_rexx OR P_rexb),
    ITAB UD_Ipalignr O_P O_Q O_Ib (P_aso OR P_rexr OR P_rexx OR P_rexb),
    ITAB UD_Ipalignr O_V O_W O_Ib (P_aso OR P_rexr OR P_rexx OR P_rexb),
    ITAB UD_Ipextrb O_MbRv O_V O_Ib (P_aso OR P_rexx OR P_rexr OR P_rexb OR P_def64),
    ITAB UD_Ipextrw O_MwRd O_V O_Ib (P_aso OR P_rexx OR P_rexr OR P_rexb),
    ITAB UD_Ipextrd O_Ed O_V O_Ib (P_aso OR P_rexr OR P_rexx OR P_rexw OR P_rexb),
    ITAB UD_Ipextrd O_Ed O_V O_Ib (P_aso OR P_rexr OR P_rexx OR P_rexw OR P_rexb),
    ITAB UD_Ipextrq O_Eq O_V O_Ib (P_aso OR P_rexr OR P_rexw OR P_rexb OR P_def64),
    ITAB UD_Iextractps O_MdRy O_V O_Ib (P_aso OR P_rexr OR P_rexw OR P_rexx OR P_rexb),
    ITAB UD_Ipinsrb O_V O_MbRd O_Ib (P_aso OR P_rexw OR P_rexr OR P_rexx OR P_rexb),
    ITAB UD_Iinsertps O_V O_Md O_Ib (P_aso OR P_rexr OR P_rexw OR P_rexx OR P_rexb),
    ITAB UD_Ipinsrd O_V O_Ed O_Ib (P_aso OR P_rexw OR P_rexr OR P_rexx OR P_rexb),
    ITAB UD_Ipinsrd O_V O_Ed O_Ib (P_aso OR P_rexw OR P_rexr OR P_rexx OR P_rexb),
    ITAB UD_Ipinsrq O_V O_Eq O_Ib (P_aso OR P_oso OR P_rexw OR P_rexr OR P_rexx OR P_rexb),
    ITAB UD_Idpps O_V O_W O_Ib (P_aso OR P_rexr OR P_rexx OR P_rexb),
    ITAB UD_Idppd O_V O_W O_Ib (P_aso OR P_rexr OR P_rexx OR P_rexb),
    ITAB UD_Impsadbw O_V O_W O_Ib (P_aso OR P_rexr OR P_rexx OR P_rexb),
    ITAB UD_Ipclmulqdq O_V O_W O_Ib (P_aso OR P_rexr OR P_rexx OR P_rexb),
    ITAB UD_Ipcmpestrm O_V O_W O_Ib (P_aso OR P_rexr OR P_rexw OR P_rexx OR P_rexb),
    ITAB UD_Ipcmpestri O_V O_W O_Ib (P_aso OR P_rexr OR P_rexw OR P_rexx OR P_rexb),
    ITAB UD_Ipcmpistrm O_V O_W O_Ib (P_aso OR P_rexr OR P_rexw OR P_rexx OR P_rexb),
    ITAB UD_Ipcmpistri O_V O_W O_Ib (P_aso OR P_rexr OR P_rexw OR P_rexx OR P_rexb),
    ITAB UD_Iaeskeygenassist O_V O_W O_Ib (P_aso OR P_rexr OR P_rexx OR P_rexb),
    ITAB UD_Icmovo O_Gv O_Ev O_NONE (P_aso OR P_oso OR P_rexw OR P_rexr OR P_rexx OR P_rexb),
    ITAB UD_Icmovno O_Gv O_Ev O_NONE (P_aso OR P_oso OR P_rexw OR P_rexr OR P_rexx OR P_rexb),
    ITAB UD_Icmovb O_Gv O_Ev O_NONE (P_aso OR P_oso OR P_rexw OR P_rexr OR P_rexx OR P_rexb),
    ITAB UD_Icmovae O_Gv O_Ev O_NONE (P_aso OR P_oso OR P_rexw OR P_rexr OR P_rexx OR P_rexb),
    ITAB UD_Icmovz O_Gv O_Ev O_NONE (P_aso OR P_oso OR P_rexw OR P_rexr OR P_rexx OR P_rexb),
    ITAB UD_Icmovnz O_Gv O_Ev O_NONE (P_aso OR P_oso OR P_rexw OR P_rexr OR P_rexx OR P_rexb),
    ITAB UD_Icmovbe O_Gv O_Ev O_NONE (P_aso OR P_oso OR P_rexw OR P_rexr OR P_rexx OR P_rexb),
    ITAB UD_Icmova O_Gv O_Ev O_NONE (P_aso OR P_oso OR P_rexw OR P_rexr OR P_rexx OR P_rexb),
    ITAB UD_Icmovs O_Gv O_Ev O_NONE (P_aso OR P_oso OR P_rexw OR P_rexr OR P_rexx OR P_rexb),
    ITAB UD_Icmovns O_Gv O_Ev O_NONE (P_aso OR P_oso OR P_rexw OR P_rexr OR P_rexx OR P_rexb),
    ITAB UD_Icmovp O_Gv O_Ev O_NONE (P_aso OR P_oso OR P_rexw OR P_rexr OR P_rexx OR P_rexb),
    ITAB UD_Icmovnp O_Gv O_Ev O_NONE (P_aso OR P_oso OR P_rexw OR P_rexr OR P_rexx OR P_rexb),
    ITAB UD_Icmovl O_Gv O_Ev O_NONE (P_aso OR P_oso OR P_rexw OR P_rexr OR P_rexx OR P_rexb),
    ITAB UD_Icmovge O_Gv O_Ev O_NONE (P_aso OR P_oso OR P_rexw OR P_rexr OR P_rexx OR P_rexb),
    ITAB UD_Icmovle O_Gv O_Ev O_NONE (P_aso OR P_oso OR P_rexw OR P_rexr OR P_rexx OR P_rexb),
    ITAB UD_Icmovg O_Gv O_Ev O_NONE (P_aso OR P_oso OR P_rexw OR P_rexr OR P_rexx OR P_rexb),
    ITAB UD_Imovmskps O_Gd O_U O_NONE (P_oso OR P_rexr OR P_rexb),
    ITAB UD_Imovmskpd O_Gd O_U O_NONE (P_oso OR P_rexr OR P_rexb),
    ITAB UD_Isqrtps O_V O_W O_NONE (P_aso OR P_rexr OR P_rexx OR P_rexb),
    ITAB UD_Isqrtsd O_V O_W O_NONE (P_aso OR P_rexr OR P_rexx OR P_rexb),
    ITAB UD_Isqrtss O_V O_W O_NONE (P_aso OR P_rexr OR P_rexx OR P_rexb),
    ITAB UD_Isqrtpd O_V O_W O_NONE (P_aso OR P_rexr OR P_rexx OR P_rexb),
    ITAB UD_Irsqrtps O_V O_W O_NONE (P_aso OR P_rexr OR P_rexx OR P_rexb),
    ITAB UD_Irsqrtss O_V O_W O_NONE (P_aso OR P_rexr OR P_rexx OR P_rexb),
    ITAB UD_Ircpps O_V O_W O_NONE (P_aso OR P_rexr OR P_rexx OR P_rexb),
    ITAB UD_Ircpss O_V O_W O_NONE (P_aso OR P_rexr OR P_rexx OR P_rexb),
    ITAB UD_Iandps O_V O_W O_NONE (P_aso OR P_rexr OR P_rexx OR P_rexb)]"

definition itab_part2 :: "ud_itab_entry list" where [itab_part]:
  "itab_part2 = [
    ITAB UD_Iandpd O_V O_W O_NONE (P_aso OR P_rexr OR P_rexx OR P_rexb),
    ITAB UD_Iandnps O_V O_W O_NONE (P_aso OR P_rexr OR P_rexx OR P_rexb),
    ITAB UD_Iandnpd O_V O_W O_NONE (P_aso OR P_rexr OR P_rexx OR P_rexb),
    ITAB UD_Iorps O_V O_W O_NONE (P_aso OR P_rexr OR P_rexx OR P_rexb),
    ITAB UD_Iorpd O_V O_W O_NONE (P_aso OR P_rexr OR P_rexx OR P_rexb),
    ITAB UD_Ixorps O_V O_W O_NONE (P_aso OR P_rexr OR P_rexx OR P_rexb),
    ITAB UD_Ixorpd O_V O_W O_NONE (P_aso OR P_rexr OR P_rexx OR P_rexb),
    ITAB UD_Iaddps O_V O_W O_NONE (P_aso OR P_rexr OR P_rexx OR P_rexb),
    ITAB UD_Iaddsd O_V O_W O_NONE (P_aso OR P_rexr OR P_rexx OR P_rexb),
    ITAB UD_Iaddss O_V O_W O_NONE (P_aso OR P_rexr OR P_rexx OR P_rexb),
    ITAB UD_Iaddpd O_V O_W O_NONE (P_aso OR P_rexr OR P_rexx OR P_rexb),
    ITAB UD_Imulps O_V O_W O_NONE (P_aso OR P_rexr OR P_rexx OR P_rexb),
    ITAB UD_Imulsd O_V O_W O_NONE (P_aso OR P_rexr OR P_rexx OR P_rexb),
    ITAB UD_Imulss O_V O_W O_NONE (P_aso OR P_rexr OR P_rexx OR P_rexb),
    ITAB UD_Imulpd O_V O_W O_NONE (P_aso OR P_rexr OR P_rexx OR P_rexb),
    ITAB UD_Icvtps2pd O_V O_W O_NONE (P_aso OR P_rexr OR P_rexx OR P_rexb),
    ITAB UD_Icvtsd2ss O_V O_W O_NONE (P_aso OR P_rexr OR P_rexx OR P_rexb),
    ITAB UD_Icvtss2sd O_V O_W O_NONE (P_aso OR P_rexr OR P_rexx OR P_rexb),
    ITAB UD_Icvtpd2ps O_V O_W O_NONE (P_aso OR P_rexr OR P_rexx OR P_rexb),
    ITAB UD_Icvtdq2ps O_V O_W O_NONE (P_aso OR P_rexr OR P_rexx OR P_rexb),
    ITAB UD_Icvttps2dq O_V O_W O_NONE (P_aso OR P_rexr OR P_rexx OR P_rexb),
    ITAB UD_Icvtps2dq O_V O_W O_NONE (P_aso OR P_rexr OR P_rexx OR P_rexb),
    ITAB UD_Isubps O_V O_W O_NONE (P_aso OR P_rexr OR P_rexx OR P_rexb),
    ITAB UD_Isubsd O_V O_W O_NONE (P_aso OR P_rexr OR P_rexx OR P_rexb),
    ITAB UD_Isubss O_V O_W O_NONE (P_aso OR P_rexr OR P_rexx OR P_rexb),
    ITAB UD_Isubpd O_V O_W O_NONE (P_aso OR P_rexr OR P_rexx OR P_rexb),
    ITAB UD_Iminps O_V O_W O_NONE (P_aso OR P_rexr OR P_rexx OR P_rexb),
    ITAB UD_Iminsd O_V O_W O_NONE (P_aso OR P_rexr OR P_rexx OR P_rexb),
    ITAB UD_Iminss O_V O_W O_NONE (P_aso OR P_rexr OR P_rexx OR P_rexb),
    ITAB UD_Iminpd O_V O_W O_NONE (P_aso OR P_rexr OR P_rexx OR P_rexb),
    ITAB UD_Idivps O_V O_W O_NONE (P_aso OR P_rexr OR P_rexx OR P_rexb),
    ITAB UD_Idivsd O_V O_W O_NONE (P_aso OR P_rexr OR P_rexx OR P_rexb),
    ITAB UD_Idivss O_V O_W O_NONE (P_aso OR P_rexr OR P_rexx OR P_rexb),
    ITAB UD_Idivpd O_V O_W O_NONE (P_aso OR P_rexr OR P_rexx OR P_rexb),
    ITAB UD_Imaxps O_V O_W O_NONE (P_aso OR P_rexr OR P_rexx OR P_rexb),
    ITAB UD_Imaxsd O_V O_W O_NONE (P_aso OR P_rexr OR P_rexx OR P_rexb),
    ITAB UD_Imaxss O_V O_W O_NONE (P_aso OR P_rexr OR P_rexx OR P_rexb),
    ITAB UD_Imaxpd O_V O_W O_NONE (P_aso OR P_rexr OR P_rexx OR P_rexb),
    ITAB UD_Ipunpcklbw O_P O_Q O_NONE (P_aso OR P_rexr OR P_rexx OR P_rexb),
    ITAB UD_Ipunpcklbw O_V O_W O_NONE (P_aso OR P_rexr OR P_rexx OR P_rexb),
    ITAB UD_Ipunpcklwd O_P O_Q O_NONE (P_aso OR P_rexr OR P_rexx OR P_rexb),
    ITAB UD_Ipunpcklwd O_V O_W O_NONE (P_aso OR P_rexr OR P_rexx OR P_rexb),
    ITAB UD_Ipunpckldq O_P O_Q O_NONE (P_aso OR P_rexr OR P_rexx OR P_rexb),
    ITAB UD_Ipunpckldq O_V O_W O_NONE (P_aso OR P_rexr OR P_rexx OR P_rexb),
    ITAB UD_Ipacksswb O_P O_Q O_NONE (P_aso OR P_rexr OR P_rexx OR P_rexb),
    ITAB UD_Ipacksswb O_V O_W O_NONE (P_aso OR P_rexr OR P_rexx OR P_rexb),
    ITAB UD_Ipcmpgtb O_P O_Q O_NONE (P_aso OR P_rexr OR P_rexx OR P_rexb),
    ITAB UD_Ipcmpgtb O_V O_W O_NONE (P_aso OR P_rexr OR P_rexx OR P_rexb),
    ITAB UD_Ipcmpgtw O_P O_Q O_NONE (P_aso OR P_rexr OR P_rexx OR P_rexb),
    ITAB UD_Ipcmpgtw O_V O_W O_NONE (P_aso OR P_rexr OR P_rexx OR P_rexb),
    ITAB UD_Ipcmpgtd O_P O_Q O_NONE (P_aso OR P_rexr OR P_rexx OR P_rexb),
    ITAB UD_Ipcmpgtd O_V O_W O_NONE (P_aso OR P_rexr OR P_rexx OR P_rexb),
    ITAB UD_Ipackuswb O_P O_Q O_NONE (P_aso OR P_rexr OR P_rexx OR P_rexb),
    ITAB UD_Ipackuswb O_V O_W O_NONE (P_aso OR P_rexr OR P_rexx OR P_rexb),
    ITAB UD_Ipunpckhbw O_P O_Q O_NONE (P_aso OR P_rexr OR P_rexx OR P_rexb),
    ITAB UD_Ipunpckhbw O_V O_W O_NONE (P_aso OR P_rexr OR P_rexx OR P_rexb),
    ITAB UD_Ipunpckhwd O_P O_Q O_NONE (P_aso OR P_rexr OR P_rexx OR P_rexb),
    ITAB UD_Ipunpckhwd O_V O_W O_NONE (P_aso OR P_rexr OR P_rexx OR P_rexb),
    ITAB UD_Ipunpckhdq O_P O_Q O_NONE (P_aso OR P_rexr OR P_rexx OR P_rexb),
    ITAB UD_Ipunpckhdq O_V O_W O_NONE (P_aso OR P_rexr OR P_rexx OR P_rexb),
    ITAB UD_Ipackssdw O_P O_Q O_NONE (P_aso OR P_rexr OR P_rexx OR P_rexb),
    ITAB UD_Ipackssdw O_V O_W O_NONE (P_aso OR P_rexr OR P_rexx OR P_rexb),
    ITAB UD_Ipunpcklqdq O_V O_W O_NONE (P_aso OR P_rexr OR P_rexx OR P_rexb),
    ITAB UD_Ipunpckhqdq O_V O_W O_NONE (P_aso OR P_rexr OR P_rexx OR P_rexb),
    ITAB UD_Imovd O_P O_Ey O_NONE (P_aso OR P_rexw OR P_rexr OR P_rexx OR P_rexb),
    ITAB UD_Imovd O_V O_Ey O_NONE (P_aso OR P_rexw OR P_rexr OR P_rexx OR P_rexb),
    ITAB UD_Imovq O_P O_Q O_NONE (P_aso OR P_rexr OR P_rexx OR P_rexb),
    ITAB UD_Imovdqu O_V O_W O_NONE (P_aso OR P_rexr OR P_rexx OR P_rexb),
    ITAB UD_Imovdqa O_V O_W O_NONE (P_aso OR P_rexr OR P_rexx OR P_rexb),
    ITAB UD_Ipshufw O_P O_Q O_Ib (P_aso OR P_rexr OR P_rexx OR P_rexb),
    ITAB UD_Ipshuflw O_V O_W O_Ib (P_aso OR P_rexr OR P_rexx OR P_rexb),
    ITAB UD_Ipshufhw O_V O_W O_Ib (P_aso OR P_rexr OR P_rexx OR P_rexb),
    ITAB UD_Ipshufd O_V O_W O_Ib (P_aso OR P_rexr OR P_rexx OR P_rexb),
    ITAB UD_Ipsrlw O_N O_Ib O_NONE P_none,
    ITAB UD_Ipsrlw O_U O_Ib O_NONE P_rexb,
    ITAB UD_Ipsraw O_N O_Ib O_NONE P_none,
    ITAB UD_Ipsraw O_U O_Ib O_NONE P_rexb,
    ITAB UD_Ipsllw O_N O_Ib O_NONE P_none,
    ITAB UD_Ipsllw O_U O_Ib O_NONE P_rexb,
    ITAB UD_Ipsrld O_N O_Ib O_NONE P_none,
    ITAB UD_Ipsrld O_U O_Ib O_NONE P_rexb,
    ITAB UD_Ipsrad O_N O_Ib O_NONE P_none,
    ITAB UD_Ipsrad O_U O_Ib O_NONE P_rexb,
    ITAB UD_Ipslld O_N O_Ib O_NONE P_none,
    ITAB UD_Ipslld O_U O_Ib O_NONE P_rexb,
    ITAB UD_Ipsrlq O_N O_Ib O_NONE P_none,
    ITAB UD_Ipsrlq O_U O_Ib O_NONE P_rexb,
    ITAB UD_Ipsrldq O_U O_Ib O_NONE P_rexb,
    ITAB UD_Ipsllq O_N O_Ib O_NONE P_none,
    ITAB UD_Ipsllq O_U O_Ib O_NONE P_rexb,
    ITAB UD_Ipslldq O_U O_Ib O_NONE P_rexb,
    ITAB UD_Ipcmpeqb O_P O_Q O_NONE (P_aso OR P_rexr OR P_rexx OR P_rexb),
    ITAB UD_Ipcmpeqb O_V O_W O_NONE (P_aso OR P_rexr OR P_rexx OR P_rexb),
    ITAB UD_Ipcmpeqw O_P O_Q O_NONE (P_aso OR P_rexr OR P_rexx OR P_rexb),
    ITAB UD_Ipcmpeqw O_V O_W O_NONE (P_aso OR P_rexr OR P_rexx OR P_rexb),
    ITAB UD_Ipcmpeqd O_P O_Q O_NONE (P_aso OR P_rexr OR P_rexx OR P_rexb),
    ITAB UD_Ipcmpeqd O_V O_W O_NONE (P_aso OR P_rexr OR P_rexx OR P_rexb),
    ITAB UD_Iemms O_NONE O_NONE O_NONE P_none,
    ITAB UD_Ivmread O_Ey O_Gy O_NONE (P_aso OR P_rexr OR P_rexx OR P_rexb OR P_def64),
    ITAB UD_Ivmwrite O_Gy O_Ey O_NONE (P_aso OR P_rexr OR P_rexx OR P_rexb OR P_def64),
    ITAB UD_Ihaddps O_V O_W O_NONE (P_aso OR P_rexr OR P_rexx OR P_rexb),
    ITAB UD_Ihaddpd O_V O_W O_NONE (P_aso OR P_rexr OR P_rexx OR P_rexb),
    ITAB UD_Ihsubps O_V O_W O_NONE (P_aso OR P_rexr OR P_rexx OR P_rexb),
    ITAB UD_Ihsubpd O_V O_W O_NONE (P_aso OR P_rexr OR P_rexx OR P_rexb),
    ITAB UD_Imovd O_Ey O_P O_NONE (P_aso OR P_rexw OR P_rexr OR P_rexx OR P_rexb),
    ITAB UD_Imovq O_V O_W O_NONE (P_aso OR P_rexr OR P_rexx OR P_rexb),
    ITAB UD_Imovd O_Ey O_V O_NONE (P_aso OR P_rexw OR P_rexr OR P_rexx OR P_rexb),
    ITAB UD_Imovq O_Q O_P O_NONE (P_aso OR P_rexr OR P_rexx OR P_rexb),
    ITAB UD_Imovdqu O_W O_V O_NONE (P_aso OR P_rexr OR P_rexx OR P_rexb),
    ITAB UD_Imovdqa O_W O_V O_NONE (P_aso OR P_rexr OR P_rexx OR P_rexb),
    ITAB UD_Ijo O_Jz O_NONE O_NONE (P_oso OR P_def64),
    ITAB UD_Ijno O_Jz O_NONE O_NONE (P_oso OR P_def64),
    ITAB UD_Ijb O_Jz O_NONE O_NONE (P_oso OR P_def64),
    ITAB UD_Ijae O_Jz O_NONE O_NONE (P_oso OR P_def64),
    ITAB UD_Ijz O_Jz O_NONE O_NONE (P_oso OR P_def64),
    ITAB UD_Ijnz O_Jz O_NONE O_NONE (P_oso OR P_def64),
    ITAB UD_Ijbe O_Jz O_NONE O_NONE (P_oso OR P_def64),
    ITAB UD_Ija O_Jz O_NONE O_NONE (P_oso OR P_def64),
    ITAB UD_Ijs O_Jz O_NONE O_NONE (P_oso OR P_def64),
    ITAB UD_Ijns O_Jz O_NONE O_NONE (P_oso OR P_def64),
    ITAB UD_Ijp O_Jz O_NONE O_NONE (P_oso OR P_def64),
    ITAB UD_Ijnp O_Jz O_NONE O_NONE (P_oso OR P_def64),
    ITAB UD_Ijl O_Jz O_NONE O_NONE (P_oso OR P_def64),
    ITAB UD_Ijge O_Jz O_NONE O_NONE (P_oso OR P_def64),
    ITAB UD_Ijle O_Jz O_NONE O_NONE (P_oso OR P_def64),
    ITAB UD_Ijg O_Jz O_NONE O_NONE (P_oso OR P_def64),
    ITAB UD_Iseto O_Eb O_NONE O_NONE (P_aso OR P_rexr OR P_rexx OR P_rexb),
    ITAB UD_Isetno O_Eb O_NONE O_NONE (P_aso OR P_rexr OR P_rexx OR P_rexb),
    ITAB UD_Isetb O_Eb O_NONE O_NONE (P_aso OR P_rexr OR P_rexx OR P_rexb),
    ITAB UD_Isetae O_Eb O_NONE O_NONE (P_aso OR P_rexr OR P_rexx OR P_rexb),
    ITAB UD_Isetz O_Eb O_NONE O_NONE (P_aso OR P_rexr OR P_rexx OR P_rexb),
    ITAB UD_Isetnz O_Eb O_NONE O_NONE (P_aso OR P_rexr OR P_rexx OR P_rexb),
    ITAB UD_Isetbe O_Eb O_NONE O_NONE (P_aso OR P_rexr OR P_rexx OR P_rexb),
    ITAB UD_Iseta O_Eb O_NONE O_NONE (P_aso OR P_rexr OR P_rexx OR P_rexb),
    ITAB UD_Isets O_Eb O_NONE O_NONE (P_aso OR P_rexr OR P_rexx OR P_rexb),
    ITAB UD_Isetns O_Eb O_NONE O_NONE (P_aso OR P_rexr OR P_rexx OR P_rexb),
    ITAB UD_Isetp O_Eb O_NONE O_NONE (P_aso OR P_rexr OR P_rexx OR P_rexb),
    ITAB UD_Isetnp O_Eb O_NONE O_NONE (P_aso OR P_rexr OR P_rexx OR P_rexb),
    ITAB UD_Isetl O_Eb O_NONE O_NONE (P_aso OR P_rexr OR P_rexx OR P_rexb),
    ITAB UD_Isetge O_Eb O_NONE O_NONE (P_aso OR P_rexr OR P_rexx OR P_rexb),
    ITAB UD_Isetle O_Eb O_NONE O_NONE (P_aso OR P_rexr OR P_rexx OR P_rexb),
    ITAB UD_Isetg O_Eb O_NONE O_NONE (P_aso OR P_rexr OR P_rexx OR P_rexb),
    ITAB UD_Ipush O_FS O_NONE O_NONE P_none,
    ITAB UD_Ipop O_FS O_NONE O_NONE P_none,
    ITAB UD_Icpuid O_NONE O_NONE O_NONE P_none,
    ITAB UD_Ibt O_Ev O_Gv O_NONE (P_aso OR P_oso OR P_rexw OR P_rexr OR P_rexx OR P_rexb)]"

definition itab_part3 :: "ud_itab_entry list" where [itab_part]:
  "itab_part3 = [
    ITAB UD_Ishld O_Ev O_Gv O_Ib (P_aso OR P_oso OR P_rexw OR P_rexr OR P_rexx OR P_rexb),
    ITAB UD_Ishld O_Ev O_Gv O_CL (P_aso OR P_oso OR P_rexw OR P_rexr OR P_rexx OR P_rexb),
    ITAB UD_Imontmul O_NONE O_NONE O_NONE P_none,
    ITAB UD_Ixsha1 O_NONE O_NONE O_NONE P_none,
    ITAB UD_Ixsha256 O_NONE O_NONE O_NONE P_none,
    ITAB UD_Ixstore O_NONE O_NONE O_NONE P_none,
    ITAB UD_Ixcryptecb O_NONE O_NONE O_NONE P_none,
    ITAB UD_Ixcryptcbc O_NONE O_NONE O_NONE P_none,
    ITAB UD_Ixcryptctr O_NONE O_NONE O_NONE P_none,
    ITAB UD_Ixcryptcfb O_NONE O_NONE O_NONE P_none,
    ITAB UD_Ixcryptofb O_NONE O_NONE O_NONE P_none,
    ITAB UD_Ipush O_GS O_NONE O_NONE P_none,
    ITAB UD_Ipop O_GS O_NONE O_NONE P_none,
    ITAB UD_Irsm O_NONE O_NONE O_NONE P_none,
    ITAB UD_Ibts O_Ev O_Gv O_NONE (P_aso OR P_oso OR P_rexw OR P_rexr OR P_rexx OR P_rexb),
    ITAB UD_Ishrd O_Ev O_Gv O_Ib (P_aso OR P_oso OR P_rexw OR P_rexr OR P_rexx OR P_rexb),
    ITAB UD_Ishrd O_Ev O_Gv O_CL (P_aso OR P_oso OR P_rexw OR P_rexr OR P_rexx OR P_rexb),
    ITAB UD_Ifxsave O_M O_NONE O_NONE (P_aso OR P_rexw OR P_rexr OR P_rexx OR P_rexb),
    ITAB UD_Ifxrstor O_M O_NONE O_NONE (P_aso OR P_rexw OR P_rexr OR P_rexx OR P_rexb),
    ITAB UD_Ildmxcsr O_Md O_NONE O_NONE (P_aso OR P_rexw OR P_rexr OR P_rexx OR P_rexb),
    ITAB UD_Istmxcsr O_Md O_NONE O_NONE (P_aso OR P_rexw OR P_rexr OR P_rexx OR P_rexb),
    ITAB UD_Ixsave O_M O_NONE O_NONE (P_aso OR P_rexw OR P_rexr OR P_rexx OR P_rexb),
    ITAB UD_Ixrstor O_M O_NONE O_NONE (P_aso OR P_rexw OR P_rexr OR P_rexx OR P_rexb),
    ITAB UD_Iclflush O_M O_NONE O_NONE (P_aso OR P_rexw OR P_rexr OR P_rexx OR P_rexb),
    ITAB UD_Ilfence O_NONE O_NONE O_NONE P_none,
    ITAB UD_Ilfence O_NONE O_NONE O_NONE P_none,
    ITAB UD_Ilfence O_NONE O_NONE O_NONE P_none,
    ITAB UD_Ilfence O_NONE O_NONE O_NONE P_none,
    ITAB UD_Ilfence O_NONE O_NONE O_NONE P_none,
    ITAB UD_Ilfence O_NONE O_NONE O_NONE P_none,
    ITAB UD_Ilfence O_NONE O_NONE O_NONE P_none,
    ITAB UD_Ilfence O_NONE O_NONE O_NONE P_none,
    ITAB UD_Imfence O_NONE O_NONE O_NONE P_none,
    ITAB UD_Imfence O_NONE O_NONE O_NONE P_none,
    ITAB UD_Imfence O_NONE O_NONE O_NONE P_none,
    ITAB UD_Imfence O_NONE O_NONE O_NONE P_none,
    ITAB UD_Imfence O_NONE O_NONE O_NONE P_none,
    ITAB UD_Imfence O_NONE O_NONE O_NONE P_none,
    ITAB UD_Imfence O_NONE O_NONE O_NONE P_none,
    ITAB UD_Imfence O_NONE O_NONE O_NONE P_none,
    ITAB UD_Isfence O_NONE O_NONE O_NONE P_none,
    ITAB UD_Isfence O_NONE O_NONE O_NONE P_none,
    ITAB UD_Isfence O_NONE O_NONE O_NONE P_none,
    ITAB UD_Isfence O_NONE O_NONE O_NONE P_none,
    ITAB UD_Isfence O_NONE O_NONE O_NONE P_none,
    ITAB UD_Isfence O_NONE O_NONE O_NONE P_none,
    ITAB UD_Isfence O_NONE O_NONE O_NONE P_none,
    ITAB UD_Isfence O_NONE O_NONE O_NONE P_none,
    ITAB UD_Iimul O_Gv O_Ev O_NONE (P_aso OR P_oso OR P_rexw OR P_rexr OR P_rexx OR P_rexb),
    ITAB UD_Icmpxchg O_Eb O_Gb O_NONE (P_aso OR P_rexr OR P_rexx OR P_rexb),
    ITAB UD_Icmpxchg O_Ev O_Gv O_NONE (P_aso OR P_oso OR P_rexw OR P_rexr OR P_rexx OR P_rexb),
    ITAB UD_Ilss O_Gv O_M O_NONE (P_aso OR P_oso OR P_rexw OR P_rexr OR P_rexx OR P_rexb),
    ITAB UD_Ibtr O_Ev O_Gv O_NONE (P_aso OR P_oso OR P_rexw OR P_rexr OR P_rexx OR P_rexb),
    ITAB UD_Ilfs O_Gz O_M O_NONE (P_aso OR P_oso OR P_rexw OR P_rexr OR P_rexx OR P_rexb),
    ITAB UD_Ilgs O_Gz O_M O_NONE (P_aso OR P_oso OR P_rexw OR P_rexr OR P_rexx OR P_rexb),
    ITAB UD_Imovzx O_Gv O_Eb O_NONE (P_aso OR P_oso OR P_rexw OR P_rexr OR P_rexx OR P_rexb),
    ITAB UD_Imovzx O_Gy O_Ew O_NONE (P_aso OR P_oso OR P_rexw OR P_rexr OR P_rexx OR P_rexb),
    ITAB UD_Ipopcnt O_Gv O_Ev O_NONE (P_aso OR P_oso OR P_rexr OR P_rexw OR P_rexx OR P_rexb),
    ITAB UD_Ibt O_Ev O_Ib O_NONE (P_aso OR P_oso OR P_rexw OR P_rexr OR P_rexx OR P_rexb),
    ITAB UD_Ibts O_Ev O_Ib O_NONE (P_aso OR P_oso OR P_rexw OR P_rexr OR P_rexx OR P_rexb),
    ITAB UD_Ibtr O_Ev O_Ib O_NONE (P_aso OR P_oso OR P_rexw OR P_rexr OR P_rexx OR P_rexb),
    ITAB UD_Ibtc O_Ev O_Ib O_NONE (P_aso OR P_oso OR P_rexw OR P_rexr OR P_rexx OR P_rexb),
    ITAB UD_Ibtc O_Ev O_Gv O_NONE (P_aso OR P_oso OR P_rexw OR P_rexr OR P_rexx OR P_rexb),
    ITAB UD_Ibsf O_Gv O_Ev O_NONE (P_aso OR P_oso OR P_rexw OR P_rexr OR P_rexx OR P_rexb),
    ITAB UD_Ibsr O_Gv O_Ev O_NONE (P_aso OR P_oso OR P_rexw OR P_rexr OR P_rexx OR P_rexb),
    ITAB UD_Imovsx O_Gv O_Eb O_NONE (P_aso OR P_oso OR P_rexw OR P_rexr OR P_rexx OR P_rexb),
    ITAB UD_Imovsx O_Gy O_Ew O_NONE (P_aso OR P_oso OR P_rexw OR P_rexr OR P_rexx OR P_rexb),
    ITAB UD_Ixadd O_Eb O_Gb O_NONE (P_aso OR P_oso OR P_rexr OR P_rexx OR P_rexb),
    ITAB UD_Ixadd O_Ev O_Gv O_NONE (P_aso OR P_oso OR P_rexw OR P_rexr OR P_rexx OR P_rexb),
    ITAB UD_Icmpps O_V O_W O_Ib (P_aso OR P_rexr OR P_rexx OR P_rexb),
    ITAB UD_Icmpsd O_V O_W O_Ib (P_aso OR P_rexr OR P_rexx OR P_rexb),
    ITAB UD_Icmpss O_V O_W O_Ib (P_aso OR P_rexr OR P_rexx OR P_rexb),
    ITAB UD_Icmppd O_V O_W O_Ib (P_aso OR P_rexr OR P_rexx OR P_rexb),
    ITAB UD_Imovnti O_M O_Gy O_NONE (P_aso OR P_rexw OR P_rexr OR P_rexx OR P_rexb),
    ITAB UD_Ipinsrw O_P O_MwRy O_Ib (P_aso OR P_rexw OR P_rexr OR P_rexx OR P_rexb OR P_def64),
    ITAB UD_Ipinsrw O_V O_MwRy O_Ib (P_aso OR P_rexw OR P_rexr OR P_rexx OR P_rexb OR P_def64),
    ITAB UD_Ipextrw O_Gd O_N O_Ib (P_aso OR P_oso OR P_rexw OR P_rexr OR P_rexx OR P_rexb),
    ITAB UD_Ipextrw O_Gd O_U O_Ib (P_aso OR P_rexr OR P_rexb),
    ITAB UD_Ishufps O_V O_W O_Ib (P_aso OR P_rexr OR P_rexx OR P_rexb),
    ITAB UD_Ishufpd O_V O_W O_Ib (P_aso OR P_rexr OR P_rexx OR P_rexb),
    ITAB UD_Icmpxchg8b O_M O_NONE O_NONE (P_aso OR P_rexr OR P_rexx OR P_rexb),
    ITAB UD_Icmpxchg8b O_M O_NONE O_NONE (P_aso OR P_rexr OR P_rexx OR P_rexb),
    ITAB UD_Icmpxchg16b O_M O_NONE O_NONE (P_aso OR P_rexr OR P_rexx OR P_rexb),
    ITAB UD_Ivmptrld O_Mq O_NONE O_NONE (P_aso OR P_rexr OR P_rexx OR P_rexb),
    ITAB UD_Ivmxon O_Mq O_NONE O_NONE (P_aso OR P_rexr OR P_rexx OR P_rexb),
    ITAB UD_Ivmclear O_Mq O_NONE O_NONE (P_aso OR P_rexr OR P_rexx OR P_rexb),
    ITAB UD_Ivmptrst O_Mq O_NONE O_NONE (P_aso OR P_rexr OR P_rexx OR P_rexb),
    ITAB UD_Ibswap O_R0y O_NONE O_NONE (P_oso OR P_rexw OR P_rexb),
    ITAB UD_Ibswap O_R1y O_NONE O_NONE (P_oso OR P_rexw OR P_rexb),
    ITAB UD_Ibswap O_R2y O_NONE O_NONE (P_oso OR P_rexw OR P_rexb),
    ITAB UD_Ibswap O_R3y O_NONE O_NONE (P_oso OR P_rexw OR P_rexb),
    ITAB UD_Ibswap O_R4y O_NONE O_NONE (P_oso OR P_rexw OR P_rexb),
    ITAB UD_Ibswap O_R5y O_NONE O_NONE (P_oso OR P_rexw OR P_rexb),
    ITAB UD_Ibswap O_R6y O_NONE O_NONE (P_oso OR P_rexw OR P_rexb),
    ITAB UD_Ibswap O_R7y O_NONE O_NONE (P_oso OR P_rexw OR P_rexb),
    ITAB UD_Iaddsubps O_V O_W O_NONE (P_aso OR P_rexr OR P_rexx OR P_rexb),
    ITAB UD_Iaddsubpd O_V O_W O_NONE (P_aso OR P_rexr OR P_rexx OR P_rexb),
    ITAB UD_Ipsrlw O_P O_Q O_NONE (P_aso OR P_rexr OR P_rexx OR P_rexb),
    ITAB UD_Ipsrlw O_V O_W O_NONE (P_aso OR P_rexr OR P_rexx OR P_rexb),
    ITAB UD_Ipsrld O_P O_Q O_NONE (P_aso OR P_rexr OR P_rexx OR P_rexb),
    ITAB UD_Ipsrld O_V O_W O_NONE (P_aso OR P_rexr OR P_rexx OR P_rexb),
    ITAB UD_Ipsrlq O_P O_Q O_NONE (P_aso OR P_rexr OR P_rexx OR P_rexb),
    ITAB UD_Ipsrlq O_V O_W O_NONE (P_aso OR P_rexr OR P_rexx OR P_rexb),
    ITAB UD_Ipaddq O_P O_Q O_NONE (P_aso OR P_rexr OR P_rexx OR P_rexb),
    ITAB UD_Ipaddq O_V O_W O_NONE (P_aso OR P_rexr OR P_rexx OR P_rexb),
    ITAB UD_Ipmullw O_P O_Q O_NONE (P_aso OR P_rexr OR P_rexx OR P_rexb),
    ITAB UD_Ipmullw O_V O_W O_NONE (P_aso OR P_rexr OR P_rexx OR P_rexb),
    ITAB UD_Imovdq2q O_P O_U O_NONE (P_aso OR P_rexb),
    ITAB UD_Imovq2dq O_V O_N O_NONE (P_aso OR P_rexr),
    ITAB UD_Imovq O_W O_V O_NONE (P_aso OR P_rexr OR P_rexx OR P_rexb),
    ITAB UD_Ipmovmskb O_Gd O_N O_NONE (P_oso OR P_rexr OR P_rexb),
    ITAB UD_Ipmovmskb O_Gd O_U O_NONE (P_rexr OR P_rexb),
    ITAB UD_Ipsubusb O_P O_Q O_NONE (P_aso OR P_rexr OR P_rexx OR P_rexb),
    ITAB UD_Ipsubusb O_V O_W O_NONE (P_aso OR P_rexr OR P_rexx OR P_rexb),
    ITAB UD_Ipsubusw O_P O_Q O_NONE (P_aso OR P_rexr OR P_rexx OR P_rexb),
    ITAB UD_Ipsubusw O_V O_W O_NONE (P_aso OR P_rexr OR P_rexx OR P_rexb),
    ITAB UD_Ipminub O_P O_Q O_NONE (P_aso OR P_rexr OR P_rexx OR P_rexb),
    ITAB UD_Ipminub O_V O_W O_NONE (P_aso OR P_rexr OR P_rexx OR P_rexb),
    ITAB UD_Ipand O_P O_Q O_NONE (P_aso OR P_rexr OR P_rexx OR P_rexb),
    ITAB UD_Ipand O_V O_W O_NONE (P_aso OR P_rexr OR P_rexx OR P_rexb),
    ITAB UD_Ipaddusb O_P O_Q O_NONE (P_aso OR P_rexr OR P_rexx OR P_rexb),
    ITAB UD_Ipaddusb O_V O_W O_NONE (P_aso OR P_rexr OR P_rexx OR P_rexb),
    ITAB UD_Ipaddusw O_P O_Q O_NONE (P_aso OR P_rexr OR P_rexx OR P_rexb),
    ITAB UD_Ipaddusw O_V O_W O_NONE (P_aso OR P_rexr OR P_rexx OR P_rexb),
    ITAB UD_Ipmaxub O_P O_Q O_NONE (P_aso OR P_rexr OR P_rexx OR P_rexb),
    ITAB UD_Ipmaxub O_V O_W O_NONE (P_aso OR P_rexr OR P_rexx OR P_rexb),
    ITAB UD_Ipandn O_P O_Q O_NONE (P_aso OR P_rexr OR P_rexx OR P_rexb),
    ITAB UD_Ipandn O_V O_W O_NONE (P_aso OR P_rexr OR P_rexx OR P_rexb),
    ITAB UD_Ipavgb O_P O_Q O_NONE (P_aso OR P_rexr OR P_rexx OR P_rexb),
    ITAB UD_Ipavgb O_V O_W O_NONE (P_aso OR P_rexr OR P_rexx OR P_rexb),
    ITAB UD_Ipsraw O_P O_Q O_NONE (P_aso OR P_rexr OR P_rexx OR P_rexb),
    ITAB UD_Ipsraw O_V O_W O_NONE (P_aso OR P_rexr OR P_rexx OR P_rexb),
    ITAB UD_Ipsrad O_P O_Q O_NONE (P_aso OR P_rexr OR P_rexx OR P_rexb),
    ITAB UD_Ipsrad O_V O_W O_NONE (P_aso OR P_rexr OR P_rexx OR P_rexb),
    ITAB UD_Ipavgw O_P O_Q O_NONE (P_aso OR P_rexr OR P_rexx OR P_rexb),
    ITAB UD_Ipavgw O_V O_W O_NONE (P_aso OR P_rexr OR P_rexx OR P_rexb),
    ITAB UD_Ipmulhuw O_P O_Q O_NONE (P_aso OR P_rexr OR P_rexx OR P_rexb),
    ITAB UD_Ipmulhuw O_V O_W O_NONE (P_aso OR P_rexr OR P_rexx OR P_rexb),
    ITAB UD_Ipmulhw O_P O_Q O_NONE (P_aso OR P_rexr OR P_rexx OR P_rexb),
    ITAB UD_Ipmulhw O_V O_W O_NONE (P_aso OR P_rexr OR P_rexx OR P_rexb),
    ITAB UD_Icvtpd2dq O_V O_W O_NONE (P_aso OR P_rexr OR P_rexx OR P_rexb),
    ITAB UD_Icvtdq2pd O_V O_W O_NONE (P_aso OR P_rexr OR P_rexx OR P_rexb),
    ITAB UD_Icvttpd2dq O_V O_W O_NONE (P_aso OR P_rexr OR P_rexx OR P_rexb),
    ITAB UD_Imovntq O_M O_P O_NONE (P_aso OR P_rexr OR P_rexx OR P_rexb),
    ITAB UD_Imovntdq O_M O_V O_NONE (P_aso OR P_rexr OR P_rexx OR P_rexb),
    ITAB UD_Ipsubsb O_P O_Q O_NONE (P_aso OR P_rexr OR P_rexx OR P_rexb)]"

definition itab_part4 :: "ud_itab_entry list" where [itab_part]:
  "itab_part4 = [
    ITAB UD_Ipsubsb O_V O_W O_NONE (P_aso OR P_rexr OR P_rexx OR P_rexb),
    ITAB UD_Ipsubsw O_P O_Q O_NONE (P_aso OR P_rexr OR P_rexx OR P_rexb),
    ITAB UD_Ipsubsw O_V O_W O_NONE (P_aso OR P_rexr OR P_rexx OR P_rexb),
    ITAB UD_Ipminsw O_P O_Q O_NONE (P_aso OR P_rexr OR P_rexx OR P_rexb),
    ITAB UD_Ipminsw O_V O_W O_NONE (P_aso OR P_rexr OR P_rexx OR P_rexb),
    ITAB UD_Ipor O_P O_Q O_NONE (P_aso OR P_rexr OR P_rexx OR P_rexb),
    ITAB UD_Ipor O_V O_W O_NONE (P_aso OR P_rexr OR P_rexx OR P_rexb),
    ITAB UD_Ipaddsb O_P O_Q O_NONE (P_aso OR P_rexr OR P_rexx OR P_rexb),
    ITAB UD_Ipaddsb O_V O_W O_NONE (P_aso OR P_rexr OR P_rexx OR P_rexb),
    ITAB UD_Ipaddsw O_P O_Q O_NONE (P_aso OR P_rexr OR P_rexx OR P_rexb),
    ITAB UD_Ipaddsw O_V O_W O_NONE (P_aso OR P_rexr OR P_rexx OR P_rexb),
    ITAB UD_Ipmaxsw O_P O_Q O_NONE (P_aso OR P_rexr OR P_rexx OR P_rexb),
    ITAB UD_Ipmaxsw O_V O_W O_NONE (P_aso OR P_rexr OR P_rexx OR P_rexb),
    ITAB UD_Ipxor O_P O_Q O_NONE (P_aso OR P_rexr OR P_rexx OR P_rexb),
    ITAB UD_Ipxor O_V O_W O_NONE (P_aso OR P_rexr OR P_rexx OR P_rexb),
    ITAB UD_Ilddqu O_V O_M O_NONE (P_aso OR P_rexr OR P_rexx OR P_rexb),
    ITAB UD_Ipsllw O_P O_Q O_NONE (P_aso OR P_rexr OR P_rexx OR P_rexb),
    ITAB UD_Ipsllw O_V O_W O_NONE (P_aso OR P_rexr OR P_rexx OR P_rexb),
    ITAB UD_Ipslld O_P O_Q O_NONE (P_aso OR P_rexr OR P_rexx OR P_rexb),
    ITAB UD_Ipslld O_V O_W O_NONE (P_aso OR P_rexr OR P_rexx OR P_rexb),
    ITAB UD_Ipsllq O_P O_Q O_NONE (P_aso OR P_rexr OR P_rexx OR P_rexb),
    ITAB UD_Ipsllq O_V O_W O_NONE (P_aso OR P_rexr OR P_rexx OR P_rexb),
    ITAB UD_Ipmuludq O_P O_Q O_NONE (P_aso OR P_rexr OR P_rexx OR P_rexb),
    ITAB UD_Ipmuludq O_V O_W O_NONE (P_aso OR P_rexr OR P_rexx OR P_rexb),
    ITAB UD_Ipmaddwd O_P O_Q O_NONE (P_aso OR P_rexr OR P_rexx OR P_rexb),
    ITAB UD_Ipmaddwd O_V O_W O_NONE (P_aso OR P_rexr OR P_rexx OR P_rexb),
    ITAB UD_Ipsadbw O_P O_Q O_NONE (P_aso OR P_rexr OR P_rexx OR P_rexb),
    ITAB UD_Ipsadbw O_V O_W O_NONE (P_aso OR P_rexr OR P_rexx OR P_rexb),
    ITAB UD_Imaskmovq O_P O_N O_NONE (P_aso OR P_rexr OR P_rexx OR P_rexb),
    ITAB UD_Imaskmovdqu O_V O_U O_NONE (P_aso OR P_rexr OR P_rexx OR P_rexb),
    ITAB UD_Ipsubb O_P O_Q O_NONE (P_aso OR P_rexr OR P_rexx OR P_rexb),
    ITAB UD_Ipsubb O_V O_W O_NONE (P_aso OR P_rexr OR P_rexx OR P_rexb),
    ITAB UD_Ipsubw O_P O_Q O_NONE (P_aso OR P_rexr OR P_rexx OR P_rexb),
    ITAB UD_Ipsubw O_V O_W O_NONE (P_aso OR P_rexr OR P_rexx OR P_rexb),
    ITAB UD_Ipsubd O_P O_Q O_NONE (P_aso OR P_rexr OR P_rexx OR P_rexb),
    ITAB UD_Ipsubd O_V O_W O_NONE (P_aso OR P_rexr OR P_rexx OR P_rexb),
    ITAB UD_Ipsubq O_P O_Q O_NONE (P_aso OR P_rexr OR P_rexx OR P_rexb),
    ITAB UD_Ipsubq O_V O_W O_NONE (P_aso OR P_rexr OR P_rexx OR P_rexb),
    ITAB UD_Ipaddb O_P O_Q O_NONE (P_aso OR P_rexr OR P_rexx OR P_rexb),
    ITAB UD_Ipaddb O_V O_W O_NONE (P_aso OR P_rexr OR P_rexx OR P_rexb),
    ITAB UD_Ipaddw O_P O_Q O_NONE (P_aso OR P_rexr OR P_rexx OR P_rexb),
    ITAB UD_Ipaddw O_V O_W O_NONE (P_aso OR P_rexr OR P_rexx OR P_rexb),
    ITAB UD_Ipaddd O_P O_Q O_NONE (P_aso OR P_rexr OR P_rexx OR P_rexb),
    ITAB UD_Ipaddd O_V O_W O_NONE (P_aso OR P_rexr OR P_rexx OR P_rexb),
    ITAB UD_Iadc O_Eb O_Gb O_NONE (P_aso OR P_rexr OR P_rexx OR P_rexb),
    ITAB UD_Iadc O_Ev O_Gv O_NONE (P_aso OR P_oso OR P_rexw OR P_rexr OR P_rexx OR P_rexb),
    ITAB UD_Iadc O_Gb O_Eb O_NONE (P_aso OR P_rexr OR P_rexx OR P_rexb),
    ITAB UD_Iadc O_Gv O_Ev O_NONE (P_aso OR P_oso OR P_rexw OR P_rexr OR P_rexx OR P_rexb),
    ITAB UD_Iadc O_AL O_Ib O_NONE P_none,
    ITAB UD_Iadc O_rAX O_sIz O_NONE (P_oso OR P_rexw),
    ITAB UD_Ipush O_SS O_NONE O_NONE P_inv64,
    ITAB UD_Ipop O_SS O_NONE O_NONE P_inv64,
    ITAB UD_Isbb O_Eb O_Gb O_NONE (P_aso OR P_rexr OR P_rexx OR P_rexb),
    ITAB UD_Isbb O_Ev O_Gv O_NONE (P_aso OR P_oso OR P_rexw OR P_rexr OR P_rexx OR P_rexb),
    ITAB UD_Isbb O_Gb O_Eb O_NONE (P_aso OR P_rexr OR P_rexx OR P_rexb),
    ITAB UD_Isbb O_Gv O_Ev O_NONE (P_aso OR P_oso OR P_rexw OR P_rexr OR P_rexx OR P_rexb),
    ITAB UD_Isbb O_AL O_Ib O_NONE P_none,
    ITAB UD_Isbb O_rAX O_sIz O_NONE (P_oso OR P_rexw),
    ITAB UD_Ipush O_DS O_NONE O_NONE P_inv64,
    ITAB UD_Ipop O_DS O_NONE O_NONE P_inv64,
    ITAB UD_Iand O_Eb O_Gb O_NONE (P_aso OR P_rexr OR P_rexx OR P_rexb),
    ITAB UD_Iand O_Ev O_Gv O_NONE (P_aso OR P_oso OR P_rexw OR P_rexr OR P_rexx OR P_rexb),
    ITAB UD_Iand O_Gb O_Eb O_NONE (P_aso OR P_rexr OR P_rexx OR P_rexb),
    ITAB UD_Iand O_Gv O_Ev O_NONE (P_aso OR P_oso OR P_rexw OR P_rexr OR P_rexx OR P_rexb),
    ITAB UD_Iand O_AL O_Ib O_NONE P_none,
    ITAB UD_Iand O_rAX O_sIz O_NONE (P_oso OR P_rexw),
    ITAB UD_Idaa O_NONE O_NONE O_NONE P_inv64,
    ITAB UD_Isub O_Eb O_Gb O_NONE (P_aso OR P_rexr OR P_rexx OR P_rexb),
    ITAB UD_Isub O_Ev O_Gv O_NONE (P_aso OR P_oso OR P_rexw OR P_rexr OR P_rexx OR P_rexb),
    ITAB UD_Isub O_Gb O_Eb O_NONE (P_aso OR P_rexr OR P_rexx OR P_rexb),
    ITAB UD_Isub O_Gv O_Ev O_NONE (P_aso OR P_oso OR P_rexw OR P_rexr OR P_rexx OR P_rexb),
    ITAB UD_Isub O_AL O_Ib O_NONE P_none,
    ITAB UD_Isub O_rAX O_sIz O_NONE (P_oso OR P_rexw),
    ITAB UD_Idas O_NONE O_NONE O_NONE P_inv64,
    ITAB UD_Ixor O_Eb O_Gb O_NONE (P_aso OR P_rexr OR P_rexx OR P_rexb),
    ITAB UD_Ixor O_Ev O_Gv O_NONE (P_aso OR P_oso OR P_rexw OR P_rexr OR P_rexx OR P_rexb),
    ITAB UD_Ixor O_Gb O_Eb O_NONE (P_aso OR P_rexr OR P_rexx OR P_rexb),
    ITAB UD_Ixor O_Gv O_Ev O_NONE (P_aso OR P_oso OR P_rexw OR P_rexr OR P_rexx OR P_rexb),
    ITAB UD_Ixor O_AL O_Ib O_NONE P_none,
    ITAB UD_Ixor O_rAX O_sIz O_NONE (P_oso OR P_rexw),
    ITAB UD_Iaaa O_NONE O_NONE O_NONE P_none,
    ITAB UD_Icmp O_Eb O_Gb O_NONE (P_aso OR P_rexr OR P_rexx OR P_rexb),
    ITAB UD_Icmp O_Ev O_Gv O_NONE (P_aso OR P_oso OR P_rexw OR P_rexr OR P_rexx OR P_rexb),
    ITAB UD_Icmp O_Gb O_Eb O_NONE (P_aso OR P_rexr OR P_rexx OR P_rexb),
    ITAB UD_Icmp O_Gv O_Ev O_NONE (P_aso OR P_oso OR P_rexw OR P_rexr OR P_rexx OR P_rexb),
    ITAB UD_Icmp O_AL O_Ib O_NONE P_none,
    ITAB UD_Icmp O_rAX O_sIz O_NONE (P_oso OR P_rexw),
    ITAB UD_Iaas O_NONE O_NONE O_NONE P_none,
    ITAB UD_Iinc O_R0z O_NONE O_NONE P_oso,
    ITAB UD_Iinc O_R1z O_NONE O_NONE P_oso,
    ITAB UD_Iinc O_R2z O_NONE O_NONE P_oso,
    ITAB UD_Iinc O_R3z O_NONE O_NONE P_oso,
    ITAB UD_Iinc O_R4z O_NONE O_NONE P_oso,
    ITAB UD_Iinc O_R5z O_NONE O_NONE P_oso,
    ITAB UD_Iinc O_R6z O_NONE O_NONE P_oso,
    ITAB UD_Iinc O_R7z O_NONE O_NONE P_oso,
    ITAB UD_Idec O_R0z O_NONE O_NONE P_oso,
    ITAB UD_Idec O_R1z O_NONE O_NONE P_oso,
    ITAB UD_Idec O_R2z O_NONE O_NONE P_oso,
    ITAB UD_Idec O_R3z O_NONE O_NONE P_oso,
    ITAB UD_Idec O_R4z O_NONE O_NONE P_oso,
    ITAB UD_Idec O_R5z O_NONE O_NONE P_oso,
    ITAB UD_Idec O_R6z O_NONE O_NONE P_oso,
    ITAB UD_Idec O_R7z O_NONE O_NONE P_oso,
    ITAB UD_Ipush O_R0v O_NONE O_NONE (P_oso OR P_rexb OR P_def64),
    ITAB UD_Ipush O_R1v O_NONE O_NONE (P_oso OR P_rexb OR P_def64),
    ITAB UD_Ipush O_R2v O_NONE O_NONE (P_oso OR P_rexb OR P_def64),
    ITAB UD_Ipush O_R3v O_NONE O_NONE (P_oso OR P_rexb OR P_def64),
    ITAB UD_Ipush O_R4v O_NONE O_NONE (P_oso OR P_rexb OR P_def64),
    ITAB UD_Ipush O_R5v O_NONE O_NONE (P_oso OR P_rexb OR P_def64),
    ITAB UD_Ipush O_R6v O_NONE O_NONE (P_oso OR P_rexb OR P_def64),
    ITAB UD_Ipush O_R7v O_NONE O_NONE (P_oso OR P_rexb OR P_def64),
    ITAB UD_Ipop O_R0v O_NONE O_NONE (P_oso OR P_rexb OR P_def64),
    ITAB UD_Ipop O_R1v O_NONE O_NONE (P_oso OR P_rexb OR P_def64),
    ITAB UD_Ipop O_R2v O_NONE O_NONE (P_oso OR P_rexb OR P_def64),
    ITAB UD_Ipop O_R3v O_NONE O_NONE (P_oso OR P_rexb OR P_def64),
    ITAB UD_Ipop O_R4v O_NONE O_NONE (P_oso OR P_rexb OR P_def64),
    ITAB UD_Ipop O_R5v O_NONE O_NONE (P_oso OR P_rexb OR P_def64),
    ITAB UD_Ipop O_R6v O_NONE O_NONE (P_oso OR P_rexb OR P_def64),
    ITAB UD_Ipop O_R7v O_NONE O_NONE (P_oso OR P_rexb OR P_def64),
    ITAB UD_Ipusha O_NONE O_NONE O_NONE (P_oso OR P_inv64),
    ITAB UD_Ipushad O_NONE O_NONE O_NONE (P_oso OR P_inv64),
    ITAB UD_Ipopa O_NONE O_NONE O_NONE (P_oso OR P_inv64),
    ITAB UD_Ipopad O_NONE O_NONE O_NONE (P_oso OR P_inv64),
    ITAB UD_Ibound O_Gv O_M O_NONE (P_aso OR P_oso),
    ITAB UD_Iarpl O_Ew O_Gw O_NONE P_aso,
    ITAB UD_Imovsxd O_Gq O_Ed O_NONE (P_aso OR P_oso OR P_rexw OR P_rexx OR P_rexr OR P_rexb),
    ITAB UD_Ipush O_sIz O_NONE O_NONE (P_oso OR P_def64),
    ITAB UD_Iimul O_Gv O_Ev O_Iz (P_aso OR P_oso OR P_rexw OR P_rexr OR P_rexx OR P_rexb),
    ITAB UD_Ipush O_sIb O_NONE O_NONE (P_oso OR P_def64),
    ITAB UD_Iimul O_Gv O_Ev O_sIb (P_aso OR P_oso OR P_rexw OR P_rexr OR P_rexx OR P_rexb),
    ITAB UD_Iinsb O_NONE O_NONE O_NONE (P_str OR P_seg),
    ITAB UD_Iinsw O_NONE O_NONE O_NONE (P_str OR P_oso OR P_seg),
    ITAB UD_Iinsd O_NONE O_NONE O_NONE (P_str OR P_oso OR P_seg),
    ITAB UD_Ioutsb O_NONE O_NONE O_NONE (P_str OR P_seg),
    ITAB UD_Ioutsw O_NONE O_NONE O_NONE (P_str OR P_oso OR P_seg),
    ITAB UD_Ioutsd O_NONE O_NONE O_NONE (P_str OR P_oso OR P_seg),
    ITAB UD_Ijo O_Jb O_NONE O_NONE P_none,
    ITAB UD_Ijno O_Jb O_NONE O_NONE P_none,
    ITAB UD_Ijb O_Jb O_NONE O_NONE P_none,
    ITAB UD_Ijae O_Jb O_NONE O_NONE P_none,
    ITAB UD_Ijz O_Jb O_NONE O_NONE P_none,
    ITAB UD_Ijnz O_Jb O_NONE O_NONE P_none,
    ITAB UD_Ijbe O_Jb O_NONE O_NONE P_none,
    ITAB UD_Ija O_Jb O_NONE O_NONE P_none,
    ITAB UD_Ijs O_Jb O_NONE O_NONE P_none]"

definition itab_part5 :: "ud_itab_entry list" where [itab_part]:
  "itab_part5 = [
    ITAB UD_Ijns O_Jb O_NONE O_NONE P_none,
    ITAB UD_Ijp O_Jb O_NONE O_NONE P_none,
    ITAB UD_Ijnp O_Jb O_NONE O_NONE P_none,
    ITAB UD_Ijl O_Jb O_NONE O_NONE P_none,
    ITAB UD_Ijge O_Jb O_NONE O_NONE P_none,
    ITAB UD_Ijle O_Jb O_NONE O_NONE P_none,
    ITAB UD_Ijg O_Jb O_NONE O_NONE P_none,
    ITAB UD_Iadd O_Eb O_Ib O_NONE (P_aso OR P_rexr OR P_rexx OR P_rexb),
    ITAB UD_Ior O_Eb O_Ib O_NONE (P_aso OR P_rexr OR P_rexx OR P_rexb),
    ITAB UD_Iadc O_Eb O_Ib O_NONE (P_aso OR P_rexr OR P_rexx OR P_rexb),
    ITAB UD_Isbb O_Eb O_Ib O_NONE (P_aso OR P_rexr OR P_rexx OR P_rexb),
    ITAB UD_Iand O_Eb O_Ib O_NONE (P_aso OR P_rexw OR P_rexr OR P_rexx OR P_rexb),
    ITAB UD_Isub O_Eb O_Ib O_NONE (P_aso OR P_rexr OR P_rexx OR P_rexb),
    ITAB UD_Ixor O_Eb O_Ib O_NONE (P_aso OR P_rexr OR P_rexx OR P_rexb),
    ITAB UD_Icmp O_Eb O_Ib O_NONE (P_aso OR P_rexr OR P_rexx OR P_rexb),
    ITAB UD_Iadd O_Ev O_sIz O_NONE (P_aso OR P_oso OR P_rexw OR P_rexr OR P_rexx OR P_rexb),
    ITAB UD_Ior O_Ev O_sIz O_NONE (P_aso OR P_oso OR P_rexw OR P_rexr OR P_rexx OR P_rexb),
    ITAB UD_Iadc O_Ev O_sIz O_NONE (P_aso OR P_oso OR P_rexw OR P_rexr OR P_rexx OR P_rexb),
    ITAB UD_Isbb O_Ev O_sIz O_NONE (P_aso OR P_oso OR P_rexw OR P_rexr OR P_rexx OR P_rexb),
    ITAB UD_Iand O_Ev O_sIz O_NONE (P_aso OR P_oso OR P_rexw OR P_rexr OR P_rexx OR P_rexb),
    ITAB UD_Isub O_Ev O_sIz O_NONE (P_aso OR P_oso OR P_rexw OR P_rexr OR P_rexx OR P_rexb),
    ITAB UD_Ixor O_Ev O_sIz O_NONE (P_aso OR P_oso OR P_rexw OR P_rexr OR P_rexx OR P_rexb),
    ITAB UD_Icmp O_Ev O_sIz O_NONE (P_aso OR P_oso OR P_rexw OR P_rexr OR P_rexx OR P_rexb),
    ITAB UD_Iadd O_Eb O_Ib O_NONE (P_aso OR P_rexr OR P_rexx OR P_rexb OR P_inv64),
    ITAB UD_Ior O_Eb O_Ib O_NONE (P_aso OR P_rexr OR P_rexx OR P_rexb),
    ITAB UD_Iadc O_Eb O_Ib O_NONE (P_aso OR P_rexr OR P_rexx OR P_rexb OR P_inv64),
    ITAB UD_Isbb O_Eb O_Ib O_NONE (P_aso OR P_rexr OR P_rexx OR P_rexb OR P_inv64),
    ITAB UD_Iand O_Eb O_Ib O_NONE (P_aso OR P_rexr OR P_rexx OR P_rexb OR P_inv64),
    ITAB UD_Isub O_Eb O_Ib O_NONE (P_aso OR P_rexr OR P_rexx OR P_rexb OR P_inv64),
    ITAB UD_Ixor O_Eb O_Ib O_NONE (P_aso OR P_rexr OR P_rexx OR P_rexb OR P_inv64),
    ITAB UD_Icmp O_Eb O_Ib O_NONE (P_aso OR P_rexr OR P_rexx OR P_rexb OR P_inv64),
    ITAB UD_Iadd O_Ev O_sIb O_NONE (P_aso OR P_oso OR P_rexw OR P_rexr OR P_rexx OR P_rexb),
    ITAB UD_Ior O_Ev O_sIb O_NONE (P_aso OR P_oso OR P_rexw OR P_rexr OR P_rexx OR P_rexb),
    ITAB UD_Iadc O_Ev O_sIb O_NONE (P_aso OR P_oso OR P_rexw OR P_rexr OR P_rexx OR P_rexb),
    ITAB UD_Isbb O_Ev O_sIb O_NONE (P_aso OR P_oso OR P_rexw OR P_rexr OR P_rexx OR P_rexb),
    ITAB UD_Iand O_Ev O_sIb O_NONE (P_aso OR P_oso OR P_rexw OR P_rexr OR P_rexx OR P_rexb),
    ITAB UD_Isub O_Ev O_sIb O_NONE (P_aso OR P_oso OR P_rexw OR P_rexr OR P_rexx OR P_rexb),
    ITAB UD_Ixor O_Ev O_sIb O_NONE (P_aso OR P_oso OR P_rexw OR P_rexr OR P_rexx OR P_rexb),
    ITAB UD_Icmp O_Ev O_sIb O_NONE (P_aso OR P_oso OR P_rexw OR P_rexr OR P_rexx OR P_rexb),
    ITAB UD_Itest O_Eb O_Gb O_NONE (P_aso OR P_rexr OR P_rexx OR P_rexb),
    ITAB UD_Itest O_Ev O_Gv O_NONE (P_aso OR P_oso OR P_rexw OR P_rexr OR P_rexx OR P_rexb),
    ITAB UD_Ixchg O_Eb O_Gb O_NONE (P_aso OR P_rexr OR P_rexx OR P_rexb),
    ITAB UD_Ixchg O_Ev O_Gv O_NONE (P_aso OR P_oso OR P_rexw OR P_rexr OR P_rexx OR P_rexb),
    ITAB UD_Imov O_Eb O_Gb O_NONE (P_aso OR P_rexr OR P_rexx OR P_rexb),
    ITAB UD_Imov O_Ev O_Gv O_NONE (P_aso OR P_oso OR P_rexw OR P_rexr OR P_rexx OR P_rexb),
    ITAB UD_Imov O_Gb O_Eb O_NONE (P_aso OR P_rexr OR P_rexx OR P_rexb),
    ITAB UD_Imov O_Gv O_Ev O_NONE (P_aso OR P_oso OR P_rexw OR P_rexr OR P_rexx OR P_rexb),
    ITAB UD_Imov O_MwRv O_S O_NONE (P_aso OR P_oso OR P_rexw OR P_rexr OR P_rexx OR P_rexb),
    ITAB UD_Ilea O_Gv O_M O_NONE (P_aso OR P_oso OR P_rexw OR P_rexr OR P_rexx OR P_rexb),
    ITAB UD_Imov O_S O_MwRv O_NONE (P_aso OR P_oso OR P_rexw OR P_rexr OR P_rexx OR P_rexb),
    ITAB UD_Ipop O_Ev O_NONE O_NONE (P_aso OR P_oso OR P_rexw OR P_rexr OR P_rexx OR P_rexb OR P_def64),
    ITAB UD_Ixchg O_R0v O_rAX O_NONE (P_oso OR P_rexw OR P_rexb),
    ITAB UD_Ixchg O_R1v O_rAX O_NONE (P_oso OR P_rexw OR P_rexb),
    ITAB UD_Ixchg O_R2v O_rAX O_NONE (P_oso OR P_rexw OR P_rexb),
    ITAB UD_Ixchg O_R3v O_rAX O_NONE (P_oso OR P_rexw OR P_rexb),
    ITAB UD_Ixchg O_R4v O_rAX O_NONE (P_oso OR P_rexw OR P_rexb),
    ITAB UD_Ixchg O_R5v O_rAX O_NONE (P_oso OR P_rexw OR P_rexb),
    ITAB UD_Ixchg O_R6v O_rAX O_NONE (P_oso OR P_rexw OR P_rexb),
    ITAB UD_Ixchg O_R7v O_rAX O_NONE (P_oso OR P_rexw OR P_rexb),
    ITAB UD_Icbw O_NONE O_NONE O_NONE (P_oso OR P_rexw),
    ITAB UD_Icwde O_NONE O_NONE O_NONE (P_oso OR P_rexw),
    ITAB UD_Icdqe O_NONE O_NONE O_NONE (P_oso OR P_rexw),
    ITAB UD_Icwd O_NONE O_NONE O_NONE (P_oso OR P_rexw),
    ITAB UD_Icdq O_NONE O_NONE O_NONE (P_oso OR P_rexw),
    ITAB UD_Icqo O_NONE O_NONE O_NONE (P_oso OR P_rexw),
    ITAB UD_Icall O_Av O_NONE O_NONE P_oso,
    ITAB UD_Iwait O_NONE O_NONE O_NONE P_none,
    ITAB UD_Ipushfw O_NONE O_NONE O_NONE P_oso,
    ITAB UD_Ipushfw O_NONE O_NONE O_NONE (P_oso OR P_rexw OR P_def64),
    ITAB UD_Ipushfd O_NONE O_NONE O_NONE P_oso,
    ITAB UD_Ipushfq O_NONE O_NONE O_NONE (P_oso OR P_rexw OR P_def64),
    ITAB UD_Ipushfq O_NONE O_NONE O_NONE (P_oso OR P_rexw OR P_def64),
    ITAB UD_Ipopfw O_NONE O_NONE O_NONE P_oso,
    ITAB UD_Ipopfd O_NONE O_NONE O_NONE P_oso,
    ITAB UD_Ipopfq O_NONE O_NONE O_NONE (P_oso OR P_def64),
    ITAB UD_Ipopfq O_NONE O_NONE O_NONE (P_oso OR P_def64),
    ITAB UD_Isahf O_NONE O_NONE O_NONE P_none,
    ITAB UD_Ilahf O_NONE O_NONE O_NONE P_none,
    ITAB UD_Imov O_AL O_Ob O_NONE P_none,
    ITAB UD_Imov O_rAX O_Ov O_NONE (P_aso OR P_oso OR P_rexw),
    ITAB UD_Imov O_Ob O_AL O_NONE P_none,
    ITAB UD_Imov O_Ov O_rAX O_NONE (P_aso OR P_oso OR P_rexw),
    ITAB UD_Imovsb O_NONE O_NONE O_NONE (P_str OR P_seg),
    ITAB UD_Imovsw O_NONE O_NONE O_NONE (P_str OR P_seg OR P_oso OR P_rexw),
    ITAB UD_Imovsd O_NONE O_NONE O_NONE (P_str OR P_seg OR P_oso OR P_rexw),
    ITAB UD_Imovsq O_NONE O_NONE O_NONE (P_str OR P_seg OR P_oso OR P_rexw),
    ITAB UD_Icmpsb O_NONE O_NONE O_NONE (P_strz OR P_seg),
    ITAB UD_Icmpsw O_NONE O_NONE O_NONE (P_strz OR P_oso OR P_rexw OR P_seg),
    ITAB UD_Icmpsd O_NONE O_NONE O_NONE (P_strz OR P_oso OR P_rexw OR P_seg),
    ITAB UD_Icmpsq O_NONE O_NONE O_NONE (P_strz OR P_oso OR P_rexw OR P_seg),
    ITAB UD_Itest O_AL O_Ib O_NONE P_none,
    ITAB UD_Itest O_rAX O_sIz O_NONE (P_oso OR P_rexw),
    ITAB UD_Istosb O_NONE O_NONE O_NONE (P_str OR P_seg),
    ITAB UD_Istosw O_NONE O_NONE O_NONE (P_str OR P_seg OR P_oso OR P_rexw),
    ITAB UD_Istosd O_NONE O_NONE O_NONE (P_str OR P_seg OR P_oso OR P_rexw),
    ITAB UD_Istosq O_NONE O_NONE O_NONE (P_str OR P_seg OR P_oso OR P_rexw),
    ITAB UD_Ilodsb O_NONE O_NONE O_NONE (P_str OR P_seg),
    ITAB UD_Ilodsw O_NONE O_NONE O_NONE (P_str OR P_seg OR P_oso OR P_rexw),
    ITAB UD_Ilodsd O_NONE O_NONE O_NONE (P_str OR P_seg OR P_oso OR P_rexw),
    ITAB UD_Ilodsq O_NONE O_NONE O_NONE (P_str OR P_seg OR P_oso OR P_rexw),
    ITAB UD_Iscasb O_NONE O_NONE O_NONE P_strz,
    ITAB UD_Iscasw O_NONE O_NONE O_NONE (P_strz OR P_oso OR P_rexw),
    ITAB UD_Iscasd O_NONE O_NONE O_NONE (P_strz OR P_oso OR P_rexw),
    ITAB UD_Iscasq O_NONE O_NONE O_NONE (P_strz OR P_oso OR P_rexw),
    ITAB UD_Imov O_R0b O_Ib O_NONE P_rexb,
    ITAB UD_Imov O_R1b O_Ib O_NONE P_rexb,
    ITAB UD_Imov O_R2b O_Ib O_NONE P_rexb,
    ITAB UD_Imov O_R3b O_Ib O_NONE P_rexb,
    ITAB UD_Imov O_R4b O_Ib O_NONE P_rexb,
    ITAB UD_Imov O_R5b O_Ib O_NONE P_rexb,
    ITAB UD_Imov O_R6b O_Ib O_NONE P_rexb,
    ITAB UD_Imov O_R7b O_Ib O_NONE P_rexb,
    ITAB UD_Imov O_R0v O_Iv O_NONE (P_oso OR P_rexw OR P_rexb),
    ITAB UD_Imov O_R1v O_Iv O_NONE (P_oso OR P_rexw OR P_rexb),
    ITAB UD_Imov O_R2v O_Iv O_NONE (P_oso OR P_rexw OR P_rexb),
    ITAB UD_Imov O_R3v O_Iv O_NONE (P_oso OR P_rexw OR P_rexb),
    ITAB UD_Imov O_R4v O_Iv O_NONE (P_oso OR P_rexw OR P_rexb),
    ITAB UD_Imov O_R5v O_Iv O_NONE (P_oso OR P_rexw OR P_rexb),
    ITAB UD_Imov O_R6v O_Iv O_NONE (P_oso OR P_rexw OR P_rexb),
    ITAB UD_Imov O_R7v O_Iv O_NONE (P_oso OR P_rexw OR P_rexb),
    ITAB UD_Irol O_Eb O_Ib O_NONE (P_aso OR P_rexw OR P_rexr OR P_rexx OR P_rexb),
    ITAB UD_Iror O_Eb O_Ib O_NONE (P_aso OR P_rexw OR P_rexr OR P_rexx OR P_rexb),
    ITAB UD_Ircl O_Eb O_Ib O_NONE (P_aso OR P_rexw OR P_rexr OR P_rexx OR P_rexb),
    ITAB UD_Ircr O_Eb O_Ib O_NONE (P_aso OR P_rexw OR P_rexr OR P_rexx OR P_rexb),
    ITAB UD_Ishl O_Eb O_Ib O_NONE (P_aso OR P_rexw OR P_rexr OR P_rexx OR P_rexb),
    ITAB UD_Ishr O_Eb O_Ib O_NONE (P_aso OR P_rexw OR P_rexr OR P_rexx OR P_rexb),
    ITAB UD_Ishl O_Eb O_Ib O_NONE (P_aso OR P_rexw OR P_rexr OR P_rexx OR P_rexb),
    ITAB UD_Isar O_Eb O_Ib O_NONE (P_aso OR P_rexw OR P_rexr OR P_rexx OR P_rexb),
    ITAB UD_Irol O_Ev O_Ib O_NONE (P_aso OR P_oso OR P_rexw OR P_rexr OR P_rexx OR P_rexb),
    ITAB UD_Iror O_Ev O_Ib O_NONE (P_aso OR P_oso OR P_rexw OR P_rexr OR P_rexx OR P_rexb),
    ITAB UD_Ircl O_Ev O_Ib O_NONE (P_aso OR P_oso OR P_rexw OR P_rexr OR P_rexx OR P_rexb),
    ITAB UD_Ircr O_Ev O_Ib O_NONE (P_aso OR P_oso OR P_rexw OR P_rexr OR P_rexx OR P_rexb),
    ITAB UD_Ishl O_Ev O_Ib O_NONE (P_aso OR P_oso OR P_rexw OR P_rexr OR P_rexx OR P_rexb),
    ITAB UD_Ishr O_Ev O_Ib O_NONE (P_aso OR P_oso OR P_rexw OR P_rexr OR P_rexx OR P_rexb),
    ITAB UD_Ishl O_Ev O_Ib O_NONE (P_aso OR P_oso OR P_rexw OR P_rexr OR P_rexx OR P_rexb),
    ITAB UD_Isar O_Ev O_Ib O_NONE (P_aso OR P_oso OR P_rexw OR P_rexr OR P_rexx OR P_rexb),
    ITAB UD_Iret O_Iw O_NONE O_NONE P_none,
    ITAB UD_Iret O_NONE O_NONE O_NONE P_none,
    ITAB UD_Iles O_Gv O_M O_NONE (P_aso OR P_oso),
    ITAB UD_Ilds O_Gv O_M O_NONE (P_aso OR P_oso),
    ITAB UD_Imov O_Eb O_Ib O_NONE (P_aso OR P_rexw OR P_rexr OR P_rexx OR P_rexb),
    ITAB UD_Imov O_Ev O_sIz O_NONE (P_aso OR P_oso OR P_rexw OR P_rexr OR P_rexx OR P_rexb),
    ITAB UD_Ienter O_Iw O_Ib O_NONE P_def64,
    ITAB UD_Ileave O_NONE O_NONE O_NONE P_none,
    ITAB UD_Iretf O_Iw O_NONE O_NONE P_none,
    ITAB UD_Iretf O_NONE O_NONE O_NONE P_none]"

definition itab_part6 :: "ud_itab_entry list" where [itab_part]:
  "itab_part6 = [
    ITAB UD_Iint3 O_NONE O_NONE O_NONE P_none,
    ITAB UD_Iint O_Ib O_NONE O_NONE P_none,
    ITAB UD_Iinto O_NONE O_NONE O_NONE P_inv64,
    ITAB UD_Iiretw O_NONE O_NONE O_NONE (P_oso OR P_rexw),
    ITAB UD_Iiretd O_NONE O_NONE O_NONE (P_oso OR P_rexw),
    ITAB UD_Iiretq O_NONE O_NONE O_NONE (P_oso OR P_rexw),
    ITAB UD_Irol O_Eb O_I1 O_NONE (P_aso OR P_rexw OR P_rexr OR P_rexx OR P_rexb),
    ITAB UD_Iror O_Eb O_I1 O_NONE (P_aso OR P_rexw OR P_rexr OR P_rexx OR P_rexb),
    ITAB UD_Ircl O_Eb O_I1 O_NONE (P_aso OR P_rexw OR P_rexr OR P_rexx OR P_rexb),
    ITAB UD_Ircr O_Eb O_I1 O_NONE (P_aso OR P_rexw OR P_rexr OR P_rexx OR P_rexb),
    ITAB UD_Ishl O_Eb O_I1 O_NONE (P_aso OR P_rexw OR P_rexr OR P_rexx OR P_rexb),
    ITAB UD_Ishr O_Eb O_I1 O_NONE (P_aso OR P_rexw OR P_rexr OR P_rexx OR P_rexb),
    ITAB UD_Ishl O_Eb O_I1 O_NONE (P_aso OR P_rexw OR P_rexr OR P_rexx OR P_rexb),
    ITAB UD_Isar O_Eb O_I1 O_NONE (P_aso OR P_rexw OR P_rexr OR P_rexx OR P_rexb),
    ITAB UD_Irol O_Ev O_I1 O_NONE (P_aso OR P_oso OR P_rexw OR P_rexr OR P_rexx OR P_rexb),
    ITAB UD_Iror O_Ev O_I1 O_NONE (P_aso OR P_oso OR P_rexw OR P_rexr OR P_rexx OR P_rexb),
    ITAB UD_Ircl O_Ev O_I1 O_NONE (P_aso OR P_oso OR P_rexw OR P_rexr OR P_rexx OR P_rexb),
    ITAB UD_Ircr O_Ev O_I1 O_NONE (P_aso OR P_oso OR P_rexw OR P_rexr OR P_rexx OR P_rexb),
    ITAB UD_Ishl O_Ev O_I1 O_NONE (P_aso OR P_oso OR P_rexw OR P_rexr OR P_rexx OR P_rexb),
    ITAB UD_Ishr O_Ev O_I1 O_NONE (P_aso OR P_oso OR P_rexw OR P_rexr OR P_rexx OR P_rexb),
    ITAB UD_Ishl O_Ev O_I1 O_NONE (P_aso OR P_oso OR P_rexw OR P_rexr OR P_rexx OR P_rexb),
    ITAB UD_Isar O_Ev O_I1 O_NONE (P_aso OR P_oso OR P_rexw OR P_rexr OR P_rexx OR P_rexb),
    ITAB UD_Irol O_Eb O_CL O_NONE (P_aso OR P_rexw OR P_rexr OR P_rexx OR P_rexb),
    ITAB UD_Iror O_Eb O_CL O_NONE (P_aso OR P_rexw OR P_rexr OR P_rexx OR P_rexb),
    ITAB UD_Ircl O_Eb O_CL O_NONE (P_aso OR P_rexw OR P_rexr OR P_rexx OR P_rexb),
    ITAB UD_Ircr O_Eb O_CL O_NONE (P_aso OR P_rexw OR P_rexr OR P_rexx OR P_rexb),
    ITAB UD_Ishl O_Eb O_CL O_NONE (P_aso OR P_rexr OR P_rexx OR P_rexb),
    ITAB UD_Ishr O_Eb O_CL O_NONE (P_aso OR P_rexw OR P_rexr OR P_rexx OR P_rexb),
    ITAB UD_Ishl O_Eb O_CL O_NONE (P_aso OR P_rexw OR P_rexr OR P_rexx OR P_rexb),
    ITAB UD_Isar O_Eb O_CL O_NONE (P_aso OR P_rexw OR P_rexr OR P_rexx OR P_rexb),
    ITAB UD_Irol O_Ev O_CL O_NONE (P_aso OR P_oso OR P_rexw OR P_rexr OR P_rexx OR P_rexb),
    ITAB UD_Iror O_Ev O_CL O_NONE (P_aso OR P_oso OR P_rexw OR P_rexr OR P_rexx OR P_rexb),
    ITAB UD_Ircl O_Ev O_CL O_NONE (P_aso OR P_oso OR P_rexw OR P_rexr OR P_rexx OR P_rexb),
    ITAB UD_Ircr O_Ev O_CL O_NONE (P_aso OR P_oso OR P_rexw OR P_rexr OR P_rexx OR P_rexb),
    ITAB UD_Ishl O_Ev O_CL O_NONE (P_aso OR P_oso OR P_rexw OR P_rexr OR P_rexx OR P_rexb),
    ITAB UD_Ishr O_Ev O_CL O_NONE (P_aso OR P_oso OR P_rexw OR P_rexr OR P_rexx OR P_rexb),
    ITAB UD_Ishl O_Ev O_CL O_NONE (P_aso OR P_oso OR P_rexw OR P_rexr OR P_rexx OR P_rexb),
    ITAB UD_Isar O_Ev O_CL O_NONE (P_aso OR P_oso OR P_rexw OR P_rexr OR P_rexx OR P_rexb),
    ITAB UD_Iaam O_Ib O_NONE O_NONE P_none,
    ITAB UD_Iaad O_Ib O_NONE O_NONE P_none,
    ITAB UD_Isalc O_NONE O_NONE O_NONE P_inv64,
    ITAB UD_Ixlatb O_NONE O_NONE O_NONE (P_rexw OR P_seg),
    ITAB UD_Ifadd O_Md O_NONE O_NONE (P_aso OR P_rexr OR P_rexx OR P_rexb),
    ITAB UD_Ifmul O_Md O_NONE O_NONE (P_aso OR P_rexr OR P_rexx OR P_rexb),
    ITAB UD_Ifcom O_Md O_NONE O_NONE (P_aso OR P_rexr OR P_rexx OR P_rexb),
    ITAB UD_Ifcomp O_Md O_NONE O_NONE (P_aso OR P_rexr OR P_rexx OR P_rexb),
    ITAB UD_Ifsub O_Md O_NONE O_NONE (P_aso OR P_rexr OR P_rexx OR P_rexb),
    ITAB UD_Ifsubr O_Md O_NONE O_NONE (P_aso OR P_rexr OR P_rexx OR P_rexb),
    ITAB UD_Ifdiv O_Md O_NONE O_NONE (P_aso OR P_rexr OR P_rexx OR P_rexb),
    ITAB UD_Ifdivr O_Md O_NONE O_NONE (P_aso OR P_rexr OR P_rexx OR P_rexb),
    ITAB UD_Ifadd O_ST0 O_ST0 O_NONE P_none,
    ITAB UD_Ifadd O_ST0 O_ST1 O_NONE P_none,
    ITAB UD_Ifadd O_ST0 O_ST2 O_NONE P_none,
    ITAB UD_Ifadd O_ST0 O_ST3 O_NONE P_none,
    ITAB UD_Ifadd O_ST0 O_ST4 O_NONE P_none,
    ITAB UD_Ifadd O_ST0 O_ST5 O_NONE P_none,
    ITAB UD_Ifadd O_ST0 O_ST6 O_NONE P_none,
    ITAB UD_Ifadd O_ST0 O_ST7 O_NONE P_none,
    ITAB UD_Ifmul O_ST0 O_ST0 O_NONE P_none,
    ITAB UD_Ifmul O_ST0 O_ST1 O_NONE P_none,
    ITAB UD_Ifmul O_ST0 O_ST2 O_NONE P_none,
    ITAB UD_Ifmul O_ST0 O_ST3 O_NONE P_none,
    ITAB UD_Ifmul O_ST0 O_ST4 O_NONE P_none,
    ITAB UD_Ifmul O_ST0 O_ST5 O_NONE P_none,
    ITAB UD_Ifmul O_ST0 O_ST6 O_NONE P_none,
    ITAB UD_Ifmul O_ST0 O_ST7 O_NONE P_none,
    ITAB UD_Ifcom O_ST0 O_ST0 O_NONE P_none,
    ITAB UD_Ifcom O_ST0 O_ST1 O_NONE P_none,
    ITAB UD_Ifcom O_ST0 O_ST2 O_NONE P_none,
    ITAB UD_Ifcom O_ST0 O_ST3 O_NONE P_none,
    ITAB UD_Ifcom O_ST0 O_ST4 O_NONE P_none,
    ITAB UD_Ifcom O_ST0 O_ST5 O_NONE P_none,
    ITAB UD_Ifcom O_ST0 O_ST6 O_NONE P_none,
    ITAB UD_Ifcom O_ST0 O_ST7 O_NONE P_none,
    ITAB UD_Ifcomp O_ST0 O_ST0 O_NONE P_none,
    ITAB UD_Ifcomp O_ST0 O_ST1 O_NONE P_none,
    ITAB UD_Ifcomp O_ST0 O_ST2 O_NONE P_none,
    ITAB UD_Ifcomp O_ST0 O_ST3 O_NONE P_none,
    ITAB UD_Ifcomp O_ST0 O_ST4 O_NONE P_none,
    ITAB UD_Ifcomp O_ST0 O_ST5 O_NONE P_none,
    ITAB UD_Ifcomp O_ST0 O_ST6 O_NONE P_none,
    ITAB UD_Ifcomp O_ST0 O_ST7 O_NONE P_none,
    ITAB UD_Ifsub O_ST0 O_ST0 O_NONE P_none,
    ITAB UD_Ifsub O_ST0 O_ST1 O_NONE P_none,
    ITAB UD_Ifsub O_ST0 O_ST2 O_NONE P_none,
    ITAB UD_Ifsub O_ST0 O_ST3 O_NONE P_none,
    ITAB UD_Ifsub O_ST0 O_ST4 O_NONE P_none,
    ITAB UD_Ifsub O_ST0 O_ST5 O_NONE P_none,
    ITAB UD_Ifsub O_ST0 O_ST6 O_NONE P_none,
    ITAB UD_Ifsub O_ST0 O_ST7 O_NONE P_none,
    ITAB UD_Ifsubr O_ST0 O_ST0 O_NONE P_none,
    ITAB UD_Ifsubr O_ST0 O_ST1 O_NONE P_none,
    ITAB UD_Ifsubr O_ST0 O_ST2 O_NONE P_none,
    ITAB UD_Ifsubr O_ST0 O_ST3 O_NONE P_none,
    ITAB UD_Ifsubr O_ST0 O_ST4 O_NONE P_none,
    ITAB UD_Ifsubr O_ST0 O_ST5 O_NONE P_none,
    ITAB UD_Ifsubr O_ST0 O_ST6 O_NONE P_none,
    ITAB UD_Ifsubr O_ST0 O_ST7 O_NONE P_none,
    ITAB UD_Ifdiv O_ST0 O_ST0 O_NONE P_none,
    ITAB UD_Ifdiv O_ST0 O_ST1 O_NONE P_none,
    ITAB UD_Ifdiv O_ST0 O_ST2 O_NONE P_none,
    ITAB UD_Ifdiv O_ST0 O_ST3 O_NONE P_none,
    ITAB UD_Ifdiv O_ST0 O_ST4 O_NONE P_none,
    ITAB UD_Ifdiv O_ST0 O_ST5 O_NONE P_none,
    ITAB UD_Ifdiv O_ST0 O_ST6 O_NONE P_none,
    ITAB UD_Ifdiv O_ST0 O_ST7 O_NONE P_none,
    ITAB UD_Ifdivr O_ST0 O_ST0 O_NONE P_none,
    ITAB UD_Ifdivr O_ST0 O_ST1 O_NONE P_none,
    ITAB UD_Ifdivr O_ST0 O_ST2 O_NONE P_none,
    ITAB UD_Ifdivr O_ST0 O_ST3 O_NONE P_none,
    ITAB UD_Ifdivr O_ST0 O_ST4 O_NONE P_none,
    ITAB UD_Ifdivr O_ST0 O_ST5 O_NONE P_none,
    ITAB UD_Ifdivr O_ST0 O_ST6 O_NONE P_none,
    ITAB UD_Ifdivr O_ST0 O_ST7 O_NONE P_none,
    ITAB UD_Ifld O_Md O_NONE O_NONE (P_aso OR P_rexr OR P_rexx OR P_rexb),
    ITAB UD_Ifst O_Md O_NONE O_NONE (P_aso OR P_rexr OR P_rexx OR P_rexb),
    ITAB UD_Ifstp O_Md O_NONE O_NONE (P_aso OR P_rexr OR P_rexx OR P_rexb),
    ITAB UD_Ifldenv O_M O_NONE O_NONE (P_aso OR P_rexr OR P_rexx OR P_rexb),
    ITAB UD_Ifldcw O_Mw O_NONE O_NONE (P_aso OR P_rexr OR P_rexx OR P_rexb),
    ITAB UD_Ifnstenv O_M O_NONE O_NONE (P_aso OR P_rexr OR P_rexx OR P_rexb),
    ITAB UD_Ifnstcw O_Mw O_NONE O_NONE (P_aso OR P_rexr OR P_rexx OR P_rexb),
    ITAB UD_Ifld O_ST0 O_NONE O_NONE P_none,
    ITAB UD_Ifld O_ST1 O_NONE O_NONE P_none,
    ITAB UD_Ifld O_ST2 O_NONE O_NONE P_none,
    ITAB UD_Ifld O_ST3 O_NONE O_NONE P_none,
    ITAB UD_Ifld O_ST4 O_NONE O_NONE P_none,
    ITAB UD_Ifld O_ST5 O_NONE O_NONE P_none,
    ITAB UD_Ifld O_ST6 O_NONE O_NONE P_none,
    ITAB UD_Ifld O_ST7 O_NONE O_NONE P_none,
    ITAB UD_Ifxch O_ST0 O_ST0 O_NONE P_none,
    ITAB UD_Ifxch O_ST0 O_ST1 O_NONE P_none,
    ITAB UD_Ifxch O_ST0 O_ST2 O_NONE P_none,
    ITAB UD_Ifxch O_ST0 O_ST3 O_NONE P_none,
    ITAB UD_Ifxch O_ST0 O_ST4 O_NONE P_none,
    ITAB UD_Ifxch O_ST0 O_ST5 O_NONE P_none,
    ITAB UD_Ifxch O_ST0 O_ST6 O_NONE P_none,
    ITAB UD_Ifxch O_ST0 O_ST7 O_NONE P_none,
    ITAB UD_Ifnop O_NONE O_NONE O_NONE P_none,
    ITAB UD_Ifstp1 O_ST0 O_NONE O_NONE P_none,
    ITAB UD_Ifstp1 O_ST1 O_NONE O_NONE P_none,
    ITAB UD_Ifstp1 O_ST2 O_NONE O_NONE P_none,
    ITAB UD_Ifstp1 O_ST3 O_NONE O_NONE P_none,
    ITAB UD_Ifstp1 O_ST4 O_NONE O_NONE P_none,
    ITAB UD_Ifstp1 O_ST5 O_NONE O_NONE P_none,
    ITAB UD_Ifstp1 O_ST6 O_NONE O_NONE P_none,
    ITAB UD_Ifstp1 O_ST7 O_NONE O_NONE P_none]"

definition itab_part7 :: "ud_itab_entry list" where [itab_part]:
  "itab_part7 = [
    ITAB UD_Ifchs O_NONE O_NONE O_NONE P_none,
    ITAB UD_Ifabs O_NONE O_NONE O_NONE P_none,
    ITAB UD_Iftst O_NONE O_NONE O_NONE P_none,
    ITAB UD_Ifxam O_NONE O_NONE O_NONE P_none,
    ITAB UD_Ifld1 O_NONE O_NONE O_NONE P_none,
    ITAB UD_Ifldl2t O_NONE O_NONE O_NONE P_none,
    ITAB UD_Ifldl2e O_NONE O_NONE O_NONE P_none,
    ITAB UD_Ifldpi O_NONE O_NONE O_NONE P_none,
    ITAB UD_Ifldlg2 O_NONE O_NONE O_NONE P_none,
    ITAB UD_Ifldln2 O_NONE O_NONE O_NONE P_none,
    ITAB UD_Ifldz O_NONE O_NONE O_NONE P_none,
    ITAB UD_If2xm1 O_NONE O_NONE O_NONE P_none,
    ITAB UD_Ifyl2x O_NONE O_NONE O_NONE P_none,
    ITAB UD_Ifptan O_NONE O_NONE O_NONE P_none,
    ITAB UD_Ifpatan O_NONE O_NONE O_NONE P_none,
    ITAB UD_Ifxtract O_NONE O_NONE O_NONE P_none,
    ITAB UD_Ifprem1 O_NONE O_NONE O_NONE P_none,
    ITAB UD_Ifdecstp O_NONE O_NONE O_NONE P_none,
    ITAB UD_Ifincstp O_NONE O_NONE O_NONE P_none,
    ITAB UD_Ifprem O_NONE O_NONE O_NONE P_none,
    ITAB UD_Ifyl2xp1 O_NONE O_NONE O_NONE P_none,
    ITAB UD_Ifsqrt O_NONE O_NONE O_NONE P_none,
    ITAB UD_Ifsincos O_NONE O_NONE O_NONE P_none,
    ITAB UD_Ifrndint O_NONE O_NONE O_NONE P_none,
    ITAB UD_Ifscale O_NONE O_NONE O_NONE P_none,
    ITAB UD_Ifsin O_NONE O_NONE O_NONE P_none,
    ITAB UD_Ifcos O_NONE O_NONE O_NONE P_none,
    ITAB UD_Ifiadd O_Md O_NONE O_NONE (P_aso OR P_rexr OR P_rexx OR P_rexb),
    ITAB UD_Ifimul O_Md O_NONE O_NONE (P_aso OR P_rexr OR P_rexx OR P_rexb),
    ITAB UD_Ificom O_Md O_NONE O_NONE (P_aso OR P_rexr OR P_rexx OR P_rexb),
    ITAB UD_Ificomp O_Md O_NONE O_NONE (P_aso OR P_rexr OR P_rexx OR P_rexb),
    ITAB UD_Ifisub O_Md O_NONE O_NONE (P_aso OR P_rexr OR P_rexx OR P_rexb),
    ITAB UD_Ifisubr O_Md O_NONE O_NONE (P_aso OR P_rexr OR P_rexx OR P_rexb),
    ITAB UD_Ifidiv O_Md O_NONE O_NONE (P_aso OR P_rexr OR P_rexx OR P_rexb),
    ITAB UD_Ifidivr O_Md O_NONE O_NONE (P_aso OR P_rexr OR P_rexx OR P_rexb),
    ITAB UD_Ifcmovb O_ST0 O_ST0 O_NONE P_none,
    ITAB UD_Ifcmovb O_ST0 O_ST1 O_NONE P_none,
    ITAB UD_Ifcmovb O_ST0 O_ST2 O_NONE P_none,
    ITAB UD_Ifcmovb O_ST0 O_ST3 O_NONE P_none,
    ITAB UD_Ifcmovb O_ST0 O_ST4 O_NONE P_none,
    ITAB UD_Ifcmovb O_ST0 O_ST5 O_NONE P_none,
    ITAB UD_Ifcmovb O_ST0 O_ST6 O_NONE P_none,
    ITAB UD_Ifcmovb O_ST0 O_ST7 O_NONE P_none,
    ITAB UD_Ifcmove O_ST0 O_ST0 O_NONE P_none,
    ITAB UD_Ifcmove O_ST0 O_ST1 O_NONE P_none,
    ITAB UD_Ifcmove O_ST0 O_ST2 O_NONE P_none,
    ITAB UD_Ifcmove O_ST0 O_ST3 O_NONE P_none,
    ITAB UD_Ifcmove O_ST0 O_ST4 O_NONE P_none,
    ITAB UD_Ifcmove O_ST0 O_ST5 O_NONE P_none,
    ITAB UD_Ifcmove O_ST0 O_ST6 O_NONE P_none,
    ITAB UD_Ifcmove O_ST0 O_ST7 O_NONE P_none,
    ITAB UD_Ifcmovbe O_ST0 O_ST0 O_NONE P_none,
    ITAB UD_Ifcmovbe O_ST0 O_ST1 O_NONE P_none,
    ITAB UD_Ifcmovbe O_ST0 O_ST2 O_NONE P_none,
    ITAB UD_Ifcmovbe O_ST0 O_ST3 O_NONE P_none,
    ITAB UD_Ifcmovbe O_ST0 O_ST4 O_NONE P_none,
    ITAB UD_Ifcmovbe O_ST0 O_ST5 O_NONE P_none,
    ITAB UD_Ifcmovbe O_ST0 O_ST6 O_NONE P_none,
    ITAB UD_Ifcmovbe O_ST0 O_ST7 O_NONE P_none,
    ITAB UD_Ifcmovu O_ST0 O_ST0 O_NONE P_none,
    ITAB UD_Ifcmovu O_ST0 O_ST1 O_NONE P_none,
    ITAB UD_Ifcmovu O_ST0 O_ST2 O_NONE P_none,
    ITAB UD_Ifcmovu O_ST0 O_ST3 O_NONE P_none,
    ITAB UD_Ifcmovu O_ST0 O_ST4 O_NONE P_none,
    ITAB UD_Ifcmovu O_ST0 O_ST5 O_NONE P_none,
    ITAB UD_Ifcmovu O_ST0 O_ST6 O_NONE P_none,
    ITAB UD_Ifcmovu O_ST0 O_ST7 O_NONE P_none,
    ITAB UD_Ifucompp O_NONE O_NONE O_NONE P_none,
    ITAB UD_Ifild O_Md O_NONE O_NONE (P_aso OR P_rexr OR P_rexx OR P_rexb),
    ITAB UD_Ifisttp O_Md O_NONE O_NONE (P_aso OR P_rexr OR P_rexx OR P_rexb),
    ITAB UD_Ifist O_Md O_NONE O_NONE (P_aso OR P_rexr OR P_rexx OR P_rexb),
    ITAB UD_Ifistp O_Md O_NONE O_NONE (P_aso OR P_rexr OR P_rexx OR P_rexb),
    ITAB UD_Ifld O_Mt O_NONE O_NONE (P_aso OR P_rexr OR P_rexx OR P_rexb),
    ITAB UD_Ifstp O_Mt O_NONE O_NONE (P_aso OR P_rexr OR P_rexx OR P_rexb),
    ITAB UD_Ifcmovnb O_ST0 O_ST0 O_NONE P_none,
    ITAB UD_Ifcmovnb O_ST0 O_ST1 O_NONE P_none,
    ITAB UD_Ifcmovnb O_ST0 O_ST2 O_NONE P_none,
    ITAB UD_Ifcmovnb O_ST0 O_ST3 O_NONE P_none,
    ITAB UD_Ifcmovnb O_ST0 O_ST4 O_NONE P_none,
    ITAB UD_Ifcmovnb O_ST0 O_ST5 O_NONE P_none,
    ITAB UD_Ifcmovnb O_ST0 O_ST6 O_NONE P_none,
    ITAB UD_Ifcmovnb O_ST0 O_ST7 O_NONE P_none,
    ITAB UD_Ifcmovne O_ST0 O_ST0 O_NONE P_none,
    ITAB UD_Ifcmovne O_ST0 O_ST1 O_NONE P_none,
    ITAB UD_Ifcmovne O_ST0 O_ST2 O_NONE P_none,
    ITAB UD_Ifcmovne O_ST0 O_ST3 O_NONE P_none,
    ITAB UD_Ifcmovne O_ST0 O_ST4 O_NONE P_none,
    ITAB UD_Ifcmovne O_ST0 O_ST5 O_NONE P_none,
    ITAB UD_Ifcmovne O_ST0 O_ST6 O_NONE P_none,
    ITAB UD_Ifcmovne O_ST0 O_ST7 O_NONE P_none,
    ITAB UD_Ifcmovnbe O_ST0 O_ST0 O_NONE P_none,
    ITAB UD_Ifcmovnbe O_ST0 O_ST1 O_NONE P_none,
    ITAB UD_Ifcmovnbe O_ST0 O_ST2 O_NONE P_none,
    ITAB UD_Ifcmovnbe O_ST0 O_ST3 O_NONE P_none,
    ITAB UD_Ifcmovnbe O_ST0 O_ST4 O_NONE P_none,
    ITAB UD_Ifcmovnbe O_ST0 O_ST5 O_NONE P_none,
    ITAB UD_Ifcmovnbe O_ST0 O_ST6 O_NONE P_none,
    ITAB UD_Ifcmovnbe O_ST0 O_ST7 O_NONE P_none,
    ITAB UD_Ifcmovnu O_ST0 O_ST0 O_NONE P_none,
    ITAB UD_Ifcmovnu O_ST0 O_ST1 O_NONE P_none,
    ITAB UD_Ifcmovnu O_ST0 O_ST2 O_NONE P_none,
    ITAB UD_Ifcmovnu O_ST0 O_ST3 O_NONE P_none,
    ITAB UD_Ifcmovnu O_ST0 O_ST4 O_NONE P_none,
    ITAB UD_Ifcmovnu O_ST0 O_ST5 O_NONE P_none,
    ITAB UD_Ifcmovnu O_ST0 O_ST6 O_NONE P_none,
    ITAB UD_Ifcmovnu O_ST0 O_ST7 O_NONE P_none,
    ITAB UD_Ifclex O_NONE O_NONE O_NONE P_none,
    ITAB UD_Ifninit O_NONE O_NONE O_NONE P_none,
    ITAB UD_Ifucomi O_ST0 O_ST0 O_NONE P_none,
    ITAB UD_Ifucomi O_ST0 O_ST1 O_NONE P_none,
    ITAB UD_Ifucomi O_ST0 O_ST2 O_NONE P_none,
    ITAB UD_Ifucomi O_ST0 O_ST3 O_NONE P_none,
    ITAB UD_Ifucomi O_ST0 O_ST4 O_NONE P_none,
    ITAB UD_Ifucomi O_ST0 O_ST5 O_NONE P_none,
    ITAB UD_Ifucomi O_ST0 O_ST6 O_NONE P_none,
    ITAB UD_Ifucomi O_ST0 O_ST7 O_NONE P_none,
    ITAB UD_Ifcomi O_ST0 O_ST0 O_NONE P_none,
    ITAB UD_Ifcomi O_ST0 O_ST1 O_NONE P_none,
    ITAB UD_Ifcomi O_ST0 O_ST2 O_NONE P_none,
    ITAB UD_Ifcomi O_ST0 O_ST3 O_NONE P_none,
    ITAB UD_Ifcomi O_ST0 O_ST4 O_NONE P_none,
    ITAB UD_Ifcomi O_ST0 O_ST5 O_NONE P_none,
    ITAB UD_Ifcomi O_ST0 O_ST6 O_NONE P_none,
    ITAB UD_Ifcomi O_ST0 O_ST7 O_NONE P_none,
    ITAB UD_Ifadd O_Mq O_NONE O_NONE (P_aso OR P_rexr OR P_rexx OR P_rexb),
    ITAB UD_Ifmul O_Mq O_NONE O_NONE (P_aso OR P_rexr OR P_rexx OR P_rexb),
    ITAB UD_Ifcom O_Mq O_NONE O_NONE (P_aso OR P_rexr OR P_rexx OR P_rexb),
    ITAB UD_Ifcomp O_Mq O_NONE O_NONE (P_aso OR P_rexr OR P_rexx OR P_rexb),
    ITAB UD_Ifsub O_Mq O_NONE O_NONE (P_aso OR P_rexr OR P_rexx OR P_rexb),
    ITAB UD_Ifsubr O_Mq O_NONE O_NONE (P_aso OR P_rexr OR P_rexx OR P_rexb),
    ITAB UD_Ifdiv O_Mq O_NONE O_NONE (P_aso OR P_rexr OR P_rexx OR P_rexb),
    ITAB UD_Ifdivr O_Mq O_NONE O_NONE (P_aso OR P_rexr OR P_rexx OR P_rexb),
    ITAB UD_Ifadd O_ST0 O_ST0 O_NONE P_none,
    ITAB UD_Ifadd O_ST1 O_ST0 O_NONE P_none,
    ITAB UD_Ifadd O_ST2 O_ST0 O_NONE P_none,
    ITAB UD_Ifadd O_ST3 O_ST0 O_NONE P_none,
    ITAB UD_Ifadd O_ST4 O_ST0 O_NONE P_none,
    ITAB UD_Ifadd O_ST5 O_ST0 O_NONE P_none,
    ITAB UD_Ifadd O_ST6 O_ST0 O_NONE P_none,
    ITAB UD_Ifadd O_ST7 O_ST0 O_NONE P_none,
    ITAB UD_Ifmul O_ST0 O_ST0 O_NONE P_none,
    ITAB UD_Ifmul O_ST1 O_ST0 O_NONE P_none,
    ITAB UD_Ifmul O_ST2 O_ST0 O_NONE P_none,
    ITAB UD_Ifmul O_ST3 O_ST0 O_NONE P_none,
    ITAB UD_Ifmul O_ST4 O_ST0 O_NONE P_none,
    ITAB UD_Ifmul O_ST5 O_ST0 O_NONE P_none]"

definition itab_part8 :: "ud_itab_entry list" where [itab_part]:
  "itab_part8 = [
    ITAB UD_Ifmul O_ST6 O_ST0 O_NONE P_none,
    ITAB UD_Ifmul O_ST7 O_ST0 O_NONE P_none,
    ITAB UD_Ifcom2 O_ST0 O_NONE O_NONE P_none,
    ITAB UD_Ifcom2 O_ST1 O_NONE O_NONE P_none,
    ITAB UD_Ifcom2 O_ST2 O_NONE O_NONE P_none,
    ITAB UD_Ifcom2 O_ST3 O_NONE O_NONE P_none,
    ITAB UD_Ifcom2 O_ST4 O_NONE O_NONE P_none,
    ITAB UD_Ifcom2 O_ST5 O_NONE O_NONE P_none,
    ITAB UD_Ifcom2 O_ST6 O_NONE O_NONE P_none,
    ITAB UD_Ifcom2 O_ST7 O_NONE O_NONE P_none,
    ITAB UD_Ifcomp3 O_ST0 O_NONE O_NONE P_none,
    ITAB UD_Ifcomp3 O_ST1 O_NONE O_NONE P_none,
    ITAB UD_Ifcomp3 O_ST2 O_NONE O_NONE P_none,
    ITAB UD_Ifcomp3 O_ST3 O_NONE O_NONE P_none,
    ITAB UD_Ifcomp3 O_ST4 O_NONE O_NONE P_none,
    ITAB UD_Ifcomp3 O_ST5 O_NONE O_NONE P_none,
    ITAB UD_Ifcomp3 O_ST6 O_NONE O_NONE P_none,
    ITAB UD_Ifcomp3 O_ST7 O_NONE O_NONE P_none,
    ITAB UD_Ifsubr O_ST0 O_ST0 O_NONE P_none,
    ITAB UD_Ifsubr O_ST1 O_ST0 O_NONE P_none,
    ITAB UD_Ifsubr O_ST2 O_ST0 O_NONE P_none,
    ITAB UD_Ifsubr O_ST3 O_ST0 O_NONE P_none,
    ITAB UD_Ifsubr O_ST4 O_ST0 O_NONE P_none,
    ITAB UD_Ifsubr O_ST5 O_ST0 O_NONE P_none,
    ITAB UD_Ifsubr O_ST6 O_ST0 O_NONE P_none,
    ITAB UD_Ifsubr O_ST7 O_ST0 O_NONE P_none,
    ITAB UD_Ifsub O_ST0 O_ST0 O_NONE P_none,
    ITAB UD_Ifsub O_ST1 O_ST0 O_NONE P_none,
    ITAB UD_Ifsub O_ST2 O_ST0 O_NONE P_none,
    ITAB UD_Ifsub O_ST3 O_ST0 O_NONE P_none,
    ITAB UD_Ifsub O_ST4 O_ST0 O_NONE P_none,
    ITAB UD_Ifsub O_ST5 O_ST0 O_NONE P_none,
    ITAB UD_Ifsub O_ST6 O_ST0 O_NONE P_none,
    ITAB UD_Ifsub O_ST7 O_ST0 O_NONE P_none,
    ITAB UD_Ifdivr O_ST0 O_ST0 O_NONE P_none,
    ITAB UD_Ifdivr O_ST1 O_ST0 O_NONE P_none,
    ITAB UD_Ifdivr O_ST2 O_ST0 O_NONE P_none,
    ITAB UD_Ifdivr O_ST3 O_ST0 O_NONE P_none,
    ITAB UD_Ifdivr O_ST4 O_ST0 O_NONE P_none,
    ITAB UD_Ifdivr O_ST5 O_ST0 O_NONE P_none,
    ITAB UD_Ifdivr O_ST6 O_ST0 O_NONE P_none,
    ITAB UD_Ifdivr O_ST7 O_ST0 O_NONE P_none,
    ITAB UD_Ifdiv O_ST0 O_ST0 O_NONE P_none,
    ITAB UD_Ifdiv O_ST1 O_ST0 O_NONE P_none,
    ITAB UD_Ifdiv O_ST2 O_ST0 O_NONE P_none,
    ITAB UD_Ifdiv O_ST3 O_ST0 O_NONE P_none,
    ITAB UD_Ifdiv O_ST4 O_ST0 O_NONE P_none,
    ITAB UD_Ifdiv O_ST5 O_ST0 O_NONE P_none,
    ITAB UD_Ifdiv O_ST6 O_ST0 O_NONE P_none,
    ITAB UD_Ifdiv O_ST7 O_ST0 O_NONE P_none,
    ITAB UD_Ifld O_Mq O_NONE O_NONE (P_aso OR P_rexr OR P_rexx OR P_rexb),
    ITAB UD_Ifisttp O_Mq O_NONE O_NONE (P_aso OR P_rexr OR P_rexx OR P_rexb),
    ITAB UD_Ifst O_Mq O_NONE O_NONE (P_aso OR P_rexr OR P_rexx OR P_rexb),
    ITAB UD_Ifstp O_Mq O_NONE O_NONE (P_aso OR P_rexr OR P_rexx OR P_rexb),
    ITAB UD_Ifrstor O_M O_NONE O_NONE (P_aso OR P_rexr OR P_rexx OR P_rexb),
    ITAB UD_Ifnsave O_M O_NONE O_NONE (P_aso OR P_rexr OR P_rexx OR P_rexb),
    ITAB UD_Ifnstsw O_Mw O_NONE O_NONE (P_aso OR P_rexr OR P_rexx OR P_rexb),
    ITAB UD_Iffree O_ST0 O_NONE O_NONE P_none,
    ITAB UD_Iffree O_ST1 O_NONE O_NONE P_none,
    ITAB UD_Iffree O_ST2 O_NONE O_NONE P_none,
    ITAB UD_Iffree O_ST3 O_NONE O_NONE P_none,
    ITAB UD_Iffree O_ST4 O_NONE O_NONE P_none,
    ITAB UD_Iffree O_ST5 O_NONE O_NONE P_none,
    ITAB UD_Iffree O_ST6 O_NONE O_NONE P_none,
    ITAB UD_Iffree O_ST7 O_NONE O_NONE P_none,
    ITAB UD_Ifxch4 O_ST0 O_NONE O_NONE P_none,
    ITAB UD_Ifxch4 O_ST1 O_NONE O_NONE P_none,
    ITAB UD_Ifxch4 O_ST2 O_NONE O_NONE P_none,
    ITAB UD_Ifxch4 O_ST3 O_NONE O_NONE P_none,
    ITAB UD_Ifxch4 O_ST4 O_NONE O_NONE P_none,
    ITAB UD_Ifxch4 O_ST5 O_NONE O_NONE P_none,
    ITAB UD_Ifxch4 O_ST6 O_NONE O_NONE P_none,
    ITAB UD_Ifxch4 O_ST7 O_NONE O_NONE P_none,
    ITAB UD_Ifst O_ST0 O_NONE O_NONE P_none,
    ITAB UD_Ifst O_ST1 O_NONE O_NONE P_none,
    ITAB UD_Ifst O_ST2 O_NONE O_NONE P_none,
    ITAB UD_Ifst O_ST3 O_NONE O_NONE P_none,
    ITAB UD_Ifst O_ST4 O_NONE O_NONE P_none,
    ITAB UD_Ifst O_ST5 O_NONE O_NONE P_none,
    ITAB UD_Ifst O_ST6 O_NONE O_NONE P_none,
    ITAB UD_Ifst O_ST7 O_NONE O_NONE P_none,
    ITAB UD_Ifstp O_ST0 O_NONE O_NONE P_none,
    ITAB UD_Ifstp O_ST1 O_NONE O_NONE P_none,
    ITAB UD_Ifstp O_ST2 O_NONE O_NONE P_none,
    ITAB UD_Ifstp O_ST3 O_NONE O_NONE P_none,
    ITAB UD_Ifstp O_ST4 O_NONE O_NONE P_none,
    ITAB UD_Ifstp O_ST5 O_NONE O_NONE P_none,
    ITAB UD_Ifstp O_ST6 O_NONE O_NONE P_none,
    ITAB UD_Ifstp O_ST7 O_NONE O_NONE P_none,
    ITAB UD_Ifucom O_ST0 O_NONE O_NONE P_none,
    ITAB UD_Ifucom O_ST1 O_NONE O_NONE P_none,
    ITAB UD_Ifucom O_ST2 O_NONE O_NONE P_none,
    ITAB UD_Ifucom O_ST3 O_NONE O_NONE P_none,
    ITAB UD_Ifucom O_ST4 O_NONE O_NONE P_none,
    ITAB UD_Ifucom O_ST5 O_NONE O_NONE P_none,
    ITAB UD_Ifucom O_ST6 O_NONE O_NONE P_none,
    ITAB UD_Ifucom O_ST7 O_NONE O_NONE P_none,
    ITAB UD_Ifucomp O_ST0 O_NONE O_NONE P_none,
    ITAB UD_Ifucomp O_ST1 O_NONE O_NONE P_none,
    ITAB UD_Ifucomp O_ST2 O_NONE O_NONE P_none,
    ITAB UD_Ifucomp O_ST3 O_NONE O_NONE P_none,
    ITAB UD_Ifucomp O_ST4 O_NONE O_NONE P_none,
    ITAB UD_Ifucomp O_ST5 O_NONE O_NONE P_none,
    ITAB UD_Ifucomp O_ST6 O_NONE O_NONE P_none,
    ITAB UD_Ifucomp O_ST7 O_NONE O_NONE P_none,
    ITAB UD_Ifiadd O_Mw O_NONE O_NONE (P_aso OR P_rexr OR P_rexx OR P_rexb),
    ITAB UD_Ifimul O_Mw O_NONE O_NONE (P_aso OR P_rexr OR P_rexx OR P_rexb),
    ITAB UD_Ificom O_Mw O_NONE O_NONE (P_aso OR P_rexr OR P_rexx OR P_rexb),
    ITAB UD_Ificomp O_Mw O_NONE O_NONE (P_aso OR P_rexr OR P_rexx OR P_rexb),
    ITAB UD_Ifisub O_Mw O_NONE O_NONE (P_aso OR P_rexr OR P_rexx OR P_rexb),
    ITAB UD_Ifisubr O_Mw O_NONE O_NONE (P_aso OR P_rexr OR P_rexx OR P_rexb),
    ITAB UD_Ifidiv O_Mw O_NONE O_NONE (P_aso OR P_rexr OR P_rexx OR P_rexb),
    ITAB UD_Ifidivr O_Mw O_NONE O_NONE (P_aso OR P_rexr OR P_rexx OR P_rexb),
    ITAB UD_Ifaddp O_ST0 O_ST0 O_NONE P_none,
    ITAB UD_Ifaddp O_ST1 O_ST0 O_NONE P_none,
    ITAB UD_Ifaddp O_ST2 O_ST0 O_NONE P_none,
    ITAB UD_Ifaddp O_ST3 O_ST0 O_NONE P_none,
    ITAB UD_Ifaddp O_ST4 O_ST0 O_NONE P_none,
    ITAB UD_Ifaddp O_ST5 O_ST0 O_NONE P_none,
    ITAB UD_Ifaddp O_ST6 O_ST0 O_NONE P_none,
    ITAB UD_Ifaddp O_ST7 O_ST0 O_NONE P_none,
    ITAB UD_Ifmulp O_ST0 O_ST0 O_NONE P_none,
    ITAB UD_Ifmulp O_ST1 O_ST0 O_NONE P_none,
    ITAB UD_Ifmulp O_ST2 O_ST0 O_NONE P_none,
    ITAB UD_Ifmulp O_ST3 O_ST0 O_NONE P_none,
    ITAB UD_Ifmulp O_ST4 O_ST0 O_NONE P_none,
    ITAB UD_Ifmulp O_ST5 O_ST0 O_NONE P_none,
    ITAB UD_Ifmulp O_ST6 O_ST0 O_NONE P_none,
    ITAB UD_Ifmulp O_ST7 O_ST0 O_NONE P_none,
    ITAB UD_Ifcomp5 O_ST0 O_NONE O_NONE P_none,
    ITAB UD_Ifcomp5 O_ST1 O_NONE O_NONE P_none,
    ITAB UD_Ifcomp5 O_ST2 O_NONE O_NONE P_none,
    ITAB UD_Ifcomp5 O_ST3 O_NONE O_NONE P_none,
    ITAB UD_Ifcomp5 O_ST4 O_NONE O_NONE P_none,
    ITAB UD_Ifcomp5 O_ST5 O_NONE O_NONE P_none,
    ITAB UD_Ifcomp5 O_ST6 O_NONE O_NONE P_none,
    ITAB UD_Ifcomp5 O_ST7 O_NONE O_NONE P_none,
    ITAB UD_Ifcompp O_NONE O_NONE O_NONE P_none,
    ITAB UD_Ifsubrp O_ST0 O_ST0 O_NONE P_none,
    ITAB UD_Ifsubrp O_ST1 O_ST0 O_NONE P_none,
    ITAB UD_Ifsubrp O_ST2 O_ST0 O_NONE P_none,
    ITAB UD_Ifsubrp O_ST3 O_ST0 O_NONE P_none,
    ITAB UD_Ifsubrp O_ST4 O_ST0 O_NONE P_none,
    ITAB UD_Ifsubrp O_ST5 O_ST0 O_NONE P_none,
    ITAB UD_Ifsubrp O_ST6 O_ST0 O_NONE P_none,
    ITAB UD_Ifsubrp O_ST7 O_ST0 O_NONE P_none]"

definition itab_part9 :: "ud_itab_entry list" where [itab_part]:
  "itab_part9 = [
    ITAB UD_Ifsubp O_ST0 O_ST0 O_NONE P_none,
    ITAB UD_Ifsubp O_ST1 O_ST0 O_NONE P_none,
    ITAB UD_Ifsubp O_ST2 O_ST0 O_NONE P_none,
    ITAB UD_Ifsubp O_ST3 O_ST0 O_NONE P_none,
    ITAB UD_Ifsubp O_ST4 O_ST0 O_NONE P_none,
    ITAB UD_Ifsubp O_ST5 O_ST0 O_NONE P_none,
    ITAB UD_Ifsubp O_ST6 O_ST0 O_NONE P_none,
    ITAB UD_Ifsubp O_ST7 O_ST0 O_NONE P_none,
    ITAB UD_Ifdivrp O_ST0 O_ST0 O_NONE P_none,
    ITAB UD_Ifdivrp O_ST1 O_ST0 O_NONE P_none,
    ITAB UD_Ifdivrp O_ST2 O_ST0 O_NONE P_none,
    ITAB UD_Ifdivrp O_ST3 O_ST0 O_NONE P_none,
    ITAB UD_Ifdivrp O_ST4 O_ST0 O_NONE P_none,
    ITAB UD_Ifdivrp O_ST5 O_ST0 O_NONE P_none,
    ITAB UD_Ifdivrp O_ST6 O_ST0 O_NONE P_none,
    ITAB UD_Ifdivrp O_ST7 O_ST0 O_NONE P_none,
    ITAB UD_Ifdivp O_ST0 O_ST0 O_NONE P_none,
    ITAB UD_Ifdivp O_ST1 O_ST0 O_NONE P_none,
    ITAB UD_Ifdivp O_ST2 O_ST0 O_NONE P_none,
    ITAB UD_Ifdivp O_ST3 O_ST0 O_NONE P_none,
    ITAB UD_Ifdivp O_ST4 O_ST0 O_NONE P_none,
    ITAB UD_Ifdivp O_ST5 O_ST0 O_NONE P_none,
    ITAB UD_Ifdivp O_ST6 O_ST0 O_NONE P_none,
    ITAB UD_Ifdivp O_ST7 O_ST0 O_NONE P_none,
    ITAB UD_Ifild O_Mw O_NONE O_NONE (P_aso OR P_rexr OR P_rexx OR P_rexb),
    ITAB UD_Ifisttp O_Mw O_NONE O_NONE (P_aso OR P_rexr OR P_rexx OR P_rexb),
    ITAB UD_Ifist O_Mw O_NONE O_NONE (P_aso OR P_rexr OR P_rexx OR P_rexb),
    ITAB UD_Ifistp O_Mw O_NONE O_NONE (P_aso OR P_rexr OR P_rexx OR P_rexb),
    ITAB UD_Ifbld O_Mt O_NONE O_NONE (P_aso OR P_rexr OR P_rexx OR P_rexb),
    ITAB UD_Ifild O_Mq O_NONE O_NONE (P_aso OR P_rexr OR P_rexx OR P_rexb),
    ITAB UD_Ifbstp O_Mt O_NONE O_NONE (P_aso OR P_rexr OR P_rexx OR P_rexb),
    ITAB UD_Ifistp O_Mq O_NONE O_NONE (P_aso OR P_rexr OR P_rexx OR P_rexb),
    ITAB UD_Iffreep O_ST0 O_NONE O_NONE P_none,
    ITAB UD_Iffreep O_ST1 O_NONE O_NONE P_none,
    ITAB UD_Iffreep O_ST2 O_NONE O_NONE P_none,
    ITAB UD_Iffreep O_ST3 O_NONE O_NONE P_none,
    ITAB UD_Iffreep O_ST4 O_NONE O_NONE P_none,
    ITAB UD_Iffreep O_ST5 O_NONE O_NONE P_none,
    ITAB UD_Iffreep O_ST6 O_NONE O_NONE P_none,
    ITAB UD_Iffreep O_ST7 O_NONE O_NONE P_none,
    ITAB UD_Ifxch7 O_ST0 O_NONE O_NONE P_none,
    ITAB UD_Ifxch7 O_ST1 O_NONE O_NONE P_none,
    ITAB UD_Ifxch7 O_ST2 O_NONE O_NONE P_none,
    ITAB UD_Ifxch7 O_ST3 O_NONE O_NONE P_none,
    ITAB UD_Ifxch7 O_ST4 O_NONE O_NONE P_none,
    ITAB UD_Ifxch7 O_ST5 O_NONE O_NONE P_none,
    ITAB UD_Ifxch7 O_ST6 O_NONE O_NONE P_none,
    ITAB UD_Ifxch7 O_ST7 O_NONE O_NONE P_none,
    ITAB UD_Ifstp8 O_ST0 O_NONE O_NONE P_none,
    ITAB UD_Ifstp8 O_ST1 O_NONE O_NONE P_none,
    ITAB UD_Ifstp8 O_ST2 O_NONE O_NONE P_none,
    ITAB UD_Ifstp8 O_ST3 O_NONE O_NONE P_none,
    ITAB UD_Ifstp8 O_ST4 O_NONE O_NONE P_none,
    ITAB UD_Ifstp8 O_ST5 O_NONE O_NONE P_none,
    ITAB UD_Ifstp8 O_ST6 O_NONE O_NONE P_none,
    ITAB UD_Ifstp8 O_ST7 O_NONE O_NONE P_none,
    ITAB UD_Ifstp9 O_ST0 O_NONE O_NONE P_none,
    ITAB UD_Ifstp9 O_ST1 O_NONE O_NONE P_none,
    ITAB UD_Ifstp9 O_ST2 O_NONE O_NONE P_none,
    ITAB UD_Ifstp9 O_ST3 O_NONE O_NONE P_none,
    ITAB UD_Ifstp9 O_ST4 O_NONE O_NONE P_none,
    ITAB UD_Ifstp9 O_ST5 O_NONE O_NONE P_none,
    ITAB UD_Ifstp9 O_ST6 O_NONE O_NONE P_none,
    ITAB UD_Ifstp9 O_ST7 O_NONE O_NONE P_none,
    ITAB UD_Ifnstsw O_AX O_NONE O_NONE P_none,
    ITAB UD_Ifucomip O_ST0 O_ST0 O_NONE P_none,
    ITAB UD_Ifucomip O_ST0 O_ST1 O_NONE P_none,
    ITAB UD_Ifucomip O_ST0 O_ST2 O_NONE P_none,
    ITAB UD_Ifucomip O_ST0 O_ST3 O_NONE P_none,
    ITAB UD_Ifucomip O_ST0 O_ST4 O_NONE P_none,
    ITAB UD_Ifucomip O_ST0 O_ST5 O_NONE P_none,
    ITAB UD_Ifucomip O_ST0 O_ST6 O_NONE P_none,
    ITAB UD_Ifucomip O_ST0 O_ST7 O_NONE P_none,
    ITAB UD_Ifcomip O_ST0 O_ST0 O_NONE P_none,
    ITAB UD_Ifcomip O_ST0 O_ST1 O_NONE P_none,
    ITAB UD_Ifcomip O_ST0 O_ST2 O_NONE P_none,
    ITAB UD_Ifcomip O_ST0 O_ST3 O_NONE P_none,
    ITAB UD_Ifcomip O_ST0 O_ST4 O_NONE P_none,
    ITAB UD_Ifcomip O_ST0 O_ST5 O_NONE P_none,
    ITAB UD_Ifcomip O_ST0 O_ST6 O_NONE P_none,
    ITAB UD_Ifcomip O_ST0 O_ST7 O_NONE P_none,
    ITAB UD_Iloopne O_Jb O_NONE O_NONE P_none,
    ITAB UD_Iloope O_Jb O_NONE O_NONE P_none,
    ITAB UD_Iloop O_Jb O_NONE O_NONE P_none,
    ITAB UD_Ijcxz O_Jb O_NONE O_NONE P_aso,
    ITAB UD_Ijecxz O_Jb O_NONE O_NONE P_aso,
    ITAB UD_Ijrcxz O_Jb O_NONE O_NONE P_aso,
    ITAB UD_Iin O_AL O_Ib O_NONE P_none,
    ITAB UD_Iin O_eAX O_Ib O_NONE P_oso,
    ITAB UD_Iout O_Ib O_AL O_NONE P_none,
    ITAB UD_Iout O_Ib O_eAX O_NONE P_oso,
    ITAB UD_Icall O_Jz O_NONE O_NONE (P_oso OR P_def64),
    ITAB UD_Ijmp O_Jz O_NONE O_NONE (P_oso OR P_def64),
    ITAB UD_Ijmp O_Av O_NONE O_NONE P_oso,
    ITAB UD_Ijmp O_Jb O_NONE O_NONE P_def64,
    ITAB UD_Iin O_AL O_DX O_NONE P_none,
    ITAB UD_Iin O_eAX O_DX O_NONE P_oso,
    ITAB UD_Iout O_DX O_AL O_NONE P_none,
    ITAB UD_Iout O_DX O_eAX O_NONE P_oso,
    ITAB UD_Ilock O_NONE O_NONE O_NONE P_none,
    ITAB UD_Iint1 O_NONE O_NONE O_NONE P_none,
    ITAB UD_Irepne O_NONE O_NONE O_NONE P_none,
    ITAB UD_Irep O_NONE O_NONE O_NONE P_none,
    ITAB UD_Ihlt O_NONE O_NONE O_NONE P_none,
    ITAB UD_Icmc O_NONE O_NONE O_NONE P_none,
    ITAB UD_Itest O_Eb O_Ib O_NONE (P_aso OR P_rexw OR P_rexr OR P_rexx OR P_rexb),
    ITAB UD_Itest O_Eb O_Ib O_NONE (P_aso OR P_rexw OR P_rexr OR P_rexx OR P_rexb),
    ITAB UD_Inot O_Eb O_NONE O_NONE (P_aso OR P_rexw OR P_rexr OR P_rexx OR P_rexb),
    ITAB UD_Ineg O_Eb O_NONE O_NONE (P_aso OR P_rexw OR P_rexr OR P_rexx OR P_rexb),
    ITAB UD_Imul O_Eb O_NONE O_NONE (P_aso OR P_rexw OR P_rexr OR P_rexx OR P_rexb),
    ITAB UD_Iimul O_Eb O_NONE O_NONE (P_aso OR P_rexw OR P_rexr OR P_rexx OR P_rexb),
    ITAB UD_Idiv O_Eb O_NONE O_NONE (P_aso OR P_rexw OR P_rexr OR P_rexx OR P_rexb),
    ITAB UD_Iidiv O_Eb O_NONE O_NONE (P_aso OR P_rexw OR P_rexr OR P_rexx OR P_rexb),
    ITAB UD_Itest O_Ev O_sIz O_NONE (P_aso OR P_oso OR P_rexw OR P_rexr OR P_rexx OR P_rexb),
    ITAB UD_Itest O_Ev O_Iz O_NONE (P_aso OR P_oso OR P_rexw OR P_rexr OR P_rexx OR P_rexb),
    ITAB UD_Inot O_Ev O_NONE O_NONE (P_aso OR P_oso OR P_rexw OR P_rexr OR P_rexx OR P_rexb),
    ITAB UD_Ineg O_Ev O_NONE O_NONE (P_aso OR P_oso OR P_rexw OR P_rexr OR P_rexx OR P_rexb),
    ITAB UD_Imul O_Ev O_NONE O_NONE (P_aso OR P_oso OR P_rexw OR P_rexr OR P_rexx OR P_rexb),
    ITAB UD_Iimul O_Ev O_NONE O_NONE (P_aso OR P_oso OR P_rexw OR P_rexr OR P_rexx OR P_rexb),
    ITAB UD_Idiv O_Ev O_NONE O_NONE (P_aso OR P_oso OR P_rexw OR P_rexr OR P_rexx OR P_rexb),
    ITAB UD_Iidiv O_Ev O_NONE O_NONE (P_aso OR P_oso OR P_rexw OR P_rexr OR P_rexx OR P_rexb),
    ITAB UD_Iclc O_NONE O_NONE O_NONE P_none,
    ITAB UD_Istc O_NONE O_NONE O_NONE P_none,
    ITAB UD_Icli O_NONE O_NONE O_NONE P_none,
    ITAB UD_Isti O_NONE O_NONE O_NONE P_none,
    ITAB UD_Icld O_NONE O_NONE O_NONE P_none,
    ITAB UD_Istd O_NONE O_NONE O_NONE P_none,
    ITAB UD_Iinc O_Eb O_NONE O_NONE (P_aso OR P_rexw OR P_rexr OR P_rexx OR P_rexb),
    ITAB UD_Idec O_Eb O_NONE O_NONE (P_aso OR P_rexw OR P_rexr OR P_rexx OR P_rexb),
    ITAB UD_Iinc O_Ev O_NONE O_NONE (P_aso OR P_oso OR P_rexw OR P_rexr OR P_rexx OR P_rexb),
    ITAB UD_Idec O_Ev O_NONE O_NONE (P_aso OR P_oso OR P_rexw OR P_rexr OR P_rexx OR P_rexb),
    ITAB UD_Icall O_Ev O_NONE O_NONE (P_aso OR P_oso OR P_rexw OR P_rexr OR P_rexx OR P_rexb),
    ITAB UD_Icall O_Eq O_NONE O_NONE (P_aso OR P_oso OR P_rexw OR P_rexr OR P_rexx OR P_rexb OR P_def64),
    ITAB UD_Icall O_Fv O_NONE O_NONE (P_aso OR P_oso OR P_rexw OR P_rexr OR P_rexx OR P_rexb),
    ITAB UD_Ijmp O_Ev O_NONE O_NONE (P_aso OR P_oso OR P_rexw OR P_rexr OR P_rexx OR P_rexb OR P_def64),
    ITAB UD_Ijmp O_Fv O_NONE O_NONE (P_aso OR P_oso OR P_rexw OR P_rexr OR P_rexx OR P_rexb),
    ITAB UD_Ipush O_Ev O_NONE O_NONE (P_aso OR P_oso OR P_rexw OR P_rexr OR P_rexx OR P_rexb OR P_def64)]"

definition udis86_itab :: "ud_itab_entry list" where
  "udis86_itab =
    itab_part0 @ itab_part1 @ itab_part2 @ itab_part3 @ itab_part4 @ itab_part5 @ itab_part6 @ itab_part7 @ itab_part8 @ itab_part9"

section \<open>The mnemonic strings\<close>

definition mnemonics_part0 :: "string list" where [itab_part]:
  "mnemonics_part0 = [
    ''invalid'', ''3dnow'', ''none'', ''db'', ''pause'', ''aaa'', ''aad'', ''aam'', ''aas'',
    ''adc'', ''add'', ''addpd'', ''addps'', ''addsd'', ''addss'', ''and'', ''andpd'', ''andps'',
    ''andnpd'', ''andnps'', ''arpl'', ''movsxd'', ''bound'', ''bsf'', ''bsr'', ''bswap'', ''bt'',
    ''btc'', ''btr'', ''bts'', ''call'', ''cbw'', ''cwde'', ''cdqe'', ''clc'', ''cld'',
    ''clflush'', ''clgi'', ''cli'', ''clts'', ''cmc'', ''cmovo'', ''cmovno'', ''cmovb'',
    ''cmovae'', ''cmovz'', ''cmovnz'', ''cmovbe'', ''cmova'', ''cmovs'', ''cmovns'', ''cmovp'',
    ''cmovnp'', ''cmovl'', ''cmovge'', ''cmovle'', ''cmovg'', ''cmp'', ''cmppd'', ''cmpps'',
    ''cmpsb'', ''cmpsw'', ''cmpsd'', ''cmpsq'', ''cmpss'', ''cmpxchg'', ''cmpxchg8b'',
    ''cmpxchg16b'', ''comisd'', ''comiss'', ''cpuid'', ''cvtdq2pd'', ''cvtdq2ps'', ''cvtpd2dq'',
    ''cvtpd2pi'', ''cvtpd2ps'', ''cvtpi2ps'', ''cvtpi2pd'', ''cvtps2dq'', ''cvtps2pi'',
    ''cvtps2pd'', ''cvtsd2si'', ''cvtsd2ss'', ''cvtsi2ss'', ''cvtss2si'', ''cvtss2sd'',
    ''cvttpd2pi'', ''cvttpd2dq'', ''cvttps2dq'', ''cvttps2pi'', ''cvttsd2si'', ''cvtsi2sd'',
    ''cvttss2si'', ''cwd'', ''cdq'', ''cqo'', ''daa'', ''das'', ''dec'', ''div'', ''divpd'',
    ''divps'', ''divsd'', ''divss'', ''emms'', ''enter'', ''f2xm1'', ''fabs'', ''fadd'',
    ''faddp'', ''fbld'', ''fbstp'', ''fchs'', ''fclex'', ''fcmovb'', ''fcmove'', ''fcmovbe'',
    ''fcmovu'', ''fcmovnb'', ''fcmovne'', ''fcmovnbe'', ''fcmovnu'', ''fucomi'', ''fcom'',
    ''fcom2'', ''fcomp3'', ''fcomi'', ''fucomip'', ''fcomip'', ''fcomp'']"

definition mnemonics_part1 :: "string list" where [itab_part]:
  "mnemonics_part1 = [
    ''fcomp5'', ''fcompp'', ''fcos'', ''fdecstp'', ''fdiv'', ''fdivp'', ''fdivr'', ''fdivrp'',
    ''femms'', ''ffree'', ''ffreep'', ''ficom'', ''ficomp'', ''fild'', ''fincstp'', ''fninit'',
    ''fiadd'', ''fidivr'', ''fidiv'', ''fisub'', ''fisubr'', ''fist'', ''fistp'', ''fisttp'',
    ''fld'', ''fld1'', ''fldl2t'', ''fldl2e'', ''fldpi'', ''fldlg2'', ''fldln2'', ''fldz'',
    ''fldcw'', ''fldenv'', ''fmul'', ''fmulp'', ''fimul'', ''fnop'', ''fpatan'', ''fprem'',
    ''fprem1'', ''fptan'', ''frndint'', ''frstor'', ''fnsave'', ''fscale'', ''fsin'', ''fsincos'',
    ''fsqrt'', ''fstp'', ''fstp1'', ''fstp8'', ''fstp9'', ''fst'', ''fnstcw'', ''fnstenv'',
    ''fnstsw'', ''fsub'', ''fsubp'', ''fsubr'', ''fsubrp'', ''ftst'', ''fucom'', ''fucomp'',
    ''fucompp'', ''fxam'', ''fxch'', ''fxch4'', ''fxch7'', ''fxrstor'', ''fxsave'', ''fxtract'',
    ''fyl2x'', ''fyl2xp1'', ''hlt'', ''idiv'', ''in'', ''imul'', ''inc'', ''insb'', ''insw'',
    ''insd'', ''int1'', ''int3'', ''int'', ''into'', ''invd'', ''invept'', ''invlpg'',
    ''invlpga'', ''invvpid'', ''iretw'', ''iretd'', ''iretq'', ''jo'', ''jno'', ''jb'', ''jae'',
    ''jz'', ''jnz'', ''jbe'', ''ja'', ''js'', ''jns'', ''jp'', ''jnp'', ''jl'', ''jge'', ''jle'',
    ''jg'', ''jcxz'', ''jecxz'', ''jrcxz'', ''jmp'', ''lahf'', ''lar'', ''lddqu'', ''ldmxcsr'',
    ''lds'', ''lea'', ''les'', ''lfs'', ''lgs'', ''lidt'', ''lss'', ''leave'', ''lfence'',
    ''lgdt'', ''lldt'', ''lmsw'']"

definition mnemonics_part2 :: "string list" where [itab_part]:
  "mnemonics_part2 = [
    ''lock'', ''lodsb'', ''lodsw'', ''lodsd'', ''lodsq'', ''loopne'', ''loope'', ''loop'',
    ''lsl'', ''ltr'', ''maskmovq'', ''maxpd'', ''maxps'', ''maxsd'', ''maxss'', ''mfence'',
    ''minpd'', ''minps'', ''minsd'', ''minss'', ''monitor'', ''montmul'', ''mov'', ''movapd'',
    ''movaps'', ''movd'', ''movhpd'', ''movhps'', ''movlhps'', ''movlpd'', ''movlps'',
    ''movhlps'', ''movmskpd'', ''movmskps'', ''movntdq'', ''movnti'', ''movntpd'', ''movntps'',
    ''movntq'', ''movq'', ''movsb'', ''movsw'', ''movsd'', ''movsq'', ''movss'', ''movsx'',
    ''movupd'', ''movups'', ''movzx'', ''mul'', ''mulpd'', ''mulps'', ''mulsd'', ''mulss'',
    ''mwait'', ''neg'', ''nop'', ''not'', ''or'', ''orpd'', ''orps'', ''out'', ''outsb'',
    ''outsw'', ''outsd'', ''packsswb'', ''packssdw'', ''packuswb'', ''paddb'', ''paddw'',
    ''paddd'', ''paddsb'', ''paddsw'', ''paddusb'', ''paddusw'', ''pand'', ''pandn'', ''pavgb'',
    ''pavgw'', ''pcmpeqb'', ''pcmpeqw'', ''pcmpeqd'', ''pcmpgtb'', ''pcmpgtw'', ''pcmpgtd'',
    ''pextrb'', ''pextrd'', ''pextrq'', ''pextrw'', ''pinsrb'', ''pinsrw'', ''pinsrd'',
    ''pinsrq'', ''pmaddwd'', ''pmaxsw'', ''pmaxub'', ''pminsw'', ''pminub'', ''pmovmskb'',
    ''pmulhuw'', ''pmulhw'', ''pmullw'', ''pop'', ''popa'', ''popad'', ''popfw'', ''popfd'',
    ''popfq'', ''por'', ''prefetch'', ''prefetchnta'', ''prefetcht0'', ''prefetcht1'',
    ''prefetcht2'', ''psadbw'', ''pshufw'', ''psllw'', ''pslld'', ''psllq'', ''psraw'', ''psrad'',
    ''psrlw'', ''psrld'', ''psrlq'', ''psubb'', ''psubw'', ''psubd'', ''psubsb'', ''psubsw'',
    ''psubusb'']"

definition mnemonics_part3 :: "string list" where [itab_part]:
  "mnemonics_part3 = [
    ''psubusw'', ''punpckhbw'', ''punpckhwd'', ''punpckhdq'', ''punpcklbw'', ''punpcklwd'',
    ''punpckldq'', ''pi2fw'', ''pi2fd'', ''pf2iw'', ''pf2id'', ''pfnacc'', ''pfpnacc'',
    ''pfcmpge'', ''pfmin'', ''pfrcp'', ''pfrsqrt'', ''pfsub'', ''pfadd'', ''pfcmpgt'', ''pfmax'',
    ''pfrcpit1'', ''pfrsqit1'', ''pfsubr'', ''pfacc'', ''pfcmpeq'', ''pfmul'', ''pfrcpit2'',
    ''pmulhrw'', ''pswapd'', ''pavgusb'', ''push'', ''pusha'', ''pushad'', ''pushfw'', ''pushfd'',
    ''pushfq'', ''pxor'', ''rcl'', ''rcr'', ''rol'', ''ror'', ''rcpps'', ''rcpss'', ''rdmsr'',
    ''rdpmc'', ''rdtsc'', ''rdtscp'', ''repne'', ''rep'', ''ret'', ''retf'', ''rsm'', ''rsqrtps'',
    ''rsqrtss'', ''sahf'', ''salc'', ''sar'', ''shl'', ''shr'', ''sbb'', ''scasb'', ''scasw'',
    ''scasd'', ''scasq'', ''seto'', ''setno'', ''setb'', ''setae'', ''setz'', ''setnz'',
    ''setbe'', ''seta'', ''sets'', ''setns'', ''setp'', ''setnp'', ''setl'', ''setge'', ''setle'',
    ''setg'', ''sfence'', ''sgdt'', ''shld'', ''shrd'', ''shufpd'', ''shufps'', ''sidt'',
    ''sldt'', ''smsw'', ''sqrtps'', ''sqrtpd'', ''sqrtsd'', ''sqrtss'', ''stc'', ''std'',
    ''stgi'', ''sti'', ''skinit'', ''stmxcsr'', ''stosb'', ''stosw'', ''stosd'', ''stosq'',
    ''str'', ''sub'', ''subpd'', ''subps'', ''subsd'', ''subss'', ''swapgs'', ''syscall'',
    ''sysenter'', ''sysexit'', ''sysret'', ''test'', ''ucomisd'', ''ucomiss'', ''ud2'',
    ''unpckhpd'', ''unpckhps'', ''unpcklps'', ''unpcklpd'', ''verr'', ''verw'', ''vmcall'',
    ''vmclear'', ''vmxon'', ''vmptrld'', ''vmptrst'']"

definition mnemonics_part4 :: "string list" where [itab_part]:
  "mnemonics_part4 = [
    ''vmlaunch'', ''vmresume'', ''vmxoff'', ''vmread'', ''vmwrite'', ''vmrun'', ''vmmcall'',
    ''vmload'', ''vmsave'', ''wait'', ''wbinvd'', ''wrmsr'', ''xadd'', ''xchg'', ''xgetbv'',
    ''xlatb'', ''xor'', ''xorpd'', ''xorps'', ''xcryptecb'', ''xcryptcbc'', ''xcryptctr'',
    ''xcryptcfb'', ''xcryptofb'', ''xrstor'', ''xsave'', ''xsetbv'', ''xsha1'', ''xsha256'',
    ''xstore'', ''aesdec'', ''aesdeclast'', ''aesenc'', ''aesenclast'', ''aesimc'',
    ''aeskeygenassist'', ''pclmulqdq'', ''getsec'', ''movdqa'', ''maskmovdqu'', ''movdq2q'',
    ''movdqu'', ''movq2dq'', ''paddq'', ''psubq'', ''pmuludq'', ''pshufhw'', ''pshuflw'',
    ''pshufd'', ''pslldq'', ''psrldq'', ''punpckhqdq'', ''punpcklqdq'', ''addsubpd'',
    ''addsubps'', ''haddpd'', ''haddps'', ''hsubpd'', ''hsubps'', ''movddup'', ''movshdup'',
    ''movsldup'', ''pabsb'', ''pabsw'', ''pabsd'', ''pshufb'', ''phaddw'', ''phaddd'',
    ''phaddsw'', ''pmaddubsw'', ''phsubw'', ''phsubd'', ''phsubsw'', ''psignb'', ''psignd'',
    ''psignw'', ''pmulhrsw'', ''palignr'', ''pblendvb'', ''pmuldq'', ''pminsb'', ''pminsd'',
    ''pminuw'', ''pminud'', ''pmaxsb'', ''pmaxsd'', ''pmaxud'', ''pmaxuw'', ''pmulld'',
    ''phminposuw'', ''roundps'', ''roundpd'', ''roundss'', ''roundsd'', ''blendpd'', ''pblendw'',
    ''blendps'', ''blendvpd'', ''blendvps'', ''dpps'', ''dppd'', ''mpsadbw'', ''extractps'',
    ''insertps'', ''movntdqa'', ''packusdw'', ''pmovsxbw'', ''pmovsxbd'', ''pmovsxbq'',
    ''pmovsxwd'', ''pmovsxwq'', ''pmovsxdq'', ''pmovzxbw'', ''pmovzxbd'', ''pmovzxbq'',
    ''pmovzxwd'', ''pmovzxwq'', ''pmovzxdq'', ''pcmpeqq'', ''popcnt'', ''ptest'', ''pcmpestri'',
    ''pcmpestrm'', ''pcmpgtq'', ''pcmpistri'', ''pcmpistrm'', ''movbe'', ''crc32'']"

definition udis86_mnemonics_str :: "string list" where
  "udis86_mnemonics_str =
    mnemonics_part0 @ mnemonics_part1 @ mnemonics_part2 @ mnemonics_part3 @ mnemonics_part4"

definition udis86_tables :: ud_tables where
  "udis86_tables = \<lparr>ud_itab = udis86_itab, ud_lookup_table_list = udis86_lookup_table_list\<rparr>"

end
