(* ===== verification/Itab.thy ===== *)
theory Itab
  imports Itab_Lists Ud_Tables
begin

text \<open>
  The opcode tables of udis86 are well-formed: every pointer leads to an instruction entry through
  tables that are long enough for how they are indexed, and every instruction names operands the
  decoder can print. So the theorems on the decoder hold for the tables of the program.
\<close>

section \<open>Evaluation\<close>

text \<open>Lookups are evaluated without simplifying the list; the tables are walked by these equations.\<close>

lemma nth_weak: "i = j \<Longrightarrow> xs ! i = xs ! j" by simp

lemma bit_8000: "bit (0x8000 :: u16) i \<longleftrightarrow> i = 15"
proof -
  have "(0x8000 :: u16) = push_bit 15 1" by simp
  then have "bit (0x8000 :: u16) i \<longleftrightarrow> bit (push_bit 15 1 :: u16) i" by (simp only:)
  also have "\<dots> \<longleftrightarrow> i = 15" by (simp only: bit_push_bit_iff bit_1_iff) auto
  finally show ?thesis .
qed

lemma top_bit:
  fixes m w :: u16
  assumes "\<And>i. bit m i \<longleftrightarrow> i = 15" and "\<not> bit w 15"
  shows "w AND m = 0" "(m OR w) AND m \<noteq> 0" "NOT m AND (m OR w) = w"
proof -
  show "w AND m = 0" by (rule bit_word_eqI) (auto simp: bit_simps assms)
  have "bit ((m OR w) AND m) 15" by (simp add: bit_simps assms)
  then show "(m OR w) AND m \<noteq> 0" by auto
  show "NOT m AND (m OR w) = w" by (rule bit_word_eqI) (use assms(2) in \<open>auto simp: bit_simps assms(1)\<close>)
qed

lemmas flag_8000 = top_bit [OF bit_8000]

lemma low_bit: "n < 32768 \<Longrightarrow> \<not> bit (of_nat n :: u16) 15"
proof -
  assume n: "n < 32768"
  have "\<not> bit n 15" using n by (simp add: bit_iff_odd)
  then show ?thesis by (simp add: bit_of_nat_iff)
qed

lemma unat_index: "n < 32768 \<Longrightarrow> unat (of_nat n :: u16) = n"
  by (simp add: unat_of_nat take_bit_nat_eq_self)

lemma GROUP_word: "n < 32768 \<Longrightarrow> is_group (GROUP n)" "n < 32768 \<Longrightarrow> group_index (GROUP n) = n"
  using flag_8000(2,3) [OF low_bit, of n]
  by (simp_all only: is_group_def GROUP_def group_index_def unat_index not_False_eq_True)

lemma leaf_of_nat: "n < 32768 \<Longrightarrow> \<not> is_group (of_nat n) \<and> unat (of_nat n :: u16) = n"
  using flag_8000(1) [OF low_bit, of n] by (simp only: is_group_def unat_index) simp

lemma leaf_word:
  "\<not> is_group 0" "\<not> is_group 1" "numeral k < (32768 :: nat) \<Longrightarrow> \<not> is_group (numeral k)"
  "numeral k < (32768 :: nat) \<Longrightarrow> unat (numeral k :: u16) = numeral k"
  using leaf_of_nat [of 0] leaf_of_nat [of 1] leaf_of_nat [of "numeral k"] by simp_all

section \<open>The instructions\<close>

lemma operand_ok [simp]: "eopr_ok (OPDEF ty sz) \<longleftrightarrow>
    (if ty = OP_MR then gpr_size (Mx_reg_size sz)
     else if OP_R0 \<le> ty \<and> ty \<le> OP_rDX \<or> ty \<in> {OP_E, OP_G, OP_R} then gpr_size sz else True)"
  by (simp add: eopr_ok_def OPDEF_def)

definition entry_wf :: "ud_itab_entry \<Rightarrow> bool" where
  "entry_wf e \<longleftrightarrow> eopr_ok (ie_operand1 e) \<and> eopr_ok (ie_operand2 e) \<and> eopr_ok (ie_operand3 e) \<and>
     ie_mnemonic e < UD_MAX_MNEMONIC_CODE \<and> ie_mnemonic e \<noteq> UD_I3dnow"

lemma entry_wf_ITAB: "entry_wf (ITAB m o1 o2 o3 p) \<longleftrightarrow>
    eopr_ok o1 \<and> eopr_ok o2 \<and> eopr_ok o3 \<and> m < 648 \<and> m \<noteq> 1"
  by (simp add: entry_wf_def ITAB_def ud_mnemonic_defs)

lemma operands_ok:
  "eopr_ok O_AL" "eopr_ok O_AX" "eopr_ok O_Av" "eopr_ok O_C" "eopr_ok O_CL" "eopr_ok O_CS"
  "eopr_ok O_D" "eopr_ok O_DS" "eopr_ok O_DX" "eopr_ok O_ES" "eopr_ok O_Eb" "eopr_ok O_Ed"
  "eopr_ok O_Eq" "eopr_ok O_Ev" "eopr_ok O_Ew" "eopr_ok O_Ey" "eopr_ok O_FS" "eopr_ok O_Fv"
  "eopr_ok O_GS" "eopr_ok O_Gb" "eopr_ok O_Gd" "eopr_ok O_Gq" "eopr_ok O_Gv" "eopr_ok O_Gw"
  "eopr_ok O_Gy" "eopr_ok O_Gz" "eopr_ok O_I1" "eopr_ok O_Ib" "eopr_ok O_Iv" "eopr_ok O_Iw"
  "eopr_ok O_Iz" "eopr_ok O_Jb" "eopr_ok O_Jz" "eopr_ok O_M" "eopr_ok O_MbRd" "eopr_ok O_MbRv"
  "eopr_ok O_Md" "eopr_ok O_MdRy" "eopr_ok O_MdU" "eopr_ok O_Mo" "eopr_ok O_Mq" "eopr_ok O_MqU"
  "eopr_ok O_Mt" "eopr_ok O_Mv" "eopr_ok O_Mw" "eopr_ok O_MwRd" "eopr_ok O_MwRv" "eopr_ok O_MwRy"
  "eopr_ok O_MwU" "eopr_ok O_N" "eopr_ok O_NONE" "eopr_ok O_Ob" "eopr_ok O_Ov" "eopr_ok O_P"
  "eopr_ok O_Q" "eopr_ok O_R" "eopr_ok O_R0b" "eopr_ok O_R0v" "eopr_ok O_R0y" "eopr_ok O_R0z"
  "eopr_ok O_R1b" "eopr_ok O_R1v" "eopr_ok O_R1y" "eopr_ok O_R1z" "eopr_ok O_R2b" "eopr_ok O_R2v"
  "eopr_ok O_R2y" "eopr_ok O_R2z" "eopr_ok O_R3b" "eopr_ok O_R3v" "eopr_ok O_R3y" "eopr_ok O_R3z"
  "eopr_ok O_R4b" "eopr_ok O_R4v" "eopr_ok O_R4y" "eopr_ok O_R4z" "eopr_ok O_R5b" "eopr_ok O_R5v"
  "eopr_ok O_R5y" "eopr_ok O_R5z" "eopr_ok O_R6b" "eopr_ok O_R6v" "eopr_ok O_R6y" "eopr_ok O_R6z"
  "eopr_ok O_R7b" "eopr_ok O_R7v" "eopr_ok O_R7y" "eopr_ok O_R7z" "eopr_ok O_S" "eopr_ok O_SS"
  "eopr_ok O_ST0" "eopr_ok O_ST1" "eopr_ok O_ST2" "eopr_ok O_ST3" "eopr_ok O_ST4" "eopr_ok O_ST5"
  "eopr_ok O_ST6" "eopr_ok O_ST7" "eopr_ok O_U" "eopr_ok O_V" "eopr_ok O_W" "eopr_ok O_eAX"
  "eopr_ok O_rAX" "eopr_ok O_sIb" "eopr_ok O_sIz"
  by (simp_all add: itab_operand ud_operand_code_defs ud_operand_size_defs gpr_size_def Mx_reg_size_def)

lemmas entry_eval = itab_part entry_wf_ITAB operands_ok mnemonic_code

lemma itab_part0_wf: "list_all entry_wf itab_part0" by (simp add: entry_eval)
lemma itab_part1_wf: "list_all entry_wf itab_part1" by (simp add: entry_eval)
lemma itab_part2_wf: "list_all entry_wf itab_part2" by (simp add: entry_eval)
lemma itab_part3_wf: "list_all entry_wf itab_part3" by (simp add: entry_eval)
lemma itab_part4_wf: "list_all entry_wf itab_part4" by (simp add: entry_eval)
lemma itab_part5_wf: "list_all entry_wf itab_part5" by (simp add: entry_eval)
lemma itab_part6_wf: "list_all entry_wf itab_part6" by (simp add: entry_eval)
lemma itab_part7_wf: "list_all entry_wf itab_part7" by (simp add: entry_eval)
lemma itab_part8_wf: "list_all entry_wf itab_part8" by (simp add: entry_eval)
lemma itab_part9_wf: "list_all entry_wf itab_part9" by (simp add: entry_eval)

lemmas itab_parts_wf = itab_part0_wf itab_part1_wf itab_part2_wf itab_part3_wf itab_part4_wf
  itab_part5_wf itab_part6_wf itab_part7_wf itab_part8_wf itab_part9_wf

lemma udis86_itab_wf: "list_all entry_wf udis86_itab"
  by (simp add: udis86_itab_def itab_parts_wf)

lemma itab_ok_udis86: "itab_ok udis86_tables"
  using udis86_itab_wf by (simp add: itab_ok_def udis86_tables_def list_all_iff entry_wf_def)

lemma length_itab_part:
  "length itab_part0 = 146"
  "length itab_part1 = 146"
  "length itab_part2 = 146"
  "length itab_part3 = 146"
  "length itab_part4 = 146"
  "length itab_part5 = 146"
  "length itab_part6 = 146"
  "length itab_part7 = 146"
  "length itab_part8 = 146"
  "length itab_part9 = 137"
  by (simp_all add: itab_part)

lemma length_udis86_itab: "length udis86_itab = 1451"
  by (simp add: udis86_itab_def length_itab_part)

section \<open>The lookup tables\<close>

lemma length_lookup_part:
  "length lookup_part0 = 142"
  "length lookup_part1 = 142"
  "length lookup_part2 = 142"
  "length lookup_part3 = 142"
  "length lookup_part4 = 142"
  "length lookup_part5 = 142"
  "length lookup_part6 = 142"
  "length lookup_part7 = 139"
  by (simp_all add: itab_part)

lemma length_lookup: "length udis86_lookup_table_list = 1133"
  by (simp add: udis86_lookup_table_list_def length_lookup_part)

text \<open>A pointer to an instruction.\<close>

lemma leaf_ok: "n < 1451 \<Longrightarrow> entry_ok udis86_tables (of_nat n)"
  using leaf_of_nat [of n] udis86_itab_wf
  by (simp add: entry_ok_def udis86_tables_def length_udis86_itab list_all_length entry_wf_def)

lemma entry_leaf:
  "entry_ok udis86_tables 0" "entry_ok udis86_tables 1"
  "numeral k < (1451 :: nat) \<Longrightarrow> entry_ok udis86_tables (numeral k)"
  using leaf_ok [of 0] leaf_ok [of 1] leaf_ok [of "numeral k"] by simp_all

lemma ext_entry: "entry_ok t ptr \<Longrightarrow> ext_ok t n m3 ptr"
  by (cases n) (simp_all add: entry_ok_def)

lemmas ext_leaf = entry_leaf [THEN ext_entry]

definition ext_table :: "nat \<Rightarrow> bool \<Rightarrow> ud_lookup_table_list_entry \<Rightarrow> bool" where
  "ext_table n m3 le \<longleftrightarrow>
     table_length_ok m3 le \<and>
     (if le_type le = UD_TAB__OPC_3DNOW then list_all (entry_ok udis86_tables) (le_table le)
      else if le_type le = UD_TAB__OPC_MOD then
        ext_ok udis86_tables n False (le_table le ! 0) \<and> ext_ok udis86_tables n True (le_table le ! 1)
      else list_all (ext_ok udis86_tables n m3) (le_table le))"

lemma ext_group: "k < 1133 \<Longrightarrow>
    ext_ok udis86_tables (numeral n) m3 (GROUP k) \<longleftrightarrow> ext_table (pred_numeral n) m3 (udis86_lookup_table_list ! k)"
  by (simp add: numeral_eq_Suc [of n] GROUP_word ext_table_def Let_def) (simp add: udis86_tables_def length_lookup)

lemma ext_table_TAB:
  "ext_table n m3 (TAB tab UD_TAB__OPC_SSE) \<longleftrightarrow> 4 \<le> length tab \<and> list_all (ext_ok udis86_tables n m3) tab"
  "ext_table n m3 (TAB tab UD_TAB__OPC_MOD) \<longleftrightarrow> 2 \<le> length tab \<and>
     ext_ok udis86_tables n False (hd tab) \<and> ext_ok udis86_tables n True (hd (tl tab))"
  "ext_table n m3 (TAB tab UD_TAB__OPC_RM) \<longleftrightarrow> 8 \<le> length tab \<and> list_all (ext_ok udis86_tables n m3) tab"
  "ext_table n m3 (TAB tab UD_TAB__OPC_REG) \<longleftrightarrow> 8 \<le> length tab \<and> list_all (ext_ok udis86_tables n m3) tab"
  "ext_table n m3 (TAB tab UD_TAB__OPC_VENDOR) \<longleftrightarrow> 2 \<le> length tab \<and> list_all (ext_ok udis86_tables n m3) tab"
  "ext_table n m3 (TAB tab UD_TAB__OPC_MODE) \<longleftrightarrow> 2 \<le> length tab \<and> list_all (ext_ok udis86_tables n m3) tab"
  "ext_table n m3 (TAB tab UD_TAB__OPC_OSIZE) \<longleftrightarrow> 3 \<le> length tab \<and> list_all (ext_ok udis86_tables n m3) tab"
  "ext_table n m3 (TAB tab UD_TAB__OPC_ASIZE) \<longleftrightarrow> 3 \<le> length tab \<and> list_all (ext_ok udis86_tables n m3) tab"
  "ext_table n m3 (TAB tab UD_TAB__OPC_X87) \<longleftrightarrow>
     m3 \<and> 64 \<le> length tab \<and> list_all (ext_ok udis86_tables n m3) tab"
  "ext_table n m3 (TAB tab UD_TAB__OPC_3DNOW) \<longleftrightarrow> 256 \<le> length tab \<and> list_all (entry_ok udis86_tables) tab"
  "ext_table n m3 (TAB tab UD_TAB__OPC_TABLE) \<longleftrightarrow> False"
proof -
  have "2 \<le> length tab \<Longrightarrow> hd tab = tab ! 0 \<and> hd (tl tab) = tab ! 1"
    by (cases tab; cases "tl tab") auto
  then show "ext_table n m3 (TAB tab UD_TAB__OPC_MOD) \<longleftrightarrow> 2 \<le> length tab \<and>
     ext_ok udis86_tables n False (hd tab) \<and> ext_ok udis86_tables n True (hd (tl tab))"
    by (auto simp: ext_table_def TAB_def table_length_ok_def)
qed (simp_all add: ext_table_def TAB_def table_length_ok_def)

lemma nth_lookup:
  "udis86_lookup_table_list ! k =
     (if k < 142 then lookup_part0 ! k
      else if k - 142 < 142 then lookup_part1 ! (k - 142)
      else if k - 142 - 142 < 142 then lookup_part2 ! (k - 142 - 142)
      else if k - 142 - 142 - 142 < 142 then lookup_part3 ! (k - 142 - 142 - 142)
      else if k - 142 - 142 - 142 - 142 < 142 then lookup_part4 ! (k - 142 - 142 - 142 - 142)
      else if k - 142 - 142 - 142 - 142 - 142 < 142 then lookup_part5 ! (k - 142 - 142 - 142 - 142 - 142)
      else if k - 142 - 142 - 142 - 142 - 142 - 142 < 142 then lookup_part6 ! (k - 142 - 142 - 142 - 142 - 142 - 142)
      else lookup_part7 ! (k - 142 - 142 - 142 - 142 - 142 - 142 - 142))"
  by (simp only: udis86_lookup_table_list_def nth_append length_lookup_part)

lemmas nth_lookup_part =
  lookup_part0_def [THEN arg_cong [where f = "\<lambda>xs. xs ! k" for k]]
  lookup_part1_def [THEN arg_cong [where f = "\<lambda>xs. xs ! k" for k]]
  lookup_part2_def [THEN arg_cong [where f = "\<lambda>xs. xs ! k" for k]]
  lookup_part3_def [THEN arg_cong [where f = "\<lambda>xs. xs ! k" for k]]
  lookup_part4_def [THEN arg_cong [where f = "\<lambda>xs. xs ! k" for k]]
  lookup_part5_def [THEN arg_cong [where f = "\<lambda>xs. xs ! k" for k]]
  lookup_part6_def [THEN arg_cong [where f = "\<lambda>xs. xs ! k" for k]]
  lookup_part7_def [THEN arg_cong [where f = "\<lambda>xs. xs ! k" for k]]

text \<open>A pointer of an opcode table.\<close>

definition opcode_ptr :: "nat \<Rightarrow> u16 \<Rightarrow> bool" where
  "opcode_ptr n ptr \<longleftrightarrow>
     (if is_group ptr \<and> group_index ptr < 1133 \<and>
         le_type (udis86_lookup_table_list ! group_index ptr) = UD_TAB__OPC_TABLE
      then opcode_ok udis86_tables 11 n (udis86_lookup_table_list ! group_index ptr)
      else ext_ok udis86_tables 11 False ptr)"

lemma opcode_ok_table:
  "opcode_ok udis86_tables 11 (Suc n) (TAB tab ty) \<longleftrightarrow> 256 \<le> length tab \<and> list_all (opcode_ptr n) tab"
proof -
  have "(\<lambda>ptr. if is_group ptr \<and> group_index ptr < length (ud_lookup_table_list udis86_tables) \<and>
          le_type (ud_lookup_table_list udis86_tables ! group_index ptr) = UD_TAB__OPC_TABLE
       then opcode_ok udis86_tables 11 n (ud_lookup_table_list udis86_tables ! group_index ptr)
       else ext_ok udis86_tables 11 False ptr) = opcode_ptr n"
    by (simp add: fun_eq_iff opcode_ptr_def udis86_tables_def length_lookup)
  then show ?thesis by (simp add: TAB_def)
qed

lemma opcode_entry: "entry_ok udis86_tables ptr \<Longrightarrow> opcode_ptr n ptr"
  using ext_entry by (auto simp: opcode_ptr_def entry_ok_def)

lemmas opcode_leaf = entry_leaf [THEN opcode_entry]

lemma opcode_group:
  assumes "k < 1133" and "udis86_lookup_table_list ! k = TAB tab ty"
  shows "ty \<noteq> UD_TAB__OPC_TABLE \<Longrightarrow> opcode_ptr n (GROUP k) \<longleftrightarrow> ext_table 10 False (TAB tab ty)"
    and "ty = UD_TAB__OPC_TABLE \<Longrightarrow> opcode_ptr n (GROUP k) \<longleftrightarrow> opcode_ok udis86_tables 11 n (TAB tab ty)"
  using assms ext_group [of k _ False] by (simp_all add: opcode_ptr_def GROUP_word TAB_def)

lemmas walk = ext_group ext_leaf ext_table_TAB nth_lookup nth_lookup_part itab_table entry_leaf opcode_leaf

text \<open>The four opcode tables, inner ones first: \<open>0F 38\<close>, \<open>0F 3A\<close>, \<open>0F\<close> and the table of the first byte.\<close>


lemma table_165: "opcode_ok udis86_tables 11 (Suc n) (TAB ud_itab__165 UD_TAB__OPC_TABLE)"
proof -
  have "list_all (opcode_ptr n) ud_itab__165" by (simp add: walk opcode_group cong: nth_weak)
  moreover have "256 \<le> length ud_itab__165" by (simp add: itab_table)
  ultimately show ?thesis unfolding opcode_ok_table by blast
qed

lemma table_225: "opcode_ok udis86_tables 11 (Suc n) (TAB ud_itab__225 UD_TAB__OPC_TABLE)"
proof -
  have "list_all (opcode_ptr n) ud_itab__225" by (simp add: walk opcode_group cong: nth_weak)
  moreover have "256 \<le> length ud_itab__225" by (simp add: itab_table)
  ultimately show ?thesis unfolding opcode_ok_table by blast
qed

lemma table_4: "opcode_ok udis86_tables 11 (Suc (Suc n)) (TAB ud_itab__4 UD_TAB__OPC_TABLE)"
proof -
  have "list_all (opcode_ptr (Suc n)) ud_itab__4"
    by (simp add: walk opcode_group table_165 table_225 del: opcode_ok.simps ud_itab__165_def ud_itab__225_def
        cong: nth_weak)
  moreover have "256 \<le> length ud_itab__4" by (simp add: itab_table)
  ultimately show ?thesis unfolding opcode_ok_table by blast
qed

lemma table_0: "opcode_ok udis86_tables 11 (Suc (Suc (Suc n))) (TAB ud_itab__0 UD_TAB__OPC_TABLE)"
proof -
  have "list_all (opcode_ptr (Suc (Suc n))) ud_itab__0"
    by (simp add: walk opcode_group table_4 del: opcode_ok.simps ud_itab__4_def cong: nth_weak)
  moreover have "256 \<le> length ud_itab__0" by (simp add: itab_table)
  ultimately show ?thesis unfolding opcode_ok_table by blast
qed


section \<open>The tables of the program\<close>

lemma first_table: "udis86_lookup_table_list ! 0 = TAB ud_itab__0 UD_TAB__OPC_TABLE"
  by (simp add: nth_lookup nth_lookup_part del: ud_itab__0_def)

lemma Suc_1_3: "Suc (Suc (Suc 1)) = 4" by simp

lemma tables_ok_udis86: "tables_ok udis86_tables"
proof -
  have "udis86_itab \<noteq> []" "udis86_lookup_table_list \<noteq> []"
    using length_udis86_itab length_lookup by auto
  moreover have "opcode_ok udis86_tables 11 4 (udis86_lookup_table_list ! 0)"
    using table_0 [of 1] by (simp only: first_table Suc_1_3)
  ultimately show ?thesis unfolding tables_ok_def by (simp add: udis86_tables_def)
qed

lemma itab_e8: "ud_itab__0 ! 0xe8 = 1405" "256 \<le> length ud_itab__0"
  by (simp_all add: itab_table)

lemma call_itab: "udis86_itab ! 1405 = call_entry"
proof -
  have "udis86_itab ! 1405 = itab_part9 ! 91"
    by (simp add: udis86_itab_def nth_append length_itab_part)
  also have "\<dots> = ITAB UD_Icall O_Jz O_NONE O_NONE (P_oso OR P_def64)"
    unfolding itab_part9_def by (simp cong: nth_weak)
  also have "\<dots> = call_entry"
    by (simp add: ITAB_def call_entry_def itab_operand P_oso_def P_def64_def OPDEF_def)
  finally show ?thesis .
qed

lemma e8_call_udis86: "e8_call udis86_tables"
proof -
  have "\<not> is_group (1405 :: u16)" "unat (1405 :: u16) = 1405" using leaf_word(3,4) by simp_all
  then show ?thesis
    unfolding e8_call_def udis86_tables_def
    using itab_e8 call_itab first_table length_lookup length_udis86_itab by (simp add: TAB_def) auto
qed

lemma itab_invalid: "ie_mnemonic (ud_itab udis86_tables ! 0) = UD_Iinvalid"
proof -
  have "udis86_itab ! 0 = itab_part0 ! 0"
    by (simp add: udis86_itab_def nth_append length_itab_part)
  then show ?thesis by (simp add: udis86_tables_def itab_part ITAB_def)
qed

lemma length_mnemonics: "length udis86_mnemonics_str = 648"
  by (simp add: udis86_mnemonics_str_def itab_part)

lemma itab_invalid_not_call: "ie_mnemonic (ud_itab udis86_tables ! 0) \<noteq> UD_Icall"
  unfolding itab_invalid by (simp add: ud_mnemonic_defs)

end
