(* ===== verification/Udis86.thy ===== *)
theory Udis86
  imports Itab Analyze
begin

text \<open>
  The decoder, the disassembler and the analyzer on the opcode tables of the program.
\<close>

interpretation udis86: call_opcode_tables udis86_tables
  by unfold_locales (rule tables_ok_udis86 itab_ok_udis86 e8_call_udis86 itab_invalid_not_call)+

text \<open>C15. The opcode tables of \<^verbatim>\<open>itab.c\<close> are well-formed: from the table of the first byte every
  pointer leads, through at most three opcode tables more and eleven extension tables that are as long
  as they are indexed, to an instruction; the instructions have codes with a mnemonic string and
  operands whose register sizes exist; and \<open>E8\<close> is the near call.\<close>

theorem udis86_tables_wf:
  "tables_ok udis86_tables \<and> itab_ok udis86_tables \<and> e8_call udis86_tables \<and>
   length (ud_lookup_table_list udis86_tables) = 1133 \<and> length (ud_itab udis86_tables) = 1451 \<and>
   length udis86_mnemonics_str = UD_MAX_MNEMONIC_CODE"
  using tables_ok_udis86 itab_ok_udis86 e8_call_udis86 length_lookup length_udis86_itab length_mnemonics
  by (simp add: udis86_tables_def ud_mnemonic_defs)

text \<open>C16. \<open>ud_disassemble\<close> always returns, for every input, mode, syntax and previous state: it consumes
  the bytes it reports, returns zero only at the end of the input, names only registers that exist,
  and keeps its text inside the buffer.\<close>

theorem ud_disassemble_total:
  assumes "disas_inv u"
  shows "\<exists>n u'. ud_disassemble udis86_tables udis86_mnemonics_str junk u = Some (n, u') \<and> n \<le> 64 \<and>
           inp_rest u' = drop n (inp_rest u) \<and> n \<le> length (inp_rest u) \<and> disas_inv u' \<and>
           (n = 0 \<longleftrightarrow> inp_end u \<or> inp_rest u = [])"
  using assms by (rule udis86.disassemble_total)

theorem ud_disassemble_total_witness:
  "\<exists>n u'. ud_disassemble udis86_tables udis86_mnemonics_str 0 (example_ud [0xe8, 1, 0, 0, 0]) = Some (n, u') \<and>
     0 < n \<and> n \<le> 5 \<and> disas_inv u'"
  using ud_disassemble_total [OF disas_inv_example(1), of 0 "[0xe8, 1, 0, 0, 0]"]
  by (auto simp: disas_inv_example)

text \<open>C17. The decoder always returns: it reads at most 64 bytes, in order and within its input and
  session buffer, reports exactly the bytes it consumed, moves the program counter by them, makes
  progress as long as there is input, and reports the end of the input only when all of it is read; the
  object stays usable.\<close>

theorem ud_decode_total:
  assumes "input_inv u"
  shows "\<exists>n u'. ud_decode udis86_tables junk u = Some (n, u') \<and> n \<le> 64 \<and> ud_insn_len u' = n \<and>
           n \<le> length (inp_rest u) \<and> inp_rest u' = drop n (inp_rest u) \<and> input_inv u' \<and>
           insn_offset u' = ud_pc u \<and> ud_pc u' = ud_pc u + of_nat n \<and>
           (\<not> inp_end u \<and> inp_rest u \<noteq> [] \<longrightarrow> 0 < n) \<and>
           (inp_end u' \<longrightarrow> inp_end u \<or> inp_rest u' = [])"
  using assms by (rule udis86.decode_total)

theorem ud_decode_total_witness:
  "\<exists>n u'. ud_decode udis86_tables 0x48 (example_input [0x90, 0x90]) = Some (n, u') \<and> 0 < n \<and> n \<le> 2 \<and>
     ud_pc u' = of_nat n"
  using ud_decode_total [OF input_inv_example, of "0x48" "[0x90, 0x90]"] by auto

text \<open>C18. In 64-bit mode the bytes \<open>E8 a b c d\<close> are decoded as a near call of length five whose
  operand is the 32-bit displacement they hold, whatever the previous object and the uninitialised
  byte of the prefix loop were.\<close>

theorem ud_decode_call:
  assumes "buffered u (0xe8 # a # b # c # d # cs)" and "dis_mode u = 64"
  shows "\<exists>u'. ud_decode udis86_tables junk u = Some (5, u') \<and> ud_insn_mnemonic u' = UD_Icall \<and>
           ud_insn_opr u' 0 = Some (call_operand (rel32 a b c d)) \<and> ud_insn_opr u' 1 = None \<and>
           buffered u' cs"
  using assms by (rule udis86.decode_call)

theorem ud_decode_call_witness:
  "\<exists>u'. ud_decode udis86_tables 0 (example_input [0xe8, 0x10, 0, 0, 0, 0x90]) = Some (5, u') \<and>
     ud_insn_mnemonic u' = UD_Icall \<and> ud_insn_opr u' 0 = Some (call_operand 0x10) \<and> buffered u' [0x90]"
proof -
  have "rel32 0x10 0 0 0 = 0x10" by (simp add: rel32_def)
  then show ?thesis
    using ud_decode_call [of "example_input [0xe8, 0x10, 0, 0, 0, 0x90]" "0x10" 0 0 0 "[0x90]" 0]
      buffered_example [of "[0xe8, 0x10, 0, 0, 0, 0x90]"] by auto
qed

text \<open>C20. After a decoding the object points to the bytes of the instruction just decoded, whether
  the input is a buffer or a hook, and at least as many bytes as the instruction has are there.\<close>

theorem ud_insn_ptr_decoded:
  assumes "input_inv u" and "ud_decode udis86_tables junk u = Some (n, u')"
  shows "n \<le> length (ud_insn_ptr u') \<and> take n (ud_insn_ptr u') = take n (inp_rest u) \<and>
         (inp_buf u \<noteq> None \<longrightarrow> inp_buf_index u' = inp_buf_index u + n)"
  using assms by (rule udis86.insn_ptr_decoded)

theorem ud_insn_ptr_decoded_witness:
  "\<exists>n u'. ud_decode udis86_tables 0 (example_input [0x90, 0x90]) = Some (n, u') \<and>
     take n (ud_insn_ptr u') = take n [0x90, 0x90]"
proof -
  obtain n u' where "ud_decode udis86_tables 0 (example_input [0x90, 0x90]) = Some (n, u')"
    using udis86.decode_total [OF input_inv_example, of 0 "[0x90, 0x90]"] by blast
  then show ?thesis
    using ud_insn_ptr_decoded [OF input_inv_example, of 0 "[0x90, 0x90]" n u'] by auto
qed

text \<open>C13. The analysis of a 64-bit program returns with success: the text section is partitioned into
  the instructions of a linear sweep, and exactly one branch site is appended, in order, for each
  instruction of five bytes that starts with \<open>E8\<close>. It holds the address behind the call, the low 32
  bits of the target that the signed displacement gives, and the symbol of the target. Nothing else
  of the context or the memory changes, and nothing behind the section is read.\<close>

theorem analyze_records_calls:
  assumes "malloc_ok os"
    and "elf_section_by_name (ctx_elfobj (p_ctx p)) ''.text'' = Some sec"
    and "elf_class64 (ctx_elfobj (p_ctx p))"
    and "text = read_bytes (p_mem p) (disas_textptr (p_ctx p)) (unat (sec_size sec))"
  shows "\<exists>insns p'. shiva_analyze_run udis86_tables udis86_mnemonics_str junk stdin os p = Some (True, p') \<and>
     linear_sweep udis86_tables udis86_mnemonics_str junk (disas_base (p_ctx p))
       (sweep_ud stdin text (length text) 64) insns \<and>
     concat (map snd insns) = text \<and>
     p_ctx p' = (p_ctx p)\<lparr>branch_tqlist := branch_tqlist (p_ctx p) @
       map (site_of_call (ctx_elfobj (p_ctx p))) (filter is_rel_call insns)\<rparr> \<and>
     p_mem p' = p_mem p \<and> p_prot p' = p_prot p"
  using assms by (rule udis86.analyze_sweeps)

theorem analyze_records_calls_witness:
  "\<exists>insns p'. shiva_analyze_run udis86_tables udis86_mnemonics_str (\<lambda>_. 0) [] example_analyze_os
       example_analyze_proc = Some (True, p') \<and>
     concat (map snd insns) = example_text \<and>
     branch_tqlist (p_ctx p') = map (site_of_call (ctx_elfobj (p_ctx example_analyze_proc)))
       (filter is_rel_call insns)"
proof -
  let ?p = example_analyze_proc
  have "malloc_ok example_analyze_os" by (simp add: malloc_ok_def example_analyze_os_def)
  moreover have "read_bytes (p_mem ?p) (disas_textptr (p_ctx ?p)) (unat (sec_size example_text_section)) = example_text"
    by (simp add: example_analyze_proc_def example_text_section_def example_text_def mem_simps)
  ultimately show ?thesis
    using analyze_records_calls [of example_analyze_os ?p example_text_section example_text "\<lambda>_. 0" "[]"]
    by (auto simp: example_analyze_proc_def zero_ctx_def)
qed

end
