(* ===== verification/Main_Example.thy ===== *)
theory Main_Example
  imports Main_Static Udis86
begin

text \<open>
  A run of \<open>main\<close> from the command line, \<^verbatim>\<open>shiva -u t\<close> with a static executable \<open>t\<close>, up to the hand-over:
  that the program can get there at all, and where it goes.
\<close>

section \<open>The steps of a run\<close>

lemma standalone_run:
  assumes "2 < argc"
    and "shiva_build_target_argv os argv argc (set_ctx (\<lambda>ctx. ctx\<lparr>ctx_envp := envp, ctx_argv := argv\<rparr>) p) = Some (True, p1)"
    and "p2 = set_ctx shiva_init_lists p1" and "os_access os (ctx_path (p_ctx p2))"
    and "arg_string p2 argv 1 = Some arg1" and "p_mem p2 (arg_pointer p2 argv 1) = char_byte (CHR ''-'')"
    and "p3 = set_ctx (\<lambda>ctx. ctx\<lparr>ctx_flags := main_options (tl arg1) (ctx_flags ctx)\<rparr>) p2"
    and "shiva_build_trace_data os p3 = (True, p4)"
    and "shiva_ulexec_prep os (me_load_base env) (me_load env) p4 = Some (True, p5)"
    and "shiva_maps_build_list os p5 = Some (True, p6)"
    and "find_shiva_base env (\<lambda>e. mmap_type e = SHIVA_MMAP_TYPE_SHIVA \<and> map_prot e = PROT_READ) p6 = Some p7"
    and "analyze env os p7 = Some (True, p8)" and "has_flag (ctx_flags (p_ctx p8)) SHIVA_OPTS_F_ULEXEC_ONLY"
    and "\<forall>x. has_flag (p_prot p8 x) PROT_WRITE"
  shows "\<exists>r q. main_standalone env os argc argv envp p = Some (Transferred r, q) \<and> p_ctx q = p_ctx p8"
proof -
  have "\<not> (argc < 2 \<or> argc = 2 \<and> p_mem p (arg_pointer p argv 1) = char_byte (CHR ''-''))" using assms(1) by simp
  moreover have "\<exists>r q. ldso_transfer (me_regs env) sp a e p8 = Some (Transferred r, q) \<and> p_ctx q = p_ctx p8" for sp a e
    using assms(14) by (simp add: ldso_transfer_def Let_def p_write_def writable_def del: le_bytes.simps)
  ultimately show ?thesis
    using assms(2,4-6,8-13) unfolding main_standalone_def assms(3,7)
    by (simp add: assms(3,7) Let_def del: One_nat_def)
qed

text \<open>The new stack of a target: what it leaves of the process.\<close>

lemma build_stack_frame:
  assumes "shiva_ulexec_build_auxv_stack os p = Some (ok, a, b, q)" and "\<forall>x. has_flag (p_prot p x) PROT_WRITE"
  shows "(\<exists>c. p_ctx q = (p_ctx p)\<lparr>ulexec := (ulexec (p_ctx p))\<lparr>ul_stack := c\<rparr>\<rparr>) \<and>
    (\<forall>x. has_flag (p_prot q x) PROT_WRITE)"
proof -
  obtain s p1 where s: "shiva_ulexec_allocstack os p = Some (s, p1)" and q: "p_ctx q = p_ctx p1" "p_prot q = p_prot p1"
    using assms(1) by (auto simp: shiva_ulexec_build_auxv_stack_def Let_def bind_eq_Some_conv case_prod_beta)
  have "has_flag (PROT_READ OR PROT_WRITE) PROT_WRITE" by (simp add: PROT_WRITE_def)
  then show ?thesis
    using s assms(2) unfolding q
    by (auto simp: shiva_ulexec_allocstack_def sys_mmap_def Let_def split: option.splits)
qed

section \<open>The example\<close>

text \<open>The stack the kernel made: three arguments, no environment, the entry point.\<close>

definition main_mem :: mem where
  "main_mem = write_bytes (\<lambda>_. 0) 0x1000
     (le_bytes 8 (0x1048 :: u64) @ le_bytes 8 (0x104a :: u64) @ le_bytes 8 (0x104d :: u64) @ le_bytes 8 (0 :: u64) @
      le_bytes 8 (0 :: u64) @ le_bytes 8 (9 :: u64) @ le_bytes 8 (0x400000 :: u64) @ le_bytes 8 (0 :: u64) @
      le_bytes 8 (0 :: u64) @ [0x73, 0, 0x2d, 0x75, 0, 0x74, 0])"

definition main_args :: "u8 list list" where
  "main_args = [[0x73], [0x2d, 0x75], [0x74]]"

definition main_proc :: proc where
  "main_proc = zero_proc\<lparr>p_mem := main_mem, p_prot := (\<lambda>_. PROT_READ OR PROT_WRITE)\<rparr>"

text \<open>A position dependent executable of one segment.\<close>

definition main_text_section :: elf_section where
  "main_text_section = \<lparr>sec_name = ''.text'', sec_flags = 6, sec_size = 5, sec_offset = 0x80, sec_address = 0x400080,
     sec_entsize = 0\<rparr>"

definition main_obj :: elfobj where
  "main_obj = null_elfobj\<lparr>elf_type := ET_EXEC, elf_class64 := True, elf_entry_point := 0x400080,
     elf_section_by_name := (\<lambda>n. if n = ''.text'' then Some main_text_section else None),
     elf_address_pointer := (\<lambda>a. Some (a - 0x400000 + 0x3000)),
     elf_segments := [\<lparr>seg_type = PT_LOAD, seg_flags = 7, seg_offset = 0, seg_vaddr = 0x400000,
                       seg_filesz = 0x100, seg_memsz = 0x100\<rparr>],
     elf_read_byte := (\<lambda>i. if i < 0x100 then Some 0x90 else None)\<rparr>"

definition main_os :: os where
  "main_os = \<lparr>os_malloc = (\<lambda>n len. Some (0x2000 + 0x100 * of_nat n)),
     os_mmap = (\<lambda>n a len pr fl. Some (if a = 0 then 0x10000000 else a)), os_mprotect = (\<lambda>n a len pr. True),
     os_file = (\<lambda>f. if f = ''/proc/self/maps'' then Some (proc_file example_regions) else None),
     os_realpath_exe = Some ''/bin/shiva'', os_access = (\<lambda>f. f = ''t''),
     os_open_object = (\<lambda>f. if f = ''t'' then Some main_obj else None), os_hash_slots = 0, os_sizeof = (\<lambda>_. 64)\<rparr>"

definition main_example_env :: main_env where
  "main_example_env = \<lparr>me_tables = udis86_tables, me_mnemonics = udis86_mnemonics_str, me_curr = (\<lambda>_. 0),
     me_stdin = [], me_link = \<lparr>le_standalone = True, le_plt_size = 16, le_plt_offset = 6, le_entry_symbol = ''shakti_main''\<rparr>,
     me_run = (\<lambda>_ _ p. Some p), me_map_base = 0, me_entry_point = 0, me_load_base = 0, me_load = (0, 0, 0),
     me_regs = \<lparr>r_rax = 1, r_rbx = 2, r_rcx = 3, r_rdx = 4, r_rsi = 5, r_rdi = 6, r_rbp = 7, r_rsp = 8, r_rip = 9,
       r_r8 = 10, r_r9 = 11, r_r10 = 12, r_r11 = 13, r_r12 = 14, r_r13 = 15, r_r14 = 16, r_r15 = 17,
       r_flags = 0, r_cs = 0, r_ss = 0, r_fs = 0, r_ds = 0\<rparr>\<rparr>"

text \<open>Memory after the argument vector was built, and after the segment was mapped.\<close>

definition main_mem1 :: mem where
  "main_mem1 = store64 main_mem 0x2208 0"

definition main_mem2 :: mem where
  "main_mem2 = (\<lambda>x. if in_region 0x40000000 4096 x
     then (case file_content main_obj 0 (x - 0x40000000) of None \<Rightarrow> 0 | Some v \<Rightarrow> v) else main_mem1 x)"

text \<open>Both leave the old stack alone.\<close>

definition old_stack_kept :: "mem \<Rightarrow> bool" where
  "old_stack_kept m \<longleftrightarrow> same_on 0x1000 {..<256} m main_mem"

lemma main_mem_words:
  "load64 main_mem 0x1000 = 0x1048" "load64 main_mem 0x1008 = 0x104a" "load64 main_mem 0x1010 = 0x104d"
  "load64 main_mem 0x1018 = 0" "load64 main_mem 0x1020 = 0" "load64 main_mem 0x1028 = 9"
  "load64 main_mem 0x1030 = 0x400000" "load64 main_mem 0x1038 = 0"
  "string_at main_mem 0x1048 [0x73]" "string_at main_mem 0x104a [0x2d, 0x75]" "string_at main_mem 0x104d [0x74]"
  by code_simp+

lemma kept_words:
  assumes "old_stack_kept m"
  shows "load64 m 0x1000 = 0x1048" "load64 m 0x1008 = 0x104a" "load64 m 0x1010 = 0x104d"
    "load64 m 0x1018 = 0" "load64 m 0x1020 = 0" "load64 m 0x1028 = 9" "load64 m 0x1030 = 0x400000" "load64 m 0x1038 = 0"
    "string_at m 0x1048 [0x73]" "string_at m 0x104a [0x2d, 0x75]" "string_at m 0x104d [0x74]"
proof -
  have w: "load64 m (0x1000 + of_nat x) = load64 main_mem (0x1000 + of_nat x)" if "x + 8 \<le> 256" for x
    by (rule load64_same_on, rule same_on_subset [OF assms [unfolded old_stack_kept_def]]) (use that in auto)
  have s: "string_at m (0x1000 + of_nat x) s \<longleftrightarrow> string_at main_mem (0x1000 + of_nat x) s" if "x + length s + 1 \<le> 256" for x s
    by (rule string_at_same_on, rule same_on_subset [OF assms [unfolded old_stack_kept_def]]) (use that in auto)
  show "load64 m 0x1000 = 0x1048" "load64 m 0x1008 = 0x104a" "load64 m 0x1010 = 0x104d"
    "load64 m 0x1018 = 0" "load64 m 0x1020 = 0" "load64 m 0x1028 = 9" "load64 m 0x1030 = 0x400000" "load64 m 0x1038 = 0"
    using w [of 0] w [of 8] w [of 16] w [of 24] w [of 32] w [of 40] w [of 48] w [of 56] by (simp_all add: main_mem_words)
  show "string_at m 0x1048 [0x73]" "string_at m 0x104a [0x2d, 0x75]" "string_at m 0x104d [0x74]"
    using s [of 72 "[0x73]"] s [of 74 "[0x2d, 0x75]"] s [of 77 "[0x74]"] by (simp_all add: main_mem_words)
qed

lemma main_mems_kept: "old_stack_kept main_mem" "old_stack_kept main_mem1" "old_stack_kept main_mem2"
proof -
  show "old_stack_kept main_mem" by (simp add: old_stack_kept_def)
  have "same_on 0x1000 {..<256} (store64 main_mem (0x1000 + of_nat 0x1208) 0) main_mem"
    by (rule store64_same_on) auto
  then show m1: "old_stack_kept main_mem1" by (simp add: old_stack_kept_def main_mem1_def)
  have "\<not> in_region 0x40000000 4096 ((0x1000 :: u64) + of_nat z)" if "z < 256" for z
  proof -
    have "separate 0x1000 256 (0x40000000 :: u64) 4096"
      using separate_offsets [of "0x1000" 256 "0x40000000" 4096 0] by simp
    moreover have "in_region 0x1000 256 ((0x1000 :: u64) + of_nat z)" using that by simp
    ultimately show ?thesis by (auto simp: separate_def)
  qed
  with m1 show "old_stack_kept main_mem2" by (simp add: old_stack_kept_def same_on_def main_mem2_def)
qed

lemma main_malloc_ok: "malloc_ok main_os"
  by (simp add: malloc_ok_def main_os_def)

lemma main_strings:
  "byte_char 0x74 = CHR ''t''" "map byte_char [0x2d, 0x75] = ''-u''" "char_byte (CHR ''-'') = 0x2d"
  by code_simp+

text \<open>Loading.\<close>

lemma main_load:
  assumes "p_mem p = main_mem1" and "\<forall>x. has_flag (p_prot p x) PROT_WRITE"
  obtains q where "shiva_ulexec_load_elf_binary main_os jb junk main_obj False p = Some (True, q)"
    "p_mem q = main_mem2" "\<forall>x. has_flag (p_prot q x) PROT_WRITE"
    "p_ctx q = (p_ctx p)\<lparr>ulexec := (ulexec (p_ctx p))\<lparr>ul_entry_point := 0x40400080, ul_base_vaddr := 0x40000000,
       ul_phdr_vaddr := 0x40000000\<rparr>\<rparr>"
proof -
  have pages: "ELF_PAGEOFFSET 0x400000 = 0" "map_pages 0x100 = 4096"
    by (simp_all add: ELF_PAGEOFFSET_def map_pages_def)
  have w: "has_flag (shiva_ulexec_make_prot 7) PROT_WRITE" by code_simp
  have segs: "elf_segments main_obj = [\<lparr>seg_type = PT_LOAD, seg_flags = 7, seg_offset = 0, seg_vaddr = 0x400000,
      seg_filesz = 0x100, seg_memsz = 0x100\<rparr>]" "\<not> elf_segments_error main_obj"
    by (simp_all add: main_obj_def null_elfobj_def)
  obtain q1 where q1: "load_segments main_os junk main_obj False (elf_segments main_obj)
      \<lparr>ls_base = jb, ls_elf_bss = 0, ls_last_bss = 0\<rparr> p =
        Some (Some \<lparr>ls_base = 0x40000000, ls_elf_bss = 0, ls_last_bss = 0\<rparr>, q1)"
      "p_mem q1 = main_mem2" "\<forall>x. has_flag (p_prot q1 x) PROT_WRITE" "p_ctx q1 = p_ctx p"
  proof -
    have "load_first_segment main_os junk main_obj False (hd (elf_segments main_obj))
        \<lparr>ls_base = jb, ls_elf_bss = 0, ls_last_bss = 0\<rparr> p =
      Some (Some \<lparr>ls_base = 0x40000000, ls_elf_bss = 0, ls_last_bss = 0\<rparr>,
        p\<lparr>p_calls := Suc (p_calls p), p_mem := main_mem2,
          p_prot := (\<lambda>x. if in_region 0x40000000 4096 x then shiva_ulexec_make_prot 7 else p_prot p x)\<rparr>)"
      by (simp add: load_first_segment_def segs sys_mmap_def Let_def main_os_def load_base_def
          SHIVA_TARGET_BASE_def pages assms(1) main_mem2_def fun_eq_iff)
    then show thesis
      using w assms(2)
      by (intro that [of "p\<lparr>p_calls := Suc (p_calls p), p_mem := main_mem2,
          p_prot := (\<lambda>x. if in_region 0x40000000 4096 x then shiva_ulexec_make_prot 7 else p_prot p x)\<rparr>"])
        (simp_all add: segs)
  qed
  have "load_bss main_os \<lparr>ls_base = 0x40000000, ls_elf_bss = 0, ls_last_bss = 0\<rparr> q1 = Some q1"
    by (simp add: load_bss_def Let_def ELF_PAGEOFFSET_def)
  then have "shiva_ulexec_load_elf_binary main_os jb junk main_obj False p =
      Some (True, load_set_ctx main_obj False 0x40000000 q1)"
    using q1(1) by (simp add: shiva_ulexec_load_elf_binary_def)
  then show thesis
    by (rule that) (use q1 in \<open>simp_all add: load_set_ctx_def main_obj_def null_elfobj_def\<close>)
qed

text \<open>What the later steps read of the context.\<close>

definition same_target :: "proc \<Rightarrow> proc \<Rightarrow> bool" where
  "same_target p q \<longleftrightarrow>
     ctx_elfobj (p_ctx q) = ctx_elfobj (p_ctx p) \<and> mmap_tqlist (p_ctx q) = mmap_tqlist (p_ctx p) \<and>
     ctx_flags (p_ctx q) = ctx_flags (p_ctx p) \<and> module_runtime (p_ctx q) = module_runtime (p_ctx p)"

lemma main_prep:
  assumes "p_mem p = main_mem1" and "\<forall>x. has_flag (p_prot p x) PROT_WRITE" and "ctx_elfobj (p_ctx p) = main_obj"
    and "ul_flags (ulexec (p_ctx p)) = 0"
    and "ctx_argc (p_ctx p) = 1" and "ctx_argv (p_ctx p) = 0x1010" and "ctx_envp (p_ctx p) = 0x1020"
  obtains q where "shiva_ulexec_prep main_os jb junk p = Some (True, q)" "\<forall>x. has_flag (p_prot q x) PROT_WRITE"
    "same_target p q"
proof -
  have "elf_type main_obj \<noteq> ET_DYN" by (simp add: main_obj_def ET_EXEC_def ET_DYN_def)
  then have open_interp: "ulexec_open_interp main_os p = (True, p)" by (simp add: ulexec_open_interp_def Let_def assms(3))
  obtain p2 where p2: "shiva_ulexec_load_elf_binary main_os jb junk main_obj False p = Some (True, p2)"
      "p_mem p2 = main_mem2" "\<forall>x. has_flag (p_prot p2 x) PROT_WRITE"
      "p_ctx p2 = (p_ctx p)\<lparr>ulexec := (ulexec (p_ctx p))\<lparr>ul_entry_point := 0x40400080, ul_base_vaddr := 0x40000000,
         ul_phdr_vaddr := 0x40000000\<rparr>\<rparr>"
    by (rule main_load [OF assms(1,2)])
  let ?p3 = "p2\<lparr>p_calls := p_calls p2 + 2, p_ctx := saved [[0x74]] [] (p_ctx p2)\<rparr>"
  note words = kept_words [OF main_mems_kept(3)]
  have save: "shiva_ulexec_save_stack main_os p2 = Some (True, ?p3)"
    by (rule save_stack_saved [of p2 "[0x104d]" _ "[]"])
      (simp_all add: p2(2,4) assms(5-7) words main_os_def)
  have "separate 0x10000000 4096000 (0x1020 :: u64) 32"
    using separate_offsets [of "0x1020" 32 "0x10000000" 4096000 0] by (auto simp: separate_def)
  then obtain q sp where q: "shiva_ulexec_build_auxv_stack main_os ?p3 = Some (True, sp, sp + 8 * of_nat 4, q)"
    using build_stack_ok [of "[[0x74]]" "[]" "p2\<lparr>p_calls := p_calls p2 + 2\<rparr>" "[(9, 0x400000)]" main_os "0x10000000"]
    by (auto simp: p2(2,4) assms(5-7) words saved_def main_os_def auxv_entry_def auxv_value_def Let_def at_defs)
  have frame: "(\<exists>c. p_ctx q = (p_ctx ?p3)\<lparr>ulexec := (ulexec (p_ctx ?p3))\<lparr>ul_stack := c\<rparr>\<rparr>) \<and>
      (\<forall>x. has_flag (p_prot q x) PROT_WRITE)"
    by (rule build_stack_frame [OF q]) (simp add: p2(3))
  have run: "shiva_ulexec_prep main_os jb junk p = Some (True, set_ulexec (\<lambda>u. u\<lparr>ul_rsp_start := sp, ul_auxv := sp + 8 * of_nat 4\<rparr>) q)"
    using p2(1,4) save q by (simp add: shiva_ulexec_prep_def open_interp assms(3,4) has_flag_def)
  then show thesis
    by (rule that) (use frame in \<open>auto simp: same_target_def saved_def p2(4)\<close>)
qed

lemma main_runs:
  obtains r p' where "main main_example_env main_os 3 0x1000 0x1020 main_proc = Some (Transferred r, p')"
    "module_runtime (p_ctx p') = None" "elf_type (ctx_elfobj (p_ctx p')) = ET_EXEC"
proof -
  let ?p = "main_proc\<lparr>p_calls := 1, p_ctx := zero_ctx\<rparr>"
  let ?pa = "set_ctx (\<lambda>ctx. ctx\<lparr>ctx_envp := 0x1020, ctx_argv := 0x1000\<rparr>) ?p"
  have at: "ptrs_at (p_mem ?pa) 0x1000 [0x1048, 0x104a, 0x104d]"
      "list_all2 (string_at (p_mem ?pa)) [0x1048, 0x104a, 0x104d] main_args"
    using kept_words [OF main_mems_kept(1)] by (simp_all add: main_proc_def main_args_def)
  have k: "2 = target_index main_args" "1 = length main_args - 2"
    using main_strings(3) by (simp_all add: target_index_def main_args_def)
  have idx: "target_index main_args < length main_args" "1 < length main_args" "length main_args = 3"
    using k by (simp_all add: main_args_def)
  have prot: "\<forall>x. has_flag (p_prot ?pa x) PROT_WRITE" by (simp add: main_proc_def prot_defs has_flag_def)
  obtain a arr j where "os_malloc main_os (Suc (p_calls ?pa)) (of_nat (1 * 8)) = Some arr"
    and build: "shiva_build_target_argv main_os 0x1000 (length main_args) ?pa =
       Some (True, ?pa\<lparr>p_calls := j, p_mem := store64 (p_mem ?pa) (arr + of_nat (1 * 8)) 0,
         p_ctx := (p_ctx ?pa)\<lparr>ctx_path := map byte_char (main_args ! 2), ctx_path_ptr := a,
           ctx_args := map (map byte_char) (drop 2 main_args), ctx_argcount := 1,
           ctx_argv := 0x1000 + 8 * of_nat 2, ctx_argc := 1\<rparr>\<rparr>)"
    by (rule build_target_argv_run [OF main_malloc_ok at idx(1,2) prot k])
  then have "arr = 0x2200" by (simp add: main_os_def)
  with build obtain p1 where p1: "shiva_build_target_argv main_os 0x1000 3 ?pa = Some (True, p1)"
      "p_mem p1 = main_mem1" "p_prot p1 = p_prot main_proc" "ctx_path (p_ctx p1) = ''t''" "ctx_argc (p_ctx p1) = 1"
      "ctx_argv (p_ctx p1) = 0x1010" "ctx_envp (p_ctx p1) = 0x1020" "ctx_flags (p_ctx p1) = 0"
      "ulexec (p_ctx p1) = zero_ulexec" "module_runtime (p_ctx p1) = None"
    unfolding idx(3) by (simp add: main_mem1_def main_proc_def main_args_def main_strings numeral_2_eq_2 zero_ctx_def)
  define p2 where "p2 = set_ctx shiva_init_lists p1"
  define p3 where "p3 = set_ctx (\<lambda>ctx. ctx\<lparr>ctx_flags := main_options (tl ''-u'') (ctx_flags ctx)\<rparr>) p2"
  define p4 where "p4 = set_ctx (\<lambda>ctx. ctx\<lparr>disas_textptr := 0x3080, disas_base := 0x400080\<rparr>)
      (set_ctx (\<lambda>ctx. ctx\<lparr>ctx_elfobj := main_obj\<rparr>) p3)"
  note words = kept_words [OF main_mems_kept(2)]
  have arg1: "arg_pointer p2 0x1000 1 = 0x104a" "p_mem p2 = main_mem1"
    by (simp_all add: arg_pointer_def p2_def p1(2) words)
  then have arg: "arg_string p2 0x1000 1 = Some ''-u''"
    using cstr_string_at [OF words(10)] main_strings(2) by (simp add: arg_string_def)
  have dash: "p_mem p2 (arg_pointer p2 0x1000 1) = char_byte (CHR ''-'')"
    using words(10) unfolding arg1 main_strings(3) by (simp add: string_at_def read_bytes_Suc)
  have trace: "shiva_build_trace_data main_os p3 = (True, p4)"
    by (simp add: shiva_build_trace_data_def p4_def p3_def p2_def p1(4) main_os_def shiva_init_lists_def Let_def)
      (simp add: main_obj_def main_text_section_def)
  have prep: "p_mem p4 = main_mem1" "\<forall>x. has_flag (p_prot p4 x) PROT_WRITE" "ctx_elfobj (p_ctx p4) = main_obj"
      "ul_flags (ulexec (p_ctx p4)) = 0" "ctx_argc (p_ctx p4) = 1" "ctx_argv (p_ctx p4) = 0x1010" "ctx_envp (p_ctx p4) = 0x1020"
      "mmap_tqlist (p_ctx p4) = []" "module_runtime (p_ctx p4) = None" "ctx_flags (p_ctx p4) = SHIVA_OPTS_F_ULEXEC_ONLY"
    using prot by (simp_all add: p4_def p3_def p2_def p1 shiva_init_lists_def zero_ulexec_def main_proc_def)
  obtain p5 where p5: "shiva_ulexec_prep main_os (me_load_base main_example_env) (me_load main_example_env) p4 = Some (True, p5)"
      "\<forall>x. has_flag (p_prot p5 x) PROT_WRITE" "same_target p4 p5"
    by (rule main_prep [OF prep(1-7)])
  have maps: "proc_maps main_os = Some (proc_file example_regions)" by (simp add: proc_maps_def main_os_def)
  obtain p6 where p6: "shiva_maps_build_list main_os p5 = Some (True, p6)" "p_prot p6 = p_prot p5"
      "ctx_elfobj (p_ctx p6) = main_obj" "module_runtime (p_ctx p6) = None" "ctx_flags (p_ctx p6) = SHIVA_OPTS_F_ULEXEC_ONLY"
    using maps_build_proc_file [OF main_malloc_ok maps example_regions_ok(1), of p5] p5(3) prep
    by (auto simp: same_target_def)
  obtain p7 where p7: "find_shiva_base main_example_env (\<lambda>e. mmap_type e = SHIVA_MMAP_TYPE_SHIVA \<and> map_prot e = PROT_READ) p6 = Some p7"
      "p_prot p7 = p_prot p6" "ctx_elfobj (p_ctx p7) = main_obj" "module_runtime (p_ctx p7) = None"
      "ctx_flags (p_ctx p7) = SHIVA_OPTS_F_ULEXEC_ONLY"
    using p6(3-5) by (simp add: find_shiva_base_def maps_it.iter_scan_items)
  have sect: "elf_section_by_name (ctx_elfobj (p_ctx p7)) ''.text'' = Some main_text_section" "elf_class64 (ctx_elfobj (p_ctx p7))"
    by (simp_all add: p7(3) main_obj_def)
  obtain p8 bs where p8: "analyze main_example_env main_os p7 = Some (True, p8)" "p_prot p8 = p_prot p7"
      "p_ctx p8 = (p_ctx p7)\<lparr>branch_tqlist := branch_tqlist (p_ctx p7) @ bs\<rparr>"
    using udis86.analyze_sweeps [OF main_malloc_ok sect refl, of udis86_mnemonics_str "\<lambda>_. 0" "[]"]
    by (auto simp: analyze_def main_example_env_def)
  have access: "os_access main_os (ctx_path (p_ctx p2))" by (simp add: main_os_def p2_def shiva_init_lists_def p1(4))
  have flag: "has_flag (ctx_flags (p_ctx p8)) SHIVA_OPTS_F_ULEXEC_ONLY"
    by (simp add: p8(3) p7(5) has_flag_def SHIVA_OPTS_F_ULEXEC_ONLY_def)
  have w: "\<forall>x. has_flag (p_prot p8 x) PROT_WRITE" using p5(2) by (simp add: p8(2) p7(2) p6(2))
  obtain r q where q: "main_standalone main_example_env main_os 3 0x1000 0x1020 ?p = Some (Transferred r, q)" "p_ctx q = p_ctx p8"
    using standalone_run [OF _ p1(1) p2_def access arg dash p3_def trace p5(1) p6(1) p7(1) p8(1) flag w] by auto
  have "strrchr ''/bin/shiva'' (CHR ''/'') = Some ''/shiva''" by simp
  then have "main main_example_env main_os 3 0x1000 0x1020 main_proc = Some (Transferred r, q)"
    using q(1) by (simp add: main_def main_os_def sys_malloc_def) (simp add: main_proc_def zero_proc_def main_os_def)
  then show thesis by (rule that) (simp_all add: q(2) p8(3) p7 main_obj_def)
qed

section \<open>Witnesses\<close>

lemma main_standalone_os: "\<not> interp_mode main_os"
  by (simp add: interp_mode_def main_os_def)


theorem static_target_jumps_to_zero_witness:
  "\<exists>r p'. main main_example_env main_os 3 0x1000 0x1020 main_proc = Some (Transferred r, p') \<and> r_rip r = 0"
proof -
  obtain r p' where run: "main main_example_env main_os 3 0x1000 0x1020 main_proc = Some (Transferred r, p')"
      "module_runtime (p_ctx p') = None" "elf_type (ctx_elfobj (p_ctx p')) = ET_EXEC"
    by (rule main_runs)
  have "elf_type (ctx_elfobj (p_ctx p')) \<noteq> ET_DYN \<or> elf_interpreter_path (ctx_elfobj (p_ctx p')) = None"
    by (simp add: run(3) ET_EXEC_def ET_DYN_def)
  from static_target_jumps_to_zero [OF run(1) main_standalone_os run(2) this] run(1) show ?thesis by blast
qed

end
