(* ===== verification/Udcli.thy ===== *)
theory Udcli
  imports Ud_Tables
begin

text \<open>
  \<^verbatim>\<open>udcli/udcli.c\<close>: the command line of the disassembler. The globals, the object and the two output
  streams are the state; \<open>fptr\<close> is what is left of the open file. Opening a file and the standard input
  are arguments. A hook is called until it reports the end of the input, and writes only to the error
  stream, so the bytes it delivers are collected when the object reads the first one.
\<close>

record cli =
  cli_ud :: ud
  fptr :: string
  o_skip :: u64
  o_count :: u64
  o_do_count :: bool
  o_do_off :: bool
  o_do_hex :: bool
  o_do_x :: bool
  file_given :: bool
  cli_out :: string
  cli_err :: string

definition put_out :: "string \<Rightarrow> cli \<Rightarrow> cli" where "put_out s c = c\<lparr>cli_out := cli_out c @ s\<rparr>"

definition put_err :: "string \<Rightarrow> cli \<Rightarrow> cli" where "put_err s c = c\<lparr>cli_err := cli_err c @ s @ [newline]\<rparr>"

definition set_ud :: "(ud \<Rightarrow> ud) \<Rightarrow> cli \<Rightarrow> cli" where "set_ud f c = c\<lparr>cli_ud := f (cli_ud c)\<rparr>"

definition help_text :: "string \<Rightarrow> string" where
  "help_text prog =
     concat (map (\<lambda>l. l @ [newline])
       [''Usage: '' @ prog @ '' [-option[s]] file'',
        ''Options:'',
        ''    -16      : Set the disassembly mode to 16 bits. '',
        ''    -32      : Set the disassembly mode to 32 bits. (default)'',
        ''    -64      : Set the disassembly mode to 64 bits.'',
        ''    -intel   : Set the output to INTEL (NASM like) syntax. (default)'',
        ''    -att     : Set the output to AT&T (GAS like) syntax.'',
        ''    -v <v>   : Set vendor. <v> = {intel, amd}.'',
        ''    -o <pc>  : Set the value of program counter to <pc>. (default = 0)'',
        ''    -s <n>   : Set the number of bytes to skip before disassembly to <n>.'',
        ''    -c <n>   : Set the number of bytes to disassemble to <n>.'',
        ''    -x       : Set the input mode to whitespace separated 8-bit numbers in'',
        ''               hexadecimal representation. Example: 0f 01 ae 00'',
        ''    -noff    : Do not display the offset of instructions.'',
        ''    -nohex   : Do not display the hexadecimal code of instructions.'',
        ''    -h       : Display this help message.'',
        ''    --version: Show version.'',
        [],
        ''Udcli is a front-end to the Udis86 Disassembler Library.'',
        ''http://udis86.sourceforge.net/''])"

definition PACKAGE_STRING :: string where "PACKAGE_STRING = ''udis86 1.7.2''"

section \<open>Options\<close>

text \<open>\<open>sscanf\<close> returns zero only when there is something that is no number.\<close>

definition scan_option :: "nat \<Rightarrow> string \<Rightarrow> string \<Rightarrow> (u64 \<Rightarrow> cli \<Rightarrow> cli) \<Rightarrow> cli \<Rightarrow> cli" where
  "scan_option base name s store c =
     (case fst (scan_number base s) of
        Scan_eof \<Rightarrow> c
      | Scan_fail \<Rightarrow> put_err (''Invalid value given for '' @ name @ ''.'') c
      | Scan_value v \<Rightarrow> store v c)"

definition no_value :: "string \<Rightarrow> string \<Rightarrow> cli \<Rightarrow> nat \<times> cli" where
  "no_value name prog c =
     (EXIT_FAILURE, put_out (help_text prog) (put_err (''No value given for '' @ name @ ''.'') c))"

definition set_pc_option :: "string \<Rightarrow> cli \<Rightarrow> cli" where
  "set_pc_option s c =
     (case fst (scan_number 16 s) of
        Scan_value v \<Rightarrow> set_ud (\<lambda>u. ud_set_pc u v) c
      | Scan_eof \<Rightarrow> set_ud (\<lambda>u. ud_set_pc u 0) c
      | Scan_fail \<Rightarrow> set_ud (\<lambda>u. ud_set_pc u 0) (put_err ''Invalid value given for -o.'' c))"

definition open_file :: "(string \<Rightarrow> string option) \<Rightarrow> string \<Rightarrow> cli \<Rightarrow> (nat \<times> cli) + cli" where
  "open_file fopen s c =
     (if file_given c then Inl (EXIT_FAILURE, put_err ''Multiple files specified.'' c)
      else
        case fopen s of
          None \<Rightarrow> Inl (EXIT_FAILURE, put_err (''Failed to open file: '' @ s @ ''.'') (c\<lparr>file_given := True\<rparr>))
        | Some bytes \<Rightarrow> Inr (c\<lparr>file_given := True, fptr := bytes\<rparr>))"

text \<open>The loop over the arguments: the exit code when the program ends there.\<close>

fun cli_args :: "(string \<Rightarrow> string option) \<Rightarrow> string \<Rightarrow> string list \<Rightarrow> cli \<Rightarrow> (nat \<times> cli) + cli" where
  "cli_args fopen prog [] c = Inr c"
| "cli_args fopen prog (a # as) c =
     (if a = ''-h'' then Inl (EXIT_SUCCESS, put_out (help_text prog) c)
      else if a = ''-16'' then cli_args fopen prog as (set_ud (\<lambda>u. ud_set_mode u 16) c)
      else if a = ''-32'' then cli_args fopen prog as (set_ud (\<lambda>u. ud_set_mode u 32) c)
      else if a = ''-64'' then cli_args fopen prog as (set_ud (\<lambda>u. ud_set_mode u 64) c)
      else if a = ''-intel'' then cli_args fopen prog as (set_ud (\<lambda>u. ud_set_syntax u (Some UD_SYN_INTEL)) c)
      else if a = ''-att'' then cli_args fopen prog as (set_ud (\<lambda>u. ud_set_syntax u (Some UD_SYN_ATT)) c)
      else if a = ''-noff'' then cli_args fopen prog as (c\<lparr>o_do_off := False\<rparr>)
      else if a = ''-nohex'' then cli_args fopen prog as (c\<lparr>o_do_hex := False\<rparr>)
      else if a = ''-x'' then cli_args fopen prog as (c\<lparr>o_do_x := True\<rparr>)
      else if a = ''-s'' then
        (case as of
           [] \<Rightarrow> Inl (no_value ''-s'' prog c)
         | s # as \<Rightarrow> cli_args fopen prog as (scan_option 10 ''-s'' s (\<lambda>v c. c\<lparr>o_skip := v\<rparr>) c))
      else if a = ''-c'' then
        (case as of
           [] \<Rightarrow> Inl (no_value ''-c'' prog c)
         | s # as \<Rightarrow> cli_args fopen prog as
             (scan_option 10 ''-c'' s (\<lambda>v c. c\<lparr>o_count := v\<rparr>) (c\<lparr>o_do_count := True\<rparr>)))
      else if a = ''-v'' then
        (case as of
           [] \<Rightarrow> Inl (no_value ''-v'' prog c)
         | s # as \<Rightarrow> cli_args fopen prog as
             (if s \<noteq> [] \<and> hd s = CHR ''i'' then set_ud (\<lambda>u. ud_set_vendor u UD_VENDOR_INTEL) c else c))
      else if a = ''-o'' then
        (case as of
           [] \<Rightarrow> Inl (no_value ''-o'' prog c)
         | s # as \<Rightarrow> cli_args fopen prog as (set_pc_option s c))
      else if a = ''--version'' then Inl (EXIT_SUCCESS, put_err PACKAGE_STRING c)
      else if a \<noteq> [] \<and> hd a = CHR ''-'' then
        Inl (EXIT_FAILURE, put_out (help_text prog) (put_err (''Invalid option '' @ a @ ''.'') c))
      else
        case open_file fopen a c of
          Inl r \<Rightarrow> Inl r
        | Inr c \<Rightarrow> cli_args fopen prog as c)"

section \<open>Input hooks\<close>

definition UD_EOI :: int where "UD_EOI = -1"

definition input_hook_file :: "cli \<Rightarrow> int \<times> cli" where
  "input_hook_file c =
     (if o_do_count c \<and> o_count c = 0 then (UD_EOI, c)
      else
        let c = (if o_do_count c then c\<lparr>o_count := o_count c - 1\<rparr> else c) in
        case fptr c of
          [] \<Rightarrow> (UD_EOI, c)
        | x # xs \<Rightarrow> (of_char x, c\<lparr>fptr := xs\<rparr>))"

definition input_hook_x :: "cli \<Rightarrow> int \<times> cli" where
  "input_hook_x c =
     (if o_do_count c \<and> o_count c = 0 then (UD_EOI, c)
      else
        let c = (if o_do_count c then c\<lparr>o_count := o_count c - 1\<rparr> else c) in
        case scan_number 16 (fptr c) of
          (Scan_eof, r) \<Rightarrow> (UD_EOI, c\<lparr>fptr := r\<rparr>)
        | (Scan_fail, r) \<Rightarrow>
            (UD_EOI, put_err ''Error: Invalid input, should be in hexadecimal form (8-bit).'' (c\<lparr>fptr := r\<rparr>))
        | (Scan_value v, r) \<Rightarrow>
            let w = ucast v :: u32; c = c\<lparr>fptr := r\<rparr>;
                low = w AND 0xff
            in (uint low,
                if w > 0xff then
                  put_err (''Warning: Casting non-8-bit input ('' @ show_base 16 (unat w) @ ''), to '' @
                    show_base 16 (unat low) @ ''.'') c
                else c))"

definition cli_hook :: "cli \<Rightarrow> int \<times> cli" where
  "cli_hook c = (if o_do_x c then input_hook_x c else input_hook_file c)"

lemma cli_hook_consumes:
  assumes "cli_hook c = (r, c')" and "r \<noteq> UD_EOI"
  shows "length (fptr c') < length (fptr c)"
  using assms scan_number_value [of 16 "fptr c"]
  by (auto simp: cli_hook_def input_hook_file_def input_hook_x_def put_err_def Let_def
      split: if_splits list.splits prod.splits scanned.splits)

text \<open>The bytes a hook delivers until the end of the input.\<close>

function cli_input :: "cli \<Rightarrow> u8 list \<times> cli" where
  "cli_input c =
     (case cli_hook c of
        (r, c') \<Rightarrow>
          if r = UD_EOI then ([], c')
          else (let (bs, c'') = cli_input c' in (word_of_int r # bs, c'')))"
  by pat_completeness auto
termination
  by (relation "measure (\<lambda>c. length (fptr c))") (auto dest!: cli_hook_consumes [OF sym])

declare cli_input.simps [simp del]

section \<open>Output\<close>

definition insn_line :: "bool \<Rightarrow> bool \<Rightarrow> u64 \<Rightarrow> string \<Rightarrow> string \<Rightarrow> string" where
  "insn_line do_off do_hex off hex1 asm =
     (if do_off then pad_zero 16 (show_base 16 (unat off)) @ '' '' else []) @
     (if do_hex then
        pad_right 16 (take 16 hex1) @ '' '' @ pad_right 24 asm @
        (if length hex1 > 16 then
           [newline] @ (if do_off then pad_right 15 [] @ '' -'' else []) @ pad_right 16 (drop 16 hex1)
         else [])
      else '' '' @ pad_right 24 asm) @
     [newline]"

definition print_insn :: "cli \<Rightarrow> cli" where
  "print_insn c =
     (let u = cli_ud c; (hex1, u') = (if o_do_hex c then ud_insn_hex u else ([], u)) in
      put_out (insn_line (o_do_off c) (o_do_hex c) (ud_insn_off u) hex1 (ud_insn_asm u)) (c\<lparr>cli_ud := u'\<rparr>))"

partial_function (option) cli_loop ::
  "ud_tables \<Rightarrow> string list \<Rightarrow> (u64 \<Rightarrow> u8) \<Rightarrow> cli \<Rightarrow> cli option" where
  "cli_loop t mn junk c =
     do {
       (n, u) \<leftarrow> ud_disassemble t mn (junk (ud_pc (cli_ud c))) (cli_ud c);
       (if n = 0 then Some (c\<lparr>cli_ud := u\<rparr>) else cli_loop t mn junk (print_insn (c\<lparr>cli_ud := u\<rparr>)))
     }"

section \<open>The program\<close>

definition cli_init :: "string \<Rightarrow> cli" where
  "cli_init stdin =
     \<lparr>cli_ud = ud_set_syntax (ud_set_mode (ud_init []) 32) (Some UD_SYN_INTEL), fptr = stdin, o_skip = 0,
      o_count = 0, o_do_count = False, o_do_off = True, o_do_hex = True, o_do_x = False,
      file_given = False, cli_out = [], cli_err = []\<rparr>"

text \<open>The hook is set and the skipped bytes are read.\<close>

definition cli_start :: "cli \<Rightarrow> cli option" where
  "cli_start c =
     (let c = c\<lparr>o_count := o_count c + o_skip c\<rparr>;
          (bs, c) = cli_input c;
          u = ud_set_input_hook (cli_ud c) bs
      in if o_skip c = 0 then Some (c\<lparr>cli_ud := u\<rparr>)
         else do { u \<leftarrow> ud_input_skip u (unat (o_skip c)); Some (c\<lparr>cli_ud := u\<rparr>) })"

definition udcli_main :: "ud_tables \<Rightarrow> string list \<Rightarrow> (u64 \<Rightarrow> u8) \<Rightarrow> (string \<Rightarrow> string option) \<Rightarrow> string \<Rightarrow>
    string \<Rightarrow> string list \<Rightarrow> (nat \<times> cli) option" where
  "udcli_main t mn junk fopen stdin prog args =
     (case cli_args fopen prog args (cli_init stdin) of
        Inl r \<Rightarrow> Some r
      | Inr c \<Rightarrow> do {
          c \<leftarrow> cli_start c;
          c \<leftarrow> cli_loop t mn junk c;
          Some (EXIT_SUCCESS, c)
        })"

end
