(* ===== verification/Udcli_Runs.thy ===== *)
theory Udcli_Runs
  imports Udcli Udis86
begin

text \<open>
  The command line prints the disassembly of its whole input, and hexadecimal input is read back to the
  bytes it was printed from.
\<close>

section \<open>Listings\<close>

text \<open>What is printed for an instruction: its offset, its bytes (an instruction in error has none), its
  text. \<open>listing\<close> follows the object through its input.\<close>

record listed =
  li_off :: u64
  li_bytes :: "u8 list"
  li_error :: bool
  li_asm :: string

definition listed_line :: "cli \<Rightarrow> listed \<Rightarrow> string" where
  "listed_line c i =
     insn_line (o_do_off c) (o_do_hex c) (li_off i)
       (if o_do_hex c \<and> \<not> li_error i then concat (map hex2 (take 32 (li_bytes i))) else []) (li_asm i)"

definition after_line :: "bool \<Rightarrow> ud \<Rightarrow> ud" where
  "after_line do_hex u = (if do_hex then snd (ud_insn_hex u) else u)"

inductive listing :: "ud_tables \<Rightarrow> string list \<Rightarrow> (u64 \<Rightarrow> u8) \<Rightarrow> bool \<Rightarrow> ud \<Rightarrow> listed list \<Rightarrow> bool"
  for t mn junk do_hex where
  listing_end: "ud_disassemble t mn (junk (ud_pc u)) u = Some (0, u') \<Longrightarrow> listing t mn junk do_hex u []"
| listing_insn: "ud_disassemble t mn (junk (ud_pc u)) u = Some (n, u') \<Longrightarrow> 0 < n \<Longrightarrow>
    listing t mn junk do_hex (after_line do_hex u') is \<Longrightarrow>
    listing t mn junk do_hex u
      (\<lparr>li_off = ud_pc u, li_bytes = take n (inp_rest u), li_error = ud_error u', li_asm = asm_buf u'\<rparr> # is)"

lemma after_line_same [simp]:
  "disas_inv (after_line b u) = disas_inv u" "inp_rest (after_line b u) = inp_rest u"
  "inp_end (after_line b u) = inp_end u" "ud_pc (after_line b u) = ud_pc u"
  by (auto simp: after_line_def ud_insn_hex_def Let_def disas_inv_def input_inv_def mode_ok_def inp_rest_def)

lemma listed_line_options [simp]: "listed_line (c\<lparr>cli_ud := u, cli_out := s\<rparr>) = listed_line c"
  by (simp add: fun_eq_iff listed_line_def)

lemma print_insn_line:
  assumes "ud_insn_len u = n" and "take n (ud_insn_ptr u) = bs" and "insn_offset u = a"
  shows "print_insn (c\<lparr>cli_ud := u\<rparr>) =
     c\<lparr>cli_ud := after_line (o_do_hex c) u,
       cli_out := cli_out c @ listed_line c \<lparr>li_off = a, li_bytes = bs, li_error = ud_error u, li_asm = asm_buf u\<rparr>\<rparr>"
proof -
  have "take (min n 32) (ud_insn_ptr u) = take 32 (take n (ud_insn_ptr u))" by (simp add: min.commute)
  then have "take (min n 32) (ud_insn_ptr u) = take 32 bs" by (simp only: assms(2))
  then show ?thesis
    using assms(1,3)
    by (simp add: print_insn_def put_out_def after_line_def listed_line_def ud_insn_hex_def ud_insn_off_def
        ud_insn_asm_def Let_def)
qed

text \<open>The loop ends and prints the listing of everything that is left of the input.\<close>

context opcode_tables
begin

lemma cli_loop_lists:
  assumes "disas_inv (cli_ud c)" and "inp_end (cli_ud c) \<Longrightarrow> inp_rest (cli_ud c) = []"
  shows "\<exists>is u. listing t mn junk (o_do_hex c) (cli_ud c) is \<and> concat (map li_bytes is) = inp_rest (cli_ud c) \<and>
     cli_loop t mn junk c = Some (c\<lparr>cli_ud := u, cli_out := cli_out c @ concat (map (listed_line c) is)\<rparr>)"
  using assms
proof (induction "length (inp_rest (cli_ud c))" arbitrary: c rule: less_induct)
  case less
  obtain n u where d: "ud_disassemble t mn (junk (ud_pc (cli_ud c))) (cli_ud c) = Some (n, u)"
      "n \<le> length (inp_rest (cli_ud c))" "inp_rest u = drop n (inp_rest (cli_ud c))" "disas_inv u"
      "n = 0 \<longleftrightarrow> inp_end (cli_ud c) \<or> inp_rest (cli_ud c) = []"
      "n \<noteq> 0 \<Longrightarrow> ud_insn_len u = n" "n \<noteq> 0 \<Longrightarrow> take n (ud_insn_ptr u) = take n (inp_rest (cli_ud c))"
      "n \<noteq> 0 \<Longrightarrow> insn_offset u = ud_pc (cli_ud c)" "inp_end u \<Longrightarrow> inp_end (cli_ud c) \<or> inp_rest u = []"
    using disassemble_step [OF less.prems(1), of mn "junk (ud_pc (cli_ud c))"] by metis
  show ?case
  proof (cases "n = 0")
    case True
    then have "cli_loop t mn junk c = Some (c\<lparr>cli_ud := u\<rparr>)" using d(1) by (subst cli_loop.simps) simp
    moreover have "inp_rest (cli_ud c) = []" using True d(5) less.prems(2) by blast
    moreover have "listing t mn junk (o_do_hex c) (cli_ud c) []"
      using listing_end d(1) True by blast
    ultimately show ?thesis by (intro exI [of _ "[]"] exI [of _ u]) simp
  next
    case False
    define i where "i = \<lparr>li_off = ud_pc (cli_ud c), li_bytes = take n (inp_rest (cli_ud c)),
      li_error = ud_error u, li_asm = asm_buf u\<rparr>"
    define c' where "c' = c\<lparr>cli_ud := after_line (o_do_hex c) u, cli_out := cli_out c @ listed_line c i\<rparr>"
    have step: "cli_loop t mn junk c = cli_loop t mn junk c'"
      using d(1,6-8) False print_insn_line [of u n _ _ c] by (subst cli_loop.simps) (simp add: c'_def i_def)
    have "length (inp_rest (cli_ud c')) < length (inp_rest (cli_ud c))" "disas_inv (cli_ud c')"
        "inp_end (cli_ud c') \<Longrightarrow> inp_rest (cli_ud c') = []" "o_do_hex c' = o_do_hex c"
      using d(2-5,9) False by (auto simp: c'_def)
    then obtain "is" v where rec: "listing t mn junk (o_do_hex c') (cli_ud c') is"
        "concat (map li_bytes is) = inp_rest (cli_ud c')"
        "cli_loop t mn junk c' = Some (c'\<lparr>cli_ud := v, cli_out := cli_out c' @ concat (map (listed_line c') is)\<rparr>)"
      using less.hyps [of c'] by blast
    have "listing t mn junk (o_do_hex c) (cli_ud c) (i # is)"
      unfolding i_def using listing_insn d(1) False rec(1) by (simp add: c'_def)
    moreover have "concat (map li_bytes (i # is)) = inp_rest (cli_ud c)"
      using rec(2) d(3) by (simp add: c'_def i_def)
    moreover have "cli_loop t mn junk c =
        Some (c\<lparr>cli_ud := v, cli_out := cli_out c @ concat (map (listed_line c) (i # is))\<rparr>)"
      using step rec(3) by (simp add: c'_def)
    ultimately show ?thesis by blast
  qed
qed

end

section \<open>Arguments and input\<close>

definition cli_ok :: "cli \<Rightarrow> bool" where
  "cli_ok c \<longleftrightarrow> mode_ok (cli_ud c) \<and> length (asm_buf (cli_ud c)) < asm_buf_size (cli_ud c) \<and>
     length (inp_sess (cli_ud c)) = 64 \<and> cli_out c = []"

lemma cli_ok_set [simp]:
  "cli_ok (set_ud (\<lambda>u. ud_set_syntax u s) c) = cli_ok c" "cli_ok (set_ud (\<lambda>u. ud_set_vendor u v) c) = cli_ok c"
  "cli_ok (set_ud (\<lambda>u. ud_set_pc u pc) c) = cli_ok c" "cli_ok (put_err s' c) = cli_ok c"
  "cli_ok (c\<lparr>o_do_off := b\<rparr>) = cli_ok c" "cli_ok (c\<lparr>o_do_hex := b\<rparr>) = cli_ok c"
  "cli_ok (c\<lparr>o_do_x := b\<rparr>) = cli_ok c" "cli_ok (c\<lparr>o_do_count := b\<rparr>) = cli_ok c"
  "cli_ok (c\<lparr>o_skip := w\<rparr>) = cli_ok c" "cli_ok (c\<lparr>o_count := w\<rparr>) = cli_ok c"
  "cli_ok (c\<lparr>file_given := b, fptr := f\<rparr>) = cli_ok c"
  "cli_ok c \<Longrightarrow> cli_ok (set_ud (\<lambda>u. ud_set_mode u m) c)"
  by (simp_all add: cli_ok_def set_ud_def put_err_def ud_set_syntax_def ud_set_vendor_def ud_set_pc_def
      ud_set_mode_def mode_ok_def)

lemma cli_ok_options [simp]:
  "cli_ok c \<Longrightarrow> cli_ok (set_pc_option s c)"
  "cli_ok c \<Longrightarrow> cli_ok (scan_option b nm s (\<lambda>v c. c\<lparr>o_skip := v\<rparr>) c)"
  "cli_ok c \<Longrightarrow> cli_ok (scan_option b nm s (\<lambda>v c. c\<lparr>o_count := v\<rparr>) c)"
  by (simp_all add: set_pc_option_def scan_option_def split: scanned.split)

lemma open_file_ok: "open_file fopen s c = Inr c' \<Longrightarrow> cli_ok c \<Longrightarrow> cli_ok c'"
  by (auto simp: open_file_def split: if_splits option.splits)

lemma cli_args_ok: "cli_args fopen prog as c = Inr c' \<Longrightarrow> cli_ok c \<Longrightarrow> cli_ok c'"
proof (induction "length as" arbitrary: as c rule: less_induct)
  case less
  have IH: "cli_args fopen prog bs d = Inr c' \<Longrightarrow> length bs < length as \<Longrightarrow> cli_ok d \<Longrightarrow> cli_ok c'" for bs d
    using less.hyps by blast
  show ?case
  proof (cases as)
    case Nil
    then show ?thesis using less.prems by simp
  next
    case (Cons a bs)
    have rest: "cli_args fopen prog bs d = Inr c' \<Longrightarrow> cli_ok d \<Longrightarrow> cli_ok c'" for d
      using IH [of bs d] Cons by simp
    have tail: "cli_args fopen prog cs d = Inr c' \<Longrightarrow> bs = b # cs \<Longrightarrow> cli_ok d \<Longrightarrow> cli_ok c'" for b cs d
      using IH [of cs d] Cons by simp
    show ?thesis
      using less.prems unfolding Cons cli_args.simps
      by (simp only: split: if_split_asm)
        (auto split: list.split_asm sum.split_asm dest: open_file_ok elim!: rest tail)
  qed
qed

lemma cli_init_ok: "cli_ok (cli_init stdin)"
  by (simp add: cli_ok_def cli_init_def mode_ok_def ud_set_syntax_def ud_set_mode_def ud_init_def
      ud_set_asm_buffer_def ud_set_input_file_def ud_inp_init_def ud_set_pc_def zero_ud_def)

lemma skip_hook_bytes:
  assumes "inp_hook u = Some bs"
  shows "skip_hook u n = Some (u\<lparr>inp_hook := Some (drop n bs),
     inp_end := inp_end u \<or> length bs < n, ud_error := ud_error u \<or> length bs < n\<rparr>)"
  using assms
proof (induction n arbitrary: u bs)
  case 0
  then show ?case by simp
next
  case (Suc n)
  then show ?case by (cases bs) simp_all
qed

text \<open>The hook does not touch the options, the object or the output.\<close>

lemma cli_hook_same:
  assumes "cli_hook c = (r, c')"
  shows "cli_ud c' = cli_ud c" "cli_out c' = cli_out c" "o_do_off c' = o_do_off c" "o_do_hex c' = o_do_hex c"
    "o_skip c' = o_skip c" "o_do_x c' = o_do_x c"
  using assms
  by (auto simp: cli_hook_def input_hook_file_def input_hook_x_def put_err_def Let_def
      split: if_splits list.splits prod.splits scanned.splits)

lemma cli_input_same:
  "cli_input c = (bs, c') \<Longrightarrow> cli_ud c' = cli_ud c \<and> cli_out c' = cli_out c \<and> o_do_off c' = o_do_off c \<and>
     o_do_hex c' = o_do_hex c \<and> o_skip c' = o_skip c \<and> o_do_x c' = o_do_x c"
proof (induction c arbitrary: bs c' rule: cli_input.induct)
  case (1 c)
  obtain r c1 where h: "cli_hook c = (r, c1)" by fastforce
  note same = cli_hook_same [OF h]
  show ?case
  proof (cases "r = UD_EOI")
    case True
    then show ?thesis using "1.prems" h same by (simp add: cli_input.simps)
  next
    case False
    obtain cs c2 where "cli_input c1 = (cs, c2)" by fastforce
    then show ?thesis using "1.IH" [OF h [symmetric] False] "1.prems" h same False by (simp add: cli_input.simps)
  qed
qed

lemma cli_start_input:
  assumes "cli_ok c"
  shows "\<exists>c'. cli_start c = Some c' \<and> disas_inv (cli_ud c') \<and> listed_line c' = listed_line c \<and>
     o_do_hex c' = o_do_hex c \<and> cli_out c' = [] \<and>
     inp_rest (cli_ud c') = drop (unat (o_skip c)) (fst (cli_input (c\<lparr>o_count := o_count c + o_skip c\<rparr>))) \<and>
     (inp_end (cli_ud c') \<longrightarrow> inp_rest (cli_ud c') = [])"
proof -
  obtain bs c1 where i: "cli_input (c\<lparr>o_count := o_count c + o_skip c\<rparr>) = (bs, c1)" by fastforce
  define u where "u = ud_set_input_hook (cli_ud c) bs"
  note same = cli_input_same [OF i]
  have u: "inp_hook u = Some bs" "inp_buf u = None" "\<not> inp_end u" "mode_ok u" "length (inp_sess u) = 64"
      "length (asm_buf u) < asm_buf_size u"
    using assms by (simp_all add: u_def ud_set_input_hook_def ud_inp_init_def cli_ok_def mode_ok_def)
  have line: "listed_line (c1\<lparr>cli_ud := w\<rparr>) = listed_line c" for w
    using same by (simp add: fun_eq_iff listed_line_def)
  show ?thesis
    using assms i same u line skip_hook_bytes [OF u(1), of "unat (o_skip c)"]
    by (auto simp: cli_start_def Let_def ud_input_skip_def u_def [symmetric] cli_ok_def disas_inv_def input_inv_def
        mode_ok_def inp_rest_def)
qed

text \<open>A file delivers its bytes, as many as were asked for.\<close>

lemma cli_input_file:
  assumes "\<not> o_do_x c"
  shows "fst (cli_input c) =
     map of_char (if o_do_count c then take (unat (o_count c)) (fptr c) else fptr c)"
  using assms
proof (induction "fptr c" arbitrary: c)
  case Nil
  then show ?case by (simp add: cli_input.simps cli_hook_def input_hook_file_def UD_EOI_def Let_def)
next
  case (Cons x xs)
  define c1 where "c1 = (if o_do_count c then c\<lparr>o_count := o_count c - 1\<rparr> else c)\<lparr>fptr := xs\<rparr>"
  have c1: "xs = fptr c1" "\<not> o_do_x c1" "o_do_count c1 = o_do_count c" using Cons.prems by (simp_all add: c1_def)
  have neq: "(of_char x :: int) \<noteq> UD_EOI"
  proof -
    have "(0 :: int) \<le> of_char x" by (metis of_nat_of_char of_nat_0_le_iff)
    then show ?thesis by (simp add: UD_EOI_def)
  qed
  show ?case
  proof (cases "o_do_count c \<and> o_count c = 0")
    case True
    then show ?thesis using Cons.prems by (simp add: cli_input.simps cli_hook_def input_hook_file_def UD_EOI_def)
  next
    case False
    have "cli_hook c = (of_char x, c1)"
      using False Cons.prems Cons.hyps(2) [symmetric] by (simp add: cli_hook_def input_hook_file_def c1_def Let_def)
    then have "fst (cli_input c) = of_char x # fst (cli_input c1)"
      using neq by (subst cli_input.simps) (simp add: case_prod_beta of_int_of_char)
    moreover have "o_do_count c \<Longrightarrow> unat (o_count c) = Suc (unat (o_count c1))"
      using False by (simp add: c1_def unat_minus_one unat_gt_0)
    ultimately show ?thesis
      using Cons.hyps(1) [OF c1(1,2)] c1 Cons.hyps(2) [symmetric] by simp
  qed
qed

section \<open>The program\<close>

text \<open>C21. The command line of the disassembler ends with success on every input, once its arguments are
  accepted: it prints, one after another, the listing of the instructions of the whole input that the
  options select, from the skipped bytes up to the end of the input or the given number of bytes.\<close>

theorem udcli_prints_listing:
  assumes "cli_args fopen prog args (cli_init stdin) = Inr c"
  shows "\<exists>is c1 c2. udcli_main udis86_tables udis86_mnemonics_str junk fopen stdin prog args = Some (EXIT_SUCCESS, c2) \<and>
     cli_start c = Some c1 \<and>
     listing udis86_tables udis86_mnemonics_str junk (o_do_hex c) (cli_ud c1) is \<and>
     cli_out c2 = concat (map (listed_line c) is) \<and>
     concat (map li_bytes is) = drop (unat (o_skip c)) (fst (cli_input (c\<lparr>o_count := o_count c + o_skip c\<rparr>))) \<and>
     (\<not> o_do_x c \<longrightarrow> concat (map li_bytes is) = drop (unat (o_skip c)) (map of_char
        (if o_do_count c then take (unat (o_count c + o_skip c)) (fptr c) else fptr c)))"
proof -
  have "cli_ok c" using cli_args_ok [OF assms cli_init_ok] .
  obtain c1 where c1: "cli_start c = Some c1" "disas_inv (cli_ud c1)" "listed_line c1 = listed_line c"
      "o_do_hex c1 = o_do_hex c" "cli_out c1 = []" "inp_end (cli_ud c1) \<longrightarrow> inp_rest (cli_ud c1) = []"
      "inp_rest (cli_ud c1) = drop (unat (o_skip c)) (fst (cli_input (c\<lparr>o_count := o_count c + o_skip c\<rparr>)))"
    using cli_start_input [OF \<open>cli_ok c\<close>] by (elim exE conjE) (rule that, assumption+)
  obtain "is" u where l: "listing udis86_tables udis86_mnemonics_str junk (o_do_hex c1) (cli_ud c1) is"
      "concat (map li_bytes is) = inp_rest (cli_ud c1)"
      "cli_loop udis86_tables udis86_mnemonics_str junk c1 =
         Some (c1\<lparr>cli_ud := u, cli_out := cli_out c1 @ concat (map (listed_line c1) is)\<rparr>)"
    using udis86.cli_loop_lists [OF c1(2), of udis86_mnemonics_str junk] c1(6) by (elim meta_impE exE conjE) (blast, rule that, assumption+)
  define c2 where "c2 = c1\<lparr>cli_ud := u, cli_out := concat (map (listed_line c) is)\<rparr>"
  have run: "udcli_main udis86_tables udis86_mnemonics_str junk fopen stdin prog args = Some (EXIT_SUCCESS, c2)"
    using assms c1(1,3,5) l(3) by (simp add: udcli_main_def c2_def)
  have out: "cli_out c2 = concat (map (listed_line c) is)" by (simp add: c2_def)
  have bytes: "concat (map li_bytes is) = drop (unat (o_skip c)) (fst (cli_input (c\<lparr>o_count := o_count c + o_skip c\<rparr>)))"
    using c1(7) l(2) by (simp only:)
  have from_file: "\<not> o_do_x c \<longrightarrow> concat (map li_bytes is) = drop (unat (o_skip c)) (map of_char
      (if o_do_count c then take (unat (o_count c + o_skip c)) (fptr c) else fptr c))"
    using cli_input_file [of "c\<lparr>o_count := o_count c + o_skip c\<rparr>"] bytes by simp
  note listed = l(1) [unfolded c1(4)]
  show ?thesis
    by (rule exI [of _ "is"], rule exI [of _ c1], rule exI [of _ c2]) (intro conjI run c1(1) listed out bytes from_file)
qed

text \<open>Two bytes of standard input of which the first is skipped.\<close>

theorem udcli_prints_listing_witness:
  "\<exists>(is :: listed list) c2. udcli_main udis86_tables udis86_mnemonics_str (\<lambda>_. 0) (\<lambda>_. None) ''XY'' ''udcli'' [''-64'', ''-s'', ''1''] =
     Some (EXIT_SUCCESS, c2) \<and> concat (map li_bytes is) = [0x59]"
proof -
  define c where "c = (cli_init ''XY'')\<lparr>cli_ud := ud_set_mode (cli_ud (cli_init ''XY'')) 64, o_skip := 1\<rparr>"
  have scan: "scan_number 10 ''1'' = (Scan_value 1, [])"
    by (simp add: scan_number_def isspace_def digit_val_def strtoul_def)
  have args: "cli_args (\<lambda>_. None) ''udcli'' [''-64'', ''-s'', ''1''] (cli_init ''XY'') = Inr c"
    by (simp add: scan_option_def scan set_ud_def c_def)
  have c: "o_do_x c = False" "o_do_count c = False" "fptr c = ''XY''" "o_skip c = 1"
    by (simp_all add: c_def cli_init_def)
  obtain "is" :: "listed list" and c2 where run: "udcli_main udis86_tables udis86_mnemonics_str (\<lambda>_. 0) (\<lambda>_. None) ''XY'' ''udcli''
        [''-64'', ''-s'', ''1''] = Some (EXIT_SUCCESS, c2)"
    and bytes: "\<not> o_do_x c \<longrightarrow> concat (map li_bytes is) = drop (unat (o_skip c)) (map of_char
        (if o_do_count c then take (unat (o_count c + o_skip c)) (fptr c) else fptr c))"
    using udcli_prints_listing [OF args, of "\<lambda>_. 0"] by (elim exE conjE) (rule that, assumption, assumption)
  have "concat (map li_bytes is) = [0x59]" using bytes by (simp add: c)
  with run show ?thesis by (intro exI conjI)
qed

text \<open>How a tool prints bytes for the option \<open>-x\<close>.\<close>

definition hex_text :: "u8 list \<Rightarrow> string" where
  "hex_text bs = concat (map (\<lambda>b. hex2 b @ '' '') bs)"

lemma unat_byte: "unat (b :: u8) < 256"
  using unsigned_less [of b, where ?'a = nat] by simp

lemma scan_hex2: "scan_number 16 (hex2 b @ '' '' @ s) = (Scan_value (ucast b), '' '' @ s)"
proof -
  define d1 where "d1 = unat b div 16"
  define d2 where "d2 = unat b mod 16"
  have d: "d1 < 16" "d2 < 16" "d1 * 16 + d2 = unat b"
    using unat_byte [of b] by (auto simp: d1_def d2_def)
  note p1 = digit_char_props [OF d(1)]
  note p2 = digit_char_props [OF d(2)]
  have sp: "digit_val 16 (CHR '' '') = None" by (simp add: digit_val_def)
  have n: "\<not> has_0x (digit_char d1 # digit_char d2 # '' '' @ s)" "\<not> starts_0x (digit_char d1 # digit_char d2 # '' '' @ s)"
    using p2 by simp_all
  have v: "strtoul 16 (digit_char d1 # digit_char d2 # '' '' @ s) = ucast b"
  proof -
    have "unat b < 2 ^ 64" using unat_byte [of b] by simp
    then show ?thesis
      using n p1 d sp by (simp add: strtoul_def)
  qed
  show ?thesis
    using n p1 d v sp by (simp add: scan_number_def hex2_def Let_def d1_def [symmetric] d2_def [symmetric])
qed

lemma scan_leading: "scan_number base ('' '' @ s) = scan_number base s"
  by (simp add: scan_number_def isspace_def strtoul_def)

lemma hook_scans:
  assumes "o_do_x c" and "\<not> o_do_count c" and "scan_number 16 (fptr c) = (Scan_value (ucast (b :: u8)), r)"
  shows "cli_hook c = (uint b, c\<lparr>fptr := r\<rparr>)"
proof -
  have low: "(ucast (ucast b :: u64) :: u32) = ucast b" by (rule bit_word_eqI) (simp add: bit_simps)
  have byte: "(ucast b :: u32) AND 0xff = ucast b" "unat (ucast b :: u32) = unat b" "uint (ucast b :: u32) = uint b"
  proof -
    have "x AND 0xff = take_bit 8 x" for x :: u32 by (simp add: take_bit_eq_mask mask_eq_exp_minus_1)
    moreover have "take_bit 8 (ucast b :: u32) = ucast b" by (rule bit_word_eqI) (auto simp: bit_simps dest: bit_imp_le_length)
    ultimately show "(ucast b :: u32) AND 0xff = ucast b" by simp
    show "unat (ucast b :: u32) = unat b" "uint (ucast b :: u32) = uint b"
      using unat_byte [of b] unsigned_less [of b, where ?'a = int]
      by (simp_all add: unsigned_ucast_eq take_bit_nat_eq_self take_bit_int_eq_self)
  qed
  have small: "\<not> (0xff :: u32) < ucast b" using byte(2) unat_byte [of b] by (simp add: word_less_nat_alt)
  show ?thesis
    using assms low byte small by (simp add: cli_hook_def input_hook_x_def Let_def)
qed

lemma hex_input:
  assumes "o_do_x c" and "\<not> o_do_count c" and "scan_number 16 (fptr c) = scan_number 16 (hex_text bs)"
  shows "fst (cli_input c) = bs"
  using assms
proof (induction bs arbitrary: c)
  case Nil
  then show ?case
    by (simp add: cli_input.simps cli_hook_def input_hook_x_def hex_text_def scan_number_def UD_EOI_def)
next
  case (Cons b bs)
  have "scan_number 16 (fptr c) = (Scan_value (ucast b), '' '' @ hex_text bs)"
    using Cons.prems(3) scan_hex2 [of b "hex_text bs"] by (simp add: hex_text_def)
  then have h: "cli_hook c = (uint b, c\<lparr>fptr := '' '' @ hex_text bs\<rparr>)"
    using Cons.prems(1,2) by (intro hook_scans)
  have "fst (cli_input (c\<lparr>fptr := '' '' @ hex_text bs\<rparr>)) = bs"
    using Cons.prems(1,2) scan_leading [of 16 "hex_text bs"] by (intro Cons.IH) simp_all
  moreover have "uint b \<noteq> UD_EOI"
  proof -
    have "0 \<le> uint b" by simp
    then show ?thesis unfolding UD_EOI_def by linarith
  qed
  ultimately show ?case using h by (subst cli_input.simps) (simp add: case_prod_beta)
qed

text \<open>C22. With the option \<open>-x\<close> the disassembler reads back exactly the bytes that were printed in
  hexadecimal, two digits each with a space behind.\<close>

theorem hex_input_roundtrip:
  assumes "o_do_x c" and "\<not> o_do_count c" and "fptr c = hex_text bs"
  shows "fst (cli_input c) = bs"
  using assms by (intro hex_input) simp_all

theorem hex_input_roundtrip_witness:
  "fst (cli_input ((cli_init (hex_text [0xe8, 0x0f]))\<lparr>o_do_x := True\<rparr>)) = [0xe8, 0x0f]"
  by (rule hex_input_roundtrip) (simp_all add: cli_init_def)

end
