(* ===== verification/Func_Tracer.thy ===== *)
theory Func_Tracer
  imports Callsite Trace_Effects
begin

text \<open>
  \<^verbatim>\<open>modules/examples/func_tracer.c\<close>, the module that traces every call of the program, and the two
  macros of \<^verbatim>\<open>shiva.h\<close> a handler is written with. The addresses of the handler and of the saved
  registers, and the registers at its entry, are arguments; messages are left out.
\<close>

section \<open>The handler\<close>

definition RSI_OFF :: u64 where "RSI_OFF = 32"
definition RDI_OFF :: u64 where "RDI_OFF = 40"
definition RIP_OFF :: u64 where "RIP_OFF = 64"
definition R10_OFF :: u64 where "R10_OFF = 88"

text \<open>The breakpoint that triggered the handler, from the return address. The inner loop over the return
  addresses of a GOT hook has no effect: its \<open>break\<close> leaves only that loop.\<close>

definition SHIVA_TRACE_BP_STRUCT :: "u64 \<Rightarrow> shiva_trace_handler \<Rightarrow> shiva_trace_bp option" where
  "SHIVA_TRACE_BP_STRUCT ret handler =
     find (\<lambda>bp. bp_type bp = SHIVA_TRACE_BP_TRAMPOLINE \<or> callsite_retaddr bp = ret) (bp_tqlist handler)"

record original_call =
  oc_function :: u64
  oc_args :: "u64 list"

definition SHIVA_TRACE_CALL_ORIGINAL :: "mem \<Rightarrow> u64 \<Rightarrow> shiva_trace_bp \<Rightarrow> original_call" where
  "SHIVA_TRACE_CALL_ORIGINAL m regs bp =
     \<lparr>oc_function = o_target bp,
      oc_args = map (\<lambda>off. load64 m (regs + off)) [RDI_OFF, RSI_OFF, 24, 16, R8_OFF, R9_OFF, R10_OFF]\<rparr>"

datatype handler_outcome = Handler_exits | Handler_calls original_call

text \<open>\<open>None\<close> is the access through a null breakpoint.\<close>

definition callsite_handler :: "u64 \<Rightarrow> shiva_ctx \<Rightarrow> u64 \<Rightarrow> shiva_trace_regset_x86_64 \<Rightarrow> u64 \<Rightarrow> u64 \<Rightarrow>
    u64 \<Rightarrow> mem \<Rightarrow> (handler_outcome \<times> mem) option" where
  "callsite_handler self ctx regs r arg retaddr frmaddr m =
     (let m = shiva_trace_getregs_x86_64 (r\<lparr>r_rdi := regs\<rparr>) m;
          m = store64 m (regs + RBP_OFF) frmaddr;
          m = store64 m (regs + RIP_OFF) (retaddr - 5);
          m = store64 m (regs + RDI_OFF) arg
      in case shiva_trace_find_handler ctx self of
           None \<Rightarrow> Some (Handler_exits, m)
         | Some handler \<Rightarrow> do {
             bp \<leftarrow> SHIVA_TRACE_BP_STRUCT retaddr handler;
             Some (Handler_calls (SHIVA_TRACE_CALL_ORIGINAL m regs bp), m)
           })"

section \<open>The module\<close>

lemma callsite_nxt_shrinks: "callsite_nxt it = Some (b, it') \<Longrightarrow> length (ci_current it') < length (ci_current it)"
proof -
  have shrinks: "check_branch bs = (SHIVA_ITER_OK, e, rest) \<Longrightarrow> length rest < length bs" for bs e rest
    by (induction bs) (auto split: if_split_asm)
  then show "callsite_nxt it = Some (b, it') \<Longrightarrow> length (ci_current it') < length (ci_current it)"
    by (auto simp: callsite_nxt_def shiva_callsite_iterator_next_def
        split: list.split_asm prod.split_asm shiva_iterator_res.split_asm option.split_asm simp del: check_branch.simps dest!: shrinks)
qed

function tracer_loop :: "bool \<Rightarrow> bool \<Rightarrow> os \<Rightarrow> u64 \<Rightarrow> shiva_callsite_iterator \<Rightarrow> proc \<Rightarrow> (int \<times> proc) option" where
  "tracer_loop standalone symnull os self call_iter p =
     (case callsite_nxt call_iter of
        None \<Rightarrow> Some (0, p)
      | Some (branch, call_iter) \<Rightarrow>
          (case shiva_trace_set_breakpoint standalone symnull os self
              (branch_site branch + ul_base_vaddr (ulexec (p_ctx p))) [] p of
             None \<Rightarrow> None
           | Some (err, p) \<Rightarrow>
               if err \<noteq> None then Some (-1, p)
               else tracer_loop standalone symnull os self call_iter p))"
  by pat_completeness auto
termination
  by (relation "measure (\<lambda>(sa, sn, os, self, it, p). length (ci_current it))") (auto dest: callsite_nxt_shrinks)

declare tracer_loop.simps [simp del]

definition shakti_main :: "bool \<Rightarrow> bool \<Rightarrow> bool \<Rightarrow> os \<Rightarrow> u64 \<Rightarrow> u64 \<Rightarrow> proc \<Rightarrow> (int \<times> proc) option" where
  "shakti_main standalone symnull res0 os status self p =
     do {
       (ok, _, p) \<leftarrow> shiva_trace os res0 status 0 SHIVA_TRACE_OP_ATTACH 0 [] 0 p;
       if \<not> ok then Some (-1, p)
       else
         (case shiva_trace_register_handler os self SHIVA_TRACE_BP_CALL p of
            (err, p) \<Rightarrow>
              if err \<noteq> None then Some (-1, p)
              else tracer_loop standalone symnull os self (shiva_callsite_iterator_init (p_ctx p)) p)
     }"

section \<open>Hooking the calls\<close>

definition site_addr :: "u64 \<Rightarrow> shiva_branch_site \<Rightarrow> u64" where
  "site_addr base b = branch_site b + base"

text \<open>Where a hooked call returns to and what it called: the low 32 bits of the destination are kept.\<close>

definition hooked_call :: "mem \<Rightarrow> u64 \<Rightarrow> shiva_trace_bp_type \<times> u64 \<times> u64 \<times> u64" where
  "hooked_call m a = (SHIVA_TRACE_BP_CALL, a, a + 5, call_dest m a AND 0xffffffff)"

definition bp_call :: "shiva_trace_bp \<Rightarrow> shiva_trace_bp_type \<times> u64 \<times> u64 \<times> u64" where
  "bp_call bp = (bp_type bp, bp_addr bp, callsite_retaddr bp, o_target bp)"

definition with_bps :: "nat \<Rightarrow> shiva_trace_bp list \<Rightarrow> shiva_ctx \<Rightarrow> shiva_ctx" where
  "with_bps i bps ctx =
     (let hs = trace_handlers_tqlist ctx in
      ctx\<lparr>trace_handlers_tqlist := hs[i := (hs ! i)\<lparr>bp_tqlist := bp_tqlist (hs ! i) @ bps\<rparr>]\<rparr>)"

lemma with_bps_Nil: "with_bps i [] ctx = ctx"
  by (simp add: with_bps_def)

lemma with_bps_append:
  "i < length (trace_handlers_tqlist ctx) \<Longrightarrow> with_bps i cs (with_bps i bs ctx) = with_bps i (bs @ cs) ctx"
  by (simp add: with_bps_def Let_def)

lemma with_bps_same [simp]:
  "ulexec (with_bps i bps ctx) = ulexec ctx" "branch_tqlist (with_bps i bps ctx) = branch_tqlist ctx"
  "mmap_tqlist (with_bps i bps ctx) = mmap_tqlist ctx"
  "length (trace_handlers_tqlist (with_bps i bps ctx)) = length (trace_handlers_tqlist ctx)"
  by (simp_all add: with_bps_def Let_def)

lemma bp_ready_with_bps:
  assumes "bp_ready os i ty fn a n p" and "p_ctx q = with_bps i bps (p_ctx p)"
  shows "bp_ready os i ty fn a n q"
proof -
  let ?hs = "trace_handlers_tqlist (p_ctx p)"
  have "handler_fn (trace_handlers_tqlist (p_ctx q) ! j) = handler_fn (?hs ! j) \<and>
      h_type (trace_handlers_tqlist (p_ctx q) ! j) = h_type (?hs ! j)" if "j < length ?hs" for j
    using that assms(2) by (cases "i = j") (simp_all add: with_bps_def Let_def)
  then show ?thesis
    using assms by (simp add: bp_ready_def shiva_maps_prot_by_addr_find)
qed

lemma call_dest_cong: "read_bytes m a 5 = read_bytes m' a 5 \<Longrightarrow> call_dest m a = call_dest m' a"
  by (simp add: call_dest_def load32_read5)

lemma read_bytes_eq:
  assumes "\<And>x. in_region a n x \<Longrightarrow> m x = m' x" and "n \<le> 2 ^ 64"
  shows "read_bytes m a n = read_bytes m' a n"
  using assms by (intro read_bytes_cong) simp

lemma tracer_loop_run:
  assumes "callsite_items it = bs" and "base = ul_base_vaddr (ulexec (p_ctx p))"
    and "\<forall>b \<in> set bs. bp_ready os i SHIVA_TRACE_BP_CALL self (site_addr base b) 5 p"
    and "sorted_wrt (\<lambda>b c. separate (site_addr base b) 5 (site_addr base c) 5) bs"
  shows "\<exists>p' bps. tracer_loop True sn os self it p = Some (0, p') \<and> p_ctx p' = with_bps i bps (p_ctx p) \<and>
     map bp_call bps = map (\<lambda>b. hooked_call (p_mem p) (site_addr base b)) bs \<and>
     (\<forall>b \<in> set bs. read_bytes (p_mem p') (site_addr base b) 5 = call_inst self (site_addr base b)) \<and>
     (\<forall>x. (\<forall>b \<in> set bs. \<not> in_region (site_addr base b) 5 x) \<longrightarrow> p_mem p' x = p_mem p x)"
  using assms
proof (induction bs arbitrary: it p)
  case Nil
  then have "callsite_nxt it = None" by (simp add: callsite_it.nxt_done)
  then show ?case by (intro exI [of _ p] exI [of _ "[]"]) (simp add: tracer_loop.simps with_bps_Nil)
next
  case (Cons b bs)
  let ?a = "site_addr base b"
  obtain it' where it': "callsite_nxt it = Some (b, it')" "callsite_items it' = bs"
    using callsite_it.nxt_more [OF Cons.prems(1)] by blast
  have ready: "bp_ready os i SHIVA_TRACE_BP_CALL self ?a 5 p" using Cons.prems(3) by simp
  obtain p1 bp where set: "shiva_trace_set_breakpoint True sn os self ?a [] p = Some (None, p1)"
    and mem: "p_mem p1 = write_bytes (p_mem p) ?a (call_inst self ?a)"
    and ctx: "p_ctx p1 = with_bps i [bp] (p_ctx p)"
    and bp: "bp_call bp = hooked_call (p_mem p) ?a"
    using call_breakpoint_run [OF ready, of sn "[]"]
    unfolding bp_call_def hooked_call_def with_bps_def Let_def by metis
  have sep: "separate ?a 5 (site_addr base c) 5" if "c \<in> set bs" for c using Cons.prems(4) that by simp
  have "ul_base_vaddr (ulexec (p_ctx p1)) = base" using Cons.prems(2) ctx by simp
  then obtain p' bps where p': "tracer_loop True sn os self it' p1 = Some (0, p')" "p_ctx p' = with_bps i bps (p_ctx p1)"
      "map bp_call bps = map (\<lambda>b. hooked_call (p_mem p1) (site_addr base b)) bs"
      "\<forall>b \<in> set bs. read_bytes (p_mem p') (site_addr base b) 5 = call_inst self (site_addr base b)"
      "\<forall>x. (\<forall>b \<in> set bs. \<not> in_region (site_addr base b) 5 x) \<longrightarrow> p_mem p' x = p_mem p1 x"
    using Cons.IH [OF it'(2), of p1] Cons.prems(3,4) bp_ready_with_bps [OF _ ctx] by auto
  have "tracer_loop True sn os self it p = Some (0, p')"
    using it'(1) set p'(1) Cons.prems(2) by (simp add: tracer_loop.simps [of _ _ _ _ it] site_addr_def)
  moreover have "p_ctx p' = with_bps i (bp # bps) (p_ctx p)"
    using p'(2) ctx ready with_bps_append [of i "p_ctx p" bps "[bp]"] by (simp add: bp_ready_def)
  moreover have "map bp_call (bp # bps) = map (\<lambda>b. hooked_call (p_mem p) (site_addr base b)) (b # bs)"
  proof -
    have "hooked_call (p_mem p1) (site_addr base c) = hooked_call (p_mem p) (site_addr base c)" if "c \<in> set bs" for c
      using sep [OF that] call_dest_cong [of "p_mem p1" _ "p_mem p"]
      by (simp add: hooked_call_def mem read_write_separate)
    then show ?thesis using p'(3) bp by simp
  qed
  moreover have "read_bytes (p_mem p') ?a 5 = call_inst self ?a"
  proof -
    have "read_bytes (p_mem p') ?a 5 = read_bytes (p_mem p1) ?a 5"
      using p'(5) sep by (intro read_bytes_eq) (auto simp: separate_def)
    then show ?thesis by (simp add: mem read_write_bytes)
  qed
  moreover have "p_mem p' x = p_mem p x" if "\<forall>c \<in> set (b # bs). \<not> in_region (site_addr base c) 5 x" for x
    using that p'(5) by (simp add: mem write_bytes_outside)
  ultimately show ?case using p'(4) by (intro exI [of _ p'] exI [of _ "bp # bps"]) auto
qed

text \<open>Attaching and registering leave everything else alone.\<close>

lemma thread_status_lines_mem:
  "thread_status_lines os bufs t p = Some (t', p') \<Longrightarrow> p_mem p' = p_mem p \<and> p_prot p' = p_prot p"
proof (induction bufs arbitrary: t p)
  case (Cons buf bufs)
  have "thread_status_line os b v s q = Some (s', q') \<Longrightarrow> p_mem q' = p_mem q \<and> p_prot q' = p_prot q" for b v s s' q q'
    by (auto simp: thread_status_line_def Let_def bind_eq_Some_conv dest: shiva_strdup_frame split: if_splits)
  with Cons show ?case by (fastforce simp: bind_eq_Some_conv)
qed simp

lemma attach_frame:
  assumes "shiva_trace os res0 status 0 SHIVA_TRACE_OP_ATTACH 0 [] 0 p = Some (True, x, p')"
  shows "p_mem p' = p_mem p \<and> p_prot p' = p_prot p \<and> (\<exists>ts. p_ctx p' = (p_ctx p)\<lparr>thread_tqlist := ts\<rparr>)"
proof -
  have "\<exists>t p1 p2. p_ctx p1 = p_ctx p \<and> p_mem p1 = p_mem p \<and> p_prot p1 = p_prot p \<and>
      shiva_trace_thread_status os 0 zero_thread p1 = Some (True, t, p2) \<and> (p' = insert_thread t p2 \<or> p' = p2)"
    using assms
    by (auto simp: shiva_trace_def shiva_trace_op_attach_def shiva_trace_thread_insert_def bind_eq_Some_conv
        dest!: sys_malloc_ctx split: if_split_asm option.split_asm prod.split_asm)
  then obtain t p1 p2 where p1: "p_ctx p1 = p_ctx p" "p_mem p1 = p_mem p" "p_prot p1 = p_prot p"
      "shiva_trace_thread_status os 0 zero_thread p1 = Some (True, t, p2)" "p' = insert_thread t p2 \<or> p' = p2"
    by blast
  have "p_mem p2 = p_mem p1 \<and> p_prot p2 = p_prot p1"
    using p1(4) by (auto simp: shiva_trace_thread_status_def bind_eq_Some_conv dest: thread_status_lines_mem
        split: option.split_asm)
  moreover have "p_ctx p2 = p_ctx p1" using thread_status_cases [OF p1(4)] by simp
  ultimately have "p_mem p' = p_mem p" "p_prot p' = p_prot p" "p_ctx p' = (p_ctx p)\<lparr>thread_tqlist := thread_tqlist (p_ctx p')\<rparr>"
    using p1 by (auto simp: insert_thread_def)
  then show ?thesis by blast
qed

text \<open>The calls can be hooked: memory and system calls are there, the handler is not registered yet, and
  every site is mapped, in reach of the handler and apart from the others.\<close>

definition traceable :: "os \<Rightarrow> u64 \<Rightarrow> shiva_ctx \<Rightarrow> shiva_branch_site list \<Rightarrow> bool" where
  "traceable os self ctx bs \<longleftrightarrow>
     (let base = ul_base_vaddr (ulexec ctx) in
      malloc_ok os \<and> mprotect_ok os \<and> (\<forall>h \<in> set (trace_handlers_tqlist ctx). handler_fn h \<noteq> self) \<and>
      (\<forall>b \<in> set bs. (\<exists>pr. shiva_maps_prot_by_addr ctx (site_addr base b) = Some (Some pr)) \<and>
         unat (site_addr base b) + 8197 \<le> 2 ^ 64 \<and>
         - (2 ^ 31) \<le> sint (self - site_addr base b - 5) \<and> sint (self - site_addr base b - 5) < 2 ^ 31) \<and>
      sorted_wrt (\<lambda>b c. separate (site_addr base b) 5 (site_addr base c) 5) bs)"

text \<open>Attaching and registering append a handler.\<close>

lemma attach_register:
  assumes "shiva_trace os res0 status 0 SHIVA_TRACE_OP_ATTACH 0 [] 0 p = Some (True, x, p1)" and "malloc_ok os"
  obtains ts p2 where "shiva_trace_register_handler os self ty p1 = (None, p2)" "p_mem p2 = p_mem p"
    "p_prot p2 = p_prot p"
    "p_ctx p2 = (p_ctx p)\<lparr>thread_tqlist := ts, trace_handlers_tqlist := trace_handlers_tqlist (p_ctx p) @
       [\<lparr>h_type = ty, handler_fn = self, bp_tqlist = []\<rparr>]\<rparr>"
proof -
  obtain ts where "p_mem p1 = p_mem p" "p_prot p1 = p_prot p" "p_ctx p1 = (p_ctx p)\<lparr>thread_tqlist := ts\<rparr>"
    using attach_frame [OF assms(1)] by blast
  with sys_malloc_ok [OF assms(2), of "os_sizeof os ''shiva_trace_handler''" p1] that show thesis
    by (auto simp: shiva_trace_register_handler_def)
qed

lemma shakti_main_run:
  assumes "shiva_trace os res0 status 0 SHIVA_TRACE_OP_ATTACH 0 [] 0 p = Some (True, x, p1)"
    and "bs = filter (\<lambda>b. branch_type b = SHIVA_BRANCH_CALL) (branch_tqlist (p_ctx p))"
    and "traceable os self (p_ctx p) bs" and "base = ul_base_vaddr (ulexec (p_ctx p))"
  shows "\<exists>p' bps. shakti_main True sn res0 os status self p = Some (0, p') \<and>
     trace_handlers_tqlist (p_ctx p') = trace_handlers_tqlist (p_ctx p) @
       [\<lparr>h_type = SHIVA_TRACE_BP_CALL, handler_fn = self, bp_tqlist = bps\<rparr>] \<and>
     map bp_call bps = map (\<lambda>b. hooked_call (p_mem p) (site_addr base b)) bs \<and>
     (\<forall>b \<in> set bs. p_mem p' (site_addr base b) = 0xe8 \<and> call_dest (p_mem p') (site_addr base b) = self) \<and>
     (\<forall>x. (\<forall>b \<in> set bs. \<not> in_region (site_addr base b) 5 x) \<longrightarrow> p_mem p' x = p_mem p x)"
proof -
  let ?hs = "trace_handlers_tqlist (p_ctx p)"
  note tr = assms(3) [unfolded traceable_def Let_def, folded assms(4)]
  define h where "h = \<lparr>h_type = SHIVA_TRACE_BP_CALL, handler_fn = self, bp_tqlist = []\<rparr>"
  obtain ts p2 where reg: "shiva_trace_register_handler os self SHIVA_TRACE_BP_CALL p1 = (None, p2)"
    and p2: "p_mem p2 = p_mem p" "p_ctx p2 = (p_ctx p)\<lparr>thread_tqlist := ts, trace_handlers_tqlist := ?hs @ [h]\<rparr>"
    using attach_register [OF assms(1), of self SHIVA_TRACE_BP_CALL] tr unfolding h_def by metis
  have "bp_ready os (length ?hs) SHIVA_TRACE_BP_CALL self (site_addr base b) 5 p2" if "b \<in> set bs" for b
    using tr that p2(2) by (auto simp: bp_ready_def shiva_maps_prot_by_addr_find nth_append h_def)
  moreover have "callsite_items (shiva_callsite_iterator_init (p_ctx p2)) = bs"
    by (simp add: callsite_items_def shiva_callsite_iterator_init_def p2(2) assms(2))
  moreover have "base = ul_base_vaddr (ulexec (p_ctx p2))" by (simp add: p2(2) assms(4))
  ultimately obtain p' bps where p': "tracer_loop True sn os self (shiva_callsite_iterator_init (p_ctx p2)) p2 = Some (0, p')"
      "p_ctx p' = with_bps (length ?hs) bps (p_ctx p2)"
      "map bp_call bps = map (\<lambda>b. hooked_call (p_mem p2) (site_addr base b)) bs"
      "\<forall>b \<in> set bs. read_bytes (p_mem p') (site_addr base b) 5 = call_inst self (site_addr base b)"
      "\<forall>x. (\<forall>b \<in> set bs. \<not> in_region (site_addr base b) 5 x) \<longrightarrow> p_mem p' x = p_mem p2 x"
    using tracer_loop_run [of _ bs base p2 os "length ?hs" self sn] tr by blast
  have "shakti_main True sn res0 os status self p = Some (0, p')"
    using assms(1) reg p'(1) by (simp add: shakti_main_def)
  moreover have "trace_handlers_tqlist (p_ctx p') = ?hs @ [h\<lparr>bp_tqlist := bps\<rparr>]"
    by (simp add: p'(2) p2(2) with_bps_def Let_def h_def)
  moreover have "p_mem p' (site_addr base b) = 0xe8 \<and> call_dest (p_mem p') (site_addr base b) = self" if "b \<in> set bs" for b
    using call_inst_dest [of self "site_addr base b" "p_mem p'"] p'(4) tr that by blast
  ultimately show ?thesis using p'(3,5) p2(1) by (intro exI [of _ p'] exI [of _ bps]) (simp add: h_def)
qed

section \<open>Calling the original function\<close>

text \<open>A saved register that the handler does not set itself is found where it was stored.\<close>

lemma getregs_reg:
  assumes "(off, v) \<in> set [(0 :: nat, r_rax r), (8, r_rbx r), (16, r_rcx r), (24, r_rdx r), (32, r_rsi r),
      (48, r_r8 r), (56, r_r9 r), (64, r_r10 r), (72, r_r11 r), (80, r_r12 r), (88, r_r13 r), (96, r_r14 r),
      (104, r_r15 r)]"
    and "\<forall>x \<in> set (map fst own). 8 dvd x \<and> x < 2 ^ 32" and "off \<notin> set (map fst own)"
  shows "load64 (store_at regs own (shiva_trace_getregs_x86_64 (r\<lparr>r_rdi := regs\<rparr>) m)) (regs + of_nat off) = v"
proof -
  have eq: "shiva_trace_getregs_x86_64 (r\<lparr>r_rdi := regs\<rparr>) m = store_at regs
      [(0, r_rax r), (8, r_rbx r), (16, r_rcx r), (24, r_rdx r), (32, r_rsi r), (48, r_r8 r), (56, r_r9 r),
       (64, r_r10 r), (72, r_r11 r), (80, r_r12 r), (88, r_r13 r), (96, r_r14 r), (104, r_r15 r)] m"
    by (simp add: shiva_trace_getregs_x86_64_def)
  have off: "8 dvd off" "off < 2 ^ 32" using assms(1) by auto
  show ?thesis
    unfolding load_store_at_other [OF assms(2) off assms(3)] eq by (intro load_store_at [OF _ _ assms(1)]) auto
qed

text \<open>What the handler calls when its breakpoint is found.\<close>

lemma original_args:
  assumes m'_def: "m' = store64 (store64 (store64 (shiva_trace_getregs_x86_64 (r\<lparr>r_rdi := regs\<rparr>) m)
     (regs + RBP_OFF) frm) (regs + RIP_OFF) ip) (regs + RDI_OFF) arg"
  shows "SHIVA_TRACE_CALL_ORIGINAL m' regs bp =
     \<lparr>oc_function = o_target bp, oc_args = [arg, r_rsi r, r_rdx r, r_rcx r, r_r11 r, r_r12 r, r_r13 r]\<rparr>"
proof -
  define own where "own = [(48 :: nat, frm), (64, ip), (40, arg)]"
  have m': "m' = store_at regs own (shiva_trace_getregs_x86_64 (r\<lparr>r_rdi := regs\<rparr>) m)"
    by (simp add: m'_def own_def store_at_def RBP_OFF_def RIP_OFF_def RDI_OFF_def)
  have "load64 m' (regs + of_nat 40) = arg"
    unfolding m' by (rule load_store_at) (auto simp: own_def)
  moreover note reg = getregs_reg [where r = r and own = own and regs = regs and m = m, folded m']
  ultimately show ?thesis
    using reg [of 32 "r_rsi r"] reg [of 24 "r_rdx r"] reg [of 16 "r_rcx r"] reg [of 72 "r_r11 r"]
      reg [of 80 "r_r12 r"] reg [of 88 "r_r13 r"]
    by (simp add: SHIVA_TRACE_CALL_ORIGINAL_def RDI_OFF_def RSI_OFF_def R8_OFF_def R9_OFF_def R10_OFF_def own_def)
qed

lemma find_bp:
  assumes "map bp_call bps = map (\<lambda>b. hooked_call m (site_addr base b)) bs" and "b \<in> set bs"
  obtains bp where "find (\<lambda>bp. bp_type bp = SHIVA_TRACE_BP_TRAMPOLINE \<or> callsite_retaddr bp = site_addr base b + 5) bps = Some bp"
    "o_target bp = call_dest m (site_addr base b) AND 0xffffffff"
proof -
  have "find (\<lambda>bp. bp_type bp = SHIVA_TRACE_BP_TRAMPOLINE \<or> callsite_retaddr bp = site_addr base b + 5) bps \<noteq> None \<and>
     (\<forall>bp. find (\<lambda>bp. bp_type bp = SHIVA_TRACE_BP_TRAMPOLINE \<or> callsite_retaddr bp = site_addr base b + 5) bps = Some bp \<longrightarrow>
        o_target bp = call_dest m (site_addr base b) AND 0xffffffff)"
    using assms
  proof (induction bs arbitrary: bps)
    case Nil
    then show ?case by simp
  next
    case (Cons c bs)
    obtain q qs where bps: "bps = q # qs" "bp_call q = hooked_call m (site_addr base c)"
        "map bp_call qs = map (\<lambda>b. hooked_call m (site_addr base b)) bs"
      using Cons.prems(1) by auto
    have q: "bp_type q = SHIVA_TRACE_BP_CALL" "callsite_retaddr q = site_addr base c + 5"
        "o_target q = call_dest m (site_addr base c) AND 0xffffffff"
      using bps(2) by (simp_all add: bp_call_def hooked_call_def)
    show ?case
    proof (cases "site_addr base c = site_addr base b")
      case True
      then show ?thesis using q bps(1) by simp
    next
      case False
      then have "b \<in> set bs" using Cons.prems(2) by auto
      then show ?thesis using Cons.IH [OF bps(3)] False q bps(1) by simp
    qed
  qed
  then show thesis using that by auto
qed

lemma find_after: "\<forall>h \<in> set hs. \<not> P h \<Longrightarrow> P y \<Longrightarrow> find P (hs @ [y]) = Some y"
  by (induction hs) auto

text \<open>C23. A traced call goes on to the function it called before: the handler that was entered from a
  hooked call finds the breakpoint by its return address and calls the low 32 bits of the original
  destination. Of the arguments only the first four are the caller's: the fifth to seventh come from
  \<open>r11\<close>, \<open>r12\<close> and \<open>r13\<close>, which the saving of the registers put where the structure has \<open>r8\<close> to
  \<open>r10\<close>.\<close>

theorem traced_call_continues:
  assumes "shiva_trace os res0 status 0 SHIVA_TRACE_OP_ATTACH 0 [] 0 p = Some (True, x, p1)"
    and "bs = filter (\<lambda>b. branch_type b = SHIVA_BRANCH_CALL) (branch_tqlist (p_ctx p))"
    and "traceable os self (p_ctx p) bs" and "base = ul_base_vaddr (ulexec (p_ctx p))"
    and "b \<in> set bs"
  shows "\<exists>p' m'. shakti_main True sn res0 os status self p = Some (0, p') \<and>
     callsite_handler self (p_ctx p') regs r arg (site_addr base b + 5) frmaddr m =
       Some (Handler_calls \<lparr>oc_function = call_dest (p_mem p) (site_addr base b) AND 0xffffffff,
         oc_args = [arg, r_rsi r, r_rdx r, r_rcx r, r_r11 r, r_r12 r, r_r13 r]\<rparr>, m')"
proof -
  obtain p' bps where p': "shakti_main True sn res0 os status self p = Some (0, p')"
    and hs: "trace_handlers_tqlist (p_ctx p') = trace_handlers_tqlist (p_ctx p) @
       [\<lparr>h_type = SHIVA_TRACE_BP_CALL, handler_fn = self, bp_tqlist = bps\<rparr>]"
    and bps: "map bp_call bps = map (\<lambda>b. hooked_call (p_mem p) (site_addr base b)) bs"
    using shakti_main_run [OF assms(1-4), of sn] by blast
  obtain bp where bp: "find (\<lambda>bp. bp_type bp = SHIVA_TRACE_BP_TRAMPOLINE \<or> callsite_retaddr bp = site_addr base b + 5) bps = Some bp"
      "o_target bp = call_dest (p_mem p) (site_addr base b) AND 0xffffffff"
    by (rule find_bp [OF bps assms(5)])
  have "\<forall>h \<in> set (trace_handlers_tqlist (p_ctx p)). handler_fn h \<noteq> self"
    using assms(3) by (simp add: traceable_def Let_def)
  then have "shiva_trace_find_handler (p_ctx p') self =
      Some \<lparr>h_type = SHIVA_TRACE_BP_CALL, handler_fn = self, bp_tqlist = bps\<rparr>"
    using find_after [of "trace_handlers_tqlist (p_ctx p)"] hs by (simp add: shiva_trace_find_handler_def)
  then show ?thesis
    using p' bp by (simp add: callsite_handler_def SHIVA_TRACE_BP_STRUCT_def Let_def original_args [OF refl])
qed

section \<open>Witnesses\<close>

text \<open>A process with two calls, one behind the other, of \<open>0x40002000\<close> and \<open>0x40003000\<close>.\<close>

definition example_site :: "u64 \<Rightarrow> shiva_branch_site" where
  "example_site a =
     \<lparr>bs_symbol = \<lparr>sym_name = ''f'', sym_value = 0, sym_size = 0, sym_type = 2, sym_bind = 1\<rparr>,
      branch_type = SHIVA_BRANCH_CALL, branch_flags = 0, target_vaddr = 0, branch_site = a, bs_retaddr = a + 5\<rparr>"

definition example_calls :: proc where
  "example_calls =
     zero_proc\<lparr>p_prot := (\<lambda>_. 5),
       p_mem := write_bytes (\<lambda>_. 0) 0x40001000 [0xe8, 0xfb, 0x0f, 0, 0, 0xe8, 0xf6, 0x1f, 0, 0],
       p_ctx := zero_ctx\<lparr>
         mmap_tqlist := [\<lparr>map_base = 0x40000000, map_len = 0x10000, map_prot = 5,
                          map_mapping = 2, mmap_type = SHIVA_MMAP_TYPE_HEAP, debugger_mapping = False\<rparr>],
         branch_tqlist := [example_site 0x1000, example_site 0x1005],
         ulexec := (ulexec zero_ctx)\<lparr>ul_base_vaddr := 0x40000000\<rparr>\<rparr>\<rparr>"

lemma example_os_attach:
  assumes "thread_tqlist (p_ctx p) = []"
  shows "\<exists>p1. shiva_trace example_os False 0 0 SHIVA_TRACE_OP_ATTACH 0 [] 0 p = Some (True, None, p1)"
proof -
  have "fgets_all (''Name: a'' @ [newline]) = [''Name: a'' @ [newline]]"
    using fgets_all_lines [of "[''Name: a'']"] by (simp add: newline_def PATH_MAX_def)
  then show ?thesis
    using assms by (simp add: shiva_trace_def shiva_trace_op_attach_def shiva_trace_thread_insert_def example_os_def
        sys_malloc_def shiva_trace_thread_status_def thread_status_path_def thread_status_line_def
        strncmp_eq_def shiva_strdup_def)
qed

lemma example_attach:
  "\<exists>p1. shiva_trace example_os False 0 0 SHIVA_TRACE_OP_ATTACH 0 [] 0 example_calls = Some (True, None, p1)"
  using example_os_attach [of example_calls] by (auto simp: example_calls_def zero_ctx_def)

lemma example_calls_facts:
  "filter (\<lambda>b. branch_type b = SHIVA_BRANCH_CALL) (branch_tqlist (p_ctx example_calls)) =
     [example_site 0x1000, example_site 0x1005]"
  "ul_base_vaddr (ulexec (p_ctx example_calls)) = 0x40000000"
  by (simp_all add: example_calls_def example_site_def)

lemma example_traceable:
  "traceable example_os 0x50000000 (p_ctx example_calls) [example_site 0x1000, example_site 0x1005]"
proof -
  have "separate 0x40001000 5 0x40001005 5"
    using separate_offsets [of 0 5 5 5 "0x40001000"] by simp
  moreover have "malloc_ok example_os" by (simp add: malloc_ok_def example_os_def)
  moreover have "shiva_maps_prot_by_addr (p_ctx example_calls) a = Some (Some 5)" if "a = 0x40001000 \<or> a = 0x40001005" for a
    using that by (auto simp: shiva_maps_prot_by_addr_find example_calls_def addr_in_entry_def)
  moreover have "site_addr 0x40000000 (example_site 0x1000) = 0x40001000"
      "site_addr 0x40000000 (example_site 0x1005) = 0x40001005"
    by (simp_all add: site_addr_def example_site_def)
  ultimately show ?thesis
    by (simp add: traceable_def Let_def example_calls_facts) (simp add: example_calls_def zero_ctx_def)
qed

lemma example_call_dests: "call_dest (p_mem example_calls) 0x40001005 = 0x40003000"
proof -
  let ?bs = "[0xe8, 0xfb, 0x0f, 0, 0, 0xe8, 0xf6, 0x1f, 0, 0] :: u8 list"
  have mem: "p_mem example_calls = write_bytes (\<lambda>_. 0) 0x40001000 ?bs" by (simp add: example_calls_def)
  have at: "p_mem example_calls (0x40001000 + of_nat i) = ?bs ! i" if "i < 10" for i
    using that by (simp only: mem write_bytes_inside) (simp add: write_bytes_inside)
  have "read_bytes (p_mem example_calls) 0x40001006 4 = [0xf6, 0x1f, 0, 0]"
    using at [of 6] at [of 7] at [of 8] at [of 9] by (simp add: read_bytes_def upt_rec)
  then show ?thesis by (simp add: call_dest_def load32_def)
qed

definition example_regs :: shiva_trace_regset_x86_64 where
  "example_regs =
     \<lparr>r_rax = 0, r_rbx = 1, r_rcx = 2, r_rdx = 3, r_rsi = 4, r_rdi = 5, r_rbp = 6, r_rsp = 7, r_rip = 8,
      r_r8 = 9, r_r9 = 10, r_r10 = 11, r_r11 = 12, r_r12 = 13, r_r13 = 14, r_r14 = 15, r_r15 = 16,
      r_flags = 0, r_cs = 0, r_ss = 0, r_fs = 0, r_ds = 0\<rparr>"

theorem traced_call_continues_witness:
  "\<exists>p' m'. shakti_main True False False example_os 0 0x50000000 example_calls = Some (0, p') \<and>
     callsite_handler 0x50000000 (p_ctx p') 0x700000 example_regs 1 0x4000100a 0 (\<lambda>_. 0) =
       Some (Handler_calls \<lparr>oc_function = 0x40003000,
         oc_args = [1, 4, 3, 2, 12, 13, 14]\<rparr>, m')"
proof -
  obtain p1 where "shiva_trace example_os False 0 0 SHIVA_TRACE_OP_ATTACH 0 [] 0 example_calls = Some (True, None, p1)"
    using example_attach by blast
  from traced_call_continues [OF this example_calls_facts(1) [symmetric] example_traceable
      example_calls_facts(2) [symmetric], of "example_site 0x1005" False "0x700000" example_regs 1 0 "\<lambda>_. 0"]
  show ?thesis by (simp add: site_addr_def example_site_def example_call_dests example_regs_def)
qed

end
