(* ===== verification/Traced_Program.thy ===== *)
theory Traced_Program
  imports Func_Tracer Udis86
begin

text \<open>
  The analyzer and the tracing module together: the call sites the analysis records lie apart, so the
  module can hook every one of them.
\<close>

section \<open>The instructions of a sweep lie behind each other\<close>

fun laid_out :: "u64 \<Rightarrow> (u64 \<times> u8 list) list \<Rightarrow> bool" where
  "laid_out a [] \<longleftrightarrow> True"
| "laid_out a (i # is) \<longleftrightarrow> fst i = a \<and> laid_out (a + of_nat (length (snd i))) is"

lemma laid_out_offset:
  "laid_out a insns \<Longrightarrow> i \<in> set insns \<Longrightarrow>
     \<exists>off. fst i = a + of_nat off \<and> off + length (snd i) \<le> length (concat (map snd insns))"
proof (induction a insns rule: laid_out.induct)
  case (2 a j js)
  show ?case
  proof (cases "i = j")
    case True
    then show ?thesis using 2 by (intro exI [of _ 0]) simp
  next
    case False
    then obtain off where "fst i = a + of_nat (length (snd j)) + of_nat off"
        "off + length (snd i) \<le> length (concat (map snd js))"
      using 2 by auto
    then show ?thesis by (intro exI [of _ "length (snd j) + off"]) simp
  qed
qed simp

lemma laid_out_separate:
  assumes "laid_out a insns" and "length (concat (map snd insns)) \<le> n" and "n < 2 ^ 64"
  shows "sorted_wrt (\<lambda>i j. separate (fst i + b) (length (snd i)) (fst j + b) (length (snd j))) insns"
  using assms
proof (induction a insns arbitrary: n rule: laid_out.induct)
  case (2 a j js)
  have "separate (fst j + b) (length (snd j)) (fst i + b) (length (snd i))" if i: "i \<in> set js" for i
  proof -
    obtain off where off: "fst i = a + of_nat (length (snd j)) + of_nat off"
        "off + length (snd i) \<le> length (concat (map snd js))"
      using laid_out_offset [of "a + of_nat (length (snd j))" js i] 2(2) i by auto
    have le: "length (snd j) + off + length (snd i) \<le> n" using off(2) 2(3) by simp
    have "unat (of_nat (length (snd j) + off) :: u64) = length (snd j) + off"
      using le 2(4) by (simp add: unat_of_nat take_bit_nat_eq_self del: of_nat_add)
    then have "separate (a + b + 0) (length (snd j)) (a + b + of_nat (length (snd j) + off)) (length (snd i))"
      using le 2(4) by (intro separate_offsets) simp_all
    moreover have "fst j = a" using 2(2) by simp
    ultimately show ?thesis using off(1) by (simp add: algebra_simps)
  qed
  moreover have "sorted_wrt (\<lambda>i j. separate (fst i + b) (length (snd i)) (fst j + b) (length (snd j))) js"
    using 2 by (intro "2.IH" [of n]) auto
  ultimately show ?case by simp
qed simp

context call_opcode_tables
begin

lemma sweep_laid_out: "linear_sweep t mn junk a u insns \<Longrightarrow> sweep_inv u \<Longrightarrow> laid_out a insns"
proof (induction rule: linear_sweep.induct)
  case (sweep_insn a u n u' insns)
  show ?case
  proof (rule sweep_step [OF sweep_insn.prems, of mn "junk a"])
    fix k v
    assume "ud_disassemble t mn (junk a) u = Some (k, v)" "sweep_inv v" "k \<le> length (ud_insn_ptr v)"
    then show ?thesis using sweep_insn by simp
  qed (use sweep_insn in simp)
qed simp

end

lemma site_of_call_fields [simp]:
  "branch_type (site_of_call obj i) = SHIVA_BRANCH_CALL" "branch_site (site_of_call obj i) = fst i"
  by (simp_all add: site_of_call_def Let_def case_prod_beta)

lemma sites_separate:
  assumes "laid_out a insns" and "length (concat (map snd insns)) < 2 ^ 64"
  shows "sorted_wrt (\<lambda>b c. separate (site_addr base b) 5 (site_addr base c) 5)
           (map (site_of_call obj) (filter is_rel_call insns))"
proof -
  have "sorted_wrt (\<lambda>i j. separate (fst i + base) (length (snd i)) (fst j + base) (length (snd j)))
      (filter is_rel_call insns)"
    using laid_out_separate [OF assms(1) _ assms(2), of base] by (simp add: sorted_wrt_filter)
  then show ?thesis
    unfolding sorted_wrt_map
    by (rule sorted_wrt_mono_rel [rotated]) (simp add: is_rel_call_def site_addr_def)
qed

section \<open>The traced program\<close>

lemma thread_status_line_ok:
  assumes "malloc_ok os"
  shows "\<exists>t1 p1. thread_status_line os buf v t p = Some (t1, p1)"
proof -
  obtain a where "sys_malloc os (of_nat (length v) + 1) p = (Some a, p\<lparr>p_calls := Suc (p_calls p)\<rparr>)"
    using sys_malloc_ok [OF assms] by blast
  then have "\<exists>r. shiva_strdup os v p = Some r" by (simp add: shiva_strdup_def)
  then show ?thesis by (auto simp: thread_status_line_def Let_def)
qed

lemma thread_status_lines_ok:
  assumes "malloc_ok os" and "\<forall>l \<in> set bufs. CHR '':'' \<in> set l"
  shows "\<exists>t' p'. thread_status_lines os bufs t p = Some (t', p')"
  using assms(2)
proof (induction bufs arbitrary: t p)
  case (Cons buf bufs)
  obtain q where q: "strchr buf (CHR '':'') = Some q" using Cons.prems strchr_None_iff [of buf "CHR '':''"] by auto
  obtain t1 p1 where line: "thread_status_line os buf (dropWhile (\<lambda>c. c = CHR '' '') (tl q)) t p = Some (t1, p1)"
    using thread_status_line_ok [OF assms(1)] by blast
  obtain t' p' where "thread_status_lines os bufs t1 p1 = Some (t', p')" using Cons.IH Cons.prems by fastforce
  then show ?case using q line by simp
qed simp

text \<open>Attaching works when the status file of the process can be read.\<close>

definition attachable :: "os \<Rightarrow> bool" where
  "attachable os \<longleftrightarrow>
     (\<exists>content. os_file os ''/proc/self/status'' = Some content \<and> (\<forall>l \<in> set (fgets_all content). CHR '':'' \<in> set l))"

lemma attach_ok:
  assumes "malloc_ok os" and "attachable os"
  shows "\<exists>p1. shiva_trace os res0 status 0 SHIVA_TRACE_OP_ATTACH 0 [] 0 p = Some (True, None, p1)"
proof -
  obtain content where c: "os_file os ''/proc/self/status'' = Some content"
      "\<forall>l \<in> set (fgets_all content). CHR '':'' \<in> set l"
    using assms(2) by (auto simp: attachable_def)
  have "\<exists>t p2. shiva_trace_thread_status os 0 zero_thread q = Some (True, t, p2)" for q
    using thread_status_lines_ok [OF assms(1) c(2), of zero_thread q] c(1)
    by (auto simp: shiva_trace_thread_status_def thread_status_path_def split: option.split)
  then obtain t p2 where "shiva_trace_thread_status os 0 zero_thread (p\<lparr>p_calls := Suc (p_calls p)\<rparr>) = Some (True, t, p2)"
    by blast
  then show ?thesis
    using sys_malloc_ok [OF assms(1), of 56 p]
    by (auto simp: shiva_trace_def shiva_trace_op_attach_def shiva_trace_thread_insert_def)
qed

text \<open>The text of the program is mapped and in reach of the handler.\<close>

definition text_in_reach :: "u64 \<Rightarrow> shiva_ctx \<Rightarrow> nat \<Rightarrow> bool" where
  "text_in_reach self ctx n \<longleftrightarrow>
     (let a = disas_base ctx + ul_base_vaddr (ulexec ctx) in
      unat a + n + 8197 \<le> 2 ^ 64 \<and>
      (\<forall>i < n. (\<exists>pr. shiva_maps_prot_by_addr ctx (a + of_nat i) = Some (Some pr)) \<and>
         - (2 ^ 31) \<le> sint (self - (a + of_nat i) - 5) \<and> sint (self - (a + of_nat i) - 5) < 2 ^ 31))"

lemma unat_add_small: "unat (a :: u64) + n < 2 ^ 64 \<Longrightarrow> unat (a + of_nat n) = unat a + n"
  by (simp add: unat_word_ariths unat_of_nat take_bit_nat_eq_self)

lemma traceable_sites:
  assumes "malloc_ok os" "mprotect_ok os" "\<forall>h \<in> set (trace_handlers_tqlist ctx). handler_fn h \<noteq> self"
    and "text_in_reach self ctx n" and "laid_out (disas_base ctx) insns" and "length (concat (map snd insns)) = n"
    and "mmap_tqlist ctx' = mmap_tqlist ctx" "ulexec ctx' = ulexec ctx"
      "trace_handlers_tqlist ctx' = trace_handlers_tqlist ctx"
  shows "traceable os self ctx' (map (site_of_call obj) (filter is_rel_call insns))"
proof -
  let ?base = "ul_base_vaddr (ulexec ctx)" and ?a = "disas_base ctx + ul_base_vaddr (ulexec ctx)"
  note reach = assms(4) [unfolded text_in_reach_def Let_def]
  have site: "\<exists>off < n. fst i + ?base = ?a + of_nat off" if i: "i \<in> set insns" "is_rel_call i" for i
  proof -
    obtain off where "fst i = disas_base ctx + of_nat off" "off + length (snd i) \<le> n"
      using laid_out_offset [OF assms(5) i(1)] assms(6) by auto
    moreover have "length (snd i) = 5" using i(2) by (simp add: is_rel_call_def)
    ultimately show ?thesis by (intro exI [of _ off]) simp
  qed
  have small: "unat (?a + of_nat off) + 8197 \<le> 2 ^ 64" if "off < n" for off
  proof -
    have "unat (?a + of_nat off) = unat ?a + off" using reach that by (intro unat_add_small) linarith
    then show ?thesis using reach that by linarith
  qed
  have "sorted_wrt (\<lambda>b c. separate (site_addr ?base b) 5 (site_addr ?base c) 5)
      (map (site_of_call obj) (filter is_rel_call insns))"
    using reach assms(5,6) by (intro sites_separate) auto
  moreover have "(\<exists>pr. shiva_maps_prot_by_addr ctx' (fst i + ?base) = Some (Some pr)) \<and>
      unat (fst i + ?base) + 8197 \<le> 2 ^ 64 \<and>
      - (2 ^ 31) \<le> sint (self - (fst i + ?base) - 5) \<and> sint (self - (fst i + ?base) - 5) < 2 ^ 31"
    if "i \<in> set insns" "is_rel_call i" for i
    using site [OF that] reach small assms(7) by (metis shiva_maps_prot_by_addr_find)
  note each = this
  have "(\<exists>pr. shiva_maps_prot_by_addr ctx' (site_addr ?base b) = Some (Some pr)) \<and>
      unat (site_addr ?base b) + 8197 \<le> 2 ^ 64 \<and>
      - (2 ^ 31) \<le> sint (self - site_addr ?base b - 5) \<and> sint (self - site_addr ?base b - 5) < 2 ^ 31"
    if b: "b \<in> set (map (site_of_call obj) (filter is_rel_call insns))" for b
  proof -
    obtain i where i: "b = site_of_call obj i" "i \<in> set insns" "is_rel_call i" using b by auto
    show ?thesis using each [OF i(2,3)] unfolding i(1) site_addr_def site_of_call_fields .
  qed
  ultimately show ?thesis
    using assms(1-3) unfolding traceable_def Let_def assms(8,9) by blast
qed

text \<open>C1. The analyzer and the tracing module together: after the analysis of a 64-bit program, whose text
  is mapped and in reach of the handler, the module succeeds and every five-byte \<open>E8\<close> call of the
  linear sweep calls the handler, which gets one breakpoint per call, in order; not a byte outside
  these calls has changed.\<close>

theorem traced_program_calls_handler:
  assumes "malloc_ok os" and "mprotect_ok os" and "attachable os"
    and "elf_section_by_name (ctx_elfobj (p_ctx p)) ''.text'' = Some sec" and "elf_class64 (ctx_elfobj (p_ctx p))"
    and "text = read_bytes (p_mem p) (disas_textptr (p_ctx p)) (unat (sec_size sec))"
    and "text_in_reach self (p_ctx p) (length text)" and "branch_tqlist (p_ctx p) = []"
    and "\<forall>h \<in> set (trace_handlers_tqlist (p_ctx p)). handler_fn h \<noteq> self"
    and "base = ul_base_vaddr (ulexec (p_ctx p))"
  shows "\<exists>insns p1 p2 bps.
     shiva_analyze_run udis86_tables udis86_mnemonics_str junk stdin os p = Some (True, p1) \<and>
     shakti_main True sn res0 os status self p1 = Some (0, p2) \<and>
     linear_sweep udis86_tables udis86_mnemonics_str junk (disas_base (p_ctx p))
       (sweep_ud stdin text (length text) 64) insns \<and> concat (map snd insns) = text \<and>
     (\<forall>i \<in> set insns. is_rel_call i \<longrightarrow>
        p_mem p2 (fst i + base) = 0xe8 \<and> call_dest (p_mem p2) (fst i + base) = self) \<and>
     trace_handlers_tqlist (p_ctx p2) = trace_handlers_tqlist (p_ctx p) @
       [\<lparr>h_type = SHIVA_TRACE_BP_CALL, handler_fn = self, bp_tqlist = bps\<rparr>] \<and>
     map bp_call bps = map (\<lambda>i. hooked_call (p_mem p) (fst i + base)) (filter is_rel_call insns) \<and>
     (\<forall>x. (\<forall>i \<in> set insns. is_rel_call i \<longrightarrow> \<not> in_region (fst i + base) 5 x) \<longrightarrow> p_mem p2 x = p_mem p x)"
proof -
  let ?sites = "\<lambda>insns. map (site_of_call (ctx_elfobj (p_ctx p))) (filter is_rel_call insns)"
  obtain insns p1 where a: "shiva_analyze_run udis86_tables udis86_mnemonics_str junk stdin os p = Some (True, p1)"
      "linear_sweep udis86_tables udis86_mnemonics_str junk (disas_base (p_ctx p))
         (sweep_ud stdin text (length text) 64) insns"
      "concat (map snd insns) = text" "p_ctx p1 = (p_ctx p)\<lparr>branch_tqlist := branch_tqlist (p_ctx p) @ ?sites insns\<rparr>"
      "p_mem p1 = p_mem p"
    using udis86.analyze_sweeps [OF assms(1,4,5,6), of udis86_mnemonics_str junk stdin] by blast
  have laid: "laid_out (disas_base (p_ctx p)) insns"
    using udis86.sweep_laid_out [OF a(2)] sweep_ud_inv(1) by blast
  have sites: "?sites insns = filter (\<lambda>b. branch_type b = SHIVA_BRANCH_CALL) (branch_tqlist (p_ctx p1))"
    by (simp add: a(4) assms(8) filter_map o_def)
  have tr: "traceable os self (p_ctx p1) (?sites insns)"
    using a(3) by (intro traceable_sites [OF assms(1,2,9,7) laid]) (simp_all add: a(4))
  obtain q where att: "shiva_trace os res0 status 0 SHIVA_TRACE_OP_ATTACH 0 [] 0 p1 = Some (True, None, q)"
    using attach_ok [OF assms(1,3)] by blast
  have base: "base = ul_base_vaddr (ulexec (p_ctx p1))" by (simp add: a(4) assms(10))
  obtain p2 bps where run: "shakti_main True sn res0 os status self p1 = Some (0, p2)"
    and hs: "trace_handlers_tqlist (p_ctx p2) = trace_handlers_tqlist (p_ctx p1) @
       [\<lparr>h_type = SHIVA_TRACE_BP_CALL, handler_fn = self, bp_tqlist = bps\<rparr>]"
    and bps: "map bp_call bps = map (\<lambda>b. hooked_call (p_mem p1) (site_addr base b)) (?sites insns)"
    and calls: "\<forall>b \<in> set (?sites insns). p_mem p2 (site_addr base b) = 0xe8 \<and> call_dest (p_mem p2) (site_addr base b) = self"
    and rest: "\<forall>x. (\<forall>b \<in> set (?sites insns). \<not> in_region (site_addr base b) 5 x) \<longrightarrow> p_mem p2 x = p_mem p1 x"
    using shakti_main_run [OF att sites tr base, of sn] by blast
  have "\<forall>i \<in> set insns. is_rel_call i \<longrightarrow> p_mem p2 (fst i + base) = 0xe8 \<and> call_dest (p_mem p2) (fst i + base) = self"
    using calls by (auto simp: site_addr_def)
  moreover have "map bp_call bps = map (\<lambda>i. hooked_call (p_mem p) (fst i + base)) (filter is_rel_call insns)"
    using bps a(5) by (simp add: site_addr_def)
  moreover have "\<forall>x. (\<forall>i \<in> set insns. is_rel_call i \<longrightarrow> \<not> in_region (fst i + base) 5 x) \<longrightarrow> p_mem p2 x = p_mem p x"
  proof (intro allI impI)
    fix x assume x: "\<forall>i \<in> set insns. is_rel_call i \<longrightarrow> \<not> in_region (fst i + base) 5 x"
    have "\<not> in_region (site_addr base b) 5 x" if "b \<in> set (?sites insns)" for b
    proof -
      obtain i where "b = site_of_call (ctx_elfobj (p_ctx p)) i" "i \<in> set insns" "is_rel_call i" using \<open>b \<in> _\<close> by auto
      then show ?thesis using x by (simp only: site_addr_def site_of_call_fields) blast
    qed
    then show "p_mem p2 x = p_mem p x" using rest a(5) by metis
  qed
  moreover have "trace_handlers_tqlist (p_ctx p2) = trace_handlers_tqlist (p_ctx p) @
       [\<lparr>h_type = SHIVA_TRACE_BP_CALL, handler_fn = self, bp_tqlist = bps\<rparr>]"
    using hs by (simp add: a(4))
  ultimately show ?thesis using a(1-3) run
    by (intro exI [of _ insns] exI [of _ p1] exI [of _ p2] exI [of _ bps] conjI)
qed

text \<open>The process with two calls, before its analysis.\<close>

definition example_program :: proc where
  "example_program = example_calls\<lparr>p_ctx := (p_ctx example_calls)\<lparr>branch_tqlist := [],
     disas_textptr := 0x40001000, disas_base := 0x1000,
     ctx_elfobj := null_elfobj\<lparr>elf_class64 := True,
       elf_section_by_name := (\<lambda>_. Some \<lparr>sec_name = ''.text'', sec_flags = 0, sec_size = 10, sec_offset = 0,
         sec_address = 0x1000, sec_entsize = 0\<rparr>)\<rparr>\<rparr>\<rparr>"

lemma example_attachable: "malloc_ok example_os" "attachable example_os"
proof -
  have "fgets_all (''Name: a'' @ [newline]) = [''Name: a'' @ [newline]]"
    using fgets_all_lines [of "[''Name: a'']"] by (simp add: newline_def PATH_MAX_def)
  then show "attachable example_os" by (simp add: attachable_def example_os_def)
  show "malloc_ok example_os" by (simp add: malloc_ok_def example_os_def)
qed

lemma example_in_reach: "text_in_reach 0x50000000 (p_ctx example_program) 10"
proof -
  have "shiva_maps_prot_by_addr (p_ctx example_program) (0x40001000 + of_nat i) = Some (Some 5) \<and>
      - (2 ^ 31) \<le> sint (0x50000000 - (0x40001000 + of_nat i) - 5 :: u64) \<and>
      sint (0x50000000 - (0x40001000 + of_nat i) - 5 :: u64) < 2 ^ 31" if "i < 10" for i :: nat
  proof -
    have "i \<in> {0, 1, 2, 3, 4, 5, 6, 7, 8, 9}" using that by auto
    then show ?thesis
      by (auto simp: shiva_maps_prot_by_addr_find example_program_def example_calls_def addr_in_entry_def)
  qed
  then show ?thesis
    by (simp add: text_in_reach_def Let_def) (simp add: example_program_def example_calls_def)
qed

theorem traced_program_calls_handler_witness:
  "\<exists>insns p1 p2 (bps :: shiva_trace_bp list).
     shiva_analyze_run udis86_tables udis86_mnemonics_str (\<lambda>_. 0) [] example_os example_program = Some (True, p1) \<and>
     shakti_main True False False example_os 0 0x50000000 p1 = Some (0, p2) \<and>
     concat (map snd insns) = [0xe8, 0xfb, 0x0f, 0, 0, 0xe8, 0xf6, 0x1f, 0, 0] \<and>
     map bp_addr bps = map (\<lambda>i. fst i + 0x40000000) (filter is_rel_call insns)"
proof -
  let ?text = "[0xe8, 0xfb, 0x0f, 0, 0, 0xe8, 0xf6, 0x1f, 0, 0] :: u8 list"
  have bytes: "?text = read_bytes (p_mem example_program) (disas_textptr (p_ctx example_program)) 10"
    by (simp add: example_program_def example_calls_def read_write_bytes)
  have facts: "branch_tqlist (p_ctx example_program) = []" "trace_handlers_tqlist (p_ctx example_program) = []"
      "ul_base_vaddr (ulexec (p_ctx example_program)) = 0x40000000" "elf_class64 (ctx_elfobj (p_ctx example_program))"
      "elf_section_by_name (ctx_elfobj (p_ctx example_program)) ''.text'' =
         Some \<lparr>sec_name = ''.text'', sec_flags = 0, sec_size = 10, sec_offset = 0, sec_address = 0x1000, sec_entsize = 0\<rparr>"
    by (simp_all add: example_program_def example_calls_def zero_ctx_def)
  have nat: "length ?text = 10" "unat (sec_size \<lparr>sec_name = ''.text'', sec_flags = 0, sec_size = 10,
      sec_offset = 0, sec_address = 0x1000, sec_entsize = 0\<rparr>) = 10"
    by simp_all
  have none: "\<forall>h \<in> set ([] :: shiva_trace_handler list). handler_fn h \<noteq> 0x50000000" by simp
  note run = traced_program_calls_handler [OF example_attachable(1) example_mprotect_ok example_attachable(2) facts(5,4),
      of ?text "0x50000000" "0x40000000" "\<lambda>_. 0" "[]" False False 0, unfolded nat facts(2,3), OF bytes example_in_reach
      facts(1) none refl]
  obtain insns p1 p2 bps where
    "shiva_analyze_run udis86_tables udis86_mnemonics_str (\<lambda>_. 0) [] example_os example_program = Some (True, p1)"
    "shakti_main True False False example_os 0 0x50000000 p1 = Some (0, p2)" "concat (map snd insns) = ?text"
    and calls: "map bp_call bps = map (\<lambda>i. hooked_call (p_mem example_program) (fst i + 0x40000000)) (filter is_rel_call insns)"
    using run by (elim exE conjE) (rule that, assumption+)
  moreover have "map bp_addr bps = map (\<lambda>i. fst i + 0x40000000) (filter is_rel_call insns)"
    using arg_cong [OF calls, of "map (\<lambda>c. fst (snd c))"] by (simp add: bp_call_def hooked_call_def o_def)
  ultimately show ?thesis by blast
qed

end
