(* ===== verification/Hook_Modules.thy ===== *)
theory Hook_Modules
  imports Func_Tracer
begin

text \<open>
  The example modules that hook one function, \<^verbatim>\<open>trampoline.c\<close>, \<^verbatim>\<open>crackme_bypass.c\<close>,
  \<^verbatim>\<open>ssh-backdoor.c\<close>, \<^verbatim>\<open>int3_bp.c\<close>, \<^verbatim>\<open>sigill_bp.c\<close>, \<^verbatim>\<open>pltgot_hook.c\<close>, \<^verbatim>\<open>command_inject.c\<close>, and the
  one that hooks every function of the procedure linkage table, \<^verbatim>\<open>plt_cfi.c\<close> (all in
  \<^verbatim>\<open>modules/examples\<close>): what they do when they are started and when a hooked function is called. The
  address of the handler, the uninitialised variables of the API and the code of the hooked function
  are arguments; messages are left out.
\<close>

section \<open>Starting a module\<close>

text \<open>All modules attach, register their handler and place breakpoints.\<close>

definition hook_start :: "os \<Rightarrow> bool \<Rightarrow> u64 \<Rightarrow> u64 \<Rightarrow> shiva_trace_bp_type \<Rightarrow> proc \<Rightarrow> (bool \<times> proc) option" where
  "hook_start os res0 status self ty p =
     do {
       (ok, _, p) \<leftarrow> shiva_trace os res0 status 0 SHIVA_TRACE_OP_ATTACH 0 [] 0 p;
       if \<not> ok then Some (False, p)
       else (case shiva_trace_register_handler os self ty p of (err, p) \<Rightarrow> Some (err = None, p))
     }"

definition hook_symbol :: "bool \<Rightarrow> bool \<Rightarrow> bool \<Rightarrow> os \<Rightarrow> u64 \<Rightarrow> u64 \<Rightarrow> shiva_trace_bp_type \<Rightarrow> string \<Rightarrow> proc \<Rightarrow> (int \<times> proc) option" where
  "hook_symbol standalone symnull res0 os status self ty name p =
     do {
       (ok, p) \<leftarrow> hook_start os res0 status self ty p;
       if \<not> ok then Some (-1, p)
       else (case elf_symbol_by_name (ctx_elfobj (p_ctx p)) name of
               None \<Rightarrow> Some (-1, p)
             | Some symbol \<Rightarrow> do {
                 (err, p) \<leftarrow> shiva_trace_set_breakpoint standalone symnull os self
                    (sym_value symbol + ul_base_vaddr (ulexec (p_ctx p))) [] p;
                 Some (if err = None then 0 else -1, p)
               })
     }"

definition hook_plt :: "bool \<Rightarrow> bool \<Rightarrow> bool \<Rightarrow> os \<Rightarrow> u64 \<Rightarrow> u64 \<Rightarrow> string \<Rightarrow> proc \<Rightarrow> (int \<times> proc) option" where
  "hook_plt standalone symnull res0 os status self name p =
     do {
       (ok, p) \<leftarrow> hook_start os res0 status self SHIVA_TRACE_BP_PLTGOT p;
       if \<not> ok then Some (-1, p)
       else do {
         (err, p) \<leftarrow> shiva_trace_set_breakpoint standalone symnull os self 0 name p;
         Some (if err = None then 0 else -1, p)
       }
     }"

definition trampoline_main :: "bool \<Rightarrow> bool \<Rightarrow> bool \<Rightarrow> os \<Rightarrow> u64 \<Rightarrow> u64 \<Rightarrow> proc \<Rightarrow> (int \<times> proc) option" where
  "trampoline_main standalone symnull res0 os status self =
     hook_symbol standalone symnull res0 os status self SHIVA_TRACE_BP_TRAMPOLINE ''print_string''"

definition crackme_main :: "bool \<Rightarrow> bool \<Rightarrow> bool \<Rightarrow> os \<Rightarrow> u64 \<Rightarrow> u64 \<Rightarrow> proc \<Rightarrow> (int \<times> proc) option" where
  "crackme_main standalone symnull res0 os status self =
     hook_symbol standalone symnull res0 os status self SHIVA_TRACE_BP_TRAMPOLINE ''check_serial''"

definition ssh_main :: "bool \<Rightarrow> bool \<Rightarrow> bool \<Rightarrow> os \<Rightarrow> u64 \<Rightarrow> u64 \<Rightarrow> proc \<Rightarrow> (int \<times> proc) option" where
  "ssh_main standalone symnull res0 os status self =
     hook_symbol standalone symnull res0 os status self SHIVA_TRACE_BP_TRAMPOLINE ''auth_password''"

definition int3_main :: "bool \<Rightarrow> bool \<Rightarrow> bool \<Rightarrow> os \<Rightarrow> u64 \<Rightarrow> u64 \<Rightarrow> proc \<Rightarrow> (int \<times> proc) option" where
  "int3_main standalone symnull res0 os status self =
     hook_symbol standalone symnull res0 os status self SHIVA_TRACE_BP_INT3 ''main''"

definition sigill_main :: "bool \<Rightarrow> bool \<Rightarrow> bool \<Rightarrow> os \<Rightarrow> u64 \<Rightarrow> u64 \<Rightarrow> proc \<Rightarrow> (int \<times> proc) option" where
  "sigill_main standalone symnull res0 os status self =
     hook_symbol standalone symnull res0 os status self SHIVA_TRACE_BP_SIGILL ''main''"

definition pltgot_main :: "bool \<Rightarrow> bool \<Rightarrow> bool \<Rightarrow> os \<Rightarrow> u64 \<Rightarrow> u64 \<Rightarrow> proc \<Rightarrow> (int \<times> proc) option" where
  "pltgot_main standalone symnull res0 os status self =
     hook_plt standalone symnull res0 os status self ''puts''"

definition inject_main :: "bool \<Rightarrow> bool \<Rightarrow> bool \<Rightarrow> os \<Rightarrow> u64 \<Rightarrow> u64 \<Rightarrow> proc \<Rightarrow> (int \<times> proc) option" where
  "inject_main standalone symnull res0 os status self =
     hook_plt standalone symnull res0 os status self ''system''"

text \<open>\<open>plt_cfi.c\<close> hooks every entry of the table but the first.\<close>

fun cfi_loop :: "bool \<Rightarrow> bool \<Rightarrow> os \<Rightarrow> u64 \<Rightarrow> elf_plt list \<Rightarrow> proc \<Rightarrow> (int \<times> proc) option" where
  "cfi_loop standalone symnull os self [] p = Some (0, p)"
| "cfi_loop standalone symnull os self (e # es) p =
     (if plt_symname e = ''PLT-0'' then cfi_loop standalone symnull os self es p
      else do {
        (err, p) \<leftarrow> shiva_trace_set_breakpoint standalone symnull os self 0 (plt_symname e) p;
        if err \<noteq> None then Some (-1, p) else cfi_loop standalone symnull os self es p
      })"

definition cfi_main :: "bool \<Rightarrow> bool \<Rightarrow> bool \<Rightarrow> os \<Rightarrow> u64 \<Rightarrow> u64 \<Rightarrow> proc \<Rightarrow> (int \<times> proc) option" where
  "cfi_main standalone symnull res0 os status self p =
     do {
       (ok, p) \<leftarrow> hook_start os res0 status self SHIVA_TRACE_BP_PLTGOT p;
       if \<not> ok then Some (-1, p)
       else cfi_loop standalone symnull os self (elf_plts (ctx_elfobj (p_ctx p))) p
     }"

section \<open>Handlers of trampolines\<close>

text \<open>A handler exits or returns to the caller of the hooked function.\<close>

datatype 'r hook_result = Hook_exits | Hook_returns 'r

definition bp_symbol_value :: "shiva_trace_bp \<Rightarrow> u64" where
  "bp_symbol_value bp = (case bp_symbol bp of None \<Rightarrow> 0 | Some s \<Rightarrow> sym_value s)"

text \<open>The start of a handler, up to the call of the original function: its breakpoint is found and the
  code of the function put back. The end of a handler installs the trampoline again. The inner
  \<open>None\<close> is \<open>exit(-1)\<close>.\<close>

definition hook_enter :: "os \<Rightarrow> u64 \<Rightarrow> u64 \<Rightarrow> proc \<Rightarrow> ((shiva_trace_bp \<times> u64) option \<times> proc) option" where
  "hook_enter os self retaddr p =
     (case shiva_trace_find_handler (p_ctx p) self of
        None \<Rightarrow> Some (None, p)
      | Some handler \<Rightarrow> do {
          bp \<leftarrow> SHIVA_TRACE_BP_STRUCT retaddr handler;
          let vaddr = bp_symbol_value bp + ul_base_vaddr (ulexec (p_ctx p));
          (err, p) \<leftarrow> shiva_trace_write os vaddr (take (unat (bp_len bp)) (o_insn (bp_insn bp))) p;
          Some (if err = None then Some (bp, vaddr) else None, p)
        })"

definition hook_leave :: "os \<Rightarrow> shiva_trace_bp \<Rightarrow> u64 \<Rightarrow> 'r \<Rightarrow> proc \<Rightarrow> ('r hook_result \<times> proc) option" where
  "hook_leave os bp vaddr r p =
     do {
       (err, p) \<leftarrow> shiva_trace_write os vaddr (take (unat (bp_len bp)) (n_insn (bp_insn bp))) p;
       Some (if err = None then Hook_returns r else Hook_exits, p)
     }"

text \<open>\<open>call\<close> is the code of the hooked function, from its address and argument.\<close>

definition my_print_string :: "os \<Rightarrow> u64 \<Rightarrow> u64 \<Rightarrow> (u64 \<Rightarrow> string \<Rightarrow> proc \<Rightarrow> proc option) \<Rightarrow> string \<Rightarrow> proc \<Rightarrow>
    (unit hook_result \<times> proc) option" where
  "my_print_string os self retaddr call s p =
     do {
       let buf = snprintf_text 256 (''Hijacked string: '' @ s);
       (entered, p) \<leftarrow> hook_enter os self retaddr p;
       case entered of
         None \<Rightarrow> Some (Hook_exits, p)
       | Some (bp, vaddr) \<Rightarrow> do {
           p \<leftarrow> call vaddr buf p;
           hook_leave os bp vaddr () p
         }
     }"

definition my_check_serial :: "string \<Rightarrow> int" where
  "my_check_serial s = 1"

definition SECRET_PASSWORD :: string where
  "SECRET_PASSWORD = ''w0rkseverytime''"

text \<open>\<open>logfd\<close> is whether the log could be opened; the returned text is what the log receives.\<close>

definition my_auth_password :: "os \<Rightarrow> u64 \<Rightarrow> u64 \<Rightarrow> (u64 \<Rightarrow> string \<Rightarrow> proc \<Rightarrow> (int \<times> proc) option) \<Rightarrow> bool \<Rightarrow> string \<Rightarrow>
    string \<Rightarrow> proc \<Rightarrow> (int hook_result \<times> string \<times> proc) option" where
  "my_auth_password os self retaddr call logfd pw_name password p =
     do {
       (entered, p) \<leftarrow> hook_enter os self retaddr p;
       case entered of
         None \<Rightarrow> Some (Hook_exits, [], p)
       | Some (bp, vaddr) \<Rightarrow>
           if \<not> logfd then Some (Hook_exits, [], p)
           else do {
             (ret, p) \<leftarrow> call vaddr password p;
             let log = (if ret = 1 then ''Successful SSH login'' @ newline # ''Username: '' @ pw_name @ newline #
                          ''Password: '' @ password @ [newline] else []);
             (res, p) \<leftarrow> hook_leave os bp vaddr (if password = SECRET_PASSWORD then 1 else ret) p;
             Some (res, log, p)
           }
     }"

section \<open>Handlers of GOT hooks\<close>

text \<open>The string passed on to \<open>puts\<close>, and \<open>system\<close> on a command without separators.\<close>

definition n_puts :: "string \<Rightarrow> string" where
  "n_puts s = snprintf_text PATH_MAX (''hijacked your string: '' @ CHR 0x27 # s @ [CHR 0x27])"

definition n_system :: "(string \<Rightarrow> 'r) \<Rightarrow> string \<Rightarrow> 'r hook_result" where
  "n_system system s =
     (if strstr s '';'' \<noteq> None \<or> strstr s ''|'' \<noteq> None then Hook_exits else Hook_returns (system s))"

text \<open>The loops of \<open>plt_handler\<close>: the address of the function to call. The outer \<open>None\<close> is a lookup of
  the null name.\<close>

fun cfi_target :: "shiva_ctx \<Rightarrow> u64 \<Rightarrow> shiva_trace_bp list \<Rightarrow> u64 option option" where
  "cfi_target ctx ret [] = Some None"
| "cfi_target ctx ret (bp # bps) =
     (if bp_type bp = SHIVA_TRACE_BP_PLTGOT \<and> ret \<in> set (retaddr_list bp) then do {
        s \<leftarrow> bp_symbol bp;
        case elf_symbol_by_name (ctx_shiva_elfobj ctx) (sym_name s) of
          Some symbol \<Rightarrow>
            Some (Some (if ctx_shiva_base ctx = 0x400000 then sym_value symbol
                        else sym_value symbol + ctx_shiva_base ctx))
        | None \<Rightarrow> cfi_target ctx ret bps
      }
      else cfi_target ctx ret bps)"

definition plt_handler :: "u64 \<Rightarrow> shiva_ctx \<Rightarrow> u64 \<Rightarrow> shiva_trace_regset_x86_64 \<Rightarrow> u64 \<Rightarrow> u64 \<Rightarrow> mem \<Rightarrow>
    (handler_outcome \<times> mem) option" where
  "plt_handler self ctx regs r arg retaddr m =
     (let m = shiva_trace_getregs_x86_64 (r\<lparr>r_rdi := regs\<rparr>) m;
          m = store64 m (regs + RIP_OFF) (retaddr - 5);
          m = store64 m (regs + RDI_OFF) arg
      in case shiva_trace_find_handler ctx self of
           None \<Rightarrow> Some (Handler_exits, m)
         | Some handler \<Rightarrow> do {
             target \<leftarrow> cfi_target ctx retaddr (bp_tqlist handler);
             Some (case target of
                     None \<Rightarrow> Handler_exits
                   | Some fp \<Rightarrow> Handler_calls
                       \<lparr>oc_function = fp,
                        oc_args = map (\<lambda>off. load64 m (regs + off)) [RDI_OFF, RSI_OFF, 24, 16]\<rparr>, m)
           })"

section \<open>The handler of a breakpoint instruction\<close>

text \<open>The jump out of a signal handler. The assembly does not say which registers it changes: \<open>rip_reg\<close>
  is the one the compiler keeps the target in (not \<open>rdx\<close>, which holds the pointer), \<open>r\<close> the registers
  when the loads begin. \<open>rbp\<close> is not loaded.\<close>

definition SHIVA_TRACE_LONGJMP_RETURN :: "(shiva_trace_regset_x86_64 \<Rightarrow> u64) \<Rightarrow> u64 \<Rightarrow> mem \<Rightarrow>
    shiva_trace_regset_x86_64 \<Rightarrow> shiva_trace_regset_x86_64" where
  "SHIVA_TRACE_LONGJMP_RETURN rip_reg regptr m r =
     (let r1 = r\<lparr>r_rdx := regptr, r_r8 := load64 m regptr, r_r9 := load64 m (regptr + 8),
                r_r10 := load64 m (regptr + 16), r_r11 := load64 m (regptr + 24),
                r_r12 := load64 m (regptr + 32), r_r13 := load64 m (regptr + 40),
                r_r14 := load64 m (regptr + 48), r_r15 := load64 m (regptr + 56),
                r_rdi := load64 m (regptr + 64), r_rsi := load64 m (regptr + 72),
                r_rbx := load64 m (regptr + 88), r_rax := load64 m (regptr + 104),
                r_rcx := load64 m (regptr + 112), r_rsp := load64 m (regptr + 120)\<rparr>
      in r1\<lparr>r_rip := rip_reg r1\<rparr>)"

definition REG_RIP :: nat where "REG_RIP = 16"

text \<open>\<open>gregs\<close> is the address of the registers in the signal context. Without registers the handler
  returns to the kernel.\<close>

definition int3_bp_handler :: "os \<Rightarrow> (shiva_trace_regset_x86_64 \<Rightarrow> u64) \<Rightarrow> u64 \<Rightarrow> shiva_trace_regset_x86_64 \<Rightarrow>
    proc \<Rightarrow> (shiva_trace_regset_x86_64 option \<times> proc) option" where
  "int3_bp_handler os rip_reg gregs r p =
     do {
       let rip = load64 (p_mem p) (gregs + 8 * of_nat REG_RIP) - 1;
       (err, p) \<leftarrow> shiva_trace_write os rip [0x55] p;
       Some (if err = None then Some (SHIVA_TRACE_LONGJMP_RETURN rip_reg gregs (p_mem p) r) else None, p)
     }"

end
