(* ===== verification/Hooked_Functions.thy ===== *)
theory Hooked_Functions
  imports Hook_Modules
begin

text \<open>
  What the modules with trampolines and breakpoint instructions achieve: the handler of a trampoline
  calls the original function in its original code and leaves the trampoline behind; the handler of a
  breakpoint instruction puts back a fixed byte.
\<close>

section \<open>Placing the hook\<close>

text \<open>A function at \<open>a\<close> can be hooked: system calls succeed, the handler is not registered yet, the
  address is mapped.\<close>

definition hookable :: "os \<Rightarrow> u64 \<Rightarrow> u64 \<Rightarrow> shiva_ctx \<Rightarrow> bool" where
  "hookable os self a ctx \<longleftrightarrow>
     malloc_ok os \<and> mprotect_ok os \<and> (\<forall>h \<in> set (trace_handlers_tqlist ctx). handler_fn h \<noteq> self) \<and>
     (\<exists>pr. shiva_maps_prot_by_addr ctx a = Some (Some pr)) \<and> unat a + 8204 \<le> 2 ^ 64"

lemma hook_start_run:
  assumes "shiva_trace os res0 status 0 SHIVA_TRACE_OP_ATTACH 0 [] 0 p = Some (True, x, p1)"
    and "hookable os self a (p_ctx p)" and "n \<le> 12"
  obtains ts p2 where "hook_start os res0 status self ty p = Some (True, p2)" "p_mem p2 = p_mem p"
    "p_ctx p2 = (p_ctx p)\<lparr>thread_tqlist := ts, trace_handlers_tqlist := trace_handlers_tqlist (p_ctx p) @
       [\<lparr>h_type = ty, handler_fn = self, bp_tqlist = []\<rparr>]\<rparr>"
    "bp_ready os (length (trace_handlers_tqlist (p_ctx p))) ty self a n p2"
proof -
  obtain ts p2 where p2: "shiva_trace_register_handler os self ty p1 = (None, p2)" "p_mem p2 = p_mem p"
    "p_ctx p2 = (p_ctx p)\<lparr>thread_tqlist := ts, trace_handlers_tqlist := trace_handlers_tqlist (p_ctx p) @
       [\<lparr>h_type = ty, handler_fn = self, bp_tqlist = []\<rparr>]\<rparr>"
    using attach_register [OF assms(1), of self ty] assms(2) unfolding hookable_def by metis
  moreover have "bp_ready os (length (trace_handlers_tqlist (p_ctx p))) ty self a n p2"
    using assms(2,3) p2(3)
    by (auto simp: hookable_def bp_ready_def shiva_maps_prot_by_addr_find nth_append)
  ultimately show thesis using assms(1) by (intro that) (simp_all add: hook_start_def)
qed

section \<open>Trampolines\<close>

lemma mapped_write:
  assumes "shiva_maps_prot_by_addr (p_ctx p) a = Some (Some pr)" and "mprotect_ok os"
    and "unat a + 8204 \<le> 2 ^ 64" and "length bs \<le> 12"
  obtains p' where "shiva_trace_write os a bs p = Some (None, p')" "p_mem p' = write_bytes (p_mem p) a bs"
    "p_ctx p' = p_ctx p"
proof -
  obtain x l where "write_range a (of_nat (length bs)) = (x, l)" by fastforce
  from trace_write_run [OF assms(1,2) _ this] assms(3,4) that show thesis by simp
qed

text \<open>The breakpoint of a trampoline at \<open>a\<close> that replaced the bytes \<open>old\<close>.\<close>

definition tramp_bp :: "shiva_ctx \<Rightarrow> u64 \<Rightarrow> u64 \<Rightarrow> u8 list \<Rightarrow> shiva_trace_bp \<Rightarrow> bool" where
  "tramp_bp ctx self a old bp \<longleftrightarrow>
     bp_type bp = SHIVA_TRACE_BP_TRAMPOLINE \<and> bp_len bp = 12 \<and> length old = 12 \<and>
     o_insn (bp_insn bp) = pad_insn old \<and> n_insn (bp_insn bp) = pad_insn (tramp_inst self) \<and>
     bp_symbol_value bp + ul_base_vaddr (ulexec ctx) = a"

lemma tramp_bp_code:
  assumes "tramp_bp ctx self a old bp"
  shows "take (unat (bp_len bp)) (o_insn (bp_insn bp)) = old"
    "take (unat (bp_len bp)) (n_insn (bp_insn bp)) = tramp_inst self"
  using assms by (simp_all add: tramp_bp_def pad_insn_def)

lemma hook_enter_run:
  assumes "shiva_trace_find_handler (p_ctx q) self = Some h" and "bp_tqlist h = [bp]"
    and "tramp_bp (p_ctx q) self a old bp" and "shiva_maps_prot_by_addr (p_ctx q) a = Some (Some pr)"
    and "mprotect_ok os" and "unat a + 8204 \<le> 2 ^ 64"
  obtains q1 where "hook_enter os self ret q = Some (Some (bp, a), q1)" "p_mem q1 = write_bytes (p_mem q) a old"
    "p_ctx q1 = p_ctx q"
proof -
  have "length old \<le> 12" using assms(3) by (simp add: tramp_bp_def)
  then obtain q1 where q1: "shiva_trace_write os a old q = Some (None, q1)" "p_mem q1 = write_bytes (p_mem q) a old"
      "p_ctx q1 = p_ctx q"
    by (rule mapped_write [OF assms(4-6)])
  have "bp_symbol_value bp + ul_base_vaddr (ulexec (p_ctx q)) = a" "bp_type bp = SHIVA_TRACE_BP_TRAMPOLINE"
    using assms(3) by (simp_all add: tramp_bp_def)
  then have "hook_enter os self ret q = Some (Some (bp, a), q1)"
    using assms(1,2) q1(1) by (simp add: hook_enter_def SHIVA_TRACE_BP_STRUCT_def tramp_bp_code [OF assms(3)])
  then show thesis using q1 by (intro that)
qed

lemma hook_leave_run:
  assumes "tramp_bp ctx self a old bp" and "shiva_maps_prot_by_addr (p_ctx q) a = Some (Some pr)"
    and "mprotect_ok os" and "unat a + 8204 \<le> 2 ^ 64"
  obtains q1 where "hook_leave os bp a r q = Some (Hook_returns r, q1)"
    "p_mem q1 = write_bytes (p_mem q) a (tramp_inst self)" "p_ctx q1 = p_ctx q"
proof -
  have "length (tramp_inst self) \<le> 12" by simp
  then obtain q1 where "shiva_trace_write os a (tramp_inst self) q = Some (None, q1)"
      "p_mem q1 = write_bytes (p_mem q) a (tramp_inst self)" "p_ctx q1 = p_ctx q"
    by (rule mapped_write [OF assms(2-4)])
  then show thesis using that [of q1] by (simp add: hook_leave_def tramp_bp_code [OF assms(1)])
qed

text \<open>The start of a module with a trampoline.\<close>

lemma hook_trampoline_run:
  assumes "shiva_trace os res0 status 0 SHIVA_TRACE_OP_ATTACH 0 [] 0 p = Some (True, x, p1)"
    and "elf_symbol_by_name (ctx_elfobj (p_ctx p)) name = Some s"
    and "elf_symbol_by_value_lookup (ctx_elfobj (p_ctx p)) (sym_value s) = Some s'" and "sym_value s' = sym_value s"
    and "a = sym_value s + ul_base_vaddr (ulexec (p_ctx p))" and "hookable os self a (p_ctx p)"
  obtains p' bp h pr where
    "hook_symbol sa sn res0 os status self SHIVA_TRACE_BP_TRAMPOLINE name p = Some (0, p')"
    "p_mem p' = write_bytes (p_mem p) a (tramp_inst self)"
    "shiva_trace_find_handler (p_ctx p') self = Some h" "bp_tqlist h = [bp]"
    "tramp_bp (p_ctx p') self a (read_bytes (p_mem p) a 12) bp"
    "shiva_maps_prot_by_addr (p_ctx p') a = Some (Some pr)"
proof -
  let ?hs = "trace_handlers_tqlist (p_ctx p)" and ?base = "ul_base_vaddr (ulexec (p_ctx p))"
  obtain ts p2 where p2: "hook_start os res0 status self SHIVA_TRACE_BP_TRAMPOLINE p = Some (True, p2)"
    "p_mem p2 = p_mem p"
    "p_ctx p2 = (p_ctx p)\<lparr>thread_tqlist := ts, trace_handlers_tqlist := ?hs @
       [\<lparr>h_type = SHIVA_TRACE_BP_TRAMPOLINE, handler_fn = self, bp_tqlist = []\<rparr>]\<rparr>"
    "bp_ready os (length ?hs) SHIVA_TRACE_BP_TRAMPOLINE self a 12 p2"
    by (rule hook_start_run [OF assms(1,6) order_refl])
  obtain p' bp where p': "shiva_trace_set_breakpoint sa sn os self a [] p2 = Some (None, p')"
    "p_mem p' = write_bytes (p_mem p2) a (tramp_inst self)"
    "p_ctx p' = (p_ctx p2)\<lparr>trace_handlers_tqlist := (trace_handlers_tqlist (p_ctx p2))
       [length ?hs := (trace_handlers_tqlist (p_ctx p2) ! length ?hs)\<lparr>bp_tqlist :=
          bp_tqlist (trace_handlers_tqlist (p_ctx p2) ! length ?hs) @ [bp]\<rparr>]\<rparr>"
    and bp: "bp_type bp = SHIVA_TRACE_BP_TRAMPOLINE" "bp_len bp = 12"
      "o_insn (bp_insn bp) = pad_insn (read_bytes (p_mem p2) a 12)" "n_insn (bp_insn bp) = pad_insn (tramp_inst self)"
      "bp_symbol bp = elf_symbol_by_value_lookup (ctx_elfobj (p_ctx p2)) (a - shiva_trace_base_addr (p_ctx p2))"
    by (rule trampoline_breakpoint_run [OF p2(4)])
  let ?h = "\<lparr>h_type = SHIVA_TRACE_BP_TRAMPOLINE, handler_fn = self, bp_tqlist = [bp]\<rparr>"
  have hs: "trace_handlers_tqlist (p_ctx p') = ?hs @ [?h]" by (simp add: p'(3) p2(3))
  have same: "mmap_tqlist (p_ctx p') = mmap_tqlist (p_ctx p)" "ulexec (p_ctx p') = ulexec (p_ctx p)"
    by (simp_all add: p'(3) p2(3))
  have "shiva_trace_find_handler (p_ctx p') self = Some ?h"
    using assms(6) find_after [of ?hs] hs by (simp add: hookable_def shiva_trace_find_handler_def)
  moreover have "tramp_bp (p_ctx p') self a (read_bytes (p_mem p) a 12) bp"
    using bp assms(3-5) by (simp add: tramp_bp_def same p2(2,3) shiva_trace_base_addr_def bp_symbol_value_def)
  moreover have "hook_symbol sa sn res0 os status self SHIVA_TRACE_BP_TRAMPOLINE name p = Some (0, p')"
    using p'(1) assms(2,5) by (simp add: hook_symbol_def p2(1) p2(3))
  moreover obtain pr where "shiva_maps_prot_by_addr (p_ctx p') a = Some (Some pr)"
    using assms(6) same(1) by (auto simp: hookable_def shiva_maps_prot_by_addr_find)
  ultimately show thesis using that [of p' ?h bp pr] p'(2) p2(2) by simp
qed

text \<open>C3. A function with a trampoline is replaced by the handler, and the handler calls the original:
  after the module has started the first twelve bytes of the function jump to the handler and nothing
  else changed; and whenever the handler runs, the function is called with the new string while its
  own code is back, and once it returns the trampoline is there again.\<close>

theorem trampoline_calls_original:
  assumes "shiva_trace os res0 status 0 SHIVA_TRACE_OP_ATTACH 0 [] 0 p = Some (True, x, p1)"
    and "elf_symbol_by_name (ctx_elfobj (p_ctx p)) ''print_string'' = Some s"
    and "elf_symbol_by_value_lookup (ctx_elfobj (p_ctx p)) (sym_value s) = Some s'" and "sym_value s' = sym_value s"
    and "a = sym_value s + ul_base_vaddr (ulexec (p_ctx p))" and "hookable os self a (p_ctx p)"
  shows "\<exists>p'. trampoline_main sa sn res0 os status self p = Some (0, p') \<and>
     p_mem p' = write_bytes (p_mem p) a (tramp_inst self) \<and>
     (\<forall>q ret str. p_ctx q = p_ctx p' \<longrightarrow>
        (\<exists>q1. p_mem q1 = write_bytes (p_mem q) a (read_bytes (p_mem p) a 12) \<and> p_ctx q1 = p_ctx p' \<and>
           (\<forall>call q2. call a (take 255 (''Hijacked string: '' @ str)) q1 = Some q2 \<longrightarrow> p_ctx q2 = p_ctx p' \<longrightarrow>
              (\<exists>q3. my_print_string os self ret call str q = Some (Hook_returns (), q3) \<and>
                 p_mem q3 = write_bytes (p_mem q2) a (tramp_inst self) \<and> p_ctx q3 = p_ctx p'))))"
proof -
  obtain p' bp h pr where p': "trampoline_main sa sn res0 os status self p = Some (0, p')"
      "p_mem p' = write_bytes (p_mem p) a (tramp_inst self)"
    and find: "shiva_trace_find_handler (p_ctx p') self = Some h" "bp_tqlist h = [bp]"
    and bp: "tramp_bp (p_ctx p') self a (read_bytes (p_mem p) a 12) bp"
    and map: "shiva_maps_prot_by_addr (p_ctx p') a = Some (Some pr)"
    using hook_trampoline_run [OF assms, of sa sn] unfolding trampoline_main_def by metis
  have os: "mprotect_ok os" "unat a + 8204 \<le> 2 ^ 64" using assms(6) by (simp_all add: hookable_def)
  have "\<exists>q1. p_mem q1 = write_bytes (p_mem q) a (read_bytes (p_mem p) a 12) \<and> p_ctx q1 = p_ctx p' \<and>
      (\<forall>call q2. call a (take 255 (''Hijacked string: '' @ str)) q1 = Some q2 \<longrightarrow> p_ctx q2 = p_ctx p' \<longrightarrow>
         (\<exists>q3. my_print_string os self ret call str q = Some (Hook_returns (), q3) \<and>
            p_mem q3 = write_bytes (p_mem q2) a (tramp_inst self) \<and> p_ctx q3 = p_ctx p'))"
    if q: "p_ctx q = p_ctx p'" for q ret str
  proof -
    obtain q1 where q1: "hook_enter os self ret q = Some (Some (bp, a), q1)"
        "p_mem q1 = write_bytes (p_mem q) a (read_bytes (p_mem p) a 12)" "p_ctx q1 = p_ctx p'"
      using hook_enter_run [of q self h bp a "read_bytes (p_mem p) a 12" pr os ret] find bp map os q by metis
    have "\<exists>q3. my_print_string os self ret call str q = Some (Hook_returns (), q3) \<and>
          p_mem q3 = write_bytes (p_mem q2) a (tramp_inst self) \<and> p_ctx q3 = p_ctx p'"
      if call: "call a (take 255 (''Hijacked string: '' @ str)) q1 = Some q2" "p_ctx q2 = p_ctx p'" for call q2
    proof -
      obtain q3 where "hook_leave os bp a () q2 = Some (Hook_returns (), q3)"
          "p_mem q3 = write_bytes (p_mem q2) a (tramp_inst self)" "p_ctx q3 = p_ctx q2"
        using hook_leave_run [OF bp, of q2 pr os "()"] map os call(2) by metis
      then show ?thesis using q1(1) call by (simp add: my_print_string_def snprintf_text_def)
    qed
    then show ?thesis using q1(2,3) by blast
  qed
  then show ?thesis using p' by blast
qed

section \<open>Breakpoint instructions\<close>

lemma write_one_byte: "write_bytes m a [b] = m(a := b)"
  by (rule ext) (auto simp: write_bytes_def in_region_def unat_eq_0)

text \<open>The registers the jump out of the handler loads, and where from.\<close>

definition greg_loads :: "((shiva_trace_regset_x86_64 \<Rightarrow> u64) \<times> nat) list" where
  "greg_loads =
     [(r_r8, 0), (r_r9, 8), (r_r10, 16), (r_r11, 24), (r_r12, 32), (r_r13, 40), (r_r14, 48), (r_r15, 56),
      (r_rdi, 64), (r_rsi, 72), (r_rbx, 88), (r_rax, 104), (r_rcx, 112), (r_rsp, 120)]"

lemma longjmp_return_loads:
  assumes "(reg, off) \<in> set greg_loads"
  shows "reg (SHIVA_TRACE_LONGJMP_RETURN rip_reg g m r) = load64 m (g + of_nat off)"
  using assms by (auto simp: greg_loads_def SHIVA_TRACE_LONGJMP_RETURN_def Let_def)

lemma longjmp_return_rip:
  assumes "(rip_reg, off) \<in> set greg_loads"
  shows "r_rip (SHIVA_TRACE_LONGJMP_RETURN rip_reg g m r) = load64 m (g + of_nat off)"
  using assms by (auto simp: greg_loads_def SHIVA_TRACE_LONGJMP_RETURN_def Let_def)

text \<open>C27. The handler of the breakpoint on \<open>main\<close> puts the byte \<open>0x55\<close> there, so the code is the original
  one only if \<open>main\<close> starts with \<open>push rbp\<close>. The final jump loads fourteen registers (every general register
  but \<open>rbp\<close> and \<open>rdx\<close>) from the interrupted program; when the compiler keeps the target of the jump in one of
  them, the program does not go on at the breakpoint but at the value that register had when the program was
  interrupted.\<close>

theorem int3_handler_resumes:
  assumes "shiva_trace os res0 status 0 SHIVA_TRACE_OP_ATTACH 0 [] 0 p = Some (True, x, p1)"
    and "elf_symbol_by_name (ctx_elfobj (p_ctx p)) ''main'' = Some s"
    and "a = sym_value s + ul_base_vaddr (ulexec (p_ctx p))" and "hookable os self a (p_ctx p)"
    and "shiva_maps_validate_addr (p_ctx p) (a + 8)"
  shows "\<exists>p'. int3_main sa sn res0 os status self p = Some (0, p') \<and> p_mem p' = (p_mem p)(a := 0xcc) \<and>
     p_sigaction p' SIGTRAP = Some self \<and>
     (\<forall>q gregs r. p_ctx q = p_ctx p' \<longrightarrow> load64 (p_mem q) (gregs + 128) = a + 1 \<longrightarrow>
        (\<forall>(rip_reg, k) \<in> set greg_loads. \<exists>r' q'. int3_bp_handler os rip_reg gregs r q = Some (Some r', q') \<and>
           p_mem q' = (p_mem q)(a := 0x55) \<and> r_rip r' = load64 (p_mem q') (gregs + of_nat k) \<and>
           (\<forall>(reg, off) \<in> set greg_loads. reg r' = load64 (p_mem q') (gregs + of_nat off))))"
proof -
  let ?hs = "trace_handlers_tqlist (p_ctx p)"
  obtain ts p2 where p2: "hook_start os res0 status self SHIVA_TRACE_BP_INT3 p = Some (True, p2)" "p_mem p2 = p_mem p"
    "p_ctx p2 = (p_ctx p)\<lparr>thread_tqlist := ts, trace_handlers_tqlist := ?hs @
       [\<lparr>h_type = SHIVA_TRACE_BP_INT3, handler_fn = self, bp_tqlist = []\<rparr>]\<rparr>"
    "bp_ready os (length ?hs) SHIVA_TRACE_BP_INT3 self a 8 p2"
    by (rule hook_start_run [OF assms(1,4), of 8]) simp
  have "shiva_maps_validate_addr (p_ctx p2) (a + 8)"
    using assms(5) by (simp add: p2(3) shiva_maps_validate_addr_def)
  then obtain p' where p': "shiva_trace_set_breakpoint sa sn os self a [] p2 = Some (None, p')"
    "p_mem p' = (p_mem p2)(a := 0xcc)"
    "p_sigaction p' = p_sigaction (first_sigaction SIGTRAP self (trace_handlers_tqlist (p_ctx p2) ! length ?hs) p2)"
    "mmap_tqlist (p_ctx p') = mmap_tqlist (p_ctx p)"
    by (rule int3_breakpoint_run [OF p2(4), where sa = sa and sn = sn and name = "[]"]) (simp add: p2(3))
  have main: "int3_main sa sn res0 os status self p = Some (0, p')"
    using p'(1) assms(2,3) by (simp add: int3_main_def hook_symbol_def p2(1) p2(3))
  obtain pr where map: "shiva_maps_prot_by_addr (p_ctx p') a = Some (Some pr)"
    using assms(4) p'(4) by (auto simp: hookable_def shiva_maps_prot_by_addr_find)
  have "\<exists>r' q'. int3_bp_handler os rip_reg gregs r q = Some (Some r', q') \<and>
      p_mem q' = (p_mem q)(a := 0x55) \<and> r_rip r' = load64 (p_mem q') (gregs + of_nat k) \<and>
      (\<forall>(reg, off) \<in> set greg_loads. reg r' = load64 (p_mem q') (gregs + of_nat off))"
    if q: "p_ctx q = p_ctx p'" "load64 (p_mem q) (gregs + 128) = a + 1" and reg: "(rip_reg, k) \<in> set greg_loads"
    for q gregs r rip_reg k
  proof -
    obtain q' where q': "shiva_trace_write os a [0x55] q = Some (None, q')" "p_mem q' = (p_mem q)(a := 0x55)"
      using mapped_write [of q a pr os "[0x55]"] map q(1) assms(4) by (auto simp: hookable_def write_one_byte)
    then have "int3_bp_handler os rip_reg gregs r q =
        Some (Some (SHIVA_TRACE_LONGJMP_RETURN rip_reg gregs (p_mem q') r), q')"
      using q(2) by (simp add: int3_bp_handler_def REG_RIP_def)
    with q'(2) longjmp_return_loads longjmp_return_rip [OF reg] show ?thesis by auto
  qed
  then show ?thesis using main p'(2,3) p2(2,3) by (intro exI [of _ p']) (auto simp: first_sigaction_def)
qed

section \<open>Witnesses\<close>

text \<open>A program whose functions \<open>print_string\<close> and \<open>main\<close> are at \<open>0x40001000\<close>.\<close>

definition example_hook_symbol :: elf_symbol where
  "example_hook_symbol =
     \<lparr>sym_name = ''main'', sym_value = 0x1000, sym_size = 0, sym_type = 2, sym_bind = 1\<rparr>"

definition example_hooked :: proc where
  "example_hooked =
     example_calls\<lparr>p_ctx := (p_ctx example_calls)\<lparr>ctx_elfobj := null_elfobj\<lparr>
       elf_symbol_by_name := (\<lambda>n. Some example_hook_symbol),
       elf_symbol_by_value_lookup := (\<lambda>v. if v = 0x1000 then Some example_hook_symbol else None)\<rparr>\<rparr>\<rparr>"

lemma example_hooked_facts:
  "elf_symbol_by_name (ctx_elfobj (p_ctx example_hooked)) n = Some example_hook_symbol"
  "elf_symbol_by_value_lookup (ctx_elfobj (p_ctx example_hooked)) (sym_value example_hook_symbol) =
     Some example_hook_symbol"
  "0x40001000 = sym_value example_hook_symbol + ul_base_vaddr (ulexec (p_ctx example_hooked))"
  "shiva_maps_validate_addr (p_ctx example_hooked) (0x40001000 + 8)"
  "\<exists>p1. shiva_trace example_os False 0 0 SHIVA_TRACE_OP_ATTACH 0 [] 0 example_hooked = Some (True, None, p1)"
  using example_os_attach [of example_hooked]
  by (auto simp: example_hooked_def example_calls_def example_hook_symbol_def shiva_maps_validate_addr_def zero_ctx_def)

lemma example_hookable: "hookable example_os 0x50000000 0x40001000 (p_ctx example_hooked)"
  by (simp add: hookable_def malloc_ok_def example_os_def mprotect_ok_def example_hooked_def example_calls_def
      zero_ctx_def shiva_maps_prot_by_addr_find addr_in_entry_def)

theorem trampoline_calls_original_witness:
  "\<exists>p'. trampoline_main True False False example_os 0 0x50000000 example_hooked = Some (0, p') \<and>
     (\<exists>q3. my_print_string example_os 0x50000000 0 (\<lambda>a s. Some) ''x'' p' = Some (Hook_returns (), q3) \<and>
        p_mem q3 = p_mem p')"
proof -
  obtain p1 where "shiva_trace example_os False 0 0 SHIVA_TRACE_OP_ATTACH 0 [] 0 example_hooked = Some (True, None, p1)"
    using example_hooked_facts(5) by blast
  from trampoline_calls_original [OF this example_hooked_facts(1,2) refl example_hooked_facts(3) example_hookable,
      of True False]
  show ?thesis by (fastforce simp: write_bytes_overwrite)
qed

theorem int3_handler_resumes_witness:
  "\<exists>p'. int3_main True False False example_os 0 0x50000000 example_hooked = Some (0, p') \<and>
     (\<exists>r' q'. int3_bp_handler example_os r_rax 0x700000 example_regs
         (p'\<lparr>p_mem := store64 (p_mem p') 0x700080 0x40001001\<rparr>) = Some (Some r', q') \<and>
       r_rip r' = load64 (p_mem q') 0x700068)"
proof -
  obtain p1 where "shiva_trace example_os False 0 0 SHIVA_TRACE_OP_ATTACH 0 [] 0 example_hooked = Some (True, None, p1)"
    using example_hooked_facts(5) by blast
  from int3_handler_resumes [OF this example_hooked_facts(1,3) example_hookable example_hooked_facts(4), of True False]
  obtain p' where main: "int3_main True False False example_os 0 0x50000000 example_hooked = Some (0, p')"
    and all: "\<forall>q gregs r. p_ctx q = p_ctx p' \<longrightarrow> load64 (p_mem q) (gregs + 128) = 0x40001000 + 1 \<longrightarrow>
        (\<forall>(rip_reg, k) \<in> set greg_loads. \<exists>r' q'. int3_bp_handler example_os rip_reg gregs r q = Some (Some r', q') \<and>
           p_mem q' = (p_mem q)(0x40001000 := 0x55) \<and> r_rip r' = load64 (p_mem q') (gregs + of_nat k) \<and>
           (\<forall>(reg, off) \<in> set greg_loads. reg r' = load64 (p_mem q') (gregs + of_nat off)))"
    by blast
  let ?q = "p'\<lparr>p_mem := store64 (p_mem p') 0x700080 0x40001001\<rparr>"
  have "(r_rax, 104) \<in> set greg_loads" by (simp add: greg_loads_def)
  moreover have "load64 (p_mem ?q) (0x700000 + 128) = 0x40001000 + 1" by (simp add: load64_store64)
  ultimately show ?thesis using all [rule_format, of ?q "0x700000" "(r_rax, 104)" example_regs] main by auto
qed

end
