(* ===== verification/Plt_Cfi.thy ===== *)
theory Plt_Cfi
  imports Hooked_Functions "HOL-Library.Sublist"
begin

text \<open>
  The module \<^verbatim>\<open>plt_cfi.c\<close> enforces control flow integrity: a hooked function of the procedure linkage
  table is called only from the call sites that the analyzer recorded for it.
\<close>

section \<open>GOT hooks\<close>

text \<open>A GOT hook of \<open>name\<close>: its return addresses are those of the recorded calls.\<close>

definition recorded_rets :: "shiva_ctx \<Rightarrow> string \<Rightarrow> u64 set" where
  "recorded_rets ctx name =
     (\<lambda>b. bs_retaddr b + shiva_trace_base_addr ctx) ` {b \<in> set (branch_tqlist ctx). plt_call_to name b}"

definition got_hook :: "shiva_ctx \<Rightarrow> string \<Rightarrow> shiva_trace_bp \<Rightarrow> bool" where
  "got_hook ctx name bp \<longleftrightarrow>
     bp_type bp = SHIVA_TRACE_BP_PLTGOT \<and> pred_option (\<lambda>s. sym_name s = name) (bp_symbol bp) \<and>
     set (retaddr_list bp) = recorded_rets ctx name"

text \<open>What hooking keeps of the context.\<close>

definition same_program :: "shiva_ctx \<Rightarrow> shiva_ctx \<Rightarrow> bool" where
  "same_program c d \<longleftrightarrow>
     branch_tqlist d = branch_tqlist c \<and> ulexec d = ulexec c \<and> ctx_elfobj d = ctx_elfobj c \<and>
     ctx_shiva_elfobj d = ctx_shiva_elfobj c \<and> ctx_shiva_base d = ctx_shiva_base c"

lemma same_program_refl [simp]: "same_program c c"
  by (simp add: same_program_def)

lemma same_program_trans: "same_program a b \<Longrightarrow> same_program b c \<Longrightarrow> same_program a c"
  by (simp add: same_program_def)

lemma got_hook_same: "same_program c d \<Longrightarrow> got_hook d name bp = got_hook c name bp"
  by (simp add: got_hook_def recorded_rets_def same_program_def shiva_trace_base_addr_def)

lemma alt_relocs_symbol:
  assumes "alt_relocs obj name n ptr jr cnt hsym m = (ok, k, h, m')" and "pred_option (\<lambda>s. sym_name s = name) hsym"
  shows "pred_option (\<lambda>s. sym_name s = name) h"
  using assms
proof (induction n arbitrary: ptr cnt hsym m)
  case (Suc n)
  show ?case
    using Suc.prems by (simp add: Let_def split: if_split_asm option.split_asm) (erule Suc.IH; simp)+
qed simp

lemma jmprel_alloc_ctx: "jmprel_alloc os n p = Some p' \<Longrightarrow> \<exists>j. p_ctx p' = (p_ctx p)\<lparr>jmprel := j\<rparr>"
proof -
  have self: "\<exists>j. c = c\<lparr>jmprel := j\<rparr>" for c :: shiva_ctx by (rule exI [of _ "jmprel c"]) simp
  assume "jmprel_alloc os n p = Some p'"
  then show ?thesis
    using self by (auto simp: jmprel_alloc_def bind_eq_Some_conv dest!: shiva_malloc_frame split: if_split_asm)
qed

lemma deactivate_ctx:
  assumes "pltgot_deactivate os name p = Some ((None, h), p')"
  shows "(\<exists>j. p_ctx p' = (p_ctx p)\<lparr>jmprel := j\<rparr>) \<and> pred_option (\<lambda>s. sym_name s = name) h"
  using assms
  by (auto simp: pltgot_deactivate_def Let_def bind_eq_Some_conv
      dest!: jmprel_alloc_ctx dynamic_set_ctx alt_relocs_symbol split: option.split_asm if_split_asm prod.split_asm)

lemma add_retaddrs_result:
  assumes "add_retaddrs os P f bs bp p = Some (bp', p')"
    and "\<And>b bp. retaddr_list (f b bp) = retaddr_list bp \<and> bp_type (f b bp) = bp_type bp \<and> bp_symbol (f b bp) = bp_symbol bp"
  shows "retaddr_list bp' = retaddr_list bp @ map (\<lambda>b. bs_retaddr b + shiva_trace_base_addr (p_ctx p)) (filter P bs) \<and>
         bp_type bp' = bp_type bp \<and> bp_symbol bp' = bp_symbol bp \<and> p_prot p' = p_prot p"
  using assms(1)
proof (induction bs arbitrary: bp p)
  case (Cons b bs)
  then show ?case
    by (fastforce simp: bind_eq_Some_conv assms(2) dest!: shiva_malloc_frame split: if_split_asm)
qed simp

text \<open>A hook that is placed is appended to its handler.\<close>

definition with_hook :: "nat \<Rightarrow> string \<Rightarrow> shiva_ctx \<Rightarrow> shiva_ctx \<Rightarrow> bool" where
  "with_hook i name c d \<longleftrightarrow>
     same_program c d \<and>
     (trace_handlers_tqlist d = trace_handlers_tqlist c \<or>
      (\<exists>bp. got_hook c name bp \<and> trace_handlers_tqlist d = trace_handlers_tqlist (with_bps i [bp] c)))"

lemma pltgot_entry_hook:
  assumes "set_bp_pltgot_entry sn os i fn name e p = Some (None, p')"
  shows "with_hook i name (p_ctx p) (p_ctx p')"
proof -
  obtain p1 m h p3 bp p4 obj base off got where p1: "p_ctx p1 = p_ctx p"
    and p3: "pltgot_deactivate os name (p1\<lparr>p_mem := m\<rparr>) = Some ((None, h), p3)"
    and bp: "add_retaddrs os (plt_call_to name) (\<lambda>b bp. bp\<lparr>bp_plt_addr := target_vaddr b\<rparr>) (branch_tqlist (p_ctx p3))
         ((pltgot_bp obj base off got)\<lparr>bp_symbol := h, symbol_location := (h \<noteq> None)\<rparr>) p3 = Some (bp, p4)"
    and p': "p' = add_bp i bp p4"
    using assms
    by (auto simp: set_bp_pltgot_entry_def Let_def bind_eq_Some_conv p_write_def
        dest!: sys_malloc_ctx split: option.split_asm if_split_asm prod.split_asm)
  obtain j where ctx3: "p_ctx p3 = (p_ctx p)\<lparr>jmprel := j\<rparr>" and h: "pred_option (\<lambda>s. sym_name s = name) h"
    using deactivate_ctx [OF p3] p1 by auto
  have ctx4: "p_ctx p4 = p_ctx p3" using add_retaddrs_frame [OF bp] by simp
  have "got_hook (p_ctx p) name bp"
    using add_retaddrs_result [OF bp] h
    by (auto simp: got_hook_def recorded_rets_def pltgot_bp_def zero_bp_def ctx3 shiva_trace_base_addr_def)
  moreover have "trace_handlers_tqlist (p_ctx p') = trace_handlers_tqlist (with_bps i [bp] (p_ctx p))"
    by (simp add: p' add_bp_def with_bps_def Let_def ctx4 ctx3)
  moreover have "same_program (p_ctx p) (p_ctx p')"
    by (simp add: same_program_def p' add_bp_def Let_def ctx4 ctx3)
  ultimately show ?thesis unfolding with_hook_def by blast
qed

lemma set_breakpoint_plt:
  assumes "shiva_trace_set_breakpoint sa sn os fn 0 name p = Some (None, p')"
    and "trace_handlers_tqlist (p_ctx p) = hs @ [\<lparr>h_type = SHIVA_TRACE_BP_PLTGOT, handler_fn = fn, bp_tqlist = bps\<rparr>]"
    and "\<forall>h \<in> set hs. handler_fn h \<noteq> fn"
  shows "with_hook (length hs) name (p_ctx p) (p_ctx p')"
proof -
  let ?i = "length hs"
  have skip: "\<forall>j \<in> set [0..<?i]. handler_fn (trace_handlers_tqlist (p_ctx p) ! j) \<noteq> fn"
    using assms(2,3) by (simp add: nth_append)
  have at: "trace_handlers_tqlist (p_ctx p) ! ?i = \<lparr>h_type = SHIVA_TRACE_BP_PLTGOT, handler_fn = fn, bp_tqlist = bps\<rparr>"
    by (simp add: assms(2))
  have "set_bp_loop sa sn os fn 0 name [?i] False p = Some (None, p')"
    using assms(1,2) set_bp_loop_skip [OF skip, of sa sn os 0 name "[?i]" False]
    by (simp add: shiva_trace_set_breakpoint_def)
  then obtain err stop where "set_bp_one sa sn os ?i fn 0 name p = Some ((err, stop), p')" "stop \<longrightarrow> err = None"
    by (auto simp: at bind_eq_Some_conv split: if_split_asm)
  then have one: "set_bp_pltgot sn os ?i fn name p = Some ((None, stop), p')"
    using set_bp_one_extends [of sa sn os ?i fn 0 name p err stop p'] by (auto simp: at set_bp_one_def)
  show ?thesis
  proof (cases stop)
    case True
    with one obtain e where "set_bp_pltgot_entry sn os ?i fn name e p = Some (None, p')"
      by (auto simp: set_bp_pltgot_def Let_def bind_eq_Some_conv split: option.split_asm)
    then show ?thesis by (rule pltgot_entry_hook)
  next
    case False
    with one have "p' = p" by (auto simp: set_bp_pltgot_def Let_def bind_eq_Some_conv split: option.split_asm)
    then show ?thesis by (simp add: with_hook_def)
  qed
qed

section \<open>The module\<close>

text \<open>The names it hooks.\<close>

definition cfi_names :: "elf_plt list \<Rightarrow> string set" where
  "cfi_names es = {plt_symname e | e. e \<in> set es \<and> plt_symname e \<noteq> ''PLT-0''}"

definition cfi_state :: "shiva_ctx \<Rightarrow> shiva_trace_handler list \<Rightarrow> u64 \<Rightarrow> string set \<Rightarrow> shiva_ctx \<Rightarrow> bool" where
  "cfi_state c hs self names d \<longleftrightarrow>
     same_program c d \<and>
     (\<exists>bps. trace_handlers_tqlist d = hs @ [\<lparr>h_type = SHIVA_TRACE_BP_PLTGOT, handler_fn = self, bp_tqlist = bps\<rparr>] \<and>
        (\<forall>bp \<in> set bps. \<exists>name \<in> names. got_hook c name bp))"

lemma cfi_state_hook:
  assumes "cfi_state c hs self names d" and "with_hook (length hs) name d d'"
  shows "cfi_state c hs self (insert name names) d'"
proof -
  obtain bps where d: "same_program c d"
      "trace_handlers_tqlist d = hs @ [\<lparr>h_type = SHIVA_TRACE_BP_PLTGOT, handler_fn = self, bp_tqlist = bps\<rparr>]"
      "\<forall>bp \<in> set bps. \<exists>name \<in> names. got_hook c name bp"
    using assms(1) by (auto simp: cfi_state_def)
  have "same_program c d'" using assms(2) d(1) same_program_trans by (auto simp: with_hook_def)
  moreover have "\<exists>bps. trace_handlers_tqlist d' = hs @ [\<lparr>h_type = SHIVA_TRACE_BP_PLTGOT, handler_fn = self, bp_tqlist = bps\<rparr>] \<and>
      (\<forall>bp \<in> set bps. \<exists>name \<in> insert name names. got_hook c name bp)"
    using assms(2) d got_hook_same [OF d(1)] by (auto simp: with_hook_def with_bps_def)
  ultimately show ?thesis by (simp add: cfi_state_def)
qed

lemma cfi_state_mono: "cfi_state c hs self names d \<Longrightarrow> names \<subseteq> names' \<Longrightarrow> cfi_state c hs self names' d"
  by (fastforce simp: cfi_state_def)

lemma cfi_loop_state:
  assumes "cfi_loop sa sn os self es p = Some (0, p')" and "cfi_state c hs self names (p_ctx p)"
    and "\<forall>h \<in> set hs. handler_fn h \<noteq> self"
  shows "cfi_state c hs self (names \<union> cfi_names es) (p_ctx p')"
  using assms(1,2)
proof (induction es arbitrary: p names)
  case Nil
  then show ?case by (auto elim: cfi_state_mono)
next
  case (Cons e es)
  show ?case
  proof (cases "plt_symname e = ''PLT-0''")
    case True
    with Cons.prems have "cfi_state c hs self (names \<union> cfi_names es) (p_ctx p')" by (intro Cons.IH) auto
    then show ?thesis by (rule cfi_state_mono) (auto simp: cfi_names_def)
  next
    case False
    with Cons.prems(1) obtain p1 where p1: "shiva_trace_set_breakpoint sa sn os self 0 (plt_symname e) p = Some (None, p1)"
        "cfi_loop sa sn os self es p1 = Some (0, p')"
      by (auto simp: bind_eq_Some_conv split: if_split_asm)
    obtain bps where "trace_handlers_tqlist (p_ctx p) = hs @ [\<lparr>h_type = SHIVA_TRACE_BP_PLTGOT, handler_fn = self, bp_tqlist = bps\<rparr>]"
      using Cons.prems(2) by (auto simp: cfi_state_def)
    from cfi_state_hook [OF Cons.prems(2) set_breakpoint_plt [OF p1(1) this assms(3)]]
    have "cfi_state c hs self (insert (plt_symname e) names \<union> cfi_names es) (p_ctx p')" by (rule Cons.IH [OF p1(2)])
    then show ?thesis using False by (elim cfi_state_mono) (auto simp: cfi_names_def)
  qed
qed

lemma cfi_main_state:
  assumes "cfi_main sa sn res0 os status self p = Some (0, p')"
    and "\<forall>h \<in> set (trace_handlers_tqlist (p_ctx p)). handler_fn h \<noteq> self"
  shows "cfi_state (p_ctx p) (trace_handlers_tqlist (p_ctx p)) self (cfi_names (elf_plts (ctx_elfobj (p_ctx p)))) (p_ctx p')"
proof -
  obtain x p1 p2 where att: "shiva_trace os res0 status 0 SHIVA_TRACE_OP_ATTACH 0 [] 0 p = Some (True, x, p1)"
    and reg: "shiva_trace_register_handler os self SHIVA_TRACE_BP_PLTGOT p1 = (None, p2)"
    and loop: "cfi_loop sa sn os self (elf_plts (ctx_elfobj (p_ctx p2))) p2 = Some (0, p')"
    using assms(1) by (auto simp: cfi_main_def hook_start_def bind_eq_Some_conv split: if_split_asm prod.split_asm)
  obtain ts where "p_ctx p1 = (p_ctx p)\<lparr>thread_tqlist := ts\<rparr>" using attach_frame [OF att] by blast
  with reg have p2: "p_ctx p2 = (p_ctx p)\<lparr>thread_tqlist := ts, trace_handlers_tqlist := trace_handlers_tqlist (p_ctx p) @
      [\<lparr>h_type = SHIVA_TRACE_BP_PLTGOT, handler_fn = self, bp_tqlist = []\<rparr>]\<rparr>"
    by (auto simp: shiva_trace_register_handler_def dest!: sys_malloc_ctx split: option.split_asm prod.split_asm)
  have "cfi_state (p_ctx p) (trace_handlers_tqlist (p_ctx p)) self {} (p_ctx p2)"
    by (simp add: cfi_state_def same_program_def p2)
  from cfi_loop_state [OF loop this assms(2)] show ?thesis by (simp add: p2)
qed

section \<open>The handler\<close>

lemma cfi_target_recorded:
  assumes "cfi_target ctx ret bps = Some (Some f)" and "\<forall>bp \<in> set bps. \<exists>name \<in> names. got_hook c name bp"
  shows "\<exists>name \<in> names. ret \<in> recorded_rets c name \<and>
     (\<exists>s. elf_symbol_by_name (ctx_shiva_elfobj ctx) name = Some s \<and>
        f = (if ctx_shiva_base ctx = 0x400000 then sym_value s else sym_value s + ctx_shiva_base ctx))"
  using assms
proof (induction bps)
  case (Cons bp bps)
  obtain name where name: "name \<in> names" "got_hook c name bp" using Cons.prems(2) by auto
  show ?case
  proof (cases "bp_type bp = SHIVA_TRACE_BP_PLTGOT \<and> ret \<in> set (retaddr_list bp)")
    case True
    then obtain s where s: "bp_symbol bp = Some s" using Cons.prems(1) by (auto simp: bind_eq_Some_conv)
    then have "sym_name s = name" "ret \<in> recorded_rets c name" using name(2) True by (auto simp: got_hook_def)
    show ?thesis
    proof (cases "elf_symbol_by_name (ctx_shiva_elfobj ctx) (sym_name s)")
      case None
      then have "cfi_target ctx ret bps = Some (Some f)" using Cons.prems(1) True s by simp
      then show ?thesis using Cons.prems(2) by (intro Cons.IH) auto
    next
      case (Some sym)
      then show ?thesis
        using Cons.prems(1) True s name(1) \<open>sym_name s = name\<close> \<open>ret \<in> recorded_rets c name\<close>
        by (intro bexI [of _ name]) (auto split: if_splits)
    qed
  next
    case False
    then have "cfi_target ctx ret bps = Some (Some f)" using Cons.prems(1) by (auto split: if_split_asm)
    then show ?thesis using Cons.prems(2) by (intro Cons.IH) auto
  qed
qed simp

lemma cfi_target_unrecorded:
  assumes "\<forall>name \<in> names. ret \<notin> recorded_rets c name" and "\<forall>bp \<in> set bps. \<exists>name \<in> names. got_hook c name bp"
  shows "cfi_target ctx ret bps = Some None"
  using assms by (induction bps) (auto simp: got_hook_def)

lemma saved_args:
  assumes "m1 = store64 (store64 (shiva_trace_getregs_x86_64 (r\<lparr>r_rdi := regs\<rparr>) m) (regs + RIP_OFF) (ret - 5))
      (regs + RDI_OFF) arg"
  shows "load64 m1 (regs + RDI_OFF) = arg" "load64 m1 (regs + RSI_OFF) = r_rsi r"
    "load64 m1 (regs + 24) = r_rdx r" "load64 m1 (regs + 16) = r_rcx r"
proof -
  define own where "own = [(64 :: nat, ret - 5), (40, arg)]"
  have m1: "m1 = store_at regs own (shiva_trace_getregs_x86_64 (r\<lparr>r_rdi := regs\<rparr>) m)"
    by (simp add: assms own_def store_at_def RIP_OFF_def RDI_OFF_def)
  have "load64 m1 (regs + of_nat 40) = arg"
    unfolding m1 by (rule load_store_at) (auto simp: own_def)
  moreover note reg = getregs_reg [where r = r and own = own and regs = regs and m = m, folded m1]
  ultimately show "load64 m1 (regs + RDI_OFF) = arg" "load64 m1 (regs + RSI_OFF) = r_rsi r"
      "load64 m1 (regs + 24) = r_rdx r" "load64 m1 (regs + 16) = r_rcx r"
    using reg [of 32 "r_rsi r"] reg [of 24 "r_rdx r"] reg [of 16 "r_rcx r"]
    by (simp_all add: RDI_OFF_def RSI_OFF_def own_def)
qed

text \<open>A call site of the procedure linkage table entry of \<open>f\<close>: the analyzer names it \<open>f@plt\<close>.\<close>

definition named_call :: "string \<Rightarrow> shiva_branch_site \<Rightarrow> bool" where
  "named_call f b \<longleftrightarrow> branch_type b = SHIVA_BRANCH_CALL \<and> sym_name (bs_symbol b) = f @ ''@plt''"

text \<open>What the comparison of the hook decides for such a site: whether the hooked name starts with \<open>f\<close>.\<close>

lemma plt_call_to_named:
  assumes "named_call f b" and "CHR ''@'' \<notin> set f"
  shows "plt_call_to name b \<longleftrightarrow> prefix f name"
proof -
  have "strstr (f @ ''@plt'') ''@plt'' \<noteq> None" unfolding strstr_Some_iff by (metis append_Nil2)
  moreover have "cut_at (f @ ''@plt'') (CHR ''@'') = f" using cut_at_split [OF assms(2)] by simp
  moreover have "take (length f) name = f \<longleftrightarrow> prefix f name"
    by (metis append_eq_conv_conj append_take_drop_id prefix_def)
  ultimately show ?thesis using assms(1) by (simp add: plt_call_to_def named_call_def strncmp_eq_def)
qed

text \<open>A table whose names do not start with each other, without an \<open>@\<close>, and call sites that name its
  entries.\<close>

definition clear_names :: "elf_plt list \<Rightarrow> shiva_branch_site list \<Rightarrow> bool" where
  "clear_names es bs \<longleftrightarrow>
     (\<forall>e \<in> set es. CHR ''@'' \<notin> set (plt_symname e)) \<and>
     (\<forall>e \<in> set es. \<forall>e' \<in> set es. prefix (plt_symname e) (plt_symname e') \<longrightarrow> plt_symname e = plt_symname e') \<and>
     (\<forall>b \<in> set bs. branch_type b = SHIVA_BRANCH_CALL \<longrightarrow> sublist ''@plt'' (sym_name (bs_symbol b)) \<longrightarrow>
        (\<exists>e \<in> set es. sym_name (bs_symbol b) = plt_symname e @ ''@plt''))"

lemma clear_call:
  assumes "clear_names es bs" and "e \<in> set es" and "b \<in> set bs"
  shows "plt_call_to (plt_symname e) b \<longleftrightarrow> named_call (plt_symname e) b"
proof
  assume "named_call (plt_symname e) b"
  then show "plt_call_to (plt_symname e) b"
    using plt_call_to_named assms(1,2) by (auto simp: clear_names_def)
next
  assume call: "plt_call_to (plt_symname e) b"
  then have "branch_type b = SHIVA_BRANCH_CALL" "sublist ''@plt'' (sym_name (bs_symbol b))"
    unfolding plt_call_to_def strstr_Some_iff sublist_def by blast+
  with assms obtain e' where e': "e' \<in> set es" "named_call (plt_symname e') b" "CHR ''@'' \<notin> set (plt_symname e')"
    by (auto simp: clear_names_def named_call_def)
  with call have "prefix (plt_symname e') (plt_symname e)" using plt_call_to_named by blast
  then show "named_call (plt_symname e) b"
    using assms(1,2) e' by (metis clear_names_def)
qed

lemma cfi_names_recorded:
  assumes "clear_names es (branch_tqlist c)"
  shows "(\<exists>name \<in> cfi_names es. ret \<in> recorded_rets c name \<and> P name) \<longleftrightarrow>
     (\<exists>e \<in> set es. \<exists>b \<in> set (branch_tqlist c). plt_symname e \<noteq> ''PLT-0'' \<and> named_call (plt_symname e) b \<and>
        ret = bs_retaddr b + ul_base_vaddr (ulexec c) \<and> P (plt_symname e))"
  using clear_call [OF assms] by (fastforce simp: cfi_names_def recorded_rets_def shiva_trace_base_addr_def)

text \<open>The handler, once the module has run.\<close>

lemma cfi_handler_run:
  assumes "cfi_main sa sn res0 os status self p = Some (0, p')"
    and "\<forall>h \<in> set (trace_handlers_tqlist (p_ctx p)). handler_fn h \<noteq> self"
  obtains bps m1 where "same_program (p_ctx p) (p_ctx p')"
    "shiva_trace_find_handler (p_ctx p') self =
       Some \<lparr>h_type = SHIVA_TRACE_BP_PLTGOT, handler_fn = self, bp_tqlist = bps\<rparr>"
    "\<forall>bp \<in> set bps. \<exists>name \<in> cfi_names (elf_plts (ctx_elfobj (p_ctx p))). got_hook (p_ctx p) name bp"
    "plt_handler self (p_ctx p') regs r arg ret m =
      (case cfi_target (p_ctx p') ret bps of None \<Rightarrow> None
       | Some None \<Rightarrow> Some (Handler_exits, m1)
       | Some (Some fp) \<Rightarrow> Some (Handler_calls \<lparr>oc_function = fp, oc_args = [arg, r_rsi r, r_rdx r, r_rcx r]\<rparr>, m1))"
proof -
  obtain bps where bps: "same_program (p_ctx p) (p_ctx p')"
      "trace_handlers_tqlist (p_ctx p') = trace_handlers_tqlist (p_ctx p) @
         [\<lparr>h_type = SHIVA_TRACE_BP_PLTGOT, handler_fn = self, bp_tqlist = bps\<rparr>]"
      "\<forall>bp \<in> set bps. \<exists>name \<in> cfi_names (elf_plts (ctx_elfobj (p_ctx p))). got_hook (p_ctx p) name bp"
    using cfi_main_state [OF assms] by (auto simp: cfi_state_def)
  have find: "shiva_trace_find_handler (p_ctx p') self =
      Some \<lparr>h_type = SHIVA_TRACE_BP_PLTGOT, handler_fn = self, bp_tqlist = bps\<rparr>"
    using find_after [of "trace_handlers_tqlist (p_ctx p)"] bps(2) assms(2) by (simp add: shiva_trace_find_handler_def)
  define m1 where "m1 = store64 (store64 (shiva_trace_getregs_x86_64 (r\<lparr>r_rdi := regs\<rparr>) m) (regs + RIP_OFF) (ret - 5))
      (regs + RDI_OFF) arg"
  show thesis
    by (rule that [OF bps(1) find bps(3), of m1])
      (simp add: plt_handler_def find m1_def [symmetric] saved_args [OF m1_def] Let_def split: option.split)
qed

text \<open>C2. Control flow integrity of the procedure linkage table, for a table whose names do not start with
  each other and call sites named after its entries: once the module has hooked the table, its handler
  calls a function, with the first four arguments of the caller, only when the return address is that
  of a recorded call named \<open>f@plt\<close> for an entry \<open>f\<close>, and then the function \<open>f\<close> of Shiva; for a
  return address that no recorded call of an entry has, the handler ends the program.\<close>

theorem plt_cfi_enforced:
  assumes "cfi_main sa sn res0 os status self p = Some (0, p')"
    and "\<forall>h \<in> set (trace_handlers_tqlist (p_ctx p)). handler_fn h \<noteq> self"
    and "clear_names (elf_plts (ctx_elfobj (p_ctx p))) (branch_tqlist (p_ctx p))"
  shows "(\<forall>c m'. plt_handler self (p_ctx p') regs r arg ret m = Some (Handler_calls c, m') \<longrightarrow>
      (\<exists>e \<in> set (elf_plts (ctx_elfobj (p_ctx p))). \<exists>b \<in> set (branch_tqlist (p_ctx p)). plt_symname e \<noteq> ''PLT-0'' \<and>
         (branch_type b = SHIVA_BRANCH_CALL \<and> sym_name (bs_symbol b) = plt_symname e @ ''@plt'') \<and>
         ret = bs_retaddr b + ul_base_vaddr (ulexec (p_ctx p)) \<and>
         (\<exists>s. elf_symbol_by_name (ctx_shiva_elfobj (p_ctx p)) (plt_symname e) = Some s \<and>
            c = \<lparr>oc_function = (if ctx_shiva_base (p_ctx p) = 0x400000 then sym_value s
                               else sym_value s + ctx_shiva_base (p_ctx p)),
                 oc_args = [arg, r_rsi r, r_rdx r, r_rcx r]\<rparr>))) \<and>
     ((\<forall>e \<in> set (elf_plts (ctx_elfobj (p_ctx p))). \<forall>b \<in> set (branch_tqlist (p_ctx p)). plt_symname e \<noteq> ''PLT-0'' \<longrightarrow>
         branch_type b = SHIVA_BRANCH_CALL \<longrightarrow> sym_name (bs_symbol b) = plt_symname e @ ''@plt'' \<longrightarrow>
         ret \<noteq> bs_retaddr b + ul_base_vaddr (ulexec (p_ctx p))) \<longrightarrow>
      (\<exists>m'. plt_handler self (p_ctx p') regs r arg ret m = Some (Handler_exits, m')))"
proof -
  let ?c = "p_ctx p" and ?es = "elf_plts (ctx_elfobj (p_ctx p))"
  obtain bps m1 where same: "same_program ?c (p_ctx p')"
    and bps: "\<forall>bp \<in> set bps. \<exists>name \<in> cfi_names ?es. got_hook ?c name bp"
    and run: "plt_handler self (p_ctx p') regs r arg ret m =
      (case cfi_target (p_ctx p') ret bps of None \<Rightarrow> None
       | Some None \<Rightarrow> Some (Handler_exits, m1)
       | Some (Some fp) \<Rightarrow> Some (Handler_calls \<lparr>oc_function = fp, oc_args = [arg, r_rsi r, r_rdx r, r_rcx r]\<rparr>, m1))"
    by (rule cfi_handler_run [OF assms(1,2)])
  note named = cfi_names_recorded [OF assms(3)]
  show ?thesis
  proof (intro conjI allI impI, goal_cases)
    case (1 c m')
    then obtain fp where fp: "cfi_target (p_ctx p') ret bps = Some (Some fp)"
        "c = \<lparr>oc_function = fp, oc_args = [arg, r_rsi r, r_rdx r, r_rcx r]\<rparr>"
      by (auto simp: run split: option.split_asm)
    have eq: "ctx_shiva_elfobj (p_ctx p') = ctx_shiva_elfobj ?c" "ctx_shiva_base (p_ctx p') = ctx_shiva_base ?c"
      using same by (simp_all add: same_program_def)
    have "\<exists>name \<in> cfi_names ?es. ret \<in> recorded_rets ?c name \<and>
        (\<exists>s. elf_symbol_by_name (ctx_shiva_elfobj ?c) name = Some s \<and>
           c = \<lparr>oc_function = (if ctx_shiva_base ?c = 0x400000 then sym_value s else sym_value s + ctx_shiva_base ?c),
                oc_args = [arg, r_rsi r, r_rdx r, r_rcx r]\<rparr>)"
      using cfi_target_recorded [OF fp(1) bps] unfolding eq fp(2) by (elim bexE conjE exE) (intro bexI conjI exI, auto)
    then show ?case by (simp only: named named_call_def)
  next
    case 2
    then have "\<forall>name \<in> cfi_names ?es. ret \<notin> recorded_rets ?c name"
      using named [where P = "\<lambda>_. True" and ret = ret] unfolding named_call_def by blast
    from cfi_target_unrecorded [OF this bps] show ?case by (simp add: run)
  qed
qed

text \<open>The first hook that has the return address decides.\<close>

lemma cfi_target_first:
  assumes "\<forall>bp \<in> set bps. \<exists>name. got_hook c name bp" and "map bp_symbol bps = map Some syms"
    and "\<forall>name. ret \<in> recorded_rets c name \<longleftrightarrow> P name" and "find (\<lambda>s. P (sym_name s)) syms = Some s"
    and "elf_symbol_by_name (ctx_shiva_elfobj ctx) (sym_name s) = Some t"
  shows "cfi_target ctx ret bps =
    Some (Some (if ctx_shiva_base ctx = 0x400000 then sym_value t else sym_value t + ctx_shiva_base ctx))"
  using assms(1,2,4)
proof (induction bps arbitrary: syms)
  case (Cons bp bps)
  then obtain s' syms' where syms: "syms = s' # syms'" "bp_symbol bp = Some s'" "map bp_symbol bps = map Some syms'"
    by (cases syms) auto
  then have hook: "bp_type bp = SHIVA_TRACE_BP_PLTGOT" "ret \<in> set (retaddr_list bp) \<longleftrightarrow> P (sym_name s')"
    using Cons.prems(1) assms(3) by (auto simp: got_hook_def)
  show ?case
    using hook syms Cons.prems(1,3) Cons.IH [OF _ syms(3)] assms(5) by (cases "P (sym_name s')") auto
qed simp

text \<open>C28. A hooked name is compared with as many characters as the name of the call site has, so a call of
  \<open>f\<close> counts as a call of every hooked name that starts with \<open>f\<close>, and at its return address the handler
  calls the first hooked of them: in the example program the call of \<open>read\<close> ends up in \<open>readlink\<close>.\<close>

theorem plt_cfi_prefix_confusion:
  assumes "cfi_main sa sn res0 os status self p = Some (0, p')"
    and "\<forall>h \<in> set (trace_handlers_tqlist (p_ctx p)). handler_fn h \<noteq> self"
    and "b \<in> set (branch_tqlist (p_ctx p))" and "branch_type b = SHIVA_BRANCH_CALL"
    and "sym_name (bs_symbol b) = f @ ''@plt''" and "CHR ''@'' \<notin> set f"
    and "\<forall>b' \<in> set (branch_tqlist (p_ctx p)). bs_retaddr b' = bs_retaddr b \<longrightarrow> b' = b"
    and "shiva_trace_find_handler (p_ctx p') self = Some h" and "map bp_symbol (bp_tqlist h) = map Some hooked"
    and "find (\<lambda>s. prefix f (sym_name s)) hooked = Some s"
    and "elf_symbol_by_name (ctx_shiva_elfobj (p_ctx p)) (sym_name s) = Some t"
  shows "\<exists>m'. plt_handler self (p_ctx p') regs r arg (bs_retaddr b + ul_base_vaddr (ulexec (p_ctx p))) m =
     Some (Handler_calls \<lparr>oc_function = (if ctx_shiva_base (p_ctx p) = 0x400000 then sym_value t
                                        else sym_value t + ctx_shiva_base (p_ctx p)),
                          oc_args = [arg, r_rsi r, r_rdx r, r_rcx r]\<rparr>, m')"
proof -
  let ?c = "p_ctx p" and ?ret = "bs_retaddr b + ul_base_vaddr (ulexec (p_ctx p))"
  obtain bps m1 where same: "same_program ?c (p_ctx p')"
    and find: "shiva_trace_find_handler (p_ctx p') self =
       Some \<lparr>h_type = SHIVA_TRACE_BP_PLTGOT, handler_fn = self, bp_tqlist = bps\<rparr>"
    and bps: "\<forall>bp \<in> set bps. \<exists>name \<in> cfi_names (elf_plts (ctx_elfobj ?c)). got_hook ?c name bp"
    and run: "plt_handler self (p_ctx p') regs r arg ?ret m =
      (case cfi_target (p_ctx p') ?ret bps of None \<Rightarrow> None
       | Some None \<Rightarrow> Some (Handler_exits, m1)
       | Some (Some fp) \<Rightarrow> Some (Handler_calls \<lparr>oc_function = fp, oc_args = [arg, r_rsi r, r_rdx r, r_rcx r]\<rparr>, m1))"
    by (rule cfi_handler_run [OF assms(1,2)])
  have "\<forall>name. ?ret \<in> recorded_rets ?c name \<longleftrightarrow> prefix f name"
    using assms(3,7) plt_call_to_named [OF _ assms(6), of b] assms(4,5)
    by (fastforce simp: recorded_rets_def shiva_trace_base_addr_def named_call_def)
  then have "cfi_target (p_ctx p') ?ret bps = Some (Some (if ctx_shiva_base (p_ctx p') = 0x400000 then sym_value t
      else sym_value t + ctx_shiva_base (p_ctx p')))"
    using bps assms(8-11) find same by (intro cfi_target_first [of _ ?c hooked]) (auto simp: same_program_def)
  then show ?thesis using same by (simp add: run same_program_def)
qed

section \<open>Examples\<close>

text \<open>A program with two functions in its procedure linkage table, some \<open>other\<close> one and \<open>read\<close>, and a call
  of the second one. With \<open>puts\<close> the names are clear, with \<open>readlink\<close> they are not.\<close>

definition example_func :: "string \<Rightarrow> u64 \<Rightarrow> elf_symbol" where
  "example_func name v = \<lparr>sym_name = name, sym_value = v, sym_size = 0, sym_type = 2, sym_bind = 1\<rparr>"

definition example_plts :: "string \<Rightarrow> elf_plt list" where
  "example_plts other =
     [\<lparr>plt_symname = ''PLT-0'', plt_addr = 0x1000\<rparr>, \<lparr>plt_symname = other, plt_addr = 0x1010\<rparr>,
      \<lparr>plt_symname = ''read'', plt_addr = 0x1020\<rparr>]"

definition example_plt_obj :: "string \<Rightarrow> elfobj" where
  "example_plt_obj other =
     null_elfobj\<lparr>elf_plts := example_plts other,
       elf_plt_by_name := (\<lambda>n. find (\<lambda>e. plt_symname e = n) (example_plts other)),
       elf_pltgots := [\<lparr>pltgot_offset = 0x3018, pltgot_value = 0x1016, pltgot_stub = True\<rparr>,
                       \<lparr>pltgot_offset = 0x3020, pltgot_value = 0x1026, pltgot_stub = True\<rparr>],
       elf_section_by_name := (\<lambda>n. if n = ''.rela.plt'' then
         Some \<lparr>sec_name = n, sec_flags = 0, sec_size = 48, sec_offset = 0x500, sec_address = 0x500, sec_entsize = 24\<rparr>
         else None),
       elf_symbol_by_index := (\<lambda>i. if i = 1 then Some (example_func other 0)
         else if i = 2 then Some (example_func ''read'' 0) else None)\<rparr>"

definition example_shiva_obj :: "string \<Rightarrow> elfobj" where
  "example_shiva_obj other =
     null_elfobj\<lparr>elf_symbol_by_name := (\<lambda>n. if n = other then Some (example_func n 0x401000)
       else if n = ''read'' then Some (example_func n 0x402000) else None)\<rparr>"

definition example_plt_proc :: "string \<Rightarrow> proc" where
  "example_plt_proc other =
     zero_proc\<lparr>p_prot := (\<lambda>_. 7),
       p_mem := write_bytes (\<lambda>_. 0) 0x40000500
         (le_bytes 8 (0x3018 :: u64) @ le_bytes 8 (0x100000007 :: u64) @ le_bytes 8 (0 :: u64) @
          le_bytes 8 (0x3020 :: u64) @ le_bytes 8 (0x200000007 :: u64) @ le_bytes 8 (0 :: u64)),
       p_ctx := zero_ctx\<lparr>ctx_elfobj := example_plt_obj other, ctx_shiva_elfobj := example_shiva_obj other,
         ctx_shiva_base := 0x400000, ulexec := zero_ulexec\<lparr>ul_base_vaddr := 0x40000000\<rparr>,
         branch_tqlist := [(example_site 0x2000)\<lparr>bs_symbol := example_func ''read@plt'' 0x1020\<rparr>]\<rparr>\<rparr>"

lemma add_retaddrs_returns: "malloc_ok os \<Longrightarrow> \<exists>r. add_retaddrs os P f bs bp p = Some r"
proof (induction bs arbitrary: bp p)
  case (Cons b bs)
  obtain a where "shiva_malloc os 24 p = Some (a, p\<lparr>p_calls := Suc (p_calls p)\<rparr>)"
    using shiva_malloc_ok [OF Cons.prems] by blast
  with Cons show ?case by simp
qed simp

lemma jmprel_alloc_run:
  assumes "\<forall>k l. os_malloc os k l = Some j" and "j \<noteq> 0" and "jmprel (p_ctx p) = 0 \<or> jmprel (p_ctx p) = j"
  shows "\<exists>p'. jmprel_alloc os len p = Some p' \<and> p_mem p' = p_mem p \<and> p_prot p' = p_prot p \<and>
           p_ctx p' = (p_ctx p)\<lparr>jmprel := j\<rparr>"
proof (cases "jmprel (p_ctx p) = 0")
  case True
  then show ?thesis using assms(1) by (simp add: jmprel_alloc_def shiva_malloc_def sys_malloc_def)
next
  case False
  then have "jmprel_alloc os len p = Some p" "p_ctx p = (p_ctx p)\<lparr>jmprel := j\<rparr>"
    using assms(3) by (simp_all add: jmprel_alloc_def)
  then show ?thesis by metis
qed

text \<open>A GOT hook in a program without dynamic section.\<close>

lemma got_hook_run:
  assumes "trace_handlers_tqlist (p_ctx p) = [\<lparr>h_type = SHIVA_TRACE_BP_PLTGOT, handler_fn = fn, bp_tqlist = bps\<rparr>]"
    and "malloc_ok os" and "elf_segments (ctx_elfobj (p_ctx p)) = []"
    and "elf_plt_by_name (ctx_elfobj (p_ctx p)) name = Some plt"
    and "find (\<lambda>e. pltgot_stub e \<and> pltgot_value e = plt_addr plt + 6) (elf_pltgots (ctx_elfobj (p_ctx p))) = Some e"
    and "base = ul_base_vaddr (ulexec (p_ctx p))" and "writable (p_prot p) (pltgot_offset e + base) 8"
    and "elf_section_by_name (ctx_elfobj (p_ctx p)) ''.rela.plt'' = Some sec"
    and "sec_entsize sec \<noteq> 0" and "n = unat (sec_size sec) div unat (sec_entsize sec)"
    and "j \<noteq> 0" and "\<forall>k l. os_malloc os k l = Some j" and "jmprel (p_ctx p) = 0 \<or> jmprel (p_ctx p) = j"
    and "alt_relocs (ctx_elfobj (p_ctx p)) name n (base + sec_offset sec) j 0 None
           (store64 (p_mem p) (pltgot_offset e + base) fn) = (True, cnt, h, m)" and "cnt < n"
  obtains p' bp where "shiva_trace_set_breakpoint sa False os fn 0 name p = Some (None, p')" "p_mem p' = m"
    "p_prot p' = p_prot p"
    "p_ctx p' = (p_ctx p)\<lparr>jmprel := j, trace_handlers_tqlist :=
       [\<lparr>h_type = SHIVA_TRACE_BP_PLTGOT, handler_fn = fn, bp_tqlist = bps @ [bp]\<rparr>]\<rparr>"
    "bp_type bp = SHIVA_TRACE_BP_PLTGOT" "bp_symbol bp = h"
    "retaddr_list bp = map (\<lambda>b. bs_retaddr b + base) (filter (plt_call_to name) (branch_tqlist (p_ctx p)))"
proof -
  let ?obj = "ctx_elfobj (p_ctx p)" and ?got = "pltgot_offset e + base"
  let ?p1 = "p\<lparr>p_calls := Suc (p_calls p)\<rparr>"
  let ?p2 = "?p1\<lparr>p_mem := store64 (p_mem p) ?got fn\<rparr>"
  have malloc: "sys_malloc os len q = (Some j, q\<lparr>p_calls := Suc (p_calls q)\<rparr>)" for len q
    using assms(12) by (simp add: sys_malloc_def)
  obtain p3 where p3: "jmprel_alloc os (sec_size sec) ?p2 = Some p3" "p_mem p3 = p_mem ?p2" "p_prot p3 = p_prot p"
    "p_ctx p3 = (p_ctx p)\<lparr>jmprel := j\<rparr>"
    using jmprel_alloc_run [OF assms(12,11), of ?p2 "sec_size sec"] assms(13) by auto
  have none: "shiva_target_dynamic_set tag v q = Some (False, q)" if "ctx_elfobj (p_ctx q) = ?obj" for tag v q
    using assms(3) that by (simp add: shiva_target_dynamic_set_def)
  have deact: "pltgot_deactivate os name ?p2 = Some ((None, h), p3\<lparr>p_mem := m\<rparr>)"
  proof -
    have base: "ul_base_vaddr (ulexec (p_ctx ?p2)) = base" and obj: "ctx_elfobj (p_ctx ?p2) = ?obj" by (simp_all add: assms(6))
    have j: "jmprel (p_ctx p3) = j" "ctx_elfobj (p_ctx (p3\<lparr>p_mem := m\<rparr>)) = ?obj" by (simp_all add: p3(4))
    have mem: "p_mem p3 = store64 (p_mem p) ?got fn" by (simp add: p3(2))
    have "\<not> n \<le> cnt" using assms(15) by simp
    then show ?thesis
      unfolding pltgot_deactivate_def Let_def base obj assms(8) option.case p3(1) bind.bind_lunit mem j assms(10) [symmetric] assms(14) prod.case
      by (simp add: assms(9) none [OF j(2)])
  qed
  obtain bp p5 where bp: "add_retaddrs os (plt_call_to name) (\<lambda>b bp. bp\<lparr>bp_plt_addr := target_vaddr b\<rparr>)
      (branch_tqlist (p_ctx p)) ((pltgot_bp ?obj base (pltgot_offset e) (load64 (p_mem p) ?got))
        \<lparr>bp_symbol := h, symbol_location := (h \<noteq> None)\<rparr>) (p3\<lparr>p_mem := m\<rparr>) = Some (bp, p5)"
    using add_retaddrs_returns [OF assms(2)] by (metis surj_pair)
  note res = add_retaddrs_result [OF bp] add_retaddrs_frame [OF bp]
  have "set_bp_pltgot_entry False os 0 fn name e p = Some (None, add_bp 0 bp p5)"
    unfolding set_bp_pltgot_entry_def malloc prod.case option.case Let_def
    using assms(7) deact bp
    by (simp add: assms(6) [symmetric] p_write_def p3(4) store64_def [symmetric] del: le_bytes.simps)
  then have "set_bp_pltgot False os 0 fn name p = Some ((None, True), add_bp 0 bp p5)"
    by (simp add: set_bp_pltgot_def Let_def assms(4,5))
  then have "shiva_trace_set_breakpoint sa False os fn 0 name p = Some (None, add_bp 0 bp p5)"
    by (simp add: shiva_trace_set_breakpoint_def assms(1) set_bp_one_def)
  moreover have "p_ctx (add_bp 0 bp p5) = (p_ctx p)\<lparr>jmprel := j, trace_handlers_tqlist :=
       [\<lparr>h_type = SHIVA_TRACE_BP_PLTGOT, handler_fn = fn, bp_tqlist = bps @ [bp]\<rparr>]\<rparr>"
    using res by (simp add: add_bp_def Let_def p3 assms(1))
  ultimately show thesis
    using res by (intro that [of "add_bp 0 bp p5" bp]) (simp_all add: p3 pltgot_bp_def zero_bp_def shiva_trace_base_addr_def assms(6))
qed

text \<open>The two hooks.\<close>

definition hook_mem1 :: "string \<Rightarrow> mem" where
  "hook_mem1 other = store64 (p_mem (example_plt_proc other)) 0x40003018 0x50000000"

definition hook_mem2 :: "string \<Rightarrow> mem" where
  "hook_mem2 other = store64 (write_bytes (hook_mem1 other) 0x600000 (read_bytes (hook_mem1 other) 0x40000518 24)) 0x40003020 0x50000000"

lemma example_separate:
  "separate 0x40003018 8 0x40000508 8" "separate 0x40003018 8 0x40000520 8"
  "separate 0x40003020 8 0x40000508 8" "separate 0x40003020 8 0x40000520 8"
  "separate 0x600000 24 0x40000508 8" "separate 0x600000 24 0x40000520 8"
proof -
  have sym: "separate a n b k" if "separate b k a n" for a b :: u64 and n k using that by (auto simp: separate_def)
  show "separate 0x40003018 8 0x40000508 8" by (rule sym) (use separate_offsets [of "0x508" 8 "0x3018" 8 "0x40000000"] in simp)
  show "separate 0x40003018 8 0x40000520 8" by (rule sym) (use separate_offsets [of "0x520" 8 "0x3018" 8 "0x40000000"] in simp)
  show "separate 0x40003020 8 0x40000508 8" by (rule sym) (use separate_offsets [of "0x508" 8 "0x3020" 8 "0x40000000"] in simp)
  show "separate 0x40003020 8 0x40000520 8" by (rule sym) (use separate_offsets [of "0x520" 8 "0x3020" 8 "0x40000000"] in simp)
  show "separate 0x600000 24 0x40000508 8" using separate_offsets [of "0x600000" 24 "0x40000508" 8 0] by simp
  show "separate 0x600000 24 0x40000520 8" using separate_offsets [of "0x600000" 24 "0x40000520" 8 0] by simp
qed

lemma example_plt_words:
  "load64 (p_mem (example_plt_proc other)) 0x40000508 = 0x100000007" "load64 (p_mem (example_plt_proc other)) 0x40000520 = 0x200000007"
  by code_simp+

lemma example_records:
  "load64 (hook_mem1 other) 0x40000508 = 0x100000007" "load64 (hook_mem1 other) 0x40000520 = 0x200000007"
  "load64 (hook_mem2 other) 0x40000508 = 0x100000007" "load64 (hook_mem2 other) 0x40000520 = 0x200000007"
  by (simp_all add: hook_mem1_def hook_mem2_def load64_def store64_def read_write_separate example_separate
      example_plt_words [unfolded load64_def] del: le_bytes.simps)

text \<open>The two cases of a jump slot: of the hooked symbol and of another one.\<close>

lemma alt_relocs_slot:
  assumes "load64 m (ptr + 8) = info" and "(ucast info :: u32) = 7" and "elf_symbol_by_index obj (drop_bit 32 info) = Some s"
  shows "sym_name s = name \<Longrightarrow> alt_relocs obj name (Suc n) ptr jr cnt h m = alt_relocs obj name n (ptr + 24) jr cnt (Some s) m"
    "sym_name s \<noteq> name \<Longrightarrow> alt_relocs obj name (Suc n) ptr jr cnt h m =
       alt_relocs obj name n (ptr + 24) jr (Suc cnt) h (write_bytes m (jr + 24 * of_nat cnt) (read_bytes m ptr 24))"
  using assms by (simp_all add: R_X86_64_JUMP_SLOT_def)

lemma example_symbols:
  "elf_symbol_by_index (example_plt_obj other) (drop_bit 32 0x100000007) = Some (example_func other 0)"
  "elf_symbol_by_index (example_plt_obj other) (drop_bit 32 0x200000007) = Some (example_func ''read'' 0)"
  "sym_name (example_func n v) = n"
  by (simp_all add: example_plt_obj_def example_func_def)

lemma example_alt_relocs:
  assumes "other \<noteq> ''read''"
  shows "alt_relocs (example_plt_obj other) other 2 0x40000500 0x600000 0 None (hook_mem1 other) =
     (True, 1, Some (example_func other 0), write_bytes (hook_mem1 other) 0x600000 (read_bytes (hook_mem1 other) 0x40000518 24))"
  "alt_relocs (example_plt_obj other) ''read'' 2 0x40000500 0x600000 0 None (hook_mem2 other) =
     (True, 1, Some (example_func ''read'' 0), write_bytes (hook_mem2 other) 0x600000 (read_bytes (hook_mem2 other) 0x40000500 24))"
proof -
  let ?m = "write_bytes (hook_mem2 other) 0x600000 (read_bytes (hook_mem2 other) 0x40000500 24)"
  have words: "(ucast (0x100000007 :: u64) :: u32) = 7" "(ucast (0x200000007 :: u64) :: u32) = 7" by simp_all
  have m: "load64 ?m 0x40000520 = 0x200000007"
    using example_records(4) by (simp add: load64_def read_write_separate example_separate)
  show "alt_relocs (example_plt_obj other) other 2 0x40000500 0x600000 0 None (hook_mem1 other) =
     (True, 1, Some (example_func other 0), write_bytes (hook_mem1 other) 0x600000 (read_bytes (hook_mem1 other) 0x40000518 24))"
    unfolding numeral_2_eq_2
    using alt_relocs_slot(1) [of "hook_mem1 other" "0x40000500" _ _ _ "other" "Suc 0", OF _ words(1) example_symbols(1)]
      alt_relocs_slot(2) [of "hook_mem1 other" "0x40000518" _ _ _ "other" 0, OF _ words(2) example_symbols(2)]
    by (simp add: example_records example_symbols assms assms [symmetric] del: alt_relocs.simps(2))
  show "alt_relocs (example_plt_obj other) ''read'' 2 0x40000500 0x600000 0 None (hook_mem2 other) =
     (True, 1, Some (example_func ''read'' 0), ?m)"
    unfolding numeral_2_eq_2
    using alt_relocs_slot(2) [of "hook_mem2 other" "0x40000500" _ _ _ "''read''" "Suc 0", OF _ words(1) example_symbols(1)]
      alt_relocs_slot(1) [of ?m "0x40000518" _ _ _ "''read''" 0, OF _ words(2) example_symbols(2)]
    by (simp add: example_records example_symbols assms m del: alt_relocs.simps(2))
qed

lemma example_plt_obj_simps [simp]:
  "elf_segments (example_plt_obj other) = []" "elf_plts (example_plt_obj other) = example_plts other"
  "elf_plt_by_name (example_plt_obj other) n = find (\<lambda>e. plt_symname e = n) (example_plts other)"
  "elf_pltgots (example_plt_obj other) = [\<lparr>pltgot_offset = 0x3018, pltgot_value = 0x1016, pltgot_stub = True\<rparr>,
     \<lparr>pltgot_offset = 0x3020, pltgot_value = 0x1026, pltgot_stub = True\<rparr>]"
  "elf_section_by_name (example_plt_obj other) ''.rela.plt'' = Some \<lparr>sec_name = ''.rela.plt'', sec_flags = 0, sec_size = 48,
     sec_offset = 0x500, sec_address = 0x500, sec_entsize = 24\<rparr>"
  by (simp_all add: example_plt_obj_def null_elfobj_def)

lemma example_hook:
  assumes "trace_handlers_tqlist (p_ctx p) = [\<lparr>h_type = SHIVA_TRACE_BP_PLTGOT, handler_fn = fn, bp_tqlist = bps\<rparr>]"
    and obj: "ctx_elfobj (p_ctx p) = example_plt_obj other" and "ul_base_vaddr (ulexec (p_ctx p)) = 0x40000000"
    and "p_prot p = (\<lambda>_. 7)" and "jmprel (p_ctx p) = 0 \<or> jmprel (p_ctx p) = 0x600000"
    and plt: "elf_plt_by_name (example_plt_obj other) name = Some plt"
    and e: "find (\<lambda>e. pltgot_stub e \<and> pltgot_value e = plt_addr plt + 6) (elf_pltgots (example_plt_obj other)) = Some e"
    and alt: "alt_relocs (example_plt_obj other) name 2 0x40000500 0x600000 0 None
           (store64 (p_mem p) (pltgot_offset e + 0x40000000) fn) = (True, 1, h, m)"
  obtains p' bp where "shiva_trace_set_breakpoint True False example_os fn 0 name p = Some (None, p')" "p_mem p' = m"
    "p_prot p' = (\<lambda>_. 7)"
    "p_ctx p' = (p_ctx p)\<lparr>jmprel := 0x600000, trace_handlers_tqlist :=
       [\<lparr>h_type = SHIVA_TRACE_BP_PLTGOT, handler_fn = fn, bp_tqlist = bps @ [bp]\<rparr>]\<rparr>"
    "bp_type bp = SHIVA_TRACE_BP_PLTGOT" "bp_symbol bp = h"
    "retaddr_list bp = map (\<lambda>b. bs_retaddr b + 0x40000000) (filter (plt_call_to name) (branch_tqlist (p_ctx p)))"
proof -
  have os: "malloc_ok example_os" "\<forall>k l. os_malloc example_os k l = Some 0x600000"
    by (simp_all add: malloc_ok_def example_os_def)
  have wr: "writable (p_prot p) (pltgot_offset e + 0x40000000) 8"
    by (simp add: assms(4) writable_def has_flag_def PROT_WRITE_def)
  define sec where "sec = \<lparr>sec_name = ''.rela.plt'', sec_flags = 0, sec_size = 48,
     sec_offset = 0x500, sec_address = 0x500, sec_entsize = 24\<rparr>"
  have sec: "elf_section_by_name (ctx_elfobj (p_ctx p)) ''.rela.plt'' = Some sec" "sec_entsize sec \<noteq> 0"
      "2 = unat (sec_size sec) div unat (sec_entsize sec)" "0x40000000 + sec_offset sec = 0x40000500"
    by (simp_all add: obj sec_def)
  show thesis
    by (rule got_hook_run [OF assms(1) os(1) _ _ _ assms(3) [symmetric] wr sec(1-3) _ os(2) assms(5),
          where name = name and plt = plt and cnt = 1 and h = h and m = m and sa = True])
      (use plt e alt obj sec(4) assms(4) that in simp_all)
qed

lemma example_plt_entries:
  assumes "other \<noteq> ''read''" and "other \<noteq> ''PLT-0''"
  shows "elf_plt_by_name (example_plt_obj other) other = Some ((example_plts other) ! 1)"
  "find (\<lambda>e. pltgot_stub e \<and> pltgot_value e = plt_addr ((example_plts other) ! 1) + 6) (elf_pltgots (example_plt_obj other)) =
     Some \<lparr>pltgot_offset = 0x3018, pltgot_value = 0x1016, pltgot_stub = True\<rparr>"
  "elf_plt_by_name (example_plt_obj other) ''read'' = Some ((example_plts other) ! 2)"
  "find (\<lambda>e. pltgot_stub e \<and> pltgot_value e = plt_addr ((example_plts other) ! 2) + 6) (elf_pltgots (example_plt_obj other)) =
     Some \<lparr>pltgot_offset = 0x3020, pltgot_value = 0x1026, pltgot_stub = True\<rparr>"
  using assms by (auto simp: example_plts_def)

lemma example_cfi_run:
  assumes "other \<noteq> ''read''" and "other \<noteq> ''PLT-0''"
  obtains p' b1 b2 where "cfi_main True False False example_os 0 0x50000000 (example_plt_proc other) = Some (0, p')"
    "ctx_shiva_elfobj (p_ctx p') = example_shiva_obj other" "ctx_shiva_base (p_ctx p') = 0x400000"
    "trace_handlers_tqlist (p_ctx p') =
       [\<lparr>h_type = SHIVA_TRACE_BP_PLTGOT, handler_fn = 0x50000000, bp_tqlist = [b1, b2]\<rparr>]"
    "bp_type b1 = SHIVA_TRACE_BP_PLTGOT" "bp_symbol b1 = Some (example_func other 0)"
    "retaddr_list b1 = (if prefix ''read'' other then [0x40002005] else [])"
    "bp_type b2 = SHIVA_TRACE_BP_PLTGOT" "bp_symbol b2 = Some (example_func ''read'' 0)"
    "retaddr_list b2 = [0x40002005]"
proof -
  let ?p = "example_plt_proc other" and ?b = "(example_site 0x2000)\<lparr>bs_symbol := example_func ''read@plt'' 0x1020\<rparr>"
  have zero: "thread_tqlist (p_ctx ?p) = []" "trace_handlers_tqlist (p_ctx ?p) = []" "malloc_ok example_os"
    by (simp_all add: example_plt_proc_def zero_ctx_def malloc_ok_def example_os_def)
  have at: "ctx_elfobj (p_ctx ?p) = example_plt_obj other" "ul_base_vaddr (ulexec (p_ctx ?p)) = 0x40000000"
    "branch_tqlist (p_ctx ?p) = [?b]" "jmprel (p_ctx ?p) = 0" "p_prot ?p = (\<lambda>_. 7)"
    "ctx_shiva_elfobj (p_ctx ?p) = example_shiva_obj other" "ctx_shiva_base (p_ctx ?p) = 0x400000"
    by (simp_all add: example_plt_proc_def zero_ctx_def zero_ulexec_def)
  obtain p1 where p1: "shiva_trace example_os False 0 0 SHIVA_TRACE_OP_ATTACH 0 [] 0 ?p = Some (True, None, p1)"
    using example_os_attach [OF zero(1)] by blast
  obtain ts p2 where p2: "shiva_trace_register_handler example_os 0x50000000 SHIVA_TRACE_BP_PLTGOT p1 = (None, p2)"
      "p_mem p2 = p_mem ?p" "p_prot p2 = p_prot ?p" "p_ctx p2 = (p_ctx ?p)\<lparr>thread_tqlist := ts, trace_handlers_tqlist := trace_handlers_tqlist (p_ctx ?p) @
         [\<lparr>h_type = SHIVA_TRACE_BP_PLTGOT, handler_fn = 0x50000000, bp_tqlist = []\<rparr>]\<rparr>"
    by (rule attach_register [OF p1 zero(3)])
  have prot: "p_prot p2 = (\<lambda>_. 7)" using p2(3) at(5) by simp
  have start: "hook_start example_os False 0 0x50000000 SHIVA_TRACE_BP_PLTGOT ?p = Some (True, p2)"
    using p1 p2(1) by (simp add: hook_start_def)
  have ctx2: "trace_handlers_tqlist (p_ctx p2) = [\<lparr>h_type = SHIVA_TRACE_BP_PLTGOT, handler_fn = 0x50000000, bp_tqlist = []\<rparr>]"
    "ctx_elfobj (p_ctx p2) = example_plt_obj other" "ul_base_vaddr (ulexec (p_ctx p2)) = 0x40000000"
    "jmprel (p_ctx p2) = 0 \<or> jmprel (p_ctx p2) = 0x600000"
    by (simp_all add: p2(4) zero at)
  have alt1: "alt_relocs (example_plt_obj other) other 2 0x40000500 0x600000 0 None
      (store64 (p_mem p2) (pltgot_offset \<lparr>pltgot_offset = 0x3018, pltgot_value = 0x1016, pltgot_stub = True\<rparr> + 0x40000000) 0x50000000) =
      (True, 1, Some (example_func other 0), write_bytes (hook_mem1 other) 0x600000 (read_bytes (hook_mem1 other) 0x40000518 24))"
    using example_alt_relocs(1) [OF assms(1)] by (simp add: p2(2) hook_mem1_def)
  obtain p3 b1 where p3: "shiva_trace_set_breakpoint True False example_os 0x50000000 0 other p2 = Some (None, p3)"
      "p_mem p3 = write_bytes (hook_mem1 other) 0x600000 (read_bytes (hook_mem1 other) 0x40000518 24)" "p_prot p3 = (\<lambda>_. 7)"
      "p_ctx p3 = (p_ctx p2)\<lparr>jmprel := 0x600000, trace_handlers_tqlist :=
         [\<lparr>h_type = SHIVA_TRACE_BP_PLTGOT, handler_fn = 0x50000000, bp_tqlist = [] @ [b1]\<rparr>]\<rparr>"
      "bp_type b1 = SHIVA_TRACE_BP_PLTGOT" "bp_symbol b1 = Some (example_func other 0)"
      "retaddr_list b1 = map (\<lambda>b. bs_retaddr b + 0x40000000) (filter (plt_call_to other) (branch_tqlist (p_ctx p2)))"
    by (rule example_hook [OF ctx2(1-3) prot ctx2(4) example_plt_entries(1,2) [OF assms] alt1])
  have ctx3: "ctx_elfobj (p_ctx p3) = example_plt_obj other" "ul_base_vaddr (ulexec (p_ctx p3)) = 0x40000000"
    "jmprel (p_ctx p3) = 0 \<or> jmprel (p_ctx p3) = 0x600000"
    "trace_handlers_tqlist (p_ctx p3) = [\<lparr>h_type = SHIVA_TRACE_BP_PLTGOT, handler_fn = 0x50000000, bp_tqlist = [] @ [b1]\<rparr>]"
    by (simp_all add: p3(4) p2(4) at)
  have alt2: "alt_relocs (example_plt_obj other) ''read'' 2 0x40000500 0x600000 0 None
      (store64 (p_mem p3) (pltgot_offset \<lparr>pltgot_offset = 0x3020, pltgot_value = 0x1026, pltgot_stub = True\<rparr> + 0x40000000) 0x50000000) =
      (True, 1, Some (example_func ''read'' 0), write_bytes (hook_mem2 other) 0x600000 (read_bytes (hook_mem2 other) 0x40000500 24))"
    using example_alt_relocs(2) [OF assms(1)] by (simp add: p3(2) hook_mem2_def)
  obtain p4 b2 where p4: "shiva_trace_set_breakpoint True False example_os 0x50000000 0 ''read'' p3 = Some (None, p4)"
      "p_ctx p4 = (p_ctx p3)\<lparr>jmprel := 0x600000, trace_handlers_tqlist :=
         [\<lparr>h_type = SHIVA_TRACE_BP_PLTGOT, handler_fn = 0x50000000, bp_tqlist = ([] @ [b1]) @ [b2]\<rparr>]\<rparr>"
      "bp_type b2 = SHIVA_TRACE_BP_PLTGOT" "bp_symbol b2 = Some (example_func ''read'' 0)"
      "retaddr_list b2 = map (\<lambda>b. bs_retaddr b + 0x40000000) (filter (plt_call_to ''read'') (branch_tqlist (p_ctx p3)))"
    by (rule example_hook [OF ctx3(4,1,2) p3(3) ctx3(3) example_plt_entries(3,4) [OF assms] alt2])
  have "cfi_loop True False example_os 0x50000000 (example_plts other) p2 = Some (0, p4)"
    using p3(1) p4(1) assms(2) by (simp add: example_plts_def)
  then have main: "cfi_main True False False example_os 0 0x50000000 ?p = Some (0, p4)"
    by (simp add: cfi_main_def start p2(4) at(1))
  have "named_call ''read'' ?b" and ret: "bs_retaddr ?b = 0x2005"
    by (simp_all add: named_call_def example_func_def example_site_def)
  then have "plt_call_to name ?b \<longleftrightarrow> prefix ''read'' name" for name using plt_call_to_named by simp
  then have rets: "retaddr_list b1 = (if prefix ''read'' other then [0x40002005] else [])" "retaddr_list b2 = [0x40002005]"
    using p3(7) p4(5) ret by (simp_all add: p3(4) p2(4) at(3))
  have "ctx_shiva_elfobj (p_ctx p4) = example_shiva_obj other" "ctx_shiva_base (p_ctx p4) = 0x400000"
    "trace_handlers_tqlist (p_ctx p4) =
       [\<lparr>h_type = SHIVA_TRACE_BP_PLTGOT, handler_fn = 0x50000000, bp_tqlist = [b1, b2]\<rparr>]"
    by (simp_all add: p4(2) p3(4) p2(4) at)
  then show thesis using p3(5,6) p4(3,4) main rets by (intro that [of p4 b1 b2])
qed

lemma example_plt_ctx:
  "trace_handlers_tqlist (p_ctx (example_plt_proc other)) = []"
  "ctx_elfobj (p_ctx (example_plt_proc other)) = example_plt_obj other"
  "ctx_shiva_elfobj (p_ctx (example_plt_proc other)) = example_shiva_obj other"
  "ctx_shiva_base (p_ctx (example_plt_proc other)) = 0x400000"
  "ul_base_vaddr (ulexec (p_ctx (example_plt_proc other))) = 0x40000000"
  "branch_tqlist (p_ctx (example_plt_proc other)) = [(example_site 0x2000)\<lparr>bs_symbol := example_func ''read@plt'' 0x1020\<rparr>]"
  by (simp_all add: example_plt_proc_def zero_ctx_def zero_ulexec_def)

text \<open>The recorded call of \<open>read\<close> is let through, a return to another place is not.\<close>

theorem plt_cfi_enforced_witness:
  "\<exists>p'. cfi_main True False False example_os 0 0x50000000 (example_plt_proc ''puts'') = Some (0, p') \<and>
     (\<exists>m'. plt_handler 0x50000000 (p_ctx p') 0x700000 example_regs 1 0x40002005 (\<lambda>_. 0) =
        Some (Handler_calls \<lparr>oc_function = 0x402000, oc_args = [1, 4, 3, 2]\<rparr>, m')) \<and>
     (\<exists>m'. plt_handler 0x50000000 (p_ctx p') 0x700000 example_regs 1 0x40009999 (\<lambda>_. 0) = Some (Handler_exits, m'))"
proof -
  have other: "''puts'' \<noteq> ''read''" "''puts'' \<noteq> ''PLT-0''" by simp_all
  obtain p' b1 b2 where p': "cfi_main True False False example_os 0 0x50000000 (example_plt_proc ''puts'') = Some (0, p')"
    "ctx_shiva_elfobj (p_ctx p') = example_shiva_obj ''puts''" "ctx_shiva_base (p_ctx p') = 0x400000"
    "trace_handlers_tqlist (p_ctx p') =
       [\<lparr>h_type = SHIVA_TRACE_BP_PLTGOT, handler_fn = 0x50000000, bp_tqlist = [b1, b2]\<rparr>]"
    "bp_type b1 = SHIVA_TRACE_BP_PLTGOT" "retaddr_list b1 = (if prefix ''read'' ''puts'' then [0x40002005] else [])"
    "bp_type b2 = SHIVA_TRACE_BP_PLTGOT" "bp_symbol b2 = Some (example_func ''read'' 0)" "retaddr_list b2 = [0x40002005]"
    by (rule example_cfi_run [OF other])
  have fresh: "\<forall>h \<in> set (trace_handlers_tqlist (p_ctx (example_plt_proc ''puts''))). handler_fn h \<noteq> 0x50000000"
    by (simp add: example_plt_ctx)
  have clear: "clear_names (elf_plts (ctx_elfobj (p_ctx (example_plt_proc ''puts''))))
      (branch_tqlist (p_ctx (example_plt_proc ''puts'')))"
    by (simp add: clear_names_def example_plt_ctx example_plts_def example_func_def)
  have "cfi_target (p_ctx p') 0x40002005 [b1, b2] = Some (Some 0x402000)"
    using p'(2,3,5-) by (simp add: example_shiva_obj_def example_func_def)
  then have "\<exists>m'. plt_handler 0x50000000 (p_ctx p') 0x700000 example_regs 1 0x40002005 (\<lambda>_. 0) =
      Some (Handler_calls \<lparr>oc_function = 0x402000, oc_args = [1, 4, 3, 2]\<rparr>, m')"
    using saved_args [where r = example_regs and regs = "0x700000" and m = "\<lambda>_. 0" and ret = "0x40002005" and arg = 1, OF refl] p'(4)
    by (simp add: plt_handler_def shiva_trace_find_handler_def Let_def example_regs_def)
  with plt_cfi_enforced [OF p'(1) fresh clear, of "0x700000" example_regs 1 "0x40009999" "\<lambda>_. 0"] p'(1)
  show ?thesis by (auto simp: example_plt_ctx example_site_def)
qed

text \<open>With \<open>readlink\<close> in the table the call of \<open>read\<close> ends up there.\<close>

theorem plt_cfi_prefix_confusion_witness:
  "\<exists>p' m'. cfi_main True False False example_os 0 0x50000000 (example_plt_proc ''readlink'') = Some (0, p') \<and>
     elf_symbol_by_name (example_shiva_obj ''readlink'') ''readlink'' = Some (example_func ''readlink'' 0x401000) \<and>
     plt_handler 0x50000000 (p_ctx p') 0x700000 example_regs 1 0x40002005 (\<lambda>_. 0) =
       Some (Handler_calls \<lparr>oc_function = 0x401000, oc_args = [1, 4, 3, 2]\<rparr>, m')"
proof -
  let ?p = "example_plt_proc ''readlink''" and ?b = "(example_site 0x2000)\<lparr>bs_symbol := example_func ''read@plt'' 0x1020\<rparr>"
  have other: "''readlink'' \<noteq> ''read''" "''readlink'' \<noteq> ''PLT-0''" by simp_all
  obtain p' b1 b2 where p': "cfi_main True False False example_os 0 0x50000000 ?p = Some (0, p')"
    "trace_handlers_tqlist (p_ctx p') =
       [\<lparr>h_type = SHIVA_TRACE_BP_PLTGOT, handler_fn = 0x50000000, bp_tqlist = [b1, b2]\<rparr>]"
    "bp_symbol b1 = Some (example_func ''readlink'' 0)" "bp_symbol b2 = Some (example_func ''read'' 0)"
    by (rule example_cfi_run [OF other])
  have find: "shiva_trace_find_handler (p_ctx p') 0x50000000 =
      Some \<lparr>h_type = SHIVA_TRACE_BP_PLTGOT, handler_fn = 0x50000000, bp_tqlist = [b1, b2]\<rparr>"
    using p'(2) by (simp add: shiva_trace_find_handler_def)
  have sym: "elf_symbol_by_name (example_shiva_obj ''readlink'') ''readlink'' = Some (example_func ''readlink'' 0x401000)"
    by (simp add: example_shiva_obj_def)
  from plt_cfi_prefix_confusion [OF p'(1), of ?b "''read''" _ "[example_func ''readlink'' 0, example_func ''read'' 0]"
      "example_func ''readlink'' 0" "example_func ''readlink'' 0x401000", OF _ _ _ _ _ _ find, of "0x700000" example_regs 1 "\<lambda>_. 0"]
  have "\<exists>m'. plt_handler 0x50000000 (p_ctx p') 0x700000 example_regs 1 0x40002005 (\<lambda>_. 0) =
       Some (Handler_calls \<lparr>oc_function = 0x401000, oc_args = [1, 4, 3, 2]\<rparr>, m')"
    by (simp add: example_plt_ctx p' sym) (simp add: example_func_def example_site_def example_regs_def sym)
  with p'(1) sym show ?thesis by blast
qed

end
