(* ===== verification/Ldso_Fuzz.thy ===== *)
theory Ldso_Fuzz
  imports Hook_Modules Auxv Module
begin

text \<open>
  \<^verbatim>\<open>modules/examples/ldso_fuzz.c\<close>: the module that damages the dynamic section before the dynamic linker
  runs and makes the linker come back to the module. The random numbers (the n-th call of \<open>rand\<close>, whose
  seeds are times), the uninitialised first tag and the end of the data segment are arguments.
\<close>

section \<open>The module\<close>

definition MAX_DT_VALUE :: u64 where "MAX_DT_VALUE = 30"

definition fuzz_tag :: "(nat \<Rightarrow> u64) \<Rightarrow> nat \<Rightarrow> u64" where
  "fuzz_tag rnd i = rnd (2 * i + 1) AND (MAX_DT_VALUE - 1)"

text \<open>The i-th round of the loop draws two numbers; \<open>tag\<close> is the tag of the round before.\<close>

partial_function (option) fuzz_loop :: "(nat \<Rightarrow> u64) \<Rightarrow> u64 \<Rightarrow> nat \<Rightarrow> u64 \<Rightarrow> proc \<Rightarrow> ((u64 \<times> u64) \<times> proc) option" where
  "fuzz_loop rnd highest_vaddr i tag p =
     (let rand_val = (if tag mod 2 = 0 then rnd (2 * i) AND (highest_vaddr - 1) else rnd (2 * i));
          tag_value = fuzz_tag rnd i
      in do {
        (ok, p) \<leftarrow> shiva_target_dynamic_set tag_value rand_val p;
        if ok then Some ((tag_value, rand_val), p) else fuzz_loop rnd highest_vaddr (Suc i) tag_value p
      })"

lemma auxv_next_index:
  "shiva_auxv_iterator_next m it e = (SHIVA_ITER_OK, e', it') \<Longrightarrow>
     it' = it\<lparr>ai_index := Suc (ai_index it)\<rparr> \<and> ai_index it < ERRONEOUS_AUXV_COUNT"
  by (auto simp: shiva_auxv_iterator_next_def Let_def split: if_split_asm)

text \<open>The loop that sets the entry point; \<open>False\<close> is \<open>exit(-1)\<close>, \<open>None\<close> the access through a null
  module.\<close>

function entry_loop :: "link_env \<Rightarrow> shiva_module option \<Rightarrow> shiva_auxv_iterator \<Rightarrow> shiva_auxv_entry \<Rightarrow> mem \<Rightarrow>
    (bool \<times> mem) option" where
  "entry_loop env runtime a_iter a_entry m =
     (case shiva_auxv_iterator_next m a_iter a_entry of
        (SHIVA_ITER_OK, a_entry, a_iter) \<Rightarrow>
          if ae_type a_entry = ucast AT_ENTRY then
            (case runtime of
               None \<Rightarrow> None
             | Some linker \<Rightarrow>
                 (case module_entrypoint env linker of
                    None \<Rightarrow> Some (False, m)
                  | Some entry \<Rightarrow>
                      (case shiva_auxv_set_value m a_iter entry of
                         (False, m) \<Rightarrow> Some (False, m)
                       | (True, m) \<Rightarrow> entry_loop env runtime a_iter a_entry m)))
          else entry_loop env runtime a_iter a_entry m
      | _ \<Rightarrow> Some (True, m))"
  by pat_completeness auto
termination
  by (relation "measure (\<lambda>(env, runtime, it, e, m). ERRONEOUS_AUXV_COUNT - ai_index it)")
    (auto dest!: auxv_next_index sym [of _ "shiva_auxv_iterator_next _ _ _"])

declare entry_loop.simps [simp del]

text \<open>The breakpoint is set on the first run only. A failure there is \<open>return false\<close>, which is 0.\<close>

definition fuzz_hook :: "bool \<Rightarrow> bool \<Rightarrow> os \<Rightarrow> u64 \<Rightarrow> bool \<Rightarrow> proc \<Rightarrow> (trace_error option \<times> proc) option" where
  "fuzz_hook standalone symnull os self second_run p =
     (if second_run then Some (None, p)
      else (case shiva_trace_register_handler os self SHIVA_TRACE_BP_CALL p of
              (err, p) \<Rightarrow>
                if err \<noteq> None then Some (err, p)
                else shiva_trace_set_breakpoint standalone symnull os self 0x101e480 [] p))"

definition fuzz_main :: "bool \<Rightarrow> bool \<Rightarrow> link_env \<Rightarrow> os \<Rightarrow> bool \<Rightarrow> u64 \<Rightarrow> u64 \<Rightarrow> bool \<Rightarrow> (nat \<Rightarrow> u64) \<Rightarrow> u64 \<Rightarrow> u64 \<Rightarrow>
    proc \<Rightarrow> (int hook_result \<times> proc) option" where
  "fuzz_main standalone symnull env os res0 status self second_run rnd tag_value highest_vaddr p =
     (if \<forall>s \<in> set (elf_segments (ctx_elfobj (p_ctx p))). seg_type s \<noteq> PT_DYNAMIC then Some (Hook_exits, p)
      else do {
        (ok, _, p) \<leftarrow> shiva_trace os res0 status 0 SHIVA_TRACE_OP_ATTACH 0 [] 0 p;
        if \<not> ok then Some (Hook_returns (-1), p)
        else do {
          (_, p) \<leftarrow> fuzz_loop rnd highest_vaddr 0 tag_value p;
          (err, p) \<leftarrow> fuzz_hook standalone symnull os self second_run p;
          if err \<noteq> None then Some (Hook_returns 0, p)
          else do {
            a_iter \<leftarrow> shiva_auxv_iterator_init p (ul_auxv (ulexec (p_ctx p)));
            case a_iter of
              None \<Rightarrow> Some (Hook_exits, p)
            | Some a_iter \<Rightarrow> do {
                (ok, m) \<leftarrow> entry_loop env (module_runtime (p_ctx p)) a_iter
                   \<lparr>ae_value = 0, ae_type = 0, ae_string = 0\<rparr> (p_mem p);
                Some (if ok then Hook_returns 0 else Hook_exits, p\<lparr>p_mem := m\<rparr>)
              }
          }
        }
      })"

text \<open>The handler of the breakpoint returns after it found its breakpoint.\<close>

definition assert_handler :: "u64 \<Rightarrow> shiva_ctx \<Rightarrow> u64 \<Rightarrow> shiva_trace_regset_x86_64 \<Rightarrow> u64 \<Rightarrow> u64 \<Rightarrow> u64 \<Rightarrow> mem \<Rightarrow>
    (unit hook_result \<times> mem) option" where
  "assert_handler self ctx regs r arg retaddr frmaddr m =
     (let m = shiva_trace_getregs_x86_64 (r\<lparr>r_rdi := regs\<rparr>) m;
          m = store64 m (regs + RBP_OFF) frmaddr;
          m = store64 m (regs + RIP_OFF) (retaddr - 5);
          m = store64 m (regs + RDI_OFF) arg
      in case shiva_trace_find_handler ctx self of
           None \<Rightarrow> Some (Hook_exits, m)
         | Some handler \<Rightarrow> do {
             bp \<leftarrow> SHIVA_TRACE_BP_STRUCT retaddr handler;
             Some (Hook_returns (), m)
           })"

section \<open>Damaging the dynamic section\<close>

text \<open>A target whose program headers lead to the dynamic section \<open>es\<close> at \<open>dyn\<close>, with writable values.\<close>

definition dynamic_at :: "u64 \<Rightarrow> (u64 \<times> u64) list \<Rightarrow> proc \<Rightarrow> bool" where
  "dynamic_at dyn es p \<longleftrightarrow>
     (let base = ul_base_vaddr (ulexec (p_ctx p)) in
      dyn = target_find_dynamic (p_mem p) base (base + elf_phoff (ctx_elfobj (p_ctx p)))
              (length (elf_segments (ctx_elfobj (p_ctx p)))) \<and>
      dyn \<noteq> 0 \<and> pairs_at (p_mem p) dyn es \<and> length es < 2 ^ 32 \<and>
      (\<forall>i < length es. writable (p_prot p) (dyn + 16 * of_nat i + 8) 8))"

text \<open>The rounds whose tag does not occur change nothing; the first tag that occurs ends the loop.\<close>

lemma fuzz_loop_run:
  assumes "dynamic_at dyn es p" and "fuzz_tag rnd (i + k) \<in> fst ` set es"
    and "\<forall>j < k. fuzz_tag rnd (i + j) \<notin> fst ` set es"
  shows "\<exists>v n. n < length es \<and> set_first (fuzz_tag rnd (i + k)) v es = es[n := (fst (es ! n), v)] \<and>
     fuzz_loop rnd highest i tag p =
       Some ((fuzz_tag rnd (i + k), v), p\<lparr>p_mem := store64 (p_mem p) (dyn + 16 * of_nat n + 8) v\<rparr>)"
proof -
  have dyn: "dyn = target_find_dynamic (p_mem p) (ul_base_vaddr (ulexec (p_ctx p)))
      (ul_base_vaddr (ulexec (p_ctx p)) + elf_phoff (ctx_elfobj (p_ctx p))) (length (elf_segments (ctx_elfobj (p_ctx p))))"
    "dyn \<noteq> 0" "pairs_at (p_mem p) dyn es" "\<forall>i < length es. writable (p_prot p) (dyn + 16 * of_nat i + 8) 8"
    using assms(1) unfolding dynamic_at_def Let_def by blast+
  show ?thesis
    using assms(2,3)
  proof (induction k arbitrary: i tag)
    case 0
    then have "fuzz_tag rnd i \<in> fst ` set es" by simp
    from dynamic_set_run(2) [OF refl dyn this, of "if tag mod 2 = 0 then rnd (2 * i) AND (highest - 1) else rnd (2 * i)"]
    show ?case by (subst fuzz_loop.simps, auto simp only: Let_def bind.bind_lunit prod.case if_True add_0_right) blast
  next
    case (Suc k)
    have "fuzz_tag rnd i \<notin> fst ` set es" using Suc.prems(2) by (metis add.right_neutral zero_less_Suc)
    from dynamic_set_run(1) [OF refl dyn this]
    have "fuzz_loop rnd highest i tag p = fuzz_loop rnd highest (Suc i) (fuzz_tag rnd i) p"
      by (subst fuzz_loop.simps) (simp add: Let_def)
    moreover have "fuzz_tag rnd (Suc i + k) \<in> fst ` set es" using Suc.prems(1) by simp
    moreover have "fuzz_tag rnd (Suc i + j) \<notin> fst ` set es" if "j < k" for j
      using Suc.prems(2) [rule_format, of "Suc j"] that by simp
    ultimately show ?case using Suc.IH [of "Suc i" "fuzz_tag rnd i"] by simp
  qed
qed

text \<open>The mask is no power of two less one: a tag with bit 1 is never drawn.\<close>

lemma fuzz_tag_bits: "\<not> bit (fuzz_tag rnd i) 1" "fuzz_tag rnd i < MAX_DT_VALUE"
proof -
  have "\<not> bit (29 :: u64) 1" by (simp add: bit_1_0 numeral_2_eq_2)
  then show "\<not> bit (fuzz_tag rnd i) 1" by (simp add: fuzz_tag_def MAX_DT_VALUE_def bit_and_iff)
  have "fuzz_tag rnd i \<le> 29" by (simp add: fuzz_tag_def MAX_DT_VALUE_def word_and_le1)
  then show "fuzz_tag rnd i < MAX_DT_VALUE" by (simp add: MAX_DT_VALUE_def word_le_nat_alt word_less_nat_alt)
qed

section \<open>Coming back to the module\<close>

definition entry_to :: "u64 \<Rightarrow> u64 \<times> u64 \<Rightarrow> u64 \<times> u64" where
  "entry_to entry e = (fst e, if (ucast (fst e) :: u32) = ucast AT_ENTRY then entry else snd e)"

lemma entry_loop_run:
  assumes "module_entrypoint env l = Some entry" and "pairs_at m a es" and "length es \<le> ERRONEOUS_AUXV_COUNT"
    and "i + n = length es"
  shows "\<exists>m'. entry_loop env (Some l) \<lparr>ai_index = i, ai_auxv = a\<rparr> e m = Some (True, m') \<and>
     pairs_at m' a (take i es @ map (entry_to entry) (drop i es)) \<and>
     (\<forall>x. \<not> in_region a (16 * length es) x \<longrightarrow> m' x = m x)"
  using assms(2-4)
proof (induction n arbitrary: i e m es)
  case 0
  then have "load64 m (a + 16 * of_nat i) = AT_NULL" by (auto simp: pairs_at_iff AT_NULL_def)
  then have "entry_loop env (Some l) \<lparr>ai_index = i, ai_auxv = a\<rparr> e m = Some (True, m)"
    by (simp add: entry_loop.simps shiva_auxv_iterator_next_def auxv_slot_def)
  then show ?case using 0 by simp
next
  case (Suc n)
  let ?it = "\<lparr>ai_index = Suc i, ai_auxv = a\<rparr>"
  have i: "i < length es" "i < ERRONEOUS_AUXV_COUNT" using Suc.prems(2,3) by simp_all
  then have at: "load64 m (a + 16 * of_nat i) = fst (es ! i)" "fst (es ! i) \<noteq> AT_NULL"
    using Suc.prems(1) by (auto simp: pairs_at_iff AT_NULL_def)
  then obtain e' where nxt: "shiva_auxv_iterator_next m \<lparr>ai_index = i, ai_auxv = a\<rparr> e = (SHIVA_ITER_OK, e', ?it)"
      "ae_type e' = ucast (fst (es ! i))"
    using i(2) by (auto simp: shiva_auxv_iterator_next_def auxv_slot_def Let_def)
  have split: "take i es @ map (entry_to entry) (drop i es) =
      take i es @ entry_to entry (es ! i) # map (entry_to entry) (drop (Suc i) es)"
    using i(1) by (simp flip: Cons_nth_drop_Suc)
  show ?case
  proof (cases "(ucast (fst (es ! i)) :: u32) = ucast AT_ENTRY")
    case False
    then have "entry_loop env (Some l) \<lparr>ai_index = i, ai_auxv = a\<rparr> e m = entry_loop env (Some l) ?it e' m"
      using nxt by (simp add: entry_loop.simps [of _ _ "\<lparr>ai_index = i, ai_auxv = a\<rparr>"])
    moreover have "entry_to entry (es ! i) = es ! i" using False by (simp add: entry_to_def)
    ultimately show ?thesis
      using Suc.IH [OF Suc.prems(1,2), where i = "Suc i" and e = e'] Suc.prems(3) i(1) split by (simp add: take_Suc_conv_app_nth)
  next
    case True
    let ?es = "es[i := (fst (es ! i), entry)]" and ?m = "store64 m (a + 16 * of_nat i + 8) entry"
    have len: "length es < 2 ^ 32" using Suc.prems(2) by (simp add: ERRONEOUS_AUXV_COUNT_def)
    have "entry_loop env (Some l) \<lparr>ai_index = i, ai_auxv = a\<rparr> e m = entry_loop env (Some l) ?it e' ?m"
      using nxt True assms(1)
      by (simp add: entry_loop.simps [of _ _ "\<lparr>ai_index = i, ai_auxv = a\<rparr>"] shiva_auxv_set_value_def auxv_slot_def)
    moreover obtain m' where m': "entry_loop env (Some l) ?it e' ?m = Some (True, m')"
        "pairs_at m' a (take (Suc i) ?es @ map (entry_to entry) (drop (Suc i) ?es))"
        "\<forall>x. \<not> in_region a (16 * length es) x \<longrightarrow> m' x = ?m x"
      using Suc.IH [OF pairs_at_store [OF Suc.prems(1) i(1) len], where i = "Suc i" and e = e'] Suc.prems(2,3) by auto
    moreover have "take (Suc i) ?es @ map (entry_to entry) (drop (Suc i) ?es) = take i es @ map (entry_to entry) (drop i es)"
      using i(1) True split by (simp add: take_Suc_conv_app_nth entry_to_def)
    moreover have "?m x = m x" if "\<not> in_region a (16 * length es) x" for x
    proof (rule store64_outside)
      have "unat (of_nat (16 * i + 8) :: u64) = 16 * i + 8" using i(1) len by (simp add: unat_of_nat take_bit_nat_eq_self del: of_nat_add of_nat_mult)
      then have small: "unat (16 * of_nat i + 8 :: u64) + 8 \<le> 16 * length es" using i(1) by simp
      show "\<not> in_region (a + 16 * of_nat i + 8) 8 x"
        using that in_region_sub [of a "16 * of_nat i + 8" 8 x "16 * length es"] small i(1) len by (auto simp: add.assoc)
    qed
    ultimately show ?thesis by simp
  qed
qed

lemma unat_of_nat_small: "n < 2 ^ 64 \<Longrightarrow> unat (of_nat n :: u64) = n"
  by (simp add: unat_of_nat take_bit_nat_eq_self)

lemma pairs_at_cong:
  assumes "pairs_at m a es" and "\<And>x. in_region a (16 * length es + 8) x \<Longrightarrow> m' x = m x" and "length es < 2 ^ 32"
  shows "pairs_at m' a es"
proof -
  have at: "load64 m' (a + of_nat j) = load64 m (a + of_nat j)" if "j + 8 \<le> 16 * length es + 8" for j
  proof -
    have "unat (of_nat j :: u64) = j" using that assms(3) by (simp add: unat_of_nat take_bit_nat_eq_self)
    then have "read_bytes m' (a + of_nat j) 8 = read_bytes m (a + of_nat j) 8"
      using in_region_sub [of a "of_nat j" 8 _ "16 * length es + 8"] that assms(2,3) by (intro read_bytes_eq) auto
    then show ?thesis by (simp add: load64_def)
  qed
  show ?thesis
    using assms(1) at [of "16 * _"] at [of "16 * _ + 8"] by (simp add: pairs_at_iff add.assoc)
qed

section \<open>A run\<close>

text \<open>C4. A run of the module after the first: as soon as a tag is drawn that occurs in the dynamic section
  of the target, the module returns; exactly the first entry with that tag has a new value, the tag is
  below 30 with bit 1 clear (the other tags are never damaged), and every entry point in the auxiliary
  vector of the new program is that of the module.\<close>

theorem fuzz_run:
  assumes "shiva_trace os res0 status 0 SHIVA_TRACE_OP_ATTACH 0 [] 0 p = Some (True, x, p1)"
    and "s \<in> set (elf_segments (ctx_elfobj (p_ctx p)))" and "seg_type s = PT_DYNAMIC"
    and "dynamic_at dyn es p"
    and "fuzz_tag rnd k \<in> fst ` set es" and "\<forall>j < k. fuzz_tag rnd j \<notin> fst ` set es"
    and "vec = ul_auxv (ulexec (p_ctx p))" and "vec \<noteq> 0" and "pairs_at (p_mem p) vec av"
    and "length av \<le> ERRONEOUS_AUXV_COUNT" and "separate dyn (16 * length es + 8) vec (16 * length av + 8)"
    and "module_runtime (p_ctx p) = Some l" and "module_entrypoint env l = Some entry"
  shows "\<exists>v p'. fuzz_main sa sn env os res0 status self True rnd tag highest p = Some (Hook_returns 0, p') \<and>
     pairs_at (p_mem p') dyn (set_first (fuzz_tag rnd k) v es) \<and> \<not> bit (fuzz_tag rnd k) 1 \<and> fuzz_tag rnd k < 30 \<and>
     pairs_at (p_mem p') vec (map (entry_to entry) av)"
proof -
  obtain ts where p1: "p_mem p1 = p_mem p" "p_prot p1 = p_prot p" "p_ctx p1 = (p_ctx p)\<lparr>thread_tqlist := ts\<rparr>"
    using attach_frame [OF assms(1)] by blast
  have dyn: "dynamic_at dyn es p1" using assms(4) by (simp add: dynamic_at_def p1)
  have es: "pairs_at (p_mem p1) dyn es" "length es < 2 ^ 32"
    using dyn unfolding dynamic_at_def Let_def by blast+
  have av: "length av < 2 ^ 32" using assms(10) by (simp add: ERRONEOUS_AUXV_COUNT_def)
  obtain v n where n: "n < length es" "set_first (fuzz_tag rnd k) v es = es[n := (fst (es ! n), v)]"
    and loop: "fuzz_loop rnd highest 0 tag p1 =
      Some ((fuzz_tag rnd k, v), p1\<lparr>p_mem := store64 (p_mem p1) (dyn + 16 * of_nat n + 8) v\<rparr>)"
    using fuzz_loop_run [OF dyn, of rnd 0 k highest tag] assms(5,6) by auto
  let ?m = "store64 (p_mem p1) (dyn + 16 * of_nat n + 8) v"
  have dyn': "pairs_at ?m dyn (set_first (fuzz_tag rnd k) v es)"
    unfolding n(2) by (rule pairs_at_store [OF es(1) n(1) es(2)])
  have sub: "in_region dyn (16 * length es + 8) x" if "in_region (dyn + 16 * of_nat n + 8) 8 x" for x
  proof -
    have "unat (16 * of_nat n + 8 :: u64) = 16 * n + 8"
      using n(1) es(2) unat_of_nat_small [of "16 * n + 8"] by simp
    then show ?thesis
      using in_region_sub [of dyn "16 * of_nat n + 8" 8 x "16 * length es + 8"] that n(1) es(2) by (auto simp: add.assoc)
  qed
  have vec: "pairs_at ?m vec av"
  proof (rule pairs_at_cong [OF assms(9) _ av])
    fix x assume "in_region vec (16 * length av + 8) x"
    with assms(11) have "\<not> in_region dyn (16 * length es + 8) x" unfolding separate_def by blast
    with sub have "\<not> in_region (dyn + 16 * of_nat n + 8) 8 x" by blast
    then show "?m x = p_mem p x" by (simp add: store64_outside p1(1))
  qed
  obtain m' where m': "entry_loop env (Some l) \<lparr>ai_index = 0, ai_auxv = vec\<rparr> \<lparr>ae_value = 0, ae_type = 0, ae_string = 0\<rparr> ?m =
      Some (True, m')" "pairs_at m' vec (map (entry_to entry) av)" "\<forall>x. \<not> in_region vec (16 * length av) x \<longrightarrow> m' x = ?m x"
    using entry_loop_run [OF assms(13) vec assms(10), of 0 "length av"] by auto
  have out: "\<not> in_region vec (16 * length av) x" if "in_region dyn (16 * length es + 8) x" for x
    using that assms(11) by (auto simp: separate_def in_region_def)
  have "length (set_first (fuzz_tag rnd k) v es) = length es" by (simp add: n(2))
  then have "pairs_at m' dyn (set_first (fuzz_tag rnd k) v es)"
    using m'(3) out es(2) by (intro pairs_at_cong [OF dyn']) auto
  moreover have "fuzz_main sa sn env os res0 status self True rnd tag highest p =
      Some (Hook_returns 0, p1\<lparr>p_mem := m'\<rparr>)"
  proof -
    have "\<not> (\<forall>s \<in> set (elf_segments (ctx_elfobj (p_ctx p))). seg_type s \<noteq> PT_DYNAMIC)" using assms(2,3) by blast
    moreover have "ul_auxv (ulexec (p_ctx p1)) = vec" "module_runtime (p_ctx p1) = Some l"
      by (simp_all add: p1(3) assms(7,12))
    ultimately show ?thesis
      using m'(1) assms(8) by (simp add: fuzz_main_def assms(1) loop fuzz_hook_def shiva_auxv_iterator_init_def)
  qed
  ultimately show ?thesis using m'(2) fuzz_tag_bits [of rnd k] by (auto simp: MAX_DT_VALUE_def)
qed

section \<open>Witness\<close>

text \<open>A target at \<open>0x40000000\<close> whose dynamic section has a string table and a debug entry, and an auxiliary
  vector behind it.\<close>

definition example_fuzz_mem :: mem where
  "example_fuzz_mem =
     write_bytes (\<lambda>_. 0) 0x40000040
       (le_bytes 8 (2 :: u64) @ le_bytes 8 (0 :: u64) @ le_bytes 8 (0x78 :: u64) @ replicate 32 0 @
        le_bytes 8 (5 :: u64) @ le_bytes 8 (0x300 :: u64) @ le_bytes 8 (21 :: u64) @ replicate 24 0 @
        le_bytes 8 (6 :: u64) @ le_bytes 8 (4096 :: u64) @ le_bytes 8 (9 :: u64) @ le_bytes 8 (0x40001000 :: u64))"

definition example_fuzz_module :: shiva_module where
  "example_fuzz_module =
     \<lparr>mod_flags = SHIVA_MODULE_F_RUNTIME, text_mem = 0, data_mem = 0, pltgot_size = 0, plt_size = 0, plt_off = 0,
      plt_count = 0, pltgot_off = 0, text_size = 0, data_size = 0, text_vaddr = 0x6000000, data_vaddr = 0, shiva_base = 0,
      mod_elfobj = null_elfobj\<lparr>elf_symbol_by_name := (\<lambda>n. Some
        \<lparr>sym_name = n, sym_value = 0x40, sym_size = 0, sym_type = 2, sym_bind = 1\<rparr>)\<rparr>,
      mod_self = null_elfobj, got_list = [], section_maplist = [], plt_list = [], got_cache = Map.empty\<rparr>"

definition example_fuzz_proc :: proc where
  "example_fuzz_proc =
     zero_proc\<lparr>p_mem := example_fuzz_mem, p_prot := (\<lambda>_. 3),
       p_ctx := zero_ctx\<lparr>ulexec := zero_ulexec\<lparr>ul_base_vaddr := 0x40000000, ul_auxv := 0x400000a8\<rparr>,
         module_runtime := Some example_fuzz_module,
         ctx_elfobj := null_elfobj\<lparr>elf_phoff := 64, elf_segments :=
           [\<lparr>seg_type = 2, seg_flags = 6, seg_offset = 0x78, seg_vaddr = 0x78, seg_filesz = 48,
             seg_memsz = 48\<rparr>]\<rparr>\<rparr>\<rparr>"

lemma example_fuzz_words:
  "load32 example_fuzz_mem 0x40000040 = 2" "load64 example_fuzz_mem 0x40000050 = 0x78"
  "load64 example_fuzz_mem 0x40000078 = 5" "load64 example_fuzz_mem 0x40000080 = 0x300"
  "load64 example_fuzz_mem 0x40000088 = 21" "load64 example_fuzz_mem 0x40000090 = 0"
  "load64 example_fuzz_mem 0x40000098 = 0" "load64 example_fuzz_mem 0x400000a8 = 6" "load64 example_fuzz_mem 0x400000b0 = 4096"
  "load64 example_fuzz_mem 0x400000b8 = 9" "load64 example_fuzz_mem 0x400000c0 = 0x40001000" "load64 example_fuzz_mem 0x400000c8 = 0"
  by code_simp+

lemma example_fuzz_facts:
  "dynamic_at 0x40000078 [(5, 0x300), (21, 0)] example_fuzz_proc"
  "pairs_at (p_mem example_fuzz_proc) 0x400000a8 [(6, 4096), (9, 0x40001000)]"
  "separate 0x40000078 40 0x400000a8 40"
  "thread_tqlist (p_ctx example_fuzz_proc) = []"
  "module_entrypoint env example_fuzz_module = Some 0x6000040"
  "ul_auxv (ulexec (p_ctx example_fuzz_proc)) = 0x400000a8"
  "module_runtime (p_ctx example_fuzz_proc) = Some example_fuzz_module"
  "elf_segments (ctx_elfobj (p_ctx example_fuzz_proc)) =
     [\<lparr>seg_type = PT_DYNAMIC, seg_flags = 6, seg_offset = 0x78, seg_vaddr = 0x78, seg_filesz = 48, seg_memsz = 48\<rparr>]"
proof -
  show "dynamic_at 0x40000078 [(5, 0x300), (21, 0)] example_fuzz_proc"
    by (simp add: dynamic_at_def example_fuzz_proc_def example_fuzz_words zero_ulexec_def PT_DYNAMIC_def writable_def
        has_flag_def PROT_WRITE_def)
  show "separate 0x40000078 40 0x400000a8 40"
    using separate_offsets [of 0 40 48 40 "0x40000078"] by simp
qed (simp_all add: example_fuzz_proc_def example_fuzz_words zero_ctx_def zero_ulexec_def module_entrypoint_def
      example_fuzz_module_def has_flag_def SHIVA_MODULE_F_RUNTIME_def PT_DYNAMIC_def)

theorem fuzz_run_witness:
  "\<exists>v p'. fuzz_main True False \<lparr>le_standalone = True, le_plt_size = 6, le_plt_offset = 0, le_entry_symbol = []\<rparr>
       example_os False 0 0x50000000 True (\<lambda>i. 5) 0 0x40005000 example_fuzz_proc = Some (Hook_returns 0, p') \<and>
     pairs_at (p_mem p') 0x40000078 [(5, v), (21, 0)] \<and> pairs_at (p_mem p') 0x400000a8 [(6, 4096), (9, 0x6000040)]"
proof -
  let ?env = "\<lparr>le_standalone = True, le_plt_size = 6, le_plt_offset = 0, le_entry_symbol = []\<rparr>"
  obtain p1 where p1: "shiva_trace example_os False 0 0 SHIVA_TRACE_OP_ATTACH 0 [] 0 example_fuzz_proc = Some (True, None, p1)"
    using example_os_attach [OF example_fuzz_facts(4)] by blast
  have tag: "fuzz_tag (\<lambda>i. 5) 0 = 5" by (simp add: fuzz_tag_def MAX_DT_VALUE_def)
  then have drawn: "fuzz_tag (\<lambda>i. 5) 0 \<in> fst ` set [(5, 0x300 :: u64), (21, 0)]" "\<forall>j < 0. fuzz_tag (\<lambda>i. 5) j \<notin> fst ` set [(5, 0x300 :: u64), (21, 0)]"
    by simp_all
  have seg: "hd (elf_segments (ctx_elfobj (p_ctx example_fuzz_proc))) \<in> set (elf_segments (ctx_elfobj (p_ctx example_fuzz_proc)))"
    "seg_type (hd (elf_segments (ctx_elfobj (p_ctx example_fuzz_proc)))) = PT_DYNAMIC"
    by (simp_all add: example_fuzz_facts(8))
  have av: "(0x400000a8 :: u64) \<noteq> 0" "length [(6, 4096), (9, 0x40001000 :: u64)] \<le> ERRONEOUS_AUXV_COUNT"
    "separate 0x40000078 (16 * length [(5, 0x300 :: u64), (21, 0)] + 8) 0x400000a8 (16 * length [(6, 4096), (9, 0x40001000 :: u64)] + 8)"
    using example_fuzz_facts(3) by (simp_all add: ERRONEOUS_AUXV_COUNT_def)
  have post: "set_first 5 v [(5, 0x300), (21, 0)] = [(5, v), (21, 0)]"
    "map (entry_to 0x6000040) [(6, 4096), (9, 0x40001000)] = [(6, 4096), (9, 0x6000040)]" for v
    by (simp_all add: entry_to_def AT_ENTRY_def)
  from fuzz_run [OF p1 seg example_fuzz_facts(1) drawn example_fuzz_facts(6) [symmetric] av(1) example_fuzz_facts(2) av(2,3)
      example_fuzz_facts(7) example_fuzz_facts(5) [of ?env], of True False "0x50000000" 0 "0x40005000"]
  show ?thesis unfolding tag post by blast
qed

end
