(* ===== verification/Spec2Isabelle.thy ===== *)
theory Spec2Isabelle
  imports Maps Util Callsite Auxv Trace_Effects Ulexec_Stack Ulexec_Load Module_Got Main_Example Udcli_Runs
    Traced_Program Hooked_Functions Plt_Cfi Ldso_Fuzz
begin

text \<open>
  Verification library for Shiva (\<^verbatim>\<open>src/reference/shiva-source\<close>), a runtime linker and in-process
  debugger for x86-64 ELF programs, for the instruction decoder it uses (\<^verbatim>\<open>udis86-1.7.2\<close>) and for the
  modules that are written against it (\<^verbatim>\<open>modules/examples\<close>).

  \<^bold>\<open>The program.\<close> \<^verbatim>\<open>main\<close> (\<^verbatim>\<open>shiva.c\<close>) is started from the command line or, as the program interpreter,
  by the kernel. It loads the target and the dynamic linker into its own address space and builds the
  initial stack for them (\<^verbatim>\<open>shiva_ulexec.c\<close>, with the iterator of \<^verbatim>\<open>shiva_auxv.c\<close>), reads the list of
  mappings from \<^verbatim>\<open>/proc/self/maps\<close> (\<^verbatim>\<open>shiva_maps.c\<close>), disassembles the text of the target with udis86 to
  record every direct call (\<^verbatim>\<open>shiva_analyze.c\<close>), links a relocatable module into memory and calls it
  (\<^verbatim>\<open>shiva_module.c\<close>), and enters the dynamic linker. The module uses the trace API (\<^verbatim>\<open>shiva_trace.c\<close>,
  \<^verbatim>\<open>shiva_trace_thread.c\<close>, \<^verbatim>\<open>shiva_target.c\<close>) and the iterator over the recorded calls
  (\<^verbatim>\<open>shiva_callsite.c\<close>) to place breakpoints whose handlers are functions of the module.

  \<^bold>\<open>The model.\<close> The state is the record \<open>proc\<close> (\<open>Process\<close>): the context \<open>shiva_ctx\<close> of \<^verbatim>\<open>shiva.h\<close> with its
  queues as lists, the memory (a function from 64-bit addresses to bytes), the page protections, the
  signal handlers, the disassembler object and the number of system calls made so far. Every function
  of the sources is a function of the same name on this state; where it may end the process the
  result is an option and \<open>None\<close> is the ended process, where it fails with an error the error is a
  value. Integers have the width of the C type. The answers of the system (\<open>malloc\<close>, \<open>mmap\<close>,
  \<open>mprotect\<close>, files) are the parameter \<open>os\<close>, and an ELF file is what the library libelfmaster answers
  about it, the record \<open>elfobj\<close> (\<open>Shiva_Types\<close>). Local variables that the code reads before it sets
  them are arguments of the definitions (\<open>status\<close>, \<open>res0\<close>, \<open>symnull\<close>, \<open>junk\<close>), so that the theorems
  hold for every value; so are the code of a module, the code of a hooked function and compile-time
  switches (\<open>standalone\<close>). Assembly is a transfer of the register record; where an assembly statement of a
  compiled function leaves open which registers survive, what the compiler puts around it is an argument
  (\<open>rip_reg\<close>, \<open>fetch\<close>). Debug output and messages are left out.
\<close>

text \<open>
  \<^bold>\<open>Theories.\<close>

  \<^item> \<open>Prelude\<close>, \<open>C_Lib\<close>, \<open>Process\<close>, \<open>Mem_Offsets\<close>: bytes in memory (\<open>read_bytes\<close>, \<open>write_bytes\<close>, little-endian
    words, disjoint regions), the locale \<open>list_iterator\<close> with its searches, the functions of the C
    library on strings, system calls, tables of pairs and of strings in memory.
  \<^item> \<open>Shiva_Types\<close>: \<^verbatim>\<open>shiva.h\<close>. \<open>Maps\<close>: \<^verbatim>\<open>shiva_maps.c\<close>, with the file format of the kernel (bounds of
    eight or more hexadecimal digits) as specification. \<open>Util\<close>: \<^verbatim>\<open>shiva_util.c\<close>, \<^verbatim>\<open>shiva_error.c\<close>, \<^verbatim>\<open>shiva_signal.c\<close>. \<open>Callsite\<close>, \<open>Auxv\<close>:
    \<^verbatim>\<open>shiva_callsite.c\<close>, \<^verbatim>\<open>shiva_auxv.c\<close>, both interpretations of \<open>list_iterator\<close>. \<open>Target\<close>:
    \<^verbatim>\<open>shiva_target.c\<close>. \<open>Trace_Thread\<close>: \<^verbatim>\<open>shiva_trace_thread.c\<close>.
  \<^item> \<open>Trace\<close>: \<^verbatim>\<open>shiva_trace.c\<close>; \<open>Trace_Poke\<close> (memory and registers), \<open>Trace_Breakpoints\<close> (what every
    breakpoint keeps), \<open>Trace_Effects\<close> (what each kind of breakpoint does).
  \<^item> \<open>Ulexec\<close>: \<^verbatim>\<open>shiva_ulexec.c\<close>; \<open>Ulexec_Load\<close> (segments), \<open>Ulexec_Stack\<close> (the new stack is an initial
    stack). \<open>Module\<close>: \<^verbatim>\<open>shiva_module.c\<close>; \<open>Module_Image\<close> (the text image), \<open>Module_Got\<close> (GOT, stubs,
    relocations, against where the loaded image has the symbols). \<open>Shiva_Main\<close>: \<^verbatim>\<open>shiva.c\<close>; \<open>Main_Runs\<close>,
    \<open>Main_Static\<close> (its runs), \<open>Main_Example\<close> (a complete run from the command line to the hand-over, with the
    real opcode tables).
  \<^item> \<open>Ud_Types\<close>, \<open>Itab_Codes\<close>: \<^verbatim>\<open>types.h\<close>, \<^verbatim>\<open>decode.h\<close>, \<^verbatim>\<open>itab.h\<close>. \<open>Ud_Input\<close>: \<^verbatim>\<open>udis86.c\<close>. \<open>Ud_Decode\<close>:
    \<^verbatim>\<open>decode.c\<close>. \<open>Ud_Syn\<close>: \<^verbatim>\<open>syn.c\<close>, \<^verbatim>\<open>syn-intel.c\<close>, \<^verbatim>\<open>syn-att.c\<close>. \<open>Itab_Base\<close>, \<open>Itab_Tables1\<close> to
    \<open>Itab_Tables4\<close>, \<open>Itab_Lists\<close>: \<^verbatim>\<open>itab.c\<close>, table for table and entry for entry.
  \<^item> \<open>Ud_Safe\<close> (how each step treats the input), \<open>Ud_Total\<close> (the decoder returns), \<open>Ud_Prefix\<close>,
    \<open>Ud_Call\<close>, \<open>Ud_Truncated\<close> (near calls), \<open>Ud_Operands\<close>, \<open>Ud_Disas\<close> (the translators stay inside
    their buffers), \<open>Ud_Tables\<close> (the locales \<open>opcode_tables\<close> and \<open>call_opcode_tables\<close>: what the decoder
    asks of the tables and what it delivers), \<open>Itab\<close> (the tables keep the promise), \<open>Analyze\<close>
    (\<^verbatim>\<open>shiva_analyze.c\<close>), \<open>Udis86\<close> (the interpretation: decoder, disassembler and analyzer on the real
    tables). \<open>Udcli\<close>, \<open>Udcli_Runs\<close>: \<^verbatim>\<open>udcli.c\<close> and its listing.
  \<^item> \<open>Func_Tracer\<close>, \<open>Traced_Program\<close>: \<^verbatim>\<open>func_tracer.c\<close>, alone and behind the analyzer. \<open>Hook_Modules\<close>,
    \<open>Hooked_Functions\<close>, \<open>Plt_Cfi\<close>: \<^verbatim>\<open>trampoline.c\<close>, \<^verbatim>\<open>crackme_bypass.c\<close>, \<^verbatim>\<open>ssh-backdoor.c\<close>, \<^verbatim>\<open>int3_bp.c\<close>,
    \<^verbatim>\<open>sigill_bp.c\<close>, \<^verbatim>\<open>pltgot_hook.c\<close>, \<^verbatim>\<open>command_inject.c\<close>, \<^verbatim>\<open>plt_cfi.c\<close>. \<open>Ldso_Fuzz\<close>: \<^verbatim>\<open>ldso_fuzz.c\<close>.
\<close>

text \<open>
  \<^bold>\<open>What is shown.\<close> End to end: the analysis of a 64-bit program records one call site per \<open>E8\<close> call of
  its linear sweep, and the tracing module then makes each of them call its handler, which finds the
  original function (\<open>Udis86\<close>, \<open>Traced_Program\<close>, \<open>Func_Tracer\<close>); the modules that hook functions call
  the original in its original code (\<open>Hooked_Functions\<close>) and enforce control flow integrity, provided that no
  name of the procedure linkage table starts with another (\<open>Plt_Cfi\<close>);
  the command line disassembler prints its whole input (\<open>Udcli_Runs\<close>). Per component: pokes, peeks and
  breakpoints change exactly the bytes they should and keep every handler; answers about mappings are
  the kernel's; the new stack is an initial stack with the strings of the old one; the module image is
  the sections in order with a stub per call, and stubs reach the functions of Shiva; the decoder is
  total on well-formed tables, the tables are well-formed, and nothing is read or written out of
  bounds. Where the code does not do what it means to, a theorem states what it does instead (the stack
  that interpreter mode copies, targets without dynamic linker, segments whose size is a multiple of
  eight, the handler of breakpoint instructions, the jump back through a buffer, hooked names with a common
  prefix, the protection of a page that a write across the end of a mapping touches).

  \<^bold>\<open>Bounds.\<close> There is no fuel. Recursion is structural or has a measure: the remaining entries of an
  iterator, for the auxiliary vector the 4096 entries after which the code gives up, for the opcode
  tables the nesting (\<open>tables_ok\<close>: at most four opcode tables and eleven extension tables, which the
  tables of \<^verbatim>\<open>itab.c\<close> keep). The decoder's session buffer has 64 bytes, and an instruction is shown to
  need no more. Loops that need not end (the search for a dynamic tag, the dynamic section fuzzer) are
  partial functions, for which returning is a part of the theorems.

  \<^bold>\<open>Not modelled.\<close> The tests of udis86 (\<^verbatim>\<open>libcheck.c\<close>, \<^verbatim>\<open>symresolve.c\<close>), the default module
  \<^verbatim>\<open>shakti_runtime.c\<close> (an older \<^verbatim>\<open>func_tracer.c\<close> that does not compile against \<^verbatim>\<open>shiva.h\<close>),
  \<^verbatim>\<open>sandbox.c\<close> (it hands a constant filter to the kernel), \<^verbatim>\<open>shiva_trace.h\<close> (no source includes it), the
  programs to try the debugger on (\<^verbatim>\<open>test.c\<close> and others), and the fields of \<^verbatim>\<open>shiva.h\<close> that no function
  touches. libelfmaster, the C library beyond the functions on strings, the kernel, and the code of
  modules and targets are parameters.
\<close>

end
